(* ===== verification/Prelude.thy ===== *)
theory Prelude
  imports Main "HOL-Library.Word"
begin

text \<open>
  Shared vocabulary of the development: the C integer types, the bytes-in-arrays helpers the
  firmware repeats in every translation unit (\<open>copy\<close>, \<open>same\<close>), and the generic facts on words
  and lists that the component theories use.
\<close>

unbundle bit_operations_syntax

section \<open>Machine types\<close>

type_synonym u8 = "8 word"
type_synonym u16 = "16 word"
type_synonym u32 = "32 word"
type_synonym u64 = "64 word"
type_synonym bytes = "8 word list"

abbreviation shl :: "'a::len word \<Rightarrow> nat \<Rightarrow> 'a word" where
  "shl w n \<equiv> push_bit n w"

abbreviation shr :: "'a::len word \<Rightarrow> nat \<Rightarrow> 'a word" where
  "shr w n \<equiv> drop_bit n w"

abbreviation to_u8 :: "'a::len word \<Rightarrow> u8" where
  "to_u8 w \<equiv> ucast w"

abbreviation to_u16 :: "'a::len word \<Rightarrow> u16" where
  "to_u16 w \<equiv> ucast w"

abbreviation to_u32 :: "'a::len word \<Rightarrow> u32" where
  "to_u32 w \<equiv> ucast w"

text \<open>Rules that rewrite the firmware's loops into slices of lists, and frame conditions of the
  stateful operations.\<close>

named_theorems loop_slice \<open>loops over byte arrays as slices\<close>
named_theorems frame_rules \<open>fields an operation leaves alone\<close>
named_theorems io_rules \<open>what an operation appends to the bus log\<close>

section \<open>Byte arrays\<close>

text \<open>
  The station and WPA2 files each define the same two static helpers.  A destination \<open>buf + off\<close>
  is the array and an offset; the loops run over the index as the C loops do.
\<close>

definition copy :: "bytes \<Rightarrow> nat \<Rightarrow> bytes \<Rightarrow> nat \<Rightarrow> bytes" where
  "copy destination off source len =
     fold (\<lambda>index d. d[off + index := source ! index]) [0..<len] destination"

fun same_from :: "nat \<Rightarrow> bytes \<Rightarrow> bytes \<Rightarrow> nat \<Rightarrow> bool" where
  "same_from index left right 0 = True"
| "same_from index left right (Suc n) =
     (if left ! index \<noteq> right ! index then False else same_from (Suc index) left right n)"

definition same :: "bytes \<Rightarrow> bytes \<Rightarrow> nat \<Rightarrow> bool" where
  "same left right len = same_from 0 left right len"

text \<open>An automatic array without an initialiser holds indeterminate bytes.\<close>

definition stack_array :: "(nat \<Rightarrow> u8) \<Rightarrow> nat \<Rightarrow> bytes" where
  "stack_array junk n = map junk [0..<n]"

lemma length_stack_array [simp]: "length (stack_array junk n) = n"
  by (simp add: stack_array_def)

lemma length_copy [simp]: "length (copy d off s n) = length d"
  by (induction n) (simp_all add: copy_def)

lemma copy_0 [simp]: "copy d off s 0 = d"
  by (simp add: copy_def)

lemma copy_Suc: "copy d off s (Suc n) = (copy d off s n)[off + n := s ! n]"
  by (simp add: copy_def)

lemma nth_copy:
  "k < length d \<Longrightarrow>
   copy d off s n ! k = (if off \<le> k \<and> k < off + n then s ! (k - off) else d ! k)"
proof (induction n)
  case (Suc n)
  then show ?case
    by (cases "k = off + n") (auto simp: copy_Suc nth_list_update)
qed auto

lemma copy_slice [loop_slice]:
  "off + n \<le> length d \<Longrightarrow> n \<le> length s \<Longrightarrow>
   copy d off s n = take off d @ take n s @ drop (off + n) d"
  by (rule nth_equalityI) (auto simp: nth_copy nth_append min_def)

lemma copy_prefix: "n \<le> length s \<Longrightarrow> copy d off (take n s) n = copy d off s n"
  by (rule nth_equalityI) (auto simp: nth_copy)

lemma list_update_slice [loop_slice]:
  "i < length d \<Longrightarrow> d[i := v] = take i d @ [v] @ drop (i + 1) d"
  by (simp add: upd_conv_take_nth_drop)

lemma length_fold_upd [simp]: "length (fold (\<lambda>i b. b[i := f i]) is d) = length d"
  by (induction "is" arbitrary: d) simp_all

lemma nth_fold_upd:
  "k < length d \<Longrightarrow> fold (\<lambda>i b. b[i := f i]) is d ! k = (if k \<in> set is then f k else d ! k)"
  by (induction "is" arbitrary: d) (auto simp: nth_list_update)

lemma same_from_iff:
  "same_from i l r n \<longleftrightarrow> (\<forall>k<n. l ! (i + k) = r ! (i + k))"
  by (induction n arbitrary: i) (auto simp: All_less_Suc2)

lemma same_iff: "same l r n \<longleftrightarrow> (\<forall>k<n. l ! k = r ! k)"
  by (simp add: same_def same_from_iff)

lemma same_slice [loop_slice]:
  "n \<le> length l \<Longrightarrow> n \<le> length r \<Longrightarrow> same l r n \<longleftrightarrow> take n l = take n r"
  by (simp add: same_iff list_eq_iff_nth_eq)

section \<open>Bytes of a word\<close>

text \<open>A 32-bit word from four bytes, most significant first, and from least significant first.\<close>

lemma ucast_8_32_byte: "to_u8 (ucast (b :: u8) :: u32) = b"
  by (rule bit_word_eqI) (simp add: bit_simps)

lemma byte_shifts:
  "to_u8 (shl (to_u32 (b :: u8)) 8) = 0" "shr (to_u32 b) 8 = 0" "shr (shl (to_u32 b) 8) 8 = to_u32 b"
  by (rule bit_word_eqI; auto simp: bit_simps dest: bit_imp_le_length)+

lemma unat_u8_u32 [simp]: "unat (to_u32 (b :: u8)) = unat b"
proof -
  have "unat b < 2 ^ 32"
    using unsigned_less [where w = b, where 'a = nat] by simp
  then show ?thesis
    by (simp add: unsigned_ucast_eq take_bit_nat_eq_self)
qed

lemma unat_u16_u32 [simp]: "unat (to_u32 (b :: u16)) = unat b"
proof -
  have "unat b < 2 ^ 32"
    using unsigned_less [where w = b, where 'a = nat] by simp
  then show ?thesis
    by (simp add: unsigned_ucast_eq take_bit_nat_eq_self)
qed

lemma to_u8_of_nat: "to_u8 (of_nat k :: u32) = of_nat k"
  by (simp add: word_unat_eq_iff unsigned_ucast_eq unsigned_of_nat take_bit_take_bit)

lemma unat_u8_le: "unat (b :: u8) \<le> 255"
  using unsigned_less [where w = b, where 'a = nat] by simp

lemma be32_bytes:
  fixes a b c d :: u8
  defines "w \<equiv> (shl (ucast a) 24 OR shl (ucast b) 16 OR shl (ucast c) 8 OR ucast d :: u32)"
  shows "to_u8 (shr w 24) = a" and "to_u8 (shr w 16) = b" and "to_u8 (shr w 8) = c"
    and "to_u8 w = d"
  unfolding w_def
  by (rule bit_word_eqI; auto simp: bit_simps dest: bit_imp_le_length)+

lemma le32_bytes:
  fixes a b c d :: u8
  defines "w \<equiv> (ucast a OR shl (ucast b) 8 OR shl (ucast c) 16 OR shl (ucast d) 24 :: u32)"
  shows "to_u8 w = a" and "to_u8 (shr w 8) = b" and "to_u8 (shr w 16) = c"
    and "to_u8 (shr w 24) = d"
  unfolding w_def
  by (rule bit_word_eqI; auto simp: bit_simps dest: bit_imp_le_length)+

lemma be32_sum:
  fixes a b c d :: u8
  shows "shl (to_u32 a) 24 OR shl (to_u32 b) 16 OR shl (to_u32 c) 8 OR to_u32 d =
         word_of_int (uint a * 2 ^ 24 + uint b * 2 ^ 16 + uint c * 2 ^ 8 + uint d)"
proof -
  let ?c = "shl (to_u32 c) 8" and ?b = "shl (to_u32 b) 16" and ?a = "shl (to_u32 a) 24"
  have "?c AND to_u32 d = 0" "?b AND (?c OR to_u32 d) = 0" "?a AND (?b OR ?c OR to_u32 d) = 0"
    by (rule bit_word_eqI; auto simp: bit_simps dest: bit_imp_le_length)+
  then have "?a OR ?b OR ?c OR to_u32 d = ?a + (?b + (?c + to_u32 d))"
    by (simp only: disjunctive_add_eq_or)
  also have "\<dots> = word_of_int (uint a * 2 ^ 24 + uint b * 2 ^ 16 + uint c * 2 ^ 8 + uint d)"
    by (simp add: push_bit_eq_mult ac_simps)
  finally show ?thesis .
qed

end
