(* ===== verification/Mmio.thy ===== *)
theory Mmio
  imports Prelude
begin

text \<open>
  The bus of the ESP32-C6 probe firmware: \<^verbatim>\<open>hal/c6/mmio.h\<close>, \<^verbatim>\<open>hal/c6/registers.h\<close> and
  \<^verbatim>\<open>hal/c6/dma.c\<close>.  The peripherals are not part of the firmware, so they are a parameter: a
  \<open>platform\<close> gives the device's answer to every 32-bit read and its reaction to every 32-bit
  write, the addresses the linker gives the four DMA objects, and the indeterminate bytes an
  uninitialised automatic array holds.  A device acts at bus accesses only; at each of them it
  sees the DMA memory and may rewrite the receive descriptor and the receive buffer.
\<close>

section \<open>DMA descriptors and the hardware state\<close>

record dma_descriptor =
  d_control :: u32
  d_buffer :: u32
  d_next :: u32

record dma_memory =
  m_tx_buffer :: bytes
  m_tx_descriptor :: dma_descriptor
  m_rx_buffer :: bytes
  m_rx_descriptor :: dma_descriptor

record 'd platform =
  dev_read :: "u32 \<Rightarrow> dma_memory \<Rightarrow> 'd \<Rightarrow> u32 \<times> 'd \<times> dma_descriptor \<times> bytes"
  dev_write :: "u32 \<Rightarrow> u32 \<Rightarrow> dma_memory \<Rightarrow> 'd \<Rightarrow> 'd \<times> dma_descriptor \<times> bytes"
  addr_tx_buffer :: u32
  addr_tx_descriptor :: u32
  addr_rx_buffer :: u32
  addr_rx_descriptor :: u32
  stack_junk :: "nat \<Rightarrow> u8"

datatype io = Rd u32 u32 | Wr u32 u32

record 'd hw =
  device :: 'd
  io_log :: "io list"
  tx_buffer :: bytes
  tx_descriptor :: dma_descriptor
  rx_buffer :: bytes
  rx_descriptor :: dma_descriptor

text \<open>
  The receive buffer is an array of 512 bytes: whatever the device stores is clipped to it.
\<close>

definition WIFI_RX_CAPACITY :: u32 where
  "WIFI_RX_CAPACITY = 512"

definition clip_rx :: "bytes \<Rightarrow> bytes" where
  "clip_rx bs = take 512 (bs @ replicate 512 0)"

definition dma_view :: "('d, 'm) hw_scheme \<Rightarrow> dma_memory" where
  "dma_view s = \<lparr>m_tx_buffer = tx_buffer s, m_tx_descriptor = tx_descriptor s,
                 m_rx_buffer = rx_buffer s, m_rx_descriptor = rx_descriptor s\<rparr>"

definition uninit :: "'d platform \<Rightarrow> nat \<Rightarrow> bytes" where
  "uninit P n = map (stack_junk P) [0..<n]"

section \<open>Bus accesses\<close>

definition c6_read32 :: "'d platform \<Rightarrow> u32 \<Rightarrow> ('d, 'm) hw_scheme \<Rightarrow> u32 \<times> ('d, 'm) hw_scheme" where
  "c6_read32 P address s =
     (case dev_read P address (dma_view s) (device s) of (v, d, rd, rb) \<Rightarrow>
        (v, s\<lparr>device := d, io_log := io_log s @ [Rd address v],
              rx_descriptor := rd, rx_buffer := clip_rx rb\<rparr>))"

definition c6_write32 :: "'d platform \<Rightarrow> u32 \<Rightarrow> u32 \<Rightarrow> ('d, 'm) hw_scheme \<Rightarrow> ('d, 'm) hw_scheme" where
  "c6_write32 P address value s =
     (case dev_write P address value (dma_view s) (device s) of (d, rd, rb) \<Rightarrow>
        s\<lparr>device := d, io_log := io_log s @ [Wr address value],
          rx_descriptor := rd, rx_buffer := clip_rx rb\<rparr>)"

section \<open>Register addresses\<close>

definition C6_REG_RFPLL_CHANNEL_CONTROL :: u32 where "C6_REG_RFPLL_CHANNEL_CONTROL = 0x600a00c0"
definition C6_REG_TX_GAIN_FIRST :: u32 where "C6_REG_TX_GAIN_FIRST = 0x600a08cc"
definition C6_REG_TX_GAIN_SECOND :: u32 where "C6_REG_TX_GAIN_SECOND = 0x600a08d0"
definition C6_REG_TX_GAIN_FINAL :: u32 where "C6_REG_TX_GAIN_FINAL = 0x600a08d4"
definition C6_REG_RF_FRONTEND_FORCE :: u32 where "C6_REG_RF_FRONTEND_FORCE = 0x600a0910"
definition C6_REG_WIFI_INTERFACE0_LOW :: u32 where "C6_REG_WIFI_INTERFACE0_LOW = 0x600a405c"
definition C6_REG_WIFI_INTERFACE0_HIGH :: u32 where "C6_REG_WIFI_INTERFACE0_HIGH = 0x600a4060"
definition C6_REG_WIFI_RX_BASE :: u32 where "C6_REG_WIFI_RX_BASE = 0x600a4084"
definition C6_REG_WIFI_CRYPTO_VALID :: u32 where "C6_REG_WIFI_CRYPTO_VALID = 0x600a4814"
definition C6_REG_WIFI_INTERRUPT_MASK :: u32 where "C6_REG_WIFI_INTERRUPT_MASK = 0x600a4c40"
definition C6_REG_WIFI_INTERRUPT_EVENT :: u32 where "C6_REG_WIFI_INTERRUPT_EVENT = 0x600a4c48"
definition C6_REG_WIFI_INTERRUPT_CLEAR :: u32 where "C6_REG_WIFI_INTERRUPT_CLEAR = 0x600a4c4c"
definition C6_REG_WIFI_TX_QUEUE_STATE_CLEAR :: u32 where "C6_REG_WIFI_TX_QUEUE_STATE_CLEAR = 0x600a4cb4"
definition C6_REG_WIFI_TX_QUEUE_STATE :: u32 where "C6_REG_WIFI_TX_QUEUE_STATE = 0x600a4cb8"
definition C6_REG_WIFI_TX_QUEUE0_CONTROL :: u32 where "C6_REG_WIFI_TX_QUEUE0_CONTROL = 0x600a4d6c"
definition C6_REG_WIFI_RESET_CONTROL :: u32 where "C6_REG_WIFI_RESET_CONTROL = 0x600a4ddc"
definition C6_REG_WIFI_CRYPTO_SLOT0 :: u32 where "C6_REG_WIFI_CRYPTO_SLOT0 = 0x600a5800"
definition C6_REG_MODEM_CLOCK_ENABLE :: u32 where "C6_REG_MODEM_CLOCK_ENABLE = 0x600a9814"
definition C6_REG_INTERRUPT_MATRIX_WIFI_ROUTE :: u32 where "C6_REG_INTERRUPT_MATRIX_WIFI_ROUTE = 0x60010000"
definition C6_REG_PLIC_ENABLE :: u32 where "C6_REG_PLIC_ENABLE = 0x20001000"
definition C6_REG_PLIC_WIFI_PRIORITY :: u32 where "C6_REG_PLIC_WIFI_PRIORITY = 0x20001024"
definition C6_REG_PLIC_THRESHOLD :: u32 where "C6_REG_PLIC_THRESHOLD = 0x20001090"
definition C6_REG_UART_FIFO :: u32 where "C6_REG_UART_FIFO = 0x60000000"
definition C6_REG_UART_STATUS :: u32 where "C6_REG_UART_STATUS = 0x6000001c"

section \<open>DMA descriptors\<close>

text \<open>\<open>c6_dma_publish\<close> is a memory fence; a sequential model has no reordering for it to stop.\<close>

definition c6_dma_tx_descriptor :: "u32 \<Rightarrow> dma_descriptor" where
  "c6_dma_tx_descriptor buffer = \<lparr>d_control = 0xc0000000, d_buffer = buffer, d_next = 0\<rparr>"

definition c6_dma_rx_descriptor :: "u32 \<Rightarrow> u32 \<Rightarrow> dma_descriptor" where
  "c6_dma_rx_descriptor buffer capacity =
     \<lparr>d_control = shl 1 31 OR shl capacity 14 OR capacity, d_buffer = buffer, d_next = 0\<rparr>"

section \<open>A constant device\<close>

text \<open>
  The simplest platform: every read answers \<open>v\<close>, writes and DMA memory are left alone.  It
  instantiates the platform parameter where a theorem is evaluated on a concrete input.
\<close>

definition constant_platform :: "u32 \<Rightarrow> unit platform" where
  "constant_platform v =
     \<lparr>dev_read = (\<lambda>a m d. (v, d, m_rx_descriptor m, m_rx_buffer m)),
      dev_write = (\<lambda>a w m d. (d, m_rx_descriptor m, m_rx_buffer m)),
      addr_tx_buffer = 0x40810000, addr_tx_descriptor = 0x40810100,
      addr_rx_buffer = 0x40810200, addr_rx_descriptor = 0x40810400,
      stack_junk = (\<lambda>i. 0xa5)\<rparr>"

section \<open>What a bus access changes\<close>

lemma length_clip_rx [simp]: "length (clip_rx bs) = 512"
  by (simp add: clip_rx_def)

lemma clip_rx_id: "length bs = 512 \<Longrightarrow> clip_rx bs = bs"
  by (simp add: clip_rx_def)

lemma length_uninit [simp]: "length (uninit P n) = n"
  by (simp add: uninit_def)

lemma constant_read [simp]: "fst (c6_read32 (constant_platform v) a s) = v"
  by (simp add: c6_read32_def constant_platform_def)

lemma c6_write32_io [simp, io_rules]:
  "io_log (c6_write32 P a v s) = io_log s @ [Wr a v]"
  by (simp add: c6_write32_def split: prod.splits)

lemma c6_write32_frame [simp, frame_rules]:
  "tx_buffer (c6_write32 P a v s) = tx_buffer s"
  "tx_descriptor (c6_write32 P a v s) = tx_descriptor s"
  "hw.more (c6_write32 P a v s) = hw.more s"
  "length (rx_buffer (c6_write32 P a v s)) = 512"
  by (simp_all add: c6_write32_def split: prod.splits)

lemma c6_read32_io [simp, io_rules]:
  "io_log (snd (c6_read32 P a s)) = io_log s @ [Rd a (fst (c6_read32 P a s))]"
  by (simp add: c6_read32_def split: prod.splits)

lemma c6_read32_frame [simp, frame_rules]:
  "tx_buffer (snd (c6_read32 P a s)) = tx_buffer s"
  "tx_descriptor (snd (c6_read32 P a s)) = tx_descriptor s"
  "hw.more (snd (c6_read32 P a s)) = hw.more s"
  "length (rx_buffer (snd (c6_read32 P a s))) = 512"
  by (simp_all add: c6_read32_def split: prod.splits)

section \<open>Which registers an operation writes\<close>

text \<open>\<open>extends A l l'\<close>: the log has grown, and every write in the new part is to a register of \<open>A\<close>.\<close>

definition extends :: "u32 set \<Rightarrow> io list \<Rightarrow> io list \<Rightarrow> bool" where
  "extends A l l' \<longleftrightarrow> (\<exists>es. l' = l @ es \<and> (\<forall>a v. Wr a v \<in> set es \<longrightarrow> a \<in> A))"

named_theorems write_set \<open>the registers an operation writes\<close>

lemma extends_refl [simp, intro]: "extends A l l"
  by (simp add: extends_def)

lemma extends_trans: "extends A l l' \<Longrightarrow> extends A l' l'' \<Longrightarrow> extends A l l''"
  unfolding extends_def by (metis Un_iff append_assoc set_append)

lemma extends_mono: "extends A l l' \<Longrightarrow> A \<subseteq> B \<Longrightarrow> extends B l l'"
  unfolding extends_def by blast

lemma extends_write [write_set]: "a \<in> A \<Longrightarrow> extends A (io_log s) (io_log (c6_write32 P a v s))"
  by (simp add: extends_def)

lemma extends_read [write_set]: "extends A (io_log s) (io_log (snd (c6_read32 P a s)))"
  by (simp add: extends_def)

lemma extends_write_trans:
  "extends A l (io_log s) \<Longrightarrow> a \<in> A \<Longrightarrow> extends A l (io_log (c6_write32 P a v s))"
  using extends_trans extends_write by blast

lemma extends_read_trans:
  "extends A l (io_log s) \<Longrightarrow> extends A l (io_log (snd (c6_read32 P a s)))"
  using extends_trans extends_read by blast

lemmas extends_bus = extends_write_trans extends_read_trans

lemma extends_writes:
  "extends A l l' \<Longrightarrow> a \<notin> A \<Longrightarrow> Wr a v \<in> set l' \<longleftrightarrow> Wr a v \<in> set l"
  unfolding extends_def by (metis Un_iff set_append)

end
