(* ===== verification/Rf.thy ===== *)
theory Rf
  imports Mmio Systems
begin

text \<open>
  The RF front end (\<^verbatim>\<open>hal/c6/rf.c\<close>) and the PHY reset (\<^verbatim>\<open>hal/c6/phy.c\<close>).  The three static bytes
  of \<^verbatim>\<open>rf.c\<close> extend the hardware record; every operation is the whole C function, the bus accesses
  in source order included.  The lemmas show that the front end is only ever programmed with a
  legal channel and a table of the driver, that a refused request touches neither the bus nor the
  state, and exactly which writes a tuning performs.
\<close>

section \<open>Gain tables\<close>

record c6_rf_gain =
  g_first :: u32
  g_second :: u32
  g_final :: u32

definition gain_of :: "u32 \<times> u32 \<times> u32 \<Rightarrow> c6_rf_gain" where
  "gain_of t = \<lparr>g_first = fst t, g_second = fst (snd t), g_final = snd (snd t)\<rparr>"

definition RF_GAIN_COUNT :: nat where "RF_GAIN_COUNT = 43"

definition gain_8dbm :: "c6_rf_gain list" where
  "gain_8dbm = map gain_of [
     (0x40200000, 0xe3c10080, 0x000000fe), (0x40200000, 0xe3c30080, 0x000000fe),
     (0x40200000, 0xe3c50080, 0x000000fe), (0x40200000, 0xe3c70080, 0x000000fe),
     (0x40200000, 0xe3c90080, 0x000000fe), (0x40200000, 0xe3cb0080, 0x000000fe),
     (0x40200000, 0xe3e10080, 0x000000fe), (0x40200000, 0xe3e30080, 0x000000fe),
     (0x40200000, 0xe3e50080, 0x000000fe), (0x40200000, 0xe3e70080, 0x000000fe),
     (0x40200000, 0xe3e90080, 0x000000fe), (0x40200000, 0x10020301, 0xfffff881),
     (0x40200000, 0x10020301, 0xfffff681), (0x40200000, 0x90020301, 0xfffffb80),
     (0x40200000, 0x90020301, 0xfffff980), (0x40200000, 0x90020301, 0xfffff780),
     (0x40200000, 0x90020301, 0xfffff580), (0x40200000, 0x10060100, 0xfffffb80),
     (0x40200000, 0x10060100, 0xfffff980), (0x40200000, 0x10060100, 0xfffff780),
     (0x40200000, 0x10020301, 0xfffff980), (0x40200000, 0x10020301, 0xfffff780),
     (0x40200000, 0x10020301, 0xfffff580), (0x40200000, 0x10020301, 0xfffff380),
     (0x40200000, 0x10020301, 0xfffff180), (0x40200000, 0x10020301, 0xffffef80),
     (0x40200000, 0x10020301, 0xffffed80), (0x40200000, 0x10020301, 0xffffeb80),
     (0x40200000, 0x10020301, 0xffffe980), (0x40200000, 0x10020301, 0xffffe780),
     (0x40200000, 0x10020301, 0xffffe580), (0x40200000, 0x10020301, 0xffffe380),
     (0x40200000, 0x10020301, 0xffffe180), (0x40200000, 0x10020301, 0xffffdf80),
     (0x40200000, 0x10020301, 0xffffdd80), (0x40200000, 0x10020301, 0xffffdb80),
     (0x40200000, 0x10020301, 0xffffd980), (0x40200000, 0x10020301, 0xffffd780),
     (0x40200000, 0x10020301, 0xffffd580), (0x40200000, 0x10020301, 0xffffd380),
     (0x40200000, 0x10020301, 0xffffd180), (0x40200000, 0x10020301, 0xffffcf80),
     (0x40200000, 0x10020301, 0xffffcd80)]"

definition gain_14dbm :: "c6_rf_gain list" where
  "gain_14dbm = map gain_of [
     (0x40200000, 0xe3c10080, 0x000000fe), (0x40200000, 0xe3c30080, 0x000000fe),
     (0x40200000, 0xe3c50080, 0x000000fe), (0x40200000, 0xe3c70080, 0x000000fe),
     (0x40200000, 0xe3c90080, 0x000000fe), (0x40200000, 0xe3cb0080, 0x000000fe),
     (0x40200000, 0xe3e10080, 0x000000fe), (0x40200000, 0xe3e30080, 0x000000fe),
     (0x40200000, 0xe3e50080, 0x000000fe), (0x40200000, 0xe3e70080, 0x000000fe),
     (0x40200000, 0xe3e90080, 0x000000fe), (0x40200000, 0x90020301, 0xfffff882),
     (0x40200000, 0x90020301, 0xfffff682), (0x40200000, 0x90020301, 0xfffffb81),
     (0x40200000, 0x90020301, 0xfffff981), (0x40200000, 0x90020301, 0xfffff781),
     (0x40200000, 0x10020301, 0xfffffa81), (0x40200000, 0x10020301, 0xfffff881),
     (0x40200000, 0x10020301, 0xfffff681), (0x40200000, 0x90020301, 0xfffffb80),
     (0x40200000, 0x90020301, 0xfffff980), (0x40200000, 0x90020301, 0xfffff780),
     (0x40200000, 0x90020301, 0xfffff580), (0x40200000, 0x10060100, 0xfffffb80),
     (0x40200000, 0x10060100, 0xfffff980), (0x40200000, 0x10060100, 0xfffff780),
     (0x40200000, 0x10020301, 0xfffff980), (0x40200000, 0x10020301, 0xfffff780),
     (0x40200000, 0x10020301, 0xfffff580), (0x40200000, 0x10020301, 0xfffff380),
     (0x40200000, 0x10020301, 0xfffff180), (0x40200000, 0x10020301, 0xffffef80),
     (0x40200000, 0x10020301, 0xffffed80), (0x40200000, 0x10020301, 0xffffeb80),
     (0x40200000, 0x10020301, 0xffffe980), (0x40200000, 0x10020301, 0xffffe780),
     (0x40200000, 0x10020301, 0xffffe580), (0x40200000, 0x10020301, 0xffffe380),
     (0x40200000, 0x10020301, 0xffffe180), (0x40200000, 0x10020301, 0xffffdf80),
     (0x40200000, 0x10020301, 0xffffdd80), (0x40200000, 0x10020301, 0xffffdb80),
     (0x40200000, 0x10020301, 0xffffd980)]"

definition gain_20dbm :: "c6_rf_gain list" where
  "gain_20dbm = map gain_of [
     (0x40200000, 0xe3c10080, 0x000000fe), (0x40200000, 0xe3c30080, 0x000000fe),
     (0x40200000, 0xe3c50080, 0x000000fe), (0x40200000, 0xe3c70080, 0x000000fe),
     (0x40200000, 0xe3c90080, 0x000000fe), (0x40200000, 0xe3cb0080, 0x000000fe),
     (0x40200000, 0xe3e10080, 0x000000fe), (0x40200000, 0xe3e30080, 0x000000fe),
     (0x40200000, 0xe3e50080, 0x000000fe), (0x40200000, 0xe3e70080, 0x000000fe),
     (0x40200000, 0xe3e90080, 0x000000fe), (0x40200000, 0x10020301, 0xfffff607),
     (0x40200000, 0x90020301, 0xfffff706), (0x40200000, 0x10020301, 0xfffff806),
     (0x40200000, 0x10020301, 0xfffff606), (0x40200000, 0x90020301, 0xfffff783),
     (0x40200000, 0x90020301, 0xfffffa82), (0x40200000, 0x90020301, 0xfffff882),
     (0x40200000, 0x90020301, 0xfffff682), (0x40200000, 0x90020301, 0xfffffb81),
     (0x40200000, 0x90020301, 0xfffff981), (0x40200000, 0x90020301, 0xfffff781),
     (0x40200000, 0x10020301, 0xfffffa81), (0x40200000, 0x10020301, 0xfffff881),
     (0x40200000, 0x10020301, 0xfffff681), (0x40200000, 0x90020301, 0xfffffb80),
     (0x40200000, 0x90020301, 0xfffff980), (0x40200000, 0x90020301, 0xfffff780),
     (0x40200000, 0x90020301, 0xfffff580), (0x40200000, 0x10060100, 0xfffffb80),
     (0x40200000, 0x10060100, 0xfffff980), (0x40200000, 0x10060100, 0xfffff780),
     (0x40200000, 0x10020301, 0xfffff980), (0x40200000, 0x10020301, 0xfffff780),
     (0x40200000, 0x10020301, 0xfffff580), (0x40200000, 0x10020301, 0xfffff380),
     (0x40200000, 0x10020301, 0xfffff180), (0x40200000, 0x10020301, 0xffffef80),
     (0x40200000, 0x10020301, 0xffffed80), (0x40200000, 0x10020301, 0xffffeb80),
     (0x40200000, 0x10020301, 0xffffe980), (0x40200000, 0x10020301, 0xffffe780),
     (0x40200000, 0x10020301, 0xffffe580)]"

section \<open>State and operations\<close>

record 'd rf = "'d hw" +
  active_channel :: u8
  active_power :: u8
  rx_enabled :: u8

definition RF_FRONTEND_OFF :: u32 where "RF_FRONTEND_OFF = 0x200"
definition RF_FREQUENCY_PREFIX :: u32 where "RF_FREQUENCY_PREFIX = 0x42844000"
definition RF_FREQUENCY_BASE :: u32 where "RF_FREQUENCY_BASE = 0x380"
definition RF_FREQUENCY_STRIDE :: u32 where "RF_FREQUENCY_STRIDE = 0x280"

definition C6_RF_OK :: int where "C6_RF_OK = 0"
definition C6_RF_INVALID_CHANNEL :: int where "C6_RF_INVALID_CHANNEL = - 1"
definition C6_RF_INVALID_POWER :: int where "C6_RF_INVALID_POWER = - 2"
definition C6_RF_NOT_INITIALIZED :: int where "C6_RF_NOT_INITIALIZED = - 3"

definition power_table :: "u8 \<Rightarrow> c6_rf_gain list option" where
  "power_table power_dbm =
     (if power_dbm = 8 then Some gain_8dbm
      else if power_dbm = 14 then Some gain_14dbm
      else if power_dbm = 20 then Some gain_20dbm
      else None)"

definition c6_rf_invalidate :: "('d, 'm) rf_scheme \<Rightarrow> ('d, 'm) rf_scheme" where
  "c6_rf_invalidate s = s\<lparr>active_channel := 0, active_power := 0, rx_enabled := 0\<rparr>"

definition write_gain :: "'d platform \<Rightarrow> c6_rf_gain \<Rightarrow> ('d, 'm) rf_scheme \<Rightarrow> ('d, 'm) rf_scheme" where
  "write_gain P g s =
     (let s = c6_write32 P C6_REG_TX_GAIN_FIRST (g_first g) s;
          s = c6_write32 P C6_REG_TX_GAIN_SECOND (g_second g) s
      in c6_write32 P C6_REG_TX_GAIN_FINAL (g_final g) s)"

definition c6_rf_configure ::
  "'d platform \<Rightarrow> u8 \<Rightarrow> u8 \<Rightarrow> ('d, 'm) rf_scheme \<Rightarrow> int \<times> ('d, 'm) rf_scheme" where
  "c6_rf_configure P channel power_dbm s =
     (let table = power_table power_dbm in
      if channel < 1 \<or> channel > 13 then (C6_RF_INVALID_CHANNEL, s)
      else case table of
        None \<Rightarrow> (C6_RF_INVALID_POWER, s)
      | Some table \<Rightarrow>
          (let s = c6_write32 P C6_REG_RF_FRONTEND_FORCE RF_FRONTEND_OFF s;
               s = c6_write32 P C6_REG_RFPLL_CHANNEL_CONTROL
                     (RF_FREQUENCY_PREFIX + RF_FREQUENCY_BASE + to_u32 channel * RF_FREQUENCY_STRIDE) s;
               s = fold (\<lambda>index. write_gain P (table ! index)) [0..<RF_GAIN_COUNT] s;
               s = c6_write32 P C6_REG_RF_FRONTEND_FORCE 0 s
           in (C6_RF_OK, s\<lparr>active_channel := channel, active_power := power_dbm, rx_enabled := 1\<rparr>)))"

definition c6_rf_set_channel ::
  "'d platform \<Rightarrow> u8 \<Rightarrow> ('d, 'm) rf_scheme \<Rightarrow> int \<times> ('d, 'm) rf_scheme" where
  "c6_rf_set_channel P channel s =
     (if active_power s = 0 then (C6_RF_NOT_INITIALIZED, s)
      else c6_rf_configure P channel (active_power s) s)"

definition c6_rf_set_power ::
  "'d platform \<Rightarrow> u8 \<Rightarrow> ('d, 'm) rf_scheme \<Rightarrow> int \<times> ('d, 'm) rf_scheme" where
  "c6_rf_set_power P power_dbm s =
     (if active_channel s = 0 then (C6_RF_NOT_INITIALIZED, s)
      else c6_rf_configure P (active_channel s) power_dbm s)"

definition c6_rf_rx_enable :: "'d platform \<Rightarrow> int \<Rightarrow> ('d, 'm) rf_scheme \<Rightarrow> ('d, 'm) rf_scheme" where
  "c6_rf_rx_enable P enabled s =
     (let s = c6_write32 P C6_REG_RF_FRONTEND_FORCE (if enabled \<noteq> 0 then 0 else RF_FRONTEND_OFF) s
      in s\<lparr>rx_enabled := of_bool (enabled \<noteq> 0)\<rparr>)"

definition c6_rf_channel :: "('d, 'm) rf_scheme \<Rightarrow> u8" where
  "c6_rf_channel s = active_channel s"

definition c6_rf_power_dbm :: "('d, 'm) rf_scheme \<Rightarrow> u8" where
  "c6_rf_power_dbm s = active_power s"

definition c6_rf_ready :: "('d, 'm) rf_scheme \<Rightarrow> bool" where
  "c6_rf_ready s \<longleftrightarrow> active_channel s \<noteq> 0 \<and> active_power s \<noteq> 0 \<and> rx_enabled s \<noteq> 0"

section \<open>PHY reset\<close>

definition MODEM_WIFI_APB_CLOCK :: u32 where "MODEM_WIFI_APB_CLOCK = shl 1 9"
definition MODEM_WIFI_MAC_CLOCK :: u32 where "MODEM_WIFI_MAC_CLOCK = shl 1 10"
definition WIFI_RESET_START :: u32 where "WIFI_RESET_START = shl 1 1"
definition WIFI_RESET_READY :: u32 where "WIFI_RESET_READY = shl 1 0"
definition C6_PHY_OK :: int where "C6_PHY_OK = 0"
definition C6_PHY_RESET_NOT_READY :: int where "C6_PHY_RESET_NOT_READY = - 1"

definition c6_phy_reset_radio :: "'d platform \<Rightarrow> ('d, 'm) rf_scheme \<Rightarrow> int \<times> ('d, 'm) rf_scheme" where
  "c6_phy_reset_radio P s =
     (let s = c6_rf_rx_enable P 0 s;
          s = c6_write32 P C6_REG_WIFI_RESET_CONTROL WIFI_RESET_START s;
          s = c6_rf_invalidate s
      in case c6_read32 P C6_REG_WIFI_RESET_CONTROL s of (v, s) \<Rightarrow>
           (if v AND WIFI_RESET_READY \<noteq> 0 then C6_PHY_OK else C6_PHY_RESET_NOT_READY, s))"

definition c6_phy_init :: "'d platform \<Rightarrow> ('d, 'm) rf_scheme \<Rightarrow> int \<times> ('d, 'm) rf_scheme" where
  "c6_phy_init P s =
     (case c6_read32 P C6_REG_MODEM_CLOCK_ENABLE s of (clocks, s) \<Rightarrow>
        (let s = c6_write32 P C6_REG_MODEM_CLOCK_ENABLE
                   (clocks OR MODEM_WIFI_APB_CLOCK OR MODEM_WIFI_MAC_CLOCK) s
         in c6_phy_reset_radio P s))"

section \<open>Frame conditions\<close>

lemma rf_write_frame [simp, frame_rules]:
  "active_channel (c6_write32 P a v s) = active_channel s"
  "active_power (c6_write32 P a v s) = active_power s"
  "rx_enabled (c6_write32 P a v s) = rx_enabled s"
  "rf.more (c6_write32 P a v s) = rf.more s"
  by (simp_all add: c6_write32_def split: prod.splits)

lemma rf_read_frame [simp, frame_rules]:
  "active_channel (snd (c6_read32 P a s)) = active_channel s"
  "active_power (snd (c6_read32 P a s)) = active_power s"
  "rx_enabled (snd (c6_read32 P a s)) = rx_enabled s"
  "rf.more (snd (c6_read32 P a s)) = rf.more s"
  by (simp_all add: c6_read32_def split: prod.splits)

lemma write_gain_frame [simp, frame_rules]:
  "tx_buffer (write_gain P g s) = tx_buffer s"
  "tx_descriptor (write_gain P g s) = tx_descriptor s"
  "active_channel (write_gain P g s) = active_channel s"
  "active_power (write_gain P g s) = active_power s"
  "rx_enabled (write_gain P g s) = rx_enabled s"
  "rf.more (write_gain P g s) = rf.more s"
  by (simp_all add: write_gain_def Let_def)

lemma fold_write_gain_frame [simp, frame_rules]:
  "tx_buffer (fold (\<lambda>i. write_gain P (t ! i)) xs s) = tx_buffer s"
  "tx_descriptor (fold (\<lambda>i. write_gain P (t ! i)) xs s) = tx_descriptor s"
  "rf.more (fold (\<lambda>i. write_gain P (t ! i)) xs s) = rf.more s"
  by (induction xs arbitrary: s) simp_all

section \<open>The bus trace of a tuning\<close>

definition gain_writes :: "c6_rf_gain \<Rightarrow> io list" where
  "gain_writes g = [Wr C6_REG_TX_GAIN_FIRST (g_first g), Wr C6_REG_TX_GAIN_SECOND (g_second g),
                    Wr C6_REG_TX_GAIN_FINAL (g_final g)]"

definition pll_word :: "u8 \<Rightarrow> u32" where
  "pll_word channel = 0x42844380 + 0x280 * to_u32 channel"

definition tuning_trace :: "u8 \<Rightarrow> c6_rf_gain list \<Rightarrow> io list" where
  "tuning_trace channel table =
     Wr C6_REG_RF_FRONTEND_FORCE RF_FRONTEND_OFF
     # Wr C6_REG_RFPLL_CHANNEL_CONTROL (pll_word channel)
     # concat (map gain_writes table) @ [Wr C6_REG_RF_FRONTEND_FORCE 0]"

definition legal_channel :: "u8 \<Rightarrow> bool" where
  "legal_channel c \<longleftrightarrow> 1 \<le> c \<and> c \<le> 13"

definition legal_power :: "u8 \<Rightarrow> bool" where
  "legal_power p \<longleftrightarrow> p \<in> {8, 14, 20}"

lemma power_table_Some_iff: "power_table p \<noteq> None \<longleftrightarrow> legal_power p"
  by (auto simp: power_table_def legal_power_def)

lemma power_table_length: "power_table p = Some t \<Longrightarrow> length t = RF_GAIN_COUNT"
  by (auto simp: power_table_def gain_8dbm_def gain_14dbm_def gain_20dbm_def RF_GAIN_COUNT_def
      split: if_splits)

lemma write_gain_io [simp, io_rules]:
  "io_log (write_gain P g s) = io_log s @ gain_writes g"
  by (simp add: write_gain_def gain_writes_def Let_def)

lemma fold_write_gain_io [io_rules]:
  "io_log (fold (\<lambda>i. write_gain P (t ! i)) xs s) =
   io_log s @ concat (map (\<lambda>i. gain_writes (t ! i)) xs)"
  by (induction xs arbitrary: s) simp_all

lemma map_table: "length t = n \<Longrightarrow> map (\<lambda>i. f (t ! i)) [0..<n] = map f t"
  by (auto intro: nth_equalityI)

lemma legal_channel_iff: "legal_channel c \<longleftrightarrow> \<not> (c < 1 \<or> c > 13)"
  by (simp only: legal_channel_def not_less de_Morgan_disj)

lemma pll_word_eq:
  "RF_FREQUENCY_PREFIX + RF_FREQUENCY_BASE + to_u32 c * RF_FREQUENCY_STRIDE = pll_word c"
  by (simp add: pll_word_def RF_FREQUENCY_PREFIX_def RF_FREQUENCY_BASE_def RF_FREQUENCY_STRIDE_def
      mult.commute)

lemma configure_ok:
  assumes "legal_channel c" and "power_table p = Some t"
  shows "fst (c6_rf_configure P c p s) = C6_RF_OK"
    and "io_log (snd (c6_rf_configure P c p s)) = io_log s @ tuning_trace c t"
    and "active_channel (snd (c6_rf_configure P c p s)) = c"
    and "active_power (snd (c6_rf_configure P c p s)) = p"
    and "rx_enabled (snd (c6_rf_configure P c p s)) = 1"
  using assms map_table [of t RF_GAIN_COUNT gain_writes] power_table_length [OF assms(2)]
  by (simp_all add: c6_rf_configure_def legal_channel_iff Let_def tuning_trace_def pll_word_eq
      fold_write_gain_io)

lemma configure_bad_channel:
  "\<not> legal_channel c \<Longrightarrow> c6_rf_configure P c p s = (C6_RF_INVALID_CHANNEL, s)"
  by (simp add: c6_rf_configure_def legal_channel_iff Let_def)

lemma configure_bad_power:
  "legal_channel c \<Longrightarrow> \<not> legal_power p \<Longrightarrow> c6_rf_configure P c p s = (C6_RF_INVALID_POWER, s)"
  using power_table_Some_iff [of p]
  by (simp add: c6_rf_configure_def legal_channel_iff Let_def)

lemma configure_frame [simp, frame_rules]:
  "tx_buffer (snd (c6_rf_configure P c p s)) = tx_buffer s"
  "tx_descriptor (snd (c6_rf_configure P c p s)) = tx_descriptor s"
  "rf.more (snd (c6_rf_configure P c p s)) = rf.more s"
  by (simp_all add: c6_rf_configure_def Let_def split: option.splits)

section \<open>The tuning state\<close>

text \<open>
  \<open>active_channel\<close> and \<open>active_power\<close> are either both zero or both legal; the receiver flag is a
  separate bit, which \<open>c6_rf_rx_enable\<close> may set before any tuning.
\<close>

definition rf_inv :: "('d, 'm) rf_scheme \<Rightarrow> bool" where
  "rf_inv s \<longleftrightarrow> (active_channel s = 0 \<and> active_power s = 0) \<or>
                (legal_channel (active_channel s) \<and> legal_power (active_power s))"

lemma configure_inv: "rf_inv s \<Longrightarrow> rf_inv (snd (c6_rf_configure P c p s))"
proof (cases "legal_channel c \<and> legal_power p")
  case True
  then obtain t where "power_table p = Some t"
    using power_table_Some_iff [of p] by auto
  then show ?thesis
    using True configure_ok [of c p t P s] by (simp add: rf_inv_def)
next
  case False
  assume "rf_inv s"
  then show ?thesis
    using False configure_bad_channel [of c P p s] configure_bad_power [of c p P s]
    by (cases "legal_channel c") auto
qed

lemma rx_enable_fields [simp]:
  "active_channel (c6_rf_rx_enable P e s) = active_channel s"
  "active_power (c6_rf_rx_enable P e s) = active_power s"
  "rx_enabled (c6_rf_rx_enable P e s) = of_bool (e \<noteq> 0)"
  "tx_buffer (c6_rf_rx_enable P e s) = tx_buffer s"
  "tx_descriptor (c6_rf_rx_enable P e s) = tx_descriptor s"
  "rf.more (c6_rf_rx_enable P e s) = rf.more s"
  "io_log (c6_rf_rx_enable P e s) =
     io_log s @ [Wr C6_REG_RF_FRONTEND_FORCE (if e \<noteq> 0 then 0 else RF_FRONTEND_OFF)]"
  by (simp_all add: c6_rf_rx_enable_def Let_def)

lemma invalidate_fields [simp]:
  "active_channel (c6_rf_invalidate s) = 0"
  "active_power (c6_rf_invalidate s) = 0"
  "rx_enabled (c6_rf_invalidate s) = 0"
  "tx_buffer (c6_rf_invalidate s) = tx_buffer s"
  "tx_descriptor (c6_rf_invalidate s) = tx_descriptor s"
  "rf.more (c6_rf_invalidate s) = rf.more s"
  "io_log (c6_rf_invalidate s) = io_log s"
  by (simp_all add: c6_rf_invalidate_def)

lemma phy_reset_fields [simp]:
  "active_channel (snd (c6_phy_reset_radio P s)) = 0"
  "active_power (snd (c6_phy_reset_radio P s)) = 0"
  "rx_enabled (snd (c6_phy_reset_radio P s)) = 0"
  "tx_buffer (snd (c6_phy_reset_radio P s)) = tx_buffer s"
  "rf.more (snd (c6_phy_reset_radio P s)) = rf.more s"
  by (simp_all add: c6_phy_reset_radio_def Let_def case_prod_beta)

lemma phy_reset_io:
  "\<exists>v. io_log (snd (c6_phy_reset_radio P s)) =
     io_log s @ [Wr C6_REG_RF_FRONTEND_FORCE RF_FRONTEND_OFF,
                 Wr C6_REG_WIFI_RESET_CONTROL WIFI_RESET_START, Rd C6_REG_WIFI_RESET_CONTROL v] \<and>
     fst (c6_phy_reset_radio P s) = (if bit v 0 then C6_PHY_OK else C6_PHY_RESET_NOT_READY)"
  by (simp add: c6_phy_reset_radio_def Let_def case_prod_beta WIFI_RESET_READY_def
      and_one_eq odd_iff_mod_2_eq_one bit_0)

lemma phy_init_fields [simp]:
  "active_channel (snd (c6_phy_init P s)) = 0"
  "active_power (snd (c6_phy_init P s)) = 0"
  "rx_enabled (snd (c6_phy_init P s)) = 0"
  "tx_buffer (snd (c6_phy_init P s)) = tx_buffer s"
  "rf.more (snd (c6_phy_init P s)) = rf.more s"
  by (simp_all add: c6_phy_init_def Let_def case_prod_beta)

section \<open>Every program over the RF interface\<close>

definition rf_register :: "u32 \<Rightarrow> bool" where
  "rf_register a \<longleftrightarrow> a \<in> {C6_REG_RFPLL_CHANNEL_CONTROL, C6_REG_TX_GAIN_FIRST,
                         C6_REG_TX_GAIN_SECOND, C6_REG_TX_GAIN_FINAL}"

inductive rf_step :: "'d platform \<Rightarrow> ('d, 'm) rf_scheme \<Rightarrow> ('d, 'm) rf_scheme \<Rightarrow> bool" for P where
  step_configure: "rf_step P s (snd (c6_rf_configure P c p s))"
| step_set_channel: "rf_step P s (snd (c6_rf_set_channel P c s))"
| step_set_power: "rf_step P s (snd (c6_rf_set_power P p s))"
| step_rx_enable: "rf_step P s (c6_rf_rx_enable P e s)"
| step_reset: "rf_step P s (snd (c6_phy_reset_radio P s))"
| step_init: "rf_step P s (snd (c6_phy_init P s))"
| step_read: "rf_step P s (snd (c6_read32 P a s))"
| step_write: "\<not> rf_register a \<Longrightarrow> a \<noteq> C6_REG_RF_FRONTEND_FORCE \<Longrightarrow> rf_step P s (c6_write32 P a v s)"

text \<open>
  A monitor of the bus: the synthesiser and the gain table may be written only while the front
  end is forced off.  The flag says whether the last write to the force register was the
  off word.
\<close>

fun frontend_off :: "bool \<Rightarrow> io list \<Rightarrow> bool" where
  "frontend_off off [] = off"
| "frontend_off off (Rd a v # es) = frontend_off off es"
| "frontend_off off (Wr a v # es) =
     frontend_off (if a = C6_REG_RF_FRONTEND_FORCE then v = RF_FRONTEND_OFF else off) es"

fun muted_retune :: "bool \<Rightarrow> io list \<Rightarrow> bool" where
  "muted_retune off [] = True"
| "muted_retune off (Rd a v # es) = muted_retune off es"
| "muted_retune off (Wr a v # es) =
     ((rf_register a \<longrightarrow> off) \<and>
      muted_retune (if a = C6_REG_RF_FRONTEND_FORCE then v = RF_FRONTEND_OFF else off) es)"

lemma muted_append:
  "muted_retune off (xs @ ys) \<longleftrightarrow> muted_retune off xs \<and> muted_retune (frontend_off off xs) ys"
  by (induction off xs rule: frontend_off.induct) auto

lemma gain_writes_muted:
  "muted_retune True (concat (map gain_writes t)) \<and> frontend_off True (concat (map gain_writes t))"
  by (induction t)
     (auto simp: gain_writes_def C6_REG_TX_GAIN_FIRST_def C6_REG_TX_GAIN_SECOND_def
       C6_REG_TX_GAIN_FINAL_def C6_REG_RF_FRONTEND_FORCE_def)

lemma tuning_trace_muted: "muted_retune off (tuning_trace c t)"
  using gain_writes_muted [of t]
  by (simp add: tuning_trace_def muted_append rf_register_def C6_REG_RF_FRONTEND_FORCE_def
      C6_REG_RFPLL_CHANNEL_CONTROL_def C6_REG_TX_GAIN_FIRST_def C6_REG_TX_GAIN_SECOND_def
      C6_REG_TX_GAIN_FINAL_def)

definition rf_start :: "('d, 'm) rf_scheme \<Rightarrow> bool" where
  "rf_start s \<longleftrightarrow> io_log s = [] \<and> active_channel s = 0 \<and> active_power s = 0 \<and> rx_enabled s = 0"

definition rf_sys_inv :: "('d, 'm) rf_scheme \<Rightarrow> bool" where
  "rf_sys_inv s \<longleftrightarrow> rf_inv s \<and> muted_retune False (io_log s)"

lemma configure_muted:
  "muted_retune off (io_log s) \<Longrightarrow> muted_retune off (io_log (snd (c6_rf_configure P c p s)))"
proof (cases "legal_channel c \<and> legal_power p")
  case True
  then obtain t where "power_table p = Some t"
    using power_table_Some_iff [of p] by auto
  moreover assume "muted_retune off (io_log s)"
  ultimately show ?thesis
    using True configure_ok(2) [of c p t P s] by (simp add: muted_append tuning_trace_muted)
next
  case False
  assume "muted_retune off (io_log s)"
  then show ?thesis
    using False configure_bad_channel [of c P p s] configure_bad_power [of c p P s]
    by (cases "legal_channel c") auto
qed

lemma phy_reset_muted:
  "muted_retune off (io_log s) \<Longrightarrow> muted_retune off (io_log (snd (c6_phy_reset_radio P s)))"
  using phy_reset_io [of P s]
  by (auto simp: muted_append rf_register_def C6_REG_RF_FRONTEND_FORCE_def
      C6_REG_RFPLL_CHANNEL_CONTROL_def C6_REG_TX_GAIN_FIRST_def C6_REG_TX_GAIN_SECOND_def
      C6_REG_TX_GAIN_FINAL_def C6_REG_WIFI_RESET_CONTROL_def)

lemma clock_not_rf: "\<not> rf_register C6_REG_MODEM_CLOCK_ENABLE" "\<not> rf_register C6_REG_RF_FRONTEND_FORCE"
  by (simp_all add: rf_register_def C6_REG_MODEM_CLOCK_ENABLE_def C6_REG_RF_FRONTEND_FORCE_def
      C6_REG_RFPLL_CHANNEL_CONTROL_def C6_REG_TX_GAIN_FIRST_def C6_REG_TX_GAIN_SECOND_def
      C6_REG_TX_GAIN_FINAL_def)

lemma rf_inv_zero: "active_channel s = 0 \<Longrightarrow> active_power s = 0 \<Longrightarrow> rf_inv s"
  by (simp add: rf_inv_def)

lemma rf_step_sys_inv: "rf_sys_inv s \<Longrightarrow> rf_step P s t \<Longrightarrow> rf_sys_inv t"
proof -
  assume s: "rf_sys_inv s" and "rf_step P s t"
  from this(2) show ?thesis
  proof (cases rule: rf_step.cases)
    case (step_configure c p)
    with s show ?thesis by (simp add: rf_sys_inv_def configure_inv configure_muted)
  next
    case (step_set_channel c)
    with s show ?thesis
      by (simp add: rf_sys_inv_def c6_rf_set_channel_def configure_inv configure_muted)
  next
    case (step_set_power p)
    with s show ?thesis
      by (simp add: rf_sys_inv_def c6_rf_set_power_def configure_inv configure_muted)
  next
    case (step_rx_enable e)
    with s show ?thesis
      by (simp add: rf_sys_inv_def rf_inv_def muted_append clock_not_rf)
  next
    case step_reset
    with s show ?thesis by (simp add: rf_sys_inv_def rf_inv_zero phy_reset_muted)
  next
    case step_init
    with s show ?thesis
      by (simp add: rf_sys_inv_def rf_inv_zero c6_phy_init_def Let_def case_prod_beta
          phy_reset_muted muted_append clock_not_rf)
  next
    case (step_read a)
    with s show ?thesis by (simp add: rf_sys_inv_def rf_inv_def muted_append)
  next
    case (step_write a v)
    with s show ?thesis by (simp add: rf_sys_inv_def rf_inv_def muted_append)
  qed
qed

interpretation rf_sys: invariant_system rf_start "rf_step P" rf_sys_inv for P
  by unfold_locales
     (simp add: rf_start_def rf_sys_inv_def rf_inv_zero, rule rf_step_sys_inv)

definition rf_zero :: "unit rf" where
  "rf_zero = \<lparr>device = (), io_log = [], tx_buffer = replicate 256 0,
     tx_descriptor = \<lparr>d_control = 0, d_buffer = 0, d_next = 0\<rparr>, rx_buffer = replicate 512 0,
     rx_descriptor = \<lparr>d_control = 0, d_buffer = 0, d_next = 0\<rparr>,
     active_channel = 0, active_power = 0, rx_enabled = 0\<rparr>"

section \<open>Properties\<close>

text \<open>C26.
  A tuning request is total and atomic.  An illegal channel is refused before an illegal power;
  a refused request performs no bus access and changes no state; an accepted one writes the
  off word, the synthesiser word, the 43 gain triples of the requested power and the on word, in
  that order, and only then records the channel and the power.
\<close>

theorem rf_configure_outcome:
  "c6_rf_configure P c p s =
     (if \<not> legal_channel c then (C6_RF_INVALID_CHANNEL, s)
      else if \<not> legal_power p then (C6_RF_INVALID_POWER, s)
      else (C6_RF_OK, snd (c6_rf_configure P c p s))) \<and>
   io_log (snd (c6_rf_configure P c p s)) =
     io_log s @ (case power_table p of
                   Some t \<Rightarrow> if legal_channel c then tuning_trace c t else []
                 | None \<Rightarrow> []) \<and>
   (active_channel (snd (c6_rf_configure P c p s)), active_power (snd (c6_rf_configure P c p s))) =
     (if legal_channel c \<and> legal_power p then (c, p) else (active_channel s, active_power s))"
proof (cases "legal_channel c \<and> legal_power p")
  case True
  then obtain t where "power_table p = Some t"
    using power_table_Some_iff [of p] by auto
  then show ?thesis
    using True configure_ok [of c p t P s] by (simp add: prod_eq_iff)
next
  case False
  then show ?thesis
    using configure_bad_channel [of c P p s] configure_bad_power [of c p P s]
      power_table_Some_iff [of p]
    by (cases "legal_channel c") (auto split: option.splits)
qed

text \<open>C27.
  Whatever program runs over the RF and PHY interface and whatever the device answers, the
  synthesiser and the gain registers are written only while the front end is forced off, and a
  front end that reports ready is tuned to a channel 1 to 13 with one of the three known powers.
\<close>

theorem rf_reachable_safe:
  assumes "reaches rf_start (rf_step P) s"
  shows "muted_retune False (io_log s) \<and>
         (c6_rf_ready s \<longrightarrow> legal_channel (c6_rf_channel s) \<and> legal_power (c6_rf_power_dbm s))"
  using rf_sys.reaches_inv [OF assms]
  by (auto simp: rf_sys_inv_def rf_inv_def c6_rf_ready_def c6_rf_channel_def c6_rf_power_dbm_def)

theorem rf_reachable_safe_witness:
  "muted_retune False (io_log (snd (c6_rf_configure (constant_platform 0) 6 14 rf_zero))) \<and>
   c6_rf_ready (snd (c6_rf_configure (constant_platform 0) 6 14 rf_zero))"
proof -
  let ?P = "constant_platform 0"
  have "rf_start rf_zero"
    by (simp add: rf_start_def rf_zero_def)
  then have r: "reaches rf_start (rf_step ?P) (snd (c6_rf_configure ?P 6 14 rf_zero))"
    by (blast intro: reaches_init reaches_step rf_step.step_configure)
  have "c6_rf_ready (snd (c6_rf_configure ?P 6 14 rf_zero))"
    using configure_ok [of 6 14 gain_14dbm ?P rf_zero]
    by (simp add: c6_rf_ready_def legal_channel_def power_table_def)
  then show ?thesis
    using rf_reachable_safe [OF r] by blast
qed

text \<open>The synthesiser word is computed without wrap-around for every legal channel, lies in the
  window of the 13 channels and identifies the channel.
\<close>

theorem pll_word_window:
  assumes "legal_channel c" and "legal_channel d"
  shows "unat (pll_word c) = 0x42844380 + 0x280 * unat c \<and>
         pll_word 1 \<le> pll_word c \<and> pll_word c \<le> pll_word 13 \<and>
         (pll_word c = pll_word d \<longleftrightarrow> c = d)"
proof (intro conjI)
  have w: "unat (pll_word x) = 0x42844380 + 0x280 * unat x" if "legal_channel x" for x
  proof -
    have "unat x \<le> 13"
      using that by (simp add: legal_channel_def word_le_nat_alt)
    then show ?thesis
      by (simp add: pll_word_def unat_word_ariths)
  qed
  have b: "1 \<le> unat c" "unat c \<le> 13"
    using assms(1) by (simp_all add: legal_channel_def word_le_nat_alt)
  show "unat (pll_word c) = 0x42844380 + 0x280 * unat c"
    by (rule w [OF assms(1)])
  show "pll_word 1 \<le> pll_word c" and "pll_word c \<le> pll_word 13"
    using b by (simp_all add: word_le_nat_alt w [OF assms(1)] w legal_channel_def)
  show "pll_word c = pll_word d \<longleftrightarrow> c = d"
    using w [OF assms(1)] w [OF assms(2)] by (auto simp: word_unat_eq_iff)
qed

theorem pll_word_window_witness:
  "unat (pll_word 13) = 0x42846400 \<and> pll_word 1 \<le> pll_word 13 \<and> pll_word 13 \<noteq> pll_word 6"
  using pll_word_window [of 13 6] by (simp add: legal_channel_def)

end
