(* ===== verification/Mac.thy ===== *)
theory Mac
  imports Rf
begin

text \<open>
  The Wi-Fi MAC driver (\<^verbatim>\<open>hal/c6/mac.c\<close>): transmit queue 0 with its bounded completion poll, the single
  receive descriptor, the interface address and the CCMP key slot.  A C string is the list of its
  bytes with the terminator; a pointer argument that may alias the transmit buffer is a value of
  \<open>frame_ptr\<close>.  The lemmas give the transmit buffer and the bus trace of every outcome, the bounds
  of every index, and what the receive path does with a descriptor it refuses.
\<close>

section \<open>State and constants\<close>

record 'd mac = "'d rf" +
  mac_sequence_number :: u16

definition WIFI_TX_DONE :: u32 where "WIFI_TX_DONE = shl 1 7"
definition WIFI_RX_DONE :: u32 where "WIFI_RX_DONE = shl 1 14"
definition WIFI_QUEUE_ENABLE :: u32 where "WIFI_QUEUE_ENABLE = shl 3 30"
definition WIFI_CPU_INTERRUPT :: u32 where "WIFI_CPU_INTERRUPT = 5"
definition WIFI_RX_METADATA :: u32 where "WIFI_RX_METADATA = 92"
definition WIFI_INTERFACE_ADDRESS_VALID :: u32 where "WIFI_INTERFACE_ADDRESS_VALID = shl 1 16"

definition C6_MAC_RX_FRAME :: int where "C6_MAC_RX_FRAME = 1"
definition C6_MAC_OK :: int where "C6_MAC_OK = 0"
definition C6_MAC_NO_PACKET :: int where "C6_MAC_NO_PACKET = 0"
definition C6_MAC_NOT_READY :: int where "C6_MAC_NOT_READY = - 1"
definition C6_MAC_TIMEOUT :: int where "C6_MAC_TIMEOUT = - 2"
definition C6_MAC_INVALID_FRAME :: int where "C6_MAC_INVALID_FRAME = - 3"
definition C6_MAC_INVALID_RX_DESCRIPTOR :: int where "C6_MAC_INVALID_RX_DESCRIPTOR = - 4"
definition C6_MAC_BUFFER_TOO_SMALL :: int where "C6_MAC_BUFFER_TOO_SMALL = - 5"

datatype frame_ptr = Frame bytes | TxBufferFrame

definition cstring :: "string \<Rightarrow> bytes" where
  "cstring cs = map (\<lambda>c. of_nat (of_char c)) cs @ [0]"

section \<open>Probe requests\<close>

fun append_chars :: "bytes \<Rightarrow> nat \<Rightarrow> nat \<Rightarrow> bytes \<Rightarrow> bytes \<times> nat" where
  "append_chars destination off len [] = (destination, len)"
| "append_chars destination off len (c # tag) =
     (if c \<noteq> 0 \<and> len < 32 then append_chars (destination[off + len := c]) off (Suc len) tag
      else (destination, len))"

definition tag_prefix :: bytes where
  "tag_prefix = butlast (cstring ''REMU-C6-RF-'')"

definition append_tag :: "bytes \<Rightarrow> nat \<Rightarrow> bytes \<Rightarrow> bytes \<times> nat" where
  "append_tag destination off tag =
     append_chars (copy destination off tag_prefix (length tag_prefix)) off (length tag_prefix) tag"

definition probe_header :: bytes where
  "probe_header = [0x40, 0x00, 0x00, 0x00,
                   0xff, 0xff, 0xff, 0xff, 0xff, 0xff,
                   0x02, 0x00, 0x00, 0x00, 0x00, 0xc6,
                   0xff, 0xff, 0xff, 0xff, 0xff, 0xff]"

definition sequence_low :: "u16 \<Rightarrow> u8" where
  "sequence_low n = to_u8 (shl (to_u32 n) 4)"

definition sequence_high :: "u16 \<Rightarrow> u8" where
  "sequence_high n = to_u8 (shr (to_u32 n) 4)"

definition sequence_next :: "u16 \<Rightarrow> u16" where
  "sequence_next n = to_u16 ((to_u32 n + 1) AND 0x0fff)"

definition clear_prefix :: "bytes \<Rightarrow> bytes" where
  "clear_prefix buf = fold (\<lambda>index b. b[index := 0]) [1..<8] buf"

definition make_probe_request :: "bytes \<Rightarrow> ('d, 'm) mac_scheme \<Rightarrow> u32 \<times> ('d, 'm) mac_scheme" where
  "make_probe_request tag s =
     (let seqno = mac_sequence_number s;
          b = copy (tx_buffer s) 8 probe_header (length probe_header);
          b = b[8 + 22 := sequence_low seqno];
          b = b[8 + 23 := sequence_high seqno];
          s = s\<lparr>mac_sequence_number := sequence_next seqno\<rparr>;
          b = b[8 + 24 := 0]
      in case append_tag b (8 + 26) tag of (b, ssid_length) \<Rightarrow>
         (let b = b[8 + 25 := of_nat ssid_length];
              frame_length = 26 + of_nat ssid_length;
              b = b[0 := to_u8 (frame_length + 4 :: u32)];
              b = clear_prefix b
          in (frame_length, s\<lparr>tx_buffer := b\<rparr>)))"

section \<open>Initialisation and transmission\<close>

definition c6_mac_init :: "'d platform \<Rightarrow> ('d, 'm) mac_scheme \<Rightarrow> int \<times> ('d, 'm) mac_scheme" where
  "c6_mac_init P s =
     (let s = c6_write32 P C6_REG_INTERRUPT_MATRIX_WIFI_ROUTE WIFI_CPU_INTERRUPT s in
      case c6_read32 P C6_REG_PLIC_ENABLE s of (enable, s) \<Rightarrow>
      (let s = c6_write32 P C6_REG_PLIC_ENABLE (enable OR shl 1 (unat WIFI_CPU_INTERRUPT)) s;
           s = c6_write32 P C6_REG_PLIC_WIFI_PRIORITY 3 s;
           s = c6_write32 P C6_REG_PLIC_THRESHOLD 1 s;
           s = c6_write32 P C6_REG_WIFI_INTERRUPT_MASK (WIFI_TX_DONE OR WIFI_RX_DONE) s;
           s = c6_write32 P C6_REG_WIFI_INTERRUPT_CLEAR (WIFI_TX_DONE OR WIFI_RX_DONE) s;
           s = c6_write32 P C6_REG_WIFI_TX_QUEUE_STATE_CLEAR 0xffffffff s
       in (C6_MAC_OK, s)))"

definition tx_length_refused :: "u32 \<Rightarrow> bool" where
  "tx_length_refused len \<longleftrightarrow> len < 10 \<or> len + 12 > 256"

fun tx_poll :: "'d platform \<Rightarrow> nat \<Rightarrow> ('d, 'm) mac_scheme \<Rightarrow> int \<times> ('d, 'm) mac_scheme" where
  "tx_poll P 0 s = (C6_MAC_TIMEOUT, s)"
| "tx_poll P (Suc n) s =
     (case c6_read32 P C6_REG_WIFI_INTERRUPT_EVENT s of (event, s) \<Rightarrow>
        if event AND WIFI_TX_DONE \<noteq> 0 then
          (case c6_read32 P C6_REG_WIFI_TX_QUEUE_STATE s of (queue, s) \<Rightarrow>
             if queue AND 1 \<noteq> 0 then
               (let s = c6_write32 P C6_REG_WIFI_INTERRUPT_CLEAR WIFI_TX_DONE s;
                    s = c6_write32 P C6_REG_WIFI_TX_QUEUE_STATE_CLEAR 1 s
                in (C6_MAC_OK, s))
             else tx_poll P n s)
        else tx_poll P n s)"

definition stage_frame :: "frame_ptr \<Rightarrow> u32 \<Rightarrow> bytes \<Rightarrow> bytes" where
  "stage_frame frame len b =
     (let b = b[0 := to_u8 (len + 4)];
          b = clear_prefix b
      in case frame of
           TxBufferFrame \<Rightarrow> b
         | Frame f \<Rightarrow> copy b 8 f (unat len))"

definition c6_mac_tx_frame ::
  "'d platform \<Rightarrow> frame_ptr \<Rightarrow> u32 \<Rightarrow> ('d, 'm) mac_scheme \<Rightarrow> int \<times> ('d, 'm) mac_scheme" where
  "c6_mac_tx_frame P frame len s =
     (if \<not> c6_rf_ready s then (C6_MAC_NOT_READY, s)
      else if tx_length_refused len then (C6_MAC_INVALID_FRAME, s)
      else
        (let s = s\<lparr>tx_buffer := stage_frame frame len (tx_buffer s)\<rparr>;
             s = s\<lparr>tx_descriptor := c6_dma_tx_descriptor (addr_tx_buffer P)\<rparr>;
             s = c6_write32 P C6_REG_WIFI_TX_QUEUE0_CONTROL
                   (WIFI_QUEUE_ENABLE OR (addr_tx_descriptor P AND 0x000fffff)) s
         in tx_poll P 50000 s))"

definition c6_mac_tx_probe ::
  "'d platform \<Rightarrow> bytes \<Rightarrow> ('d, 'm) mac_scheme \<Rightarrow> int \<times> ('d, 'm) mac_scheme" where
  "c6_mac_tx_probe P tag s =
     (if \<not> c6_rf_ready s then (C6_MAC_NOT_READY, s)
      else
        (let s = snd (make_probe_request tag s)
         in c6_mac_tx_frame P TxBufferFrame (to_u32 (tx_buffer s ! 0) - 4) s))"

section \<open>Reception\<close>

definition c6_mac_rx_start :: "'d platform \<Rightarrow> ('d, 'm) mac_scheme \<Rightarrow> ('d, 'm) mac_scheme" where
  "c6_mac_rx_start P s =
     (let s = c6_rf_rx_enable P 1 s;
          s = s\<lparr>rx_descriptor := c6_dma_rx_descriptor (addr_rx_buffer P) WIFI_RX_CAPACITY\<rparr>
      in c6_write32 P C6_REG_WIFI_RX_BASE (addr_rx_descriptor P) s)"

definition c6_mac_rx_stop :: "'d platform \<Rightarrow> ('d, 'm) mac_scheme \<Rightarrow> ('d, 'm) mac_scheme" where
  "c6_mac_rx_stop P s =
     (let s = c6_write32 P C6_REG_WIFI_RX_BASE 0 s
      in c6_rf_rx_enable P 0 s)"

definition rx_dma_length :: "u32 \<Rightarrow> u32" where
  "rx_dma_length control = shr control 14 AND 0x3fff"

definition rx_descriptor_refused :: "u32 \<Rightarrow> bool" where
  "rx_descriptor_refused control \<longleftrightarrow>
     control AND shl 1 31 \<noteq> 0 \<or> control AND shl 1 30 = 0 \<or>
     rx_dma_length control < WIFI_RX_METADATA + 4 \<or> rx_dma_length control > WIFI_RX_CAPACITY"

text \<open>The output parameters are written only on success: \<open>None\<close> leaves the caller's variables as
  they were.\<close>

definition c6_mac_rx_poll ::
  "'d platform \<Rightarrow> ('d, 'm) mac_scheme \<Rightarrow> int \<times> (u32 \<times> int) option \<times> ('d, 'm) mac_scheme" where
  "c6_mac_rx_poll P s =
     (case c6_read32 P C6_REG_WIFI_INTERRUPT_EVENT s of (event, s) \<Rightarrow>
        if event AND WIFI_RX_DONE = 0 then (C6_MAC_NO_PACKET, None, s)
        else
          (let control = d_control (rx_descriptor s);
               len = rx_dma_length control
           in if rx_descriptor_refused control then (C6_MAC_INVALID_RX_DESCRIPTOR, None, s)
              else
                (let wire_length = len - WIFI_RX_METADATA;
                     rssi = sint (rx_buffer s ! 11);
                     s = c6_write32 P C6_REG_WIFI_INTERRUPT_CLEAR WIFI_RX_DONE s;
                     s = c6_mac_rx_start P s
                 in (C6_MAC_RX_FRAME, Some (wire_length, rssi), s))))"

definition c6_mac_rx_copy ::
  "'d platform \<Rightarrow> bytes \<Rightarrow> u32 \<Rightarrow> ('d, 'm) mac_scheme \<Rightarrow>
   int \<times> bytes \<times> (u32 \<times> int) option \<times> ('d, 'm) mac_scheme" where
  "c6_mac_rx_copy P frame capacity s =
     (case c6_read32 P C6_REG_WIFI_INTERRUPT_EVENT s of (event, s) \<Rightarrow>
        if event AND WIFI_RX_DONE = 0 then (C6_MAC_NO_PACKET, frame, None, s)
        else
          (let control = d_control (rx_descriptor s);
               dma_length = rx_dma_length control
           in if rx_descriptor_refused control then (C6_MAC_INVALID_RX_DESCRIPTOR, frame, None, s)
              else
                (let frame_length = dma_length - WIFI_RX_METADATA - 4
                 in if frame_length > capacity then (C6_MAC_BUFFER_TOO_SMALL, frame, None, s)
                    else
                      (let frame = copy frame 0 (drop (unat WIFI_RX_METADATA) (rx_buffer s))
                                     (unat frame_length);
                           rssi = sint (rx_buffer s ! 11);
                           s = c6_write32 P C6_REG_WIFI_INTERRUPT_CLEAR WIFI_RX_DONE s;
                           s = c6_mac_rx_start P s
                       in (C6_MAC_RX_FRAME, frame, Some (frame_length, rssi), s)))))"

section \<open>Interface address and key slot\<close>

definition load_le32 :: "bytes \<Rightarrow> u32" where
  "load_le32 v = to_u32 (v ! 0) OR shl (to_u32 (v ! 1)) 8 OR shl (to_u32 (v ! 2)) 16
                 OR shl (to_u32 (v ! 3)) 24"

definition c6_mac_set_interface_address ::
  "'d platform \<Rightarrow> bytes \<Rightarrow> ('d, 'm) mac_scheme \<Rightarrow> ('d, 'm) mac_scheme" where
  "c6_mac_set_interface_address P address s =
     (let low = to_u32 (address ! 0) OR shl (to_u32 (address ! 1)) 8 OR
                shl (to_u32 (address ! 2)) 16 OR shl (to_u32 (address ! 3)) 24;
          high = to_u32 (address ! 4) OR shl (to_u32 (address ! 5)) 8 OR
                 WIFI_INTERFACE_ADDRESS_VALID;
          s = c6_write32 P C6_REG_WIFI_INTERFACE0_LOW low s
      in c6_write32 P C6_REG_WIFI_INTERFACE0_HIGH high s)"

definition c6_mac_install_ccmp ::
  "'d platform \<Rightarrow> bytes \<Rightarrow> bytes \<Rightarrow> ('d, 'm) mac_scheme \<Rightarrow> ('d, 'm) mac_scheme" where
  "c6_mac_install_ccmp P peer key s =
     (let mtch = to_u32 (peer ! 0) OR shl (to_u32 (peer ! 1)) 8 OR
                 shl (to_u32 (peer ! 2)) 16 OR shl (to_u32 (peer ! 3)) 24;
          control = to_u32 (peer ! 4) OR shl (to_u32 (peer ! 5)) 8 OR shl 3 18 OR shl 3 21;
          s = c6_write32 P C6_REG_WIFI_CRYPTO_SLOT0 mtch s;
          s = c6_write32 P (C6_REG_WIFI_CRYPTO_SLOT0 + 4) control s;
          s = c6_write32 P (C6_REG_WIFI_CRYPTO_SLOT0 + 8) (load_le32 key) s;
          s = c6_write32 P (C6_REG_WIFI_CRYPTO_SLOT0 + 12) (load_le32 (drop 4 key)) s;
          s = c6_write32 P (C6_REG_WIFI_CRYPTO_SLOT0 + 16) (load_le32 (drop 8 key)) s;
          s = c6_write32 P (C6_REG_WIFI_CRYPTO_SLOT0 + 20) (load_le32 (drop 12 key)) s;
          s = c6_write32 P (C6_REG_WIFI_CRYPTO_SLOT0 + 24) 0 s;
          s = c6_write32 P (C6_REG_WIFI_CRYPTO_SLOT0 + 28) 0 s;
          s = c6_write32 P (C6_REG_WIFI_CRYPTO_SLOT0 + 32) 0 s;
          s = c6_write32 P (C6_REG_WIFI_CRYPTO_SLOT0 + 36) 0 s
      in case c6_read32 P C6_REG_WIFI_CRYPTO_VALID s of (valid, s) \<Rightarrow>
           c6_write32 P C6_REG_WIFI_CRYPTO_VALID (valid OR 1) s)"

section \<open>Frame conditions\<close>

lemma mac_bus_frame [simp, frame_rules]:
  "mac_sequence_number (c6_write32 P a v s) = mac_sequence_number s"
  "mac.more (c6_write32 P a v s) = mac.more s"
  "mac_sequence_number (snd (c6_read32 P a s)) = mac_sequence_number s"
  "mac.more (snd (c6_read32 P a s)) = mac.more s"
  by (simp_all add: c6_write32_def c6_read32_def split: prod.splits)

lemma mac_rf_frame [simp, frame_rules]:
  "mac_sequence_number (c6_rf_rx_enable P e s) = mac_sequence_number s"
  "mac.more (c6_rf_rx_enable P e s) = mac.more s"
  by (simp_all add: c6_rf_rx_enable_def Let_def)

lemma tx_poll_frame [simp, frame_rules]:
  "tx_buffer (snd (tx_poll P n s)) = tx_buffer s"
  "tx_descriptor (snd (tx_poll P n s)) = tx_descriptor s"
  "active_channel (snd (tx_poll P n s)) = active_channel s"
  "active_power (snd (tx_poll P n s)) = active_power s"
  "rx_enabled (snd (tx_poll P n s)) = rx_enabled s"
  "mac_sequence_number (snd (tx_poll P n s)) = mac_sequence_number s"
  "mac.more (snd (tx_poll P n s)) = mac.more s"
  by (induction n arbitrary: s) (simp_all add: case_prod_beta Let_def)

lemma tx_frame_frame [simp, frame_rules]:
  "active_channel (snd (c6_mac_tx_frame P f n s)) = active_channel s"
  "active_power (snd (c6_mac_tx_frame P f n s)) = active_power s"
  "rx_enabled (snd (c6_mac_tx_frame P f n s)) = rx_enabled s"
  "mac_sequence_number (snd (c6_mac_tx_frame P f n s)) = mac_sequence_number s"
  "mac.more (snd (c6_mac_tx_frame P f n s)) = mac.more s"
  by (simp_all add: c6_mac_tx_frame_def Let_def)

lemma rx_start_frame [simp, frame_rules]:
  "tx_buffer (c6_mac_rx_start P s) = tx_buffer s"
  "tx_descriptor (c6_mac_rx_start P s) = tx_descriptor s"
  "active_channel (c6_mac_rx_start P s) = active_channel s"
  "active_power (c6_mac_rx_start P s) = active_power s"
  "rx_enabled (c6_mac_rx_start P s) = 1"
  "mac_sequence_number (c6_mac_rx_start P s) = mac_sequence_number s"
  "mac.more (c6_mac_rx_start P s) = mac.more s"
  "length (rx_buffer (c6_mac_rx_start P s)) = 512"
  by (simp_all add: c6_mac_rx_start_def Let_def)

lemma install_ccmp_frame [simp, frame_rules]:
  "tx_buffer (c6_mac_install_ccmp P peer key s) = tx_buffer s"
  "active_channel (c6_mac_install_ccmp P peer key s) = active_channel s"
  "active_power (c6_mac_install_ccmp P peer key s) = active_power s"
  "rx_enabled (c6_mac_install_ccmp P peer key s) = rx_enabled s"
  "mac_sequence_number (c6_mac_install_ccmp P peer key s) = mac_sequence_number s"
  "mac.more (c6_mac_install_ccmp P peer key s) = mac.more s"
  by (simp_all add: c6_mac_install_ccmp_def Let_def case_prod_beta)

lemma set_interface_frame [simp, frame_rules]:
  "tx_buffer (c6_mac_set_interface_address P a s) = tx_buffer s"
  "active_channel (c6_mac_set_interface_address P a s) = active_channel s"
  "active_power (c6_mac_set_interface_address P a s) = active_power s"
  "rx_enabled (c6_mac_set_interface_address P a s) = rx_enabled s"
  "mac_sequence_number (c6_mac_set_interface_address P a s) = mac_sequence_number s"
  "mac.more (c6_mac_set_interface_address P a s) = mac.more s"
  by (simp_all add: c6_mac_set_interface_address_def Let_def)

section \<open>Registers the driver writes\<close>

definition tx_registers :: "u32 set" where
  "tx_registers = {C6_REG_WIFI_TX_QUEUE0_CONTROL, C6_REG_WIFI_INTERRUPT_CLEAR,
                   C6_REG_WIFI_TX_QUEUE_STATE_CLEAR}"

definition ccmp_slot_registers :: "u32 set" where
  "ccmp_slot_registers = (\<lambda>k. C6_REG_WIFI_CRYPTO_SLOT0 + 4 * k) ` {0, 1, 2, 3, 4, 5, 6, 7, 8, 9}"

definition mac_registers :: "u32 set" where
  "mac_registers = tx_registers \<union>
     {C6_REG_INTERRUPT_MATRIX_WIFI_ROUTE, C6_REG_PLIC_ENABLE, C6_REG_PLIC_WIFI_PRIORITY,
      C6_REG_PLIC_THRESHOLD, C6_REG_WIFI_INTERRUPT_MASK, C6_REG_WIFI_RX_BASE,
      C6_REG_WIFI_INTERFACE0_LOW, C6_REG_WIFI_INTERFACE0_HIGH}"

lemma tx_poll_writes: "extends tx_registers (io_log s) (io_log (snd (tx_poll P n s)))"
proof (induction n arbitrary: s)
  case (Suc n)
  let ?s1 = "snd (c6_read32 P C6_REG_WIFI_INTERRUPT_EVENT s)"
  let ?s2 = "snd (c6_read32 P C6_REG_WIFI_TX_QUEUE_STATE ?s1)"
  have s2: "extends tx_registers (io_log s) (io_log ?s1)" "extends tx_registers (io_log s) (io_log ?s2)"
    by (intro extends_bus extends_refl)+
  then have "extends tx_registers (io_log s) (io_log (snd (tx_poll P n ?s1)))"
    "extends tx_registers (io_log s) (io_log (snd (tx_poll P n ?s2)))"
    using Suc.IH extends_trans by blast+
  moreover have "extends tx_registers (io_log s) (io_log (c6_write32 P C6_REG_WIFI_TX_QUEUE_STATE_CLEAR 1
      (c6_write32 P C6_REG_WIFI_INTERRUPT_CLEAR WIFI_TX_DONE ?s2)))"
    using s2(2) by (intro extends_bus) (simp_all add: tx_registers_def)
  ultimately show ?case
    by (simp only: tx_poll.simps case_prod_beta Let_def snd_conv split: if_split) simp
qed simp

lemma tx_frame_writes [write_set]:
  "extends tx_registers (io_log s) (io_log (snd (c6_mac_tx_frame P f n s)))"
proof -
  let ?t = "c6_write32 P C6_REG_WIFI_TX_QUEUE0_CONTROL
      (WIFI_QUEUE_ENABLE OR (addr_tx_descriptor P AND 0x000fffff))
      (s\<lparr>tx_buffer := stage_frame f n (tx_buffer s),
        tx_descriptor := c6_dma_tx_descriptor (addr_tx_buffer P)\<rparr>)"
  have "extends tx_registers (io_log s) (io_log ?t)"
    by (rule extends_write_trans) (simp_all add: tx_registers_def)
  with tx_poll_writes [of ?t P 50000] show ?thesis
    by (auto simp: c6_mac_tx_frame_def Let_def intro: extends_trans)
qed

lemma tx_probe_writes [write_set]:
  "extends tx_registers (io_log s) (io_log (snd (c6_mac_tx_probe P tag s)))"
proof -
  have "io_log (snd (make_probe_request tag s)) = io_log s"
    by (simp add: make_probe_request_def Let_def split: prod.split)
  then show ?thesis
    using tx_frame_writes [of "snd (make_probe_request tag s)" P]
    by (simp add: c6_mac_tx_probe_def Let_def)
qed

lemma install_ccmp_writes:
  "extends (insert C6_REG_WIFI_CRYPTO_VALID ccmp_slot_registers) (io_log s)
     (io_log (c6_mac_install_ccmp P peer key s))"
  unfolding c6_mac_install_ccmp_def Let_def case_prod_beta
  by (intro extends_bus extends_refl) (simp_all add: ccmp_slot_registers_def image_iff)

lemma set_interface_writes [write_set]:
  "extends {C6_REG_WIFI_INTERFACE0_LOW, C6_REG_WIFI_INTERFACE0_HIGH} (io_log s)
     (io_log (c6_mac_set_interface_address P address s))"
  unfolding c6_mac_set_interface_address_def Let_def
  by (intro extends_bus extends_refl) simp_all

lemma mac_init_writes [write_set]:
  "extends mac_registers (io_log s) (io_log (snd (c6_mac_init P s)))"
  unfolding c6_mac_init_def Let_def case_prod_beta snd_conv
  by (intro extends_bus extends_refl) (simp_all add: mac_registers_def tx_registers_def)

section \<open>The transmit buffer\<close>

lemma length_clear_prefix [simp]: "length (clear_prefix b) = length b"
  by (simp add: clear_prefix_def)

lemma clear_prefix_slice [loop_slice]:
  "8 \<le> length b \<Longrightarrow> clear_prefix b = take 1 b @ replicate 7 0 @ drop 8 b"
  by (rule nth_equalityI) (auto simp: clear_prefix_def nth_fold_upd nth_append)

lemma length_stage_frame [simp]: "length (stage_frame f n b) = length b"
  by (simp add: stage_frame_def Let_def split: frame_ptr.splits)

lemma stage_frame_slice:
  assumes "length b = 256" and "8 + unat n \<le> 256" and "unat n \<le> length f"
  shows "stage_frame (Frame f) n b =
         to_u8 (n + 4) # replicate 7 0 @ take (unat n) f @ drop (8 + unat n) b"
proof -
  have "clear_prefix (b[0 := to_u8 (n + 4)]) = to_u8 (n + 4) # replicate 7 0 @ drop 8 b"
    using assms(1) by (cases b) (simp_all add: clear_prefix_slice)
  moreover have "drop (8 + unat n) ((to_u8 (n + 4) # replicate 7 0) @ drop 8 b) = drop (8 + unat n) b"
    by (simp only: drop_append) (simp add: add.commute)
  ultimately show ?thesis
    using assms by (simp add: stage_frame_def Let_def copy_slice)
qed

lemma tx_length_refused_iff:
  "\<not> tx_length_refused n \<longleftrightarrow> (10 \<le> unat n \<and> unat n \<le> 244) \<or> 2 ^ 32 - 12 \<le> unat n"
proof -
  have "unat n < 2 ^ 32"
    using unsigned_less [where w = n, where 'a = nat] by simp
  then show ?thesis
    by (auto simp: tx_length_refused_def word_less_nat_alt not_less unat_word_ariths
        mod_if word_le_nat_alt)
qed

section \<open>The completion poll\<close>

lemma and_exp_bit: "e AND 2 ^ n = 0 \<longleftrightarrow> \<not> bit e n" for e :: u32
  by (rule and_exp_eq_0_iff_not_bit)

lemma and_bit_iff:
  "e AND WIFI_TX_DONE = 0 \<longleftrightarrow> \<not> bit e 7" "e AND WIFI_RX_DONE = 0 \<longleftrightarrow> \<not> bit e 14"
  "e AND 1 = 0 \<longleftrightarrow> \<not> bit e 0" "e AND 0x80000000 = 0 \<longleftrightarrow> \<not> bit e 31"
  "e AND 0x40000000 = 0 \<longleftrightarrow> \<not> bit e 30"
  for e :: u32
  using and_exp_bit [of e 7] and_exp_bit [of e 14] and_exp_bit [of e 0] and_exp_bit [of e 31]
    and_exp_bit [of e 30]
  by (simp_all add: WIFI_TX_DONE_def WIFI_RX_DONE_def)

text \<open>One turn of the poll that did not see the frame complete: either the done event (bit 7) was not
  set, or it was and the queue state did not show queue 0 (bit 0) complete.\<close>

fun failed_poll :: "io list \<Rightarrow> bool" where
  "failed_poll [Rd a e] \<longleftrightarrow> a = C6_REG_WIFI_INTERRUPT_EVENT \<and> \<not> bit e 7"
| "failed_poll [Rd a e, Rd b q] \<longleftrightarrow>
     a = C6_REG_WIFI_INTERRUPT_EVENT \<and> bit e 7 \<and> b = C6_REG_WIFI_TX_QUEUE_STATE \<and> \<not> bit q 0"
| "failed_poll p \<longleftrightarrow> False"

definition completed_by :: "u32 \<Rightarrow> u32 \<Rightarrow> io list" where
  "completed_by event queue =
     [Rd C6_REG_WIFI_INTERRUPT_EVENT event, Rd C6_REG_WIFI_TX_QUEUE_STATE queue,
      Wr C6_REG_WIFI_INTERRUPT_CLEAR WIFI_TX_DONE, Wr C6_REG_WIFI_TX_QUEUE_STATE_CLEAR 1]"

lemma mac_codes [simp]: "C6_MAC_OK \<noteq> C6_MAC_TIMEOUT" "C6_MAC_TIMEOUT \<noteq> C6_MAC_OK"
  by (simp_all add: C6_MAC_OK_def C6_MAC_TIMEOUT_def)

text \<open>The two outcomes of a bounded poll: all \<open>n\<close> turns failed and nothing was written, or fewer than
  \<open>n\<close> turns failed and the next one saw both conditions and acknowledged them.\<close>

definition poll_outcome :: "io list \<Rightarrow> nat \<Rightarrow> io list list \<Rightarrow> int \<times> ('d, 'm) mac_scheme \<Rightarrow> bool" where
  "poll_outcome before n polls r \<longleftrightarrow>
     list_all failed_poll polls \<and>
     (fst r = C6_MAC_TIMEOUT \<and> length polls = n \<and> io_log (snd r) = before @ concat polls \<or>
      (\<exists>e q. fst r = C6_MAC_OK \<and> length polls < n \<and> bit e 7 \<and> bit q 0 \<and>
         io_log (snd r) = before @ concat polls @ completed_by e q))"

lemma poll_outcome_prefix:
  "poll_outcome (before @ p) n polls r \<Longrightarrow> failed_poll p \<Longrightarrow> poll_outcome before (Suc n) (p # polls) r"
  unfolding poll_outcome_def by (elim conjE disjE exE) (simp, rule conjI, simp, rule disjI2, force)

lemma tx_poll_trace: "\<exists>polls. poll_outcome (io_log s) n polls (tx_poll P n s)"
proof (induction n arbitrary: s)
  case 0
  show ?case by (rule exI [of _ "[]"]) (simp add: poll_outcome_def)
next
  case (Suc n)
  let ?e = "fst (c6_read32 P C6_REG_WIFI_INTERRUPT_EVENT s)"
  let ?s1 = "snd (c6_read32 P C6_REG_WIFI_INTERRUPT_EVENT s)"
  let ?q = "fst (c6_read32 P C6_REG_WIFI_TX_QUEUE_STATE ?s1)"
  let ?s2 = "snd (c6_read32 P C6_REG_WIFI_TX_QUEUE_STATE ?s1)"
  let ?p = "[Rd C6_REG_WIFI_INTERRUPT_EVENT ?e]"
  let ?pq = "[Rd C6_REG_WIFI_INTERRUPT_EVENT ?e, Rd C6_REG_WIFI_TX_QUEUE_STATE ?q]"
  consider (idle) "\<not> bit ?e 7" | (busy) "bit ?e 7" "\<not> bit ?q 0" | (acked) "bit ?e 7" "bit ?q 0"
    by blast
  then show ?case
  proof cases
    case idle
    then have "tx_poll P (Suc n) s = tx_poll P n ?s1" and "failed_poll ?p"
      by (simp_all add: case_prod_beta and_bit_iff)
    with Suc.IH [of ?s1] show ?thesis
      using poll_outcome_prefix [of "io_log s" ?p n] by fastforce
  next
    case busy
    then have "tx_poll P (Suc n) s = tx_poll P n ?s2" and "failed_poll ?pq"
      by (simp_all add: case_prod_beta and_bit_iff)
    with Suc.IH [of ?s2] show ?thesis
      using poll_outcome_prefix [of "io_log s" ?pq n] by fastforce
  next
    case acked
    then have "tx_poll P (Suc n) s = (C6_MAC_OK,
        c6_write32 P C6_REG_WIFI_TX_QUEUE_STATE_CLEAR 1
          (c6_write32 P C6_REG_WIFI_INTERRUPT_CLEAR WIFI_TX_DONE ?s2))"
      by (simp add: case_prod_beta Let_def and_bit_iff)
    with acked show ?thesis
      by (intro exI [of _ "[]"]) (auto simp: completed_by_def poll_outcome_def)
  qed
qed

section \<open>Sequence numbers\<close>

lemma sequence_next_mod: "unat (sequence_next n) = Suc (unat n) mod 4096"
proof -
  have "(to_u32 n + 1) AND 0x0fff = take_bit 12 (to_u32 n + 1)"
    by (simp add: take_bit_eq_mask mask_eq_exp_minus_1)
  moreover have "unat n < 65536"
    using unsigned_less [where w = n, where 'a = nat] by simp
  moreover have "(x mod 4294967296) mod 4096 = x mod (4096 :: nat)" for x
    by (rule mod_mod_cancel) simp
  ultimately show ?thesis
    by (simp add: sequence_next_def unsigned_ucast_eq unsigned_take_bit_eq take_bit_eq_mod
        unat_word_ariths mod_mod_cancel)
qed

lemma sequence_bytes:
  "unat n < 4096 \<Longrightarrow> unat (sequence_low n) + 256 * unat (sequence_high n) = 16 * unat n"
proof -
  assume "unat n < 4096"
  moreover have "x * 16 mod 256 + 256 * (x div 16 mod 256) = 16 * x" if "x < 4096" for x :: nat
  proof -
    have "x * 16 mod 256 = (x mod 16) * 16" and "x div 16 mod 256 = x div 16"
      using that mult_mod_left [of x 16 16] by (simp_all add: div_less_iff_less_mult)
    moreover have "x div 16 * 16 + x mod 16 = x"
      by simp
    ultimately show ?thesis
      by linarith
  qed
  ultimately show ?thesis
    by (simp add: sequence_low_def sequence_high_def unsigned_ucast_eq push_bit_eq_mult
        drop_bit_eq_div take_bit_eq_mod unat_word_ariths unat_div)
qed

section \<open>Probe requests\<close>

lemma length_append_chars [simp]: "length (fst (append_chars d off n tag)) = length d"
  by (induction d off n tag rule: append_chars.induct) simp_all

definition ssid_of_tag :: "bytes \<Rightarrow> bytes" where
  "ssid_of_tag tag = take 32 (tag_prefix @ takeWhile (\<lambda>c. c \<noteq> 0) tag)"

lemma append_chars_slice:
  "n \<le> 32 \<Longrightarrow> off + 32 \<le> length d \<Longrightarrow>
   append_chars d off n tag =
     (let cs = take (32 - n) (takeWhile (\<lambda>c. c \<noteq> 0) tag)
      in (take (off + n) d @ cs @ drop (off + n + length cs) d, n + length cs))"
proof (induction d off n tag rule: append_chars.induct)
  case (1 d off n)
  then show ?case by simp
next
  case (2 d off n c tag)
  show ?case
  proof (cases "c \<noteq> 0 \<and> n < 32")
    case True
    let ?cs = "take (31 - n) (takeWhile (\<lambda>c. c \<noteq> 0) tag)"
    have "append_chars d off n (c # tag) = append_chars (d[off + n := c]) off (Suc n) tag"
      using True by simp
    also have "\<dots> = (take (off + Suc n) (d[off + n := c]) @ ?cs @
        drop (off + Suc n + length ?cs) (d[off + n := c]), Suc n + length ?cs)"
      using 2 True by (simp add: Let_def)
    also have "take (off + Suc n) (d[off + n := c]) = take (off + n) d @ [c]"
      using 2 True by (simp add: take_Suc_conv_app_nth)
    finally show ?thesis
      using True by (simp add: Let_def Suc_diff_Suc numeral_eq_Suc take_Cons')
  next
    case False
    then show ?thesis by (cases "c = 0") auto
  qed
qed

lemma tag_prefix_eq:
  "tag_prefix = [0x52, 0x45, 0x4d, 0x55, 0x2d, 0x43, 0x36, 0x2d, 0x52, 0x46, 0x2d]"
  by (simp add: tag_prefix_def cstring_def)

lemma length_tag_prefix [simp]: "length tag_prefix = 11"
  by (simp add: tag_prefix_eq)

lemma ssid_of_tag_split: "ssid_of_tag tag = tag_prefix @ take 21 (takeWhile (\<lambda>c. c \<noteq> 0) tag)"
  by (simp add: ssid_of_tag_def)

lemma append_tag_slice:
  assumes "off + 32 \<le> length d"
  shows "append_tag d off tag =
         (take off d @ ssid_of_tag tag @ drop (off + length (ssid_of_tag tag)) d,
          length (ssid_of_tag tag))"
proof -
  let ?cs = "take 21 (takeWhile (\<lambda>c. c \<noteq> 0) tag)"
  let ?d = "take off d @ tag_prefix @ drop (off + 11) d"
  have "append_tag d off tag =
      (take (off + 11) ?d @ ?cs @ drop (off + 11 + length ?cs) ?d, 11 + length ?cs)"
    using assms by (simp add: append_tag_def copy_slice append_chars_slice Let_def)
  moreover have "take (off + 11) ?d = take off d @ tag_prefix"
    using assms by simp
  moreover have "drop (off + 11 + length ?cs) ?d = drop (off + 11 + length ?cs) d"
    using assms by (simp add: add.commute add.left_commute)
  ultimately show ?thesis
    by (simp add: ssid_of_tag_split add.assoc)
qed

text \<open>The transmit buffer that \<open>make_probe_request\<close> leaves: the DMA length byte, seven zero bytes,
  and the 802.11 probe request for the tag's SSID.\<close>

definition probe_request :: "u16 \<Rightarrow> bytes \<Rightarrow> bytes" where
  "probe_request seqno ssid =
     probe_header @ [sequence_low seqno, sequence_high seqno, 0, of_nat (length ssid)] @ ssid"

lemma length_ssid_of_tag: "11 \<le> length (ssid_of_tag tag)" "length (ssid_of_tag tag) \<le> 32"
  by (simp_all add: ssid_of_tag_split)

lemma dma_length_byte:
  "k \<le> 200 \<Longrightarrow> to_u32 (of_nat (k + 4) :: u8) - 4 = of_nat k"
  "k \<le> 200 \<Longrightarrow> to_u8 (of_nat k + 4 :: u32) = of_nat (k + 4)"
proof -
  assume k: "k \<le> 200"
  have "to_u32 (of_nat (k + 4) :: u8) = of_nat (k + 4)"
    using k by (simp add: word_unat_eq_iff unsigned_ucast_eq unsigned_of_nat take_bit_nat_eq_self
        del: of_nat_add)
  then show "to_u32 (of_nat (k + 4) :: u8) - 4 = of_nat k"
    by simp
  show "to_u8 (of_nat k + 4 :: u32) = of_nat (k + 4)"
    using to_u8_of_nat [of "k + 4"] by simp
qed

lemma length_probe_header [simp]: "length probe_header = 22"
  by (simp add: probe_header_def)

lemma probe_buffer_split:
  assumes "length B = 256"
  obtains p h a b c d rest where "B = p @ h @ [a, b, c, d] @ rest"
    and "length p = 8" and "length h = 22" and "length rest = 222"
proof
  have "drop 30 B = [B ! 30, B ! 31, B ! 32, B ! 33] @ drop 34 B"
    using assms Cons_nth_drop_Suc [of 30 B] Cons_nth_drop_Suc [of 31 B]
      Cons_nth_drop_Suc [of 32 B] Cons_nth_drop_Suc [of 33 B] by simp
  moreover have "B = take 8 B @ take 22 (drop 8 B) @ drop 30 B"
    using append_take_drop_id [of 8 B] append_take_drop_id [of 22 "drop 8 B"] by simp
  ultimately show "B = take 8 B @ take 22 (drop 8 B) @ [B ! 30, B ! 31, B ! 32, B ! 33] @ drop 34 B"
    by simp
qed (use assms in simp_all)

lemma take_1_update: "b \<noteq> [] \<Longrightarrow> take (Suc 0) (b[0 := v]) = [v]"
  by (cases b) simp_all

lemma make_probe_request_slice:
  assumes "length (tx_buffer s) = 256"
  shows "make_probe_request tag s =
    (let frame = probe_request (mac_sequence_number s) (ssid_of_tag tag)
     in (of_nat (length frame),
         s\<lparr>mac_sequence_number := sequence_next (mac_sequence_number s),
           tx_buffer := of_nat (length frame + 4) # replicate 7 0 @ frame @
                        drop (8 + length frame) (tx_buffer s)\<rparr>))"
proof -
  obtain p h a b c d rest where B: "tx_buffer s = p @ h @ [a, b, c, d] @ rest"
    and len: "length p = 8" "length h = 22" "length rest = 222"
    using probe_buffer_split [OF assms] .
  let ?ssid = "ssid_of_tag tag"
  have n: "length ?ssid \<le> 32" by (rule length_ssid_of_tag)
  have c: "copy (p @ h @ [a, b, c, d] @ rest) 8 probe_header 22 =
           p @ probe_header @ [a, b, c, d] @ rest"
    using len by (simp add: copy_slice)
  have p: "p \<noteq> []"
    using len(1) by auto
  have d4: "drop (4 + k) (w # x # y # z # r) = drop k r" for k and w x y z :: u8 and r
    by (simp add: numeral_eq_Suc)
  have l: "to_u8 (30 + of_nat (length ?ssid) :: u32) = 30 + of_nat (length ?ssid)"
    using to_u8_of_nat [of "30 + length ?ssid"] by simp
  show ?thesis
    using len n p
    by (simp add: make_probe_request_def B c [simplified] append_tag_slice Let_def list_update_append
        clear_prefix_slice probe_request_def take_1_update l d4)
qed

section \<open>Reception\<close>

text \<open>The outcome of a receive poll as a function of the event register and the descriptor that the
  device left: event bit 14, descriptor bits 31 (owned by the device) and 30 (end of frame), and the
  14-bit length field above bit 14, which counts 92 bytes of metadata and four FCS bytes.\<close>

definition rx_length :: "dma_descriptor \<Rightarrow> nat" where
  "rx_length desc = unat (d_control desc) div 2 ^ 14 mod 2 ^ 14"

definition rx_verdict :: "u32 \<Rightarrow> dma_descriptor \<Rightarrow> u32 \<Rightarrow> int" where
  "rx_verdict event desc capacity =
     (if \<not> bit event 14 then C6_MAC_NO_PACKET
      else if bit (d_control desc) 31 \<or> \<not> bit (d_control desc) 30 \<or> rx_length desc \<notin> {96..512}
      then C6_MAC_INVALID_RX_DESCRIPTOR
      else if rx_length desc - 96 > unat capacity then C6_MAC_BUFFER_TOO_SMALL
      else C6_MAC_RX_FRAME)"

lemma unat_rx_dma_length: "unat (rx_dma_length (d_control desc)) = rx_length desc"
proof -
  have "rx_dma_length c = take_bit 14 (drop_bit 14 c)" for c
    by (simp add: rx_dma_length_def take_bit_eq_mask mask_eq_exp_minus_1)
  then show ?thesis
    by (simp add: rx_length_def unat_div unat_mod take_bit_eq_mod drop_bit_eq_div)
qed

lemma rx_refused_iff:
  "rx_descriptor_refused (d_control desc) \<longleftrightarrow>
   bit (d_control desc) 31 \<or> \<not> bit (d_control desc) 30 \<or> rx_length desc \<notin> {96..512}"
  by (auto simp: rx_descriptor_refused_def and_bit_iff word_less_nat_alt unat_rx_dma_length
      WIFI_RX_METADATA_def WIFI_RX_CAPACITY_def)

lemma rx_frame_length:
  assumes "rx_length desc \<in> {96..512}"
  shows "unat (rx_dma_length (d_control desc) - WIFI_RX_METADATA - 4) = rx_length desc - 96"
proof -
  have "unat (rx_dma_length (d_control desc) - 96) = rx_length desc - 96"
    using assms by (simp add: unat_sub word_le_nat_alt unat_rx_dma_length)
  then show ?thesis
    by (simp add: WIFI_RX_METADATA_def)
qed

lemmas rx_codes = C6_MAC_NO_PACKET_def C6_MAC_INVALID_RX_DESCRIPTOR_def C6_MAC_BUFFER_TOO_SMALL_def
  C6_MAC_RX_FRAME_def

lemma rx_copy_refused:
  assumes "c6_read32 P C6_REG_WIFI_INTERRUPT_EVENT s = (e, t)"
    and "rx_verdict e (rx_descriptor t) capacity \<noteq> C6_MAC_RX_FRAME"
  shows "c6_mac_rx_copy P frame capacity s =
         (rx_verdict e (rx_descriptor t) capacity, frame, None, t)"
  using assms
  by (auto simp: c6_mac_rx_copy_def rx_verdict_def Let_def rx_codes rx_refused_iff and_bit_iff
      word_less_nat_alt rx_frame_length split: if_splits)

lemma rx_copy_accepted:
  assumes "c6_read32 P C6_REG_WIFI_INTERRUPT_EVENT s = (e, t)"
    and "rx_verdict e (rx_descriptor t) capacity = C6_MAC_RX_FRAME"
    and "unat capacity \<le> length frame"
  shows "c6_mac_rx_copy P frame capacity s =
         (let n = rx_length (rx_descriptor t) - 96
          in (C6_MAC_RX_FRAME, take n (drop 92 (rx_buffer t)) @ drop n frame,
              Some (of_nat n, sint (rx_buffer t ! 11)),
              c6_mac_rx_start P (c6_write32 P C6_REG_WIFI_INTERRUPT_CLEAR WIFI_RX_DONE t)))"
proof -
  let ?c = "d_control (rx_descriptor t)"
  let ?n = "rx_dma_length ?c - WIFI_RX_METADATA - 4"
  have ok: "bit e 14" "\<not> rx_descriptor_refused ?c" "rx_length (rx_descriptor t) \<in> {96..512}"
      "rx_length (rx_descriptor t) - 96 \<le> unat capacity"
    using assms(2) by (auto simp: rx_verdict_def rx_codes rx_refused_iff split: if_splits)
  note n = rx_frame_length [OF ok(3)]
  have "length (rx_buffer t) = 512"
    using assms(1) c6_read32_frame(4) [of P C6_REG_WIFI_INTERRUPT_EVENT s] by simp
  then have "copy frame 0 (drop (unat WIFI_RX_METADATA) (rx_buffer t)) (unat ?n) =
      take (unat ?n) (drop 92 (rx_buffer t)) @ drop (unat ?n) frame"
    unfolding n using ok(3,4) assms(3) by (subst copy_slice) (auto simp: WIFI_RX_METADATA_def)
  moreover have "?n = of_nat (rx_length (rx_descriptor t) - 96)"
    by (simp flip: n)
  moreover have "\<not> capacity < ?n"
    using ok(4) by (simp add: word_less_nat_alt n)
  ultimately show ?thesis
    using assms(1) ok(1,2) n by (simp add: c6_mac_rx_copy_def Let_def and_bit_iff)
qed

section \<open>The key slot and the interface address\<close>

definition le_bytes :: "u32 \<Rightarrow> bytes" where
  "le_bytes w = [to_u8 w, to_u8 (shr w 8), to_u8 (shr w 16), to_u8 (shr w 24)]"

lemma le_bytes_load: "4 \<le> length v \<Longrightarrow> le_bytes (load_le32 v) = take 4 v"
  by (cases v; cases "tl v"; cases "tl (tl v)"; cases "tl (tl (tl v))")
     (auto simp: le_bytes_def load_le32_def le32_bytes simp del: drop_bit_or)

section \<open>Properties\<close>

definition mac_zero :: "unit mac" where
  "mac_zero = \<lparr>device = (), io_log = [], tx_buffer = replicate 256 0,
     tx_descriptor = \<lparr>d_control = 0, d_buffer = 0, d_next = 0\<rparr>, rx_buffer = replicate 512 7,
     rx_descriptor = \<lparr>d_control = 0x40800000, d_buffer = 0, d_next = 0\<rparr>,
     active_channel = 6, active_power = 14, rx_enabled = 1, mac_sequence_number = 0\<rparr>"

text \<open>C28.
  Transmission of a frame of 10 to 244 bytes by a ready driver: the DMA buffer then holds the
  length byte (frame plus the four FCS bytes), seven zero bytes and the frame, the rest of the
  buffer is untouched; the queue is started by one write that names the descriptor; the driver then
  polls at most 50000 times and returns OK exactly after it has seen the done event together with
  queue 0 complete and has acknowledged both, and TIMEOUT exactly after 50000 polls in none of
  which the done event came together with queue 0 complete, without any further write.
\<close>

theorem tx_frame_outcome:
  assumes "c6_rf_ready s" and "10 \<le> unat n" and "unat n \<le> 244" and "unat n \<le> length f"
    and "length (tx_buffer s) = 256"
  shows "tx_buffer (snd (c6_mac_tx_frame P (Frame f) n s)) =
           of_nat (unat n + 4) # replicate 7 0 @ take (unat n) f @ drop (8 + unat n) (tx_buffer s) \<and>
         tx_descriptor (snd (c6_mac_tx_frame P (Frame f) n s)) =
           c6_dma_tx_descriptor (addr_tx_buffer P) \<and>
         (\<exists>polls. poll_outcome
            (io_log s @ [Wr C6_REG_WIFI_TX_QUEUE0_CONTROL
                           (WIFI_QUEUE_ENABLE OR (addr_tx_descriptor P AND 0x000fffff))])
            50000 polls (c6_mac_tx_frame P (Frame f) n s))"
proof -
  have "\<not> tx_length_refused n"
    using assms(2,3) by (simp add: tx_length_refused_iff)
  moreover have "to_u8 (n + 4) = of_nat (unat n + 4)"
    using to_u8_of_nat [of "unat n + 4"] by simp
  ultimately show ?thesis
    using assms stage_frame_slice [of "tx_buffer s" n f]
      tx_poll_trace [of "c6_write32 P C6_REG_WIFI_TX_QUEUE0_CONTROL
          (WIFI_QUEUE_ENABLE OR (addr_tx_descriptor P AND 0x000fffff))
          (s\<lparr>tx_buffer := stage_frame (Frame f) n (tx_buffer s),
            tx_descriptor := c6_dma_tx_descriptor (addr_tx_buffer P)\<rparr>)" 50000 P]
    by (simp add: c6_mac_tx_frame_def Let_def)
qed

theorem tx_frame_outcome_witness:
  "tx_buffer (snd (c6_mac_tx_frame (constant_platform 0x81) (Frame (replicate 10 9)) 10 mac_zero))
   = 14 # replicate 7 0 @ replicate 10 9 @ replicate 238 0"
  using tx_frame_outcome [of mac_zero 10 "replicate 10 9" "constant_platform 0x81"]
  by (simp add: mac_zero_def c6_rf_ready_def)

text \<open>C29.
  The length guard of the transmit path, exactly: it lets through the frames of 10 to 244 bytes
  that fit the 256-byte buffer, but also every length of at least \<open>2 ^ 32 - 12\<close>, for which
  \<open>length + 12u\<close> wraps around; the copy loop then runs far past the buffer.
\<close>

theorem tx_length_guard_wraps:
  "\<not> tx_length_refused n \<longleftrightarrow> unat n \<in> {10..244} \<union> {4294967284..4294967295}"
proof -
  have "unat n \<le> 4294967295"
    using unsigned_less [where w = n, where 'a = nat] by simp
  then show ?thesis
    by (simp add: tx_length_refused_iff)
qed

text \<open>A probe transmission sends exactly one well-formed 802.11 probe request: the fixed header, the
  12-bit sequence number in bits 4 to 15, and an SSID element whose length byte counts the prefix
  and the tag up to its terminator, cut at 32 bytes; the sequence number advances modulo 4096.
\<close>

theorem tx_probe_frame:
  assumes "c6_rf_ready s" and "length (tx_buffer s) = 256"
  shows "tx_buffer (snd (c6_mac_tx_probe P tag s)) =
           (let frame = probe_request (mac_sequence_number s) (ssid_of_tag tag)
            in of_nat (length frame + 4) # replicate 7 0 @ frame @
               drop (8 + length frame) (tx_buffer s)) \<and>
         length (probe_request (mac_sequence_number s) (ssid_of_tag tag)) \<in> {37..58} \<and>
         unat (mac_sequence_number (snd (c6_mac_tx_probe P tag s))) =
           Suc (unat (mac_sequence_number s)) mod 4096"
proof -
  let ?f = "probe_request (mac_sequence_number s) (ssid_of_tag tag)"
  let ?s = "snd (make_probe_request tag s)"
  have len: "length ?f = 26 + length (ssid_of_tag tag)"
    by (simp add: probe_request_def)
  have bounds: "11 \<le> length (ssid_of_tag tag)" "length (ssid_of_tag tag) \<le> 32"
    by (rule length_ssid_of_tag)+
  have s: "?s = s\<lparr>mac_sequence_number := sequence_next (mac_sequence_number s),
      tx_buffer := of_nat (length ?f + 4) # replicate 7 0 @ ?f @ drop (8 + length ?f) (tx_buffer s)\<rparr>"
    using make_probe_request_slice [OF assms(2)] by (simp add: Let_def)
  have n: "to_u32 (tx_buffer ?s ! 0) - 4 = of_nat (length ?f)"
    using bounds dma_length_byte(1) [of "length ?f"] by (simp only: s len) simp
  have st: "stage_frame TxBufferFrame (of_nat (length ?f)) (tx_buffer ?s) = tx_buffer ?s"
    using assms(2) bounds
    by (simp add: stage_frame_def Let_def s clear_prefix_slice dma_length_byte(2) len del: of_nat_add)
  have "unat (of_nat (length ?f) :: u32) = length ?f"
    using bounds by (simp add: len unsigned_of_nat take_bit_nat_eq_self del: of_nat_add)
  then have "\<not> tx_length_refused (of_nat (length ?f))"
    using bounds by (simp add: tx_length_refused_iff len del: of_nat_add)
  moreover have "c6_rf_ready ?s"
    using assms(1) by (simp add: s c6_rf_ready_def)
  ultimately have "tx_buffer (snd (c6_mac_tx_probe P tag s)) = tx_buffer ?s"
    using assms(1) st by (simp add: c6_mac_tx_probe_def Let_def n c6_mac_tx_frame_def)
  moreover have "mac_sequence_number (snd (c6_mac_tx_probe P tag s)) = mac_sequence_number ?s"
    using assms(1) by (simp add: c6_mac_tx_probe_def Let_def)
  ultimately show ?thesis
    using bounds by (simp add: s Let_def len sequence_next_mod)
qed

theorem tx_probe_frame_witness:
  "unat (mac_sequence_number (snd (c6_mac_tx_probe (constant_platform 0x81) (cstring ''CH1'') mac_zero))) = 1"
  using tx_probe_frame [of mac_zero "constant_platform 0x81" "cstring ''CH1''"]
  by (simp add: mac_zero_def c6_rf_ready_def)

text \<open>C30.
  A receive poll, in every case.  The verdict depends only on the event register and the
  descriptor word.  On success \<open>n\<close> is the length field of the descriptor less 96, the caller's first
  \<open>n\<close> bytes are the frame without its 92 bytes of metadata and its four FCS bytes, all read inside the
  512-byte DMA buffer and written inside the caller's capacity, the reported length is \<open>n\<close> and the
  reported signal strength is byte 11 of the metadata read as a signed byte; then the event is
  acknowledged, the front end enabled, and the descriptor given back empty and with its full capacity before
  the base register is written.  In every other case the caller's buffer and output variables are
  untouched and no register is written.
\<close>

theorem rx_copy_outcome:
  assumes "c6_read32 P C6_REG_WIFI_INTERRUPT_EVENT s = (e, t)" and "unat capacity \<le> length frame"
  shows "(if rx_verdict e (rx_descriptor t) capacity = C6_MAC_RX_FRAME
     then let n = rx_length (rx_descriptor t) - 96;
              u = c6_rf_rx_enable P 1 (c6_write32 P C6_REG_WIFI_INTERRUPT_CLEAR WIFI_RX_DONE t);
              armed = \<lparr>d_control = 0x80800200, d_buffer = addr_rx_buffer P, d_next = 0\<rparr>;
              v = c6_write32 P C6_REG_WIFI_RX_BASE (addr_rx_descriptor P) (u\<lparr>rx_descriptor := armed\<rparr>)
          in n \<le> unat capacity \<and> 92 + n \<le> 508 \<and>
             c6_mac_rx_copy P frame capacity s =
               (C6_MAC_RX_FRAME, take n (drop 92 (rx_buffer t)) @ drop n frame,
                Some (of_nat n, sint (rx_buffer t ! 11)), v) \<and>
             io_log v = io_log s @
               [Rd C6_REG_WIFI_INTERRUPT_EVENT e, Wr C6_REG_WIFI_INTERRUPT_CLEAR WIFI_RX_DONE,
                Wr C6_REG_RF_FRONTEND_FORCE 0, Wr C6_REG_WIFI_RX_BASE (addr_rx_descriptor P)]
     else c6_mac_rx_copy P frame capacity s = (rx_verdict e (rx_descriptor t) capacity, frame, None, t) \<and>
          io_log t = io_log s @ [Rd C6_REG_WIFI_INTERRUPT_EVENT e])"
proof -
  have io: "io_log t = io_log s @ [Rd C6_REG_WIFI_INTERRUPT_EVENT e]"
    using assms(1) c6_read32_io [of P C6_REG_WIFI_INTERRUPT_EVENT s] by simp
  show ?thesis
  proof (cases "rx_verdict e (rx_descriptor t) capacity = C6_MAC_RX_FRAME")
    case True
    then have "rx_length (rx_descriptor t) \<in> {96..512}" "rx_length (rx_descriptor t) - 96 \<le> unat capacity"
      by (auto simp: rx_verdict_def rx_codes split: if_splits)
    with io True show ?thesis
      unfolding rx_copy_accepted [OF assms(1) True assms(2)]
      by (auto simp: Let_def c6_mac_rx_start_def c6_dma_rx_descriptor_def WIFI_RX_CAPACITY_def)
  next
    case False
    with io rx_copy_refused [OF assms(1) False] show ?thesis
      by simp
  qed
qed

theorem rx_copy_outcome_witness:
  "fst (c6_mac_rx_copy (constant_platform 0x4000) (replicate 512 0) 512 mac_zero) = C6_MAC_RX_FRAME \<and>
   fst (snd (snd (c6_mac_rx_copy (constant_platform 0x4000) (replicate 512 0) 512 mac_zero))) = Some (416, 7)"
proof -
  let ?r = "c6_read32 (constant_platform 0x4000) C6_REG_WIFI_INTERRUPT_EVENT mac_zero"
  have r: "?r = (0x4000, snd ?r)"
    by (simp add: prod_eq_iff)
  have d: "rx_descriptor (snd ?r) = rx_descriptor mac_zero" and b: "rx_buffer (snd ?r) ! 11 = 7"
    by (simp_all add: c6_read32_def constant_platform_def dma_view_def clip_rx_def mac_zero_def)
  have l: "rx_length (rx_descriptor mac_zero) = 512"
    by (simp add: rx_length_def mac_zero_def)
  have v: "rx_verdict 0x4000 (rx_descriptor mac_zero) 512 = C6_MAC_RX_FRAME"
    using l by (simp add: rx_verdict_def mac_zero_def bit_numeral_simps)
  show ?thesis
    using rx_copy_outcome [OF r, of 512 "replicate 512 0"] unfolding d l v Let_def b by simp
qed

section \<open>A receiver that latches its event\<close>

text \<open>
  A device that holds the receive event in its state: reading the event register reports it and
  leaves it pending, and only a write of the event bit to the clear register takes it back.
\<close>

definition latched_platform :: "bool platform" where
  "latched_platform =
     \<lparr>dev_read = (\<lambda>a m d. (if a = C6_REG_WIFI_INTERRUPT_EVENT \<and> d then WIFI_RX_DONE else 0, d,
                           m_rx_descriptor m, m_rx_buffer m)),
      dev_write = (\<lambda>a w m d. (d \<and> \<not> (a = C6_REG_WIFI_INTERRUPT_CLEAR \<and> bit w 14),
                              m_rx_descriptor m, m_rx_buffer m)),
      addr_tx_buffer = 0x40810000, addr_tx_descriptor = 0x40810100,
      addr_rx_buffer = 0x40810200, addr_rx_descriptor = 0x40810400,
      stack_junk = (\<lambda>i. 0xa5)\<rparr>"

definition mac_pending :: "bool mac" where
  "mac_pending = \<lparr>device = True, io_log = [], tx_buffer = replicate 256 0,
     tx_descriptor = \<lparr>d_control = 0, d_buffer = 0, d_next = 0\<rparr>, rx_buffer = replicate 512 7,
     rx_descriptor = \<lparr>d_control = 0x40800000, d_buffer = 0, d_next = 0\<rparr>,
     active_channel = 6, active_power = 14, rx_enabled = 1, mac_sequence_number = 0\<rparr>"

text \<open>The state after \<open>k\<close> receive polls.\<close>

primrec rx_polls :: "'d platform \<Rightarrow> bytes \<Rightarrow> u32 \<Rightarrow> nat \<Rightarrow> ('d, 'm) mac_scheme \<Rightarrow> ('d, 'm) mac_scheme" where
  "rx_polls P frame capacity 0 s = s"
| "rx_polls P frame capacity (Suc k) s =
     snd (snd (snd (c6_mac_rx_copy P frame capacity (rx_polls P frame capacity k s))))"

text \<open>C31.
  A frame that the descriptor accepts but that is longer than the caller's buffer blocks reception
  for good.  Let the device be in a state where the receive event is pending, and let reading the event
  register keep it pending and leave the descriptor, which the driver owns, alone; nothing is said
  of what writes do.  Then every later poll returns the same error and finds the same descriptor,
  and the only accesses of all these polls are reads of the event register: the receive path
  neither acknowledges the event nor arms the descriptor again.  The main loop calls it with a
  capacity of 256, so frames of 257 to 416 bytes suffice.
\<close>

theorem rx_oversized_wedges:
  assumes "pending (device s)"
    and "\<And>m d. pending d \<Longrightarrow> \<exists>v d'. bit v 14 \<and> pending d' \<and>
           dev_read P C6_REG_WIFI_INTERRUPT_EVENT m d = (v, d', m_rx_descriptor m, m_rx_buffer m)"
    and "rx_verdict WIFI_RX_DONE (rx_descriptor s) capacity = C6_MAC_BUFFER_TOO_SMALL"
  shows "fst (c6_mac_rx_copy P frame capacity (rx_polls P frame capacity k s)) = C6_MAC_BUFFER_TOO_SMALL \<and>
         rx_descriptor (rx_polls P frame capacity k s) = rx_descriptor s \<and>
         (\<exists>vs. length vs = k \<and> list_all (\<lambda>v. bit v 14) vs \<and>
            io_log (rx_polls P frame capacity k s) =
              io_log s @ map (Rd C6_REG_WIFI_INTERRUPT_EVENT) vs)"
proof -
  have one: "\<exists>v t. c6_mac_rx_copy P frame capacity u = (C6_MAC_BUFFER_TOO_SMALL, frame, None, t) \<and>
      pending (device t) \<and> rx_descriptor t = rx_descriptor s \<and> bit v 14 \<and>
      io_log t = io_log u @ [Rd C6_REG_WIFI_INTERRUPT_EVENT v]"
    if u: "pending (device u)" "rx_descriptor u = rx_descriptor s" for u :: "('a, 'b) mac_scheme"
  proof -
    let ?t = "snd (c6_read32 P C6_REG_WIFI_INTERRUPT_EVENT u)"
    obtain v where v: "c6_read32 P C6_REG_WIFI_INTERRUPT_EVENT u = (v, ?t)" "bit v 14"
        "pending (device ?t)" "rx_descriptor ?t = rx_descriptor s"
      using assms(2) [OF u(1), of "dma_view u"] u(2) by (auto simp: c6_read32_def dma_view_def)
    have "rx_verdict v (rx_descriptor ?t) capacity = C6_MAC_BUFFER_TOO_SMALL"
      using assms(3) v(2,4) by (auto simp: rx_verdict_def rx_codes split: if_splits)
    moreover have "io_log ?t = io_log u @ [Rd C6_REG_WIFI_INTERRUPT_EVENT v]"
      using v(1) by (metis c6_read32_io fst_conv)
    ultimately show ?thesis
      using rx_copy_refused [OF v(1)] v by (auto simp: rx_codes)
  qed
  have "pending (device (rx_polls P frame capacity k s)) \<and>
        rx_descriptor (rx_polls P frame capacity k s) = rx_descriptor s \<and>
        (\<exists>vs. length vs = k \<and> list_all (\<lambda>v. bit v 14) vs \<and>
           io_log (rx_polls P frame capacity k s) = io_log s @ map (Rd C6_REG_WIFI_INTERRUPT_EVENT) vs)"
  proof (induction k)
    case 0
    show ?case using assms(1) by simp
  next
    case (Suc k)
    then obtain vs where vs: "length vs = k" "list_all (\<lambda>v. bit v 14) vs"
      "io_log (rx_polls P frame capacity k s) = io_log s @ map (Rd C6_REG_WIFI_INTERRUPT_EVENT) vs" by blast
    from Suc one obtain v t where "c6_mac_rx_copy P frame capacity (rx_polls P frame capacity k s) =
        (C6_MAC_BUFFER_TOO_SMALL, frame, None, t)" "pending (device t)" "rx_descriptor t = rx_descriptor s"
        "bit v 14" "io_log t = io_log (rx_polls P frame capacity k s) @ [Rd C6_REG_WIFI_INTERRUPT_EVENT v]"
      by blast
    with vs show ?case
      by (intro conjI exI [of _ "vs @ [v]"]) simp_all
  qed
  with one show ?thesis
    by fastforce
qed

theorem rx_oversized_wedges_witness:
  "fst (c6_mac_rx_copy latched_platform (replicate 256 0) 256
     (rx_polls latched_platform (replicate 256 0) 256 9 mac_pending)) = C6_MAC_BUFFER_TOO_SMALL"
proof -
  have d: "\<exists>v d'. bit v 14 \<and> d' \<and>
      dev_read latched_platform C6_REG_WIFI_INTERRUPT_EVENT m d = (v, d', m_rx_descriptor m, m_rx_buffer m)"
    if d for m d
    using that by (intro exI [of _ WIFI_RX_DONE] exI [of _ True])
      (simp add: latched_platform_def WIFI_RX_DONE_def bit_simps)
  have "rx_verdict WIFI_RX_DONE (rx_descriptor mac_pending) 256 = C6_MAC_BUFFER_TOO_SMALL"
    by (simp add: rx_verdict_def mac_pending_def rx_length_def WIFI_RX_DONE_def bit_simps)
  then show ?thesis
    using rx_oversized_wedges [of "\<lambda>d. d" mac_pending latched_platform 256 "replicate 256 0" 9] d
    by (simp add: mac_pending_def)
qed

text \<open>
  Installing a CCMP key programs the peer address and all sixteen key bytes, little-endian, into
  slot 0, clears the four unused key words, and sets the slot's valid bit last, leaving the other
  valid bits as the register had them.
\<close>

theorem install_ccmp_trace:
  assumes "length peer = 6" and "length key = 16"
  shows "\<exists>m c k0 k1 k2 k3 v.
    io_log (c6_mac_install_ccmp P peer key s) = io_log s @
      [Wr C6_REG_WIFI_CRYPTO_SLOT0 m, Wr (C6_REG_WIFI_CRYPTO_SLOT0 + 4) c,
       Wr (C6_REG_WIFI_CRYPTO_SLOT0 + 8) k0, Wr (C6_REG_WIFI_CRYPTO_SLOT0 + 12) k1,
       Wr (C6_REG_WIFI_CRYPTO_SLOT0 + 16) k2, Wr (C6_REG_WIFI_CRYPTO_SLOT0 + 20) k3,
       Wr (C6_REG_WIFI_CRYPTO_SLOT0 + 24) 0, Wr (C6_REG_WIFI_CRYPTO_SLOT0 + 28) 0,
       Wr (C6_REG_WIFI_CRYPTO_SLOT0 + 32) 0, Wr (C6_REG_WIFI_CRYPTO_SLOT0 + 36) 0,
       Rd C6_REG_WIFI_CRYPTO_VALID v, Wr C6_REG_WIFI_CRYPTO_VALID (v OR 1)] \<and>
    le_bytes m @ take 2 (le_bytes c) = peer \<and>
    le_bytes k0 @ le_bytes k1 @ le_bytes k2 @ le_bytes k3 = key"
proof -
  let ?c = "to_u32 (peer ! 4) OR shl (to_u32 (peer ! 5)) 8 OR shl 3 18 OR shl 3 21"
  have key: "le_bytes (load_le32 key) @ le_bytes (load_le32 (drop 4 key)) @
      le_bytes (load_le32 (drop 8 key)) @ le_bytes (load_le32 (drop 12 key)) = key"
    using assms(2) append_take_drop_id [of 4 key] append_take_drop_id [of 4 "drop 4 key"]
      append_take_drop_id [of 4 "drop 8 key"] by (simp add: le_bytes_load)
  have "(7077888 :: u8) = 0" "(27648 :: u8) = 0"
    by simp_all
  then have flags: "x OR 7077888 = x" "x OR 27648 = x" for x :: u8
    by (simp_all only: or.right_neutral)
  have c: "to_u8 ?c = peer ! 4" "to_u8 (shr ?c 8) = peer ! 5"
    by (simp_all add: unsigned_or_eq ucast_8_32_byte byte_shifts flags)
  have four: "take 4 peer @ [peer ! 4, peer ! 5] = peer"
    using assms(1) Cons_nth_drop_Suc [of 4 peer] Cons_nth_drop_Suc [of 5 peer]
      append_take_drop_id [of 4 peer] by simp
  have two: "take 2 (le_bytes ?c) = [peer ! 4, peer ! 5]"
    unfolding le_bytes_def c by simp
  have "le_bytes (load_le32 peer) = take 4 peer"
    using assms(1) by (simp add: le_bytes_load)
  then have peer: "le_bytes (load_le32 peer) @ take 2 (le_bytes ?c) = peer"
    by (simp only: two four)
  have "\<exists>v. io_log (c6_mac_install_ccmp P peer key s) = io_log s @
      [Wr C6_REG_WIFI_CRYPTO_SLOT0 (load_le32 peer), Wr (C6_REG_WIFI_CRYPTO_SLOT0 + 4) ?c,
       Wr (C6_REG_WIFI_CRYPTO_SLOT0 + 8) (load_le32 key),
       Wr (C6_REG_WIFI_CRYPTO_SLOT0 + 12) (load_le32 (drop 4 key)),
       Wr (C6_REG_WIFI_CRYPTO_SLOT0 + 16) (load_le32 (drop 8 key)),
       Wr (C6_REG_WIFI_CRYPTO_SLOT0 + 20) (load_le32 (drop 12 key)),
       Wr (C6_REG_WIFI_CRYPTO_SLOT0 + 24) 0, Wr (C6_REG_WIFI_CRYPTO_SLOT0 + 28) 0,
       Wr (C6_REG_WIFI_CRYPTO_SLOT0 + 32) 0, Wr (C6_REG_WIFI_CRYPTO_SLOT0 + 36) 0,
       Rd C6_REG_WIFI_CRYPTO_VALID v, Wr C6_REG_WIFI_CRYPTO_VALID (v OR 1)]"
    by (simp add: c6_mac_install_ccmp_def Let_def case_prod_beta load_le32_def [of peer])
  then show ?thesis
    using key peer by blast
qed

theorem install_ccmp_trace_witness:
  "\<exists>log. io_log (c6_mac_install_ccmp (constant_platform 4) [1, 2, 3, 4, 5, 6] (replicate 16 7) mac_zero) =
          log @ [Rd C6_REG_WIFI_CRYPTO_VALID 4, Wr C6_REG_WIFI_CRYPTO_VALID 5]"
  using install_ccmp_trace [of "[1, 2, 3, 4, 5, 6]" "replicate 16 7" "constant_platform 4" mac_zero]
  by (auto simp: c6_mac_install_ccmp_def Let_def case_prod_beta mac_zero_def)

end
