(* ===== verification/Station.thy ===== *)
theory Station
  imports Mac Systems "HOL-Library.Sublist"
begin

text \<open>
  The open-network station (\<^verbatim>\<open>station.c\<close>): probe, authenticate, associate, exchange one layer-2
  ping.  The state extends the MAC driver's with the station's sequence counter and its state
  machine.  The lemmas give each transmitted frame byte by byte, independent of the
  uninitialised stack arrays the frames are built in, and the history a state presupposes.
\<close>

section \<open>The code\<close>

datatype station_state =
  STATION_IDLE | STATION_SCANNING | STATION_AUTHENTICATING | STATION_ASSOCIATING | STATION_ASSOCIATED_STATE

record 'd station = "'d mac" +
  sta_sequence_number :: u16
  sta_state :: station_state

definition station_address :: bytes where "station_address = [2, 0, 0, 0, 0, 0xc6]"
definition ap_address :: bytes where "ap_address = [2, 0x52, 0x45, 0x4d, 0x55, 1]"
definition ssid :: bytes where
  "ssid = [0x52, 0x45, 0x4d, 0x55, 0x2d, 0x43, 0x36, 0x2d, 0x4f, 0x50, 0x45, 0x4e]"
definition broadcast :: bytes where "broadcast = replicate 6 0xff"
definition ping_payload :: bytes where
  "ping_payload = [0xaa, 0xaa, 0x03, 0x00, 0x00, 0x00, 0x88, 0xb5, 0x50, 0x49, 0x4e, 0x47]"
definition pong_payload :: bytes where
  "pong_payload = [0xaa, 0xaa, 0x03, 0x00, 0x00, 0x00, 0x88, 0xb5, 0x50, 0x4f, 0x4e, 0x47]"

definition C6_STATION_NONE :: u32 where "C6_STATION_NONE = 0"
definition C6_STATION_SCANNED :: u32 where "C6_STATION_SCANNED = 1"
definition C6_STATION_AUTHENTICATED :: u32 where "C6_STATION_AUTHENTICATED = 2"
definition C6_STATION_ASSOCIATED :: u32 where "C6_STATION_ASSOCIATED = 4"
definition C6_STATION_L2_TX :: u32 where "C6_STATION_L2_TX = 8"
definition C6_STATION_L2_RX :: u32 where "C6_STATION_L2_RX = 16"
definition C6_STATION_FAILED :: u32 where "C6_STATION_FAILED = 32"

text \<open>The 24 bytes both header routines of both stations write.\<close>

definition fill_header :: "bytes \<Rightarrow> u8 \<Rightarrow> u8 \<Rightarrow> bytes \<Rightarrow> bytes \<Rightarrow> bytes \<Rightarrow> u16 \<Rightarrow> bytes" where
  "fill_header frame b0 b1 destination source bssid seqno =
     (let frame = frame[0 := b0, 1 := b1, 2 := 0, 3 := 0];
          frame = copy frame 4 destination 6;
          frame = copy frame 10 source 6;
          frame = copy frame 16 bssid 6
      in frame[22 := sequence_low seqno, 23 := sequence_high seqno])"

definition management_header ::
  "bytes \<Rightarrow> u8 \<Rightarrow> bytes \<Rightarrow> ('d, 'm) station_scheme \<Rightarrow> bytes \<times> ('d, 'm) station_scheme" where
  "management_header frame subtype destination s =
     (fill_header frame subtype 0 destination station_address ap_address (sta_sequence_number s),
      s\<lparr>sta_sequence_number := sequence_next (sta_sequence_number s)\<rparr>)"

definition send_probe_request ::
  "'d platform \<Rightarrow> ('d, 'm) station_scheme \<Rightarrow> int \<times> ('d, 'm) station_scheme" where
  "send_probe_request P s =
     (case management_header (uninit P 48) 0x40 broadcast s of (frame, s) \<Rightarrow>
        (let frame = frame[24 := 0, 25 := of_nat (length ssid)];
             frame = copy frame 26 ssid (length ssid);
             frame = frame[26 + length ssid := 1, 27 + length ssid := 1, 28 + length ssid := 0x82]
         in c6_mac_tx_frame P (Frame frame) (29 + of_nat (length ssid)) s))"

definition send_authentication ::
  "'d platform \<Rightarrow> ('d, 'm) station_scheme \<Rightarrow> int \<times> ('d, 'm) station_scheme" where
  "send_authentication P s =
     (case management_header (uninit P 30) 0xb0 ap_address s of (frame, s) \<Rightarrow>
        (let frame = frame[24 := 0, 25 := 0, 26 := 1, 27 := 0, 28 := 0, 29 := 0]
         in c6_mac_tx_frame P (Frame frame) 30 s))"

definition send_association ::
  "'d platform \<Rightarrow> ('d, 'm) station_scheme \<Rightarrow> int \<times> ('d, 'm) station_scheme" where
  "send_association P s =
     (case management_header (uninit P 48) 0x00 ap_address s of (frame, s) \<Rightarrow>
        (let frame = frame[24 := 0x21, 25 := 0x04, 26 := 10, 27 := 0, 28 := 0,
                           29 := of_nat (length ssid)];
             frame = copy frame 30 ssid (length ssid);
             offset = 30 + length ssid;
             frame = frame[offset := 1]; offset = offset + 1;
             frame = frame[offset := 1]; offset = offset + 1;
             frame = frame[offset := 0x82]; offset = offset + 1
         in c6_mac_tx_frame P (Frame frame) (of_nat offset) s))"

definition send_l2_ping ::
  "'d platform \<Rightarrow> ('d, 'm) station_scheme \<Rightarrow> int \<times> ('d, 'm) station_scheme" where
  "send_l2_ping P s =
     (let frame = fill_header (uninit P 36) 0x08 0x01 ap_address station_address ap_address
                    (sta_sequence_number s);
          s = s\<lparr>sta_sequence_number := sequence_next (sta_sequence_number s)\<rparr>;
          frame = copy frame 24 ping_payload 12
      in c6_mac_tx_frame P (Frame frame) 36 s)"

definition c6_station_start ::
  "'d platform \<Rightarrow> ('d, 'm) station_scheme \<Rightarrow> int \<times> ('d, 'm) station_scheme" where
  "c6_station_start P s = send_probe_request P (s\<lparr>sta_state := STATION_SCANNING\<rparr>)"

definition c6_station_receive ::
  "'d platform \<Rightarrow> bytes \<Rightarrow> u32 \<Rightarrow> ('d, 'm) station_scheme \<Rightarrow> u32 \<times> ('d, 'm) station_scheme" where
  "c6_station_receive P frame len s =
     (if len < 24 \<or> \<not> same (drop 10 frame) ap_address 6 then (C6_STATION_NONE, s)
      else if sta_state s = STATION_SCANNING \<and> frame ! 0 AND 0xfc = 0x50 \<and>
              same (drop 4 frame) station_address 6 then
        (case send_authentication P (s\<lparr>sta_state := STATION_AUTHENTICATING\<rparr>) of (r, s) \<Rightarrow>
           if r \<noteq> 0 then (C6_STATION_FAILED, s) else (C6_STATION_SCANNED, s))
      else if sta_state s = STATION_AUTHENTICATING \<and> frame ! 0 AND 0xfc = 0xb0 \<and>
              len \<ge> 30 \<and> frame ! 26 = 2 \<and> frame ! 28 = 0 \<and> frame ! 29 = 0 then
        (case send_association P (s\<lparr>sta_state := STATION_ASSOCIATING\<rparr>) of (r, s) \<Rightarrow>
           if r \<noteq> 0 then (C6_STATION_FAILED, s) else (C6_STATION_AUTHENTICATED, s))
      else if sta_state s = STATION_ASSOCIATING \<and> frame ! 0 AND 0xfc = 0x10 \<and>
              len \<ge> 30 \<and> frame ! 26 = 0 \<and> frame ! 27 = 0 then
        (case send_l2_ping P (s\<lparr>sta_state := STATION_ASSOCIATED_STATE\<rparr>) of (r, s) \<Rightarrow>
           if r \<noteq> 0 then (C6_STATION_FAILED, s)
           else (C6_STATION_ASSOCIATED OR C6_STATION_L2_TX, s))
      else if sta_state s = STATION_ASSOCIATED_STATE \<and> shr (frame ! 0) 2 AND 3 = 2 \<and>
              same (drop 4 frame) station_address 6 \<and> len \<ge> 36 \<and>
              same (drop 24 frame) pong_payload 12 then (C6_STATION_L2_RX, s)
      else (C6_STATION_NONE, s))"

section \<open>The frames on the air\<close>

text \<open>IEEE 802.11 layout: frame control, duration, three addresses, sequence control, body.\<close>

definition dot11 :: "u8 \<Rightarrow> u8 \<Rightarrow> bytes \<Rightarrow> bytes \<Rightarrow> bytes \<Rightarrow> u16 \<Rightarrow> bytes \<Rightarrow> bytes" where
  "dot11 fc0 fc1 a1 a2 a3 seqno body =
     [fc0, fc1, 0, 0] @ a1 @ a2 @ a3 @ [sequence_low seqno, sequence_high seqno] @ body"

lemma length_dot11 [simp]:
  "length (dot11 fc0 fc1 a1 a2 a3 q body) = 6 + length a1 + length a2 + length a3 + length body"
  by (simp add: dot11_def)

lemma fill_header_dot11:
  assumes "24 \<le> length f" and "length a1 = 6" and "length a2 = 6" and "length a3 = 6"
  shows "fill_header f b0 b1 a1 a2 a3 q = dot11 b0 b1 a1 a2 a3 q (drop 24 f)"
proof -
  have "f \<noteq> []" using assms by auto
  then show ?thesis
    using assms by (simp add: fill_header_def dot11_def loop_slice take_1_update Let_def)
qed

lemma tx_frame_prefix:
  assumes "unat n \<le> length f" and "unat n + 8 \<le> 256"
  shows "c6_mac_tx_frame P (Frame f) n s = c6_mac_tx_frame P (Frame (take (unat n) f)) n s"
proof -
  have "copy b 8 f (unat n) = copy b 8 (take (unat n) f) (unat n)" for b
    by (rule nth_equalityI) (auto simp: nth_copy)
  then show ?thesis
    by (simp add: c6_mac_tx_frame_def stage_frame_def)
qed

definition transmit :: "'d platform \<Rightarrow> bytes \<Rightarrow> ('d, 'm) mac_scheme \<Rightarrow> int \<times> ('d, 'm) mac_scheme" where
  "transmit P f s = c6_mac_tx_frame P (Frame f) (of_nat (length f)) s"

lemma transmitI:
  "unat n \<le> length f \<Longrightarrow> unat n + 8 \<le> 256 \<Longrightarrow> g = take (unat n) f \<Longrightarrow>
   c6_mac_tx_frame P (Frame f) n s = transmit P g s"
  using tx_frame_prefix [of n f P s] by (simp add: transmit_def)

lemmas station_constants = station_address_def ap_address_def ssid_def broadcast_def
  ping_payload_def pong_payload_def

definition probe_frame :: "u16 \<Rightarrow> bytes" where
  "probe_frame q = dot11 0x40 0 broadcast station_address ap_address q
     ([0, 12] @ ssid @ [1, 1, 0x82])"

definition authentication_frame :: "u16 \<Rightarrow> bytes" where
  "authentication_frame q = dot11 0xb0 0 ap_address station_address ap_address q [0, 0, 1, 0, 0, 0]"

definition association_frame :: "u16 \<Rightarrow> bytes" where
  "association_frame q = dot11 0x00 0 ap_address station_address ap_address q
     ([0x21, 0x04, 10, 0, 0, 12] @ ssid @ [1, 1, 0x82])"

definition ping_frame :: "u16 \<Rightarrow> bytes" where
  "ping_frame q = dot11 0x08 0x01 ap_address station_address ap_address q ping_payload"

definition bump :: "('d, 'm) station_scheme \<Rightarrow> ('d, 'm) station_scheme" where
  "bump s = s\<lparr>sta_sequence_number := sequence_next (sta_sequence_number s)\<rparr>"

lemma send_probe_request_eq:
  "send_probe_request P s = transmit P (probe_frame (sta_sequence_number s)) (bump s)"
  unfolding send_probe_request_def management_header_def bump_def prod.case Let_def
  by (rule transmitI) (simp_all add: station_constants probe_frame_def fill_header_dot11 dot11_def loop_slice)

lemma send_authentication_eq:
  "send_authentication P s = transmit P (authentication_frame (sta_sequence_number s)) (bump s)"
  unfolding send_authentication_def management_header_def bump_def prod.case Let_def
  by (rule transmitI) (simp_all add: station_constants authentication_frame_def fill_header_dot11 dot11_def loop_slice)

lemma send_association_eq:
  "send_association P s = transmit P (association_frame (sta_sequence_number s)) (bump s)"
  unfolding send_association_def management_header_def bump_def prod.case Let_def
  by (rule transmitI) (simp_all add: station_constants association_frame_def fill_header_dot11 dot11_def loop_slice)

lemma send_l2_ping_eq:
  "send_l2_ping P s = transmit P (ping_frame (sta_sequence_number s)) (bump s)"
  unfolding send_l2_ping_def bump_def Let_def
  by (rule transmitI) (simp_all add: station_constants ping_frame_def fill_header_dot11 dot11_def loop_slice)

section \<open>Frame conditions\<close>

lemma station_of_more:
  fixes s t :: "('d, 'm) station_scheme"
  assumes "mac.more s = mac.more t"
  shows "sta_state s = sta_state t" and "sta_sequence_number s = sta_sequence_number t"
    and "station.more s = station.more t"
  using assms by (cases s; cases t; simp)+

lemma transmit_more [simp, frame_rules]: "mac.more (snd (transmit P f s)) = mac.more s"
  by (simp add: transmit_def)

lemma transmit_frame [simp, frame_rules]:
  "sta_state (snd (transmit P f s)) = sta_state s"
  "sta_sequence_number (snd (transmit P f s)) = sta_sequence_number s"
  "station.more (snd (transmit P f s)) = station.more s"
  by (rule station_of_more, simp)+

lemma bump_fields [simp]:
  "sta_state (bump s) = sta_state s"
  "sta_sequence_number (bump s) = sequence_next (sta_sequence_number s)"
  "station.more (bump s) = station.more s"
  by (simp_all add: bump_def)

section \<open>The specification: a transition table\<close>

type_synonym rx_frame = "bytes \<times> u32"

definition from_ap :: "bytes \<Rightarrow> rx_frame \<Rightarrow> bool" where
  "from_ap ap fr \<longleftrightarrow> 24 \<le> snd fr \<and> same (drop 10 (fst fr)) ap 6"

definition to_station :: "rx_frame \<Rightarrow> bool" where
  "to_station fr \<longleftrightarrow> same (drop 4 (fst fr)) station_address 6"

definition probe_response :: "bytes \<Rightarrow> rx_frame \<Rightarrow> bool" where
  "probe_response ap fr \<longleftrightarrow> from_ap ap fr \<and> fst fr ! 0 AND 0xfc = 0x50 \<and> to_station fr"

definition auth_accept :: "bytes \<Rightarrow> rx_frame \<Rightarrow> bool" where
  "auth_accept ap fr \<longleftrightarrow> from_ap ap fr \<and> fst fr ! 0 AND 0xfc = 0xb0 \<and> 30 \<le> snd fr \<and>
     fst fr ! 26 = 2 \<and> fst fr ! 28 = 0 \<and> fst fr ! 29 = 0"

definition assoc_accept :: "bytes \<Rightarrow> rx_frame \<Rightarrow> bool" where
  "assoc_accept ap fr \<longleftrightarrow> from_ap ap fr \<and> fst fr ! 0 AND 0xfc = 0x10 \<and> 30 \<le> snd fr \<and>
     fst fr ! 26 = 0 \<and> fst fr ! 27 = 0"

definition l2_pong :: "rx_frame \<Rightarrow> bool" where
  "l2_pong fr \<longleftrightarrow> from_ap ap_address fr \<and> shr (fst fr ! 0) 2 AND 3 = 2 \<and> to_station fr \<and>
     36 \<le> snd fr \<and> same (drop 24 (fst fr)) pong_payload 12"

text \<open>The next state, the frame that answers, and the event reported when the answer was sent.\<close>

fun sta_next :: "station_state \<Rightarrow> rx_frame \<Rightarrow> (station_state \<times> (u16 \<Rightarrow> bytes) \<times> u32) option" where
  "sta_next STATION_SCANNING fr =
     (if probe_response ap_address fr
      then Some (STATION_AUTHENTICATING, authentication_frame, C6_STATION_SCANNED) else None)"
| "sta_next STATION_AUTHENTICATING fr =
     (if auth_accept ap_address fr
      then Some (STATION_ASSOCIATING, association_frame, C6_STATION_AUTHENTICATED) else None)"
| "sta_next STATION_ASSOCIATING fr =
     (if assoc_accept ap_address fr
      then Some (STATION_ASSOCIATED_STATE, ping_frame, C6_STATION_ASSOCIATED OR C6_STATION_L2_TX) else None)"
| "sta_next STATION_IDLE fr = None"
| "sta_next STATION_ASSOCIATED_STATE fr = None"

definition sta_spec ::
  "'d platform \<Rightarrow> rx_frame \<Rightarrow> ('d, 'm) station_scheme \<Rightarrow> u32 \<times> ('d, 'm) station_scheme" where
  "sta_spec P fr s =
     (case sta_next (sta_state s) fr of
        Some (st, answer, event) \<Rightarrow>
          (let r = transmit P (answer (sta_sequence_number s)) (bump (s\<lparr>sta_state := st\<rparr>))
           in (if fst r = 0 then event else C6_STATION_FAILED, snd r))
      | None \<Rightarrow> (if sta_state s = STATION_ASSOCIATED_STATE \<and> l2_pong fr
                 then C6_STATION_L2_RX else C6_STATION_NONE, s))"

lemma receive_spec: "c6_station_receive P f n s = sta_spec P (f, n) s"
  unfolding c6_station_receive_def sta_spec_def
  by (cases "sta_state s")
     (simp_all add: send_authentication_eq send_association_eq send_l2_ping_eq case_prod_beta Let_def
       probe_response_def auth_accept_def assoc_accept_def l2_pong_def from_ap_def to_station_def
       linorder_not_less [symmetric] del: linorder_not_less not_less)

lemma receive_state:
  "sta_state (snd (c6_station_receive P f n s)) =
     (case sta_next (sta_state s) (f, n) of Some (st, _) \<Rightarrow> st | None \<Rightarrow> sta_state s)"
  by (simp add: receive_spec sta_spec_def Let_def split: option.splits prod.splits)

lemma receive_sequence:
  "sta_sequence_number (snd (c6_station_receive P f n s)) =
     (if sta_next (sta_state s) (f, n) = None then sta_sequence_number s
      else sequence_next (sta_sequence_number s))"
  by (simp add: receive_spec sta_spec_def Let_def split: option.splits prod.splits)

section \<open>What a state presupposes\<close>

text \<open>
  The station among the other activities of the firmware: a step starts it, hands it a received
  frame (which the history records), or is an activity of another component, which leaves the
  station's two variables alone.
\<close>

inductive sta_step ::
  "'d platform \<Rightarrow> ('d, 'm) station_scheme \<times> rx_frame list \<Rightarrow> ('d, 'm) station_scheme \<times> rx_frame list \<Rightarrow> bool" for P where
  sta_start_step: "sta_step P (s, h) (snd (c6_station_start P s), h)"
| sta_receive_step: "sta_step P (s, h) (snd (c6_station_receive P f n s), h @ [(f, n)])"
| sta_other_step: "sta_state t = sta_state s \<Longrightarrow> sta_sequence_number t = sta_sequence_number s \<Longrightarrow>
    sta_step P (s, h) (t, h)"

inductive_cases sta_stepE: "sta_step P x y"

fun sta_required :: "station_state \<Rightarrow> (rx_frame \<Rightarrow> bool) list" where
  "sta_required STATION_IDLE = []"
| "sta_required STATION_SCANNING = []"
| "sta_required STATION_AUTHENTICATING = [probe_response ap_address]"
| "sta_required STATION_ASSOCIATING = [probe_response ap_address, auth_accept ap_address]"
| "sta_required STATION_ASSOCIATED_STATE =
     [probe_response ap_address, auth_accept ap_address, assoc_accept ap_address]"

text \<open>\<open>milestones qs h\<close>: the history has, in this order, frames that satisfy the predicates.\<close>

definition milestones :: "(rx_frame \<Rightarrow> bool) list \<Rightarrow> rx_frame list \<Rightarrow> bool" where
  "milestones qs h \<longleftrightarrow> (\<exists>ms. subseq ms h \<and> list_all2 (\<lambda>q m. q m) qs ms)"

lemma milestones_Nil [simp]: "milestones [] h"
  by (auto simp: milestones_def)

lemma milestones_weaken: "milestones qs h \<Longrightarrow> milestones qs (h @ [fr])"
  unfolding milestones_def by (metis list_emb_append2 list_emb_append_mono list_emb_Nil append_Nil2)

lemma milestones_snoc: "milestones qs h \<Longrightarrow> q fr \<Longrightarrow> milestones (qs @ [q]) (h @ [fr])"
proof -
  assume "milestones qs h" and q: "q fr"
  then obtain ms where "subseq ms h" "list_all2 (\<lambda>q m. q m) qs ms" by (auto simp: milestones_def)
  then have "subseq (ms @ [fr]) (h @ [fr])" "list_all2 (\<lambda>q m. q m) (qs @ [q]) (ms @ [fr])"
    using q by (simp_all add: list_all2_appendI)
  then show ?thesis unfolding milestones_def by blast
qed

definition sta_init :: "('d, 'm) station_scheme \<times> rx_frame list \<Rightarrow> bool" where
  "sta_init x \<longleftrightarrow> sta_state (fst x) = STATION_IDLE \<and> sta_sequence_number (fst x) = 0 \<and> snd x = []"

definition sta_inv :: "('d, 'm) station_scheme \<times> rx_frame list \<Rightarrow> bool" where
  "sta_inv x \<longleftrightarrow> milestones (sta_required (sta_state (fst x))) (snd x) \<and>
     unat (sta_sequence_number (fst x)) < 4096"

lemma sequence_next_bound: "unat (sequence_next n) < 4096"
  by (simp add: sequence_next_mod)

lemma sta_next_required:
  "sta_next st fr = Some (st', a, e) \<Longrightarrow>
   \<exists>q. q fr \<and> sta_required st' = sta_required st @ [q]"
  by (cases "(st, fr)" rule: sta_next.cases) (auto split: if_splits)

lemma receive_milestones:
  assumes "milestones (sta_required (sta_state s)) h"
  shows "milestones (sta_required (sta_state (snd (c6_station_receive P f n s)))) (h @ [(f, n)])"
proof (cases "sta_next (sta_state s) (f, n)")
  case None
  then show ?thesis using assms by (simp add: receive_state milestones_weaken)
next
  case (Some r)
  obtain st a e where r: "r = (st, a, e)" by (cases r)
  from sta_next_required [OF Some [unfolded r]] obtain q
    where "q (f, n)" "sta_required st = sta_required (sta_state s) @ [q]" by auto
  then show ?thesis
    using assms Some r by (simp add: receive_state milestones_snoc)
qed

lemma start_fields [simp]:
  "sta_state (snd (c6_station_start P s)) = STATION_SCANNING"
  "sta_sequence_number (snd (c6_station_start P s)) = sequence_next (sta_sequence_number s)"
  by (simp_all add: c6_station_start_def send_probe_request_eq)

lemma sta_step_inv: "sta_inv x \<Longrightarrow> sta_step P x y \<Longrightarrow> sta_inv y"
  by (erule sta_stepE)
     (auto simp: sta_inv_def receive_milestones receive_sequence sequence_next_bound)

interpretation sta_sys: invariant_system sta_init "sta_step P" sta_inv for P
  by unfold_locales (simp add: sta_init_def sta_inv_def, rule sta_step_inv)

section \<open>What reaches the transmit buffer\<close>

lemma transmit_buffer:
  assumes "c6_rf_ready s" and "length (tx_buffer s) = 256" and "10 \<le> length f" and "length f \<le> 244"
  shows "tx_buffer (snd (transmit P f s)) =
         of_nat (length f + 4) # replicate 7 0 @ f @ drop (8 + length f) (tx_buffer s)"
proof -
  have n: "unat (of_nat (length f) :: u32) = length f"
    using assms by (simp add: unsigned_of_nat take_bit_nat_eq_self)
  then have ok: "\<not> tx_length_refused (of_nat (length f))"
    using assms by (simp add: tx_length_refused_iff)
  have "to_u8 (of_nat (length f) + 4 :: u32) = of_nat (length f + 4)"
    using to_u8_of_nat [of "length f + 4"] by simp
  with ok n show ?thesis
    using assms stage_frame_slice [of "tx_buffer s" "of_nat (length f)" f]
    by (simp add: transmit_def c6_mac_tx_frame_def Let_def)
qed

lemma ready_bump [simp]: "c6_rf_ready (bump s) = c6_rf_ready s" "tx_buffer (bump s) = tx_buffer s"
  by (simp_all add: bump_def c6_rf_ready_def)

lemma ready_sta_state [simp]: "c6_rf_ready (s\<lparr>sta_state := st\<rparr>) = c6_rf_ready s"
  by (simp add: c6_rf_ready_def)

lemma answer_lengths:
  "length (probe_frame q) = 41" "length (authentication_frame q) = 30"
  "length (association_frame q) = 45" "length (ping_frame q) = 36"
  by (simp_all add: probe_frame_def authentication_frame_def association_frame_def ping_frame_def
      station_constants)

lemma sta_next_length:
  "sta_next st fr = Some (st', a, e) \<Longrightarrow> 30 \<le> length (a q) \<and> length (a q) \<le> 45"
  by (cases "(st, fr)" rule: sta_next.cases) (auto simp: answer_lengths split: if_splits)

section \<open>Properties\<close>

text \<open>C32.
  Handling a received frame implements the transition table, on every branch: the frames that
  advance the state are exactly the probe response, the accepting authentication and the accepting
  association of the access point, each in its state; the answer is the 802.11 frame of the table
  with the current sequence number, whatever the stack held; a failed transmission is reported
  after the state has advanced; a matching pong is reported in the associated state; anything
  else changes nothing.\<close>

theorem station_receive_refines:
  "c6_station_receive P f n s = sta_spec P (f, n) s"
  by (rule receive_spec)

text \<open>
  When a received frame advances the station and the radio is tuned, the transmit buffer holds the
  length byte, seven zero bytes and exactly the answering 802.11 frame, and the sequence
  counter has advanced by one modulo 4096; the transmission returned within its bounded poll.\<close>

theorem station_answer_on_air:
  assumes "sta_next (sta_state s) (f, n) = Some (st, answer, event)"
    and "c6_rf_ready s" and "length (tx_buffer s) = 256"
  shows "let s' = snd (c6_station_receive P f n s); g = answer (sta_sequence_number s)
         in take (8 + length g) (tx_buffer s') = of_nat (length g + 4) # replicate 7 0 @ g \<and>
            sta_state s' = st \<and>
            unat (sta_sequence_number s') = Suc (unat (sta_sequence_number s)) mod 4096"
proof -
  define g where "g = answer (sta_sequence_number s)"
  have g: "30 \<le> length g" "length g \<le> 45"
    using sta_next_length [OF assms(1)] by (simp_all add: g_def)
  have "snd (c6_station_receive P f n s) = snd (transmit P g (bump (s\<lparr>sta_state := st\<rparr>)))"
    using assms(1) by (simp add: receive_spec sta_spec_def g_def Let_def)
  moreover have "take (8 + length g) (x # replicate 7 0 @ g @ r) = x # replicate 7 0 @ g" for x r
    using take_append [of "8 + length g" "x # replicate 7 0 @ g" r] by simp
  ultimately show ?thesis
    using assms g
    by (simp add: transmit_buffer sequence_next_mod g_def [symmetric] Let_def)
qed

text \<open>A state for the witnesses: tuned to channel 6, station scanning.\<close>

definition station_zero :: "station_state \<Rightarrow> unit station" where
  "station_zero st = mac.extend mac_zero (station.fields 0 st)"

definition probe_reply :: rx_frame where
  "probe_reply = (dot11 0x50 0 station_address ap_address ap_address 0 (replicate 12 0), 36)"

definition auth_reply :: rx_frame where
  "auth_reply = (dot11 0xb0 0 station_address ap_address ap_address 0 [0, 0, 2, 0, 0, 0], 30)"

definition assoc_reply :: rx_frame where
  "assoc_reply = (dot11 0x10 0 station_address ap_address ap_address 0 [0x21, 0x04, 0, 0, 1, 0], 30)"

definition pong_reply :: rx_frame where
  "pong_reply = (dot11 0x08 0x02 station_address ap_address ap_address 0 pong_payload, 36)"

lemmas sample_replies = probe_reply_def auth_reply_def assoc_reply_def pong_reply_def

lemma sample_replies_accepted:
  "probe_response ap_address probe_reply" "auth_accept ap_address auth_reply"
  "assoc_accept ap_address assoc_reply" "l2_pong pong_reply"
  by (simp_all add: sample_replies dot11_def station_constants probe_response_def auth_accept_def
      assoc_accept_def l2_pong_def from_ap_def to_station_def same_slice)

lemma station_zero_fields [simp]:
  "sta_state (station_zero st) = st" "sta_sequence_number (station_zero st) = 0"
  "c6_rf_ready (station_zero st)" "length (tx_buffer (station_zero st)) = 256"
  by (simp_all add: station_zero_def mac_zero_def mac.extend_def station.fields_def c6_rf_ready_def)

theorem station_answer_on_air_witness:
  "sta_state (snd (c6_station_receive (constant_platform 0x81) (fst probe_reply) (snd probe_reply)
     (station_zero STATION_SCANNING))) = STATION_AUTHENTICATING"
  using station_answer_on_air [of "station_zero STATION_SCANNING" "fst probe_reply" "snd probe_reply"
      STATION_AUTHENTICATING authentication_frame C6_STATION_SCANNED "constant_platform 0x81"]
    sample_replies_accepted(1)
  by (simp add: Let_def)

text \<open>In every run of the firmware, a pong is reported only after the access point's probe response, its accepting
  authentication and its accepting association have been received, in this order, whatever other
  frames and activities came between.\<close>

theorem station_pong_earned:
  assumes "reaches sta_init (sta_step P) (s, h)"
    and "fst (c6_station_receive P f n s) = C6_STATION_L2_RX"
  shows "\<exists>p a c. subseq [p, a, c] h \<and> probe_response ap_address p \<and> auth_accept ap_address a \<and>
           assoc_accept ap_address c \<and> l2_pong (f, n)"
proof -
  have "fst (sta_spec P (f, n) s) = C6_STATION_L2_RX"
    using assms(2) by (simp add: receive_spec)
  then have st: "sta_state s = STATION_ASSOCIATED_STATE" "l2_pong (f, n)"
    by (auto simp: sta_spec_def Let_def C6_STATION_L2_RX_def C6_STATION_NONE_def C6_STATION_FAILED_def
        C6_STATION_SCANNED_def C6_STATION_AUTHENTICATED_def C6_STATION_ASSOCIATED_def C6_STATION_L2_TX_def
        split: option.splits if_splits elim!: sta_next.elims)
  have "milestones (sta_required STATION_ASSOCIATED_STATE) h"
    using sta_sys.reaches_inv [OF assms(1)] st by (simp add: sta_inv_def)
  then show ?thesis
    using st by (fastforce simp: milestones_def list_all2_Cons1)
qed

theorem station_pong_earned_witness:
  "\<exists>p a c. subseq [p, a, c] [probe_reply, auth_reply, assoc_reply] \<and> probe_response ap_address p \<and>
     auth_accept ap_address a \<and> assoc_accept ap_address c \<and> l2_pong pong_reply"
proof -
  let ?P = "constant_platform 0x81"
  let ?r = "\<lambda>fr s. snd (c6_station_receive ?P (fst fr) (snd fr) s)"
  let ?s1 = "snd (c6_station_start ?P (station_zero STATION_IDLE))"
  let ?s2 = "?r probe_reply ?s1" and ?h2 = "[] @ [probe_reply]"
  let ?s3 = "?r auth_reply ?s2" and ?h3 = "?h2 @ [auth_reply]"
  let ?s4 = "?r assoc_reply ?s3" and ?h4 = "?h3 @ [assoc_reply]"
  have "reaches sta_init (sta_step ?P) (station_zero STATION_IDLE, [])"
    by (rule reaches_init) (simp add: sta_init_def)
  then have "reaches sta_init (sta_step ?P) (?s1, [])"
    by (rule reaches_step) (rule sta_start_step)
  then have "reaches sta_init (sta_step ?P) (?s2, ?h2)"
    by (rule reaches_step) (metis prod.collapse sta_receive_step)
  then have "reaches sta_init (sta_step ?P) (?s3, ?h3)"
    by (rule reaches_step) (metis prod.collapse sta_receive_step)
  then have r: "reaches sta_init (sta_step ?P) (?s4, ?h4)"
    by (rule reaches_step) (metis prod.collapse sta_receive_step)
  have st: "sta_state ?s4 = STATION_ASSOCIATED_STATE"
    using sample_replies_accepted by (simp add: receive_state)
  then have "fst (c6_station_receive ?P (fst pong_reply) (snd pong_reply) ?s4) = C6_STATION_L2_RX"
    using sample_replies_accepted by (simp add: receive_spec [of _ "fst pong_reply"] sta_spec_def)
  from station_pong_earned [OF r this] show ?thesis by simp
qed

end
