(* ===== verification/Hash_Stream.thy ===== *)
theory Hash_Stream
  imports Prelude
begin

text \<open>
  The two contracts the key management rests on.  \<open>hash_stream\<close> is what a streaming hash promises
  its clients: a context represents the bytes it was fed, and finishing it stores the one-shot hash
  of them.  \<open>keyed_mac\<close> is what the HMAC routine promises the key derivations: it stores the MAC of
  a slice of a message and leaves the rest of the output array alone.
\<close>

locale hash_stream =
  fixes init :: "'c \<Rightarrow> 'c"
    and update :: "'c \<Rightarrow> bytes \<Rightarrow> u32 \<Rightarrow> 'c"
    and final :: "'c \<Rightarrow> bytes \<Rightarrow> 'c \<times> bytes"
    and wf :: "'c \<Rightarrow> bool"
    and represents :: "'c \<Rightarrow> bytes \<Rightarrow> bool"
    and H :: "bytes \<Rightarrow> bytes"
  assumes init_represents: "wf c \<Longrightarrow> represents (init c) []"
    and update_represents:
      "represents c m \<Longrightarrow> unat n \<le> length data \<Longrightarrow>
       represents (update c data n) (m @ take (unat n) data)"
    and final_stores:
      "represents c m \<Longrightarrow> length m < 2 ^ 32 \<Longrightarrow> 20 \<le> length out \<Longrightarrow>
       snd (final c out) = H m @ drop 20 out \<and> wf (fst (final c out))"
    and length_H: "length (H m) = 20"
begin

lemma chunks_represent:
  "represents c m \<Longrightarrow> (\<forall>d\<in>set ds. length d < 2 ^ 32) \<Longrightarrow>
   represents (fold (\<lambda>d c. update c d (of_nat (length d))) ds c) (m @ concat ds)"
proof (induction ds arbitrary: c m)
  case (Cons d ds)
  have "represents (update c d (of_nat (length d))) (m @ d)"
    using update_represents [OF Cons.prems(1), of "of_nat (length d)" d] Cons.prems(2)
    by (simp add: unsigned_of_nat take_bit_nat_eq_self)
  from Cons.IH [OF this] Cons.prems(2) show ?case
    by simp
qed simp

lemma hash_chunks:
  assumes "wf c" and "length (concat ds) < 2 ^ 32" and "20 \<le> length out"
  shows "snd (final (fold (\<lambda>d c. update c d (of_nat (length d))) ds (init c)) out) =
         H (concat ds) @ drop 20 out"
proof -
  have "length d \<le> length (concat ds)" if "d \<in> set ds" for d
    using that by (auto simp: length_concat intro!: member_le_sum_list)
  then have "\<forall>d\<in>set ds. length d < 2 ^ 32"
    using assms(2) by (meson le_less_trans)
  from chunks_represent [OF init_represents [OF assms(1)] this] show ?thesis
    using final_stores assms by simp
qed

lemma hash1:
  assumes "wf c" and "unat n \<le> length data" and "20 \<le> length out"
  shows "snd (final (update (init c) data n) out) = H (take (unat n) data) @ drop 20 out"
    and "wf (fst (final (update (init c) data n) out))"
proof -
  have "unat n < 2 ^ 32"
    using unsigned_less [where w = n, where 'a = nat] by simp
  then show "snd (final (update (init c) data n) out) = H (take (unat n) data) @ drop 20 out"
    and "wf (fst (final (update (init c) data n) out))"
    using final_stores [OF update_represents [OF init_represents [OF assms(1)] assms(2)] _ assms(3)]
    by simp_all
qed

lemma hash2:
  assumes "wf c" and "unat n1 \<le> length d1" and "unat n2 \<le> length d2" and "20 \<le> length out"
    and "unat n1 + unat n2 < 2 ^ 32"
  shows "snd (final (update (update (init c) d1 n1) d2 n2) out) =
         H (take (unat n1) d1 @ take (unat n2) d2) @ drop 20 out"
    and "wf (fst (final (update (update (init c) d1 n1) d2 n2) out))"
  using final_stores [OF update_represents [OF update_represents
      [OF init_represents [OF assms(1)] assms(2)] assms(3)] _ assms(4)] assms
  by simp_all

end

locale keyed_mac =
  fixes mac :: "bytes \<Rightarrow> u32 \<Rightarrow> bytes \<Rightarrow> u32 \<Rightarrow> bytes \<Rightarrow> bytes"
    and M :: "bytes \<Rightarrow> bytes \<Rightarrow> bytes"
  assumes mac_stores:
      "unat kn \<le> length key \<Longrightarrow> unat mn \<le> length msg \<Longrightarrow> unat mn + 64 < 2 ^ 32 \<Longrightarrow> 20 \<le> length out \<Longrightarrow>
       mac key kn msg mn out = M (take (unat kn) key) (take (unat mn) msg) @ drop 20 out"
    and length_M: "length (M k m) = 20"
begin

lemma mac_digest:
  "unat kn \<le> length key \<Longrightarrow> unat mn \<le> length msg \<Longrightarrow> unat mn + 64 < 2 ^ 32 \<Longrightarrow> length out = 20 \<Longrightarrow>
   mac key kn msg mn out = M (take (unat kn) key) (take (unat mn) msg)"
  by (simp add: mac_stores)

text \<open>The in-place rounds of a key derivation: the 20-byte array is both message and output.\<close>

lemma mac_rounds:
  assumes "unat kn \<le> length key" and "length u = 20"
  shows "((\<lambda>u. mac key kn u 20 u) ^^ j) u = ((M (take (unat kn) key)) ^^ j) u"
    and "length (((M (take (unat kn) key)) ^^ j) u) = 20"
proof (induction j)
  case (Suc j)
  {
    case 1
    then show ?case using Suc assms by (simp add: mac_digest)
  next
    case 2
    then show ?case by (simp add: length_M)
  }
qed (use assms in simp_all)

end

end
