(* ===== verification/Sha1.thy ===== *)
theory Sha1
  imports Hash_Stream
begin

text \<open>
  The SHA-1 of \<^verbatim>\<open>crypto.c\<close>: a streaming context with a 64-byte block buffer.  The model keeps the 32-bit
  counters; the update loop and the padding loop terminate for every context.  The specification is
  the one-shot hash of FIPS 180-4, and the main lemma is the simulation: a context
  represents the message it has been fed, however the message was cut into updates.
\<close>

section \<open>The code\<close>

record sha1 =
  sha_state :: "u32 list"
  sha_length :: u32
  sha_used :: u32
  sha_block :: bytes

definition rotate :: "u32 \<Rightarrow> u32 \<Rightarrow> u32" where
  "rotate value count = shl value (unat count) OR shr value (unat (32 - count))"

definition block_word :: "bytes \<Rightarrow> nat \<Rightarrow> u32" where
  "block_word block index =
     shl (to_u32 (block ! (index * 4))) 24 OR shl (to_u32 (block ! (index * 4 + 1))) 16 OR
     shl (to_u32 (block ! (index * 4 + 2))) 8 OR to_u32 (block ! (index * 4 + 3))"

definition schedule :: "bytes \<Rightarrow> u32 list" where
  "schedule block =
     fold (\<lambda>index w. w @ [rotate (w ! (index - 3) XOR w ! (index - 8) XOR
                                  w ! (index - 14) XOR w ! (index - 16)) 1])
       [16..<80] (map (block_word block) [0..<16])"

definition sha1_round ::
  "u32 list \<Rightarrow> nat \<Rightarrow> u32 \<times> u32 \<times> u32 \<times> u32 \<times> u32 \<Rightarrow> u32 \<times> u32 \<times> u32 \<times> u32 \<times> u32" where
  "sha1_round w index s =
     (case s of (a, b, c, d, e) \<Rightarrow>
        (let (fn, constant) =
               (if index < 20 then ((b AND c) OR (NOT b AND d), 0x5a827999)
                else if index < 40 then (b XOR c XOR d, 0x6ed9eba1)
                else if index < 60 then ((b AND c) OR (b AND d) OR (c AND d), 0x8f1bbcdc)
                else (b XOR c XOR d, 0xca62c1d6));
             temporary = rotate a 5 + fn + e + constant + w ! index
         in (temporary, a, rotate b 30, c, d)))"

definition sha1_transform :: "sha1 \<Rightarrow> bytes \<Rightarrow> sha1" where
  "sha1_transform ctx block =
     (let w = schedule block;
          h = sha_state ctx
      in case fold (sha1_round w) [0..<80] (h ! 0, h ! 1, h ! 2, h ! 3, h ! 4) of
           (a, b, c, d, e) \<Rightarrow>
             ctx\<lparr>sha_state := [h ! 0 + a, h ! 1 + b, h ! 2 + c, h ! 3 + d, h ! 4 + e]\<rparr>)"

text \<open>A \<open>struct sha1\<close> without an initialiser.\<close>

definition sha1_local :: "(nat \<Rightarrow> u8) \<Rightarrow> sha1" where
  "sha1_local junk = \<lparr>sha_state = map (\<lambda>i. to_u32 (junk i)) [0..<5], sha_length = to_u32 (junk 5),
                      sha_used = to_u32 (junk 6), sha_block = stack_array junk 64\<rparr>"

definition sha1_init :: "sha1 \<Rightarrow> sha1" where
  "sha1_init ctx = ctx\<lparr>sha_state := [0x67452301, 0xefcdab89, 0x98badcfe, 0x10325476, 0xc3d2e1f0],
                       sha_length := 0, sha_used := 0\<rparr>"

text \<open>The body of the \<open>while\<close> of \<open>sha1_update\<close>, and the loop.\<close>

definition sha1_take :: "sha1 \<Rightarrow> u32 \<Rightarrow> u32" where
  "sha1_take ctx len = (let available = 64 - sha_used ctx in if len < available then len else available)"

definition sha1_absorb :: "sha1 \<Rightarrow> bytes \<Rightarrow> u32 \<Rightarrow> sha1" where
  "sha1_absorb ctx data tk =
     (let ctx = ctx\<lparr>sha_block := copy (sha_block ctx) (unat (sha_used ctx)) data (unat tk)\<rparr>;
          ctx = ctx\<lparr>sha_used := sha_used ctx + tk\<rparr>
      in if sha_used ctx = 64
         then (sha1_transform ctx (sha_block ctx))\<lparr>sha_used := 0\<rparr>
         else ctx)"

lemma sha1_take_le: "sha1_take ctx len \<le> len"
  by (auto simp: sha1_take_def Let_def)

lemma sha1_take_0: "len \<noteq> 0 \<Longrightarrow> sha1_take ctx len = 0 \<longleftrightarrow> sha_used ctx = 64"
  by (auto simp: sha1_take_def Let_def)

lemma sha1_absorb_0: "sha_used ctx = 64 \<Longrightarrow> sha_used (sha1_absorb ctx data 0) = 0"
  by (simp add: sha1_absorb_def Let_def)

function sha1_update_loop :: "sha1 \<Rightarrow> bytes \<Rightarrow> u32 \<Rightarrow> sha1" where
  "sha1_update_loop ctx data len =
     (if len \<noteq> 0 then
        (let tk = sha1_take ctx len
         in sha1_update_loop (sha1_absorb ctx data tk) (drop (unat tk) data) (len - tk))
      else ctx)"
  by pat_completeness auto
termination
proof (relation "measures [\<lambda>(c, d, n). unat n, \<lambda>(c, d, n). of_bool (sha_used c = 64)]", simp)
  fix ctx :: sha1 and data :: bytes and len tk :: u32
  assume len: "len \<noteq> 0" and tk: "tk = sha1_take ctx len"
  show "((sha1_absorb ctx data tk, drop (unat tk) data, len - tk), ctx, data, len)
      \<in> measures [\<lambda>(c, d, n). unat n, \<lambda>(c, d, n). of_bool (sha_used c = 64)]"
  proof (cases "tk = 0")
    case True
    then have "sha_used ctx = 64" using len tk sha1_take_0 by metis
    then show ?thesis using True by (simp add: sha1_absorb_0)
  next
    case False
    have "tk \<le> len" using tk by (simp add: sha1_take_le)
    then have "unat (len - tk) = unat len - unat tk" "unat tk \<le> unat len"
      by (simp_all add: unat_sub word_le_nat_alt)
    moreover have "unat tk \<noteq> 0" using False by (simp add: unat_eq_0)
    ultimately show ?thesis by simp
  qed
qed

declare sha1_update_loop.simps [simp del]

definition sha1_update :: "sha1 \<Rightarrow> bytes \<Rightarrow> u32 \<Rightarrow> sha1" where
  "sha1_update ctx data len =
     sha1_update_loop (ctx\<lparr>sha_length := sha_length ctx + len\<rparr>) data len"

lemma sha1_transform_fields [simp]:
  "sha_length (sha1_transform c b) = sha_length c"
  "sha_used (sha1_transform c b) = sha_used c"
  "sha_block (sha1_transform c b) = sha_block c"
  by (simp_all add: sha1_transform_def Let_def split: prod.splits)

lemma sha1_update_loop_0 [simp]: "sha1_update_loop ctx data 0 = ctx"
  by (simp add: sha1_update_loop.simps)

lemma sha1_take_1: "sha_used ctx \<noteq> 64 \<Longrightarrow> sha1_take ctx 1 = 1"
  using sha1_take_le [of ctx 1] sha1_take_0 [of 1 ctx]
  by (auto simp: word_le_nat_alt unat_eq_0 [symmetric] word_unat_eq_iff)

lemma sha1_loop_1:
  "sha_used ctx \<noteq> 64 \<Longrightarrow> sha1_update_loop ctx data 1 = sha1_absorb ctx data 1"
  by (subst sha1_update_loop.simps) (simp add: sha1_take_1)

lemma sha1_absorb_used:
  "sha_used (sha1_absorb ctx data tk) = (if sha_used ctx + tk = 64 then 0 else sha_used ctx + tk)"
  by (simp add: sha1_absorb_def Let_def)

lemma sha1_update_byte_used:
  "sha_used (sha1_update ctx data 1) =
     (if sha_used ctx = 64 then 1 else if sha_used ctx = 63 then 0 else sha_used ctx + 1)"
proof (cases "sha_used ctx = 64")
  case True
  let ?c = "ctx\<lparr>sha_length := sha_length ctx + 1\<rparr>"
  have "sha1_take ?c 1 = 0" using True by (simp add: sha1_take_0)
  then have "sha1_update ctx data 1 = sha1_update_loop (sha1_absorb ?c data 0) data 1"
    unfolding sha1_update_def by (subst sha1_update_loop.simps) simp
  then show ?thesis using True by (simp add: sha1_loop_1 sha1_absorb_used)
next
  case False
  have "sha_used ctx + 1 = 64 \<longleftrightarrow> sha_used ctx = 63"
    by (simp add: eq_diff_eq [symmetric])
  then show ?thesis
    using False by (simp add: sha1_update_def sha1_loop_1 sha1_absorb_used)
qed

text \<open>\<open>while (context->used != 56u) sha1_update(context, &zero, 1);\<close>\<close>

function sha1_pad_zero :: "sha1 \<Rightarrow> sha1" where
  "sha1_pad_zero ctx =
     (if sha_used ctx \<noteq> 56 then sha1_pad_zero (sha1_update ctx [0] 1) else ctx)"
  by pat_completeness auto
termination
proof (relation "measure (\<lambda>ctx. unat (56 - sha_used ctx))", simp)
  fix ctx :: sha1
  assume ne: "sha_used ctx \<noteq> 56"
  have wrap: "unat (56 - 64 :: u32) = 2 ^ 32 - 8" "unat (56 - 63 :: u32) = 2 ^ 32 - 7"
    by (simp_all only: unat_sub_if') simp_all
  from ne have "unat (56 - (sha_used ctx + 1)) < unat (56 - sha_used ctx)"
    using unat_minus_one [of "56 - sha_used ctx"] by (simp add: algebra_simps unat_gt_0)
  then show "(sha1_update ctx [0] 1, ctx) \<in> measure (\<lambda>ctx. unat (56 - sha_used ctx))"
    using wrap by (auto simp: sha1_update_byte_used)
qed

declare sha1_pad_zero.simps [simp del]

definition sha1_final :: "sha1 \<Rightarrow> bytes \<Rightarrow> sha1 \<times> bytes" where
  "sha1_final ctx output =
     (let original_length = sha_length ctx;
          ctx = sha1_update ctx [0x80] 1;
          ctx = sha1_pad_zero ctx;
          high = shr original_length 29;
          low = shl original_length 3;
          len = [to_u8 (shr high 24), to_u8 (shr high 16), to_u8 (shr high 8), to_u8 high,
                 to_u8 (shr low 24), to_u8 (shr low 16), to_u8 (shr low 8), to_u8 low];
          ctx = sha1_update ctx len 8
      in (ctx, fold (\<lambda>index out.
                 out[index * 4 := to_u8 (shr (sha_state ctx ! index) 24),
                     index * 4 + 1 := to_u8 (shr (sha_state ctx ! index) 16),
                     index * 4 + 2 := to_u8 (shr (sha_state ctx ! index) 8),
                     index * 4 + 3 := to_u8 (sha_state ctx ! index)]) [0..<5] output))"

section \<open>The specification: FIPS 180-4\<close>

text \<open>
  The standard states SHA-1 with the rotation \<open>ROTL\<close>, the functions Ch, Parity and Maj, the
  recursive message schedule, and a message padded at once; the code has shifts, other boolean
  forms, an array filled in place and a stream.
\<close>

definition sha1_IV :: "u32 list" where
  "sha1_IV = [0x67452301, 0xefcdab89, 0x98badcfe, 0x10325476, 0xc3d2e1f0]"

definition fips_f :: "nat \<Rightarrow> u32 \<Rightarrow> u32 \<Rightarrow> u32 \<Rightarrow> u32" where
  "fips_f t x y z =
     (if t < 20 then (x AND y) XOR (NOT x AND z)
      else if t < 40 then x XOR y XOR z
      else if t < 60 then (x AND y) XOR (x AND z) XOR (y AND z)
      else x XOR y XOR z)"

definition fips_K :: "nat \<Rightarrow> u32" where
  "fips_K t = (if t < 20 then 0x5a827999 else if t < 40 then 0x6ed9eba1
               else if t < 60 then 0x8f1bbcdc else 0xca62c1d6)"

fun fips_W :: "bytes \<Rightarrow> nat \<Rightarrow> u32" where
  "fips_W M t =
     (if t < 16 then word_of_int (\<Sum>i<4. uint (M ! (4 * t + i)) * 256 ^ (3 - i))
      else word_rotl 1 (fips_W M (t - 3) XOR fips_W M (t - 8) XOR fips_W M (t - 14) XOR fips_W M (t - 16)))"

declare fips_W.simps [simp del]

fun fips_step :: "bytes \<Rightarrow> nat \<Rightarrow> u32 \<times> u32 \<times> u32 \<times> u32 \<times> u32 \<Rightarrow> u32 \<times> u32 \<times> u32 \<times> u32 \<times> u32" where
  "fips_step M t (a, b, c, d, e) =
     (word_rotl 5 a + fips_f t b c d + e + fips_K t + fips_W M t, a, word_rotl 30 b, c, d)"

definition fips_compress :: "bytes \<Rightarrow> u32 list \<Rightarrow> u32 list" where
  "fips_compress M h =
     (case fold (fips_step M) [0..<80] (h ! 0, h ! 1, h ! 2, h ! 3, h ! 4) of
        (a, b, c, d, e) \<Rightarrow> map2 (+) h [a, b, c, d, e])"

definition blocks64 :: "bytes \<Rightarrow> bytes list" where
  "blocks64 m = map (\<lambda>i. take 64 (drop (64 * i) m)) [0..<length m div 64]"

definition fips_pad :: "bytes \<Rightarrow> bytes" where
  "fips_pad m = m @ [0x80] @ replicate ((119 - length m mod 64) mod 64) 0 @
                map (\<lambda>i. of_nat (8 * length m div 256 ^ (7 - i))) [0..<8]"

definition fips_sha1 :: "bytes \<Rightarrow> bytes" where
  "fips_sha1 m =
     concat (map (\<lambda>h. map (\<lambda>i. to_u8 (shr h (8 * (3 - i)))) [0..<4])
       (fold fips_compress (blocks64 (fips_pad m)) sha1_IV))"

section \<open>The compression function\<close>

lemma rotate_rotl: "0 < n \<Longrightarrow> n < 32 \<Longrightarrow> rotate v (of_nat n) = word_rotl n v"
proof (rule bit_word_eqI)
  fix k assume n: "0 < n" "n < 32" and k: "k < LENGTH(32)"
  have c: "unat (of_nat n :: u32) = n" "unat (32 - of_nat n :: u32) = 32 - n"
    using n by (simp_all add: unsigned_of_nat take_bit_nat_eq_self unat_sub word_le_nat_alt)
  have "(k + (32 - n)) mod 32 = (if n \<le> k then k - n else 32 + k - n)"
    using n k by (auto simp: mod_if)
  then show "bit (rotate v (of_nat n)) k = bit (word_rotl n v) k"
    using n k by (auto simp: rotate_def c bit_simps bit_word_rotl_iff dest: bit_imp_le_length)
qed

lemma rotate_rotl_consts:
  "rotate v 1 = word_rotl 1 v" "rotate v 5 = word_rotl 5 v" "rotate v 30 = word_rotl 30 v"
  using rotate_rotl [of 1 v] rotate_rotl [of 5 v] rotate_rotl [of 30 v] by simp_all

lemma block_word_be:
  "block_word M t = word_of_int (\<Sum>i<4. uint (M ! (4 * t + i)) * 256 ^ (3 - i))"
proof -
  have "(\<Sum>i<4. f i) = f 0 + f 1 + f 2 + f 3" for f :: "nat \<Rightarrow> int"
    by (simp add: eval_nat_numeral)
  then show ?thesis
    by (simp add: block_word_def be32_sum mult.commute [of t 4] del: of_int_add)
qed

lemma schedule_upto:
  "16 \<le> n \<Longrightarrow> n \<le> 80 \<Longrightarrow>
   (let w = fold (\<lambda>index w. w @ [rotate (w ! (index - 3) XOR w ! (index - 8) XOR
                                  w ! (index - 14) XOR w ! (index - 16)) 1])
       [16..<n] (map (block_word M) [0..<16])
    in length w = n \<and> (\<forall>t<n. w ! t = fips_W M t))"
proof (induction n rule: nat_induct_at_least)
  case base
  have "map (block_word M) [0..<16] ! t = fips_W M t" if "t < 16" for t
    using that by (simp add: block_word_be fips_W.simps del: upt_rec_numeral)
  then show ?case
    by (simp del: upt_rec_numeral)
next
  case (Suc n)
  let ?g = "\<lambda>index w. w @ [rotate (w ! (index - 3) XOR w ! (index - 8) XOR
                                  w ! (index - 14) XOR w ! (index - 16)) 1]"
  define w where "w = fold ?g [16..<n] (map (block_word M) [0..<16])"
  have w: "length w = n" "\<forall>t<n. w ! t = fips_W M t"
    using Suc unfolding w_def Let_def by simp_all
  have "fold ?g [16..<Suc n] (map (block_word M) [0..<16]) = ?g n w"
    using Suc.hyps unfolding w_def by (simp only: upt_Suc_append fold_append comp_apply fold_simps)
  moreover have "w ! (n - 3) = fips_W M (n - 3)" "w ! (n - 8) = fips_W M (n - 8)"
    "w ! (n - 14) = fips_W M (n - 14)" "w ! (n - 16) = fips_W M (n - 16)"
    using w Suc.hyps by simp_all
  ultimately show ?case
    using w Suc.hyps
    by (auto simp: Let_def nth_append less_Suc_eq rotate_rotl_consts fips_W.simps [of M n] simp del: upt_Suc)
qed

lemma schedule_nth: "t < 80 \<Longrightarrow> schedule M ! t = fips_W M t"
  using schedule_upto [of 80 M] unfolding schedule_def Let_def by (simp del: upt_rec_numeral)

lemma sha1_round_fips:
  "t < 80 \<Longrightarrow> sha1_round (schedule M) t s = fips_step M t s"
proof -
  have ch: "(b AND c) OR (NOT b AND d) = (b AND c) XOR (NOT b AND d)" for b c d :: u32
    by (rule bit_word_eqI) (auto simp: bit_simps)
  have maj: "(b AND c) OR (b AND d) OR (c AND d) = (b AND c) XOR (b AND d) XOR (c AND d)"
    for b c d :: u32
    by (rule bit_word_eqI) (auto simp: bit_simps)
  show "t < 80 \<Longrightarrow> sha1_round (schedule M) t s = fips_step M t s"
    by (cases s) (simp add: sha1_round_def schedule_nth rotate_rotl_consts fips_f_def fips_K_def ch maj)
qed

lemma sha1_transform_state:
  assumes "length (sha_state ctx) = 5"
  shows "sha_state (sha1_transform ctx M) = fips_compress M (sha_state ctx)"
proof -
  have "fold (sha1_round (schedule M)) [0..<80] s = fold (fips_step M) [0..<80] s" for s
    by (rule fold_cong) (simp_all add: sha1_round_fips fun_eq_iff)
  moreover obtain h0 h1 h2 h3 h4 where "sha_state ctx = [h0, h1, h2, h3, h4]"
    using assms by (auto simp: eval_nat_numeral length_Suc_conv)
  ultimately show ?thesis
    by (simp add: sha1_transform_def fips_compress_def Let_def split: prod.split)
qed

section \<open>The simulation\<close>

text \<open>
  A context represents the message fed so far: the chaining value after its whole blocks, and the
  remaining bytes at the front of the block buffer.
\<close>

definition sha1_wf :: "sha1 \<Rightarrow> bool" where
  "sha1_wf ctx \<longleftrightarrow> length (sha_block ctx) = 64"

definition holds_tail :: "sha1 \<Rightarrow> bytes \<Rightarrow> bool" where
  "holds_tail ctx m \<longleftrightarrow>
     sha1_wf ctx \<and> sha_state ctx = fold fips_compress (blocks64 m) sha1_IV \<and>
     unat (sha_used ctx) = length m mod 64 \<and>
     take (length m mod 64) (sha_block ctx) = drop (length m - length m mod 64) m"

definition sha1_represents :: "sha1 \<Rightarrow> bytes \<Rightarrow> bool" where
  "sha1_represents ctx m \<longleftrightarrow> holds_tail ctx m \<and> sha_length ctx = of_nat (length m)"

lemma holds_tail_length [simp]: "holds_tail (ctx\<lparr>sha_length := n\<rparr>) m = holds_tail ctx m"
  by (simp add: holds_tail_def sha1_wf_def)

lemma length_fips_compress [simp]: "length h = 5 \<Longrightarrow> length (fips_compress M h) = 5"
  by (simp add: fips_compress_def split: prod.split)

lemma length_chain: "length (fold fips_compress Ms sha1_IV) = 5"
proof -
  have "length h = 5 \<Longrightarrow> length (fold fips_compress Ms h) = 5" for h
    by (induction Ms arbitrary: h) simp_all
  then show ?thesis by (simp add: sha1_IV_def)
qed

lemma blocks64_same:
  "length m mod 64 + length x < 64 \<Longrightarrow> blocks64 (m @ x) = blocks64 m"
  by (auto simp: blocks64_def div_add1_eq [of "length m" "length x"])

lemma blocks64_next:
  assumes "length m mod 64 + length x = 64"
  shows "blocks64 (m @ x) = blocks64 m @ [drop (length m - length m mod 64) m @ x]"
proof -
  have d: "64 * (length m div 64) = length m - length m mod 64"
    by (simp add: minus_mod_eq_mult_div)
  have "(length m + length x) div 64 = Suc (length m div 64)"
    using assms mult_div_mod_eq [of 64 "length m"] by linarith
  moreover have "take 64 (drop (64 * i) (m @ x)) = take 64 (drop (64 * i) m)"
    if "i < length m div 64" for i
    using that by auto
  ultimately show ?thesis
    using assms by (simp add: blocks64_def d)
qed

lemma sha1_take_tail:
  assumes "holds_tail ctx m"
  shows "unat (sha1_take ctx len) = min (unat len) (64 - length m mod 64)"
proof -
  have "unat (sha_used ctx) < 64" using assms by (simp add: holds_tail_def)
  then have "unat (64 - sha_used ctx) = 64 - unat (sha_used ctx)"
    by (simp add: unat_sub word_le_nat_alt)
  then show ?thesis
    using assms by (auto simp: sha1_take_def Let_def holds_tail_def word_less_nat_alt)
qed

lemma sha1_absorb_tail:
  assumes h: "holds_tail ctx m" and k: "length m mod 64 + unat tk \<le> 64" and d: "unat tk \<le> length data"
  shows "holds_tail (sha1_absorb ctx data tk) (m @ take (unat tk) data)"
proof -
  let ?r = "length m mod 64" and ?x = "take (unat tk) data"
  let ?b = "copy (sha_block ctx) (unat (sha_used ctx)) data (unat tk)"
  note hs = h [unfolded holds_tail_def sha1_wf_def]
  have b: "?b = drop (length m - ?r) m @ ?x @ drop (?r + unat tk) (sha_block ctx)"
    using hs k d by (simp add: copy_slice)
  have u: "unat (sha_used ctx + tk) = ?r + unat tk"
    using hs k by (simp add: unat_word_ariths)
  have l: "length (drop (length m - ?r) m) = ?r" by simp
  show ?thesis
  proof (cases "?r + unat tk = 64")
    case True
    then have "sha_used ctx + tk = 64" using u by (simp add: word_unat_eq_iff)
    moreover have "(length m + unat tk) mod 64 = 0"
      using True by (metis mod_add_left_eq mod_self)
    ultimately show ?thesis
      using hs b d True length_chain blocks64_next [of m ?x]
      by (simp add: sha1_absorb_def Let_def holds_tail_def sha1_wf_def sha1_transform_state)
  next
    case False
    then have "sha_used ctx + tk \<noteq> 64" using u by (auto simp: word_unat_eq_iff)
    moreover have r: "(length m + unat tk) mod 64 = ?r + unat tk"
      using False k by (metis le_neq_implies_less mod_add_left_eq mod_less)
    moreover have "drop (length m + unat tk - (?r + unat tk)) (m @ ?x) = drop (length m - ?r) m @ ?x"
      by simp
    ultimately show ?thesis
      using hs b d u False k blocks64_same [of m ?x]
      by (simp add: sha1_absorb_def Let_def holds_tail_def sha1_wf_def)
  qed
qed

lemma sha1_update_loop_tail:
  "holds_tail ctx m \<Longrightarrow> unat len \<le> length data \<Longrightarrow>
   holds_tail (sha1_update_loop ctx data len) (m @ take (unat len) data)"
proof (induction ctx data len arbitrary: m rule: sha1_update_loop.induct)
  case (1 ctx data len)
  show ?case
  proof (cases "len = 0")
    case True
    then show ?thesis using 1 by simp
  next
    case False
    define tk where "tk = sha1_take ctx len"
    have tk: "unat tk = min (unat len) (64 - length m mod 64)"
      using 1 by (simp add: tk_def sha1_take_tail)
    have rest: "unat (len - tk) = unat len - unat tk"
      using tk by (simp add: unat_sub word_le_nat_alt)
    have "holds_tail (sha1_absorb ctx data tk) (m @ take (unat tk) data)"
      using 1 tk by (intro sha1_absorb_tail) simp_all
    then have "holds_tail (sha1_update_loop (sha1_absorb ctx data tk) (drop (unat tk) data) (len - tk))
        ((m @ take (unat tk) data) @ take (unat (len - tk)) (drop (unat tk) data))"
      using 1 False rest by (intro 1(1) [OF False tk_def]) auto
    moreover have "take (unat tk) data @ take (unat (len - tk)) (drop (unat tk) data) = take (unat len) data"
      using tk rest by (simp add: take_add [symmetric])
    ultimately show ?thesis
      using False by (subst sha1_update_loop.simps) (simp add: tk_def Let_def)
  qed
qed

lemma sha1_absorb_length [simp]: "sha_length (sha1_absorb ctx data tk) = sha_length ctx"
  by (simp add: sha1_absorb_def Let_def)

lemma sha1_update_loop_length [simp]: "sha_length (sha1_update_loop ctx data len) = sha_length ctx"
proof (induction ctx data len rule: sha1_update_loop.induct)
  case (1 ctx data len)
  then show ?case
    by (cases "len = 0"; subst sha1_update_loop.simps) (simp_all add: Let_def)
qed

lemma sha1_init_represents: "sha1_wf ctx \<Longrightarrow> sha1_represents (sha1_init ctx) []"
  by (simp add: sha1_represents_def holds_tail_def sha1_wf_def sha1_init_def blocks64_def sha1_IV_def)

lemma sha1_update_represents:
  assumes "sha1_represents ctx m" and "unat len \<le> length data"
  shows "sha1_represents (sha1_update ctx data len) (m @ take (unat len) data)"
  using assms sha1_update_loop_tail [of _ m len data]
  by (simp add: sha1_represents_def sha1_update_def)

lemma pad_count: "(120 - n mod 64) mod 64 = (if n mod 64 \<le> 56 then 56 - n mod 64 else 120 - n mod (64 :: nat))"
proof (cases "n mod 64 \<le> 56")
  case True
  then have "120 - n mod 64 = 64 + (56 - n mod 64)" by simp
  then have "(120 - n mod 64) mod 64 = (56 - n mod 64) mod 64" by (simp only: mod_add_self1)
  then show ?thesis using True by simp
qed simp

lemma pad_count_step:
  "(r :: nat) < 64 \<Longrightarrow> r \<noteq> 56 \<Longrightarrow> r' = (if r = 63 then 0 else Suc r) \<Longrightarrow>
   (if r \<le> 56 then 56 - r else 120 - r) = Suc (if r' \<le> 56 then 56 - r' else 120 - r')"
  by auto

lemma sha1_pad_zero_tail:
  "holds_tail ctx m \<Longrightarrow>
   holds_tail (sha1_pad_zero ctx) (m @ replicate ((120 - length m mod 64) mod 64) 0)"
proof (induction ctx arbitrary: m rule: sha1_pad_zero.induct)
  case (1 ctx)
  let ?r = "length m mod 64"
  have u: "sha_used ctx = 56 \<longleftrightarrow> ?r = 56"
    using 1 by (auto simp: holds_tail_def word_unat_eq_iff)
  show ?case
  proof (cases "sha_used ctx = 56")
    case True
    then show ?thesis using 1 u by (simp add: sha1_pad_zero.simps [of ctx])
  next
    case False
    have step: "holds_tail (sha1_update ctx [0] 1) (m @ [0])"
      using 1(2) sha1_update_loop_tail [of _ m 1 "[0]"] by (simp add: sha1_update_def)
    have "length (m @ [0 :: u8]) mod 64 = (if ?r = 63 then 0 else Suc ?r)"
      by (simp add: mod_Suc)
    then have "(120 - ?r) mod 64 = Suc ((120 - length (m @ [0 :: u8]) mod 64) mod 64)"
      unfolding pad_count using False u by (intro pad_count_step) simp_all
    then show ?thesis
      using 1(1) [OF False step] False by (simp add: sha1_pad_zero.simps [of ctx])
  qed
qed

lemma length_field:
  assumes "n < 2 ^ 32"
  defines "high \<equiv> shr (of_nat n :: u32) 29" and "low \<equiv> shl (of_nat n :: u32) 3"
  shows "[to_u8 (shr high 24), to_u8 (shr high 16), to_u8 (shr high 8), to_u8 high,
          to_u8 (shr low 24), to_u8 (shr low 16), to_u8 (shr low 8), to_u8 low] =
         map (\<lambda>i. of_nat (8 * n div 256 ^ (7 - i))) [0..<8]"
proof -
  have below: "j < 32" if "bit n j" for j
    using assms(1) that by (metis bit_take_bit_iff take_bit_nat_eq_self)
  have hi: "to_u8 (shr (shr (of_nat n :: u32) 29) k) = of_nat (drop_bit (32 + k) (push_bit 3 n))" for k
    using below by (intro bit_word_eqI) (force simp: bit_simps ac_simps)
  have lo: "to_u8 (shr (shl (of_nat n :: u32) 3) k) = of_nat (drop_bit k (push_bit 3 n))" if "k \<le> 24" for k
    using that by (intro bit_word_eqI) (auto simp: bit_simps)
  show ?thesis
    using hi [of 24] hi [of 16] hi [of 8] hi [of 0] lo [of 24] lo [of 16] lo [of 8] lo [of 0]
    unfolding high_def low_def
    by (simp add: upt_rec drop_bit_eq_div push_bit_eq_mult mult.commute [of n 8])
qed

lemma store_state:
  assumes "length st = 5" and "20 \<le> length out"
  shows "fold (\<lambda>index out.
                 out[index * 4 := to_u8 (shr (st ! index) 24),
                     index * 4 + 1 := to_u8 (shr (st ! index) 16),
                     index * 4 + 2 := to_u8 (shr (st ! index) 8),
                     index * 4 + 3 := to_u8 (st ! index)]) [0..<5] out =
         concat (map (\<lambda>h. map (\<lambda>i. to_u8 (shr h (8 * (3 - i)))) [0..<4]) st) @ drop 20 out"
proof -
  obtain a b c d e where st: "st = [a, b, c, d, e]"
    using assms(1) by (auto simp: eval_nat_numeral length_Suc_conv)
  obtain x y where out: "out = x @ y" "length x = 20"
    using assms(2) by (metis append_take_drop_id length_take min.absorb2)
  obtain x0 x1 x2 x3 x4 x5 x6 x7 x8 x9 x10 x11 x12 x13 x14 x15 x16 x17 x18 x19
    where x: "x = [x0, x1, x2, x3, x4, x5, x6, x7, x8, x9, x10, x11, x12, x13, x14, x15, x16, x17, x18, x19]"
    using out(2) by (auto simp: eval_nat_numeral length_Suc_conv)
  show ?thesis
    by (simp add: st out(1) x upt_rec)
qed

lemma sha1_final_digest:
  assumes r: "sha1_represents ctx m" and n: "length m < 2 ^ 32" and out: "20 \<le> length out"
  shows "snd (sha1_final ctx out) = fips_sha1 m @ drop 20 out"
    and "sha1_wf (fst (sha1_final ctx out))"
proof -
  define c1 where "c1 = sha1_update ctx [0x80] 1"
  define c2 where "c2 = sha1_pad_zero c1"
  define L :: bytes where "L = map (\<lambda>i. of_nat (8 * length m div 256 ^ (7 - i))) [0..<8]"
  define c3 where "c3 = sha1_update c2 L 8"
  have "holds_tail c1 (m @ [0x80])"
    using sha1_update_represents [OF r, of 1 "[0x80]"] by (simp add: c1_def sha1_represents_def)
  from sha1_pad_zero_tail [OF this]
  have c2: "holds_tail c2 (m @ [0x80] @ replicate ((120 - Suc (length m) mod 64) mod 64) 0)"
    by (simp add: c2_def)
  moreover have "(120 - Suc (length m) mod 64) mod 64 = (119 - length m mod 64) mod 64"
    by (simp only: mod_Suc) simp
  ultimately have "holds_tail (c2\<lparr>sha_length := sha_length c2 + 8\<rparr>)
      (m @ [0x80] @ replicate ((119 - length m mod 64) mod 64) 0)"
    by (simp only: holds_tail_length)
  from sha1_update_loop_tail [OF this, of 8 L]
  have c3: "holds_tail c3 (fips_pad m)"
    by (simp add: c3_def sha1_update_def fips_pad_def L_def)
  have "sha1_final ctx out = (c3, fold (\<lambda>index out.
                 out[index * 4 := to_u8 (shr (sha_state c3 ! index) 24),
                     index * 4 + 1 := to_u8 (shr (sha_state c3 ! index) 16),
                     index * 4 + 2 := to_u8 (shr (sha_state c3 ! index) 8),
                     index * 4 + 3 := to_u8 (sha_state c3 ! index)]) [0..<5] out)"
    using r unfolding sha1_final_def Let_def c3_def c2_def c1_def L_def
    by (simp only: sha1_represents_def length_field [OF n])
  then show "snd (sha1_final ctx out) = fips_sha1 m @ drop 20 out"
    and "sha1_wf (fst (sha1_final ctx out))"
    using c3 length_chain out by (simp_all only: fst_conv snd_conv store_state holds_tail_def fips_sha1_def)
qed

lemma length_fips_sha1: "length (fips_sha1 m) = 20"
proof -
  have "length (concat (map (\<lambda>h :: u32. map (\<lambda>i. to_u8 (shr h (8 * (3 - i)))) [0..<4]) hs)) = 4 * length hs"
    for hs
    by (induction hs) simp_all
  then show ?thesis
    by (simp add: fips_sha1_def length_chain)
qed

interpretation sha1_stream: hash_stream sha1_init sha1_update sha1_final sha1_wf sha1_represents fips_sha1
  by unfold_locales
    (auto intro: sha1_init_represents sha1_update_represents sha1_final_digest length_fips_sha1)

text \<open>C4.
  However a message of fewer than \<open>2 ^ 32\<close> bytes is cut into pieces, feeding the pieces one after
  the other to a freshly initialised context and finishing it stores the FIPS 180-4 hash of the
  concatenation in the first 20 bytes of the output and leaves the rest of the output alone.\<close>

theorem sha1_stream_correct:
  "length (concat chunks) < 2 ^ 32 \<Longrightarrow> 20 \<le> length out \<Longrightarrow>
   snd (sha1_final (fold (\<lambda>d c. sha1_update c d (of_nat (length d))) chunks (sha1_init (sha1_local junk))) out) =
   fips_sha1 (concat chunks) @ drop 20 out"
  by (rule sha1_stream.hash_chunks) (simp_all add: sha1_wf_def sha1_local_def)

theorem sha1_stream_correct_witness:
  "snd (sha1_final (sha1_update (sha1_update (sha1_init (sha1_local (\<lambda>_. 0xaa))) [0x61] 1) [0x62, 0x63] 2)
     (replicate 20 0)) = fips_sha1 [0x61, 0x62, 0x63]"
  using sha1_stream_correct [of "[[0x61], [0x62, 0x63]]" "replicate 20 0" "\<lambda>_. 0xaa"] by simp

end
