(* ===== verification/Crypto.thy ===== *)
theory Crypto
  imports Sha1
begin

text \<open>
  The key derivations of \<^verbatim>\<open>crypto.c\<close>: HMAC-SHA1, PBKDF2 with 4096 rounds, and the pairwise
  key expansion of the four-way handshake, with the specifications of RFC 2104, RFC 2898 and
  IEEE 802.11.  Arrays without an initialiser hold the bytes of the parameter \<open>junk\<close>; the theorems show
  that no result depends on it.
\<close>

section \<open>The code\<close>

definition memset :: "bytes \<Rightarrow> u32 \<Rightarrow> nat \<Rightarrow> bytes" where
  "memset destination value len =
     fold (\<lambda>index d. d[index := to_u8 value]) [0..<len] destination"

definition hmac_key_block :: "(nat \<Rightarrow> u8) \<Rightarrow> bytes \<Rightarrow> u32 \<Rightarrow> bytes" where
  "hmac_key_block junk key key_length =
     (let key_block = memset (stack_array junk 64) 0 64
      in if 64 < key_length
         then snd (sha1_final (sha1_update (sha1_init (sha1_local junk)) key key_length) key_block)
         else copy key_block 0 key (unat key_length))"

definition c6_hmac_sha1 ::
  "(nat \<Rightarrow> u8) \<Rightarrow> bytes \<Rightarrow> u32 \<Rightarrow> bytes \<Rightarrow> u32 \<Rightarrow> bytes \<Rightarrow> bytes" where
  "c6_hmac_sha1 junk key key_length message message_length output =
     (let key_block = hmac_key_block junk key key_length;
          inner_pad = fold (\<lambda>index p. p[index := key_block ! index XOR 0x36]) [0..<64] (stack_array junk 64);
          outer_pad = fold (\<lambda>index p. p[index := key_block ! index XOR 0x5c]) [0..<64] (stack_array junk 64);
          hash = sha1_init (sha1_local junk);
          hash = sha1_update hash inner_pad 64;
          hash = sha1_update hash message message_length;
          (hash, inner) = sha1_final hash (stack_array junk 20);
          hash = sha1_init hash;
          hash = sha1_update hash outer_pad 64;
          hash = sha1_update hash inner 20
      in snd (sha1_final hash output))"

text \<open>
  One block of PBKDF2.  The rounds run \<open>c6_hmac_sha1(passphrase, n, u, 20, u)\<close>: the output array
  is the message, and is written only after the message has been absorbed.
\<close>

definition pbkdf2_round ::
  "(nat \<Rightarrow> u8) \<Rightarrow> bytes \<Rightarrow> u32 \<Rightarrow> nat \<Rightarrow> bytes \<times> bytes \<Rightarrow> bytes \<times> bytes" where
  "pbkdf2_round junk passphrase passphrase_length round s =
     (case s of (u, result) \<Rightarrow>
        (let u = c6_hmac_sha1 junk passphrase passphrase_length u 20 u
         in (u, fold (\<lambda>index r. r[index := r ! index XOR u ! index]) [0..<20] result)))"

definition pbkdf2_block ::
  "(nat \<Rightarrow> u8) \<Rightarrow> bytes \<Rightarrow> u32 \<Rightarrow> u32 \<Rightarrow> u32 \<Rightarrow> bytes \<times> bytes \<Rightarrow> bytes \<times> bytes" where
  "pbkdf2_block junk passphrase passphrase_length ssid_length block s =
     (case s of (message, output) \<Rightarrow>
        (let n = unat ssid_length;
             message = message[n := 0, n + 1 := 0, n + 2 := 0, n + 3 := to_u8 block];
             u = c6_hmac_sha1 junk passphrase passphrase_length message (ssid_length + 4) (stack_array junk 20);
             result = copy (stack_array junk 20) 0 u 20;
             result = snd (fold (pbkdf2_round junk passphrase passphrase_length) [1..<4096] (u, result));
             tk = (if block = 1 then 20 else 12)
         in (message, copy output (unat (block - 1) * 20) result tk)))"

definition c6_pbkdf2_sha1 ::
  "(nat \<Rightarrow> u8) \<Rightarrow> bytes \<Rightarrow> u32 \<Rightarrow> bytes \<Rightarrow> u32 \<Rightarrow> bytes \<Rightarrow> bytes" where
  "c6_pbkdf2_sha1 junk passphrase passphrase_length ssid ssid_length output =
     (let message = copy (stack_array junk 36) 0 ssid (unat ssid_length)
      in snd (fold (pbkdf2_block junk passphrase passphrase_length ssid_length) [1, 2] (message, output)))"

fun ordered_from :: "nat \<Rightarrow> bytes \<Rightarrow> bytes \<Rightarrow> nat \<Rightarrow> bool" where
  "ordered_from index left right 0 = True"
| "ordered_from index left right (Suc n) =
     (if left ! index < right ! index then True
      else if left ! index > right ! index then False
      else ordered_from (Suc index) left right n)"

definition ordered :: "bytes \<Rightarrow> bytes \<Rightarrow> nat \<Rightarrow> bool" where
  "ordered left right len = ordered_from 0 left right len"

text \<open>The label of the expansion; \<open>sizeof(label) - 1\<close> drops the terminating zero.\<close>

definition prf_label :: bytes where
  "prf_label = map (of_nat \<circ> of_char) ''Pairwise key expansion''"

text \<open>\<open>for (index...) message[offset++] = source[index];\<close>\<close>

definition append_bytes :: "bytes \<Rightarrow> nat \<Rightarrow> bytes \<times> nat \<Rightarrow> bytes \<times> nat" where
  "append_bytes source n s = (case s of (message, offset) \<Rightarrow> (copy message offset source n, offset + n))"

definition prf_message ::
  "(nat \<Rightarrow> u8) \<Rightarrow> bytes \<Rightarrow> bytes \<Rightarrow> bytes \<Rightarrow> bytes \<Rightarrow> bytes \<times> nat" where
  "prf_message junk address_a address_b nonce_a nonce_b =
     (let s = append_bytes prf_label 22 (stack_array junk 100, 0);
          s = append_bytes [0] 1 s;
          (first, second) = (if ordered address_a address_b 6 then (address_a, address_b)
                             else (address_b, address_a));
          s = append_bytes second 6 (append_bytes first 6 s);
          (first, second) = (if ordered nonce_a nonce_b 32 then (nonce_a, nonce_b)
                             else (nonce_b, nonce_a))
      in append_bytes second 32 (append_bytes first 32 s))"

definition prf_block :: "(nat \<Rightarrow> u8) \<Rightarrow> bytes \<Rightarrow> nat \<Rightarrow> nat \<Rightarrow> bytes \<times> bytes \<Rightarrow> bytes \<times> bytes" where
  "prf_block junk pmk offset block s =
     (case s of (message, ptk) \<Rightarrow>
        (let message = message[offset := of_nat block];
             digest = c6_hmac_sha1 junk pmk 32 message (of_nat offset + 1) (stack_array junk 20);
             tk = (if block = 3 then 4 else 20)
         in (message, copy ptk (block * 20) digest tk)))"

definition c6_wpa_prf ::
  "(nat \<Rightarrow> u8) \<Rightarrow> bytes \<Rightarrow> bytes \<Rightarrow> bytes \<Rightarrow> bytes \<Rightarrow> bytes \<Rightarrow> bytes \<Rightarrow> bytes" where
  "c6_wpa_prf junk pmk address_a address_b nonce_a nonce_b ptk =
     (case prf_message junk address_a address_b nonce_a nonce_b of (message, offset) \<Rightarrow>
        snd (fold (prf_block junk pmk offset) [0..<4] (message, ptk)))"

section \<open>HMAC\<close>

text \<open>RFC 2104 with the block length 64 of SHA-1.\<close>

definition hmac_sha1 :: "bytes \<Rightarrow> bytes \<Rightarrow> bytes" where
  "hmac_sha1 key m =
     (let k = (if length key > 64 then fips_sha1 key else key);
          k0 = k @ replicate (64 - length k) 0
      in fips_sha1 (map (\<lambda>b. b XOR 0x5c) k0 @ fips_sha1 (map (\<lambda>b. b XOR 0x36) k0 @ m)))"

lemma memset_whole: "n = length d \<Longrightarrow> memset d v n = replicate n (to_u8 v)"
  by (rule nth_equalityI) (simp_all add: memset_def nth_fold_upd)

lemma fold_upd_map:
  "n = length d \<Longrightarrow> n = length xs \<Longrightarrow> fold (\<lambda>i p. p[i := f (xs ! i)]) [0..<n] d = map f xs"
  by (rule nth_equalityI) (simp_all add: nth_fold_upd)

lemma sha1_wf_local [simp]: "sha1_wf (sha1_local junk)"
  by (simp add: sha1_wf_def sha1_local_def)

lemma hmac_key_block_spec:
  assumes "unat kn \<le> length key"
  defines "k \<equiv> take (unat kn) key"
  shows "hmac_key_block junk key kn =
    (let k' = (if length k > 64 then fips_sha1 k else k) in k' @ replicate (64 - length k') 0)"
proof -
  have "64 < kn \<longleftrightarrow> length k > 64"
    using assms by (simp add: word_less_nat_alt)
  then show ?thesis
    using assms by (auto simp: hmac_key_block_def memset_whole sha1_stream.hash1 length_fips_sha1 copy_slice Let_def)
qed

lemma c6_hmac_sha1_stores:
  assumes "unat kn \<le> length key" and "unat mn \<le> length msg" and "unat mn + 64 < 2 ^ 32" and "20 \<le> length out"
  shows "c6_hmac_sha1 junk key kn msg mn out =
         hmac_sha1 (take (unat kn) key) (take (unat mn) msg) @ drop 20 out"
proof -
  define kb where "kb = hmac_key_block junk key kn"
  have kb: "length kb = 64"
    using hmac_key_block_spec [OF assms(1)] assms(1)
    by (auto simp: kb_def Let_def length_fips_sha1)
  define ip where "ip = map (\<lambda>b. b XOR 0x36) kb"
  define op where "op = map (\<lambda>b. b XOR 0x5c) kb"
  define hash where "hash = sha1_update (sha1_update (sha1_init (sha1_local junk)) ip 64) msg mn"
  have l: "length ip = 64" "length op = 64"
    using kb by (simp_all add: ip_def op_def)
  have pads: "fold (\<lambda>index p. p[index := kb ! index XOR 0x36]) [0..<64] (stack_array junk 64) = ip"
      "fold (\<lambda>index p. p[index := kb ! index XOR 0x5c]) [0..<64] (stack_array junk 64) = op"
    unfolding ip_def op_def by (rule fold_upd_map; simp add: kb)+
  have inner: "snd (sha1_final hash (stack_array junk 20)) = fips_sha1 (ip @ take (unat mn) msg)"
    and wf: "sha1_wf (fst (sha1_final hash (stack_array junk 20)))"
    using assms l sha1_stream.hash2 [of "sha1_local junk" 64 ip mn msg "stack_array junk 20"]
    by (simp_all add: hash_def)
  have "c6_hmac_sha1 junk key kn msg mn out =
      snd (sha1_final (sha1_update (sha1_update (sha1_init (fst (sha1_final hash (stack_array junk 20)))) op 64)
        (snd (sha1_final hash (stack_array junk 20))) 20) out)"
    unfolding c6_hmac_sha1_def kb_def [symmetric] Let_def by (simp add: pads hash_def split_beta del: upt_rec_numeral)
  also have "\<dots> = fips_sha1 (op @ fips_sha1 (ip @ take (unat mn) msg)) @ drop 20 out"
    using sha1_stream.hash2 [OF wf, of 64 op 20 "fips_sha1 (ip @ take (unat mn) msg)" out] assms l
    by (simp add: inner length_fips_sha1)
  also have "fips_sha1 (op @ fips_sha1 (ip @ take (unat mn) msg)) =
      hmac_sha1 (take (unat kn) key) (take (unat mn) msg)"
    using hmac_key_block_spec [OF assms(1), of junk]
    by (simp add: hmac_sha1_def ip_def op_def kb_def Let_def)
  finally show ?thesis .
qed

lemma length_hmac_sha1: "length (hmac_sha1 k m) = 20"
  by (simp add: hmac_sha1_def Let_def length_fips_sha1)

interpretation hmac: keyed_mac "c6_hmac_sha1 junk" hmac_sha1 for junk
  by unfold_locales (simp_all add: c6_hmac_sha1_stores length_hmac_sha1)

text \<open>C5.
  \<open>c6_hmac_sha1\<close> stores the RFC 2104 HMAC-SHA1 of the message under the key, for keys shorter and
  longer than a block, in the first 20 bytes of the output; the bytes after them keep their value
  and nothing depends on what the stack held.\<close>

theorem hmac_correct:
  "length key < 2 ^ 32 \<Longrightarrow> length msg + 64 < 2 ^ 32 \<Longrightarrow> 20 \<le> length out \<Longrightarrow>
   c6_hmac_sha1 junk key (of_nat (length key)) msg (of_nat (length msg)) out = hmac_sha1 key msg @ drop 20 out"
  by (simp add: hmac.mac_stores unsigned_of_nat take_bit_nat_eq_self)

theorem hmac_correct_witness:
  "c6_hmac_sha1 (\<lambda>_. 7) [1, 2, 3] 3 [4, 5] 2 (replicate 22 9) = hmac_sha1 [1, 2, 3] [4, 5] @ replicate 2 9"
  using hmac_correct [of "[1, 2, 3]" "[4, 5]" "replicate 22 9" "\<lambda>_. 7"] by simp

section \<open>PBKDF2\<close>

text \<open>
  RFC 2898 over HMAC-SHA1: block \<open>i\<close> is the exclusive or of \<open>c\<close> iterates of the MAC, started at
  the salt followed by the block number in four bytes, most significant first.
\<close>

definition int_be :: "nat \<Rightarrow> bytes" where
  "int_be i = [of_nat (i div 2 ^ 24), of_nat (i div 2 ^ 16), of_nat (i div 2 ^ 8), of_nat i]"

definition pbkdf2_F :: "bytes \<Rightarrow> bytes \<Rightarrow> nat \<Rightarrow> nat \<Rightarrow> bytes" where
  "pbkdf2_F P S c i =
     (let U = (\<lambda>j. (hmac_sha1 P ^^ j) (hmac_sha1 P (S @ int_be i)))
      in map (\<lambda>k. fold (\<lambda>j acc. acc XOR U j ! k) [1..<c] (U 0 ! k)) [0..<20])"

definition pbkdf2 :: "bytes \<Rightarrow> bytes \<Rightarrow> nat \<Rightarrow> nat \<Rightarrow> bytes" where
  "pbkdf2 P S c dklen = take dklen (concat (map (pbkdf2_F P S c) [1..<Suc ((dklen + 19) div 20)]))"

lemma pbkdf2_rounds:
  assumes kn: "unat kn \<le> length key" and u: "length u = 20" and c: "1 \<le> c"
  defines "k \<equiv> take (unat kn) key"
  shows "fold (pbkdf2_round junk key kn) [1..<c] (u, u) =
    ((hmac_sha1 k ^^ (c - 1)) u,
     map (\<lambda>i. fold (\<lambda>j acc. acc XOR (hmac_sha1 k ^^ j) u ! i) [1..<c] (u ! i)) [0..<20])"
  using c
proof (induction c rule: nat_induct_at_least)
  case base
  have "map ((!) u) [0..<20] = u"
    using u by (metis map_nth)
  then show ?case
    by (simp del: upt_rec_numeral)
next
  case (Suc c)
  let ?U = "\<lambda>j. (hmac_sha1 k ^^ j) u"
  have len: "length (?U j) = 20" for j
    using hmac.mac_rounds(2) [OF kn u] by (simp add: k_def)
  obtain e where e: "c = Suc e" using Suc.hyps by (cases c) auto
  have ce: "c - 1 = e" using e by simp
  have mac: "c6_hmac_sha1 junk key kn (?U e) 20 (?U e) = ?U c"
    using kn len by (simp add: hmac.mac_digest k_def e)
  have upd: "fold (\<lambda>index r. r[index := r ! index XOR v ! index]) [0..<20] (map f [0..<20]) =
      map (\<lambda>i. f i XOR v ! i) [0..<20]" for f and v :: bytes
  proof -
    have "n \<le> 20 \<Longrightarrow> fold (\<lambda>index r. r[index := r ! index XOR v ! index]) [0..<n] (map f [0..<20]) =
        map (\<lambda>i. if i < n then f i XOR v ! i else f i) [0..<20]" for n
      by (induction n) (auto simp: list_eq_iff_nth_eq nth_list_update simp del: upt_rec_numeral)
    from this [of 20] show ?thesis by (simp del: upt_rec_numeral)
  qed
  have "fold (pbkdf2_round junk key kn) [1..<Suc c] (u, u) =
      pbkdf2_round junk key kn c (fold (pbkdf2_round junk key kn) [1..<c] (u, u))"
    using Suc.hyps by simp
  also have "\<dots> = (?U c, map (\<lambda>i. fold (\<lambda>j acc. acc XOR ?U j ! i) [1..<c] (u ! i) XOR ?U c ! i) [0..<20])"
    unfolding Suc.IH pbkdf2_round_def Let_def prod.case ce mac upd by (rule refl)
  finally show ?case
    using Suc.hyps by simp
qed

lemma length_pbkdf2_F [simp]: "length (pbkdf2_F P S c i) = 20"
  by (simp add: pbkdf2_F_def Let_def)

lemma pbkdf2_block_spec:
  assumes "unat pn \<le> length P" and "unat sn \<le> 32" and "length m = 36" and "block = 1 \<or> block = 2"
  shows "pbkdf2_block junk P pn sn block (m, out) =
    (take (unat sn) m @ int_be (unat block) @ drop (unat sn + 4) m,
     copy out (unat (block - 1) * 20)
       (pbkdf2_F (take (unat pn) P) (take (unat sn) m) 4096 (unat block)) (if block = 1 then 20 else 12))"
proof -
  let ?n = "unat sn" and ?m = "take (unat sn) m @ int_be (unat block) @ drop (unat sn + 4) m"
  have n4: "unat (sn + 4) = ?n + 4"
    using assms by (simp add: unat_word_ariths)
  have n4': "?n + 4 = Suc (Suc (Suc (Suc ?n)))" by simp
  have m: "m[?n := 0, ?n + 1 := 0, ?n + 2 := 0, ?n + 3 := to_u8 block] = ?m"
    using assms by (auto simp: list_update_slice int_be_def n4')
  define u where "u = c6_hmac_sha1 junk P pn ?m (sn + 4) (stack_array junk 20)"
  have u: "u = hmac_sha1 (take (unat pn) P) (take ?n m @ int_be (unat block))"
    using assms by (simp add: u_def hmac.mac_digest n4 int_be_def)
  have lu: "length u = 20" by (simp add: u length_hmac_sha1)
  have "copy (stack_array junk 20) 0 u 20 = u"
    using lu by (simp add: copy_slice)
  moreover have "snd (fold (pbkdf2_round junk P pn) [1..<4096] (u, u)) =
      pbkdf2_F (take (unat pn) P) (take ?n m) 4096 (unat block)"
    using assms lu by (subst pbkdf2_rounds) (simp_all add: pbkdf2_F_def u del: upt_rec_numeral)
  ultimately show ?thesis
    by (simp only: pbkdf2_block_def prod.case Let_def m u_def [symmetric])
qed

text \<open>C6.
  For a passphrase of any length and an SSID of at most 32 bytes, \<open>c6_pbkdf2_sha1\<close> stores
  PBKDF2-HMAC-SHA1 with 4096 rounds and 32 bytes of output: the pre-shared key of IEEE 802.11.\<close>

theorem pbkdf2_correct:
  assumes "length P < 2 ^ 32" and "length ssid \<le> 32" and "length out = 32"
  shows "c6_pbkdf2_sha1 junk P (of_nat (length P)) ssid (of_nat (length ssid)) out = pbkdf2 P ssid 4096 32"
proof -
  let ?n = "length ssid" and ?F = "pbkdf2_F P ssid 4096"
  have pn: "unat (of_nat (length P) :: u32) = length P" and sn: "unat (of_nat ?n :: u32) = ?n"
    using assms by (simp_all add: unsigned_of_nat take_bit_nat_eq_self)
  let ?m = "copy (stack_array junk 36) 0 ssid ?n"
  have m: "take ?n ?m = ssid" "length ?m = 36"
    using assms by (simp_all add: copy_slice)
  have "c6_pbkdf2_sha1 junk P (of_nat (length P)) ssid (of_nat ?n) out =
      copy (copy out 0 (?F 1) 20) 20 (?F 2) 12"
    using assms m by (simp add: c6_pbkdf2_sha1_def sn pn pbkdf2_block_spec int_be_def del: upt_rec_numeral)
  also have "\<dots> = take 32 (?F 1 @ ?F 2)"
    using assms by (simp add: copy_slice)
  also have "\<dots> = pbkdf2 P ssid 4096 32"
    by (simp add: pbkdf2_def upt_rec numeral_2_eq_2)
  finally show ?thesis .
qed

theorem pbkdf2_correct_witness:
  "c6_pbkdf2_sha1 (\<lambda>_. 7) [1, 2] 2 [3] 1 (replicate 32 0) = pbkdf2 [1, 2] [3] 4096 32"
  using pbkdf2_correct [of "[1, 2]" "[3]" "replicate 32 0" "\<lambda>_. 7"] by simp

section \<open>The pairwise key expansion\<close>

text \<open>
  IEEE 802.11 orders the addresses and the nonces as unsigned big-endian numbers and expands the
  master key by HMAC-SHA1 over label, zero byte, ordered data and block counter.
\<close>

fun be_val :: "bytes \<Rightarrow> nat" where
  "be_val [] = 0"
| "be_val (b # bs) = unat b * 256 ^ length bs + be_val bs"

definition be_min :: "bytes \<Rightarrow> bytes \<Rightarrow> bytes" where
  "be_min a b = (if be_val a \<le> be_val b then a else b)"

definition be_max :: "bytes \<Rightarrow> bytes \<Rightarrow> bytes" where
  "be_max a b = (if be_val a \<le> be_val b then b else a)"

definition ieee_prf :: "bytes \<Rightarrow> bytes \<Rightarrow> bytes \<Rightarrow> bytes" where
  "ieee_prf K A B = take 64 (concat (map (\<lambda>i. hmac_sha1 K (A @ [0] @ B @ [of_nat i])) [0..<4]))"

definition ieee_ptk :: "bytes \<Rightarrow> bytes \<Rightarrow> bytes \<Rightarrow> bytes \<Rightarrow> bytes \<Rightarrow> bytes" where
  "ieee_ptk pmk aa spa na ns =
     ieee_prf pmk prf_label (be_min aa spa @ be_max aa spa @ be_min na ns @ be_max na ns)"

lemma be_val_less: "be_val bs < 256 ^ length bs"
proof (induction bs)
  case (Cons b bs)
  have "unat b * 256 ^ length bs \<le> 255 * 256 ^ length bs"
    by (rule mult_le_mono1) (rule unat_u8_le)
  with Cons show ?case unfolding be_val.simps length_Cons power_Suc by linarith
qed simp

lemma digit_le:
  fixes x y r s N :: nat
  assumes "r < N" and "s < N"
  shows "x * N + r \<le> y * N + s \<longleftrightarrow> x < y \<or> x = y \<and> r \<le> s"
proof -
  have "x * N + r < y * N + s" if "x < y" "r < N" for x y r s :: nat
  proof -
    have "Suc x * N \<le> y * N" using that by (intro mult_le_mono1) simp
    then show ?thesis using that by simp
  qed
  from this [of x y r s] this [of y x s r] assms show ?thesis
    by (cases x y rule: linorder_cases) auto
qed

lemma be_val_le_Cons:
  assumes "length as = length bs"
  shows "be_val (a # as) \<le> be_val (b # bs) \<longleftrightarrow> a < b \<or> a = b \<and> be_val as \<le> be_val bs"
  using digit_le [of "be_val as" "256 ^ length bs" "be_val bs" "unat a" "unat b"]
    be_val_less [of as] be_val_less [of bs] assms
  by (simp add: word_less_nat_alt word_unat_eq_iff)

lemma be_val_inject: "length a = length b \<Longrightarrow> be_val a = be_val b \<Longrightarrow> a = b"
proof (induction a b rule: list_induct2)
  case (Cons x xs y ys)
  then show ?case
    using be_val_le_Cons [of xs ys x y] be_val_le_Cons [of ys xs y x] by (simp del: be_val.simps) auto
qed simp

lemma ordered_from_be_val:
  "length l = i + n \<Longrightarrow> length r = i + n \<Longrightarrow>
   ordered_from i l r n \<longleftrightarrow> be_val (drop i l) \<le> be_val (drop i r)"
proof (induction n arbitrary: i)
  case (Suc n)
  then have "drop i l = l ! i # drop (Suc i) l" "drop i r = r ! i # drop (Suc i) r"
    by (simp_all add: Cons_nth_drop_Suc)
  with Suc show ?case
    by (auto simp: be_val_le_Cons simp del: be_val.simps)
qed simp

lemma ordered_be_val:
  "length a = n \<Longrightarrow> length b = n \<Longrightarrow> ordered a b n \<longleftrightarrow> be_val a \<le> be_val b"
  using ordered_from_be_val [of a 0 n b] by (simp add: ordered_def)

lemma be_min_commute: "length a = length b \<Longrightarrow> be_min a b = be_min b a"
  and be_max_commute: "length a = length b \<Longrightarrow> be_max a b = be_max b a"
  using be_val_inject [of a b] by (auto simp: be_min_def be_max_def)

lemma length_be_min [simp]: "length a = length b \<Longrightarrow> length (be_min a b) = length b"
  and length_be_max [simp]: "length a = length b \<Longrightarrow> length (be_max a b) = length b"
  by (simp_all add: be_min_def be_max_def)

lemma append_bytes_prefix:
  "off + n \<le> length m \<Longrightarrow> length src = n \<Longrightarrow>
   append_bytes src n (m, off) = (take off m @ src @ drop (off + n) m, off + n)"
  by (simp add: append_bytes_def copy_slice)

lemma length_prf_label: "length prf_label = 22"
  by (simp add: prf_label_def)

lemma prf_message_spec:
  assumes "length aa = 6" and "length spa = 6" and "length na = 32" and "length ns = 32"
  shows "prf_message junk aa spa na ns =
    (prf_label @ [0] @ be_min aa spa @ be_max aa spa @ be_min na ns @ be_max na ns @ [junk 99], 99)"
proof -
  have o: "ordered aa spa 6 \<longleftrightarrow> be_val aa \<le> be_val spa" "ordered na ns 32 \<longleftrightarrow> be_val na \<le> be_val ns"
    using assms by (simp_all add: ordered_be_val)
  have j: "drop 99 (stack_array junk 100) = [junk 99]"
    unfolding stack_array_def drop_map drop_upt by (simp add: upt_rec_numeral)
  show ?thesis
    using assms length_prf_label
    by (simp add: prf_message_def o append_bytes_prefix j be_min_def be_max_def Let_def)
qed

lemma ordered_take: "n \<le> length b \<Longrightarrow> ordered a (take n b) n = ordered a b n"
proof -
  have "i + k \<le> m \<Longrightarrow> ordered_from i a (take m b) k = ordered_from i a b k" for i k m
    by (induction k arbitrary: i) simp_all
  then show ?thesis by (simp add: ordered_def)
qed

text \<open>The routine reads 32 bytes of each nonce, whatever follows them in memory.\<close>

lemma c6_wpa_prf_take:
  "32 \<le> length nb \<Longrightarrow> c6_wpa_prf junk pmk a b na nb out = c6_wpa_prf junk pmk a b na (take 32 nb) out"
  by (simp add: c6_wpa_prf_def prf_message_def append_bytes_def ordered_take copy_prefix Let_def
      split: prod.split)

lemma prf_block_spec:
  assumes "length pmk = 32" and "length D = 99" and "i \<le> 3"
  shows "prf_block junk pmk 99 i (D @ [x], ptk) =
    (D @ [of_nat i], copy ptk (i * 20) (hmac_sha1 pmk (D @ [of_nat i])) (if i = 3 then 4 else 20))"
proof -
  have "(D @ [x])[99 := of_nat i] = D @ [of_nat i]"
    using assms by (simp add: list_update_append)
  then show ?thesis
    using assms by (simp add: prf_block_def Let_def hmac.mac_digest)
qed

lemma c6_wpa_prf_spec:
  assumes "length pmk = 32" and "length aa = 6" and "length spa = 6"
    and "length na = 32" and "length ns = 32" and "length out = 64"
  shows "c6_wpa_prf junk pmk aa spa na ns out = ieee_ptk pmk aa spa na ns"
proof -
  define D where "D = prf_label @ [0] @ be_min aa spa @ be_max aa spa @ be_min na ns @ be_max na ns"
  let ?h = "\<lambda>i. hmac_sha1 pmk (D @ [i])"
  have D: "length D = 99"
    using assms by (simp add: D_def length_prf_label)
  have "prf_message junk aa spa na ns = (D @ [junk 99], 99)"
    using assms by (simp add: prf_message_spec D_def)
  then have "c6_wpa_prf junk pmk aa spa na ns out =
      copy (copy (copy (copy out 0 (?h 0) 20) 20 (?h 1) 20) 40 (?h 2) 20) 60 (?h 3) 4"
    using assms D by (simp add: c6_wpa_prf_def prf_block_spec upt_rec)
  also have "\<dots> = take 64 (?h 0 @ ?h 1 @ ?h 2 @ ?h 3)"
    using assms by (simp add: copy_slice length_hmac_sha1)
  also have "\<dots> = ieee_ptk pmk aa spa na ns"
    by (simp add: ieee_ptk_def ieee_prf_def upt_rec D_def)
  finally show ?thesis .
qed

text \<open>C7.
  \<open>c6_wpa_prf\<close> stores the 64-byte pairwise transient key of IEEE 802.11: HMAC-SHA1 over the label
  and the two addresses and the two nonces in numeric order, four blocks, the last one cut.\<close>

theorem prf_correct:
  assumes "length pmk = 32" and "length aa = 6" and "length spa = 6"
    and "length na = 32" and "length ns = 32" and "length out = 64"
  shows "c6_wpa_prf junk pmk aa spa na ns out = ieee_ptk pmk aa spa na ns"
  using assms by (rule c6_wpa_prf_spec)

theorem prf_correct_witness:
  "c6_wpa_prf (\<lambda>_. 7) (replicate 32 1) (replicate 6 2) (replicate 6 3) (replicate 32 4) (replicate 32 5)
     (replicate 64 0) = ieee_ptk (replicate 32 1) (replicate 6 2) (replicate 6 3) (replicate 32 4) (replicate 32 5)"
  by (rule prf_correct) simp_all

text \<open>Both ends of a handshake derive the same pairwise transient key: swapping the roles of the two
  addresses and of the two nonces, and the stack contents of the two runs, changes nothing.\<close>

theorem prf_role_symmetric:
  assumes "length pmk = 32" and "length aa = 6" and "length spa = 6"
    and "length na = 32" and "length ns = 32" and "length out = 64" and "length out' = 64"
  shows "c6_wpa_prf junk pmk aa spa na ns out = c6_wpa_prf junk' pmk spa aa ns na out'"
  using assms
  by (simp add: c6_wpa_prf_spec ieee_ptk_def be_min_commute [of spa aa] be_max_commute [of spa aa]
      be_min_commute [of ns na] be_max_commute [of ns na])

theorem prf_role_symmetric_witness:
  "c6_wpa_prf (\<lambda>_. 7) (replicate 32 1) (replicate 6 2) (replicate 6 3) (replicate 32 4) (replicate 32 5)
     (replicate 64 0) =
   c6_wpa_prf (\<lambda>_. 8) (replicate 32 1) (replicate 6 3) (replicate 6 2) (replicate 32 5) (replicate 32 4)
     (replicate 64 9)"
  by (rule prf_role_symmetric) simp_all

end
