(* ===== verification/Wpa2.thy ===== *)
theory Wpa2
  imports Station Crypto
begin

text \<open>
  The WPA2 station (\<^verbatim>\<open>wpa2.c\<close>): association with an RSN element, the four-way handshake, the
  installation of the temporal key and one protected ping.  The specification states the handshake
  over the keys of IEEE 802.11; the invariant says which verified messages a key in the
  hardware presupposes.
\<close>

section \<open>The code\<close>

datatype wpa2_state =
  WPA2_IDLE | WPA2_SCANNING | WPA2_AUTHENTICATING | WPA2_ASSOCIATING | WPA2_WAIT_M1 | WPA2_WAIT_M3 | WPA2_WAIT_CCMP

record 'd wpa2 = "'d station" +
  w_state :: wpa2_state
  w_sequence_number :: u16
  ptk :: bytes

definition w_ap_address :: bytes where "w_ap_address = [2, 0x52, 0x45, 0x4d, 0x55, 2]"
definition w_ssid :: bytes where
  "w_ssid = [0x52, 0x45, 0x4d, 0x55, 0x2d, 0x43, 0x36, 0x2d, 0x57, 0x50, 0x41, 0x32]"
definition pmk :: bytes where
  "pmk = [0x67, 0x11, 0xae, 0xd4, 0x0e, 0x76, 0x92, 0x15,
          0x4a, 0xcf, 0xdf, 0xa8, 0xb0, 0xfd, 0x6d, 0x67,
          0xbd, 0x2e, 0xb8, 0x38, 0x4c, 0x98, 0xdc, 0x92,
          0x41, 0x59, 0xc3, 0xee, 0xa5, 0x81, 0x01, 0xd9]"
definition snonce :: bytes where
  "snonce = [0xa0, 0xa1, 0xa2, 0xa3, 0xa4, 0xa5, 0xa6, 0xa7,
             0xa8, 0xa9, 0xaa, 0xab, 0xac, 0xad, 0xae, 0xaf,
             0xb0, 0xb1, 0xb2, 0xb3, 0xb4, 0xb5, 0xb6, 0xb7,
             0xb8, 0xb9, 0xba, 0xbb, 0xbc, 0xbd, 0xbe, 0xbf]"
definition w_auth_body :: bytes where "w_auth_body = [0, 0, 1, 0, 0, 0]"
definition rates :: bytes where "rates = [1, 1, 0x82]"
definition rsn :: bytes where
  "rsn = [48, 20, 1, 0, 0, 0x0f, 0xac, 4, 1, 0, 0, 0x0f, 0xac, 4, 1, 0, 0, 0x0f, 0xac, 2, 0, 0]"
definition eapol_llc :: bytes where "eapol_llc = [0xaa, 0xaa, 3, 0, 0, 0, 0x88, 0x8e]"
definition ccmp_header :: bytes where "ccmp_header = [1, 0, 0, 0x20, 0, 0, 0, 0]"

definition C6_WPA2_NONE :: u32 where "C6_WPA2_NONE = 0"
definition C6_WPA2_SCANNED :: u32 where "C6_WPA2_SCANNED = 1"
definition C6_WPA2_AUTHENTICATED :: u32 where "C6_WPA2_AUTHENTICATED = 2"
definition C6_WPA2_ASSOCIATED :: u32 where "C6_WPA2_ASSOCIATED = 4"
definition C6_WPA2_EAPOL_M2 :: u32 where "C6_WPA2_EAPOL_M2 = 8"
definition C6_WPA2_EAPOL_M4 :: u32 where "C6_WPA2_EAPOL_M4 = 16"
definition C6_WPA2_CCMP_INSTALLED :: u32 where "C6_WPA2_CCMP_INSTALLED = 32"
definition C6_WPA2_CCMP_TX :: u32 where "C6_WPA2_CCMP_TX = 64"
definition C6_WPA2_CCMP_RX :: u32 where "C6_WPA2_CCMP_RX = 128"
definition C6_WPA2_FAILED :: u32 where "C6_WPA2_FAILED = 256"

definition w_management_header ::
  "bytes \<Rightarrow> u8 \<Rightarrow> bytes \<Rightarrow> ('d, 'm) wpa2_scheme \<Rightarrow> bytes \<times> ('d, 'm) wpa2_scheme" where
  "w_management_header frame subtype destination s =
     (fill_header frame subtype 0 destination station_address w_ap_address (w_sequence_number s),
      s\<lparr>w_sequence_number := sequence_next (w_sequence_number s)\<rparr>)"

definition data_header ::
  "bytes \<Rightarrow> bool \<Rightarrow> ('d, 'm) wpa2_scheme \<Rightarrow> nat \<times> bytes \<times> ('d, 'm) wpa2_scheme" where
  "data_header frame protected s =
     (24, fill_header frame 0x08 (if protected then 0x41 else 0x01)
            w_ap_address station_address w_ap_address (w_sequence_number s),
      s\<lparr>w_sequence_number := sequence_next (w_sequence_number s)\<rparr>)"

definition w_send_probe_request ::
  "'d platform \<Rightarrow> ('d, 'm) wpa2_scheme \<Rightarrow> int \<times> ('d, 'm) wpa2_scheme" where
  "w_send_probe_request P s =
     (case w_management_header (uninit P 48) 0x40 broadcast s of (frame, s) \<Rightarrow>
        (let frame = frame[24 := 0, 25 := of_nat (length w_ssid)];
             frame = copy frame 26 w_ssid (length w_ssid);
             frame = frame[26 + length w_ssid := 1, 27 + length w_ssid := 1, 28 + length w_ssid := 0x82]
         in c6_mac_tx_frame P (Frame frame) (29 + of_nat (length w_ssid)) s))"

definition w_send_authentication ::
  "'d platform \<Rightarrow> ('d, 'm) wpa2_scheme \<Rightarrow> int \<times> ('d, 'm) wpa2_scheme" where
  "w_send_authentication P s =
     (case w_management_header (uninit P 30) 0xb0 w_ap_address s of (frame, s) \<Rightarrow>
        (let frame = copy frame 24 w_auth_body (length w_auth_body)
         in c6_mac_tx_frame P (Frame frame) 30 s))"

definition w_send_association ::
  "'d platform \<Rightarrow> ('d, 'm) wpa2_scheme \<Rightarrow> int \<times> ('d, 'm) wpa2_scheme" where
  "w_send_association P s =
     (case w_management_header (uninit P 80) 0x00 w_ap_address s of (frame, s) \<Rightarrow>
        (let frame = frame[24 := 0x31, 25 := 0x04, 26 := 10, 27 := 0, 28 := 0,
                           29 := of_nat (length w_ssid)];
             frame = copy frame 30 w_ssid (length w_ssid);
             offset = 30 + length w_ssid;
             frame = copy frame offset rates (length rates);
             offset = offset + length rates;
             frame = copy frame offset rsn (length rsn);
             offset = offset + length rsn
         in c6_mac_tx_frame P (Frame frame) (of_nat offset) s))"

text \<open>\<open>make_eapol(frame + offset, ...)\<close> writes the 99 bytes at \<open>offset\<close>.\<close>

definition make_eapol :: "bytes \<Rightarrow> nat \<Rightarrow> u16 \<Rightarrow> u64 \<Rightarrow> bytes \<Rightarrow> bytes" where
  "make_eapol frame off key_info replay nonce =
     (let frame = fold (\<lambda>index f. f[off + index := 0]) [0..<99] frame;
          frame = frame[off := 2, off + 1 := 3, off + 3 := 95, off + 4 := 2,
                        off + 5 := to_u8 (shr key_info 8), off + 6 := to_u8 key_info, off + 8 := 16];
          (frame, replay) = fold (\<lambda>index (f, replay). (f[off + (16 - index) := to_u8 replay], shr replay 8))
                              [0..<8] (frame, replay)
      in copy frame (off + 17) nonce 32)"

definition send_eapol ::
  "'d platform \<Rightarrow> u16 \<Rightarrow> u64 \<Rightarrow> bytes \<Rightarrow> ('d, 'm) wpa2_scheme \<Rightarrow> int \<times> ('d, 'm) wpa2_scheme" where
  "send_eapol P key_info replay nonce s =
     (case data_header (uninit P 131) False s of (offset, frame, s) \<Rightarrow>
        (let frame = copy frame offset eapol_llc (length eapol_llc);
             offset = offset + length eapol_llc;
             frame = make_eapol frame offset key_info replay nonce;
             digest = c6_hmac_sha1 (stack_junk P) (ptk s) 16 (drop offset frame) 99 (uninit P 20);
             frame = copy frame (offset + 81) digest 16
         in c6_mac_tx_frame P (Frame frame) 131 s))"

definition verify_m3 :: "'d platform \<Rightarrow> bytes \<Rightarrow> ('d, 'm) wpa2_scheme \<Rightarrow> bool" where
  "verify_m3 P eapol s =
     (let message = copy (uninit P 99) 0 eapol 99;
          received_mic = copy (uninit P 16) 0 (drop 81 message) 16;
          message = fold (\<lambda>index m. m[81 + index := 0]) [0..<16] message;
          digest = c6_hmac_sha1 (stack_junk P) (ptk s) 16 message 99 (uninit P 20)
      in same received_mic digest 16)"

definition send_ccmp_ping ::
  "'d platform \<Rightarrow> ('d, 'm) wpa2_scheme \<Rightarrow> int \<times> ('d, 'm) wpa2_scheme" where
  "send_ccmp_ping P s =
     (case data_header (uninit P 52) True s of (offset, frame, s) \<Rightarrow>
        (let frame = copy frame offset ccmp_header (length ccmp_header);
             offset = offset + length ccmp_header;
             frame = copy frame offset ping_payload (length ping_payload);
             offset = offset + length ping_payload;
             (frame, offset) = fold (\<lambda>index (f, offset). (f[offset := 0], offset + 1)) [0..<8] (frame, offset)
         in c6_mac_tx_frame P (Frame frame) (of_nat offset) s))"

definition c6_wpa2_start ::
  "'d platform \<Rightarrow> ('d, 'm) wpa2_scheme \<Rightarrow> int \<times> ('d, 'm) wpa2_scheme" where
  "c6_wpa2_start P s =
     w_send_probe_request P ((c6_mac_set_interface_address P station_address s)\<lparr>w_state := WPA2_SCANNING\<rparr>)"

definition c6_wpa2_receive ::
  "'d platform \<Rightarrow> bytes \<Rightarrow> u32 \<Rightarrow> ('d, 'm) wpa2_scheme \<Rightarrow> u32 \<times> ('d, 'm) wpa2_scheme" where
  "c6_wpa2_receive P frame len s =
     (if len < 24 \<or> \<not> same (drop 10 frame) w_ap_address 6 then (C6_WPA2_NONE, s)
      else if w_state s = WPA2_SCANNING \<and> frame ! 0 AND 0xfc = 0x50 \<and>
              same (drop 4 frame) station_address 6 then
        (case w_send_authentication P (s\<lparr>w_state := WPA2_AUTHENTICATING\<rparr>) of (r, s) \<Rightarrow>
           if r \<noteq> 0 then (C6_WPA2_FAILED, s) else (C6_WPA2_SCANNED, s))
      else if w_state s = WPA2_AUTHENTICATING \<and> frame ! 0 AND 0xfc = 0xb0 \<and>
              len \<ge> 30 \<and> frame ! 26 = 2 \<and> frame ! 28 = 0 \<and> frame ! 29 = 0 then
        (case w_send_association P (s\<lparr>w_state := WPA2_ASSOCIATING\<rparr>) of (r, s) \<Rightarrow>
           if r \<noteq> 0 then (C6_WPA2_FAILED, s) else (C6_WPA2_AUTHENTICATED, s))
      else if w_state s = WPA2_ASSOCIATING \<and> frame ! 0 AND 0xfc = 0x10 \<and>
              len \<ge> 30 \<and> frame ! 26 = 0 \<and> frame ! 27 = 0 then
        (C6_WPA2_ASSOCIATED, s\<lparr>w_state := WPA2_WAIT_M1\<rparr>)
      else if w_state s = WPA2_WAIT_M1 \<and> len \<ge> 131 \<and> same (drop 24 frame) eapol_llc (length eapol_llc) then
        (let eapol = drop 32 frame
         in if eapol ! 0 \<noteq> 2 \<or> eapol ! 1 \<noteq> 3 \<or> eapol ! 3 \<noteq> 95 \<or>
               eapol ! 5 \<noteq> 0 \<or> eapol ! 6 \<noteq> 0x8a \<or> eapol ! 16 \<noteq> 1 then (C6_WPA2_FAILED, s)
            else
              (let s = s\<lparr>ptk := c6_wpa_prf (stack_junk P) pmk station_address w_ap_address snonce
                                  (drop 17 eapol) (ptk s)\<rparr>;
                   s = s\<lparr>w_state := WPA2_WAIT_M3\<rparr>
               in case send_eapol P 0x010a 1 snonce s of (r, s) \<Rightarrow>
                    if r \<noteq> 0 then (C6_WPA2_FAILED, s) else (C6_WPA2_EAPOL_M2, s)))
      else if w_state s = WPA2_WAIT_M3 \<and> len \<ge> 131 \<and> same (drop 24 frame) eapol_llc (length eapol_llc) then
        (let eapol = drop 32 frame
         in if eapol ! 5 \<noteq> 3 \<or> eapol ! 6 \<noteq> 0xca \<or> eapol ! 16 \<noteq> 2 \<or> \<not> verify_m3 P eapol s
            then (C6_WPA2_FAILED, s)
            else
              (let s = c6_mac_install_ccmp P w_ap_address (drop 32 (ptk s)) s
               in case send_eapol P 0x030a 2 (replicate 32 0) s of (r, s) \<Rightarrow>
                    if r \<noteq> 0 then (C6_WPA2_FAILED, s)
                    else
                      (case send_ccmp_ping P s of (r, s) \<Rightarrow>
                         if r \<noteq> 0 then (C6_WPA2_FAILED, s)
                         else (C6_WPA2_EAPOL_M4 OR C6_WPA2_CCMP_INSTALLED OR C6_WPA2_CCMP_TX,
                               s\<lparr>w_state := WPA2_WAIT_CCMP\<rparr>))))
      else if w_state s = WPA2_WAIT_CCMP \<and> len \<ge> 52 \<and> frame ! 1 = 0x42 \<and>
              same (drop 4 frame) station_address 6 \<and>
              same (drop 32 frame) pong_payload (length pong_payload) then (C6_WPA2_CCMP_RX, s)
      else (C6_WPA2_NONE, s))"

section \<open>The frames on the air\<close>

definition w_bump :: "('d, 'm) wpa2_scheme \<Rightarrow> ('d, 'm) wpa2_scheme" where
  "w_bump s = s\<lparr>w_sequence_number := sequence_next (w_sequence_number s)\<rparr>"

lemmas wpa2_constants = w_ap_address_def w_ssid_def station_constants w_auth_body_def rates_def
  rsn_def eapol_llc_def ccmp_header_def

definition w_probe_frame :: "u16 \<Rightarrow> bytes" where
  "w_probe_frame q = dot11 0x40 0 broadcast station_address w_ap_address q
     ([0, 12] @ w_ssid @ [1, 1, 0x82])"

definition w_authentication_frame :: "u16 \<Rightarrow> bytes" where
  "w_authentication_frame q = dot11 0xb0 0 w_ap_address station_address w_ap_address q w_auth_body"

definition w_association_frame :: "u16 \<Rightarrow> bytes" where
  "w_association_frame q = dot11 0x00 0 w_ap_address station_address w_ap_address q
     ([0x31, 0x04, 10, 0, 0, 12] @ w_ssid @ rates @ rsn)"

definition ccmp_ping_frame :: "u16 \<Rightarrow> bytes" where
  "ccmp_ping_frame q = dot11 0x08 0x41 w_ap_address station_address w_ap_address q
     (ccmp_header @ ping_payload @ replicate 8 0)"

lemma w_send_probe_request_eq:
  "w_send_probe_request P s = transmit P (w_probe_frame (w_sequence_number s)) (w_bump s)"
  unfolding w_send_probe_request_def w_management_header_def w_bump_def prod.case Let_def
  by (rule transmitI) (simp_all add: wpa2_constants w_probe_frame_def fill_header_dot11 dot11_def loop_slice)

lemma w_send_authentication_eq:
  "w_send_authentication P s = transmit P (w_authentication_frame (w_sequence_number s)) (w_bump s)"
  unfolding w_send_authentication_def w_management_header_def w_bump_def prod.case Let_def
  by (rule transmitI) (simp_all add: wpa2_constants w_authentication_frame_def fill_header_dot11 dot11_def loop_slice)

lemma w_send_association_eq:
  "w_send_association P s = transmit P (w_association_frame (w_sequence_number s)) (w_bump s)"
  unfolding w_send_association_def w_management_header_def w_bump_def prod.case Let_def
  by (rule transmitI) (simp_all add: wpa2_constants w_association_frame_def fill_header_dot11 dot11_def loop_slice)

lemma replicate_8: "replicate 8 x = [x, x, x, x, x, x, x, x]"
  by (simp add: numeral_eq_Suc)

lemma send_ccmp_ping_eq:
  "send_ccmp_ping P s = transmit P (ccmp_ping_frame (w_sequence_number s)) (w_bump s)"
  unfolding send_ccmp_ping_def data_header_def w_bump_def Let_def
  by (simp add: upt_rec) (rule transmitI,
      simp_all add: wpa2_constants ccmp_ping_frame_def fill_header_dot11 dot11_def loop_slice
        replicate_8)

text \<open>
  The EAPOL-Key message of the handshake with its message integrity code, and the frame that carries
  it.
\<close>

definition eapol_key :: "u16 \<Rightarrow> u64 \<Rightarrow> bytes \<Rightarrow> bytes \<Rightarrow> bytes" where
  "eapol_key key_info replay nonce mic =
     [2, 3, 0, 95, 2, to_u8 (shr key_info 8), to_u8 key_info, 0, 16] @
     map (\<lambda>i. to_u8 (shr replay (8 * (7 - i)))) [0..<8] @ nonce @ replicate 32 0 @ mic @ [0, 0]"

definition zero_mic :: "bytes \<Rightarrow> bytes" where
  "zero_mic e = take 81 e @ replicate 16 0 @ drop 97 e"

definition eapol_mic :: "bytes \<Rightarrow> bytes \<Rightarrow> bytes" where
  "eapol_mic K e = take 16 (hmac_sha1 (take 16 K) (zero_mic e))"

definition mic_valid :: "bytes \<Rightarrow> bytes \<Rightarrow> bool" where
  "mic_valid K e \<longleftrightarrow> take 16 (drop 81 e) = eapol_mic K e"

definition eapol_message :: "bytes \<Rightarrow> u16 \<Rightarrow> u64 \<Rightarrow> bytes \<Rightarrow> bytes" where
  "eapol_message K key_info replay nonce =
     eapol_key key_info replay nonce (eapol_mic K (eapol_key key_info replay nonce (replicate 16 0)))"

definition eapol_frame :: "bytes \<Rightarrow> u16 \<Rightarrow> u64 \<Rightarrow> bytes \<Rightarrow> u16 \<Rightarrow> bytes" where
  "eapol_frame K key_info replay nonce q =
     dot11 0x08 0x01 w_ap_address station_address w_ap_address q
       (eapol_llc @ eapol_message K key_info replay nonce)"

lemma length_eapol_key [simp]:
  "length nonce = 32 \<Longrightarrow> length mic = 16 \<Longrightarrow> length (eapol_key ki r nonce mic) = 99"
  by (simp add: eapol_key_def)

lemma length_eapol_mic [simp]: "length (eapol_mic K e) = 16"
  by (simp add: eapol_mic_def length_hmac_sha1)

lemma eapol_key_parts:
  assumes "length nonce = 32" and "length mic = 16"
  shows "take 81 (eapol_key ki r nonce mic) @ m @ drop 97 (eapol_key ki r nonce mic) = eapol_key ki r nonce m"
    and "take 16 (drop 81 (eapol_key ki r nonce mic)) = mic"
  using assms by (simp_all add: eapol_key_def upt_rec)

lemma eapol_message_valid: "length nonce = 32 \<Longrightarrow> mic_valid K (eapol_message K ki r nonce)"
  by (simp add: mic_valid_def eapol_message_def eapol_key_parts eapol_mic_def zero_mic_def length_hmac_sha1)

lemma make_eapol_spec:
  assumes "length frame = 131" and "length nonce = 32"
  shows "make_eapol frame 32 ki r nonce = take 32 frame @ eapol_key ki r nonce (replicate 16 0)"
proof -
  have "fold (\<lambda>index f. f[32 + index := 0]) [0..<99] frame = copy frame 32 (replicate 99 0) 99"
    unfolding copy_def by (rule fold_cong) (simp_all add: fun_eq_iff)
  then have z: "fold (\<lambda>index f. f[32 + index := 0]) [0..<99] frame = take 32 frame @ replicate 99 0"
    using assms by (simp add: copy_slice)
  have s8: "[0..<8] = [0, 1, 2, 3, 4, 5, 6, 7 :: nat]" by (simp add: upt_rec)
  have "replicate 50 (0 :: u8) = replicate 32 0 @ replicate 16 0 @ [0, 0]"
    by (simp add: numeral_eq_Suc)
  then show ?thesis
    using assms
    unfolding make_eapol_def z Let_def s8
    by (simp add: loop_slice eapol_key_def upt_rec)
qed

lemma send_eapol_eq:
  assumes "length (ptk s) = 64" and "length nonce = 32"
  shows "send_eapol P ki r nonce s =
    transmit P (eapol_frame (ptk s) ki r nonce (w_sequence_number s)) (w_bump s)"
proof -
  let ?h = "dot11 0x08 0x01 w_ap_address station_address w_ap_address (w_sequence_number s) eapol_llc"
  let ?e = "eapol_key ki r nonce (replicate 16 0)"
  let ?f = "copy (fill_header (uninit P 131) 0x08 0x01 w_ap_address station_address w_ap_address
      (w_sequence_number s)) 24 eapol_llc 8"
  have h: "length ?h = 32" by (simp add: wpa2_constants)
  have f: "length ?f = 131" "take 32 ?f = ?h"
    by (simp_all add: fill_header_dot11 wpa2_constants dot11_def loop_slice)
  have m: "make_eapol ?f 32 ki r nonce = ?h @ ?e"
    using make_eapol_spec [OF f(1) assms(2)] f(2) by simp
  have d: "c6_hmac_sha1 (stack_junk P) (ptk s) 16 ?e 99 (uninit P 20) = hmac_sha1 (take 16 (ptk s)) ?e"
    using assms by (simp add: hmac.mac_digest)
  have mic: "take 16 (hmac_sha1 (take 16 (ptk s)) ?e) = eapol_mic (ptk s) ?e"
    using assms by (simp add: eapol_mic_def zero_mic_def eapol_key_parts)
  have c: "copy (?h @ ?e) 113 (hmac_sha1 (take 16 (ptk s)) ?e) 16 = ?h @ eapol_message (ptk s) ki r nonce"
    using h assms by (simp add: copy_slice length_hmac_sha1 mic eapol_message_def
        eapol_key_parts(1))
  have l: "length eapol_llc = 8" by (simp add: eapol_llc_def)
  have "send_eapol P ki r nonce s =
      c6_mac_tx_frame P (Frame (?h @ eapol_message (ptk s) ki r nonce)) 131 (w_bump s)"
    unfolding send_eapol_def data_header_def prod.case Let_def l
    using h by (simp add: m d c w_bump_def)
  also have "\<dots> = transmit P (eapol_frame (ptk s) ki r nonce (w_sequence_number s)) (w_bump s)"
    by (rule transmitI) (simp_all add: assms eapol_frame_def eapol_message_def dot11_def wpa2_constants)
  finally show ?thesis .
qed

lemma verify_m3_iff:
  assumes "length (ptk s) = 64" and "99 \<le> length e"
  shows "verify_m3 P e s \<longleftrightarrow> mic_valid (ptk s) (take 99 e)"
proof -
  let ?m = "take 99 e"
  have m: "copy (uninit P 99) 0 e 99 = ?m"
    using assms by (simp add: copy_slice)
  have r: "copy (uninit P 16) 0 (drop 81 ?m) 16 = take 16 (drop 81 ?m)"
    using assms by (simp add: copy_slice)
  have "fold (\<lambda>index m. m[81 + index := 0]) [0..<16] ?m = copy ?m 81 (replicate 16 0) 16"
    unfolding copy_def by (rule fold_cong) (simp_all add: fun_eq_iff)
  then have z: "fold (\<lambda>index m. m[81 + index := 0]) [0..<16] ?m = zero_mic ?m"
    using assms by (simp add: copy_slice zero_mic_def)
  have "length (zero_mic ?m) = 99"
    using assms by (simp add: zero_mic_def)
  then have d: "c6_hmac_sha1 (stack_junk P) (ptk s) 16 (zero_mic ?m) 99 (uninit P 20) =
      hmac_sha1 (take 16 (ptk s)) (zero_mic ?m)"
    using assms by (simp add: hmac.mac_digest)
  show ?thesis
    unfolding verify_m3_def Let_def m r z d mic_valid_def eapol_mic_def
    using assms by (simp add: same_slice length_hmac_sha1)
qed

section \<open>Frame conditions\<close>

lemma wpa2_of_more:
  fixes s t :: "('d, 'm) wpa2_scheme"
  assumes "mac.more s = mac.more t"
  shows "w_state s = w_state t" and "w_sequence_number s = w_sequence_number t"
    and "ptk s = ptk t" and "wpa2.more s = wpa2.more t"
    and "sta_state s = sta_state t" and "sta_sequence_number s = sta_sequence_number t"
  using assms by (cases s; cases t; simp)+

lemma w_transmit_frame [simp, frame_rules]:
  "w_state (snd (transmit P f s)) = w_state s"
  "w_sequence_number (snd (transmit P f s)) = w_sequence_number s"
  "ptk (snd (transmit P f s)) = ptk s"
  "wpa2.more (snd (transmit P f s)) = wpa2.more s"
  by (rule wpa2_of_more, simp)+

lemma w_install_frame [simp, frame_rules]:
  "w_state (c6_mac_install_ccmp P peer key s) = w_state s"
  "w_sequence_number (c6_mac_install_ccmp P peer key s) = w_sequence_number s"
  "ptk (c6_mac_install_ccmp P peer key s) = ptk s"
  "wpa2.more (c6_mac_install_ccmp P peer key s) = wpa2.more s"
  "sta_state (c6_mac_install_ccmp P peer key s) = sta_state s"
  "sta_sequence_number (c6_mac_install_ccmp P peer key s) = sta_sequence_number s"
  by (rule wpa2_of_more, simp)+

lemma w_interface_frame [simp, frame_rules]:
  "w_state (c6_mac_set_interface_address P a s) = w_state s"
  "w_sequence_number (c6_mac_set_interface_address P a s) = w_sequence_number s"
  "ptk (c6_mac_set_interface_address P a s) = ptk s"
  "wpa2.more (c6_mac_set_interface_address P a s) = wpa2.more s"
  "sta_state (c6_mac_set_interface_address P a s) = sta_state s"
  "sta_sequence_number (c6_mac_set_interface_address P a s) = sta_sequence_number s"
  by (rule wpa2_of_more, simp)+

lemma w_bump_fields [simp]:
  "w_state (w_bump s) = w_state s" "ptk (w_bump s) = ptk s"
  "w_sequence_number (w_bump s) = sequence_next (w_sequence_number s)"
  "wpa2.more (w_bump s) = wpa2.more s" "io_log (w_bump s) = io_log s"
  "tx_buffer (w_bump s) = tx_buffer s" "c6_rf_ready (w_bump s) = c6_rf_ready s"
  "sta_state (w_bump s) = sta_state s" "sta_sequence_number (w_bump s) = sta_sequence_number s"
  by (simp_all add: w_bump_def c6_rf_ready_def)

lemma transmit_writes: "extends tx_registers (io_log s) (io_log (snd (transmit P f s)))"
  by (simp add: transmit_def tx_frame_writes)

section \<open>The specification: the four-way handshake\<close>

definition eapol_of :: "rx_frame \<Rightarrow> bytes" where
  "eapol_of fr = take 99 (drop 32 (fst fr))"

definition is_eapol :: "rx_frame \<Rightarrow> bool" where
  "is_eapol fr \<longleftrightarrow> from_ap w_ap_address fr \<and> 131 \<le> snd fr \<and> same (drop 24 (fst fr)) eapol_llc 8"

definition m1_fields :: "bytes \<Rightarrow> bool" where
  "m1_fields e \<longleftrightarrow> e ! 0 = 2 \<and> e ! 1 = 3 \<and> e ! 3 = 95 \<and> e ! 5 = 0 \<and> e ! 6 = 0x8a \<and> e ! 16 = 1"

definition m3_fields :: "bytes \<Rightarrow> bool" where
  "m3_fields e \<longleftrightarrow> e ! 5 = 3 \<and> e ! 6 = 0xca \<and> e ! 16 = 2"

definition anonce :: "bytes \<Rightarrow> bytes" where
  "anonce e = take 32 (drop 17 e)"

definition session_key :: "bytes \<Rightarrow> bytes" where
  "session_key e = ieee_ptk pmk station_address w_ap_address snonce (anonce e)"

definition ccmp_pong :: "rx_frame \<Rightarrow> bool" where
  "ccmp_pong fr \<longleftrightarrow> from_ap w_ap_address fr \<and> 52 \<le> snd fr \<and> fst fr ! 1 = 0x42 \<and> to_station fr \<and>
     same (drop 32 (fst fr)) pong_payload 12"

definition w_reply ::
  "'d platform \<Rightarrow> bytes \<Rightarrow> u32 \<Rightarrow> ('d, 'm) wpa2_scheme \<Rightarrow> u32 \<times> ('d, 'm) wpa2_scheme" where
  "w_reply P f event s =
     (let r = transmit P f (w_bump s) in (if fst r = 0 then event else C6_WPA2_FAILED, snd r))"

definition m1_step ::
  "'d platform \<Rightarrow> bytes \<Rightarrow> ('d, 'm) wpa2_scheme \<Rightarrow> u32 \<times> ('d, 'm) wpa2_scheme" where
  "m1_step P e s =
     (if m1_fields e
      then w_reply P (eapol_frame (session_key e) 0x010a 1 snonce (w_sequence_number s)) C6_WPA2_EAPOL_M2
             (s\<lparr>ptk := session_key e, w_state := WPA2_WAIT_M3\<rparr>)
      else (C6_WPA2_FAILED, s))"

definition m3_step ::
  "'d platform \<Rightarrow> bytes \<Rightarrow> ('d, 'm) wpa2_scheme \<Rightarrow> u32 \<times> ('d, 'm) wpa2_scheme" where
  "m3_step P e s =
     (if m3_fields e \<and> mic_valid (ptk s) e
      then
        (let s1 = c6_mac_install_ccmp P w_ap_address (drop 32 (ptk s)) s;
             r1 = transmit P (eapol_frame (ptk s) 0x030a 2 (replicate 32 0) (w_sequence_number s)) (w_bump s1);
             s2 = snd r1;
             r2 = transmit P (ccmp_ping_frame (w_sequence_number s2)) (w_bump s2)
         in if fst r1 \<noteq> 0 then (C6_WPA2_FAILED, s2)
            else if fst r2 \<noteq> 0 then (C6_WPA2_FAILED, snd r2)
            else (C6_WPA2_EAPOL_M4 OR C6_WPA2_CCMP_INSTALLED OR C6_WPA2_CCMP_TX,
                  (snd r2)\<lparr>w_state := WPA2_WAIT_CCMP\<rparr>))
      else (C6_WPA2_FAILED, s))"

definition wpa_spec ::
  "'d platform \<Rightarrow> rx_frame \<Rightarrow> ('d, 'm) wpa2_scheme \<Rightarrow> u32 \<times> ('d, 'm) wpa2_scheme" where
  "wpa_spec P fr s =
     (case w_state s of
        WPA2_SCANNING \<Rightarrow>
          if probe_response w_ap_address fr
          then w_reply P (w_authentication_frame (w_sequence_number s)) C6_WPA2_SCANNED
                 (s\<lparr>w_state := WPA2_AUTHENTICATING\<rparr>)
          else (C6_WPA2_NONE, s)
      | WPA2_AUTHENTICATING \<Rightarrow>
          if auth_accept w_ap_address fr
          then w_reply P (w_association_frame (w_sequence_number s)) C6_WPA2_AUTHENTICATED
                 (s\<lparr>w_state := WPA2_ASSOCIATING\<rparr>)
          else (C6_WPA2_NONE, s)
      | WPA2_ASSOCIATING \<Rightarrow>
          if assoc_accept w_ap_address fr then (C6_WPA2_ASSOCIATED, s\<lparr>w_state := WPA2_WAIT_M1\<rparr>)
          else (C6_WPA2_NONE, s)
      | WPA2_WAIT_M1 \<Rightarrow> if is_eapol fr then m1_step P (eapol_of fr) s else (C6_WPA2_NONE, s)
      | WPA2_WAIT_M3 \<Rightarrow> if is_eapol fr then m3_step P (eapol_of fr) s else (C6_WPA2_NONE, s)
      | WPA2_WAIT_CCMP \<Rightarrow> (if ccmp_pong fr then C6_WPA2_CCMP_RX else C6_WPA2_NONE, s)
      | WPA2_IDLE \<Rightarrow> (C6_WPA2_NONE, s))"

lemma length_session_key: "length (session_key e) = 64"
  by (simp add: session_key_def ieee_ptk_def ieee_prf_def length_hmac_sha1 upt_rec)

lemma prf_session_key:
  assumes "131 \<le> length f" and "length (ptk s) = 64"
  shows "c6_wpa_prf (stack_junk P) pmk station_address w_ap_address snonce (drop 17 (drop 32 f)) (ptk s) =
         session_key (eapol_of (f, n))"
proof -
  have "c6_wpa_prf (stack_junk P) pmk station_address w_ap_address snonce (drop 17 (drop 32 f)) (ptk s) =
      c6_wpa_prf (stack_junk P) pmk station_address w_ap_address snonce (take 32 (drop 49 f)) (ptk s)"
    using assms by (subst c6_wpa_prf_take) simp_all
  also have "\<dots> = ieee_ptk pmk station_address w_ap_address snonce (take 32 (drop 49 f))"
    using assms by (intro c6_wpa_prf_spec) (simp_all add: pmk_def snonce_def wpa2_constants)
  finally show ?thesis
    by (simp add: session_key_def anonce_def eapol_of_def drop_take)
qed

lemma length_eapol_llc: "length eapol_llc = 8" and length_snonce: "length snonce = 32"
  and length_pong: "length pong_payload = 12"
  by (simp_all add: eapol_llc_def snonce_def pong_payload_def)

lemma eapol_of_nth: "i < 99 \<Longrightarrow> drop 32 f ! i = eapol_of (f, n) ! i"
  by (simp add: eapol_of_def)

lemma w_receive_spec:
  assumes "unat n \<le> length f" and "length (ptk s) = 64"
  shows "c6_wpa2_receive P f n s = wpa_spec P (f, n) s"
proof -
  have long: "\<not> length f < 131" if "\<not> n < 131"
    using that assms(1) by (simp add: word_less_nat_alt)
  have mic: "verify_m3 P (drop 32 f) s = mic_valid (ptk s) (eapol_of (f, n))" if "\<not> n < 131"
    using long [OF that] assms(2) by (simp add: verify_m3_iff eapol_of_def)
  note unfolds = c6_wpa2_receive_def wpa_spec_def from_ap_def to_station_def
    linorder_not_less [symmetric]
  show ?thesis
  proof (cases "w_state s")
    case WPA2_WAIT_M1
    then show ?thesis
      using assms(2)
      by (cases "is_eapol (f, n)")
         (auto simp: unfolds is_eapol_def m1_step_def m1_fields_def eapol_of_nth [of _ f n] length_eapol_llc long
           prf_session_key [of f s P n] send_eapol_eq length_session_key length_snonce w_reply_def
           Let_def case_prod_beta simp del: linorder_not_less not_less drop_drop nth_drop)
  next
    case WPA2_WAIT_M3
    then show ?thesis
      using assms(2)
      by (cases "is_eapol (f, n)")
         (auto simp: unfolds is_eapol_def m3_step_def m3_fields_def eapol_of_nth [of _ f n] length_eapol_llc long
           mic send_eapol_eq send_ccmp_ping_eq Let_def case_prod_beta simp del: linorder_not_less not_less drop_drop nth_drop)
  qed (simp_all add: unfolds w_reply_def w_send_authentication_eq w_send_association_eq case_prod_beta Let_def
      probe_response_def auth_accept_def assoc_accept_def ccmp_pong_def length_pong
      del: linorder_not_less not_less)
qed

section \<open>What an installed key presupposes\<close>

definition m1_for :: "bytes \<Rightarrow> rx_frame \<Rightarrow> bool" where
  "m1_for K fr \<longleftrightarrow> is_eapol fr \<and> m1_fields (eapol_of fr) \<and> K = session_key (eapol_of fr)"

definition m3_for :: "bytes \<Rightarrow> rx_frame \<Rightarrow> bool" where
  "m3_for K fr \<longleftrightarrow> is_eapol fr \<and> m3_fields (eapol_of fr) \<and> mic_valid K (eapol_of fr)"

definition associated_first :: "(rx_frame \<Rightarrow> bool) list" where
  "associated_first = [probe_response w_ap_address, auth_accept w_ap_address, assoc_accept w_ap_address]"

fun w_required :: "wpa2_state \<Rightarrow> bytes \<Rightarrow> (rx_frame \<Rightarrow> bool) list" where
  "w_required WPA2_IDLE K = []"
| "w_required WPA2_SCANNING K = []"
| "w_required WPA2_AUTHENTICATING K = [probe_response w_ap_address]"
| "w_required WPA2_ASSOCIATING K = [probe_response w_ap_address, auth_accept w_ap_address]"
| "w_required WPA2_WAIT_M1 K = associated_first"
| "w_required WPA2_WAIT_M3 K = associated_first @ [m1_for K]"
| "w_required WPA2_WAIT_CCMP K = associated_first @ [m1_for K, m3_for K]"

text \<open>
  The words of the temporal key go to four registers of key slot 0.  \<open>key_word K a\<close> is the word of
  the key \<open>K\<close> that belongs in register \<open>a\<close>.
\<close>

definition ccmp_key_registers :: "u32 set" where
  "ccmp_key_registers = {C6_REG_WIFI_CRYPTO_SLOT0 + 8, C6_REG_WIFI_CRYPTO_SLOT0 + 12,
                         C6_REG_WIFI_CRYPTO_SLOT0 + 16, C6_REG_WIFI_CRYPTO_SLOT0 + 20}"

definition key_word :: "bytes \<Rightarrow> u32 \<Rightarrow> u32" where
  "key_word K a = load_le32 (drop (32 + unat (a - C6_REG_WIFI_CRYPTO_SLOT0 - 8)) K)"

definition authentic_keys :: "io list \<Rightarrow> rx_frame list \<Rightarrow> bool" where
  "authentic_keys log h \<longleftrightarrow>
     (\<forall>a v. Wr a v \<in> set log \<longrightarrow> a \<in> ccmp_key_registers \<longrightarrow>
        (\<exists>K. v = key_word K a \<and> milestones (associated_first @ [m1_for K, m3_for K]) h))"

definition w_init :: "('d, 'm) wpa2_scheme \<times> rx_frame list \<Rightarrow> bool" where
  "w_init x \<longleftrightarrow> w_state (fst x) = WPA2_IDLE \<and> w_sequence_number (fst x) = 0 \<and>
     length (ptk (fst x)) = 64 \<and> io_log (fst x) = [] \<and> snd x = []"

definition w_inv :: "('d, 'm) wpa2_scheme \<times> rx_frame list \<Rightarrow> bool" where
  "w_inv x \<longleftrightarrow> milestones (w_required (w_state (fst x)) (ptk (fst x))) (snd x) \<and>
     length (ptk (fst x)) = 64 \<and> unat (w_sequence_number (fst x)) < 4096 \<and>
     authentic_keys (io_log (fst x)) (snd x)"

text \<open>
  The steps of the WPA2 station inside the firmware.  The activities of the other components do not
  touch its variables and write no register of the key slots.
\<close>

inductive w_step ::
  "'d platform \<Rightarrow> ('d, 'm) wpa2_scheme \<times> rx_frame list \<Rightarrow> ('d, 'm) wpa2_scheme \<times> rx_frame list \<Rightarrow> bool" for P where
  w_start_step: "w_step P (s, h) (snd (c6_wpa2_start P s), h)"
| w_receive_step: "unat n \<le> length f \<Longrightarrow>
    w_step P (s, h) (snd (c6_wpa2_receive P f n s), h @ [(f, n)])"
| w_other_step: "w_state t = w_state s \<Longrightarrow> w_sequence_number t = w_sequence_number s \<Longrightarrow>
    ptk t = ptk s \<Longrightarrow> extends (- ccmp_slot_registers) (io_log s) (io_log t) \<Longrightarrow>
    w_step P (s, h) (t, h)"

inductive_cases w_stepE: "w_step P x y"

lemma key_registers_slot: "ccmp_key_registers \<subseteq> ccmp_slot_registers"
  by (auto simp: ccmp_key_registers_def ccmp_slot_registers_def image_iff)

lemma tx_not_slot: "tx_registers \<subseteq> - ccmp_slot_registers"
  by (auto simp: tx_registers_def ccmp_slot_registers_def C6_REG_WIFI_TX_QUEUE0_CONTROL_def
      C6_REG_WIFI_INTERRUPT_CLEAR_def C6_REG_WIFI_TX_QUEUE_STATE_CLEAR_def C6_REG_WIFI_CRYPTO_SLOT0_def)

lemma interface_not_slot:
  "{C6_REG_WIFI_INTERFACE0_LOW, C6_REG_WIFI_INTERFACE0_HIGH} \<subseteq> - ccmp_slot_registers"
  by (auto simp: ccmp_slot_registers_def C6_REG_WIFI_INTERFACE0_LOW_def
      C6_REG_WIFI_INTERFACE0_HIGH_def C6_REG_WIFI_CRYPTO_SLOT0_def)

lemma authentic_extends:
  assumes "authentic_keys l h" and "extends (- ccmp_slot_registers) l l'"
  shows "authentic_keys l' h"
  unfolding authentic_keys_def
proof (intro allI impI)
  fix a v assume "Wr a v \<in> set l'" "a \<in> ccmp_key_registers"
  moreover from this(2) have "a \<notin> - ccmp_slot_registers" using key_registers_slot by auto
  ultimately have "Wr a v \<in> set l" using extends_writes [OF assms(2)] by blast
  then show "\<exists>K. v = key_word K a \<and> milestones (associated_first @ [m1_for K, m3_for K]) h"
    using assms(1) \<open>a \<in> ccmp_key_registers\<close> by (auto simp: authentic_keys_def)
qed

lemma authentic_weaken: "authentic_keys l h \<Longrightarrow> authentic_keys l (h @ [fr])"
  unfolding authentic_keys_def by (meson milestones_weaken)

lemma transmit_extends: "extends (- ccmp_slot_registers) (io_log s) (io_log (snd (transmit P f s)))"
  using transmit_writes tx_not_slot by (rule extends_mono)

lemma install_key_words:
  assumes "Wr a v \<in> set (io_log (c6_mac_install_ccmp P peer (drop 32 K) s))" and "a \<in> ccmp_key_registers"
  shows "Wr a v \<in> set (io_log s) \<or> v = key_word K a"
  using assms
  by (auto simp: c6_mac_install_ccmp_def Let_def case_prod_beta ccmp_key_registers_def key_word_def
      C6_REG_WIFI_CRYPTO_SLOT0_def C6_REG_WIFI_CRYPTO_VALID_def)

lemma install_authentic:
  assumes "authentic_keys (io_log s) h" and "milestones (associated_first @ [m1_for K, m3_for K]) h"
  shows "authentic_keys (io_log (c6_mac_install_ccmp P peer (drop 32 K) s)) h"
  using assms install_key_words unfolding authentic_keys_def by metis

lemma transmit_authentic:
  "authentic_keys (io_log s) h \<Longrightarrow> authentic_keys (io_log (snd (transmit P f (w_bump s)))) h"
  using authentic_extends [OF _ transmit_extends [of "w_bump s" P f]] by simp

lemma w_reply_inv:
  "milestones (w_required (w_state t) (ptk t)) h \<Longrightarrow> length (ptk t) = 64 \<Longrightarrow> authentic_keys (io_log t) h \<Longrightarrow>
   w_inv (snd (w_reply P g e t), h)"
  by (simp add: w_inv_def w_reply_def Let_def sequence_next_bound transmit_authentic)

lemma m3_step_inv:
  assumes "w_state s = WPA2_WAIT_M3" and "w_inv (s, h)" and "is_eapol fr" and "e = eapol_of fr"
  shows "w_inv (snd (m3_step P e s), h @ [fr])"
proof (cases "m3_fields e \<and> mic_valid (ptk s) e")
  case False
  then have "m3_step P e s = (C6_WPA2_FAILED, s)"
    unfolding m3_step_def by (simp only: if_False)
  then show ?thesis
    using assms by (simp add: w_inv_def milestones_weaken authentic_weaken)
next
  case True
  let ?K = "ptk s"
  let ?s1 = "c6_mac_install_ccmp P w_ap_address (drop 32 ?K) s"
  let ?s2 = "snd (transmit P (eapol_frame ?K 0x030a 2 (replicate 32 0) (w_sequence_number s)) (w_bump ?s1))"
  have m1: "milestones (associated_first @ [m1_for ?K]) h" and k: "length ?K = 64"
    using assms(1,2) by (simp_all add: w_inv_def)
  have m3: "milestones (associated_first @ [m1_for ?K, m3_for ?K]) (h @ [fr])"
    using milestones_snoc [OF m1, of "m3_for ?K" fr] True assms by (simp add: m3_for_def)
  have "authentic_keys (io_log ?s1) (h @ [fr])"
    using assms(2) m3 by (intro install_authentic) (simp_all add: w_inv_def authentic_weaken)
  then have a: "authentic_keys (io_log ?s2) (h @ [fr])"
    "authentic_keys (io_log (snd (transmit P g (w_bump ?s2)))) (h @ [fr])" for g
    by (simp_all add: transmit_authentic)
  show ?thesis
    using True assms(1) k a m3 milestones_weaken [OF m1]
    by (simp add: m3_step_def Let_def w_inv_def sequence_next_bound)
qed

lemma w_receive_inv:
  assumes inv: "w_inv (s, h)" and n: "unat n \<le> length f"
  shows "w_inv (snd (c6_wpa2_receive P f n s), h @ [(f, n)])"
proof -
  let ?fr = "(f, n)" and ?t = "snd (wpa_spec P (f, n) s)"
  have i: "milestones (w_required (w_state s) (ptk s)) h" "length (ptk s) = 64"
    "unat (w_sequence_number s) < 4096" "authentic_keys (io_log s) (h @ [?fr])"
    using inv by (simp_all add: w_inv_def authentic_weaken)
  have keep: "w_inv (s, h @ [?fr])"
    using i by (simp add: w_inv_def milestones_weaken)
  have ms: "milestones (w_required (w_state s) (ptk s) @ [q]) (h @ [?fr])" if "q ?fr" for q
    using milestones_snoc [of "w_required (w_state s) (ptk s)" h q ?fr] i(1) that by simp
  have "w_inv (?t, h @ [?fr])"
  proof (cases "w_state s")
    case WPA2_WAIT_M3
    then show ?thesis
      using keep inv by (simp add: wpa_spec_def m3_step_inv)
  next
    case WPA2_WAIT_M1
    then show ?thesis
      using keep i(4) ms [of "m1_for (session_key (eapol_of ?fr))"] length_session_key
      by (auto simp: wpa_spec_def m1_step_def m1_for_def intro!: w_reply_inv)
  next
    case WPA2_SCANNING
    then show ?thesis
      using keep i ms [of "probe_response w_ap_address"] by (auto simp: wpa_spec_def intro!: w_reply_inv)
  next
    case WPA2_AUTHENTICATING
    then show ?thesis
      using keep i ms [of "auth_accept w_ap_address"] by (auto simp: wpa_spec_def intro!: w_reply_inv)
  next
    case WPA2_ASSOCIATING
    then show ?thesis
      using keep i ms [of "assoc_accept w_ap_address"]
      by (auto simp: wpa_spec_def w_inv_def associated_first_def)
  qed (use keep in \<open>simp_all add: wpa_spec_def\<close>)
  then show ?thesis
    using w_receive_spec [OF n i(2), of P] by simp
qed

lemma w_start_inv: "w_inv (s, h) \<Longrightarrow> w_inv (snd (c6_wpa2_start P s), h)"
proof -
  assume inv: "w_inv (s, h)"
  let ?s = "c6_mac_set_interface_address P station_address s"
  have "authentic_keys (io_log ?s) h"
    using inv by (intro authentic_extends [OF _ extends_mono [OF set_interface_writes interface_not_slot]])
      (simp add: w_inv_def)
  then show ?thesis
    using inv transmit_authentic [of "?s\<lparr>w_state := WPA2_SCANNING\<rparr>" h P]
    by (simp add: c6_wpa2_start_def w_send_probe_request_eq w_inv_def sequence_next_bound)
qed

lemma w_step_inv: "w_inv x \<Longrightarrow> w_step P x y \<Longrightarrow> w_inv y"
  by (erule w_stepE) (auto simp: w_start_inv w_receive_inv, auto simp: w_inv_def intro: authentic_extends)

interpretation w_sys: invariant_system w_init "w_step P" w_inv for P
  by unfold_locales (simp add: w_init_def w_inv_def authentic_keys_def, rule w_step_inv)

section \<open>A complete handshake\<close>

text \<open>The access point's side of a run, and the state the firmware starts in; the witnesses use them.\<close>

definition wpa2_zero :: "wpa2_state \<Rightarrow> unit wpa2" where
  "wpa2_zero st = station.extend (station_zero STATION_IDLE) (wpa2.fields st 0 (replicate 64 0))"

definition w_probe_reply :: rx_frame where
  "w_probe_reply = (dot11 0x50 0 station_address w_ap_address w_ap_address 0 (replicate 12 0), 36)"

definition w_auth_reply :: rx_frame where
  "w_auth_reply = (dot11 0xb0 0 station_address w_ap_address w_ap_address 0 [0, 0, 2, 0, 0, 0], 30)"

definition w_assoc_reply :: rx_frame where
  "w_assoc_reply = (dot11 0x10 0 station_address w_ap_address w_ap_address 0 [0x31, 0x04, 0, 0, 1, 0], 30)"

definition sample_m1 :: rx_frame where
  "sample_m1 = (dot11 0x08 0x02 station_address w_ap_address w_ap_address 0
     (eapol_llc @ eapol_key 0x008a 1 (replicate 32 0x5a) (replicate 16 0)), 131)"

definition sample_m3 :: rx_frame where
  "sample_m3 = (dot11 0x08 0x02 station_address w_ap_address w_ap_address 0
     (eapol_llc @ eapol_message (session_key (eapol_of sample_m1)) 0x03ca 2 (replicate 32 0x5a)), 131)"

lemma eapol_of_dot11:
  "length a1 = 6 \<Longrightarrow> length a2 = 6 \<Longrightarrow> length a3 = 6 \<Longrightarrow> length e = 99 \<Longrightarrow>
   eapol_of (dot11 b0 b1 a1 a2 a3 q (eapol_llc @ e), n) = e"
  by (simp add: eapol_of_def dot11_def eapol_llc_def)

lemma address_lengths [simp]: "length station_address = 6" "length w_ap_address = 6" "length broadcast = 6"
  by (simp_all add: wpa2_constants)

lemma sample_m3_eapol:
  "eapol_of sample_m3 = eapol_message (session_key (eapol_of sample_m1)) 0x03ca 2 (replicate 32 0x5a)"
  unfolding sample_m3_def by (rule eapol_of_dot11) (simp_all add: eapol_message_def)

lemma sample_m1_eapol: "eapol_of sample_m1 = eapol_key 0x008a 1 (replicate 32 0x5a) (replicate 16 0)"
  unfolding sample_m1_def by (rule eapol_of_dot11) simp_all

lemma is_eapol_dot11:
  "length e = 99 \<Longrightarrow>
   is_eapol (dot11 0x08 0x02 station_address w_ap_address w_ap_address 0 (eapol_llc @ e), 131)"
  by (simp add: is_eapol_def from_ap_def dot11_def same_slice wpa2_constants)

lemma sample_handshake:
  "probe_response w_ap_address w_probe_reply" "auth_accept w_ap_address w_auth_reply"
  "assoc_accept w_ap_address w_assoc_reply" "is_eapol sample_m1" "m1_fields (eapol_of sample_m1)"
  "is_eapol sample_m3" "m3_fields (eapol_of sample_m3)"
  "mic_valid (session_key (eapol_of sample_m1)) (eapol_of sample_m3)"
proof -
  show "probe_response w_ap_address w_probe_reply" "auth_accept w_ap_address w_auth_reply"
    "assoc_accept w_ap_address w_assoc_reply"
    by (simp_all add: w_probe_reply_def w_auth_reply_def w_assoc_reply_def dot11_def wpa2_constants
        probe_response_def auth_accept_def assoc_accept_def from_ap_def to_station_def same_slice)
  show "is_eapol sample_m1" "is_eapol sample_m3"
    unfolding sample_m1_def sample_m3_def by (rule is_eapol_dot11, simp add: eapol_message_def)+
  show "m1_fields (eapol_of sample_m1)" "m3_fields (eapol_of sample_m3)"
    by (simp_all add: sample_m1_eapol sample_m3_eapol eapol_message_def m1_fields_def m3_fields_def
        eapol_key_def upt_rec)
  show "mic_valid (session_key (eapol_of sample_m1)) (eapol_of sample_m3)"
    by (simp only: sample_m3_eapol) (simp add: eapol_message_valid)
qed

lemma wpa2_zero_fields [simp]:
  "w_state (wpa2_zero st) = st" "w_sequence_number (wpa2_zero st) = 0" "length (ptk (wpa2_zero st)) = 64"
  "io_log (wpa2_zero st) = []" "c6_rf_ready (wpa2_zero st)" "length (tx_buffer (wpa2_zero st)) = 256"
  by (simp_all add: wpa2_zero_def station_zero_def mac_zero_def mac.extend_def station.fields_def
      station.extend_def wpa2.fields_def c6_rf_ready_def)

lemma sample_lengths:
  "unat (snd w_probe_reply) \<le> length (fst w_probe_reply)" "unat (snd w_auth_reply) \<le> length (fst w_auth_reply)"
  "unat (snd w_assoc_reply) \<le> length (fst w_assoc_reply)" "unat (snd sample_m1) \<le> length (fst sample_m1)"
  "unat (snd sample_m3) \<le> length (fst sample_m3)"
  by (simp_all add: w_probe_reply_def w_auth_reply_def w_assoc_reply_def sample_m1_def sample_m3_def
      eapol_llc_def eapol_message_def)

lemma w_reply_fields [simp]:
  "w_state (snd (w_reply P g e s)) = w_state s" "ptk (snd (w_reply P g e s)) = ptk s"
  by (simp_all add: w_reply_def Let_def)

lemma w_reaches_receive:
  assumes "reaches w_init (w_step P) (s, h)" and "unat (snd fr) \<le> length (fst fr)"
  shows "reaches w_init (w_step P) (snd (wpa_spec P fr s), h @ [fr])"
proof -
  have "length (ptk s) = 64"
    using w_sys.reaches_inv [OF assms(1)] by (simp add: w_inv_def)
  then have "c6_wpa2_receive P (fst fr) (snd fr) s = wpa_spec P fr s"
    using w_receive_spec [OF assms(2)] by simp
  moreover have "w_step P (s, h) (snd (c6_wpa2_receive P (fst fr) (snd fr) s), h @ [(fst fr, snd fr)])"
    using assms(2) by (rule w_receive_step)
  ultimately show ?thesis
    using reaches_step [OF assms(1)] by simp
qed

lemma sample_run:
  fixes P :: "unit platform"
  shows "\<exists>s :: unit wpa2. reaches w_init (w_step P) (s, [w_probe_reply, w_auth_reply, w_assoc_reply, sample_m1]) \<and>
       w_state s = WPA2_WAIT_M3 \<and> ptk s = session_key (eapol_of sample_m1)"
proof -
  let ?s0 = "snd (c6_wpa2_start P (wpa2_zero WPA2_IDLE))"
  have "reaches w_init (w_step P) (wpa2_zero WPA2_IDLE, [])"
    by (rule reaches_init) (simp add: w_init_def)
  then have r0: "reaches w_init (w_step P) (?s0, [])"
    by (rule reaches_step) (rule w_start_step)
  have s0: "w_state ?s0 = WPA2_SCANNING"
    by (simp add: c6_wpa2_start_def w_send_probe_request_eq)
  note r4 = w_reaches_receive [OF w_reaches_receive [OF w_reaches_receive [OF w_reaches_receive
      [OF r0 sample_lengths(1)] sample_lengths(2)] sample_lengths(3)] sample_lengths(4)]
  then show ?thesis
    using s0 sample_handshake
    by (intro exI [of _ "snd (wpa_spec P sample_m1 (snd (wpa_spec P w_assoc_reply
        (snd (wpa_spec P w_auth_reply (snd (wpa_spec P w_probe_reply ?s0)))))))"])
       (simp add: wpa_spec_def m1_step_def)
qed

section \<open>Properties\<close>

text \<open>C3.
  Handling a received frame implements the handshake specification on every branch: the association
  exchange, message 1 (derive the pairwise key of IEEE 802.11 and answer with message 2), message 3
  (check the fields and the integrity code under the derived key, then install the temporal key, then send message 4 and the
  protected ping) and the protected pong; every transmitted frame is given byte by byte, and
  whatever the automatic arrays held has no influence.\<close>

theorem wpa2_receive_refines:
  "unat n \<le> length f \<Longrightarrow> length (ptk s) = 64 \<Longrightarrow> c6_wpa2_receive P f n s = wpa_spec P (f, n) s"
  by (rule w_receive_spec)

theorem wpa2_receive_refines_witness:
  "c6_wpa2_receive (constant_platform 0x81) (fst sample_m3) 131 (wpa2_zero WPA2_WAIT_M3) =
   wpa_spec (constant_platform 0x81) (fst sample_m3, 131) (wpa2_zero WPA2_WAIT_M3)"
  using wpa2_receive_refines [of 131 "fst sample_m3" "wpa2_zero WPA2_WAIT_M3" "constant_platform 0x81"]
    sample_lengths(5) by (simp add: sample_m3_def)

text \<open>C2.
  In every run of the firmware, a word of a temporal key is in the hardware's key slot only if the
  access point's probe response, authentication, association, a message 1 and a message 3 have
  been received in this order, the key is the one IEEE 802.11 derives from the nonce of that
  message 1, and that message 3 carries the valid integrity code under it.\<close>

theorem ccmp_key_authentic:
  assumes "reaches w_init (w_step P) (s, h)"
    and "Wr a v \<in> set (io_log s)" and "a \<in> ccmp_key_registers"
  shows "\<exists>p q r m1 m3. subseq [p, q, r, m1, m3] h \<and> probe_response w_ap_address p \<and>
     auth_accept w_ap_address q \<and> assoc_accept w_ap_address r \<and>
     is_eapol m1 \<and> m1_fields (eapol_of m1) \<and>
     is_eapol m3 \<and> m3_fields (eapol_of m3) \<and> mic_valid (session_key (eapol_of m1)) (eapol_of m3) \<and>
     v = key_word (session_key (eapol_of m1)) a"
proof -
  have "authentic_keys (io_log s) h"
    using w_sys.reaches_inv [OF assms(1)] by (simp add: w_inv_def)
  then obtain K where "v = key_word K a" "milestones (associated_first @ [m1_for K, m3_for K]) h"
    using assms by (auto simp: authentic_keys_def)
  then show ?thesis
    by (fastforce simp: milestones_def associated_first_def list_all2_Cons1 m1_for_def m3_for_def)
qed

theorem ccmp_key_authentic_witness:
  "\<exists>p q r m1 m3. subseq [p, q, r, m1, m3] [w_probe_reply, w_auth_reply, w_assoc_reply, sample_m1, sample_m3] \<and>
     probe_response w_ap_address p \<and> auth_accept w_ap_address q \<and> assoc_accept w_ap_address r \<and>
     is_eapol m1 \<and> m1_fields (eapol_of m1) \<and>
     is_eapol m3 \<and> m3_fields (eapol_of m3) \<and> mic_valid (session_key (eapol_of m1)) (eapol_of m3)"
proof -
  let ?P = "constant_platform 0x81" and ?K = "session_key (eapol_of sample_m1)"
  obtain s :: "unit wpa2" where r: "reaches w_init (w_step ?P) (s, [w_probe_reply, w_auth_reply, w_assoc_reply, sample_m1])"
    and s: "w_state s = WPA2_WAIT_M3" "ptk s = ?K"
    using sample_run [of ?P] by blast
  let ?t = "snd (wpa_spec ?P sample_m3 s)" and ?a = "C6_REG_WIFI_CRYPTO_SLOT0 + 8"
  have rt: "reaches w_init (w_step ?P) (?t, [w_probe_reply, w_auth_reply, w_assoc_reply, sample_m1] @ [sample_m3])"
    using r sample_lengths(5) by (rule w_reaches_receive)
  let ?i = "c6_mac_install_ccmp ?P w_ap_address (drop 32 ?K) s"
  have grow: "set (io_log u) \<subseteq> set (io_log (snd (transmit ?P g (w_bump u))))" for u :: "unit wpa2" and g
    using transmit_writes [of "w_bump u" ?P g] by (auto simp: extends_def)
  have "Wr ?a (load_le32 (drop 32 ?K)) \<in> set (io_log ?i)"
    by (simp add: c6_mac_install_ccmp_def Let_def case_prod_beta)
  moreover have "set (io_log ?i) \<subseteq> set (io_log ?t)"
    using s sample_handshake(6-8) grow [of ?i] grow subset_trans [OF grow grow]
    by (simp add: wpa_spec_def m3_step_def Let_def)
  ultimately have "Wr ?a (load_le32 (drop 32 ?K)) \<in> set (io_log ?t)" by blast
  moreover have "?a \<in> ccmp_key_registers"
    by (simp add: ccmp_key_registers_def)
  ultimately show ?thesis
    using ccmp_key_authentic [OF rt, unfolded append_Cons append_Nil] by blast
qed

text \<open>C8.
  The integrity code of a transmitted handshake message passes the check that the receiving side runs:
  what \<open>send_eapol\<close> puts in the transmit buffer is accepted by \<open>verify_m3\<close> under the same key.\<close>

theorem eapol_mic_roundtrip:
  assumes "length (ptk s) = 64" and "length nonce = 32" and "c6_rf_ready s" and "length (tx_buffer s) = 256"
    and "ptk t = ptk s"
  shows "verify_m3 Q (drop 40 (tx_buffer (snd (send_eapol P ki r nonce s)))) t"
proof -
  let ?h = "dot11 0x08 0x01 w_ap_address station_address w_ap_address (w_sequence_number s) eapol_llc"
  let ?m = "eapol_message (ptk s) ki r nonce"
  have f: "eapol_frame (ptk s) ki r nonce (w_sequence_number s) = ?h @ ?m"
    by (simp add: eapol_frame_def dot11_def)
  have l: "length ?h = 32" "length ?m = 99"
    using assms by (simp_all add: wpa2_constants eapol_message_def)
  then have "drop 40 (tx_buffer (snd (send_eapol P ki r nonce s))) = ?m @ drop 139 (tx_buffer s)"
    using assms by (simp add: send_eapol_eq f transmit_buffer)
  then show ?thesis
    using assms l by (simp add: verify_m3_iff eapol_message_valid)
qed

theorem eapol_mic_roundtrip_witness:
  "verify_m3 (constant_platform 0) (drop 40 (tx_buffer (snd (send_eapol (constant_platform 0x81) 0x010a 1 snonce
     (wpa2_zero WPA2_WAIT_M3))))) (wpa2_zero WPA2_WAIT_CCMP)"
  by (rule eapol_mic_roundtrip) (simp_all add: length_snonce,
      simp add: wpa2_zero_def station.extend_def wpa2.fields_def)

end
