(* ===== verification/Uart.thy ===== *)
theory Uart
  imports Mmio
begin

text \<open>
  The console (\<^verbatim>\<open>hal/c6/uart.c\<close>) and the number parser of \<^verbatim>\<open>main.c\<close>.  What the firmware prints is
  what it writes to the FIFO register; the lemmas give the bytes of every routine, show that the
  ten-character digit buffer is never overrun, and that the parser reads back what the printer
  wrote.
\<close>

section \<open>The code\<close>

definition UART_RXFIFO_COUNT_MASK :: u32 where "UART_RXFIFO_COUNT_MASK = 0x3ff"
definition C6_UART_NO_DATA :: int where "C6_UART_NO_DATA = - 1"

definition c6_uart_putc :: "'d platform \<Rightarrow> u8 \<Rightarrow> ('d, 'm) hw_scheme \<Rightarrow> ('d, 'm) hw_scheme" where
  "c6_uart_putc P value s = c6_write32 P C6_REG_UART_FIFO (to_u32 value) s"

text \<open>A C string is the list of its bytes up to and including the terminator.\<close>

fun c6_uart_puts :: "'d platform \<Rightarrow> bytes \<Rightarrow> ('d, 'm) hw_scheme \<Rightarrow> ('d, 'm) hw_scheme" where
  "c6_uart_puts P [] s = s"
| "c6_uart_puts P (c # cs) s = (if c \<noteq> 0 then c6_uart_puts P cs (c6_uart_putc P c s) else s)"

text \<open>The \<open>do ... while\<close> of \<open>c6_uart_put_u32\<close> and the loop that sends the digits back to front.\<close>

function uart_digits :: "u32 \<Rightarrow> bytes \<Rightarrow> nat \<Rightarrow> bytes \<times> nat" where
  "uart_digits value digits count =
     (let digits = digits[count := to_u8 (0x30 + value mod 10)];
          count = count + 1;
          value = value div 10
      in if value \<noteq> 0 then uart_digits value digits count else (digits, count))"
  by pat_completeness auto
termination
proof (relation "measure (\<lambda>(v, d, c). unat v)", simp)
  fix v d c d' c' v' assume "v' = (v :: u32) div 10" "v' \<noteq> 0"
  then have "unat v' = unat v div 10" and "unat v' \<noteq> 0"
    by (simp add: unat_div) (metis \<open>v' \<noteq> 0\<close> unat_eq_0)
  then show "((v', d' :: bytes, c' :: nat), v, d :: bytes, c :: nat) \<in> measure (\<lambda>(v, d, c). unat v)"
    by simp
qed

declare uart_digits.simps [simp del]

fun uart_send_back :: "'d platform \<Rightarrow> bytes \<Rightarrow> nat \<Rightarrow> ('d, 'm) hw_scheme \<Rightarrow> ('d, 'm) hw_scheme" where
  "uart_send_back P digits 0 s = s"
| "uart_send_back P digits (Suc count) s =
     uart_send_back P digits count (c6_uart_putc P (digits ! count) s)"

definition c6_uart_put_u32 :: "'d platform \<Rightarrow> u32 \<Rightarrow> ('d, 'm) hw_scheme \<Rightarrow> ('d, 'm) hw_scheme" where
  "c6_uart_put_u32 P value s =
     (case uart_digits value (uninit P 10) 0 of (digits, count) \<Rightarrow> uart_send_back P digits count s)"

definition c6_uart_getc_nonblocking ::
  "'d platform \<Rightarrow> ('d, 'm) hw_scheme \<Rightarrow> int \<times> ('d, 'm) hw_scheme" where
  "c6_uart_getc_nonblocking P s =
     (case c6_read32 P C6_REG_UART_STATUS s of (status, s) \<Rightarrow>
        if status AND UART_RXFIFO_COUNT_MASK = 0 then (C6_UART_NO_DATA, s)
        else (case c6_read32 P C6_REG_UART_FIFO s of (v, s) \<Rightarrow> (uint (v AND 0xff), s)))"

fun parse_from :: "u32 \<Rightarrow> bytes \<Rightarrow> u32" where
  "parse_from result [] = result"
| "parse_from result (c # cs) =
     (if 0x30 \<le> c \<and> c \<le> 0x39 then parse_from (result * 10 + (to_u32 c - 0x30)) cs else result)"

definition parse_u32 :: "bytes \<Rightarrow> u32" where
  "parse_u32 value = parse_from 0 value"

section \<open>What is printed\<close>

text \<open>The decimal numeral of a number, most significant digit first, in ASCII.\<close>

fun decimal :: "nat \<Rightarrow> bytes" where
  "decimal n = (if n < 10 then [0x30 + of_nat n] else decimal (n div 10) @ [0x30 + of_nat (n mod 10)])"

declare decimal.simps [simp del]

definition printed :: "bytes \<Rightarrow> io list" where
  "printed bs = map (\<lambda>c. Wr C6_REG_UART_FIFO (to_u32 c)) bs"

lemma printed_append [simp]: "printed (xs @ ys) = printed xs @ printed ys"
  and printed_Nil [simp]: "printed [] = []"
  and printed_Cons [simp]: "printed (c # cs) = Wr C6_REG_UART_FIFO (to_u32 c) # printed cs"
  by (simp_all add: printed_def)

lemma putc_io [simp, io_rules]: "io_log (c6_uart_putc P c s) = io_log s @ printed [c]"
  by (simp add: c6_uart_putc_def)

lemma puts_io [io_rules]: "io_log (c6_uart_puts P cs s) = io_log s @ printed (takeWhile (\<lambda>c. c \<noteq> 0) cs)"
  by (induction cs arbitrary: s) simp_all

lemma send_back_io: "n \<le> length ds \<Longrightarrow> io_log (uart_send_back P ds n s) = io_log s @ printed (rev (take n ds))"
  by (induction n arbitrary: s) (simp_all add: take_Suc_conv_app_nth)

lemma length_decimal: "n < 10 ^ k \<Longrightarrow> 0 < k \<Longrightarrow> length (decimal n) \<le> k"
proof (induction k arbitrary: n)
  case (Suc k)
  show ?case
  proof (cases "n < 10")
    case True
    then show ?thesis by (subst decimal.simps) simp
  next
    case False
    then have "k \<noteq> 0" "n div 10 < 10 ^ k" using Suc.prems by (auto simp: div_less_iff_less_mult intro: Nat.gr0I)
    with Suc.IH False show ?thesis by (subst decimal.simps) simp
  qed
qed simp

lemma digit_char: "to_u8 (0x30 + v mod 10 :: u32) = 0x30 + of_nat (unat v mod 10)"
proof -
  have "v mod 10 = of_nat (unat v mod 10)"
    by (simp add: word_unat_eq_iff unat_mod unsigned_of_nat take_bit_nat_eq_self
        order.strict_trans [OF mod_less_divisor])
  then have "0x30 + v mod 10 = of_nat (0x30 + unat v mod 10)"
    by simp
  then show ?thesis
    by (simp only: to_u8_of_nat) simp
qed

lemma div_10_0: "v div 10 = (0 :: u32) \<longleftrightarrow> unat v < 10"
  by (simp add: unat_eq_0 [symmetric] unat_div div_eq_0_iff)

lemma uart_digits_decimal:
  "count + length (decimal (unat v)) \<le> length ds \<Longrightarrow>
   snd (uart_digits v ds count) = count + length (decimal (unat v)) \<and>
   length (fst (uart_digits v ds count)) = length ds \<and>
   take (count + length (decimal (unat v))) (fst (uart_digits v ds count)) = take count ds @ rev (decimal (unat v))"
proof (induction v ds count rule: uart_digits.induct)
  case (1 v ds count)
  let ?ds = "ds[count := to_u8 (0x30 + v mod 10)]"
  show ?case
  proof (cases "unat v < 10")
    case True
    then have "decimal (unat v) = [0x30 + of_nat (unat v)]"
      by (subst decimal.simps) simp
    moreover have "uart_digits v ds count = (?ds, Suc count)"
      using True by (subst uart_digits.simps) (simp add: div_10_0 Let_def)
    ultimately show ?thesis
      using True 1(2) by (simp add: digit_char take_Suc_conv_app_nth)
  next
    case False
    then have d: "decimal (unat v) = decimal (unat (v div 10)) @ [0x30 + of_nat (unat v mod 10)]"
      by (subst decimal.simps) (simp add: unat_div)
    have "uart_digits v ds count = uart_digits (v div 10) ?ds (Suc count)"
      using False by (subst uart_digits.simps) (simp add: div_10_0 Let_def)
    moreover have "take (Suc count) ?ds = take count ds @ [0x30 + of_nat (unat v mod 10)]"
      using 1(2) d by (simp add: digit_char take_Suc_conv_app_nth)
    ultimately show ?thesis
      using 1(1) [OF refl refl refl] False 1(2) d by (simp add: div_10_0)
  qed
qed

lemma put_u32_io [io_rules]:
  "io_log (c6_uart_put_u32 P v s) = io_log s @ printed (decimal (unat v))"
proof -
  have "unat v < 2 ^ 32"
    using unsigned_less [where w = v, where 'a = nat] by simp
  then have "length (decimal (unat v)) \<le> 10"
    by (intro length_decimal) simp_all
  moreover define r where "r = uart_digits v (uninit P 10) 0"
  ultimately have "snd r \<le> length (fst r)" "take (snd r) (fst r) = rev (decimal (unat v))"
    using uart_digits_decimal [of 0 v "uninit P 10"] by auto
  then show ?thesis
    by (simp add: c6_uart_put_u32_def case_prod_beta r_def [symmetric] send_back_io)
qed

section \<open>Reading a number back\<close>

definition decimal_value :: "bytes \<Rightarrow> nat" where
  "decimal_value ds = foldl (\<lambda>n c. 10 * n + (unat c - 0x30)) 0 ds"

definition is_digit :: "u8 \<Rightarrow> bool" where
  "is_digit c \<longleftrightarrow> 0x30 \<le> c \<and> c \<le> 0x39"

lemma parse_from_value:
  "list_all is_digit ds \<Longrightarrow> \<not> is_digit c \<Longrightarrow>
   parse_from (of_nat n) (ds @ c # cs) = of_nat (foldl (\<lambda>n c. 10 * n + (unat c - 0x30)) n ds)"
proof (induction ds arbitrary: n)
  case Nil
  then show ?case by (auto simp: is_digit_def)
next
  case (Cons d ds)
  have "of_nat n * 10 + (to_u32 d - 0x30) = (of_nat (10 * n + (unat d - 0x30)) :: u32)"
  proof -
    have "0x30 \<le> unat d" using Cons.prems by (simp add: is_digit_def word_le_nat_alt)
    moreover have "to_u32 d = of_nat (unat d)"
      by (simp add: word_unat_eq_iff unsigned_of_nat)
    ultimately show ?thesis by (simp add: of_nat_diff)
  qed
  then show ?case
    using Cons.prems Cons.IH [of "10 * n + (unat d - 0x30)"] by (simp add: is_digit_def del: of_nat_add)
qed

lemma digit_of_nat: "k < 10 \<Longrightarrow> is_digit (0x30 + of_nat k) \<and> unat (0x30 + of_nat k :: u8) = 0x30 + k"
  by (simp add: is_digit_def word_le_nat_alt unat_word_ariths unsigned_of_nat take_bit_nat_eq_self)

lemma decimal_digits: "list_all is_digit (decimal n) \<and> decimal_value (decimal n) = n"
proof (induction n rule: less_induct)
  case (less n)
  show ?case
  proof (cases "n < 10")
    case True
    then show ?thesis
      using digit_of_nat [of n] by (subst (1 2) decimal.simps) (simp add: decimal_value_def)
  next
    case False
    with less.IH [of "n div 10"] show ?thesis
      using digit_of_nat [of "n mod 10"]
      by (subst (1 2) decimal.simps) (simp add: decimal_value_def)
  qed
qed

section \<open>Properties\<close>

text \<open>C33.
  Printing a number sends exactly its decimal numeral to the console, without leading zeros, for every 32-bit
  value: the ten-byte digit buffer suffices.  The parser of the command line reads any string of
  digits as its value modulo \<open>2 ^ 32\<close>, so it reads back what was printed.\<close>

theorem print_parse:
  "io_log (c6_uart_put_u32 P v s) = io_log s @ printed (decimal (unat v)) \<and>
   parse_u32 (decimal (unat v) @ 0 # rest) = v \<and> parse_u32 (decimal n @ 0 # rest) = of_nat n"
  using parse_from_value [of "decimal (unat v)" 0 0 rest] decimal_digits [of "unat v"]
    parse_from_value [of "decimal n" 0 0 rest] decimal_digits [of n]
  by (simp add: put_u32_io parse_u32_def decimal_value_def is_digit_def)

end
