(* ===== verification/Firmware.thy ===== *)
theory Firmware
  imports Wpa2 Uart
begin

text \<open>
  The main program (\<^verbatim>\<open>main.c\<close>): the self test, the command line and the polling loop that hands every
  received frame to the two stations.  The state is the whole firmware's.  The invariant
  collects those of the components; every operation of the loop keeps it, so the
  guarantees of the components hold of the program that uses them.
\<close>

section \<open>The code\<close>

record 'd firmware = "'d wpa2" +
  command :: bytes
  command_length :: u32
  wpa2_started :: bool
  received_frame :: bytes

fun equals :: "bytes \<Rightarrow> bytes \<Rightarrow> bool" where
  "equals (l # ls) (r # rs) = (if l \<noteq> 0 \<and> r \<noteq> 0 \<and> l = r then equals ls rs else l = r)"
| "equals _ _ = False"

fun begins :: "bytes \<Rightarrow> bytes \<Rightarrow> bool" where
  "begins (v # vs) (p # ps) = (if p \<noteq> 0 then (if v \<noteq> p then False else begins vs ps) else True)"
| "begins _ [] = True"
| "begins [] (p # ps) = (p = 0)"

definition checkpoint :: "'d platform \<Rightarrow> bytes \<Rightarrow> int \<Rightarrow> ('d, 'm) firmware_scheme \<Rightarrow> ('d, 'm) firmware_scheme" where
  "checkpoint P event result s =
     (let s = c6_uart_puts P (cstring ''REMU_C6_RF event='') s;
          s = c6_uart_puts P event s;
          s = c6_uart_puts P (cstring '' result='') s;
          s = (if result < 0
               then c6_uart_put_u32 P (of_int (- result)) (c6_uart_putc P 0x2d s)
               else c6_uart_put_u32 P (of_int result) s);
          s = c6_uart_puts P (cstring '' channel='') s;
          s = c6_uart_put_u32 P (to_u32 (c6_rf_channel s)) s;
          s = c6_uart_puts P (cstring '' power_dbm='') s;
          s = c6_uart_put_u32 P (to_u32 (c6_rf_power_dbm s)) s
      in c6_uart_putc P 0x0a s)"

definition initialize :: "'d platform \<Rightarrow> ('d, 'm) firmware_scheme \<Rightarrow> int \<times> ('d, 'm) firmware_scheme" where
  "initialize P s =
     (let (result, s) = c6_phy_init P s;
          (result, s) = (if result = 0 then c6_mac_init P s else (result, s));
          (result, s) = (if result = 0 then c6_rf_configure P 1 14 s else (result, s))
      in (result, checkpoint P (cstring ''INIT'') result s))"

definition execute :: "'d platform \<Rightarrow> bytes \<Rightarrow> ('d, 'm) firmware_scheme \<Rightarrow> ('d, 'm) firmware_scheme" where
  "execute P line s =
     (if equals line (cstring ''INIT'') then snd (initialize P s)
      else if begins line (cstring ''CHANNEL '') then
        (let (result, s) = c6_rf_set_channel P (to_u8 (parse_u32 (drop 8 line))) s
         in checkpoint P (cstring ''CHANNEL'') result s)
      else if begins line (cstring ''POWER '') then
        (let (result, s) = c6_rf_set_power P (to_u8 (parse_u32 (drop 6 line))) s
         in checkpoint P (cstring ''POWER'') result s)
      else if equals line (cstring ''RX START'') then
        checkpoint P (cstring ''RX_START'') 0 (c6_mac_rx_start P s)
      else if equals line (cstring ''RX STOP'') then
        checkpoint P (cstring ''RX_STOP'') 0 (c6_mac_rx_stop P s)
      else if begins line (cstring ''TX '') then
        (let (result, s) = c6_mac_tx_probe P (drop 3 line) s
         in checkpoint P (cstring ''TX'') result s)
      else if equals line (cstring ''RESET RADIO'') then
        (let (result, s) = c6_phy_reset_radio P s
         in checkpoint P (cstring ''RESET_RADIO'') result s)
      else checkpoint P (cstring ''BAD_COMMAND'') (- 1) s)"

definition stage ::
  "'d platform \<Rightarrow> u8 \<Rightarrow> u8 \<Rightarrow> bytes \<Rightarrow> ('d, 'm) firmware_scheme \<Rightarrow> int \<times> ('d, 'm) firmware_scheme" where
  "stage P channel power_dbm tag s =
     (let (result, s) = c6_rf_configure P channel power_dbm s;
          (result, s) = (if result = 0 then c6_mac_tx_probe P tag s else (result, s))
      in (result, checkpoint P tag result s))"

definition self_test :: "'d platform \<Rightarrow> ('d, 'm) firmware_scheme \<Rightarrow> ('d, 'm) firmware_scheme" where
  "self_test P s =
     (let (result, s) = initialize P s in if result \<noteq> 0 then s else
      let (result, s) = stage P 1 8 (cstring ''CH1-P08'') s in if result \<noteq> 0 then s else
      let (result, s) = stage P 6 14 (cstring ''CH6-P14'') s in if result \<noteq> 0 then s else
      let (result, s) = stage P 11 20 (cstring ''CH11-P20'') s in if result \<noteq> 0 then s else
      let (result, s) = stage P 6 14 (cstring ''WARM-P14'') s in if result \<noteq> 0 then s else
      let (result, s) = c6_phy_reset_radio P s;
          s = checkpoint P (cstring ''RESET_RADIO'') result s
      in if result \<noteq> 0 then s else
      let (result, s) = c6_mac_init P s in if result \<noteq> 0 then s else
      let (result, s) = stage P 11 14 (cstring ''RESET-P14'') s in if result \<noteq> 0 then s else
      let s = snd (c6_rf_configure P 6 14 s);
          s = c6_mac_rx_start P s;
          s = checkpoint P (cstring ''READY'') 0 s;
          (result, s) = c6_station_start P s
      in checkpoint P (cstring ''OPEN_START'') result s)"

text \<open>\<open>if ((events & flag) != 0) checkpoint(name, result);\<close>\<close>

definition report ::
  "'d platform \<Rightarrow> u32 \<Rightarrow> u32 \<times> string \<times> int \<Rightarrow> ('d, 'm) firmware_scheme \<Rightarrow> ('d, 'm) firmware_scheme" where
  "report P events r s =
     (case r of (flag, name, result) \<Rightarrow>
        if events AND flag \<noteq> 0 then checkpoint P (cstring name) result s else s)"

definition station_reports :: "(u32 \<times> string \<times> int) list" where
  "station_reports =
     [(C6_STATION_SCANNED, ''OPEN_SCAN'', 0), (C6_STATION_AUTHENTICATED, ''OPEN_AUTH'', 0),
      (C6_STATION_ASSOCIATED, ''OPEN_ASSOC'', 0), (C6_STATION_L2_TX, ''OPEN_L2_TX'', 0),
      (C6_STATION_L2_RX, ''OPEN_L2_RX'', 0), (C6_STATION_FAILED, ''OPEN_FAILED'', - 1)]"

definition wpa2_reports :: "(u32 \<times> string \<times> int) list" where
  "wpa2_reports =
     [(C6_WPA2_SCANNED, ''WPA2_SCAN'', 0), (C6_WPA2_AUTHENTICATED, ''WPA2_AUTH'', 0),
      (C6_WPA2_ASSOCIATED, ''WPA2_ASSOC'', 0), (C6_WPA2_EAPOL_M2, ''EAPOL_M2'', 0),
      (C6_WPA2_EAPOL_M4, ''EAPOL_M4'', 0), (C6_WPA2_CCMP_INSTALLED, ''CCMP_INSTALLED'', 0),
      (C6_WPA2_CCMP_TX, ''CCMP_TX'', 0), (C6_WPA2_CCMP_RX, ''CCMP_RX'', 0),
      (C6_WPA2_FAILED, ''WPA2_FAILED'', - 1)]"

text \<open>A received frame goes to the open station, then possibly starts the WPA2 one, then goes to it.\<close>

definition deliver :: "'d platform \<Rightarrow> u32 \<Rightarrow> ('d, 'm) firmware_scheme \<Rightarrow> ('d, 'm) firmware_scheme" where
  "deliver P wire_length s =
     (let (events, s) = c6_station_receive P (received_frame s) wire_length s;
          s = fold (report P events) station_reports s;
          s = (if events AND C6_STATION_L2_RX \<noteq> 0 \<and> \<not> wpa2_started s
               then let (result, s) = c6_wpa2_start P (s\<lparr>wpa2_started := True\<rparr>)
                    in checkpoint P (cstring ''WPA2_START'') result s
               else s);
          (wpa2, s) = c6_wpa2_receive P (received_frame s) wire_length s
      in fold (report P wpa2) wpa2_reports s)"

text \<open>
  The line printed for a reception.  When the driver refused the descriptor it has not stored
  \<open>rssi\<close>; the code prints the automatic variable all the same, here the indeterminate byte \<open>junk\<close>.
\<close>

definition print_reception ::
  "'d platform \<Rightarrow> int \<Rightarrow> u32 \<Rightarrow> int \<Rightarrow> ('d, 'm) firmware_scheme \<Rightarrow> ('d, 'm) firmware_scheme" where
  "print_reception P received wire_length rssi s =
     (let s = c6_uart_puts P (cstring ''REMU_C6_RF event=RX result='') s;
          s = c6_uart_put_u32 P (if received > 0 then 0 else 1) s;
          s = c6_uart_puts P (cstring '' length='') s;
          s = c6_uart_put_u32 P (if received > 0 then wire_length else 0) s;
          s = c6_uart_puts P (cstring '' rssi='') s;
          s = (if rssi < 0 then c6_uart_putc P 0x2d s else s);
          s = c6_uart_put_u32 P (if rssi < 0 then of_int (- rssi) else of_int rssi) s
      in c6_uart_putc P 0x0a s)"

definition poll_radio ::
  "'d platform \<Rightarrow> ('d, 'm) firmware_scheme \<Rightarrow> (u32 option) \<times> ('d, 'm) firmware_scheme" where
  "poll_radio P s =
     (case c6_mac_rx_copy P (received_frame s) 256 s of (received, frame, out, s) \<Rightarrow>
        (let s = s\<lparr>received_frame := frame\<rparr>;
             (wire_length, rssi) = (case out of Some w \<Rightarrow> w | None \<Rightarrow> (to_u32 (stack_junk P 0), sint (stack_junk P 1)))
         in if received \<noteq> 0
            then (let s = print_reception P received wire_length rssi s
                  in if received > 0 then (Some wire_length, deliver P wire_length s) else (None, s))
            else (None, s)))"

definition poll_console :: "'d platform \<Rightarrow> ('d, 'm) firmware_scheme \<Rightarrow> ('d, 'm) firmware_scheme" where
  "poll_console P s =
     (case c6_uart_getc_nonblocking P s of (byte, s) \<Rightarrow>
        if byte < 0 then s
        else if byte = 0x0d then s
        else if byte = 0x0a then
          (let s = s\<lparr>command := (command s)[unat (command_length s) := 0]\<rparr>;
               s = execute P (command s) s
           in s\<lparr>command_length := 0\<rparr>)
        else if command_length s + 1 < 64 then
          s\<lparr>command := (command s)[unat (command_length s) := of_int byte],
            command_length := command_length s + 1\<rparr>
        else checkpoint P (cstring ''COMMAND_TOO_LONG'') (- 1) (s\<lparr>command_length := 0\<rparr>))"

text \<open>One turn of the \<open>for (;;)\<close> of \<open>main\<close>, with the frame it handed to the stations, if any.\<close>

definition main_iteration ::
  "'d platform \<Rightarrow> ('d, 'm) firmware_scheme \<Rightarrow> rx_frame option \<times> ('d, 'm) firmware_scheme" where
  "main_iteration P s =
     (case poll_radio P s of (delivered, s) \<Rightarrow>
        (map_option (\<lambda>n. (received_frame s, n)) delivered, poll_console P s))"

fun main_loop :: "'d platform \<Rightarrow> nat \<Rightarrow> ('d, 'm) firmware_scheme \<Rightarrow> ('d, 'm) firmware_scheme" where
  "main_loop P 0 s = s"
| "main_loop P (Suc turns) s = main_loop P turns (snd (main_iteration P s))"

section \<open>Operations that leave the stations alone\<close>

text \<open>
  \<open>benign s t\<close>: everything above the MAC driver is unchanged, no key-slot register was written, the
  radio's invariant survives and the transmit buffer keeps its size.
\<close>

definition benign :: "('d, 'm) mac_scheme \<Rightarrow> ('d, 'm) mac_scheme \<Rightarrow> bool" where
  "benign s t \<longleftrightarrow> mac.more t = mac.more s \<and> extends (- ccmp_slot_registers) (io_log s) (io_log t) \<and>
     (rf_sys_inv s \<longrightarrow> rf_sys_inv t) \<and> length (tx_buffer t) = length (tx_buffer s)"

named_theorems benign_rules \<open>benign operations\<close>

lemma benign_refl [simp, intro]: "benign s s"
  by (simp add: benign_def)

lemma benign_trans: "benign s t \<Longrightarrow> benign t u \<Longrightarrow> benign s u"
  by (auto simp: benign_def intro: extends_trans)

lemma extends_muted:
  assumes "extends A l l'" and "A \<subseteq> - Collect rf_register" and "muted_retune off l"
  shows "muted_retune off l'"
proof -
  obtain es where es: "l' = l @ es" "\<forall>a v. Wr a v \<in> set es \<longrightarrow> \<not> rf_register a"
    using assms(1,2) by (auto simp: extends_def)
  have quiet: "list_all (\<lambda>e. case e of Wr a v \<Rightarrow> \<not> rf_register a | Rd a v \<Rightarrow> True) es"
    using es(2) by (auto simp: list_all_iff split: io.splits)
  then have "muted_retune off es" for off
    by (induction off es rule: muted_retune.induct) auto
  then show ?thesis
    using assms(3) es by (simp add: muted_append)
qed

lemma rf_sys_quiet:
  "rf_sys_inv s \<Longrightarrow> extends A (io_log s) (io_log t) \<Longrightarrow> A \<subseteq> - Collect rf_register \<Longrightarrow>
   active_channel t = active_channel s \<Longrightarrow> active_power t = active_power s \<Longrightarrow> rf_sys_inv t"
  unfolding rf_sys_inv_def rf_inv_def by (auto intro: extends_muted)

lemma benignI:
  "extends A (io_log s) (io_log t) \<Longrightarrow> A \<subseteq> - Collect rf_register \<Longrightarrow> A \<subseteq> - ccmp_slot_registers \<Longrightarrow>
   active_channel t = active_channel s \<Longrightarrow> active_power t = active_power s \<Longrightarrow>
   mac.more t = mac.more s \<Longrightarrow> length (tx_buffer t) = length (tx_buffer s) \<Longrightarrow> benign s t"
  unfolding benign_def by (auto intro: extends_mono rf_sys_quiet)

lemmas register_defs = rf_register_def ccmp_slot_registers_def tx_registers_def mac_registers_def
  C6_REG_RFPLL_CHANNEL_CONTROL_def C6_REG_TX_GAIN_FIRST_def C6_REG_TX_GAIN_SECOND_def
  C6_REG_TX_GAIN_FINAL_def C6_REG_RF_FRONTEND_FORCE_def C6_REG_WIFI_INTERFACE0_LOW_def
  C6_REG_WIFI_INTERFACE0_HIGH_def C6_REG_WIFI_RX_BASE_def C6_REG_WIFI_CRYPTO_VALID_def
  C6_REG_WIFI_INTERRUPT_MASK_def C6_REG_WIFI_INTERRUPT_EVENT_def C6_REG_WIFI_INTERRUPT_CLEAR_def
  C6_REG_WIFI_TX_QUEUE_STATE_CLEAR_def C6_REG_WIFI_TX_QUEUE_STATE_def C6_REG_WIFI_TX_QUEUE0_CONTROL_def
  C6_REG_WIFI_RESET_CONTROL_def C6_REG_WIFI_CRYPTO_SLOT0_def C6_REG_MODEM_CLOCK_ENABLE_def
  C6_REG_INTERRUPT_MATRIX_WIFI_ROUTE_def C6_REG_PLIC_ENABLE_def C6_REG_PLIC_WIFI_PRIORITY_def
  C6_REG_PLIC_THRESHOLD_def C6_REG_UART_FIFO_def C6_REG_UART_STATUS_def

lemma quiet_registers:
  "mac_registers \<subseteq> - Collect rf_register" "mac_registers \<subseteq> - ccmp_slot_registers"
  "tx_registers \<subseteq> - Collect rf_register" "tx_registers \<subseteq> - ccmp_slot_registers"
  by (auto simp: register_defs)

lemma benign_read [benign_rules]: "benign s (snd (c6_read32 P a s))"
  by (rule benignI, rule extends_read [of "{}"]) simp_all

lemma benign_write:
  "\<not> rf_register a \<Longrightarrow> a \<notin> ccmp_slot_registers \<Longrightarrow> benign s (c6_write32 P a v s)"
  by (rule benignI, rule extends_write [of a "{a}"]) simp_all

lemma benign_putc [benign_rules]: "benign s (c6_uart_putc P c s)"
  unfolding c6_uart_putc_def by (rule benign_write) (auto simp: register_defs)

lemma benign_puts [benign_rules]: "benign s (c6_uart_puts P cs s)"
  by (induction cs arbitrary: s) (auto intro: benign_trans benign_putc)

lemma benign_send_back: "benign s (uart_send_back P ds n s)"
  by (induction n arbitrary: s) (auto intro: benign_trans benign_putc)

lemma benign_put_u32 [benign_rules]: "benign s (c6_uart_put_u32 P v s)"
  by (simp add: c6_uart_put_u32_def benign_send_back split: prod.split)

lemma benign_getc [benign_rules]: "benign s (snd (c6_uart_getc_nonblocking P s))"
  by (auto simp: c6_uart_getc_nonblocking_def case_prod_beta intro: benign_trans benign_read)

lemma benign_checkpoint [benign_rules]: "benign s (checkpoint P e r s)"
  unfolding checkpoint_def Let_def
  by (auto intro!: benign_trans [OF _ benign_putc] benign_trans [OF _ benign_put_u32]
      benign_trans [OF _ benign_puts])

lemma tx_frame_buffer_length [simp]:
  "length (tx_buffer (snd (c6_mac_tx_frame P f n s))) = length (tx_buffer s)"
  by (simp add: c6_mac_tx_frame_def Let_def)

lemma benign_transmit [benign_rules]: "benign s (snd (transmit P f s))"
  unfolding transmit_def
  by (rule benignI, rule tx_frame_writes) (simp_all add: quiet_registers)

lemma benign_tx_probe [benign_rules]: "benign s (snd (c6_mac_tx_probe P tag s))"
proof (rule benignI, rule tx_probe_writes)
  have "length (fst (append_tag d off tag)) = length d" for d off
    by (simp add: append_tag_def)
  then have "length (tx_buffer (snd (make_probe_request tag s))) = length (tx_buffer s)"
    by (simp add: make_probe_request_def Let_def case_prod_beta)
  moreover have "active_channel (snd (make_probe_request tag s)) = active_channel s"
    "active_power (snd (make_probe_request tag s)) = active_power s"
    "mac.more (snd (make_probe_request tag s)) = mac.more s"
    by (simp_all add: make_probe_request_def Let_def case_prod_beta)
  ultimately show "length (tx_buffer (snd (c6_mac_tx_probe P tag s))) = length (tx_buffer s)"
    "active_channel (snd (c6_mac_tx_probe P tag s)) = active_channel s"
    "active_power (snd (c6_mac_tx_probe P tag s)) = active_power s"
    "mac.more (snd (c6_mac_tx_probe P tag s)) = mac.more s"
    by (simp_all add: c6_mac_tx_probe_def Let_def)
qed (simp_all add: quiet_registers)

lemma benign_mac_init [benign_rules]: "benign s (snd (c6_mac_init P s))"
  by (rule benignI, rule mac_init_writes) (simp_all add: quiet_registers c6_mac_init_def Let_def case_prod_beta)

lemma benign_rx_enable [benign_rules]: "benign s (c6_rf_rx_enable P e s)"
  by (rule benignI [of "{C6_REG_RF_FRONTEND_FORCE}"])
     (auto simp: c6_rf_rx_enable_def extends_def register_defs)

lemma benign_rx_start [benign_rules]: "benign s (c6_mac_rx_start P s)"
proof -
  let ?s = "(c6_rf_rx_enable P 1 s)\<lparr>rx_descriptor := c6_dma_rx_descriptor (addr_rx_buffer P) WIFI_RX_CAPACITY\<rparr>"
  have "benign s ?s"
    using benign_rx_enable [of s P 1] by (simp add: benign_def rf_sys_inv_def rf_inv_def)
  moreover have "benign ?s (c6_write32 P C6_REG_WIFI_RX_BASE (addr_rx_descriptor P) ?s)"
    by (rule benign_write) (auto simp: register_defs)
  ultimately show ?thesis
    unfolding c6_mac_rx_start_def Let_def by (rule benign_trans)
qed

lemma benign_rx_stop [benign_rules]: "benign s (c6_mac_rx_stop P s)"
  unfolding c6_mac_rx_stop_def Let_def
  by (rule benign_trans [OF benign_write benign_rx_enable]) (auto simp: register_defs)

lemma rx_clear_quiet: "\<not> rf_register C6_REG_WIFI_INTERRUPT_CLEAR" "C6_REG_WIFI_INTERRUPT_CLEAR \<notin> ccmp_slot_registers"
  by (auto simp: register_defs)

lemma benign_rx_copy [benign_rules]: "benign s (snd (snd (snd (c6_mac_rx_copy P f c s))))"
  unfolding c6_mac_rx_copy_def Let_def case_prod_beta
  by (auto intro!: benign_trans [OF _ benign_rx_start] benign_trans [OF _ benign_write] benign_read rx_clear_quiet)

lemma mac_of_rf_more:
  fixes s t :: "('d, 'm) mac_scheme"
  shows "rf.more s = rf.more t \<Longrightarrow> mac.more s = mac.more t"
  by (cases s; cases t; simp)

lemma tuning_trace_slots: "Wr a v \<in> set (tuning_trace c t) \<Longrightarrow> a \<in> - ccmp_slot_registers"
  by (auto simp: tuning_trace_def gain_writes_def register_defs)

lemma benign_configure [benign_rules]: "benign s (snd (c6_rf_configure P c p s))"
proof -
  have "extends (- ccmp_slot_registers) (io_log s) (io_log (snd (c6_rf_configure P c p s)))"
  proof (cases "legal_channel c \<and> legal_power p")
    case True
    then obtain t where "power_table p = Some t"
      using power_table_Some_iff [of p] by auto
    then have "io_log (snd (c6_rf_configure P c p s)) = io_log s @ tuning_trace c t"
      using True configure_ok(2) by blast
    then show ?thesis
      using tuning_trace_slots unfolding extends_def by blast
  next
    case False
    then show ?thesis
      using configure_bad_channel [of c P p s] configure_bad_power [of c p P s]
      by (cases "legal_channel c") auto
  qed
  moreover have "mac.more (snd (c6_rf_configure P c p s)) = mac.more s"
    by (rule mac_of_rf_more) simp
  ultimately show ?thesis
    by (simp add: benign_def rf_sys_inv_def configure_inv configure_muted)
qed

lemma benign_set_channel [benign_rules]: "benign s (snd (c6_rf_set_channel P c s))"
  by (simp add: c6_rf_set_channel_def benign_configure)

lemma benign_set_power [benign_rules]: "benign s (snd (c6_rf_set_power P c s))"
  by (simp add: c6_rf_set_power_def benign_configure)

lemma benign_invalidate: "benign s (c6_rf_invalidate s)"
  by (simp add: benign_def c6_rf_invalidate_def rf_sys_inv_def rf_inv_def)

lemma benign_reset [benign_rules]: "benign s (snd (c6_phy_reset_radio P s))"
  unfolding c6_phy_reset_radio_def Let_def case_prod_beta snd_conv
  by (intro benign_trans [OF _ benign_read] benign_trans [OF _ benign_invalidate]
      benign_trans [OF benign_rx_enable benign_write]) (auto simp: register_defs)

lemma benign_phy_init [benign_rules]: "benign s (snd (c6_phy_init P s))"
  unfolding c6_phy_init_def Let_def case_prod_beta
  by (intro benign_trans [OF _ benign_reset] benign_trans [OF benign_read benign_write])
     (auto simp: register_defs)

section \<open>The invariant of the firmware\<close>

definition fw_inv :: "('d, 'm) firmware_scheme \<Rightarrow> rx_frame list \<Rightarrow> rx_frame list \<Rightarrow> bool" where
  "fw_inv s hs hw \<longleftrightarrow> sta_inv (s, hs) \<and> w_inv (s, hw) \<and> rf_sys_inv s \<and> length (tx_buffer s) = 256 \<and>
     unat (command_length s) < 64 \<and> length (command s) = 64 \<and> length (received_frame s) = 256"

lemma firmware_of_more:
  fixes s t :: "('d, 'm) firmware_scheme"
  assumes "wpa2.more s = wpa2.more t"
  shows "command s = command t" "command_length s = command_length t" "wpa2_started s = wpa2_started t"
    "received_frame s = received_frame t"
  using assms by (cases s; cases t; simp)+

lemma benign_inv:
  assumes "benign s t" and "fw_inv s hs hw"
  shows "fw_inv t hs hw"
proof -
  have m: "mac.more t = mac.more s" using assms(1) by (simp add: benign_def)
  note f = wpa2_of_more [OF m] firmware_of_more [OF wpa2_of_more(4) [OF m]]
  show ?thesis
    using assms by (auto simp: fw_inv_def sta_inv_def w_inv_def benign_def f intro: authentic_extends)
qed

lemma benign_fields:
  fixes s t :: "('d, 'm) firmware_scheme"
  assumes "benign s t"
  shows "received_frame t = received_frame s" "wpa2_started t = wpa2_started s"
    "command t = command s" "command_length t = command_length s"
proof -
  have m: "mac.more t = mac.more s" using assms(1) by (simp add: benign_def)
  show "received_frame t = received_frame s" "wpa2_started t = wpa2_started s"
    "command t = command s" "command_length t = command_length s"
    using firmware_of_more [OF wpa2_of_more(4) [OF m]] by simp_all
qed

lemmas checkpoint_inv [simp] = benign_inv [OF benign_checkpoint]
lemmas checkpoint_fields [simp] = benign_fields [OF benign_checkpoint]

lemma wpa2_of_station_more:
  fixes s t :: "('d, 'm) wpa2_scheme"
  assumes "station.more s = station.more t"
  shows "w_state s = w_state t" and "w_sequence_number s = w_sequence_number t"
    and "ptk s = ptk t" and "wpa2.more s = wpa2.more t"
  using assms by (cases s; cases t; simp)+

text \<open>What the open station does, seen from the rest: its two variables change, then one benign step.\<close>

lemma station_sends_inv:
  fixes s u t :: "('d, 'm) firmware_scheme"
  assumes "fw_inv s hs hw" and "station.more u = station.more s" and "io_log u = io_log s"
    and "active_channel u = active_channel s" and "active_power u = active_power s"
    and "tx_buffer u = tx_buffer s" and "benign u t" and "sta_inv (t, hs')"
  shows "fw_inv t hs' hw"
proof -
  note f = wpa2_of_station_more [OF assms(2)] firmware_of_more [OF wpa2_of_station_more(4) [OF assms(2)]]
  have "rf_sys_inv u" "w_inv (u, hw)"
    using assms(1,3-5) f by (auto simp: fw_inv_def w_inv_def rf_sys_inv_def rf_inv_def)
  moreover have "sta_inv (u, hs') = sta_inv (t, hs')"
    using assms(7) wpa2_of_more [of t u] by (simp add: benign_def sta_inv_def)
  ultimately have "fw_inv u hs' hw"
    using assms f by (simp add: fw_inv_def)
  then show ?thesis by (rule benign_inv [OF assms(7)])
qed

lemma station_receive_inv:
  assumes "fw_inv s hs hw"
  shows "fw_inv (snd (c6_station_receive P f n s)) (hs @ [(f, n)]) hw"
proof -
  have i: "sta_inv (snd (c6_station_receive P f n s), hs @ [(f, n)])"
    using assms sta_step_inv [OF _ sta_receive_step] by (auto simp: fw_inv_def)
  show ?thesis
  proof (cases "sta_next (sta_state s) (f, n)")
    case None
    then show ?thesis
      using i assms by (simp add: receive_spec sta_spec_def fw_inv_def)
  next
    case (Some r)
    obtain st a e where "r = (st, a, e)" by (cases r)
    then have "snd (c6_station_receive P f n s) =
        snd (transmit P (a (sta_sequence_number s)) (bump (s\<lparr>sta_state := st\<rparr>)))"
      using Some by (simp add: receive_spec sta_spec_def Let_def)
    then show ?thesis
      using i by (intro station_sends_inv [OF assms, of "bump (s\<lparr>sta_state := st\<rparr>)"])
        (simp_all add: benign_transmit, simp_all add: bump_def)
  qed
qed

lemma station_start_inv:
  assumes "fw_inv s hs hw"
  shows "fw_inv (snd (c6_station_start P s)) hs hw"
proof -
  have "sta_inv (snd (c6_station_start P s), hs)"
    using assms sta_step_inv [OF _ sta_start_step] by (auto simp: fw_inv_def)
  then show ?thesis
    by (intro station_sends_inv [OF assms, of "bump (s\<lparr>sta_state := STATION_SCANNING\<rparr>)"])
      (simp_all add: c6_station_start_def send_probe_request_eq benign_transmit, simp_all add: bump_def)
qed

text \<open>The WPA2 station changes the radio's state through transmissions and register writes only.\<close>

definition radio_kept :: "('d, 'm) wpa2_scheme \<Rightarrow> ('d, 'm) wpa2_scheme \<Rightarrow> bool" where
  "radio_kept s t \<longleftrightarrow> (rf_sys_inv s \<longrightarrow> rf_sys_inv t) \<and> length (tx_buffer t) = length (tx_buffer s) \<and>
     wpa2.more t = wpa2.more s \<and> sta_state t = sta_state s \<and> sta_sequence_number t = sta_sequence_number s"

lemma radio_kept_trans: "radio_kept s t \<Longrightarrow> radio_kept t u \<Longrightarrow> radio_kept s u"
  by (auto simp: radio_kept_def)

lemma radio_kept_benign: "benign s t \<Longrightarrow> radio_kept s t"
  using wpa2_of_more [of t s] by (simp add: benign_def radio_kept_def)

lemma radio_kept_update [simp]:
  "radio_kept s (s\<lparr>w_state := st\<rparr>)" "radio_kept s (w_bump s)" "radio_kept s (s\<lparr>ptk := K, w_state := st\<rparr>)"
  by (simp_all add: radio_kept_def rf_sys_inv_def rf_inv_def w_bump_def)

lemma radio_kept_transmit: "radio_kept s (snd (transmit P f (w_bump s)))"
  using radio_kept_trans [OF radio_kept_update(2) radio_kept_benign [OF benign_transmit]] .

lemma radio_kept_install: "radio_kept s (c6_mac_install_ccmp P peer key s)"
proof -
  have "insert C6_REG_WIFI_CRYPTO_VALID ccmp_slot_registers \<subseteq> - Collect rf_register"
    by (auto simp: register_defs)
  then show ?thesis
    using rf_sys_quiet [OF _ install_ccmp_writes [of s P peer key]] by (simp add: radio_kept_def)
qed

lemma radio_kept_reply: "radio_kept s (snd (w_reply P f e (s\<lparr>w_state := st\<rparr>)))"
  using radio_kept_trans [OF radio_kept_update(1) radio_kept_transmit] by (simp add: w_reply_def Let_def)

lemma radio_kept_m3: "radio_kept s (snd (m3_step P e s))"
proof -
  let ?s1 = "c6_mac_install_ccmp P w_ap_address (drop 32 (ptk s)) s"
  let ?s2 = "snd (transmit P (eapol_frame (ptk s) 0x030a 2 (replicate 32 0) (w_sequence_number s)) (w_bump ?s1))"
  have s2: "radio_kept s ?s2"
    using radio_kept_install radio_kept_transmit by (rule radio_kept_trans)
  then have s3: "radio_kept s (snd (transmit P f (w_bump ?s2)))" for f
    using radio_kept_transmit by (rule radio_kept_trans)
  then have "radio_kept s ((snd (transmit P f (w_bump ?s2)))\<lparr>w_state := st\<rparr>)" for f st
    using radio_kept_update(1) by (rule radio_kept_trans)
  moreover have "radio_kept s s" by (simp add: radio_kept_def)
  ultimately show ?thesis
    using s2 s3 unfolding m3_step_def Let_def by (simp only: snd_conv split: if_split) blast
qed

lemma radio_kept_m1: "radio_kept s (snd (m1_step P e s))"
proof -
  have "radio_kept s (snd (transmit P f (w_bump (s\<lparr>ptk := K, w_state := st\<rparr>))))" for f K st
    by (rule radio_kept_trans [OF radio_kept_update(3) radio_kept_transmit])
  moreover have "radio_kept s s" by (simp add: radio_kept_def)
  ultimately show ?thesis
    by (simp add: m1_step_def w_reply_def Let_def)
qed

lemma radio_kept_receive:
  assumes "unat n \<le> length f" and "length (ptk s) = 64"
  shows "radio_kept s (snd (c6_wpa2_receive P f n s))"
  unfolding w_receive_spec [OF assms] wpa_spec_def
  by (cases "w_state s") (simp_all add: radio_kept_m1 radio_kept_m3 radio_kept_reply, simp_all add: radio_kept_def)

lemma radio_kept_inv:
  fixes s t :: "('d, 'm) firmware_scheme"
  assumes "radio_kept s t" and "fw_inv s hs hw" and "w_inv (t, hw')"
  shows "fw_inv t hs hw'"
proof -
  have "wpa2.more t = wpa2.more s" using assms(1) by (simp add: radio_kept_def)
  note f = firmware_of_more [OF this]
  show ?thesis
    using assms f by (simp add: fw_inv_def radio_kept_def sta_inv_def)
qed

lemma wpa2_receive_inv:
  assumes "fw_inv s hs hw" and "unat n \<le> length f"
  shows "fw_inv (snd (c6_wpa2_receive P f n s)) hs (hw @ [(f, n)])"
proof -
  have w: "w_inv (s, hw)" "length (ptk s) = 64"
    using assms(1) by (simp_all add: fw_inv_def w_inv_def)
  show ?thesis
    using radio_kept_receive [OF assms(2) w(2)] assms(1) w_receive_inv [OF w(1) assms(2)]
    by (rule radio_kept_inv)
qed

lemma wpa2_start_inv:
  assumes "fw_inv s hs hw"
  shows "fw_inv (snd (c6_wpa2_start P s)) hs hw"
proof -
  let ?s = "c6_mac_set_interface_address P station_address s"
  have "benign s ?s"
    by (rule benignI, rule set_interface_writes) (auto simp: register_defs)
  then have "radio_kept s (?s\<lparr>w_state := WPA2_SCANNING\<rparr>)"
    using radio_kept_trans [OF radio_kept_benign radio_kept_update(1)] by blast
  then have "radio_kept s (snd (c6_wpa2_start P s))"
    unfolding c6_wpa2_start_def w_send_probe_request_eq
    using radio_kept_transmit by (rule radio_kept_trans)
  moreover have "w_inv (snd (c6_wpa2_start P s), hw)"
    using assms by (simp add: fw_inv_def w_start_inv)
  ultimately show ?thesis
    by (rule radio_kept_inv [OF _ assms])
qed

section \<open>Every turn of the loop keeps the invariant\<close>

lemma benign_report: "benign s (report P ev r s)"
  by (simp add: report_def benign_checkpoint split: prod.split)

lemma benign_reports: "benign s (fold (report P ev) rs s)"
  by (induction rs arbitrary: s) (auto intro: benign_trans benign_report)

lemma benign_print_reception: "benign s (print_reception P r w q s)"
  unfolding print_reception_def Let_def
  by (auto intro!: benign_trans [OF _ benign_putc] benign_trans [OF _ benign_put_u32]
      benign_trans [OF _ benign_puts])

lemma wpa2_start_frame: "received_frame (snd (c6_wpa2_start P s)) = received_frame s"
proof -
  have "wpa2.more (snd (c6_wpa2_start P s)) = wpa2.more s"
    by (simp add: c6_wpa2_start_def w_send_probe_request_eq)
  then show ?thesis by (rule firmware_of_more(4))
qed

lemma station_receive_frame: "received_frame (snd (c6_station_receive P f n s)) = received_frame s"
proof -
  have "station.more (snd (c6_station_receive P f n s)) = station.more s"
    by (simp add: receive_spec sta_spec_def Let_def split: option.splits prod.splits)
  then show ?thesis
    using firmware_of_more(4) [OF wpa2_of_station_more(4)] by blast
qed

lemma wpa2_receive_frame:
  assumes "unat n \<le> length f" and "length (ptk s) = 64"
  shows "received_frame (snd (c6_wpa2_receive P f n s)) = received_frame s"
proof (rule firmware_of_more(4))
  show "wpa2.more (snd (c6_wpa2_receive P f n s)) = wpa2.more s"
    using radio_kept_receive [OF assms, of P] by (simp add: radio_kept_def)
qed

lemma fw_inv_started [simp]: "fw_inv (s\<lparr>wpa2_started := b\<rparr>) hs hw = fw_inv s hs hw"
  by (simp add: fw_inv_def sta_inv_def w_inv_def rf_sys_inv_def rf_inv_def)

lemma deliver_inv:
  assumes inv: "fw_inv s h h" and n: "unat n \<le> 256"
  shows "fw_inv (deliver P n s) (h @ [(received_frame s, n)]) (h @ [(received_frame s, n)])"
    and "received_frame (deliver P n s) = received_frame s"
proof -
  let ?f = "received_frame s" and ?h = "h @ [(received_frame s, n)]"
  define ev where "ev = fst (c6_station_receive P ?f n s)"
  define s1 where "s1 = snd (c6_station_receive P ?f n s)"
  define s2 where "s2 = fold (report P ev) station_reports s1"
  define s3 where "s3 = (if ev AND C6_STATION_L2_RX \<noteq> 0 \<and> \<not> wpa2_started s2
      then let (result, s) = c6_wpa2_start P (s2\<lparr>wpa2_started := True\<rparr>)
           in checkpoint P (cstring ''WPA2_START'') result s
      else s2)"
  define s4 where "s4 = snd (c6_wpa2_receive P ?f n s3)"
  have i1: "fw_inv s1 ?h h" and f1: "received_frame s1 = ?f"
    using inv by (simp_all add: s1_def station_receive_inv station_receive_frame)
  have b2: "benign s1 s2" by (simp add: s2_def benign_reports)
  have i2: "fw_inv s2 ?h h" and f2: "received_frame s2 = ?f"
    using benign_inv [OF b2 i1] benign_fields(1) [OF b2] f1 by simp_all
  have i3: "fw_inv s3 ?h h" and f3: "received_frame s3 = ?f"
    using i2 f2 wpa2_start_inv [of "s2\<lparr>wpa2_started := True\<rparr>"]
    by (simp_all add: s3_def case_prod_beta wpa2_start_frame)
  have len: "length ?f = 256" "length (ptk s3) = 64"
    using inv i3 by (simp_all add: fw_inv_def w_inv_def)
  have i4: "fw_inv s4 ?h ?h" and f4: "received_frame s4 = ?f"
    using wpa2_receive_inv [OF i3] wpa2_receive_frame [of n ?f s3 P] len n f3 by (simp_all add: s4_def)
  have d: "deliver P n s = fold (report P (fst (c6_wpa2_receive P ?f n s3))) wpa2_reports s4"
    unfolding deliver_def Let_def case_prod_beta ev_def [symmetric] s1_def [symmetric] s2_def [symmetric]
      s3_def [unfolded Let_def case_prod_beta, symmetric] f3 s4_def [symmetric] ..
  show "fw_inv (deliver P n s) ?h ?h" "received_frame (deliver P n s) = ?f"
    unfolding d using f4 by (simp_all add: benign_inv [OF benign_reports i4] benign_fields(1) [OF benign_reports])
qed

lemma initialize_inv: "fw_inv s hs hw \<Longrightarrow> fw_inv (snd (initialize P s)) hs hw"
  by (simp add: initialize_def case_prod_beta Let_def benign_inv [OF benign_phy_init]
      benign_inv [OF benign_mac_init] benign_inv [OF benign_configure])

lemma stage_inv: "fw_inv s hs hw \<Longrightarrow> fw_inv (snd (stage P c p tag s)) hs hw"
  by (simp add: stage_def case_prod_beta Let_def benign_inv [OF benign_tx_probe] benign_inv [OF benign_configure])

lemma execute_inv: "fw_inv s hs hw \<Longrightarrow> fw_inv (execute P line s) hs hw"
  by (simp add: execute_def case_prod_beta Let_def initialize_inv benign_inv [OF benign_set_channel]
      benign_inv [OF benign_set_power] benign_inv [OF benign_rx_start] benign_inv [OF benign_rx_stop]
      benign_inv [OF benign_tx_probe] benign_inv [OF benign_reset])

lemma self_test_inv: "fw_inv s hs hw \<Longrightarrow> fw_inv (self_test P s) hs hw"
  by (simp add: self_test_def case_prod_beta Let_def initialize_inv stage_inv benign_inv [OF benign_reset]
      benign_inv [OF benign_mac_init] benign_inv [OF benign_configure] benign_inv [OF benign_rx_start]
      station_start_inv)

lemma fw_inv_command:
  "fw_inv s hs hw \<Longrightarrow> unat n < 64 \<Longrightarrow> fw_inv (s\<lparr>command := (command s)[i := c], command_length := n\<rparr>) hs hw"
  "fw_inv s hs hw \<Longrightarrow> fw_inv (s\<lparr>command := (command s)[i := c]\<rparr>) hs hw"
  "fw_inv s hs hw \<Longrightarrow> unat n < 64 \<Longrightarrow> fw_inv (s\<lparr>command_length := n\<rparr>) hs hw"
  by (simp_all add: fw_inv_def sta_inv_def w_inv_def rf_sys_inv_def rf_inv_def)

lemma poll_console_inv:
  assumes "fw_inv s hs hw"
  shows "fw_inv (poll_console P s) hs hw"
proof -
  let ?s = "snd (c6_uart_getc_nonblocking P s)"
  have i: "fw_inv ?s hs hw" using assms by (rule benign_inv [OF benign_getc])
  then show ?thesis
    by (simp add: poll_console_def case_prod_beta Let_def fw_inv_command execute_inv word_less_nat_alt)
qed

lemma rx_copy_bounds:
  "length (fst (snd (c6_mac_rx_copy P f c s))) = length f"
  "0 < fst (c6_mac_rx_copy P f c s) \<Longrightarrow>
   \<exists>n q. fst (snd (snd (c6_mac_rx_copy P f c s))) = Some (n, q) \<and> n \<le> c"
  by (auto simp: c6_mac_rx_copy_def case_prod_beta Let_def C6_MAC_NO_PACKET_def
      C6_MAC_INVALID_RX_DESCRIPTOR_def C6_MAC_BUFFER_TOO_SMALL_def split: if_splits)

definition delivered_frames :: "rx_frame option \<Rightarrow> rx_frame list" where
  "delivered_frames d = (case d of None \<Rightarrow> [] | Some fr \<Rightarrow> [fr])"

lemma fw_inv_received:
  "fw_inv s hs hw \<Longrightarrow> length f = 256 \<Longrightarrow> fw_inv (s\<lparr>received_frame := f\<rparr>) hs hw"
  by (simp add: fw_inv_def sta_inv_def w_inv_def rf_sys_inv_def rf_inv_def)

lemma poll_radio_inv:
  fixes s :: "('d, 'm) firmware_scheme" and P :: "'d platform"
  assumes "fw_inv s h h"
  defines "r \<equiv> poll_radio P s"
  defines "h' \<equiv> h @ delivered_frames (map_option (\<lambda>n. (received_frame (snd r), n)) (fst r))"
  shows "fw_inv (snd r) h' h'"
proof -
  let ?c = "c6_mac_rx_copy P (received_frame s) 256 s"
  let ?s = "(snd (snd (snd ?c)))\<lparr>received_frame := fst (snd ?c)\<rparr>"
  have i: "fw_inv ?s h h"
    using benign_inv [OF benign_rx_copy assms(1)] assms(1)
    by (intro fw_inv_received) (simp_all add: rx_copy_bounds fw_inv_def)
  show ?thesis
  proof (cases "0 < fst ?c")
    case True
    obtain n q where out: "fst (snd (snd ?c)) = Some (n, q)" "n \<le> 256"
      using rx_copy_bounds(2) [OF True] by blast
    let ?t = "print_reception P (fst ?c) n q ?s"
    have t: "fw_inv ?t h h" "received_frame ?t = received_frame ?s"
      using benign_inv [OF benign_print_reception i] benign_fields(1) [OF benign_print_reception [of ?s P "fst ?c" n q]]
      by blast+
    have r: "r = (Some n, deliver P n ?t)"
      using True out by (simp add: r_def poll_radio_def case_prod_beta Let_def)
    have "unat n \<le> 256" using out(2) by (simp add: word_le_nat_alt)
    from deliver_inv [OF t(1) this, of P] show ?thesis
      by (simp add: h'_def r delivered_frames_def)
  next
    case False
    then have "fst r = None \<and> (\<exists>w q. snd r = ?s \<or> snd r = print_reception P (fst ?c) w q ?s)"
      by (auto simp: r_def poll_radio_def case_prod_beta Let_def)
    then show ?thesis
      using i benign_inv [OF benign_print_reception i] by (auto simp: h'_def delivered_frames_def)
  qed
qed

section \<open>Runs of the firmware\<close>

text \<open>
  A run is the power-on state, the self test, and turns of the loop.  The second component of a
  state of the system records the frames handed to the stations.
\<close>

definition power_on :: "('d, 'm) firmware_scheme \<Rightarrow> bool" where
  "power_on s \<longleftrightarrow> io_log s = [] \<and> active_channel s = 0 \<and> active_power s = 0 \<and> rx_enabled s = 0 \<and>
     sta_state s = STATION_IDLE \<and> sta_sequence_number s = 0 \<and>
     w_state s = WPA2_IDLE \<and> w_sequence_number s = 0 \<and> length (ptk s) = 64 \<and>
     length (tx_buffer s) = 256 \<and> command_length s = 0 \<and> length (command s) = 64 \<and>
     length (received_frame s) = 256"

definition fw_start :: "'d platform \<Rightarrow> ('d, 'm) firmware_scheme \<times> rx_frame list \<Rightarrow> bool" where
  "fw_start P x \<longleftrightarrow> (\<exists>s. power_on s \<and> x = (self_test P s, []))"

inductive fw_step ::
  "'d platform \<Rightarrow> ('d, 'm) firmware_scheme \<times> rx_frame list \<Rightarrow> ('d, 'm) firmware_scheme \<times> rx_frame list \<Rightarrow> bool"
  for P where
  fw_turn: "main_iteration P s = (d, t) \<Longrightarrow> fw_step P (s, h) (t, h @ delivered_frames d)"

inductive_cases fw_stepE: "fw_step P x y"

definition fw_sys_inv :: "('d, 'm) firmware_scheme \<times> rx_frame list \<Rightarrow> bool" where
  "fw_sys_inv x \<longleftrightarrow> fw_inv (fst x) (snd x) (snd x)"

lemma power_on_inv: "power_on s \<Longrightarrow> fw_inv s [] []"
  by (simp add: power_on_def fw_inv_def sta_inv_def w_inv_def rf_sys_inv_def rf_inv_def authentic_keys_def)

lemma fw_step_inv: "fw_sys_inv x \<Longrightarrow> fw_step P x y \<Longrightarrow> fw_sys_inv y"
proof -
  assume inv: "fw_sys_inv x" and "fw_step P x y"
  from this(2) obtain s h d t where x: "x = (s, h)" "y = (t, h @ delivered_frames d)"
    and it: "main_iteration P s = (d, t)"
    by (auto elim: fw_stepE)
  let ?r = "poll_radio P s"
  have d: "d = map_option (\<lambda>n. (received_frame (snd ?r), n)) (fst ?r)" "t = poll_console P (snd ?r)"
    using it by (auto simp: main_iteration_def case_prod_beta)
  have "fw_inv (snd ?r) (h @ delivered_frames d) (h @ delivered_frames d)"
    using inv poll_radio_inv [of s h P] by (simp add: fw_sys_inv_def x d)
  then show ?thesis
    by (simp add: fw_sys_inv_def x d(2) poll_console_inv)
qed

lemma fw_start_inv: "fw_start P x \<Longrightarrow> fw_sys_inv x"
  by (auto simp: fw_start_def fw_sys_inv_def power_on_inv self_test_inv)

interpretation fw_sys: invariant_system "fw_start P" "fw_step P" fw_sys_inv for P
  by unfold_locales (rule fw_start_inv, assumption, rule fw_step_inv)

section \<open>What the console shows\<close>

definition signed_decimal :: "int \<Rightarrow> bytes" where
  "signed_decimal r = (if r < 0 then 0x2d # decimal (nat (- r)) else decimal (nat r))"

definition ascii :: "string \<Rightarrow> bytes" where
  "ascii cs = map (\<lambda>c. of_nat (of_char c)) cs"

definition checkpoint_line :: "bytes \<Rightarrow> int \<Rightarrow> u8 \<Rightarrow> u8 \<Rightarrow> bytes" where
  "checkpoint_line event result channel power_dbm =
     ascii ''REMU_C6_RF event='' @ event @ ascii '' result='' @ signed_decimal result @
     ascii '' channel='' @ decimal (unat channel) @ ascii '' power_dbm='' @ decimal (unat power_dbm) @ [0x0a]"

lemma takeWhile_cstring:
  "0 \<notin> set (ascii cs) \<Longrightarrow> takeWhile (\<lambda>c. c \<noteq> 0) (cstring cs) = ascii cs"
  unfolding cstring_def ascii_def by (subst takeWhile_append2) (auto simp: image_iff)

lemma unat_of_int_result: "0 \<le> r \<Longrightarrow> r < 2 ^ 32 \<Longrightarrow> unat (of_int r :: u32) = nat r"
  by (simp add: unsigned_of_int take_bit_int_eq_self)

lemma benign_rf_fields [simp]:
  "active_channel (c6_uart_puts P cs s) = active_channel s" "active_power (c6_uart_puts P cs s) = active_power s"
  "active_channel (c6_uart_putc P c s) = active_channel s" "active_power (c6_uart_putc P c s) = active_power s"
  "active_channel (c6_uart_put_u32 P v s) = active_channel s" "active_power (c6_uart_put_u32 P v s) = active_power s"
proof -
  show putc: "active_channel (c6_uart_putc P c s) = active_channel s" "active_power (c6_uart_putc P c s) = active_power s"
    for c and s :: "('a, 'b) rf_scheme"
    by (simp_all add: c6_uart_putc_def)
  show "active_channel (c6_uart_puts P cs s) = active_channel s" "active_power (c6_uart_puts P cs s) = active_power s"
    by (induction cs arbitrary: s) (simp_all add: putc)
  have "active_channel (uart_send_back P ds n s) = active_channel s"
    "active_power (uart_send_back P ds n s) = active_power s" for ds n
    by (induction n arbitrary: s) (simp_all add: putc)
  then show "active_channel (c6_uart_put_u32 P v s) = active_channel s"
    "active_power (c6_uart_put_u32 P v s) = active_power s"
    by (simp_all add: c6_uart_put_u32_def case_prod_beta)
qed

lemma checkpoint_fields_rf [simp]:
  "active_channel (checkpoint P e r s) = active_channel s" "active_power (checkpoint P e r s) = active_power s"
  by (simp_all add: checkpoint_def Let_def)

lemma checkpoint_io:
  assumes "\<bar>r\<bar> < 2 ^ 31"
  shows "io_log (checkpoint P e r s) =
    io_log s @ printed (checkpoint_line (takeWhile (\<lambda>c. c \<noteq> 0) e) r (active_channel s) (active_power s))"
proof -
  have lits: "takeWhile (\<lambda>c. c \<noteq> 0) (cstring ''REMU_C6_RF event='') = ascii ''REMU_C6_RF event=''"
    "takeWhile (\<lambda>c. c \<noteq> 0) (cstring '' result='') = ascii '' result=''"
    "takeWhile (\<lambda>c. c \<noteq> 0) (cstring '' channel='') = ascii '' channel=''"
    "takeWhile (\<lambda>c. c \<noteq> 0) (cstring '' power_dbm='') = ascii '' power_dbm=''"
    by (rule takeWhile_cstring, simp add: ascii_def)+
  have "io_log (if r < 0 then c6_uart_put_u32 P (of_int (- r)) (c6_uart_putc P 0x2d t)
      else c6_uart_put_u32 P (of_int r) t) = io_log t @ printed (signed_decimal r)"
    for t :: "('a, 'b) firmware_scheme"
    using assms unat_of_int_result [of r] unat_of_int_result [of "- r"]
    by (simp add: put_u32_io signed_decimal_def)
  then show ?thesis
    unfolding checkpoint_def Let_def checkpoint_line_def
    by (simp add: puts_io put_u32_io lits c6_rf_channel_def c6_rf_power_dbm_def)
qed

lemma begins_prefix: "0 \<notin> set p \<Longrightarrow> begins (p @ rest) (p @ [0])"
  by (induction p) (auto, cases rest, auto)

lemma cstring_ascii: "cstring cs = ascii cs @ [0]"
  by (simp add: cstring_def ascii_def)

section \<open>Properties\<close>

text \<open>C12.
  Over the whole run of the firmware (self test, then any number of turns of the loop, on any
  hardware): the command buffer is never indexed outside its 64 bytes, the retained channel and power are
  both zero or both legal, and the bus log never shows a write to the synthesiser or to the gain
  table while the front end is live.\<close>

theorem firmware_radio_safe:
  assumes "reaches (fw_start P) (fw_step P) (s, h)"
  shows "unat (command_length s) < length (command s) \<and> length (command s) = 64 \<and>
         length (received_frame s) = 256 \<and> length (tx_buffer s) = 256 \<and>
         rf_inv s \<and> muted_retune False (io_log s)"
  using fw_sys.reaches_inv [OF assms] by (simp add: fw_sys_inv_def fw_inv_def rf_sys_inv_def)

text \<open>A firmware state at power on, and a run of it.\<close>

definition firmware_zero :: "unit firmware" where
  "firmware_zero = wpa2.extend ((wpa2_zero WPA2_IDLE)\<lparr>active_channel := 0, active_power := 0, rx_enabled := 0\<rparr>)
     (firmware.fields (replicate 64 0) 0 False (replicate 256 0))"

lemma firmware_zero_power_on: "power_on firmware_zero"
  by (simp add: firmware_zero_def power_on_def wpa2_zero_def station_zero_def mac_zero_def mac.extend_def
      station.fields_def station.extend_def wpa2.fields_def wpa2.extend_def firmware.fields_def)

lemma sample_firmware_run:
  fixes P :: "unit platform"
  defines "x \<equiv> self_test P firmware_zero"
  shows "reaches (fw_start P) (fw_step P)
    (snd (main_iteration P x), [] @ delivered_frames (fst (main_iteration P x)))"
proof (rule reaches_step)
  show "reaches (fw_start P) (fw_step P) (x, [])"
    using firmware_zero_power_on by (auto simp: fw_start_def x_def intro!: reaches_init)
  show "fw_step P (x, []) (snd (main_iteration P x), [] @ delivered_frames (fst (main_iteration P x)))"
    by (rule fw_turn) simp
qed

theorem firmware_radio_safe_witness:
  "muted_retune False (io_log (snd (main_iteration (constant_platform 0x81)
     (self_test (constant_platform 0x81) firmware_zero))))"
  using firmware_radio_safe [OF sample_firmware_run [of "constant_platform 0x81"]] by blast

text \<open>C1.
  Over the whole run of the firmware, the two stations are only as far as the frames handed to them
  justify: the open station is associated, and the WPA2 station is in the handshake, only after
  the frames of their access points that lead there; a temporal key in the key slot is the
  one of a message 1 that was followed by a message 3 with a valid integrity code under it.\<close>

theorem firmware_handshake_authentic:
  assumes "reaches (fw_start P) (fw_step P) (s, h)"
  shows "milestones (sta_required (sta_state s)) h \<and> milestones (w_required (w_state s) (ptk s)) h \<and>
         authentic_keys (io_log s) h"
  using fw_sys.reaches_inv [OF assms] by (simp add: fw_sys_inv_def fw_inv_def sta_inv_def w_inv_def)

theorem firmware_handshake_authentic_witness:
  "\<exists>h. authentic_keys (io_log (snd (main_iteration (constant_platform 0x81)
     (self_test (constant_platform 0x81) firmware_zero)))) h"
  using firmware_handshake_authentic [OF sample_firmware_run [of "constant_platform 0x81"]] by blast

text \<open>
  The command \<open>CHANNEL n\<close> on a tuned radio, for every decimal numeral \<open>n\<close>: the firmware tunes to \<open>n\<close> modulo 256
  when that is a legal channel (the parsed number is cut to a byte before the check, so 257 means
  channel 1) and otherwise leaves the radio alone; the console line reports the result with the
  channel and power then in force.\<close>

theorem channel_command:
  assumes "power_table (active_power s) = Some t"
  shows "let line = ascii ''CHANNEL '' @ decimal n @ 0 # rest; c = of_nat n :: u8 in
         io_log (execute P line s) =
           io_log s @ (if legal_channel c then tuning_trace c t else []) @
           printed (checkpoint_line (ascii ''CHANNEL'') (if legal_channel c then 0 else - 1)
             (if legal_channel c then c else active_channel s) (active_power s)) \<and>
         active_channel (execute P line s) = (if legal_channel c then c else active_channel s)"
proof -
  define line where "line = ascii ''CHANNEL '' @ decimal n @ 0 # rest"
  define c :: u8 where "c = of_nat n"
  have line: "line = ascii ''CHANNEL '' @ (decimal n @ 0 # rest)" by (simp add: line_def)
  have "begins line (cstring ''CHANNEL '')"
    unfolding line cstring_ascii by (rule begins_prefix) (simp add: ascii_def)
  moreover have "\<not> equals line (cstring ''INIT'')"
    by (simp add: line ascii_def cstring_def)
  moreover have "drop 8 line = decimal n @ 0 # rest"
    by (simp add: line ascii_def)
  moreover have "parse_u32 (decimal n @ 0 # rest) = of_nat n"
    using parse_from_value [of "decimal n" 0 0 rest] decimal_digits [of n]
    by (simp add: parse_u32_def decimal_value_def is_digit_def)
  ultimately have ex: "execute P line s =
      checkpoint P (cstring ''CHANNEL'') (fst (c6_rf_set_channel P c s)) (snd (c6_rf_set_channel P c s))"
    by (simp add: execute_def case_prod_beta Let_def to_u8_of_nat c_def)
  have ev: "takeWhile (\<lambda>c. c \<noteq> 0) (cstring ''CHANNEL'') = ascii ''CHANNEL''"
    by (rule takeWhile_cstring) (simp add: ascii_def)
  have p: "active_power s \<noteq> 0" using assms(1) by (auto simp: power_table_def split: if_splits)
  have "io_log (execute P line s) =
           io_log s @ (if legal_channel c then tuning_trace c t else []) @
           printed (checkpoint_line (ascii ''CHANNEL'') (if legal_channel c then 0 else - 1)
             (if legal_channel c then c else active_channel s) (active_power s)) \<and>
         active_channel (execute P line s) = (if legal_channel c then c else active_channel s)"
  proof (cases "legal_channel c")
    case True
    then show ?thesis
      using configure_ok [OF True assms(1), of P s] p
      by (simp add: ex c6_rf_set_channel_def checkpoint_io ev C6_RF_OK_def)
  next
    case False
    then show ?thesis
      using configure_bad_channel [OF False, of P "active_power s" s] p
      by (simp add: ex c6_rf_set_channel_def checkpoint_io ev C6_RF_INVALID_CHANNEL_def)
  qed
  then show ?thesis
    unfolding line_def c_def by (simp only: Let_def)
qed

theorem channel_command_witness:
  "active_channel (execute (constant_platform 0) (ascii ''CHANNEL '' @ decimal 257 @ 0 # [])
     (firmware_zero\<lparr>active_channel := 6, active_power := 14\<rparr>)) = 1"
proof -
  have "power_table (active_power (firmware_zero\<lparr>active_channel := 6, active_power := 14\<rparr>)) = Some gain_14dbm"
    by (simp add: power_table_def)
  moreover have "legal_channel (of_nat 257)" "(of_nat 257 :: u8) = 1"
    by (simp_all add: legal_channel_def)
  ultimately show ?thesis
    using channel_command [of "firmware_zero\<lparr>active_channel := 6, active_power := 14\<rparr>" gain_14dbm
        257 "[]" "constant_platform 0"] by (simp add: Let_def)
qed

end
