(* ===== verification/Wpa2_Progress.thy ===== *)
theory Wpa2_Progress
  imports Wpa2
begin

text \<open>
  Progress of the WPA2 station.  The invariants of \<open>Wpa2\<close> say what a state presupposes; this theory
  says that the states are reached: when the access point keeps answering and the radio confirms what
  it is given, the handshake completes, in whatever order and with whatever other frames between.
\<close>

section \<open>Reacting to an endless sequence of frames\<close>

primrec after :: "('f \<Rightarrow> 's \<Rightarrow> 's) \<Rightarrow> (nat \<Rightarrow> 'f) \<Rightarrow> 's \<Rightarrow> nat \<Rightarrow> 's" where
  "after react fs s 0 = s"
| "after react fs s (Suc n) = react (fs n) (after react fs s n)"

definition again_and_again :: "(nat \<Rightarrow> 'f) \<Rightarrow> ('f \<Rightarrow> bool) \<Rightarrow> bool" where
  "again_and_again fs q \<longleftrightarrow> (\<forall>i. \<exists>j\<ge>i. q (fs j))"

text \<open>
  The contract of a reactive component: a set of admissible inputs and an invariant that it keeps on
  them.  \<open>phase\<close> is the progress rule: a phase that lasts until an input of some kind arrives, and that
  such an input ends, is left when these inputs keep coming.
\<close>

locale reactive =
  fixes react :: "'f \<Rightarrow> 's \<Rightarrow> 's" and ok :: "'f \<Rightarrow> bool" and inv :: "'s \<Rightarrow> bool"
  assumes react_inv: "ok f \<Longrightarrow> inv s \<Longrightarrow> inv (react f s)"
begin

lemma after_inv: "inv s \<Longrightarrow> \<forall>i. ok (fs i) \<Longrightarrow> inv (after react fs s n)"
  by (induction n) (simp_all add: react_inv)

lemma waits_for:
  assumes "inv s" and "\<forall>i. ok (fs i)" and "A (after react fs s i)" and "again_and_again fs q"
    and stay: "\<And>f t. ok f \<Longrightarrow> inv t \<Longrightarrow> A t \<Longrightarrow> \<not> q f \<Longrightarrow> A (react f t)"
  shows "\<exists>j\<ge>i. A (after react fs s j) \<and> q (fs j)"
proof (rule ccontr)
  assume none: "\<not> (\<exists>j\<ge>i. A (after react fs s j) \<and> q (fs j))"
  have A: "A (after react fs s (i + n))" for n
  proof (induction n)
    case (Suc n)
    then show ?case
      using none stay [of "fs (i + n)" "after react fs s (i + n)"] assms(2) after_inv [OF assms(1,2)] by auto
  qed (use assms(3) in simp)
  obtain j where "i \<le> j" "q (fs j)"
    using assms(4) unfolding again_and_again_def by blast
  then show False
    using A [of "j - i"] none by auto
qed

lemma phase:
  assumes "inv s" and "\<forall>i. ok (fs i)" and "A (after react fs s i)" and "again_and_again fs q"
    and stay: "\<And>f t. ok f \<Longrightarrow> inv t \<Longrightarrow> A t \<Longrightarrow> \<not> q f \<Longrightarrow> A (react f t)"
    and go: "\<And>f t. ok f \<Longrightarrow> inv t \<Longrightarrow> A t \<Longrightarrow> q f \<Longrightarrow> B (react f t)"
  shows "\<exists>j\<ge>i. B (after react fs s (Suc j))"
proof -
  obtain j where "j \<ge> i" "A (after react fs s j)" "q (fs j)"
    using waits_for [OF assms(1-4) stay] by blast
  then show ?thesis
    using go assms(2) after_inv [OF assms(1,2)] by (intro exI [of _ j]) simp
qed

lemma stays:
  assumes "inv s" and "\<forall>i. ok (fs i)" and "A (after react fs s i)" and "i \<le> j"
    and "\<And>f t. inv t \<Longrightarrow> A t \<Longrightarrow> ok f \<Longrightarrow> A (react f t)"
  shows "A (after react fs s j)"
  using assms(4) by (induction j rule: dec_induct) (simp_all add: assms after_inv)

end

section \<open>A radio that confirms\<close>

text \<open>
  What the transmit path relies on.  A frame is queued by the write that starts queue 0 with both
  enable bits and the address of a transmit descriptor which the radio owns, which points to the transmit
  buffer, and whose frame has a length byte of at least 14.  Such a write, and nothing else, brings the
  device into a state in which it is \<open>sending\<close>; while it is, each turn of the poll either brings the
  completion nearer or reports it, and the rank, below the driver's 50000 polls after the start, counts the turns
  that are left.  Nothing is demanded of a device to which no frame was given.
\<close>

definition queued :: "'d platform \<Rightarrow> u32 \<Rightarrow> dma_memory \<Rightarrow> bool" where
  "queued P v m \<longleftrightarrow>
     v = 0xc0000000 OR (addr_tx_descriptor P AND 0xfffff) \<and>
     m_tx_descriptor m = \<lparr>d_control = 0xc0000000, d_buffer = addr_tx_buffer P, d_next = 0\<rparr> \<and>
     14 \<le> unat (m_tx_buffer m ! 0)"

definition radio_confirms :: "'d platform \<Rightarrow> ('d \<Rightarrow> bool) \<Rightarrow> ('d \<Rightarrow> nat) \<Rightarrow> bool" where
  "radio_confirms P sending rank \<longleftrightarrow>
     (\<forall>v m d. queued P v m \<longrightarrow>
        (let (d', _) = dev_write P C6_REG_WIFI_TX_QUEUE0_CONTROL v m d in sending d' \<and> rank d' < 50000)) \<and>
     (\<forall>m d. sending d \<longrightarrow>
        (let (e, d', _) = dev_read P C6_REG_WIFI_INTERRUPT_EVENT m d in
         if \<not> bit e 7 then sending d' \<and> rank d' < rank d
         else (\<forall>m'. let (q, d'', _) = dev_read P C6_REG_WIFI_TX_QUEUE_STATE m' d' in
           bit q 0 \<or> sending d'' \<and> rank d'' < rank d)))"

lemma tx_poll_confirms:
  assumes "radio_confirms P sending rank"
  shows "sending (device s) \<Longrightarrow> rank (device s) < n \<Longrightarrow> fst (tx_poll P n s) = C6_MAC_OK"
proof (induction n arbitrary: s)
  case (Suc n)
  let ?r = "c6_read32 P C6_REG_WIFI_INTERRUPT_EVENT s"
  let ?q = "c6_read32 P C6_REG_WIFI_TX_QUEUE_STATE (snd ?r)"
  have "if \<not> bit (fst ?r) 7 then sending (device (snd ?r)) \<and> rank (device (snd ?r)) < rank (device s)
      else bit (fst ?q) 0 \<or> sending (device (snd ?q)) \<and> rank (device (snd ?q)) < rank (device s)"
    using assms Suc.prems(1) unfolding radio_confirms_def c6_read32_def
    by (auto simp: case_prod_beta Let_def split: if_splits)
  then show ?case
    using Suc by (auto simp: case_prod_beta Let_def and_bit_iff split: if_splits)
qed simp

lemma start_write_queues:
  assumes "10 \<le> length f" and "length f \<le> 244" and "length (tx_buffer s) = 256"
  shows "queued P (WIFI_QUEUE_ENABLE OR (addr_tx_descriptor P AND 0x000fffff))
    (dma_view (s\<lparr>tx_buffer := stage_frame (Frame f) (of_nat (length f)) (tx_buffer s),
                tx_descriptor := c6_dma_tx_descriptor (addr_tx_buffer P)\<rparr>))"
proof -
  have n: "unat (of_nat (length f) :: u32) = length f"
    using assms by (simp add: unsigned_of_nat take_bit_nat_eq_self)
  have "to_u8 (of_nat (length f) + 4 :: u32) = of_nat (length f + 4)"
    using to_u8_of_nat [of "length f + 4"] by simp
  then have "unat (to_u8 (of_nat (length f) + 4 :: u32)) = length f + 4"
    using assms by (simp only: unsigned_of_nat) (simp add: take_bit_nat_eq_self)
  then have "unat (stage_frame (Frame f) (of_nat (length f)) (tx_buffer s) ! 0) = length f + 4"
    using stage_frame_slice [of "tx_buffer s" "of_nat (length f)" f] assms n by simp
  then show ?thesis
    using assms by (simp add: queued_def dma_view_def c6_dma_tx_descriptor_def WIFI_QUEUE_ENABLE_def)
qed

lemma transmit_confirms:
  assumes radio: "radio_confirms P sending rank" and "c6_rf_ready s" and "10 \<le> length f" and "length f \<le> 244"
    and "length (tx_buffer s) = 256"
  shows "fst (transmit P f s) = 0"
proof -
  let ?v = "WIFI_QUEUE_ENABLE OR (addr_tx_descriptor P AND 0x000fffff)"
  let ?s = "s\<lparr>tx_buffer := stage_frame (Frame f) (of_nat (length f)) (tx_buffer s),
              tx_descriptor := c6_dma_tx_descriptor (addr_tx_buffer P)\<rparr>"
  let ?t = "c6_write32 P C6_REG_WIFI_TX_QUEUE0_CONTROL ?v ?s"
  have "\<not> tx_length_refused (of_nat (length f))"
    using assms by (simp add: tx_length_refused_iff unsigned_of_nat take_bit_nat_eq_self)
  moreover have "sending (device ?t) \<and> rank (device ?t) < 50000"
    using radio start_write_queues [OF assms(3,4,5), of P] unfolding radio_confirms_def c6_write32_def
    by (fastforce simp: case_prod_beta)
  ultimately show ?thesis
    using assms tx_poll_confirms [OF radio, of ?t 50000]
    by (simp add: transmit_def c6_mac_tx_frame_def Let_def C6_MAC_OK_def)
qed

section \<open>The phases of the handshake\<close>

definition w_react :: "'d platform \<Rightarrow> rx_frame \<Rightarrow> ('d, 'm) wpa2_scheme \<Rightarrow> ('d, 'm) wpa2_scheme" where
  "w_react P fr s = snd (c6_wpa2_receive P (fst fr) (snd fr) s)"

definition w_whole :: "rx_frame \<Rightarrow> bool" where
  "w_whole fr \<longleftrightarrow> unat (snd fr) \<le> length (fst fr)"

definition w_live :: "('d, 'm) wpa2_scheme \<Rightarrow> bool" where
  "w_live s \<longleftrightarrow> length (ptk s) = 64 \<and> c6_rf_ready s \<and> length (tx_buffer s) = 256"

lemma w_rf_ready [simp]:
  "c6_rf_ready (snd (transmit P f s)) = c6_rf_ready s"
  "c6_rf_ready (s\<lparr>w_state := st\<rparr>) = c6_rf_ready s" "c6_rf_ready (s\<lparr>ptk := k\<rparr>) = c6_rf_ready s"
  "c6_rf_ready (c6_mac_install_ccmp P peer key s) = c6_rf_ready s"
  "c6_rf_ready (c6_mac_set_interface_address P a s) = c6_rf_ready s"
  by (simp_all add: c6_rf_ready_def transmit_def)

lemma w_tx_buffer_length [simp]:
  "length (tx_buffer (snd (transmit P f s))) = length (tx_buffer s)"
  by (simp add: transmit_def c6_mac_tx_frame_def Let_def)

lemma w_live_reply [simp]:
  "w_live (snd (w_reply P f e s)) = w_live s"
  by (simp add: w_live_def w_reply_def Let_def)

lemma w_react_spec: "w_whole fr \<Longrightarrow> w_live s \<Longrightarrow> c6_wpa2_receive P (fst fr) (snd fr) s = wpa_spec P fr s"
  using w_receive_spec [of "snd fr" "fst fr" s P] by (simp add: w_whole_def w_live_def)

lemma w_react_live: "w_whole fr \<Longrightarrow> w_live s \<Longrightarrow> w_live (w_react P fr s)"
  unfolding w_react_def w_react_spec wpa_spec_def m1_step_def m3_step_def
  by (auto simp: Let_def w_live_def w_reply_def length_session_key split: wpa2_state.split)

interpretation w_rx: reactive "w_react P" w_whole w_live for P
  by unfold_locales (rule w_react_live)

lemma eapol_frame_length [simp]:
  "length nonce = 32 \<Longrightarrow> length (eapol_frame K ki r nonce q) = 131"
  by (simp add: eapol_frame_def eapol_message_def dot11_def wpa2_constants)

lemma ccmp_ping_frame_length [simp]: "length (ccmp_ping_frame q) = 52"
  by (simp add: ccmp_ping_frame_def dot11_def wpa2_constants)

text \<open>The step that ends each phase, and that nothing else ends it.\<close>

lemma w_phase_scan:
  assumes "w_whole fr" and "w_live s" and "w_state s = WPA2_SCANNING"
  shows "w_state (w_react P fr s) = (if probe_response w_ap_address fr then WPA2_AUTHENTICATING else WPA2_SCANNING)"
  using assms by (simp add: w_react_def w_react_spec wpa_spec_def)

lemma w_phase_authenticate:
  assumes "w_whole fr" and "w_live s" and "w_state s = WPA2_AUTHENTICATING"
  shows "w_state (w_react P fr s) = (if auth_accept w_ap_address fr then WPA2_ASSOCIATING else WPA2_AUTHENTICATING)"
  using assms by (simp add: w_react_def w_react_spec wpa_spec_def)

lemma w_phase_associate:
  assumes "w_whole fr" and "w_live s" and "w_state s = WPA2_ASSOCIATING"
  shows "w_state (w_react P fr s) = (if assoc_accept w_ap_address fr then WPA2_WAIT_M1 else WPA2_ASSOCIATING)"
  using assms by (simp add: w_react_def w_react_spec wpa_spec_def)

lemma w_phase_m1:
  assumes "w_whole fr" and "w_live s" and "w_state s = WPA2_WAIT_M1"
  shows "if is_eapol fr \<and> m1_fields (eapol_of fr)
    then w_state (w_react P fr s) = WPA2_WAIT_M3 \<and> ptk (w_react P fr s) = session_key (eapol_of fr)
    else w_react P fr s = s"
  using assms by (simp add: w_react_def w_react_spec wpa_spec_def m1_step_def)

lemma w_phase_m3:
  assumes "radio_confirms P sending rank" and "w_whole fr" and "w_live s" and "w_state s = WPA2_WAIT_M3"
  shows "if m3_for (ptk s) fr
    then w_state (w_react P fr s) = WPA2_WAIT_CCMP \<and> ptk (w_react P fr s) = ptk s \<and>
      fst (c6_wpa2_receive P (fst fr) (snd fr) s) =
        C6_WPA2_EAPOL_M4 OR C6_WPA2_CCMP_INSTALLED OR C6_WPA2_CCMP_TX
    else w_react P fr s = s"
  using assms by (simp add: w_react_def w_react_spec wpa_spec_def m3_step_def m3_for_def w_live_def Let_def
      transmit_confirms [OF assms(1)])

lemma w_phase_ccmp:
  assumes "w_whole fr" and "w_live s" and "w_state s = WPA2_WAIT_CCMP"
  shows "w_react P fr s = s"
    and "fst (c6_wpa2_receive P (fst fr) (snd fr) s) = (if ccmp_pong fr then C6_WPA2_CCMP_RX else C6_WPA2_NONE)"
  using assms by (simp_all add: w_react_def w_react_spec wpa_spec_def)

definition w_run :: "'d platform \<Rightarrow> (nat \<Rightarrow> rx_frame) \<Rightarrow> ('d, 'm) wpa2_scheme \<Rightarrow> nat \<Rightarrow> ('d, 'm) wpa2_scheme" where
  "w_run P fs s = after (w_react P) fs (snd (c6_wpa2_start P s))"

lemma w_reaches_m1:
  fixes s :: "('d, 'm) wpa2_scheme"
  assumes "w_live s" and "\<forall>i. w_whole (fs i)" and "w_state s = WPA2_SCANNING"
    and "again_and_again fs (probe_response w_ap_address)"
    and "again_and_again fs (auth_accept w_ap_address)"
    and "again_and_again fs (assoc_accept w_ap_address)"
  shows "\<exists>i. w_state (after (w_react P) fs s i) = WPA2_WAIT_M1"
proof -
  let ?t = "after (w_react P) fs s"
  note phase = w_rx.phase [where P = P, OF assms(1,2)]
  have "\<exists>j\<ge>0. w_state (?t (Suc j)) = WPA2_AUTHENTICATING"
    by (rule phase [where A = "\<lambda>t. w_state t = WPA2_SCANNING" and B = "\<lambda>t. w_state t = WPA2_AUTHENTICATING", OF _ assms(4)])
       (simp_all add: assms w_phase_scan)
  then obtain i where "w_state (?t i) = WPA2_AUTHENTICATING" by blast
  then have "\<exists>j\<ge>i. w_state (?t (Suc j)) = WPA2_ASSOCIATING"
    by (rule phase [where A = "\<lambda>t. w_state t = WPA2_AUTHENTICATING" and B = "\<lambda>t. w_state t = WPA2_ASSOCIATING", OF _ assms(5)])
       (simp_all add: w_phase_authenticate)
  then obtain i where "w_state (?t i) = WPA2_ASSOCIATING" by blast
  then have "\<exists>j\<ge>i. w_state (?t (Suc j)) = WPA2_WAIT_M1"
    by (rule phase [where A = "\<lambda>t. w_state t = WPA2_ASSOCIATING" and B = "\<lambda>t. w_state t = WPA2_WAIT_M1", OF _ assms(6)])
       (simp_all add: w_phase_associate)
  then show ?thesis by blast
qed

section \<open>Properties\<close>

text \<open>C9.
  The handshake completes.  A radio that, once a frame is queued and its start written, reports the
  completion within the driver's 50000 polls is tuned, the station is started, and the access point keeps sending its probe response, its
  acceptances, a message 1, and for every message 1 it sends a message 3 with the valid integrity
  code; other frames, retries and forgeries may come at any point between.  Then
  there is a message 3 on which the driver reports message 4, the key and the protected ping, under the key that
  IEEE 802.11 derives from an earlier message 1; from then on the station's state does not change any
  more, and every protected pong is reported.
\<close>

theorem wpa2_handshake_completes:
  assumes radio: "radio_confirms P sending rank" and "c6_rf_ready s" and "length (ptk s) = 64"
    and "length (tx_buffer s) = 256"
    and whole: "\<forall>i. w_whole (fs i)"
    and ap: "again_and_again fs (probe_response w_ap_address)"
      "again_and_again fs (auth_accept w_ap_address)" "again_and_again fs (assoc_accept w_ap_address)"
    and m1: "again_and_again fs (\<lambda>fr. is_eapol fr \<and> m1_fields (eapol_of fr))"
    and m3: "\<forall>i. is_eapol (fs i) \<and> m1_fields (eapol_of (fs i)) \<longrightarrow>
      again_and_again fs (m3_for (session_key (eapol_of (fs i))))"
  shows "\<exists>i n. i < n \<and> m1_for (ptk (w_run P fs s n)) (fs i) \<and> m3_for (ptk (w_run P fs s n)) (fs n) \<and>
     fst (c6_wpa2_receive P (fst (fs n)) (snd (fs n)) (w_run P fs s n)) =
       C6_WPA2_EAPOL_M4 OR C6_WPA2_CCMP_INSTALLED OR C6_WPA2_CCMP_TX \<and>
     (\<forall>k>n. w_state (w_run P fs s k) = WPA2_WAIT_CCMP \<and> w_run P fs s k = w_run P fs s (Suc n) \<and>
        fst (c6_wpa2_receive P (fst (fs k)) (snd (fs k)) (w_run P fs s k)) =
          (if ccmp_pong (fs k) then C6_WPA2_CCMP_RX else C6_WPA2_NONE))"
proof -
  let ?t = "w_run P fs s"
  let ?s = "snd (c6_wpa2_start P s)"
  have live: "w_live ?s" and scanning: "w_state ?s = WPA2_SCANNING"
    using assms(2-4) by (simp_all add: c6_wpa2_start_def w_send_probe_request_eq w_live_def)
  have I: "w_live (?t k)" for k
    unfolding w_run_def using live whole by (rule w_rx.after_inv)
  have next_t: "?t (Suc k) = w_react P (fs k) (?t k)" for k
    by (simp add: w_run_def)
  obtain i0 where "w_state (?t i0) = WPA2_WAIT_M1"
    using w_reaches_m1 [OF live whole scanning ap] unfolding w_run_def by blast
  then have "\<exists>i\<ge>i0. w_state (?t i) = WPA2_WAIT_M1 \<and> is_eapol (fs i) \<and> m1_fields (eapol_of (fs i))"
    unfolding w_run_def
    by (rule w_rx.waits_for [OF live whole, where A = "\<lambda>t. w_state t = WPA2_WAIT_M1", OF _ m1])
       (drule (2) w_phase_m1 [of _ _ P], simp)
  then obtain i where i: "w_state (?t i) = WPA2_WAIT_M1" "is_eapol (fs i)" "m1_fields (eapol_of (fs i))" by blast
  let ?K = "session_key (eapol_of (fs i))"
  have "w_state (?t (Suc i)) = WPA2_WAIT_M3 \<and> ptk (?t (Suc i)) = ?K"
    using w_phase_m1 [of "fs i" "?t i" P] i whole I by (simp add: next_t)
  then have "\<exists>n\<ge>Suc i. (w_state (?t n) = WPA2_WAIT_M3 \<and> ptk (?t n) = ?K) \<and> m3_for ?K (fs n)"
    unfolding w_run_def
    by (rule w_rx.waits_for [OF live whole, where A = "\<lambda>t. w_state t = WPA2_WAIT_M3 \<and> ptk t = ?K"])
       (use m3 i in blast, elim conjE, drule (2) w_phase_m3 [OF radio], simp)
  then obtain n where n: "Suc i \<le> n" "w_state (?t n) = WPA2_WAIT_M3" "ptk (?t n) = ?K" "m3_for ?K (fs n)" by blast
  have done_n: "w_state (?t (Suc n)) = WPA2_WAIT_CCMP"
    "fst (c6_wpa2_receive P (fst (fs n)) (snd (fs n)) (?t n)) =
       C6_WPA2_EAPOL_M4 OR C6_WPA2_CCMP_INSTALLED OR C6_WPA2_CCMP_TX"
    using w_phase_m3 [OF radio, of "fs n" "?t n"] whole I n by (simp_all add: next_t)
  have rest: "?t k = ?t (Suc n)" if "Suc n \<le> k" for k
    using that
  proof (induction k rule: dec_induct)
    case (step k)
    then show ?case
      using w_phase_ccmp(1) [of "fs k" "?t k" P] whole I done_n(1) by (simp add: next_t [of k])
  qed simp
  have later: "w_state (?t k) = WPA2_WAIT_CCMP \<and> ?t k = ?t (Suc n) \<and>
      fst (c6_wpa2_receive P (fst (fs k)) (snd (fs k)) (?t k)) =
        (if ccmp_pong (fs k) then C6_WPA2_CCMP_RX else C6_WPA2_NONE)" if "n < k" for k
    using rest [of k] that done_n(1) w_phase_ccmp(2) [of "fs k" "?t k" P] whole I by simp
  have "i < n" "m1_for (ptk (?t n)) (fs i)" "m3_for (ptk (?t n)) (fs n)"
    using i n by (simp_all add: m1_for_def)
  then show ?thesis
    using done_n(2) later by blast
qed

definition sample_frames :: "nat \<Rightarrow> rx_frame" where
  "sample_frames i = [w_probe_reply, w_auth_reply, w_assoc_reply, sample_m1, sample_m3] ! (i mod 5)"

lemma again_sample:
  assumes "r < 5" and "q (sample_frames r)"
  shows "again_and_again sample_frames q"
  unfolding again_and_again_def
proof
  fix i
  have "sample_frames (5 * i + r) = sample_frames r"
    using assms(1) by (simp add: sample_frames_def)
  then show "\<exists>j\<ge>i. q (sample_frames j)"
    using assms(2) by (intro exI [of _ "5 * i + r"]) simp
qed

lemma sample_frames_cases:
  "sample_frames i \<in> {w_probe_reply, w_auth_reply, w_assoc_reply, sample_m1, sample_m3}"
  "sample_frames 0 = w_probe_reply" "sample_frames 1 = w_auth_reply" "sample_frames 2 = w_assoc_reply"
  "sample_frames 3 = sample_m1" "sample_frames 4 = sample_m3"
proof -
  let ?l = "[w_probe_reply, w_auth_reply, w_assoc_reply, sample_m1, sample_m3]"
  have "i mod 5 < length ?l" by simp
  then have "sample_frames i \<in> set ?l"
    unfolding sample_frames_def by (rule nth_mem)
  then show "sample_frames i \<in> {w_probe_reply, w_auth_reply, w_assoc_reply, sample_m1, sample_m3}"
    by simp
qed (simp_all add: sample_frames_def)

lemma sample_frames_m1:
  assumes m1: "is_eapol (sample_frames i)" "m1_fields (eapol_of (sample_frames i))"
  shows "sample_frames i = sample_m1"
proof -
  have "\<not> is_eapol w_probe_reply" "\<not> is_eapol w_auth_reply" "\<not> is_eapol w_assoc_reply"
    by (simp_all add: is_eapol_def w_probe_reply_def w_auth_reply_def w_assoc_reply_def)
  moreover have "\<not> m1_fields (eapol_of sample_m3)"
    using sample_handshake(7) by (simp add: m1_fields_def m3_fields_def)
  ultimately show ?thesis
    using m1 sample_frames_cases(1) [of i] by (elim insertE emptyE) simp_all
qed

text \<open>
  A radio that counts: it is idle until queue 0 is started with both enable bits, answers two event
  reads with nothing, then shows the done event and queue 0 complete until the queue state is cleared.
\<close>

definition counting_radio :: "nat platform" where
  "counting_radio =
     \<lparr>dev_read = (\<lambda>a m d.
        if a = C6_REG_WIFI_INTERRUPT_EVENT
        then (if d = 1 then 0x80 else 0, if 1 < d then d - 1 else d, m_rx_descriptor m, m_rx_buffer m)
        else (if a = C6_REG_WIFI_TX_QUEUE_STATE \<and> d = 1 then 1 else 0, d, m_rx_descriptor m, m_rx_buffer m)),
      dev_write = (\<lambda>a v m d.
        (if a = C6_REG_WIFI_TX_QUEUE0_CONTROL \<and> bit v 31 \<and> bit v 30 then 3
         else if a = C6_REG_WIFI_TX_QUEUE_STATE_CLEAR then 0 else d, m_rx_descriptor m, m_rx_buffer m)),
      addr_tx_buffer = 0x40810000, addr_tx_descriptor = 0x40810100,
      addr_rx_buffer = 0x40810200, addr_rx_descriptor = 0x40810400,
      stack_junk = (\<lambda>i. 0xa5)\<rparr>"

definition wpa2_fresh :: "nat wpa2" where
  "wpa2_fresh = \<lparr>device = 0, io_log = [], tx_buffer = replicate 256 0,
     tx_descriptor = \<lparr>d_control = 0, d_buffer = 0, d_next = 0\<rparr>, rx_buffer = replicate 512 0,
     rx_descriptor = \<lparr>d_control = 0, d_buffer = 0, d_next = 0\<rparr>,
     active_channel = 6, active_power = 14, rx_enabled = 1, mac_sequence_number = 0,
     sta_sequence_number = 0, sta_state = STATION_IDLE,
     w_state = WPA2_IDLE, w_sequence_number = 0, ptk = replicate 64 0\<rparr>"

theorem wpa2_handshake_completes_witness:
  "\<exists>n. fst (c6_wpa2_receive counting_radio (fst (sample_frames n)) (snd (sample_frames n))
         (w_run counting_radio sample_frames wpa2_fresh n)) =
       C6_WPA2_EAPOL_M4 OR C6_WPA2_CCMP_INSTALLED OR C6_WPA2_CCMP_TX"
proof -
  have r: "radio_confirms counting_radio (\<lambda>d. 0 < d) (\<lambda>d. d)"
    by (simp add: radio_confirms_def queued_def counting_radio_def bit_or_iff bit_simps C6_REG_WIFI_TX_QUEUE_STATE_def
        C6_REG_WIFI_INTERRUPT_EVENT_def)
  have w: "\<forall>i. w_whole (sample_frames i)"
  proof
    show "w_whole (sample_frames i)" for i
      using sample_frames_cases(1) [of i] sample_lengths unfolding w_whole_def by (elim insertE emptyE) simp_all
  qed
  have a: "again_and_again sample_frames (probe_response w_ap_address)"
    "again_and_again sample_frames (auth_accept w_ap_address)"
    "again_and_again sample_frames (assoc_accept w_ap_address)"
    "again_and_again sample_frames (\<lambda>fr. is_eapol fr \<and> m1_fields (eapol_of fr))"
    and m: "again_and_again sample_frames (m3_for (session_key (eapol_of sample_m1)))"
    using again_sample [of 0] again_sample [of 1] again_sample [of 2] again_sample [of 3] again_sample [of 4]
      sample_handshake by (simp_all add: sample_frames_cases sample_frames_cases(3) [simplified] m3_for_def)
  have m3: "\<forall>i. is_eapol (sample_frames i) \<and> m1_fields (eapol_of (sample_frames i)) \<longrightarrow>
      again_and_again sample_frames (m3_for (session_key (eapol_of (sample_frames i))))"
    using m by (metis sample_frames_m1)
  show ?thesis
    using wpa2_handshake_completes [OF r _ _ _ w a, of wpa2_fresh] m3
    by (auto simp: wpa2_fresh_def c6_rf_ready_def)
qed

end
