(* ===== verification/Corpus_Ops.thy ===== *)
theory Corpus_Ops
  imports Prelude
begin

text \<open>
  The edge-case corpus (\<^verbatim>\<open>corpus/edge_cases/cases\<close>): a thousand C programs of one shape.  Each
  computes a kernel over sixteen inputs, then runs twelve statements over six registers and
  eight memory words, and folds the final state into a digest.  The statements come from twenty
  templates; a program is the list of its statements with the registers they name.  This theory has the C
  semantics of the templates, the frame program with its build configurations, the reference
  semantics of the templates (rotations, bit counts, reversals and clamps as such), and the
  agreement of the two for every program.
\<close>

section \<open>The C side\<close>

datatype opcode =
    Add_Carry | Sub_Borrow | Rotate_Mix | Multiply_Low | Divide_Rem | Mask_Merge | Compare_Select
  | Byte_Pack | Halfword_Swap | Array_Scatter | Counted_Loop | Switch_Phi | Short_Circuit
  | Popcount_Loop | Reverse_Loop | Gray_Decode | Minmax_Clamp | Endian_Swap | Carry_Chain | Horner_Loop

text \<open>A statement: the template, the destination register and the two source registers.\<close>

type_synonym stmt = "opcode \<times> nat \<times> nat \<times> nat"
type_synonym machine = "u32 list \<times> u32 list"

text \<open>\<open>while (bits != 0u) { bits &= bits - 1u; ++count; }\<close>\<close>

lemma and_pred_less: "(x :: u32) \<noteq> 0 \<Longrightarrow> unat (x AND (x - 1)) < unat x"
proof -
  assume "x \<noteq> 0"
  moreover have "x AND (x - 1) \<le> x - 1"
    by (simp add: word_and_le1)
  ultimately show ?thesis
    by (simp add: word_le_nat_alt unat_minus_one unat_gt_0 order.strict_trans1)
qed

function popcount_loop :: "u32 \<Rightarrow> u32 \<Rightarrow> u32" where
  "popcount_loop bits count =
     (if bits \<noteq> 0 then popcount_loop (bits AND (bits - 1)) (count + 1) else count)"
  by pat_completeness auto
termination
  by (relation "measure (\<lambda>(b, c). unat b)") (simp_all add: and_pred_less)

declare popcount_loop.simps [simp del]

text \<open>\<open>for (i = 0; i < 32; ++i) { reversed = (reversed << 1u) | (source & 1u); source >>= 1u; }\<close>\<close>

definition reverse_step :: "u32 \<times> u32 \<Rightarrow> u32 \<times> u32" where
  "reverse_step s = (case s of (source, reversed) \<Rightarrow>
     (shr source 1, shl reversed 1 OR (source AND 1)))"

definition reverse_loop :: "u32 \<Rightarrow> u32" where
  "reverse_loop source = snd ((reverse_step ^^ 32) (source, 0))"

definition gray_chain :: "u32 \<Rightarrow> u32" where
  "gray_chain x =
     (let g = x XOR shr x 1;
          g = g XOR shr g 1;
          g = g XOR shr g 2;
          g = g XOR shr g 4;
          g = g XOR shr g 8
      in g XOR shr g 16)"

definition counted_step :: "u32 \<Rightarrow> nat \<Rightarrow> u32 \<Rightarrow> u32" where
  "counted_step b i v = (let v = v + (b XOR of_nat i) in shl v 3 OR shr v 29)"

definition exec_stmt :: "nat \<Rightarrow> stmt \<Rightarrow> machine \<Rightarrow> machine" where
  "exec_stmt step st s =
     (case st of (opc, d, le, ri) \<Rightarrow> case s of (r, memory) \<Rightarrow>
      let a = r ! le; b = r ! ri in
      case opc of
        Add_Carry \<Rightarrow> (let sum = a + b in (r[d := sum XOR of_bool (sum < a)], memory))
      | Sub_Borrow \<Rightarrow> (let diff = a - b in (r[d := diff XOR of_bool (a < b)], memory))
      | Rotate_Mix \<Rightarrow>
          (let shift = b AND 31;
               shift7 = (shift + 7) AND 31
           in (r[d := (if shift = 0 then a else shl a (unat shift) OR shr a (unat (32 - shift))) XOR
                      (if shift7 = 0 then b else shr b (unat shift7) OR shl b (unat (32 - shift7)))], memory))
      | Multiply_Low \<Rightarrow> (r[d := a * (b OR 1) + 0x9e3779b9], memory)
      | Divide_Rem \<Rightarrow>
          (let divisor = (b AND 0xffff) OR 1;
               rm = a mod divisor
           in (r[d := (a div divisor) XOR (shl rm 9 OR shr rm 23)], memory))
      | Mask_Merge \<Rightarrow>
          (let msk = shl a ((step + 3) mod 32) OR shr a (32 - (step + 3) mod 32)
           in (r[d := (a AND msk) OR (b AND NOT msk)], memory))
      | Compare_Select \<Rightarrow> (r[d := if a < b then a + 0x10204081 else b - 0x01020408], memory)
      | Byte_Pack \<Rightarrow>
          (r[d := (a AND 0xff) OR shl (b AND 0xff) 8 OR shl (shr a 8 AND 0xff) 16 OR
                  shl (shr b 8 AND 0xff) 24], memory)
      | Halfword_Swap \<Rightarrow> (r[d := (shl a 16 OR shr a 16) XOR (b AND 0xffff0000)], memory)
      | Array_Scatter \<Rightarrow>
          (let index = unat (a AND 7);
               memory = memory[index := memory ! index XOR b]
           in (r[d := shl (memory ! index) (step + 1) OR shr (memory ! index) (31 - step)], memory))
      | Counted_Loop \<Rightarrow> (r[d := fold (counted_step b) [0..<3 + step mod 5] a], memory)
      | Switch_Phi \<Rightarrow>
          (let sel = a AND 3
           in (r[d := if sel = 0 then b + a
                      else if sel = 1 then b - a
                      else if sel = 2 then b XOR (shl a 5 OR shr a 27)
                      else b * 3 XOR a], memory))
      | Short_Circuit \<Rightarrow>
          (let effects = a;
               (cond, effects) = (if b AND 1 \<noteq> 0
                                  then (let effects = effects + 3 in (b AND 2 \<noteq> 0, effects))
                                  else (False, effects));
               effects = (if cond then effects XOR 0x55aa55aa else effects)
           in (r[d := effects], memory))
      | Popcount_Loop \<Rightarrow> (r[d := popcount_loop a 0 XOR b], memory)
      | Reverse_Loop \<Rightarrow> (r[d := reverse_loop a XOR b], memory)
      | Gray_Decode \<Rightarrow> (r[d := gray_chain a XOR b], memory)
      | Minmax_Clamp \<Rightarrow>
          (let low = (if a < b then a else b);
               high = (if a > b then a else b);
               clamp = (if r ! d < low then low else if r ! d > high then high else r ! d)
           in (r[d := clamp XOR low XOR high], memory))
      | Endian_Swap \<Rightarrow>
          (let endian = shl (a AND 0xff) 24 OR shl (a AND 0xff00) 8 OR (shr a 8 AND 0xff00) OR shr a 24
           in (r[d := endian XOR (shl b 8 OR shr b 24)], memory))
      | Carry_Chain \<Rightarrow>
          (let low = a + b;
               carry = of_bool (low < a);
               high = r ! d + r ! ((d + 1) mod 6) + carry
           in (r[d := low XOR high], memory))
      | Horner_Loop \<Rightarrow>
          (r[d := fold (\<lambda>c p. p * (b OR 1) + c) [3, 5, 17, 257] a], memory))"

section \<open>The frame program\<close>

definition digest_step :: "u32 \<Rightarrow> u32 \<Rightarrow> u32" where
  "digest_step v result = shl result 5 XOR shr result 2 XOR v"

definition digest :: "u32 list \<Rightarrow> u32" where
  "digest xs = fold digest_step xs 0x9e3779b9"

text \<open>The preprocessor symbols a build may define.\<close>

record build =
  kernel_only :: bool
  stop_after :: "nat option"
  return_register :: "nat option"
  return_memory :: "nat option"
  return_register_digest :: bool
  return_memory_digest :: bool

definition plain_build :: build where
  "plain_build = \<lparr>kernel_only = False, stop_after = None, return_register = None, return_memory = None,
                  return_register_digest = False, return_memory_digest = False\<rparr>"

record case_program =
  case_id :: nat
  case_input :: "u32 list"
  case_kernel :: "u32 list \<Rightarrow> u32"
  reg_inputs :: "nat list"
  reg5_init :: u32
  memory_keys :: "u32 list"
  case_stmts :: "stmt list"

definition mix_digests :: "u32 \<Rightarrow> u32 \<Rightarrow> u32" where
  "mix_digests result memory_result = result XOR (shl memory_result 11 OR shr memory_result 21)"

definition checkpoint_return :: "build \<Rightarrow> machine \<Rightarrow> u32" where
  "checkpoint_return cfg s =
     (case s of (r, memory) \<Rightarrow>
        case return_register cfg of
          Some i \<Rightarrow> r ! i
        | None \<Rightarrow>
            (case return_memory cfg of
               Some i \<Rightarrow> memory ! i
             | None \<Rightarrow>
                 (let checkpoint_result = digest r
                  in if return_register_digest cfg then checkpoint_result
                     else
                       (let checkpoint_memory = digest memory
                        in if return_memory_digest cfg then checkpoint_memory
                           else mix_digests checkpoint_result checkpoint_memory))))"

fun run_stmts :: "build \<Rightarrow> nat \<Rightarrow> stmt list \<Rightarrow> machine \<Rightarrow> u32" where
  "run_stmts cfg step [] s = mix_digests (digest (fst s)) (digest (snd s))"
| "run_stmts cfg step (st # sts) s =
     (let s = exec_stmt step st s
      in if stop_after cfg = Some (step + 1) then checkpoint_return cfg s
         else run_stmts cfg (Suc step) sts s)"

definition case_start :: "case_program \<Rightarrow> machine" where
  "case_start c =
     ([case_kernel c (case_input c)] @ map (\<lambda>i. case_input c ! i) (reg_inputs c) @ [reg5_init c],
      map (\<lambda>i. case_input c ! i XOR memory_keys c ! i) [0..<8])"

definition remu_case :: "build \<Rightarrow> case_program \<Rightarrow> u32" where
  "remu_case cfg c =
     (if kernel_only cfg then case_kernel c (case_input c)
      else run_stmts cfg 0 (case_stmts c) (case_start c))"

section \<open>The reference semantics\<close>

text \<open>
  The generator predicts the effect of a statement with the operations of its own language: rotations, carries,
  bit counts, bit and byte reversal, minimum and maximum.
\<close>

definition carry_out :: "u32 \<Rightarrow> u32 \<Rightarrow> u32" where
  "carry_out a b = of_bool (2 ^ 32 \<le> unat a + unat b)"

definition count_ones :: "u32 \<Rightarrow> u32" where
  "count_ones a = of_nat (card {i. bit a i})"

definition reverse_bits :: "u32 \<Rightarrow> u32" where
  "reverse_bits a = horner_sum of_bool 2 (rev (map (bit a) [0..<32]))"

definition of_bytes_le :: "u8 list \<Rightarrow> u32" where
  "of_bytes_le bs = of_nat (horner_sum unat 256 bs)"

definition byte_of :: "u32 \<Rightarrow> nat \<Rightarrow> u8" where
  "byte_of a i = of_nat (unat a div 256 ^ i)"

definition swap_bytes :: "u32 \<Rightarrow> u32" where
  "swap_bytes a = of_bytes_le [byte_of a 3, byte_of a 2, byte_of a 1, byte_of a 0]"

definition reference_value :: "nat \<Rightarrow> opcode \<Rightarrow> u32 \<Rightarrow> u32 \<Rightarrow> u32 \<Rightarrow> u32 \<Rightarrow> u32" where
  "reference_value step opc x y a b =
     (case opc of
        Add_Carry \<Rightarrow> (a + b) XOR carry_out a b
      | Sub_Borrow \<Rightarrow> (a - b) XOR of_bool (unat a < unat b)
      | Rotate_Mix \<Rightarrow> word_rotl (unat b mod 32) a XOR word_rotr ((unat b + 7) mod 32) b
      | Multiply_Low \<Rightarrow> a * (b OR 1) + 0x9e3779b9
      | Divide_Rem \<Rightarrow>
          (let divisor = unat ((b AND 0xffff) OR 1)
           in of_nat (unat a div divisor) XOR word_rotl 9 (of_nat (unat a mod divisor)))
      | Mask_Merge \<Rightarrow> (let msk = word_rotl (step + 3) a in (a AND msk) OR (b AND NOT msk))
      | Compare_Select \<Rightarrow> (if unat a < unat b then a + 0x10204081 else b - 0x01020408)
      | Byte_Pack \<Rightarrow> of_bytes_le [byte_of a 0, byte_of b 0, byte_of a 1, byte_of b 1]
      | Halfword_Swap \<Rightarrow> word_rotl 16 a XOR (b AND 0xffff0000)
      | Array_Scatter \<Rightarrow> word_rotl (step + 1) b
      | Counted_Loop \<Rightarrow> fold (\<lambda>i v. word_rotl 3 (v + (b XOR of_nat i))) [0..<3 + step mod 5] a
      | Switch_Phi \<Rightarrow>
          [b + a, b - a, b XOR word_rotl 5 a, b * 3 XOR a] ! (unat a mod 4)
      | Short_Circuit \<Rightarrow>
          (if odd b then if bit b 1 then (a + 3) XOR 0x55aa55aa else a + 3 else a)
      | Popcount_Loop \<Rightarrow> count_ones a XOR b
      | Reverse_Loop \<Rightarrow> reverse_bits a XOR b
      | Gray_Decode \<Rightarrow> a XOR b
      | Minmax_Clamp \<Rightarrow> min (max x (min a b)) (max a b) XOR min a b XOR max a b
      | Endian_Swap \<Rightarrow> swap_bytes a XOR word_rotl 8 b
      | Carry_Chain \<Rightarrow> (a + b) XOR (x + y + carry_out a b)
      | Horner_Loop \<Rightarrow> ((((a * (b OR 1) + 3) * (b OR 1) + 5) * (b OR 1) + 17) * (b OR 1) + 257))"

definition reference_stmt :: "nat \<Rightarrow> stmt \<Rightarrow> machine \<Rightarrow> machine" where
  "reference_stmt step st s =
     (case st of (opc, d, le, ri) \<Rightarrow> case s of (r, memory) \<Rightarrow>
      let x = r ! d; y = r ! ((d + 1) mod 6); a = r ! le; b = r ! ri in
      if opc = Array_Scatter then
        (let v = memory ! (unat a mod 8) XOR b
         in (r[d := reference_value step opc x y a v], memory[unat a mod 8 := v]))
      else (r[d := reference_value step opc x y a b], memory))"

section \<open>The templates agree with the reference\<close>

lemma rotl_shifts: "n < 32 \<Longrightarrow> shl a n OR shr a (32 - n) = word_rotl n (a :: u32)" if "0 < n"
proof (rule bit_word_eqI)
  fix k assume n: "n < 32" and k: "k < LENGTH(32)"
  have "(k + (32 - n)) mod 32 = (if n \<le> k then k - n else 32 + k - n)"
    using n k that by (auto simp: mod_if)
  then show "bit (shl a n OR shr a (32 - n)) k = bit (word_rotl n a) k"
    using n k that by (auto simp: bit_simps bit_word_rotl_iff dest: bit_imp_le_length)
qed

lemma rotl_0: "word_rotl 0 a = (a :: u32)"
  by (rule bit_word_eqI) (simp add: bit_word_rotl_iff)

lemma rotr_0: "word_rotr 0 a = (a :: u32)"
  by (rule bit_word_eqI) (simp add: bit_word_rotr_iff)

lemma rotr_shifts: "0 < n \<Longrightarrow> n < 32 \<Longrightarrow> shr a n OR shl a (32 - n) = word_rotr n (a :: u32)"
  using rotl_shifts [of "32 - n" a] by (simp add: or.commute word_rotl_eq_word_rotr)

lemma and_31: "unat (b AND 31 :: u32) = unat b mod 32" and and_7: "unat (b AND 7 :: u32) = unat b mod 8"
  and and_3: "unat (b AND 3 :: u32) = unat b mod 4"
proof -
  have m: "(31 :: u32) = mask 5" "(7 :: u32) = mask 3" "(3 :: u32) = mask 2"
    by (simp_all add: mask_eq_exp_minus_1)
  show "unat (b AND 31 :: u32) = unat b mod 32" "unat (b AND 7 :: u32) = unat b mod 8"
    "unat (b AND 3 :: u32) = unat b mod 4"
    unfolding m take_bit_eq_mask [symmetric] unsigned_take_bit_eq
    by (simp_all add: take_bit_eq_mod)
qed

lemma add_carry_out: "of_bool (a + b < a) = carry_out a b"
proof -
  have "unat a < 2 ^ 32" "unat b < 2 ^ 32"
    using unsigned_less [where w = a, where 'a = nat] unsigned_less [where w = b, where 'a = nat] by simp_all
  then show ?thesis
    by (auto simp: carry_out_def word_less_nat_alt unat_word_ariths mod_if)
qed

lemma xor_shift_double:
  "y = x XOR shr x k \<Longrightarrow> y XOR shr y k = (x :: u32) XOR shr x (k + k)"
  by (rule bit_word_eqI) (auto simp: bit_simps add.assoc)

lemma gray_chain_id: "gray_chain x = x"
proof -
  have "shr x 32 = 0"
    by (rule bit_word_eqI) (auto simp: bit_simps dest: bit_imp_le_length)
  then have d: "(x XOR shr x 1) XOR shr (x XOR shr x 1) 1 = x XOR shr x 2"
    "(x XOR shr x 2) XOR shr (x XOR shr x 2) 2 = x XOR shr x 4"
    "(x XOR shr x 4) XOR shr (x XOR shr x 4) 4 = x XOR shr x 8"
    "(x XOR shr x 8) XOR shr (x XOR shr x 8) 8 = x XOR shr x 16"
    "(x XOR shr x 16) XOR shr (x XOR shr x 16) 16 = x"
    using xor_shift_double [OF refl, of x 1] xor_shift_double [OF refl, of x 2]
      xor_shift_double [OF refl, of x 4] xor_shift_double [OF refl, of x 8]
      xor_shift_double [OF refl, of x 16]
    by (simp_all only: one_add_one numeral_plus_numeral add_num_simps xor.right_neutral)
  show ?thesis
    unfolding gray_chain_def Let_def by (simp only: d)
qed

lemma bit_reverse_bits: "bit (reverse_bits a) i \<longleftrightarrow> i < 32 \<and> bit a (31 - i)"
  by (auto simp: reverse_bits_def bit_horner_sum_bit_word_iff rev_nth simp del: upt_rec_numeral)

lemma reverse_steps:
  "k \<le> 32 \<Longrightarrow> (reverse_step ^^ k) (a, 0) = (shr a k, shr (reverse_bits a) (32 - k))"
proof (induction k)
  case 0
  have "shr (reverse_bits a) 32 = 0"
    by (rule bit_word_eqI) (simp add: bit_simps bit_reverse_bits)
  then show ?case by simp
next
  case (Suc k)
  have "shl (shr (reverse_bits a) (32 - k)) 1 OR (shr a k AND 1) = shr (reverse_bits a) (31 - k)"
  proof (rule bit_word_eqI)
    fix i assume "i < LENGTH(32)"
    then show "bit (shl (shr (reverse_bits a) (32 - k)) 1 OR (shr a k AND 1)) i =
        bit (shr (reverse_bits a) (31 - k)) i"
      using Suc.prems by (cases i) (auto simp: bit_simps bit_reverse_bits bit_1_iff and_one_eq even_drop_bit_iff_not_bit
          simp del: push_bit_Suc)
  qed
  moreover have "32 - Suc k = 31 - k" by simp
  ultimately show ?case
    using Suc by (simp add: reverse_step_def add.commute)
qed

lemma reverse_loop_eq: "reverse_loop a = reverse_bits a"
  using reverse_steps [of 32 a] by (simp add: reverse_loop_def)

lemma and_pred_bits:
  fixes a :: u32
  assumes "a \<noteq> 0"
  shows "\<exists>l. bit a l \<and> (\<forall>i. bit (a AND (a - 1)) i \<longleftrightarrow> bit a i \<and> i \<noteq> l)"
proof -
  have "\<exists>l. bit a l" using assms by (metis bit_0_eq bit_eqI bot_apply bot_bool_def)
  then obtain l where l: "bit a l" "\<forall>i<l. \<not> bit a i"
    using exists_least_iff [of "bit a"] by blast
  then have l32: "l < 32" using bit_imp_le_length by fastforce
  define c where "c = unset_bit l a"
  have cb: "bit c i \<longleftrightarrow> bit a i \<and> i \<noteq> l" for i
    by (auto simp: c_def bit_unset_bit_iff)
  have "c AND 2 ^ l = 0" "c AND mask l = 0"
    using l cb by (auto intro!: bit_word_eqI simp: bit_simps bit_exp_iff)
  moreover have "a = c OR 2 ^ l"
    using l l32 cb by (auto intro!: bit_word_eqI simp: bit_simps bit_exp_iff)
  ultimately have a: "a = c + 2 ^ l" and m: "c + mask l = c OR mask l"
    by (simp_all add: disjunctive_add_eq_or)
  have "a - 1 = c + mask l"
    using a by (simp only: mask_eq_exp_minus_1 add_diff_eq)
  then have "a - 1 = c OR mask l"
    by (simp only: m)
  then have "bit (a AND (a - 1)) i \<longleftrightarrow> bit a i \<and> i \<noteq> l" for i
    using l cb by (auto simp: bit_simps)
  then show ?thesis using l by blast
qed

lemma finite_bits: "finite {i. bit (a :: u32) i}"
  by (rule finite_subset [of _ "{..<32}"]) (auto dest: bit_imp_le_length)

lemma count_ones_step: "a \<noteq> 0 \<Longrightarrow> card {i. bit a i} = Suc (card {i. bit (a AND (a - 1) :: u32) i})"
proof -
  assume "a \<noteq> 0"
  then obtain l where l: "bit a l" "\<And>i. bit (a AND (a - 1)) i \<longleftrightarrow> bit a i \<and> i \<noteq> l"
    using and_pred_bits by blast
  then have "{i. bit (a AND (a - 1)) i} = {i. bit a i} - {l}" by auto
  then show ?thesis
    using card_Suc_Diff1 [OF finite_bits [of a], of l] l(1) by simp
qed

lemma popcount_loop_eq: "popcount_loop a c = c + count_ones a"
proof (induction a c rule: popcount_loop.induct)
  case (1 a c)
  then show ?case
    by (cases "a = 0"; subst popcount_loop.simps) (simp_all add: count_ones_def count_ones_step)
qed

lemma byte_of_shift: "byte_of a i = to_u8 (shr a (8 * i))"
proof -
  have "(256 :: nat) ^ i = 2 ^ (8 * i)" by (simp add: power_mult)
  then have "unat a div 256 ^ i = unat (shr a (8 * i))"
    using unsigned_less [where w = a, where 'a = nat]
    by (simp only: unsigned_drop_bit_eq) (simp add: drop_bit_eq_div take_bit_nat_eq_self)
  then show ?thesis
    unfolding byte_of_def by (simp only: of_nat_unat)
qed

lemma byte_of_low: "a AND 0xff = to_u32 (byte_of a 0)" "shr a 8 AND 0xff = to_u32 (byte_of a 1)"
  "shr a 24 = to_u32 (byte_of a 3)" "shr a 16 AND 0xff = to_u32 (byte_of a 2)"
proof -
  have m: "(0xff :: u32) = mask 8" by (simp add: mask_eq_exp_minus_1)
  show "a AND 0xff = to_u32 (byte_of a 0)" "shr a 8 AND 0xff = to_u32 (byte_of a 1)"
    "shr a 24 = to_u32 (byte_of a 3)" "shr a 16 AND 0xff = to_u32 (byte_of a 2)"
    unfolding m byte_of_shift by (rule bit_word_eqI; auto simp: bit_simps dest: bit_imp_le_length)+
qed

lemma of_bytes_le_or:
  "of_bytes_le [b0, b1, b2, b3] = to_u32 b0 OR shl (to_u32 b1) 8 OR shl (to_u32 b2) 16 OR shl (to_u32 b3) 24"
proof -
  have "of_bytes_le [b0, b1, b2, b3] = word_of_int (uint b3 * 2 ^ 24 + uint b2 * 2 ^ 16 + uint b1 * 2 ^ 8 + uint b0)"
    by (simp add: of_bytes_le_def algebra_simps)
  also have "\<dots> = shl (to_u32 b3) 24 OR shl (to_u32 b2) 16 OR shl (to_u32 b1) 8 OR to_u32 b0"
    by (simp only: be32_sum)
  finally show ?thesis
    by (simp only: or.commute or.left_commute or.assoc)
qed

lemma endian_swap_bytes:
  "shl (a AND 0xff) 24 OR shl (a AND 0xff00) 8 OR (shr a 8 AND 0xff00) OR shr a 24 = swap_bytes (a :: u32)"
proof -
  have m: "(0xff00 :: u32) = shl (mask 8) 8" "(0xff :: u32) = mask 8"
    by (simp_all add: mask_eq_exp_minus_1 push_bit_eq_mult)
  have "shl (a AND 0xff00) 8 = shl (shr a 8 AND 0xff) 16" "shr a 8 AND 0xff00 = shl (shr a 16 AND 0xff) 8"
    unfolding m by (rule bit_word_eqI; auto simp: bit_simps dest: bit_imp_le_length)+
  then show ?thesis
    unfolding swap_bytes_def of_bytes_le_or byte_of_low [of a, symmetric]
    by (simp only: or.commute or.left_commute or.assoc)
qed

text \<open>Statements that name registers and are among the first twelve.\<close>

definition stmt_ok :: "stmt \<Rightarrow> bool" where
  "stmt_ok st = (case st of (opc, d, le, ri) \<Rightarrow> d < 6 \<and> le < 6 \<and> ri < 6)"

lemma rotate_mix_eq:
  fixes a b :: u32
  shows "(let shift = b AND 31; shift7 = (shift + 7) AND 31
     in (if shift = 0 then a else shl a (unat shift) OR shr a (unat (32 - shift))) XOR
        (if shift7 = 0 then b else shr b (unat shift7) OR shl b (unat (32 - shift7)))) =
    word_rotl (unat b mod 32) a XOR word_rotr ((unat b + 7) mod 32) b"
proof -
  have sub: "unat (32 - k) = 32 - unat k" if "unat k < 32" for k :: u32
    using that by (simp add: unat_sub word_le_nat_alt)
  have l: "(if k = 0 then a else shl a (unat k) OR shr a (unat (32 - k))) = word_rotl (unat k) a"
    if "unat k < 32" for k :: u32
    using that rotl_shifts [of "unat k" a] sub [OF that] rotl_0 [of a] by (auto simp: unat_gt_0)
  have r: "(if k = 0 then b else shr b (unat k) OR shl b (unat (32 - k))) = word_rotr (unat k) b"
    if "unat k < 32" for k :: u32
    using that rotr_shifts [of "unat k" b] sub [OF that] rotr_0 [of b] by (auto simp: unat_gt_0)
  have "unat ((b AND 31) + 7) = unat b mod 32 + 7"
    by (simp add: unat_word_ariths and_31)
  then have "unat (((b AND 31) + 7) AND 31) = (unat b + 7) mod 32"
    by (simp add: and_31 mod_add_left_eq)
  then show ?thesis
    unfolding Let_def using l [of "b AND 31"] r [of "((b AND 31) + 7) AND 31"] by (simp add: and_31)
qed

lemma switch_phi_eq:
  fixes a b :: u32
  shows "(let sel = a AND 3 in if sel = 0 then b + a else if sel = 1 then b - a
     else if sel = 2 then b XOR (shl a 5 OR shr a 27) else b * 3 XOR a) =
    [b + a, b - a, b XOR word_rotl 5 a, b * 3 XOR a] ! (unat a mod 4)"
proof -
  have "unat a mod 4 \<in> {0, 1, 2, 3}" by auto
  then show ?thesis
    unfolding Let_def word_unat_eq_iff and_3
    using rotl_shifts [of 5 a] by auto
qed

lemma counted_step_eq: "counted_step b = (\<lambda>i v. word_rotl 3 (v + (b XOR of_nat i)))"
  using rotl_shifts [of 3] by (simp add: counted_step_def fun_eq_iff)

lemma if_less_min: "(if a < b then a else b) = min a (b :: u32)"
  and if_less_max: "(if b < a then a else b) = max a (b :: u32)"
  by (auto simp: min_def max_def)

lemma clamp_eq: "(if x < min a b then min a b else min (max a b) x) =
    min (max x (min a b)) (max a (b :: u32))"
  by (auto simp: min_def max_def)

lemma and_1_odd: "(b AND 1 \<noteq> 0) = odd (b :: u32)" and and_2_bit: "(b AND 2 \<noteq> 0) = bit (b :: u32) 1"
  by (simp_all add: and_one_eq odd_iff_mod_2_eq_one bit_iff_and_push_bit_not_eq_0)

lemma divide_rem_eq:
  "(a div v) XOR (shl (a mod v) 9 OR shr (a mod v) 23) =
    of_nat (unat a div unat v) XOR word_rotl 9 (of_nat (unat a mod unat v) :: u32)"
proof -
  have "a div v = of_nat (unat a div unat v)" "a mod v = of_nat (unat a mod unat v)"
    by (simp_all add: word_arith_nat_div word_arith_nat_mod)
  then show ?thesis
    using rotl_shifts [of 9 "a mod v"] by (simp only:) simp
qed

lemma byte_pack_eq:
  "(a AND 0xff) OR shl (b AND 0xff) 8 OR shl (shr a 8 AND 0xff) 16 OR shl (shr b 8 AND 0xff) 24 =
    of_bytes_le [byte_of a 0, byte_of b 0, byte_of a 1, byte_of b 1]"
  unfolding of_bytes_le_or byte_of_low [of a, symmetric] byte_of_low [of b, symmetric] ..

lemma exec_reference:
  assumes "step < 12" and "length (snd s) = 8"
  shows "exec_stmt step st s = reference_stmt step st s"
proof -
  obtain opc d le ri where st: "st = (opc, d, le, ri)" by (cases st) auto
  obtain r m where s: "s = (r, m)" by (cases s)
  show ?thesis
    unfolding st s exec_stmt_def reference_stmt_def
    using assms(1) assms(2) [unfolded s] rotl_shifts [of "step + 3"] rotl_shifts [of "step + 1"]
    apply (cases opc)
    subgoal by (simp add: Let_def reference_value_def add_carry_out)
    subgoal by (simp add: Let_def reference_value_def word_less_nat_alt)
    subgoal using rotate_mix_eq [of "r ! ri" "r ! le"] by (simp add: Let_def reference_value_def)
    subgoal by (simp add: Let_def reference_value_def)
    subgoal using divide_rem_eq [of "r ! le" "((r ! ri) AND 0xffff) OR 1"] by (simp add: Let_def reference_value_def)
    subgoal by (simp add: Let_def reference_value_def)
    subgoal by (simp add: Let_def reference_value_def word_less_nat_alt)
    subgoal using byte_pack_eq [of "r ! le" "r ! ri"] by (simp add: Let_def reference_value_def)
    subgoal using rotl_shifts [of 16 "r ! le"] by (simp add: Let_def reference_value_def)
    subgoal by (simp add: Let_def reference_value_def and_7)
    subgoal by (simp add: Let_def reference_value_def counted_step_eq)
    subgoal using switch_phi_eq [of "r ! le" "r ! ri"] by (simp add: Let_def reference_value_def)
    subgoal by (simp only: opcode.case prod.case Let_def and_1_odd and_2_bit reference_value_def opcode.distinct
          if_False) simp
    subgoal by (simp add: Let_def reference_value_def popcount_loop_eq)
    subgoal by (simp add: Let_def reference_value_def reverse_loop_eq)
    subgoal by (simp add: Let_def reference_value_def gray_chain_id)
    subgoal by (simp only: opcode.case prod.case Let_def if_less_min if_less_max clamp_eq reference_value_def
          opcode.distinct if_False)
    subgoal using endian_swap_bytes [of "r ! le"] rotl_shifts [of 8 "r ! ri"]
      by (simp add: Let_def reference_value_def)
    subgoal by (simp add: Let_def reference_value_def add_carry_out)
    subgoal by (simp add: Let_def reference_value_def)
    done
qed

section \<open>Halfwords\<close>

lemma unat_u32_small: "k < 65536 \<Longrightarrow> unat (of_nat k :: u32) = k"
  by (simp add: unsigned_of_nat take_bit_nat_eq_self)

lemma mod_small: "0 < m \<Longrightarrow> m < 65536 \<Longrightarrow> k mod m < (65536 :: nat)"
  by (meson less_trans mod_less_divisor)

lemma pack_halves:
  assumes "a < 65536"
  shows "shl (of_nat b) 16 OR of_nat a = (of_nat (65536 * b + a) :: u32)"
proof -
  have a: "(of_nat a :: u32) = take_bit 16 (of_nat a)"
    using assms by (simp add: word_unat_eq_iff unsigned_of_nat unsigned_take_bit_eq take_bit_nat_eq_self)
  have "shl (of_nat b) 16 AND take_bit 16 (of_nat a) = (0 :: u32)"
    by (rule bit_word_eqI) (auto simp: bit_simps)
  then have "shl (of_nat b) 16 OR of_nat a = shl (of_nat b) 16 + (of_nat a :: u32)"
    using a by (simp only: disjunctive_add_eq_or)
  then show ?thesis
    by (simp add: push_bit_eq_mult)
qed

lemma low_bits_nat: "unat (w AND 0xffff) = unat (w :: u32) mod 65536" "unat (to_u8 w) = unat w mod 256"
proof -
  have "(0xffff :: u32) = mask 16" by (simp add: mask_eq_exp_minus_1)
  then show "unat (w AND 0xffff) = unat w mod 65536"
    by (simp only: take_bit_eq_mask [symmetric] unsigned_take_bit_eq) (simp add: take_bit_eq_mod)
  show "unat (to_u8 w) = unat w mod 256"
    by (simp add: unsigned_ucast_eq take_bit_eq_mod)
qed

lemma fold_index: "n \<le> length xs \<Longrightarrow> fold (\<lambda>i. f (xs ! i)) [0..<n] r = fold f (take n xs) r"
  by (induction n arbitrary: r) (simp_all add: take_Suc_conv_app_nth)

section \<open>Whole programs\<close>

text \<open>
  The state the generator starts from, given the value it predicts for the kernel, and the run of the
  reference statements.
\<close>

definition reference_start :: "u32 \<Rightarrow> case_program \<Rightarrow> machine" where
  "reference_start kernel_value c =
     ([kernel_value] @ map (\<lambda>k. case_input c ! ((case_id c + k) mod 16)) [1, 5, 9, 13] @
        [of_nat (case_id c) * 0x9e3779b9],
      map (\<lambda>i. case_input c ! i XOR word_rotl i (of_nat (case_id c))) [0..<8])"

fun reference_run :: "nat \<Rightarrow> stmt list \<Rightarrow> machine \<Rightarrow> machine" where
  "reference_run step [] s = s"
| "reference_run step (st # sts) s = reference_run (Suc step) sts (reference_stmt step st s)"

definition reference_digest :: "machine \<Rightarrow> u32" where
  "reference_digest s = digest (fst s) XOR word_rotl 11 (digest (snd s))"

definition reference_case :: "u32 \<Rightarrow> case_program \<Rightarrow> u32" where
  "reference_case kernel_value c = reference_digest (reference_run 0 (case_stmts c) (reference_start kernel_value c))"

text \<open>The literals of a program are the ones its number determines, and it has twelve statements.\<close>

definition generated :: "case_program \<Rightarrow> bool" where
  "generated c \<longleftrightarrow>
     length (case_input c) = 16 \<and>
     reg_inputs c = map (\<lambda>k. (case_id c + k) mod 16) [1, 5, 9, 13] \<and>
     reg5_init c = of_nat (case_id c) * 0x9e3779b9 \<and>
     memory_keys c = map (\<lambda>i. word_rotl i (of_nat (case_id c))) [0..<8] \<and>
     length (case_stmts c) = 12 \<and> list_all stmt_ok (case_stmts c)"

lemma mix_digests_rotl: "mix_digests x y = x XOR word_rotl 11 y"
  using rotl_shifts [of 11 y] by (simp add: mix_digests_def)

lemma reference_stmt_lengths [simp]:
  "length (fst (reference_stmt step st s)) = length (fst s)"
  "length (snd (reference_stmt step st s)) = length (snd s)"
  by (auto simp: reference_stmt_def Let_def split: prod.splits)

lemma reference_run_lengths [simp]:
  "length (fst (reference_run step sts s)) = length (fst s)"
  "length (snd (reference_run step sts s)) = length (snd s)"
  by (induction sts arbitrary: step s) simp_all

lemma case_start_reference:
  "generated c \<Longrightarrow> case_start c = reference_start (case_kernel c (case_input c)) c"
  by (simp add: generated_def case_start_def reference_start_def)

lemma start_lengths [simp]:
  "length (snd (reference_start v c)) = 8" "length (fst (reference_start v c)) = 6"
  by (simp_all add: reference_start_def)

lemma run_to_end:
  assumes "length (snd s) = 8" and "step + length sts \<le> 12"
    and "\<And>n. stop_after cfg = Some n \<Longrightarrow> n \<le> step \<or> step + length sts < n"
  shows "run_stmts cfg step sts s = reference_digest (reference_run step sts s)"
  using assms
proof (induction sts arbitrary: step s)
  case Nil
  then show ?case by (simp add: mix_digests_rotl reference_digest_def)
next
  case (Cons st sts)
  have "stop_after cfg \<noteq> Some (step + 1)"
    using Cons.prems(3) by fastforce
  moreover have "n \<le> Suc step \<or> Suc step + length sts < n" if "stop_after cfg = Some n" for n
    using Cons.prems(3) [OF that] by auto
  ultimately show ?case
    using Cons.prems Cons.IH [of "reference_stmt step st s" "Suc step"]
    by (simp add: exec_reference Let_def)
qed

lemma run_to_checkpoint:
  assumes "length (snd s) = 8" and "step + length sts \<le> 12"
    and "stop_after cfg = Some n" and "step < n" and "n \<le> step + length sts"
  shows "run_stmts cfg step sts s = checkpoint_return cfg (reference_run step (take (n - step) sts) s)"
  using assms
proof (induction sts arbitrary: step s)
  case Nil
  then show ?case by simp
next
  case (Cons st sts)
  show ?case
  proof (cases "n = step + 1")
    case True
    then show ?thesis using Cons.prems by (simp add: exec_reference Let_def)
  next
    case False
    then have "n - step = Suc (n - Suc step)" using Cons.prems by simp
    then show ?thesis
      using Cons.prems False Cons.IH [of "reference_stmt step st s" "Suc step"]
      by (simp add: exec_reference Let_def)
  qed
qed

text \<open>
  A kernel and the prediction for it.  Programs around a kernel that meets its prediction
  return what the generator predicts, whole and at every checkpoint.
\<close>

locale predicted_kernel =
  fixes kernel :: "u32 list \<Rightarrow> u32" and prediction :: "u32 list \<Rightarrow> u32"
  assumes predicted: "length input = 16 \<Longrightarrow> kernel input = prediction input"
begin

lemma kernel_build:
  assumes "generated c" and "case_kernel c = kernel" and "kernel_only cfg"
  shows "remu_case cfg c = prediction (case_input c)"
  using assms predicted by (simp add: remu_case_def generated_def)

lemma whole_program:
  assumes "generated c" and "case_kernel c = kernel"
  shows "remu_case plain_build c = reference_case (prediction (case_input c)) c"
proof -
  have i: "length (case_input c) = 16" and "length (case_stmts c) = 12"
    using assms(1) by (simp_all add: generated_def)
  then have "run_stmts plain_build 0 (case_stmts c) (reference_start v c) = reference_case v c" for v
    unfolding reference_case_def by (intro run_to_end) (simp_all add: plain_build_def)
  then show ?thesis
    using assms(2) predicted [OF i]
    by (simp add: remu_case_def plain_build_def case_start_reference [OF assms(1)])
qed

lemma checkpoint_program:
  assumes "generated c" and "case_kernel c = kernel" and "\<not> kernel_only cfg"
    and "stop_after cfg = Some n" and "0 < n" and "n \<le> 12"
  shows "remu_case cfg c =
    checkpoint_return cfg (reference_run 0 (take n (case_stmts c)) (reference_start (prediction (case_input c)) c))"
proof -
  have i: "length (case_input c) = 16" and "length (case_stmts c) = 12"
    using assms(1) by (simp_all add: generated_def)
  then show ?thesis
    using assms(2-) predicted [OF i]
    by (simp add: remu_case_def run_to_checkpoint case_start_reference [OF assms(1)])
qed

end

section \<open>Conforming programs\<close>

text \<open>
  A program conforms to a prediction of its kernel when its literals are the generated ones and its kernel
  computes the prediction.
\<close>

definition conforms :: "case_program \<Rightarrow> (u32 list \<Rightarrow> u32) \<Rightarrow> bool" where
  "conforms c prediction \<longleftrightarrow> generated c \<and> (\<forall>input. length input = 16 \<longrightarrow> case_kernel c input = prediction input)"

lemma conforms_predicted: "conforms c prediction \<Longrightarrow> predicted_kernel (case_kernel c) prediction"
  by (simp add: conforms_def predicted_kernel_def)

lemma conforms_kernel_build:
  assumes "conforms c prediction" and "kernel_only cfg"
  shows "remu_case cfg c = prediction (case_input c)"
  using predicted_kernel.kernel_build [OF conforms_predicted [OF assms(1)] _ refl assms(2)] assms(1)
  by (simp add: conforms_def)

lemma conforms_whole_program:
  assumes "conforms c prediction"
  shows "remu_case plain_build c = reference_case (prediction (case_input c)) c"
  using predicted_kernel.whole_program [OF conforms_predicted [OF assms] _ refl] assms
  by (simp add: conforms_def)

lemma conforms_checkpoint:
  assumes "conforms c prediction" and "\<not> kernel_only cfg"
    and "stop_after cfg = Some n" and "0 < n" and "n \<le> 12"
  shows "remu_case cfg c =
    checkpoint_return cfg (reference_run 0 (take n (case_stmts c)) (reference_start (prediction (case_input c)) c))"
  using predicted_kernel.checkpoint_program [OF conforms_predicted [OF assms(1)] _ refl assms(2-)] assms(1)
  by (simp add: conforms_def)

text \<open>Rotating a small number is a multiplication: the literals of the programs are checked by arithmetic.\<close>

lemma rotl_small:
  assumes "n < 1024" and "i < 8"
  shows "word_rotl i (of_nat n) = (of_nat (n * 2 ^ i) :: u32)"
proof (cases i)
  case 0
  then show ?thesis by (simp add: rotl_0)
next
  case (Suc k)
  have "unat (shr (of_nat n :: u32) (32 - i)) = n div 2 ^ (32 - i)"
    unfolding unat_drop_bit_eq using assms(1) by (simp add: unat_u32_small drop_bit_eq_div)
  moreover have "(2 :: nat) ^ 25 \<le> 2 ^ (32 - i)" using assms(2) by (intro power_increasing) auto
  then have "n div 2 ^ (32 - i) = 0" using assms(1) by (intro div_less) simp
  ultimately have "shr (of_nat n :: u32) (32 - i) = 0" by (simp add: word_unat_eq_iff)
  then show ?thesis
    using rotl_shifts [of i "of_nat n"] Suc assms(2) by (simp add: push_bit_eq_mult)
qed

lemma generatedI:
  assumes "case_id c < 1024" and "length (case_input c) = 16"
    and "reg_inputs c = map (\<lambda>k. (case_id c + k) mod 16) [1, 5, 9, 13]"
    and "reg5_init c = of_nat (case_id c) * 0x9e3779b9"
    and "memory_keys c = map (\<lambda>i. of_nat (case_id c * 2 ^ i)) [0..<8]"
    and "length (case_stmts c) = 12" and "list_all stmt_ok (case_stmts c)"
  shows "generated c"
proof -
  have "map (\<lambda>i. of_nat (case_id c * 2 ^ i)) [0..<8] = map (\<lambda>i. word_rotl i (of_nat (case_id c) :: u32)) [0..<8]"
    using assms(1) by (intro map_cong) (auto simp: rotl_small)
  then show ?thesis
    using assms(2-) by (simp only: generated_def)
qed

lemma conformsI:
  assumes "case_id c < 1024" and "length (case_input c) = 16"
    and "reg_inputs c = map (\<lambda>k. (case_id c + k) mod 16) [1, 5, 9, 13]"
    and "reg5_init c = of_nat (case_id c) * 0x9e3779b9"
    and "memory_keys c = map (\<lambda>i. of_nat (case_id c * 2 ^ i)) [0..<8]"
    and "length (case_stmts c) = 12" and "list_all stmt_ok (case_stmts c)"
    and "\<And>input. length input = 16 \<Longrightarrow> case_kernel c input = prediction input"
  shows "conforms c prediction"
  using assms by (simp add: conforms_def generatedI)

end
