(* ===== verification/Corpus_Checksums.thy ===== *)
theory Corpus_Checksums
  imports Corpus_Ops
begin

text \<open>
  The checksum kernels of the corpus: CRC-32, CRC-16/CCITT and CRC-8 as shift registers, Fletcher-32,
  Adler-32 and FNV-1a.  The three registers share an interface, the locale \<open>crc_register\<close>: a
  register that shifts one coefficient out and subtracts the generator polynomial computes the remainder of a
  long division of polynomials over the two-element field.
\<close>

section \<open>The kernels\<close>

definition crc32_bit :: "u32 \<Rightarrow> u32" where
  "crc32_bit crc = shr crc 1 XOR (0xedb88320 AND (0 - (crc AND 1)))"

definition crc32_byte :: "u8 \<Rightarrow> u32 \<Rightarrow> u32" where
  "crc32_byte byte crc = (crc32_bit ^^ 8) (crc XOR to_u32 byte)"

definition crc32_kernel :: "nat \<Rightarrow> u32 list \<Rightarrow> u32" where
  "crc32_kernel len input =
     fold (\<lambda>i. crc32_byte (to_u8 (input ! i))) [0..<len] (0xffffffff XOR input ! 15) XOR 0xffffffff"

definition crc16_bit :: "u16 \<Rightarrow> u16" where
  "crc16_bit crc = (if crc AND 0x8000 \<noteq> 0 then shl crc 1 XOR 0x1021 else shl crc 1)"

definition crc16_byte :: "u8 \<Rightarrow> u16 \<Rightarrow> u16" where
  "crc16_byte byte crc = (crc16_bit ^^ 8) (crc XOR shl (to_u16 byte) 8)"

definition crc16_kernel :: "nat \<Rightarrow> u32 list \<Rightarrow> u32" where
  "crc16_kernel len input =
     to_u32 (fold (\<lambda>i. crc16_byte (to_u8 (input ! i))) [0..<len] (to_u16 (input ! 15) XOR 0xffff))"

definition crc8_bit :: "u8 \<Rightarrow> u8" where
  "crc8_bit crc = (if crc AND 0x80 \<noteq> 0 then shl crc 1 XOR 0x07 else shl crc 1)"

definition crc8_byte :: "u8 \<Rightarrow> u8 \<Rightarrow> u8" where
  "crc8_byte byte crc = (crc8_bit ^^ 8) (crc XOR byte)"

definition crc8_kernel :: "nat \<Rightarrow> u32 list \<Rightarrow> u32" where
  "crc8_kernel len input = to_u32 (fold (\<lambda>i. crc8_byte (to_u8 (input ! i))) [0..<len] 0)"

text \<open>The running pair of Fletcher-32 and Adler-32.\<close>

definition sums_step :: "u32 \<Rightarrow> u32 \<Rightarrow> u32 \<times> u32 \<Rightarrow> u32 \<times> u32" where
  "sums_step modulus v s = (case s of (a, b) \<Rightarrow>
     let a = (a + v) mod modulus in (a, (b + a) mod modulus))"

definition fletcher32_kernel :: "nat \<Rightarrow> u32 list \<Rightarrow> u32" where
  "fletcher32_kernel len input =
     (case fold (\<lambda>i. sums_step 65535 (input ! i AND 0xffff)) [0..<len] (0, 0) of
        (a, b) \<Rightarrow> shl b 16 OR a)"

definition adler32_kernel :: "nat \<Rightarrow> u32 list \<Rightarrow> u32" where
  "adler32_kernel len input =
     (case fold (\<lambda>i. sums_step 65521 (to_u32 (to_u8 (input ! i)))) [0..<len] (1, 0) of
        (a, b) \<Rightarrow> shl b 16 OR a)"

definition fnv1a_kernel :: "nat \<Rightarrow> u32 list \<Rightarrow> u32" where
  "fnv1a_kernel len input =
     fold (\<lambda>i hash. (hash XOR to_u32 (to_u8 (input ! i))) * 0x01000193) [0..<len] (0x811c9dc5 XOR input ! 15)"

section \<open>Polynomial division\<close>

text \<open>
  A polynomial over the two-element field is the list of its coefficients, leading one first.  \<open>poly\<close> holds the
  coefficients of a monic divisor below its leading one.
\<close>

definition add_prefix :: "bool list \<Rightarrow> bool list \<Rightarrow> bool list" where
  "add_prefix p bs = map2 (\<noteq>) p (take (length p) bs) @ drop (length p) bs"

function long_division :: "bool list \<Rightarrow> bool list \<Rightarrow> bool list" where
  "long_division poly dividend =
     (if length dividend \<le> length poly then dividend
      else long_division poly (if hd dividend then add_prefix poly (tl dividend) else tl dividend))"
  by pat_completeness auto
termination
  by (relation "measure (\<lambda>(p, d). length d)") (auto simp: add_prefix_def)

declare long_division.simps [simp del]

lemma length_add_prefix [simp]: "length (add_prefix p bs) = length bs" if "length p \<le> length bs"
  using that by (simp add: add_prefix_def)

lemma nth_add_prefix:
  "i < length bs \<Longrightarrow> length p \<le> length bs \<Longrightarrow>
    add_prefix p bs ! i = (if i < length p then p ! i \<noteq> bs ! i else bs ! i)"
  by (simp add: add_prefix_def nth_append)

lemma long_division_short: "length d \<le> length p \<Longrightarrow> long_division p d = d"
  by (simp add: long_division.simps)

lemma long_division_step:
  "length p \<le> length d \<Longrightarrow> long_division p (b # d) = long_division p (if b then add_prefix p d else d)"
  by (subst long_division.simps) simp

text \<open>
  The interface of a CRC register: the coefficients it holds, its step, and how a message byte enters it.
\<close>

locale crc_register =
  fixes coeffs :: "'r \<Rightarrow> bool list"
    and step :: "'r \<Rightarrow> 'r"
    and byte_in :: "u8 \<Rightarrow> 'r \<Rightarrow> 'r"
    and byte_coeffs :: "u8 \<Rightarrow> bool list"
    and poly :: "bool list"
  assumes width: "length (coeffs r) = length poly"
    and wide: "8 \<le> length poly"
    and byte_width: "length (byte_coeffs b) = 8"
    and step_coeffs: "coeffs (step r) =
      (if hd (coeffs r) then add_prefix poly (tl (coeffs r) @ [False]) else tl (coeffs r) @ [False])"
    and byte_in_coeffs: "coeffs (byte_in b r) = add_prefix (byte_coeffs b) (coeffs r)"
begin

lemma step_divides:
  assumes "length poly \<le> length d"
  shows "long_division poly (add_prefix (coeffs r) (False # d)) = long_division poly (add_prefix (coeffs (step r)) d)"
proof -
  obtain c cs where c: "coeffs r = c # cs" and l: "Suc (length cs) = length poly"
    using width [of r] wide by (cases "coeffs r") auto
  have e: "add_prefix (c # cs) (False # d) = c # add_prefix cs d"
    by (simp add: add_prefix_def)
  have f: "add_prefix (cs @ [False]) d = add_prefix cs d"
    using assms l by (intro nth_equalityI) (auto simp: nth_add_prefix nth_append)
  have g: "add_prefix (add_prefix poly (cs @ [False])) d = add_prefix poly (add_prefix cs d)"
    using assms l by (intro nth_equalityI) (auto simp: nth_add_prefix nth_append)
  have "length poly \<le> length (add_prefix cs d)"
    using assms l by simp
  then show ?thesis
    using long_division_step [of poly "add_prefix cs d" c] step_coeffs [of r] by (simp add: c e f g)
qed

lemma steps_divide:
  assumes "length poly \<le> length d"
  shows "long_division poly (add_prefix (coeffs r) (replicate k False @ d)) =
    long_division poly (add_prefix (coeffs ((step ^^ k) r)) d)"
proof (induction k arbitrary: r)
  case (Suc k)
  have "length poly \<le> length (replicate k False @ d)" using assms by simp
  then have "long_division poly (add_prefix (coeffs r) (replicate (Suc k) False @ d)) =
      long_division poly (add_prefix (coeffs (step r)) (replicate k False @ d))"
    using step_divides by simp
  also have "\<dots> = long_division poly (add_prefix (coeffs ((step ^^ Suc k) r)) d)"
    using Suc.IH [of "step r"] by (simp only: funpow_Suc_right comp_apply)
  finally show ?case .
qed simp

lemma byte_in_divides:
  assumes "length poly \<le> length d"
  shows "add_prefix (coeffs r) (byte_coeffs b @ d) = add_prefix (coeffs (byte_in b r)) (replicate 8 False @ d)"
  using assms width [of r] width [of "byte_in b r"] wide byte_width [of b]
  by (intro nth_equalityI) (auto simp: byte_in_coeffs nth_add_prefix nth_append)

definition absorb :: "u8 \<Rightarrow> 'r \<Rightarrow> 'r" where
  "absorb b r = (step ^^ 8) (byte_in b r)"

lemma absorb_divides:
  assumes "length poly \<le> length d"
  shows "long_division poly (add_prefix (coeffs r) (byte_coeffs b @ d)) =
    long_division poly (add_prefix (coeffs (absorb b r)) d)"
  using assms by (simp only: byte_in_divides steps_divide absorb_def)

theorem remainder:
  "coeffs (fold absorb msg r) =
    long_division poly (add_prefix (coeffs r) (concat (map byte_coeffs msg) @ replicate (length poly) False))"
proof (induction msg arbitrary: r)
  case Nil
  have "add_prefix (coeffs r) (replicate (length poly) False) = coeffs r"
    using width [of r] by (intro nth_equalityI) (auto simp: nth_add_prefix)
  then show ?case
    using width [of r] by (simp add: long_division_short)
next
  case (Cons b msg)
  have "length poly \<le> length (concat (map byte_coeffs msg) @ replicate (length poly) False)" by simp
  then show ?case
    using Cons.IH [of "absorb b r"] absorb_divides [of _ r b] by simp
qed

end

section \<open>The three registers\<close>

text \<open>
  The generator polynomials, by the exponents below the leading one: CRC-32 (IEEE 802.3), CRC-16/CCITT and
  CRC-8.  CRC-32 keeps its leading coefficient in bit 0, the other two in the top bit.
\<close>

definition polynomial :: "nat \<Rightarrow> nat list \<Rightarrow> bool list" where
  "polynomial degree exponents = map (\<lambda>i. (degree - 1 - i) \<in> set exponents) [0..<degree]"

definition crc32_poly :: "bool list" where
  "crc32_poly = polynomial 32 [26, 23, 22, 16, 12, 11, 10, 8, 7, 5, 4, 2, 1, 0]"

definition crc16_poly :: "bool list" where
  "crc16_poly = polynomial 16 [12, 5, 0]"

definition crc8_poly :: "bool list" where
  "crc8_poly = polynomial 8 [2, 1, 0]"

definition lsb_first :: "'a::len word \<Rightarrow> bool list" where
  "lsb_first w = map (bit w) [0..<LENGTH('a)]"

definition msb_first :: "'a::len word \<Rightarrow> bool list" where
  "msb_first w = map (\<lambda>i. bit w (LENGTH('a) - 1 - i)) [0..<LENGTH('a)]"

lemma length_coeffs [simp]:
  "length (lsb_first (w :: 'a::len word)) = LENGTH('a)" "length (msb_first (w :: 'a::len word)) = LENGTH('a)"
  "length (polynomial d es) = d"
  by (simp_all add: lsb_first_def msb_first_def polynomial_def)

lemma nth_coeffs [simp]:
  "i < LENGTH('a) \<Longrightarrow> lsb_first (w :: 'a::len word) ! i = bit w i"
  "i < LENGTH('a) \<Longrightarrow> msb_first (w :: 'a::len word) ! i = bit w (LENGTH('a) - 1 - i)"
  by (simp_all add: lsb_first_def msb_first_def)

lemma poly_words:
  "crc32_poly = lsb_first (0xedb88320 :: u32)" "crc16_poly = msb_first (0x1021 :: u16)"
  "crc8_poly = msb_first (0x07 :: u8)"
  by (simp_all add: crc32_poly_def crc16_poly_def crc8_poly_def polynomial_def lsb_first_def msb_first_def upt_rec)

lemma hd_coeffs: "hd (lsb_first w) = bit w 0" "hd (msb_first (w :: 'a::len word)) = bit w (LENGTH('a) - 1)"
  using nth_coeffs [of 0 w] by (simp_all add: hd_conv_nth flip: length_greater_0_conv)

lemma shifted_coeffs:
  fixes w :: "'a::len word"
  shows "tl (lsb_first w) @ [False] = lsb_first (shr w 1)" "tl (msb_first w) @ [False] = msb_first (shl w 1)"
  by (rule nth_equalityI; auto simp: nth_append nth_tl bit_simps dest: bit_imp_le_length simp del: push_bit_Suc)+

lemma add_coeffs:
  fixes v w :: "'a::len word"
  shows "add_prefix (lsb_first v) (lsb_first w) = lsb_first (v XOR w)"
    "add_prefix (msb_first v) (msb_first w) = msb_first (v XOR w)"
  by (rule nth_equalityI; auto simp: nth_add_prefix bit_simps)+

lemma crc32_bit_cases: "crc32_bit r = (if bit r 0 then 0xedb88320 XOR shr r 1 else shr r 1)"
proof -
  have "r AND 1 = of_bool (bit r 0)"
    by (rule bit_word_eqI) (auto simp: bit_simps bit_1_iff)
  then show ?thesis
    by (simp add: crc32_bit_def xor.commute)
qed

lemma top_bits: "(r AND 0x8000 \<noteq> 0) = bit (r :: u16) 15" "(q AND 0x80 \<noteq> 0) = bit (q :: u8) 7"
  by (simp_all add: bit_iff_and_push_bit_not_eq_0 push_bit_eq_mult)

interpretation crc32: crc_register lsb_first crc32_bit "\<lambda>b r. r XOR to_u32 b" lsb_first crc32_poly
proof
  fix r :: u32 and b :: u8
  show "lsb_first (crc32_bit r) =
      (if hd (lsb_first r) then add_prefix crc32_poly (tl (lsb_first r) @ [False]) else tl (lsb_first r) @ [False])"
    by (simp only: hd_coeffs shifted_coeffs poly_words add_coeffs crc32_bit_cases split: if_split) simp
  show "lsb_first (r XOR to_u32 b) = add_prefix (lsb_first b) (lsb_first r)"
    by (rule nth_equalityI) (auto simp: nth_add_prefix bit_simps dest: bit_imp_le_length)
qed (simp_all add: crc32_poly_def)

interpretation crc16: crc_register msb_first crc16_bit "\<lambda>b r. r XOR shl (to_u16 b) 8" msb_first crc16_poly
proof
  fix r :: u16 and b :: u8
  show "msb_first (crc16_bit r) =
      (if hd (msb_first r) then add_prefix crc16_poly (tl (msb_first r) @ [False]) else tl (msb_first r) @ [False])"
    by (simp only: hd_coeffs shifted_coeffs poly_words add_coeffs crc16_bit_def top_bits xor.commute split: if_split) simp
  show "msb_first (r XOR shl (to_u16 b) 8) = add_prefix (msb_first b) (msb_first r)"
    by (rule nth_equalityI) (auto simp: nth_add_prefix bit_simps dest: bit_imp_le_length)
qed (simp_all add: crc16_poly_def)

interpretation crc8: crc_register msb_first crc8_bit "\<lambda>b r. r XOR b" msb_first crc8_poly
proof
  fix r :: u8 and b :: u8
  show "msb_first (crc8_bit r) =
      (if hd (msb_first r) then add_prefix crc8_poly (tl (msb_first r) @ [False]) else tl (msb_first r) @ [False])"
    by (simp only: hd_coeffs shifted_coeffs poly_words add_coeffs crc8_bit_def top_bits xor.commute split: if_split) simp
  show "msb_first (r XOR b) = add_prefix (msb_first b) (msb_first r)"
    by (simp only: add_coeffs xor.commute)
qed (simp_all add: crc8_poly_def)

section \<open>Predictions\<close>

definition of_lsb_first :: "bool list \<Rightarrow> 'a::len word" where
  "of_lsb_first bs = horner_sum of_bool 2 bs"

lemma of_lsb_first_inverse: "of_lsb_first (lsb_first (w :: 'a::len word)) = w"
  by (rule bit_word_eqI) (simp add: of_lsb_first_def bit_horner_sum_bit_word_iff)

lemma to_u32_msb_first:
  fixes w :: "'a::len word"
  assumes "LENGTH('a) \<le> 32"
  shows "to_u32 w = of_lsb_first (rev (msb_first w))"
proof (rule bit_word_eqI)
  fix n assume "n < LENGTH(32)"
  then show "bit (to_u32 w) n = bit (of_lsb_first (rev (msb_first w)) :: u32) n"
    using assms bit_imp_le_length [of w n]
    by (cases "n < LENGTH('a)") (auto simp: of_lsb_first_def bit_horner_sum_bit_word_iff rev_nth bit_simps)
qed

definition message_bytes :: "nat \<Rightarrow> u32 list \<Rightarrow> bytes" where
  "message_bytes len input = map (\<lambda>i. to_u8 (input ! i)) [0..<len]"

definition crc32_prediction :: "nat \<Rightarrow> u32 list \<Rightarrow> u32" where
  "crc32_prediction len input =
     NOT (of_lsb_first (long_division crc32_poly
       (add_prefix (lsb_first (NOT (input ! 15)))
         (concat (map lsb_first (message_bytes len input)) @ replicate 32 False))))"

definition crc16_prediction :: "nat \<Rightarrow> u32 list \<Rightarrow> u32" where
  "crc16_prediction len input =
     of_lsb_first (rev (long_division crc16_poly
       (add_prefix (msb_first (NOT (to_u16 (input ! 15))))
         (concat (map msb_first (message_bytes len input)) @ replicate 16 False))))"

definition crc8_prediction :: "nat \<Rightarrow> u32 list \<Rightarrow> u32" where
  "crc8_prediction len input =
     of_lsb_first (rev (long_division crc8_poly
       (concat (map msb_first (message_bytes len input)) @ replicate 8 False)))"

lemma fold_message: "fold (\<lambda>i. f (to_u8 (input ! i))) [0..<len] r = fold f (message_bytes len input) r"
  unfolding message_bytes_def fold_map by (simp add: comp_def)

lemma all_ones_xor: "0xffffffff XOR w = NOT (w :: u32)" "w XOR 0xffffffff = NOT (w :: u32)"
  "x XOR 0xffff = NOT (x :: u16)"
proof -
  have "(0xffffffff :: u32) = - 1" "(0xffff :: u16) = - 1" by simp_all
  then show "0xffffffff XOR w = NOT w" "w XOR 0xffffffff = NOT w" "x XOR 0xffff = NOT x"
    by (simp_all only: bit.xor_one_left bit.xor_one_right)
qed

lemma crc32_predicted: "crc32_kernel len input = crc32_prediction len input"
proof -
  have a: "crc32_byte = crc32.absorb"
    by (simp add: fun_eq_iff crc32_byte_def crc32.absorb_def)
  have "lsb_first (fold crc32_byte (message_bytes len input) (NOT (input ! 15))) =
      long_division crc32_poly (add_prefix (lsb_first (NOT (input ! 15)))
        (concat (map lsb_first (message_bytes len input)) @ replicate 32 False))"
    using crc32.remainder [of "message_bytes len input" "NOT (input ! 15)"] by (simp add: a crc32_poly_def)
  then show ?thesis
    unfolding crc32_kernel_def crc32_prediction_def fold_message all_ones_xor
    using of_lsb_first_inverse [of "fold crc32_byte (message_bytes len input) (NOT (input ! 15))"] by simp
qed

lemma crc16_predicted: "crc16_kernel len input = crc16_prediction len input"
proof -
  have a: "crc16_byte = crc16.absorb"
    by (simp add: fun_eq_iff crc16_byte_def crc16.absorb_def)
  have "msb_first (fold crc16_byte (message_bytes len input) (NOT (to_u16 (input ! 15)))) =
      long_division crc16_poly (add_prefix (msb_first (NOT (to_u16 (input ! 15))))
        (concat (map msb_first (message_bytes len input)) @ replicate 16 False))"
    using crc16.remainder [of "message_bytes len input" "NOT (to_u16 (input ! 15))"] by (simp add: a crc16_poly_def)
  then show ?thesis
    unfolding crc16_kernel_def crc16_prediction_def fold_message all_ones_xor
    by (subst to_u32_msb_first) simp_all
qed

lemma crc8_predicted: "crc8_kernel len input = crc8_prediction len input"
proof -
  let ?m = "message_bytes len input"
  have a: "crc8_byte = crc8.absorb"
    by (simp add: fun_eq_iff crc8_byte_def crc8.absorb_def)
  have "add_prefix (msb_first (0 :: u8)) (concat (map msb_first ?m) @ replicate 8 False) =
      concat (map msb_first ?m) @ replicate 8 False"
    by (rule nth_equalityI) (auto simp: nth_add_prefix)
  then have "msb_first (fold crc8_byte ?m 0) =
      long_division crc8_poly (concat (map msb_first ?m) @ replicate 8 False)"
    using crc8.remainder [of ?m 0] by (simp add: a crc8_poly_def)
  then show ?thesis
    unfolding crc8_kernel_def crc8_prediction_def fold_message
    by (subst to_u32_msb_first) simp_all
qed

text \<open>Fletcher-32 and Adler-32 as sums: the plain one and the one weighted by position.\<close>

definition plain_sum :: "(nat \<Rightarrow> nat) \<Rightarrow> nat \<Rightarrow> nat" where
  "plain_sum v len = (\<Sum>i<len. v i)"

definition weighted_sum :: "(nat \<Rightarrow> nat) \<Rightarrow> nat \<Rightarrow> nat" where
  "weighted_sum v len = (\<Sum>i<len. (len - i) * v i)"

definition fletcher32_prediction :: "nat \<Rightarrow> u32 list \<Rightarrow> u32" where
  "fletcher32_prediction len input =
     (let v = \<lambda>i. unat (input ! i) mod 65536
      in of_nat (65536 * (weighted_sum v len mod 65535) + plain_sum v len mod 65535))"

definition adler32_prediction :: "nat \<Rightarrow> u32 list \<Rightarrow> u32" where
  "adler32_prediction len input =
     (let v = \<lambda>i. unat (input ! i) mod 256
      in of_nat (65536 * ((len + weighted_sum v len) mod 65521) + (1 + plain_sum v len) mod 65521))"

lemma plain_sum_Suc: "plain_sum v (Suc n) = plain_sum v n + v n"
  by (simp add: plain_sum_def)

lemma weighted_sum_Suc: "weighted_sum v (Suc n) = weighted_sum v n + plain_sum v (Suc n)"
proof -
  have "weighted_sum v (Suc n) = (\<Sum>i<n. (Suc n - i) * v i) + v n"
    by (simp add: weighted_sum_def)
  also have "(\<Sum>i<n. (Suc n - i) * v i) = (\<Sum>i<n. (n - i) * v i + v i)"
    by (rule sum.cong) (simp_all add: Suc_diff_le)
  finally show ?thesis
    by (simp add: weighted_sum_def plain_sum_def sum.distrib)
qed

lemma sums_word:
  fixes a v :: u32
  assumes "unat a < 65536" and "unat v < 65536" and "0 < m" and "m < 65536"
  shows "(a + v) mod of_nat m = of_nat ((unat a + unat v) mod m)"
  using assms by (simp add: word_unat_eq_iff unat_mod_distrib unat_word_ariths unat_u32_small mod_small)

lemma sums_fold:
  fixes v :: "nat \<Rightarrow> u32"
  assumes "\<And>i. unat (v i) < 65536" and "1 < m" and "m < 65536" and "a0 < 2"
  shows "fold (\<lambda>i. sums_step (of_nat m) (v i)) [0..<n] (of_nat a0, 0) =
    (of_nat ((a0 + plain_sum (\<lambda>i. unat (v i)) n) mod m),
     of_nat ((n * a0 + weighted_sum (\<lambda>i. unat (v i)) n) mod m))"
proof (induction n)
  case 0
  then show ?case using assms by (simp add: plain_sum_def weighted_sum_def)
next
  case (Suc n)
  let ?a = "a0 + plain_sum (\<lambda>i. unat (v i)) n" and ?b = "n * a0 + weighted_sum (\<lambda>i. unat (v i)) n"
  have m: "0 < m" and lt: "k mod m < 65536" for k
    using assms mod_small [of m k] by auto
  have a: "(of_nat (?a mod m) + v n) mod of_nat m = (of_nat ((?a + unat (v n)) mod m) :: u32)"
    using sums_word [of "of_nat (?a mod m)" "v n" m] assms m lt by (simp add: unat_u32_small mod_add_left_eq)
  have b: "(of_nat (?b mod m) + of_nat ((?a + unat (v n)) mod m)) mod of_nat m =
      (of_nat ((?b + (?a + unat (v n))) mod m) :: u32)"
    using sums_word [of "of_nat (?b mod m)" "of_nat ((?a + unat (v n)) mod m)" m] assms m lt
    by (simp add: unat_u32_small mod_add_eq)
  have "fold (\<lambda>i. sums_step (of_nat m) (v i)) [0..<Suc n] (of_nat a0, 0) =
      sums_step (of_nat m) (v n) (of_nat (?a mod m), of_nat (?b mod m))"
    by (simp add: Suc.IH)
  also have "\<dots> = (of_nat ((?a + unat (v n)) mod m), of_nat ((?b + (?a + unat (v n))) mod m))"
    by (simp only: sums_step_def prod.case Let_def a b)
  finally show ?case
    by (simp only: weighted_sum_Suc plain_sum_Suc mult_Suc add_ac)
qed

lemma fletcher32_predicted: "fletcher32_kernel len input = fletcher32_prediction len input"
proof -
  have "unat (input ! i AND 0xffff) < 65536" for i
    by (simp add: low_bits_nat)
  from sums_fold [of "\<lambda>i. input ! i AND 0xffff" 65535 0 len, OF this] show ?thesis
    by (simp add: fletcher32_kernel_def fletcher32_prediction_def Let_def low_bits_nat pack_halves mod_small
        del: of_nat_add of_nat_mult)
qed

lemma adler32_predicted: "adler32_kernel len input = adler32_prediction len input"
proof -
  have "unat (to_u32 (to_u8 (input ! i))) < 65536" for i
    using unat_u8_le [of "to_u8 (input ! i)"] by simp
  from sums_fold [of "\<lambda>i. to_u32 (to_u8 (input ! i))" 65521 1 len, OF this] show ?thesis
    by (simp add: adler32_kernel_def adler32_prediction_def Let_def low_bits_nat pack_halves mod_small
        del: of_nat_add of_nat_mult)
qed

text \<open>FNV-1a over natural numbers below \<open>2 ^ 32\<close>.\<close>

definition fnv1a_prediction :: "nat \<Rightarrow> u32 list \<Rightarrow> u32" where
  "fnv1a_prediction len input =
     of_nat (fold (\<lambda>i hash. (hash XOR unat (input ! i) mod 256) * 16777619 mod 2 ^ 32) [0..<len]
       (2166136261 XOR unat (input ! 15)))"

lemma fnv1a_predicted: "fnv1a_kernel len input = fnv1a_prediction len input"
proof -
  have "unat (fnv1a_kernel len input) =
    fold (\<lambda>i hash. (hash XOR unat (input ! i) mod 256) * 16777619 mod 2 ^ 32) [0..<len]
       (2166136261 XOR unat (input ! 15))"
    by (induction len) (simp_all add: fnv1a_kernel_def unsigned_xor_eq unat_word_ariths low_bits_nat)
  then show ?thesis
    unfolding fnv1a_prediction_def by (metis of_nat_unat ucast_id)
qed

interpretation crc32_kernel: predicted_kernel "crc32_kernel len" "crc32_prediction len" for len
  by unfold_locales (rule crc32_predicted)

interpretation crc16_kernel: predicted_kernel "crc16_kernel len" "crc16_prediction len" for len
  by unfold_locales (rule crc16_predicted)

interpretation crc8_kernel: predicted_kernel "crc8_kernel len" "crc8_prediction len" for len
  by unfold_locales (rule crc8_predicted)

interpretation fletcher32_kernel: predicted_kernel "fletcher32_kernel len" "fletcher32_prediction len" for len
  by unfold_locales (rule fletcher32_predicted)

interpretation adler32_kernel: predicted_kernel "adler32_kernel len" "adler32_prediction len" for len
  by unfold_locales (rule adler32_predicted)

interpretation fnv1a_kernel: predicted_kernel "fnv1a_kernel len" "fnv1a_prediction len" for len
  by unfold_locales (rule fnv1a_predicted)

end
