(* ===== verification/Corpus_Bits.thy ===== *)
theory Corpus_Bits
  imports Corpus_Ops
begin

text \<open>
  The kernels of the corpus that work on the bits of single words and on their passage through calls and structures:
  population count, parity, bit reversal, Gray code, register fields, byte order, eight arguments,
  structures by value, function pointers, deadlines, UART and SPI frames and saturating arithmetic.
\<close>

section \<open>The kernels\<close>

text \<open>Kernel 5: \<open>while (x != 0u) { x &= x - 1u; ++total; }\<close> for every input.\<close>

definition popcount_kernel :: "nat \<Rightarrow> u32 list \<Rightarrow> u32" where
  "popcount_kernel len input = fold (\<lambda>i total. popcount_loop (input ! i) total) [0..<len] 0"

definition fold_parity :: "u32 \<Rightarrow> u32" where
  "fold_parity x =
     (let x = x XOR shr x 16; x = x XOR shr x 8; x = x XOR shr x 4
      in shr 0x6996 (unat (x AND 15)) AND 1)"

definition parity_kernel :: "nat \<Rightarrow> u32 list \<Rightarrow> u32" where
  "parity_kernel len input = fold (\<lambda>i result. shl result 1 OR fold_parity (input ! i)) [0..<len] 0"

definition reverse_rotate_kernel :: "nat \<Rightarrow> nat \<Rightarrow> u32 list \<Rightarrow> u32" where
  "reverse_rotate_kernel index amount input =
     (let reversed = reverse_loop (input ! index);
          x = input ! index
      in reversed XOR (shl x amount OR shr x (32 - amount)))"

definition gray_kernel :: "nat \<Rightarrow> u32 list \<Rightarrow> u32" where
  "gray_kernel index input = gray_chain (input ! index)"

definition field_pack_kernel :: "u32 list \<Rightarrow> u32" where
  "field_pack_kernel input =
     (let packed = (input ! 0 AND 0x1f) OR shl (input ! 1 AND 0x3ff) 5 OR shl (input ! 2 AND 0x1ffff) 15
      in (packed AND 0x1f) XOR (shr packed 5 AND 0x3ff) XOR (shr packed 15 AND 0x1ffff))"

definition endian_kernel :: "nat \<Rightarrow> u32 list \<Rightarrow> u32" where
  "endian_kernel index input =
     (let x = input ! index;
          b0 = to_u8 (shr x 24); b1 = to_u8 (shr x 16); b2 = to_u8 (shr x 8); b3 = to_u8 x;
          swapped = to_u32 b0 OR shl (to_u32 b1) 8 OR shl (to_u32 b2) 16 OR shl (to_u32 b3) 24
      in swapped XOR (shl x 8 OR shr x 24))"

definition short_circuit_kernel :: "nat \<Rightarrow> u32 list \<Rightarrow> u32" where
  "short_circuit_kernel n input =
     (let effects = 0;
          left = input ! 0 AND shl 1 n;
          (cond, effects) =
            (if left \<noteq> 0 then (let effects = effects + 3 in (input ! 1 AND 1 \<noteq> 0, effects)) else (False, effects));
          effects = (if cond then effects + 5 else effects);
          (cond, effects) =
            (if left \<noteq> 0 then (True, effects) else (let effects = effects + 7 in (input ! 2 AND 1 \<noteq> 0, effects)));
          effects = (if cond then effects + 11 else effects)
      in effects)"

definition mix8 :: "u32 \<Rightarrow> u32 \<Rightarrow> u32 \<Rightarrow> u32 \<Rightarrow> u32 \<Rightarrow> u32 \<Rightarrow> u32 \<Rightarrow> u32 \<Rightarrow> u32" where
  "mix8 a b c d e f g h =
     (shl a 1 OR shr a 31) + (shl b 4 OR shr b 28) + (shl c 7 OR shr c 25) + (shl d 10 OR shr d 22) +
     (shl e 13 OR shr e 19) + (shl f 16 OR shr f 16) + (shl g 19 OR shr g 13) + (shl h 22 OR shr h 10)"

definition eight_arguments_kernel :: "u32 list \<Rightarrow> u32" where
  "eight_arguments_kernel input =
     mix8 (input ! 0) (input ! 1) (input ! 2) (input ! 3) (input ! 4) (input ! 5) (input ! 6) (input ! 7) XOR
     mix8 (input ! 8) (input ! 9) (input ! 10) (input ! 11) (input ! 12) (input ! 13) (input ! 14) (input ! 15)"

record packet =
  tag :: u32
  packet_length :: u16
  flags :: u8
  sequence :: u8
  payload :: u32

definition consume :: "packet \<Rightarrow> u32" where
  "consume p =
     (tag p + (shl (payload p) 5 OR shr (payload p) 27)) XOR to_u32 (packet_length p) * 3 XOR
     (shl (to_u32 (flags p)) 25 OR shr (to_u32 (flags p)) 7)"

definition struct_by_value_kernel :: "u32 list \<Rightarrow> u32" where
  "struct_by_value_kernel input =
     consume \<lparr>tag = input ! 0, packet_length = to_u16 (input ! 1), flags = to_u8 (input ! 2),
              sequence = to_u8 (input ! 3), payload = input ! 3\<rparr>"

record triple =
  first :: u32
  second :: u32
  third :: u32

definition make_triple :: "u32 \<Rightarrow> u32 \<Rightarrow> u32 \<Rightarrow> u32 \<Rightarrow> triple" where
  "make_triple a b c d = \<lparr>first = a + c, second = b - d, third = a XOR b XOR c XOR d\<rparr>"

definition struct_return_kernel :: "u32 list \<Rightarrow> u32" where
  "struct_return_kernel input =
     (let v = make_triple (input ! 0) (input ! 1) (input ! 2) (input ! 3)
      in first v XOR (shl (second v) 9 OR shr (second v) 23) XOR (shr (third v) 11 OR shl (third v) 21))"

definition rol :: "u32 \<Rightarrow> u32 \<Rightarrow> u32" where
  "rol a b = (let b = b AND 31 in if b = 0 then a else shl a (unat b) OR shr a (unat (32 - b)))"

definition function_pointer_kernel :: "nat \<Rightarrow> u32 list \<Rightarrow> u32" where
  "function_pointer_kernel selector input =
     (let table = [(+), (-), (XOR), rol];
          selected = table ! selector
      in selected (input ! 0) (input ! 1))"

definition deadline_kernel :: "u32 list \<Rightarrow> u32" where
  "deadline_kernel input =
     (let now = input ! 0;
          deadline = now + (input ! 1 AND 0xffff);
          observed = deadline + (input ! 2 AND 0x1ffff);
          expired = of_bool (observed - deadline < 0x80000000)
      in expired XOR observed)"

definition frame_parity :: "u32 \<Rightarrow> u32" where
  "frame_parity byte =
     (let parity = byte; parity = parity XOR shr parity 4; parity = parity XOR shr parity 2;
          parity = parity XOR shr parity 1
      in parity AND 1)"

definition uart_frame :: "u32 \<Rightarrow> u32" where
  "uart_frame byte = shl 1 9 OR shl (frame_parity byte) 9 OR shl byte 1"

definition uart_frame_kernel :: "nat \<Rightarrow> u32 list \<Rightarrow> u32" where
  "uart_frame_kernel index input =
     (let frame = uart_frame (input ! index AND 0xff) in frame XOR reverse_loop frame)"

definition spi_step :: "bool \<Rightarrow> u32 \<Rightarrow> u32 \<Rightarrow> nat \<Rightarrow> u32 \<times> u32 \<Rightarrow> u32 \<times> u32" where
  "spi_step lsb_first tx pat n s =
     (case s of (rx, pins) \<Rightarrow>
      let shift = (if lsb_first then n else 7 - n);
          mosi = shr tx shift AND 1;
          miso = shr pat (7 - n) AND 1
      in (shl rx 1 OR miso, (shl pins 3 OR shr pins 29) XOR (mosi OR shl miso 1)))"

definition spi_kernel :: "bool \<Rightarrow> u32 list \<Rightarrow> u32" where
  "spi_kernel lsb_first input =
     (case fold (spi_step lsb_first (to_u32 (to_u8 (input ! 0))) (to_u32 (to_u8 (input ! 1)))) [0..<8] (0, 0) of
        (rx, pins) \<Rightarrow> shl rx 24 XOR pins)"

definition saturating_kernel :: "u32 list \<Rightarrow> u32" where
  "saturating_kernel input =
     (let a = input ! 0 AND 0xffff; b = input ! 1 AND 0xffff;
          sum = a + b;
          sum = (if sum > 0xffff then 0xffff else sum);
          difference = (if a < b then 0 else a - b)
      in shl sum 16 OR difference)"

definition multiply_kernel :: "u32 list \<Rightarrow> u32" where
  "multiply_kernel input =
     (let a = input ! 0 AND 0xffff; b = input ! 1 AND 0xffff; product = a * b
      in shl (shr product 16) 16 OR (product AND 0xffff))"

section \<open>Predictions\<close>

definition ones :: "u32 \<Rightarrow> nat" where
  "ones x = card {k. bit x k}"

definition popcount_prediction :: "nat \<Rightarrow> u32 list \<Rightarrow> u32" where
  "popcount_prediction len input = of_nat (\<Sum>i<len. ones (input ! i))"

lemma popcount_predicted: "popcount_kernel len input = popcount_prediction len input"
  by (induction len)
    (simp_all add: popcount_kernel_def popcount_prediction_def popcount_loop_eq count_ones_def ones_def)

text \<open>The parity of a word is the exclusive or of the parities of its halves.\<close>

lemma ones_xor: "odd (ones (x XOR y)) = (odd (ones x) \<noteq> odd (ones y))"
proof -
  let ?X = "{k. bit x k}" and ?Y = "{k. bit y k}"
  have "{k. bit (x XOR y) k} = (?X - ?Y) \<union> (?Y - ?X)"
    by (auto simp: bit_simps)
  then have "ones (x XOR y) = card (?X - ?Y) + card (?Y - ?X)"
    unfolding ones_def using finite_bits by (auto intro: card_Un_disjoint)
  moreover have "ones x = card (?X - ?Y) + card (?X \<inter> ?Y)" "ones y = card (?Y - ?X) + card (?X \<inter> ?Y)"
    unfolding ones_def using finite_bits
    by (simp_all add: card_Diff_subset_Int Int_commute card_mono)
  ultimately show ?thesis by simp presburger
qed

lemma ones_halves: "odd (ones (take_bit k (x XOR shr x k))) = odd (ones (take_bit (k + k) x))"
proof -
  have "take_bit k (x XOR shr x k) = take_bit k x XOR take_bit k (shr x k)"
    by simp
  moreover have "ones (take_bit (k + k) x) = ones (take_bit k x) + ones (take_bit k (shr x k))"
  proof -
    have "{i. bit (take_bit (k + k) x) i} = {i. bit (take_bit k x) i} \<union> (+) k ` {i. bit (take_bit k (shr x k)) i}"
      (is "?L = ?A \<union> ?B")
    proof (rule set_eqI)
      fix i
      show "i \<in> ?L \<longleftrightarrow> i \<in> ?A \<union> ?B"
        by (cases "i < k") (auto simp: bit_simps image_iff intro!: exI [of _ "i - k"])
    qed
    moreover have "?A \<inter> ?B = {}" by (auto simp: bit_simps)
    ultimately show ?thesis
      unfolding ones_def using finite_bits by (simp add: card_Un_disjoint card_image)
  qed
  ultimately show ?thesis by (simp add: ones_xor)
qed

lemma ones_single: "odd (ones (take_bit 1 x)) = odd x"
proof -
  have "{k. bit (take_bit 1 x) k} = (if odd x then {0} else {})"
    by (auto simp: bit_simps bit_0)
  then show ?thesis by (simp add: ones_def)
qed

lemma frame_parity_eq: "frame_parity x = of_bool (odd (ones (take_bit 8 x)))"
proof -
  define y where "y = x XOR shr x 4"
  define z where "z = y XOR shr y 2"
  have "odd (ones (take_bit 8 x)) = odd (z XOR shr z 1)"
    using ones_halves [of 4 x] ones_halves [of 2 y] ones_halves [of 1 z] ones_single [of "z XOR shr z 1"]
    by (simp only: y_def z_def one_add_one numeral_plus_numeral add_num_simps)
  moreover have "w AND 1 = of_bool (odd w)" for w :: u32
    by (simp add: and_one_eq odd_iff_mod_2_eq_one)
  ultimately show ?thesis
    unfolding frame_parity_def Let_def y_def [symmetric] z_def [symmetric] by simp
qed

lemma parity_table:
  "unat x < 16 \<Longrightarrow> shr 0x6996 (unat x) AND 1 = (of_bool (odd (ones x)) :: u32)"
proof -
  assume x: "unat x < 16"
  then have "take_bit 8 x = x"
    by (simp add: word_unat_eq_iff unsigned_take_bit_eq take_bit_nat_eq_self)
  then have "of_bool (odd (ones x)) = frame_parity x"
    by (simp add: frame_parity_eq)
  moreover have "unat x \<in> set [0..<16]" using x by simp
  then have "x \<in> of_nat ` set [0..<16]"
    by (metis imageI of_nat_unat ucast_id)
  then have "shr 0x6996 (unat x) AND 1 = frame_parity x"
    by (auto simp: upt_rec frame_parity_def Let_def)
  ultimately show ?thesis by simp
qed

lemma fold_parity_eq: "fold_parity x = of_bool (odd (ones x))"
proof -
  define a where "a = x XOR shr x 16"
  define b where "b = a XOR shr a 8"
  define c where "c = b XOR shr b 4"
  have "(15 :: u32) = mask 4" by (simp add: mask_eq_exp_minus_1)
  then have m: "c AND 15 = take_bit 4 c" by (simp add: take_bit_eq_mask)
  have "odd (ones (take_bit 4 c)) = odd (ones (take_bit 32 x))"
    using ones_halves [of 16 x] ones_halves [of 8 a] ones_halves [of 4 b]
    by (simp only: a_def b_def c_def numeral_plus_numeral add_num_simps)
  moreover have "take_bit 32 x = x"
    by (rule bit_word_eqI) (simp add: bit_simps)
  moreover have "unat (take_bit 4 c) < 16"
    unfolding unsigned_take_bit_eq by (simp add: take_bit_eq_mod)
  ultimately show ?thesis
    unfolding fold_parity_def Let_def a_def [symmetric] b_def [symmetric] c_def [symmetric] m
    by (simp only: parity_table)
qed

definition parity_prediction :: "nat \<Rightarrow> u32 list \<Rightarrow> u32" where
  "parity_prediction len input = horner_sum of_bool 2 (rev (map (\<lambda>i. odd (ones (input ! i))) [0..<len]))"

lemma parity_predicted: "parity_kernel len input = parity_prediction len input"
proof (induction len)
  case (Suc n)
  have "shl w 1 OR of_bool p = of_bool p + 2 * (w :: u32)" for w p
  proof -
    have "shl w 1 AND of_bool p = 0"
      by (rule bit_word_eqI) (auto simp: bit_simps bit_1_iff simp del: push_bit_Suc)
    then show ?thesis
      by (simp only: disjunctive_add_eq_or [symmetric]) simp
  qed
  then show ?case
    using Suc by (simp add: parity_kernel_def parity_prediction_def fold_parity_eq del: push_bit_Suc)
qed (simp add: parity_kernel_def parity_prediction_def)

definition reverse_rotate_prediction :: "nat \<Rightarrow> nat \<Rightarrow> u32 list \<Rightarrow> u32" where
  "reverse_rotate_prediction index amount input = reverse_bits (input ! index) XOR word_rotl amount (input ! index)"

lemma reverse_rotate_predicted:
  "0 < amount \<Longrightarrow> amount < 32 \<Longrightarrow>
    reverse_rotate_kernel index amount input = reverse_rotate_prediction index amount input"
  by (simp add: reverse_rotate_kernel_def reverse_rotate_prediction_def reverse_loop_eq rotl_shifts)

lemma gray_predicted: "gray_kernel index input = input ! index"
  by (simp add: gray_kernel_def gray_chain_id)

definition field_pack_prediction :: "u32 list \<Rightarrow> u32" where
  "field_pack_prediction input = take_bit 5 (input ! 0) XOR take_bit 10 (input ! 1) XOR take_bit 17 (input ! 2)"

lemma low_masks:
  "w AND 0x1f = take_bit 5 (w :: u32)" "w AND 0x3ff = take_bit 10 w" "w AND 0x1ffff = take_bit 17 w"
  "w AND 0xffff = take_bit 16 w" "w AND 0xff = take_bit 8 w"
proof -
  have "(0x1f :: u32) = mask 5" "(0x3ff :: u32) = mask 10" "(0x1ffff :: u32) = mask 17"
    "(0xffff :: u32) = mask 16" "(0xff :: u32) = mask 8"
    by (simp_all add: mask_eq_exp_minus_1)
  then show "w AND 0x1f = take_bit 5 w" "w AND 0x3ff = take_bit 10 w" "w AND 0x1ffff = take_bit 17 w"
    "w AND 0xffff = take_bit 16 w" "w AND 0xff = take_bit 8 w"
    by (simp_all only: take_bit_eq_mask)
qed

lemma unpack_fields:
  fixes a b c :: u32
  defines "packed \<equiv> take_bit 5 a OR shl (take_bit 10 b) 5 OR shl (take_bit 17 c) 15"
  shows "take_bit 5 packed = take_bit 5 a" "take_bit 10 (shr packed 5) = take_bit 10 b"
    "take_bit 17 (shr packed 15) = take_bit 17 c"
  unfolding packed_def by (rule bit_word_eqI; auto simp: bit_simps dest: bit_imp_le_length)+

lemma field_pack_predicted: "field_pack_kernel input = field_pack_prediction input"
  unfolding field_pack_kernel_def field_pack_prediction_def Let_def low_masks unpack_fields ..

definition endian_prediction :: "nat \<Rightarrow> u32 list \<Rightarrow> u32" where
  "endian_prediction index input = swap_bytes (input ! index) XOR word_rotl 8 (input ! index)"

lemma endian_predicted: "endian_kernel index input = endian_prediction index input"
proof -
  let ?x = "input ! index"
  have "to_u8 (shr ?x 24) = byte_of ?x 3" "to_u8 (shr ?x 16) = byte_of ?x 2" "to_u8 (shr ?x 8) = byte_of ?x 1"
    "to_u8 ?x = byte_of ?x 0"
    using byte_of_shift [of ?x 3] byte_of_shift [of ?x 2] byte_of_shift [of ?x 1] byte_of_shift [of ?x 0] by simp_all
  then show ?thesis
    using rotl_shifts [of 8 ?x]
    by (simp add: endian_kernel_def endian_prediction_def Let_def swap_bytes_def of_bytes_le_or or.assoc)
qed

definition short_circuit_prediction :: "nat \<Rightarrow> u32 list \<Rightarrow> u32" where
  "short_circuit_prediction n input =
     (if bit (input ! 0) n then if odd (input ! 1) then 19 else 14
      else if odd (input ! 2) then 18 else 7)"

lemma short_circuit_predicted: "short_circuit_kernel n input = short_circuit_prediction n input"
proof -
  have "(input ! 0 AND shl 1 n \<noteq> 0) = bit (input ! 0) n"
    by (simp only: bit_iff_and_push_bit_not_eq_0)
  moreover have "(w AND 1 = 0) = even w" for w :: u32
    by (simp add: and_one_eq even_iff_mod_2_eq_zero)
  ultimately show ?thesis
    by (simp add: short_circuit_kernel_def short_circuit_prediction_def Let_def)
qed

definition eight_arguments_prediction :: "u32 list \<Rightarrow> u32" where
  "eight_arguments_prediction input =
     (\<Sum>i<8. word_rotl (3 * i + 1) (input ! i)) XOR (\<Sum>i<8. word_rotl (3 * i + 1) (input ! (8 + i)))"

lemma mix8_rotations: "mix8 a b c d e f g h = (\<Sum>i<8. word_rotl (3 * i + 1) ([a, b, c, d, e, f, g, h] ! i))"
  using rotl_shifts [of 1 a] rotl_shifts [of 4 b] rotl_shifts [of 7 c] rotl_shifts [of 10 d] rotl_shifts [of 13 e]
    rotl_shifts [of 16 f] rotl_shifts [of 19 g] rotl_shifts [of 22 h]
  by (simp add: mix8_def lessThan_Suc eval_nat_numeral ac_simps)

lemma eight_arguments_predicted: "eight_arguments_kernel input = eight_arguments_prediction input"
  unfolding eight_arguments_kernel_def eight_arguments_prediction_def mix8_rotations
  by (simp add: lessThan_Suc eval_nat_numeral)

definition struct_by_value_prediction :: "u32 list \<Rightarrow> u32" where
  "struct_by_value_prediction input =
     (input ! 0 + word_rotl 5 (input ! 3)) XOR of_nat (unat (input ! 1) mod 65536 * 3) XOR
     word_rotr 7 (of_nat (unat (input ! 2) mod 256))"

lemma narrow_of_nat:
  "to_u32 (to_u16 (w :: u32)) = of_nat (unat w mod 65536)" "to_u32 (to_u8 w) = of_nat (unat w mod 256)"
proof -
  have "to_u32 (to_u16 w) = of_nat (unat (to_u32 (to_u16 w)))" "to_u32 (to_u8 w) = of_nat (unat (to_u32 (to_u8 w)))"
    by simp_all
  then show "to_u32 (to_u16 w) = of_nat (unat w mod 65536)" "to_u32 (to_u8 w) = of_nat (unat w mod 256)"
    by (simp_all only: unat_u16_u32 unat_u8_u32 unsigned_ucast_eq) (simp_all add: take_bit_eq_mod word_arith_nat_mod)
qed

lemma struct_by_value_predicted: "struct_by_value_kernel input = struct_by_value_prediction input"
  using rotl_shifts [of 5 "input ! 3"] rotr_shifts [of 7 "to_u32 (to_u8 (input ! 2))"]
  by (simp add: struct_by_value_kernel_def struct_by_value_prediction_def consume_def narrow_of_nat or.commute)

definition struct_return_prediction :: "u32 list \<Rightarrow> u32" where
  "struct_return_prediction input =
     (input ! 0 + input ! 2) XOR word_rotl 9 (input ! 1 - input ! 3) XOR
     word_rotr 11 (input ! 0 XOR input ! 1 XOR input ! 2 XOR input ! 3)"

lemma struct_return_predicted: "struct_return_kernel input = struct_return_prediction input"
  using rotl_shifts [of 9] rotr_shifts [of 11]
  by (simp add: struct_return_kernel_def struct_return_prediction_def make_triple_def Let_def)

definition function_pointer_prediction :: "nat \<Rightarrow> u32 list \<Rightarrow> u32" where
  "function_pointer_prediction selector input =
     (let a = input ! 0; b = input ! 1
      in [a + b, a - b, a XOR b, word_rotl (unat b mod 32) a] ! selector)"

lemma rol_rotl: "rol a b = word_rotl (unat b mod 32) a"
proof -
  have "unat (32 - (b AND 31)) = 32 - unat (b AND 31)"
    using mod_less_divisor [of 32 "unat b"] by (simp add: unat_sub word_le_nat_alt and_31)
  then show ?thesis
    using rotl_shifts [of "unat b mod 32" a] rotl_0 [of a]
    by (auto simp: rol_def Let_def and_31 word_unat_eq_iff [of "b AND 31"])
qed

lemma function_pointer_predicted:
  "selector < 4 \<Longrightarrow> function_pointer_kernel selector input = function_pointer_prediction selector input"
proof -
  assume "selector < 4"
  then have "selector \<in> {0, 1, 2, 3}" by auto
  then show ?thesis
    by (auto simp: function_pointer_kernel_def function_pointer_prediction_def Let_def rol_rotl)
qed

definition deadline_prediction :: "u32 list \<Rightarrow> u32" where
  "deadline_prediction input =
     of_nat (unat (input ! 0) + unat (input ! 1) mod 2 ^ 16 + unat (input ! 2) mod 2 ^ 17) XOR 1"

lemma unat_17: "unat (w AND 0x1ffff) = unat (w :: u32) mod 2 ^ 17"
  unfolding low_masks unsigned_take_bit_eq by (simp add: take_bit_eq_mod)

lemma deadline_predicted: "deadline_kernel input = deadline_prediction input"
proof -
  let ?e = "input ! 2 AND 0x1ffff" and ?d = "input ! 1 AND 0xffff"
  have "unat (input ! 2) mod 2 ^ 17 < 2 ^ 17" by (rule mod_less_divisor) simp
  then have "?e < 0x80000000"
    by (simp add: word_less_nat_alt unat_17)
  moreover have "of_nat (unat (input ! 0) + unat ?d + unat ?e) = input ! 0 + ?d + ?e" by simp
  ultimately show ?thesis
    unfolding deadline_kernel_def deadline_prediction_def Let_def unat_17 low_bits_nat
    by (simp add: xor.commute add.assoc)
qed

text \<open>The parity bit and the stop bit of the UART frame share bit 9.\<close>

lemma uart_frame_eq: "uart_frame byte = 0x200 OR shl byte 1"
proof -
  have "shl 1 9 OR shl (of_bool p) 9 = (0x200 :: u32)" for p
    by (cases p) simp_all
  then show ?thesis
    by (simp add: uart_frame_def frame_parity_eq del: push_bit_Suc)
qed

definition uart_frame_prediction :: "nat \<Rightarrow> u32 list \<Rightarrow> u32" where
  "uart_frame_prediction index input =
     (let frame = 0x200 OR shl (take_bit 8 (input ! index)) 1 in frame XOR reverse_bits frame)"

lemma uart_frame_predicted: "uart_frame_kernel index input = uart_frame_prediction index input"
  by (simp only: uart_frame_kernel_def uart_frame_prediction_def Let_def uart_frame_eq reverse_loop_eq low_masks)

definition spi_pins :: "bool \<Rightarrow> u8 \<Rightarrow> u8 \<Rightarrow> nat \<Rightarrow> u32" where
  "spi_pins lsb_first tx pat k =
     fold (\<lambda>n pins. word_rotl 3 pins XOR
        (of_bool (bit tx (if lsb_first then n else 7 - n)) + 2 * of_bool (bit pat (7 - n)))) [0..<k] 0"

definition spi_prediction :: "bool \<Rightarrow> u32 list \<Rightarrow> u32" where
  "spi_prediction lsb_first input =
     shl (to_u32 (to_u8 (input ! 1))) 24 XOR spi_pins lsb_first (to_u8 (input ! 0)) (to_u8 (input ! 1)) 8"

lemma bit_and_one: "shr (to_u32 (b :: u8)) n AND 1 = of_bool (bit b n)"
  by (rule bit_word_eqI) (auto simp: bit_simps bit_1_iff dest: bit_imp_le_length)

lemma shift_in: "shl (shr (to_u32 (b :: u8)) (Suc j)) 1 OR of_bool (bit b j) = shr (to_u32 b) j"
proof (rule bit_word_eqI)
  fix n assume "n < LENGTH(32)"
  then show "bit (shl (shr (to_u32 b) (Suc j)) 1 OR of_bool (bit b j) :: u32) n = bit (shr (to_u32 b) j) n"
    by (cases n) (auto simp: bit_simps dest: bit_imp_le_length simp del: push_bit_Suc)
qed

lemma spi_fold:
  assumes "k \<le> 8"
  shows "fold (spi_step lsb_first (to_u32 tx) (to_u32 pat)) [0..<k] (0, 0) =
    (shr (to_u32 pat) (8 - k), spi_pins lsb_first tx pat k)"
  using assms
proof (induction k)
  case 0
  have "shr (to_u32 pat) 8 = 0" by (rule byte_shifts)
  then show ?case by (simp add: spi_pins_def)
next
  case (Suc k)
  have "8 - k = Suc (7 - k)" using Suc.prems by simp
  then have "shl (shr (to_u32 pat) (8 - k)) 1 OR of_bool (bit pat (7 - k)) = shr (to_u32 pat) (7 - k)"
    by (simp only: shift_in)
  moreover have "of_bool p OR shl (of_bool q) 1 = (of_bool p + 2 * of_bool q :: u32)" for p q
    by (cases p; cases q) simp_all
  ultimately show ?case
    using Suc rotl_shifts [of 3]
    by (simp add: spi_step_def Let_def bit_and_one spi_pins_def del: push_bit_Suc)
qed

lemma spi_predicted: "spi_kernel lsb_first input = spi_prediction lsb_first input"
  by (simp add: spi_kernel_def spi_prediction_def spi_fold)

definition saturating_prediction :: "u32 list \<Rightarrow> u32" where
  "saturating_prediction input =
     (let a = unat (input ! 0) mod 65536; b = unat (input ! 1) mod 65536
      in of_nat (65536 * min (a + b) 65535 + (a - b)))"

lemma saturating_predicted: "saturating_kernel input = saturating_prediction input"
proof -
  define a b where "a = input ! 0 AND 0xffff" and "b = input ! 1 AND 0xffff"
  have ab: "unat a < 65536" "unat b < 65536" by (simp_all add: a_def b_def low_bits_nat)
  then have s: "unat (a + b) = unat a + unat b" by (simp add: unat_word_ariths)
  have "(if a + b > 0xffff then 0xffff else a + b) = of_nat (min (unat a + unat b) 65535)"
    by (auto simp: word_less_nat_alt s min_def)
  moreover have "(if a < b then 0 else a - b) = of_nat (unat a - unat b)"
    by (simp add: word_less_nat_alt of_nat_diff)
  moreover have "unat a - unat b < 65536" using ab by simp
  ultimately show ?thesis
    unfolding saturating_kernel_def saturating_prediction_def Let_def low_bits_nat [symmetric]
      a_def [symmetric] b_def [symmetric]
    by (simp only: pack_halves)
qed

definition multiply_prediction :: "u32 list \<Rightarrow> u32" where
  "multiply_prediction input = of_nat (unat (input ! 0) mod 65536 * (unat (input ! 1) mod 65536))"

lemma multiply_predicted: "multiply_kernel input = multiply_prediction input"
proof -
  have "shl (shr p 16) 16 OR (p AND 0xffff) = (p :: u32)" for p
    unfolding low_masks by (rule bit_word_eqI) (auto simp: bit_simps dest: bit_imp_le_length)
  then show ?thesis
    unfolding multiply_kernel_def multiply_prediction_def Let_def low_bits_nat [symmetric] by simp
qed

section \<open>The kernels meet their predictions\<close>

interpretation popcount_kernel: predicted_kernel "popcount_kernel len" "popcount_prediction len" for len
  by unfold_locales (rule popcount_predicted)

interpretation parity_kernel: predicted_kernel "parity_kernel len" "parity_prediction len" for len
  by unfold_locales (rule parity_predicted)

interpretation gray_kernel: predicted_kernel "gray_kernel index" "\<lambda>input. input ! index" for index
  by unfold_locales (rule gray_predicted)

interpretation field_pack_kernel: predicted_kernel "field_pack_kernel" "field_pack_prediction"
  by unfold_locales (rule field_pack_predicted)

interpretation endian_kernel: predicted_kernel "endian_kernel index" "endian_prediction index" for index
  by unfold_locales (rule endian_predicted)

interpretation short_circuit_kernel: predicted_kernel "short_circuit_kernel n" "short_circuit_prediction n" for n
  by unfold_locales (rule short_circuit_predicted)

interpretation eight_arguments_kernel: predicted_kernel "eight_arguments_kernel" "eight_arguments_prediction"
  by unfold_locales (rule eight_arguments_predicted)

interpretation struct_by_value_kernel: predicted_kernel "struct_by_value_kernel" "struct_by_value_prediction"
  by unfold_locales (rule struct_by_value_predicted)

interpretation struct_return_kernel: predicted_kernel "struct_return_kernel" "struct_return_prediction"
  by unfold_locales (rule struct_return_predicted)

interpretation deadline_kernel: predicted_kernel "deadline_kernel" "deadline_prediction"
  by unfold_locales (rule deadline_predicted)

interpretation uart_frame_kernel: predicted_kernel "uart_frame_kernel index" "uart_frame_prediction index" for index
  by unfold_locales (rule uart_frame_predicted)

interpretation spi_kernel: predicted_kernel "spi_kernel lsb_first" "spi_prediction lsb_first" for lsb_first
  by unfold_locales (rule spi_predicted)

interpretation saturating_kernel: predicted_kernel "saturating_kernel" "saturating_prediction"
  by unfold_locales (rule saturating_predicted)

interpretation multiply_kernel: predicted_kernel "multiply_kernel" "multiply_prediction"
  by unfold_locales (rule multiply_predicted)

interpretation reverse_rotate_kernel: predicted_kernel "reverse_rotate_kernel (s mod 16) (s mod 31 + 1)"
    "reverse_rotate_prediction (s mod 16) (s mod 31 + 1)" for s
  by unfold_locales (simp add: reverse_rotate_predicted)

interpretation function_pointer_kernel: predicted_kernel "function_pointer_kernel (s mod 4)"
    "function_pointer_prediction (s mod 4)" for s
  by unfold_locales (simp add: function_pointer_predicted)

end
