(* ===== verification/Corpus_Control.thy ===== *)
theory Corpus_Control
  imports Corpus_Ops
begin

text \<open>
  The kernels of the corpus about control flow, small state machines and accumulation: switches, a protocol
  recogniser, nested loops with break and continue, a debouncer, a histogram, a matrix product, a
  multiply-accumulate and a five-tap filter.  Each is compared with a specification that says what is computed
  without the loop state: occurrences of a pattern, agreement of a window of samples, counts and sums.
\<close>

section \<open>The kernels\<close>

definition histogram_bins :: "nat \<Rightarrow> u32 list \<Rightarrow> u32 list" where
  "histogram_bins len input =
     fold (\<lambda>i bins. let k = unat (to_u32 (to_u8 (input ! i)) AND 7) in bins[k := bins ! k + 1])
       [0..<len] (replicate 8 0)"

definition histogram_kernel :: "nat \<Rightarrow> u32 list \<Rightarrow> u32" where
  "histogram_kernel len input = digest (histogram_bins len input)"

definition matrix3_out :: "u32 list \<Rightarrow> u32 list" where
  "matrix3_out input =
     fold (\<lambda>row. fold (\<lambda>column. fold (\<lambda>k out.
       out[row * 3 + column := out ! (row * 3 + column) +
         (input ! (row * 3 + k) AND 0xff) * (input ! (9 + k * 2 + column mod 2) AND 0xff)])
       [0..<3]) [0..<3]) [0..<3] (replicate 9 0)"

definition matrix3_kernel :: "u32 list \<Rightarrow> u32" where
  "matrix3_kernel input = digest (matrix3_out input)"

definition dense_switch_kernel :: "u32 list \<Rightarrow> u32" where
  "dense_switch_kernel input =
     (let selector = input ! 0 mod 12 in
      if selector = 0 then input ! 1 + input ! 2
      else if selector = 1 then input ! 1 - input ! 2
      else if selector = 2 then input ! 1 XOR input ! 2
      else if selector = 3 then input ! 1 OR input ! 2
      else if selector = 4 then input ! 1 AND input ! 2
      else if selector = 5 then input ! 1 * 3
      else if selector = 6 then input ! 2 * 5
      else if selector = 7 then shr (input ! 3) 3
      else if selector = 8 then shl (input ! 4) 7
      else if selector = 9 then NOT (input ! 5)
      else if selector = 10 then input ! 6 + 0x1234
      else input ! 7 XOR 0xa5a5a5a5)"

definition sparse_switch_kernel :: "u32 list \<Rightarrow> u32" where
  "sparse_switch_kernel input =
     (let selector = input ! 0 AND 0xffff in
      if selector = 1 then input ! 1
      else if selector = 17 then input ! 2
      else if selector = 257 then input ! 3
      else if selector = 4093 then input ! 4
      else if selector = 32749 then input ! 5
      else if selector = 65535 then input ! 6
      else input ! 7 XOR selector)"

definition protocol_step :: "u32 \<Rightarrow> u32 \<times> u32 \<Rightarrow> u32 \<times> u32" where
  "protocol_step symbol s =
     (case s of (state, accepted) \<Rightarrow>
      if state = 0 \<and> symbol = 1 then (1, accepted)
      else if state = 1 \<and> symbol = 2 then (2, accepted)
      else if state = 2 \<and> symbol = 3 then (0, accepted + 1)
      else if symbol = 1 then (1, accepted)
      else (0, accepted))"

definition protocol_kernel :: "nat \<Rightarrow> u32 list \<Rightarrow> u32" where
  "protocol_kernel len input =
     (case fold (\<lambda>i. protocol_step (input ! i AND 3)) [0..<len] (0, 0) of
        (state, accepted) \<Rightarrow> shl accepted 16 OR state)"

text \<open>The inner loop from column \<open>j\<close>, \<open>n\<close> columns to go, and whether it left with \<open>stop\<close> set.\<close>

fun nested_inner :: "u32 list \<Rightarrow> nat \<Rightarrow> u32 \<Rightarrow> nat \<Rightarrow> nat \<Rightarrow> nat \<Rightarrow> u32 \<Rightarrow> u32 \<times> bool" where
  "nested_inner input limit key i j 0 result = (result, False)"
| "nested_inner input limit key i j (Suc n) result =
     (let v = input ! ((i * limit + j) mod 16) in
      if v AND 0xff = key then (result XOR (0x80000000 OR shl (of_nat i) 8 OR of_nat j), True)
      else if v AND 7 = 0 then nested_inner input limit key i (Suc j) n result
      else nested_inner input limit key i (Suc j) n ((shl result 1 OR shr result 31) XOR v))"

fun nested_outer :: "u32 list \<Rightarrow> nat \<Rightarrow> u32 \<Rightarrow> nat \<Rightarrow> nat \<Rightarrow> u32 \<Rightarrow> u32" where
  "nested_outer input limit key i 0 result = result"
| "nested_outer input limit key i (Suc n) result =
     (case nested_inner input limit key i 0 limit result of
        (result, stop) \<Rightarrow> if stop then result else nested_outer input limit key (Suc i) n result)"

definition nested_break_kernel :: "nat \<Rightarrow> u32 \<Rightarrow> u32 list \<Rightarrow> u32" where
  "nested_break_kernel limit key input = nested_outer input limit key 0 limit 0"

text \<open>The debouncer's variables: stable level (\<open>level\<close>), candidate, count of agreeing samples, transitions.\<close>

definition debounce_step :: "u32 \<Rightarrow> u32 \<Rightarrow> u32 \<times> u32 \<times> u32 \<times> u32 \<Rightarrow> u32 \<times> u32 \<times> u32 \<times> u32" where
  "debounce_step threshold sample s =
     (case s of (level, candidate, count, transitions) \<Rightarrow>
      let (candidate, count) = (if sample = candidate then (candidate, count + 1) else (sample, 1))
      in if count \<ge> threshold \<and> level \<noteq> candidate then (candidate, candidate, count, transitions + 1)
         else (level, candidate, count, transitions))"

definition debounce_kernel :: "nat \<Rightarrow> u32 \<Rightarrow> u32 list \<Rightarrow> u32" where
  "debounce_kernel len threshold input =
     (case fold (\<lambda>i. debounce_step threshold (input ! i AND 1)) [0..<len] (input ! 0 AND 1, input ! 0 AND 1, 0, 0) of
        (level, candidate, count, transitions) \<Rightarrow> shl transitions 16 OR level)"

definition multiply_accumulate_kernel :: "nat \<Rightarrow> u32 list \<Rightarrow> u32" where
  "multiply_accumulate_kernel len input =
     (let accumulator =
        fold (\<lambda>i accumulator.
          let sample = input ! i AND 0xffff; gain = (input ! (15 - i) AND 0x7fff) + 1
          in accumulator + sample * gain) [0..<len] 0
      in shr accumulator 16 XOR accumulator)"

definition coefficients :: "u32 list" where
  "coefficients = [3, 5, 7, 5, 3]"

definition fir_kernel :: "nat \<Rightarrow> u32 list \<Rightarrow> u32" where
  "fir_kernel len input =
     fold (\<lambda>i result.
       let sample = fold (\<lambda>tap sample. sample + (input ! (i - tap) AND 0xff) * coefficients ! tap) [0..<5] 0
       in (shl result 3 OR shr result 29) XOR sample) [4..<len] 0"

section \<open>Counts and sums\<close>

definition histogram_prediction :: "nat \<Rightarrow> u32 list \<Rightarrow> u32" where
  "histogram_prediction len input =
     digest (map (\<lambda>k. of_nat (card {i. i < len \<and> unat (input ! i) mod 8 = k})) [0..<8])"

lemma low3: "unat (to_u32 (to_u8 (w :: u32)) AND 7) = unat w mod 8"
  by (simp add: and_7 low_bits_nat mod_mod_cancel)

lemma histogram_bins_eq:
  "histogram_bins len input = map (\<lambda>k. of_nat (card {i. i < len \<and> unat (input ! i) mod 8 = k})) [0..<8]"
proof (induction len)
  case 0
  show ?case by (rule nth_equalityI) (auto simp: histogram_bins_def simp del: upt_rec_numeral)
next
  case (Suc n)
  let ?c = "\<lambda>n k. card {i. i < n \<and> unat (input ! i) mod 8 = k}"
  have "{i. i < Suc n \<and> unat (input ! i) mod 8 = k} =
      (if unat (input ! n) mod 8 = k then insert n {i. i < n \<and> unat (input ! i) mod 8 = k}
       else {i. i < n \<and> unat (input ! i) mod 8 = k})" for k
    by (auto simp: less_Suc_eq)
  then have c: "?c (Suc n) k = (if unat (input ! n) mod 8 = k then Suc (?c n k) else ?c n k)" for k
    by simp
  have "histogram_bins (Suc n) input = (histogram_bins n input)[unat (input ! n) mod 8 :=
      histogram_bins n input ! (unat (input ! n) mod 8) + 1]"
    by (simp add: histogram_bins_def low3 Let_def)
  then show ?case
    by (simp add: Suc.IH c nth_list_update list_eq_iff_nth_eq add.commute del: upt_rec_numeral)
qed

lemma histogram_predicted: "histogram_kernel len input = histogram_prediction len input"
  by (simp add: histogram_kernel_def histogram_prediction_def histogram_bins_eq)

definition matrix3_prediction :: "u32 list \<Rightarrow> u32" where
  "matrix3_prediction input =
     digest (map (\<lambda>c. of_nat (\<Sum>k<3. unat (input ! (c div 3 * 3 + k)) mod 256 *
       (unat (input ! (9 + k * 2 + c mod 3 mod 2)) mod 256))) [0..<9])"

lemma low_byte_of_nat: "w AND 0xff = of_nat (unat (w :: u32) mod 256)"
proof -
  have "(0xff :: u32) = mask 8" by (simp add: mask_eq_exp_minus_1)
  then have "unat (w AND 0xff) = unat w mod 256"
    by (simp only: take_bit_eq_mask [symmetric] unsigned_take_bit_eq) (simp add: take_bit_eq_mod)
  then show ?thesis by (metis of_nat_unat ucast_id)
qed

lemma fold_accumulate:
  fixes f :: "nat \<Rightarrow> u32"
  assumes "c < length out"
  shows "fold (\<lambda>k out. out[c := out ! c + f k]) [0..<n] out = out[c := out ! c + (\<Sum>k<n. f k)]"
  using assms by (induction n) (simp_all add: add.assoc)

lemma fold_cells:
  assumes "length out = 9"
  shows "fold (\<lambda>row. fold (\<lambda>column out. out[row * 3 + column := out ! (row * 3 + column) + g row column])
      [0..<3]) [0..<3] out = map (\<lambda>c. out ! c + (g (c div 3) (c mod 3) :: u32)) [0..<9]"
proof -
  have r: "[0..<3] = [0, 1, 2 :: nat]" "[0..<9] = [0, 1, 2, 3, 4, 5, 6, 7, 8 :: nat]"
    by (simp_all add: upt_rec)
  obtain a b c d e f h i j where "out = [a, b, c, d, e, f, h, i, j]"
    using assms by (auto simp: numeral_eq_Suc length_Suc_conv)
  then show ?thesis by (simp add: r)
qed

lemma matrix3_predicted: "matrix3_kernel input = matrix3_prediction input"
proof -
  define g where "g row column = (\<Sum>k<3. (input ! (row * 3 + k) AND 0xff) *
      (input ! (9 + k * 2 + column mod 2) AND 0xff))" for row column
  define step where "step row column = fold (\<lambda>k out. out[row * 3 + column := out ! (row * 3 + column) +
      (input ! (row * 3 + k) AND 0xff) * (input ! (9 + k * 2 + column mod 2) AND 0xff)]) [0..<3]" for row column
  have cell: "step row column out = out[row * 3 + column := out ! (row * 3 + column) + g row column]"
    if "length out = 9" "row < 3" "column < 3" for row column and out :: "u32 list"
    unfolding g_def step_def using that by (intro fold_accumulate) simp
  have "matrix3_out input = fold (\<lambda>row. fold (\<lambda>column out.
      out[row * 3 + column := out ! (row * 3 + column) + g row column]) [0..<3]) [0..<3] (replicate 9 0)"
    unfolding matrix3_out_def step_def [symmetric] by (simp add: upt_rec cell)
  also have "\<dots> = map (\<lambda>c. g (c div 3) (c mod 3)) [0..<9]"
    by (subst fold_cells) (simp_all del: upt_rec_numeral)
  also have "\<dots> = map (\<lambda>c. of_nat (\<Sum>k<3. unat (input ! (c div 3 * 3 + k)) mod 256 *
       (unat (input ! (9 + k * 2 + c mod 3 mod 2)) mod 256))) [0..<9]"
    by (simp only: g_def low_byte_of_nat of_nat_mult of_nat_sum)
  finally show ?thesis
    by (simp only: matrix3_kernel_def matrix3_prediction_def)
qed

definition multiply_accumulate_prediction :: "nat \<Rightarrow> u32 list \<Rightarrow> u32" where
  "multiply_accumulate_prediction len input =
     (let accumulator = of_nat (\<Sum>i<len. unat (input ! i) mod 65536 * (unat (input ! (15 - i)) mod 32768 + 1))
      in shr accumulator 16 XOR accumulator)"

lemma low_halves_of_nat:
  "w AND 0xffff = of_nat (unat (w :: u32) mod 65536)" "w AND 0x7fff = of_nat (unat w mod 32768)"
proof -
  have "(0x7fff :: u32) = mask 15" by (simp add: mask_eq_exp_minus_1)
  then have "unat (w AND 0x7fff) = unat w mod 32768"
    by (simp only: take_bit_eq_mask [symmetric] unsigned_take_bit_eq) (simp add: take_bit_eq_mod)
  then show "w AND 0xffff = of_nat (unat w mod 65536)" "w AND 0x7fff = of_nat (unat w mod 32768)"
    using low_bits_nat(1) [of w] by (metis of_nat_unat ucast_id)+
qed

lemma multiply_accumulate_predicted:
  "multiply_accumulate_kernel len input = multiply_accumulate_prediction len input"
proof -
  have "fold (\<lambda>i accumulator. let sample = input ! i AND 0xffff; gain = (input ! (15 - i) AND 0x7fff) + 1
      in accumulator + sample * gain) [0..<len] 0 =
    of_nat (\<Sum>i<len. unat (input ! i) mod 65536 * (unat (input ! (15 - i)) mod 32768 + 1))"
    by (induction len) (simp_all add: low_halves_of_nat Let_def distrib_left)
  then show ?thesis
    unfolding multiply_accumulate_kernel_def multiply_accumulate_prediction_def by simp
qed

definition fir_prediction :: "nat \<Rightarrow> u32 list \<Rightarrow> u32" where
  "fir_prediction len input =
     fold (\<lambda>i result. word_rotl 3 result XOR
       of_nat (\<Sum>t<5. unat (input ! (i - t)) mod 256 * [3, 5, 7, 5, 3] ! t)) [4..<len] 0"

lemma fir_predicted: "fir_kernel len input = fir_prediction len input"
proof -
  have "fold (\<lambda>tap sample. sample + (input ! (i - tap) AND 0xff) * coefficients ! tap) [0..<n] 0 =
      of_nat (\<Sum>t<n. unat (input ! (i - t)) mod 256 * [3, 5, 7, 5, 3] ! t)" if "n \<le> 5" for i n
    using that
  proof (induction n)
    case (Suc n)
    then have "n \<in> {0, 1, 2, 3, 4}" by auto
    then have "coefficients ! n = of_nat ([3, 5, 7, 5, 3] ! n)" by (auto simp: coefficients_def)
    then show ?case using Suc by (simp add: low_byte_of_nat)
  qed simp
  from this [of 5] show ?thesis
    using rotl_shifts [of 3]
    by (simp add: fir_kernel_def fir_prediction_def Let_def del: upt_rec_numeral)
qed

section \<open>Switches\<close>

definition dense_switch_prediction :: "u32 list \<Rightarrow> u32" where
  "dense_switch_prediction input =
     [input ! 1 + input ! 2, input ! 1 - input ! 2, input ! 1 XOR input ! 2, input ! 1 OR input ! 2,
      input ! 1 AND input ! 2, input ! 1 * 3, input ! 2 * 5, shr (input ! 3) 3, shl (input ! 4) 7,
      NOT (input ! 5), input ! 6 + 0x1234, input ! 7 XOR 0xa5a5a5a5] ! (unat (input ! 0) mod 12)"

lemma dense_switch_predicted: "dense_switch_kernel input = dense_switch_prediction input"
proof -
  define k where "k = unat (input ! 0) mod 12"
  have "k < 12" by (simp add: k_def)
  then have "k \<in> {0, 1, 2, 3, 4, 5, 6, 7, 8, 9, 10, 11}"
    unfolding insert_iff empty_iff by presburger
  moreover have s: "input ! 0 mod 12 = of_nat k"
    by (simp add: k_def word_arith_nat_mod)
  ultimately show ?thesis
    unfolding dense_switch_kernel_def dense_switch_prediction_def Let_def s k_def [symmetric]
    by (elim insertE emptyE) simp_all
qed

definition sparse_switch_prediction :: "u32 list \<Rightarrow> u32" where
  "sparse_switch_prediction input =
     (let selector = unat (input ! 0) mod 65536
      in case map_of [(1, 1), (17, 2), (257, 3), (4093, 4), (32749, 5), (65535, 6)] selector of
           Some k \<Rightarrow> input ! k
         | None \<Rightarrow> input ! 7 XOR of_nat selector)"

lemma of_nat_u32_eq: "v < 65536 \<Longrightarrow> k < 65536 \<Longrightarrow> (of_nat v = (of_nat k :: u32)) = (v = k)"
  by (metis unat_u32_small)

lemma sparse_switch_predicted: "sparse_switch_kernel input = sparse_switch_prediction input"
proof -
  define v where "v = unat (input ! 0) mod 65536"
  have "v < 65536" by (simp add: v_def)
  note eq = of_nat_u32_eq [OF this]
  have "(of_nat v = (1 :: u32)) = (v = 1)" "(of_nat v = (17 :: u32)) = (v = 17)"
    "(of_nat v = (257 :: u32)) = (v = 257)" "(of_nat v = (4093 :: u32)) = (v = 4093)"
    "(of_nat v = (32749 :: u32)) = (v = 32749)" "(of_nat v = (65535 :: u32)) = (v = 65535)"
    using eq [of 1] eq [of 17] eq [of 257] eq [of 4093] eq [of 32749] eq [of 65535] by simp_all
  then show ?thesis
    by (simp add: sparse_switch_kernel_def sparse_switch_prediction_def Let_def low_halves_of_nat
        flip: v_def)
qed

section \<open>The protocol recogniser\<close>

text \<open>
  The recogniser counts the places where the symbols 1, 2, 3 follow one another; its state is how much of
  the pattern the last symbols form.
\<close>

definition matches_before :: "(nat \<Rightarrow> nat) \<Rightarrow> nat \<Rightarrow> nat set" where
  "matches_before symb n = {i. i + 2 < n \<and> symb i = 1 \<and> symb (i + 1) = 2 \<and> symb (i + 2) = 3}"

definition pattern_progress :: "(nat \<Rightarrow> nat) \<Rightarrow> nat \<Rightarrow> nat" where
  "pattern_progress symb n =
     (if 1 \<le> n \<and> symb (n - 1) = 1 then 1
      else if 2 \<le> n \<and> symb (n - 2) = 1 \<and> symb (n - 1) = 2 then 2 else 0)"

definition protocol_prediction :: "nat \<Rightarrow> u32 list \<Rightarrow> u32" where
  "protocol_prediction len input =
     (let symb = \<lambda>i. unat (input ! i) mod 4
      in of_nat (65536 * card (matches_before symb len) + pattern_progress symb len))"

lemma matches_before_Suc:
  "matches_before symb (Suc n) =
    (if pattern_progress symb n = 2 \<and> symb n = 3 then insert (n - 2) (matches_before symb n) else matches_before symb n)"
proof (cases "2 \<le> n")
  case True
  then obtain m where n: "n = m + 2" by (metis add.commute le_Suc_ex)
  have "i + 2 < Suc n \<longleftrightarrow> i + 2 < n \<or> i = m" for i using n by auto
  then have "matches_before symb (Suc n) = matches_before symb n \<union>
      {i. i = m \<and> symb i = 1 \<and> symb (i + 1) = 2 \<and> symb (i + 2) = 3}"
    unfolding matches_before_def by blast
  moreover have "pattern_progress symb n = 2 \<longleftrightarrow> symb m = 1 \<and> symb (m + 1) = 2"
    using n by (simp add: pattern_progress_def)
  ultimately show ?thesis using n by auto
next
  case False
  then show ?thesis by (auto simp: matches_before_def pattern_progress_def)
qed

lemma card_matches_Suc:
  "card (matches_before symb (Suc n)) =
    (if pattern_progress symb n = 2 \<and> symb n = 3 then Suc (card (matches_before symb n)) else card (matches_before symb n))"
proof -
  have "finite (matches_before symb n)"
    by (rule finite_subset [of _ "{..<n}"]) (auto simp: matches_before_def)
  moreover have "2 \<le> n \<Longrightarrow> n - 2 \<notin> matches_before symb n" "pattern_progress symb n = 2 \<Longrightarrow> 2 \<le> n"
    by (auto simp: matches_before_def pattern_progress_def split: if_splits)
  ultimately show ?thesis
    by (auto simp: matches_before_Suc)
qed

lemma progress_Suc:
  "pattern_progress symb (Suc n) =
    (if symb n = 1 then 1 else if pattern_progress symb n = 1 \<and> symb n = 2 then 2 else 0)"
  by (cases n) (auto simp: pattern_progress_def numeral_2_eq_2)

lemma protocol_fold:
  "fold (\<lambda>i. protocol_step (input ! i AND 3)) [0..<n] (0, 0) =
    (of_nat (pattern_progress (\<lambda>i. unat (input ! i) mod 4) n),
     of_nat (card (matches_before (\<lambda>i. unat (input ! i) mod 4) n)))"
proof (induction n)
  case 0
  show ?case by (simp add: pattern_progress_def matches_before_def)
next
  case (Suc n)
  let ?symb = "\<lambda>i. unat (input ! i) mod 4"
  have "?symb n \<in> {0, 1, 2, 3}" "pattern_progress ?symb n \<in> {0, 1, 2}"
    by (auto simp: pattern_progress_def)
  moreover have "input ! n AND 3 = of_nat (?symb n)"
    using and_3 [of "input ! n"] by (metis of_nat_unat ucast_id)
  ultimately show ?case
    using Suc.IH card_matches_Suc [of ?symb n] progress_Suc [of ?symb n]
    by (auto simp: protocol_step_def)
qed

lemma protocol_predicted: "protocol_kernel len input = protocol_prediction len input"
proof -
  have "pattern_progress symb len < 65536" for symb by (simp add: pattern_progress_def)
  then show ?thesis
    by (simp only: protocol_kernel_def protocol_prediction_def protocol_fold prod.case Let_def pack_halves)
qed

section \<open>The nested loops\<close>

text \<open>
  The two loops read the inputs in row-major order: the result accumulates the values before the first one whose low
  byte is the key, less the multiples of eight, and records where the key was found.
\<close>

definition found_at :: "nat \<Rightarrow> nat \<Rightarrow> u32" where
  "found_at limit p = 0x80000000 OR shl (of_nat (p div limit)) 8 OR of_nat (p mod limit)"

definition nested_break_prediction :: "nat \<Rightarrow> u32 \<Rightarrow> u32 list \<Rightarrow> u32" where
  "nested_break_prediction limit key input =
     (let vs = map (\<lambda>p. input ! (p mod 16)) [0..<limit * limit];
          before = takeWhile (\<lambda>v. v AND 0xff \<noteq> key) vs;
          result = fold (\<lambda>v result. word_rotl 1 result XOR v) (filter (\<lambda>v. unat v mod 8 \<noteq> 0) before) 0
      in if length before < length vs then result XOR found_at limit (length before) else result)"

fun row_major :: "u32 \<Rightarrow> nat \<Rightarrow> nat \<Rightarrow> u32 list \<Rightarrow> u32 \<Rightarrow> u32" where
  "row_major key limit p [] result = result"
| "row_major key limit p (v # vs) result =
     (if v AND 0xff = key then result XOR found_at limit p
      else row_major key limit (Suc p) vs (if v AND 7 = 0 then result else word_rotl 1 result XOR v))"

lemma nested_inner_row:
  assumes "j + n = limit"
  shows "(case nested_inner input limit key i j n result of
      (result, stop) \<Rightarrow> if stop then result else row_major key limit (i * limit + limit) rest result) =
    row_major key limit (i * limit + j) (map (\<lambda>p. input ! (p mod 16)) [i * limit + j..<i * limit + limit] @ rest) result"
  using assms
proof (induction n arbitrary: j result)
  case (Suc n)
  then have "[i * limit + j..<i * limit + limit] = (i * limit + j) # [i * limit + Suc j..<i * limit + limit]"
    by (simp add: upt_rec)
  moreover have "(i * limit + j) div limit = i" "(i * limit + j) mod limit = j"
    using Suc.prems by auto
  ultimately show ?case
    using Suc rotl_shifts [of 1 result] by (simp add: Let_def found_at_def del: push_bit_Suc)
qed simp

lemma nested_outer_rows:
  "nested_outer input limit key i n result =
    row_major key limit (i * limit) (map (\<lambda>p. input ! (p mod 16)) [i * limit..<(i + n) * limit]) result"
proof (induction n arbitrary: i result)
  case (Suc n)
  have "[i * limit..<(i + Suc n) * limit] =
      [i * limit + 0..<i * limit + limit] @ [Suc i * limit..<(Suc i + n) * limit]"
    using upt_add_eq_append [of "i * limit" "i * limit + limit" "n * limit"] by (simp add: algebra_simps)
  moreover have "nested_outer input limit key i (Suc n) result =
      (case nested_inner input limit key i 0 limit result of (result, stop) \<Rightarrow>
        if stop then result else row_major key limit (i * limit + limit)
          (map (\<lambda>p. input ! (p mod 16)) [Suc i * limit..<(Suc i + n) * limit]) result)"
    unfolding nested_outer.simps Suc.IH mult_Suc by (simp only: add.commute)
  ultimately show ?case
    unfolding nested_inner_row [OF add_0] by simp
qed simp

lemma row_major_takeWhile:
  "row_major key limit p vs result =
    (let before = takeWhile (\<lambda>v. v AND 0xff \<noteq> key) vs;
         r = fold (\<lambda>v result. word_rotl 1 result XOR v) (filter (\<lambda>v. unat v mod 8 \<noteq> 0) before) result
     in if length before < length vs then r XOR found_at limit (p + length before) else r)"
  by (induction vs arbitrary: p result) (auto simp: Let_def word_unat_eq_iff [of "_ AND 7"] and_7)

lemma nested_break_predicted: "nested_break_kernel limit key input = nested_break_prediction limit key input"
  unfolding nested_break_kernel_def nested_outer_rows row_major_takeWhile nested_break_prediction_def Let_def by simp

section \<open>The debouncer\<close>

lemma and_one_of_bool: "w AND 1 = of_bool (odd (w :: u32))"
  by (simp add: and_one_eq odd_iff_mod_2_eq_one)

text \<open>
  The debounced level without a counter: it becomes a sample's level when the last \<open>threshold\<close> samples agree, and a
  transition is a sample that changes it.
\<close>

definition window_agrees :: "(nat \<Rightarrow> bool) \<Rightarrow> nat \<Rightarrow> nat \<Rightarrow> bool" where
  "window_agrees samp threshold n \<longleftrightarrow> threshold \<le> Suc n \<and> (\<forall>j<threshold. samp (n - j) = samp n)"

fun debounced :: "(nat \<Rightarrow> bool) \<Rightarrow> nat \<Rightarrow> nat \<Rightarrow> bool" where
  "debounced samp threshold 0 = samp 0"
| "debounced samp threshold (Suc n) =
     (if window_agrees samp threshold n then samp n else debounced samp threshold n)"

definition level_changes :: "(nat \<Rightarrow> bool) \<Rightarrow> nat \<Rightarrow> nat \<Rightarrow> nat set" where
  "level_changes samp threshold n = {i. i < n \<and> debounced samp threshold (Suc i) \<noteq> debounced samp threshold i}"

definition debounce_prediction :: "nat \<Rightarrow> nat \<Rightarrow> u32 list \<Rightarrow> u32" where
  "debounce_prediction len threshold input =
     (let samp = \<lambda>i. odd (input ! i)
      in of_nat (65536 * card (level_changes samp threshold len) + of_bool (debounced samp threshold len)))"

text \<open>The counter is the length of the run of equal samples that ends at the last one.\<close>

definition run_length :: "(nat \<Rightarrow> bool) \<Rightarrow> nat \<Rightarrow> nat \<Rightarrow> bool" where
  "run_length samp n r \<longleftrightarrow>
     0 < r \<and> r \<le> Suc n \<and> (\<forall>j<r. samp (n - j) = samp n) \<and> (r \<le> n \<longrightarrow> samp (n - r) \<noteq> samp n)"

lemma run_length_Suc:
  assumes "run_length samp n r"
  shows "run_length samp (Suc n) (if samp (Suc n) = samp n then Suc r else 1)"
proof (cases "samp (Suc n) = samp n")
  case True
  have "samp (Suc n - j) = samp (Suc n)" if "j < Suc r" for j
    using that assms True by (cases j) (auto simp: run_length_def)
  then show ?thesis
    using assms True by (auto simp: run_length_def)
next
  case False
  then show ?thesis by (auto simp: run_length_def)
qed

lemma window_run:
  assumes "run_length samp n r" and "0 < threshold"
  shows "window_agrees samp threshold n \<longleftrightarrow> threshold \<le> r"
proof
  assume w: "window_agrees samp threshold n"
  show "threshold \<le> r"
  proof (rule ccontr)
    assume "\<not> threshold \<le> r"
    then have "r < threshold" "r \<le> n" using w by (auto simp: window_agrees_def)
    then have "samp (n - r) = samp n" using w by (auto simp: window_agrees_def)
    then show False using assms \<open>r \<le> n\<close> by (auto simp: run_length_def)
  qed
next
  assume "threshold \<le> r"
  then show "window_agrees samp threshold n"
    using assms by (auto simp: run_length_def window_agrees_def)
qed

lemma card_level_changes:
  "card (level_changes samp threshold (Suc n)) =
    card (level_changes samp threshold n) + of_bool (debounced samp threshold (Suc n) \<noteq> debounced samp threshold n)"
proof -
  have "level_changes samp threshold (Suc n) =
      (if debounced samp threshold (Suc n) \<noteq> debounced samp threshold n
       then insert n (level_changes samp threshold n) else level_changes samp threshold n)"
    by (auto simp: level_changes_def less_Suc_eq)
  moreover have "finite (level_changes samp threshold n)" "n \<notin> level_changes samp threshold n"
    by (auto simp: level_changes_def)
  ultimately show ?thesis by simp
qed

lemma debounce_step_nat:
  assumes "r < 65535" and "threshold < 65536"
  shows "debounce_step (of_nat threshold) (of_bool b) (of_bool l, of_bool c, of_nat r, of_nat k) =
    (let r' = (if b = c then Suc r else 1)
     in if threshold \<le> r' \<and> l \<noteq> b then (of_bool b, of_bool b, of_nat r', of_nat (Suc k))
        else (of_bool l, of_bool b, of_nat r', of_nat k))"
proof -
  have "(of_nat threshold \<le> (of_nat m :: u32)) = (threshold \<le> m)" if "m < 65536" for m
    using that assms by (simp add: word_le_nat_alt unat_u32_small)
  from this [of "Suc r"] this [of 1]
  have le: "(of_nat threshold \<le> (of_nat (Suc r) :: u32)) = (threshold \<le> Suc r)"
    "(of_nat threshold \<le> (1 :: u32)) = (threshold \<le> 1)"
    using assms by (simp_all only: of_nat_1)
  have plus: "of_nat m + 1 = (of_nat (Suc m) :: u32)" "of_nat (Suc 0) = (1 :: u32)" for m by simp_all
  show ?thesis
    by (cases b; cases c; cases l)
      (simp_all add: debounce_step_def Let_def le plus del: of_nat_Suc)
qed

lemma debounce_fold:
  fixes input :: "u32 list" and threshold :: nat
  defines "samp \<equiv> \<lambda>i. odd (input ! i)"
  assumes "0 < threshold" and "threshold < 65536" and "n < 65534"
  shows "\<exists>r. run_length samp n r \<and>
    fold (\<lambda>i. debounce_step (of_nat threshold) (input ! i AND 1)) [0..<Suc n] (input ! 0 AND 1, input ! 0 AND 1, 0, 0) =
      (of_bool (debounced samp threshold (Suc n)), of_bool (samp n), of_nat r,
       of_nat (card (level_changes samp threshold (Suc n))))"
  using assms(4)
proof (induction n)
  case 0
  have "level_changes samp threshold (Suc 0) = {}" by (auto simp: level_changes_def)
  moreover have "run_length samp 0 1" by (simp add: run_length_def)
  moreover have "debounce_step (of_nat threshold) (input ! 0 AND 1) (input ! 0 AND 1, input ! 0 AND 1, 0, 0) =
      (of_bool (samp 0), of_bool (samp 0), of_nat 1, of_nat 0)"
    using debounce_step_nat [of 0 threshold "samp 0" "samp 0" "samp 0" 0] assms(2,3)
    unfolding samp_def and_one_of_bool Let_def by simp
  moreover have "debounced samp threshold (Suc 0) = samp 0" by simp
  ultimately show ?case
    by (intro exI [of _ 1]) simp
next
  case (Suc n)
  then obtain r where r: "run_length samp n r"
    and f: "fold (\<lambda>i. debounce_step (of_nat threshold) (input ! i AND 1)) [0..<Suc n]
        (input ! 0 AND 1, input ! 0 AND 1, 0, 0) =
      (of_bool (debounced samp threshold (Suc n)), of_bool (samp n), of_nat r,
       of_nat (card (level_changes samp threshold (Suc n))))"
    by auto
  have "r < 65535" using r Suc.prems by (simp add: run_length_def)
  note step = debounce_step_nat [OF this assms(3)]
  define r' where "r' = (if samp (Suc n) = samp n then Suc r else 1)"
  have r': "run_length samp (Suc n) r'"
    unfolding r'_def using r by (rule run_length_Suc)
  have "fold (\<lambda>i. debounce_step (of_nat threshold) (input ! i AND 1)) [0..<Suc (Suc n)]
      (input ! 0 AND 1, input ! 0 AND 1, 0, 0) =
    debounce_step (of_nat threshold) (of_bool (samp (Suc n)))
      (of_bool (debounced samp threshold (Suc n)), of_bool (samp n), of_nat r,
       of_nat (card (level_changes samp threshold (Suc n))))"
    using f by (simp only: upt_Suc [of 0 "Suc n"] fold_append if_True le0 fold_simps comp_apply
        and_one_of_bool [of "input ! Suc n"] samp_def)
  also have "\<dots> = (of_bool (debounced samp threshold (Suc (Suc n))), of_bool (samp (Suc n)), of_nat r',
       of_nat (card (level_changes samp threshold (Suc (Suc n)))))"
    unfolding step card_level_changes [of samp threshold "Suc n"] r'_def [symmetric] Let_def
    using window_run [OF r' assms(2)] by (auto simp del: debounced.simps simp: debounced.simps(2) [of _ _ "Suc n"])
  finally show ?case using r' by blast
qed

lemma debounce_predicted:
  assumes "0 < threshold" and "threshold < 65536" and "0 < len" and "len < 65535"
  shows "debounce_kernel len (of_nat threshold) input = debounce_prediction len threshold input"
proof -
  obtain n where n: "len = Suc n" "n < 65534" using assms by (cases len) auto
  then obtain r where
    "fold (\<lambda>i. debounce_step (of_nat threshold) (input ! i AND 1)) [0..<len] (input ! 0 AND 1, input ! 0 AND 1, 0, 0) =
      (of_bool (debounced (\<lambda>i. odd (input ! i)) threshold len), of_bool (odd (input ! n)), of_nat r,
       of_nat (card (level_changes (\<lambda>i. odd (input ! i)) threshold len)))"
    using debounce_fold [of threshold n input] assms by blast
  then show ?thesis
    unfolding debounce_kernel_def debounce_prediction_def Let_def
    using pack_halves [of "of_bool (debounced (\<lambda>i. odd (input ! i)) threshold len)"]
    by (simp only: prod.case) simp
qed

section \<open>The kernels meet their predictions\<close>

interpretation histogram_kernel: predicted_kernel "histogram_kernel len" "histogram_prediction len" for len
  by unfold_locales (rule histogram_predicted)

interpretation matrix3_kernel: predicted_kernel "matrix3_kernel" "matrix3_prediction"
  by unfold_locales (rule matrix3_predicted)

interpretation dense_switch_kernel: predicted_kernel "dense_switch_kernel" "dense_switch_prediction"
  by unfold_locales (rule dense_switch_predicted)

interpretation sparse_switch_kernel: predicted_kernel "sparse_switch_kernel" "sparse_switch_prediction"
  by unfold_locales (rule sparse_switch_predicted)

interpretation protocol_kernel: predicted_kernel "protocol_kernel len" "protocol_prediction len" for len
  by unfold_locales (rule protocol_predicted)

interpretation nested_break_kernel: predicted_kernel "nested_break_kernel limit key" "nested_break_prediction limit key" for limit key
  by unfold_locales (rule nested_break_predicted)

interpretation multiply_accumulate_kernel: predicted_kernel "multiply_accumulate_kernel len" "multiply_accumulate_prediction len" for len
  by unfold_locales (rule multiply_accumulate_predicted)

interpretation fir_kernel: predicted_kernel "fir_kernel len" "fir_prediction len" for len
  by unfold_locales (rule fir_predicted)

interpretation debounce_kernel: predicted_kernel "debounce_kernel (4 + s mod 12) (of_nat (2 + (4 + s mod 12) mod 4))"
    "debounce_prediction (4 + s mod 12) (2 + (4 + s mod 12) mod 4)" for s
proof
  fix input :: "u32 list"
  have "s mod 12 < 12" "(4 + s mod 12) mod 4 < 4" by simp_all
  then show "debounce_kernel (4 + s mod 12) (of_nat (2 + (4 + s mod 12) mod 4)) input =
      debounce_prediction (4 + s mod 12) (2 + (4 + s mod 12) mod 4) input"
    by (intro debounce_predicted) linarith+
qed

end
