(* ===== verification/Corpus_Algorithms.thy ===== *)
theory Corpus_Algorithms
  imports Corpus_Ops "HOL-Library.Multiset"
begin

text \<open>
  The algorithmic kernels of the corpus: insertion sort, the median of five, binary search, Euclid's algorithm,
  the integer square root and restoring division, each against the mathematical function it is meant to
  compute.  The loops are total functions: their termination is part of their definition.
\<close>

section \<open>The kernels\<close>

definition local_array :: "(nat \<Rightarrow> u32) \<Rightarrow> nat \<Rightarrow> u32 list" where
  "local_array junk n = map junk [0..<n]"

text \<open>\<open>while (j != 0u && a[j - 1u] > value) { a[j] = a[j - 1u]; --j; }\<close>\<close>

fun insert_shift :: "u32 \<Rightarrow> nat \<Rightarrow> u32 list \<Rightarrow> nat \<times> u32 list" where
  "insert_shift v 0 a = (0, a)"
| "insert_shift v (Suc j) a = (if a ! j > v then insert_shift v j (a[Suc j := a ! j]) else (Suc j, a))"

definition insert_at :: "nat \<Rightarrow> u32 list \<Rightarrow> u32 list" where
  "insert_at i a = (let v = a ! i; (j, a) = insert_shift v i a in a[j := v])"

definition insertion_sort :: "nat \<Rightarrow> u32 list \<Rightarrow> u32 list" where
  "insertion_sort len a = fold insert_at [1..<len] a"

definition sort_kernel :: "(nat \<Rightarrow> u32) \<Rightarrow> nat \<Rightarrow> u32 list \<Rightarrow> u32" where
  "sort_kernel junk len input =
     (let a = fold (\<lambda>i a. a[i := input ! i]) [0..<len] (local_array junk 16);
          a = insertion_sort len a
      in fold (\<lambda>i. digest_step (a ! i)) [0..<len] 0x9e3779b9)"

definition median_kernel :: "nat \<Rightarrow> u32 list \<Rightarrow> u32" where
  "median_kernel base input =
     (let a = [input ! base AND 0xffff, input ! (base + 1) AND 0xffff, input ! (base + 2) AND 0xffff,
               input ! (base + 3) AND 0xffff, input ! ((base + 4) mod 16) AND 0xffff];
          a = insertion_sort 5 a
      in a ! 2 XOR (shl (a ! 0) 16 OR shr (a ! 0) 16) XOR a ! 4)"

lemma middle_bounds:
  assumes "low < (high :: u32)"
  shows "low \<le> low + shr (high - low) 1" and "low + shr (high - low) 1 < high"
    and "unat (low + shr (high - low) 1) = unat low + (unat high - unat low) div 2"
proof -
  have lt: "unat low < unat high" using assms by (simp add: word_less_nat_alt)
  have "unat (shr (high - low) 1) = (unat high - unat low) div 2"
    unfolding unat_drop_bit_eq using lt by (simp add: unat_sub word_le_nat_alt drop_bit_eq_div)
  moreover have "unat low + (unat high - unat low) div 2 < unat high" using lt by linarith
  moreover have "unat high < 2 ^ 32" using unsigned_less [where w = high, where 'a = nat] by simp
  ultimately show m: "unat (low + shr (high - low) 1) = unat low + (unat high - unat low) div 2"
    by (simp add: unat_word_ariths)
  then show "low \<le> low + shr (high - low) 1" "low + shr (high - low) 1 < high"
    using lt by (simp_all only: word_le_nat_alt word_less_nat_alt)
qed

function search_loop :: "u32 list \<Rightarrow> u32 \<Rightarrow> u32 \<Rightarrow> u32 \<Rightarrow> u32" where
  "search_loop a needle low high =
     (if low < high
      then (let middle = low + shr (high - low) 1
            in if a ! unat middle < needle then search_loop a needle (middle + 1) high
               else search_loop a needle low middle)
      else low)"
  by pat_completeness auto
termination
proof (relation "measure (\<lambda>(a, needle, low, high). unat high - unat low)")
  fix a :: "u32 list" and needle low high middle :: u32
  assume lt: "low < high" and m: "middle = low + shr (high - low) 1"
  note b = middle_bounds [OF lt, folded m]
  have "unat (middle + 1) = unat middle + 1"
    using b(2) unsigned_less [where w = high, where 'a = nat] by (simp add: word_less_nat_alt unat_word_ariths)
  then show "((a, needle, middle + 1, high), a, needle, low, high) \<in> measure (\<lambda>(a, needle, low, high). unat high - unat low)"
    and "((a, needle, low, middle), a, needle, low, high) \<in> measure (\<lambda>(a, needle, low, high). unat high - unat low)"
    using b(1,2) lt by (auto simp: word_less_nat_alt word_le_nat_alt)
qed simp

definition search_kernel :: "u32 list \<Rightarrow> u32 \<Rightarrow> u32 list \<Rightarrow> u32" where
  "search_kernel a needle input =
     (let low = search_loop a needle 0 (of_nat (length a))
      in if low < of_nat (length a) \<and> a ! unat low = needle then low else 0xffffffff)"

lemma mod_decreases: "b \<noteq> 0 \<Longrightarrow> unat (a mod b) < unat (b :: u32)"
  by (simp add: unat_mod_distrib unat_gt_0)

function gcd_loop :: "u32 \<Rightarrow> u32 \<Rightarrow> u32" where
  "gcd_loop a b = (if b = 0 then a else gcd_loop b (a mod b))"
  by pat_completeness auto
termination
  by (relation "measure (\<lambda>(a, b). unat b)") (simp_all add: mod_decreases)

definition gcd_kernel :: "u32 \<Rightarrow> u32 \<Rightarrow> u32 list \<Rightarrow> u32" where
  "gcd_kernel a b input = gcd_loop a b"

lemma shift_decreases: "b \<noteq> 0 \<Longrightarrow> unat (shr b 2) < unat (b :: u32)"
  unfolding unat_drop_bit_eq by (simp add: drop_bit_eq_div unat_gt_0)

text \<open>\<open>while (bit > remainder) bit >>= 2u;\<close> and the loop over the remaining powers of four.\<close>

function scale_loop :: "u32 \<Rightarrow> u32 \<Rightarrow> u32" where
  "scale_loop remainder b = (if b > remainder then scale_loop remainder (shr b 2) else b)"
  by pat_completeness auto
termination
proof (relation "measure (\<lambda>(r, b). unat b)")
  fix remainder b :: u32
  assume "b > remainder"
  then have "b \<noteq> 0" by auto
  then show "((remainder, shr b 2), remainder, b) \<in> measure (\<lambda>(r, b). unat b)"
    using shift_decreases by simp
qed simp

function sqrt_loop :: "u32 \<Rightarrow> u32 \<Rightarrow> u32 \<Rightarrow> u32 \<times> u32" where
  "sqrt_loop remainder root b =
     (if b \<noteq> 0
      then if remainder \<ge> root + b then sqrt_loop (remainder - (root + b)) (shr root 1 + b) (shr b 2)
           else sqrt_loop remainder (shr root 1) (shr b 2)
      else (remainder, root))"
  by pat_completeness auto
termination
  by (relation "measure (\<lambda>(r, t, b). unat b)") (simp_all add: shift_decreases)

definition sqrt_kernel :: "u32 \<Rightarrow> u32 list \<Rightarrow> u32" where
  "sqrt_kernel v input =
     (case sqrt_loop v 0 (scale_loop v (shl 1 30)) of (remainder, root) \<Rightarrow> root XOR remainder)"

definition division_step :: "u32 \<Rightarrow> u32 \<Rightarrow> nat \<Rightarrow> u32 \<times> u32 \<Rightarrow> u32 \<times> u32" where
  "division_step numerator divisor n s =
     (case s of (quot, remainder) \<Rightarrow>
      let remainder = shl remainder 1 OR (shr numerator (n - 1) AND 1)
      in if remainder \<ge> divisor then (quot OR shl 1 (n - 1), remainder - divisor)
         else (quot, remainder))"

definition division_kernel :: "u32 list \<Rightarrow> u32" where
  "division_kernel input =
     (let numerator = input ! 0; divisor = (input ! 1 AND 0xffff) OR 1
      in case fold (division_step numerator divisor) (rev [1..<33]) (0, 0) of
           (quot, remainder) \<Rightarrow> quot XOR (shl remainder 13 OR shr remainder 19))"

declare search_loop.simps [simp del] gcd_loop.simps [simp del] scale_loop.simps [simp del] sqrt_loop.simps [simp del]

section \<open>Sorting\<close>

text \<open>Insertion from the right end of a sorted list.\<close>

fun insert_right :: "u32 \<Rightarrow> u32 list \<Rightarrow> u32 list" where
  "insert_right v [] = [v]"
| "insert_right v (x # xs) = (if x > v then x # insert_right v xs else v # x # xs)"

lemma mset_insert_right [simp]: "mset (insert_right v xs) = add_mset v (mset xs)"
  by (induction xs) auto

lemma set_insert_right [simp]: "set (insert_right v xs) = insert v (set xs)"
  by (induction xs) auto

lemma sorted_insert_right: "sorted (rev xs) \<Longrightarrow> sorted (rev (insert_right v xs))"
  by (induction xs) (auto simp: sorted_append)

lemma insert_shift_spec:
  "j < length a \<Longrightarrow>
    (case insert_shift v j a of (k, a') \<Rightarrow> a'[k := v]) = rev (insert_right v (rev (take j a))) @ drop (Suc j) a"
proof (induction j arbitrary: a)
  case 0
  then show ?case by (cases a) simp_all
next
  case (Suc j)
  then have t: "take (Suc j) a = take j a @ [a ! j]" by (simp add: take_Suc_conv_app_nth)
  show ?case
  proof (cases "a ! j > v")
    case True
    have "drop (Suc j) (a[Suc j := a ! j]) = a ! j # drop (Suc (Suc j)) a"
      using Suc.prems by (simp add: list_eq_iff_nth_eq nth_Cons' nth_list_update)
    then show ?thesis
      using True Suc by (simp add: t)
  next
    case False
    then show ?thesis
      using Suc.prems by (simp add: t upd_conv_take_nth_drop)
  qed
qed

lemma insert_at_sorts:
  assumes "i < length a" and "take i a = sort xs"
  shows "insert_at i a = sort (a ! i # xs) @ drop (Suc i) a"
proof -
  have "sorted (rev (insert_right (a ! i) (rev (take i a))))"
    by (rule sorted_insert_right) (simp add: assms(2))
  then have "rev (insert_right (a ! i) (rev (take i a))) = sort (a ! i # xs)"
    using properties_for_sort [of "rev (insert_right (a ! i) (rev (take i a)))" "a ! i # xs"] assms(2) by simp
  then show ?thesis
    using insert_shift_spec [OF assms(1), of "a ! i"] by (simp add: insert_at_def Let_def split: prod.splits)
qed

lemma insertion_sort_spec:
  "n \<le> length a \<Longrightarrow> insertion_sort n a = sort (take n a) @ drop n a"
proof (induction n)
  case (Suc n)
  show ?case
  proof (cases n)
    case 0
    then show ?thesis
      using Suc.prems by (cases a) (simp_all add: insertion_sort_def)
  next
    case (Suc m)
    then have "insertion_sort (Suc n) a = insert_at n (insertion_sort n a)"
      by (simp add: insertion_sort_def)
    also have "insertion_sort n a = sort (take n a) @ drop n a"
      using Suc.IH Suc.prems by simp
    also have "insert_at n (sort (take n a) @ drop n a) =
        sort ((sort (take n a) @ drop n a) ! n # take n a) @ drop (Suc n) (sort (take n a) @ drop n a)"
      using Suc.prems by (intro insert_at_sorts) simp_all
    also have "\<dots> = sort (take (Suc n) a) @ drop (Suc n) a"
    proof -
      have "sort (a ! n # take n a) = sort (take n a @ [a ! n])"
        by (rule properties_for_sort) simp_all
      then show ?thesis
        using Suc.prems by (simp add: nth_append take_Suc_conv_app_nth)
    qed
    finally show ?thesis .
  qed
qed (simp add: insertion_sort_def)

definition sort_prediction :: "nat \<Rightarrow> u32 list \<Rightarrow> u32" where
  "sort_prediction len input = digest (sort (take len input))"

lemma load_array:
  "n \<le> length xs \<Longrightarrow> n \<le> length a \<Longrightarrow> fold (\<lambda>i a. a[i := xs ! i]) [0..<n] a = take n xs @ drop n a"
  by (rule nth_equalityI) (auto simp: nth_fold_upd nth_append)

lemma sort_predicted:
  assumes "len \<le> 16" and "length input = 16"
  shows "sort_kernel junk len input = sort_prediction len input"
proof -
  have "fold (\<lambda>i a. a[i := input ! i]) [0..<len] (local_array junk 16) = take len input @ drop len (local_array junk 16)"
    using assms by (intro load_array) (simp_all add: local_array_def)
  moreover have "insertion_sort len (take len input @ drop len (local_array junk 16)) =
      sort (take len input) @ drop len (local_array junk 16)"
    using assms insertion_sort_spec [of len "take len input @ drop len (local_array junk 16)"] by simp
  ultimately show ?thesis
    using assms fold_index [of len "sort (take len input) @ drop len (local_array junk 16)" digest_step]
    by (simp add: sort_kernel_def sort_prediction_def digest_def Let_def)
qed

definition median_prediction :: "nat \<Rightarrow> u32 list \<Rightarrow> u32" where
  "median_prediction base input =
     (let a = sort (map (\<lambda>k. of_nat (unat (input ! ((base + k) mod 16)) mod 65536)) [0..<5])
      in a ! 2 XOR word_rotl 16 (a ! 0) XOR a ! 4)"

lemma low_half_of_nat: "w AND 0xffff = of_nat (unat (w :: u32) mod 65536)"
  using low_bits_nat(1) [of w] by (metis of_nat_unat ucast_id)

lemma median_predicted: "base < 12 \<Longrightarrow> median_kernel base input = median_prediction base input"
proof -
  assume "base < 12"
  then have "map (\<lambda>k. of_nat (unat (input ! ((base + k) mod 16)) mod 65536)) [0..<5] =
      [input ! base AND 0xffff, input ! (base + 1) AND 0xffff, input ! (base + 2) AND 0xffff,
       input ! (base + 3) AND 0xffff, input ! ((base + 4) mod 16) AND 0xffff]"
    by (simp add: upt_rec low_half_of_nat add.commute)
  moreover have "insertion_sort 5 xs = sort xs" if "length xs = 5" for xs
    using insertion_sort_spec [of 5 xs] that by simp
  ultimately show ?thesis
    unfolding median_kernel_def median_prediction_def Let_def
    using rotl_shifts [of 16] by simp
qed

section \<open>Binary search\<close>

text \<open>The index of the first entry that is not below the needle.\<close>

definition lower_bound :: "u32 list \<Rightarrow> u32 \<Rightarrow> nat" where
  "lower_bound a needle = length (takeWhile (\<lambda>x. x < needle) a)"

definition search_prediction :: "u32 list \<Rightarrow> u32 \<Rightarrow> u32" where
  "search_prediction a needle = (if needle \<in> set a then of_nat (lower_bound a needle) else 0xffffffff)"

lemma lower_bound_nth:
  assumes "sorted a" and "i < length a"
  shows "a ! i < needle \<longleftrightarrow> i < lower_bound a needle"
proof
  assume "i < lower_bound a needle"
  then show "a ! i < needle"
    using nth_mem [of i "takeWhile (\<lambda>x. x < needle) a"] set_takeWhileD takeWhile_nth [of i "\<lambda>x. x < needle" a]
    by (fastforce simp: lower_bound_def)
next
  assume lt: "a ! i < needle"
  show "i < lower_bound a needle"
  proof (rule ccontr)
    assume "\<not> i < lower_bound a needle"
    then have le: "lower_bound a needle \<le> i" by simp
    then have "lower_bound a needle < length a" using assms(2) by simp
    then have "\<not> a ! lower_bound a needle < needle"
      unfolding lower_bound_def by (rule nth_length_takeWhile)
    moreover have "a ! lower_bound a needle \<le> a ! i"
      using assms le by (simp add: sorted_nth_mono)
    ultimately show False using lt by simp
  qed
qed

lemma search_loop_spec:
  assumes "sorted a" and "unat high \<le> length a" and "unat low \<le> lower_bound a needle"
    and "lower_bound a needle \<le> unat high"
  shows "search_loop a needle low high = of_nat (lower_bound a needle)"
  using assms
proof (induction a needle low high rule: search_loop.induct)
  case (1 a needle low high)
  show ?case
  proof (cases "low < high")
    case True
    define middle where "middle = low + shr (high - low) 1"
    note m = middle_bounds [OF True, folded middle_def]
    have s: "unat (middle + 1) = unat middle + 1"
      using m(2) unsigned_less [where w = high, where 'a = nat] by (simp add: word_less_nat_alt unat_word_ariths)
    have l: "unat middle < length a" using m(2) 1(4) by (simp add: word_less_nat_alt)
    have u: "search_loop a needle low high =
        (if a ! unat middle < needle then search_loop a needle (middle + 1) high else search_loop a needle low middle)"
      by (subst search_loop.simps) (simp only: True if_True Let_def middle_def)
    show ?thesis
    proof (cases "a ! unat middle < needle")
      case True
      then have "unat middle < lower_bound a needle"
        using lower_bound_nth [OF 1(3) l] by simp
      then show ?thesis
        using 1(1) [OF \<open>low < high\<close> middle_def True] 1(3-) s True by (simp add: u)
    next
      case False
      then have "lower_bound a needle \<le> unat middle"
        using lower_bound_nth [OF 1(3) l] by simp
      then show ?thesis
        using 1(2) [OF \<open>low < high\<close> middle_def False] 1(3-) l False by (simp add: u)
    qed
  next
    case False
    then have "lower_bound a needle = unat low" using 1(3-) by (simp add: word_less_nat_alt)
    then show ?thesis
      using False by (subst search_loop.simps) simp
  qed
qed

lemma lower_bound_member:
  assumes "sorted a"
  shows "needle \<in> set a \<longleftrightarrow> lower_bound a needle < length a \<and> a ! lower_bound a needle = needle"
proof
  assume "needle \<in> set a"
  then obtain i where i: "i < length a" "a ! i = needle" by (auto simp: in_set_conv_nth)
  then have "lower_bound a needle \<le> i"
    using lower_bound_nth [OF assms i(1), of needle] by simp
  moreover from this have "lower_bound a needle < length a" using i by simp
  moreover have "a ! lower_bound a needle \<le> a ! i"
    using sorted_nth_mono [OF assms calculation(1) i(1)] .
  moreover have "\<not> a ! lower_bound a needle < needle"
    using lower_bound_nth [OF assms calculation(2), of needle] by simp
  ultimately show "lower_bound a needle < length a \<and> a ! lower_bound a needle = needle"
    using i by auto
qed (metis nth_mem)

lemma search_predicted:
  assumes "sorted a" and "length a < 2 ^ 32"
  shows "search_kernel a needle input = search_prediction a needle"
proof -
  have n: "unat (of_nat k :: u32) = k" if "k \<le> length a" for k
    using that assms(2) by (simp add: unsigned_of_nat take_bit_nat_eq_self)
  have lb: "lower_bound a needle \<le> length a"
    by (simp add: lower_bound_def length_takeWhile_le)
  have s: "search_loop a needle 0 (of_nat (length a)) = of_nat (lower_bound a needle)"
    using assms(1) lb n by (intro search_loop_spec) simp_all
  show ?thesis
    using lb lower_bound_member [OF assms(1), of needle]
    by (simp add: search_kernel_def search_prediction_def Let_def s n word_less_nat_alt)
qed

lemma search_position:
  assumes "sorted a" and "length a < 2 ^ 32" and "needle \<in> set a"
  shows "unat (of_nat (lower_bound a needle) :: u32) < length a"
    and "a ! unat (of_nat (lower_bound a needle) :: u32) = needle"
    and "i < unat (of_nat (lower_bound a needle) :: u32) \<Longrightarrow> a ! i < needle"
proof -
  have b: "lower_bound a needle < length a" "a ! lower_bound a needle = needle"
    using lower_bound_member [OF assms(1)] assms(3) by simp_all
  then have "unat (of_nat (lower_bound a needle) :: u32) = lower_bound a needle"
    using assms(2) by (simp add: unsigned_of_nat take_bit_nat_eq_self)
  then show "unat (of_nat (lower_bound a needle) :: u32) < length a"
    "a ! unat (of_nat (lower_bound a needle) :: u32) = needle"
    "i < unat (of_nat (lower_bound a needle) :: u32) \<Longrightarrow> a ! i < needle"
    using b lower_bound_nth [OF assms(1), of i needle] by simp_all
qed

section \<open>Euclid's algorithm\<close>

lemma gcd_loop_gcd: "unat (gcd_loop a b) = gcd (unat a) (unat b)"
proof (induction a b rule: gcd_loop.induct)
  case (1 a b)
  then show ?case
    by (cases "b = 0"; subst gcd_loop.simps) (simp_all add: unat_mod_distrib gcd_red_nat [of "unat a"] gcd.commute)
qed

definition gcd_prediction :: "u32 \<Rightarrow> u32 \<Rightarrow> u32" where
  "gcd_prediction a b = of_nat (gcd (unat a) (unat b))"

lemma gcd_predicted: "gcd_kernel a b input = gcd_prediction a b"
  unfolding gcd_kernel_def gcd_prediction_def by (metis gcd_loop_gcd of_nat_unat ucast_id)

section \<open>The integer square root\<close>

definition isqrt :: "nat \<Rightarrow> nat" where
  "isqrt n = Max {r. r * r \<le> n}"

lemma isqrt_unique:
  assumes "r * r \<le> n" and "n < Suc r * Suc r"
  shows "isqrt n = r"
proof -
  have "x \<le> r" if "x * x \<le> n" for x
  proof (rule ccontr)
    assume "\<not> x \<le> r"
    then have "Suc r * Suc r \<le> x * x" by (intro mult_le_mono) simp_all
    then show False using that assms(2) by simp
  qed
  then show ?thesis
    unfolding isqrt_def using assms(1)
    by (intro Max_eqI) (auto intro: finite_subset [of _ "{..r}"])
qed

definition sqrt_prediction :: "u32 \<Rightarrow> u32" where
  "sqrt_prediction v = (let r = isqrt (unat v) in of_nat r XOR of_nat (unat v - r * r))"

text \<open>The power of four below \<open>4 ^ m\<close>, as the loop's \<open>bit\<close>.\<close>

definition power_bit :: "nat \<Rightarrow> u32" where
  "power_bit m = (case m of 0 \<Rightarrow> 0 | Suc k \<Rightarrow> of_nat (4 ^ k))"

lemma unat_u32_of_nat: "k < 2 ^ 32 \<Longrightarrow> unat (of_nat k :: u32) = k"
  by (simp add: unsigned_of_nat take_bit_nat_eq_self)

lemma power_bit_Suc:
  assumes "m < 16"
  shows "unat (power_bit (Suc m)) = 4 ^ m" and "power_bit (Suc m) \<noteq> 0" and "shr (power_bit (Suc m)) 2 = power_bit m"
proof -
  have "(4 :: nat) ^ m \<le> 4 ^ 15" using assms by (intro power_increasing) auto
  then show u: "unat (power_bit (Suc m)) = 4 ^ m"
    unfolding power_bit_def nat.case by (intro unat_u32_of_nat) simp
  then show "power_bit (Suc m) \<noteq> 0" by (metis power_not_zero unsigned_0 zero_neq_numeral)
  have "unat (shr (power_bit (Suc m)) 2) = 4 ^ m div 4"
    unfolding unat_drop_bit_eq u by (simp add: drop_bit_eq_div)
  also have "\<dots> = unat (power_bit m)"
  proof (cases m)
    case (Suc k)
    have "(4 :: nat) ^ k \<le> 4 ^ 15" using assms Suc by (intro power_increasing) auto
    then show ?thesis
      using unat_u32_of_nat [of "4 ^ k"] unfolding power_bit_def Suc nat.case by simp
  qed (simp add: power_bit_def)
  finally show "shr (power_bit (Suc m)) 2 = power_bit m" by (simp add: word_unat_eq_iff)
qed

lemma scale_loop_spec:
  "m \<le> 16 \<Longrightarrow> unat v < 4 ^ m \<Longrightarrow> \<exists>k\<le>16. unat v < 4 ^ k \<and> scale_loop v (power_bit m) = power_bit k"
proof (induction m)
  case 0
  then have "scale_loop v (power_bit 0) = power_bit 0"
    by (subst scale_loop.simps) (simp add: power_bit_def)
  then show ?case using 0 by blast
next
  case (Suc m)
  then have m: "m < 16" by simp
  show ?case
  proof (cases "power_bit (Suc m) > v")
    case True
    then have "unat v < 4 ^ m" using power_bit_Suc(1) [OF m] by (simp add: word_less_nat_alt)
    moreover have "scale_loop v (power_bit (Suc m)) = scale_loop v (power_bit m)"
      using True power_bit_Suc(3) [OF m] by (subst scale_loop.simps) simp
    ultimately show ?thesis using Suc by simp
  next
    case False
    then have "scale_loop v (power_bit (Suc m)) = power_bit (Suc m)"
      by (subst scale_loop.simps) simp
    then show ?thesis using Suc.prems by blast
  qed
qed

lemma sqrt_room:
  assumes "2 ^ Suc m dvd p" and "p * p < (2 :: nat) ^ 32" and "m < 16"
  shows "p * 2 ^ Suc m + 4 ^ m < (2 :: nat) ^ 32"
proof -
  define x :: nat where "x = 2 ^ Suc m"
  have p: "p < 2 ^ 16"
  proof (rule ccontr)
    assume "\<not> p < 2 ^ 16"
    then have "(2 :: nat) ^ 16 * 2 ^ 16 \<le> p * p" by (intro mult_le_mono) simp_all
    then show False using assms(2) by simp
  qed
  have d: "x dvd 2 ^ 16" using assms(3) unfolding x_def by (intro le_imp_power_dvd) simp
  have "p + x \<le> 2 ^ 16"
  proof -
    from assms(1) obtain q where q: "p = x * q" by (auto simp: x_def)
    from d obtain c where c: "2 ^ 16 = x * c" by (rule dvdE)
    have "x * q < x * c" using p q c by simp
    then have "Suc q \<le> c" by simp
    then have "x * Suc q \<le> x * c" by (intro mult_le_mono) simp_all
    then show ?thesis using q c by (simp add: add.commute)
  qed
  then have "(p + x) * x \<le> 2 ^ 16 * 2 ^ 16" by (intro mult_le_mono) simp_all
  moreover have "(4 :: nat) ^ m = 2 ^ m * 2 ^ m" by (simp flip: power_mult_distrib)
  then have "4 ^ m < x * x" by (simp add: x_def)
  ultimately show ?thesis
    unfolding x_def [symmetric] by (simp add: add_mult_distrib)
qed

lemma of_nat_u32_diff: "b \<le> a \<Longrightarrow> of_nat a - of_nat b = (of_nat (a - b) :: u32)"
  by (simp add: of_nat_diff)

lemma sqrt_loop_spec:
  assumes "m \<le> 16" and "2 ^ m dvd p" and "p * p \<le> n" and "n < (p + 2 ^ m) * (p + 2 ^ m)" and "n < 2 ^ 32"
  shows "\<exists>r. r * r \<le> n \<and> n < Suc r * Suc r \<and>
    sqrt_loop (of_nat (n - p * p)) (of_nat (p * 2 ^ m)) (power_bit m) = (of_nat (n - r * r), of_nat r)"
  using assms(1-4)
proof (induction m arbitrary: p)
  case 0
  have "sqrt_loop (of_nat (n - p * p)) (of_nat (p * 2 ^ 0)) (power_bit 0) = (of_nat (n - p * p), of_nat p)"
    by (subst sqrt_loop.simps) (simp add: power_bit_def)
  then show ?case using 0 by (intro exI [of _ p]) simp
next
  case (Suc m)
  then have m: "m < 16" by simp
  let ?b = "power_bit (Suc m)" and ?t = "p * 2 ^ Suc m" and ?q = "p + 2 ^ m"
  have b: "?b = of_nat (4 ^ m)" by (simp add: power_bit_def)
  have sq: "?q * ?q = p * p + (?t + 4 ^ m)"
    by (simp add: algebra_simps flip: power_mult_distrib)
  have room: "?t + 4 ^ m < 2 ^ 32"
    using Suc.prems(2,3) assms(5) m by (intro sqrt_room) simp_all
  have half: "shr (of_nat ?t :: u32) 1 = of_nat (p * 2 ^ m)"
  proof -
    have "unat (shr (of_nat ?t :: u32) 1) = ?t div 2"
      unfolding unat_drop_bit_eq using room by (simp only: unat_u32_of_nat) (simp add: drop_bit_eq_div)
    also have "\<dots> = unat (of_nat (p * 2 ^ m) :: u32)"
      using room by (subst unat_u32_of_nat) simp_all
    finally show ?thesis by (simp only: word_unat_eq_iff)
  qed
  have sum: "of_nat ?t + ?b = (of_nat (?t + 4 ^ m) :: u32)" by (simp add: b)
  have test: "(of_nat (n - p * p) \<ge> (of_nat ?t + ?b :: u32)) = (?q * ?q \<le> n)"
    unfolding sum sq word_le_nat_alt
    using room assms(5) Suc.prems(3) by (subst (1 2) unat_u32_of_nat) auto
  have "2 ^ m dvd p"
    using Suc.prems(2) by (auto intro: dvd_trans [rotated] le_imp_power_dvd)
  then have dvd: "2 ^ m dvd p" "2 ^ m dvd ?q" by simp_all
  show ?case
  proof (cases "?q * ?q \<le> n")
    case True
    have "sqrt_loop (of_nat (n - p * p)) (of_nat ?t) ?b =
        sqrt_loop (of_nat (n - p * p) - (of_nat ?t + ?b)) (shr (of_nat ?t) 1 + ?b) (shr ?b 2)"
      using True test power_bit_Suc(2) [OF m] by (subst sqrt_loop.simps) simp
    also have "of_nat (n - p * p) - (of_nat ?t + ?b) = of_nat (n - ?q * ?q)"
      unfolding sum using True sq by (subst of_nat_u32_diff) auto
    also have "shr (of_nat ?t) 1 + ?b = of_nat (?q * 2 ^ m)"
      unfolding half b by (simp add: algebra_simps flip: power_mult_distrib)
    finally have "sqrt_loop (of_nat (n - p * p)) (of_nat ?t) ?b =
        sqrt_loop (of_nat (n - ?q * ?q)) (of_nat (?q * 2 ^ m)) (power_bit m)"
      by (simp only: power_bit_Suc(3) [OF m])
    moreover have "p + 2 ^ Suc m = ?q + 2 ^ m" by simp
    ultimately show ?thesis
      using Suc.IH [OF less_imp_le [OF m] dvd(2) True] Suc.prems(4) by (simp only:)
  next
    case False
    have "sqrt_loop (of_nat (n - p * p)) (of_nat ?t) ?b = sqrt_loop (of_nat (n - p * p)) (of_nat (p * 2 ^ m)) (power_bit m)"
      using False test power_bit_Suc [OF m] half by (subst sqrt_loop.simps) simp
    moreover have "n < ?q * ?q" using False by simp
    ultimately show ?thesis
      using Suc.IH [OF less_imp_le [OF m] dvd(1) Suc.prems(3)] by (simp only:)
  qed
qed

lemma sqrt_loops:
  "\<exists>r. r * r \<le> unat v \<and> unat v < Suc r * Suc r \<and>
    sqrt_loop v 0 (scale_loop v (shl 1 30)) = (of_nat (unat v - r * r), of_nat r)"
proof -
  have n: "unat v < 2 ^ 32" using unsigned_less [where w = v, where 'a = nat] by simp
  then have "unat v < 4 ^ 16" by simp
  then obtain k where k: "k \<le> 16" "unat v < 4 ^ k" "scale_loop v (power_bit 16) = power_bit k"
    using scale_loop_spec [of 16 v] by auto
  have "(4 :: nat) ^ k = 2 ^ k * 2 ^ k" by (simp flip: power_mult_distrib)
  moreover have "power_bit 16 = shl 1 30" by (simp add: power_bit_def)
  ultimately show ?thesis
    using sqrt_loop_spec [of k 0 "unat v"] k n by auto
qed

lemma sqrt_loops_unat:
  "case sqrt_loop v 0 (scale_loop v (shl 1 30)) of (remainder, root) \<Rightarrow>
     unat root * unat root + unat remainder = unat v \<and> unat v < (unat root + 1) * (unat root + 1)"
proof -
  obtain r where r: "r * r \<le> unat v" "unat v < Suc r * Suc r"
    "sqrt_loop v 0 (scale_loop v (shl 1 30)) = (of_nat (unat v - r * r), of_nat r)"
    using sqrt_loops by blast
  have v: "unat v < 2 ^ 32" using unsigned_less [where w = v, where 'a = nat] by simp
  have "r \<le> r * r" by (cases r) simp_all
  then have "r < 2 ^ 32" "unat v - r * r < 2 ^ 32"
    using r(1) v by linarith+
  then show ?thesis
    using r(1,2) unfolding r(3) prod.case by (simp only: unat_u32_of_nat) simp
qed

lemma sqrt_predicted: "sqrt_kernel v input = sqrt_prediction v"
proof -
  obtain r where r: "r * r \<le> unat v" "unat v < Suc r * Suc r"
    "sqrt_loop v 0 (scale_loop v (shl 1 30)) = (of_nat (unat v - r * r), of_nat r)"
    using sqrt_loops by blast
  then show ?thesis
    using isqrt_unique [OF r(1,2)] by (simp add: sqrt_kernel_def sqrt_prediction_def)
qed

section \<open>Restoring division\<close>

definition division_prediction :: "u32 list \<Rightarrow> u32" where
  "division_prediction input =
     (let n = unat (input ! 0); d = unat ((input ! 1 AND 0xffff) OR 1)
      in of_nat (n div d) XOR word_rotl 13 (of_nat (n mod d)))"

lemma shift_in_bit: "shl w 1 OR of_bool p = 2 * w + of_bool (p :: bool)" for w :: u32
proof -
  have "shl w 1 AND of_bool p = 0"
    by (rule bit_word_eqI) (auto simp: bit_simps bit_1_iff simp del: push_bit_Suc)
  then show ?thesis
    by (simp only: disjunctive_add_eq_or [symmetric]) simp
qed

lemma set_low_bit: "k < 32 \<Longrightarrow> of_nat (x * 2 ^ Suc k) OR shl 1 k = (of_nat (x * 2 ^ Suc k + 2 ^ k) :: u32)"
proof -
  have "of_nat (x * 2 ^ Suc k) = shl (of_nat x :: u32) (Suc k)"
    by (simp add: push_bit_eq_mult)
  moreover have "shl (of_nat x :: u32) (Suc k) AND shl 1 k = 0"
    by (rule bit_word_eqI) (auto simp: bit_simps bit_1_iff simp del: push_bit_Suc)
  ultimately have "of_nat (x * 2 ^ Suc k) OR shl 1 k = of_nat (x * 2 ^ Suc k) + (shl 1 k :: u32)"
    by (simp only: disjunctive_add_eq_or)
  then show ?thesis by (simp add: push_bit_eq_mult)
qed

lemma division_arith:
  fixes t d :: nat and b :: bool
  assumes "0 < d"
  defines "r \<equiv> 2 * (t mod d) + of_bool b"
  shows "(2 * t + of_bool b) div d = 2 * (t div d) + of_bool (d \<le> r)"
    and "(2 * t + of_bool b) mod d = (if d \<le> r then r - d else r)"
proof -
  have "2 * t + of_bool b = (2 * (t div d)) * d + r"
  proof -
    have "2 * t = 2 * (t div d * d) + 2 * (t mod d)" by (metis div_mult_mod_eq add_mult_distrib2)
    then show ?thesis unfolding r_def by (simp add: mult.assoc)
  qed
  moreover have "t mod d < d" using assms(1) by simp
  then have "r < 2 * d" unfolding r_def by (cases b) simp_all
  then have "r = of_bool (d \<le> r) * d + (if d \<le> r then r - d else r)" "(if d \<le> r then r - d else r) < d"
    by auto
  ultimately have e: "2 * t + of_bool b = (2 * (t div d) + of_bool (d \<le> r)) * d + (if d \<le> r then r - d else r)"
    and l: "(if d \<le> r then r - d else r) < d"
    by (simp_all add: add_mult_distrib)
  show "(2 * t + of_bool b) div d = 2 * (t div d) + of_bool (d \<le> r)"
    "(2 * t + of_bool b) mod d = (if d \<le> r then r - d else r)"
    using l unfolding e by (simp_all del: if_split)
qed

lemma division_fold:
  fixes n d :: u32
  assumes "0 < unat d" and "unat d < 65536" and "k \<le> 32"
  shows "fold (division_step n d) (rev [Suc k..<33]) (0, 0) =
    (of_nat (unat n div 2 ^ k div unat d * 2 ^ k), of_nat (unat n div 2 ^ k mod unat d))"
  using assms(3)
proof (induction k rule: inc_induct)
  case base
  have "unat n div 2 ^ 32 = 0" using unsigned_less [where w = n, where 'a = nat] by simp
  then show ?case by (simp add: unat_drop_bit_eq)
next
  case (step k)
  define t where "t = unat n div 2 ^ Suc k"
  define b where "b = bit n k"
  have t2: "unat n div 2 ^ k = 2 * t + of_bool b"
  proof -
    have "unat n div 2 ^ Suc k = unat n div 2 ^ k div 2" by (simp add: div_mult2_eq power_Suc2 del: power_Suc)
    moreover have "odd (unat n div 2 ^ k) = b" by (simp add: b_def bit_unsigned_iff flip: bit_iff_odd)
    ultimately show ?thesis unfolding t_def by (cases b) (simp_all add: odd_two_times_div_two_nat)
  qed
  define r where "r = 2 * (t mod unat d) + of_bool b"
  have "t mod unat d < 65536" using assms(1,2) by (metis mod_less_divisor less_trans)
  then have "r < 2 ^ 32" unfolding r_def by (cases b) simp_all
  note ur = unat_u32_of_nat [OF this]
  have "shr n k AND 1 = of_bool b"
    unfolding b_def by (rule bit_word_eqI) (auto simp: bit_simps bit_1_iff)
  then have rem: "shl (of_nat (t mod unat d)) 1 OR (shr n k AND 1) = of_nat r"
    by (simp only: shift_in_bit r_def) simp
  have d: "of_nat (unat d) = d" by simp
  have "[Suc k..<33] = Suc k # [Suc (Suc k)..<33]" using step.hyps by (simp add: upt_rec)
  then have "fold (division_step n d) (rev [Suc k..<33]) (0, 0) =
      division_step n d (Suc k) (of_nat (t div unat d * 2 ^ Suc k), of_nat (t mod unat d))"
    using step.IH by (simp add: t_def del: upt_rec_numeral)
  also have "\<dots> = (if unat d \<le> r then (of_nat (t div unat d * 2 ^ Suc k) OR shl 1 k, of_nat r - d)
      else (of_nat (t div unat d * 2 ^ Suc k), of_nat r))"
    unfolding division_step_def prod.case Let_def diff_Suc_1 rem word_le_nat_alt ur ..
  also have "\<dots> = (of_nat ((2 * t + of_bool b) div unat d * 2 ^ k), of_nat ((2 * t + of_bool b) mod unat d))"
    unfolding division_arith [OF assms(1), of t b, folded r_def]
    using set_low_bit [of k "t div unat d"] step.hyps of_nat_u32_diff [of "unat d" r]
    by (simp add: algebra_simps)
  finally show ?case unfolding t2 .
qed

lemma division_predicted: "division_kernel input = division_prediction input"
proof -
  let ?d = "(input ! 1 AND 0xffff) OR 1"
  have "bit ?d 0" by (simp add: bit_simps)
  then have "?d \<noteq> 0" by auto
  then have "0 < unat ?d" by (simp add: unat_gt_0)
  moreover have "?d = ?d AND 0xffff" by (simp add: bit.conj_disj_distrib2)
  then have "unat ?d < 65536"
    by (metis low_bits_nat(1) mod_less_divisor zero_less_numeral)
  ultimately have "fold (division_step (input ! 0) ?d) (rev [Suc 0..<33]) (0, 0) =
    (of_nat (unat (input ! 0) div 2 ^ 0 div unat ?d * 2 ^ 0), of_nat (unat (input ! 0) div 2 ^ 0 mod unat ?d))"
    by (intro division_fold) simp_all
  then show ?thesis
    unfolding division_kernel_def division_prediction_def Let_def using rotl_shifts [of 13]
    by (simp del: upt_rec_numeral)
qed

section \<open>The kernels meet their predictions\<close>

interpretation sort_kernel: predicted_kernel "sort_kernel junk (4 + s mod 12)" "sort_prediction (4 + s mod 12)" for junk s
proof
  fix input :: "u32 list"
  assume "length input = 16"
  moreover have "s mod 12 < 12" by simp
  ultimately show "sort_kernel junk (4 + s mod 12) input = sort_prediction (4 + s mod 12) input"
    by (intro sort_predicted) linarith+
qed

interpretation median_kernel: predicted_kernel "median_kernel (s mod 12)" "median_prediction (s mod 12)" for s
  by unfold_locales (simp add: median_predicted)

text \<open>The searched array is a literal of the program, sorted by the generator.\<close>

interpretation search_kernel: predicted_kernel "search_kernel (sort (take 16 xs)) needle"
    "\<lambda>_. search_prediction (sort (take 16 xs)) needle" for xs needle
  by unfold_locales (simp add: search_predicted)

interpretation gcd_kernel: predicted_kernel "gcd_kernel a b" "\<lambda>_. gcd_prediction a b" for a b
  by unfold_locales (rule gcd_predicted)

interpretation sqrt_kernel: predicted_kernel "sqrt_kernel v" "\<lambda>_. sqrt_prediction v" for v
  by unfold_locales (rule sqrt_predicted)

interpretation division_kernel: predicted_kernel division_kernel division_prediction
  by unfold_locales (rule division_predicted)

end
