(* ===== verification/Corpus_Buffers.thy ===== *)
theory Corpus_Buffers
  imports Corpus_Ops
begin

text \<open>
  The buffer kernels of the corpus: a move between overlapping ranges, a ring buffer, and COBS framing.  The ring
  buffer implements the interface \<open>fifo\<close>, in which the kernel's result is proved to be that of an unbounded
  list; the COBS encoder is proved equal to the encoding by zero-delimited blocks, which decodes back.
\<close>

section \<open>The kernels\<close>

text \<open>\<open>while (count != 0u) { --count; a[destination + count] = a[source + count]; }\<close>\<close>

fun move_down :: "nat \<Rightarrow> nat \<Rightarrow> nat \<Rightarrow> u32 list \<Rightarrow> u32 list" where
  "move_down source destination 0 a = a"
| "move_down source destination (Suc count) a =
     move_down source destination count (a[destination + count := a ! (source + count)])"

definition move_up :: "nat \<Rightarrow> nat \<Rightarrow> nat \<Rightarrow> u32 list \<Rightarrow> u32 list" where
  "move_up source destination count a =
     fold (\<lambda>i a. a[destination + i := a ! (source + i)]) [0..<count] a"

definition move_kernel :: "(nat \<Rightarrow> u32) \<Rightarrow> nat \<Rightarrow> nat \<Rightarrow> nat \<Rightarrow> u32 list \<Rightarrow> u32" where
  "move_kernel junk source destination count input =
     (let a = fold (\<lambda>i a. a[i := input ! i]) [0..<16] (map junk [0..<16]);
          a = (if destination > source then move_down source destination count a
               else move_up source destination count a)
      in digest a)"

record ring =
  slots :: "u32 list"
  head :: nat
  tail :: nat
  count :: nat

definition ring_empty :: "(nat \<Rightarrow> u32) \<Rightarrow> nat \<Rightarrow> ring" where
  "ring_empty junk capacity = \<lparr>slots = map junk [0..<capacity], head = 0, tail = 0, count = 0\<rparr>"

definition ring_pop :: "nat \<Rightarrow> ring \<Rightarrow> u32 \<times> ring" where
  "ring_pop capacity q =
     (slots q ! head q, q\<lparr>head := (head q + 1) mod capacity, count := count q - 1\<rparr>)"

definition ring_push :: "nat \<Rightarrow> u32 \<Rightarrow> ring \<Rightarrow> ring" where
  "ring_push capacity v q =
     q\<lparr>slots := (slots q)[tail q := v], tail := (tail q + 1) mod capacity, count := count q + 1\<rparr>"

definition take_in :: "u32 \<Rightarrow> u32 \<Rightarrow> u32" where
  "take_in v result = (shl result 3 OR shr result 29) XOR v"

definition ring_step :: "nat \<Rightarrow> u32 list \<Rightarrow> nat \<Rightarrow> ring \<times> u32 \<Rightarrow> ring \<times> u32" where
  "ring_step capacity input i s =
     (case s of (q, result) \<Rightarrow>
      let v = input ! (i mod 16) in
      if shr v (i mod 17) AND 1 \<noteq> 0 \<and> count q \<noteq> 0
      then (case ring_pop capacity q of (x, q) \<Rightarrow> (q, take_in x result))
      else if count q \<noteq> capacity then (ring_push capacity (v XOR of_nat i) q, result)
      else (q, result))"

text \<open>\<open>while (count != 0u) ...\<close>: the loop runs as often as there are entries.\<close>

function ring_drain :: "nat \<Rightarrow> ring \<Rightarrow> u32 \<Rightarrow> u32" where
  "ring_drain capacity q result =
     (if count q \<noteq> 0 then (case ring_pop capacity q of (x, q) \<Rightarrow> ring_drain capacity q (take_in x result))
      else result)"
  by pat_completeness auto
termination
  by (relation "measure (\<lambda>(c, q, r). count q)") (auto simp: ring_pop_def)

definition ring_kernel :: "(nat \<Rightarrow> u32) \<Rightarrow> nat \<Rightarrow> nat \<Rightarrow> u32 list \<Rightarrow> u32" where
  "ring_kernel junk capacity operations input =
     (case fold (ring_step capacity input) [0..<operations] (ring_empty junk capacity, 0) of
        (q, result) \<Rightarrow> ring_drain capacity q result)"

record cobs =
  outbuf :: "u32 list"
  write_at :: nat
  code_index :: nat
  block_code :: u32

definition cobs_step :: "u32 \<Rightarrow> cobs \<Rightarrow> cobs" where
  "cobs_step byte c =
     (if byte = 0
      then c\<lparr>outbuf := (outbuf c)[code_index c := block_code c], block_code := 1, code_index := write_at c, write_at := write_at c + 1\<rparr>
      else c\<lparr>outbuf := (outbuf c)[write_at c := byte], write_at := write_at c + 1, block_code := block_code c + 1\<rparr>)"

definition cobs_frame :: "(nat \<Rightarrow> u32) \<Rightarrow> nat \<Rightarrow> u32 list \<Rightarrow> cobs" where
  "cobs_frame junk len input =
     (let c = fold (\<lambda>i. cobs_step (to_u32 (to_u8 (input ! i)))) [0..<len]
                \<lparr>outbuf = map junk [0..<18], write_at = 1, code_index = 0, block_code = 1\<rparr>
      in c\<lparr>outbuf := (outbuf c)[code_index c := block_code c]\<rparr>)"

definition cobs_kernel :: "(nat \<Rightarrow> u32) \<Rightarrow> nat \<Rightarrow> u32 list \<Rightarrow> u32" where
  "cobs_kernel junk len input =
     (let c = cobs_frame junk len input
      in fold (\<lambda>i. digest_step (outbuf c ! i)) [0..<write_at c] 0x9e3779b9 XOR of_nat (write_at c))"

declare ring_drain.simps [simp del]

section \<open>Overlapping moves\<close>

definition moved :: "nat \<Rightarrow> nat \<Rightarrow> nat \<Rightarrow> u32 list \<Rightarrow> u32 list" where
  "moved source destination n a =
     map (\<lambda>i. if destination \<le> i \<and> i < destination + n then a ! (source + (i - destination)) else a ! i)
       [0..<length a]"

lemma length_move_down [simp]: "length (move_down s d n a) = length a"
  by (induction n arbitrary: a) simp_all

lemma nth_move_down:
  assumes "s < d" and "d + n \<le> length a" and "i < length a"
  shows "move_down s d n a ! i = (if d \<le> i \<and> i < d + n then a ! (s + (i - d)) else a ! i)"
  using assms
proof (induction n arbitrary: a)
  case (Suc n)
  have "move_down s d (Suc n) a ! i = (if d \<le> i \<and> i < d + n then (a[d + n := a ! (s + n)]) ! (s + (i - d))
      else (a[d + n := a ! (s + n)]) ! i)"
    using Suc by simp
  moreover have "s + (i - d) \<noteq> d + n" if "i < d + n" "d \<le> i" using that Suc.prems(1) by linarith
  ultimately show ?case
    using Suc.prems by (cases "i = d + n") (auto simp: nth_list_update)
qed auto

lemma move_up_Suc: "move_up s d (Suc n) a = (move_up s d n a)[d + n := move_up s d n a ! (s + n)]"
  by (simp add: move_up_def)

lemma length_move_up [simp]: "length (move_up s d n a) = length a"
  by (induction n) (simp_all add: move_up_Suc, simp add: move_up_def)

lemma nth_move_up:
  assumes "d \<le> s" and "s + n \<le> length a" and "i < length a"
  shows "move_up s d n a ! i = (if d \<le> i \<and> i < d + n then a ! (s + (i - d)) else a ! i)"
  using assms(2,3)
proof (induction n arbitrary: i)
  case 0
  then show ?case by (auto simp: move_up_def)
next
  case (Suc n)
  have "move_up s d n a ! (s + n) = a ! (s + n)"
    using Suc.IH [of "s + n"] Suc.prems assms(1) by simp
  then show ?case
    using Suc assms(1) by (cases "i = d + n") (auto simp: move_up_Suc nth_list_update)
qed

definition move_prediction :: "nat \<Rightarrow> nat \<Rightarrow> nat \<Rightarrow> u32 list \<Rightarrow> u32" where
  "move_prediction source destination n input = digest (moved source destination n input)"

lemma load_all: "length input = 16 \<Longrightarrow> fold (\<lambda>i a. a[i := input ! i]) [0..<16] (map junk [0..<16]) = input"
  by (rule nth_equalityI) (auto simp: nth_fold_upd simp del: upt_rec_numeral)

lemma move_predicted:
  assumes "length input = 16" and "source + n \<le> 16" and "destination + n \<le> 16"
  shows "move_kernel junk source destination n input = move_prediction source destination n input"
proof -
  have "(if destination > source then move_down source destination n input else move_up source destination n input) =
      moved source destination n input"
    using assms by (auto intro!: nth_equalityI simp: moved_def nth_move_down nth_move_up simp del: upt_rec_numeral)
  then show ?thesis
    by (simp only: move_kernel_def move_prediction_def Let_def load_all [OF assms(1)])
qed

section \<open>The queue\<close>

text \<open>What the kernel does with its queue, on a list.\<close>

definition queue_step :: "nat \<Rightarrow> u32 list \<Rightarrow> nat \<Rightarrow> u32 list \<times> u32 \<Rightarrow> u32 list \<times> u32" where
  "queue_step capacity input i s =
     (case s of (xs, result) \<Rightarrow>
      let v = input ! (i mod 16) in
      if bit v (i mod 17) \<and> xs \<noteq> [] then (tl xs, word_rotl 3 result XOR hd xs)
      else if length xs < capacity then (xs @ [v XOR of_nat i], result)
      else (xs, result))"

definition ring_prediction :: "nat \<Rightarrow> nat \<Rightarrow> u32 list \<Rightarrow> u32" where
  "ring_prediction capacity operations input =
     (case fold (queue_step capacity input) [0..<operations] ([], 0) of
        (xs, result) \<Rightarrow> fold (\<lambda>x result. word_rotl 3 result XOR x) xs result)"

lemma take_in_rotl: "take_in v result = word_rotl 3 result XOR v"
  using rotl_shifts [of 3 result] by (simp add: take_in_def)

text \<open>A bounded first-in first-out queue, and its use by the kernel.\<close>

locale fifo =
  fixes capacity :: nat
    and contents :: "'q \<Rightarrow> u32 list"
    and invar :: "'q \<Rightarrow> bool"
    and size :: "'q \<Rightarrow> nat"
    and push :: "u32 \<Rightarrow> 'q \<Rightarrow> 'q"
    and pop :: "'q \<Rightarrow> u32 \<times> 'q"
  assumes size_contents: "invar q \<Longrightarrow> size q = length (contents q)"
    and bounded: "invar q \<Longrightarrow> length (contents q) \<le> capacity"
    and push_contents: "invar q \<Longrightarrow> length (contents q) < capacity \<Longrightarrow> contents (push v q) = contents q @ [v]"
    and push_invar: "invar q \<Longrightarrow> length (contents q) < capacity \<Longrightarrow> invar (push v q)"
    and pop_front: "invar q \<Longrightarrow> contents q \<noteq> [] \<Longrightarrow> fst (pop q) = hd (contents q)"
    and pop_contents: "invar q \<Longrightarrow> contents q \<noteq> [] \<Longrightarrow> contents (snd (pop q)) = tl (contents q)"
    and pop_invar: "invar q \<Longrightarrow> contents q \<noteq> [] \<Longrightarrow> invar (snd (pop q))"
begin

definition step :: "u32 list \<Rightarrow> nat \<Rightarrow> 'q \<times> u32 \<Rightarrow> 'q \<times> u32" where
  "step input i s =
     (case s of (q, result) \<Rightarrow>
      let v = input ! (i mod 16) in
      if shr v (i mod 17) AND 1 \<noteq> 0 \<and> size q \<noteq> 0
      then (case pop q of (x, q) \<Rightarrow> (q, take_in x result))
      else if size q \<noteq> capacity then (push (v XOR of_nat i) q, result)
      else (q, result))"

lemma step_refines:
  assumes "invar q"
  shows "invar (fst (step input i (q, result))) \<and>
    (contents (fst (step input i (q, result))), snd (step input i (q, result))) =
      queue_step capacity input i (contents q, result)"
proof -
  let ?v = "input ! (i mod 16)"
  have "(shr ?v (i mod 17) AND 1 \<noteq> 0) = bit ?v (i mod 17)"
    by (simp add: bit_iff_odd_drop_bit and_one_eq odd_iff_mod_2_eq_one)
  then show ?thesis
    using assms size_contents [OF assms] bounded [OF assms]
    by (auto simp: step_def queue_step_def Let_def take_in_rotl split: prod.splits
        dest: pop_front pop_contents pop_invar push_contents push_invar)
qed

lemma run_refines:
  assumes "invar q"
  shows "invar (fst (fold (step input) is (q, result))) \<and>
    (contents (fst (fold (step input) is (q, result))), snd (fold (step input) is (q, result))) =
      fold (queue_step capacity input) is (contents q, result)"
  using assms
proof (induction "is" arbitrary: q result)
  case (Cons i "is")
  obtain q' result' where s: "step input i (q, result) = (q', result')" by (cases "step input i (q, result)")
  then have "invar q'" "queue_step capacity input i (contents q, result) = (contents q', result')"
    using step_refines [OF Cons.prems, of input i result] by simp_all
  then show ?case
    using Cons.IH [of q' result'] by (simp add: s)
qed simp

end

text \<open>The ring buffer as such a queue.\<close>

definition ring_contents :: "nat \<Rightarrow> ring \<Rightarrow> u32 list" where
  "ring_contents capacity q = map (\<lambda>k. slots q ! ((head q + k) mod capacity)) [0..<count q]"

definition ring_invar :: "nat \<Rightarrow> ring \<Rightarrow> bool" where
  "ring_invar capacity q \<longleftrightarrow>
     0 < capacity \<and> length (slots q) = capacity \<and> head q < capacity \<and> count q \<le> capacity \<and>
     tail q = (head q + count q) mod capacity"

lemma ring_slots_distinct:
  assumes "k < n" and "n < capacity"
  shows "(h + k) mod capacity \<noteq> (h + n) mod (capacity :: nat)"
proof
  assume "(h + k) mod capacity = (h + n) mod capacity"
  then have "capacity dvd (h + n) - (h + k)"
    using assms(1) by (simp only: mod_eq_dvd_iff_nat [symmetric])
  then have "capacity dvd n - k" by simp
  then show False
    using assms by (metis dvd_imp_le less_imp_diff_less not_le zero_less_diff)
qed

lemma ring_push_contents:
  assumes "ring_invar capacity q" and "count q < capacity"
  shows "ring_contents capacity (ring_push capacity v q) = ring_contents capacity q @ [v]"
proof -
  have "(slots q)[(head q + count q) mod capacity := v] ! ((head q + k) mod capacity) =
      slots q ! ((head q + k) mod capacity)" if "k < count q" for k
    using ring_slots_distinct [OF that assms(2), of "head q"] by simp
  moreover have "(head q + count q) mod capacity < length (slots q)"
    using assms by (simp add: ring_invar_def)
  ultimately show ?thesis
    using assms by (simp add: ring_contents_def ring_push_def ring_invar_def)
qed

lemma ring_pop_contents:
  assumes "ring_invar capacity q" and "count q = Suc n"
  shows "ring_contents capacity q = fst (ring_pop capacity q) # ring_contents capacity (snd (ring_pop capacity q))"
proof -
  have "[0..<Suc n] = 0 # map Suc [0..<n]" by (simp add: map_Suc_upt upt_conv_Cons)
  moreover have "(head q + 1) mod capacity + k = ((head q + 1) mod capacity + k)" for k ..
  moreover have "((head q + 1) mod capacity + k) mod capacity = (head q + Suc k) mod capacity" for k
    by (simp add: mod_add_left_eq)
  ultimately show ?thesis
    using assms by (simp add: ring_contents_def ring_pop_def ring_invar_def comp_def)
qed

interpretation ring_fifo: fifo capacity "ring_contents capacity" "ring_invar capacity" count "ring_push capacity"
    "ring_pop capacity" for capacity
proof
  fix q v
  assume q: "ring_invar capacity q"
  then show len: "count q = length (ring_contents capacity q)" "length (ring_contents capacity q) \<le> capacity"
    by (simp_all add: ring_contents_def ring_invar_def)
  assume "length (ring_contents capacity q) < capacity"
  then have c: "count q < capacity" using len by simp
  then show "ring_contents capacity (ring_push capacity v q) = ring_contents capacity q @ [v]"
    by (rule ring_push_contents [OF q])
  show "ring_invar capacity (ring_push capacity v q)"
    using q c by (simp add: ring_invar_def ring_push_def mod_Suc_eq)
next
  fix q
  assume q: "ring_invar capacity q" and "ring_contents capacity q \<noteq> []"
  then obtain n where n: "count q = Suc n" by (cases "count q") (auto simp: ring_contents_def)
  note c = ring_pop_contents [OF q n]
  show "fst (ring_pop capacity q) = hd (ring_contents capacity q)"
    "ring_contents capacity (snd (ring_pop capacity q)) = tl (ring_contents capacity q)"
    by (simp_all add: c)
  show "ring_invar capacity (snd (ring_pop capacity q))"
    using q n by (simp add: ring_invar_def ring_pop_def mod_add_left_eq)
qed

lemma ring_drain_fold:
  "ring_invar capacity q \<Longrightarrow> ring_drain capacity q result = fold take_in (ring_contents capacity q) result"
proof (induction capacity q result rule: ring_drain.induct)
  case (1 capacity q result)
  show ?case
  proof (cases "count q")
    case 0
    then show ?thesis by (subst ring_drain.simps) (simp add: ring_contents_def)
  next
    case (Suc n)
    obtain x q' where p: "ring_pop capacity q = (x, q')" by (cases "ring_pop capacity q")
    have c: "ring_contents capacity q = x # ring_contents capacity q'"
      using ring_pop_contents [OF 1(2) Suc] p by simp
    moreover have "ring_invar capacity q'"
      using ring_fifo.pop_invar [OF 1(2)] p c by simp
    ultimately show ?thesis
      using 1(1) Suc p by (subst ring_drain.simps) simp
  qed
qed

lemma ring_predicted:
  assumes "0 < capacity"
  shows "ring_kernel junk capacity operations input = ring_prediction capacity operations input"
proof -
  have s: "ring_step capacity = ring_fifo.step capacity"
    by (intro ext) (simp add: ring_step_def ring_fifo.step_def)
  have e: "ring_invar capacity (ring_empty junk capacity)" "ring_contents capacity (ring_empty junk capacity) = []"
    using assms by (simp_all add: ring_invar_def ring_empty_def ring_contents_def)
  have t: "take_in = (\<lambda>x result. word_rotl 3 result XOR x)"
    by (intro ext) (rule take_in_rotl)
  show ?thesis
    using ring_fifo.run_refines [OF e(1), of input "[0..<operations]" 0] e(2) ring_drain_fold
    by (auto simp: ring_kernel_def ring_prediction_def s t split: prod.splits)
qed

section \<open>COBS\<close>

text \<open>
  Consistent overhead byte stuffing: the message is cut at its zero bytes, and each block is sent after its length plus
  one.
\<close>

fun zero_blocks :: "bytes \<Rightarrow> bytes list" where
  "zero_blocks [] = [[]]"
| "zero_blocks (b # bs) = (if b = 0 then [] # zero_blocks bs else (b # hd (zero_blocks bs)) # tl (zero_blocks bs))"

definition cobs_block :: "bytes \<Rightarrow> bytes" where
  "cobs_block block = of_nat (length block + 1) # block"

definition cobs_encode :: "bytes \<Rightarrow> bytes" where
  "cobs_encode bs = concat (map cobs_block (zero_blocks bs))"

function cobs_decode :: "bytes \<Rightarrow> bytes option" where
  "cobs_decode [] = None"
| "cobs_decode (c # bs) =
     (let n = unat c - 1 in
      if c = 0 \<or> length bs < n then None
      else if drop n bs = [] then Some (take n bs)
      else map_option (\<lambda>r. take n bs @ 0 # r) (cobs_decode (drop n bs)))"
  by pat_completeness auto
termination
  by (relation "measure length") auto

definition cobs_prediction :: "nat \<Rightarrow> u32 list \<Rightarrow> u32" where
  "cobs_prediction len input =
     (let e = cobs_encode (map (\<lambda>i. to_u8 (input ! i)) [0..<len])
      in digest (map ucast e) XOR of_nat (length e))"

lemma zero_blocks_nonempty [simp]: "zero_blocks bs \<noteq> []"
  by (cases bs) simp_all

lemma zero_blocks_snoc:
  "zero_blocks (bs @ [b]) =
    (if b = 0 then zero_blocks bs @ [[]] else butlast (zero_blocks bs) @ [last (zero_blocks bs) @ [b]])"
proof (induction bs)
  case (Cons a bs)
  obtain x xs where "zero_blocks bs = x # xs" by (cases "zero_blocks bs") simp_all
  then show ?case using Cons by auto
qed simp

lemma length_cobs_encode: "length (cobs_encode bs) = length bs + 1"
proof (induction bs)
  case (Cons a bs)
  obtain x xs where "zero_blocks bs = x # xs" by (cases "zero_blocks bs") simp_all
  then show ?case using Cons by (auto simp: cobs_encode_def cobs_block_def)
qed (simp add: cobs_encode_def cobs_block_def)

text \<open>The state of the encoder after a prefix of the message: all blocks but the last are out.\<close>

definition cobs_invar :: "bytes \<Rightarrow> cobs \<Rightarrow> bool" where
  "cobs_invar bs c \<longleftrightarrow>
     (let closed = concat (map cobs_block (butlast (zero_blocks bs))); open_block = last (zero_blocks bs) in
      code_index c = length closed \<and> write_at c = length closed + 1 + length open_block \<and>
      block_code c = of_nat (length open_block + 1) \<and>
      (\<exists>x rest. outbuf c = map ucast closed @ [x] @ map ucast open_block @ rest \<and> length (outbuf c) = 18))"

lemma concat_map_last: "xs \<noteq> [] \<Longrightarrow> concat (map f xs) = concat (map f (butlast xs)) @ f (last xs)"
  by (cases xs rule: rev_cases) simp_all

lemma cobs_invar_length:
  assumes "cobs_invar bs c"
  shows "write_at c = length bs + 1" and "length (last (zero_blocks bs)) \<le> length bs"
proof -
  have "concat (map cobs_block (zero_blocks bs)) =
      concat (map cobs_block (butlast (zero_blocks bs))) @ cobs_block (last (zero_blocks bs))"
    by (rule concat_map_last) simp
  then have "length bs + 1 = length (concat (map cobs_block (butlast (zero_blocks bs)))) + 1 + length (last (zero_blocks bs))"
    using length_cobs_encode [of bs] by (simp add: cobs_encode_def cobs_block_def)
  then show "write_at c = length bs + 1" "length (last (zero_blocks bs)) \<le> length bs"
    using assms by (simp_all add: cobs_invar_def Let_def)
qed

lemma cobs_step_invar:
  assumes "cobs_invar bs c" and "length bs < 16"
  shows "cobs_invar (bs @ [b]) (cobs_step (to_u32 b) c)"
proof -
  let ?closed = "concat (map cobs_block (butlast (zero_blocks bs)))" and ?open = "last (zero_blocks bs)"
  obtain x rest where o: "outbuf c = map ucast ?closed @ [x] @ map ucast ?open @ rest" "length (outbuf c) = 18"
    using assms(1) by (auto simp: cobs_invar_def Let_def)
  have w: "write_at c = length ?closed + 1 + length ?open" "write_at c = length bs + 1"
    "code_index c = length ?closed" "block_code c = of_nat (length ?open + 1)"
    using assms(1) cobs_invar_length(1) [OF assms(1)] by (auto simp: cobs_invar_def Let_def)
  have "rest \<noteq> []" using o w assms(2) by auto
  then obtain y ys where r: "rest = y # ys" by (cases rest) auto
  show ?thesis
  proof (cases "b = 0")
    case True
    have "length ?open + 1 < 256" using cobs_invar_length(2) [OF assms(1)] assms(2) by simp
    then have "to_u32 (of_nat (length ?open + 1) :: u8) = of_nat (length ?open + 1)"
      by (simp add: word_unat_eq_iff unsigned_of_nat take_bit_nat_eq_self del: of_nat_add of_nat_Suc)
    moreover have "concat (map cobs_block (butlast (zero_blocks bs @ [[]]))) = ?closed @ cobs_block ?open"
      using concat_map_last [of "zero_blocks bs" cobs_block] by simp
    ultimately show ?thesis
      using True o w r
      by (simp add: cobs_invar_def cobs_step_def zero_blocks_snoc Let_def cobs_block_def list_update_append)
  next
    case False
    then have "to_u32 b \<noteq> 0" by (metis unat_u8_u32 unsigned_0 unat_eq_zero)
    then show ?thesis
      using False o w r
      by (simp add: cobs_invar_def cobs_step_def zero_blocks_snoc Let_def list_update_append)
  qed
qed

lemma cobs_fold_invar:
  "n \<le> 16 \<Longrightarrow> cobs_invar (map (\<lambda>i. to_u8 (input ! i)) [0..<n])
    (fold (\<lambda>i. cobs_step (to_u32 (to_u8 (input ! i)))) [0..<n]
      \<lparr>outbuf = map junk [0..<18], write_at = 1, code_index = 0, block_code = 1\<rparr>)"
proof (induction n)
  case 0
  have "map junk [0..<18] = [junk 0] @ map junk [1..<18]" by (simp add: upt_conv_Cons del: upt_rec_numeral)
  then show ?case by (auto simp: cobs_invar_def Let_def simp del: upt_rec_numeral)
next
  case (Suc n)
  then show ?case
    using cobs_step_invar [of "map (\<lambda>i. to_u8 (input ! i)) [0..<n]" _ "to_u8 (input ! n)"] by simp
qed

lemma cobs_frame_encode:
  fixes input :: "u32 list"
  assumes "len \<le> 16"
  defines "bs \<equiv> map (\<lambda>i. to_u8 (input ! i)) [0..<len]"
  shows "write_at (cobs_frame junk len input) = length (cobs_encode bs)"
    and "take (length (cobs_encode bs)) (outbuf (cobs_frame junk len input)) = map ucast (cobs_encode bs)"
proof -
  define c where "c = fold (\<lambda>i. cobs_step (to_u32 (to_u8 (input ! i)))) [0..<len]
      \<lparr>outbuf = map junk [0..<18], write_at = 1, code_index = 0, block_code = 1\<rparr>"
  let ?closed = "concat (map cobs_block (butlast (zero_blocks bs)))" and ?open = "last (zero_blocks bs)"
  have inv: "cobs_invar bs c"
    unfolding bs_def c_def using assms(1) by (rule cobs_fold_invar)
  have f: "cobs_frame junk len input = c\<lparr>outbuf := (outbuf c)[code_index c := block_code c]\<rparr>"
    by (simp add: cobs_frame_def c_def Let_def)
  show w: "write_at (cobs_frame junk len input) = length (cobs_encode bs)"
    using cobs_invar_length(1) [OF inv] by (simp add: f length_cobs_encode)
  obtain x rest where o: "outbuf c = map ucast ?closed @ [x] @ map ucast ?open @ rest"
    using inv by (auto simp: cobs_invar_def Let_def)
  have "length ?open + 1 < 256"
    using cobs_invar_length(2) [OF inv] assms(1) by (simp add: bs_def)
  then have "to_u32 (of_nat (length ?open + 1) :: u8) = of_nat (length ?open + 1)"
    by (simp add: word_unat_eq_iff unsigned_of_nat take_bit_nat_eq_self del: of_nat_add of_nat_Suc)
  moreover have e: "cobs_encode bs = ?closed @ cobs_block ?open"
    unfolding cobs_encode_def by (rule concat_map_last) simp
  moreover have "code_index c = length ?closed" "block_code c = of_nat (length ?open + 1)"
    using inv by (simp_all add: cobs_invar_def Let_def)
  ultimately show "take (length (cobs_encode bs)) (outbuf (cobs_frame junk len input)) = map ucast (cobs_encode bs)"
    by (simp add: f o list_update_append cobs_block_def)
qed

lemma cobs_predicted:
  assumes "len \<le> 16"
  shows "cobs_kernel junk len input = cobs_prediction len input"
proof -
  let ?c = "cobs_frame junk len input" and ?e = "cobs_encode (map (\<lambda>i. to_u8 (input ! i)) [0..<len])"
  note f = cobs_frame_encode [OF assms, where input = input and junk = junk]
  have "length ?e \<le> length (outbuf ?c)"
    using arg_cong [OF f(2), of length] by simp
  then have "fold (\<lambda>i. digest_step (outbuf ?c ! i)) [0..<length ?e] r = fold digest_step (map ucast ?e) r" for r
    using fold_index [of "length ?e" "outbuf ?c" digest_step r] f(2) by simp
  then show ?thesis
    by (simp add: cobs_kernel_def cobs_prediction_def Let_def f(1) digest_def)
qed

lemma zero_blocks_no_zero: "0 \<notin> \<Union> (set ` set (zero_blocks bs))"
proof (induction bs)
  case (Cons a bs)
  obtain x xs where "zero_blocks bs = x # xs" by (cases "zero_blocks bs") simp_all
  then show ?case using Cons by auto
qed simp

lemma cobs_decode_block:
  assumes "length block < 255"
  shows "cobs_decode (cobs_block block) = Some block"
    and "rest \<noteq> [] \<Longrightarrow> cobs_decode (cobs_block block @ rest) = map_option (\<lambda>r. block @ 0 # r) (cobs_decode rest)"
proof -
  have "unat (of_nat (length block + 1) :: u8) = length block + 1"
    using assms by (simp add: unsigned_of_nat take_bit_nat_eq_self del: of_nat_add of_nat_Suc)
  then have u: "unat (of_nat (length block + 1) :: u8) - 1 = length block" "(of_nat (length block + 1) :: u8) \<noteq> 0"
    by auto
  then show "cobs_decode (cobs_block block) = Some block"
    "rest \<noteq> [] \<Longrightarrow> cobs_decode (cobs_block block @ rest) = map_option (\<lambda>r. block @ 0 # r) (cobs_decode rest)"
    unfolding cobs_block_def append_Cons cobs_decode.simps Let_def u(1) by simp_all
qed

lemma cobs_decode_blocks:
  "blocks \<noteq> [] \<Longrightarrow> \<forall>b\<in>set blocks. length b < 255 \<Longrightarrow>
    cobs_decode (concat (map cobs_block blocks)) = Some (concat (hd blocks # map ((#) 0) (tl blocks)))"
proof (induction blocks)
  case (Cons b blocks)
  show ?case
  proof (cases blocks)
    case Nil
    then show ?thesis using Cons.prems cobs_decode_block(1) [of b] by simp
  next
    case (Cons b' blocks')
    then have "concat (map cobs_block blocks) \<noteq> []" by (simp add: cobs_block_def)
    then show ?thesis
      using Cons.IH Cons.prems cobs_decode_block(2) [of b "concat (map cobs_block blocks)"] Cons by simp
  qed
qed simp

lemma zero_blocks_join: "concat (hd (zero_blocks bs) # map ((#) 0) (tl (zero_blocks bs))) = bs"
proof (induction bs)
  case (Cons a bs)
  obtain x xs where "zero_blocks bs = x # xs" by (cases "zero_blocks bs") simp_all
  then show ?case using Cons by auto
qed simp

lemma zero_blocks_lengths: "b \<in> set (zero_blocks bs) \<Longrightarrow> length b \<le> length bs"
proof (induction bs arbitrary: b)
  case (Cons a bs)
  obtain x xs where "zero_blocks bs = x # xs" by (cases "zero_blocks bs") simp_all
  then show ?case using Cons by (fastforce split: if_splits)
qed simp

lemma cobs_encode_ok:
  assumes "length bs < 255"
  shows "length (cobs_encode bs) = length bs + 1" and "0 \<notin> set (cobs_encode bs)"
    and "cobs_decode (cobs_encode bs) = Some bs"
proof -
  have l: "\<forall>b\<in>set (zero_blocks bs). length b < 255"
    using zero_blocks_lengths [of _ bs] assms by fastforce
  show "length (cobs_encode bs) = length bs + 1" by (rule length_cobs_encode)
  have "0 \<notin> set (cobs_block b)" if "b \<in> set (zero_blocks bs)" for b
  proof -
    have "unat (of_nat (length b + 1) :: u8) = length b + 1"
      using l that by (simp add: unsigned_of_nat take_bit_nat_eq_self del: of_nat_add of_nat_Suc)
    then have "(of_nat (length b + 1) :: u8) \<noteq> 0" by auto
    then show ?thesis
      using zero_blocks_no_zero [of bs] that unfolding cobs_block_def by auto
  qed
  then show "0 \<notin> set (cobs_encode bs)"
    by (auto simp: cobs_encode_def)
  show "cobs_decode (cobs_encode bs) = Some bs"
    unfolding cobs_encode_def using cobs_decode_blocks [OF zero_blocks_nonempty l] zero_blocks_join [of bs] by simp
qed

section \<open>The kernels meet their predictions\<close>

interpretation move_kernel: predicted_kernel "move_kernel junk (s mod 5) (5 + s mod 4) (4 + s mod 4)"
    "move_prediction (s mod 5) (5 + s mod 4) (4 + s mod 4)" for junk s
proof
  fix input :: "u32 list"
  assume "length input = 16"
  moreover have "s mod 5 < 5" "s mod 4 < 4" by simp_all
  ultimately show "move_kernel junk (s mod 5) (5 + s mod 4) (4 + s mod 4) input =
      move_prediction (s mod 5) (5 + s mod 4) (4 + s mod 4) input"
    by (intro move_predicted) linarith+
qed

interpretation ring_kernel: predicted_kernel "ring_kernel junk (5 + s mod 7) (12 + s mod 4)"
    "ring_prediction (5 + s mod 7) (12 + s mod 4)" for junk s
  by unfold_locales (simp add: ring_predicted)

interpretation cobs_kernel: predicted_kernel "cobs_kernel junk (4 + s mod 12)" "cobs_prediction (4 + s mod 12)" for junk s
proof
  fix input :: "u32 list"
  have "s mod 12 < 12" by simp
  then show "cobs_kernel junk (4 + s mod 12) input = cobs_prediction (4 + s mod 12) input"
    by (intro cobs_predicted) linarith
qed

end
