(* ===== verification/Corpus_Cases_0.thy ===== *)
theory Corpus_Cases_0
  imports Corpus_Checksums Corpus_Bits Corpus_Control Corpus_Algorithms Corpus_Buffers
begin

text \<open>
  The programs 0 to 99 of the edge-case corpus, one definition per file: inputs, kernel with the parameters of the
  scenario, initial literals and statements, as the C text has them.  Their kernels are the crc32,
  crc16, fletcher32 and adler32 kernels.  Every program conforms to the prediction of its kernel.
\<close>

definition case_0000 :: "case_program" where
  "case_0000 =
     \<lparr>case_id = 0,
      case_input = [0x00000000, 0xf7b08d13, 0xd3903311, 0x699b75d7, 0x8ea6e215, 0x4cd22ca6, 0x67460372, 0xdc150993,
                    0xa61bd9db, 0xaaada190, 0xf7392707, 0x47baf6c7, 0x50ff4c9c, 0x7aa9048e, 0x2cceaa2d, 0xf597e739],
      case_kernel = crc32_kernel 4,
      reg_inputs = [1, 5, 9, 13], reg5_init = 0x00000000,
      memory_keys = [0x00000000, 0x00000000, 0x00000000, 0x00000000, 0x00000000, 0x00000000, 0x00000000, 0x00000000],
      case_stmts = [(Add_Carry, 2, 0, 2), (Add_Carry, 5, 4, 4), (Add_Carry, 3, 4, 2), (Short_Circuit, 3, 5, 2),
                    (Switch_Phi, 1, 0, 3), (Halfword_Swap, 2, 4, 1), (Popcount_Loop, 5, 0, 4), (Counted_Loop, 0, 2, 0),
                    (Add_Carry, 2, 3, 4), (Sub_Borrow, 3, 4, 5), (Minmax_Clamp, 0, 1, 0), (Reverse_Loop, 3, 1, 0)]\<rparr>"

definition case_0001 :: "case_program" where
  "case_0001 =
     \<lparr>case_id = 1,
      case_input = [0x34ea532c, 0x00000001, 0x26089117, 0xc99200f1, 0x98f36fc0, 0x5f3167a5, 0x2ebd9c0b, 0x0ee0cf5f,
                    0x415cd20a, 0xeb42135f, 0x61bfd020, 0x9f8c05b6, 0x88f98f75, 0xe34f1ec8, 0xf174bb14, 0xdca71647],
      case_kernel = crc32_kernel 5,
      reg_inputs = [2, 6, 10, 14], reg5_init = 0x9e3779b9,
      memory_keys = [0x00000001, 0x00000002, 0x00000004, 0x00000008, 0x00000010, 0x00000020, 0x00000040, 0x00000080],
      case_stmts = [(Sub_Borrow, 1, 3, 5), (Add_Carry, 4, 2, 3), (Add_Carry, 3, 0, 0), (Popcount_Loop, 4, 1, 3),
                    (Divide_Rem, 1, 0, 3), (Reverse_Loop, 2, 0, 4), (Multiply_Low, 0, 3, 5), (Switch_Phi, 5, 1, 4),
                    (Horner_Loop, 3, 4, 1), (Short_Circuit, 4, 0, 5), (Add_Carry, 0, 5, 1), (Horner_Loop, 4, 3, 5)]\<rparr>"

definition case_0002 :: "case_program" where
  "case_0002 =
     \<lparr>case_id = 2,
      case_input = [0xf56c33ef, 0xcfb0279c, 0x00000002, 0x9d8267b1, 0x6f335561, 0x9eac1622, 0xdea4e8f1, 0x0443ccd5,
                    0x34480786, 0x24cd5c0c, 0x67b9b0a8, 0x9ab608dc, 0xcff60b22, 0xa01da3d8, 0xc505b8dd, 0xa6ea6971],
      case_kernel = crc32_kernel 6,
      reg_inputs = [3, 7, 11, 15], reg5_init = 0x3c6ef372,
      memory_keys = [0x00000002, 0x00000004, 0x00000008, 0x00000010, 0x00000020, 0x00000040, 0x00000080, 0x00000100],
      case_stmts = [(Rotate_Mix, 0, 1, 3), (Add_Carry, 5, 2, 4), (Add_Carry, 5, 3, 1), (Carry_Chain, 5, 3, 2),
                    (Add_Carry, 1, 3, 1), (Divide_Rem, 2, 2, 0), (Multiply_Low, 0, 5, 0), (Rotate_Mix, 3, 4, 3),
                    (Halfword_Swap, 2, 2, 4), (Counted_Loop, 2, 1, 5), (Compare_Select, 2, 3, 2),
                    (Multiply_Low, 0, 4, 1)]\<rparr>"

definition case_0003 :: "case_program" where
  "case_0003 =
     \<lparr>case_id = 3,
      case_input = [0xb5ee13ae, 0xd3b172db, 0xc53b705f, 0x00000003, 0x7966d8b4, 0x8d4f5d21, 0x975f7788, 0xd6b60a19,
                    0xd30f0c57, 0x6522eec3, 0xf13f478f, 0x4280fbad, 0x17f0c8cb, 0x39fbb99e, 0x18bfa9e4, 0x8fda980f],
      case_kernel = crc32_kernel 7,
      reg_inputs = [4, 8, 12, 0], reg5_init = 0xdaa66d2b,
      memory_keys = [0x00000003, 0x00000006, 0x0000000c, 0x00000018, 0x00000030, 0x00000060, 0x000000c0, 0x00000180],
      case_stmts = [(Multiply_Low, 5, 2, 4), (Add_Carry, 2, 2, 1), (Add_Carry, 5, 3, 5), (Horner_Loop, 4, 1, 5),
                    (Gray_Decode, 5, 5, 1), (Reverse_Loop, 4, 4, 1), (Array_Scatter, 5, 0, 3), (Multiply_Low, 0, 5, 3),
                    (Multiply_Low, 1, 1, 3), (Horner_Loop, 5, 1, 1), (Reverse_Loop, 0, 3, 1),
                    (Compare_Select, 3, 0, 4)]\<rparr>"

definition case_0004 :: "case_program" where
  "case_0004 =
     \<lparr>case_id = 4,
      case_input = [0x7660f268, 0x87b1d80d, 0x15f7f180, 0x83a9511a, 0x0000007f, 0x712ef4ea, 0x2988810b, 0xa48f3eaf,
                    0x6e723443, 0x353478e3, 0x7b5dc698, 0x4323d0f7, 0x01a8fb63, 0x9359b9f1, 0xa5864668, 0x9c04ee05],
      case_kernel = crc32_kernel 8,
      reg_inputs = [5, 9, 13, 1], reg5_init = 0x78dde6e4,
      memory_keys = [0x00000004, 0x00000008, 0x00000010, 0x00000020, 0x00000040, 0x00000080, 0x00000100, 0x00000200],
      case_stmts = [(Divide_Rem, 1, 3, 4), (Add_Carry, 2, 1, 1), (Add_Carry, 5, 1, 5), (Sub_Borrow, 0, 5, 2),
                    (Popcount_Loop, 2, 5, 0), (Mask_Merge, 5, 4, 5), (Divide_Rem, 0, 2, 4), (Byte_Pack, 1, 0, 1),
                    (Add_Carry, 2, 4, 2), (Add_Carry, 3, 4, 5), (Minmax_Clamp, 3, 1, 3), (Counted_Loop, 3, 3, 3)]\<rparr>"

definition case_0005 :: "case_program" where
  "case_0005 =
     \<lparr>case_id = 5,
      case_input = [0x36e2d229, 0x9bb08d4a, 0xe06f5386, 0x23a0243c, 0x59de0129, 0x00000080, 0x60731e72, 0x767af863,
                    0x89353f92, 0x74dbca2c, 0xeddb31bf, 0x9b152386, 0xd9ae388a, 0x0abfa3b7, 0x783c5751, 0xb5341f7b],
      case_kernel = crc32_kernel 9,
      reg_inputs = [6, 10, 14, 2], reg5_init = 0x1715609d,
      memory_keys = [0x00000005, 0x0000000a, 0x00000014, 0x00000028, 0x00000050, 0x000000a0, 0x00000140, 0x00000280],
      case_stmts = [(Mask_Merge, 4, 0, 5), (Add_Carry, 1, 5, 2), (Add_Carry, 5, 5, 1), (Add_Carry, 3, 5, 1),
                    (Rotate_Mix, 2, 1, 2), (Byte_Pack, 3, 4, 2), (Counted_Loop, 3, 5, 5), (Compare_Select, 2, 3, 5),
                    (Gray_Decode, 3, 3, 1), (Array_Scatter, 2, 0, 3), (Short_Circuit, 1, 5, 0),
                    (Multiply_Low, 2, 3, 0)]\<rparr>"

definition case_0006 :: "case_program" where
  "case_0006 =
     \<lparr>case_id = 6,
      case_input = [0xf764b2ea, 0xbfb17282, 0xf6c410c8, 0x77b0437c, 0xae1e3b88, 0xa350ce6e, 0x000000ff, 0x7cd9fbe9,
                    0xfc21ea1e, 0xbb54857f, 0xebdd5137, 0x9e2f2eec, 0x9ea1bcdd, 0x49ed1ea7, 0x4c4d5498, 0xcf79604d],
      case_kernel = crc32_kernel 10,
      reg_inputs = [7, 11, 15, 3], reg5_init = 0xb54cda56,
      memory_keys = [0x00000006, 0x0000000c, 0x00000018, 0x00000030, 0x00000060, 0x000000c0, 0x00000180, 0x00000300],
      case_stmts = [(Compare_Select, 5, 0, 1), (Add_Carry, 2, 5, 5), (Add_Carry, 1, 4, 2), (Byte_Pack, 2, 5, 0),
                    (Compare_Select, 2, 4, 2), (Sub_Borrow, 1, 0, 4), (Counted_Loop, 1, 5, 0), (Gray_Decode, 4, 0, 0),
                    (Short_Circuit, 4, 3, 0), (Byte_Pack, 0, 3, 1), (Rotate_Mix, 3, 1, 3), (Gray_Decode, 4, 4, 0)]\<rparr>"

definition case_0007 :: "case_program" where
  "case_0007 =
     \<lparr>case_id = 7,
      case_input = [0xb7e692ab, 0xa3b027c5, 0x035cb2ce, 0xd7b9365a, 0xb84bb65d, 0xb0b3856d, 0xd991f5f1, 0x00000100,
                    0x1b66e1cf, 0xfabb37b0, 0x7d5ba610, 0x4619dd9d, 0x46a77f34, 0xd00b04e1, 0x91f745a1, 0xe6499133],
      case_kernel = crc32_kernel 11,
      reg_inputs = [8, 12, 0, 4], reg5_init = 0x5384540f,
      memory_keys = [0x00000007, 0x0000000e, 0x0000001c, 0x00000038, 0x00000070, 0x000000e0, 0x000001c0, 0x00000380],
      case_stmts = [(Byte_Pack, 2, 3, 4), (Add_Carry, 1, 1, 2), (Add_Carry, 5, 4, 0), (Compare_Select, 5, 3, 5),
                    (Array_Scatter, 0, 0, 0), (Byte_Pack, 1, 0, 1), (Minmax_Clamp, 4, 0, 1), (Reverse_Loop, 3, 5, 2),
                    (Multiply_Low, 3, 4, 3), (Carry_Chain, 5, 5, 3), (Counted_Loop, 5, 3, 2), (Reverse_Loop, 3, 2, 1)]\<rparr>"

definition case_0008 :: "case_program" where
  "case_0008 =
     \<lparr>case_id = 8,
      case_input = [0x70797167, 0x17b2272f, 0x5f5fb632, 0xbdff3c4d, 0x0efc3fc6, 0x372d9c3f, 0x63ddaac4, 0x892e9fd0,
                    0x7fffffff, 0xa9635ab0, 0x976b862e, 0xd0c3e79c, 0x10b92ddb, 0xe8dfad9c, 0xa728f3fb, 0xa67f45b5],
      case_kernel = crc32_kernel 12,
      reg_inputs = [9, 13, 1, 5], reg5_init = 0xf1bbcdc8,
      memory_keys = [0x00000008, 0x00000010, 0x00000020, 0x00000040, 0x00000080, 0x00000100, 0x00000200, 0x00000400],
      case_stmts = [(Halfword_Swap, 0, 1, 1), (Add_Carry, 2, 0, 0), (Add_Carry, 3, 5, 4), (Rotate_Mix, 5, 1, 4),
                    (Byte_Pack, 1, 1, 0), (Byte_Pack, 3, 1, 0), (Byte_Pack, 5, 4, 1), (Array_Scatter, 2, 0, 3),
                    (Popcount_Loop, 2, 0, 4), (Horner_Loop, 4, 2, 1), (Horner_Loop, 2, 0, 2), (Divide_Rem, 5, 3, 0)]\<rparr>"

definition case_0009 :: "case_program" where
  "case_0009 =
     \<lparr>case_id = 9,
      case_input = [0x30fb5126, 0x0bb37268, 0xaac71434, 0x1df6496b, 0x18a9b213, 0x24ced73c, 0x2a2635bd, 0x5bdb591c,
                    0xb5b5e9f4, 0x80000000, 0x01ed7109, 0x08f514ed, 0xc8bfee32, 0x7139b7da, 0x7a92e2c2, 0x8f4fb4cb],
      case_kernel = crc32_kernel 13,
      reg_inputs = [10, 14, 2, 6], reg5_init = 0x8ff34781,
      memory_keys = [0x00000009, 0x00000012, 0x00000024, 0x00000048, 0x00000090, 0x00000120, 0x00000240, 0x00000480],
      case_stmts = [(Array_Scatter, 1, 4, 4), (Add_Carry, 3, 4, 3), (Add_Carry, 1, 3, 2), (Multiply_Low, 2, 3, 5),
                    (Halfword_Swap, 5, 1, 2), (Mask_Merge, 1, 5, 1), (Popcount_Loop, 0, 3, 0), (Halfword_Swap, 3, 5, 1),
                    (Carry_Chain, 3, 5, 1), (Rotate_Mix, 5, 0, 1), (Multiply_Low, 2, 4, 1), (Mask_Merge, 2, 3, 3)]\<rparr>"

definition case_0010 :: "case_program" where
  "case_0010 =
     \<lparr>case_id = 10,
      case_input = [0xf17d31e5, 0x2fb28da0, 0xbc6c577a, 0x49e62e2b, 0xef6988b2, 0xe553a6bb, 0xda3f4147, 0x51785a96,
                    0xc0a13c78, 0x2703a72c, 0xfffffffe, 0x0dcf1987, 0x8fb06a65, 0x326b0aca, 0x4ee3e10b, 0xf502cbfd],
      case_kernel = crc32_kernel 14,
      reg_inputs = [11, 15, 3, 7], reg5_init = 0x2e2ac13a,
      memory_keys = [0x0000000a, 0x00000014, 0x00000028, 0x00000050, 0x000000a0, 0x00000140, 0x00000280, 0x00000500],
      case_stmts = [(Counted_Loop, 0, 2, 0), (Add_Carry, 2, 4, 2), (Add_Carry, 1, 4, 3), (Divide_Rem, 1, 3, 0),
                    (Add_Carry, 3, 0, 4), (Switch_Phi, 5, 3, 1), (Mask_Merge, 4, 1, 1), (Sub_Borrow, 3, 0, 0),
                    (Endian_Swap, 2, 5, 2), (Add_Carry, 5, 1, 3), (Sub_Borrow, 2, 2, 4), (Array_Scatter, 0, 0, 3)]\<rparr>"

definition case_0011 :: "case_program" where
  "case_0011 =
     \<lparr>case_id = 11,
      case_input = [0xb1ff11a4, 0x33b3d8e7, 0x49f4f57c, 0xe9ef5b0d, 0xf93c0567, 0xf6b0edb8, 0x93c4de3e, 0x838d9c5a,
                    0x27e637a9, 0x66ec15e3, 0x916de6a6, 0xffffffff, 0x57b6a98c, 0xab8d108c, 0x9359f032, 0xdc323a83],
      case_kernel = crc32_kernel 15,
      reg_inputs = [12, 0, 4, 8], reg5_init = 0xcc623af3,
      memory_keys = [0x0000000b, 0x00000016, 0x0000002c, 0x00000058, 0x000000b0, 0x00000160, 0x000002c0, 0x00000580],
      case_stmts = [(Switch_Phi, 5, 5, 5), (Add_Carry, 1, 2, 1), (Add_Carry, 5, 0, 3), (Mask_Merge, 0, 1, 3),
                    (Byte_Pack, 5, 2, 4), (Array_Scatter, 5, 5, 2), (Byte_Pack, 5, 0, 2), (Divide_Rem, 0, 5, 0),
                    (Compare_Select, 3, 0, 3), (Array_Scatter, 2, 5, 5), (Mask_Merge, 4, 0, 1),
                    (Halfword_Swap, 3, 2, 0)]\<rparr>"

definition case_0012 :: "case_program" where
  "case_0012 =
     \<lparr>case_id = 12,
      case_input = [0x7271f062, 0x67b37231, 0x993874a3, 0x57cd1880, 0x00000000, 0x0ad14473, 0x2d1328bd, 0xf1b4a8ec,
                    0x9a9b0fbd, 0x36fa83c3, 0x1b0f67b1, 0xd45ac1ac, 0x00000000, 0x012f10e3, 0x2e601fbe, 0xcfec4c89],
      case_kernel = crc32_kernel 4,
      reg_inputs = [13, 1, 5, 9], reg5_init = 0x6a99b4ac,
      memory_keys = [0x0000000c, 0x00000018, 0x00000030, 0x00000060, 0x000000c0, 0x00000180, 0x00000300, 0x00000600],
      case_stmts = [(Short_Circuit, 3, 0, 1), (Add_Carry, 3, 1, 1), (Add_Carry, 1, 4, 3), (Switch_Phi, 0, 1, 4),
                    (Endian_Swap, 2, 0, 1), (Counted_Loop, 2, 3, 2), (Carry_Chain, 0, 4, 5), (Add_Carry, 3, 0, 2),
                    (Mask_Merge, 4, 1, 2), (Counted_Loop, 2, 0, 5), (Gray_Decode, 5, 0, 1), (Halfword_Swap, 3, 5, 1)]\<rparr>"

definition case_0013 :: "case_program" where
  "case_0013 =
     \<lparr>case_id = 13,
      case_input = [0x32f3d023, 0x7bb22776, 0x6ca0d6a5, 0xf7c46da6, 0xd984dcfa, 0x19320f70, 0x64e8b7c4, 0x23416e20,
                    0x7ddc046c, 0x7715310c, 0x8d899096, 0x00000080, 0x99e859cd, 0x00000001, 0xf3da0e87, 0xe6dcbdf7],
      case_kernel = crc32_kernel 5,
      reg_inputs = [14, 2, 6, 10], reg5_init = 0x08d12e65,
      memory_keys = [0x0000000d, 0x0000001a, 0x00000034, 0x00000068, 0x000000d0, 0x000001a0, 0x00000340, 0x00000680],
      case_stmts = [(Popcount_Loop, 4, 3, 4), (Add_Carry, 4, 5, 0), (Add_Carry, 1, 2, 3), (Counted_Loop, 1, 5, 3),
                    (Carry_Chain, 0, 4, 5), (Minmax_Clamp, 2, 5, 1), (Short_Circuit, 3, 5, 4), (Sub_Borrow, 0, 5, 4),
                    (Compare_Select, 5, 0, 3), (Multiply_Low, 3, 4, 5), (Switch_Phi, 1, 2, 4), (Sub_Borrow, 0, 3, 0)]\<rparr>"

definition case_0014 :: "case_program" where
  "case_0014 =
     \<lparr>case_id = 14,
      case_input = [0xf375b0e0, 0x5fb3d8be, 0xfffffffe, 0xa3d40ae6, 0x2e44e65b, 0xd8af7ef7, 0x94f1c33e, 0x29e26daa,
                    0x08c8d1e0, 0xb89a7e5f, 0x8b8ff01e, 0x09563fb7, 0xdee7dd9a, 0xdb9bb7b5, 0x00000002, 0x9c91c2c1],
      case_kernel = crc32_kernel 6,
      reg_inputs = [15, 3, 7, 11], reg5_init = 0xa708a81e,
      memory_keys = [0x0000000e, 0x0000001c, 0x00000038, 0x00000070, 0x000000e0, 0x000001c0, 0x00000380, 0x00000700],
      case_stmts = [(Reverse_Loop, 1, 5, 0), (Add_Carry, 1, 5, 1), (Add_Carry, 1, 5, 0), (Popcount_Loop, 0, 1, 0),
                    (Carry_Chain, 2, 5, 1), (Rotate_Mix, 4, 1, 5), (Halfword_Swap, 5, 3, 5), (Add_Carry, 2, 4, 5),
                    (Endian_Swap, 0, 0, 0), (Sub_Borrow, 5, 5, 5), (Endian_Swap, 1, 2, 3), (Array_Scatter, 4, 2, 4)]\<rparr>"

definition case_0015 :: "case_program" where
  "case_0015 =
     \<lparr>case_id = 15,
      case_input = [0xb3f790a1, 0x43b28df9, 0x8f9337ed, 0x03dd7fc0, 0x38116b8e, 0xcb4c35f4, 0xdd0a5c47, 0xfb17ab66,
                    0xef8fda31, 0x00000003, 0x1d090739, 0xd160ccc6, 0x06e11e73, 0x427dadf3, 0x1a111c77, 0x00000003],
      case_kernel = crc32_kernel 7,
      reg_inputs = [0, 4, 8, 12], reg5_init = 0x454021d7,
      memory_keys = [0x0000000f, 0x0000001e, 0x0000003c, 0x00000078, 0x000000f0, 0x000001e0, 0x000003c0, 0x00000780],
      case_stmts = [(Gray_Decode, 0, 2, 1), (Add_Carry, 0, 1, 0), (Add_Carry, 5, 1, 4), (Short_Circuit, 5, 3, 5),
                    (Array_Scatter, 4, 5, 3), (Minmax_Clamp, 4, 1, 2), (Carry_Chain, 0, 0, 4), (Mask_Merge, 5, 3, 5),
                    (Compare_Select, 1, 5, 3), (Add_Carry, 4, 1, 3), (Endian_Swap, 5, 4, 2), (Short_Circuit, 1, 0, 1)]\<rparr>"

definition case_0016 :: "case_program" where
  "case_0016 =
     \<lparr>case_id = 16,
      case_input = [0x7fffffff, 0x37b5d96b, 0xc80f3957, 0xc355e6e2, 0x1513f4f6, 0x862218eb, 0x3542e5ae, 0x8aac7426,
                    0xf693c87d, 0xd310d901, 0x5d9f114a, 0xd68d40b7, 0x78d6ecf9, 0x2ba144dc, 0x60f4e4af, 0x77be0755],
      case_kernel = crc32_kernel 8,
      reg_inputs = [1, 5, 9, 13], reg5_init = 0xe3779b90,
      memory_keys = [0x00000010, 0x00000020, 0x00000040, 0x00000080, 0x00000100, 0x00000200, 0x00000400, 0x00000800],
      case_stmts = [(Minmax_Clamp, 3, 5, 2), (Add_Carry, 2, 4, 0), (Add_Carry, 5, 4, 3), (Add_Carry, 4, 2, 4),
                    (Gray_Decode, 3, 1, 3), (Compare_Select, 5, 0, 3), (Halfword_Swap, 3, 4, 0), (Mask_Merge, 1, 4, 4),
                    (Sub_Borrow, 4, 4, 4), (Array_Scatter, 2, 3, 0), (Mask_Merge, 5, 1, 3), (Halfword_Swap, 5, 4, 1)]\<rparr>"

definition case_0017 :: "case_program" where
  "case_0017 =
     \<lparr>case_id = 17,
      case_input = [0x3cc85738, 0x00000080, 0x3d979b51, 0x635c93c4, 0x03467923, 0x95c153e8, 0x7cb97ad7, 0x00000001,
                    0x11d4c3ac, 0x92ff6bce, 0xcb19e66d, 0x0ebbb3c6, 0xa0d02f10, 0xb2475e9a, 0xbd4ef596, 0x5e8ef62b],
      case_kernel = crc32_kernel 9,
      reg_inputs = [2, 6, 10, 14], reg5_init = 0x81af1549,
      memory_keys = [0x00000011, 0x00000022, 0x00000044, 0x00000088, 0x00000110, 0x00000220, 0x00000440, 0x00000880],
      case_stmts = [(Endian_Swap, 0, 0, 1), (Add_Carry, 1, 0, 3), (Add_Carry, 1, 0, 1), (Mask_Merge, 3, 0, 3),
                    (Add_Carry, 1, 5, 5), (Halfword_Swap, 3, 4, 4), (Carry_Chain, 2, 5, 3), (Minmax_Clamp, 0, 5, 4),
                    (Compare_Select, 1, 3, 5), (Divide_Rem, 5, 3, 0), (Array_Scatter, 1, 3, 2), (Mask_Merge, 4, 2, 0)]\<rparr>"

definition case_0018 :: "case_program" where
  "case_0018 =
     \<lparr>case_id = 18,
      case_input = [0xfd4e37fb, 0x0fb573e4, 0x000000ff, 0x374cf484, 0xf4864382, 0x545c226f, 0x8ca00e2d, 0x52fab160,
                    0x64c01620, 0x5d70249d, 0xcd1f86e5, 0x0b81beac, 0xe7dfab47, 0xf115e38a, 0x000000ff, 0x24c3891d],
      case_kernel = crc32_kernel 10,
      reg_inputs = [3, 7, 11, 15], reg5_init = 0x1fe68f02,
      memory_keys = [0x00000012, 0x00000024, 0x00000048, 0x00000090, 0x00000120, 0x00000240, 0x00000480, 0x00000900],
      case_stmts = [(Carry_Chain, 5, 4, 1), (Add_Carry, 2, 4, 4), (Add_Carry, 3, 5, 2), (Compare_Select, 2, 4, 2),
                    (Halfword_Swap, 3, 0, 1), (Rotate_Mix, 3, 4, 2), (Compare_Select, 0, 3, 4), (Mask_Merge, 0, 4, 1),
                    (Endian_Swap, 2, 5, 4), (Reverse_Loop, 3, 0, 0), (Switch_Phi, 1, 5, 1), (Array_Scatter, 0, 1, 4)]\<rparr>"

definition case_0019 :: "case_program" where
  "case_0019 =
     \<lparr>case_id = 19,
      case_input = [0xbdcc17ba, 0x13b426a3, 0xdea47a19, 0x00000100, 0xe2d3ce57, 0xffffffff, 0xc55b9154, 0x800f77ac,
                    0x83871df1, 0x1c9f9652, 0x5b9971c2, 0xd3b74ddd, 0x3fd968ae, 0x68f3f9cc, 0x5485e766, 0x0df37863],
      case_kernel = crc32_kernel 11,
      reg_inputs = [4, 8, 12, 0], reg5_init = 0xbe1e08bb,
      memory_keys = [0x00000013, 0x00000026, 0x0000004c, 0x00000098, 0x00000130, 0x00000260, 0x000004c0, 0x00000980],
      case_stmts = [(Horner_Loop, 4, 3, 0), (Add_Carry, 3, 2, 1), (Add_Carry, 5, 5, 2), (Switch_Phi, 5, 2, 1),
                    (Gray_Decode, 5, 2, 5), (Add_Carry, 1, 0, 1), (Halfword_Swap, 5, 4, 5), (Short_Circuit, 1, 5, 3),
                    (Reverse_Loop, 3, 4, 5), (Byte_Pack, 4, 4, 2), (Switch_Phi, 1, 5, 4), (Divide_Rem, 5, 1, 1)]\<rparr>"

definition case_0020 :: "case_program" where
  "case_0020 =
     \<lparr>case_id = 20,
      case_input = [0x7e42f67c, 0x47b48c75, 0x0e68fbc6, 0x2967c22f, 0x7fffffff, 0xbbdec0a7, 0x7b8c67d7, 0xf236431a,
                    0x3efa25e5, 0x4c890072, 0xd1fbf0d5, 0xd2146687, 0x0000007f, 0xc251f9a3, 0xe9bc08ea, 0x1e2d0e69],
      case_kernel = crc32_kernel 12,
      reg_inputs = [5, 9, 13, 1], reg5_init = 0x5c558274,
      memory_keys = [0x00000014, 0x00000028, 0x00000050, 0x000000a0, 0x00000140, 0x00000280, 0x00000500, 0x00000a00],
      case_stmts = [(Add_Carry, 0, 4, 2), (Sub_Borrow, 5, 3, 3), (Add_Carry, 5, 3, 4), (Sub_Borrow, 5, 2, 4),
                    (Sub_Borrow, 4, 0, 0), (Byte_Pack, 0, 0, 1), (Popcount_Loop, 2, 0, 4), (Short_Circuit, 2, 0, 5),
                    (Sub_Borrow, 2, 1, 0), (Minmax_Clamp, 4, 1, 2), (Sub_Borrow, 4, 3, 2), (Short_Circuit, 1, 4, 0)]\<rparr>"

definition case_0021 :: "case_program" where
  "case_0021 =
     \<lparr>case_id = 21,
      case_input = [0x3ec0d63d, 0x5bb5d932, 0xfbf059c0, 0x80000000, 0xc26b17ca, 0x80000000, 0x3277f8ae, 0x20c385d6,
                    0xd9bd2e34, 0x0d66b2bd, 0x477d07f2, 0x0a2295f6, 0xf18798ef, 0x5bb7e3e5, 0x340619d3, 0x371dff17],
      case_kernel = crc32_kernel 13,
      reg_inputs = [6, 10, 14, 2], reg5_init = 0xfa8cfc2d,
      memory_keys = [0x00000015, 0x0000002a, 0x00000054, 0x000000a8, 0x00000150, 0x000002a0, 0x00000540, 0x00000a80],
      case_stmts = [(Sub_Borrow, 3, 3, 3), (Sub_Borrow, 2, 5, 2), (Add_Carry, 3, 5, 2), (Divide_Rem, 0, 4, 1),
                    (Rotate_Mix, 0, 4, 4), (Endian_Swap, 0, 2, 2), (Multiply_Low, 1, 5, 3), (Endian_Swap, 3, 3, 3),
                    (Reverse_Loop, 3, 2, 5), (Mask_Merge, 1, 1, 4), (Endian_Swap, 0, 1, 5), (Popcount_Loop, 2, 4, 5)]\<rparr>"

definition case_0022 :: "case_program" where
  "case_0022 =
     \<lparr>case_id = 22,
      case_input = [0xff46b6fe, 0x7fb426fa, 0xed5b1a8e, 0xdd7ed049, 0x35ab2d6b, 0x69a0fa23, 0xfffffffe, 0x2a60865c,
                    0xaca9fbb8, 0xc2e9fdee, 0x00000002, 0x0f18989c, 0xb6881cb8, 0x18e55ef5, 0x00771a1a, 0x4d508021],
      case_kernel = crc32_kernel 14,
      reg_inputs = [7, 11, 15, 3], reg5_init = 0x98c475e6,
      memory_keys = [0x00000016, 0x0000002c, 0x00000058, 0x000000b0, 0x00000160, 0x000002c0, 0x00000580, 0x00000b00],
      case_stmts = [(Rotate_Mix, 2, 1, 5), (Sub_Borrow, 1, 1, 5), (Add_Carry, 3, 0, 5), (Byte_Pack, 1, 4, 4),
                    (Counted_Loop, 4, 5, 4), (Byte_Pack, 0, 2, 2), (Switch_Phi, 3, 1, 4), (Divide_Rem, 1, 0, 2),
                    (Array_Scatter, 4, 4, 4), (Horner_Loop, 1, 2, 2), (Byte_Pack, 2, 5, 0), (Array_Scatter, 2, 1, 1)]\<rparr>"

definition case_0023 :: "case_program" where
  "case_0023 =
     \<lparr>case_id = 23,
      case_input = [0xbfc496bf, 0x00000100, 0x18c3b888, 0x7d77a56f, 0x23fea0be, 0x7a43b120, 0x8b95132d, 0xffffffff,
                    0x4beef069, 0x83064f21, 0xd7fd905d, 0xd72e6bed, 0x6e8edf51, 0x810344b3, 0xddcd0b23, 0x6460715f],
      case_kernel = crc32_kernel 15,
      reg_inputs = [8, 12, 0, 4], reg5_init = 0x36fbef9f,
      memory_keys = [0x00000017, 0x0000002e, 0x0000005c, 0x000000b8, 0x00000170, 0x000002e0, 0x000005c0, 0x00000b80],
      case_stmts = [(Multiply_Low, 5, 4, 2), (Sub_Borrow, 4, 3, 2), (Add_Carry, 3, 4, 1), (Counted_Loop, 2, 2, 5),
                    (Mask_Merge, 2, 3, 2), (Popcount_Loop, 4, 2, 5), (Array_Scatter, 4, 4, 1), (Mask_Merge, 4, 1, 4),
                    (Compare_Select, 1, 5, 5), (Counted_Loop, 4, 4, 4), (Switch_Phi, 2, 3, 1), (Minmax_Clamp, 3, 3, 2)]\<rparr>"

definition case_0024 :: "case_program" where
  "case_0024 =
     \<lparr>case_id = 24,
      case_input = [0x785b7573, 0xd7b77357, 0x44c0bc74, 0x1731af78, 0x95492925, 0xfddda872, 0x31d94c18, 0xdf97e265,
                    0x00000000, 0xd0de2221, 0x3dcdb063, 0x41f451ec, 0x38908dbe, 0xb9d7edce, 0xeb12bd79, 0x2456a5d9],
      case_kernel = crc32_kernel 4,
      reg_inputs = [9, 13, 1, 5], reg5_init = 0xd5336958,
      memory_keys = [0x00000018, 0x00000030, 0x00000060, 0x000000c0, 0x00000180, 0x00000300, 0x00000600, 0x00000c00],
      case_stmts = [(Divide_Rem, 5, 4, 1), (Sub_Borrow, 3, 0, 0), (Add_Carry, 1, 3, 3), (Counted_Loop, 0, 2, 0),
                    (Multiply_Low, 1, 0, 0), (Popcount_Loop, 2, 1, 2), (Counted_Loop, 1, 4, 5), (Reverse_Loop, 5, 2, 3),
                    (Halfword_Swap, 2, 3, 0), (Switch_Phi, 5, 3, 4), (Compare_Select, 3, 2, 1),
                    (Counted_Loop, 5, 2, 5)]\<rparr>"

definition case_0025 :: "case_program" where
  "case_0025 =
     \<lparr>case_id = 25,
      case_input = [0x00000000, 0xcbb62610, 0xb1581e72, 0xb738da5e, 0x831ca4f0, 0xee3ee371, 0x7822d361, 0x0d6224a9,
                    0xe53df852, 0x913190ee, 0xab4b4744, 0x99c2a29d, 0xe0964e57, 0x2031f788, 0x36a8ac40, 0x0d6654a7],
      case_kernel = crc16_kernel 4,
      reg_inputs = [10, 14, 2, 6], reg5_init = 0x736ae311,
      memory_keys = [0x00000019, 0x00000032, 0x00000064, 0x000000c8, 0x00000190, 0x00000320, 0x00000640, 0x00000c80],
      case_stmts = [(Mask_Merge, 2, 1, 0), (Sub_Borrow, 4, 4, 3), (Add_Carry, 3, 3, 3), (Gray_Decode, 1, 0, 1),
                    (Minmax_Clamp, 5, 0, 0), (Switch_Phi, 2, 5, 5), (Short_Circuit, 2, 3, 4), (Gray_Decode, 2, 3, 3),
                    (Byte_Pack, 1, 4, 3), (Compare_Select, 4, 1, 4), (Carry_Chain, 1, 4, 4), (Horner_Loop, 0, 4, 0)]\<rparr>"

definition case_0026 :: "case_program" where
  "case_0026 =
     \<lparr>case_id = 26,
      case_input = [0xf95f35f1, 0x00000001, 0xa7f35d3c, 0xe328bd1e, 0x74dc9e51, 0x2fa392f6, 0x883ba79b, 0x07c12723,
                    0x90292dde, 0x5ebedfbd, 0xad4d27cc, 0x9cf8aff7, 0xa799ca00, 0x63634a98, 0x02d9af89, 0x772b2b91],
      case_kernel = crc16_kernel 5,
      reg_inputs = [11, 15, 3, 7], reg5_init = 0x11a25cca,
      memory_keys = [0x0000001a, 0x00000034, 0x00000068, 0x000000d0, 0x000001a0, 0x00000340, 0x00000680, 0x00000d00],
      case_stmts = [(Compare_Select, 3, 5, 2), (Sub_Borrow, 5, 0, 4), (Add_Carry, 5, 0, 0), (Short_Circuit, 0, 2, 2),
                    (Short_Circuit, 3, 1, 0), (Array_Scatter, 4, 5, 1), (Halfword_Swap, 4, 5, 5),
                    (Compare_Select, 2, 2, 2), (Add_Carry, 4, 4, 2), (Add_Carry, 2, 0, 4), (Minmax_Clamp, 5, 4, 1),
                    (Multiply_Low, 2, 1, 4)]\<rparr>"

definition case_0027 :: "case_program" where
  "case_0027 =
     \<lparr>case_id = 27,
      case_input = [0xb9dd15b0, 0xf3b68c9f, 0x00000002, 0x4321c838, 0x62891384, 0x3c40d9f5, 0xc1c038e2, 0xd534e1ef,
                    0x776e260f, 0x1f516d72, 0x3bcbd0eb, 0x44ce5c86, 0x7f9f09e9, 0xfa8550de, 0xdf63beb0, 0x5e1bdaef],
      case_kernel = crc16_kernel 6,
      reg_inputs = [12, 0, 4, 8], reg5_init = 0xafd9d683,
      memory_keys = [0x0000001b, 0x00000036, 0x0000006c, 0x000000d8, 0x000001b0, 0x00000360, 0x000006c0, 0x00000d80],
      case_stmts = [(Byte_Pack, 0, 0, 5), (Sub_Borrow, 2, 0, 5), (Add_Carry, 5, 2, 0), (Endian_Swap, 5, 4, 5),
                    (Switch_Phi, 1, 5, 4), (Horner_Loop, 2, 1, 2), (Carry_Chain, 3, 2, 2), (Gray_Decode, 5, 1, 2),
                    (Byte_Pack, 1, 3, 3), (Endian_Swap, 5, 2, 4), (Minmax_Clamp, 3, 0, 2), (Counted_Loop, 5, 5, 1)]\<rparr>"

definition case_0028 :: "case_program" where
  "case_0028 =
     \<lparr>case_id = 28,
      case_input = [0x7a53f476, 0xa7b62649, 0x82a77ee5, 0x00000003, 0x546447cc, 0xc021703e, 0x7f17ce61, 0xa70dd559,
                    0xca131e1b, 0x4f47fb52, 0xb1a951fc, 0x456d77dc, 0x69c73a41, 0x502750b1, 0x625a513c, 0x4dc5ace5],
      case_kernel = crc16_kernel 7,
      reg_inputs = [13, 1, 5, 9], reg5_init = 0x4e11503c,
      memory_keys = [0x0000001c, 0x00000038, 0x00000070, 0x000000e0, 0x000001c0, 0x00000380, 0x00000700, 0x00000e00],
      case_stmts = [(Halfword_Swap, 0, 3, 3), (Sub_Borrow, 2, 5, 5), (Add_Carry, 3, 2, 0), (Switch_Phi, 5, 4, 0),
                    (Array_Scatter, 2, 1, 3), (Halfword_Swap, 3, 1, 0), (Byte_Pack, 2, 4, 1), (Multiply_Low, 4, 2, 4),
                    (Add_Carry, 0, 4, 0), (Carry_Chain, 5, 3, 4), (Compare_Select, 2, 4, 0), (Compare_Select, 1, 4, 0)]\<rparr>"

definition case_0029 :: "case_program" where
  "case_0029 =
     \<lparr>case_id = 29,
      case_input = [0x3ad1d437, 0xbbb7730e, 0x773fdce3, 0x5d0afe93, 0x0000007f, 0xd3c23b3d, 0x36ec5118, 0x75f81395,
                    0x2d5415ca, 0x0ea8499d, 0x272fa6db, 0x9d5b84ad, 0xb1c1f9a8, 0xc9c14af7, 0xbfe04005, 0x64f55d9b],
      case_kernel = crc16_kernel 8,
      reg_inputs = [14, 2, 6, 10], reg5_init = 0xec48c9f5,
      memory_keys = [0x0000001d, 0x0000003a, 0x00000074, 0x000000e8, 0x000001d0, 0x000003a0, 0x00000740, 0x00000e80],
      case_stmts = [(Array_Scatter, 5, 4, 2), (Sub_Borrow, 1, 1, 0), (Add_Carry, 3, 0, 4), (Reverse_Loop, 0, 4, 1),
                    (Rotate_Mix, 4, 5, 3), (Compare_Select, 1, 3, 5), (Endian_Swap, 1, 5, 0), (Counted_Loop, 1, 5, 2),
                    (Multiply_Low, 5, 5, 1), (Multiply_Low, 0, 1, 4), (Compare_Select, 2, 0, 1), (Switch_Phi, 4, 0, 5)]\<rparr>"

definition case_0030 :: "case_program" where
  "case_0030 =
     \<lparr>case_id = 30,
      case_input = [0xfb57b4f4, 0x9fb68cc6, 0x61949fad, 0x091a99d3, 0xb5f1f0b8, 0x00000080, 0xc6f525e2, 0x7f5b101f,
                    0x5840c046, 0xc12706ce, 0x2129c653, 0x986189c7, 0xf6ce7dff, 0x8a93f7e7, 0x8b9143cc, 0x1eb822ad],
      case_kernel = crc16_kernel 9,
      reg_inputs = [15, 3, 7, 11], reg5_init = 0x8a8043ae,
      memory_keys = [0x0000001e, 0x0000003c, 0x00000078, 0x000000f0, 0x000001e0, 0x000003c0, 0x00000780, 0x00000f00],
      case_stmts = [(Counted_Loop, 0, 0, 4), (Sub_Borrow, 0, 5, 3), (Add_Carry, 1, 3, 5), (Popcount_Loop, 5, 0, 4),
                    (Reverse_Loop, 2, 2, 3), (Short_Circuit, 3, 5, 5), (Endian_Swap, 3, 5, 1), (Gray_Decode, 1, 0, 3),
                    (Divide_Rem, 2, 3, 0), (Popcount_Loop, 0, 2, 2), (Minmax_Clamp, 0, 4, 2), (Gray_Decode, 2, 1, 5)]\<rparr>"

definition case_0031 :: "case_program" where
  "case_0031 =
     \<lparr>case_id = 31,
      case_input = [0xbbd594b5, 0x83b7d981, 0x940c3dab, 0xa913ecf5, 0xa3a47d6d, 0x01bc01b9, 0x000000ff, 0xadaed6d3,
                    0xbf07cb97, 0x80c8b401, 0xb7af3174, 0x40577ab6, 0x2ec8be16, 0x1375eda1, 0x562b52f5, 0x3788d3d3],
      case_kernel = crc16_kernel 10,
      reg_inputs = [0, 4, 8, 12], reg5_init = 0x28b7bd67,
      memory_keys = [0x0000001f, 0x0000003e, 0x0000007c, 0x000000f8, 0x000001f0, 0x000003e0, 0x000007c0, 0x00000f80],
      case_stmts = [(Switch_Phi, 1, 1, 5), (Sub_Borrow, 3, 1, 2), (Add_Carry, 5, 1, 5), (Minmax_Clamp, 0, 0, 1),
                    (Endian_Swap, 2, 4, 1), (Counted_Loop, 5, 5, 4), (Gray_Decode, 0, 0, 4), (Counted_Loop, 4, 3, 1),
                    (Byte_Pack, 5, 4, 1), (Halfword_Swap, 3, 0, 0), (Add_Carry, 4, 4, 1), (Counted_Loop, 5, 3, 2)]\<rparr>"

definition case_0032 :: "case_program" where
  "case_0032 =
     \<lparr>case_id = 32,
      case_input = [0x642c7b45, 0x77ba25e2, 0xe6ae279c, 0x3e0253bd, 0x2accc7d3, 0x5a344c2c, 0xe14f2f8e, 0x00000100,
                    0xcdf7b840, 0x3b68f66d, 0xbedca380, 0xfb69dc03, 0xa793bee8, 0xec4733eb, 0x20d1fd29, 0xe8b014e8],
      case_kernel = crc16_kernel 11,
      reg_inputs = [1, 5, 9, 13], reg5_init = 0xc6ef3720,
      memory_keys = [0x00000020, 0x00000040, 0x00000080, 0x00000100, 0x00000200, 0x00000400, 0x00000800, 0x00001000],
      case_stmts = [(Short_Circuit, 5, 5, 2), (Sub_Borrow, 1, 3, 2), (Add_Carry, 0, 2, 1), (Minmax_Clamp, 1, 4, 1),
                    (Compare_Select, 2, 4, 3), (Endian_Swap, 3, 1, 2), (Gray_Decode, 4, 4, 0), (Halfword_Swap, 0, 1, 0),
                    (Counted_Loop, 0, 4, 4), (Endian_Swap, 2, 2, 5), (Endian_Swap, 4, 1, 0), (Sub_Borrow, 1, 3, 2)]\<rparr>"

definition case_0033 :: "case_program" where
  "case_0033 =
     \<lparr>case_id = 33,
      case_input = [0x24ae5b04, 0x6bbb70a5, 0x1336859a, 0x9e0b269b, 0x3c994a06, 0x49d7072f, 0xa8b4b0f7, 0xfcdec81e,
                    0x7fffffff, 0x7a8744a2, 0x285a54a7, 0x235f2f72, 0x7f957d01, 0x75a129ad, 0xfd6bec10, 0xc180e596],
      case_kernel = crc16_kernel 12,
      reg_inputs = [2, 6, 10, 14], reg5_init = 0x6526b0d9,
      memory_keys = [0x00000021, 0x00000042, 0x00000084, 0x00000108, 0x00000210, 0x00000420, 0x00000840, 0x00001080],
      case_stmts = [(Popcount_Loop, 0, 0, 1), (Sub_Borrow, 2, 3, 5), (Add_Carry, 2, 2, 1), (Endian_Swap, 2, 2, 4),
                    (Popcount_Loop, 0, 0, 3), (Switch_Phi, 5, 3, 1), (Array_Scatter, 3, 5, 5), (Endian_Swap, 1, 4, 2),
                    (Array_Scatter, 1, 5, 1), (Add_Carry, 3, 0, 3), (Endian_Swap, 2, 1, 1), (Halfword_Swap, 4, 5, 3)]\<rparr>"

definition case_0034 :: "case_program" where
  "case_0034 =
     \<lparr>case_id = 34,
      case_input = [0xe5283bc7, 0x4fba8f6d, 0x059dc6d4, 0xca1b41db, 0xcb5970a7, 0x884a76a8, 0x58adc40d, 0xf67dcb94,
                    0x5fa4661d, 0x80000000, 0x2e5c342f, 0x26652218, 0x389af956, 0x36f394bd, 0xc91aefd9, 0xbbcd9aa0],
      case_kernel = crc16_kernel 13,
      reg_inputs = [3, 7, 11, 15], reg5_init = 0x035e2a92,
      memory_keys = [0x00000022, 0x00000044, 0x00000088, 0x00000110, 0x00000220, 0x00000440, 0x00000880, 0x00001100],
      case_stmts = [(Reverse_Loop, 5, 2, 3), (Sub_Borrow, 1, 1, 2), (Add_Carry, 2, 5, 0), (Counted_Loop, 5, 4, 5),
                    (Popcount_Loop, 0, 3, 5), (Endian_Swap, 5, 3, 5), (Mask_Merge, 5, 3, 0), (Minmax_Clamp, 1, 5, 1),
                    (Compare_Select, 2, 3, 2), (Compare_Select, 1, 5, 3), (Multiply_Low, 2, 1, 0),
                    (Divide_Rem, 4, 4, 5)]\<rparr>"

definition case_0035 :: "case_program" where
  "case_0035 =
     \<lparr>case_id = 35,
      case_input = [0xa5aa1b86, 0x53bbda2a, 0xf00564d2, 0x6a1234fd, 0xdd0cfd72, 0x9ba93dab, 0x11565b74, 0x24880d58,
                    0xb8e36dcc, 0xf4e7b93e, 0xfffffffe, 0xfe53d169, 0xe09c3abf, 0xaf158efb, 0x14a0fee0, 0x92fd6bde],
      case_kernel = crc16_kernel 14,
      reg_inputs = [4, 8, 12, 0], reg5_init = 0xa195a44b,
      memory_keys = [0x00000023, 0x00000046, 0x0000008c, 0x00000118, 0x00000230, 0x00000460, 0x000008c0, 0x00001180],
      case_stmts = [(Gray_Decode, 4, 1, 2), (Sub_Borrow, 2, 3, 3), (Add_Carry, 2, 3, 4), (Switch_Phi, 0, 0, 4),
                    (Carry_Chain, 2, 1, 5), (Gray_Decode, 1, 5, 0), (Multiply_Low, 0, 0, 1), (Mask_Merge, 2, 2, 3),
                    (Array_Scatter, 5, 2, 1), (Horner_Loop, 2, 1, 1), (Byte_Pack, 2, 3, 5), (Popcount_Loop, 3, 0, 0)]\<rparr>"

definition case_0036 :: "case_program" where
  "case_0036 =
     \<lparr>case_id = 36,
      case_input = [0x6624fa40, 0x07bb70fc, 0x20c9e50d, 0xd4307770, 0xebe1a93a, 0x67c89460, 0xaf81adf7, 0x56b139ee,
                    0x059e55d8, 0xa4f12f1e, 0x32b8421f, 0xffffffff, 0xf6c40917, 0x05b78e94, 0xa999116c, 0x81231dd4],
      case_kernel = crc16_kernel 15,
      reg_inputs = [5, 9, 13, 1], reg5_init = 0x3fcd1e04,
      memory_keys = [0x00000024, 0x00000048, 0x00000090, 0x00000120, 0x00000240, 0x00000480, 0x00000900, 0x00001200],
      case_stmts = [(Minmax_Clamp, 0, 2, 4), (Sub_Borrow, 0, 2, 3), (Add_Carry, 4, 5, 2), (Mask_Merge, 0, 2, 3),
                    (Add_Carry, 5, 3, 2), (Add_Carry, 4, 1, 0), (Rotate_Mix, 3, 4, 0), (Array_Scatter, 1, 1, 1),
                    (Reverse_Loop, 4, 1, 0), (Minmax_Clamp, 4, 0, 1), (Sub_Borrow, 5, 1, 5), (Sub_Borrow, 3, 5, 3)]\<rparr>"

definition case_0037 :: "case_program" where
  "case_0037 =
     \<lparr>case_id = 37,
      case_input = [0x26a6da01, 0x1bba25bb, 0xd551470b, 0x74390256, 0x00000000, 0x742bdf63, 0xe67a328e, 0x8444ff22,
                    0xe2d95e09, 0xe51e9dd1, 0xa43eb538, 0x27c60942, 0x00000000, 0x9c5194d2, 0x74230055, 0xa813ecaa],
      case_kernel = crc16_kernel 4,
      reg_inputs = [6, 10, 14, 2], reg5_init = 0xde0497bd,
      memory_keys = [0x00000025, 0x0000004a, 0x00000094, 0x00000128, 0x00000250, 0x000004a0, 0x00000940, 0x00001280],
      case_stmts = [(Endian_Swap, 1, 3, 5), (Sub_Borrow, 3, 0, 2), (Add_Carry, 4, 1, 4), (Divide_Rem, 3, 2, 4),
                    (Multiply_Low, 3, 3, 2), (Compare_Select, 2, 1, 5), (Minmax_Clamp, 2, 5, 1),
                    (Halfword_Swap, 4, 2, 3), (Sub_Borrow, 1, 4, 1), (Sub_Borrow, 5, 4, 1), (Popcount_Loop, 1, 3, 4),
                    (Add_Carry, 0, 5, 0)]\<rparr>"

definition case_0038 :: "case_program" where
  "case_0038 =
     \<lparr>case_id = 38,
      case_input = [0xe720bac2, 0x3fbbda73, 0xc3fa0445, 0x20296516, 0x0a741e4e, 0xb5b6aee4, 0x16634674, 0x8ee7fca8,
                    0x97cd8b85, 0x2a91d282, 0xa238d5b0, 0x00000080, 0x69cd4ea9, 0x00000001, 0x4052039c, 0xd25e939c],
      case_kernel = crc16_kernel 5,
      reg_inputs = [7, 11, 15, 3], reg5_init = 0x7c3c1176,
      memory_keys = [0x00000026, 0x0000004c, 0x00000098, 0x00000130, 0x00000260, 0x000004c0, 0x00000980, 0x00001300],
      case_stmts = [(Carry_Chain, 4, 5, 3), (Sub_Borrow, 2, 2, 1), (Add_Carry, 4, 2, 1), (Horner_Loop, 4, 4, 1),
                    (Switch_Phi, 1, 4, 2), (Add_Carry, 0, 1, 3), (Short_Circuit, 0, 3, 4), (Popcount_Loop, 2, 5, 4),
                    (Carry_Chain, 2, 4, 0), (Multiply_Low, 3, 3, 3), (Multiply_Low, 3, 1, 5), (Minmax_Clamp, 0, 4, 4)]\<rparr>"

definition case_0039 :: "case_program" where
  "case_0039 =
     \<lparr>case_id = 39,
      case_input = [0xa7a29a83, 0x23ba8f34, 0xfffffffe, 0x80201030, 0x1c21939b, 0xa655e5e7, 0x5f98d90d, 0x5c123a64,
                    0x708a8054, 0x6b7e604d, 0x34be2297, 0xfacaf759, 0xb1cb8d40, 0x46e53384, 0x00000002, 0xfb6e62e2],
      case_kernel = crc16_kernel 6,
      reg_inputs = [8, 12, 0, 4], reg5_init = 0x1a738b2f,
      memory_keys = [0x00000027, 0x0000004e, 0x0000009c, 0x00000138, 0x00000270, 0x000004e0, 0x000009c0, 0x00001380],
      case_stmts = [(Horner_Loop, 1, 2, 2), (Sub_Borrow, 3, 4, 2), (Add_Carry, 2, 4, 3), (Carry_Chain, 1, 4, 2),
                    (Divide_Rem, 1, 2, 4), (Counted_Loop, 2, 1, 0), (Reverse_Loop, 3, 0, 3), (Short_Circuit, 1, 0, 0),
                    (Popcount_Loop, 5, 3, 5), (Rotate_Mix, 4, 3, 1), (Multiply_Low, 5, 3, 4), (Array_Scatter, 5, 2, 3)]\<rparr>"

definition case_0040 :: "case_program" where
  "case_0040 =
     \<lparr>case_id = 40,
      case_input = [0x603d794f, 0x97b88fde, 0x6a61a2bf, 0xea661a27, 0xaa961a00, 0x21cbfcb5, 0xe5d48638, 0x7b109891,
                    0x391e83be, 0x00000003, 0xde8e02a9, 0x6c10cd58, 0xe7d5dfaf, 0x7e319af9, 0xab37a4ff, 0x00000003],
      case_kernel = crc16_kernel 7,
      reg_inputs = [9, 13, 1, 5], reg5_init = 0xb8ab04e8,
      memory_keys = [0x00000028, 0x00000050, 0x000000a0, 0x00000140, 0x00000280, 0x00000500, 0x00000a00, 0x00001400],
      case_stmts = [(Add_Carry, 5, 2, 3), (Rotate_Mix, 4, 3, 0), (Add_Carry, 4, 3, 1), (Rotate_Mix, 1, 2, 1),
                    (Counted_Loop, 2, 1, 4), (Carry_Chain, 4, 0, 1), (Array_Scatter, 2, 4, 3), (Horner_Loop, 4, 1, 5),
                    (Multiply_Low, 2, 1, 0), (Multiply_Low, 1, 4, 5), (Rotate_Mix, 4, 4, 4), (Multiply_Low, 3, 5, 0)]\<rparr>"

definition case_0041 :: "case_program" where
  "case_0041 =
     \<lparr>case_id = 41,
      case_input = [0x7fffffff, 0x8bb9da99, 0x9ff900b9, 0x4a6f6f01, 0xbcc397d5, 0x3228b7b6, 0xac2f1941, 0xa9e55e5d,
                    0xde59886f, 0x7949bf82, 0x4808f58e, 0xb4263e29, 0x3fd31c46, 0xe7d780bf, 0x768db5c6, 0x9268471a],
      case_kernel = crc16_kernel 8,
      reg_inputs = [10, 14, 2, 6], reg5_init = 0x56e27ea1,
      memory_keys = [0x00000029, 0x00000052, 0x000000a4, 0x00000148, 0x00000290, 0x00000520, 0x00000a40, 0x00001480],
      case_stmts = [(Sub_Borrow, 0, 5, 2), (Rotate_Mix, 1, 3, 1), (Add_Carry, 2, 5, 3), (Multiply_Low, 4, 4, 0),
                    (Mask_Merge, 0, 3, 0), (Halfword_Swap, 4, 2, 2), (Byte_Pack, 3, 3, 0), (Carry_Chain, 5, 4, 3),
                    (Divide_Rem, 5, 2, 3), (Reverse_Loop, 0, 4, 1), (Counted_Loop, 0, 4, 1), (Carry_Chain, 0, 1, 1)]\<rparr>"

definition case_0042 :: "case_program" where
  "case_0042 =
     \<lparr>case_id = 42,
      case_input = [0xe13939cd, 0x00000080, 0x895243f7, 0x1e7f0841, 0x4b03ad74, 0xf3b5c631, 0x5c366dbb, 0x00000001,
                    0xab4d5de3, 0xb6c6f0d1, 0x4e0e9506, 0xb11c3343, 0x78dc9811, 0xa4853daf, 0x42fcb60f, 0xe825382c],
      case_kernel = crc16_kernel 9,
      reg_inputs = [11, 15, 3, 7], reg5_init = 0xf519f85a,
      memory_keys = [0x0000002a, 0x00000054, 0x000000a8, 0x00000150, 0x000002a0, 0x00000540, 0x00000a80, 0x00001500],
      case_stmts = [(Rotate_Mix, 1, 1, 2), (Rotate_Mix, 2, 5, 4), (Add_Carry, 2, 2, 4), (Short_Circuit, 1, 4, 3),
                    (Endian_Swap, 2, 4, 4), (Reverse_Loop, 4, 4, 2), (Horner_Loop, 3, 5, 3), (Multiply_Low, 3, 3, 0),
                    (Horner_Loop, 0, 4, 4), (Minmax_Clamp, 2, 5, 5), (Add_Carry, 4, 2, 2), (Rotate_Mix, 4, 0, 3)]\<rparr>"

definition case_0043 :: "case_program" where
  "case_0043 =
     \<lparr>case_id = 43,
      case_input = [0xa1bb198c, 0xb3b97016, 0x000000ff, 0xbe767d67, 0x5d5620a1, 0xe0568d32, 0x15cdf2c2, 0x71b39b1b,
                    0x4c0a5632, 0xf729421e, 0xd8886221, 0x692ac032, 0xa0da5bf8, 0x3d6327e9, 0x000000ff, 0xc115c952],
      case_kernel = crc16_kernel 10,
      reg_inputs = [12, 0, 4, 8], reg5_init = 0x93517213,
      memory_keys = [0x0000002b, 0x00000056, 0x000000ac, 0x00000158, 0x000002b0, 0x00000560, 0x00000ac0, 0x00001580],
      case_stmts = [(Multiply_Low, 4, 0, 3), (Rotate_Mix, 1, 5, 3), (Add_Carry, 0, 0, 2), (Popcount_Loop, 0, 0, 4),
                    (Reverse_Loop, 0, 4, 4), (Divide_Rem, 2, 4, 3), (Mask_Merge, 2, 4, 0), (Carry_Chain, 4, 0, 2),
                    (Minmax_Clamp, 1, 3, 5), (Sub_Borrow, 3, 5, 3), (Short_Circuit, 0, 2, 5), (Multiply_Low, 1, 4, 0)]\<rparr>"

definition case_0044 :: "case_program" where
  "case_0044 =
     \<lparr>case_id = 44,
      case_input = [0x6235f84a, 0xe7b9dac0, 0xac06602e, 0x00000100, 0x6bbb74e9, 0xffffffff, 0xab1a0441, 0x038aafad,
                    0xf1776e26, 0xa73fd43e, 0x52eae336, 0x6889eb68, 0xb6826850, 0x97c12786, 0x227f48ba, 0xd2cbbf58],
      case_kernel = crc16_kernel 11,
      reg_inputs = [13, 1, 5, 9], reg5_init = 0x3188ebcc,
      memory_keys = [0x0000002c, 0x00000058, 0x000000b0, 0x00000160, 0x000002c0, 0x00000580, 0x00000b00, 0x00001600],
      case_stmts = [(Divide_Rem, 4, 1, 5), (Rotate_Mix, 5, 0, 1), (Add_Carry, 0, 0, 4), (Switch_Phi, 2, 0, 5),
                    (Halfword_Swap, 3, 4, 1), (Switch_Phi, 1, 0, 3), (Halfword_Swap, 1, 0, 1), (Counted_Loop, 3, 3, 4),
                    (Horner_Loop, 4, 2, 2), (Carry_Chain, 1, 0, 3), (Compare_Select, 1, 4, 5), (Gray_Decode, 3, 5, 3)]\<rparr>"

definition case_0045 :: "case_program" where
  "case_0045 =
     \<lparr>case_id = 45,
      case_input = [0x22b7d80b, 0xfbb88f87, 0x599ec228, 0xa05d4bcc, 0x7fffffff, 0x0fd46ffa, 0xe2e19b38, 0xd17f6961,
                    0x163065f7, 0xe6d066f1, 0xc46c1411, 0xb0bf1819, 0x0000007f, 0x0e273dc0, 0xffc55983, 0xfbfb4e26],
      case_kernel = crc16_kernel 12,
      reg_inputs = [14, 2, 6, 10], reg5_init = 0xcfc06585,
      memory_keys = [0x0000002d, 0x0000005a, 0x000000b4, 0x00000168, 0x000002d0, 0x000005a0, 0x00000b40, 0x00001680],
      case_stmts = [(Mask_Merge, 3, 0, 0), (Rotate_Mix, 2, 4, 0), (Add_Carry, 0, 0, 0), (Counted_Loop, 5, 2, 2),
                    (Multiply_Low, 5, 2, 5), (Popcount_Loop, 5, 0, 2), (Carry_Chain, 0, 3, 2), (Horner_Loop, 4, 0, 2),
                    (Minmax_Clamp, 1, 5, 3), (Multiply_Low, 2, 0, 5), (Compare_Select, 3, 0, 4),
                    (Carry_Chain, 4, 5, 4)]\<rparr>"

definition case_0046 :: "case_program" where
  "case_0046 =
     \<lparr>case_id = 46,
      case_input = [0xe331b8c8, 0xdfb9704f, 0x4f358166, 0x80000000, 0x8a2ec39d, 0x80000000, 0x12f8efc2, 0xdbdc6aeb,
                    0x6324b07b, 0x295f29a2, 0xc26a7499, 0xb5851573, 0x298b2fee, 0x4d7580d0, 0xcbb45a4a, 0x81b63110],
      case_kernel = crc16_kernel 13,
      reg_inputs = [15, 3, 7, 11], reg5_init = 0x6df7df3e,
      memory_keys = [0x0000002e, 0x0000005c, 0x000000b8, 0x00000170, 0x000002e0, 0x000005c0, 0x00000b80, 0x00001700],
      case_stmts = [(Compare_Select, 0, 4, 2), (Rotate_Mix, 5, 2, 5), (Add_Carry, 0, 5, 1), (Sub_Borrow, 2, 2, 5),
                    (Multiply_Low, 3, 3, 3), (Horner_Loop, 1, 4, 0), (Compare_Select, 0, 3, 5), (Carry_Chain, 2, 1, 5),
                    (Horner_Loop, 0, 5, 2), (Sub_Borrow, 0, 5, 1), (Minmax_Clamp, 3, 0, 1), (Compare_Select, 2, 4, 4)]\<rparr>"

definition case_0047 :: "case_program" where
  "case_0047 =
     \<lparr>case_id = 47,
      case_input = [0xa3b39889, 0xc3b82508, 0xbaad2360, 0x544459aa, 0x9c7b4e48, 0xddaa557e, 0xfffffffe, 0x0929ac27,
                    0x8463bbaa, 0x68b09b6d, 0x00000002, 0x6db3e602, 0xf18dec07, 0xd4939a96, 0x160e4b73, 0xa886c06e],
      case_kernel = crc16_kernel 14,
      reg_inputs = [0, 4, 8, 12], reg5_init = 0x0c2f58f7,
      memory_keys = [0x0000002f, 0x0000005e, 0x000000bc, 0x00000178, 0x000002f0, 0x000005e0, 0x00000bc0, 0x00001780],
      case_stmts = [(Byte_Pack, 3, 3, 1), (Rotate_Mix, 0, 2, 2), (Add_Carry, 2, 3, 1), (Add_Carry, 1, 0, 2),
                    (Divide_Rem, 1, 5, 5), (Array_Scatter, 1, 2, 3), (Divide_Rem, 1, 4, 2), (Multiply_Low, 5, 4, 5),
                    (Short_Circuit, 5, 0, 3), (Add_Carry, 1, 1, 3), (Halfword_Swap, 3, 0, 2), (Multiply_Low, 1, 4, 5)]\<rparr>"

definition case_0048 :: "case_program" where
  "case_0048 =
     \<lparr>case_id = 48,
      case_input = [0x6c0e7f51, 0x00000100, 0xfd312dda, 0x94ccc088, 0xb179d130, 0x90c47861, 0xb34bc952, 0xffffffff,
                    0x9d7fa9e6, 0x42d58efc, 0x147a95cd, 0x6a5e6a73, 0x8fba1e8d, 0xbd4f73b9, 0x6cebb3ab, 0x6a99f484],
      case_kernel = crc16_kernel 15,
      reg_inputs = [1, 5, 9, 13], reg5_init = 0xaa66d2b0,
      memory_keys = [0x00000030, 0x00000060, 0x000000c0, 0x00000180, 0x00000300, 0x00000600, 0x00000c00, 0x00001800],
      case_stmts = [(Halfword_Swap, 2, 0, 2), (Rotate_Mix, 2, 1, 2), (Add_Carry, 4, 2, 2), (Divide_Rem, 2, 3, 5),
                    (Rotate_Mix, 4, 3, 5), (Multiply_Low, 4, 5, 2), (Carry_Chain, 4, 2, 4), (Switch_Phi, 5, 3, 0),
                    (Horner_Loop, 4, 1, 0), (Array_Scatter, 5, 3, 4), (Divide_Rem, 3, 1, 5), (Switch_Phi, 1, 4, 1)]\<rparr>"

definition case_0049 :: "case_program" where
  "case_0049 =
     \<lparr>case_id = 49,
      case_input = [0x2c8c5f10, 0xabbe24dd, 0x08a98fdc, 0x34c5b5ae, 0xa72c5ce5, 0x83273362, 0xfab0562b, 0xaa67b5ab,
                    0x00000000, 0x033a3c33, 0x82fc62ea, 0xb2689902, 0x57bcdd64, 0x24a969ff, 0xb151a292, 0x43a905fa],
      case_kernel = crc16_kernel 4,
      reg_inputs = [2, 6, 10, 14], reg5_init = 0x489e4c69,
      memory_keys = [0x00000031, 0x00000062, 0x000000c4, 0x00000188, 0x00000310, 0x00000620, 0x00000c40, 0x00001880],
      case_stmts = [(Array_Scatter, 5, 1, 1), (Rotate_Mix, 5, 1, 1), (Add_Carry, 2, 0, 4), (Array_Scatter, 1, 5, 2),
                    (Endian_Swap, 2, 3, 1), (Popcount_Loop, 2, 3, 3), (Halfword_Swap, 3, 5, 1), (Rotate_Mix, 2, 0, 4),
                    (Halfword_Swap, 5, 2, 1), (Short_Circuit, 2, 1, 2), (Minmax_Clamp, 5, 3, 0),
                    (Compare_Select, 0, 0, 2)]\<rparr>"

definition case_0050 :: "case_program" where
  "case_0050 =
     \<lparr>case_id = 50,
      case_input = [0x00000000, 0x8fbfdb15, 0x1e02cc92, 0x60d5d2ee, 0x50ec6644, 0x42ba42e5, 0x0aa922d1, 0xa0c4b621,
                    0x0f2c77bb, 0xccb57360, 0x84fa0262, 0xb7529468, 0x10b35933, 0x67fbd4ef, 0x8520a15b, 0x39e47acc],
      case_kernel = fletcher32_kernel 4,
      reg_inputs = [3, 7, 11, 15], reg5_init = 0xe6d5c622,
      memory_keys = [0x00000032, 0x00000064, 0x000000c8, 0x00000190, 0x00000320, 0x00000640, 0x00000c80, 0x00001900],
      case_stmts = [(Counted_Loop, 4, 5, 5), (Rotate_Mix, 2, 3, 2), (Add_Carry, 0, 5, 5), (Carry_Chain, 4, 5, 3),
                    (Popcount_Loop, 4, 2, 3), (Multiply_Low, 0, 3, 3), (Add_Carry, 3, 1, 0), (Horner_Loop, 2, 1, 3),
                    (Switch_Phi, 2, 4, 4), (Reverse_Loop, 4, 2, 4), (Reverse_Loop, 3, 1, 1), (Compare_Select, 0, 5, 0)]\<rparr>"

definition case_0051 :: "case_program" where
  "case_0051 =
     \<lparr>case_id = 51,
      case_input = [0xad881f92, 0x00000001, 0xeb9a6e94, 0xc0dca7c8, 0x46b9eb91, 0x515909e6, 0x4352bda8, 0x723170ed,
                    0xe86b7c6a, 0x8d5ac1af, 0x127cf545, 0x6f646719, 0xc8b59ada, 0xfe1dcea9, 0x589ab062, 0x10d48bb2],
      case_kernel = fletcher32_kernel 5,
      reg_inputs = [4, 8, 12, 0], reg5_init = 0x850d3fdb,
      memory_keys = [0x00000033, 0x00000066, 0x000000cc, 0x00000198, 0x00000330, 0x00000660, 0x00000cc0, 0x00001980],
      case_stmts = [(Switch_Phi, 3, 2, 4), (Rotate_Mix, 5, 1, 5), (Add_Carry, 4, 1, 5), (Multiply_Low, 3, 3, 2),
                    (Compare_Select, 4, 4, 1), (Mask_Merge, 4, 5, 4), (Carry_Chain, 4, 4, 1), (Compare_Select, 1, 2, 5),
                    (Halfword_Swap, 1, 1, 3), (Byte_Pack, 1, 0, 0), (Carry_Chain, 5, 5, 0), (Multiply_Low, 5, 3, 5)]\<rparr>"

definition case_0052 :: "case_program" where
  "case_0052 =
     \<lparr>case_id = 52,
      case_input = [0x6e06fe54, 0xc7be2484, 0x00000002, 0x7efee445, 0x7054bfd9, 0xad38a02d, 0xfd854b2b, 0x0008445b,
                    0x5516447e, 0xdd4c578f, 0x981e7452, 0x6ec74c43, 0xdeeda972, 0x54bfcec6, 0xe5a35fee, 0x030afdb8],
      case_kernel = fletcher32_kernel 6,
      reg_inputs = [5, 9, 13, 1], reg5_init = 0x2344b994,
      memory_keys = [0x00000034, 0x00000068, 0x000000d0, 0x000001a0, 0x00000340, 0x00000680, 0x00000d00, 0x00001a00],
      case_stmts = [(Short_Circuit, 3, 3, 2), (Rotate_Mix, 1, 0, 5), (Add_Carry, 2, 5, 1), (Mask_Merge, 1, 5, 5),
                    (Minmax_Clamp, 1, 0, 2), (Reverse_Loop, 1, 3, 2), (Switch_Phi, 3, 0, 0), (Reverse_Loop, 4, 1, 5),
                    (Multiply_Low, 4, 2, 0), (Halfword_Swap, 5, 3, 2), (Divide_Rem, 2, 1, 0), (Multiply_Low, 5, 2, 2)]\<rparr>"

definition case_0053 :: "case_program" where
  "case_0053 =
     \<lparr>case_id = 53,
      case_input = [0x2e84de15, 0xdbbf71c3, 0xcece4d4d, 0x00000003, 0x6601320c, 0xbedbeb2e, 0xb47ed452, 0xd2fd8297,
                    0xb2514faf, 0x9ca3e540, 0x0e988375, 0xb6f1bf32, 0x06eb6a9b, 0xcd59d480, 0x38194ed7, 0x2a3a0cc6],
      case_kernel = fletcher32_kernel 7,
      reg_inputs = [6, 10, 14, 2], reg5_init = 0xc17c334d,
      memory_keys = [0x00000035, 0x0000006a, 0x000000d4, 0x000001a8, 0x00000350, 0x000006a0, 0x00000d40, 0x00001a80],
      case_stmts = [(Popcount_Loop, 0, 0, 5), (Rotate_Mix, 0, 2, 0), (Add_Carry, 0, 5, 5), (Halfword_Swap, 0, 3, 2),
                    (Byte_Pack, 3, 4, 0), (Halfword_Swap, 1, 1, 3), (Mask_Merge, 0, 5, 3), (Byte_Pack, 1, 4, 1),
                    (Halfword_Swap, 5, 1, 5), (Array_Scatter, 0, 3, 4), (Divide_Rem, 2, 5, 1), (Reverse_Loop, 4, 0, 3)]\<rparr>"

definition case_0054 :: "case_program" where
  "case_0054 =
     \<lparr>case_id = 54,
      case_input = [0xef02bed6, 0xffbe8e0b, 0xd8650e03, 0x8ae7f623, 0x0000007f, 0x7f469aa9, 0x4467a0a8, 0xd85e811d,
                    0xc7459a23, 0x532caa13, 0x089ee3fd, 0xb3cbb258, 0x41e4eecc, 0x8e0b6990, 0x0c684d1e, 0x507773f0],
      case_kernel = fletcher32_kernel 8,
      reg_inputs = [7, 11, 15, 3], reg5_init = 0x5fb3ad06,
      memory_keys = [0x00000036, 0x0000006c, 0x000000d8, 0x000001b0, 0x00000360, 0x000006c0, 0x00000d80, 0x00001b00],
      case_stmts = [(Reverse_Loop, 3, 4, 5), (Rotate_Mix, 3, 0, 3), (Add_Carry, 4, 4, 0), (Horner_Loop, 5, 5, 5),
                    (Multiply_Low, 3, 3, 2), (Rotate_Mix, 3, 1, 5), (Endian_Swap, 2, 5, 2), (Counted_Loop, 3, 5, 0),
                    (Multiply_Low, 4, 1, 0), (Switch_Phi, 4, 2, 0), (Carry_Chain, 2, 5, 2), (Counted_Loop, 2, 1, 3)]\<rparr>"

definition case_0055 :: "case_program" where
  "case_0055 =
     \<lparr>case_id = 55,
      case_input = [0xaf809e97, 0xe3bfdb4c, 0x2dfdac05, 0x2aee8305, 0x87948578, 0x00000080, 0x0d9c3fd1, 0x0aab47d1,
                    0x200291f2, 0x12c318dc, 0x9e1814da, 0x6bfd4129, 0x99e22d25, 0x17ed73d6, 0xd1d25c27, 0x7947828e],
      case_kernel = fletcher32_kernel 9,
      reg_inputs = [8, 12, 0, 4], reg5_init = 0xfdeb26bf,
      memory_keys = [0x00000037, 0x0000006e, 0x000000dc, 0x000001b8, 0x00000370, 0x000006e0, 0x00000dc0, 0x00001b80],
      case_stmts = [(Gray_Decode, 2, 5, 4), (Rotate_Mix, 4, 2, 0), (Add_Carry, 0, 4, 4), (Rotate_Mix, 4, 1, 4),
                    (Divide_Rem, 1, 1, 0), (Halfword_Swap, 5, 3, 4), (Gray_Decode, 1, 0, 1), (Horner_Loop, 0, 2, 4),
                    (Halfword_Swap, 1, 4, 5), (Compare_Select, 5, 4, 2), (Compare_Select, 4, 1, 3),
                    (Gray_Decode, 5, 1, 2)]\<rparr>"

definition case_0056 :: "case_program" where
  "case_0056 =
     \<lparr>case_id = 56,
      case_input = [0x681f7d5b, 0x57bddba6, 0x71fea8f9, 0x40a88912, 0x31230ce3, 0xeb3bc8f8, 0x000000ff, 0x2da9e524,
                    0x69969218, 0x411b75dc, 0x742834e4, 0xfd277b28, 0xcffc7fca, 0x2f39daab, 0xe70dea7d, 0x39715608],
      case_kernel = fletcher32_kernel 10,
      reg_inputs = [9, 13, 1, 5], reg5_init = 0x9c22a078,
      memory_keys = [0x00000038, 0x00000070, 0x000000e0, 0x000001c0, 0x00000380, 0x00000700, 0x00000e00, 0x00001c00],
      case_stmts = [(Minmax_Clamp, 2, 5, 5), (Rotate_Mix, 5, 5, 2), (Add_Carry, 0, 1, 4), (Counted_Loop, 0, 1, 3),
                    (Carry_Chain, 0, 4, 0), (Divide_Rem, 1, 4, 1), (Add_Carry, 2, 4, 1), (Halfword_Swap, 1, 1, 3),
                    (Counted_Loop, 0, 0, 0), (Horner_Loop, 2, 1, 0), (Byte_Pack, 1, 2, 1), (Popcount_Loop, 3, 0, 5)]\<rparr>"

definition case_0057 :: "case_program" where
  "case_0057 =
     \<lparr>case_id = 57,
      case_input = [0x289d5d1a, 0x4bbc8ee1, 0x84660aff, 0xe0a1fc34, 0x27768136, 0xf8d883fb, 0xfe2bff9d, 0x00000100,
                    0x8ed199c9, 0x00f4c713, 0xe2aec3c3, 0x25118859, 0x17fabc23, 0xb6dfc0ed, 0x3ab7fb44, 0x1041a776],
      case_kernel = fletcher32_kernel 11,
      reg_inputs = [10, 14, 2, 6], reg5_init = 0x3a5a1a31,
      memory_keys = [0x00000039, 0x00000072, 0x000000e4, 0x000001c8, 0x00000390, 0x00000720, 0x00000e40, 0x00001c80],
      case_stmts = [(Endian_Swap, 1, 2, 4), (Rotate_Mix, 2, 5, 1), (Add_Carry, 4, 5, 0), (Gray_Decode, 5, 3, 2),
                    (Sub_Borrow, 0, 4, 0), (Carry_Chain, 3, 4, 4), (Counted_Loop, 3, 3, 0), (Endian_Swap, 4, 2, 5),
                    (Sub_Borrow, 3, 5, 5), (Compare_Select, 1, 5, 0), (Byte_Pack, 1, 4, 0), (Add_Carry, 2, 4, 0)]\<rparr>"

definition case_0058 :: "case_program" where
  "case_0058 =
     \<lparr>case_id = 58,
      case_input = [0xe91b3dd9, 0x6fbd7129, 0x92cd49b1, 0xb4b19b74, 0xd0b6bb97, 0x3945f27c, 0x0e328b67, 0xf5ff2062,
                    0x7fffffff, 0xcf7b8840, 0xe4a8a34b, 0x202b8533, 0x50f53874, 0xf58d7dfd, 0x0ec6f88d, 0x6a0cd840],
      case_kernel = fletcher32_kernel 12,
      reg_inputs = [11, 15, 3, 7], reg5_init = 0xd89193ea,
      memory_keys = [0x0000003a, 0x00000074, 0x000000e8, 0x000001d0, 0x000003a0, 0x00000740, 0x00000e80, 0x00001d00],
      case_stmts = [(Carry_Chain, 2, 0, 2), (Rotate_Mix, 1, 3, 4), (Add_Carry, 2, 2, 1), (Add_Carry, 2, 5, 3),
                    (Sub_Borrow, 0, 3, 4), (Minmax_Clamp, 3, 2, 0), (Reverse_Loop, 1, 3, 1), (Add_Carry, 2, 5, 0),
                    (Compare_Select, 0, 3, 0), (Add_Carry, 5, 2, 4), (Endian_Swap, 1, 4, 5), (Add_Carry, 4, 5, 0)]\<rparr>"

definition case_0059 :: "case_program" where
  "case_0059 =
     \<lparr>case_id = 59,
      case_input = [0xa9991d98, 0x73bc246e, 0x6755ebb7, 0x14b8ee52, 0xc6e33642, 0x2aa6b97f, 0x47c9141e, 0x270ae6ae,
                    0x1c824794, 0x80000000, 0x722e546c, 0xf81d7642, 0x88f3fb9d, 0x6c6b67bb, 0xd37ce9b4, 0x433c293e],
      case_kernel = fletcher32_kernel 13,
      reg_inputs = [12, 0, 4, 8], reg5_init = 0x76c90da3,
      memory_keys = [0x0000003b, 0x00000076, 0x000000ec, 0x000001d8, 0x000003b0, 0x00000760, 0x00000ec0, 0x00001d80],
      case_stmts = [(Horner_Loop, 5, 5, 1), (Rotate_Mix, 0, 5, 1), (Add_Carry, 0, 0, 3), (Mask_Merge, 1, 3, 2),
                    (Compare_Select, 0, 3, 2), (Carry_Chain, 1, 4, 1), (Short_Circuit, 2, 4, 2),
                    (Array_Scatter, 3, 2, 0), (Array_Scatter, 3, 0, 3), (Endian_Swap, 2, 2, 4),
                    (Popcount_Loop, 1, 4, 0), (Popcount_Loop, 5, 5, 3)]\<rparr>"

definition case_0060 :: "case_program" where
  "case_0060 =
     \<lparr>case_id = 60,
      case_input = [0x6a17fc5e, 0x27bc8eb8, 0xb7996a68, 0xaa9aaddf, 0xf00e620a, 0xd6c710b4, 0xf91ee29d, 0x5533d218,
                    0xa1ff7f80, 0xde82acaf, 0xfffffffe, 0xf9be5d18, 0x9eabc835, 0xc6c967d4, 0x6e450638, 0x50e25f34],
      case_kernel = fletcher32_kernel 14,
      reg_inputs = [13, 1, 5, 9], reg5_init = 0x1500875c,
      memory_keys = [0x0000003c, 0x00000078, 0x000000f0, 0x000001e0, 0x000003c0, 0x00000780, 0x00000f00, 0x00001e00],
      case_stmts = [(Add_Carry, 1, 0, 3), (Multiply_Low, 0, 4, 3), (Add_Carry, 2, 0, 5), (Switch_Phi, 1, 5, 3),
                    (Minmax_Clamp, 1, 1, 3), (Mask_Merge, 4, 4, 1), (Endian_Swap, 1, 4, 5), (Sub_Borrow, 0, 5, 0),
                    (Compare_Select, 4, 3, 2), (Counted_Loop, 0, 5, 2), (Byte_Pack, 4, 4, 2), (Popcount_Loop, 1, 0, 4)]\<rparr>"

definition case_0061 :: "case_program" where
  "case_0061 =
     \<lparr>case_id = 61,
      case_input = [0x2a95dc1f, 0x3bbddbff, 0x4201c86e, 0x0a93d8f9, 0xe65befdf, 0xc5245bb7, 0xb0e57de4, 0x87c614d4,
                    0x46b87451, 0x9f6d1e60, 0x6eca225c, 0xffffffff, 0x46ad0bdc, 0x5f2f7d92, 0xb3ff1701, 0x79d2ae4a],
      case_kernel = fletcher32_kernel 15,
      reg_inputs = [14, 2, 6, 10], reg5_init = 0xb3380115,
      memory_keys = [0x0000003d, 0x0000007a, 0x000000f4, 0x000001e8, 0x000003d0, 0x000007a0, 0x00000f40, 0x00001e80],
      case_stmts = [(Sub_Borrow, 0, 5, 0), (Multiply_Low, 1, 4, 4), (Add_Carry, 4, 2, 1), (Reverse_Loop, 2, 1, 0),
                    (Horner_Loop, 3, 5, 5), (Multiply_Low, 4, 4, 0), (Horner_Loop, 4, 1, 4), (Halfword_Swap, 3, 4, 4),
                    (Mask_Merge, 1, 4, 1), (Gray_Decode, 5, 1, 2), (Horner_Loop, 0, 4, 3), (Divide_Rem, 4, 4, 5)]\<rparr>"

definition case_0062 :: "case_program" where
  "case_0062 =
     \<lparr>case_id = 62,
      case_input = [0xeb13bcdc, 0x1fbc2437, 0x54aa8b20, 0x5e83bfb9, 0x00000000, 0x04b92a30, 0x40fc091e, 0x8d65175e,
                    0x33aca1dd, 0x50e25133, 0x68cc42d4, 0x24b2a303, 0x00000000, 0x1c7dc082, 0x878e14c8, 0x039fd17c],
      case_kernel = fletcher32_kernel 4,
      reg_inputs = [15, 3, 7, 11], reg5_init = 0x516f7ace,
      memory_keys = [0x0000003e, 0x0000007c, 0x000000f8, 0x000001f0, 0x000003e0, 0x000007c0, 0x00000f80, 0x00001f00],
      case_stmts = [(Rotate_Mix, 1, 1, 4), (Multiply_Low, 2, 0, 3), (Add_Carry, 0, 1, 4), (Sub_Borrow, 1, 5, 5),
                    (Gray_Decode, 5, 2, 3), (Mask_Merge, 4, 0, 0), (Horner_Loop, 4, 5, 3), (Popcount_Loop, 1, 1, 5),
                    (Carry_Chain, 0, 2, 0), (Endian_Swap, 5, 0, 4), (Sub_Borrow, 4, 2, 4), (Short_Circuit, 2, 1, 1)]\<rparr>"

definition case_0063 :: "case_program" where
  "case_0063 =
     \<lparr>case_id = 63,
      case_input = [0xab919c9d, 0x03bd7170, 0xa1322926, 0xfe8aca9f, 0x07ce58ab, 0x175a6133, 0x09079667, 0x5f90d192,
                    0xd4ebaa0c, 0x110de3fc, 0xfe4ab5f3, 0x00000080, 0xd9a44c62, 0x00000001, 0x5a3405f1, 0x2aaf2002],
      case_kernel = fletcher32_kernel 5,
      reg_inputs = [0, 4, 8, 12], reg5_init = 0xefa6f487,
      memory_keys = [0x0000003f, 0x0000007e, 0x000000fc, 0x000001f8, 0x000003f0, 0x000007e0, 0x00000fc0, 0x00001f80],
      case_stmts = [(Multiply_Low, 4, 0, 5), (Multiply_Low, 5, 2, 0), (Add_Carry, 0, 3, 2), (Divide_Rem, 2, 5, 0),
                    (Divide_Rem, 5, 0, 3), (Horner_Loop, 0, 2, 5), (Array_Scatter, 5, 2, 2), (Add_Carry, 4, 0, 5),
                    (Sub_Borrow, 5, 3, 1), (Add_Carry, 4, 2, 0), (Sub_Borrow, 4, 2, 3), (Endian_Swap, 1, 5, 0)]\<rparr>"

definition case_0064 :: "case_program" where
  "case_0064 =
     \<lparr>case_id = 64,
      case_input = [0x54e0633d, 0xf7a5dcf0, 0xfffffffe, 0xc6a93902, 0xc672a998, 0x611eedb3, 0x69545a8b, 0x3a6d0710,
                    0xe0c112ed, 0x0025a33f, 0x6bfb9a22, 0x9b670380, 0xfd5803ba, 0xa72b4952, 0x00000002, 0x50fe2951],
      case_kernel = fletcher32_kernel 6,
      reg_inputs = [1, 5, 9, 13], reg5_init = 0x8dde6e40,
      memory_keys = [0x00000040, 0x00000080, 0x00000100, 0x00000200, 0x00000400, 0x00000800, 0x00001000, 0x00002000],
      case_stmts = [(Divide_Rem, 5, 3, 3), (Multiply_Low, 1, 0, 3), (Add_Carry, 3, 0, 5), (Divide_Rem, 5, 2, 4),
                    (Halfword_Swap, 0, 4, 1), (Compare_Select, 0, 5, 1), (Short_Circuit, 3, 1, 3),
                    (Gray_Decode, 0, 0, 0), (Endian_Swap, 1, 5, 3), (Add_Carry, 5, 0, 3), (Switch_Phi, 2, 3, 1),
                    (Add_Carry, 4, 0, 2)]\<rparr>"

definition case_0065 :: "case_program" where
  "case_0065 =
     \<lparr>case_id = 65,
      case_input = [0x1462437c, 0xeba489b7, 0x4c74b80d, 0x66a04c24, 0xd027244d, 0x72fda6b0, 0x20afc5f2, 0xe898c1dc,
                    0x0786193c, 0x00000003, 0xfd7d6d05, 0x4351f0f1, 0x255ec053, 0x3ecd5314, 0x50b16669, 0x00000003],
      case_kernel = fletcher32_kernel 7,
      reg_inputs = [2, 6, 10, 14], reg5_init = 0x2c15e7f9,
      memory_keys = [0x00000041, 0x00000082, 0x00000104, 0x00000208, 0x00000410, 0x00000820, 0x00001040, 0x00002080],
      case_stmts = [(Mask_Merge, 0, 4, 0), (Multiply_Low, 0, 2, 2), (Add_Carry, 5, 0, 5), (Endian_Swap, 0, 2, 3),
                    (Multiply_Low, 2, 2, 1), (Divide_Rem, 0, 3, 0), (Counted_Loop, 4, 4, 4), (Counted_Loop, 3, 3, 4),
                    (Counted_Loop, 4, 2, 2), (Array_Scatter, 2, 0, 3), (Gray_Decode, 0, 3, 4), (Endian_Swap, 1, 2, 3)]\<rparr>"

definition case_0066 :: "case_program" where
  "case_0066 =
     \<lparr>case_id = 66,
      case_input = [0x7fffffff, 0xcfa5767f, 0x5adffb43, 0x32b02b64, 0x27e71eec, 0xb360d737, 0xd0b6b108, 0xe23bc256,
                    0x7292ccb0, 0x8e455ea3, 0xfb7b0d8d, 0x466bfd9b, 0x62514404, 0x7d9fee04, 0x64c065a0, 0x0383a719],
      case_kernel = fletcher32_kernel 8,
      reg_inputs = [3, 7, 11, 15], reg5_init = 0xca4d61b2,
      memory_keys = [0x00000042, 0x00000084, 0x00000108, 0x00000210, 0x00000420, 0x00000840, 0x00001080, 0x00002100],
      case_stmts = [(Compare_Select, 3, 2, 2), (Multiply_Low, 1, 0, 5), (Add_Carry, 5, 3, 0), (Counted_Loop, 1, 0, 4),
                    (Byte_Pack, 2, 3, 3), (Compare_Select, 2, 1, 0), (Carry_Chain, 4, 2, 1), (Switch_Phi, 1, 4, 1),
                    (Mask_Merge, 1, 4, 5), (Gray_Decode, 2, 1, 1), (Endian_Swap, 4, 1, 1), (Mask_Merge, 1, 5, 5)]\<rparr>"

definition case_0067 :: "case_program" where
  "case_0067 =
     \<lparr>case_id = 67,
      case_input = [0x956603fe, 0x00000080, 0xaf475945, 0x92b95e42, 0x31b29339, 0xa0839c34, 0x994d2e71, 0x00000001,
                    0x95d5c761, 0xcfaaec6c, 0x6dfdfaaa, 0x9e5d0eea, 0xba5787ed, 0xe479f442, 0xb97a7499, 0x2ab35667],
      case_kernel = fletcher32_kernel 9,
      reg_inputs = [4, 8, 12, 0], reg5_init = 0x6884db6b,
      memory_keys = [0x00000043, 0x00000086, 0x0000010c, 0x00000218, 0x00000430, 0x00000860, 0x000010c0, 0x00002180],
      case_stmts = [(Byte_Pack, 2, 5, 5), (Multiply_Low, 4, 4, 4), (Add_Carry, 3, 3, 0), (Multiply_Low, 2, 2, 5),
                    (Short_Circuit, 4, 3, 1), (Halfword_Swap, 4, 5, 3), (Minmax_Clamp, 5, 1, 0), (Carry_Chain, 4, 3, 3),
                    (Counted_Loop, 4, 1, 4), (Reverse_Loop, 3, 1, 3), (Mask_Merge, 4, 1, 4), (Divide_Rem, 0, 3, 4)]\<rparr>"

definition case_0068 :: "case_program" where
  "case_0068 =
     \<lparr>case_id = 68,
      case_input = [0x56e8e238, 0x87a489ee, 0x000000ff, 0x2c9b1dcf, 0x075fc771, 0x5ce235ff, 0x279ad8f2, 0x42f7302c,
                    0x28a8ff75, 0x9fbc7a4c, 0xe79f7bbd, 0x9ffe25b0, 0xac0fb445, 0x4edbf42d, 0x000000ff, 0x396d206d],
      case_kernel = fletcher32_kernel 10,
      reg_inputs = [5, 9, 13, 1], reg5_init = 0x06bc5524,
      memory_keys = [0x00000044, 0x00000088, 0x00000110, 0x00000220, 0x00000440, 0x00000880, 0x00001100, 0x00002200],
      case_stmts = [(Halfword_Swap, 4, 2, 3), (Multiply_Low, 4, 5, 2), (Add_Carry, 3, 5, 0), (Endian_Swap, 4, 2, 2),
                    (Carry_Chain, 5, 3, 0), (Byte_Pack, 1, 1, 1), (Sub_Borrow, 0, 1, 3), (Carry_Chain, 1, 4, 3),
                    (Array_Scatter, 1, 2, 3), (Endian_Swap, 3, 0, 5), (Switch_Phi, 3, 3, 2), (Halfword_Swap, 0, 2, 1)]\<rparr>"

definition case_0069 :: "case_program" where
  "case_0069 =
     \<lparr>case_id = 69,
      case_input = [0x166ac279, 0x9ba5dca9, 0x8a137a9c, 0x00000100, 0x110a4aa4, 0xffffffff, 0x6e61478b, 0x9002f6e0,
                    0xcfeff4a4, 0xde53c883, 0x71198c9a, 0x47c8d6c1, 0x740977ac, 0xd73dee6b, 0xd9f98a2c, 0x105dd113],
      case_kernel = fletcher32_kernel 11,
      reg_inputs = [6, 10, 14, 2], reg5_init = 0xa4f3cedd,
      memory_keys = [0x00000045, 0x0000008a, 0x00000114, 0x00000228, 0x00000450, 0x000008a0, 0x00001140, 0x00002280],
      case_stmts = [(Array_Scatter, 3, 5, 4), (Multiply_Low, 1, 3, 5), (Add_Carry, 3, 5, 2), (Halfword_Swap, 1, 0, 1),
                    (Popcount_Loop, 3, 3, 0), (Mask_Merge, 5, 3, 0), (Gray_Decode, 3, 2, 4), (Switch_Phi, 0, 3, 3),
                    (Rotate_Mix, 4, 1, 0), (Short_Circuit, 4, 2, 1), (Multiply_Low, 5, 1, 5), (Endian_Swap, 5, 2, 4)]\<rparr>"

definition case_0070 :: "case_program" where
  "case_0070 =
     \<lparr>case_id = 70,
      case_input = [0xd7eca2ba, 0xbfa42361, 0x9cb839d2, 0xd8820fa9, 0x7fffffff, 0x8e9c0f7b, 0x9e783371, 0x9aa1f56a,
                    0xbafb2128, 0x11dc87d0, 0x771fec12, 0x42f2dbab, 0x0000007f, 0x946f537b, 0xed8889e5, 0x6a10ae25],
      case_kernel = fletcher32_kernel 12,
      reg_inputs = [7, 11, 15, 3], reg5_init = 0x432b4896,
      memory_keys = [0x00000046, 0x0000008c, 0x00000118, 0x00000230, 0x00000460, 0x000008c0, 0x00001180, 0x00002300],
      case_stmts = [(Counted_Loop, 4, 1, 4), (Multiply_Low, 4, 3, 0), (Add_Carry, 5, 4, 5), (Multiply_Low, 4, 4, 0),
                    (Popcount_Loop, 5, 4, 4), (Gray_Decode, 3, 1, 4), (Byte_Pack, 1, 0, 3), (Carry_Chain, 0, 4, 2),
                    (Sub_Borrow, 3, 1, 5), (Compare_Select, 0, 3, 5), (Sub_Borrow, 5, 1, 4), (Array_Scatter, 1, 1, 0)]\<rparr>"

definition case_0071 :: "case_program" where
  "case_0071 =
     \<lparr>case_id = 71,
      case_input = [0x976e82fb, 0xa3a57626, 0x69209bd4, 0x80000000, 0xf09ffdd0, 0x80000000, 0xd783ac08, 0x485433a6,
                    0x5dbc2af9, 0x5033351f, 0xe1991b35, 0x9ac428da, 0xeb003012, 0x0d89493d, 0x303298dc, 0x43205f5b],
      case_kernel = fletcher32_kernel 13,
      reg_inputs = [8, 12, 0, 4], reg5_init = 0xe162c24f,
      memory_keys = [0x00000047, 0x0000008e, 0x0000011c, 0x00000238, 0x00000470, 0x000008e0, 0x000011c0, 0x00002380],
      case_stmts = [(Switch_Phi, 1, 0, 5), (Multiply_Low, 5, 1, 5), (Add_Carry, 5, 4, 5), (Reverse_Loop, 5, 2, 1),
                    (Compare_Select, 1, 2, 2), (Array_Scatter, 1, 1, 1), (Endian_Swap, 0, 1, 2), (Switch_Phi, 3, 3, 0),
                    (Reverse_Loop, 2, 4, 0), (Multiply_Low, 5, 5, 1), (Array_Scatter, 1, 1, 3),
                    (Minmax_Clamp, 0, 5, 1)]\<rparr>"

definition case_0072 :: "case_program" where
  "case_0072 =
     \<lparr>case_id = 72,
      case_input = [0x50f16137, 0x17a776cc, 0x35239f28, 0x12cd7098, 0x4628744b, 0x1ae15d2a, 0xfffffffe, 0x6f569153,
                    0x14282913, 0x03eb581f, 0x00000002, 0x0c1e12db, 0xbd1e62fd, 0x355de040, 0x06ed2e86, 0x03168bdd],
      case_kernel = fletcher32_kernel 14,
      reg_inputs = [9, 13, 1, 5], reg5_init = 0x7f9a3c08,
      memory_keys = [0x00000048, 0x00000090, 0x00000120, 0x00000240, 0x00000480, 0x00000900, 0x00001200, 0x00002400],
      case_stmts = [(Short_Circuit, 1, 2, 4), (Multiply_Low, 4, 4, 1), (Add_Carry, 3, 1, 3), (Reverse_Loop, 5, 4, 0),
                    (Halfword_Swap, 0, 1, 0), (Popcount_Loop, 3, 2, 2), (Reverse_Loop, 3, 3, 2),
                    (Short_Circuit, 0, 4, 3), (Short_Circuit, 1, 2, 3), (Rotate_Mix, 0, 0, 1), (Add_Carry, 0, 2, 3),
                    (Carry_Chain, 0, 0, 2)]\<rparr>"

definition case_0073 :: "case_program" where
  "case_0073 =
     \<lparr>case_id = 73,
      case_input = [0x10734176, 0x00000100, 0xc0bb3d2e, 0xb2c405be, 0x507df99e, 0x09021629, 0x24346c44, 0xffffffff,
                    0xf36f22c2, 0x4204ead0, 0x9d2fcc2c, 0xd428e1aa, 0x6518a114, 0xacbbfa06, 0xdb573fbf, 0x2a267aa3],
      case_kernel = fletcher32_kernel 15,
      reg_inputs = [10, 14, 2, 6], reg5_init = 0x1dd1b5c1,
      memory_keys = [0x00000049, 0x00000092, 0x00000124, 0x00000248, 0x00000490, 0x00000920, 0x00001240, 0x00002480],
      case_stmts = [(Popcount_Loop, 2, 3, 5), (Multiply_Low, 5, 0, 0), (Add_Carry, 3, 3, 5), (Byte_Pack, 2, 2, 1),
                    (Switch_Phi, 4, 5, 4), (Horner_Loop, 5, 2, 5), (Divide_Rem, 4, 0, 1), (Mask_Merge, 1, 5, 5),
                    (Multiply_Low, 0, 3, 0), (Horner_Loop, 3, 0, 3), (Short_Circuit, 0, 4, 2), (Byte_Pack, 1, 2, 1)]\<rparr>"

definition case_0074 :: "case_program" where
  "case_0074 =
     \<lparr>case_id = 74,
      case_input = [0xd1f521b5, 0x2fa7dc43, 0xd6107e60, 0xe6d462fe, 0xa7bdc33f, 0xc89f67ae, 0xd42d18be, 0xb7005415,
                    0x00000000, 0x8d8ba583, 0x9b29aca4, 0xd112ecc0, 0x22172543, 0xefe94716, 0xef263c76, 0x506b0595],
      case_kernel = fletcher32_kernel 4,
      reg_inputs = [11, 15, 3, 7], reg5_init = 0xbc092f7a,
      memory_keys = [0x0000004a, 0x00000094, 0x00000128, 0x00000250, 0x000004a0, 0x00000940, 0x00001280, 0x00002500],
      case_stmts = [(Reverse_Loop, 3, 3, 5), (Multiply_Low, 4, 0, 3), (Add_Carry, 1, 2, 2), (Minmax_Clamp, 1, 2, 0),
                    (Switch_Phi, 2, 0, 4), (Endian_Swap, 1, 2, 3), (Divide_Rem, 4, 2, 4), (Halfword_Swap, 5, 4, 0),
                    (Add_Carry, 3, 5, 1), (Mask_Merge, 3, 5, 3), (Reverse_Loop, 2, 4, 3), (Byte_Pack, 5, 3, 5)]\<rparr>"

definition case_0075 :: "case_program" where
  "case_0075 =
     \<lparr>case_id = 75,
      case_input = [0x00000000, 0x33a68904, 0x2388dc66, 0x46dd17d8, 0xb1e84eea, 0xdb7c2cad, 0x9dd687c7, 0x65f592d9,
                    0x613cfc9f, 0xcc64174c, 0x0daf5b83, 0x09241fb1, 0xfa11e6aa, 0x760f5d50, 0x329c2d4f, 0x795bf4eb],
      case_kernel = adler32_kernel 4,
      reg_inputs = [12, 0, 4, 8], reg5_init = 0x5a40a933,
      memory_keys = [0x0000004b, 0x00000096, 0x0000012c, 0x00000258, 0x000004b0, 0x00000960, 0x000012c0, 0x00002580],
      case_stmts = [(Gray_Decode, 0, 4, 4), (Multiply_Low, 3, 2, 4), (Add_Carry, 3, 2, 2), (Array_Scatter, 4, 0, 3),
                    (Halfword_Swap, 0, 2, 4), (Multiply_Low, 1, 4, 0), (Counted_Loop, 3, 5, 1), (Endian_Swap, 2, 3, 4),
                    (Horner_Loop, 4, 2, 4), (Short_Circuit, 0, 1, 5), (Counted_Loop, 4, 0, 0), (Counted_Loop, 4, 1, 4)]\<rparr>"

definition case_0076 :: "case_program" where
  "case_0076 =
     \<lparr>case_id = 76,
      case_input = [0x52f9e032, 0x00000001, 0xf3445db9, 0xf8ff5455, 0x87051aa2, 0x271d8566, 0x23017144, 0x17cca66f,
                    0xdc41c48b, 0x9c72816c, 0x87cdda94, 0x088734eb, 0xec49d502, 0xdcad5d3f, 0x8fa5c2c3, 0x6a8582e1],
      case_kernel = adler32_kernel 5,
      reg_inputs = [13, 1, 5, 9], reg5_init = 0xf87822ec,
      memory_keys = [0x0000004c, 0x00000098, 0x00000130, 0x00000260, 0x000004c0, 0x00000980, 0x00001300, 0x00002600],
      case_stmts = [(Minmax_Clamp, 4, 1, 2), (Multiply_Low, 3, 1, 0), (Add_Carry, 5, 2, 4), (Byte_Pack, 2, 0, 4),
                    (Compare_Select, 1, 0, 5), (Add_Carry, 4, 0, 0), (Switch_Phi, 2, 5, 2), (Endian_Swap, 1, 0, 4),
                    (Divide_Rem, 1, 5, 3), (Switch_Phi, 4, 2, 3), (Divide_Rem, 5, 4, 0), (Compare_Select, 2, 4, 3)]\<rparr>"

definition case_0077 :: "case_program" where
  "case_0077 =
     \<lparr>case_id = 77,
      case_input = [0x127bc073, 0x7ba77695, 0x00000002, 0x58f62173, 0x91509777, 0x34fece65, 0x6afaee3d, 0xc53960a3,
                    0x3b06cf5a, 0xdd9d33a3, 0x114b2db3, 0xd0b1c79a, 0x344f16eb, 0x454b4779, 0x521fd3fa, 0x43b5739f],
      case_kernel = adler32_kernel 6,
      reg_inputs = [14, 2, 6, 10], reg5_init = 0x96af9ca5,
      memory_keys = [0x0000004d, 0x0000009a, 0x00000134, 0x00000268, 0x000004d0, 0x000009a0, 0x00001340, 0x00002680],
      case_stmts = [(Endian_Swap, 5, 4, 1), (Multiply_Low, 0, 3, 1), (Add_Carry, 5, 2, 0), (Carry_Chain, 1, 0, 5),
                    (Popcount_Loop, 5, 0, 1), (Carry_Chain, 0, 4, 1), (Mask_Merge, 1, 4, 1), (Divide_Rem, 4, 3, 2),
                    (Horner_Loop, 4, 4, 0), (Reverse_Loop, 5, 4, 5), (Short_Circuit, 3, 4, 1), (Multiply_Low, 5, 2, 2)]\<rparr>"

definition case_0078 :: "case_program" where
  "case_0078 =
     \<lparr>case_id = 78,
      case_input = [0xd3fda0b0, 0x5fa6895d, 0x1077bcf1, 0x00000003, 0x6690add6, 0xf563bfe2, 0x9ae39ac7, 0xcf9a6329,
                    0x4e121ad6, 0x12127cf0, 0x174d4d3b, 0xd58bcaf0, 0x734092bc, 0x0619fa69, 0x666ed033, 0x39f80ca9],
      case_kernel = adler32_kernel 7,
      reg_inputs = [15, 3, 7, 11], reg5_init = 0x34e7165e,
      memory_keys = [0x0000004e, 0x0000009c, 0x00000138, 0x00000270, 0x000004e0, 0x000009c0, 0x00001380, 0x00002700],
      case_stmts = [(Carry_Chain, 2, 2, 3), (Multiply_Low, 5, 5, 2), (Add_Carry, 5, 1, 1), (Array_Scatter, 0, 0, 4),
                    (Array_Scatter, 1, 3, 1), (Add_Carry, 2, 0, 5), (Popcount_Loop, 5, 4, 4), (Array_Scatter, 0, 0, 5),
                    (Short_Circuit, 3, 0, 3), (Divide_Rem, 1, 5, 5), (Counted_Loop, 3, 4, 4), (Horner_Loop, 1, 1, 4)]\<rparr>"

definition case_0079 :: "case_program" where
  "case_0079 =
     \<lparr>case_id = 79,
      case_input = [0x937f80f1, 0x43a7dc1a, 0xe5ef1ef7, 0xacef3315, 0x0000007f, 0xe680f4e1, 0xd31805be, 0x1d6fa5e5,
                    0xa9551107, 0x53fdce3f, 0x81cbba1c, 0x0dbd3981, 0xab465155, 0x9fffe02f, 0xbbd4c10a, 0x10c8fdd7],
      case_kernel = adler32_kernel 8,
      reg_inputs = [0, 4, 8, 12], reg5_init = 0xd31e9017,
      memory_keys = [0x0000004f, 0x0000009e, 0x0000013c, 0x00000278, 0x000004f0, 0x000009e0, 0x000013c0, 0x00002780],
      case_stmts = [(Horner_Loop, 5, 1, 4), (Multiply_Low, 2, 3, 5), (Add_Carry, 5, 5, 5), (Add_Carry, 1, 4, 1),
                    (Counted_Loop, 1, 1, 3), (Carry_Chain, 0, 2, 0), (Multiply_Low, 2, 5, 5), (Add_Carry, 5, 3, 5),
                    (Switch_Phi, 4, 3, 0), (Endian_Swap, 2, 1, 5), (Rotate_Mix, 1, 0, 5), (Reverse_Loop, 2, 5, 1)]\<rparr>"

definition case_0080 :: "case_program" where
  "case_0080 =
     \<lparr>case_id = 80,
      case_input = [0x5cc26729, 0x37a08888, 0xa273104d, 0x6c67aa37, 0x5dc7bf7b, 0x00000080, 0x3b50bc57, 0x6cd47aa5,
                    0xb049034b, 0x7998dbae, 0xc15dac6f, 0x0a50b5f0, 0xd571a3df, 0xf6230900, 0xc13139d2, 0xd2d7c93d],
      case_kernel = adler32_kernel 9,
      reg_inputs = [1, 5, 9, 13], reg5_init = 0x715609d0,
      memory_keys = [0x00000050, 0x000000a0, 0x00000140, 0x00000280, 0x00000500, 0x00000a00, 0x00001400, 0x00002800],
      case_stmts = [(Add_Carry, 4, 0, 5), (Divide_Rem, 4, 0, 5), (Add_Carry, 5, 4, 0), (Divide_Rem, 4, 3, 0),
                    (Halfword_Swap, 0, 3, 3), (Divide_Rem, 1, 5, 5), (Popcount_Loop, 5, 3, 5), (Short_Circuit, 5, 4, 4),
                    (Add_Carry, 1, 0, 1), (Divide_Rem, 0, 3, 0), (Counted_Loop, 3, 5, 2), (Compare_Select, 0, 5, 3)]\<rparr>"

definition case_0081 :: "case_program" where
  "case_0081 =
     \<lparr>case_id = 81,
      case_input = [0x1c404768, 0x2ba1ddcf, 0x57ebb24b, 0xcc6edf11, 0x4b9232ae, 0xb80d92fd, 0x000000ff, 0xbe21bc69,
                    0x570e089a, 0x38776961, 0x57db5b48, 0xd2664681, 0x0d776036, 0x6fc51346, 0x1c8b28eb, 0xfbe73843],
      case_kernel = adler32_kernel 10,
      reg_inputs = [2, 6, 10, 14], reg5_init = 0x0f8d8389,
      memory_keys = [0x00000051, 0x000000a2, 0x00000144, 0x00000288, 0x00000510, 0x00000a20, 0x00001440, 0x00002880],
      case_stmts = [(Sub_Borrow, 5, 1, 0), (Divide_Rem, 1, 0, 2), (Add_Carry, 1, 4, 2), (Sub_Borrow, 3, 1, 3),
                    (Byte_Pack, 4, 1, 1), (Counted_Loop, 5, 5, 0), (Gray_Decode, 2, 2, 2), (Mask_Merge, 2, 3, 0),
                    (Byte_Pack, 0, 1, 0), (Endian_Swap, 1, 1, 2), (Reverse_Loop, 3, 1, 3), (Multiply_Low, 1, 1, 2)]\<rparr>"

definition case_0082 :: "case_program" where
  "case_0082 =
     \<lparr>case_id = 82,
      case_input = [0xddc627ab, 0x0fa02207, 0x4140f105, 0x987eb851, 0xbc52080f, 0x7990e37a, 0x82b257d4, 0x00000100,
                    0x221add16, 0xf7f82632, 0x51dd3bc0, 0xd75c4beb, 0x4a78e461, 0x2c97ae56, 0x28fa2b22, 0x81aa4775],
      case_kernel = adler32_kernel 11,
      reg_inputs = [3, 7, 11, 15], reg5_init = 0xadc4fd42,
      memory_keys = [0x00000052, 0x000000a4, 0x00000148, 0x00000290, 0x00000520, 0x00000a40, 0x00001480, 0x00002900],
      case_stmts = [(Rotate_Mix, 2, 1, 0), (Divide_Rem, 2, 0, 5), (Add_Carry, 1, 3, 3), (Counted_Loop, 0, 5, 0),
                    (Switch_Phi, 0, 4, 3), (Short_Circuit, 5, 1, 0), (Switch_Phi, 0, 2, 3), (Divide_Rem, 4, 2, 5),
                    (Halfword_Swap, 5, 3, 1), (Switch_Phi, 3, 4, 2), (Add_Carry, 1, 1, 0), (Byte_Pack, 3, 0, 4)]\<rparr>"

definition case_0083 :: "case_program" where
  "case_0083 =
     \<lparr>case_id = 83,
      case_input = [0x9d4407ea, 0x13a17740, 0xb4d85303, 0x3877cd77, 0xaa0785da, 0x6a73a879, 0xcb49c8ad, 0x6677792f,
                    0x7fffffff, 0xb61794fd, 0xc75bcce7, 0x0f6ab89a, 0x927e2788, 0xb571b410, 0xf5403a1b, 0xa89ab60b],
      case_kernel = adler32_kernel 12,
      reg_inputs = [4, 8, 12, 0], reg5_init = 0x4bfc76fb,
      memory_keys = [0x00000053, 0x000000a6, 0x0000014c, 0x00000298, 0x00000530, 0x00000a60, 0x000014c0, 0x00002980],
      case_stmts = [(Multiply_Low, 1, 2, 3), (Divide_Rem, 5, 4, 4), (Add_Carry, 5, 5, 5), (Byte_Pack, 3, 3, 5),
                    (Add_Carry, 0, 4, 5), (Rotate_Mix, 1, 1, 1), (Sub_Borrow, 1, 5, 2), (Sub_Borrow, 3, 3, 3),
                    (Switch_Phi, 2, 4, 0), (Reverse_Loop, 2, 4, 0), (Divide_Rem, 1, 3, 1), (Compare_Select, 2, 4, 1)]\<rparr>"

definition case_0084 :: "case_program" where
  "case_0084 =
     \<lparr>case_id = 84,
      case_input = [0x5ecae62c, 0x47a1dd96, 0x6414d2dc, 0x86558efa, 0x9cead192, 0x961201b2, 0x759e3e2e, 0x144e4d99,
                    0x7820eed3, 0x80000000, 0x4d394df0, 0x0ec993c0, 0x84261420, 0x1fd3b47f, 0x4879d597, 0xbb44c001],
      case_kernel = adler32_kernel 13,
      reg_inputs = [5, 9, 13, 1], reg5_init = 0xea33f0b4,
      memory_keys = [0x00000054, 0x000000a8, 0x00000150, 0x000002a0, 0x00000540, 0x00000a80, 0x00001500, 0x00002a00],
      case_stmts = [(Divide_Rem, 3, 3, 3), (Divide_Rem, 3, 5, 4), (Add_Carry, 5, 1, 1), (Array_Scatter, 5, 1, 4),
                    (Carry_Chain, 1, 2, 2), (Endian_Swap, 0, 5, 5), (Halfword_Swap, 2, 5, 5), (Mask_Merge, 4, 4, 5),
                    (Divide_Rem, 5, 3, 1), (Sub_Borrow, 0, 1, 2), (Compare_Select, 4, 5, 5), (Carry_Chain, 0, 1, 2)]\<rparr>"

definition case_0085 :: "case_program" where
  "case_0085 =
     \<lparr>case_id = 85,
      case_input = [0x1e48c66d, 0x5ba088d1, 0x918c70da, 0x265cfbdc, 0x8abf5c47, 0x85f14ab1, 0x3c65a157, 0xc6bb8b55,
                    0x9f67e502, 0xa7eeb012, 0xfffffffe, 0xd6ff60b1, 0x5c20d7c9, 0x8635ae39, 0x95c3c4ae, 0x9274317f],
      case_kernel = adler32_kernel 14,
      reg_inputs = [6, 10, 14, 2], reg5_init = 0x886b6a6d,
      memory_keys = [0x00000055, 0x000000aa, 0x00000154, 0x000002a8, 0x00000550, 0x00000aa0, 0x00001540, 0x00002a80],
      case_stmts = [(Mask_Merge, 2, 4, 0), (Divide_Rem, 4, 3, 5), (Add_Carry, 1, 3, 5), (Divide_Rem, 0, 3, 5),
                    (Mask_Merge, 5, 4, 0), (Gray_Decode, 0, 5, 0), (Rotate_Mix, 5, 2, 4), (Halfword_Swap, 3, 1, 3),
                    (Gray_Decode, 4, 2, 2), (Minmax_Clamp, 1, 3, 2), (Rotate_Mix, 0, 5, 0), (Byte_Pack, 5, 1, 3)]\<rparr>"

definition case_0086 :: "case_program" where
  "case_0086 =
     \<lparr>case_id = 86,
      case_input = [0xdfcea6ae, 0x7fa17719, 0x87273394, 0x724c9c9c, 0x7d7f66e6, 0x446c3b36, 0xcc7cd5ad, 0xcc1888df,
                    0xea73308e, 0x6861ff41, 0xddb9da5f, 0xffffffff, 0x1b2f539e, 0xc5671329, 0xa1b2c767, 0xe8394e49],
      case_kernel = adler32_kernel 15,
      reg_inputs = [7, 11, 15, 3], reg5_init = 0x26a2e426,
      memory_keys = [0x00000056, 0x000000ac, 0x00000158, 0x000002b0, 0x00000560, 0x00000ac0, 0x00001580, 0x00002b00],
      case_stmts = [(Compare_Select, 1, 4, 2), (Divide_Rem, 5, 1, 0), (Add_Carry, 1, 0, 4), (Gray_Decode, 5, 3, 0),
                    (Array_Scatter, 3, 1, 4), (Popcount_Loop, 2, 1, 4), (Rotate_Mix, 1, 0, 5), (Array_Scatter, 3, 4, 0),
                    (Add_Carry, 1, 4, 3), (Rotate_Mix, 5, 2, 4), (Halfword_Swap, 2, 5, 5), (Gray_Decode, 3, 0, 1)]\<rparr>"

definition case_0087 :: "case_program" where
  "case_0087 =
     \<lparr>case_id = 87,
      case_input = [0x9f4c86ef, 0x63a0225e, 0x72bf9192, 0xd245e9ba, 0x00000000, 0x578f7035, 0x85874ad4, 0x1eed4e13,
                    0x0d343b5f, 0x298e4d8e, 0x4b3f2d78, 0x0bf39eaa, 0x00000000, 0x5c81096f, 0x7c08d65e, 0xc109bf37],
      case_kernel = adler32_kernel 4,
      reg_inputs = [8, 12, 0, 4], reg5_init = 0xc4da5ddf,
      memory_keys = [0x00000057, 0x000000ae, 0x0000015c, 0x000002b8, 0x00000570, 0x00000ae0, 0x000015c0, 0x00002b80],
      case_stmts = [(Byte_Pack, 2, 1, 1), (Divide_Rem, 4, 1, 5), (Add_Carry, 5, 0, 0), (Counted_Loop, 0, 3, 1),
                    (Reverse_Loop, 1, 1, 0), (Byte_Pack, 0, 5, 5), (Halfword_Swap, 4, 5, 4), (Halfword_Swap, 0, 3, 4),
                    (Switch_Phi, 2, 5, 4), (Horner_Loop, 0, 0, 2), (Short_Circuit, 0, 5, 2), (Rotate_Mix, 0, 2, 4)]\<rparr>"

definition case_0088 :: "case_program" where
  "case_0088 =
     \<lparr>case_id = 88,
      case_input = [0x58d36523, 0xd7a222b4, 0x2ebc956e, 0xb803e3ad, 0xdd9d62a8, 0xd0116967, 0x3fcb15e1, 0x39efece6,
                    0x44a038b5, 0x7a56208e, 0xa10f0d46, 0x00000080, 0x9537c298, 0x00000001, 0x4ad76004, 0x813f6bb1],
      case_kernel = adler32_kernel 5,
      reg_inputs = [9, 13, 1, 5], reg5_init = 0x6311d798,
      memory_keys = [0x00000058, 0x000000b0, 0x00000160, 0x000002c0, 0x00000580, 0x00000b00, 0x00001600, 0x00002c00],
      case_stmts = [(Halfword_Swap, 4, 5, 0), (Divide_Rem, 1, 0, 3), (Add_Carry, 1, 5, 4), (Reverse_Loop, 2, 5, 4),
                    (Short_Circuit, 0, 0, 4), (Multiply_Low, 4, 4, 4), (Switch_Phi, 3, 3, 2), (Switch_Phi, 3, 2, 5),
                    (Array_Scatter, 5, 1, 5), (Carry_Chain, 1, 1, 2), (Array_Scatter, 5, 0, 0),
                    (Short_Circuit, 4, 3, 3)]\<rparr>"

definition case_0089 :: "case_program" where
  "case_0089 =
     \<lparr>case_id = 89,
      case_input = [0x18514562, 0xcba377f3, 0xfffffffe, 0x180a968b, 0xcbc8ef7d, 0xc3f22264, 0x76308a98, 0xeb1a2a2a,
                    0xa3e73364, 0x3bb99241, 0x3789fa61, 0x451f57da, 0x4d310171, 0xfdb3ba54, 0x00000002, 0xa80f9acf],
      case_kernel = adler32_kernel 6,
      reg_inputs = [10, 14, 2, 6], reg5_init = 0x01495151,
      memory_keys = [0x00000059, 0x000000b2, 0x00000164, 0x000002c8, 0x00000590, 0x00000b20, 0x00001640, 0x00002c80],
      case_stmts = [(Array_Scatter, 3, 4, 3), (Divide_Rem, 0, 0, 2), (Add_Carry, 1, 5, 4), (Switch_Phi, 1, 1, 3),
                    (Horner_Loop, 0, 0, 0), (Array_Scatter, 2, 0, 3), (Endian_Swap, 0, 2, 3), (Counted_Loop, 0, 5, 5),
                    (Compare_Select, 0, 4, 4), (Gray_Decode, 2, 5, 0), (Array_Scatter, 3, 0, 1), (Sub_Borrow, 5, 1, 4)]\<rparr>"

definition case_0090 :: "case_program" where
  "case_0090 =
     \<lparr>case_id = 90,
      case_input = [0xd9d725a1, 0xefa2883b, 0xcd8f7426, 0x4c1af1cb, 0x3c08d5dc, 0x026f53e3, 0x8629fe62, 0xe1b929a0,
                    0xd6f3e6e8, 0x00000003, 0x318f9ae9, 0x40255ab0, 0x0a3e8526, 0xbee10744, 0xa31c72f4, 0x00000003],
      case_kernel = adler32_kernel 7,
      reg_inputs = [11, 15, 3, 7], reg5_init = 0x9f80cb0a,
      memory_keys = [0x0000005a, 0x000000b4, 0x00000168, 0x000002d0, 0x000005a0, 0x00000b40, 0x00001680, 0x00002d00],
      case_stmts = [(Counted_Loop, 0, 2, 3), (Divide_Rem, 3, 4, 1), (Add_Carry, 3, 2, 1), (Minmax_Clamp, 0, 3, 0),
                    (Switch_Phi, 4, 5, 0), (Byte_Pack, 2, 2, 5), (Sub_Borrow, 4, 4, 4), (Multiply_Low, 0, 4, 4),
                    (Mask_Merge, 5, 2, 1), (Sub_Borrow, 2, 2, 0), (Multiply_Low, 1, 4, 0), (Mask_Merge, 5, 4, 4)]\<rparr>"

definition case_0091 :: "case_program" where
  "case_0091 =
     \<lparr>case_id = 91,
      case_input = [0x7fffffff, 0xf3a3dd7c, 0x3817d620, 0xec1384ed, 0x2a5d5809, 0x118c18e0, 0xcfd2611b, 0x334cef6c,
                    0x31b4ed39, 0xb5d96fdd, 0xa7096dce, 0x9813a9c1, 0xd23846cf, 0x27071d02, 0x7ea663cd, 0xfb721487],
      case_kernel = adler32_kernel 8,
      reg_inputs = [12, 0, 4, 8], reg5_init = 0x3db844c3,
      memory_keys = [0x0000005b, 0x000000b6, 0x0000016c, 0x000002d8, 0x000005b0, 0x00000b60, 0x000016c0, 0x00002d80],
      case_stmts = [(Switch_Phi, 1, 1, 2), (Divide_Rem, 2, 0, 4), (Add_Carry, 1, 4, 3), (Popcount_Loop, 5, 1, 5),
                    (Short_Circuit, 0, 5, 2), (Popcount_Loop, 2, 2, 4), (Gray_Decode, 1, 3, 1), (Rotate_Mix, 5, 5, 2),
                    (Compare_Select, 0, 1, 2), (Divide_Rem, 1, 2, 0), (Switch_Phi, 1, 4, 3), (Halfword_Swap, 2, 2, 1)]\<rparr>"

definition case_0092 :: "case_program" where
  "case_0092 =
     \<lparr>case_id = 92,
      case_input = [0x5adbe426, 0x00000080, 0xe8db57ff, 0x5231c760, 0x1cb00c41, 0xededb12b, 0x71059798, 0x00000001,
                    0x8cc9d52d, 0xe5cff9fd, 0x2d6becd9, 0x99b0829b, 0xc4607567, 0x8da51d6d, 0xc39f8c41, 0xe8ac628d],
      case_kernel = adler32_kernel 9,
      reg_inputs = [13, 1, 5, 9], reg5_init = 0xdbefbe7c,
      memory_keys = [0x0000005c, 0x000000b8, 0x00000170, 0x000002e0, 0x000005c0, 0x00000b80, 0x00001700, 0x00002e00],
      case_stmts = [(Short_Circuit, 1, 0, 0), (Divide_Rem, 2, 3, 2), (Add_Carry, 1, 2, 3), (Horner_Loop, 3, 1, 4),
                    (Rotate_Mix, 5, 1, 3), (Carry_Chain, 1, 0, 2), (Rotate_Mix, 0, 1, 2), (Rotate_Mix, 0, 0, 4),
                    (Sub_Borrow, 3, 2, 3), (Multiply_Low, 5, 3, 4), (Endian_Swap, 2, 4, 3), (Minmax_Clamp, 2, 3, 2)]\<rparr>"

definition case_0093 :: "case_program" where
  "case_0093 =
     \<lparr>case_id = 93,
      case_input = [0x1a59c467, 0xbba222ed, 0x000000ff, 0xf238b246, 0x0ae58194, 0xfe0efa28, 0x38fe08e1, 0x93801d16,
                    0x6b8edefc, 0xa4204b32, 0xbbed1bfe, 0x418671ea, 0x1c66b68e, 0x1443072b, 0x000000ff, 0xc19c93f3],
      case_kernel = adler32_kernel 10,
      reg_inputs = [14, 2, 6, 10], reg5_init = 0x7a273835,
      memory_keys = [0x0000005d, 0x000000ba, 0x00000174, 0x000002e8, 0x000005d0, 0x00000ba0, 0x00001740, 0x00002e80],
      case_stmts = [(Popcount_Loop, 0, 5, 5), (Divide_Rem, 3, 3, 5), (Add_Carry, 1, 2, 1), (Reverse_Loop, 4, 5, 5),
                    (Sub_Borrow, 5, 5, 1), (Halfword_Swap, 1, 4, 3), (Short_Circuit, 5, 0, 5), (Horner_Loop, 3, 3, 4),
                    (Carry_Chain, 4, 1, 4), (Counted_Loop, 4, 5, 2), (Mask_Merge, 2, 4, 4), (Popcount_Loop, 3, 1, 3)]\<rparr>"

definition case_0094 :: "case_program" where
  "case_0094 =
     \<lparr>case_id = 94,
      case_input = [0xdbdfa4a4, 0x9fa3dd25, 0x0be8b6b7, 0x00000100, 0xfd25bb35, 0xffffffff, 0xc8e77c1b, 0x99231e9c,
                    0x1e9a0b70, 0x6baf0461, 0xbdeb7b76, 0x44bc7c80, 0x5b6932d9, 0x5711ba3b, 0x2a549eb1, 0xbbd1ecc5],
      case_kernel = adler32_kernel 11,
      reg_inputs = [15, 3, 7, 11], reg5_init = 0x185eb1ee,
      memory_keys = [0x0000005e, 0x000000bc, 0x00000178, 0x000002f0, 0x000005e0, 0x00000bc0, 0x00001780, 0x00002f00],
      case_stmts = [(Reverse_Loop, 1, 3, 3), (Divide_Rem, 2, 1, 2), (Add_Carry, 1, 3, 0), (Sub_Borrow, 3, 3, 4),
                    (Array_Scatter, 1, 0, 3), (Reverse_Loop, 5, 4, 1), (Divide_Rem, 3, 0, 4), (Reverse_Loop, 5, 4, 5),
                    (Sub_Borrow, 3, 1, 1), (Short_Circuit, 4, 0, 4), (Horner_Loop, 4, 4, 1), (Popcount_Loop, 1, 4, 1)]\<rparr>"

definition case_0095 :: "case_program" where
  "case_0095 =
     \<lparr>case_id = 95,
      case_input = [0x9b5d84e5, 0x83a28862, 0xfe7014b1, 0x0621a020, 0x7fffffff, 0x2c70c0ac, 0x811ce362, 0x4bd6d850,
                    0xf9dd00a1, 0x2a40b6ae, 0x2b6d8c51, 0x9c8a8ff1, 0x0000007f, 0xcef7a07d, 0xf7ee8f88, 0x92e11dbb],
      case_kernel = adler32_kernel 12,
      reg_inputs = [0, 4, 8, 12], reg5_init = 0xb6962ba7,
      memory_keys = [0x0000005f, 0x000000be, 0x0000017c, 0x000002f8, 0x000005f0, 0x00000be0, 0x000017c0, 0x00002f80],
      case_stmts = [(Gray_Decode, 4, 2, 0), (Divide_Rem, 3, 3, 5), (Add_Carry, 1, 3, 4), (Minmax_Clamp, 2, 1, 1),
                    (Rotate_Mix, 1, 2, 3), (Divide_Rem, 3, 2, 2), (Rotate_Mix, 0, 5, 5), (Multiply_Low, 2, 5, 5),
                    (Rotate_Mix, 0, 4, 4), (Popcount_Loop, 5, 0, 0), (Gray_Decode, 4, 4, 0), (Halfword_Swap, 2, 2, 0)]\<rparr>"

definition case_0096 :: "case_program" where
  "case_0096 =
     \<lparr>case_id = 96,
      case_input = [0x44a46b15, 0x77af7401, 0x8cd20e86, 0x80000000, 0x62188c5e, 0x80000000, 0xef5d7677, 0xc8530051,
                    0x8b2d7376, 0x91e0f4c2, 0x221e1ea5, 0x27b42944, 0x0a34f1ce, 0x31c57e37, 0x81142054, 0x4dd9da80],
      case_kernel = adler32_kernel 13,
      reg_inputs = [1, 5, 9, 13], reg5_init = 0x54cda560,
      memory_keys = [0x00000060, 0x000000c0, 0x00000180, 0x00000300, 0x00000600, 0x00000c00, 0x00001800, 0x00003000],
      case_stmts = [(Minmax_Clamp, 4, 4, 1), (Divide_Rem, 5, 1, 3), (Add_Carry, 0, 4, 4), (Halfword_Swap, 1, 1, 5),
                    (Mask_Merge, 1, 4, 5), (Horner_Loop, 5, 0, 4), (Counted_Loop, 2, 5, 5), (Array_Scatter, 2, 1, 4),
                    (Switch_Phi, 3, 0, 3), (Add_Carry, 4, 4, 1), (Compare_Select, 4, 3, 3), (Horner_Loop, 4, 0, 4)]\<rparr>"

definition case_0097 :: "case_program" where
  "case_0097 =
     \<lparr>case_id = 97,
      case_input = [0x04264b54, 0x6bae2146, 0x794aac80, 0x31396a4e, 0x744d018b, 0x641bc63a, 0xfffffffe, 0x1aa6c69d,
                    0x6c6a78a7, 0xd00f460d, 0x00000002, 0xff82da35, 0xd2323227, 0xa8236471, 0x5cae316d, 0x64e92bfe],
      case_kernel = adler32_kernel 14,
      reg_inputs = [2, 6, 10, 14], reg5_init = 0xf3051f19,
      memory_keys = [0x00000061, 0x000000c2, 0x00000184, 0x00000308, 0x00000610, 0x00000c20, 0x00001840, 0x00003080],
      case_stmts = [(Endian_Swap, 3, 5, 0), (Divide_Rem, 4, 5, 0), (Add_Carry, 4, 4, 2), (Sub_Borrow, 4, 5, 4),
                    (Compare_Select, 5, 2, 3), (Endian_Swap, 5, 0, 3), (Halfword_Swap, 5, 4, 0), (Add_Carry, 5, 0, 2),
                    (Divide_Rem, 2, 1, 0), (Mask_Merge, 3, 4, 5), (Counted_Loop, 4, 5, 0), (Compare_Select, 3, 4, 3)]\<rparr>"

definition case_0098 :: "case_program" where
  "case_0098 =
     \<lparr>case_id = 98,
      case_input = [0xc5a02b97, 0x00000100, 0x6fe1efce, 0x65290d0e, 0x838d3b2a, 0xa586b7bd, 0x56bf9df4, 0xffffffff,
                    0x197ead2b, 0x1f80095e, 0xb29e890a, 0xfab8d75f, 0x953db670, 0xeb71d961, 0x68df32a4, 0x1ea454c8],
      case_kernel = adler32_kernel 15,
      reg_inputs = [3, 7, 11, 15], reg5_init = 0x913c98d2,
      memory_keys = [0x00000062, 0x000000c4, 0x00000188, 0x00000310, 0x00000620, 0x00000c40, 0x00001880, 0x00003100],
      case_stmts = [(Carry_Chain, 4, 1, 0), (Divide_Rem, 1, 3, 3), (Add_Carry, 4, 3, 1), (Rotate_Mix, 1, 5, 1),
                    (Counted_Loop, 3, 3, 5), (Switch_Phi, 1, 0, 5), (Add_Carry, 1, 4, 3), (Sub_Borrow, 1, 1, 3),
                    (Horner_Loop, 5, 5, 3), (Horner_Loop, 1, 3, 1), (Divide_Rem, 4, 1, 5), (Reverse_Loop, 5, 1, 3)]\<rparr>"

definition case_0099 :: "case_program" where
  "case_0099 =
     \<lparr>case_id = 99,
      case_input = [0x85220bd6, 0x53ae8bc9, 0x9a794dc8, 0xc5207828, 0x95d8b6ff, 0xb665fcbe, 0x1f44028d, 0xc2f003db,
                    0x00000000, 0x5e6fbb91, 0x24187e2d, 0x228e242e, 0x4d3b7599, 0x7297c327, 0xb565239d, 0x3794a5b6],
      case_kernel = adler32_kernel 4,
      reg_inputs = [4, 8, 12, 0], reg5_init = 0x2f74128b,
      memory_keys = [0x00000063, 0x000000c6, 0x0000018c, 0x00000318, 0x00000630, 0x00000c60, 0x000018c0, 0x00003180],
      case_stmts = [(Horner_Loop, 3, 0, 5), (Divide_Rem, 0, 5, 2), (Add_Carry, 0, 3, 1), (Gray_Decode, 4, 1, 2),
                    (Mask_Merge, 3, 1, 1), (Mask_Merge, 3, 2, 4), (Compare_Select, 0, 5, 2), (Divide_Rem, 2, 4, 3),
                    (Add_Carry, 2, 0, 4), (Rotate_Mix, 2, 1, 3), (Add_Carry, 2, 3, 0), (Byte_Pack, 4, 3, 0)]\<rparr>"

lemma conforms_0000: "conforms case_0000 (crc32_prediction 4)"
  by (rule conformsI) (simp_all add: case_0000_def upt_rec stmt_ok_def crc32_predicted)

lemma conforms_0001: "conforms case_0001 (crc32_prediction 5)"
  by (rule conformsI) (simp_all add: case_0001_def upt_rec stmt_ok_def crc32_predicted)

lemma conforms_0002: "conforms case_0002 (crc32_prediction 6)"
  by (rule conformsI) (simp_all add: case_0002_def upt_rec stmt_ok_def crc32_predicted)

lemma conforms_0003: "conforms case_0003 (crc32_prediction 7)"
  by (rule conformsI) (simp_all add: case_0003_def upt_rec stmt_ok_def crc32_predicted)

lemma conforms_0004: "conforms case_0004 (crc32_prediction 8)"
  by (rule conformsI) (simp_all add: case_0004_def upt_rec stmt_ok_def crc32_predicted)

lemma conforms_0005: "conforms case_0005 (crc32_prediction 9)"
  by (rule conformsI) (simp_all add: case_0005_def upt_rec stmt_ok_def crc32_predicted)

lemma conforms_0006: "conforms case_0006 (crc32_prediction 10)"
  by (rule conformsI) (simp_all add: case_0006_def upt_rec stmt_ok_def crc32_predicted)

lemma conforms_0007: "conforms case_0007 (crc32_prediction 11)"
  by (rule conformsI) (simp_all add: case_0007_def upt_rec stmt_ok_def crc32_predicted)

lemma conforms_0008: "conforms case_0008 (crc32_prediction 12)"
  by (rule conformsI) (simp_all add: case_0008_def upt_rec stmt_ok_def crc32_predicted)

lemma conforms_0009: "conforms case_0009 (crc32_prediction 13)"
  by (rule conformsI) (simp_all add: case_0009_def upt_rec stmt_ok_def crc32_predicted)

lemma conforms_0010: "conforms case_0010 (crc32_prediction 14)"
  by (rule conformsI) (simp_all add: case_0010_def upt_rec stmt_ok_def crc32_predicted)

lemma conforms_0011: "conforms case_0011 (crc32_prediction 15)"
  by (rule conformsI) (simp_all add: case_0011_def upt_rec stmt_ok_def crc32_predicted)

lemma conforms_0012: "conforms case_0012 (crc32_prediction 4)"
  by (rule conformsI) (simp_all add: case_0012_def upt_rec stmt_ok_def crc32_predicted)

lemma conforms_0013: "conforms case_0013 (crc32_prediction 5)"
  by (rule conformsI) (simp_all add: case_0013_def upt_rec stmt_ok_def crc32_predicted)

lemma conforms_0014: "conforms case_0014 (crc32_prediction 6)"
  by (rule conformsI) (simp_all add: case_0014_def upt_rec stmt_ok_def crc32_predicted)

lemma conforms_0015: "conforms case_0015 (crc32_prediction 7)"
  by (rule conformsI) (simp_all add: case_0015_def upt_rec stmt_ok_def crc32_predicted)

lemma conforms_0016: "conforms case_0016 (crc32_prediction 8)"
  by (rule conformsI) (simp_all add: case_0016_def upt_rec stmt_ok_def crc32_predicted)

lemma conforms_0017: "conforms case_0017 (crc32_prediction 9)"
  by (rule conformsI) (simp_all add: case_0017_def upt_rec stmt_ok_def crc32_predicted)

lemma conforms_0018: "conforms case_0018 (crc32_prediction 10)"
  by (rule conformsI) (simp_all add: case_0018_def upt_rec stmt_ok_def crc32_predicted)

lemma conforms_0019: "conforms case_0019 (crc32_prediction 11)"
  by (rule conformsI) (simp_all add: case_0019_def upt_rec stmt_ok_def crc32_predicted)

lemma conforms_0020: "conforms case_0020 (crc32_prediction 12)"
  by (rule conformsI) (simp_all add: case_0020_def upt_rec stmt_ok_def crc32_predicted)

lemma conforms_0021: "conforms case_0021 (crc32_prediction 13)"
  by (rule conformsI) (simp_all add: case_0021_def upt_rec stmt_ok_def crc32_predicted)

lemma conforms_0022: "conforms case_0022 (crc32_prediction 14)"
  by (rule conformsI) (simp_all add: case_0022_def upt_rec stmt_ok_def crc32_predicted)

lemma conforms_0023: "conforms case_0023 (crc32_prediction 15)"
  by (rule conformsI) (simp_all add: case_0023_def upt_rec stmt_ok_def crc32_predicted)

lemma conforms_0024: "conforms case_0024 (crc32_prediction 4)"
  by (rule conformsI) (simp_all add: case_0024_def upt_rec stmt_ok_def crc32_predicted)

lemma conforms_0025: "conforms case_0025 (crc16_prediction 4)"
  by (rule conformsI) (simp_all add: case_0025_def upt_rec stmt_ok_def crc16_predicted)

lemma conforms_0026: "conforms case_0026 (crc16_prediction 5)"
  by (rule conformsI) (simp_all add: case_0026_def upt_rec stmt_ok_def crc16_predicted)

lemma conforms_0027: "conforms case_0027 (crc16_prediction 6)"
  by (rule conformsI) (simp_all add: case_0027_def upt_rec stmt_ok_def crc16_predicted)

lemma conforms_0028: "conforms case_0028 (crc16_prediction 7)"
  by (rule conformsI) (simp_all add: case_0028_def upt_rec stmt_ok_def crc16_predicted)

lemma conforms_0029: "conforms case_0029 (crc16_prediction 8)"
  by (rule conformsI) (simp_all add: case_0029_def upt_rec stmt_ok_def crc16_predicted)

lemma conforms_0030: "conforms case_0030 (crc16_prediction 9)"
  by (rule conformsI) (simp_all add: case_0030_def upt_rec stmt_ok_def crc16_predicted)

lemma conforms_0031: "conforms case_0031 (crc16_prediction 10)"
  by (rule conformsI) (simp_all add: case_0031_def upt_rec stmt_ok_def crc16_predicted)

lemma conforms_0032: "conforms case_0032 (crc16_prediction 11)"
  by (rule conformsI) (simp_all add: case_0032_def upt_rec stmt_ok_def crc16_predicted)

lemma conforms_0033: "conforms case_0033 (crc16_prediction 12)"
  by (rule conformsI) (simp_all add: case_0033_def upt_rec stmt_ok_def crc16_predicted)

lemma conforms_0034: "conforms case_0034 (crc16_prediction 13)"
  by (rule conformsI) (simp_all add: case_0034_def upt_rec stmt_ok_def crc16_predicted)

lemma conforms_0035: "conforms case_0035 (crc16_prediction 14)"
  by (rule conformsI) (simp_all add: case_0035_def upt_rec stmt_ok_def crc16_predicted)

lemma conforms_0036: "conforms case_0036 (crc16_prediction 15)"
  by (rule conformsI) (simp_all add: case_0036_def upt_rec stmt_ok_def crc16_predicted)

lemma conforms_0037: "conforms case_0037 (crc16_prediction 4)"
  by (rule conformsI) (simp_all add: case_0037_def upt_rec stmt_ok_def crc16_predicted)

lemma conforms_0038: "conforms case_0038 (crc16_prediction 5)"
  by (rule conformsI) (simp_all add: case_0038_def upt_rec stmt_ok_def crc16_predicted)

lemma conforms_0039: "conforms case_0039 (crc16_prediction 6)"
  by (rule conformsI) (simp_all add: case_0039_def upt_rec stmt_ok_def crc16_predicted)

lemma conforms_0040: "conforms case_0040 (crc16_prediction 7)"
  by (rule conformsI) (simp_all add: case_0040_def upt_rec stmt_ok_def crc16_predicted)

lemma conforms_0041: "conforms case_0041 (crc16_prediction 8)"
  by (rule conformsI) (simp_all add: case_0041_def upt_rec stmt_ok_def crc16_predicted)

lemma conforms_0042: "conforms case_0042 (crc16_prediction 9)"
  by (rule conformsI) (simp_all add: case_0042_def upt_rec stmt_ok_def crc16_predicted)

lemma conforms_0043: "conforms case_0043 (crc16_prediction 10)"
  by (rule conformsI) (simp_all add: case_0043_def upt_rec stmt_ok_def crc16_predicted)

lemma conforms_0044: "conforms case_0044 (crc16_prediction 11)"
  by (rule conformsI) (simp_all add: case_0044_def upt_rec stmt_ok_def crc16_predicted)

lemma conforms_0045: "conforms case_0045 (crc16_prediction 12)"
  by (rule conformsI) (simp_all add: case_0045_def upt_rec stmt_ok_def crc16_predicted)

lemma conforms_0046: "conforms case_0046 (crc16_prediction 13)"
  by (rule conformsI) (simp_all add: case_0046_def upt_rec stmt_ok_def crc16_predicted)

lemma conforms_0047: "conforms case_0047 (crc16_prediction 14)"
  by (rule conformsI) (simp_all add: case_0047_def upt_rec stmt_ok_def crc16_predicted)

lemma conforms_0048: "conforms case_0048 (crc16_prediction 15)"
  by (rule conformsI) (simp_all add: case_0048_def upt_rec stmt_ok_def crc16_predicted)

lemma conforms_0049: "conforms case_0049 (crc16_prediction 4)"
  by (rule conformsI) (simp_all add: case_0049_def upt_rec stmt_ok_def crc16_predicted)

lemma conforms_0050: "conforms case_0050 (fletcher32_prediction 4)"
  by (rule conformsI) (simp_all add: case_0050_def upt_rec stmt_ok_def fletcher32_predicted)

lemma conforms_0051: "conforms case_0051 (fletcher32_prediction 5)"
  by (rule conformsI) (simp_all add: case_0051_def upt_rec stmt_ok_def fletcher32_predicted)

lemma conforms_0052: "conforms case_0052 (fletcher32_prediction 6)"
  by (rule conformsI) (simp_all add: case_0052_def upt_rec stmt_ok_def fletcher32_predicted)

lemma conforms_0053: "conforms case_0053 (fletcher32_prediction 7)"
  by (rule conformsI) (simp_all add: case_0053_def upt_rec stmt_ok_def fletcher32_predicted)

lemma conforms_0054: "conforms case_0054 (fletcher32_prediction 8)"
  by (rule conformsI) (simp_all add: case_0054_def upt_rec stmt_ok_def fletcher32_predicted)

lemma conforms_0055: "conforms case_0055 (fletcher32_prediction 9)"
  by (rule conformsI) (simp_all add: case_0055_def upt_rec stmt_ok_def fletcher32_predicted)

lemma conforms_0056: "conforms case_0056 (fletcher32_prediction 10)"
  by (rule conformsI) (simp_all add: case_0056_def upt_rec stmt_ok_def fletcher32_predicted)

lemma conforms_0057: "conforms case_0057 (fletcher32_prediction 11)"
  by (rule conformsI) (simp_all add: case_0057_def upt_rec stmt_ok_def fletcher32_predicted)

lemma conforms_0058: "conforms case_0058 (fletcher32_prediction 12)"
  by (rule conformsI) (simp_all add: case_0058_def upt_rec stmt_ok_def fletcher32_predicted)

lemma conforms_0059: "conforms case_0059 (fletcher32_prediction 13)"
  by (rule conformsI) (simp_all add: case_0059_def upt_rec stmt_ok_def fletcher32_predicted)

lemma conforms_0060: "conforms case_0060 (fletcher32_prediction 14)"
  by (rule conformsI) (simp_all add: case_0060_def upt_rec stmt_ok_def fletcher32_predicted)

lemma conforms_0061: "conforms case_0061 (fletcher32_prediction 15)"
  by (rule conformsI) (simp_all add: case_0061_def upt_rec stmt_ok_def fletcher32_predicted)

lemma conforms_0062: "conforms case_0062 (fletcher32_prediction 4)"
  by (rule conformsI) (simp_all add: case_0062_def upt_rec stmt_ok_def fletcher32_predicted)

lemma conforms_0063: "conforms case_0063 (fletcher32_prediction 5)"
  by (rule conformsI) (simp_all add: case_0063_def upt_rec stmt_ok_def fletcher32_predicted)

lemma conforms_0064: "conforms case_0064 (fletcher32_prediction 6)"
  by (rule conformsI) (simp_all add: case_0064_def upt_rec stmt_ok_def fletcher32_predicted)

lemma conforms_0065: "conforms case_0065 (fletcher32_prediction 7)"
  by (rule conformsI) (simp_all add: case_0065_def upt_rec stmt_ok_def fletcher32_predicted)

lemma conforms_0066: "conforms case_0066 (fletcher32_prediction 8)"
  by (rule conformsI) (simp_all add: case_0066_def upt_rec stmt_ok_def fletcher32_predicted)

lemma conforms_0067: "conforms case_0067 (fletcher32_prediction 9)"
  by (rule conformsI) (simp_all add: case_0067_def upt_rec stmt_ok_def fletcher32_predicted)

lemma conforms_0068: "conforms case_0068 (fletcher32_prediction 10)"
  by (rule conformsI) (simp_all add: case_0068_def upt_rec stmt_ok_def fletcher32_predicted)

lemma conforms_0069: "conforms case_0069 (fletcher32_prediction 11)"
  by (rule conformsI) (simp_all add: case_0069_def upt_rec stmt_ok_def fletcher32_predicted)

lemma conforms_0070: "conforms case_0070 (fletcher32_prediction 12)"
  by (rule conformsI) (simp_all add: case_0070_def upt_rec stmt_ok_def fletcher32_predicted)

lemma conforms_0071: "conforms case_0071 (fletcher32_prediction 13)"
  by (rule conformsI) (simp_all add: case_0071_def upt_rec stmt_ok_def fletcher32_predicted)

lemma conforms_0072: "conforms case_0072 (fletcher32_prediction 14)"
  by (rule conformsI) (simp_all add: case_0072_def upt_rec stmt_ok_def fletcher32_predicted)

lemma conforms_0073: "conforms case_0073 (fletcher32_prediction 15)"
  by (rule conformsI) (simp_all add: case_0073_def upt_rec stmt_ok_def fletcher32_predicted)

lemma conforms_0074: "conforms case_0074 (fletcher32_prediction 4)"
  by (rule conformsI) (simp_all add: case_0074_def upt_rec stmt_ok_def fletcher32_predicted)

lemma conforms_0075: "conforms case_0075 (adler32_prediction 4)"
  by (rule conformsI) (simp_all add: case_0075_def upt_rec stmt_ok_def adler32_predicted)

lemma conforms_0076: "conforms case_0076 (adler32_prediction 5)"
  by (rule conformsI) (simp_all add: case_0076_def upt_rec stmt_ok_def adler32_predicted)

lemma conforms_0077: "conforms case_0077 (adler32_prediction 6)"
  by (rule conformsI) (simp_all add: case_0077_def upt_rec stmt_ok_def adler32_predicted)

lemma conforms_0078: "conforms case_0078 (adler32_prediction 7)"
  by (rule conformsI) (simp_all add: case_0078_def upt_rec stmt_ok_def adler32_predicted)

lemma conforms_0079: "conforms case_0079 (adler32_prediction 8)"
  by (rule conformsI) (simp_all add: case_0079_def upt_rec stmt_ok_def adler32_predicted)

lemma conforms_0080: "conforms case_0080 (adler32_prediction 9)"
  by (rule conformsI) (simp_all add: case_0080_def upt_rec stmt_ok_def adler32_predicted)

lemma conforms_0081: "conforms case_0081 (adler32_prediction 10)"
  by (rule conformsI) (simp_all add: case_0081_def upt_rec stmt_ok_def adler32_predicted)

lemma conforms_0082: "conforms case_0082 (adler32_prediction 11)"
  by (rule conformsI) (simp_all add: case_0082_def upt_rec stmt_ok_def adler32_predicted)

lemma conforms_0083: "conforms case_0083 (adler32_prediction 12)"
  by (rule conformsI) (simp_all add: case_0083_def upt_rec stmt_ok_def adler32_predicted)

lemma conforms_0084: "conforms case_0084 (adler32_prediction 13)"
  by (rule conformsI) (simp_all add: case_0084_def upt_rec stmt_ok_def adler32_predicted)

lemma conforms_0085: "conforms case_0085 (adler32_prediction 14)"
  by (rule conformsI) (simp_all add: case_0085_def upt_rec stmt_ok_def adler32_predicted)

lemma conforms_0086: "conforms case_0086 (adler32_prediction 15)"
  by (rule conformsI) (simp_all add: case_0086_def upt_rec stmt_ok_def adler32_predicted)

lemma conforms_0087: "conforms case_0087 (adler32_prediction 4)"
  by (rule conformsI) (simp_all add: case_0087_def upt_rec stmt_ok_def adler32_predicted)

lemma conforms_0088: "conforms case_0088 (adler32_prediction 5)"
  by (rule conformsI) (simp_all add: case_0088_def upt_rec stmt_ok_def adler32_predicted)

lemma conforms_0089: "conforms case_0089 (adler32_prediction 6)"
  by (rule conformsI) (simp_all add: case_0089_def upt_rec stmt_ok_def adler32_predicted)

lemma conforms_0090: "conforms case_0090 (adler32_prediction 7)"
  by (rule conformsI) (simp_all add: case_0090_def upt_rec stmt_ok_def adler32_predicted)

lemma conforms_0091: "conforms case_0091 (adler32_prediction 8)"
  by (rule conformsI) (simp_all add: case_0091_def upt_rec stmt_ok_def adler32_predicted)

lemma conforms_0092: "conforms case_0092 (adler32_prediction 9)"
  by (rule conformsI) (simp_all add: case_0092_def upt_rec stmt_ok_def adler32_predicted)

lemma conforms_0093: "conforms case_0093 (adler32_prediction 10)"
  by (rule conformsI) (simp_all add: case_0093_def upt_rec stmt_ok_def adler32_predicted)

lemma conforms_0094: "conforms case_0094 (adler32_prediction 11)"
  by (rule conformsI) (simp_all add: case_0094_def upt_rec stmt_ok_def adler32_predicted)

lemma conforms_0095: "conforms case_0095 (adler32_prediction 12)"
  by (rule conformsI) (simp_all add: case_0095_def upt_rec stmt_ok_def adler32_predicted)

lemma conforms_0096: "conforms case_0096 (adler32_prediction 13)"
  by (rule conformsI) (simp_all add: case_0096_def upt_rec stmt_ok_def adler32_predicted)

lemma conforms_0097: "conforms case_0097 (adler32_prediction 14)"
  by (rule conformsI) (simp_all add: case_0097_def upt_rec stmt_ok_def adler32_predicted)

lemma conforms_0098: "conforms case_0098 (adler32_prediction 15)"
  by (rule conformsI) (simp_all add: case_0098_def upt_rec stmt_ok_def adler32_predicted)

lemma conforms_0099: "conforms case_0099 (adler32_prediction 4)"
  by (rule conformsI) (simp_all add: case_0099_def upt_rec stmt_ok_def adler32_predicted)

definition corpus_0 :: "(nat \<Rightarrow> u32) \<Rightarrow> (case_program \<times> (u32 list \<Rightarrow> u32)) list" where
  "corpus_0 junk =
    [(case_0000, crc32_prediction 4),
     (case_0001, crc32_prediction 5),
     (case_0002, crc32_prediction 6),
     (case_0003, crc32_prediction 7),
     (case_0004, crc32_prediction 8),
     (case_0005, crc32_prediction 9),
     (case_0006, crc32_prediction 10),
     (case_0007, crc32_prediction 11),
     (case_0008, crc32_prediction 12),
     (case_0009, crc32_prediction 13),
     (case_0010, crc32_prediction 14),
     (case_0011, crc32_prediction 15),
     (case_0012, crc32_prediction 4),
     (case_0013, crc32_prediction 5),
     (case_0014, crc32_prediction 6),
     (case_0015, crc32_prediction 7),
     (case_0016, crc32_prediction 8),
     (case_0017, crc32_prediction 9),
     (case_0018, crc32_prediction 10),
     (case_0019, crc32_prediction 11),
     (case_0020, crc32_prediction 12),
     (case_0021, crc32_prediction 13),
     (case_0022, crc32_prediction 14),
     (case_0023, crc32_prediction 15),
     (case_0024, crc32_prediction 4),
     (case_0025, crc16_prediction 4),
     (case_0026, crc16_prediction 5),
     (case_0027, crc16_prediction 6),
     (case_0028, crc16_prediction 7),
     (case_0029, crc16_prediction 8),
     (case_0030, crc16_prediction 9),
     (case_0031, crc16_prediction 10),
     (case_0032, crc16_prediction 11),
     (case_0033, crc16_prediction 12),
     (case_0034, crc16_prediction 13),
     (case_0035, crc16_prediction 14),
     (case_0036, crc16_prediction 15),
     (case_0037, crc16_prediction 4),
     (case_0038, crc16_prediction 5),
     (case_0039, crc16_prediction 6),
     (case_0040, crc16_prediction 7),
     (case_0041, crc16_prediction 8),
     (case_0042, crc16_prediction 9),
     (case_0043, crc16_prediction 10),
     (case_0044, crc16_prediction 11),
     (case_0045, crc16_prediction 12),
     (case_0046, crc16_prediction 13),
     (case_0047, crc16_prediction 14),
     (case_0048, crc16_prediction 15),
     (case_0049, crc16_prediction 4),
     (case_0050, fletcher32_prediction 4),
     (case_0051, fletcher32_prediction 5),
     (case_0052, fletcher32_prediction 6),
     (case_0053, fletcher32_prediction 7),
     (case_0054, fletcher32_prediction 8),
     (case_0055, fletcher32_prediction 9),
     (case_0056, fletcher32_prediction 10),
     (case_0057, fletcher32_prediction 11),
     (case_0058, fletcher32_prediction 12),
     (case_0059, fletcher32_prediction 13),
     (case_0060, fletcher32_prediction 14),
     (case_0061, fletcher32_prediction 15),
     (case_0062, fletcher32_prediction 4),
     (case_0063, fletcher32_prediction 5),
     (case_0064, fletcher32_prediction 6),
     (case_0065, fletcher32_prediction 7),
     (case_0066, fletcher32_prediction 8),
     (case_0067, fletcher32_prediction 9),
     (case_0068, fletcher32_prediction 10),
     (case_0069, fletcher32_prediction 11),
     (case_0070, fletcher32_prediction 12),
     (case_0071, fletcher32_prediction 13),
     (case_0072, fletcher32_prediction 14),
     (case_0073, fletcher32_prediction 15),
     (case_0074, fletcher32_prediction 4),
     (case_0075, adler32_prediction 4),
     (case_0076, adler32_prediction 5),
     (case_0077, adler32_prediction 6),
     (case_0078, adler32_prediction 7),
     (case_0079, adler32_prediction 8),
     (case_0080, adler32_prediction 9),
     (case_0081, adler32_prediction 10),
     (case_0082, adler32_prediction 11),
     (case_0083, adler32_prediction 12),
     (case_0084, adler32_prediction 13),
     (case_0085, adler32_prediction 14),
     (case_0086, adler32_prediction 15),
     (case_0087, adler32_prediction 4),
     (case_0088, adler32_prediction 5),
     (case_0089, adler32_prediction 6),
     (case_0090, adler32_prediction 7),
     (case_0091, adler32_prediction 8),
     (case_0092, adler32_prediction 9),
     (case_0093, adler32_prediction 10),
     (case_0094, adler32_prediction 11),
     (case_0095, adler32_prediction 12),
     (case_0096, adler32_prediction 13),
     (case_0097, adler32_prediction 14),
     (case_0098, adler32_prediction 15),
     (case_0099, adler32_prediction 4)]"

lemmas corpus_0_programs =
  conforms_0000 conforms_0001 conforms_0002 conforms_0003 conforms_0004 conforms_0005 conforms_0006 conforms_0007
  conforms_0008 conforms_0009 conforms_0010 conforms_0011 conforms_0012 conforms_0013 conforms_0014 conforms_0015
  conforms_0016 conforms_0017 conforms_0018 conforms_0019 conforms_0020 conforms_0021 conforms_0022 conforms_0023
  conforms_0024 conforms_0025 conforms_0026 conforms_0027 conforms_0028 conforms_0029 conforms_0030 conforms_0031
  conforms_0032 conforms_0033 conforms_0034 conforms_0035 conforms_0036 conforms_0037 conforms_0038 conforms_0039
  conforms_0040 conforms_0041 conforms_0042 conforms_0043 conforms_0044 conforms_0045 conforms_0046 conforms_0047
  conforms_0048 conforms_0049 conforms_0050 conforms_0051 conforms_0052 conforms_0053 conforms_0054 conforms_0055
  conforms_0056 conforms_0057 conforms_0058 conforms_0059 conforms_0060 conforms_0061 conforms_0062 conforms_0063
  conforms_0064 conforms_0065 conforms_0066 conforms_0067 conforms_0068 conforms_0069 conforms_0070 conforms_0071
  conforms_0072 conforms_0073 conforms_0074 conforms_0075 conforms_0076 conforms_0077 conforms_0078 conforms_0079
  conforms_0080 conforms_0081 conforms_0082 conforms_0083 conforms_0084 conforms_0085 conforms_0086 conforms_0087
  conforms_0088 conforms_0089 conforms_0090 conforms_0091 conforms_0092 conforms_0093 conforms_0094 conforms_0095
  conforms_0096 conforms_0097 conforms_0098 conforms_0099

lemma corpus_0_conforms: "list_all (\<lambda>(c, prediction). conforms c prediction) (corpus_0 junk)"
  unfolding corpus_0_def list.pred_inject prod.case by (intro conjI corpus_0_programs list.pred_inject(1))

lemma corpus_0_ids: "map (\<lambda>(c, prediction). case_id c) (corpus_0 junk) = [0..<100]"
  by (simp add: corpus_0_def upt_conv_Cons
      case_0000_def case_0001_def case_0002_def case_0003_def case_0004_def case_0005_def case_0006_def
      case_0007_def case_0008_def case_0009_def case_0010_def case_0011_def case_0012_def case_0013_def
      case_0014_def case_0015_def case_0016_def case_0017_def case_0018_def case_0019_def case_0020_def
      case_0021_def case_0022_def case_0023_def case_0024_def case_0025_def case_0026_def case_0027_def
      case_0028_def case_0029_def case_0030_def case_0031_def case_0032_def case_0033_def case_0034_def
      case_0035_def case_0036_def case_0037_def case_0038_def case_0039_def case_0040_def case_0041_def
      case_0042_def case_0043_def case_0044_def case_0045_def case_0046_def case_0047_def case_0048_def
      case_0049_def case_0050_def case_0051_def case_0052_def case_0053_def case_0054_def case_0055_def
      case_0056_def case_0057_def case_0058_def case_0059_def case_0060_def case_0061_def case_0062_def
      case_0063_def case_0064_def case_0065_def case_0066_def case_0067_def case_0068_def case_0069_def
      case_0070_def case_0071_def case_0072_def case_0073_def case_0074_def case_0075_def case_0076_def
      case_0077_def case_0078_def case_0079_def case_0080_def case_0081_def case_0082_def case_0083_def
      case_0084_def case_0085_def case_0086_def case_0087_def case_0088_def case_0089_def case_0090_def
      case_0091_def case_0092_def case_0093_def case_0094_def case_0095_def case_0096_def case_0097_def
      case_0098_def case_0099_def)

end
