(* ===== verification/Corpus_Cases_1.thy ===== *)
theory Corpus_Cases_1
  imports Corpus_Checksums Corpus_Bits Corpus_Control Corpus_Algorithms Corpus_Buffers
begin

text \<open>
  The programs 100 to 199 of the edge-case corpus, one definition per file: inputs, kernel with the parameters of the
  scenario, initial literals and statements, as the C text has them.  Their kernels are the fnv1a,
  popcount, parity and reverse rotate kernels.  Every program conforms to the prediction of its kernel.
\<close>

definition case_0100 :: "case_program" where
  "case_0100 =
     \<lparr>case_id = 100,
      case_input = [0x00000000, 0x07ae211f, 0x4ab5cc17, 0x7b023ba5, 0xa335e2b7, 0x4a045575, 0xa193f40e, 0xb0c9376d,
                    0x43449eee, 0x0e792db1, 0xae7aff3a, 0x232d0f74, 0x5b634631, 0xd835c348, 0x085ccc11, 0x244ad3bc],
      case_kernel = fnv1a_kernel 4,
      reg_inputs = [5, 9, 13, 1], reg5_init = 0xcdab8c44,
      memory_keys = [0x00000064, 0x000000c8, 0x00000190, 0x00000320, 0x00000640, 0x00000c80, 0x00001900, 0x00003200],
      case_stmts = [(Add_Carry, 5, 1, 3), (Mask_Merge, 0, 0, 4), (Add_Carry, 0, 1, 5), (Sub_Borrow, 2, 3, 5),
                    (Byte_Pack, 4, 5, 2), (Reverse_Loop, 2, 4, 0), (Multiply_Low, 1, 5, 5), (Halfword_Swap, 1, 5, 1),
                    (Horner_Loop, 5, 3, 1), (Mask_Merge, 4, 0, 5), (Counted_Loop, 5, 5, 2), (Switch_Phi, 4, 2, 3)]\<rparr>"

definition case_0101 :: "case_program" where
  "case_0101 =
     \<lparr>case_id = 101,
      case_input = [0x062eca51, 0x00000001, 0xbf2d6e11, 0xdb0b4e83, 0xb5606f62, 0x59e71e76, 0xe8686b77, 0x623cf1a1,
                    0xa403953f, 0x4f969f7e, 0x38fc081d, 0xfb1bfc05, 0x836585d8, 0x41d3d90e, 0xd5e6dd28, 0x0d7a22c2],
      case_kernel = fnv1a_kernel 5,
      reg_inputs = [6, 10, 14, 2], reg5_init = 0x6be305fd,
      memory_keys = [0x00000065, 0x000000ca, 0x00000194, 0x00000328, 0x00000650, 0x00000ca0, 0x00001940, 0x00003280],
      case_stmts = [(Sub_Borrow, 4, 2, 4), (Mask_Merge, 3, 2, 5), (Add_Carry, 2, 1, 1), (Short_Circuit, 5, 1, 4),
                    (Halfword_Swap, 4, 5, 4), (Halfword_Swap, 2, 0, 5), (Array_Scatter, 2, 0, 0), (Mask_Merge, 0, 4, 3),
                    (Divide_Rem, 4, 2, 0), (Minmax_Clamp, 3, 0, 1), (Counted_Loop, 1, 3, 1), (Rotate_Mix, 3, 4, 2)]\<rparr>"

definition case_0102 :: "case_program" where
  "case_0102 =
     \<lparr>case_id = 102,
      case_input = [0xc7a8aa92, 0x3fae8b90, 0x00000002, 0x8f1b29c3, 0x42a055c3, 0x987a6ff1, 0x18711f8d, 0x689ff22b,
                    0xd11740b3, 0x8019d02d, 0x3efa6895, 0xfe21f16f, 0xc46a018f, 0x0281641e, 0xe197dee1, 0x77375df4],
      case_kernel = fnv1a_kernel 6,
      reg_inputs = [7, 11, 15, 3], reg5_init = 0x0a1a7fb6,
      memory_keys = [0x00000066, 0x000000cc, 0x00000198, 0x00000330, 0x00000660, 0x00000cc0, 0x00001980, 0x00003300],
      case_stmts = [(Rotate_Mix, 1, 0, 4), (Mask_Merge, 2, 0, 0), (Add_Carry, 0, 2, 0), (Gray_Decode, 4, 5, 1),
                    (Halfword_Swap, 2, 2, 0), (Counted_Loop, 4, 0, 5), (Endian_Swap, 0, 4, 1), (Divide_Rem, 0, 3, 0),
                    (Switch_Phi, 1, 0, 5), (Carry_Chain, 3, 1, 5), (Minmax_Clamp, 3, 1, 0), (Counted_Loop, 5, 3, 2)]\<rparr>"

definition case_0103 :: "case_program" where
  "case_0103 =
     \<lparr>case_id = 103,
      case_input = [0x872a8ad3, 0x23afded7, 0x5c1e8f59, 0x00000003, 0x54f5d816, 0x8b9924f2, 0x518a80f4, 0xba6a34e7,
                    0x36504b62, 0xc1f662e2, 0xa87c9fb2, 0x2617021e, 0x1c6cc266, 0x9b677e58, 0x3c2dcfd8, 0x5e07ac8a],
      case_kernel = fnv1a_kernel 7,
      reg_inputs = [8, 12, 0, 4], reg5_init = 0xa851f96f,
      memory_keys = [0x00000067, 0x000000ce, 0x0000019c, 0x00000338, 0x00000670, 0x00000ce0, 0x000019c0, 0x00003380],
      case_stmts = [(Multiply_Low, 4, 5, 1), (Mask_Merge, 1, 2, 5), (Add_Carry, 2, 0, 2), (Compare_Select, 5, 5, 2),
                    (Switch_Phi, 0, 4, 0), (Short_Circuit, 4, 2, 4), (Byte_Pack, 3, 3, 0), (Sub_Borrow, 1, 2, 2),
                    (Add_Carry, 4, 3, 2), (Horner_Loop, 0, 5, 1), (Halfword_Swap, 3, 5, 1), (Horner_Loop, 4, 5, 1)]\<rparr>"

definition case_0104 :: "case_program" where
  "case_0104 =
     \<lparr>case_id = 104,
      case_input = [0x40b5691f, 0x97adde3d, 0x001d8ba5, 0x455456f2, 0x0000007f, 0x0c073da0, 0xebc6dfc1, 0x9d689612,
                    0x7fc44888, 0x922e0fe2, 0x424cbf8c, 0xb0cd381f, 0x4a729089, 0xa3b3d725, 0x0af27982, 0x1e31780c],
      case_kernel = fnv1a_kernel 8,
      reg_inputs = [9, 13, 1, 5], reg5_init = 0x46897328,
      memory_keys = [0x00000068, 0x000000d0, 0x000001a0, 0x00000340, 0x00000680, 0x00000d00, 0x00001a00, 0x00003400],
      case_stmts = [(Divide_Rem, 0, 5, 0), (Mask_Merge, 4, 5, 5), (Add_Carry, 2, 1, 2), (Reverse_Loop, 5, 5, 5),
                    (Mask_Merge, 1, 5, 4), (Short_Circuit, 4, 5, 1), (Minmax_Clamp, 0, 1, 4), (Counted_Loop, 0, 5, 3),
                    (Compare_Select, 5, 5, 3), (Compare_Select, 3, 0, 1), (Sub_Borrow, 0, 2, 3),
                    (Endian_Swap, 2, 2, 4)]\<rparr>"

definition case_0105 :: "case_program" where
  "case_0105 =
     \<lparr>case_id = 105,
      case_input = [0x0037495e, 0x8bac8b7a, 0xf58529a3, 0xe55d23d4, 0xf417dc58, 0x00000080, 0xa23d40b8, 0x4f9d50de,
                    0x98834359, 0xd3c1bd2d, 0xd4ca48ab, 0x68fbcb6e, 0x92745360, 0x3a55cd63, 0xd74868bb, 0x37018972],
      case_kernel = fnv1a_kernel 9,
      reg_inputs = [10, 14, 2, 6], reg5_init = 0xe4c0ece1,
      memory_keys = [0x00000069, 0x000000d2, 0x000001a4, 0x00000348, 0x00000690, 0x00000d20, 0x00001a40, 0x00003480],
      case_stmts = [(Mask_Merge, 3, 4, 3), (Mask_Merge, 5, 1, 2), (Add_Carry, 4, 5, 4), (Byte_Pack, 0, 5, 4),
                    (Reverse_Loop, 3, 5, 0), (Compare_Select, 2, 1, 2), (Reverse_Loop, 1, 0, 1), (Byte_Pack, 5, 4, 3),
                    (Mask_Merge, 4, 2, 2), (Gray_Decode, 0, 2, 3), (Mask_Merge, 0, 2, 0), (Minmax_Clamp, 3, 4, 1)]\<rparr>"

definition case_0106 :: "case_program" where
  "case_0106 =
     \<lparr>case_id = 106,
      case_input = [0xc1b1299d, 0xafad74b2, 0xe32e6aed, 0xb14d4494, 0x03d7e6f9, 0xde790724, 0x000000ff, 0x453e5354,
                    0xed9796d5, 0x1c4ef27e, 0xd2cc2823, 0x6dc1c604, 0xd57bd737, 0x79077073, 0xe3396b72, 0x4d4cf644],
      case_kernel = fnv1a_kernel 10,
      reg_inputs = [11, 15, 3, 7], reg5_init = 0x82f8669a,
      memory_keys = [0x0000006a, 0x000000d4, 0x000001a8, 0x00000350, 0x000006a0, 0x00000d40, 0x00001a80, 0x00003500],
      case_stmts = [(Compare_Select, 4, 2, 1), (Mask_Merge, 2, 5, 3), (Add_Carry, 0, 0, 5), (Divide_Rem, 1, 3, 1),
                    (Counted_Loop, 3, 2, 2), (Minmax_Clamp, 4, 1, 2), (Reverse_Loop, 1, 0, 2), (Counted_Loop, 3, 5, 0),
                    (Reverse_Loop, 5, 0, 5), (Endian_Swap, 4, 1, 5), (Switch_Phi, 2, 0, 3), (Add_Carry, 3, 1, 5)]\<rparr>"

definition case_0107 :: "case_program" where
  "case_0107 =
     \<lparr>case_id = 107,
      case_input = [0x813309dc, 0xb3ac21f5, 0x16b6c8eb, 0x114431b2, 0x15826b2c, 0xcd9a4c27, 0x1bdfab3b, 0x00000100,
                    0x0ad09d04, 0x5da140b1, 0x444adf04, 0xb5f73575, 0x0d7d14de, 0xe0e16a35, 0x3e837a4b, 0x647c073a],
      case_kernel = fnv1a_kernel 11,
      reg_inputs = [12, 0, 4, 8], reg5_init = 0x212fe053,
      memory_keys = [0x0000006b, 0x000000d6, 0x000001ac, 0x00000358, 0x000006b0, 0x00000d60, 0x00001ac0, 0x00003580],
      case_stmts = [(Byte_Pack, 5, 1, 4), (Mask_Merge, 1, 3, 2), (Add_Carry, 4, 0, 5), (Endian_Swap, 2, 1, 2),
                    (Endian_Swap, 3, 2, 0), (Rotate_Mix, 4, 1, 3), (Add_Carry, 2, 3, 5), (Switch_Phi, 2, 2, 4),
                    (Mask_Merge, 4, 1, 0), (Halfword_Swap, 5, 5, 1), (Multiply_Low, 0, 2, 4), (Popcount_Loop, 4, 1, 0)]\<rparr>"

definition case_0108 :: "case_program" where
  "case_0108 =
     \<lparr>case_id = 108,
      case_input = [0x42bde81a, 0xe7ac8b23, 0xc67a4934, 0xaf66723f, 0x236f3f64, 0x31fbe5ec, 0xa5085db8, 0xe5f2a12e,
                    0x7fffffff, 0x0db7d691, 0xce285e13, 0xb4541e2f, 0x1b252776, 0x4a436a5a, 0x83ba95c7, 0x77a27130],
      case_kernel = fnv1a_kernel 12,
      reg_inputs = [13, 1, 5, 9], reg5_init = 0xbf675a0c,
      memory_keys = [0x0000006c, 0x000000d8, 0x000001b0, 0x00000360, 0x000006c0, 0x00000d80, 0x00001b00, 0x00003600],
      case_stmts = [(Halfword_Swap, 5, 2, 4), (Mask_Merge, 5, 2, 2), (Add_Carry, 2, 4, 1), (Byte_Pack, 2, 5, 1),
                    (Switch_Phi, 4, 2, 1), (Mask_Merge, 3, 5, 1), (Array_Scatter, 1, 5, 0), (Multiply_Low, 3, 1, 4),
                    (Reverse_Loop, 3, 2, 1), (Multiply_Low, 1, 0, 5), (Endian_Swap, 5, 2, 0), (Mask_Merge, 2, 4, 3)]\<rparr>"

definition case_0109 :: "case_program" where
  "case_0109 =
     \<lparr>case_id = 109,
      case_input = [0x023fc85b, 0xfbadde64, 0x33e2eb32, 0x0f6f0719, 0x353ab2b1, 0x2218aeef, 0xecf3c2c1, 0x370767e2,
                    0x50eaaec1, 0x80000000, 0x58aea934, 0x6c62ed5e, 0xc323e49f, 0xd3a5701c, 0x5e0084fe, 0x5e92804e],
      case_kernel = fnv1a_kernel 13,
      reg_inputs = [14, 2, 6, 10], reg5_init = 0x5d9ed3c5,
      memory_keys = [0x0000006d, 0x000000da, 0x000001b4, 0x00000368, 0x000006d0, 0x00000da0, 0x00001b40, 0x00003680],
      case_stmts = [(Array_Scatter, 2, 5, 5), (Mask_Merge, 4, 2, 3), (Add_Carry, 2, 4, 3), (Carry_Chain, 3, 3, 0),
                    (Divide_Rem, 4, 4, 1), (Gray_Decode, 3, 5, 0), (Multiply_Low, 0, 2, 3), (Compare_Select, 2, 4, 0),
                    (Popcount_Loop, 2, 5, 2), (Counted_Loop, 2, 4, 1), (Array_Scatter, 5, 2, 3), (Add_Carry, 1, 2, 4)]\<rparr>"

definition case_0110 :: "case_program" where
  "case_0110 =
     \<lparr>case_id = 110,
      case_input = [0xc3b9a898, 0xdfac21ac, 0x2549a87c, 0x5b7f6059, 0xc2fa8810, 0xe385df68, 0x1ceab63b, 0x3da46468,
                    0x25fe7b4d, 0x83d72b0d, 0xfffffffe, 0x6958e034, 0x842c60c8, 0x90f7cd0c, 0x6a718737, 0x24dfff78],
      case_kernel = fnv1a_kernel 14,
      reg_inputs = [15, 3, 7, 11], reg5_init = 0xfbd64d7e,
      memory_keys = [0x0000006e, 0x000000dc, 0x000001b8, 0x00000370, 0x000006e0, 0x00000dc0, 0x00001b80, 0x00003700],
      case_stmts = [(Counted_Loop, 3, 5, 3), (Mask_Merge, 3, 2, 2), (Add_Carry, 2, 3, 2), (Endian_Swap, 0, 3, 1),
                    (Minmax_Clamp, 0, 3, 5), (Mask_Merge, 5, 3, 0), (Gray_Decode, 0, 2, 0), (Gray_Decode, 2, 5, 3),
                    (Rotate_Mix, 3, 1, 1), (Divide_Rem, 2, 5, 3), (Byte_Pack, 3, 0, 0), (Short_Circuit, 1, 1, 2)]\<rparr>"

definition case_0111 :: "case_program" where
  "case_0111 =
     \<lparr>case_id = 111,
      case_input = [0x833b88d9, 0xc3ad74eb, 0xd0d10a7a, 0xfb76157f, 0xd4af05c5, 0xf066946b, 0x55112942, 0xef51a2a4,
                    0xc2b9709c, 0xc23899c2, 0xc82e3e9b, 0xffffffff, 0x5c2aa321, 0x0911d74a, 0xb7cb960e, 0x0def0e06],
      case_kernel = fnv1a_kernel 15,
      reg_inputs = [0, 4, 8, 12], reg5_init = 0x9a0dc737,
      memory_keys = [0x0000006f, 0x000000de, 0x000001bc, 0x00000378, 0x000006f0, 0x00000de0, 0x00001bc0, 0x00003780],
      case_stmts = [(Switch_Phi, 0, 2, 4), (Mask_Merge, 4, 4, 1), (Add_Carry, 4, 1, 0), (Halfword_Swap, 1, 3, 2),
                    (Byte_Pack, 2, 3, 5), (Byte_Pack, 1, 3, 5), (Endian_Swap, 3, 1, 5), (Counted_Loop, 1, 4, 5),
                    (Sub_Borrow, 2, 0, 4), (Popcount_Loop, 1, 1, 1), (Horner_Loop, 1, 0, 5), (Array_Scatter, 4, 1, 5)]\<rparr>"

definition case_0112 :: "case_program" where
  "case_0112 =
     \<lparr>case_id = 112,
      case_input = [0x4c866f01, 0xb7aa2079, 0x974d04c0, 0x3bfe8c5d, 0x00000000, 0xbd08b974, 0xbd5990ab, 0x9eea7de4,
                    0xdba562d0, 0xe85d8c53, 0x88b828e8, 0xb6839f34, 0x00000000, 0x60cd3e65, 0xcd2e6ed6, 0xcff03aec],
      case_kernel = fnv1a_kernel 4,
      reg_inputs = [1, 5, 9, 13], reg5_init = 0x384540f0,
      memory_keys = [0x00000070, 0x000000e0, 0x000001c0, 0x00000380, 0x00000700, 0x00000e00, 0x00001c00, 0x00003800],
      case_stmts = [(Short_Circuit, 3, 3, 1), (Mask_Merge, 0, 1, 5), (Add_Carry, 4, 2, 1), (Halfword_Swap, 0, 4, 1),
                    (Mask_Merge, 1, 3, 3), (Mask_Merge, 4, 4, 4), (Switch_Phi, 0, 5, 5), (Compare_Select, 3, 1, 2),
                    (Compare_Select, 5, 1, 1), (Short_Circuit, 5, 3, 0), (Byte_Pack, 1, 1, 0), (Sub_Borrow, 4, 1, 3)]\<rparr>"

definition case_0113 :: "case_program" where
  "case_0113 =
     \<lparr>case_id = 113,
      case_input = [0x0c044f40, 0xabab753e, 0x62d5a6c6, 0x9bf7f97b, 0xeff81768, 0xaeebf277, 0xf4a20fd2, 0x4c1fbb28,
                    0x3ce26901, 0xa9b23e9c, 0x1e3edfcf, 0x00000080, 0xfa1b9242, 0x00000001, 0x10947fef, 0xe6c0cb92],
      case_kernel = fnv1a_kernel 5,
      reg_inputs = [2, 6, 10, 14], reg5_init = 0xd67cbaa9,
      memory_keys = [0x00000071, 0x000000e2, 0x000001c4, 0x00000388, 0x00000710, 0x00000e20, 0x00001c40, 0x00003880],
      case_stmts = [(Popcount_Loop, 4, 4, 4), (Mask_Merge, 1, 1, 4), (Add_Carry, 0, 2, 5), (Mask_Merge, 3, 2, 0),
                    (Reverse_Loop, 3, 3, 3), (Multiply_Low, 2, 4, 1), (Array_Scatter, 5, 2, 0), (Multiply_Low, 2, 0, 0),
                    (Array_Scatter, 2, 4, 0), (Endian_Swap, 0, 1, 0), (Byte_Pack, 3, 1, 3), (Halfword_Swap, 5, 5, 4)]\<rparr>"

definition case_0114 :: "case_program" where
  "case_0114 =
     \<lparr>case_id = 114,
      case_input = [0xcd822f83, 0x8faa8af6, 0xfffffffe, 0xcfe79e3b, 0x18382dc9, 0x6f7683f0, 0x04bb7b28, 0x46bcb8a2,
                    0x49f6bc8d, 0x663d71cf, 0x1838bf47, 0x6b8f612f, 0xbd141615, 0xba799933, 0x00000002, 0x9c8db4a4],
      case_kernel = fnv1a_kernel 6,
      reg_inputs = [3, 7, 11, 15], reg5_init = 0x74b43462,
      memory_keys = [0x00000072, 0x000000e4, 0x000001c8, 0x00000390, 0x00000720, 0x00000e40, 0x00001c80, 0x00003900],
      case_stmts = [(Reverse_Loop, 5, 4, 0), (Mask_Merge, 4, 1, 5), (Add_Carry, 4, 5, 2), (Rotate_Mix, 0, 2, 5),
                    (Reverse_Loop, 1, 0, 5), (Popcount_Loop, 4, 0, 3), (Endian_Swap, 1, 0, 5),
                    (Compare_Select, 2, 3, 1), (Counted_Loop, 5, 0, 3), (Horner_Loop, 2, 4, 4), (Sub_Borrow, 1, 3, 4),
                    (Short_Circuit, 5, 2, 4)]\<rparr>"

definition case_0115 :: "case_program" where
  "case_0115 =
     \<lparr>case_id = 115,
      case_input = [0x8d000fc2, 0x93abdfb1, 0x81e6478e, 0x6feeeb1d, 0x0e6da01c, 0x7c95c8f3, 0x4d40e451, 0x94497e6e,
                    0xaeb1b75c, 0x00000003, 0x8ebe4860, 0xb3b9925e, 0x6512d5fc, 0x239f8375, 0xf95f6d1f, 0x00000003],
      case_kernel = fnv1a_kernel 7,
      reg_inputs = [4, 8, 12, 0], reg5_init = 0x12ebae1b,
      memory_keys = [0x00000073, 0x000000e6, 0x000001cc, 0x00000398, 0x00000730, 0x00000e60, 0x00001cc0, 0x00003980],
      case_stmts = [(Gray_Decode, 0, 3, 3), (Mask_Merge, 5, 5, 0), (Add_Carry, 2, 1, 4), (Horner_Loop, 5, 2, 4),
                    (Endian_Swap, 3, 2, 3), (Byte_Pack, 2, 4, 4), (Horner_Loop, 2, 3, 2), (Byte_Pack, 3, 0, 3),
                    (Endian_Swap, 2, 5, 0), (Rotate_Mix, 5, 2, 4), (Endian_Swap, 1, 5, 3), (Mask_Merge, 0, 0, 5)]\<rparr>"

definition case_0116 :: "case_program" where
  "case_0116 =
     \<lparr>case_id = 116,
      case_input = [0x7fffffff, 0xc7ab7567, 0x512ac651, 0xd1cca890, 0x3880f454, 0x80f46138, 0xf39712d2, 0xe6704ad8,
                    0x13cc8f48, 0x77c45520, 0x04dcc977, 0xb21ab904, 0x734ae654, 0x893d831a, 0x44668293, 0xa66333d0],
      case_kernel = fnv1a_kernel 8,
      reg_inputs = [5, 9, 13, 1], reg5_init = 0xb12327d4,
      memory_keys = [0x00000074, 0x000000e8, 0x000001d0, 0x000003a0, 0x00000740, 0x00000e80, 0x00001d00, 0x00003a00],
      case_stmts = [(Minmax_Clamp, 0, 4, 3), (Mask_Merge, 1, 2, 4), (Add_Carry, 2, 5, 4), (Popcount_Loop, 3, 0, 1),
                    (Multiply_Low, 0, 4, 0), (Divide_Rem, 5, 0, 4), (Carry_Chain, 5, 1, 1), (Multiply_Low, 2, 5, 5),
                    (Carry_Chain, 5, 2, 1), (Mask_Merge, 5, 5, 4), (Byte_Pack, 0, 5, 1), (Array_Scatter, 2, 1, 0)]\<rparr>"

definition case_0117 :: "case_program" where
  "case_0117 =
     \<lparr>case_id = 117,
      case_input = [0x0e0cce45, 0x00000080, 0xa4b26457, 0x71c5ddb6, 0x2ed57981, 0x93172a3b, 0xba6c8dab, 0x00000001,
                    0xf48b8499, 0x362be7ef, 0x925a3e50, 0x6a2c4a75, 0xab4c25bd, 0x10db995c, 0x99dc93aa, 0x8f53c2ae],
      case_kernel = fnv1a_kernel 9,
      reg_inputs = [6, 10, 14, 2], reg5_init = 0x4f5aa18d,
      memory_keys = [0x00000075, 0x000000ea, 0x000001d4, 0x000003a8, 0x00000750, 0x00000ea0, 0x00001d40, 0x00003a80],
      case_stmts = [(Endian_Swap, 5, 1, 4), (Mask_Merge, 4, 4, 1), (Add_Carry, 4, 3, 2), (Halfword_Swap, 4, 4, 2),
                    (Add_Carry, 2, 0, 0), (Counted_Loop, 5, 4, 1), (Add_Carry, 4, 0, 2), (Rotate_Mix, 1, 2, 3),
                    (Array_Scatter, 2, 5, 0), (Short_Circuit, 0, 5, 0), (Gray_Decode, 4, 3, 0), (Add_Carry, 3, 3, 3)]\<rparr>"

definition case_0118 :: "case_program" where
  "case_0118 =
     \<lparr>case_id = 118,
      case_input = [0xcf8aae86, 0xffabdfe8, 0x000000ff, 0x25d5baf6, 0xd9154320, 0x528a5bbc, 0x4a75f951, 0x3e268f9e,
                    0x819f5115, 0xf9a4a8bc, 0x945c5ed8, 0x6f16471f, 0xec43a1ea, 0x5389244c, 0x000000ff, 0xf51ebd98],
      case_kernel = fnv1a_kernel 10,
      reg_inputs = [7, 11, 15, 3], reg5_init = 0xed921b46,
      memory_keys = [0x00000076, 0x000000ec, 0x000001d8, 0x000003b0, 0x00000760, 0x00000ec0, 0x00001d80, 0x00003b00],
      case_stmts = [(Carry_Chain, 2, 1, 2), (Mask_Merge, 5, 0, 0), (Add_Carry, 2, 4, 1), (Byte_Pack, 5, 0, 3),
                    (Add_Carry, 4, 1, 4), (Add_Carry, 3, 0, 1), (Divide_Rem, 2, 2, 1), (Switch_Phi, 1, 1, 4),
                    (Compare_Select, 1, 5, 5), (Compare_Select, 4, 2, 4), (Popcount_Loop, 2, 5, 3),
                    (Divide_Rem, 1, 4, 5)]\<rparr>"

definition case_0119 :: "case_program" where
  "case_0119 =
     \<lparr>case_id = 119,
      case_input = [0x8f088ec7, 0xe3aa8aaf, 0x4781851f, 0x00000100, 0xcf40cef5, 0xffffffff, 0x038e6628, 0xecd34952,
                    0x66d85ac4, 0xb84b1a73, 0x02daa9ff, 0xb720b46e, 0x34456203, 0xca6f3e0a, 0x7017815a, 0xdc2e4ce6],
      case_kernel = fnv1a_kernel 11,
      reg_inputs = [8, 12, 0, 4], reg5_init = 0x8bc994ff,
      memory_keys = [0x00000077, 0x000000ee, 0x000001dc, 0x000003b8, 0x00000770, 0x00000ee0, 0x00001dc0, 0x00003b80],
      case_stmts = [(Horner_Loop, 1, 4, 1), (Mask_Merge, 0, 4, 1), (Add_Carry, 4, 4, 1), (Rotate_Mix, 2, 4, 0),
                    (Horner_Loop, 0, 1, 2), (Reverse_Loop, 3, 0, 2), (Reverse_Loop, 5, 3, 2), (Compare_Select, 4, 2, 0),
                    (Sub_Borrow, 4, 2, 0), (Multiply_Low, 3, 2, 4), (Endian_Swap, 4, 5, 4), (Popcount_Loop, 0, 0, 2)]\<rparr>"

definition case_0120 :: "case_program" where
  "case_0120 =
     \<lparr>case_id = 120,
      case_input = [0x48976d0b, 0x57a88a45, 0x1b8281e3, 0xef9ac5c7, 0x7fffffff, 0xc6f709ed, 0xb9c2391d, 0xcbd1eba7,
                    0x2f4c592e, 0xeb937773, 0xe8ea89c1, 0x21fa8e6f, 0x0000007f, 0xf2bb9777, 0x46c83700, 0x9c189860],
      case_kernel = fnv1a_kernel 12,
      reg_inputs = [9, 13, 1, 5], reg5_init = 0x2a010eb8,
      memory_keys = [0x00000078, 0x000000f0, 0x000001e0, 0x000003c0, 0x00000780, 0x00000f00, 0x00001e00, 0x00003c00],
      case_stmts = [(Add_Carry, 1, 0, 4), (Compare_Select, 3, 3, 3), (Add_Carry, 4, 1, 5), (Reverse_Loop, 0, 4, 3),
                    (Mask_Merge, 5, 4, 4), (Reverse_Loop, 5, 3, 5), (Popcount_Loop, 4, 1, 4), (Sub_Borrow, 3, 1, 1),
                    (Switch_Phi, 3, 0, 3), (Reverse_Loop, 0, 1, 2), (Add_Carry, 5, 4, 4), (Gray_Decode, 2, 1, 1)]\<rparr>"

definition case_0121 :: "case_program" where
  "case_0121 =
     \<lparr>case_id = 121,
      case_input = [0x08154d4a, 0x4ba9df02, 0xee1a23e5, 0x80000000, 0x6fa2cabb, 0x80000000, 0xf039a664, 0x19242d6b,
                    0xc80b52ff, 0xaa7cc5bc, 0x7e6c7ee6, 0xf9cc7d1e, 0xba5df305, 0x6b5d8d31, 0x9b722639, 0xb528691e],
      case_kernel = fnv1a_kernel 13,
      reg_inputs = [10, 14, 2, 6], reg5_init = 0xc8388871,
      memory_keys = [0x00000079, 0x000000f2, 0x000001e4, 0x000003c8, 0x00000790, 0x00000f20, 0x00001e40, 0x00003c80],
      case_stmts = [(Sub_Borrow, 4, 5, 3), (Compare_Select, 4, 3, 4), (Add_Carry, 0, 1, 5), (Switch_Phi, 3, 0, 4),
                    (Rotate_Mix, 5, 0, 2), (Minmax_Clamp, 3, 5, 2), (Multiply_Low, 5, 4, 1), (Minmax_Clamp, 4, 2, 5),
                    (Add_Carry, 2, 3, 2), (Switch_Phi, 1, 5, 2), (Add_Carry, 5, 0, 1), (Reverse_Loop, 1, 3, 4)]\<rparr>"

definition case_0122 :: "case_program" where
  "case_0122 =
     \<lparr>case_id = 122,
      case_input = [0xc9932d89, 0x6fa820ca, 0xf8b160ab, 0x1b83d7a1, 0x9862f01a, 0x14893369, 0xfffffffe, 0x13872ee1,
                    0xbd1f8773, 0x65f38aef, 0x00000002, 0xfcf67074, 0xfd527752, 0x280f3021, 0xaf0325f0, 0xcf651628],
      case_kernel = fnv1a_kernel 14,
      reg_inputs = [11, 15, 3, 7], reg5_init = 0x6670022a,
      memory_keys = [0x0000007a, 0x000000f4, 0x000001e8, 0x000003d0, 0x000007a0, 0x00000f40, 0x00001e80, 0x00003d00],
      case_stmts = [(Rotate_Mix, 3, 3, 1), (Compare_Select, 5, 5, 5), (Add_Carry, 2, 4, 4), (Divide_Rem, 0, 4, 5),
                    (Compare_Select, 1, 1, 4), (Counted_Loop, 1, 1, 0), (Gray_Decode, 1, 0, 0), (Mask_Merge, 0, 3, 4),
                    (Switch_Phi, 5, 3, 1), (Array_Scatter, 1, 4, 0), (Counted_Loop, 3, 4, 4), (Rotate_Mix, 3, 4, 4)]\<rparr>"

definition case_0123 :: "case_program" where
  "case_0123 =
     \<lparr>case_id = 123,
      case_input = [0x89110dc8, 0x00000100, 0x0d29c2ad, 0xbb8aa287, 0x8e377dcf, 0x076a786a, 0x49db4de7, 0xffffffff,
                    0x5a588ca2, 0x241c3820, 0xeeece949, 0x24c08305, 0x2554b4bb, 0xb1e92a67, 0x72b934c9, 0xe655e756],
      case_kernel = fnv1a_kernel 15,
      reg_inputs = [12, 0, 4, 8], reg5_init = 0x04a77be3,
      memory_keys = [0x0000007b, 0x000000f6, 0x000001ec, 0x000003d8, 0x000007b0, 0x00000f60, 0x00001ec0, 0x00003d80],
      case_stmts = [(Multiply_Low, 2, 0, 4), (Compare_Select, 4, 3, 2), (Add_Carry, 0, 4, 0), (Sub_Borrow, 3, 0, 2),
                    (Sub_Borrow, 3, 5, 2), (Divide_Rem, 1, 3, 3), (Popcount_Loop, 0, 1, 1), (Halfword_Swap, 3, 4, 4),
                    (Minmax_Clamp, 4, 2, 0), (Divide_Rem, 0, 2, 2), (Reverse_Loop, 5, 0, 3), (Gray_Decode, 2, 4, 1)]\<rparr>"

definition case_0124 :: "case_program" where
  "case_0124 =
     \<lparr>case_id = 124,
      case_input = [0x4a9fec0e, 0x27a9df5b, 0xdde54372, 0x05a8e10a, 0xb8da2987, 0xfb0bd1a1, 0xf70cbb64, 0xb34bdc9b,
                    0x00000000, 0x740aae00, 0x648e685e, 0x2563a85f, 0x330c8713, 0x1b4b2a08, 0xcf80db45, 0xf58b915c],
      case_kernel = fnv1a_kernel 4,
      reg_inputs = [13, 1, 5, 9], reg5_init = 0xa2def59c,
      memory_keys = [0x0000007c, 0x000000f8, 0x000001f0, 0x000003e0, 0x000007c0, 0x00000f80, 0x00001f00, 0x00003e00],
      case_stmts = [(Divide_Rem, 4, 1, 0), (Compare_Select, 2, 2, 2), (Add_Carry, 0, 0, 2), (Horner_Loop, 3, 0, 1),
                    (Byte_Pack, 0, 5, 1), (Multiply_Low, 2, 1, 3), (Halfword_Swap, 1, 1, 4), (Halfword_Swap, 2, 3, 4),
                    (Byte_Pack, 3, 5, 5), (Byte_Pack, 2, 1, 4), (Short_Circuit, 4, 0, 1), (Byte_Pack, 4, 5, 0)]\<rparr>"

definition case_0125 :: "case_program" where
  "case_0125 =
     \<lparr>case_id = 125,
      case_input = [0x00000000, 0x3ba88a1c, 0x287de174, 0xa5a1942c, 0xae8fa452, 0xe8e89aa2, 0xbef7241d, 0x61be1a57,
                    0x0062bf67, 0x35e51ccf, 0xf2089f79, 0xfd555b2e, 0xeb0a44fa, 0x82ad304e, 0x123aca7c, 0xdcbb6022],
      case_kernel = popcount_kernel 4,
      reg_inputs = [14, 2, 6, 10], reg5_init = 0x41166f55,
      memory_keys = [0x0000007d, 0x000000fa, 0x000001f4, 0x000003e8, 0x000007d0, 0x00000fa0, 0x00001f40, 0x00003e80],
      case_stmts = [(Mask_Merge, 3, 2, 1), (Compare_Select, 3, 2, 5), (Add_Carry, 0, 0, 0), (Reverse_Loop, 4, 0, 0),
                    (Minmax_Clamp, 4, 5, 3), (Popcount_Loop, 0, 1, 2), (Reverse_Loop, 4, 4, 1),
                    (Array_Scatter, 3, 4, 2), (Add_Carry, 4, 2, 0), (Rotate_Mix, 5, 1, 4), (Divide_Rem, 0, 4, 2),
                    (Rotate_Mix, 1, 1, 5)]\<rparr>"

definition case_0126 :: "case_program" where
  "case_0126 =
     \<lparr>case_id = 126,
      case_input = [0xcb9bac8c, 0x00000001, 0x3ed6a23a, 0xf1b1f36c, 0x594f9ef3, 0x2975eb25, 0x4eee50e7, 0x6b1d19dd,
                    0x75766aeb, 0xfa6a539c, 0xf40efff1, 0xf86f5644, 0xac05c0ad, 0xc1ff8d5e, 0x264bc9b5, 0xa6f61f14],
      case_kernel = popcount_kernel 5,
      reg_inputs = [15, 3, 7, 11], reg5_init = 0xdf4de90e,
      memory_keys = [0x0000007e, 0x000000fc, 0x000001f8, 0x000003f0, 0x000007e0, 0x00000fc0, 0x00001f80, 0x00003f00],
      case_stmts = [(Compare_Select, 4, 0, 3), (Compare_Select, 0, 4, 4), (Add_Carry, 0, 5, 3),
                    (Array_Scatter, 5, 4, 5), (Minmax_Clamp, 0, 0, 5), (Byte_Pack, 0, 5, 2), (Carry_Chain, 2, 4, 0),
                    (Short_Circuit, 1, 3, 3), (Gray_Decode, 3, 4, 1), (Halfword_Swap, 5, 0, 4), (Carry_Chain, 4, 4, 3),
                    (Carry_Chain, 5, 0, 5)]\<rparr>"

definition case_0127 :: "case_program" where
  "case_0127 =
     \<lparr>case_id = 127,
      case_input = [0x8b198ccd, 0x03a82093, 0x00000002, 0x51b8864a, 0x4f1a1326, 0x3a96a026, 0x0715cf9e, 0xb9e8df11,
                    0x9231613a, 0xbb85e153, 0x628808d6, 0x2059a535, 0x74030344, 0x58199718, 0xfbf1d88c, 0x8fc6ee6a],
      case_kernel = popcount_kernel 6,
      reg_inputs = [0, 4, 8, 12], reg5_init = 0x7d8562c7,
      memory_keys = [0x0000007f, 0x000000fe, 0x000001fc, 0x000003f8, 0x000007f0, 0x00000fe0, 0x00001fc0, 0x00003f80],
      case_stmts = [(Byte_Pack, 5, 5, 2), (Compare_Select, 5, 2, 3), (Add_Carry, 0, 5, 1), (Divide_Rem, 4, 2, 4),
                    (Multiply_Low, 4, 2, 3), (Array_Scatter, 4, 1, 1), (Short_Circuit, 1, 5, 1),
                    (Popcount_Loop, 2, 4, 3), (Halfword_Swap, 0, 5, 2), (Array_Scatter, 2, 4, 4), (Rotate_Mix, 0, 4, 0),
                    (Gray_Decode, 2, 0, 0)]\<rparr>"

definition case_0128 :: "case_program" where
  "case_0128 =
     \<lparr>case_id = 128,
      case_input = [0x357a53cc, 0xff988b91, 0xb361990f, 0x00000003, 0x5eb921a7, 0x6366df23, 0xeb65f189, 0xe826b421,
                    0x4dd5d6e1, 0x8bddee61, 0x99cb085c, 0x1ab375e4, 0x60546684, 0x06b4f358, 0xe2953f38, 0xee03ef76],
      case_kernel = popcount_kernel 7,
      reg_inputs = [1, 5, 9, 13], reg5_init = 0x1bbcdc80,
      memory_keys = [0x00000080, 0x00000100, 0x00000200, 0x00000400, 0x00000800, 0x00001000, 0x00002000, 0x00004000],
      case_stmts = [(Halfword_Swap, 3, 1, 3), (Compare_Select, 5, 4, 5), (Add_Carry, 2, 3, 3),
                    (Popcount_Loop, 2, 2, 2), (Popcount_Loop, 5, 2, 2), (Rotate_Mix, 2, 2, 2), (Sub_Borrow, 3, 5, 0),
                    (Minmax_Clamp, 5, 2, 2), (Popcount_Loop, 3, 2, 3), (Compare_Select, 2, 3, 4), (Rotate_Mix, 0, 1, 3),
                    (Minmax_Clamp, 3, 4, 0)]\<rparr>"

definition case_0129 :: "case_program" where
  "case_0129 =
     \<lparr>case_id = 129,
      case_input = [0x75f8738d, 0xe399ded6, 0x46f93b09, 0x50ca90c1, 0x0000007f, 0x70859420, 0xa29e6ef0, 0x3ad372ed,
                    0xaa92dd30, 0xca325cae, 0x0f4dff7b, 0xc2858695, 0xb852a56d, 0x9f52e91e, 0x3f2f2e01, 0xc7331e08],
      case_kernel = popcount_kernel 8,
      reg_inputs = [2, 6, 10, 14], reg5_init = 0xb9f45639,
      memory_keys = [0x00000081, 0x00000102, 0x00000204, 0x00000408, 0x00000810, 0x00001020, 0x00002040, 0x00004080],
      case_stmts = [(Array_Scatter, 2, 4, 0), (Compare_Select, 4, 0, 2), (Add_Carry, 4, 3, 5), (Add_Carry, 3, 4, 5),
                    (Reverse_Loop, 3, 4, 2), (Short_Circuit, 2, 4, 1), (Horner_Loop, 0, 0, 5), (Sub_Borrow, 0, 3, 4),
                    (Counted_Loop, 0, 3, 0), (Horner_Loop, 3, 5, 0), (Counted_Loop, 0, 5, 4), (Popcount_Loop, 2, 2, 5)]\<rparr>"

definition case_0130 :: "case_program" where
  "case_0130 =
     \<lparr>case_id = 130,
      case_input = [0xb47e134e, 0xc798211e, 0x50527847, 0x04daf781, 0xbf2c96d3, 0x00000080, 0x52871a0a, 0x30707167,
                    0xdf8608bc, 0x05bd13fd, 0x094b9ff3, 0xc7bf8bff, 0xff5d213a, 0xdc00540e, 0x0b5e2dc8, 0xbd7e613e],
      case_kernel = popcount_kernel 9,
      reg_inputs = [3, 7, 11, 15], reg5_init = 0x582bcff2,
      memory_keys = [0x00000082, 0x00000104, 0x00000208, 0x00000410, 0x00000820, 0x00001040, 0x00002080, 0x00004100],
      case_stmts = [(Counted_Loop, 3, 4, 2), (Compare_Select, 5, 2, 5), (Add_Carry, 4, 0, 4), (Byte_Pack, 2, 2, 4),
                    (Counted_Loop, 1, 1, 2), (Counted_Loop, 0, 4, 1), (Horner_Loop, 4, 4, 0), (Halfword_Swap, 4, 0, 1),
                    (Endian_Swap, 1, 3, 3), (Popcount_Loop, 1, 2, 4), (Short_Circuit, 4, 5, 5), (Sub_Borrow, 0, 1, 3)]\<rparr>"

definition case_0131 :: "case_program" where
  "case_0131 =
     \<lparr>case_id = 131,
      case_input = [0xf4fc330f, 0xdb997459, 0xa5cada41, 0xa4d382a7, 0xa9791b06, 0xa2fbaea4, 0x000000ff, 0xe285b7ab,
                    0x38c1036d, 0x4452a132, 0x9fcd68d4, 0x1f89788e, 0x275be2d3, 0x45e64e48, 0xd6e43cf1, 0x944e9040],
      case_kernel = popcount_kernel 10,
      reg_inputs = [4, 8, 12, 0], reg5_init = 0xf66349ab,
      memory_keys = [0x00000083, 0x00000106, 0x0000020c, 0x00000418, 0x00000830, 0x00001060, 0x000020c0, 0x00004180],
      case_stmts = [(Switch_Phi, 0, 3, 5), (Compare_Select, 0, 2, 2), (Add_Carry, 0, 2, 0), (Reverse_Loop, 1, 0, 5),
                    (Popcount_Loop, 5, 5, 2), (Short_Circuit, 2, 0, 4), (Endian_Swap, 5, 5, 3), (Endian_Swap, 1, 3, 5),
                    (Carry_Chain, 4, 0, 2), (Halfword_Swap, 2, 4, 0), (Halfword_Swap, 4, 3, 0),
                    (Halfword_Swap, 1, 3, 0)]\<rparr>"

definition case_0132 :: "case_program" where
  "case_0132 =
     \<lparr>case_id = 132,
      case_input = [0x3772d2c9, 0x8f99de8f, 0x75065b9e, 0x1af1c12a, 0x9f944f4e, 0x5e9a076f, 0xa5ab73f0, 0x00000100,
                    0x85bc3b79, 0x14443712, 0x15afe9c3, 0x1e2a53d4, 0x3103d17b, 0xef444e27, 0x6bddd37d, 0x8790e64a],
      case_kernel = popcount_kernel 11,
      reg_inputs = [5, 9, 13, 1], reg5_init = 0x949ac364,
      memory_keys = [0x00000084, 0x00000108, 0x00000210, 0x00000420, 0x00000840, 0x00001080, 0x00002100, 0x00004200],
      case_stmts = [(Short_Circuit, 2, 4, 1), (Compare_Select, 4, 5, 2), (Add_Carry, 4, 0, 0), (Add_Carry, 1, 2, 2),
                    (Byte_Pack, 0, 1, 3), (Gray_Decode, 5, 2, 0), (Halfword_Swap, 2, 5, 2), (Sub_Borrow, 0, 0, 5),
                    (Sub_Borrow, 1, 3, 1), (Horner_Loop, 4, 5, 0), (Reverse_Loop, 3, 3, 0), (Halfword_Swap, 5, 2, 5)]\<rparr>"

definition case_0133 :: "case_program" where
  "case_0133 =
     \<lparr>case_id = 133,
      case_input = [0x77f0f288, 0x93988bc8, 0x809ef998, 0xbaf8b40c, 0x89c1c29b, 0x4d794c6c, 0xec50ec89, 0x424945d1,
                    0x7fffffff, 0x55ab85dd, 0x83291ee4, 0xc61ca0a5, 0xe9051292, 0x76a25461, 0xb667c244, 0xaea01734],
      case_kernel = popcount_kernel 12,
      reg_inputs = [6, 10, 14, 2], reg5_init = 0x32d23d1d,
      memory_keys = [0x00000085, 0x0000010a, 0x00000214, 0x00000428, 0x00000850, 0x000010a0, 0x00002140, 0x00004280],
      case_stmts = [(Popcount_Loop, 3, 3, 2), (Compare_Select, 3, 5, 1), (Add_Carry, 4, 0, 2),
                    (Array_Scatter, 0, 4, 5), (Add_Carry, 2, 3, 3), (Mask_Merge, 5, 4, 1), (Reverse_Loop, 5, 2, 1),
                    (Minmax_Clamp, 1, 5, 5), (Counted_Loop, 4, 2, 0), (Carry_Chain, 1, 5, 0), (Counted_Loop, 3, 5, 5),
                    (Mask_Merge, 2, 4, 2)]\<rparr>"

definition case_0134 :: "case_program" where
  "case_0134 =
     \<lparr>case_id = 134,
      case_input = [0xb676924b, 0xb7997400, 0x9635bad6, 0xeee8d34c, 0x7e01f83a, 0x8ce43deb, 0x1c499873, 0x48ea465b,
                    0x17efe524, 0x80000000, 0x852f7e6c, 0xc326adcf, 0xae0a96c5, 0x35f0e971, 0x8216c18d, 0xd4ed6802],
      case_kernel = popcount_kernel 13,
      reg_inputs = [7, 11, 15, 3], reg5_init = 0xd109b6d6,
      memory_keys = [0x00000086, 0x0000010c, 0x00000218, 0x00000430, 0x00000860, 0x000010c0, 0x00002180, 0x00004300],
      case_stmts = [(Reverse_Loop, 2, 5, 0), (Compare_Select, 2, 3, 4), (Add_Carry, 2, 5, 5), (Reverse_Loop, 3, 0, 4),
                    (Add_Carry, 0, 2, 1), (Switch_Phi, 1, 0, 3), (Carry_Chain, 3, 2, 0), (Mask_Merge, 3, 0, 0),
                    (Endian_Swap, 1, 4, 5), (Add_Carry, 5, 2, 4), (Divide_Rem, 3, 3, 2), (Array_Scatter, 4, 1, 2)]\<rparr>"

definition case_0135 :: "case_program" where
  "case_0135 =
     \<lparr>case_id = 135,
      case_input = [0xf6f4b20a, 0xab982147, 0x63ad18d0, 0x4ee1a66a, 0x685475ef, 0x9f0776e8, 0x55b2070a, 0x9a1f8097,
                    0xf0a8eef5, 0xdbcb7841, 0xfffffffe, 0x1b105ebe, 0x760c552c, 0xac16f337, 0x5facd0b4, 0xfddd997c],
      case_kernel = popcount_kernel 14,
      reg_inputs = [8, 12, 0, 4], reg5_init = 0x6f41308f,
      memory_keys = [0x00000087, 0x0000010e, 0x0000021c, 0x00000438, 0x00000870, 0x000010e0, 0x000021c0, 0x00004380],
      case_stmts = [(Gray_Decode, 1, 0, 3), (Compare_Select, 3, 5, 3), (Add_Carry, 4, 3, 1), (Multiply_Low, 4, 0, 5),
                    (Multiply_Low, 0, 2, 5), (Array_Scatter, 5, 2, 2), (Divide_Rem, 0, 1, 1), (Divide_Rem, 4, 1, 0),
                    (Reverse_Loop, 4, 5, 0), (Popcount_Loop, 2, 4, 2), (Divide_Rem, 3, 5, 5), (Minmax_Clamp, 3, 5, 1)]\<rparr>"

definition case_0136 :: "case_program" where
  "case_0136 =
     \<lparr>case_id = 136,
      case_input = [0x316b51c6, 0x1f9a21ad, 0x3fae1c2c, 0x24a7ac7d, 0xdee3fc74, 0x18996fba, 0xeffe583f, 0xbd1d2262,
                    0xb93ced1f, 0x88131541, 0xf999a975, 0xffffffff, 0x201207c3, 0x94c25a4a, 0x697366ee, 0xbdeb4dfa],
      case_kernel = popcount_kernel 15,
      reg_inputs = [9, 13, 1, 5], reg5_init = 0x0d78aa48,
      memory_keys = [0x00000088, 0x00000110, 0x00000220, 0x00000440, 0x00000880, 0x00001100, 0x00002200, 0x00004400],
      case_stmts = [(Minmax_Clamp, 3, 4, 2), (Compare_Select, 0, 4, 1), (Add_Carry, 2, 2, 3), (Switch_Phi, 4, 0, 0),
                    (Popcount_Loop, 3, 5, 3), (Mask_Merge, 1, 5, 3), (Gray_Decode, 3, 1, 3), (Multiply_Low, 5, 2, 1),
                    (Add_Carry, 3, 1, 5), (Short_Circuit, 5, 5, 2), (Mask_Merge, 4, 4, 5), (Reverse_Loop, 3, 0, 2)]\<rparr>"

definition case_0137 :: "case_program" where
  "case_0137 =
     \<lparr>case_id = 137,
      case_input = [0x71e97187, 0x039b74ea, 0xca36be2a, 0x84aed95b, 0x00000000, 0x0b7a24b9, 0xa605c746, 0x6fe8e4ae,
                    0x5e7be6ce, 0xc9fca78e, 0x6f1f5e52, 0x55fc97ce, 0x00000000, 0x0d24400c, 0xb4c977d7, 0x94dbbc84],
      case_kernel = popcount_kernel 4,
      reg_inputs = [10, 14, 2, 6], reg5_init = 0xabb02401,
      memory_keys = [0x00000089, 0x00000112, 0x00000224, 0x00000448, 0x00000890, 0x00001120, 0x00002240, 0x00004480],
      case_stmts = [(Endian_Swap, 0, 5, 1), (Compare_Select, 3, 0, 0), (Add_Carry, 4, 4, 3), (Carry_Chain, 1, 2, 3),
                    (Rotate_Mix, 5, 3, 3), (Switch_Phi, 5, 3, 4), (Sub_Borrow, 2, 0, 0), (Rotate_Mix, 2, 1, 1),
                    (Horner_Loop, 0, 2, 4), (Array_Scatter, 2, 3, 2), (Popcount_Loop, 2, 2, 4), (Gray_Decode, 0, 0, 3)]\<rparr>"

definition case_0138 :: "case_program" where
  "case_0138 =
     \<lparr>case_id = 138,
      case_input = [0xb06f1144, 0x279a8b22, 0xdc9dfd64, 0xd0bebe1b, 0x3f764b00, 0xcae7553e, 0x561cb3bc, 0x654be724,
                    0x2b6f3342, 0x0673e8dd, 0x69193eda, 0x00000080, 0xbf1b407d, 0x00000001, 0x80b8741e, 0xee96c3b2],
      case_kernel = popcount_kernel 5,
      reg_inputs = [11, 15, 3, 7], reg5_init = 0x49e79dba,
      memory_keys = [0x0000008a, 0x00000114, 0x00000228, 0x00000450, 0x000008a0, 0x00001140, 0x00002280, 0x00004500],
      case_stmts = [(Carry_Chain, 3, 5, 1), (Compare_Select, 0, 0, 5), (Add_Carry, 0, 1, 2), (Sub_Borrow, 2, 0, 2),
                    (Compare_Select, 1, 0, 5), (Popcount_Loop, 5, 1, 2), (Array_Scatter, 4, 4, 3),
                    (Switch_Phi, 2, 0, 4), (Divide_Rem, 5, 4, 5), (Horner_Loop, 4, 4, 2), (Switch_Phi, 2, 4, 1),
                    (Horner_Loop, 2, 1, 5)]\<rparr>"

definition case_0139 :: "case_program" where
  "case_0139 =
     \<lparr>case_id = 139,
      case_input = [0xf0ed3105, 0x3b9bde65, 0xfffffffe, 0x70b7cb3d, 0x2923c6d5, 0xd9041e3d, 0x1fe72cc5, 0xb7be21e8,
                    0xcc283893, 0x479c5a12, 0xff9fc9fd, 0x88f069d5, 0x671d8394, 0xd790e75a, 0x00000002, 0xc7a632cc],
      case_kernel = popcount_kernel 6,
      reg_inputs = [12, 0, 4, 8], reg5_init = 0xe81f1773,
      memory_keys = [0x0000008b, 0x00000116, 0x0000022c, 0x00000458, 0x000008b0, 0x00001160, 0x000022c0, 0x00004580],
      case_stmts = [(Horner_Loop, 4, 4, 4), (Compare_Select, 5, 4, 2), (Add_Carry, 2, 5, 0), (Halfword_Swap, 3, 2, 3),
                    (Sub_Borrow, 5, 4, 1), (Switch_Phi, 5, 5, 1), (Switch_Phi, 5, 1, 4), (Counted_Loop, 1, 3, 2),
                    (Gray_Decode, 4, 5, 4), (Compare_Select, 1, 4, 4), (Gray_Decode, 2, 0, 2),
                    (Compare_Select, 5, 5, 2)]\<rparr>"

definition case_0140 :: "case_program" where
  "case_0140 =
     \<lparr>case_id = 140,
      case_input = [0x3363d0c3, 0x6f9b74b3, 0xf9c9debd, 0xce9588b0, 0x1fce929d, 0x2565b7f6, 0xa130da46, 0xc587155e,
                    0x71550087, 0x00000003, 0x75fd48ea, 0x8953428f, 0x7145b03c, 0x7d32e735, 0xe03b8aab, 0x00000003],
      case_kernel = popcount_kernel 7,
      reg_inputs = [13, 1, 5, 9], reg5_init = 0x8656912c,
      memory_keys = [0x0000008c, 0x00000118, 0x00000230, 0x00000460, 0x000008c0, 0x00001180, 0x00002300, 0x00004600],
      case_stmts = [(Add_Carry, 2, 1, 0), (Byte_Pack, 1, 5, 4), (Add_Carry, 0, 5, 2), (Carry_Chain, 1, 0, 4),
                    (Gray_Decode, 2, 2, 0), (Add_Carry, 4, 5, 3), (Reverse_Loop, 2, 5, 5), (Rotate_Mix, 2, 4, 0),
                    (Minmax_Clamp, 3, 4, 3), (Array_Scatter, 3, 1, 0), (Mask_Merge, 1, 2, 0),
                    (Compare_Select, 1, 2, 1)]\<rparr>"

definition case_0141 :: "case_program" where
  "case_0141 =
     \<lparr>case_id = 141,
      case_input = [0x7fffffff, 0x739a21f4, 0x0c517cbb, 0x6e9cfd96, 0x099b1f48, 0x3686fcf5, 0xe8cb453f, 0x1772d392,
                    0x96120b56, 0x56657efd, 0xe37bbfcd, 0x5165b1fe, 0xa94373d5, 0xe4d4fd73, 0x3d819b92, 0xfd48b5b8],
      case_kernel = popcount_kernel 8,
      reg_inputs = [14, 2, 6, 10], reg5_init = 0x248e0ae5,
      memory_keys = [0x0000008d, 0x0000011a, 0x00000234, 0x00000468, 0x000008d0, 0x000011a0, 0x00002340, 0x00004680],
      case_stmts = [(Sub_Borrow, 5, 0, 5), (Byte_Pack, 0, 3, 3), (Add_Carry, 4, 5, 2), (Byte_Pack, 0, 4, 1),
                    (Add_Carry, 4, 4, 0), (Rotate_Mix, 4, 1, 2), (Minmax_Clamp, 1, 4, 2), (Switch_Phi, 1, 3, 4),
                    (Byte_Pack, 0, 1, 4), (Halfword_Swap, 4, 1, 4), (Array_Scatter, 5, 2, 3), (Byte_Pack, 4, 2, 4)]\<rparr>"

definition case_0142 :: "case_program" where
  "case_0142 =
     \<lparr>case_id = 142,
      case_input = [0xb2679041, 0x00000080, 0x1afa3ff5, 0x3a8c9ad6, 0xfe5b25e9, 0xf71b8d72, 0x18d231c5, 0x00000001,
                    0xe306deda, 0x99ea31ae, 0xe57ddf45, 0x545fbc94, 0xee4cf782, 0xa7864063, 0x09f0985b, 0x8705ca8e],
      case_kernel = popcount_kernel 9,
      reg_inputs = [15, 3, 7, 11], reg5_init = 0xc2c5849e,
      memory_keys = [0x0000008e, 0x0000011c, 0x00000238, 0x00000470, 0x000008e0, 0x000011c0, 0x00002380, 0x00004700],
      case_stmts = [(Rotate_Mix, 2, 0, 3), (Byte_Pack, 3, 3, 4), (Add_Carry, 2, 0, 5), (Halfword_Swap, 5, 2, 2),
                    (Halfword_Swap, 4, 5, 2), (Add_Carry, 2, 1, 0), (Short_Circuit, 5, 4, 1), (Counted_Loop, 1, 4, 3),
                    (Short_Circuit, 5, 3, 1), (Rotate_Mix, 2, 0, 0), (Horner_Loop, 3, 4, 0), (Gray_Decode, 4, 3, 2)]\<rparr>"

definition case_0143 :: "case_program" where
  "case_0143 =
     \<lparr>case_id = 143,
      case_input = [0xf2e5b000, 0x4b9a8b7b, 0x000000ff, 0x9a85eff0, 0xe80ea83c, 0xe4f8c671, 0x5129aebc, 0xcf2416d4,
                    0x0441d50b, 0xd8058361, 0x73fb2862, 0x8c694fe5, 0x364a346b, 0x3e605a25, 0x000000ff, 0xae353bf0],
      case_kernel = popcount_kernel 10,
      reg_inputs = [0, 4, 8, 12], reg5_init = 0x60fcfe57,
      memory_keys = [0x0000008f, 0x0000011e, 0x0000023c, 0x00000478, 0x000008f0, 0x000011e0, 0x000023c0, 0x00004780],
      case_stmts = [(Multiply_Low, 3, 1, 0), (Byte_Pack, 2, 1, 5), (Add_Carry, 2, 0, 3), (Endian_Swap, 0, 2, 3),
                    (Horner_Loop, 2, 5, 4), (Counted_Loop, 2, 3, 3), (Reverse_Loop, 0, 1, 0), (Horner_Loop, 4, 1, 1),
                    (Gray_Decode, 4, 0, 2), (Horner_Loop, 5, 0, 4), (Gray_Decode, 3, 0, 3), (Rotate_Mix, 5, 3, 1)]\<rparr>"

definition case_0144 :: "case_program" where
  "case_0144 =
     \<lparr>case_id = 144,
      case_input = [0x3d5857d8, 0x3f9ddfe9, 0xa8fe9349, 0x00000100, 0xc50c3744, 0xffffffff, 0xb9611755, 0xbe9fc994,
                    0x1d5dc747, 0xf26096f0, 0x336d3e11, 0x8b84c394, 0x487dc6e1, 0x57bcb30a, 0xaeaf71ba, 0x6c2a0f1a],
      case_kernel = popcount_kernel 11,
      reg_inputs = [1, 5, 9, 13], reg5_init = 0xff347810,
      memory_keys = [0x00000090, 0x00000120, 0x00000240, 0x00000480, 0x00000900, 0x00001200, 0x00002400, 0x00004800],
      case_stmts = [(Divide_Rem, 0, 2, 3), (Byte_Pack, 0, 0, 1), (Add_Carry, 4, 5, 4), (Mask_Merge, 1, 5, 0),
                    (Mask_Merge, 5, 5, 0), (Divide_Rem, 3, 4, 0), (Halfword_Swap, 1, 3, 0), (Byte_Pack, 2, 2, 4),
                    (Divide_Rem, 1, 1, 1), (Rotate_Mix, 3, 2, 5), (Horner_Loop, 3, 3, 2), (Reverse_Loop, 1, 5, 1)]\<rparr>"

definition case_0145 :: "case_program" where
  "case_0145 =
     \<lparr>case_id = 145,
      case_input = [0x7dda7799, 0x239c8aae, 0x5d66314f, 0xfa0403f4, 0x7fffffff, 0xba75a06d, 0xf09a882c, 0x6c6a0f58,
                    0xfa1acc96, 0xb38f243f, 0xa5ebc936, 0x53b230e5, 0x0000007f, 0xce5aa94c, 0x73156083, 0x451afe64],
      case_kernel = popcount_kernel 12,
      reg_inputs = [2, 6, 10, 14], reg5_init = 0x9d6bf1c9,
      memory_keys = [0x00000091, 0x00000122, 0x00000244, 0x00000488, 0x00000910, 0x00001220, 0x00002440, 0x00004880],
      case_stmts = [(Mask_Merge, 5, 1, 2), (Byte_Pack, 5, 0, 4), (Add_Carry, 4, 3, 0), (Halfword_Swap, 0, 1, 1),
                    (Rotate_Mix, 1, 3, 2), (Counted_Loop, 3, 4, 1), (Counted_Loop, 4, 0, 5), (Compare_Select, 1, 3, 4),
                    (Horner_Loop, 4, 4, 4), (Horner_Loop, 4, 4, 1), (Switch_Phi, 3, 3, 1), (Switch_Phi, 0, 3, 4)]\<rparr>"

definition case_0146 :: "case_program" where
  "case_0146 =
     \<lparr>case_id = 146,
      case_input = [0xbc5c175a, 0x079d7566, 0x4bcd7201, 0x80000000, 0x24998030, 0x80000000, 0x0083fcd6, 0x66c90cd2,
                    0x8f0e191a, 0x7c006b6c, 0xa3eda9be, 0x56883d8f, 0xd774815f, 0x8d08145c, 0x4764634a, 0x3f578152],
      case_kernel = popcount_kernel 13,
      reg_inputs = [3, 7, 11, 15], reg5_init = 0x3ba36b82,
      memory_keys = [0x00000092, 0x00000124, 0x00000248, 0x00000490, 0x00000920, 0x00001240, 0x00002480, 0x00004900],
      case_stmts = [(Compare_Select, 4, 5, 2), (Byte_Pack, 0, 2, 1), (Add_Carry, 0, 2, 3), (Horner_Loop, 1, 1, 2),
                    (Compare_Select, 3, 4, 0), (Short_Circuit, 1, 0, 1), (Carry_Chain, 0, 2, 4), (Gray_Decode, 3, 4, 3),
                    (Short_Circuit, 1, 4, 3), (Array_Scatter, 2, 3, 5), (Endian_Swap, 5, 1, 4), (Switch_Phi, 0, 0, 0)]\<rparr>"

definition case_0147 :: "case_program" where
  "case_0147 =
     \<lparr>case_id = 147,
      case_input = [0xfcde371b, 0x1b9c2021, 0xbe55d007, 0x0e1d1192, 0x32cc0de5, 0x680b9ae9, 0xfffffffe, 0xb43cca1e,
                    0x684912cb, 0x3defd9a3, 0x00000002, 0x8ebecefe, 0x0f7242b6, 0x14ee0e1a, 0x9ade7273, 0x1667702c],
      case_kernel = popcount_kernel 14,
      reg_inputs = [4, 8, 12, 0], reg5_init = 0xd9dae53b,
      memory_keys = [0x00000093, 0x00000126, 0x0000024c, 0x00000498, 0x00000930, 0x00001260, 0x000024c0, 0x00004980],
      case_stmts = [(Byte_Pack, 5, 4, 1), (Byte_Pack, 5, 0, 2), (Add_Carry, 0, 0, 1), (Rotate_Mix, 2, 1, 3),
                    (Mask_Merge, 1, 4, 0), (Counted_Loop, 5, 4, 2), (Halfword_Swap, 3, 3, 3), (Rotate_Mix, 4, 1, 1),
                    (Byte_Pack, 4, 3, 0), (Halfword_Swap, 3, 3, 5), (Endian_Swap, 3, 5, 1), (Carry_Chain, 5, 2, 3)]\<rparr>"

definition case_0148 :: "case_program" where
  "case_0148 =
     \<lparr>case_id = 148,
      case_input = [0x3f50d6dd, 0x00000100, 0x6e9951d8, 0xb03f521f, 0x042159ad, 0x946a3322, 0xf7af952c, 0xffffffff,
                    0xd5342adf, 0x6df94f83, 0xbf09df8e, 0x8f1de5a4, 0x192a711e, 0xbe4c0e75, 0x27e79dff, 0x05b90626],
      case_kernel = popcount_kernel 15,
      reg_inputs = [5, 9, 13, 1], reg5_init = 0x78125ef4,
      memory_keys = [0x00000094, 0x00000128, 0x00000250, 0x000004a0, 0x00000940, 0x00001280, 0x00002500, 0x00004a00],
      case_stmts = [(Halfword_Swap, 5, 5, 1), (Byte_Pack, 5, 1, 2), (Add_Carry, 4, 0, 3), (Divide_Rem, 0, 5, 2),
                    (Byte_Pack, 2, 4, 1), (Endian_Swap, 2, 0, 0), (Popcount_Loop, 0, 5, 4), (Compare_Select, 1, 2, 5),
                    (Divide_Rem, 3, 0, 3), (Multiply_Low, 3, 0, 1), (Horner_Loop, 2, 5, 3), (Counted_Loop, 3, 1, 2)]\<rparr>"

definition case_0149 :: "case_program" where
  "case_0149 =
     \<lparr>case_id = 149,
      case_input = [0x7fd2f69c, 0x539ddfb0, 0x9b01f3de, 0x10362739, 0x1274d478, 0x87897821, 0xbe540a55, 0x14f03864,
                    0x00000000, 0x2c16fd4c, 0x298f28a9, 0x572b16d5, 0xc12cb2f7, 0x27aa1433, 0xfa5d8cc6, 0x2c89f758],
      case_kernel = popcount_kernel 4,
      reg_inputs = [6, 10, 14, 2], reg5_init = 0x1649d8ad,
      memory_keys = [0x00000095, 0x0000012a, 0x00000254, 0x000004a8, 0x00000950, 0x000012a0, 0x00002540, 0x00004a80],
      case_stmts = [(Array_Scatter, 2, 4, 2), (Byte_Pack, 2, 1, 1), (Add_Carry, 4, 0, 1), (Array_Scatter, 1, 1, 1),
                    (Halfword_Swap, 2, 4, 5), (Switch_Phi, 4, 2, 5), (Multiply_Low, 3, 0, 3), (Byte_Pack, 4, 5, 5),
                    (Switch_Phi, 4, 1, 2), (Rotate_Mix, 4, 4, 5), (Byte_Pack, 0, 3, 2), (Byte_Pack, 0, 3, 1)]\<rparr>"

definition case_0150 :: "case_program" where
  "case_0150 =
     \<lparr>case_id = 150,
      case_input = [0x00000000, 0x779c2078, 0x8daab090, 0x44264079, 0xe5b4eed9, 0x461409a6, 0x4e4d7eaf, 0x1e533bee,
                    0x4767f482, 0xe399b21f, 0x2f894821, 0x52111bbf, 0x862336a0, 0x64f8a923, 0xce2c8f0f, 0x56c4886e],
      case_kernel = parity_kernel 4,
      reg_inputs = [7, 11, 15, 3], reg5_init = 0xb4815266,
      memory_keys = [0x00000096, 0x0000012c, 0x00000258, 0x000004b0, 0x00000960, 0x000012c0, 0x00002580, 0x00004b00],
      case_stmts = [(Counted_Loop, 1, 4, 0), (Byte_Pack, 3, 5, 4), (Add_Carry, 0, 1, 2), (Carry_Chain, 4, 3, 0),
                    (Minmax_Clamp, 0, 3, 1), (Array_Scatter, 2, 4, 5), (Gray_Decode, 3, 4, 4), (Carry_Chain, 2, 0, 0),
                    (Halfword_Swap, 5, 3, 5), (Divide_Rem, 4, 1, 1), (Endian_Swap, 0, 1, 5), (Multiply_Low, 4, 4, 5)]\<rparr>"

definition case_0151 :: "case_program" where
  "case_0151 =
     \<lparr>case_id = 151,
      case_input = [0xfed6b61e, 0x00000001, 0x78321296, 0xe42f355f, 0xf3e1630c, 0x55f742a5, 0x07b6e1d6, 0xcca6fd22,
                    0xa020ff53, 0xa27600d0, 0xb90fbf06, 0x8a27e8ce, 0x5e25f549, 0xfd1eb365, 0x13969e36, 0x7ff47910],
      case_kernel = parity_kernel 5,
      reg_inputs = [8, 12, 0, 4], reg5_init = 0x52b8cc1f,
      memory_keys = [0x00000097, 0x0000012e, 0x0000025c, 0x000004b8, 0x00000970, 0x000012e0, 0x000025c0, 0x00004b80],
      case_stmts = [(Switch_Phi, 4, 5, 5), (Byte_Pack, 2, 5, 1), (Add_Carry, 4, 1, 2), (Multiply_Low, 5, 5, 3),
                    (Byte_Pack, 0, 5, 5), (Switch_Phi, 0, 4, 4), (Popcount_Loop, 2, 1, 3), (Byte_Pack, 1, 3, 4),
                    (Multiply_Low, 4, 4, 0), (Endian_Swap, 5, 1, 5), (Endian_Swap, 0, 5, 0), (Counted_Loop, 5, 4, 0)]\<rparr>"

definition case_0152 :: "case_program" where
  "case_0152 =
     \<lparr>case_id = 152,
      case_input = [0x394955d2, 0xdf9f75d5, 0x00000002, 0x8e693f48, 0x4556ea97, 0xd2695bf7, 0xbdfabee3, 0xeba45fd7,
                    0xe9b4fcb9, 0xf1ae6dd0, 0x533f9f38, 0x1cfdd2cf, 0x083ba7a6, 0xc5ca1a18, 0x2549286c, 0x3fc2ad96],
      case_kernel = parity_kernel 6,
      reg_inputs = [9, 13, 1, 5], reg5_init = 0xf0f045d8,
      memory_keys = [0x00000098, 0x00000130, 0x00000260, 0x000004c0, 0x00000980, 0x00001300, 0x00002600, 0x00004c00],
      case_stmts = [(Short_Circuit, 0, 1, 4), (Byte_Pack, 1, 0, 1), (Add_Carry, 4, 0, 4), (Multiply_Low, 5, 5, 2),
                    (Endian_Swap, 1, 4, 1), (Gray_Decode, 2, 5, 1), (Reverse_Loop, 3, 1, 5), (Minmax_Clamp, 2, 2, 5),
                    (Array_Scatter, 1, 4, 3), (Add_Carry, 2, 4, 3), (Short_Circuit, 1, 4, 0), (Minmax_Clamp, 5, 1, 5)]\<rparr>"

definition case_0153 :: "case_program" where
  "case_0153 =
     \<lparr>case_id = 153,
      case_input = [0x79cb7593, 0xc39e2092, 0xd1a9b46c, 0x00000003, 0x53036742, 0xc18a10f4, 0xf401219a, 0x3951991b,
                    0x0ef3f768, 0xb041df1f, 0xc5b9681f, 0xc4cb21be, 0xd03d644f, 0x5c2c005e, 0xf8f33955, 0x16f25ce8],
      case_kernel = parity_kernel 7,
      reg_inputs = [10, 14, 2, 6], reg5_init = 0x8f27bf91,
      memory_keys = [0x00000099, 0x00000132, 0x00000264, 0x000004c8, 0x00000990, 0x00001320, 0x00002640, 0x00004c80],
      case_stmts = [(Popcount_Loop, 3, 2, 1), (Byte_Pack, 4, 4, 2), (Add_Carry, 0, 2, 2), (Compare_Select, 4, 3, 1),
                    (Rotate_Mix, 5, 4, 1), (Array_Scatter, 2, 5, 4), (Minmax_Clamp, 2, 0, 4), (Mask_Merge, 5, 1, 5),
                    (Counted_Loop, 0, 1, 2), (Popcount_Loop, 1, 4, 3), (Halfword_Swap, 1, 2, 3),
                    (Endian_Swap, 2, 1, 2)]\<rparr>"

definition case_0154 :: "case_program" where
  "case_0154 =
     \<lparr>case_id = 154,
      case_input = [0xb84d1550, 0xe79fdf5a, 0xc702f722, 0x7a702d2e, 0x0000007f, 0x00176173, 0x04185560, 0x33f29a91,
                    0x7be722e4, 0x7fce904c, 0xc3bf0897, 0xc1f12cd4, 0x9732e018, 0x1f7ebd4e, 0xcc823a9c, 0x6cbf23de],
      case_kernel = parity_kernel 8,
      reg_inputs = [11, 15, 3, 7], reg5_init = 0x2d5f394a,
      memory_keys = [0x0000009a, 0x00000134, 0x00000268, 0x000004d0, 0x000009a0, 0x00001340, 0x00002680, 0x00004d00],
      case_stmts = [(Reverse_Loop, 4, 0, 1), (Byte_Pack, 3, 0, 3), (Add_Carry, 2, 1, 1), (Popcount_Loop, 3, 1, 0),
                    (Compare_Select, 3, 3, 1), (Byte_Pack, 4, 3, 0), (Halfword_Swap, 2, 2, 3), (Minmax_Clamp, 3, 0, 2),
                    (Endian_Swap, 3, 1, 3), (Gray_Decode, 1, 3, 3), (Compare_Select, 1, 0, 0),
                    (Array_Scatter, 2, 4, 4)]\<rparr>"

definition case_0155 :: "case_program" where
  "case_0155 =
     \<lparr>case_id = 155,
      case_input = [0xf8cf3511, 0xfb9e8a1d, 0x329a5524, 0xda795808, 0xb296d036, 0x00000080, 0x4de3ca19, 0xe1075c5d,
                    0x9ca02935, 0x3e212283, 0x5539ffb0, 0x19c7dfa5, 0x4f3423f1, 0x8698a708, 0x11382ba5, 0x458fd2a0],
      case_kernel = parity_kernel 9,
      reg_inputs = [12, 0, 4, 8], reg5_init = 0xcb96b303,
      memory_keys = [0x0000009b, 0x00000136, 0x0000026c, 0x000004d8, 0x000009b0, 0x00001360, 0x000026c0, 0x00004d80],
      case_stmts = [(Gray_Decode, 3, 5, 4), (Byte_Pack, 0, 4, 0), (Add_Carry, 0, 1, 3), (Minmax_Clamp, 0, 3, 3),
                    (Endian_Swap, 3, 1, 3), (Popcount_Loop, 4, 3, 1), (Carry_Chain, 3, 1, 2), (Sub_Borrow, 0, 3, 4),
                    (Reverse_Loop, 2, 0, 0), (Rotate_Mix, 0, 3, 3), (Carry_Chain, 3, 0, 5), (Minmax_Clamp, 1, 4, 5)]\<rparr>"

definition case_0156 :: "case_program" where
  "case_0156 =
     \<lparr>case_id = 156,
      case_input = [0x3b41d4d7, 0xaf9e20cb, 0xe256d4fb, 0x645b1b85, 0x847b847e, 0xef9583bb, 0x000000ff, 0x933e68eb,
                    0x21dd1121, 0x6e37b4a3, 0xdf5b7ea7, 0x1864f4ff, 0x596c1059, 0x2c3aa767, 0xac01c429, 0x5651a4aa],
      case_kernel = parity_kernel 10,
      reg_inputs = [13, 1, 5, 9], reg5_init = 0x69ce2cbc,
      memory_keys = [0x0000009c, 0x00000138, 0x00000270, 0x000004e0, 0x000009c0, 0x00001380, 0x00002700, 0x00004e00],
      case_stmts = [(Minmax_Clamp, 1, 0, 2), (Byte_Pack, 2, 5, 2), (Add_Carry, 0, 3, 5), (Rotate_Mix, 2, 1, 2),
                    (Horner_Loop, 4, 1, 2), (Counted_Loop, 5, 3, 3), (Horner_Loop, 2, 3, 1), (Array_Scatter, 1, 2, 0),
                    (Mask_Merge, 5, 5, 3), (Endian_Swap, 2, 2, 1), (Halfword_Swap, 0, 0, 1), (Divide_Rem, 5, 5, 2)]\<rparr>"

definition case_0157 :: "case_program" where
  "case_0157 =
     \<lparr>case_id = 157,
      case_input = [0x7bc3f496, 0xb39f758c, 0x17ce76fd, 0xc4526ea3, 0x922e09ab, 0xfc76c8b8, 0xbacfa3e3, 0x00000100,
                    0xc69a1af0, 0x2fd8066c, 0x49dd8980, 0xc052078e, 0x816ad3b0, 0xb5dcbd21, 0x71bbd510, 0x7f6155d4],
      case_kernel = parity_kernel 11,
      reg_inputs = [14, 2, 6, 10], reg5_init = 0x0805a675,
      memory_keys = [0x0000009d, 0x0000013a, 0x00000274, 0x000004e8, 0x000009d0, 0x000013a0, 0x00002740, 0x00004e80],
      case_stmts = [(Endian_Swap, 2, 3, 5), (Byte_Pack, 5, 3, 1), (Add_Carry, 0, 5, 5), (Byte_Pack, 5, 1, 3),
                    (Short_Circuit, 4, 1, 0), (Halfword_Swap, 5, 1, 2), (Sub_Borrow, 3, 2, 2), (Minmax_Clamp, 2, 3, 4),
                    (Carry_Chain, 4, 2, 2), (Divide_Rem, 1, 0, 3), (Halfword_Swap, 4, 4, 0), (Mask_Merge, 2, 1, 1)]\<rparr>"

definition case_0158 :: "case_program" where
  "case_0158 =
     \<lparr>case_id = 158,
      case_input = [0xba459455, 0x979e8a44, 0x016535b3, 0x904209e3, 0x65ee330a, 0x3debb93f, 0x4ad6d719, 0x4b68adad,
                    0x7fffffff, 0xe057493f, 0x4fdbe908, 0xc5680ae4, 0xc66557e7, 0xf68e0031, 0x45cad6d9, 0x052c2ae2],
      case_kernel = parity_kernel 12,
      reg_inputs = [15, 3, 7, 11], reg5_init = 0xa63d202e,
      memory_keys = [0x0000009e, 0x0000013c, 0x00000278, 0x000004f0, 0x000009e0, 0x000013c0, 0x00002780, 0x00004f00],
      case_stmts = [(Carry_Chain, 1, 5, 1), (Byte_Pack, 2, 1, 4), (Add_Carry, 2, 0, 2), (Short_Circuit, 4, 3, 4),
                    (Minmax_Clamp, 2, 2, 2), (Rotate_Mix, 1, 5, 0), (Sub_Borrow, 3, 4, 5), (Mask_Merge, 0, 0, 3),
                    (Array_Scatter, 3, 4, 1), (Rotate_Mix, 3, 1, 5), (Counted_Loop, 2, 0, 5), (Sub_Borrow, 2, 0, 3)]\<rparr>"

definition case_0159 :: "case_program" where
  "case_0159 =
     \<lparr>case_id = 159,
      case_input = [0xfac7b414, 0x8b9fdf03, 0xf4fd97b5, 0x304b7cc5, 0x73bbbedf, 0x2e08f23c, 0x032d4860, 0x999d6b61,
                    0x54c9c4ad, 0x80000000, 0xd95d1e2f, 0x1d5ef995, 0x1e63940e, 0x6f681a77, 0x9870c7e0, 0x2c1cdb9c],
      case_kernel = parity_kernel 13,
      reg_inputs = [0, 4, 8, 12], reg5_init = 0x447499e7,
      memory_keys = [0x0000009f, 0x0000013e, 0x0000027c, 0x000004f8, 0x000009f0, 0x000013e0, 0x000027c0, 0x00004f80],
      case_stmts = [(Horner_Loop, 0, 2, 4), (Byte_Pack, 5, 3, 1), (Add_Carry, 4, 0, 0), (Endian_Swap, 3, 3, 5),
                    (Gray_Decode, 0, 4, 2), (Halfword_Swap, 3, 3, 3), (Byte_Pack, 4, 3, 0), (Halfword_Swap, 5, 1, 3),
                    (Reverse_Loop, 2, 5, 4), (Multiply_Low, 0, 1, 3), (Counted_Loop, 2, 0, 4),
                    (Halfword_Swap, 1, 2, 4)]\<rparr>"

definition case_0160 :: "case_program" where
  "case_0160 =
     \<lparr>case_id = 160,
      case_input = [0x253e5be4, 0x7f922360, 0x865f8d82, 0xa75ac38d, 0xfad30461, 0x7580bfa9, 0x6d6cdd75, 0x1a18b360,
                    0x2639b77a, 0x1a18b99c, 0xfffffffe, 0xa6605f20, 0x973894f0, 0x905ac43d, 0xee8a683c, 0xf3241ca7],
      case_kernel = parity_kernel 14,
      reg_inputs = [1, 5, 9, 13], reg5_init = 0xe2ac13a0,
      memory_keys = [0x000000a0, 0x00000140, 0x00000280, 0x00000500, 0x00000a00, 0x00001400, 0x00002800, 0x00005000],
      case_stmts = [(Add_Carry, 2, 0, 5), (Halfword_Swap, 3, 5, 3), (Add_Carry, 1, 5, 0), (Popcount_Loop, 2, 1, 3),
                    (Minmax_Clamp, 4, 2, 2), (Horner_Loop, 5, 3, 1), (Byte_Pack, 4, 5, 4), (Reverse_Loop, 5, 1, 2),
                    (Gray_Decode, 3, 1, 3), (Carry_Chain, 1, 1, 2), (Horner_Loop, 4, 3, 1), (Multiply_Low, 5, 4, 0)]\<rparr>"

definition case_0161 :: "case_program" where
  "case_0161 =
     \<lparr>case_id = 161,
      case_input = [0x65bc7ba5, 0x63937627, 0x73c72f84, 0x0753b6ab, 0xec8689b4, 0x6663f4aa, 0x2497420c, 0xc8ed75ac,
                    0xc17ebcab, 0x5bf70b53, 0x46a87bfc, 0xffffffff, 0x4f3e5719, 0x09bcde7b, 0x33307905, 0xda14edd9],
      case_kernel = parity_kernel 15,
      reg_inputs = [2, 6, 10, 14], reg5_init = 0x80e38d59,
      memory_keys = [0x000000a1, 0x00000142, 0x00000284, 0x00000508, 0x00000a10, 0x00001420, 0x00002840, 0x00005080],
      case_stmts = [(Sub_Borrow, 5, 1, 2), (Halfword_Swap, 4, 5, 2), (Add_Carry, 1, 3, 2), (Add_Carry, 1, 1, 0),
                    (Switch_Phi, 4, 0, 4), (Endian_Swap, 3, 3, 4), (Mask_Merge, 3, 2, 3), (Multiply_Low, 0, 4, 2),
                    (Minmax_Clamp, 2, 0, 2), (Horner_Loop, 0, 5, 0), (Switch_Phi, 2, 1, 2), (Compare_Select, 2, 4, 5)]\<rparr>"

definition case_0162 :: "case_program" where
  "case_0162 =
     \<lparr>case_id = 162,
      case_input = [0xa43a1b66, 0x479289ef, 0x656c6cca, 0x5343d1eb, 0x00000000, 0xa7fe852d, 0xd48e36f6, 0xc24e7626,
                    0xb46a6927, 0x94784400, 0x40ae1b74, 0x7b6ca13b, 0x00000000, 0x4aee636b, 0x07417acc, 0xa05992ef],
      case_kernel = parity_kernel 4,
      reg_inputs = [3, 7, 11, 15], reg5_init = 0x1f1b0712,
      memory_keys = [0x000000a2, 0x00000144, 0x00000288, 0x00000510, 0x00000a20, 0x00001440, 0x00002880, 0x00005100],
      case_stmts = [(Rotate_Mix, 0, 5, 4), (Halfword_Swap, 1, 5, 5), (Add_Carry, 5, 4, 3), (Gray_Decode, 4, 5, 5),
                    (Multiply_Low, 4, 3, 4), (Horner_Loop, 1, 3, 2), (Sub_Borrow, 3, 4, 2), (Carry_Chain, 4, 5, 5),
                    (Multiply_Low, 5, 0, 3), (Popcount_Loop, 0, 2, 2), (Array_Scatter, 2, 5, 3),
                    (Reverse_Loop, 0, 1, 1)]\<rparr>"

definition case_0163 :: "case_program" where
  "case_0163 =
     \<lparr>case_id = 163,
      case_input = [0xe4b83b27, 0x5b93dca8, 0x90f4cecc, 0xf34aa4cd, 0x0d133ec0, 0xb41dce2e, 0x9d75a98f, 0x10bbb0ea,
                    0x532d62f6, 0xd597f6cf, 0xd628ec53, 0x00000080, 0xd03710a7, 0x00000001, 0xdafb6bf5, 0x89696391],
      case_kernel = parity_kernel 5,
      reg_inputs = [4, 8, 12, 0], reg5_init = 0xbd5280cb,
      memory_keys = [0x000000a3, 0x00000146, 0x0000028c, 0x00000518, 0x00000a30, 0x00001460, 0x000028c0, 0x00005180],
      case_stmts = [(Multiply_Low, 5, 2, 1), (Halfword_Swap, 0, 3, 4), (Add_Carry, 1, 4, 5), (Rotate_Mix, 3, 3, 0),
                    (Minmax_Clamp, 4, 3, 0), (Sub_Borrow, 1, 5, 5), (Gray_Decode, 2, 1, 5), (Multiply_Low, 5, 0, 3),
                    (Minmax_Clamp, 2, 5, 2), (Halfword_Swap, 5, 4, 0), (Endian_Swap, 4, 1, 4), (Switch_Phi, 5, 3, 4)]\<rparr>"

definition case_0164 :: "case_program" where
  "case_0164 =
     \<lparr>case_id = 164,
      case_input = [0x2736dae1, 0x0f93767e, 0xfffffffe, 0x4d68e740, 0x3bfe6a88, 0x487c67e5, 0x23a25f0c, 0x6282845c,
                    0xee505ae2, 0x858160ef, 0x5c4a6d44, 0xa2f97910, 0xc66f230f, 0x79aa7942, 0x00000002, 0x9ab7159b],
      case_kernel = parity_kernel 6,
      reg_inputs = [5, 9, 13, 1], reg5_init = 0x5b89fa84,
      memory_keys = [0x000000a4, 0x00000148, 0x00000290, 0x00000520, 0x00000a40, 0x00001480, 0x00002900, 0x00005200],
      case_stmts = [(Divide_Rem, 3, 3, 5), (Halfword_Swap, 2, 0, 4), (Add_Carry, 5, 0, 5), (Add_Carry, 1, 1, 1),
                    (Rotate_Mix, 5, 3, 3), (Counted_Loop, 2, 5, 1), (Reverse_Loop, 1, 3, 2), (Horner_Loop, 2, 1, 1),
                    (Switch_Phi, 3, 2, 1), (Byte_Pack, 5, 5, 0), (Switch_Phi, 1, 1, 2), (Byte_Pack, 1, 4, 1)]\<rparr>"

definition case_0165 :: "case_program" where
  "case_0165 =
     \<lparr>case_id = 165,
      case_input = [0x67b4faa0, 0x13922339, 0xb5a0ed15, 0xed619266, 0x2dabe75d, 0x5b9f2ce6, 0x6a59c075, 0xb0774290,
                    0x09175133, 0x00000003, 0xcacc9a63, 0x7acf8a61, 0x1e69e0e6, 0xe04c6304, 0xba789540, 0x00000003],
      case_kernel = parity_kernel 7,
      reg_inputs = [6, 10, 14, 2], reg5_init = 0xf9c1743d,
      memory_keys = [0x000000a5, 0x0000014a, 0x00000294, 0x00000528, 0x00000a50, 0x000014a0, 0x00002940, 0x00005280],
      case_stmts = [(Mask_Merge, 2, 2, 2), (Halfword_Swap, 5, 4, 5), (Add_Carry, 1, 4, 1), (Array_Scatter, 4, 3, 4),
                    (Array_Scatter, 1, 5, 5), (Divide_Rem, 4, 3, 4), (Divide_Rem, 0, 0, 5), (Compare_Select, 5, 2, 5),
                    (Short_Circuit, 2, 3, 4), (Reverse_Loop, 2, 5, 0), (Horner_Loop, 3, 3, 1), (Rotate_Mix, 4, 2, 2)]\<rparr>"

definition case_0166 :: "case_program" where
  "case_0166 =
     \<lparr>case_id = 166,
      case_input = [0x7fffffff, 0x3793dcf1, 0xa30bae5b, 0xb971f526, 0xda6bddfc, 0x9a025d61, 0x9a40b48f, 0xbad4411a,
                    0x7c0384bf, 0x0be19d73, 0xcccafaeb, 0x7ff5870b, 0x596664b1, 0xa31ede14, 0x8e099689, 0xc9ca9bd3],
      case_kernel = parity_kernel 8,
      reg_inputs = [7, 11, 15, 3], reg5_init = 0x97f8edf6,
      memory_keys = [0x000000a6, 0x0000014c, 0x00000298, 0x00000530, 0x00000a60, 0x000014c0, 0x00002980, 0x00005300],
      case_stmts = [(Compare_Select, 3, 0, 0), (Halfword_Swap, 2, 4, 2), (Add_Carry, 5, 1, 4), (Rotate_Mix, 1, 5, 5),
                    (Mask_Merge, 3, 0, 1), (Reverse_Loop, 4, 5, 0), (Minmax_Clamp, 0, 4, 4), (Switch_Phi, 1, 3, 0),
                    (Byte_Pack, 1, 3, 5), (Minmax_Clamp, 2, 0, 4), (Popcount_Loop, 1, 1, 0), (Counted_Loop, 0, 5, 0)]\<rparr>"

definition case_0167 :: "case_program" where
  "case_0167 =
     \<lparr>case_id = 167,
      case_input = [0xe6b0ba22, 0x00000080, 0x56930c5d, 0x19788000, 0xcc3e5029, 0x89e11662, 0xd3bb2bf6, 0x00000001,
                    0x9b448f6e, 0x4a0e2fbc, 0x5a4c0dcc, 0xa7c3747a, 0x8160a758, 0x3af8c452, 0x53b387b0, 0xe0fa6aad],
      case_kernel = parity_kernel 9,
      reg_inputs = [8, 12, 0, 4], reg5_init = 0x363067af,
      memory_keys = [0x000000a7, 0x0000014e, 0x0000029c, 0x00000538, 0x00000a70, 0x000014e0, 0x000029c0, 0x00005380],
      case_stmts = [(Byte_Pack, 2, 5, 3), (Halfword_Swap, 5, 4, 3), (Add_Carry, 3, 1, 0), (Switch_Phi, 4, 1, 0),
                    (Carry_Chain, 3, 4, 1), (Halfword_Swap, 0, 5, 3), (Rotate_Mix, 5, 1, 1), (Reverse_Loop, 2, 2, 2),
                    (Add_Carry, 2, 2, 4), (Array_Scatter, 1, 2, 0), (Popcount_Loop, 5, 3, 5), (Gray_Decode, 3, 3, 3)]\<rparr>"

definition case_0168 :: "case_program" where
  "case_0168 =
     \<lparr>case_id = 168,
      case_input = [0x212f59ee, 0x9f90895c, 0x000000ff, 0x733e8a17, 0x7a89d9b2, 0x0e7f0f30, 0x69f774c3, 0x4f232523,
                    0xd2d08c84, 0x19d642bc, 0xb07c2df2, 0x31194e7b, 0xd77ef5b7, 0x022c6d2f, 0x000000ff, 0xa0ccbe2b],
      case_kernel = parity_kernel 10,
      reg_inputs = [9, 13, 1, 5], reg5_init = 0xd467e168,
      memory_keys = [0x000000a8, 0x00000150, 0x000002a0, 0x00000540, 0x00000a80, 0x00001500, 0x00002a00, 0x00005400],
      case_stmts = [(Halfword_Swap, 4, 3, 0), (Halfword_Swap, 0, 5, 3), (Add_Carry, 3, 4, 0), (Byte_Pack, 4, 1, 5),
                    (Divide_Rem, 2, 1, 3), (Divide_Rem, 0, 0, 0), (Endian_Swap, 4, 1, 3), (Popcount_Loop, 3, 1, 5),
                    (Compare_Select, 5, 4, 3), (Halfword_Swap, 4, 5, 2), (Divide_Rem, 2, 0, 5), (Sub_Borrow, 1, 4, 4)]\<rparr>"

definition case_0169 :: "case_program" where
  "case_0169 =
     \<lparr>case_id = 169,
      case_input = [0x61ad79af, 0x8391dc1b, 0xff08aaa7, 0x00000100, 0x6cdc5467, 0xffffffff, 0x200cebba, 0x9dd6e3ef,
                    0x35978755, 0x5839f073, 0x26fadad5, 0xe92fbd0a, 0x0f78365e, 0x9bca7769, 0xb8d620d3, 0x89fc4f55],
      case_kernel = parity_kernel 11,
      reg_inputs = [10, 14, 2, 6], reg5_init = 0x729f5b21,
      memory_keys = [0x000000a9, 0x00000152, 0x000002a4, 0x00000548, 0x00000a90, 0x00001520, 0x00002a40, 0x00005480],
      case_stmts = [(Array_Scatter, 5, 2, 1), (Halfword_Swap, 5, 1, 4), (Add_Carry, 3, 4, 4), (Reverse_Loop, 3, 5, 4),
                    (Byte_Pack, 2, 3, 1), (Rotate_Mix, 0, 4, 3), (Switch_Phi, 1, 0, 0), (Minmax_Clamp, 4, 0, 1),
                    (Array_Scatter, 4, 3, 2), (Mask_Merge, 5, 3, 0), (Halfword_Swap, 4, 2, 4),
                    (Short_Circuit, 2, 4, 3)]\<rparr>"

definition case_0170 :: "case_program" where
  "case_0170 =
     \<lparr>case_id = 170,
      case_input = [0xa02b196c, 0xa79023d3, 0xe9a3e9e9, 0x87279871, 0x7fffffff, 0xdc0135b4, 0xd0159f40, 0x9775e065,
                    0x408352d9, 0x97b6bf20, 0x20fcba5d, 0xec15b060, 0x0000007f, 0xd898ca79, 0x8ca7231a, 0xf3b13063],
      case_kernel = parity_kernel 12,
      reg_inputs = [11, 15, 3, 7], reg5_init = 0x10d6d4da,
      memory_keys = [0x000000aa, 0x00000154, 0x000002a8, 0x00000550, 0x00000aa0, 0x00001540, 0x00002a80, 0x00005500],
      case_stmts = [(Counted_Loop, 4, 0, 3), (Halfword_Swap, 2, 3, 1), (Add_Carry, 1, 5, 1), (Mask_Merge, 0, 5, 1),
                    (Multiply_Low, 4, 0, 5), (Short_Circuit, 0, 0, 5), (Byte_Pack, 5, 2, 1), (Endian_Swap, 0, 3, 0),
                    (Compare_Select, 1, 1, 3), (Gray_Decode, 5, 0, 0), (Reverse_Loop, 2, 4, 3),
                    (Short_Circuit, 4, 3, 3)]\<rparr>"

definition case_0171 :: "case_program" where
  "case_0171 =
     \<lparr>case_id = 171,
      case_input = [0xe0a9392d, 0xbb917694, 0x1c3b4bef, 0x80000000, 0x8d49e313, 0x80000000, 0x99ee0039, 0x458026a9,
                    0xa7c45908, 0xd6590def, 0xb67a4d7a, 0x34234311, 0x907171e0, 0x417ed03f, 0x511d3223, 0xda81c11d],
      case_kernel = parity_kernel 13,
      reg_inputs = [12, 0, 4, 8], reg5_init = 0xaf0e4e93,
      memory_keys = [0x000000ab, 0x00000156, 0x000002ac, 0x00000558, 0x00000ab0, 0x00001560, 0x00002ac0, 0x00005580],
      case_stmts = [(Switch_Phi, 3, 3, 2), (Halfword_Swap, 1, 3, 4), (Add_Carry, 1, 5, 1), (Short_Circuit, 5, 1, 4),
                    (Halfword_Swap, 2, 4, 5), (Reverse_Loop, 2, 2, 0), (Endian_Swap, 0, 3, 4), (Add_Carry, 1, 2, 4),
                    (Popcount_Loop, 0, 2, 4), (Counted_Loop, 4, 2, 2), (Counted_Loop, 4, 2, 2),
                    (Array_Scatter, 5, 5, 4)]\<rparr>"

definition case_0172 :: "case_program" where
  "case_0172 =
     \<lparr>case_id = 172,
      case_input = [0x2327d8eb, 0xef91dc42, 0xccf7ca30, 0x990caeda, 0xbba4b75b, 0x3383d77c, 0xfffffffe, 0x37b9121f,
                    0x1ab9611c, 0x864f9bcf, 0x00000002, 0x3580684b, 0x86294248, 0xebdcd050, 0xec24ddaf, 0xc95fb717],
      case_kernel = parity_kernel 14,
      reg_inputs = [13, 1, 5, 9], reg5_init = 0x4d45c84c,
      memory_keys = [0x000000ac, 0x00000158, 0x000002b0, 0x00000560, 0x00000ac0, 0x00001580, 0x00002b00, 0x00005600],
      case_stmts = [(Short_Circuit, 5, 2, 0), (Halfword_Swap, 1, 0, 4), (Add_Carry, 1, 3, 1), (Reverse_Loop, 5, 3, 5),
                    (Reverse_Loop, 5, 2, 0), (Sub_Borrow, 3, 4, 2), (Halfword_Swap, 5, 1, 3), (Minmax_Clamp, 0, 5, 4),
                    (Compare_Select, 3, 3, 1), (Sub_Borrow, 4, 1, 2), (Short_Circuit, 3, 4, 2), (Endian_Swap, 5, 2, 3)]\<rparr>"

definition case_0173 :: "case_program" where
  "case_0173 =
     \<lparr>case_id = 173,
      case_input = [0x63a5f8aa, 0x00000100, 0x396f6836, 0x3905dbfc, 0xadf13a8e, 0x20609c7f, 0x6ec269c3, 0xffffffff,
                    0xfdfe6acd, 0xc7a02900, 0xaa9e3b4a, 0xedb69b3a, 0x5e2f81a1, 0x723aca16, 0x319ecc96, 0xe06f4669],
      case_kernel = parity_kernel 15,
      reg_inputs = [14, 2, 6, 10], reg5_init = 0xeb7d4205,
      memory_keys = [0x000000ad, 0x0000015a, 0x000002b4, 0x00000568, 0x00000ad0, 0x000015a0, 0x00002b40, 0x00005680],
      case_stmts = [(Popcount_Loop, 4, 1, 1), (Halfword_Swap, 2, 4, 3), (Add_Carry, 5, 5, 5), (Multiply_Low, 4, 5, 4),
                    (Popcount_Loop, 1, 0, 2), (Horner_Loop, 3, 2, 1), (Rotate_Mix, 4, 2, 2), (Sub_Borrow, 3, 4, 2),
                    (Sub_Borrow, 4, 4, 2), (Short_Circuit, 5, 3, 2), (Divide_Rem, 5, 4, 1), (Minmax_Clamp, 4, 2, 2)]\<rparr>"

definition case_0174 :: "case_program" where
  "case_0174 =
     \<lparr>case_id = 174,
      case_input = [0xa2239869, 0xd79176cd, 0x2fc42b78, 0x6d15bcbc, 0x5a31002f, 0xe1fdedf8, 0x9edb1d39, 0xefefd759,
                    0x00000000, 0x082f6653, 0xac985bc2, 0xe88c9650, 0x192005f6, 0x31687706, 0x05efcf5f, 0x9a22395f],
      case_kernel = parity_kernel 4,
      reg_inputs = [15, 3, 7, 11], reg5_init = 0x89b4bbbe,
      memory_keys = [0x000000ae, 0x0000015c, 0x000002b8, 0x00000570, 0x00000ae0, 0x000015c0, 0x00002b80, 0x00005700],
      case_stmts = [(Reverse_Loop, 5, 3, 1), (Halfword_Swap, 5, 2, 2), (Add_Carry, 1, 0, 4), (Short_Circuit, 3, 3, 1),
                    (Popcount_Loop, 3, 5, 0), (Sub_Borrow, 1, 0, 5), (Counted_Loop, 4, 0, 5), (Add_Carry, 1, 1, 5),
                    (Rotate_Mix, 1, 4, 3), (Reverse_Loop, 1, 4, 4), (Compare_Select, 3, 4, 4),
                    (Halfword_Swap, 0, 3, 4)]\<rparr>"

definition case_0175 :: "case_program" where
  "case_0175 =
     \<lparr>case_id = 175,
      case_input = [0x00000000, 0xcb90238a, 0xda5c897e, 0xcd1cc99a, 0x4c648dfa, 0xf21ea6fb, 0xd7208240, 0x3d1a1195,
                    0x6fadb490, 0x49c0d49c, 0x3a1eace5, 0x30ba6521, 0xc126c61f, 0xa88e6d40, 0xd855de66, 0xb312c821],
      case_kernel = reverse_rotate_kernel 0 1,
      reg_inputs = [0, 4, 8, 12], reg5_init = 0x27ec3577,
      memory_keys = [0x000000af, 0x0000015e, 0x000002bc, 0x00000578, 0x00000af0, 0x000015e0, 0x00002bc0, 0x00005780],
      case_stmts = [(Gray_Decode, 4, 2, 4), (Halfword_Swap, 0, 0, 5), (Add_Carry, 3, 2, 4), (Sub_Borrow, 2, 5, 4),
                    (Reverse_Loop, 1, 3, 4), (Horner_Loop, 5, 2, 2), (Divide_Rem, 5, 5, 0), (Mask_Merge, 0, 0, 5),
                    (Mask_Merge, 0, 3, 0), (Switch_Phi, 4, 0, 4), (Compare_Select, 3, 4, 3), (Endian_Swap, 5, 1, 1)]\<rparr>"

definition case_0176 :: "case_program" where
  "case_0176 =
     \<lparr>case_id = 176,
      case_input = [0x2d1c5ff0, 0x00000001, 0x9dc087c4, 0x0d9450b8, 0x61661282, 0xbf708be4, 0x3f683ba9, 0x4ca1ced5,
                    0x76b1a6dc, 0x63a5c10d, 0x7a88ba96, 0x3757e950, 0xbf113495, 0xc152846f, 0xa2b026be, 0x710dfccb],
      case_kernel = reverse_rotate_kernel 1 2,
      reg_inputs = [1, 5, 9, 13], reg5_init = 0xc623af30,
      memory_keys = [0x000000b0, 0x00000160, 0x000002c0, 0x00000580, 0x00000b00, 0x00001600, 0x00002c00, 0x00005800],
      case_stmts = [(Minmax_Clamp, 1, 5, 1), (Halfword_Swap, 2, 3, 5), (Add_Carry, 1, 5, 1), (Mask_Merge, 1, 2, 5),
                    (Add_Carry, 2, 1, 2), (Sub_Borrow, 2, 5, 3), (Carry_Chain, 0, 5, 4), (Array_Scatter, 2, 3, 4),
                    (Reverse_Loop, 3, 4, 3), (Carry_Chain, 0, 4, 1), (Carry_Chain, 5, 3, 2), (Endian_Swap, 3, 1, 5)]\<rparr>"

definition case_0177 :: "case_program" where
  "case_0177 =
     \<lparr>case_id = 177,
      case_input = [0x6d9e7fb1, 0xa396225f, 0x00000002, 0xad9d259e, 0x77339f57, 0xac93c0e7, 0x7693a4d0, 0x9e540819,
                    0x91f6ad0d, 0x224a73c2, 0xec0e4db1, 0xef611a21, 0x6717f77c, 0x58b49e29, 0x7f0a3787, 0x583d0db5],
      case_kernel = reverse_rotate_kernel 2 3,
      reg_inputs = [2, 6, 10, 14], reg5_init = 0x645b28e9,
      memory_keys = [0x000000b1, 0x00000162, 0x000002c4, 0x00000588, 0x00000b10, 0x00001620, 0x00002c40, 0x00005880],
      case_stmts = [(Endian_Swap, 0, 0, 4), (Halfword_Swap, 5, 5, 0), (Add_Carry, 1, 5, 1), (Halfword_Swap, 0, 4, 4),
                    (Byte_Pack, 0, 3, 0), (Switch_Phi, 0, 1, 2), (Divide_Rem, 1, 0, 5), (Add_Carry, 3, 4, 2),
                    (Sub_Borrow, 4, 3, 0), (Horner_Loop, 1, 4, 5), (Counted_Loop, 5, 1, 3), (Add_Carry, 2, 1, 4)]\<rparr>"

definition case_0178 :: "case_program" where
  "case_0178 =
     \<lparr>case_id = 178,
      case_input = [0xac181f72, 0x8797dd97, 0x7ef3668c, 0x00000003, 0x80f3a5f6, 0x6d0eb160, 0x868ad02a, 0x94f70b93,
                    0xe4e27881, 0xedc53c91, 0xea082d39, 0xea5b174b, 0x2018732b, 0x1be62339, 0x4b7b344e, 0x22707283],
      case_kernel = reverse_rotate_kernel 3 4,
      reg_inputs = [3, 7, 11, 15], reg5_init = 0x0292a2a2,
      memory_keys = [0x000000b2, 0x00000164, 0x000002c8, 0x00000590, 0x00000b20, 0x00001640, 0x00002c80, 0x00005900],
      case_stmts = [(Carry_Chain, 1, 4, 4), (Halfword_Swap, 2, 5, 1), (Add_Carry, 5, 2, 0), (Byte_Pack, 3, 0, 3),
                    (Switch_Phi, 0, 0, 0), (Array_Scatter, 0, 1, 2), (Minmax_Clamp, 5, 0, 2), (Endian_Swap, 3, 1, 1),
                    (Counted_Loop, 1, 5, 1), (Popcount_Loop, 5, 5, 1), (Add_Carry, 5, 5, 4), (Add_Carry, 2, 2, 4)]\<rparr>"

definition case_0179 :: "case_program" where
  "case_0179 =
     \<lparr>case_id = 179,
      case_input = [0xec9a3f33, 0x9b9688d0, 0x8b6bc48a, 0x598437f8, 0x0000007f, 0x7eedfa63, 0xcf714f53, 0x4602cd5f,
                    0x03a57350, 0xac2a8e5e, 0x7c8eda1e, 0x326de43a, 0xf81eb0c2, 0x8200397f, 0x96c12577, 0x0b4083fd],
      case_kernel = reverse_rotate_kernel 4 5,
      reg_inputs = [4, 8, 12, 0], reg5_init = 0xa0ca1c5b,
      memory_keys = [0x000000b3, 0x00000166, 0x000002cc, 0x00000598, 0x00000b30, 0x00001660, 0x00002cc0, 0x00005980],
      case_stmts = [(Horner_Loop, 0, 5, 5), (Halfword_Swap, 3, 3, 2), (Add_Carry, 5, 2, 2), (Counted_Loop, 4, 2, 0),
                    (Minmax_Clamp, 4, 2, 2), (Multiply_Low, 4, 3, 5), (Carry_Chain, 4, 3, 3), (Halfword_Swap, 0, 0, 1),
                    (Popcount_Loop, 2, 2, 0), (Halfword_Swap, 0, 3, 3), (Halfword_Swap, 3, 3, 3),
                    (Endian_Swap, 1, 2, 1)]\<rparr>"

definition case_0180 :: "case_program" where
  "case_0180 =
     \<lparr>case_id = 180,
      case_input = [0x2f14def5, 0xcf962206, 0x5ba74555, 0xe7a67475, 0xa04b7c6b, 0x00000080, 0x71a6b9d0, 0x343bf9e9,
                    0xbed84b44, 0xfc3c187e, 0xf6ec5b09, 0x33cecf60, 0xee46836a, 0x28a23910, 0x2bf8cafb, 0x189ef5f7],
      case_kernel = reverse_rotate_kernel 5 6,
      reg_inputs = [5, 9, 13, 1], reg5_init = 0x3f019614,
      memory_keys = [0x000000b4, 0x00000168, 0x000002d0, 0x000005a0, 0x00000b40, 0x00001680, 0x00002d00, 0x00005a00],
      case_stmts = [(Add_Carry, 0, 4, 1), (Array_Scatter, 3, 0, 4), (Add_Carry, 5, 0, 0), (Divide_Rem, 2, 0, 1),
                    (Counted_Loop, 1, 0, 1), (Minmax_Clamp, 5, 5, 5), (Gray_Decode, 5, 5, 2), (Short_Circuit, 1, 5, 5),
                    (Counted_Loop, 1, 1, 1), (Byte_Pack, 4, 4, 3), (Reverse_Loop, 2, 1, 5), (Endian_Swap, 3, 5, 4)]\<rparr>"

definition case_0181 :: "case_program" where
  "case_0181 =
     \<lparr>case_id = 181,
      case_input = [0x6f96feb4, 0xd3977741, 0xae3fe753, 0x47af0153, 0xb61ef1be, 0x916f18ab, 0x000000ff, 0xe6ce3f25,
                    0x599f4095, 0xbdd3aab1, 0x606aac2e, 0xebf83c11, 0x36404083, 0xb1442356, 0xf642dbc2, 0x31ae0489],
      case_kernel = reverse_rotate_kernel 6 7,
      reg_inputs = [6, 10, 14, 2], reg5_init = 0xdd390fcd,
      memory_keys = [0x000000b5, 0x0000016a, 0x000002d4, 0x000005a8, 0x00000b50, 0x000016a0, 0x00002d40, 0x00005a80],
      case_stmts = [(Sub_Borrow, 1, 3, 4), (Array_Scatter, 2, 4, 1), (Add_Carry, 3, 4, 0), (Array_Scatter, 3, 4, 2),
                    (Sub_Borrow, 3, 2, 3), (Counted_Loop, 1, 1, 4), (Popcount_Loop, 0, 4, 3), (Endian_Swap, 0, 0, 3),
                    (Endian_Swap, 4, 2, 0), (Counted_Loop, 3, 0, 5), (Counted_Loop, 0, 3, 4), (Short_Circuit, 4, 3, 1)]\<rparr>"

definition case_0182 :: "case_program" where
  "case_0182 =
     \<lparr>case_id = 182,
      case_input = [0xae109e77, 0xf7968889, 0xb894a41d, 0x13bf6613, 0x41decb1f, 0x50f2692c, 0xc8445253, 0x00000100,
                    0x2c8b9519, 0x725ce5e2, 0x666ccca6, 0xeec2317b, 0x714fc4d4, 0xf2169e46, 0xc233d80b, 0x4be37bbf],
      case_kernel = reverse_rotate_kernel 7 8,
      reg_inputs = [7, 11, 15, 3], reg5_init = 0x7b708986,
      memory_keys = [0x000000b6, 0x0000016c, 0x000002d8, 0x000005b0, 0x00000b60, 0x000016c0, 0x00002d80, 0x00005b00],
      case_stmts = [(Rotate_Mix, 2, 3, 4), (Array_Scatter, 3, 4, 2), (Add_Carry, 5, 5, 5), (Compare_Select, 0, 0, 3),
                    (Array_Scatter, 3, 3, 5), (Halfword_Swap, 1, 3, 2), (Sub_Borrow, 0, 4, 4), (Divide_Rem, 4, 5, 0),
                    (Rotate_Mix, 1, 4, 1), (Minmax_Clamp, 3, 1, 3), (Add_Carry, 2, 3, 5), (Short_Circuit, 2, 4, 3)]\<rparr>"

definition case_0183 :: "case_program" where
  "case_0183 =
     \<lparr>case_id = 183,
      case_input = [0xee92be36, 0xeb97ddce, 0x4d0c061b, 0xb3b61335, 0x578b46ca, 0x4311222f, 0x81bfcd2a, 0x3e98fa63,
                    0x7fffffff, 0x33b3572d, 0xf0ea3b81, 0x36f4c20a, 0xa949073d, 0x6bf08400, 0x1f89c932, 0x62d38ac1],
      case_kernel = reverse_rotate_kernel 8 9,
      reg_inputs = [8, 12, 0, 4], reg5_init = 0x19a8033f,
      memory_keys = [0x000000b7, 0x0000016e, 0x000002dc, 0x000005b8, 0x00000b70, 0x000016e0, 0x00002dc0, 0x00005b80],
      case_stmts = [(Multiply_Low, 3, 0, 5), (Array_Scatter, 0, 2, 5), (Add_Carry, 5, 1, 1), (Switch_Phi, 3, 0, 4),
                    (Compare_Select, 1, 1, 1), (Rotate_Mix, 3, 5, 5), (Gray_Decode, 1, 3, 3), (Array_Scatter, 5, 0, 4),
                    (Sub_Borrow, 2, 3, 2), (Mask_Merge, 0, 3, 1), (Minmax_Clamp, 2, 3, 4), (Endian_Swap, 3, 2, 0)]\<rparr>"

definition case_0184 :: "case_program" where
  "case_0184 =
     \<lparr>case_id = 184,
      case_input = [0x290d5dfa, 0x5f95dd24, 0x110f02e7, 0xd9f01922, 0xe13ccf51, 0xc48f3b7d, 0x3bf3921f, 0x199a5896,
                    0x82589d22, 0x80000000, 0x1ada1bbf, 0xa02ef80b, 0xff5755d2, 0x53242d7d, 0x29567f68, 0x22e55e47],
      case_kernel = reverse_rotate_kernel 9 10,
      reg_inputs = [9, 13, 1, 5], reg5_init = 0xb7df7cf8,
      memory_keys = [0x000000b8, 0x00000170, 0x000002e0, 0x000005c0, 0x00000b80, 0x00001700, 0x00002e00, 0x00005c00],
      case_stmts = [(Divide_Rem, 5, 0, 4), (Array_Scatter, 3, 5, 1), (Add_Carry, 5, 4, 1), (Horner_Loop, 3, 0, 5),
                    (Add_Carry, 2, 4, 3), (Compare_Select, 5, 0, 2), (Add_Carry, 4, 5, 3), (Reverse_Loop, 4, 1, 5),
                    (Byte_Pack, 1, 1, 3), (Halfword_Swap, 3, 2, 5), (Endian_Swap, 5, 4, 0), (Byte_Pack, 3, 3, 3)]\<rparr>"

definition case_0185 :: "case_program" where
  "case_0185 =
     \<lparr>case_id = 185,
      case_input = [0x698f7dbb, 0x43948863, 0xe497a0e1, 0x79f96c04, 0xf7694284, 0xd76c707e, 0x72080d66, 0xcb6f9e5a,
                    0x651f96f3, 0x218488e2, 0xfffffffe, 0x78180b7a, 0x2751963b, 0xcac2373b, 0xf4ec6e51, 0x0bd5af39],
      case_kernel = reverse_rotate_kernel 10 11,
      reg_inputs = [10, 14, 2, 6], reg5_init = 0x5616f6b1,
      memory_keys = [0x000000b9, 0x00000172, 0x000002e4, 0x000005c8, 0x00000b90, 0x00001720, 0x00002e40, 0x00005c80],
      case_stmts = [(Mask_Merge, 2, 5, 3), (Array_Scatter, 2, 3, 0), (Add_Carry, 3, 4, 5), (Rotate_Mix, 0, 4, 4),
                    (Gray_Decode, 4, 4, 1), (Short_Circuit, 5, 0, 5), (Reverse_Loop, 3, 4, 4), (Horner_Loop, 5, 2, 5),
                    (Divide_Rem, 0, 2, 0), (Array_Scatter, 0, 0, 5), (Array_Scatter, 5, 4, 3), (Carry_Chain, 4, 1, 0)]\<rparr>"

definition case_0186 :: "case_program" where
  "case_0186 =
     \<lparr>case_id = 186,
      case_input = [0xa8091d78, 0x679577ab, 0xf23ce3af, 0x2de90b44, 0x00a97825, 0x16f101f9, 0x8211799c, 0xc1cc9dd0,
                    0x100b437f, 0xee0bc7b1, 0x8a5a8c10, 0xffffffff, 0x605e126c, 0x89908a2b, 0xc09d6d98, 0x7198d00f],
      case_kernel = reverse_rotate_kernel 11 12,
      reg_inputs = [11, 15, 3, 7], reg5_init = 0xf44e706a,
      memory_keys = [0x000000ba, 0x00000174, 0x000002e8, 0x000005d0, 0x00000ba0, 0x00001740, 0x00002e80, 0x00005d00],
      case_stmts = [(Compare_Select, 1, 3, 3), (Array_Scatter, 5, 1, 3), (Add_Carry, 3, 5, 4), (Endian_Swap, 5, 4, 1),
                    (Gray_Decode, 2, 1, 5), (Counted_Loop, 5, 0, 1), (Rotate_Mix, 5, 2, 3), (Rotate_Mix, 5, 5, 2),
                    (Byte_Pack, 5, 4, 3), (Multiply_Low, 2, 1, 1), (Horner_Loop, 3, 0, 0), (Compare_Select, 0, 2, 0)]\<rparr>"

definition case_0187 :: "case_program" where
  "case_0187 =
     \<lparr>case_id = 187,
      case_input = [0xe88b3d39, 0x7b9422ec, 0x07a441a9, 0x8de07e62, 0x00000000, 0x05124afa, 0xcbeae6e5, 0x13395b1c,
                    0xf74c48ae, 0xafe4757e, 0x1cdc7b37, 0xa514f561, 0x00000000, 0x1076906d, 0x1d277ca1, 0x58a82171],
      case_kernel = reverse_rotate_kernel 12 13,
      reg_inputs = [12, 0, 4, 8], reg5_init = 0x9285ea23,
      memory_keys = [0x000000bb, 0x00000176, 0x000002ec, 0x000005d8, 0x00000bb0, 0x00001760, 0x00002ec0, 0x00005d80],
      case_stmts = [(Byte_Pack, 4, 2, 0), (Array_Scatter, 4, 1, 4), (Add_Carry, 1, 1, 2), (Add_Carry, 2, 4, 0),
                    (Short_Circuit, 0, 1, 5), (Add_Carry, 1, 2, 2), (Minmax_Clamp, 4, 1, 0), (Multiply_Low, 0, 4, 0),
                    (Divide_Rem, 0, 5, 4), (Compare_Select, 1, 5, 5), (Multiply_Low, 1, 4, 1), (Multiply_Low, 3, 2, 1)]\<rparr>"

definition case_0188 :: "case_program" where
  "case_0188 =
     \<lparr>case_id = 188,
      case_input = [0x2b05dcff, 0x2f94883a, 0xd768c076, 0x33c23def, 0x2011a1b8, 0xf973e331, 0x753d1066, 0x61006faa,
                    0x4a3170ba, 0xfff2e35e, 0x96befa20, 0x00000080, 0xae00e22d, 0x00000001, 0xa01e932d, 0x4b76577b],
      case_kernel = reverse_rotate_kernel 13 14,
      reg_inputs = [13, 1, 5, 9], reg5_init = 0x30bd63dc,
      memory_keys = [0x000000bc, 0x00000178, 0x000002f0, 0x000005e0, 0x00000bc0, 0x00001780, 0x00002f00, 0x00005e00],
      case_stmts = [(Halfword_Swap, 0, 5, 0), (Array_Scatter, 4, 0, 2), (Add_Carry, 3, 1, 2), (Carry_Chain, 0, 2, 5),
                    (Reverse_Loop, 5, 1, 2), (Horner_Loop, 2, 0, 0), (Array_Scatter, 1, 5, 5), (Multiply_Low, 5, 5, 4),
                    (Horner_Loop, 5, 4, 3), (Mask_Merge, 1, 2, 5), (Popcount_Loop, 4, 4, 1), (Byte_Pack, 1, 1, 4)]\<rparr>"

definition case_0189 :: "case_program" where
  "case_0189 =
     \<lparr>case_id = 189,
      case_input = [0x6b87fcbe, 0x3395dd7d, 0xfffffffe, 0x93cb48c9, 0x36442c6d, 0xea90a832, 0x3cc68f1f, 0xb3f5a966,
                    0xad767b6b, 0xbe1d5191, 0x00380d07, 0x7c812d4a, 0x760621c4, 0x23328a44, 0x00000002, 0x6246a605],
      case_kernel = reverse_rotate_kernel 14 15,
      reg_inputs = [14, 2, 6, 10], reg5_init = 0xcef4dd95,
      memory_keys = [0x000000bd, 0x0000017a, 0x000002f4, 0x000005e8, 0x00000bd0, 0x000017a0, 0x00002f40, 0x00005e80],
      case_stmts = [(Array_Scatter, 1, 0, 5), (Array_Scatter, 3, 0, 1), (Add_Carry, 1, 1, 0), (Multiply_Low, 3, 4, 2),
                    (Endian_Swap, 1, 3, 4), (Popcount_Loop, 2, 4, 1), (Byte_Pack, 2, 0, 0), (Reverse_Loop, 0, 4, 4),
                    (Halfword_Swap, 2, 3, 2), (Halfword_Swap, 2, 4, 3), (Sub_Borrow, 0, 4, 0),
                    (Compare_Select, 4, 1, 3)]\<rparr>"

definition case_0190 :: "case_program" where
  "case_0190 =
     \<lparr>case_id = 190,
      case_input = [0xaa019c7d, 0x179422b5, 0x345b213e, 0xc7db2f89, 0xc18416cc, 0x2b0dd9b5, 0xccdffbe5, 0xb956aaec,
                    0xd862aee7, 0x00000003, 0x063e6d8f, 0x79bb2020, 0x3109a593, 0x60603754, 0x49d581dd, 0x00000003],
      case_kernel = reverse_rotate_kernel 15 16,
      reg_inputs = [15, 3, 7, 11], reg5_init = 0x6d2c574e,
      memory_keys = [0x000000be, 0x0000017c, 0x000002f8, 0x000005f0, 0x00000be0, 0x000017c0, 0x00002f80, 0x00005f00],
      case_stmts = [(Counted_Loop, 0, 2, 5), (Array_Scatter, 4, 2, 0), (Add_Carry, 5, 2, 5), (Minmax_Clamp, 0, 4, 3),
                    (Endian_Swap, 3, 2, 4), (Horner_Loop, 0, 0, 3), (Byte_Pack, 0, 0, 5), (Multiply_Low, 0, 3, 5),
                    (Gray_Decode, 3, 5, 5), (Counted_Loop, 0, 5, 1), (Switch_Phi, 2, 2, 1), (Compare_Select, 4, 4, 3)]\<rparr>"

definition case_0191 :: "case_program" where
  "case_0191 =
     \<lparr>case_id = 191,
      case_input = [0x7fffffff, 0x0b9577f2, 0xc1c38338, 0x67d25aaf, 0xd7d19b19, 0x38ee92b6, 0x8524649c, 0x6ba36c20,
                    0x3f25a536, 0x307dac0d, 0x90b89aa8, 0xa18dd351, 0xe90f667a, 0xf9862d12, 0x946f90e4, 0x313b284d],
      case_kernel = reverse_rotate_kernel 0 17,
      reg_inputs = [0, 4, 8, 12], reg5_init = 0x0b63d107,
      memory_keys = [0x000000bf, 0x0000017e, 0x000002fc, 0x000005f8, 0x00000bf0, 0x000017e0, 0x00002fc0, 0x00005f80],
      case_stmts = [(Switch_Phi, 1, 3, 4), (Array_Scatter, 1, 2, 5), (Add_Carry, 5, 0, 3), (Sub_Borrow, 3, 4, 4),
                    (Rotate_Mix, 5, 2, 2), (Popcount_Loop, 2, 0, 2), (Sub_Borrow, 5, 3, 0), (Counted_Loop, 5, 4, 5),
                    (Short_Circuit, 4, 4, 2), (Gray_Decode, 5, 5, 1), (Gray_Decode, 4, 4, 0), (Gray_Decode, 1, 0, 0)]\<rparr>"

definition case_0192 :: "case_program" where
  "case_0192 =
     \<lparr>case_id = 192,
      case_input = [0x15f2439c, 0x00000080, 0xd91db015, 0x5ff1a932, 0x166d6a2a, 0x4eaa1e36, 0xe577a870, 0x00000001,
                    0x0b0f1dd7, 0x2155ecce, 0x0509b579, 0xc66e80a3, 0xcdf329a2, 0xdb36be84, 0x4350e245, 0x4b6a211e],
      case_kernel = reverse_rotate_kernel 1 18,
      reg_inputs = [1, 5, 9, 13], reg5_init = 0xa99b4ac0,
      memory_keys = [0x000000c0, 0x00000180, 0x00000300, 0x00000600, 0x00000c00, 0x00001800, 0x00003000, 0x00006000],
      case_stmts = [(Short_Circuit, 2, 4, 4), (Array_Scatter, 1, 2, 2), (Add_Carry, 2, 3, 4), (Mask_Merge, 2, 5, 2),
                    (Carry_Chain, 2, 4, 0), (Minmax_Clamp, 0, 3, 2), (Add_Carry, 5, 4, 1), (Array_Scatter, 5, 2, 4),
                    (Short_Circuit, 2, 0, 4), (Multiply_Low, 4, 1, 0), (Endian_Swap, 4, 1, 2), (Reverse_Loop, 2, 1, 0)]\<rparr>"

definition case_0193 :: "case_program" where
  "case_0193 =
     \<lparr>case_id = 193,
      case_input = [0x557063dd, 0xe38c8f35, 0x000000ff, 0xfff8dc14, 0x0038e7ff, 0x5d495535, 0xac8c3709, 0xdcab7c6e,
                    0xec481606, 0x60ba5e01, 0x938f425e, 0x1e5873d2, 0x15f5ea4b, 0x42d0a4c2, 0x000000ff, 0x625ad060],
      case_kernel = reverse_rotate_kernel 2 19,
      reg_inputs = [2, 6, 10, 14], reg5_init = 0x47d2c479,
      memory_keys = [0x000000c1, 0x00000182, 0x00000304, 0x00000608, 0x00000c10, 0x00001820, 0x00003040, 0x00006080],
      case_stmts = [(Popcount_Loop, 3, 3, 1), (Array_Scatter, 0, 4, 1), (Add_Carry, 2, 1, 2), (Divide_Rem, 5, 1, 3),
                    (Popcount_Loop, 4, 4, 0), (Compare_Select, 2, 1, 5), (Carry_Chain, 0, 1, 0),
                    (Minmax_Clamp, 4, 5, 0), (Horner_Loop, 1, 5, 1), (Carry_Chain, 1, 5, 0), (Sub_Borrow, 4, 1, 1),
                    (Gray_Decode, 3, 5, 1)]\<rparr>"

definition case_0194 :: "case_program" where
  "case_0194 =
     \<lparr>case_id = 194,
      case_input = [0x94f6031e, 0xc78d70fd, 0x3a2e515d, 0x00000100, 0xf7f8dd5e, 0xffffffff, 0x5c9543f3, 0xd6087fe4,
                    0x995cc38a, 0xaf351152, 0x958922d6, 0x1b627eb8, 0x52fa6e1c, 0x018219d2, 0xaa9bf0b5, 0x1817af56],
      case_kernel = reverse_rotate_kernel 3 20,
      reg_inputs = [3, 7, 11, 15], reg5_init = 0xe60a3e32,
      memory_keys = [0x000000c2, 0x00000184, 0x00000308, 0x00000610, 0x00000c20, 0x00001840, 0x00003080, 0x00006100],
      case_stmts = [(Reverse_Loop, 0, 3, 3), (Array_Scatter, 3, 0, 2), (Add_Carry, 4, 2, 3), (Horner_Loop, 0, 1, 2),
                    (Array_Scatter, 0, 5, 0), (Short_Circuit, 2, 3, 5), (Counted_Loop, 0, 3, 5),
                    (Popcount_Loop, 0, 0, 1), (Halfword_Swap, 0, 3, 4), (Halfword_Swap, 1, 4, 4),
                    (Multiply_Low, 0, 5, 0), (Horner_Loop, 3, 2, 3)]\<rparr>"

definition case_0195 :: "case_program" where
  "case_0195 =
     \<lparr>case_id = 195,
      case_input = [0xd474235f, 0xdb8c25ba, 0xcfb6f35b, 0x0be1ce72, 0x7fffffff, 0x8f376fb1, 0x156edc8a, 0x04fdb928,
                    0x7e1bc85b, 0xeedaa39d, 0x030fd5f1, 0xc3548dc9, 0x0000007f, 0x98640394, 0x7721e18c, 0x31275e28],
      case_kernel = reverse_rotate_kernel 4 21,
      reg_inputs = [4, 8, 12, 0], reg5_init = 0x8441b7eb,
      memory_keys = [0x000000c3, 0x00000186, 0x0000030c, 0x00000618, 0x00000c30, 0x00001860, 0x000030c0, 0x00006180],
      case_stmts = [(Gray_Decode, 1, 0, 0), (Array_Scatter, 2, 2, 3), (Add_Carry, 2, 4, 1), (Carry_Chain, 3, 5, 3),
                    (Counted_Loop, 0, 1, 2), (Reverse_Loop, 2, 1, 4), (Halfword_Swap, 1, 2, 0), (Divide_Rem, 1, 3, 5),
                    (Gray_Decode, 1, 0, 1), (Mask_Merge, 2, 0, 2), (Switch_Phi, 4, 3, 5), (Compare_Select, 4, 0, 4)]\<rparr>"

definition case_0196 :: "case_program" where
  "case_0196 =
     \<lparr>case_id = 196,
      case_input = [0x17fac299, 0x8f8c8f6c, 0x1f7a7284, 0x80000000, 0xd74004c3, 0x80000000, 0xabb92a09, 0x76c48d9e,
                    0xc366f04f, 0xbecc35bd, 0x896d54e6, 0xc2f7a693, 0x9ca49e5d, 0x32c603fb, 0xca180e00, 0x22f92822],
      case_kernel = reverse_rotate_kernel 5 22,
      reg_inputs = [5, 9, 13, 1], reg5_init = 0x227931a4,
      memory_keys = [0x000000c4, 0x00000188, 0x00000310, 0x00000620, 0x00000c40, 0x00001880, 0x00003100, 0x00006200],
      case_stmts = [(Minmax_Clamp, 3, 1, 2), (Array_Scatter, 4, 5, 1), (Add_Carry, 0, 0, 3), (Minmax_Clamp, 1, 5, 4),
                    (Short_Circuit, 5, 5, 1), (Endian_Swap, 5, 1, 2), (Popcount_Loop, 0, 0, 1), (Divide_Rem, 4, 4, 3),
                    (Add_Carry, 4, 3, 0), (Compare_Select, 2, 1, 0), (Popcount_Loop, 5, 5, 1), (Counted_Loop, 2, 1, 1)]\<rparr>"

definition case_0197 :: "case_program" where
  "case_0197 =
     \<lparr>case_id = 197,
      case_input = [0x5778e2d8, 0x938dda2b, 0xeae2d082, 0x15caf8d9, 0xc1158916, 0x60b58d79, 0xfffffffe, 0xa4314b52,
                    0x2421fb9e, 0xff238772, 0x00000002, 0x1ac155e2, 0x44a25db4, 0xab2019bd, 0x17a21f39, 0x0bc9d95c],
      case_kernel = reverse_rotate_kernel 6 23,
      reg_inputs = [6, 10, 14, 2], reg5_init = 0xc0b0ab5d,
      memory_keys = [0x000000c5, 0x0000018a, 0x00000314, 0x00000628, 0x00000c50, 0x000018a0, 0x00003140, 0x00006280],
      case_stmts = [(Endian_Swap, 4, 2, 3), (Array_Scatter, 1, 5, 4), (Add_Carry, 2, 2, 3), (Endian_Swap, 2, 5, 3),
                    (Horner_Loop, 5, 3, 1), (Multiply_Low, 5, 1, 1), (Gray_Decode, 1, 5, 0), (Mask_Merge, 1, 3, 1),
                    (Byte_Pack, 1, 4, 3), (Horner_Loop, 5, 5, 2), (Endian_Swap, 1, 1, 4), (Byte_Pack, 1, 3, 4)]\<rparr>"

definition case_0198 :: "case_program" where
  "case_0198 =
     \<lparr>case_id = 198,
      case_input = [0x96fe821b, 0x00000100, 0xfc4993cc, 0x41da9f99, 0x36d5b3b7, 0xa128fcfe, 0x125bc18a, 0xffffffff,
                    0x51352e12, 0x30acc821, 0x19edc349, 0x1ffb5888, 0x03add9e3, 0xe872a4ad, 0x23d31cf0, 0x7184a66a],
      case_kernel = reverse_rotate_kernel 7 24,
      reg_inputs = [7, 11, 15, 3], reg5_init = 0x5ee82516,
      memory_keys = [0x000000c6, 0x0000018c, 0x00000318, 0x00000630, 0x00000c60, 0x000018c0, 0x00003180, 0x00006300],
      case_stmts = [(Carry_Chain, 3, 2, 1), (Array_Scatter, 0, 1, 5), (Add_Carry, 2, 3, 2), (Counted_Loop, 1, 3, 0),
                    (Byte_Pack, 5, 2, 5), (Endian_Swap, 5, 3, 1), (Byte_Pack, 1, 3, 3), (Short_Circuit, 1, 2, 2),
                    (Divide_Rem, 2, 0, 2), (Array_Scatter, 1, 2, 0), (Multiply_Low, 3, 3, 1), (Horner_Loop, 5, 0, 4)]\<rparr>"

definition case_0199 :: "case_program" where
  "case_0199 =
     \<lparr>case_id = 199,
      case_input = [0xd67ca25a, 0xab8d70a4, 0x09d131ca, 0xe1d3eabf, 0x20803e62, 0xb2cbb7fd, 0x5ba05ef3, 0x7c678e14,
                    0x00000000, 0x71437aee, 0x8f6b346e, 0xc7cdabf9, 0xdbab1a0a, 0x7194beeb, 0xfe690dc9, 0x58b45714],
      case_kernel = reverse_rotate_kernel 8 25,
      reg_inputs = [8, 12, 0, 4], reg5_init = 0xfd1f9ecf,
      memory_keys = [0x000000c7, 0x0000018e, 0x0000031c, 0x00000638, 0x00000c70, 0x000018e0, 0x000031c0, 0x00006380],
      case_stmts = [(Horner_Loop, 4, 5, 0), (Array_Scatter, 5, 5, 4), (Add_Carry, 4, 1, 2), (Switch_Phi, 0, 3, 3),
                    (Short_Circuit, 5, 2, 1), (Horner_Loop, 5, 1, 0), (Array_Scatter, 4, 0, 2),
                    (Array_Scatter, 2, 5, 4), (Multiply_Low, 3, 3, 3), (Halfword_Swap, 0, 0, 2), (Horner_Loop, 1, 3, 4),
                    (Reverse_Loop, 4, 4, 5)]\<rparr>"

lemma conforms_0100: "conforms case_0100 (fnv1a_prediction 4)"
  by (rule conformsI) (simp_all add: case_0100_def upt_rec stmt_ok_def fnv1a_predicted)

lemma conforms_0101: "conforms case_0101 (fnv1a_prediction 5)"
  by (rule conformsI) (simp_all add: case_0101_def upt_rec stmt_ok_def fnv1a_predicted)

lemma conforms_0102: "conforms case_0102 (fnv1a_prediction 6)"
  by (rule conformsI) (simp_all add: case_0102_def upt_rec stmt_ok_def fnv1a_predicted)

lemma conforms_0103: "conforms case_0103 (fnv1a_prediction 7)"
  by (rule conformsI) (simp_all add: case_0103_def upt_rec stmt_ok_def fnv1a_predicted)

lemma conforms_0104: "conforms case_0104 (fnv1a_prediction 8)"
  by (rule conformsI) (simp_all add: case_0104_def upt_rec stmt_ok_def fnv1a_predicted)

lemma conforms_0105: "conforms case_0105 (fnv1a_prediction 9)"
  by (rule conformsI) (simp_all add: case_0105_def upt_rec stmt_ok_def fnv1a_predicted)

lemma conforms_0106: "conforms case_0106 (fnv1a_prediction 10)"
  by (rule conformsI) (simp_all add: case_0106_def upt_rec stmt_ok_def fnv1a_predicted)

lemma conforms_0107: "conforms case_0107 (fnv1a_prediction 11)"
  by (rule conformsI) (simp_all add: case_0107_def upt_rec stmt_ok_def fnv1a_predicted)

lemma conforms_0108: "conforms case_0108 (fnv1a_prediction 12)"
  by (rule conformsI) (simp_all add: case_0108_def upt_rec stmt_ok_def fnv1a_predicted)

lemma conforms_0109: "conforms case_0109 (fnv1a_prediction 13)"
  by (rule conformsI) (simp_all add: case_0109_def upt_rec stmt_ok_def fnv1a_predicted)

lemma conforms_0110: "conforms case_0110 (fnv1a_prediction 14)"
  by (rule conformsI) (simp_all add: case_0110_def upt_rec stmt_ok_def fnv1a_predicted)

lemma conforms_0111: "conforms case_0111 (fnv1a_prediction 15)"
  by (rule conformsI) (simp_all add: case_0111_def upt_rec stmt_ok_def fnv1a_predicted)

lemma conforms_0112: "conforms case_0112 (fnv1a_prediction 4)"
  by (rule conformsI) (simp_all add: case_0112_def upt_rec stmt_ok_def fnv1a_predicted)

lemma conforms_0113: "conforms case_0113 (fnv1a_prediction 5)"
  by (rule conformsI) (simp_all add: case_0113_def upt_rec stmt_ok_def fnv1a_predicted)

lemma conforms_0114: "conforms case_0114 (fnv1a_prediction 6)"
  by (rule conformsI) (simp_all add: case_0114_def upt_rec stmt_ok_def fnv1a_predicted)

lemma conforms_0115: "conforms case_0115 (fnv1a_prediction 7)"
  by (rule conformsI) (simp_all add: case_0115_def upt_rec stmt_ok_def fnv1a_predicted)

lemma conforms_0116: "conforms case_0116 (fnv1a_prediction 8)"
  by (rule conformsI) (simp_all add: case_0116_def upt_rec stmt_ok_def fnv1a_predicted)

lemma conforms_0117: "conforms case_0117 (fnv1a_prediction 9)"
  by (rule conformsI) (simp_all add: case_0117_def upt_rec stmt_ok_def fnv1a_predicted)

lemma conforms_0118: "conforms case_0118 (fnv1a_prediction 10)"
  by (rule conformsI) (simp_all add: case_0118_def upt_rec stmt_ok_def fnv1a_predicted)

lemma conforms_0119: "conforms case_0119 (fnv1a_prediction 11)"
  by (rule conformsI) (simp_all add: case_0119_def upt_rec stmt_ok_def fnv1a_predicted)

lemma conforms_0120: "conforms case_0120 (fnv1a_prediction 12)"
  by (rule conformsI) (simp_all add: case_0120_def upt_rec stmt_ok_def fnv1a_predicted)

lemma conforms_0121: "conforms case_0121 (fnv1a_prediction 13)"
  by (rule conformsI) (simp_all add: case_0121_def upt_rec stmt_ok_def fnv1a_predicted)

lemma conforms_0122: "conforms case_0122 (fnv1a_prediction 14)"
  by (rule conformsI) (simp_all add: case_0122_def upt_rec stmt_ok_def fnv1a_predicted)

lemma conforms_0123: "conforms case_0123 (fnv1a_prediction 15)"
  by (rule conformsI) (simp_all add: case_0123_def upt_rec stmt_ok_def fnv1a_predicted)

lemma conforms_0124: "conforms case_0124 (fnv1a_prediction 4)"
  by (rule conformsI) (simp_all add: case_0124_def upt_rec stmt_ok_def fnv1a_predicted)

lemma conforms_0125: "conforms case_0125 (popcount_prediction 4)"
  by (rule conformsI) (simp_all add: case_0125_def upt_rec stmt_ok_def popcount_predicted)

lemma conforms_0126: "conforms case_0126 (popcount_prediction 5)"
  by (rule conformsI) (simp_all add: case_0126_def upt_rec stmt_ok_def popcount_predicted)

lemma conforms_0127: "conforms case_0127 (popcount_prediction 6)"
  by (rule conformsI) (simp_all add: case_0127_def upt_rec stmt_ok_def popcount_predicted)

lemma conforms_0128: "conforms case_0128 (popcount_prediction 7)"
  by (rule conformsI) (simp_all add: case_0128_def upt_rec stmt_ok_def popcount_predicted)

lemma conforms_0129: "conforms case_0129 (popcount_prediction 8)"
  by (rule conformsI) (simp_all add: case_0129_def upt_rec stmt_ok_def popcount_predicted)

lemma conforms_0130: "conforms case_0130 (popcount_prediction 9)"
  by (rule conformsI) (simp_all add: case_0130_def upt_rec stmt_ok_def popcount_predicted)

lemma conforms_0131: "conforms case_0131 (popcount_prediction 10)"
  by (rule conformsI) (simp_all add: case_0131_def upt_rec stmt_ok_def popcount_predicted)

lemma conforms_0132: "conforms case_0132 (popcount_prediction 11)"
  by (rule conformsI) (simp_all add: case_0132_def upt_rec stmt_ok_def popcount_predicted)

lemma conforms_0133: "conforms case_0133 (popcount_prediction 12)"
  by (rule conformsI) (simp_all add: case_0133_def upt_rec stmt_ok_def popcount_predicted)

lemma conforms_0134: "conforms case_0134 (popcount_prediction 13)"
  by (rule conformsI) (simp_all add: case_0134_def upt_rec stmt_ok_def popcount_predicted)

lemma conforms_0135: "conforms case_0135 (popcount_prediction 14)"
  by (rule conformsI) (simp_all add: case_0135_def upt_rec stmt_ok_def popcount_predicted)

lemma conforms_0136: "conforms case_0136 (popcount_prediction 15)"
  by (rule conformsI) (simp_all add: case_0136_def upt_rec stmt_ok_def popcount_predicted)

lemma conforms_0137: "conforms case_0137 (popcount_prediction 4)"
  by (rule conformsI) (simp_all add: case_0137_def upt_rec stmt_ok_def popcount_predicted)

lemma conforms_0138: "conforms case_0138 (popcount_prediction 5)"
  by (rule conformsI) (simp_all add: case_0138_def upt_rec stmt_ok_def popcount_predicted)

lemma conforms_0139: "conforms case_0139 (popcount_prediction 6)"
  by (rule conformsI) (simp_all add: case_0139_def upt_rec stmt_ok_def popcount_predicted)

lemma conforms_0140: "conforms case_0140 (popcount_prediction 7)"
  by (rule conformsI) (simp_all add: case_0140_def upt_rec stmt_ok_def popcount_predicted)

lemma conforms_0141: "conforms case_0141 (popcount_prediction 8)"
  by (rule conformsI) (simp_all add: case_0141_def upt_rec stmt_ok_def popcount_predicted)

lemma conforms_0142: "conforms case_0142 (popcount_prediction 9)"
  by (rule conformsI) (simp_all add: case_0142_def upt_rec stmt_ok_def popcount_predicted)

lemma conforms_0143: "conforms case_0143 (popcount_prediction 10)"
  by (rule conformsI) (simp_all add: case_0143_def upt_rec stmt_ok_def popcount_predicted)

lemma conforms_0144: "conforms case_0144 (popcount_prediction 11)"
  by (rule conformsI) (simp_all add: case_0144_def upt_rec stmt_ok_def popcount_predicted)

lemma conforms_0145: "conforms case_0145 (popcount_prediction 12)"
  by (rule conformsI) (simp_all add: case_0145_def upt_rec stmt_ok_def popcount_predicted)

lemma conforms_0146: "conforms case_0146 (popcount_prediction 13)"
  by (rule conformsI) (simp_all add: case_0146_def upt_rec stmt_ok_def popcount_predicted)

lemma conforms_0147: "conforms case_0147 (popcount_prediction 14)"
  by (rule conformsI) (simp_all add: case_0147_def upt_rec stmt_ok_def popcount_predicted)

lemma conforms_0148: "conforms case_0148 (popcount_prediction 15)"
  by (rule conformsI) (simp_all add: case_0148_def upt_rec stmt_ok_def popcount_predicted)

lemma conforms_0149: "conforms case_0149 (popcount_prediction 4)"
  by (rule conformsI) (simp_all add: case_0149_def upt_rec stmt_ok_def popcount_predicted)

lemma conforms_0150: "conforms case_0150 (parity_prediction 4)"
  by (rule conformsI) (simp_all add: case_0150_def upt_rec stmt_ok_def parity_predicted)

lemma conforms_0151: "conforms case_0151 (parity_prediction 5)"
  by (rule conformsI) (simp_all add: case_0151_def upt_rec stmt_ok_def parity_predicted)

lemma conforms_0152: "conforms case_0152 (parity_prediction 6)"
  by (rule conformsI) (simp_all add: case_0152_def upt_rec stmt_ok_def parity_predicted)

lemma conforms_0153: "conforms case_0153 (parity_prediction 7)"
  by (rule conformsI) (simp_all add: case_0153_def upt_rec stmt_ok_def parity_predicted)

lemma conforms_0154: "conforms case_0154 (parity_prediction 8)"
  by (rule conformsI) (simp_all add: case_0154_def upt_rec stmt_ok_def parity_predicted)

lemma conforms_0155: "conforms case_0155 (parity_prediction 9)"
  by (rule conformsI) (simp_all add: case_0155_def upt_rec stmt_ok_def parity_predicted)

lemma conforms_0156: "conforms case_0156 (parity_prediction 10)"
  by (rule conformsI) (simp_all add: case_0156_def upt_rec stmt_ok_def parity_predicted)

lemma conforms_0157: "conforms case_0157 (parity_prediction 11)"
  by (rule conformsI) (simp_all add: case_0157_def upt_rec stmt_ok_def parity_predicted)

lemma conforms_0158: "conforms case_0158 (parity_prediction 12)"
  by (rule conformsI) (simp_all add: case_0158_def upt_rec stmt_ok_def parity_predicted)

lemma conforms_0159: "conforms case_0159 (parity_prediction 13)"
  by (rule conformsI) (simp_all add: case_0159_def upt_rec stmt_ok_def parity_predicted)

lemma conforms_0160: "conforms case_0160 (parity_prediction 14)"
  by (rule conformsI) (simp_all add: case_0160_def upt_rec stmt_ok_def parity_predicted)

lemma conforms_0161: "conforms case_0161 (parity_prediction 15)"
  by (rule conformsI) (simp_all add: case_0161_def upt_rec stmt_ok_def parity_predicted)

lemma conforms_0162: "conforms case_0162 (parity_prediction 4)"
  by (rule conformsI) (simp_all add: case_0162_def upt_rec stmt_ok_def parity_predicted)

lemma conforms_0163: "conforms case_0163 (parity_prediction 5)"
  by (rule conformsI) (simp_all add: case_0163_def upt_rec stmt_ok_def parity_predicted)

lemma conforms_0164: "conforms case_0164 (parity_prediction 6)"
  by (rule conformsI) (simp_all add: case_0164_def upt_rec stmt_ok_def parity_predicted)

lemma conforms_0165: "conforms case_0165 (parity_prediction 7)"
  by (rule conformsI) (simp_all add: case_0165_def upt_rec stmt_ok_def parity_predicted)

lemma conforms_0166: "conforms case_0166 (parity_prediction 8)"
  by (rule conformsI) (simp_all add: case_0166_def upt_rec stmt_ok_def parity_predicted)

lemma conforms_0167: "conforms case_0167 (parity_prediction 9)"
  by (rule conformsI) (simp_all add: case_0167_def upt_rec stmt_ok_def parity_predicted)

lemma conforms_0168: "conforms case_0168 (parity_prediction 10)"
  by (rule conformsI) (simp_all add: case_0168_def upt_rec stmt_ok_def parity_predicted)

lemma conforms_0169: "conforms case_0169 (parity_prediction 11)"
  by (rule conformsI) (simp_all add: case_0169_def upt_rec stmt_ok_def parity_predicted)

lemma conforms_0170: "conforms case_0170 (parity_prediction 12)"
  by (rule conformsI) (simp_all add: case_0170_def upt_rec stmt_ok_def parity_predicted)

lemma conforms_0171: "conforms case_0171 (parity_prediction 13)"
  by (rule conformsI) (simp_all add: case_0171_def upt_rec stmt_ok_def parity_predicted)

lemma conforms_0172: "conforms case_0172 (parity_prediction 14)"
  by (rule conformsI) (simp_all add: case_0172_def upt_rec stmt_ok_def parity_predicted)

lemma conforms_0173: "conforms case_0173 (parity_prediction 15)"
  by (rule conformsI) (simp_all add: case_0173_def upt_rec stmt_ok_def parity_predicted)

lemma conforms_0174: "conforms case_0174 (parity_prediction 4)"
  by (rule conformsI) (simp_all add: case_0174_def upt_rec stmt_ok_def parity_predicted)

lemma conforms_0175: "conforms case_0175 (reverse_rotate_prediction 0 1)"
  by (rule conformsI) (simp_all add: case_0175_def upt_rec stmt_ok_def reverse_rotate_predicted)

lemma conforms_0176: "conforms case_0176 (reverse_rotate_prediction 1 2)"
  by (rule conformsI) (simp_all add: case_0176_def upt_rec stmt_ok_def reverse_rotate_predicted)

lemma conforms_0177: "conforms case_0177 (reverse_rotate_prediction 2 3)"
  by (rule conformsI) (simp_all add: case_0177_def upt_rec stmt_ok_def reverse_rotate_predicted)

lemma conforms_0178: "conforms case_0178 (reverse_rotate_prediction 3 4)"
  by (rule conformsI) (simp_all add: case_0178_def upt_rec stmt_ok_def reverse_rotate_predicted)

lemma conforms_0179: "conforms case_0179 (reverse_rotate_prediction 4 5)"
  by (rule conformsI) (simp_all add: case_0179_def upt_rec stmt_ok_def reverse_rotate_predicted)

lemma conforms_0180: "conforms case_0180 (reverse_rotate_prediction 5 6)"
  by (rule conformsI) (simp_all add: case_0180_def upt_rec stmt_ok_def reverse_rotate_predicted)

lemma conforms_0181: "conforms case_0181 (reverse_rotate_prediction 6 7)"
  by (rule conformsI) (simp_all add: case_0181_def upt_rec stmt_ok_def reverse_rotate_predicted)

lemma conforms_0182: "conforms case_0182 (reverse_rotate_prediction 7 8)"
  by (rule conformsI) (simp_all add: case_0182_def upt_rec stmt_ok_def reverse_rotate_predicted)

lemma conforms_0183: "conforms case_0183 (reverse_rotate_prediction 8 9)"
  by (rule conformsI) (simp_all add: case_0183_def upt_rec stmt_ok_def reverse_rotate_predicted)

lemma conforms_0184: "conforms case_0184 (reverse_rotate_prediction 9 10)"
  by (rule conformsI) (simp_all add: case_0184_def upt_rec stmt_ok_def reverse_rotate_predicted)

lemma conforms_0185: "conforms case_0185 (reverse_rotate_prediction 10 11)"
  by (rule conformsI) (simp_all add: case_0185_def upt_rec stmt_ok_def reverse_rotate_predicted)

lemma conforms_0186: "conforms case_0186 (reverse_rotate_prediction 11 12)"
  by (rule conformsI) (simp_all add: case_0186_def upt_rec stmt_ok_def reverse_rotate_predicted)

lemma conforms_0187: "conforms case_0187 (reverse_rotate_prediction 12 13)"
  by (rule conformsI) (simp_all add: case_0187_def upt_rec stmt_ok_def reverse_rotate_predicted)

lemma conforms_0188: "conforms case_0188 (reverse_rotate_prediction 13 14)"
  by (rule conformsI) (simp_all add: case_0188_def upt_rec stmt_ok_def reverse_rotate_predicted)

lemma conforms_0189: "conforms case_0189 (reverse_rotate_prediction 14 15)"
  by (rule conformsI) (simp_all add: case_0189_def upt_rec stmt_ok_def reverse_rotate_predicted)

lemma conforms_0190: "conforms case_0190 (reverse_rotate_prediction 15 16)"
  by (rule conformsI) (simp_all add: case_0190_def upt_rec stmt_ok_def reverse_rotate_predicted)

lemma conforms_0191: "conforms case_0191 (reverse_rotate_prediction 0 17)"
  by (rule conformsI) (simp_all add: case_0191_def upt_rec stmt_ok_def reverse_rotate_predicted)

lemma conforms_0192: "conforms case_0192 (reverse_rotate_prediction 1 18)"
  by (rule conformsI) (simp_all add: case_0192_def upt_rec stmt_ok_def reverse_rotate_predicted)

lemma conforms_0193: "conforms case_0193 (reverse_rotate_prediction 2 19)"
  by (rule conformsI) (simp_all add: case_0193_def upt_rec stmt_ok_def reverse_rotate_predicted)

lemma conforms_0194: "conforms case_0194 (reverse_rotate_prediction 3 20)"
  by (rule conformsI) (simp_all add: case_0194_def upt_rec stmt_ok_def reverse_rotate_predicted)

lemma conforms_0195: "conforms case_0195 (reverse_rotate_prediction 4 21)"
  by (rule conformsI) (simp_all add: case_0195_def upt_rec stmt_ok_def reverse_rotate_predicted)

lemma conforms_0196: "conforms case_0196 (reverse_rotate_prediction 5 22)"
  by (rule conformsI) (simp_all add: case_0196_def upt_rec stmt_ok_def reverse_rotate_predicted)

lemma conforms_0197: "conforms case_0197 (reverse_rotate_prediction 6 23)"
  by (rule conformsI) (simp_all add: case_0197_def upt_rec stmt_ok_def reverse_rotate_predicted)

lemma conforms_0198: "conforms case_0198 (reverse_rotate_prediction 7 24)"
  by (rule conformsI) (simp_all add: case_0198_def upt_rec stmt_ok_def reverse_rotate_predicted)

lemma conforms_0199: "conforms case_0199 (reverse_rotate_prediction 8 25)"
  by (rule conformsI) (simp_all add: case_0199_def upt_rec stmt_ok_def reverse_rotate_predicted)

definition corpus_1 :: "(nat \<Rightarrow> u32) \<Rightarrow> (case_program \<times> (u32 list \<Rightarrow> u32)) list" where
  "corpus_1 junk =
    [(case_0100, fnv1a_prediction 4),
     (case_0101, fnv1a_prediction 5),
     (case_0102, fnv1a_prediction 6),
     (case_0103, fnv1a_prediction 7),
     (case_0104, fnv1a_prediction 8),
     (case_0105, fnv1a_prediction 9),
     (case_0106, fnv1a_prediction 10),
     (case_0107, fnv1a_prediction 11),
     (case_0108, fnv1a_prediction 12),
     (case_0109, fnv1a_prediction 13),
     (case_0110, fnv1a_prediction 14),
     (case_0111, fnv1a_prediction 15),
     (case_0112, fnv1a_prediction 4),
     (case_0113, fnv1a_prediction 5),
     (case_0114, fnv1a_prediction 6),
     (case_0115, fnv1a_prediction 7),
     (case_0116, fnv1a_prediction 8),
     (case_0117, fnv1a_prediction 9),
     (case_0118, fnv1a_prediction 10),
     (case_0119, fnv1a_prediction 11),
     (case_0120, fnv1a_prediction 12),
     (case_0121, fnv1a_prediction 13),
     (case_0122, fnv1a_prediction 14),
     (case_0123, fnv1a_prediction 15),
     (case_0124, fnv1a_prediction 4),
     (case_0125, popcount_prediction 4),
     (case_0126, popcount_prediction 5),
     (case_0127, popcount_prediction 6),
     (case_0128, popcount_prediction 7),
     (case_0129, popcount_prediction 8),
     (case_0130, popcount_prediction 9),
     (case_0131, popcount_prediction 10),
     (case_0132, popcount_prediction 11),
     (case_0133, popcount_prediction 12),
     (case_0134, popcount_prediction 13),
     (case_0135, popcount_prediction 14),
     (case_0136, popcount_prediction 15),
     (case_0137, popcount_prediction 4),
     (case_0138, popcount_prediction 5),
     (case_0139, popcount_prediction 6),
     (case_0140, popcount_prediction 7),
     (case_0141, popcount_prediction 8),
     (case_0142, popcount_prediction 9),
     (case_0143, popcount_prediction 10),
     (case_0144, popcount_prediction 11),
     (case_0145, popcount_prediction 12),
     (case_0146, popcount_prediction 13),
     (case_0147, popcount_prediction 14),
     (case_0148, popcount_prediction 15),
     (case_0149, popcount_prediction 4),
     (case_0150, parity_prediction 4),
     (case_0151, parity_prediction 5),
     (case_0152, parity_prediction 6),
     (case_0153, parity_prediction 7),
     (case_0154, parity_prediction 8),
     (case_0155, parity_prediction 9),
     (case_0156, parity_prediction 10),
     (case_0157, parity_prediction 11),
     (case_0158, parity_prediction 12),
     (case_0159, parity_prediction 13),
     (case_0160, parity_prediction 14),
     (case_0161, parity_prediction 15),
     (case_0162, parity_prediction 4),
     (case_0163, parity_prediction 5),
     (case_0164, parity_prediction 6),
     (case_0165, parity_prediction 7),
     (case_0166, parity_prediction 8),
     (case_0167, parity_prediction 9),
     (case_0168, parity_prediction 10),
     (case_0169, parity_prediction 11),
     (case_0170, parity_prediction 12),
     (case_0171, parity_prediction 13),
     (case_0172, parity_prediction 14),
     (case_0173, parity_prediction 15),
     (case_0174, parity_prediction 4),
     (case_0175, reverse_rotate_prediction 0 1),
     (case_0176, reverse_rotate_prediction 1 2),
     (case_0177, reverse_rotate_prediction 2 3),
     (case_0178, reverse_rotate_prediction 3 4),
     (case_0179, reverse_rotate_prediction 4 5),
     (case_0180, reverse_rotate_prediction 5 6),
     (case_0181, reverse_rotate_prediction 6 7),
     (case_0182, reverse_rotate_prediction 7 8),
     (case_0183, reverse_rotate_prediction 8 9),
     (case_0184, reverse_rotate_prediction 9 10),
     (case_0185, reverse_rotate_prediction 10 11),
     (case_0186, reverse_rotate_prediction 11 12),
     (case_0187, reverse_rotate_prediction 12 13),
     (case_0188, reverse_rotate_prediction 13 14),
     (case_0189, reverse_rotate_prediction 14 15),
     (case_0190, reverse_rotate_prediction 15 16),
     (case_0191, reverse_rotate_prediction 0 17),
     (case_0192, reverse_rotate_prediction 1 18),
     (case_0193, reverse_rotate_prediction 2 19),
     (case_0194, reverse_rotate_prediction 3 20),
     (case_0195, reverse_rotate_prediction 4 21),
     (case_0196, reverse_rotate_prediction 5 22),
     (case_0197, reverse_rotate_prediction 6 23),
     (case_0198, reverse_rotate_prediction 7 24),
     (case_0199, reverse_rotate_prediction 8 25)]"

lemmas corpus_1_programs =
  conforms_0100 conforms_0101 conforms_0102 conforms_0103 conforms_0104 conforms_0105 conforms_0106 conforms_0107
  conforms_0108 conforms_0109 conforms_0110 conforms_0111 conforms_0112 conforms_0113 conforms_0114 conforms_0115
  conforms_0116 conforms_0117 conforms_0118 conforms_0119 conforms_0120 conforms_0121 conforms_0122 conforms_0123
  conforms_0124 conforms_0125 conforms_0126 conforms_0127 conforms_0128 conforms_0129 conforms_0130 conforms_0131
  conforms_0132 conforms_0133 conforms_0134 conforms_0135 conforms_0136 conforms_0137 conforms_0138 conforms_0139
  conforms_0140 conforms_0141 conforms_0142 conforms_0143 conforms_0144 conforms_0145 conforms_0146 conforms_0147
  conforms_0148 conforms_0149 conforms_0150 conforms_0151 conforms_0152 conforms_0153 conforms_0154 conforms_0155
  conforms_0156 conforms_0157 conforms_0158 conforms_0159 conforms_0160 conforms_0161 conforms_0162 conforms_0163
  conforms_0164 conforms_0165 conforms_0166 conforms_0167 conforms_0168 conforms_0169 conforms_0170 conforms_0171
  conforms_0172 conforms_0173 conforms_0174 conforms_0175 conforms_0176 conforms_0177 conforms_0178 conforms_0179
  conforms_0180 conforms_0181 conforms_0182 conforms_0183 conforms_0184 conforms_0185 conforms_0186 conforms_0187
  conforms_0188 conforms_0189 conforms_0190 conforms_0191 conforms_0192 conforms_0193 conforms_0194 conforms_0195
  conforms_0196 conforms_0197 conforms_0198 conforms_0199

lemma corpus_1_conforms: "list_all (\<lambda>(c, prediction). conforms c prediction) (corpus_1 junk)"
  unfolding corpus_1_def list.pred_inject prod.case by (intro conjI corpus_1_programs list.pred_inject(1))

lemma corpus_1_ids: "map (\<lambda>(c, prediction). case_id c) (corpus_1 junk) = [100..<200]"
  by (simp add: corpus_1_def upt_conv_Cons
      case_0100_def case_0101_def case_0102_def case_0103_def case_0104_def case_0105_def case_0106_def
      case_0107_def case_0108_def case_0109_def case_0110_def case_0111_def case_0112_def case_0113_def
      case_0114_def case_0115_def case_0116_def case_0117_def case_0118_def case_0119_def case_0120_def
      case_0121_def case_0122_def case_0123_def case_0124_def case_0125_def case_0126_def case_0127_def
      case_0128_def case_0129_def case_0130_def case_0131_def case_0132_def case_0133_def case_0134_def
      case_0135_def case_0136_def case_0137_def case_0138_def case_0139_def case_0140_def case_0141_def
      case_0142_def case_0143_def case_0144_def case_0145_def case_0146_def case_0147_def case_0148_def
      case_0149_def case_0150_def case_0151_def case_0152_def case_0153_def case_0154_def case_0155_def
      case_0156_def case_0157_def case_0158_def case_0159_def case_0160_def case_0161_def case_0162_def
      case_0163_def case_0164_def case_0165_def case_0166_def case_0167_def case_0168_def case_0169_def
      case_0170_def case_0171_def case_0172_def case_0173_def case_0174_def case_0175_def case_0176_def
      case_0177_def case_0178_def case_0179_def case_0180_def case_0181_def case_0182_def case_0183_def
      case_0184_def case_0185_def case_0186_def case_0187_def case_0188_def case_0189_def case_0190_def
      case_0191_def case_0192_def case_0193_def case_0194_def case_0195_def case_0196_def case_0197_def
      case_0198_def case_0199_def)

end
