(* ===== verification/Corpus_Cases_2.thy ===== *)
theory Corpus_Cases_2
  imports Corpus_Checksums Corpus_Bits Corpus_Control Corpus_Algorithms Corpus_Buffers
begin

text \<open>
  The programs 200 to 299 of the edge-case corpus, one definition per file: inputs, kernel with the parameters of the
  scenario, initial literals and statements, as the C text has them.  Their kernels are the gray,
  field pack, sort and search kernels.  Every program conforms to the prediction of its kernel.
\<close>

definition case_0200 :: "case_program" where
  "case_0200 =
     \<lparr>case_id = 200,
      case_input = [0x00000000, 0x1f8f704e, 0x55d23536, 0x8b95e0a8, 0x9637b7f9, 0x3555aeaf, 0xe1ec01c6, 0x5b652ce1,
                    0xffe62629, 0x229b17ee, 0x655b1450, 0x511791f8, 0x8db548e5, 0x49401796, 0xc8b6bb93, 0x18828392],
      case_kernel = gray_kernel 0,
      reg_inputs = [9, 13, 1, 5], reg5_init = 0x9b571888,
      memory_keys = [0x000000c8, 0x00000190, 0x00000320, 0x00000640, 0x00000c80, 0x00001900, 0x00003200, 0x00006400],
      case_stmts = [(Add_Carry, 2, 1, 1), (Counted_Loop, 4, 4, 2), (Add_Carry, 2, 2, 0), (Multiply_Low, 0, 1, 0),
                    (Rotate_Mix, 0, 3, 1), (Horner_Loop, 5, 4, 1), (Counted_Loop, 5, 0, 0), (Counted_Loop, 1, 2, 5),
                    (Mask_Merge, 0, 5, 0), (Mask_Merge, 3, 1, 4), (Reverse_Loop, 2, 2, 0), (Minmax_Clamp, 2, 5, 0)]\<rparr>"

definition case_0201 :: "case_program" where
  "case_0201 =
     \<lparr>case_id = 201,
      case_input = [0x516161d7, 0x00000001, 0xa04a9730, 0x2b9c958e, 0x80623a2c, 0x26b6e5ac, 0xa8179ebf, 0x8990ea2d,
                    0x18a12df8, 0x6374a521, 0xf3dde377, 0x89216289, 0x55b38b0c, 0xd0a60dd0, 0x150caaaa, 0x31b272ec],
      case_kernel = gray_kernel 1,
      reg_inputs = [10, 14, 2, 6], reg5_init = 0x398e9241,
      memory_keys = [0x000000c9, 0x00000192, 0x00000324, 0x00000648, 0x00000c90, 0x00001920, 0x00003240, 0x00006480],
      case_stmts = [(Sub_Borrow, 3, 2, 0), (Counted_Loop, 3, 4, 3), (Add_Carry, 2, 2, 0), (Rotate_Mix, 5, 3, 3),
                    (Mask_Merge, 2, 5, 5), (Mask_Merge, 3, 2, 4), (Halfword_Swap, 0, 3, 5), (Byte_Pack, 2, 5, 3),
                    (Reverse_Loop, 5, 4, 3), (Halfword_Swap, 2, 3, 0), (Carry_Chain, 0, 0, 1),
                    (Popcount_Loop, 3, 3, 5)]\<rparr>"

definition case_0202 :: "case_program" where
  "case_0202 =
     \<lparr>case_id = 202,
      case_input = [0x90e70114, 0x278fdac1, 0x00000002, 0x7f8cf2ce, 0x77a2008d, 0xe72b942b, 0x580eea45, 0x8333e9a7,
                    0x6db5f874, 0xacfbea72, 0xf5db83ff, 0x8c1b6fe3, 0x12bc0f5b, 0x93f4b0c0, 0x217da963, 0x4bff0dda],
      case_kernel = gray_kernel 2,
      reg_inputs = [11, 15, 3, 7], reg5_init = 0xd7c60bfa,
      memory_keys = [0x000000ca, 0x00000194, 0x00000328, 0x00000650, 0x00000ca0, 0x00001940, 0x00003280, 0x00006500],
      case_stmts = [(Rotate_Mix, 2, 0, 2), (Counted_Loop, 0, 2, 0), (Add_Carry, 0, 1, 3), (Popcount_Loop, 2, 1, 2),
                    (Array_Scatter, 2, 4, 3), (Switch_Phi, 3, 4, 0), (Halfword_Swap, 4, 5, 4), (Counted_Loop, 0, 2, 2),
                    (Popcount_Loop, 2, 2, 4), (Compare_Select, 0, 4, 0), (Short_Circuit, 0, 4, 4),
                    (Sub_Borrow, 1, 2, 3)]\<rparr>"

definition case_0203 :: "case_program" where
  "case_0203 =
     \<lparr>case_id = 203,
      case_input = [0xd0652155, 0x3b8e8f86, 0x43797678, 0x00000003, 0x61f78d58, 0xf4c8df28, 0x11f5753c, 0x51c62f6b,
                    0x8af2f3a5, 0xed1458bd, 0x635d74d8, 0x542d9c92, 0xcabaccb2, 0x0a12aa86, 0xfcc7b85a, 0x62cffca4],
      case_kernel = gray_kernel 3,
      reg_inputs = [12, 0, 4, 8], reg5_init = 0x75fd85b3,
      memory_keys = [0x000000cb, 0x00000196, 0x0000032c, 0x00000658, 0x00000cb0, 0x00001960, 0x000032c0, 0x00006580],
      case_stmts = [(Multiply_Low, 3, 3, 5), (Counted_Loop, 5, 4, 5), (Add_Carry, 4, 3, 5), (Short_Circuit, 5, 5, 5),
                    (Rotate_Mix, 4, 2, 5), (Array_Scatter, 5, 0, 1), (Compare_Select, 1, 0, 5), (Byte_Pack, 1, 3, 0),
                    (Carry_Chain, 5, 5, 3), (Multiply_Low, 3, 0, 2), (Add_Carry, 2, 2, 5), (Halfword_Swap, 2, 4, 2)]\<rparr>"

definition case_0204 :: "case_program" where
  "case_0204 =
     \<lparr>case_id = 204,
      case_input = [0x13ebc093, 0x6f8e2550, 0x93b5f7a7, 0x61a7c465, 0x0000007f, 0x08a976e3, 0xaf2283bf, 0x23ff1bdd,
                    0x378fcbb1, 0xbd02ce9d, 0xe93ff5cf, 0x558eb7c8, 0xdce2ff1a, 0xa0b0aae9, 0x41fe57d6, 0x71118aae],
      case_kernel = gray_kernel 4,
      reg_inputs = [13, 1, 5, 9], reg5_init = 0x1434ff6c,
      memory_keys = [0x000000cc, 0x00000198, 0x00000330, 0x00000660, 0x00000cc0, 0x00001980, 0x00003300, 0x00006600],
      case_stmts = [(Divide_Rem, 1, 2, 1), (Counted_Loop, 3, 3, 3), (Add_Carry, 2, 5, 3), (Reverse_Loop, 1, 5, 2),
                    (Divide_Rem, 3, 0, 2), (Reverse_Loop, 2, 0, 3), (Horner_Loop, 4, 4, 0), (Gray_Decode, 4, 2, 4),
                    (Array_Scatter, 0, 0, 2), (Short_Circuit, 5, 1, 4), (Rotate_Mix, 1, 0, 5), (Add_Carry, 2, 1, 5)]\<rparr>"

definition case_0205 :: "case_program" where
  "case_0205 =
     \<lparr>case_id = 205,
      case_input = [0x5369e0d2, 0x738f7017, 0x662d55a1, 0xc1aeb143, 0x414f54c5, 0x00000080, 0xe6d91cc6, 0xf10add11,
                    0xd0c8c060, 0xfced7c52, 0x7fb902e8, 0x8db844b9, 0x04e43cf3, 0x3956b0af, 0x9c4446ef, 0x58217bd0],
      case_kernel = gray_kernel 5,
      reg_inputs = [14, 2, 6, 10], reg5_init = 0xb26c7925,
      memory_keys = [0x000000cd, 0x0000019a, 0x00000334, 0x00000668, 0x00000cd0, 0x000019a0, 0x00003340, 0x00006680],
      case_stmts = [(Mask_Merge, 0, 3, 4), (Counted_Loop, 2, 3, 0), (Add_Carry, 2, 1, 5), (Gray_Decode, 0, 1, 3),
                    (Multiply_Low, 3, 0, 2), (Short_Circuit, 4, 2, 4), (Popcount_Loop, 3, 5, 5),
                    (Compare_Select, 1, 1, 2), (Counted_Loop, 5, 5, 5), (Sub_Borrow, 4, 5, 2), (Counted_Loop, 5, 2, 4),
                    (Sub_Borrow, 3, 3, 4)]\<rparr>"

definition case_0206 :: "case_program" where
  "case_0206 =
     \<lparr>case_id = 206,
      case_input = [0x92ef8011, 0x578e8fdf, 0x708616ef, 0x95bed603, 0xb68f6e64, 0xdad74c67, 0x000000ff, 0xfba9de9b,
                    0xa5dc15ec, 0x33623301, 0x79bf6260, 0x888249d3, 0x43ebb8a4, 0x7a040dbf, 0xa8354526, 0x226c04e6],
      case_kernel = gray_kernel 6,
      reg_inputs = [15, 3, 7, 11], reg5_init = 0x50a3f2de,
      memory_keys = [0x000000ce, 0x0000019c, 0x00000338, 0x00000670, 0x00000ce0, 0x000019c0, 0x00003380, 0x00006700],
      case_stmts = [(Compare_Select, 5, 1, 0), (Counted_Loop, 1, 1, 1), (Add_Carry, 2, 0, 0), (Divide_Rem, 1, 3, 2),
                    (Horner_Loop, 3, 1, 0), (Reverse_Loop, 0, 4, 2), (Endian_Swap, 3, 3, 2), (Byte_Pack, 1, 0, 5),
                    (Sub_Borrow, 2, 3, 2), (Horner_Loop, 4, 0, 0), (Divide_Rem, 5, 0, 3), (Array_Scatter, 5, 4, 4)]\<rparr>"

definition case_0207 :: "case_program" where
  "case_0207 =
     \<lparr>case_id = 207,
      case_input = [0xd26da050, 0x4b8fda98, 0x851eb4e9, 0x35b7a325, 0xa0dae3b1, 0xc9340764, 0x5f3bf745, 0x00000100,
                    0x429b1e3d, 0x728d81ce, 0xef399547, 0x50b4baa2, 0x9bed7b4d, 0xe3e217f9, 0x758f541f, 0x0b5cf598],
      case_kernel = gray_kernel 7,
      reg_inputs = [0, 4, 8, 12], reg5_init = 0xeedb6c97,
      memory_keys = [0x000000cf, 0x0000019e, 0x0000033c, 0x00000678, 0x00000cf0, 0x000019e0, 0x000033c0, 0x00006780],
      case_stmts = [(Byte_Pack, 4, 4, 3), (Counted_Loop, 4, 3, 0), (Add_Carry, 2, 2, 4), (Mask_Merge, 0, 5, 1),
                    (Short_Circuit, 5, 1, 0), (Halfword_Swap, 4, 0, 3), (Byte_Pack, 2, 0, 3), (Counted_Loop, 2, 5, 3),
                    (Counted_Loop, 1, 0, 5), (Counted_Loop, 1, 4, 0), (Add_Carry, 5, 4, 2), (Halfword_Swap, 4, 0, 3)]\<rparr>"

definition case_0208 :: "case_program" where
  "case_0208 =
     \<lparr>case_id = 208,
      case_input = [0x1dd04788, 0x3f888e0a, 0xc282ba53, 0xf53f3a07, 0x8dd87cc9, 0x845a2a7b, 0xb7734eac, 0x58e7c717,
                    0x7fffffff, 0x58e8945f, 0xafaf8334, 0x575936d3, 0xe5da89c7, 0x8a3efed6, 0x0f6aacc7, 0xc943c172],
      case_kernel = gray_kernel 8,
      reg_inputs = [1, 5, 9, 13], reg5_init = 0x8d12e650,
      memory_keys = [0x000000d0, 0x000001a0, 0x00000340, 0x00000680, 0x00000d00, 0x00001a00, 0x00003400, 0x00006800],
      case_stmts = [(Halfword_Swap, 3, 5, 2), (Counted_Loop, 2, 0, 2), (Add_Carry, 4, 3, 5), (Array_Scatter, 5, 2, 2),
                    (Compare_Select, 4, 1, 0), (Counted_Loop, 3, 3, 2), (Popcount_Loop, 3, 2, 3),
                    (Reverse_Loop, 0, 0, 2), (Mask_Merge, 4, 3, 4), (Switch_Phi, 1, 2, 1), (Divide_Rem, 1, 1, 1),
                    (Minmax_Clamp, 0, 0, 1)]\<rparr>"

definition case_0209 :: "case_program" where
  "case_0209 =
     \<lparr>case_id = 209,
      case_input = [0x5d5267c9, 0x2389db4d, 0x371a1855, 0x55364f21, 0x9b8df11c, 0x97b96178, 0xfe88d1d5, 0x8a1201db,
                    0xbcc007a0, 0x80000000, 0x39297413, 0x8f6fc5a2, 0x3ddc4a2e, 0x13d8e490, 0xd2d0bdfe, 0xe073300c],
      case_kernel = gray_kernel 9,
      reg_inputs = [2, 6, 10, 14], reg5_init = 0x2b4a6009,
      memory_keys = [0x000000d1, 0x000001a2, 0x00000344, 0x00000688, 0x00000d10, 0x00001a20, 0x00003440, 0x00006880],
      case_stmts = [(Array_Scatter, 2, 2, 3), (Counted_Loop, 5, 2, 1), (Add_Carry, 0, 5, 1), (Divide_Rem, 4, 0, 3),
                    (Array_Scatter, 2, 1, 0), (Add_Carry, 5, 5, 1), (Gray_Decode, 2, 3, 4), (Gray_Decode, 5, 3, 0),
                    (Reverse_Loop, 1, 0, 5), (Counted_Loop, 2, 0, 5), (Add_Carry, 1, 3, 4), (Array_Scatter, 1, 2, 0)]\<rparr>"

definition case_0210 :: "case_program" where
  "case_0210 =
     \<lparr>case_id = 210,
      case_input = [0x9cd4070a, 0x07882485, 0x21b15b1b, 0x01262861, 0x6c4dcbbd, 0x562410ff, 0x0e91a52f, 0x80b10251,
                    0xc9d4d22c, 0xd68869c3, 0xfffffffe, 0x8a55c8c8, 0x7ad3ce79, 0x508a5980, 0xe6a1be37, 0x9a3e4f3a],
      case_kernel = gray_kernel 10,
      reg_inputs = [3, 7, 11, 15], reg5_init = 0xc981d9c2,
      memory_keys = [0x000000d2, 0x000001a4, 0x00000348, 0x00000690, 0x00000d20, 0x00001a40, 0x00003480, 0x00006900],
      case_stmts = [(Counted_Loop, 5, 4, 5), (Counted_Loop, 0, 4, 2), (Add_Carry, 4, 2, 4), (Multiply_Low, 3, 0, 0),
                    (Sub_Borrow, 0, 2, 0), (Rotate_Mix, 1, 3, 1), (Gray_Decode, 2, 5, 5), (Rotate_Mix, 3, 4, 3),
                    (Mask_Merge, 0, 2, 2), (Add_Carry, 4, 1, 3), (Rotate_Mix, 5, 3, 3), (Endian_Swap, 3, 3, 0)]\<rparr>"

definition case_0211 :: "case_program" where
  "case_0211 =
     \<lparr>case_id = 211,
      case_input = [0xdc56274b, 0x1b8971c2, 0xd429f91d, 0xa12f5d47, 0x7a184668, 0x45c75bfc, 0x476a3a56, 0x5244c49d,
                    0x2e93d9fd, 0x9767db0c, 0xa9a9e3bc, 0xffffffff, 0xa2d50d90, 0xc96c43c6, 0x3b1baf0e, 0xb30ebe44],
      case_kernel = gray_kernel 11,
      reg_inputs = [4, 8, 12, 0], reg5_init = 0x67b9537b,
      memory_keys = [0x000000d3, 0x000001a6, 0x0000034c, 0x00000698, 0x00000d30, 0x00001a60, 0x000034c0, 0x00006980],
      case_stmts = [(Switch_Phi, 4, 3, 0), (Counted_Loop, 5, 4, 1), (Add_Carry, 4, 2, 2), (Carry_Chain, 2, 2, 3),
                    (Counted_Loop, 4, 2, 2), (Minmax_Clamp, 5, 5, 4), (Mask_Merge, 5, 0, 0), (Gray_Decode, 2, 3, 3),
                    (Carry_Chain, 3, 3, 5), (Sub_Borrow, 3, 5, 1), (Reverse_Loop, 3, 1, 0), (Minmax_Clamp, 4, 3, 3)]\<rparr>"

definition case_0212 :: "case_program" where
  "case_0212 =
     \<lparr>case_id = 212,
      case_input = [0x1fd8c68d, 0x4f89db14, 0x04e578c2, 0x1f0d1eca, 0x00000000, 0xb9a6f237, 0xf9bdccd5, 0x207df02b,
                    0x93eee1e9, 0xc7714d2c, 0x23cb62ab, 0x53c010e3, 0x00000000, 0x63ce43a9, 0x86224082, 0xa0d0c84e],
      case_kernel = gray_kernel 12,
      reg_inputs = [5, 9, 13, 1], reg5_init = 0x05f0cd34,
      memory_keys = [0x000000d4, 0x000001a8, 0x00000350, 0x000006a0, 0x00000d40, 0x00001a80, 0x00003500, 0x00006a00],
      case_stmts = [(Short_Circuit, 4, 0, 2), (Counted_Loop, 5, 1, 3), (Add_Carry, 0, 0, 0), (Short_Circuit, 0, 0, 0),
                    (Divide_Rem, 3, 2, 3), (Horner_Loop, 4, 3, 4), (Halfword_Swap, 0, 2, 3), (Switch_Phi, 1, 2, 5),
                    (Mask_Merge, 0, 4, 2), (Reverse_Loop, 5, 2, 3), (Divide_Rem, 0, 5, 2), (Add_Carry, 4, 0, 2)]\<rparr>"

definition case_0213 :: "case_program" where
  "case_0213 =
     \<lparr>case_id = 213,
      case_input = [0x5f5ae6cc, 0x53888e53, 0xf17ddac4, 0xbf046bec, 0x5aa09ff5, 0xaa45b934, 0xb04653ac, 0xf28836e7,
                    0x74a9ea38, 0x869effe3, 0xb54d958c, 0x00000080, 0x6c8bfdd1, 0x00000001, 0x5b9851bb, 0x89e03930],
      case_kernel = gray_kernel 13,
      reg_inputs = [6, 10, 14, 2], reg5_init = 0xa42846ed,
      memory_keys = [0x000000d5, 0x000001aa, 0x00000354, 0x000006a8, 0x00000d50, 0x00001aa0, 0x00003540, 0x00006a80],
      case_stmts = [(Popcount_Loop, 1, 3, 5), (Counted_Loop, 0, 3, 0), (Add_Carry, 4, 0, 4), (Array_Scatter, 1, 2, 5),
                    (Horner_Loop, 3, 0, 3), (Popcount_Loop, 0, 1, 1), (Reverse_Loop, 5, 5, 0),
                    (Compare_Select, 4, 3, 5), (Carry_Chain, 5, 1, 1), (Byte_Pack, 0, 0, 5), (Add_Carry, 2, 3, 5),
                    (Mask_Merge, 3, 2, 5)]\<rparr>"

definition case_0214 :: "case_program" where
  "case_0214 =
     \<lparr>case_id = 214,
      case_input = [0x9edc860f, 0x7789719b, 0xfffffffe, 0xeb140cac, 0xad60a554, 0x6bd8c8b3, 0x405f2756, 0xf82b356d,
                    0x01bd3fb4, 0x4911b0b0, 0xb34bf504, 0x8ecceef8, 0x2b847986, 0xb97ae4ff, 0x00000002, 0xf3ad4606],
      case_kernel = gray_kernel 14,
      reg_inputs = [7, 11, 15, 3], reg5_init = 0x425fc0a6,
      memory_keys = [0x000000d6, 0x000001ac, 0x00000358, 0x000006b0, 0x00000d60, 0x00001ac0, 0x00003580, 0x00006b00],
      case_stmts = [(Reverse_Loop, 4, 1, 5), (Counted_Loop, 3, 5, 1), (Add_Carry, 2, 5, 3), (Compare_Select, 2, 2, 0),
                    (Gray_Decode, 1, 1, 3), (Byte_Pack, 0, 1, 3), (Reverse_Loop, 3, 1, 1), (Multiply_Low, 2, 4, 0),
                    (Endian_Swap, 4, 1, 2), (Sub_Borrow, 4, 3, 1), (Carry_Chain, 4, 3, 2), (Mask_Merge, 3, 3, 5)]\<rparr>"

definition case_0215 :: "case_program" where
  "case_0215 =
     \<lparr>case_id = 215,
      case_input = [0xde5ea64e, 0x6b8824dc, 0x124e3b8c, 0x4b1d798a, 0xbb352881, 0x783b83b0, 0x09a4b82f, 0x2adef3a1,
                    0xe6fa3465, 0x00000003, 0x25cd0223, 0x56fa1d89, 0xf382ba6f, 0x209cfeb9, 0xb253434b, 0x00000003],
      case_kernel = gray_kernel 15,
      reg_inputs = [8, 12, 0, 4], reg5_init = 0xe0973a5f,
      memory_keys = [0x000000d7, 0x000001ae, 0x0000035c, 0x000006b8, 0x00000d70, 0x00001ae0, 0x000035c0, 0x00006b80],
      case_stmts = [(Gray_Decode, 5, 2, 4), (Counted_Loop, 0, 3, 4), (Add_Carry, 4, 1, 3), (Multiply_Low, 5, 0, 5),
                    (Halfword_Swap, 5, 5, 5), (Array_Scatter, 4, 3, 0), (Halfword_Swap, 2, 0, 0),
                    (Carry_Chain, 1, 1, 4), (Reverse_Loop, 1, 0, 1), (Add_Carry, 1, 5, 1), (Rotate_Mix, 2, 5, 1),
                    (Halfword_Swap, 0, 3, 2)]\<rparr>"

definition case_0216 :: "case_program" where
  "case_0216 =
     \<lparr>case_id = 216,
      case_input = [0x7fffffff, 0xdf8a2436, 0x4e4d3f70, 0x215b739d, 0x0d82a11a, 0xffa59ae2, 0xb3e8e71a, 0x0ddc5154,
                    0xaf6e378f, 0x5b266f7f, 0xcffd221d, 0xc0202788, 0xa59ce880, 0x184857c4, 0x848cf511, 0x9aab63fe],
      case_kernel = gray_kernel 0,
      reg_inputs = [9, 13, 1, 5], reg5_init = 0x7eceb418,
      memory_keys = [0x000000d8, 0x000001b0, 0x00000360, 0x000006c0, 0x00000d80, 0x00001b00, 0x00003600, 0x00006c00],
      case_stmts = [(Minmax_Clamp, 3, 2, 5), (Counted_Loop, 1, 0, 2), (Add_Carry, 2, 0, 5), (Byte_Pack, 5, 2, 2),
                    (Reverse_Loop, 0, 0, 5), (Array_Scatter, 4, 4, 3), (Byte_Pack, 5, 0, 4), (Popcount_Loop, 0, 0, 5),
                    (Halfword_Swap, 2, 4, 4), (Endian_Swap, 4, 0, 1), (Multiply_Low, 5, 2, 1), (Reverse_Loop, 2, 2, 3)]\<rparr>"

definition case_0217 :: "case_program" where
  "case_0217 =
     \<lparr>case_id = 217,
      case_input = [0x594365c3, 0x00000080, 0xbbd59d76, 0x815206bb, 0x1bd72ccf, 0xec46d1e1, 0xfa137863, 0x00000001,
                    0x48293c5e, 0x1ac9ddb0, 0x597bd53a, 0x1816d4f9, 0x7d9a2b69, 0x81ae4d82, 0x5936e428, 0xb39b9280],
      case_kernel = gray_kernel 1,
      reg_inputs = [10, 14, 2, 6], reg5_init = 0x1d062dd1,
      memory_keys = [0x000000d9, 0x000001b2, 0x00000364, 0x000006c8, 0x00000d90, 0x00001b20, 0x00003640, 0x00006c80],
      case_stmts = [(Endian_Swap, 2, 3, 4), (Counted_Loop, 4, 0, 5), (Add_Carry, 2, 2, 3), (Rotate_Mix, 0, 0, 3),
                    (Mask_Merge, 0, 4, 3), (Byte_Pack, 4, 4, 4), (Mask_Merge, 4, 1, 5), (Halfword_Swap, 5, 3, 3),
                    (Gray_Decode, 3, 1, 5), (Halfword_Swap, 5, 0, 1), (Horner_Loop, 5, 4, 4), (Horner_Loop, 5, 2, 0)]\<rparr>"

definition case_0218 :: "case_program" where
  "case_0218 =
     \<lparr>case_id = 218,
      case_input = [0x98c50500, 0xe78a8eb9, 0x000000ff, 0xd54261fb, 0xec17166e, 0x2ddba066, 0x0a0a0c99, 0xd58a9412,
                    0x3d3de9d2, 0xd54692e3, 0x5f7db5b2, 0x1d2cd993, 0x3a95af3e, 0xc2fcf092, 0x000000ff, 0xc9d6edb6],
      case_kernel = gray_kernel 2,
      reg_inputs = [11, 15, 3, 7], reg5_init = 0xbb3da78a,
      memory_keys = [0x000000da, 0x000001b4, 0x00000368, 0x000006d0, 0x00000da0, 0x00001b40, 0x00003680, 0x00006d00],
      case_stmts = [(Carry_Chain, 1, 1, 0), (Counted_Loop, 3, 2, 4), (Add_Carry, 2, 5, 2), (Endian_Swap, 5, 2, 4),
                    (Endian_Swap, 0, 3, 1), (Sub_Borrow, 0, 2, 4), (Array_Scatter, 4, 3, 4), (Mask_Merge, 3, 2, 0),
                    (Halfword_Swap, 2, 3, 2), (Reverse_Loop, 3, 5, 3), (Mask_Merge, 1, 0, 1), (Multiply_Low, 1, 5, 4)]\<rparr>"

definition case_0219 :: "case_program" where
  "case_0219 =
     \<lparr>case_id = 219,
      case_input = [0xd8472541, 0xfb8bdbfe, 0x58e67c3e, 0x00000100, 0xfa429bbb, 0xffffffff, 0x43f193e0, 0x077f52de,
                    0xda7ae203, 0x94a9202c, 0xc9fb4295, 0xc51a2ae2, 0xe2936cd7, 0x5b1aead4, 0xb0fdf6d8, 0xe0e61cc8],
      case_kernel = gray_kernel 3,
      reg_inputs = [12, 0, 4, 8], reg5_init = 0x59752143,
      memory_keys = [0x000000db, 0x000001b6, 0x0000036c, 0x000006d8, 0x00000db0, 0x00001b60, 0x000036c0, 0x00006d80],
      case_stmts = [(Horner_Loop, 0, 0, 3), (Counted_Loop, 2, 2, 3), (Add_Carry, 4, 5, 0), (Short_Circuit, 0, 0, 3),
                    (Carry_Chain, 4, 1, 5), (Multiply_Low, 0, 2, 5), (Switch_Phi, 5, 2, 5), (Minmax_Clamp, 2, 5, 0),
                    (Byte_Pack, 5, 0, 1), (Multiply_Low, 4, 1, 5), (Popcount_Loop, 3, 4, 4), (Carry_Chain, 4, 3, 1)]\<rparr>"

definition case_0220 :: "case_program" where
  "case_0220 =
     \<lparr>case_id = 220,
      case_input = [0x1bc9c487, 0xaf8b7128, 0x882afde1, 0xcb695750, 0x7fffffff, 0xc25942ae, 0xfd266563, 0x75466668,
                    0x6707da17, 0xc4bfb60c, 0x4399c382, 0xc4b901b8, 0x0000007f, 0xf1b8eabb, 0x0dc41954, 0xf3386ac2],
      case_kernel = gray_kernel 4,
      reg_inputs = [13, 1, 5, 9], reg5_init = 0xf7ac9afc,
      memory_keys = [0x000000dc, 0x000001b8, 0x00000370, 0x000006e0, 0x00000dc0, 0x00001b80, 0x00003700, 0x00006e00],
      case_stmts = [(Add_Carry, 4, 3, 3), (Switch_Phi, 2, 3, 1), (Add_Carry, 2, 5, 2), (Counted_Loop, 2, 0, 0),
                    (Short_Circuit, 3, 3, 2), (Add_Carry, 1, 4, 5), (Counted_Loop, 4, 0, 4), (Minmax_Clamp, 5, 0, 0),
                    (Add_Carry, 4, 5, 0), (Halfword_Swap, 0, 0, 3), (Switch_Phi, 4, 2, 4), (Counted_Loop, 0, 2, 4)]\<rparr>"

definition case_0221 :: "case_program" where
  "case_0221 =
     \<lparr>case_id = 221,
      case_input = [0x5b4be4c6, 0xb38a246f, 0x7db25fe7, 0x80000000, 0xdafa4226, 0x80000000, 0xb4ddfa1a, 0xa7b3a0a4,
                    0x8040d1c6, 0x855004c3, 0xd51f34a5, 0x1c8ff2c9, 0x2ccd9c96, 0x685ef0fd, 0xd07e086d, 0xda089bbc],
      case_kernel = gray_kernel 5,
      reg_inputs = [14, 2, 6, 10], reg5_init = 0x95e414b5,
      memory_keys = [0x000000dd, 0x000001ba, 0x00000374, 0x000006e8, 0x00000dd0, 0x00001ba0, 0x00003740, 0x00006e80],
      case_stmts = [(Sub_Borrow, 1, 2, 4), (Switch_Phi, 5, 1, 4), (Add_Carry, 4, 3, 0), (Byte_Pack, 3, 4, 1),
                    (Horner_Loop, 3, 3, 4), (Carry_Chain, 3, 0, 2), (Add_Carry, 1, 1, 1), (Array_Scatter, 0, 3, 0),
                    (Gray_Decode, 3, 4, 3), (Popcount_Loop, 1, 4, 1), (Byte_Pack, 0, 4, 3), (Multiply_Low, 3, 4, 5)]\<rparr>"

definition case_0222 :: "case_program" where
  "case_0222 =
     \<lparr>case_id = 222,
      case_input = [0x9acd8405, 0x978bdba7, 0x6b191ca9, 0x3f704536, 0x2d3a7887, 0x1027782a, 0xfffffffe, 0xad10a32e,
                    0xf554044a, 0x4adf4b90, 0x00000002, 0x19b5ffa3, 0x6bc218c1, 0x2b0c4ded, 0xe40f0ba4, 0xa045e48a],
      case_kernel = gray_kernel 6,
      reg_inputs = [15, 3, 7, 11], reg5_init = 0x341b8e6e,
      memory_keys = [0x000000de, 0x000001bc, 0x00000378, 0x000006f0, 0x00000de0, 0x00001bc0, 0x00003780, 0x00006f00],
      case_stmts = [(Rotate_Mix, 0, 2, 0), (Switch_Phi, 4, 1, 1), (Add_Carry, 4, 4, 3), (Add_Carry, 4, 0, 4),
                    (Switch_Phi, 5, 2, 2), (Divide_Rem, 1, 0, 2), (Halfword_Swap, 1, 5, 4), (Divide_Rem, 0, 0, 3),
                    (Short_Circuit, 4, 4, 4), (Gray_Decode, 5, 1, 3), (Mask_Merge, 0, 4, 0), (Multiply_Low, 5, 5, 5)]\<rparr>"

definition case_0223 :: "case_program" where
  "case_0223 =
     \<lparr>case_id = 223,
      case_input = [0xda4fa444, 0x00000100, 0x9e81beaf, 0x9f793010, 0x3b6ff552, 0x03c43329, 0x0d3f1199, 0xffffffff,
                    0x12130f9b, 0x0b30f95f, 0x459fa30a, 0xc1830cd2, 0xb3c4db28, 0xb2ea57ab, 0x39b51a9d, 0x897515f4],
      case_kernel = gray_kernel 7,
      reg_inputs = [0, 4, 8, 12], reg5_init = 0xd2530827,
      memory_keys = [0x000000df, 0x000001be, 0x0000037c, 0x000006f8, 0x00000df0, 0x00001be0, 0x000037c0, 0x00006f80],
      case_stmts = [(Multiply_Low, 5, 1, 3), (Switch_Phi, 5, 1, 2), (Add_Carry, 0, 0, 1), (Endian_Swap, 3, 2, 3),
                    (Short_Circuit, 5, 4, 2), (Counted_Loop, 3, 4, 3), (Compare_Select, 0, 4, 5), (Sub_Borrow, 3, 3, 1),
                    (Multiply_Low, 1, 1, 1), (Carry_Chain, 4, 1, 1), (Array_Scatter, 0, 4, 1), (Reverse_Loop, 2, 1, 4)]\<rparr>"

definition case_0224 :: "case_program" where
  "case_0224 =
     \<lparr>case_id = 224,
      case_input = [0x05b64bb4, 0x7f877283, 0xec23a498, 0x08688f58, 0xb2074fec, 0x584c7ebc, 0x637e848c, 0xfc60bde3,
                    0x00000000, 0xb090bb33, 0x4cec31fe, 0x7abdaa67, 0x3a9fdbd6, 0x4dd889e1, 0x4f4fb541, 0x564dd2cf],
      case_kernel = gray_kernel 8,
      reg_inputs = [1, 5, 9, 13], reg5_init = 0x708a81e0,
      memory_keys = [0x000000e0, 0x000001c0, 0x00000380, 0x00000700, 0x00000e00, 0x00001c00, 0x00003800, 0x00007000],
      case_stmts = [(Divide_Rem, 1, 1, 2), (Switch_Phi, 1, 5, 4), (Add_Carry, 5, 3, 5), (Mask_Merge, 2, 2, 3),
                    (Gray_Decode, 5, 2, 2), (Mask_Merge, 5, 0, 5), (Rotate_Mix, 4, 2, 1), (Horner_Loop, 3, 3, 2),
                    (Reverse_Loop, 2, 3, 2), (Byte_Pack, 3, 1, 0), (Divide_Rem, 0, 3, 2), (Popcount_Loop, 2, 5, 0)]\<rparr>"

definition case_0225 :: "case_program" where
  "case_0225 =
     \<lparr>case_id = 225,
      case_input = [0x00000000, 0x638627c4, 0x19bb069e, 0xa861fa7e, 0xa452c239, 0x4baf35bf, 0x2a851bf5, 0x2e957b2f,
                    0x87a4779d, 0xf17f09fc, 0xda6ac6d9, 0xa28b5916, 0xe299183f, 0xd43e93a7, 0x92f5a478, 0x7f7d23b1],
      case_kernel = field_pack_kernel,
      reg_inputs = [2, 6, 10, 14], reg5_init = 0x0ec1fb99,
      memory_keys = [0x000000e1, 0x000001c2, 0x00000384, 0x00000708, 0x00000e10, 0x00001c20, 0x00003840, 0x00007080],
      case_stmts = [(Mask_Merge, 2, 2, 5), (Switch_Phi, 4, 3, 5), (Add_Carry, 1, 1, 1), (Divide_Rem, 5, 0, 0),
                    (Minmax_Clamp, 5, 0, 2), (Byte_Pack, 3, 2, 2), (Minmax_Clamp, 5, 3, 2), (Compare_Select, 4, 4, 0),
                    (Endian_Swap, 1, 0, 5), (Counted_Loop, 2, 1, 2), (Halfword_Swap, 2, 3, 5),
                    (Short_Circuit, 5, 1, 1)]\<rparr>"

definition case_0226 :: "case_program" where
  "case_0226 =
     \<lparr>case_id = 226,
      case_input = [0x84b20b36, 0x00000001, 0x0f1045d0, 0xfc719d3e, 0x5392f898, 0x8a324438, 0xda9c6f0f, 0x243678a5,
                    0xf2b0a211, 0x3ef046af, 0xdc6ca651, 0xa7b1547c, 0xa5969c68, 0x976c2eb7, 0xa684a7b1, 0x05305c87],
      case_kernel = field_pack_kernel,
      reg_inputs = [3, 7, 11, 15], reg5_init = 0xacf97552,
      memory_keys = [0x000000e2, 0x000001c4, 0x00000388, 0x00000710, 0x00000e20, 0x00001c40, 0x00003880, 0x00007100],
      case_stmts = [(Compare_Select, 1, 0, 3), (Switch_Phi, 1, 5, 2), (Add_Carry, 3, 2, 0), (Byte_Pack, 0, 2, 5),
                    (Add_Carry, 5, 3, 4), (Mask_Merge, 1, 4, 0), (Divide_Rem, 5, 3, 1), (Byte_Pack, 0, 5, 5),
                    (Reverse_Loop, 4, 0, 0), (Add_Carry, 0, 0, 0), (Rotate_Mix, 2, 1, 2), (Add_Carry, 3, 4, 1)]\<rparr>"

definition case_0227 :: "case_program" where
  "case_0227 =
     \<lparr>case_id = 227,
      case_input = [0xc4302b77, 0x5b868d4b, 0x00000002, 0x5c78e818, 0x45c7754d, 0x99d10f3b, 0x9367f076, 0xf6c3be69,
                    0x15f7a9c0, 0x7f1ff460, 0x4aea5176, 0x7f87a70d, 0x7d905f81, 0x0e8a34f1, 0x7b3eb688, 0x2c00adf9],
      case_kernel = field_pack_kernel,
      reg_inputs = [4, 8, 12, 0], reg5_init = 0x4b30ef0b,
      memory_keys = [0x000000e3, 0x000001c6, 0x0000038c, 0x00000718, 0x00000e30, 0x00001c60, 0x000038c0, 0x00007180],
      case_stmts = [(Byte_Pack, 2, 3, 4), (Switch_Phi, 4, 3, 3), (Add_Carry, 1, 4, 2), (Compare_Select, 1, 4, 2),
                    (Switch_Phi, 1, 1, 0), (Horner_Loop, 3, 4, 3), (Reverse_Loop, 4, 2, 4), (Compare_Select, 1, 4, 1),
                    (Popcount_Loop, 3, 5, 5), (Popcount_Loop, 3, 2, 0), (Reverse_Loop, 4, 3, 1),
                    (Array_Scatter, 2, 0, 0)]\<rparr>"

definition case_0228 :: "case_program" where
  "case_0228 =
     \<lparr>case_id = 228,
      case_input = [0x07becab1, 0x0f86279d, 0x2a446609, 0x00000003, 0x732a2105, 0x65b0a6f0, 0x2db006f5, 0x84fa8adf,
                    0xa88a91d4, 0x2f096240, 0xc088d061, 0x7e248c57, 0x6bc86c29, 0xa428349e, 0xc6075904, 0x3fdedbf3],
      case_kernel = field_pack_kernel,
      reg_inputs = [5, 9, 13, 1], reg5_init = 0xe96868c4,
      memory_keys = [0x000000e4, 0x000001c8, 0x00000390, 0x00000720, 0x00000e40, 0x00001c80, 0x00003900, 0x00007200],
      case_stmts = [(Halfword_Swap, 0, 0, 2), (Switch_Phi, 4, 0, 5), (Add_Carry, 5, 0, 0), (Minmax_Clamp, 3, 0, 5),
                    (Sub_Borrow, 4, 5, 5), (Halfword_Swap, 2, 0, 3), (Gray_Decode, 5, 2, 1), (Rotate_Mix, 2, 5, 1),
                    (Counted_Loop, 2, 2, 0), (Rotate_Mix, 3, 3, 0), (Short_Circuit, 1, 5, 1), (Popcount_Loop, 4, 1, 5)]\<rparr>"

definition case_0229 :: "case_program" where
  "case_0229 =
     \<lparr>case_id = 229,
      case_input = [0x473ceaf0, 0x138772da, 0xdfdcc40f, 0x4253deb3, 0x0000007f, 0x7653edf3, 0x644b998c, 0x560f4c13,
                    0x4fcd9a05, 0x6ee6d08f, 0x560e2746, 0xa6127f26, 0xb3ceafc0, 0x3dce2ed8, 0x1bbd483d, 0x16ee2a8d],
      case_kernel = field_pack_kernel,
      reg_inputs = [6, 10, 14, 2], reg5_init = 0x879fe27d,
      memory_keys = [0x000000e5, 0x000001ca, 0x00000394, 0x00000728, 0x00000e50, 0x00001ca0, 0x00003940, 0x00007280],
      case_stmts = [(Array_Scatter, 5, 1, 5), (Switch_Phi, 3, 0, 4), (Add_Carry, 5, 2, 2), (Endian_Swap, 0, 0, 0),
                    (Reverse_Loop, 0, 3, 5), (Rotate_Mix, 0, 4, 0), (Mask_Merge, 2, 3, 2), (Gray_Decode, 5, 0, 5),
                    (Endian_Swap, 1, 5, 3), (Byte_Pack, 4, 1, 0), (Add_Carry, 1, 3, 0), (Short_Circuit, 3, 1, 0)]\<rparr>"

definition case_0230 :: "case_program" where
  "case_0230 =
     \<lparr>case_id = 230,
      case_input = [0x86ba8a33, 0x37868d12, 0xc9778741, 0x1643b9f3, 0x92bf9671, 0x00000080, 0x9452ed76, 0x5cac4f99,
                    0x3ad94f89, 0xa1699fdc, 0x500847ce, 0xa328724c, 0xf4c12b97, 0x7e9c93c8, 0x2fcc4bf4, 0x6ca355bb],
      case_kernel = field_pack_kernel,
      reg_inputs = [7, 11, 15, 3], reg5_init = 0x25d75c36,
      memory_keys = [0x000000e6, 0x000001cc, 0x00000398, 0x00000730, 0x00000e60, 0x00001cc0, 0x00003980, 0x00007300],
      case_stmts = [(Counted_Loop, 0, 3, 5), (Switch_Phi, 4, 0, 1), (Add_Carry, 3, 1, 1), (Carry_Chain, 5, 0, 5),
                    (Counted_Loop, 0, 4, 5), (Short_Circuit, 4, 2, 0), (Popcount_Loop, 2, 5, 3),
                    (Counted_Loop, 3, 3, 4), (Reverse_Loop, 0, 3, 2), (Popcount_Loop, 4, 0, 2), (Carry_Chain, 5, 1, 1),
                    (Divide_Rem, 3, 0, 0)]\<rparr>"

definition case_0231 :: "case_program" where
  "case_0231 =
     \<lparr>case_id = 231,
      case_input = [0xc638aa72, 0x2b87d855, 0x3cef2547, 0xb64accd5, 0x84ea1ba4, 0xa42dd777, 0x000000ff, 0x8e598955,
                    0xdd9e4458, 0xe0862d13, 0xc68eb0e9, 0x7b1e813d, 0x2cc7e87e, 0xe77a898e, 0xf2765acd, 0x4593a4c5],
      case_kernel = field_pack_kernel,
      reg_inputs = [8, 12, 0, 4], reg5_init = 0xc40ed5ef,
      memory_keys = [0x000000e7, 0x000001ce, 0x0000039c, 0x00000738, 0x00000e70, 0x00001ce0, 0x000039c0, 0x00007380],
      case_stmts = [(Switch_Phi, 3, 4, 4), (Switch_Phi, 5, 2, 0), (Add_Carry, 3, 3, 3), (Horner_Loop, 0, 2, 4),
                    (Mask_Merge, 0, 2, 1), (Rotate_Mix, 4, 2, 1), (Horner_Loop, 5, 4, 2), (Byte_Pack, 0, 4, 4),
                    (Array_Scatter, 5, 4, 5), (Short_Circuit, 3, 4, 4), (Carry_Chain, 5, 5, 0),
                    (Array_Scatter, 2, 2, 3)]\<rparr>"

definition case_0232 :: "case_program" where
  "case_0232 =
     \<lparr>case_id = 232,
      case_input = [0x01a749be, 0x9f85d8bf, 0x60ec21bb, 0xdc0cc6c2, 0x325d923f, 0x23b3ce25, 0x67e52d3a, 0x00000100,
                    0x940a47b2, 0xb35e4013, 0x2cbe90d7, 0xedc4bb3c, 0x7ad9ba91, 0xdfae20f3, 0xc4a9ec97, 0x05a57043],
      case_kernel = field_pack_kernel,
      reg_inputs = [9, 13, 1, 5], reg5_init = 0x62464fa8,
      memory_keys = [0x000000e8, 0x000001d0, 0x000003a0, 0x00000740, 0x00000e80, 0x00001d00, 0x00003a00, 0x00007400],
      case_stmts = [(Short_Circuit, 3, 0, 3), (Switch_Phi, 2, 5, 0), (Add_Carry, 1, 4, 5), (Horner_Loop, 0, 0, 5),
                    (Horner_Loop, 3, 3, 3), (Reverse_Loop, 4, 5, 2), (Short_Circuit, 0, 2, 4), (Short_Circuit, 1, 5, 1),
                    (Multiply_Low, 2, 4, 0), (Sub_Borrow, 2, 1, 4), (Horner_Loop, 4, 2, 0), (Byte_Pack, 4, 5, 0)]\<rparr>"

definition case_0233 :: "case_program" where
  "case_0233 =
     \<lparr>case_id = 233,
      case_input = [0x412569ff, 0x83848df8, 0x957483bd, 0x7c05b3e4, 0x24081fea, 0x30508526, 0x2e1eb243, 0x7baeed6c,
                    0x7fffffff, 0xf2b1f2dc, 0xba3867f0, 0x35f2484d, 0xa2df7978, 0x46483ab5, 0x1913fdae, 0x2c95813d],
      case_kernel = field_pack_kernel,
      reg_inputs = [10, 14, 2, 6], reg5_init = 0x007dc961,
      memory_keys = [0x000000e9, 0x000001d2, 0x000003a4, 0x00000748, 0x00000e90, 0x00001d20, 0x00003a40, 0x00007480],
      case_stmts = [(Popcount_Loop, 2, 3, 0), (Switch_Phi, 5, 5, 3), (Add_Carry, 1, 0, 3), (Carry_Chain, 1, 2, 2),
                    (Halfword_Swap, 5, 5, 3), (Add_Carry, 0, 3, 3), (Reverse_Loop, 1, 3, 1), (Array_Scatter, 4, 4, 3),
                    (Short_Circuit, 1, 5, 5), (Minmax_Clamp, 3, 5, 0), (Gray_Decode, 4, 2, 5), (Carry_Chain, 5, 3, 1)]\<rparr>"

definition case_0234 :: "case_program" where
  "case_0234 =
     \<lparr>case_id = 234,
      case_input = [0x80a3093c, 0xa7857230, 0x83dfc0f3, 0x2815d4a4, 0xd3c8254b, 0xf1cdf4a1, 0xde07c6b9, 0x710deee6,
                    0x065999ef, 0x80000000, 0xbc3e0778, 0x30c84527, 0xe5d0fd2f, 0x051a87a5, 0x2d62fe67, 0x56d8fe0b],
      case_kernel = field_pack_kernel,
      reg_inputs = [11, 15, 3, 7], reg5_init = 0x9eb5431a,
      memory_keys = [0x000000ea, 0x000001d4, 0x000003a8, 0x00000750, 0x00000ea0, 0x00001d40, 0x00003a80, 0x00007500],
      case_stmts = [(Reverse_Loop, 1, 5, 2), (Switch_Phi, 4, 5, 4), (Add_Carry, 5, 3, 4), (Endian_Swap, 4, 2, 5),
                    (Minmax_Clamp, 1, 2, 3), (Carry_Chain, 0, 3, 1), (Reverse_Loop, 1, 5, 4), (Halfword_Swap, 2, 3, 2),
                    (Byte_Pack, 4, 5, 0), (Rotate_Mix, 5, 2, 0), (Mask_Merge, 0, 4, 2), (Counted_Loop, 5, 4, 3)]\<rparr>"

definition case_0235 :: "case_program" where
  "case_0235 =
     \<lparr>case_id = 235,
      case_input = [0xc021297d, 0xbb842777, 0x764762f5, 0x881ca182, 0xc59da89e, 0xe22ebfa2, 0x97fc59c0, 0xa3f8282a,
                    0xe11e923e, 0x7cd10f40, 0xfffffffe, 0xe8feb656, 0x3dd63ec6, 0x9cfc9de3, 0xf0d8ef5e, 0x7fe80f75],
      case_kernel = field_pack_kernel,
      reg_inputs = [12, 0, 4, 8], reg5_init = 0x3cecbcd3,
      memory_keys = [0x000000eb, 0x000001d6, 0x000003ac, 0x00000758, 0x00000eb0, 0x00001d60, 0x00003ac0, 0x00007580],
      case_stmts = [(Gray_Decode, 2, 2, 1), (Switch_Phi, 5, 1, 5), (Add_Carry, 3, 5, 0), (Minmax_Clamp, 5, 4, 2),
                    (Horner_Loop, 3, 2, 1), (Minmax_Clamp, 0, 5, 0), (Minmax_Clamp, 2, 2, 1), (Mask_Merge, 1, 4, 2),
                    (Minmax_Clamp, 5, 0, 5), (Multiply_Low, 0, 4, 0), (Popcount_Loop, 0, 0, 1), (Horner_Loop, 4, 0, 0)]\<rparr>"

definition case_0236 :: "case_program" where
  "case_0236 =
     \<lparr>case_id = 236,
      case_input = [0x03afc8bb, 0xef848da1, 0xa68be32a, 0x363ee20f, 0xf370fcd6, 0x1e4f1669, 0x292baf43, 0xd1c11c9c,
                    0x5c63aa2a, 0x2cc79960, 0xa0da7148, 0xffffffff, 0x2b8e0d6e, 0x365e9d8c, 0x4de100d2, 0x6c36797f],
      case_kernel = field_pack_kernel,
      reg_inputs = [13, 1, 5, 9], reg5_init = 0xdb24368c,
      memory_keys = [0x000000ec, 0x000001d8, 0x000003b0, 0x00000760, 0x00000ec0, 0x00001d80, 0x00003b00, 0x00007600],
      case_stmts = [(Minmax_Clamp, 4, 1, 5), (Switch_Phi, 1, 0, 5), (Add_Carry, 5, 5, 2), (Counted_Loop, 5, 2, 1),
                    (Array_Scatter, 0, 2, 0), (Multiply_Low, 3, 5, 2), (Popcount_Loop, 3, 0, 0),
                    (Popcount_Loop, 4, 5, 2), (Byte_Pack, 2, 3, 4), (Divide_Rem, 4, 3, 0), (Horner_Loop, 3, 0, 1),
                    (Gray_Decode, 0, 3, 1)]\<rparr>"

definition case_0237 :: "case_program" where
  "case_0237 =
     \<lparr>case_id = 237,
      case_input = [0x432de8fa, 0xf385d8e6, 0x5313412c, 0x96379729, 0x00000000, 0x0dac5d6a, 0x60d0303a, 0x0334da50,
                    0xbb24a1fb, 0x6d282baf, 0x365c866f, 0x316b6e7d, 0x00000000, 0xafb887ca, 0x905b11eb, 0x45068801],
      case_kernel = field_pack_kernel,
      reg_inputs = [14, 2, 6, 10], reg5_init = 0x795bb045,
      memory_keys = [0x000000ed, 0x000001da, 0x000003b4, 0x00000768, 0x00000ed0, 0x00001da0, 0x00003b40, 0x00007680],
      case_stmts = [(Endian_Swap, 5, 2, 4), (Switch_Phi, 4, 0, 2), (Add_Carry, 3, 1, 4), (Switch_Phi, 4, 2, 2),
                    (Reverse_Loop, 2, 2, 0), (Mask_Merge, 3, 5, 5), (Multiply_Low, 0, 5, 3), (Short_Circuit, 1, 2, 4),
                    (Minmax_Clamp, 1, 2, 1), (Array_Scatter, 5, 1, 0), (Gray_Decode, 1, 0, 4),
                    (Compare_Select, 3, 5, 0)]\<rparr>"

definition case_0238 :: "case_program" where
  "case_0238 =
     \<lparr>case_id = 238,
      case_input = [0x82ab8839, 0xd784272e, 0x45b80262, 0xc227f069, 0x12e54ba2, 0xcc312ced, 0x90c944c0, 0x0997d9da,
                    0xce307477, 0xa2a764fc, 0x305ae6e7, 0x00000080, 0xb4874ad0, 0x00000001, 0xa42a1222, 0x3f4bf737],
      case_kernel = field_pack_kernel,
      reg_inputs = [15, 3, 7, 11], reg5_init = 0x179329fe,
      memory_keys = [0x000000ee, 0x000001dc, 0x000003b8, 0x00000770, 0x00000ee0, 0x00001dc0, 0x00003b80, 0x00007700],
      case_stmts = [(Carry_Chain, 2, 2, 0), (Switch_Phi, 3, 4, 1), (Add_Carry, 1, 4, 1), (Halfword_Swap, 1, 2, 3),
                    (Reverse_Loop, 0, 1, 2), (Horner_Loop, 3, 1, 1), (Horner_Loop, 2, 3, 4), (Sub_Borrow, 3, 5, 3),
                    (Horner_Loop, 2, 4, 0), (Switch_Phi, 3, 0, 4), (Popcount_Loop, 3, 0, 5), (Counted_Loop, 5, 4, 0)]\<rparr>"

definition case_0239 :: "case_program" where
  "case_0239 =
     \<lparr>case_id = 239,
      case_input = [0xc229a878, 0xcb857269, 0xfffffffe, 0x622e854f, 0x04b0c677, 0xdfd267ee, 0xd932dbb9, 0xdb621f16,
                    0x29777fa6, 0xe348d633, 0xa6dc11c0, 0xec679066, 0x6c818939, 0x750c209c, 0x00000002, 0x167b0649],
      case_kernel = field_pack_kernel,
      reg_inputs = [0, 4, 8, 12], reg5_init = 0xb5caa3b7,
      memory_keys = [0x000000ef, 0x000001de, 0x000003bc, 0x00000778, 0x00000ef0, 0x00001de0, 0x00003bc0, 0x00007780],
      case_stmts = [(Horner_Loop, 1, 3, 3), (Switch_Phi, 2, 4, 4), (Add_Carry, 3, 0, 1), (Array_Scatter, 2, 0, 2),
                    (Endian_Swap, 2, 1, 2), (Endian_Swap, 3, 1, 4), (Mask_Merge, 3, 2, 1), (Short_Circuit, 2, 2, 1),
                    (Add_Carry, 3, 5, 5), (Counted_Loop, 4, 2, 0), (Array_Scatter, 1, 4, 0), (Multiply_Low, 0, 0, 3)]\<rparr>"

definition case_0240 :: "case_program" where
  "case_0240 =
     \<lparr>case_id = 240,
      case_input = [0x0d944fa0, 0xbf8226fb, 0xf7bcaede, 0xa2a61c6d, 0x29b2590f, 0x92bc4af1, 0x317a6250, 0xaad9c056,
                    0x306b6dea, 0x00000003, 0xe64a07b3, 0xeb8a1c17, 0x12b67bb3, 0x1cd0c9b3, 0x0375fbc3, 0x00000003],
      case_kernel = field_pack_kernel,
      reg_inputs = [1, 5, 9, 13], reg5_init = 0x54021d70,
      memory_keys = [0x000000f0, 0x000001e0, 0x000003c0, 0x00000780, 0x00000f00, 0x00001e00, 0x00003c00, 0x00007800],
      case_stmts = [(Add_Carry, 4, 4, 4), (Short_Circuit, 2, 3, 4), (Add_Carry, 1, 1, 2), (Array_Scatter, 1, 5, 5),
                    (Multiply_Low, 5, 1, 4), (Byte_Pack, 4, 0, 3), (Switch_Phi, 4, 2, 3), (Minmax_Clamp, 2, 1, 2),
                    (Multiply_Low, 4, 4, 0), (Horner_Loop, 4, 2, 1), (Array_Scatter, 5, 5, 1), (Switch_Phi, 4, 4, 1)]\<rparr>"

definition case_0241 :: "case_program" where
  "case_0241 =
     \<lparr>case_id = 241,
      case_input = [0x7fffffff, 0xa38373bc, 0x02240cd8, 0x02af694b, 0x3fe7d4da, 0x815f01f2, 0x7881fd29, 0x782c069a,
                    0xd72c663b, 0x88c2716d, 0x70ccf094, 0x33bcef66, 0xcab0b85a, 0x8536d3f5, 0xdecfeafa, 0xfd54c3dd],
      case_kernel = field_pack_kernel,
      reg_inputs = [2, 6, 10, 14], reg5_init = 0xf2399729,
      memory_keys = [0x000000f1, 0x000001e2, 0x000003c4, 0x00000788, 0x00000f10, 0x00001e20, 0x00003c40, 0x00007880],
      case_stmts = [(Sub_Borrow, 5, 1, 1), (Short_Circuit, 1, 3, 1), (Add_Carry, 1, 3, 4), (Divide_Rem, 4, 1, 0),
                    (Minmax_Clamp, 1, 1, 2), (Sub_Borrow, 0, 0, 4), (Popcount_Loop, 1, 5, 4), (Array_Scatter, 1, 0, 0),
                    (Add_Carry, 5, 5, 3), (Rotate_Mix, 1, 4, 1), (Sub_Borrow, 5, 5, 2), (Carry_Chain, 1, 0, 0)]\<rparr>"

definition case_0242 :: "case_program" where
  "case_0242 =
     \<lparr>case_id = 242,
      case_input = [0x8c900f22, 0x00000080, 0x148f4f96, 0x56bf0e0b, 0xc827ee7b, 0x40c27075, 0x889889d3, 0x00000001,
                    0xa238b3b7, 0x474d3e3e, 0x76ca901c, 0x3686e20c, 0x8dbf3c0d, 0xc6646ee5, 0xeabee933, 0x8719bceb],
      case_kernel = field_pack_kernel,
      reg_inputs = [3, 7, 11, 15], reg5_init = 0x907110e2,
      memory_keys = [0x000000f2, 0x000001e4, 0x000003c8, 0x00000790, 0x00000f20, 0x00001e40, 0x00003c80, 0x00007900],
      case_stmts = [(Rotate_Mix, 2, 3, 3), (Short_Circuit, 4, 5, 2), (Add_Carry, 3, 2, 5), (Switch_Phi, 5, 3, 1),
                    (Short_Circuit, 1, 4, 4), (Multiply_Low, 4, 0, 4), (Endian_Swap, 5, 1, 1), (Minmax_Clamp, 1, 5, 1),
                    (Horner_Loop, 0, 5, 0), (Add_Carry, 3, 3, 1), (Gray_Decode, 5, 5, 1), (Reverse_Loop, 3, 3, 4)]\<rparr>"

definition case_0243 :: "case_program" where
  "case_0243 =
     \<lparr>case_id = 243,
      case_input = [0xcc122f63, 0x9b83d933, 0x000000ff, 0xf6b67b2d, 0xde7263ae, 0x53213b76, 0xc16316aa, 0xa07ac3dc,
                    0x457fb866, 0x06a28cf1, 0xe04c673b, 0xeeb0117d, 0x55b9ffe4, 0x5f8274a3, 0x000000ff, 0xae294d95],
      case_kernel = field_pack_kernel,
      reg_inputs = [4, 8, 12, 0], reg5_init = 0x2ea88a9b,
      memory_keys = [0x000000f3, 0x000001e6, 0x000003cc, 0x00000798, 0x00000f30, 0x00001e60, 0x00003cc0, 0x00007980],
      case_stmts = [(Multiply_Low, 5, 0, 4), (Short_Circuit, 3, 5, 5), (Add_Carry, 1, 2, 3), (Compare_Select, 0, 5, 0),
                    (Gray_Decode, 1, 4, 4), (Endian_Swap, 4, 0, 5), (Gray_Decode, 2, 4, 2), (Array_Scatter, 4, 4, 5),
                    (Halfword_Swap, 3, 0, 3), (Popcount_Loop, 0, 5, 1), (Multiply_Low, 3, 3, 0), (Switch_Phi, 4, 3, 1)]\<rparr>"

definition case_0244 :: "case_program" where
  "case_0244 =
     \<lparr>case_id = 244,
      case_input = [0x0f9ccea5, 0xcf8373e5, 0x31db6c4f, 0x00000100, 0xe89f37e6, 0xffffffff, 0x7fb4e029, 0xd243f76a,
                    0xf8028072, 0x56b41ad1, 0x6a2ee62c, 0xef133a27, 0x43e1cc4c, 0xf52074cc, 0x8a3d1786, 0xbdf73b9f],
      case_kernel = field_pack_kernel,
      reg_inputs = [5, 9, 13, 1], reg5_init = 0xcce00454,
      memory_keys = [0x000000f4, 0x000001e8, 0x000003d0, 0x000007a0, 0x00000f40, 0x00001e80, 0x00003d00, 0x00007a00],
      case_stmts = [(Divide_Rem, 5, 5, 4), (Short_Circuit, 5, 0, 1), (Add_Carry, 3, 4, 3), (Short_Circuit, 2, 3, 5),
                    (Array_Scatter, 2, 4, 3), (Counted_Loop, 5, 4, 5), (Reverse_Loop, 5, 2, 5),
                    (Array_Scatter, 5, 1, 3), (Multiply_Low, 0, 3, 0), (Rotate_Mix, 2, 4, 5), (Mask_Merge, 0, 1, 4),
                    (Multiply_Low, 2, 0, 2)]\<rparr>"

definition case_0245 :: "case_program" where
  "case_0245 =
     \<lparr>case_id = 245,
      case_input = [0x4f1eeee4, 0xd38226a2, 0xc443ce49, 0xe89d4d86, 0x7fffffff, 0xbca3d9be, 0x364f7f50, 0x00b631a6,
                    0x1f458ba3, 0x175ba81e, 0xfca8110b, 0x3725c956, 0x0000007f, 0x6cc66e8a, 0x578706bf, 0x94c7cae1],
      case_kernel = field_pack_kernel,
      reg_inputs = [6, 10, 14, 2], reg5_init = 0x6b177e0d,
      memory_keys = [0x000000f5, 0x000001ea, 0x000003d4, 0x000007a8, 0x00000f50, 0x00001ea0, 0x00003d40, 0x00007a80],
      case_stmts = [(Mask_Merge, 4, 0, 1), (Short_Circuit, 4, 2, 2), (Add_Carry, 1, 0, 1), (Array_Scatter, 3, 1, 0),
                    (Reverse_Loop, 0, 0, 3), (Divide_Rem, 5, 2, 0), (Short_Circuit, 0, 5, 0), (Divide_Rem, 0, 4, 5),
                    (Add_Carry, 1, 4, 3), (Multiply_Low, 5, 0, 1), (Endian_Swap, 2, 5, 5), (Reverse_Loop, 5, 2, 1)]\<rparr>"

definition case_0246 :: "case_program" where
  "case_0246 =
     \<lparr>case_id = 246,
      case_input = [0x8e988e27, 0xf783d96a, 0xd2e88d07, 0x80000000, 0x090a8092, 0x80000000, 0xc6560baa, 0x0a15322c,
                    0x6a515e2f, 0xd8d4e74d, 0xfaae7183, 0x321fc43c, 0xdce88bf2, 0x2f94d39a, 0x63f60576, 0xee8ab5d7],
      case_kernel = field_pack_kernel,
      reg_inputs = [7, 11, 15, 3], reg5_init = 0x094ef7c6,
      memory_keys = [0x000000f6, 0x000001ec, 0x000003d8, 0x000007b0, 0x00000f60, 0x00001ec0, 0x00003d80, 0x00007b00],
      case_stmts = [(Compare_Select, 1, 4, 5), (Short_Circuit, 3, 2, 3), (Add_Carry, 5, 5, 2), (Reverse_Loop, 2, 5, 3),
                    (Reverse_Loop, 4, 1, 1), (Compare_Select, 5, 4, 0), (Minmax_Clamp, 0, 3, 3),
                    (Popcount_Loop, 4, 1, 2), (Gray_Decode, 2, 2, 4), (Sub_Borrow, 3, 1, 1), (Horner_Loop, 2, 1, 4),
                    (Counted_Loop, 1, 1, 1)]\<rparr>"

definition case_0247 :: "case_program" where
  "case_0247 =
     \<lparr>case_id = 247,
      case_input = [0xce1aae66, 0xeb828c2d, 0x27702f01, 0x1c845fe0, 0x1f5f0d47, 0x6edde33a, 0xfffffffe, 0xd8e0f4e0,
                    0x8d1655fe, 0x993b5582, 0x00000002, 0xea29374d, 0x04ee481b, 0xb672c9dc, 0xbe4c144f, 0xc7ba44a9],
      case_kernel = field_pack_kernel,
      reg_inputs = [8, 12, 0, 4], reg5_init = 0xa786717f,
      memory_keys = [0x000000f7, 0x000001ee, 0x000003dc, 0x000007b8, 0x00000f70, 0x00001ee0, 0x00003dc0, 0x00007b80],
      case_stmts = [(Byte_Pack, 2, 3, 2), (Short_Circuit, 0, 4, 4), (Add_Carry, 3, 1, 2), (Switch_Phi, 3, 1, 2),
                    (Sub_Borrow, 2, 3, 3), (Divide_Rem, 5, 0, 3), (Counted_Loop, 1, 0, 4), (Minmax_Clamp, 1, 4, 4),
                    (Halfword_Swap, 5, 3, 5), (Minmax_Clamp, 4, 5, 5), (Multiply_Low, 0, 3, 1), (Byte_Pack, 2, 1, 0)]\<rparr>"

definition case_0248 :: "case_program" where
  "case_0248 =
     \<lparr>case_id = 248,
      case_input = [0x09854daa, 0x00000100, 0x7b732bfd, 0x76c255f7, 0xa9e884dc, 0xe943fa68, 0x35e1cbe6, 0xffffffff,
                    0xc4825614, 0xcae33882, 0x8618a69a, 0x7cf30d4c, 0x52f01af4, 0x8ea660a1, 0x8893a215, 0x878c902f],
      case_kernel = field_pack_kernel,
      reg_inputs = [9, 13, 1, 5], reg5_init = 0x45bdeb38,
      memory_keys = [0x000000f8, 0x000001f0, 0x000003e0, 0x000007c0, 0x00000f80, 0x00001f00, 0x00003e00, 0x00007c00],
      case_stmts = [(Halfword_Swap, 4, 1, 5), (Short_Circuit, 5, 5, 2), (Add_Carry, 3, 0, 4), (Multiply_Low, 3, 3, 1),
                    (Byte_Pack, 5, 2, 3), (Minmax_Clamp, 5, 5, 2), (Mask_Merge, 0, 0, 4), (Gray_Decode, 0, 5, 3),
                    (Counted_Loop, 2, 1, 0), (Sub_Borrow, 5, 4, 3), (Reverse_Loop, 3, 0, 5), (Array_Scatter, 2, 2, 5)]\<rparr>"

definition case_0249 :: "case_program" where
  "case_0249 =
     \<lparr>case_id = 249,
      case_input = [0x49076deb, 0x4381d980, 0x8eeb89fb, 0xd6cb20d1, 0xbfbd0909, 0xfaa0b16b, 0x7c1a549f, 0x2d1790d9,
                    0x00000000, 0x8b0c8a4d, 0x109e51bd, 0xa4c5fe3d, 0x8af6d91d, 0x17407ae7, 0x5529b32c, 0xaebc6151],
      case_kernel = field_pack_kernel,
      reg_inputs = [10, 14, 2, 6], reg5_init = 0xe3f564f1,
      memory_keys = [0x000000f9, 0x000001f2, 0x000003e4, 0x000007c8, 0x00000f90, 0x00001f20, 0x00003e40, 0x00007c80],
      case_stmts = [(Array_Scatter, 5, 0, 2), (Short_Circuit, 2, 5, 3), (Add_Carry, 1, 2, 2), (Carry_Chain, 4, 5, 0),
                    (Halfword_Swap, 5, 0, 1), (Rotate_Mix, 3, 1, 5), (Switch_Phi, 3, 3, 1), (Carry_Chain, 5, 4, 5),
                    (Mask_Merge, 5, 2, 5), (Halfword_Swap, 0, 0, 1), (Counted_Loop, 5, 0, 4), (Short_Circuit, 1, 0, 2)]\<rparr>"

definition case_0250 :: "(nat \<Rightarrow> u32) \<Rightarrow> case_program" where
  "case_0250 junk =
     \<lparr>case_id = 250,
      case_input = [0x00000000, 0x67802648, 0x9840cab5, 0x82db4791, 0x487d33a8, 0x3b3dc0ec, 0x8c032065, 0x27b49353,
                    0x56d18849, 0x4483c51e, 0x16983135, 0xa1fff357, 0xcdf95d4a, 0x5412c7f7, 0x6158b0e5, 0xd4f11e67],
      case_kernel = sort_kernel junk 4,
      reg_inputs = [11, 15, 3, 7], reg5_init = 0x822cdeaa,
      memory_keys = [0x000000fa, 0x000001f4, 0x000003e8, 0x000007d0, 0x00000fa0, 0x00001f40, 0x00003e80, 0x00007d00],
      case_stmts = [(Counted_Loop, 0, 4, 4), (Short_Circuit, 5, 3, 4), (Add_Carry, 3, 1, 5), (Sub_Borrow, 3, 1, 5),
                    (Add_Carry, 3, 3, 1), (Divide_Rem, 1, 5, 3), (Multiply_Low, 1, 5, 0), (Gray_Decode, 5, 5, 2),
                    (Reverse_Loop, 2, 2, 0), (Reverse_Loop, 4, 5, 5), (Minmax_Clamp, 1, 0, 3), (Minmax_Clamp, 1, 3, 4)]\<rparr>"

definition case_0251 :: "(nat \<Rightarrow> u32) \<Rightarrow> case_program" where
  "case_0251 junk =
     \<lparr>case_id = 251,
      case_input = [0xc8032d69, 0x00000001, 0x6dd868b3, 0x22d232b7, 0x5e28be7d, 0x28de8bef, 0xc5f8bf1c, 0xf541559f,
                    0xb1968398, 0x056c77d1, 0x801ec612, 0x79c90026, 0x15ff9ea3, 0xcdf4ddb1, 0xbce2a1dc, 0xfdc1ef19],
      case_kernel = sort_kernel junk 5,
      reg_inputs = [12, 0, 4, 8], reg5_init = 0x20645863,
      memory_keys = [0x000000fb, 0x000001f6, 0x000003ec, 0x000007d8, 0x00000fb0, 0x00001f60, 0x00003ec0, 0x00007d80],
      case_stmts = [(Switch_Phi, 3, 3, 3), (Short_Circuit, 0, 3, 3), (Add_Carry, 5, 5, 1), (Minmax_Clamp, 2, 1, 0),
                    (Gray_Decode, 1, 3, 5), (Counted_Loop, 1, 1, 0), (Mask_Merge, 2, 4, 1), (Reverse_Loop, 4, 4, 2),
                    (Popcount_Loop, 1, 1, 3), (Switch_Phi, 1, 1, 1), (Minmax_Clamp, 3, 0, 2), (Endian_Swap, 2, 5, 5)]\<rparr>"

definition case_0252 :: "(nat \<Rightarrow> u32) \<Rightarrow> case_program" where
  "case_0252 junk =
     \<lparr>case_id = 252,
      case_input = [0x0b8dccaf, 0x2f81d9d9, 0x00000002, 0x9cf0713a, 0x68c5ea35, 0xd4bf2224, 0x7b2f499f, 0x87786129,
                    0x0cebbb8c, 0x557ae1f1, 0x0a7c4705, 0x786a2b7c, 0x03a7ad0b, 0x6756ddde, 0x01db4e50, 0xee1f9913],
      case_kernel = sort_kernel junk 6,
      reg_inputs = [13, 1, 5, 9], reg5_init = 0xbe9bd21c,
      memory_keys = [0x000000fc, 0x000001f8, 0x000003f0, 0x000007e0, 0x00000fc0, 0x00001f80, 0x00003f00, 0x00007e00],
      case_stmts = [(Short_Circuit, 5, 4, 1), (Short_Circuit, 0, 2, 5), (Add_Carry, 5, 5, 3),
                    (Compare_Select, 2, 1, 3), (Endian_Swap, 4, 1, 2), (Array_Scatter, 0, 1, 4),
                    (Halfword_Swap, 1, 0, 4), (Rotate_Mix, 1, 3, 4), (Counted_Loop, 4, 0, 2), (Divide_Rem, 5, 4, 1),
                    (Carry_Chain, 0, 2, 0), (Mask_Merge, 0, 2, 0)]\<rparr>"

definition case_0253 :: "(nat \<Rightarrow> u32) \<Rightarrow> case_program" where
  "case_0253 junk =
     \<lparr>case_id = 253,
      case_input = [0x4b0fecee, 0x33808c9e, 0x488c4b6a, 0x00000003, 0x7e9067e0, 0xc75c6927, 0x32d4d6e6, 0x558da7e5,
                    0xebacb05d, 0x1495533e, 0x9cfab022, 0xa05cd80d, 0xdba16ee2, 0xfeb0c798, 0xdc615f69, 0xc72f686d],
      case_kernel = sort_kernel junk 7,
      reg_inputs = [14, 2, 6, 10], reg5_init = 0x5cd34bd5,
      memory_keys = [0x000000fd, 0x000001fa, 0x000003f4, 0x000007e8, 0x00000fd0, 0x00001fa0, 0x00003f40, 0x00007e80],
      case_stmts = [(Popcount_Loop, 4, 3, 2), (Short_Circuit, 5, 4, 2), (Add_Carry, 3, 3, 3), (Multiply_Low, 3, 1, 0),
                    (Reverse_Loop, 2, 3, 4), (Horner_Loop, 4, 3, 5), (Carry_Chain, 0, 5, 1), (Gray_Decode, 0, 2, 2),
                    (Array_Scatter, 3, 1, 1), (Popcount_Loop, 4, 2, 1), (Reverse_Loop, 4, 0, 3), (Divide_Rem, 3, 2, 1)]\<rparr>"

definition case_0254 :: "(nat \<Rightarrow> u32) \<Rightarrow> case_program" where
  "case_0254 junk =
     \<lparr>case_id = 254,
      case_input = [0x8a898c2d, 0x17817356, 0x5e270824, 0x68e9635c, 0x0000007f, 0x06c118a0, 0xc2cda21c, 0x5f2ea46f,
                    0x9eb865d1, 0xdb1a1c6d, 0x9afcd0aa, 0xa566d567, 0x9caeeab5, 0xbde27a88, 0xe8105ca0, 0xbd62175b],
      case_kernel = sort_kernel junk 8,
      reg_inputs = [15, 3, 7, 11], reg5_init = 0xfb0ac58e,
      memory_keys = [0x000000fe, 0x000001fc, 0x000003f8, 0x000007f0, 0x00000fe0, 0x00001fc0, 0x00003f80, 0x00007f00],
      case_stmts = [(Reverse_Loop, 3, 3, 0), (Short_Circuit, 4, 4, 1), (Add_Carry, 1, 0, 0), (Divide_Rem, 2, 1, 3),
                    (Compare_Select, 0, 2, 2), (Array_Scatter, 4, 3, 1), (Compare_Select, 0, 1, 0),
                    (Reverse_Loop, 2, 3, 5), (Rotate_Mix, 2, 5, 0), (Byte_Pack, 2, 5, 5), (Short_Circuit, 0, 2, 0),
                    (Divide_Rem, 5, 3, 1)]\<rparr>"

definition case_0255 :: "(nat \<Rightarrow> u32) \<Rightarrow> case_program" where
  "case_0255 junk =
     \<lparr>case_id = 255,
      case_input = [0xca0bac6c, 0x0b802611, 0xabbfaa22, 0xc8e0167a, 0x9f05d094, 0x00000080, 0x8b363d65, 0x8ddb62a3,
                    0x79ff6e00, 0x9af5aea2, 0x0c7a278d, 0x7d502616, 0x44a8295c, 0x240460ce, 0x35aa4d99, 0x9452e625],
      case_kernel = sort_kernel junk 9,
      reg_inputs = [0, 4, 8, 12], reg5_init = 0x99423f47,
      memory_keys = [0x000000ff, 0x000001fe, 0x000003fc, 0x000007f8, 0x00000ff0, 0x00001fe0, 0x00003fc0, 0x00007f80],
      case_stmts = [(Gray_Decode, 4, 4, 1), (Short_Circuit, 1, 4, 0), (Add_Carry, 5, 2, 4), (Sub_Borrow, 1, 3, 0),
                    (Sub_Borrow, 0, 4, 2), (Multiply_Low, 2, 1, 0), (Minmax_Clamp, 1, 4, 5), (Switch_Phi, 1, 2, 5),
                    (Mask_Merge, 5, 0, 1), (Compare_Select, 5, 3, 5), (Divide_Rem, 4, 4, 1), (Mask_Merge, 2, 3, 0)]\<rparr>"

definition case_0256 :: "(nat \<Rightarrow> u32) \<Rightarrow> case_program" where
  "case_0256 junk =
     \<lparr>case_id = 256,
      case_input = [0xf64c322f, 0xe7e08017, 0x1273672d, 0x5b2a55b6, 0x2e996570, 0x13bbcbad, 0x000000ff, 0xb47072f7,
                    0x798762ea, 0x5646631c, 0x59ec8800, 0xe824a5b3, 0x1c3198ff, 0xeab167be, 0xc4c28d75, 0xec3ec4de],
      case_kernel = sort_kernel junk 10,
      reg_inputs = [1, 5, 9, 13], reg5_init = 0x3779b900,
      memory_keys = [0x00000100, 0x00000200, 0x00000400, 0x00000800, 0x00001000, 0x00002000, 0x00004000, 0x00008000],
      case_stmts = [(Minmax_Clamp, 4, 3, 0), (Short_Circuit, 0, 2, 4), (Add_Carry, 2, 2, 4), (Counted_Loop, 3, 4, 1),
                    (Horner_Loop, 4, 1, 0), (Halfword_Swap, 1, 2, 2), (Add_Carry, 4, 5, 1), (Horner_Loop, 2, 0, 2),
                    (Byte_Pack, 0, 0, 3), (Carry_Chain, 3, 5, 1), (Add_Carry, 4, 0, 4), (Byte_Pack, 3, 0, 4)]\<rparr>"

definition case_0257 :: "(nat \<Rightarrow> u32) \<Rightarrow> case_program" where
  "case_0257 junk =
     \<lparr>case_id = 257,
      case_input = [0xb6ce126e, 0xfbe1d550, 0xe7ebc52b, 0xfb232090, 0x38cce8a5, 0x005880ae, 0x36fa79fc, 0x00000100,
                    0x9ec0693b, 0x17a9d1d3, 0xcf6a7f27, 0x301256c2, 0xc4375b16, 0x73577df8, 0x19789c4c, 0xc50e35a0],
      case_kernel = sort_kernel junk 11,
      reg_inputs = [2, 6, 10, 14], reg5_init = 0xd5b132b9,
      memory_keys = [0x00000101, 0x00000202, 0x00000404, 0x00000808, 0x00001010, 0x00002020, 0x00004040, 0x00008080],
      case_stmts = [(Endian_Swap, 3, 0, 3), (Short_Circuit, 3, 4, 5), (Add_Carry, 0, 0, 0), (Horner_Loop, 0, 4, 0),
                    (Short_Circuit, 0, 5, 4), (Carry_Chain, 5, 0, 5), (Compare_Select, 1, 4, 0),
                    (Compare_Select, 5, 1, 4), (Short_Circuit, 1, 1, 2), (Multiply_Low, 0, 5, 1),
                    (Short_Circuit, 4, 4, 5), (Counted_Loop, 0, 0, 5)]\<rparr>"

definition case_0258 :: "(nat \<Rightarrow> u32) \<Rightarrow> case_program" where
  "case_0258 junk =
     \<lparr>case_id = 258,
      case_input = [0x774872ad, 0xdfe02a98, 0xf1408665, 0xaf3347d0, 0xcf0cd204, 0xc1c5f129, 0xc6e30d06, 0x6c26b7b1,
                    0x7fffffff, 0xd8269e80, 0xc96c1faf, 0x35285ba8, 0x8338df41, 0x3005c0e8, 0x2d099f85, 0xbf434a96],
      case_kernel = sort_kernel junk 12,
      reg_inputs = [3, 7, 11, 15], reg5_init = 0x73e8ac72,
      memory_keys = [0x00000102, 0x00000204, 0x00000408, 0x00000810, 0x00001020, 0x00002040, 0x00004080, 0x00008100],
      case_stmts = [(Carry_Chain, 4, 0, 1), (Short_Circuit, 0, 0, 0), (Add_Carry, 2, 1, 5), (Minmax_Clamp, 1, 4, 5),
                    (Short_Circuit, 4, 0, 2), (Add_Carry, 5, 0, 1), (Rotate_Mix, 3, 0, 1), (Horner_Loop, 1, 2, 3),
                    (Byte_Pack, 4, 3, 1), (Mask_Merge, 2, 4, 3), (Compare_Select, 0, 0, 0), (Compare_Select, 4, 3, 5)]\<rparr>"

definition case_0259 :: "(nat \<Rightarrow> u32) \<Rightarrow> case_program" where
  "case_0259 junk =
     \<lparr>case_id = 259,
      case_input = [0x37ca52ec, 0xc3e17fdf, 0x04d82463, 0x0f3a32f6, 0xd9595fd1, 0xd226ba2a, 0x8f18927f, 0xbed3717d,
                    0x0c93b766, 0x80000000, 0x5feae888, 0xed1ea8d9, 0x5b3e1ca8, 0xa9e3daae, 0xf0b38ebc, 0x9673bbe8],
      case_kernel = sort_kernel junk 13,
      reg_inputs = [4, 8, 12, 0], reg5_init = 0x1220262b,
      memory_keys = [0x00000103, 0x00000206, 0x0000040c, 0x00000818, 0x00001030, 0x00002060, 0x000040c0, 0x00008180],
      case_stmts = [(Horner_Loop, 3, 3, 4), (Short_Circuit, 1, 2, 1), (Add_Carry, 2, 5, 1), (Mask_Merge, 4, 4, 4),
                    (Byte_Pack, 2, 2, 4), (Rotate_Mix, 3, 2, 4), (Divide_Rem, 4, 3, 4), (Counted_Loop, 2, 1, 1),
                    (Minmax_Clamp, 5, 4, 0), (Minmax_Clamp, 3, 2, 1), (Rotate_Mix, 0, 2, 1), (Switch_Phi, 5, 3, 2)]\<rparr>"

definition case_0260 :: "(nat \<Rightarrow> u32) \<Rightarrow> case_program" where
  "case_0260 junk =
     \<lparr>case_id = 260,
      case_input = [0xf444b32a, 0x97e1d509, 0xd414a5bc, 0xb118717b, 0xefb40b99, 0x2e4713e1, 0x31cf64fc, 0xccea45cb,
                    0xb1ee8f72, 0xc9dfba6f, 0xfffffffe, 0xecbd8383, 0x4d662f00, 0x0341dac1, 0x4d8a6130, 0x85adcde2],
      case_kernel = sort_kernel junk 14,
      reg_inputs = [5, 9, 13, 1], reg5_init = 0xb0579fe4,
      memory_keys = [0x00000104, 0x00000208, 0x00000410, 0x00000820, 0x00001040, 0x00002080, 0x00004100, 0x00008200],
      case_stmts = [(Add_Carry, 1, 4, 2), (Popcount_Loop, 1, 1, 3), (Add_Carry, 4, 1, 3), (Switch_Phi, 4, 2, 1),
                    (Sub_Borrow, 3, 2, 3), (Sub_Borrow, 4, 2, 0), (Mask_Merge, 3, 3, 5), (Carry_Chain, 1, 2, 1),
                    (Multiply_Low, 2, 5, 1), (Gray_Decode, 1, 1, 3), (Halfword_Swap, 1, 0, 1), (Switch_Phi, 1, 0, 3)]\<rparr>"

definition case_0261 :: "(nat \<Rightarrow> u32) \<Rightarrow> case_program" where
  "case_0261 junk =
     \<lparr>case_id = 261,
      case_input = [0xb4c6936b, 0x8be0804e, 0x218c07ba, 0x1111045d, 0xf9e1864c, 0x3da458e2, 0x7834fb85, 0x1e1f8307,
                    0x56a984a3, 0x883008a0, 0x430e9eb8, 0xffffffff, 0x9560ece9, 0x9aa7c087, 0x90307009, 0xac9d3c9c],
      case_kernel = sort_kernel junk 15,
      reg_inputs = [6, 10, 14, 2], reg5_init = 0x4e8f199d,
      memory_keys = [0x00000105, 0x0000020a, 0x00000414, 0x00000828, 0x00001050, 0x000020a0, 0x00004140, 0x00008280],
      case_stmts = [(Sub_Borrow, 4, 5, 5), (Popcount_Loop, 4, 5, 2), (Add_Carry, 2, 5, 3), (Carry_Chain, 1, 2, 0),
                    (Counted_Loop, 1, 4, 5), (Horner_Loop, 4, 0, 5), (Multiply_Low, 4, 4, 0), (Byte_Pack, 0, 1, 1),
                    (Short_Circuit, 1, 4, 4), (Compare_Select, 2, 1, 5), (Short_Circuit, 1, 0, 2),
                    (Counted_Loop, 2, 2, 0)]\<rparr>"

definition case_0262 :: "(nat \<Rightarrow> u32) \<Rightarrow> case_program" where
  "case_0262 junk =
     \<lparr>case_id = 262,
      case_input = [0x7540f3a8, 0xafe17f86, 0x372744f4, 0x4501631d, 0x00000000, 0xfc392965, 0x882d8f7f, 0x14bc808d,
                    0x23bd512f, 0x47bf47f3, 0x4508fe30, 0x31b17d98, 0x00000000, 0xd9f57d97, 0xa44173c0, 0xd6d043aa],
      case_kernel = sort_kernel junk 4,
      reg_inputs = [7, 11, 15, 3], reg5_init = 0xecc69356,
      memory_keys = [0x00000106, 0x0000020c, 0x00000418, 0x00000830, 0x00001060, 0x000020c0, 0x00004180, 0x00008300],
      case_stmts = [(Rotate_Mix, 5, 5, 1), (Popcount_Loop, 3, 3, 3), (Add_Carry, 2, 2, 2), (Endian_Swap, 2, 4, 3),
                    (Carry_Chain, 1, 5, 5), (Popcount_Loop, 0, 0, 5), (Switch_Phi, 0, 4, 1), (Compare_Select, 4, 2, 4),
                    (Byte_Pack, 2, 4, 5), (Divide_Rem, 4, 4, 5), (Counted_Loop, 3, 4, 1), (Reverse_Loop, 4, 3, 0)]\<rparr>"

definition case_0263 :: "(nat \<Rightarrow> u32) \<Rightarrow> case_program" where
  "case_0263 junk =
     \<lparr>case_id = 263,
      case_input = [0x35c2d3e9, 0xb3e02ac1, 0xc2bfe6f2, 0xe508163b, 0x18743138, 0xefda6266, 0xc1d61006, 0xc6494641,
                    0xc4fa5afe, 0x0650f53c, 0xd38e0917, 0x00000080, 0x0a69ab57, 0x00000001, 0x79fb62f9, 0xffe0b2d4],
      case_kernel = sort_kernel junk 5,
      reg_inputs = [8, 12, 0, 4], reg5_init = 0x8afe0d0f,
      memory_keys = [0x00000107, 0x0000020e, 0x0000041c, 0x00000838, 0x00001070, 0x000020e0, 0x000041c0, 0x00008380],
      case_stmts = [(Multiply_Low, 4, 4, 4), (Popcount_Loop, 2, 5, 2), (Add_Carry, 2, 2, 2), (Divide_Rem, 1, 0, 4),
                    (Sub_Borrow, 5, 5, 5), (Horner_Loop, 0, 4, 2), (Popcount_Loop, 3, 5, 2), (Horner_Loop, 3, 5, 2),
                    (Divide_Rem, 3, 3, 0), (Endian_Swap, 1, 2, 1), (Rotate_Mix, 1, 4, 4), (Multiply_Low, 3, 3, 5)]\<rparr>"

definition case_0264 :: "(nat \<Rightarrow> u32) \<Rightarrow> case_program" where
  "case_0264 junk =
     \<lparr>case_id = 264,
      case_input = [0xf25d3025, 0x07e22a2b, 0xfffffffe, 0x8f4e1c2c, 0xaec3b8a3, 0x68447b34, 0x7b9a4f33, 0xe14be4b4,
                    0x8d6e5914, 0x5588983c, 0x39be2929, 0x7f5db4e8, 0x5c77f9b8, 0x78c7ceac, 0x00000002, 0xbfd66652],
      case_kernel = sort_kernel junk 6,
      reg_inputs = [9, 13, 1, 5], reg5_init = 0x293586c8,
      memory_keys = [0x00000108, 0x00000210, 0x00000420, 0x00000840, 0x00001080, 0x00002100, 0x00004200, 0x00008400],
      case_stmts = [(Divide_Rem, 4, 2, 1), (Popcount_Loop, 1, 0, 4), (Add_Carry, 0, 3, 0), (Minmax_Clamp, 1, 2, 1),
                    (Byte_Pack, 0, 4, 5), (Multiply_Low, 2, 3, 1), (Rotate_Mix, 2, 1, 0), (Minmax_Clamp, 2, 2, 1),
                    (Reverse_Loop, 2, 1, 1), (Short_Circuit, 4, 3, 1), (Multiply_Low, 2, 5, 4), (Sub_Borrow, 3, 2, 0)]\<rparr>"

definition case_0265 :: "(nat \<Rightarrow> u32) \<Rightarrow> case_program" where
  "case_0265 junk =
     \<lparr>case_id = 265,
      case_input = [0xb2df1064, 0x1be37f6c, 0x6b244008, 0x2f47690a, 0xb8963576, 0x7ba73037, 0x3261d04a, 0x33be2278,
                    0x6a2952c5, 0x00000003, 0xaf38de0e, 0xa76b4799, 0x84713a51, 0xe121d4ea, 0x929ec59a, 0x00000003],
      case_kernel = sort_kernel junk 7,
      reg_inputs = [10, 14, 2, 6], reg5_init = 0xc76d0081,
      memory_keys = [0x00000109, 0x00000212, 0x00000424, 0x00000848, 0x00001090, 0x00002120, 0x00004240, 0x00008480],
      case_stmts = [(Mask_Merge, 3, 5, 0), (Popcount_Loop, 4, 2, 1), (Add_Carry, 0, 3, 4), (Mask_Merge, 2, 4, 0),
                    (Short_Circuit, 4, 4, 5), (Sub_Borrow, 2, 3, 2), (Divide_Rem, 5, 4, 5), (Popcount_Loop, 5, 3, 3),
                    (Endian_Swap, 1, 4, 0), (Mask_Merge, 1, 3, 3), (Switch_Phi, 4, 3, 1), (Add_Carry, 0, 2, 1)]\<rparr>"

definition case_0266 :: "(nat \<Rightarrow> u32) \<Rightarrow> case_program" where
  "case_0266 junk =
     \<lparr>case_id = 266,
      case_input = [0x7fffffff, 0x3fe280a4, 0x7d8f0346, 0x7b570e4a, 0x4f560fd7, 0xba3a41b0, 0xc278a4b0, 0x391d21f2,
                    0x1f3d8749, 0xdbe865a0, 0xa93ebe86, 0xa2514af3, 0xc37ebe06, 0xa27369fa, 0xa6efc653, 0xecabe81a],
      case_kernel = sort_kernel junk 8,
      reg_inputs = [11, 15, 3, 7], reg5_init = 0x65a47a3a,
      memory_keys = [0x0000010a, 0x00000214, 0x00000428, 0x00000850, 0x000010a0, 0x00002140, 0x00004280, 0x00008500],
      case_stmts = [(Compare_Select, 2, 3, 2), (Popcount_Loop, 1, 0, 0), (Add_Carry, 2, 0, 1),
                    (Compare_Select, 1, 0, 1), (Add_Carry, 4, 5, 5), (Multiply_Low, 0, 3, 4), (Halfword_Swap, 1, 2, 2),
                    (Minmax_Clamp, 1, 4, 2), (Carry_Chain, 4, 0, 5), (Multiply_Low, 5, 2, 5), (Popcount_Loop, 0, 1, 0),
                    (Minmax_Clamp, 0, 5, 3)]\<rparr>"

definition case_0267 :: "(nat \<Rightarrow> u32) \<Rightarrow> case_program" where
  "case_0267 junk =
     \<lparr>case_id = 267,
      case_input = [0x33db50e6, 0x00000080, 0x8817a140, 0xdb5e7b6c, 0x59038202, 0xa9d90ab3, 0x8b833bc9, 0x00000001,
                    0xf87a8c98, 0x9a07d76f, 0x3fb849a1, 0x7a67b982, 0x1b787def, 0x3b9573bc, 0x7b55d76a, 0xc59b1964],
      case_kernel = sort_kernel junk 9,
      reg_inputs = [12, 0, 4, 8], reg5_init = 0x03dbf3f3,
      memory_keys = [0x0000010b, 0x00000216, 0x0000042c, 0x00000858, 0x000010b0, 0x00002160, 0x000042c0, 0x00008580],
      case_stmts = [(Byte_Pack, 3, 0, 3), (Popcount_Loop, 4, 0, 1), (Add_Carry, 4, 2, 1), (Gray_Decode, 2, 2, 2),
                    (Multiply_Low, 2, 3, 5), (Popcount_Loop, 0, 3, 3), (Compare_Select, 0, 1, 1), (Mask_Merge, 2, 1, 2),
                    (Popcount_Loop, 3, 5, 2), (Rotate_Mix, 0, 4, 1), (Endian_Swap, 4, 3, 1), (Sub_Borrow, 5, 5, 4)]\<rparr>"

definition case_0268 :: "(nat \<Rightarrow> u32) \<Rightarrow> case_program" where
  "case_0268 junk =
     \<lparr>case_id = 268,
      case_input = [0xf055b120, 0x77e37f35, 0x000000ff, 0x657c38e1, 0x6feed64a, 0x55b8a378, 0x3554cd4a, 0x99d1d388,
                    0x4507b48c, 0xca11414f, 0xb5dac8b6, 0x7bc492d8, 0x0d204e47, 0x913773d3, 0x000000ff, 0xd6456f6e],
      case_kernel = sort_kernel junk 10,
      reg_inputs = [13, 1, 5, 9], reg5_init = 0xa2136dac,
      memory_keys = [0x0000010c, 0x00000218, 0x00000430, 0x00000860, 0x000010c0, 0x00002180, 0x00004300, 0x00008600],
      case_stmts = [(Halfword_Swap, 5, 3, 3), (Popcount_Loop, 2, 1, 3), (Add_Carry, 0, 2, 1), (Endian_Swap, 4, 4, 1),
                    (Sub_Borrow, 5, 3, 0), (Compare_Select, 3, 5, 5), (Gray_Decode, 5, 3, 0), (Endian_Swap, 5, 4, 4),
                    (Carry_Chain, 4, 2, 5), (Array_Scatter, 2, 3, 3), (Gray_Decode, 3, 1, 5), (Endian_Swap, 3, 2, 1)]\<rparr>"

definition case_0269 :: "(nat \<Rightarrow> u32) \<Rightarrow> case_program" where
  "case_0269 junk =
     \<lparr>case_id = 269,
      case_input = [0xb0d79161, 0x6be22a72, 0xad438299, 0x00000100, 0x79bb5b9f, 0xffffffff, 0x7caf5233, 0x4b241544,
                    0xa240bf5d, 0x8bfef380, 0x235c3f91, 0xa3f261a9, 0xd5268dae, 0x08d16995, 0x1bd629df, 0xff759e10],
      case_kernel = sort_kernel junk 11,
      reg_inputs = [14, 2, 6, 10], reg5_init = 0x404ae765,
      memory_keys = [0x0000010d, 0x0000021a, 0x00000434, 0x00000868, 0x000010d0, 0x000021a0, 0x00004340, 0x00008680],
      case_stmts = [(Array_Scatter, 0, 4, 0), (Popcount_Loop, 1, 1, 2), (Add_Carry, 0, 2, 3), (Divide_Rem, 5, 2, 2),
                    (Carry_Chain, 1, 5, 0), (Halfword_Swap, 1, 3, 2), (Sub_Borrow, 0, 0, 3), (Short_Circuit, 2, 5, 4),
                    (Sub_Borrow, 1, 1, 2), (Divide_Rem, 3, 1, 1), (Byte_Pack, 3, 5, 2), (Add_Carry, 4, 4, 2)]\<rparr>"

definition case_0270 :: "(nat \<Rightarrow> u32) \<Rightarrow> case_program" where
  "case_0270 junk =
     \<lparr>case_id = 270,
      case_input = [0x7151f1a2, 0x4fe3d5ba, 0xbbe8c1d7, 0x91652a87, 0x7fffffff, 0x87c699fc, 0x8cb626c9, 0x418716ce,
                    0xd7546ad1, 0x4471bcd3, 0x255a5f19, 0xa6c86cc3, 0x0000007f, 0x4b83d485, 0x2fa72a16, 0x8538e126],
      case_kernel = sort_kernel junk 12,
      reg_inputs = [15, 3, 7, 11], reg5_init = 0xde82611e,
      memory_keys = [0x0000010e, 0x0000021c, 0x00000438, 0x00000870, 0x000010e0, 0x000021c0, 0x00004380, 0x00008700],
      case_stmts = [(Counted_Loop, 5, 2, 4), (Popcount_Loop, 0, 3, 5), (Add_Carry, 4, 1, 0), (Byte_Pack, 4, 0, 3),
                    (Reverse_Loop, 5, 2, 0), (Reverse_Loop, 1, 3, 0), (Sub_Borrow, 0, 2, 2), (Popcount_Loop, 2, 4, 5),
                    (Counted_Loop, 2, 5, 3), (Reverse_Loop, 5, 2, 3), (Popcount_Loop, 3, 5, 1),
                    (Minmax_Clamp, 2, 1, 2)]\<rparr>"

definition case_0271 :: "(nat \<Rightarrow> u32) \<Rightarrow> case_program" where
  "case_0271 junk =
     \<lparr>case_id = 271,
      case_input = [0x31d3d1e3, 0x53e280fd, 0x4e7063d1, 0x80000000, 0x982eeceb, 0x80000000, 0xc54db9b0, 0x9372d002,
                    0x30136100, 0x059e0e1c, 0xb3dca83e, 0x7efe9fb2, 0x4a2fca10, 0xd265cec3, 0xf21d3b2f, 0xac081058],
      case_kernel = sort_kernel junk 13,
      reg_inputs = [0, 4, 8, 12], reg5_init = 0x7cb9dad7,
      memory_keys = [0x0000010f, 0x0000021e, 0x0000043c, 0x00000878, 0x000010f0, 0x000021e0, 0x000043c0, 0x00008780],
      case_stmts = [(Switch_Phi, 0, 3, 5), (Popcount_Loop, 1, 3, 0), (Add_Carry, 2, 5, 4), (Reverse_Loop, 3, 0, 4),
                    (Array_Scatter, 1, 0, 2), (Divide_Rem, 1, 5, 3), (Byte_Pack, 5, 1, 1), (Add_Carry, 5, 1, 1),
                    (Mask_Merge, 5, 0, 2), (Byte_Pack, 0, 0, 3), (Mask_Merge, 3, 5, 4), (Endian_Swap, 1, 5, 1)]\<rparr>"

definition case_0272 :: "(nat \<Rightarrow> u32) \<Rightarrow> case_program" where
  "case_0272 junk =
     \<lparr>case_id = 272,
      case_input = [0xfe6e363b, 0x27e5d46f, 0x09ec6d6b, 0xf1e4c683, 0xb52c7393, 0xd94bffe0, 0xfffffffe, 0xe2c90f42,
                    0x290f734c, 0x2ffb1b8d, 0x00000002, 0x791313c3, 0x3418389a, 0xbbb927ec, 0x88f8c3f7, 0x6e1724b2],
      case_kernel = sort_kernel junk 14,
      reg_inputs = [1, 5, 9, 13], reg5_init = 0x1af15490,
      memory_keys = [0x00000110, 0x00000220, 0x00000440, 0x00000880, 0x00001100, 0x00002200, 0x00004400, 0x00008800],
      case_stmts = [(Short_Circuit, 3, 2, 0), (Popcount_Loop, 5, 4, 0), (Add_Carry, 2, 0, 1), (Rotate_Mix, 4, 5, 5),
                    (Switch_Phi, 4, 2, 4), (Counted_Loop, 4, 4, 2), (Array_Scatter, 4, 3, 3), (Divide_Rem, 5, 0, 2),
                    (Carry_Chain, 2, 1, 1), (Rotate_Mix, 0, 4, 2), (Array_Scatter, 5, 2, 5), (Mask_Merge, 1, 5, 3)]\<rparr>"

definition case_0273 :: "(nat \<Rightarrow> u32) \<Rightarrow> case_program" where
  "case_0273 junk =
     \<lparr>case_id = 273,
      case_input = [0xbeec167a, 0x00000100, 0xfc74cf6d, 0x51edb3a5, 0xa379fe46, 0xcaa8b4e3, 0x64fe9f20, 0xffffffff,
                    0xce48789d, 0x6e14a942, 0x65cc496a, 0xa125e0b2, 0xec1efb73, 0x225f3daa, 0x5542d2ce, 0x4727d5cc],
      case_kernel = sort_kernel junk 15,
      reg_inputs = [2, 6, 10, 14], reg5_init = 0xb928ce49,
      memory_keys = [0x00000111, 0x00000222, 0x00000444, 0x00000888, 0x00001110, 0x00002220, 0x00004440, 0x00008880],
      case_stmts = [(Popcount_Loop, 2, 3, 1), (Popcount_Loop, 2, 2, 3), (Add_Carry, 2, 2, 5), (Gray_Decode, 3, 5, 0),
                    (Add_Carry, 2, 0, 4), (Minmax_Clamp, 0, 2, 3), (Switch_Phi, 3, 4, 0), (Sub_Borrow, 0, 5, 2),
                    (Array_Scatter, 1, 4, 4), (Switch_Phi, 3, 4, 2), (Popcount_Loop, 3, 4, 4),
                    (Halfword_Swap, 4, 5, 4)]\<rparr>"

definition case_0274 :: "(nat \<Rightarrow> u32) \<Rightarrow> case_program" where
  "case_0274 junk =
     \<lparr>case_id = 274,
      case_input = [0x7f6a76b9, 0x1fe57ee0, 0xeadf8c23, 0x05fdd4e5, 0x54b9c4e7, 0x0b35c564, 0x94e7ebda, 0x3a9fca04,
                    0x00000000, 0xa19be611, 0x63ca29e2, 0xa41fedd8, 0xab117f24, 0x610d80ba, 0x6133d107, 0x3d6aaafa],
      case_kernel = sort_kernel junk 4,
      reg_inputs = [3, 7, 11, 15], reg5_init = 0x57604802,
      memory_keys = [0x00000112, 0x00000224, 0x00000448, 0x00000890, 0x00001120, 0x00002240, 0x00004480, 0x00008900],
      case_stmts = [(Reverse_Loop, 5, 1, 3), (Popcount_Loop, 5, 0, 2), (Add_Carry, 2, 3, 2), (Halfword_Swap, 4, 1, 3),
                    (Halfword_Swap, 4, 1, 2), (Counted_Loop, 4, 2, 5), (Gray_Decode, 1, 2, 3), (Add_Carry, 0, 4, 3),
                    (Carry_Chain, 0, 2, 3), (Mask_Merge, 1, 5, 4), (Multiply_Low, 5, 2, 3), (Halfword_Swap, 4, 0, 4)]\<rparr>"

definition case_0275 :: "case_program" where
  "case_0275 =
     \<lparr>case_id = 275,
      case_input = [0x00000000, 0x03e42ba7, 0x1f472e25, 0xa5f4a1c3, 0x42ec4932, 0x18d68e67, 0xdd1c74a3, 0xe86a0cc8,
                    0x5c1ba6c0, 0xe07454de, 0xf54cdec5, 0x7c291ea9, 0x7317bccd, 0xf8eb9afc, 0xbc89c03e, 0x145a5b84],
      case_kernel = search_kernel [0x00000000, 0x03e42ba7, 0x1f472e25, 0xa5f4a1c3] 0x00000000,
      reg_inputs = [4, 8, 12, 0], reg5_init = 0xf597c1bb,
      memory_keys = [0x00000113, 0x00000226, 0x0000044c, 0x00000898, 0x00001130, 0x00002260, 0x000044c0, 0x00008980],
      case_stmts = [(Gray_Decode, 2, 0, 0), (Popcount_Loop, 2, 2, 5), (Add_Carry, 4, 3, 2), (Sub_Borrow, 5, 5, 0),
                    (Horner_Loop, 4, 3, 0), (Halfword_Swap, 4, 0, 4), (Endian_Swap, 0, 5, 0), (Mask_Merge, 5, 1, 3),
                    (Endian_Swap, 3, 1, 4), (Minmax_Clamp, 4, 5, 4), (Switch_Phi, 1, 2, 2), (Popcount_Loop, 3, 2, 3)]\<rparr>"

definition case_0276 :: "case_program" where
  "case_0276 =
     \<lparr>case_id = 276,
      case_input = [0xfc66b73e, 0x00000001, 0xcf8baffa, 0x1bd6e24e, 0x74011d7a, 0xe4b727ac, 0x63cb8220, 0x9a53387e,
                    0xe1669ed4, 0xb062c2fe, 0x7f2e5fd2, 0x7d8a35f3, 0x654f8f65, 0x52499a93, 0x01b02fb2, 0x07842d8e],
      case_kernel = search_kernel [0x00000001, 0x1bd6e24e, 0x74011d7a, 0xcf8baffa, 0xfc66b73e] 0xa221882b,
      reg_inputs = [5, 9, 13, 1], reg5_init = 0x93cf3b74,
      memory_keys = [0x00000114, 0x00000228, 0x00000450, 0x000008a0, 0x00001140, 0x00002280, 0x00004500, 0x00008a00],
      case_stmts = [(Minmax_Clamp, 0, 5, 2), (Popcount_Loop, 4, 3, 3), (Add_Carry, 2, 1, 2), (Gray_Decode, 5, 3, 1),
                    (Sub_Borrow, 1, 3, 3), (Horner_Loop, 5, 0, 2), (Divide_Rem, 3, 5, 1), (Endian_Swap, 0, 4, 1),
                    (Carry_Chain, 2, 2, 5), (Byte_Pack, 2, 0, 2), (Mask_Merge, 4, 0, 2), (Popcount_Loop, 1, 5, 2)]\<rparr>"

definition case_0277 :: "case_program" where
  "case_0277 =
     \<lparr>case_id = 277,
      case_input = [0xbce4977f, 0x4be5d436, 0x00000002, 0xbbdf9768, 0x625490af, 0xf7546caf, 0x2a301d59, 0x48a6feb2,
                    0x06219505, 0xf18d7031, 0xe9a8a8f5, 0xa5bcc682, 0xbd494c8c, 0xcbaf80d5, 0xdc0a3e8b, 0x2eb4dcf0],
      case_kernel = search_kernel [0x00000002, 0x4be5d436, 0x625490af, 0xbbdf9768, 0xbce4977f, 0xf7546caf] 0x625490af,
      reg_inputs = [6, 10, 14, 2], reg5_init = 0x3206b52d,
      memory_keys = [0x00000115, 0x0000022a, 0x00000454, 0x000008a8, 0x00001150, 0x000022a0, 0x00004540, 0x00008a80],
      case_stmts = [(Endian_Swap, 3, 0, 3), (Popcount_Loop, 3, 3, 4), (Add_Carry, 2, 5, 0), (Compare_Select, 2, 3, 0),
                    (Carry_Chain, 1, 1, 5), (Mask_Merge, 1, 0, 1), (Compare_Select, 2, 2, 4), (Divide_Rem, 5, 5, 5),
                    (Endian_Swap, 3, 1, 4), (Counted_Loop, 1, 4, 0), (Endian_Swap, 0, 2, 3), (Short_Circuit, 0, 1, 5)]\<rparr>"

definition case_0278 :: "case_program" where
  "case_0278 =
     \<lparr>case_id = 278,
      case_input = [0x7d62f7bc, 0x6fe42bfe, 0x2cb84eb2, 0x00000003, 0x9594aa0e, 0x36c91d28, 0xda2969a3, 0x4205fd38,
                    0x73354089, 0x3e023f62, 0xefaec87d, 0xa086cbe8, 0xfa46c8db, 0x88fd3dc5, 0xe87b3d42, 0x54f9a3c6],
      case_kernel = search_kernel [0x00000003, 0x2cb84eb2, 0x36c91d28, 0x6fe42bfe, 0x7d62f7bc, 0x9594aa0e,
                     0xda2969a3] 0xf15c0663,
      reg_inputs = [7, 11, 15, 3], reg5_init = 0xd03e2ee6,
      memory_keys = [0x00000116, 0x0000022c, 0x00000458, 0x000008b0, 0x00001160, 0x000022c0, 0x00004580, 0x00008b00],
      case_stmts = [(Carry_Chain, 2, 2, 1), (Popcount_Loop, 4, 5, 3), (Add_Carry, 2, 2, 5), (Sub_Borrow, 3, 5, 5),
                    (Reverse_Loop, 5, 2, 5), (Horner_Loop, 5, 4, 3), (Rotate_Mix, 4, 0, 3), (Popcount_Loop, 5, 2, 4),
                    (Rotate_Mix, 0, 3, 1), (Halfword_Swap, 3, 5, 0), (Multiply_Low, 4, 4, 4), (Add_Carry, 4, 2, 1)]\<rparr>"

definition case_0279 :: "case_program" where
  "case_0279 =
     \<lparr>case_id = 279,
      case_input = [0x3de0d7fd, 0x73e57eb9, 0xd920ecb4, 0x4fc6850e, 0x0000007f, 0x252a562b, 0x93d2f6da, 0x90f03bf4,
                    0x94724b58, 0x7fed8dad, 0x79283f5a, 0x78b03899, 0x22400b32, 0x111b2783, 0x35c12c7b, 0x7dc952b8],
      case_kernel = search_kernel [0x0000007f, 0x252a562b, 0x3de0d7fd, 0x4fc6850e, 0x73e57eb9, 0x90f03bf4, 0x93d2f6da,
                     0xd920ecb4] 0x73e57eb9,
      reg_inputs = [8, 12, 0, 4], reg5_init = 0x6e75a89f,
      memory_keys = [0x00000117, 0x0000022e, 0x0000045c, 0x000008b8, 0x00001170, 0x000022e0, 0x000045c0, 0x00008b80],
      case_stmts = [(Horner_Loop, 3, 1, 4), (Popcount_Loop, 5, 3, 4), (Add_Carry, 2, 4, 5), (Short_Circuit, 0, 5, 0),
                    (Mask_Merge, 1, 0, 5), (Popcount_Loop, 3, 0, 2), (Minmax_Clamp, 1, 1, 4), (Halfword_Swap, 4, 5, 2),
                    (Sub_Borrow, 3, 0, 2), (Endian_Swap, 2, 3, 2), (Gray_Decode, 0, 0, 1), (Array_Scatter, 1, 0, 0)]\<rparr>"

definition case_0280 :: "case_program" where
  "case_0280 =
     \<lparr>case_id = 280,
      case_input = [0xfa7f3431, 0xc7e77e53, 0x8523e848, 0x25808f19, 0x3576ae40, 0x00000080, 0x299ea9ef, 0xb7f29901,
                    0xdde648b2, 0x2c35e0ad, 0x93181f64, 0xee6a0298, 0x745e59dd, 0x29cf8efe, 0x031e9a21, 0x3dff863e],
      case_kernel = search_kernel [0x00000080, 0x25808f19, 0x299ea9ef, 0x3576ae40, 0x8523e848, 0xb7f29901, 0xc7e77e53,
                     0xdde648b2, 0xfa7f3431] 0x985a239b,
      reg_inputs = [9, 13, 1, 5], reg5_init = 0x0cad2258,
      memory_keys = [0x00000118, 0x00000230, 0x00000460, 0x000008c0, 0x00001180, 0x00002300, 0x00004600, 0x00008c00],
      case_stmts = [(Add_Carry, 5, 3, 5), (Reverse_Loop, 4, 4, 0), (Add_Carry, 0, 5, 5), (Halfword_Swap, 2, 5, 3),
                    (Switch_Phi, 4, 1, 3), (Popcount_Loop, 5, 1, 1), (Horner_Loop, 2, 3, 2), (Multiply_Low, 1, 2, 3),
                    (Gray_Decode, 4, 4, 5), (Short_Circuit, 3, 2, 4), (Compare_Select, 3, 3, 1),
                    (Multiply_Low, 5, 1, 5)]\<rparr>"

definition case_0281 :: "case_program" where
  "case_0281 =
     \<lparr>case_id = 281,
      case_input = [0xbafd1470, 0xdbe62b14, 0x70bb4a4e, 0x8589fa3f, 0x23232395, 0xb157047a, 0x000000ff, 0x65075fcd,
                    0x3aa14363, 0x6dda5262, 0x059ee843, 0x365cf1e9, 0xac589a34, 0xb02994b8, 0xdea48b18, 0x14cf7740],
      case_kernel = search_kernel [0x000000ff, 0x23232395, 0x3aa14363, 0x65075fcd, 0x6dda5262, 0x70bb4a4e, 0x8589fa3f,
                     0xb157047a, 0xbafd1470, 0xdbe62b14] 0x8589fa3f,
      reg_inputs = [10, 14, 2, 6], reg5_init = 0xaae49c11,
      memory_keys = [0x00000119, 0x00000232, 0x00000464, 0x000008c8, 0x00001190, 0x00002320, 0x00004640, 0x00008c80],
      case_stmts = [(Sub_Borrow, 2, 0, 2), (Reverse_Loop, 1, 2, 3), (Add_Carry, 0, 1, 5), (Sub_Borrow, 1, 5, 0),
                    (Short_Circuit, 2, 1, 3), (Gray_Decode, 1, 3, 2), (Popcount_Loop, 1, 0, 3), (Rotate_Mix, 4, 1, 3),
                    (Short_Circuit, 1, 5, 4), (Sub_Borrow, 2, 2, 0), (Counted_Loop, 5, 3, 2), (Rotate_Mix, 2, 1, 4)]\<rparr>"

definition case_0282 :: "case_program" where
  "case_0282 =
     \<lparr>case_id = 282,
      case_input = [0x7b7b74b3, 0xffe7d4dc, 0x66100900, 0xd1999d7f, 0xd4e31934, 0x70ca75fd, 0x907c426c, 0x00000100,
                    0x4fb596ef, 0xa2551d31, 0x039888cb, 0x3366fc83, 0xeb571e63, 0xf37b29a8, 0xead588d1, 0x6e820876],
      case_kernel = search_kernel [0x00000100, 0x039888cb, 0x4fb596ef, 0x66100900, 0x70ca75fd, 0x7b7b74b3, 0x907c426c,
                     0xa2551d31, 0xd1999d7f, 0xd4e31934, 0xffe7d4dc] 0xcb27add3,
      reg_inputs = [11, 15, 3, 7], reg5_init = 0x491c15ca,
      memory_keys = [0x0000011a, 0x00000234, 0x00000468, 0x000008d0, 0x000011a0, 0x00002340, 0x00004680, 0x00008d00],
      case_stmts = [(Rotate_Mix, 3, 0, 2), (Reverse_Loop, 0, 4, 2), (Add_Carry, 0, 4, 4), (Carry_Chain, 0, 5, 5),
                    (Add_Carry, 2, 2, 3), (Array_Scatter, 5, 5, 4), (Sub_Borrow, 5, 2, 0), (Gray_Decode, 0, 4, 4),
                    (Gray_Decode, 2, 3, 3), (Byte_Pack, 4, 5, 2), (Divide_Rem, 3, 5, 5), (Reverse_Loop, 0, 2, 2)]\<rparr>"

definition case_0283 :: "case_program" where
  "case_0283 =
     \<lparr>case_id = 283,
      case_input = [0x3bf954f2, 0xe3e6819b, 0x9388ab06, 0x7190e859, 0xc2b694e1, 0x63293efe, 0xd987dd15, 0xbd519a8b,
                    0x7fffffff, 0xe3baaffe, 0x951e7fec, 0xeb500ff2, 0x3351dd8a, 0x6a9d33ee, 0x376f99e8, 0x47b2f908],
      case_kernel = search_kernel [0x3bf954f2, 0x63293efe, 0x7190e859, 0x7fffffff, 0x9388ab06, 0x951e7fec, 0xbd519a8b,
                     0xc2b694e1, 0xd987dd15, 0xe3baaffe, 0xe3e6819b, 0xeb500ff2] 0xd987dd15,
      reg_inputs = [12, 0, 4, 8], reg5_init = 0xe7538f83,
      memory_keys = [0x0000011b, 0x00000236, 0x0000046c, 0x000008d8, 0x000011b0, 0x00002360, 0x000046c0, 0x00008d80],
      case_stmts = [(Multiply_Low, 0, 3, 1), (Reverse_Loop, 5, 4, 5), (Add_Carry, 4, 2, 4), (Switch_Phi, 5, 1, 4),
                    (Horner_Loop, 4, 0, 5), (Multiply_Low, 3, 1, 3), (Switch_Phi, 0, 3, 3), (Rotate_Mix, 5, 5, 4),
                    (Add_Carry, 5, 2, 0), (Rotate_Mix, 1, 5, 0), (Divide_Rem, 1, 3, 2), (Horner_Loop, 1, 0, 5)]\<rparr>"

definition case_0284 :: "case_program" where
  "case_0284 =
     \<lparr>case_id = 284,
      case_input = [0xf877b534, 0xb7e62b4d, 0x43442ad9, 0xcfb2abd4, 0xf45bc0a9, 0x9f489735, 0x67502b96, 0xcf68ae3d,
                    0x158fa52a, 0x80000000, 0x1f7cfefb, 0xeaf324a8, 0x2509ee22, 0xc03f3381, 0x8a567664, 0x546c8f02],
      case_kernel = search_kernel [0x158fa52a, 0x1f7cfefb, 0x2509ee22, 0x43442ad9, 0x67502b96, 0x80000000, 0x9f489735,
                     0xb7e62b4d, 0xcf68ae3d, 0xcfb2abd4, 0xeaf324a8, 0xf45bc0a9, 0xf877b534] 0xf1c92aa7,
      reg_inputs = [13, 1, 5, 9], reg5_init = 0x858b093c,
      memory_keys = [0x0000011c, 0x00000238, 0x00000470, 0x000008e0, 0x000011c0, 0x00002380, 0x00004700, 0x00008e00],
      case_stmts = [(Divide_Rem, 4, 4, 1), (Reverse_Loop, 1, 5, 3), (Add_Carry, 0, 0, 0), (Sub_Borrow, 1, 3, 5),
                    (Mask_Merge, 1, 4, 4), (Minmax_Clamp, 2, 3, 3), (Reverse_Loop, 1, 5, 4), (Reverse_Loop, 0, 0, 0),
                    (Gray_Decode, 4, 1, 1), (Array_Scatter, 5, 0, 2), (Reverse_Loop, 0, 3, 0), (Gray_Decode, 5, 1, 4)]\<rparr>"

definition case_0285 :: "case_program" where
  "case_0285 =
     \<lparr>case_id = 285,
      case_input = [0xb8f59575, 0xabe77e0a, 0xb6dc88df, 0x6fbbdef2, 0xe20e4d7c, 0x8cabdc36, 0x2eabb4ef, 0x1d9d68f1,
                    0xf2c8aefb, 0xf2438b11, 0xfffffffe, 0x32c5d7d9, 0xfd0f2dcb, 0x59d929c7, 0x57ec675d, 0x7d5c7e7c],
      case_kernel = search_kernel [0x1d9d68f1, 0x2eabb4ef, 0x32c5d7d9, 0x59d929c7, 0x6fbbdef2, 0x8cabdc36, 0xabe77e0a,
                     0xb6dc88df, 0xb8f59575, 0xe20e4d7c, 0xf2438b11, 0xf2c8aefb, 0xfd0f2dcb, 0xfffffffe] 0xf2438b11,
      reg_inputs = [14, 2, 6, 10], reg5_init = 0x23c282f5,
      memory_keys = [0x0000011d, 0x0000023a, 0x00000474, 0x000008e8, 0x000011d0, 0x000023a0, 0x00004740, 0x00008e80],
      case_stmts = [(Mask_Merge, 3, 1, 0), (Reverse_Loop, 2, 5, 0), (Add_Carry, 2, 0, 4), (Short_Circuit, 4, 5, 0),
                    (Counted_Loop, 3, 0, 4), (Reverse_Loop, 4, 1, 2), (Minmax_Clamp, 2, 0, 5), (Multiply_Low, 5, 1, 0),
                    (Halfword_Swap, 5, 0, 0), (Divide_Rem, 0, 4, 2), (Carry_Chain, 4, 1, 1), (Carry_Chain, 2, 5, 3)]\<rparr>"

definition case_0286 :: "case_program" where
  "case_0286 =
     \<lparr>case_id = 286,
      case_input = [0x7973f5b6, 0x8fe681c2, 0xa077cb91, 0x3babb9b2, 0x15ce77dd, 0x4d36adb1, 0xdeb2c015, 0x173e6b7b,
                    0x87dc7b77, 0x3dccc442, 0x8ffc6954, 0xffffffff, 0xba00a99c, 0x1a8b94d7, 0x639d6494, 0x0711014a],
      case_kernel = search_kernel [0x15ce77dd, 0x173e6b7b, 0x1a8b94d7, 0x3babb9b2, 0x3dccc442, 0x4d36adb1, 0x639d6494,
                     0x7973f5b6, 0x87dc7b77, 0x8fe681c2, 0x8ffc6954, 0xa077cb91, 0xba00a99c, 0xdeb2c015,
                     0xffffffff] 0xa2b4a4ef,
      reg_inputs = [15, 3, 7, 11], reg5_init = 0xc1f9fcae,
      memory_keys = [0x0000011e, 0x0000023c, 0x00000478, 0x000008f0, 0x000011e0, 0x000023c0, 0x00004780, 0x00008f00],
      case_stmts = [(Compare_Select, 2, 5, 4), (Reverse_Loop, 1, 3, 3), (Add_Carry, 2, 5, 1), (Switch_Phi, 1, 5, 5),
                    (Rotate_Mix, 1, 3, 0), (Divide_Rem, 2, 1, 0), (Add_Carry, 4, 0, 4), (Carry_Chain, 5, 0, 1),
                    (Gray_Decode, 2, 2, 3), (Carry_Chain, 0, 3, 0), (Halfword_Swap, 0, 3, 4), (Counted_Loop, 0, 0, 5)]\<rparr>"

definition case_0287 :: "case_program" where
  "case_0287 =
     \<lparr>case_id = 287,
      case_input = [0x39f1d5f7, 0x93e7d485, 0x55ef6997, 0x9ba2cc94, 0x00000000, 0x5ed5e6b2, 0x97495f6c, 0xc5cbadb7,
                    0x609b70a6, 0x7c23768d, 0x197a9e73, 0xefc929c2, 0x00000000, 0x836d8e91, 0xbe2775ad, 0x2e21f034],
      case_kernel = search_kernel [0x39f1d5f7, 0x55ef6997, 0x93e7d485, 0x9ba2cc94] 0x39f1d5f7,
      reg_inputs = [0, 4, 8, 12], reg5_init = 0x60317667,
      memory_keys = [0x0000011f, 0x0000023e, 0x0000047c, 0x000008f8, 0x000011f0, 0x000023e0, 0x000047c0, 0x00008f80],
      case_stmts = [(Byte_Pack, 1, 0, 3), (Reverse_Loop, 4, 1, 2), (Add_Carry, 0, 3, 5), (Rotate_Mix, 0, 5, 2),
                    (Mask_Merge, 3, 1, 0), (Counted_Loop, 4, 3, 1), (Reverse_Loop, 1, 3, 5), (Gray_Decode, 4, 5, 1),
                    (Halfword_Swap, 5, 5, 2), (Switch_Phi, 5, 3, 0), (Divide_Rem, 4, 5, 3), (Switch_Phi, 1, 2, 4)]\<rparr>"

definition case_0288 :: "case_program" where
  "case_0288 =
     \<lparr>case_id = 288,
      case_input = [0xe6083a07, 0x67ea28e6, 0x274d73a0, 0x0cb373dc, 0x8af340b6, 0x055dab27, 0xf908ca79, 0x464e75b6,
                    0x126b0371, 0xc78334e1, 0x10090c87, 0x00000080, 0xeb5d6a8b, 0x00000001, 0xc8ddda71, 0xf119370f],
      case_kernel = search_kernel [0x0cb373dc, 0x274d73a0, 0x67ea28e6, 0x8af340b6, 0xe6083a07] 0x54bc92aa,
      reg_inputs = [1, 5, 9, 13], reg5_init = 0xfe68f020,
      memory_keys = [0x00000120, 0x00000240, 0x00000480, 0x00000900, 0x00001200, 0x00002400, 0x00004800, 0x00009000],
      case_stmts = [(Halfword_Swap, 1, 4, 4), (Reverse_Loop, 4, 5, 4), (Add_Carry, 1, 0, 1), (Rotate_Mix, 3, 5, 0),
                    (Carry_Chain, 1, 1, 4), (Sub_Borrow, 0, 1, 1), (Reverse_Loop, 5, 5, 5), (Popcount_Loop, 4, 5, 0),
                    (Endian_Swap, 4, 1, 1), (Counted_Loop, 4, 5, 5), (Array_Scatter, 0, 0, 4), (Minmax_Clamp, 1, 4, 0)]\<rparr>"

definition case_0289 :: "case_program" where
  "case_0289 =
     \<lparr>case_id = 289,
      case_input = [0xa68a1a46, 0x7beb7da1, 0xfffffffe, 0xacba06fa, 0x9ca6cd63, 0x16bee024, 0xb0f35500, 0x94bbb37a,
                    0xf52c08a0, 0x866c862e, 0x868ffba0, 0x8cc17c06, 0x335ba962, 0xe5b94a9d, 0x00000002, 0xd829c671],
      case_kernel = search_kernel [0x16bee024, 0x7beb7da1, 0x9ca6cd63, 0xa68a1a46, 0xacba06fa, 0xfffffffe] 0x9ca6cd63,
      reg_inputs = [2, 6, 10, 14], reg5_init = 0x9ca069d9,
      memory_keys = [0x00000121, 0x00000242, 0x00000484, 0x00000908, 0x00001210, 0x00002420, 0x00004840, 0x00009080],
      case_stmts = [(Array_Scatter, 0, 3, 1), (Reverse_Loop, 1, 1, 1), (Add_Carry, 5, 4, 3), (Switch_Phi, 0, 1, 5),
                    (Mask_Merge, 3, 1, 2), (Switch_Phi, 4, 3, 0), (Divide_Rem, 2, 0, 0), (Halfword_Swap, 1, 0, 2),
                    (Compare_Select, 5, 2, 4), (Switch_Phi, 5, 5, 5), (Popcount_Loop, 4, 0, 5), (Endian_Swap, 4, 2, 1)]\<rparr>"

definition case_0290 :: "case_program" where
  "case_0290 =
     \<lparr>case_id = 290,
      case_input = [0x670c7a85, 0x5fea8269, 0xc47e92e8, 0xf8aa61ba, 0x6b66f7c2, 0xd72391a3, 0x40ea21fa, 0x9e18b0f0,
                    0x8038dd2c, 0x00000003, 0x80899b28, 0x89fb716c, 0x74542d35, 0xa6ebf78d, 0x2116c881, 0x00000003],
      case_kernel = search_kernel [0x40ea21fa, 0x5fea8269, 0x670c7a85, 0x6b66f7c2, 0xc47e92e8, 0xd72391a3,
                     0xf8aa61ba] 0xa5a5a5a6,
      reg_inputs = [3, 7, 11, 15], reg5_init = 0x3ad7e392,
      memory_keys = [0x00000122, 0x00000244, 0x00000488, 0x00000910, 0x00001220, 0x00002440, 0x00004880, 0x00009100],
      case_stmts = [(Counted_Loop, 3, 3, 5), (Reverse_Loop, 2, 1, 4), (Add_Carry, 3, 3, 0), (Add_Carry, 3, 1, 4),
                    (Sub_Borrow, 3, 4, 2), (Mask_Merge, 0, 5, 0), (Divide_Rem, 2, 0, 1), (Array_Scatter, 3, 3, 5),
                    (Endian_Swap, 2, 0, 5), (Endian_Swap, 3, 4, 5), (Multiply_Low, 0, 4, 2), (Array_Scatter, 2, 3, 5)]\<rparr>"

definition case_0291 :: "case_program" where
  "case_0291 =
     \<lparr>case_id = 291,
      case_input = [0x7fffffff, 0x43ebd72e, 0x31e630ee, 0x58a3149c, 0x7d337a17, 0xc4c0daa0, 0x0911be83, 0x4ced763c,
                    0x677fd6fd, 0x080c7bb2, 0x160f6c0f, 0x51cd821d, 0xac52eedc, 0x3f0dedcb, 0xfcacd9b8, 0x8b544839],
      case_kernel = search_kernel [0x0911be83, 0x31e630ee, 0x43ebd72e, 0x4ced763c, 0x58a3149c, 0x7d337a17, 0x7fffffff,
                     0xc4c0daa0] 0x0911be83,
      reg_inputs = [4, 8, 12, 0], reg5_init = 0xd90f5d4b,
      memory_keys = [0x00000123, 0x00000246, 0x0000048c, 0x00000918, 0x00001230, 0x00002460, 0x000048c0, 0x00009180],
      case_stmts = [(Switch_Phi, 0, 2, 2), (Reverse_Loop, 3, 1, 1), (Add_Carry, 3, 1, 2), (Array_Scatter, 4, 1, 5),
                    (Compare_Select, 1, 4, 4), (Gray_Decode, 0, 5, 5), (Reverse_Loop, 5, 5, 0),
                    (Halfword_Swap, 0, 2, 1), (Carry_Chain, 3, 1, 0), (Minmax_Clamp, 4, 4, 1), (Horner_Loop, 0, 2, 1),
                    (Minmax_Clamp, 3, 1, 0)]\<rparr>"

definition case_0292 :: "case_program" where
  "case_0292 =
     \<lparr>case_id = 292,
      case_input = [0xe400bb02, 0x00000080, 0xe12ab131, 0xe6815711, 0x4bde2e5f, 0x38a1736b, 0xb7c64800, 0x00000001,
                    0xda02eee9, 0x581aed92, 0x9c6ded18, 0x506ea947, 0xba0add74, 0x95afeda4, 0x41953634, 0x988a3e33],
      case_kernel = search_kernel [0x00000001, 0x00000080, 0x38a1736b, 0x4bde2e5f, 0xb7c64800, 0xda02eee9, 0xe12ab131,
                     0xe400bb02, 0xe6815711] 0x3d2f9b96,
      reg_inputs = [5, 9, 13, 1], reg5_init = 0x7746d704,
      memory_keys = [0x00000124, 0x00000248, 0x00000490, 0x00000920, 0x00001240, 0x00002480, 0x00004900, 0x00009200],
      case_stmts = [(Short_Circuit, 2, 5, 2), (Reverse_Loop, 1, 0, 5), (Add_Carry, 3, 5, 0), (Multiply_Low, 2, 1, 0),
                    (Short_Circuit, 0, 4, 3), (Add_Carry, 3, 3, 3), (Gray_Decode, 2, 1, 3), (Halfword_Swap, 3, 3, 3),
                    (Mask_Merge, 4, 2, 5), (Switch_Phi, 2, 3, 3), (Popcount_Loop, 1, 2, 3), (Divide_Rem, 3, 4, 5)]\<rparr>"

definition case_0293 :: "case_program" where
  "case_0293 =
     \<lparr>case_id = 293,
      case_input = [0xa4829b43, 0x0bea28bf, 0x000000ff, 0x46882237, 0x5d8ba38a, 0x2b423868, 0xfe3dd779, 0xec218446,
                    0x3d45e538, 0x19f55f5d, 0x0aeb1a3f, 0x88585a36, 0x620c1e9d, 0x0c49f7e2, 0x000000ff, 0xb1bacf4d],
      case_kernel = search_kernel [0x000000ff, 0x0bea28bf, 0x19f55f5d, 0x2b423868, 0x3d45e538, 0x46882237, 0x5d8ba38a,
                     0xa4829b43, 0xec218446, 0xfe3dd779] 0xec218446,
      reg_inputs = [6, 10, 14, 2], reg5_init = 0x157e50bd,
      memory_keys = [0x00000125, 0x0000024a, 0x00000494, 0x00000928, 0x00001250, 0x000024a0, 0x00004940, 0x00009280],
      case_stmts = [(Popcount_Loop, 1, 2, 5), (Reverse_Loop, 2, 4, 0), (Add_Carry, 1, 5, 0), (Counted_Loop, 3, 5, 1),
                    (Gray_Decode, 0, 2, 5), (Reverse_Loop, 3, 5, 2), (Mask_Merge, 5, 0, 4), (Endian_Swap, 0, 2, 1),
                    (Rotate_Mix, 1, 1, 4), (Reverse_Loop, 1, 1, 1), (Sub_Borrow, 1, 4, 0), (Sub_Borrow, 0, 4, 2)]\<rparr>"

definition case_0294 :: "case_program" where
  "case_0294 =
     \<lparr>case_id = 294,
      case_input = [0x6504fb80, 0x2febd777, 0x02195079, 0x00000100, 0xaa4b992b, 0xffffffff, 0x0e24a383, 0xe68287cc,
                    0x485130b4, 0xd67a100e, 0x0ced7ab7, 0x8d62575c, 0x25039aca, 0x4f1b4af2, 0xa85e24c4, 0xcbf7b07b],
      case_kernel = search_kernel [0x00000100, 0x02195079, 0x0ced7ab7, 0x0e24a383, 0x2febd777, 0x485130b4, 0x6504fb80,
                     0xaa4b992b, 0xd67a100e, 0xe68287cc, 0xffffffff] 0x6e5215de,
      reg_inputs = [7, 11, 15, 3], reg5_init = 0xb3b5ca76,
      memory_keys = [0x00000126, 0x0000024c, 0x00000498, 0x00000930, 0x00001260, 0x000024c0, 0x00004980, 0x00009300],
      case_stmts = [(Reverse_Loop, 0, 2, 3), (Reverse_Loop, 5, 4, 3), (Add_Carry, 5, 0, 1), (Sub_Borrow, 2, 5, 0),
                    (Horner_Loop, 0, 3, 1), (Divide_Rem, 1, 3, 2), (Popcount_Loop, 1, 4, 3), (Halfword_Swap, 0, 3, 4),
                    (Endian_Swap, 2, 1, 5), (Add_Carry, 5, 2, 5), (Horner_Loop, 5, 4, 5), (Array_Scatter, 0, 3, 2)]\<rparr>"

definition case_0295 :: "case_program" where
  "case_0295 =
     \<lparr>case_id = 295,
      case_input = [0x2586dbc1, 0x33ea8230, 0xf781f27f, 0xb2913051, 0x7fffffff, 0xf93c02ec, 0x47df3cfa, 0x34774100,
                    0xaf163b65, 0x9795a2c1, 0x9a6b8d90, 0x5554a42d, 0x0000007f, 0xd6fd50b4, 0x75e435fd, 0xe2c74105],
      case_kernel = search_kernel [0x2586dbc1, 0x33ea8230, 0x34774100, 0x47df3cfa, 0x5554a42d, 0x7fffffff, 0x9795a2c1,
                     0x9a6b8d90, 0xaf163b65, 0xb2913051, 0xf781f27f, 0xf93c02ec] 0xaf163b65,
      reg_inputs = [8, 12, 0, 4], reg5_init = 0x51ed442f,
      memory_keys = [0x00000127, 0x0000024e, 0x0000049c, 0x00000938, 0x00001270, 0x000024e0, 0x000049c0, 0x00009380],
      case_stmts = [(Gray_Decode, 3, 1, 4), (Reverse_Loop, 0, 0, 4), (Add_Carry, 3, 0, 1), (Halfword_Swap, 3, 3, 1),
                    (Short_Circuit, 0, 3, 1), (Reverse_Loop, 3, 5, 5), (Switch_Phi, 2, 5, 0), (Sub_Borrow, 1, 0, 2),
                    (Compare_Select, 1, 0, 0), (Endian_Swap, 2, 0, 3), (Multiply_Low, 1, 0, 4), (Add_Carry, 3, 1, 1)]\<rparr>"

definition case_0296 :: "case_program" where
  "case_0296 =
     \<lparr>case_id = 296,
      case_input = [0xe219380d, 0x87e882da, 0xab82f683, 0x80000000, 0x0aa99d65, 0x80000000, 0xfd9363cf, 0x1375e3f5,
                    0xe682388f, 0xc44dcfc1, 0x705badae, 0xc38e9e2c, 0xab1b0bcc, 0xee29f9c9, 0x433b83a7, 0xa2f19583],
      case_kernel = search_kernel [0x0aa99d65, 0x1375e3f5, 0x705badae, 0x80000000, 0x80000000, 0x87e882da, 0xab1b0bcc,
                     0xab82f683, 0xc38e9e2c, 0xc44dcfc1, 0xe219380d, 0xe682388f, 0xfd9363cf] 0x07543026,
      reg_inputs = [9, 13, 1, 5], reg5_init = 0xf024bde8,
      memory_keys = [0x00000128, 0x00000250, 0x000004a0, 0x00000940, 0x00001280, 0x00002500, 0x00004a00, 0x00009400],
      case_stmts = [(Minmax_Clamp, 3, 5, 1), (Reverse_Loop, 1, 1, 2), (Add_Carry, 5, 3, 5), (Divide_Rem, 1, 1, 0),
                    (Compare_Select, 3, 0, 1), (Counted_Loop, 1, 2, 4), (Short_Circuit, 5, 1, 0),
                    (Carry_Chain, 0, 5, 1), (Divide_Rem, 4, 4, 1), (Halfword_Swap, 1, 3, 1), (Compare_Select, 0, 3, 2),
                    (Rotate_Mix, 3, 4, 4)]\<rparr>"

definition case_0297 :: "case_program" where
  "case_0297 =
     \<lparr>case_id = 297,
      case_input = [0xa29b184c, 0x9be9d79d, 0x5e1a5485, 0x78de4f60, 0x1cfc10b0, 0x6d4150bd, 0xfffffffe, 0xc1802539,
                    0x01c5335e, 0x85a27d0e, 0x00000002, 0x1bb86d5d, 0x731dc825, 0x77cfe38f, 0x9e81929e, 0x8bc164fd],
      case_kernel = search_kernel [0x00000002, 0x01c5335e, 0x1bb86d5d, 0x1cfc10b0, 0x5e1a5485, 0x6d4150bd, 0x731dc825,
                     0x77cfe38f, 0x78de4f60, 0x85a27d0e, 0x9be9d79d, 0xa29b184c, 0xc1802539, 0xfffffffe] 0x78de4f60,
      reg_inputs = [10, 14, 2, 6], reg5_init = 0x8e5c37a1,
      memory_keys = [0x00000129, 0x00000252, 0x000004a4, 0x00000948, 0x00001290, 0x00002520, 0x00004a40, 0x00009480],
      case_stmts = [(Endian_Swap, 2, 2, 4), (Reverse_Loop, 4, 3, 1), (Add_Carry, 5, 3, 3), (Popcount_Loop, 0, 5, 3),
                    (Mask_Merge, 5, 2, 3), (Short_Circuit, 5, 4, 5), (Compare_Select, 2, 4, 3), (Byte_Pack, 3, 0, 5),
                    (Byte_Pack, 1, 5, 4), (Array_Scatter, 4, 3, 5), (Counted_Loop, 4, 3, 5), (Byte_Pack, 4, 0, 5)]\<rparr>"

definition case_0298 :: "case_program" where
  "case_0298 =
     \<lparr>case_id = 298,
      case_input = [0x631d788f, 0x00000100, 0x48b117cb, 0x2cce2820, 0xeb3c2a11, 0xacdc213a, 0x4471884c, 0xffffffff,
                    0x74d1e6d2, 0x4a2d325d, 0xe0db3a01, 0x1e826037, 0x34124c72, 0x349d5e9f, 0xaaf09157, 0xf18c1bcb],
      case_kernel = search_kernel [0x00000100, 0x1e826037, 0x2cce2820, 0x34124c72, 0x349d5e9f, 0x4471884c, 0x48b117cb,
                     0x4a2d325d, 0x631d788f, 0x74d1e6d2, 0xaaf09157, 0xacdc213a, 0xe0db3a01, 0xeb3c2a11,
                     0xffffffff] 0x5429be6e,
      reg_inputs = [11, 15, 3, 7], reg5_init = 0x2c93b15a,
      memory_keys = [0x0000012a, 0x00000254, 0x000004a8, 0x00000950, 0x000012a0, 0x00002540, 0x00004a80, 0x00009500],
      case_stmts = [(Carry_Chain, 3, 0, 0), (Reverse_Loop, 5, 3, 0), (Add_Carry, 1, 4, 2), (Compare_Select, 5, 1, 2),
                    (Sub_Borrow, 1, 3, 5), (Reverse_Loop, 5, 2, 5), (Compare_Select, 4, 0, 4), (Carry_Chain, 3, 1, 0),
                    (Halfword_Swap, 2, 3, 1), (Switch_Phi, 2, 0, 3), (Add_Carry, 4, 1, 4), (Multiply_Low, 0, 5, 3)]\<rparr>"

definition case_0299 :: "case_program" where
  "case_0299 =
     \<lparr>case_id = 299,
      case_input = [0x239f58ce, 0xa3e97d12, 0xbd29b5cd, 0x8cc75d06, 0xfd69a7c4, 0xbf3f6a39, 0x0d8a1735, 0x19d6e07f,
                    0x00000000, 0x0bc28092, 0x765dcd26, 0xc6b49346, 0xec148f9b, 0xad7b44d9, 0x774a806e, 0xd8bceab5],
      case_kernel = search_kernel [0x239f58ce, 0x8cc75d06, 0xa3e97d12, 0xbd29b5cd] 0x239f58ce,
      reg_inputs = [12, 0, 4, 8], reg5_init = 0xcacb2b13,
      memory_keys = [0x0000012b, 0x00000256, 0x000004ac, 0x00000958, 0x000012b0, 0x00002560, 0x00004ac0, 0x00009580],
      case_stmts = [(Horner_Loop, 4, 1, 5), (Reverse_Loop, 0, 1, 1), (Add_Carry, 5, 4, 4), (Gray_Decode, 2, 1, 5),
                    (Reverse_Loop, 5, 3, 1), (Minmax_Clamp, 5, 2, 2), (Divide_Rem, 5, 3, 5), (Byte_Pack, 2, 0, 4),
                    (Gray_Decode, 3, 4, 0), (Compare_Select, 3, 4, 1), (Add_Carry, 0, 5, 5), (Carry_Chain, 3, 1, 4)]\<rparr>"

lemma conforms_0200: "conforms case_0200 (\<lambda>input. input ! 0)"
  by (rule conformsI) (simp_all add: case_0200_def upt_rec stmt_ok_def gray_predicted)

lemma conforms_0201: "conforms case_0201 (\<lambda>input. input ! 1)"
  by (rule conformsI) (simp_all add: case_0201_def upt_rec stmt_ok_def gray_predicted)

lemma conforms_0202: "conforms case_0202 (\<lambda>input. input ! 2)"
  by (rule conformsI) (simp_all add: case_0202_def upt_rec stmt_ok_def gray_predicted)

lemma conforms_0203: "conforms case_0203 (\<lambda>input. input ! 3)"
  by (rule conformsI) (simp_all add: case_0203_def upt_rec stmt_ok_def gray_predicted)

lemma conforms_0204: "conforms case_0204 (\<lambda>input. input ! 4)"
  by (rule conformsI) (simp_all add: case_0204_def upt_rec stmt_ok_def gray_predicted)

lemma conforms_0205: "conforms case_0205 (\<lambda>input. input ! 5)"
  by (rule conformsI) (simp_all add: case_0205_def upt_rec stmt_ok_def gray_predicted)

lemma conforms_0206: "conforms case_0206 (\<lambda>input. input ! 6)"
  by (rule conformsI) (simp_all add: case_0206_def upt_rec stmt_ok_def gray_predicted)

lemma conforms_0207: "conforms case_0207 (\<lambda>input. input ! 7)"
  by (rule conformsI) (simp_all add: case_0207_def upt_rec stmt_ok_def gray_predicted)

lemma conforms_0208: "conforms case_0208 (\<lambda>input. input ! 8)"
  by (rule conformsI) (simp_all add: case_0208_def upt_rec stmt_ok_def gray_predicted)

lemma conforms_0209: "conforms case_0209 (\<lambda>input. input ! 9)"
  by (rule conformsI) (simp_all add: case_0209_def upt_rec stmt_ok_def gray_predicted)

lemma conforms_0210: "conforms case_0210 (\<lambda>input. input ! 10)"
  by (rule conformsI) (simp_all add: case_0210_def upt_rec stmt_ok_def gray_predicted)

lemma conforms_0211: "conforms case_0211 (\<lambda>input. input ! 11)"
  by (rule conformsI) (simp_all add: case_0211_def upt_rec stmt_ok_def gray_predicted)

lemma conforms_0212: "conforms case_0212 (\<lambda>input. input ! 12)"
  by (rule conformsI) (simp_all add: case_0212_def upt_rec stmt_ok_def gray_predicted)

lemma conforms_0213: "conforms case_0213 (\<lambda>input. input ! 13)"
  by (rule conformsI) (simp_all add: case_0213_def upt_rec stmt_ok_def gray_predicted)

lemma conforms_0214: "conforms case_0214 (\<lambda>input. input ! 14)"
  by (rule conformsI) (simp_all add: case_0214_def upt_rec stmt_ok_def gray_predicted)

lemma conforms_0215: "conforms case_0215 (\<lambda>input. input ! 15)"
  by (rule conformsI) (simp_all add: case_0215_def upt_rec stmt_ok_def gray_predicted)

lemma conforms_0216: "conforms case_0216 (\<lambda>input. input ! 0)"
  by (rule conformsI) (simp_all add: case_0216_def upt_rec stmt_ok_def gray_predicted)

lemma conforms_0217: "conforms case_0217 (\<lambda>input. input ! 1)"
  by (rule conformsI) (simp_all add: case_0217_def upt_rec stmt_ok_def gray_predicted)

lemma conforms_0218: "conforms case_0218 (\<lambda>input. input ! 2)"
  by (rule conformsI) (simp_all add: case_0218_def upt_rec stmt_ok_def gray_predicted)

lemma conforms_0219: "conforms case_0219 (\<lambda>input. input ! 3)"
  by (rule conformsI) (simp_all add: case_0219_def upt_rec stmt_ok_def gray_predicted)

lemma conforms_0220: "conforms case_0220 (\<lambda>input. input ! 4)"
  by (rule conformsI) (simp_all add: case_0220_def upt_rec stmt_ok_def gray_predicted)

lemma conforms_0221: "conforms case_0221 (\<lambda>input. input ! 5)"
  by (rule conformsI) (simp_all add: case_0221_def upt_rec stmt_ok_def gray_predicted)

lemma conforms_0222: "conforms case_0222 (\<lambda>input. input ! 6)"
  by (rule conformsI) (simp_all add: case_0222_def upt_rec stmt_ok_def gray_predicted)

lemma conforms_0223: "conforms case_0223 (\<lambda>input. input ! 7)"
  by (rule conformsI) (simp_all add: case_0223_def upt_rec stmt_ok_def gray_predicted)

lemma conforms_0224: "conforms case_0224 (\<lambda>input. input ! 8)"
  by (rule conformsI) (simp_all add: case_0224_def upt_rec stmt_ok_def gray_predicted)

lemma conforms_0225: "conforms case_0225 (field_pack_prediction)"
  by (rule conformsI) (simp_all add: case_0225_def upt_rec stmt_ok_def field_pack_predicted)

lemma conforms_0226: "conforms case_0226 (field_pack_prediction)"
  by (rule conformsI) (simp_all add: case_0226_def upt_rec stmt_ok_def field_pack_predicted)

lemma conforms_0227: "conforms case_0227 (field_pack_prediction)"
  by (rule conformsI) (simp_all add: case_0227_def upt_rec stmt_ok_def field_pack_predicted)

lemma conforms_0228: "conforms case_0228 (field_pack_prediction)"
  by (rule conformsI) (simp_all add: case_0228_def upt_rec stmt_ok_def field_pack_predicted)

lemma conforms_0229: "conforms case_0229 (field_pack_prediction)"
  by (rule conformsI) (simp_all add: case_0229_def upt_rec stmt_ok_def field_pack_predicted)

lemma conforms_0230: "conforms case_0230 (field_pack_prediction)"
  by (rule conformsI) (simp_all add: case_0230_def upt_rec stmt_ok_def field_pack_predicted)

lemma conforms_0231: "conforms case_0231 (field_pack_prediction)"
  by (rule conformsI) (simp_all add: case_0231_def upt_rec stmt_ok_def field_pack_predicted)

lemma conforms_0232: "conforms case_0232 (field_pack_prediction)"
  by (rule conformsI) (simp_all add: case_0232_def upt_rec stmt_ok_def field_pack_predicted)

lemma conforms_0233: "conforms case_0233 (field_pack_prediction)"
  by (rule conformsI) (simp_all add: case_0233_def upt_rec stmt_ok_def field_pack_predicted)

lemma conforms_0234: "conforms case_0234 (field_pack_prediction)"
  by (rule conformsI) (simp_all add: case_0234_def upt_rec stmt_ok_def field_pack_predicted)

lemma conforms_0235: "conforms case_0235 (field_pack_prediction)"
  by (rule conformsI) (simp_all add: case_0235_def upt_rec stmt_ok_def field_pack_predicted)

lemma conforms_0236: "conforms case_0236 (field_pack_prediction)"
  by (rule conformsI) (simp_all add: case_0236_def upt_rec stmt_ok_def field_pack_predicted)

lemma conforms_0237: "conforms case_0237 (field_pack_prediction)"
  by (rule conformsI) (simp_all add: case_0237_def upt_rec stmt_ok_def field_pack_predicted)

lemma conforms_0238: "conforms case_0238 (field_pack_prediction)"
  by (rule conformsI) (simp_all add: case_0238_def upt_rec stmt_ok_def field_pack_predicted)

lemma conforms_0239: "conforms case_0239 (field_pack_prediction)"
  by (rule conformsI) (simp_all add: case_0239_def upt_rec stmt_ok_def field_pack_predicted)

lemma conforms_0240: "conforms case_0240 (field_pack_prediction)"
  by (rule conformsI) (simp_all add: case_0240_def upt_rec stmt_ok_def field_pack_predicted)

lemma conforms_0241: "conforms case_0241 (field_pack_prediction)"
  by (rule conformsI) (simp_all add: case_0241_def upt_rec stmt_ok_def field_pack_predicted)

lemma conforms_0242: "conforms case_0242 (field_pack_prediction)"
  by (rule conformsI) (simp_all add: case_0242_def upt_rec stmt_ok_def field_pack_predicted)

lemma conforms_0243: "conforms case_0243 (field_pack_prediction)"
  by (rule conformsI) (simp_all add: case_0243_def upt_rec stmt_ok_def field_pack_predicted)

lemma conforms_0244: "conforms case_0244 (field_pack_prediction)"
  by (rule conformsI) (simp_all add: case_0244_def upt_rec stmt_ok_def field_pack_predicted)

lemma conforms_0245: "conforms case_0245 (field_pack_prediction)"
  by (rule conformsI) (simp_all add: case_0245_def upt_rec stmt_ok_def field_pack_predicted)

lemma conforms_0246: "conforms case_0246 (field_pack_prediction)"
  by (rule conformsI) (simp_all add: case_0246_def upt_rec stmt_ok_def field_pack_predicted)

lemma conforms_0247: "conforms case_0247 (field_pack_prediction)"
  by (rule conformsI) (simp_all add: case_0247_def upt_rec stmt_ok_def field_pack_predicted)

lemma conforms_0248: "conforms case_0248 (field_pack_prediction)"
  by (rule conformsI) (simp_all add: case_0248_def upt_rec stmt_ok_def field_pack_predicted)

lemma conforms_0249: "conforms case_0249 (field_pack_prediction)"
  by (rule conformsI) (simp_all add: case_0249_def upt_rec stmt_ok_def field_pack_predicted)

lemma conforms_0250: "conforms (case_0250 junk) (sort_prediction 4)"
  by (rule conformsI) (simp_all add: case_0250_def upt_rec stmt_ok_def sort_predicted)

lemma conforms_0251: "conforms (case_0251 junk) (sort_prediction 5)"
  by (rule conformsI) (simp_all add: case_0251_def upt_rec stmt_ok_def sort_predicted)

lemma conforms_0252: "conforms (case_0252 junk) (sort_prediction 6)"
  by (rule conformsI) (simp_all add: case_0252_def upt_rec stmt_ok_def sort_predicted)

lemma conforms_0253: "conforms (case_0253 junk) (sort_prediction 7)"
  by (rule conformsI) (simp_all add: case_0253_def upt_rec stmt_ok_def sort_predicted)

lemma conforms_0254: "conforms (case_0254 junk) (sort_prediction 8)"
  by (rule conformsI) (simp_all add: case_0254_def upt_rec stmt_ok_def sort_predicted)

lemma conforms_0255: "conforms (case_0255 junk) (sort_prediction 9)"
  by (rule conformsI) (simp_all add: case_0255_def upt_rec stmt_ok_def sort_predicted)

lemma conforms_0256: "conforms (case_0256 junk) (sort_prediction 10)"
  by (rule conformsI) (simp_all add: case_0256_def upt_rec stmt_ok_def sort_predicted)

lemma conforms_0257: "conforms (case_0257 junk) (sort_prediction 11)"
  by (rule conformsI) (simp_all add: case_0257_def upt_rec stmt_ok_def sort_predicted)

lemma conforms_0258: "conforms (case_0258 junk) (sort_prediction 12)"
  by (rule conformsI) (simp_all add: case_0258_def upt_rec stmt_ok_def sort_predicted)

lemma conforms_0259: "conforms (case_0259 junk) (sort_prediction 13)"
  by (rule conformsI) (simp_all add: case_0259_def upt_rec stmt_ok_def sort_predicted)

lemma conforms_0260: "conforms (case_0260 junk) (sort_prediction 14)"
  by (rule conformsI) (simp_all add: case_0260_def upt_rec stmt_ok_def sort_predicted)

lemma conforms_0261: "conforms (case_0261 junk) (sort_prediction 15)"
  by (rule conformsI) (simp_all add: case_0261_def upt_rec stmt_ok_def sort_predicted)

lemma conforms_0262: "conforms (case_0262 junk) (sort_prediction 4)"
  by (rule conformsI) (simp_all add: case_0262_def upt_rec stmt_ok_def sort_predicted)

lemma conforms_0263: "conforms (case_0263 junk) (sort_prediction 5)"
  by (rule conformsI) (simp_all add: case_0263_def upt_rec stmt_ok_def sort_predicted)

lemma conforms_0264: "conforms (case_0264 junk) (sort_prediction 6)"
  by (rule conformsI) (simp_all add: case_0264_def upt_rec stmt_ok_def sort_predicted)

lemma conforms_0265: "conforms (case_0265 junk) (sort_prediction 7)"
  by (rule conformsI) (simp_all add: case_0265_def upt_rec stmt_ok_def sort_predicted)

lemma conforms_0266: "conforms (case_0266 junk) (sort_prediction 8)"
  by (rule conformsI) (simp_all add: case_0266_def upt_rec stmt_ok_def sort_predicted)

lemma conforms_0267: "conforms (case_0267 junk) (sort_prediction 9)"
  by (rule conformsI) (simp_all add: case_0267_def upt_rec stmt_ok_def sort_predicted)

lemma conforms_0268: "conforms (case_0268 junk) (sort_prediction 10)"
  by (rule conformsI) (simp_all add: case_0268_def upt_rec stmt_ok_def sort_predicted)

lemma conforms_0269: "conforms (case_0269 junk) (sort_prediction 11)"
  by (rule conformsI) (simp_all add: case_0269_def upt_rec stmt_ok_def sort_predicted)

lemma conforms_0270: "conforms (case_0270 junk) (sort_prediction 12)"
  by (rule conformsI) (simp_all add: case_0270_def upt_rec stmt_ok_def sort_predicted)

lemma conforms_0271: "conforms (case_0271 junk) (sort_prediction 13)"
  by (rule conformsI) (simp_all add: case_0271_def upt_rec stmt_ok_def sort_predicted)

lemma conforms_0272: "conforms (case_0272 junk) (sort_prediction 14)"
  by (rule conformsI) (simp_all add: case_0272_def upt_rec stmt_ok_def sort_predicted)

lemma conforms_0273: "conforms (case_0273 junk) (sort_prediction 15)"
  by (rule conformsI) (simp_all add: case_0273_def upt_rec stmt_ok_def sort_predicted)

lemma conforms_0274: "conforms (case_0274 junk) (sort_prediction 4)"
  by (rule conformsI) (simp_all add: case_0274_def upt_rec stmt_ok_def sort_predicted)

lemma conforms_0275: "conforms case_0275 (\<lambda>_. search_prediction [0x00000000, 0x03e42ba7, 0x1f472e25, 0xa5f4a1c3] 0x00000000)"
  by (rule conformsI) (simp_all add: case_0275_def upt_rec stmt_ok_def search_predicted)

lemma conforms_0276: "conforms case_0276 (\<lambda>_. search_prediction [0x00000001, 0x1bd6e24e, 0x74011d7a, 0xcf8baffa, 0xfc66b73e] 0xa221882b)"
  by (rule conformsI) (simp_all add: case_0276_def upt_rec stmt_ok_def search_predicted)

lemma conforms_0277: "conforms case_0277 (\<lambda>_. search_prediction [0x00000002, 0x4be5d436, 0x625490af, 0xbbdf9768, 0xbce4977f,
      0xf7546caf] 0x625490af)"
  by (rule conformsI) (simp_all add: case_0277_def upt_rec stmt_ok_def search_predicted)

lemma conforms_0278: "conforms case_0278 (\<lambda>_. search_prediction [0x00000003, 0x2cb84eb2, 0x36c91d28, 0x6fe42bfe, 0x7d62f7bc, 0x9594aa0e,
      0xda2969a3] 0xf15c0663)"
  by (rule conformsI) (simp_all add: case_0278_def upt_rec stmt_ok_def search_predicted)

lemma conforms_0279: "conforms case_0279 (\<lambda>_. search_prediction [0x0000007f, 0x252a562b, 0x3de0d7fd, 0x4fc6850e, 0x73e57eb9, 0x90f03bf4,
      0x93d2f6da, 0xd920ecb4] 0x73e57eb9)"
  by (rule conformsI) (simp_all add: case_0279_def upt_rec stmt_ok_def search_predicted)

lemma conforms_0280: "conforms case_0280 (\<lambda>_. search_prediction [0x00000080, 0x25808f19, 0x299ea9ef, 0x3576ae40, 0x8523e848, 0xb7f29901,
      0xc7e77e53, 0xdde648b2, 0xfa7f3431] 0x985a239b)"
  by (rule conformsI) (simp_all add: case_0280_def upt_rec stmt_ok_def search_predicted)

lemma conforms_0281: "conforms case_0281 (\<lambda>_. search_prediction [0x000000ff, 0x23232395, 0x3aa14363, 0x65075fcd, 0x6dda5262, 0x70bb4a4e,
      0x8589fa3f, 0xb157047a, 0xbafd1470, 0xdbe62b14] 0x8589fa3f)"
  by (rule conformsI) (simp_all add: case_0281_def upt_rec stmt_ok_def search_predicted)

lemma conforms_0282: "conforms case_0282 (\<lambda>_. search_prediction [0x00000100, 0x039888cb, 0x4fb596ef, 0x66100900, 0x70ca75fd, 0x7b7b74b3,
      0x907c426c, 0xa2551d31, 0xd1999d7f, 0xd4e31934, 0xffe7d4dc] 0xcb27add3)"
  by (rule conformsI) (simp_all add: case_0282_def upt_rec stmt_ok_def search_predicted)

lemma conforms_0283: "conforms case_0283 (\<lambda>_. search_prediction [0x3bf954f2, 0x63293efe, 0x7190e859, 0x7fffffff, 0x9388ab06, 0x951e7fec,
      0xbd519a8b, 0xc2b694e1, 0xd987dd15, 0xe3baaffe, 0xe3e6819b, 0xeb500ff2] 0xd987dd15)"
  by (rule conformsI) (simp_all add: case_0283_def upt_rec stmt_ok_def search_predicted)

lemma conforms_0284: "conforms case_0284 (\<lambda>_. search_prediction [0x158fa52a, 0x1f7cfefb, 0x2509ee22, 0x43442ad9, 0x67502b96, 0x80000000,
      0x9f489735, 0xb7e62b4d, 0xcf68ae3d, 0xcfb2abd4, 0xeaf324a8, 0xf45bc0a9, 0xf877b534] 0xf1c92aa7)"
  by (rule conformsI) (simp_all add: case_0284_def upt_rec stmt_ok_def search_predicted)

lemma conforms_0285: "conforms case_0285 (\<lambda>_. search_prediction [0x1d9d68f1, 0x2eabb4ef, 0x32c5d7d9, 0x59d929c7, 0x6fbbdef2, 0x8cabdc36,
      0xabe77e0a, 0xb6dc88df, 0xb8f59575, 0xe20e4d7c, 0xf2438b11, 0xf2c8aefb, 0xfd0f2dcb, 0xfffffffe] 0xf2438b11)"
  by (rule conformsI) (simp_all add: case_0285_def upt_rec stmt_ok_def search_predicted)

lemma conforms_0286: "conforms case_0286 (\<lambda>_. search_prediction [0x15ce77dd, 0x173e6b7b, 0x1a8b94d7, 0x3babb9b2, 0x3dccc442, 0x4d36adb1,
      0x639d6494, 0x7973f5b6, 0x87dc7b77, 0x8fe681c2, 0x8ffc6954, 0xa077cb91, 0xba00a99c, 0xdeb2c015,
      0xffffffff] 0xa2b4a4ef)"
  by (rule conformsI) (simp_all add: case_0286_def upt_rec stmt_ok_def search_predicted)

lemma conforms_0287: "conforms case_0287 (\<lambda>_. search_prediction [0x39f1d5f7, 0x55ef6997, 0x93e7d485, 0x9ba2cc94] 0x39f1d5f7)"
  by (rule conformsI) (simp_all add: case_0287_def upt_rec stmt_ok_def search_predicted)

lemma conforms_0288: "conforms case_0288 (\<lambda>_. search_prediction [0x0cb373dc, 0x274d73a0, 0x67ea28e6, 0x8af340b6, 0xe6083a07] 0x54bc92aa)"
  by (rule conformsI) (simp_all add: case_0288_def upt_rec stmt_ok_def search_predicted)

lemma conforms_0289: "conforms case_0289 (\<lambda>_. search_prediction [0x16bee024, 0x7beb7da1, 0x9ca6cd63, 0xa68a1a46, 0xacba06fa,
      0xfffffffe] 0x9ca6cd63)"
  by (rule conformsI) (simp_all add: case_0289_def upt_rec stmt_ok_def search_predicted)

lemma conforms_0290: "conforms case_0290 (\<lambda>_. search_prediction [0x40ea21fa, 0x5fea8269, 0x670c7a85, 0x6b66f7c2, 0xc47e92e8, 0xd72391a3,
      0xf8aa61ba] 0xa5a5a5a6)"
  by (rule conformsI) (simp_all add: case_0290_def upt_rec stmt_ok_def search_predicted)

lemma conforms_0291: "conforms case_0291 (\<lambda>_. search_prediction [0x0911be83, 0x31e630ee, 0x43ebd72e, 0x4ced763c, 0x58a3149c, 0x7d337a17,
      0x7fffffff, 0xc4c0daa0] 0x0911be83)"
  by (rule conformsI) (simp_all add: case_0291_def upt_rec stmt_ok_def search_predicted)

lemma conforms_0292: "conforms case_0292 (\<lambda>_. search_prediction [0x00000001, 0x00000080, 0x38a1736b, 0x4bde2e5f, 0xb7c64800, 0xda02eee9,
      0xe12ab131, 0xe400bb02, 0xe6815711] 0x3d2f9b96)"
  by (rule conformsI) (simp_all add: case_0292_def upt_rec stmt_ok_def search_predicted)

lemma conforms_0293: "conforms case_0293 (\<lambda>_. search_prediction [0x000000ff, 0x0bea28bf, 0x19f55f5d, 0x2b423868, 0x3d45e538, 0x46882237,
      0x5d8ba38a, 0xa4829b43, 0xec218446, 0xfe3dd779] 0xec218446)"
  by (rule conformsI) (simp_all add: case_0293_def upt_rec stmt_ok_def search_predicted)

lemma conforms_0294: "conforms case_0294 (\<lambda>_. search_prediction [0x00000100, 0x02195079, 0x0ced7ab7, 0x0e24a383, 0x2febd777, 0x485130b4,
      0x6504fb80, 0xaa4b992b, 0xd67a100e, 0xe68287cc, 0xffffffff] 0x6e5215de)"
  by (rule conformsI) (simp_all add: case_0294_def upt_rec stmt_ok_def search_predicted)

lemma conforms_0295: "conforms case_0295 (\<lambda>_. search_prediction [0x2586dbc1, 0x33ea8230, 0x34774100, 0x47df3cfa, 0x5554a42d, 0x7fffffff,
      0x9795a2c1, 0x9a6b8d90, 0xaf163b65, 0xb2913051, 0xf781f27f, 0xf93c02ec] 0xaf163b65)"
  by (rule conformsI) (simp_all add: case_0295_def upt_rec stmt_ok_def search_predicted)

lemma conforms_0296: "conforms case_0296 (\<lambda>_. search_prediction [0x0aa99d65, 0x1375e3f5, 0x705badae, 0x80000000, 0x80000000, 0x87e882da,
      0xab1b0bcc, 0xab82f683, 0xc38e9e2c, 0xc44dcfc1, 0xe219380d, 0xe682388f, 0xfd9363cf] 0x07543026)"
  by (rule conformsI) (simp_all add: case_0296_def upt_rec stmt_ok_def search_predicted)

lemma conforms_0297: "conforms case_0297 (\<lambda>_. search_prediction [0x00000002, 0x01c5335e, 0x1bb86d5d, 0x1cfc10b0, 0x5e1a5485, 0x6d4150bd,
      0x731dc825, 0x77cfe38f, 0x78de4f60, 0x85a27d0e, 0x9be9d79d, 0xa29b184c, 0xc1802539, 0xfffffffe] 0x78de4f60)"
  by (rule conformsI) (simp_all add: case_0297_def upt_rec stmt_ok_def search_predicted)

lemma conforms_0298: "conforms case_0298 (\<lambda>_. search_prediction [0x00000100, 0x1e826037, 0x2cce2820, 0x34124c72, 0x349d5e9f, 0x4471884c,
      0x48b117cb, 0x4a2d325d, 0x631d788f, 0x74d1e6d2, 0xaaf09157, 0xacdc213a, 0xe0db3a01, 0xeb3c2a11,
      0xffffffff] 0x5429be6e)"
  by (rule conformsI) (simp_all add: case_0298_def upt_rec stmt_ok_def search_predicted)

lemma conforms_0299: "conforms case_0299 (\<lambda>_. search_prediction [0x239f58ce, 0x8cc75d06, 0xa3e97d12, 0xbd29b5cd] 0x239f58ce)"
  by (rule conformsI) (simp_all add: case_0299_def upt_rec stmt_ok_def search_predicted)

definition corpus_2 :: "(nat \<Rightarrow> u32) \<Rightarrow> (case_program \<times> (u32 list \<Rightarrow> u32)) list" where
  "corpus_2 junk =
    [(case_0200, \<lambda>input. input ! 0),
     (case_0201, \<lambda>input. input ! 1),
     (case_0202, \<lambda>input. input ! 2),
     (case_0203, \<lambda>input. input ! 3),
     (case_0204, \<lambda>input. input ! 4),
     (case_0205, \<lambda>input. input ! 5),
     (case_0206, \<lambda>input. input ! 6),
     (case_0207, \<lambda>input. input ! 7),
     (case_0208, \<lambda>input. input ! 8),
     (case_0209, \<lambda>input. input ! 9),
     (case_0210, \<lambda>input. input ! 10),
     (case_0211, \<lambda>input. input ! 11),
     (case_0212, \<lambda>input. input ! 12),
     (case_0213, \<lambda>input. input ! 13),
     (case_0214, \<lambda>input. input ! 14),
     (case_0215, \<lambda>input. input ! 15),
     (case_0216, \<lambda>input. input ! 0),
     (case_0217, \<lambda>input. input ! 1),
     (case_0218, \<lambda>input. input ! 2),
     (case_0219, \<lambda>input. input ! 3),
     (case_0220, \<lambda>input. input ! 4),
     (case_0221, \<lambda>input. input ! 5),
     (case_0222, \<lambda>input. input ! 6),
     (case_0223, \<lambda>input. input ! 7),
     (case_0224, \<lambda>input. input ! 8),
     (case_0225, field_pack_prediction),
     (case_0226, field_pack_prediction),
     (case_0227, field_pack_prediction),
     (case_0228, field_pack_prediction),
     (case_0229, field_pack_prediction),
     (case_0230, field_pack_prediction),
     (case_0231, field_pack_prediction),
     (case_0232, field_pack_prediction),
     (case_0233, field_pack_prediction),
     (case_0234, field_pack_prediction),
     (case_0235, field_pack_prediction),
     (case_0236, field_pack_prediction),
     (case_0237, field_pack_prediction),
     (case_0238, field_pack_prediction),
     (case_0239, field_pack_prediction),
     (case_0240, field_pack_prediction),
     (case_0241, field_pack_prediction),
     (case_0242, field_pack_prediction),
     (case_0243, field_pack_prediction),
     (case_0244, field_pack_prediction),
     (case_0245, field_pack_prediction),
     (case_0246, field_pack_prediction),
     (case_0247, field_pack_prediction),
     (case_0248, field_pack_prediction),
     (case_0249, field_pack_prediction),
     (case_0250 junk, sort_prediction 4),
     (case_0251 junk, sort_prediction 5),
     (case_0252 junk, sort_prediction 6),
     (case_0253 junk, sort_prediction 7),
     (case_0254 junk, sort_prediction 8),
     (case_0255 junk, sort_prediction 9),
     (case_0256 junk, sort_prediction 10),
     (case_0257 junk, sort_prediction 11),
     (case_0258 junk, sort_prediction 12),
     (case_0259 junk, sort_prediction 13),
     (case_0260 junk, sort_prediction 14),
     (case_0261 junk, sort_prediction 15),
     (case_0262 junk, sort_prediction 4),
     (case_0263 junk, sort_prediction 5),
     (case_0264 junk, sort_prediction 6),
     (case_0265 junk, sort_prediction 7),
     (case_0266 junk, sort_prediction 8),
     (case_0267 junk, sort_prediction 9),
     (case_0268 junk, sort_prediction 10),
     (case_0269 junk, sort_prediction 11),
     (case_0270 junk, sort_prediction 12),
     (case_0271 junk, sort_prediction 13),
     (case_0272 junk, sort_prediction 14),
     (case_0273 junk, sort_prediction 15),
     (case_0274 junk, sort_prediction 4),
     (case_0275, \<lambda>_. search_prediction [0x00000000, 0x03e42ba7, 0x1f472e25, 0xa5f4a1c3] 0x00000000),
     (case_0276, \<lambda>_. search_prediction [0x00000001, 0x1bd6e24e, 0x74011d7a, 0xcf8baffa, 0xfc66b73e] 0xa221882b),
     (case_0277, \<lambda>_. search_prediction [0x00000002, 0x4be5d436, 0x625490af, 0xbbdf9768, 0xbce4977f,
      0xf7546caf] 0x625490af),
     (case_0278, \<lambda>_. search_prediction [0x00000003, 0x2cb84eb2, 0x36c91d28, 0x6fe42bfe, 0x7d62f7bc, 0x9594aa0e,
      0xda2969a3] 0xf15c0663),
     (case_0279, \<lambda>_. search_prediction [0x0000007f, 0x252a562b, 0x3de0d7fd, 0x4fc6850e, 0x73e57eb9, 0x90f03bf4,
      0x93d2f6da, 0xd920ecb4] 0x73e57eb9),
     (case_0280, \<lambda>_. search_prediction [0x00000080, 0x25808f19, 0x299ea9ef, 0x3576ae40, 0x8523e848, 0xb7f29901,
      0xc7e77e53, 0xdde648b2, 0xfa7f3431] 0x985a239b),
     (case_0281, \<lambda>_. search_prediction [0x000000ff, 0x23232395, 0x3aa14363, 0x65075fcd, 0x6dda5262, 0x70bb4a4e,
      0x8589fa3f, 0xb157047a, 0xbafd1470, 0xdbe62b14] 0x8589fa3f),
     (case_0282, \<lambda>_. search_prediction [0x00000100, 0x039888cb, 0x4fb596ef, 0x66100900, 0x70ca75fd, 0x7b7b74b3,
      0x907c426c, 0xa2551d31, 0xd1999d7f, 0xd4e31934, 0xffe7d4dc] 0xcb27add3),
     (case_0283, \<lambda>_. search_prediction [0x3bf954f2, 0x63293efe, 0x7190e859, 0x7fffffff, 0x9388ab06, 0x951e7fec,
      0xbd519a8b, 0xc2b694e1, 0xd987dd15, 0xe3baaffe, 0xe3e6819b, 0xeb500ff2] 0xd987dd15),
     (case_0284, \<lambda>_. search_prediction [0x158fa52a, 0x1f7cfefb, 0x2509ee22, 0x43442ad9, 0x67502b96, 0x80000000,
      0x9f489735, 0xb7e62b4d, 0xcf68ae3d, 0xcfb2abd4, 0xeaf324a8, 0xf45bc0a9, 0xf877b534] 0xf1c92aa7),
     (case_0285, \<lambda>_. search_prediction [0x1d9d68f1, 0x2eabb4ef, 0x32c5d7d9, 0x59d929c7, 0x6fbbdef2, 0x8cabdc36,
      0xabe77e0a, 0xb6dc88df, 0xb8f59575, 0xe20e4d7c, 0xf2438b11, 0xf2c8aefb, 0xfd0f2dcb, 0xfffffffe] 0xf2438b11),
     (case_0286, \<lambda>_. search_prediction [0x15ce77dd, 0x173e6b7b, 0x1a8b94d7, 0x3babb9b2, 0x3dccc442, 0x4d36adb1,
      0x639d6494, 0x7973f5b6, 0x87dc7b77, 0x8fe681c2, 0x8ffc6954, 0xa077cb91, 0xba00a99c, 0xdeb2c015,
      0xffffffff] 0xa2b4a4ef),
     (case_0287, \<lambda>_. search_prediction [0x39f1d5f7, 0x55ef6997, 0x93e7d485, 0x9ba2cc94] 0x39f1d5f7),
     (case_0288, \<lambda>_. search_prediction [0x0cb373dc, 0x274d73a0, 0x67ea28e6, 0x8af340b6, 0xe6083a07] 0x54bc92aa),
     (case_0289, \<lambda>_. search_prediction [0x16bee024, 0x7beb7da1, 0x9ca6cd63, 0xa68a1a46, 0xacba06fa,
      0xfffffffe] 0x9ca6cd63),
     (case_0290, \<lambda>_. search_prediction [0x40ea21fa, 0x5fea8269, 0x670c7a85, 0x6b66f7c2, 0xc47e92e8, 0xd72391a3,
      0xf8aa61ba] 0xa5a5a5a6),
     (case_0291, \<lambda>_. search_prediction [0x0911be83, 0x31e630ee, 0x43ebd72e, 0x4ced763c, 0x58a3149c, 0x7d337a17,
      0x7fffffff, 0xc4c0daa0] 0x0911be83),
     (case_0292, \<lambda>_. search_prediction [0x00000001, 0x00000080, 0x38a1736b, 0x4bde2e5f, 0xb7c64800, 0xda02eee9,
      0xe12ab131, 0xe400bb02, 0xe6815711] 0x3d2f9b96),
     (case_0293, \<lambda>_. search_prediction [0x000000ff, 0x0bea28bf, 0x19f55f5d, 0x2b423868, 0x3d45e538, 0x46882237,
      0x5d8ba38a, 0xa4829b43, 0xec218446, 0xfe3dd779] 0xec218446),
     (case_0294, \<lambda>_. search_prediction [0x00000100, 0x02195079, 0x0ced7ab7, 0x0e24a383, 0x2febd777, 0x485130b4,
      0x6504fb80, 0xaa4b992b, 0xd67a100e, 0xe68287cc, 0xffffffff] 0x6e5215de),
     (case_0295, \<lambda>_. search_prediction [0x2586dbc1, 0x33ea8230, 0x34774100, 0x47df3cfa, 0x5554a42d, 0x7fffffff,
      0x9795a2c1, 0x9a6b8d90, 0xaf163b65, 0xb2913051, 0xf781f27f, 0xf93c02ec] 0xaf163b65),
     (case_0296, \<lambda>_. search_prediction [0x0aa99d65, 0x1375e3f5, 0x705badae, 0x80000000, 0x80000000, 0x87e882da,
      0xab1b0bcc, 0xab82f683, 0xc38e9e2c, 0xc44dcfc1, 0xe219380d, 0xe682388f, 0xfd9363cf] 0x07543026),
     (case_0297, \<lambda>_. search_prediction [0x00000002, 0x01c5335e, 0x1bb86d5d, 0x1cfc10b0, 0x5e1a5485, 0x6d4150bd,
      0x731dc825, 0x77cfe38f, 0x78de4f60, 0x85a27d0e, 0x9be9d79d, 0xa29b184c, 0xc1802539, 0xfffffffe] 0x78de4f60),
     (case_0298, \<lambda>_. search_prediction [0x00000100, 0x1e826037, 0x2cce2820, 0x34124c72, 0x349d5e9f, 0x4471884c,
      0x48b117cb, 0x4a2d325d, 0x631d788f, 0x74d1e6d2, 0xaaf09157, 0xacdc213a, 0xe0db3a01, 0xeb3c2a11,
      0xffffffff] 0x5429be6e),
     (case_0299, \<lambda>_. search_prediction [0x239f58ce, 0x8cc75d06, 0xa3e97d12, 0xbd29b5cd] 0x239f58ce)]"

lemmas corpus_2_programs =
  conforms_0200 conforms_0201 conforms_0202 conforms_0203 conforms_0204 conforms_0205 conforms_0206 conforms_0207
  conforms_0208 conforms_0209 conforms_0210 conforms_0211 conforms_0212 conforms_0213 conforms_0214 conforms_0215
  conforms_0216 conforms_0217 conforms_0218 conforms_0219 conforms_0220 conforms_0221 conforms_0222 conforms_0223
  conforms_0224 conforms_0225 conforms_0226 conforms_0227 conforms_0228 conforms_0229 conforms_0230 conforms_0231
  conforms_0232 conforms_0233 conforms_0234 conforms_0235 conforms_0236 conforms_0237 conforms_0238 conforms_0239
  conforms_0240 conforms_0241 conforms_0242 conforms_0243 conforms_0244 conforms_0245 conforms_0246 conforms_0247
  conforms_0248 conforms_0249 conforms_0250 conforms_0251 conforms_0252 conforms_0253 conforms_0254 conforms_0255
  conforms_0256 conforms_0257 conforms_0258 conforms_0259 conforms_0260 conforms_0261 conforms_0262 conforms_0263
  conforms_0264 conforms_0265 conforms_0266 conforms_0267 conforms_0268 conforms_0269 conforms_0270 conforms_0271
  conforms_0272 conforms_0273 conforms_0274 conforms_0275 conforms_0276 conforms_0277 conforms_0278 conforms_0279
  conforms_0280 conforms_0281 conforms_0282 conforms_0283 conforms_0284 conforms_0285 conforms_0286 conforms_0287
  conforms_0288 conforms_0289 conforms_0290 conforms_0291 conforms_0292 conforms_0293 conforms_0294 conforms_0295
  conforms_0296 conforms_0297 conforms_0298 conforms_0299

lemma corpus_2_conforms: "list_all (\<lambda>(c, prediction). conforms c prediction) (corpus_2 junk)"
  unfolding corpus_2_def list.pred_inject prod.case by (intro conjI corpus_2_programs list.pred_inject(1))

lemma corpus_2_ids: "map (\<lambda>(c, prediction). case_id c) (corpus_2 junk) = [200..<300]"
  by (simp add: corpus_2_def upt_conv_Cons
      case_0200_def case_0201_def case_0202_def case_0203_def case_0204_def case_0205_def case_0206_def
      case_0207_def case_0208_def case_0209_def case_0210_def case_0211_def case_0212_def case_0213_def
      case_0214_def case_0215_def case_0216_def case_0217_def case_0218_def case_0219_def case_0220_def
      case_0221_def case_0222_def case_0223_def case_0224_def case_0225_def case_0226_def case_0227_def
      case_0228_def case_0229_def case_0230_def case_0231_def case_0232_def case_0233_def case_0234_def
      case_0235_def case_0236_def case_0237_def case_0238_def case_0239_def case_0240_def case_0241_def
      case_0242_def case_0243_def case_0244_def case_0245_def case_0246_def case_0247_def case_0248_def
      case_0249_def case_0250_def case_0251_def case_0252_def case_0253_def case_0254_def case_0255_def
      case_0256_def case_0257_def case_0258_def case_0259_def case_0260_def case_0261_def case_0262_def
      case_0263_def case_0264_def case_0265_def case_0266_def case_0267_def case_0268_def case_0269_def
      case_0270_def case_0271_def case_0272_def case_0273_def case_0274_def case_0275_def case_0276_def
      case_0277_def case_0278_def case_0279_def case_0280_def case_0281_def case_0282_def case_0283_def
      case_0284_def case_0285_def case_0286_def case_0287_def case_0288_def case_0289_def case_0290_def
      case_0291_def case_0292_def case_0293_def case_0294_def case_0295_def case_0296_def case_0297_def
      case_0298_def case_0299_def)

end
