(* ===== verification/Corpus_Cases_3.thy ===== *)
theory Corpus_Cases_3
  imports Corpus_Checksums Corpus_Bits Corpus_Control Corpus_Algorithms Corpus_Buffers
begin

text \<open>
  The programs 300 to 399 of the edge-case corpus, one definition per file: inputs, kernel with the parameters of the
  scenario, initial literals and statements, as the C text has them.  Their kernels are the ring,
  histogram, matrix3 and endian kernels.  Every program conforms to the prediction of its kernel.
\<close>

definition case_0300 :: "(nat \<Rightarrow> u32) \<Rightarrow> case_program" where
  "case_0300 junk =
     \<lparr>case_id = 300,
      case_input = [0x00000000, 0xf7e9d7c4, 0x6de53412, 0x32e51e8b, 0xcb84f38c, 0x435ec3f2, 0xb35de1b6, 0x6befd4c9,
                    0x2eebd517, 0x5bd416b2, 0xfc3f4c31, 0xc717b81c, 0xfa4cbc33, 0x07d944b6, 0xca736fe2, 0xcb629cbf],
      case_kernel = ring_kernel junk 5 12,
      reg_inputs = [13, 1, 5, 9], reg5_init = 0x6902a4cc,
      memory_keys = [0x0000012c, 0x00000258, 0x000004b0, 0x00000960, 0x000012c0, 0x00002580, 0x00004b00, 0x00009600],
      case_stmts = [(Add_Carry, 2, 0, 1), (Gray_Decode, 2, 0, 1), (Add_Carry, 3, 2, 4), (Mask_Merge, 2, 1, 0),
                    (Halfword_Swap, 0, 3, 4), (Byte_Pack, 0, 4, 0), (Popcount_Loop, 0, 5, 0), (Multiply_Low, 3, 3, 2),
                    (Halfword_Swap, 2, 3, 5), (Endian_Swap, 1, 5, 3), (Counted_Loop, 5, 1, 1), (Counted_Loop, 5, 2, 3)]\<rparr>"

definition case_0301 :: "(nat \<Rightarrow> u32) \<Rightarrow> case_program" where
  "case_0301 junk =
     \<lparr>case_id = 301,
      case_input = [0xa0939949, 0x00000001, 0x987d9614, 0x92ec6bad, 0xddd17e59, 0x50bd88f1, 0xfaa67ecf, 0xb91a1205,
                    0xc9acdec6, 0x1a3ba47d, 0x6ab9bb16, 0x1f214b6d, 0x224a7fda, 0x9e3f5ef0, 0x17c97edb, 0xe2526dc1],
      case_kernel = ring_kernel junk 6 13,
      reg_inputs = [14, 2, 6, 10], reg5_init = 0x073a1e85,
      memory_keys = [0x0000012d, 0x0000025a, 0x000004b4, 0x00000968, 0x000012d0, 0x000025a0, 0x00004b40, 0x00009680],
      case_stmts = [(Sub_Borrow, 3, 5, 4), (Gray_Decode, 1, 2, 0), (Add_Carry, 1, 2, 4), (Short_Circuit, 5, 3, 3),
                    (Horner_Loop, 0, 5, 4), (Endian_Swap, 2, 0, 1), (Horner_Loop, 5, 2, 3), (Carry_Chain, 4, 4, 4),
                    (Gray_Decode, 3, 2, 2), (Halfword_Swap, 4, 3, 5), (Compare_Select, 1, 5, 4),
                    (Horner_Loop, 2, 0, 0)]\<rparr>"

definition case_0302 :: "(nat \<Rightarrow> u32) \<Rightarrow> case_program" where
  "case_0302 junk =
     \<lparr>case_id = 302,
      case_input = [0x6115f98a, 0xcfe97d4b, 0x00000002, 0xc6fc0ced, 0x2a1144f8, 0x9120f976, 0x0abf0a35, 0xb3b9118f,
                    0xbcb80b4a, 0xd5b4eb2e, 0x6cbfdb9e, 0x1a1b4607, 0x6545fb8d, 0xdd6de3e0, 0x23b87d12, 0x981f12f7],
      case_kernel = ring_kernel junk 7 14,
      reg_inputs = [15, 3, 7, 11], reg5_init = 0xa571983e,
      memory_keys = [0x0000012e, 0x0000025c, 0x000004b8, 0x00000970, 0x000012e0, 0x000025c0, 0x00004b80, 0x00009700],
      case_stmts = [(Rotate_Mix, 4, 3, 0), (Gray_Decode, 4, 2, 3), (Add_Carry, 1, 1, 3), (Byte_Pack, 2, 1, 0),
                    (Multiply_Low, 4, 0, 2), (Gray_Decode, 0, 0, 5), (Multiply_Low, 3, 2, 0), (Horner_Loop, 0, 5, 1),
                    (Short_Circuit, 2, 4, 5), (Reverse_Loop, 0, 4, 1), (Divide_Rem, 5, 5, 5), (Horner_Loop, 0, 3, 2)]\<rparr>"

definition case_0303 :: "(nat \<Rightarrow> u32) \<Rightarrow> case_program" where
  "case_0303 junk =
     \<lparr>case_id = 303,
      case_input = [0x2197d9cb, 0xd3e8280c, 0x7b4e775c, 0x00000003, 0x3c44c92d, 0x82c3b275, 0x4344954c, 0x614cd743,
                    0x5bff009b, 0x945b59e1, 0xfa392cb9, 0xc22db576, 0xbd433864, 0x448bf9a6, 0xfe026c2b, 0xb12fe389],
      case_kernel = ring_kernel junk 8 15,
      reg_inputs = [0, 4, 8, 12], reg5_init = 0x43a911f7,
      memory_keys = [0x0000012f, 0x0000025e, 0x000004bc, 0x00000978, 0x000012f0, 0x000025e0, 0x00004bc0, 0x00009780],
      case_stmts = [(Multiply_Low, 1, 2, 5), (Gray_Decode, 1, 4, 0), (Add_Carry, 1, 5, 1), (Reverse_Loop, 3, 1, 5),
                    (Halfword_Swap, 4, 4, 4), (Sub_Borrow, 2, 4, 4), (Endian_Swap, 2, 5, 5), (Reverse_Loop, 3, 4, 3),
                    (Byte_Pack, 5, 1, 0), (Switch_Phi, 5, 2, 1), (Add_Carry, 5, 3, 4), (Counted_Loop, 5, 3, 3)]\<rparr>"

definition case_0304 :: "(nat \<Rightarrow> u32) \<Rightarrow> case_program" where
  "case_0304 junk =
     \<lparr>case_id = 304,
      case_input = [0xee2a3e13, 0xa7ef7c9e, 0x3cd279e6, 0xa67de0e9, 0x0000007f, 0xcfad9f6a, 0xab0c2ca5, 0x10f70803,
                    0x42e312d7, 0xbe3e4c70, 0xbaaf3aca, 0xc5c03907, 0xc374caee, 0x2d571089, 0x84e794f3, 0x7330d763],
      case_kernel = ring_kernel junk 9 12,
      reg_inputs = [1, 5, 9, 13], reg5_init = 0xe1e08bb0,
      memory_keys = [0x00000130, 0x00000260, 0x000004c0, 0x00000980, 0x00001300, 0x00002600, 0x00004c00, 0x00009800],
      case_stmts = [(Divide_Rem, 0, 3, 4), (Gray_Decode, 5, 5, 0), (Add_Carry, 1, 0, 4), (Reverse_Loop, 0, 4, 2),
                    (Rotate_Mix, 3, 4, 2), (Switch_Phi, 3, 1, 5), (Horner_Loop, 1, 1, 5), (Compare_Select, 3, 3, 4),
                    (Short_Circuit, 4, 0, 1), (Counted_Loop, 1, 4, 2), (Add_Carry, 1, 0, 5), (Carry_Chain, 1, 5, 1)]\<rparr>"

definition case_0305 :: "(nat \<Rightarrow> u32) \<Rightarrow> case_program" where
  "case_0305 junk =
     \<lparr>case_id = 305,
      case_input = [0xaea81e52, 0xbbee29d9, 0xc94adbe0, 0x067495cf, 0x0713db80, 0x00000080, 0xe2f7b3dc, 0xc202cecf,
                    0xa5a41906, 0xffd1febf, 0x2c29cded, 0x1df6ca76, 0x1b720907, 0xb4b10acf, 0x595d85ca, 0x5a00261d],
      case_kernel = ring_kernel junk 10 13,
      reg_inputs = [2, 6, 10, 14], reg5_init = 0x80180569,
      memory_keys = [0x00000131, 0x00000262, 0x000004c4, 0x00000988, 0x00001310, 0x00002620, 0x00004c40, 0x00009880],
      case_stmts = [(Mask_Merge, 1, 4, 3), (Gray_Decode, 0, 3, 3), (Add_Carry, 3, 2, 0), (Byte_Pack, 5, 2, 1),
                    (Sub_Borrow, 1, 0, 0), (Popcount_Loop, 5, 3, 0), (Mask_Merge, 2, 0, 2), (Multiply_Low, 2, 2, 2),
                    (Horner_Loop, 3, 5, 4), (Gray_Decode, 4, 4, 0), (Short_Circuit, 1, 4, 4), (Horner_Loop, 0, 3, 4)]\<rparr>"

definition case_0306 :: "(nat \<Rightarrow> u32) \<Rightarrow> case_program" where
  "case_0306 junk =
     \<lparr>case_id = 306,
      case_input = [0x6f2e7e91, 0x9fefd611, 0xdfe198ae, 0x5264f28f, 0xf0d3e121, 0x1dd3a5ee, 0x000000ff, 0xc8a1cd45,
                    0xd0b0cc8a, 0x305eb1ec, 0x2a2fad65, 0x18ccc71c, 0x5c7d8d50, 0xf7e3b7df, 0x6d2c8603, 0x204d592b],
      case_kernel = ring_kernel junk 11 14,
      reg_inputs = [3, 7, 11, 15], reg5_init = 0x1e4f7f22,
      memory_keys = [0x00000132, 0x00000264, 0x000004c8, 0x00000990, 0x00001320, 0x00002640, 0x00004c80, 0x00009900],
      case_stmts = [(Compare_Select, 4, 0, 5), (Gray_Decode, 1, 5, 0), (Add_Carry, 3, 5, 3), (Short_Circuit, 4, 0, 2),
                    (Array_Scatter, 3, 5, 4), (Gray_Decode, 1, 3, 2), (Sub_Borrow, 4, 2, 1), (Compare_Select, 0, 3, 5),
                    (Divide_Rem, 0, 3, 1), (Popcount_Loop, 2, 5, 4), (Compare_Select, 3, 4, 3), (Gray_Decode, 0, 4, 0)]\<rparr>"

definition case_0307 :: "(nat \<Rightarrow> u32) \<Rightarrow> case_program" where
  "case_0307 junk =
     \<lparr>case_id = 307,
      case_input = [0x2fac5ed0, 0x83ee8356, 0x2a793aa8, 0xf26d87a9, 0xe6866cf4, 0x0e30eeed, 0x5b15585f, 0x00000100,
                    0x37f7c75b, 0x71b10323, 0xbca95a42, 0xc0fa346d, 0x847b4eb9, 0x6e05ad99, 0xb096973a, 0x097da855],
      case_kernel = ring_kernel junk 5 15,
      reg_inputs = [4, 8, 12, 0], reg5_init = 0xbc86f8db,
      memory_keys = [0x00000133, 0x00000266, 0x000004cc, 0x00000998, 0x00001330, 0x00002660, 0x00004cc0, 0x00009980],
      case_stmts = [(Byte_Pack, 1, 1, 4), (Gray_Decode, 0, 5, 1), (Add_Carry, 3, 5, 1), (Mask_Merge, 5, 0, 3),
                    (Compare_Select, 5, 5, 0), (Endian_Swap, 5, 5, 1), (Switch_Phi, 3, 1, 4), (Switch_Phi, 3, 2, 5),
                    (Horner_Loop, 3, 2, 4), (Short_Circuit, 1, 1, 4), (Counted_Loop, 5, 0, 4), (Rotate_Mix, 1, 4, 3)]\<rparr>"

definition case_0308 :: "(nat \<Rightarrow> u32) \<Rightarrow> case_program" where
  "case_0308 junk =
     \<lparr>case_id = 308,
      case_input = [0xec22bf16, 0xd7ee2980, 0xfab5bb77, 0x4c4fc424, 0xd06b38bc, 0xf2514726, 0xe5c2aedc, 0x686d3f3f,
                    0x7fffffff, 0x21a79503, 0x36cbdb55, 0xc1591f37, 0x92237d11, 0xc4a7adf6, 0x0daf78b6, 0x1aa3de5f],
      case_kernel = ring_kernel junk 6 12,
      reg_inputs = [5, 9, 13, 1], reg5_init = 0x5abe7294,
      memory_keys = [0x00000134, 0x00000268, 0x000004d0, 0x000009a0, 0x00001340, 0x00002680, 0x00004d00, 0x00009a00],
      case_stmts = [(Halfword_Swap, 3, 4, 4), (Gray_Decode, 2, 4, 5), (Add_Carry, 5, 1, 3), (Byte_Pack, 3, 4, 0),
                    (Add_Carry, 4, 3, 1), (Reverse_Loop, 0, 1, 5), (Carry_Chain, 2, 1, 5), (Byte_Pack, 4, 1, 3),
                    (Add_Carry, 2, 1, 3), (Byte_Pack, 1, 0, 2), (Halfword_Swap, 2, 2, 2), (Rotate_Mix, 1, 3, 0)]\<rparr>"

definition case_0309 :: "(nat \<Rightarrow> u32) \<Rightarrow> case_program" where
  "case_0309 junk =
     \<lparr>case_id = 309,
      case_input = [0xaca09f57, 0xcbef7cc7, 0x0f2d1971, 0xec46b102, 0xc63eb569, 0xe1b20c25, 0xac3931a5, 0xba98f9f3,
                    0x6dcdf49e, 0x80000000, 0xa04d2c72, 0x196fec46, 0x4a25bef8, 0x5d41b7b0, 0xd015698f, 0x33932f21],
      case_kernel = ring_kernel junk 7 13,
      reg_inputs = [6, 10, 14, 2], reg5_init = 0xf8f5ec4d,
      memory_keys = [0x00000135, 0x0000026a, 0x000004d4, 0x000009a8, 0x00001350, 0x000026a0, 0x00004d40, 0x00009a80],
      case_stmts = [(Array_Scatter, 2, 1, 3), (Gray_Decode, 1, 2, 0), (Add_Carry, 1, 5, 3), (Carry_Chain, 0, 4, 3),
                    (Byte_Pack, 4, 3, 3), (Short_Circuit, 0, 3, 0), (Short_Circuit, 5, 4, 4), (Rotate_Mix, 5, 0, 1),
                    (Switch_Phi, 5, 2, 2), (Counted_Loop, 4, 2, 2), (Add_Carry, 4, 2, 3), (Horner_Loop, 0, 3, 3)]\<rparr>"

definition case_0310 :: "(nat \<Rightarrow> u32) \<Rightarrow> case_program" where
  "case_0310 junk =
     \<lparr>case_id = 310,
      case_input = [0x6d26ff94, 0xefee830f, 0x19865a3f, 0xb856d642, 0x31fe8fc8, 0x202f7da2, 0x5c20455f, 0xb03bfa79,
                    0x18d92112, 0xafc7689f, 0xfffffffe, 0x1c55e12c, 0x0d2a3aaf, 0x1e130aa0, 0xe4646a46, 0x49de5017],
      case_kernel = ring_kernel junk 8 14,
      reg_inputs = [7, 11, 15, 3], reg5_init = 0x972d6606,
      memory_keys = [0x00000136, 0x0000026c, 0x000004d8, 0x000009b0, 0x00001360, 0x000026c0, 0x00004d80, 0x00009b00],
      case_stmts = [(Counted_Loop, 3, 5, 1), (Gray_Decode, 2, 0, 3), (Add_Carry, 1, 4, 0), (Mask_Merge, 3, 4, 4),
                    (Multiply_Low, 4, 4, 3), (Reverse_Loop, 4, 3, 0), (Minmax_Clamp, 1, 4, 5), (Byte_Pack, 1, 3, 4),
                    (Short_Circuit, 0, 2, 5), (Halfword_Swap, 0, 5, 4), (Compare_Select, 0, 0, 0),
                    (Switch_Phi, 0, 2, 1)]\<rparr>"

definition case_0311 :: "(nat \<Rightarrow> u32) \<Rightarrow> case_program" where
  "case_0311 junk =
     \<lparr>case_id = 311,
      case_input = [0x2da4dfd5, 0xf3efd648, 0xec1ef839, 0x185fa364, 0x27ab021d, 0x33cc36a1, 0x15dbda26, 0x62ce3cb5,
                    0xff9e2ac3, 0xee28da50, 0x30cdbbdd, 0xffffffff, 0xd52cf946, 0x87f510e6, 0x39de7b7f, 0x60eea169],
      case_kernel = ring_kernel junk 9 15,
      reg_inputs = [8, 12, 0, 4], reg5_init = 0x3564dfbf,
      memory_keys = [0x00000137, 0x0000026e, 0x000004dc, 0x000009b8, 0x00001370, 0x000026e0, 0x00004dc0, 0x00009b80],
      case_stmts = [(Switch_Phi, 0, 0, 2), (Gray_Decode, 3, 0, 2), (Add_Carry, 3, 4, 2), (Minmax_Clamp, 2, 2, 3),
                    (Add_Carry, 4, 2, 3), (Halfword_Swap, 4, 1, 1), (Compare_Select, 2, 5, 4), (Counted_Loop, 0, 4, 0),
                    (Multiply_Low, 5, 3, 2), (Array_Scatter, 3, 3, 2), (Compare_Select, 4, 2, 3),
                    (Rotate_Mix, 1, 4, 4)]\<rparr>"

definition case_0312 :: "(nat \<Rightarrow> u32) \<Rightarrow> case_program" where
  "case_0312 junk =
     \<lparr>case_id = 312,
      case_input = [0xea3b3c19, 0x47edd6a2, 0xb01dfcc5, 0x7219a973, 0x00000000, 0xb4522ff3, 0xaf978513, 0x45cc9e40,
                    0xb60a2929, 0xbdf0b750, 0xdafd9be3, 0x52b9285c, 0x00000000, 0xbf21b99b, 0x0f01cd25, 0x20d875ef],
      case_kernel = ring_kernel junk 10 12,
      reg_inputs = [9, 13, 1, 5], reg5_init = 0xd39c5978,
      memory_keys = [0x00000138, 0x00000270, 0x000004e0, 0x000009c0, 0x00001380, 0x00002700, 0x00004e00, 0x00009c00],
      case_stmts = [(Short_Circuit, 0, 2, 5), (Gray_Decode, 0, 5, 4), (Add_Carry, 1, 1, 0), (Minmax_Clamp, 4, 4, 0),
                    (Rotate_Mix, 5, 3, 5), (Divide_Rem, 4, 4, 2), (Mask_Merge, 1, 3, 2), (Mask_Merge, 3, 1, 5),
                    (Sub_Borrow, 0, 1, 1), (Divide_Rem, 2, 2, 2), (Gray_Decode, 5, 3, 1), (Add_Carry, 5, 5, 5)]\<rparr>"

definition case_0313 :: "(nat \<Rightarrow> u32) \<Rightarrow> case_program" where
  "case_0313 junk =
     \<lparr>case_id = 313,
      case_input = [0xaab91c58, 0x5bec83e5, 0x45855ec3, 0xd210dc55, 0x87490653, 0xa7b164f0, 0xe66c1a6a, 0x9739588c,
                    0x514d22f8, 0xfc1f059f, 0x4c7b6cc4, 0x00000080, 0x5b346840, 0x00000001, 0xd2bbdc1c, 0x09e88491],
      case_kernel = ring_kernel junk 11 13,
      reg_inputs = [10, 14, 2, 6], reg5_init = 0x71d3d331,
      memory_keys = [0x00000139, 0x00000272, 0x000004e4, 0x000009c8, 0x00001390, 0x00002720, 0x00004e40, 0x00009c80],
      case_stmts = [(Popcount_Loop, 5, 5, 2), (Gray_Decode, 3, 5, 3), (Add_Carry, 5, 5, 4), (Array_Scatter, 3, 4, 5),
                    (Popcount_Loop, 1, 3, 5), (Counted_Loop, 2, 0, 5), (Switch_Phi, 2, 0, 5), (Divide_Rem, 4, 4, 1),
                    (Compare_Select, 1, 2, 2), (Popcount_Loop, 5, 0, 0), (Gray_Decode, 3, 5, 4), (Mask_Merge, 2, 5, 4)]\<rparr>"

definition case_0314 :: "(nat \<Rightarrow> u32) \<Rightarrow> case_program" where
  "case_0314 junk =
     \<lparr>case_id = 314,
      case_input = [0x6b3f7c9b, 0x7fed7c2d, 0xfffffffe, 0x8600bb15, 0x70893cf2, 0x662c1577, 0x16756e90, 0x9d9a5b06,
                    0x2459f774, 0x33904acc, 0x4a7d0c4c, 0x8fb5d647, 0x1c3bec17, 0x65951ecd, 0x00000002, 0x73a5fba7],
      case_kernel = ring_kernel junk 5 14,
      reg_inputs = [11, 15, 3, 7], reg5_init = 0x100b4cea,
      memory_keys = [0x0000013a, 0x00000274, 0x000004e8, 0x000009d0, 0x000013a0, 0x00002740, 0x00004e80, 0x00009d00],
      case_stmts = [(Reverse_Loop, 0, 3, 4), (Gray_Decode, 0, 3, 4), (Add_Carry, 5, 2, 5), (Carry_Chain, 4, 4, 2),
                    (Popcount_Loop, 3, 2, 5), (Short_Circuit, 0, 4, 1), (Multiply_Low, 0, 4, 2),
                    (Array_Scatter, 0, 5, 4), (Array_Scatter, 4, 0, 1), (Switch_Phi, 5, 3, 4), (Sub_Borrow, 1, 1, 5),
                    (Endian_Swap, 2, 2, 0)]\<rparr>"

definition case_0315 :: "(nat \<Rightarrow> u32) \<Rightarrow> case_program" where
  "case_0315 junk =
     \<lparr>case_id = 315,
      case_input = [0x2bbd5cda, 0x63ec296a, 0xa6b6bf8b, 0x2609ce33, 0x66dcb127, 0x75cf5e74, 0x5f8ef1e9, 0x4f6f9dca,
                    0xc31efca5, 0x00000003, 0xdcfbfb6b, 0x57832536, 0xc43d2ffe, 0xfc73048b, 0x3b70ceec, 0x00000003],
      case_kernel = ring_kernel junk 6 15,
      reg_inputs = [12, 0, 4, 8], reg5_init = 0xae42c6a3,
      memory_keys = [0x0000013b, 0x00000276, 0x000004ec, 0x000009d8, 0x000013b0, 0x00002760, 0x00004ec0, 0x00009d80],
      case_stmts = [(Gray_Decode, 3, 2, 1), (Gray_Decode, 1, 5, 1), (Add_Carry, 3, 0, 1), (Switch_Phi, 1, 2, 3),
                    (Carry_Chain, 1, 2, 1), (Carry_Chain, 4, 0, 4), (Popcount_Loop, 1, 5, 5), (Divide_Rem, 1, 0, 4),
                    (Rotate_Mix, 3, 5, 4), (Reverse_Loop, 2, 1, 4), (Endian_Swap, 1, 1, 4), (Short_Circuit, 3, 0, 1)]\<rparr>"

definition case_0316 :: "(nat \<Rightarrow> u32) \<Rightarrow> case_program" where
  "case_0316 junk =
     \<lparr>case_id = 316,
      case_input = [0x7fffffff, 0x37ec83bc, 0x767a3e54, 0x982b8dbe, 0x5031e56f, 0x89aef7bf, 0xe159076a, 0x3d56a97c,
                    0x7e63c4b1, 0x22696e23, 0x56997a7c, 0x56200e6c, 0xd2651c56, 0x56d104e4, 0x86492160, 0x494b7cd3],
      case_kernel = ring_kernel junk 7 12,
      reg_inputs = [13, 1, 5, 9], reg5_init = 0x4c7a405c,
      memory_keys = [0x0000013c, 0x00000278, 0x000004f0, 0x000009e0, 0x000013c0, 0x00002780, 0x00004f00, 0x00009e00],
      case_stmts = [(Minmax_Clamp, 5, 3, 5), (Gray_Decode, 5, 2, 3), (Add_Carry, 3, 0, 1), (Array_Scatter, 1, 4, 0),
                    (Halfword_Swap, 4, 0, 0), (Popcount_Loop, 1, 0, 4), (Minmax_Clamp, 4, 3, 2),
                    (Short_Circuit, 2, 5, 0), (Mask_Merge, 4, 2, 5), (Popcount_Loop, 4, 4, 4), (Byte_Pack, 2, 5, 2),
                    (Short_Circuit, 1, 3, 2)]\<rparr>"

definition case_0317 :: "(nat \<Rightarrow> u32) \<Rightarrow> case_program" where
  "case_0317 junk =
     \<lparr>case_id = 317,
      case_input = [0xa8b19d5d, 0x00000080, 0x83e29c52, 0x3822f898, 0x466468ba, 0x9a4dbcbc, 0xa8a29813, 0x00000001,
                    0x9924cf60, 0x6386dcec, 0xc01f8d5b, 0x8e16fd1d, 0x0a63dfbf, 0xcf371ea2, 0x5bf33059, 0x607b8dad],
      case_kernel = ring_kernel junk 8 13,
      reg_inputs = [14, 2, 6, 10], reg5_init = 0xeab1ba15,
      memory_keys = [0x0000013d, 0x0000027a, 0x000004f4, 0x000009e8, 0x000013d0, 0x000027a0, 0x00004f40, 0x00009e80],
      case_stmts = [(Endian_Swap, 2, 2, 2), (Gray_Decode, 0, 4, 4), (Add_Carry, 1, 0, 3), (Add_Carry, 4, 2, 3),
                    (Multiply_Low, 2, 4, 0), (Horner_Loop, 1, 0, 1), (Carry_Chain, 3, 2, 5), (Popcount_Loop, 3, 0, 2),
                    (Carry_Chain, 5, 1, 2), (Add_Carry, 3, 4, 4), (Gray_Decode, 0, 3, 3), (Sub_Borrow, 0, 1, 5)]\<rparr>"

definition case_0318 :: "(nat \<Rightarrow> u32) \<Rightarrow> case_program" where
  "case_0318 junk =
     \<lparr>case_id = 318,
      case_input = [0x6937fd9e, 0x0fec2933, 0x000000ff, 0x6c329fd8, 0xb1a4521b, 0x5bd0cd3b, 0x58bbece9, 0xe5006c3a,
                    0xec301aec, 0xac0993bf, 0xc619edd3, 0x8b2cf077, 0x4d6c5be8, 0x8c65a3b2, 0x000000ff, 0x1a36f29b],
      case_kernel = ring_kernel junk 9 14,
      reg_inputs = [15, 3, 7, 11], reg5_init = 0x88e933ce,
      memory_keys = [0x0000013e, 0x0000027c, 0x000004f8, 0x000009f0, 0x000013e0, 0x000027c0, 0x00004f80, 0x00009f00],
      case_stmts = [(Carry_Chain, 3, 2, 2), (Gray_Decode, 5, 0, 3), (Add_Carry, 1, 1, 4), (Switch_Phi, 1, 0, 2),
                    (Byte_Pack, 4, 5, 4), (Popcount_Loop, 5, 4, 3), (Reverse_Loop, 3, 0, 0), (Divide_Rem, 5, 5, 1),
                    (Endian_Swap, 0, 1, 1), (Reverse_Loop, 1, 3, 0), (Popcount_Loop, 0, 5, 4), (Endian_Swap, 2, 2, 1)]\<rparr>"

definition case_0319 :: "(nat \<Rightarrow> u32) \<Rightarrow> case_program" where
  "case_0319 junk =
     \<lparr>case_id = 319,
      case_input = [0x29b5dddf, 0x13ed7c74, 0x60d17d1a, 0x00000100, 0xa7f1dfce, 0xffffffff, 0x11407390, 0x37f5aaf6,
                    0x0b77113d, 0xede62170, 0x509f1af4, 0x531a0306, 0x956a9801, 0x1583b9f4, 0xb23822a9, 0x330603e5],
      case_kernel = ring_kernel junk 10 15,
      reg_inputs = [0, 4, 8, 12], reg5_init = 0x2720ad87,
      memory_keys = [0x0000013f, 0x0000027e, 0x000004fc, 0x000009f8, 0x000013f0, 0x000027e0, 0x00004fc0, 0x00009f80],
      case_stmts = [(Horner_Loop, 2, 5, 5), (Gray_Decode, 0, 0, 0), (Add_Carry, 5, 5, 4), (Rotate_Mix, 4, 4, 1),
                    (Minmax_Clamp, 0, 1, 4), (Gray_Decode, 5, 2, 4), (Minmax_Clamp, 4, 5, 3), (Sub_Borrow, 0, 2, 5),
                    (Counted_Loop, 5, 4, 4), (Byte_Pack, 0, 1, 4), (Popcount_Loop, 4, 5, 1), (Halfword_Swap, 1, 4, 2)]\<rparr>"

definition case_0320 :: "(nat \<Rightarrow> u32) \<Rightarrow> case_program" where
  "case_0320 junk =
     \<lparr>case_id = 320,
      case_input = [0xd6c4227f, 0xe7f5d1f4, 0x780f4e37, 0xf4181963, 0x7fffffff, 0x3e770ab8, 0x7113bf7c, 0x52087c74,
                    0x3f5da9dc, 0xfcce61b3, 0xc52e3525, 0x34f950f4, 0x0000007f, 0x37332a62, 0x65075008, 0x49570ab6],
      case_kernel = ring_kernel junk 11 12,
      reg_inputs = [1, 5, 9, 13], reg5_init = 0xc5582740,
      memory_keys = [0x00000140, 0x00000280, 0x00000500, 0x00000a00, 0x00001400, 0x00002800, 0x00005000, 0x0000a000],
      case_stmts = [(Add_Carry, 1, 2, 1), (Minmax_Clamp, 2, 4, 3), (Add_Carry, 0, 0, 5), (Counted_Loop, 5, 1, 5),
                    (Minmax_Clamp, 5, 1, 4), (Carry_Chain, 3, 3, 4), (Endian_Swap, 2, 2, 2), (Rotate_Mix, 0, 4, 4),
                    (Compare_Select, 5, 4, 0), (Byte_Pack, 3, 1, 1), (Gray_Decode, 2, 2, 3), (Popcount_Loop, 2, 3, 4)]\<rparr>"

definition case_0321 :: "(nat \<Rightarrow> u32) \<Rightarrow> case_program" where
  "case_0321 junk =
     \<lparr>case_id = 321,
      case_input = [0x9646023e, 0xfbf484b3, 0x8d97ec31, 0x80000000, 0x7018a328, 0x80000000, 0x38e82005, 0x80fdbab8,
                    0xd81aa20d, 0xbd21d37c, 0x53a8c202, 0xeccfa385, 0x69901430, 0xaed53024, 0xb8bd4131, 0x6067fbc8],
      case_kernel = ring_kernel junk 5 13,
      reg_inputs = [2, 6, 10, 14], reg5_init = 0x638fa0f9,
      memory_keys = [0x00000141, 0x00000282, 0x00000504, 0x00000a08, 0x00001410, 0x00002820, 0x00005040, 0x0000a080],
      case_stmts = [(Sub_Borrow, 4, 3, 2), (Minmax_Clamp, 5, 4, 2), (Add_Carry, 4, 4, 5), (Gray_Decode, 2, 3, 0),
                    (Byte_Pack, 1, 1, 2), (Divide_Rem, 3, 5, 5), (Horner_Loop, 1, 1, 1), (Horner_Loop, 3, 3, 0),
                    (Array_Scatter, 4, 5, 3), (Reverse_Loop, 4, 3, 1), (Byte_Pack, 0, 4, 2), (Short_Circuit, 5, 1, 5)]\<rparr>"

definition case_0322 :: "(nat \<Rightarrow> u32) \<Rightarrow> case_program" where
  "case_0322 junk =
     \<lparr>case_id = 322,
      case_input = [0x57c062fd, 0xdff57b7b, 0x9b3caf7f, 0x00010b05, 0x87d89989, 0xec09303c, 0xfffffffe, 0x8a5eb932,
                    0xad0e7781, 0x72ae9c2f, 0x00000002, 0xe9f5aeef, 0x2e9f9067, 0xed878d34, 0x8ccc42f8, 0x1a2a84fe],
      case_kernel = ring_kernel junk 6 14,
      reg_inputs = [3, 7, 11, 15], reg5_init = 0x01c71ab2,
      memory_keys = [0x00000142, 0x00000284, 0x00000508, 0x00000a10, 0x00001420, 0x00002840, 0x00005080, 0x0000a100],
      case_stmts = [(Rotate_Mix, 5, 5, 0), (Minmax_Clamp, 0, 0, 1), (Add_Carry, 2, 1, 2), (Minmax_Clamp, 1, 1, 3),
                    (Horner_Loop, 5, 2, 0), (Rotate_Mix, 5, 5, 3), (Multiply_Low, 3, 1, 2), (Compare_Select, 5, 0, 1),
                    (Reverse_Loop, 5, 1, 2), (Minmax_Clamp, 0, 4, 1), (Endian_Swap, 0, 2, 5), (Divide_Rem, 5, 4, 1)]\<rparr>"

definition case_0323 :: "(nat \<Rightarrow> u32) \<Rightarrow> case_program" where
  "case_0323 junk =
     \<lparr>case_id = 323,
      case_input = [0x174242bc, 0x00000100, 0x6ea40d79, 0xa0087e23, 0x918d145c, 0xffea7b3f, 0x810acb86, 0xffffffff,
                    0x4a497c50, 0x33412ee0, 0xc32855ad, 0x31c35d9e, 0xf699538e, 0x74619772, 0x517653c1, 0x331a7580],
      case_kernel = ring_kernel junk 7 15,
      reg_inputs = [4, 8, 12, 0], reg5_init = 0x9ffe946b,
      memory_keys = [0x00000143, 0x00000286, 0x0000050c, 0x00000a18, 0x00001430, 0x00002860, 0x000050c0, 0x0000a180],
      case_stmts = [(Multiply_Low, 4, 0, 3), (Minmax_Clamp, 1, 0, 0), (Add_Carry, 0, 5, 2), (Sub_Borrow, 2, 5, 0),
                    (Add_Carry, 1, 4, 0), (Short_Circuit, 1, 1, 4), (Array_Scatter, 2, 4, 1), (Gray_Decode, 2, 5, 5),
                    (Mask_Merge, 4, 4, 1), (Sub_Borrow, 5, 4, 1), (Popcount_Loop, 2, 2, 2), (Mask_Merge, 0, 2, 4)]\<rparr>"

definition case_0324 :: "(nat \<Rightarrow> u32) \<Rightarrow> case_program" where
  "case_0324 junk =
     \<lparr>case_id = 324,
      case_input = [0xd4cca37a, 0x97f484ea, 0xbe688ca6, 0x1e2a3dae, 0xa7604014, 0x038bd2f4, 0x3fdd3d05, 0x2a924b48,
                    0x00000000, 0x6357b8c0, 0x494ad4ba, 0x306076c4, 0xe0c16026, 0xdec3971d, 0xec4fbc4d, 0x20c4038a],
      case_kernel = ring_kernel junk 8 12,
      reg_inputs = [5, 9, 13, 1], reg5_init = 0x3e360e24,
      memory_keys = [0x00000144, 0x00000288, 0x00000510, 0x00000a20, 0x00001440, 0x00002880, 0x00005100, 0x0000a200],
      case_stmts = [(Divide_Rem, 4, 1, 3), (Minmax_Clamp, 5, 3, 2), (Add_Carry, 0, 3, 4), (Gray_Decode, 2, 3, 5),
                    (Rotate_Mix, 0, 4, 5), (Horner_Loop, 4, 3, 4), (Divide_Rem, 5, 4, 4), (Gray_Decode, 1, 0, 1),
                    (Rotate_Mix, 1, 1, 2), (Rotate_Mix, 5, 5, 1), (Horner_Loop, 1, 2, 4), (Mask_Merge, 0, 5, 1)]\<rparr>"

definition case_0325 :: "case_program" where
  "case_0325 =
     \<lparr>case_id = 325,
      case_input = [0x00000000, 0x8bf5d1ad, 0x4bf02ea0, 0xbe234888, 0xb135cdc1, 0x106899f7, 0x7626a27c, 0xf8678d84,
                    0x10734f95, 0x22b80a0f, 0xdfcc239d, 0xe85685b5, 0x38c7a3cf, 0x47258d5b, 0x31f5ad74, 0x09f4f2f4],
      case_kernel = histogram_kernel 4,
      reg_inputs = [6, 10, 14, 2], reg5_init = 0xdc6d87dd,
      memory_keys = [0x00000145, 0x0000028a, 0x00000514, 0x00000a28, 0x00001450, 0x000028a0, 0x00005140, 0x0000a280],
      case_stmts = [(Mask_Merge, 5, 4, 2), (Minmax_Clamp, 2, 3, 3), (Add_Carry, 0, 1, 0), (Carry_Chain, 1, 3, 2),
                    (Sub_Borrow, 2, 0, 3), (Array_Scatter, 2, 1, 5), (Rotate_Mix, 2, 5, 3), (Reverse_Loop, 2, 1, 3),
                    (Sub_Borrow, 2, 4, 5), (Multiply_Low, 0, 3, 5), (Switch_Phi, 5, 2, 5), (Divide_Rem, 5, 3, 0)]\<rparr>"

definition case_0326 :: "case_program" where
  "case_0326 =
     \<lparr>case_id = 326,
      case_input = [0x55c8e3f8, 0x00000001, 0x5d5b6dee, 0xea332fc8, 0x46f5f760, 0xd1f5e870, 0x863fd686, 0xf2c48e0e,
                    0x65679a19, 0xed37455c, 0xd9ca4315, 0xed6c88df, 0x7fc82798, 0x0477304b, 0x0584aebd, 0x73b98dc2],
      case_kernel = histogram_kernel 5,
      reg_inputs = [7, 11, 15, 3], reg5_init = 0x7aa50196,
      memory_keys = [0x00000146, 0x0000028c, 0x00000518, 0x00000a30, 0x00001460, 0x000028c0, 0x00005180, 0x0000a300],
      case_stmts = [(Compare_Select, 2, 4, 0), (Minmax_Clamp, 1, 5, 2), (Add_Carry, 4, 2, 3), (Sub_Borrow, 0, 1, 5),
                    (Sub_Borrow, 0, 1, 3), (Horner_Loop, 2, 1, 5), (Rotate_Mix, 4, 3, 2), (Byte_Pack, 2, 4, 4),
                    (Carry_Chain, 1, 0, 0), (Endian_Swap, 0, 2, 1), (Popcount_Loop, 3, 2, 0), (Add_Carry, 5, 0, 0)]\<rparr>"

definition case_0327 :: "case_program" where
  "case_0327 =
     \<lparr>case_id = 327,
      case_input = [0x154ac3b9, 0xb3f57b22, 0x00000002, 0x4a3a5aee, 0x50a07ab5, 0xc216a373, 0xcfc449ff, 0x203148c2,
                    0x822091c8, 0xacd8f793, 0x4f4cb432, 0x355a7bae, 0xa7cee471, 0x9d912a0d, 0xd83ebf84, 0x5a897cbc],
      case_kernel = histogram_kernel 6,
      reg_inputs = [8, 12, 0, 4], reg5_init = 0x18dc7b4f,
      memory_keys = [0x00000147, 0x0000028e, 0x0000051c, 0x00000a38, 0x00001470, 0x000028e0, 0x000051c0, 0x0000a380],
      case_stmts = [(Byte_Pack, 1, 1, 3), (Minmax_Clamp, 0, 1, 3), (Add_Carry, 0, 2, 5), (Divide_Rem, 1, 1, 4),
                    (Carry_Chain, 2, 5, 1), (Endian_Swap, 0, 5, 0), (Minmax_Clamp, 5, 4, 1), (Counted_Loop, 3, 3, 2),
                    (Sub_Borrow, 4, 3, 5), (Divide_Rem, 3, 2, 3), (Sub_Borrow, 5, 0, 3), (Mask_Merge, 2, 2, 1)]\<rparr>"

definition case_0328 :: "case_program" where
  "case_0328 =
     \<lparr>case_id = 328,
      case_input = [0xd2d52075, 0x07f77bc8, 0xf4c0cb14, 0x00000003, 0xe617f32e, 0x4588ba21, 0x758816ca, 0x0733ea37,
                    0xcbb49222, 0xff009a93, 0xa57c940c, 0xa38041af, 0xf1d0b69e, 0xa5458370, 0xeee109de, 0x1abfa83a],
      case_kernel = histogram_kernel 7,
      reg_inputs = [9, 13, 1, 5], reg5_init = 0xb713f508,
      memory_keys = [0x00000148, 0x00000290, 0x00000520, 0x00000a40, 0x00001480, 0x00002900, 0x00005200, 0x0000a400],
      case_stmts = [(Halfword_Swap, 3, 3, 2), (Minmax_Clamp, 3, 0, 1), (Add_Carry, 2, 3, 1), (Minmax_Clamp, 3, 1, 1),
                    (Halfword_Swap, 5, 4, 1), (Mask_Merge, 4, 2, 3), (Gray_Decode, 0, 2, 3), (Sub_Borrow, 2, 4, 3),
                    (Gray_Decode, 5, 3, 4), (Endian_Swap, 2, 3, 3), (Add_Carry, 4, 5, 5), (Horner_Loop, 0, 3, 0)]\<rparr>"

definition case_0329 :: "case_program" where
  "case_0329 =
     \<lparr>case_id = 329,
      case_input = [0x92570034, 0x1bf62e8f, 0x01586912, 0x807525df, 0x0000007f, 0x566bf122, 0x3c7389b3, 0xd5c62cfb,
                    0x2cf399f3, 0xbeef285c, 0x33fa632b, 0x7bb6b2de, 0x29d67577, 0x3ca39936, 0x335b18e7, 0x338f5944],
      case_kernel = histogram_kernel 8,
      reg_inputs = [10, 14, 2, 6], reg5_init = 0x554b6ec1,
      memory_keys = [0x00000149, 0x00000292, 0x00000524, 0x00000a48, 0x00001490, 0x00002920, 0x00005240, 0x0000a480],
      case_stmts = [(Array_Scatter, 2, 4, 1), (Minmax_Clamp, 2, 0, 0), (Add_Carry, 2, 5, 5), (Sub_Borrow, 4, 5, 0),
                    (Switch_Phi, 5, 2, 5), (Gray_Decode, 4, 2, 2), (Array_Scatter, 1, 1, 0), (Add_Carry, 3, 1, 1),
                    (Add_Carry, 0, 0, 5), (Halfword_Swap, 5, 3, 1), (Divide_Rem, 2, 5, 2), (Compare_Select, 5, 1, 1)]\<rparr>"

definition case_0330 :: "case_program" where
  "case_0330 =
     \<lparr>case_id = 330,
      case_input = [0x53d160f7, 0x3ff7d147, 0x17f32a5c, 0xd465429f, 0x0782445a, 0x00000080, 0xcc6afd49, 0xdf652f71,
                    0x59e74c7f, 0x7160670f, 0x35fc03a3, 0x7e8cbfb4, 0x6ed9f120, 0x7ff12426, 0x072a1b2e, 0x49c22672],
      case_kernel = histogram_kernel 9,
      reg_inputs = [11, 15, 3, 7], reg5_init = 0xf382e87a,
      memory_keys = [0x0000014a, 0x00000294, 0x00000528, 0x00000a50, 0x000014a0, 0x00002940, 0x00005280, 0x0000a500],
      case_stmts = [(Counted_Loop, 1, 4, 5), (Minmax_Clamp, 1, 2, 5), (Add_Carry, 4, 4, 2), (Compare_Select, 3, 5, 5),
                    (Switch_Phi, 1, 3, 5), (Popcount_Loop, 2, 2, 0), (Sub_Borrow, 3, 3, 3), (Mask_Merge, 3, 4, 0),
                    (Gray_Decode, 1, 0, 2), (Carry_Chain, 5, 4, 3), (Counted_Loop, 2, 1, 5), (Reverse_Loop, 3, 2, 1)]\<rparr>"

definition case_0331 :: "case_program" where
  "case_0331 =
     \<lparr>case_id = 331,
      case_input = [0x135340b6, 0x23f68400, 0xe26b885a, 0x746c37b9, 0x11d7c98f, 0x8415cba6, 0x000000ff, 0x0d90e9bd,
                    0xbea047ae, 0x308fd5c0, 0xa37af484, 0xa6ba4cc5, 0xb6df32c9, 0xe6173e60, 0xda900a17, 0x60f2d70c],
      case_kernel = histogram_kernel 10,
      reg_inputs = [12, 0, 4, 8], reg5_init = 0x91ba6233,
      memory_keys = [0x0000014b, 0x00000296, 0x0000052c, 0x00000a58, 0x000014b0, 0x00002960, 0x000052c0, 0x0000a580],
      case_stmts = [(Switch_Phi, 4, 5, 2), (Minmax_Clamp, 2, 0, 4), (Add_Carry, 4, 4, 4), (Switch_Phi, 4, 1, 4),
                    (Add_Carry, 5, 1, 1), (Byte_Pack, 4, 2, 3), (Gray_Decode, 0, 2, 2), (Divide_Rem, 2, 3, 4),
                    (Halfword_Swap, 0, 3, 1), (Byte_Pack, 0, 0, 3), (Carry_Chain, 4, 3, 0), (Horner_Loop, 2, 4, 2)]\<rparr>"

definition case_0332 :: "case_program" where
  "case_0332 =
     \<lparr>case_id = 332,
      case_input = [0xd0dda170, 0x77f62ed6, 0x32a70985, 0xca4e7434, 0x273a9dc7, 0x7874626d, 0x3b4694b3, 0x00000100,
                    0x03dd7fba, 0x609943e0, 0x29187593, 0xa719679f, 0xa0870161, 0x4cb53e0f, 0x67a9e59b, 0x732ca106],
      case_kernel = histogram_kernel 11,
      reg_inputs = [13, 1, 5, 9], reg5_init = 0x2ff1dbec,
      memory_keys = [0x0000014c, 0x00000298, 0x00000530, 0x00000a60, 0x000014c0, 0x00002980, 0x00005300, 0x0000a600],
      case_stmts = [(Short_Circuit, 4, 4, 2), (Minmax_Clamp, 2, 5, 2), (Add_Carry, 2, 2, 4), (Sub_Borrow, 0, 3, 5),
                    (Compare_Select, 4, 5, 4), (Halfword_Swap, 1, 0, 1), (Rotate_Mix, 5, 0, 3), (Minmax_Clamp, 3, 2, 4),
                    (Gray_Decode, 5, 4, 0), (Add_Carry, 4, 1, 5), (Halfword_Swap, 5, 5, 2), (Horner_Loop, 0, 1, 1)]\<rparr>"

definition case_0333 :: "case_program" where
  "case_0333 =
     \<lparr>case_id = 333,
      case_input = [0x905f8131, 0x6bf77b91, 0xc73fab83, 0x6a470112, 0x316f1012, 0x6b97296e, 0x72bd0bca, 0xad5c1bc7,
                    0x7fffffff, 0x2176f12f, 0xbf9e82b4, 0x7f2f94ee, 0x7881c288, 0xd5532449, 0xba13f4a2, 0x5a1c5078],
      case_kernel = histogram_kernel 12,
      reg_inputs = [14, 2, 6, 10], reg5_init = 0xce2955a5,
      memory_keys = [0x0000014d, 0x0000029a, 0x00000534, 0x00000a68, 0x000014d0, 0x000029a0, 0x00005340, 0x0000a680],
      case_stmts = [(Popcount_Loop, 5, 1, 5), (Minmax_Clamp, 1, 1, 1), (Add_Carry, 0, 0, 4), (Divide_Rem, 1, 1, 4),
                    (Popcount_Loop, 2, 5, 0), (Carry_Chain, 5, 2, 4), (Add_Carry, 2, 3, 0), (Sub_Borrow, 2, 1, 4),
                    (Minmax_Clamp, 4, 1, 1), (Popcount_Loop, 5, 3, 1), (Halfword_Swap, 5, 5, 1),
                    (Compare_Select, 5, 5, 4)]\<rparr>"

definition case_0334 :: "case_program" where
  "case_0334 =
     \<lparr>case_id = 334,
      case_input = [0x51d9e1f2, 0x4ff68459, 0xd194e8cd, 0x3e576652, 0xc6af2ab3, 0xaa0a58e9, 0x82a47f30, 0xa7ff184d,
                    0x918ea1e7, 0x80000000, 0xb998e23c, 0x7a159984, 0x3f8e46df, 0x96019959, 0x8e62f76b, 0x20512f4e],
      case_kernel = histogram_kernel 13,
      reg_inputs = [15, 3, 7, 11], reg5_init = 0x6c60cf5e,
      memory_keys = [0x0000014e, 0x0000029c, 0x00000538, 0x00000a70, 0x000014e0, 0x000029c0, 0x00005380, 0x0000a700],
      case_stmts = [(Reverse_Loop, 2, 1, 5), (Minmax_Clamp, 2, 1, 2), (Add_Carry, 0, 3, 1), (Switch_Phi, 0, 3, 5),
                    (Sub_Borrow, 2, 2, 0), (Add_Carry, 3, 4, 0), (Short_Circuit, 2, 3, 5), (Minmax_Clamp, 4, 2, 1),
                    (Switch_Phi, 3, 3, 0), (Gray_Decode, 3, 0, 3), (Counted_Loop, 5, 3, 4), (Reverse_Loop, 5, 2, 2)]\<rparr>"

definition case_0335 :: "case_program" where
  "case_0335 =
     \<lparr>case_id = 335,
      case_input = [0x115bc1b3, 0x53f7d11e, 0x240c4acb, 0x9e5e1374, 0xd0faa766, 0xb9e913ea, 0xcb5fe049, 0x750ade81,
                    0x76c9aa36, 0xaf160cb3, 0xfffffffe, 0xa2236af5, 0xe7888536, 0x0fe7831f, 0x53d8e652, 0x0961de30],
      case_kernel = histogram_kernel 14,
      reg_inputs = [0, 4, 8, 12], reg5_init = 0x0a984917,
      memory_keys = [0x0000014f, 0x0000029e, 0x0000053c, 0x00000a78, 0x000014f0, 0x000029e0, 0x000053c0, 0x0000a780],
      case_stmts = [(Gray_Decode, 5, 2, 4), (Minmax_Clamp, 3, 5, 5), (Add_Carry, 4, 3, 5), (Reverse_Loop, 5, 3, 2),
                    (Counted_Loop, 2, 4, 0), (Carry_Chain, 3, 0, 1), (Compare_Select, 1, 4, 0),
                    (Popcount_Loop, 5, 5, 3), (Halfword_Swap, 4, 0, 5), (Carry_Chain, 4, 4, 5), (Counted_Loop, 3, 5, 5),
                    (Gray_Decode, 0, 2, 3)]\<rparr>"

definition case_0336 :: "case_program" where
  "case_0336 =
     \<lparr>case_id = 336,
      case_input = [0xdee6266b, 0x27f0858c, 0x63904471, 0x5ed68a56, 0xfdf8381e, 0xf4873ef5, 0x231759a0, 0x04b101c1,
                    0x6fd5b87a, 0x85731922, 0x6f880368, 0xffffffff, 0x99bf77bc, 0x663b6a30, 0x293d1e8a, 0xcb7eeada],
      case_kernel = histogram_kernel 15,
      reg_inputs = [1, 5, 9, 13], reg5_init = 0xa8cfc2d0,
      memory_keys = [0x00000150, 0x000002a0, 0x00000540, 0x00000a80, 0x00001500, 0x00002a00, 0x00005400, 0x0000a800],
      case_stmts = [(Minmax_Clamp, 4, 5, 3), (Minmax_Clamp, 5, 0, 3), (Add_Carry, 0, 4, 2), (Reverse_Loop, 2, 4, 3),
                    (Divide_Rem, 5, 0, 4), (Add_Carry, 2, 3, 0), (Halfword_Swap, 0, 0, 0), (Popcount_Loop, 1, 0, 4),
                    (Switch_Phi, 3, 3, 0), (Gray_Decode, 2, 0, 4), (Counted_Loop, 1, 2, 2), (Multiply_Low, 0, 2, 3)]\<rparr>"

definition case_0337 :: "case_program" where
  "case_0337 =
     \<lparr>case_id = 337,
      case_input = [0x9e64062a, 0x3bf1d0cb, 0x9608e677, 0xfedfff70, 0x00000000, 0xe76475f6, 0x6aecc6d9, 0xd644c70d,
                    0x8892b3ab, 0xc49cabed, 0xf90ef44f, 0x7df815f5, 0x00000000, 0xffdd7076, 0xf4870fb3, 0xe24e1ba4],
      case_kernel = histogram_kernel 4,
      reg_inputs = [2, 6, 10, 14], reg5_init = 0x47073c89,
      memory_keys = [0x00000151, 0x000002a2, 0x00000544, 0x00000a88, 0x00001510, 0x00002a20, 0x00005440, 0x0000a880],
      case_stmts = [(Endian_Swap, 1, 4, 4), (Minmax_Clamp, 4, 0, 4), (Add_Carry, 0, 2, 0), (Multiply_Low, 3, 0, 0),
                    (Multiply_Low, 1, 0, 2), (Reverse_Loop, 2, 1, 5), (Reverse_Loop, 5, 1, 5), (Minmax_Clamp, 4, 3, 2),
                    (Halfword_Swap, 2, 2, 3), (Rotate_Mix, 5, 0, 0), (Carry_Chain, 1, 4, 5), (Reverse_Loop, 1, 4, 0)]\<rparr>"

definition case_0338 :: "case_program" where
  "case_0338 =
     \<lparr>case_id = 338,
      case_input = [0x5fe266e9, 0x1ff02f03, 0x80a3a539, 0xaacf9830, 0x1c6d8f6a, 0x26f90471, 0x9af5b223, 0xdce7c487,
                    0xfd866627, 0x0b13e4be, 0xff0894c7, 0x00000080, 0x06b63002, 0x00000001, 0xc0f60c7a, 0x98036492],
      case_kernel = histogram_kernel 5,
      reg_inputs = [3, 7, 11, 15], reg5_init = 0xe53eb642,
      memory_keys = [0x00000152, 0x000002a4, 0x00000548, 0x00000a90, 0x00001520, 0x00002a40, 0x00005480, 0x0000a900],
      case_stmts = [(Carry_Chain, 2, 4, 0), (Minmax_Clamp, 5, 0, 1), (Add_Carry, 4, 1, 3), (Add_Carry, 2, 4, 3),
                    (Switch_Phi, 1, 1, 4), (Add_Carry, 2, 5, 5), (Compare_Select, 3, 5, 4), (Sub_Borrow, 2, 2, 5),
                    (Horner_Loop, 3, 2, 2), (Divide_Rem, 3, 1, 4), (Minmax_Clamp, 1, 0, 2), (Rotate_Mix, 1, 5, 2)]\<rparr>"

definition case_0339 :: "case_program" where
  "case_0339 =
     \<lparr>case_id = 339,
      case_input = [0x1f6046a8, 0x03f17a44, 0xfffffffe, 0x0ac6ed16, 0x0a3802bf, 0x351a4f72, 0xd30e2d5a, 0x0e12024b,
                    0x1ac16df6, 0x4afc5671, 0x698e63e0, 0xa0f4ebee, 0xdeb0f3eb, 0x2569d720, 0x00000002, 0xb13395ec],
      case_kernel = histogram_kernel 6,
      reg_inputs = [4, 8, 12, 0], reg5_init = 0x83762ffb,
      memory_keys = [0x00000153, 0x000002a6, 0x0000054c, 0x00000a98, 0x00001530, 0x00002a60, 0x000054c0, 0x0000a980],
      case_stmts = [(Horner_Loop, 1, 1, 3), (Minmax_Clamp, 0, 4, 2), (Add_Carry, 4, 3, 3), (Array_Scatter, 1, 0, 2),
                    (Add_Carry, 1, 5, 2), (Compare_Select, 0, 3, 4), (Divide_Rem, 0, 0, 1), (Divide_Rem, 3, 3, 1),
                    (Add_Carry, 2, 5, 1), (Mask_Merge, 2, 1, 4), (Minmax_Clamp, 5, 2, 3), (Gray_Decode, 2, 5, 3)]\<rparr>"

definition case_0340 :: "case_program" where
  "case_0340 =
     \<lparr>case_id = 340,
      case_input = [0xdceea76e, 0x57f1d092, 0xa5f786e0, 0xb4e4ae9b, 0x3cd556f7, 0xc97be6b9, 0x6dd9dbd9, 0x7c2b36fd,
                    0xa7bc55e2, 0x00000003, 0xe3ece2f7, 0xa157c0b4, 0xc8e8c043, 0x8fcbd74f, 0xa075f2cf, 0x00000003],
      case_kernel = histogram_kernel 7,
      reg_inputs = [5, 9, 13, 1], reg5_init = 0x21ada9b4,
      memory_keys = [0x00000154, 0x000002a8, 0x00000550, 0x00000aa0, 0x00001540, 0x00002a80, 0x00005500, 0x0000aa00],
      case_stmts = [(Add_Carry, 1, 4, 3), (Endian_Swap, 4, 1, 4), (Add_Carry, 4, 1, 3), (Switch_Phi, 1, 4, 3),
                    (Reverse_Loop, 2, 3, 5), (Mask_Merge, 3, 1, 0), (Mask_Merge, 1, 4, 2), (Divide_Rem, 2, 2, 5),
                    (Byte_Pack, 5, 2, 4), (Compare_Select, 2, 2, 4), (Counted_Loop, 4, 2, 1), (Multiply_Low, 0, 2, 2)]\<rparr>"

definition case_0341 :: "case_program" where
  "case_0341 =
     \<lparr>case_id = 341,
      case_input = [0x7fffffff, 0x4bf085d5, 0x506f24e6, 0x14eddbbd, 0x2a80db22, 0xda98adba, 0x242244a0, 0xaedef031,
                    0x40fb5e33, 0x5b05729e, 0x756a15d0, 0x796133c5, 0x10ee03aa, 0x162dcd09, 0x7dcfe3f6, 0x8bdd1298],
      case_kernel = histogram_kernel 8,
      reg_inputs = [6, 10, 14, 2], reg5_init = 0xbfe5236d,
      memory_keys = [0x00000155, 0x000002aa, 0x00000554, 0x00000aa8, 0x00001550, 0x00002aa0, 0x00005540, 0x0000aa80],
      case_stmts = [(Sub_Borrow, 0, 1, 0), (Endian_Swap, 3, 3, 1), (Add_Carry, 2, 1, 1), (Carry_Chain, 2, 4, 0),
                    (Sub_Borrow, 4, 3, 1), (Gray_Decode, 1, 1, 5), (Horner_Loop, 0, 5, 1), (Popcount_Loop, 1, 3, 5),
                    (Add_Carry, 4, 5, 1), (Multiply_Low, 3, 4, 2), (Rotate_Mix, 4, 2, 4), (Counted_Loop, 5, 2, 5)]\<rparr>"

definition case_0342 :: "case_program" where
  "case_0342 =
     \<lparr>case_id = 342,
      case_input = [0x5deae7ec, 0x00000080, 0x46c467a8, 0x40fdbcfd, 0xdd40e183, 0x1b05dc3d, 0xd43b305a, 0x00000001,
                    0x35ef8bbf, 0x948a3dcd, 0x736c7558, 0x7c5b3eaf, 0x57e187fd, 0x557f7019, 0x49bee03f, 0xf1906dae],
      case_kernel = histogram_kernel 9,
      reg_inputs = [7, 11, 15, 3], reg5_init = 0x5e1c9d26,
      memory_keys = [0x00000156, 0x000002ac, 0x00000558, 0x00000ab0, 0x00001560, 0x00002ac0, 0x00005580, 0x0000ab00],
      case_stmts = [(Rotate_Mix, 3, 5, 2), (Endian_Swap, 4, 1, 4), (Add_Carry, 2, 2, 2), (Endian_Swap, 1, 4, 3),
                    (Array_Scatter, 0, 4, 1), (Endian_Swap, 5, 3, 1), (Byte_Pack, 2, 1, 2), (Add_Carry, 5, 0, 4),
                    (Multiply_Low, 3, 5, 4), (Endian_Swap, 5, 3, 0), (Divide_Rem, 0, 2, 3), (Compare_Select, 1, 5, 5)]\<rparr>"

definition case_0343 :: "case_program" where
  "case_0343 =
     \<lparr>case_id = 343,
      case_input = [0x1d68c7ad, 0x73f02f5a, 0x000000ff, 0xe0f4c9db, 0xcb156c56, 0x08e6973e, 0x9dc0af23, 0x76883577,
                    0xd2a8806e, 0xd5658f02, 0xe5ea827f, 0xa46dcdde, 0x8fe74414, 0xcc996a5f, 0x000000ff, 0xd8a09cd0],
      case_kernel = histogram_kernel 10,
      reg_inputs = [8, 12, 0, 4], reg5_init = 0xfc5416df,
      memory_keys = [0x00000157, 0x000002ae, 0x0000055c, 0x00000ab8, 0x00001570, 0x00002ae0, 0x000055c0, 0x0000ab80],
      case_stmts = [(Multiply_Low, 4, 4, 5), (Endian_Swap, 5, 3, 1), (Add_Carry, 4, 0, 2), (Divide_Rem, 4, 2, 0),
                    (Reverse_Loop, 0, 2, 5), (Multiply_Low, 1, 3, 0), (Sub_Borrow, 3, 2, 3), (Endian_Swap, 0, 5, 4),
                    (Add_Carry, 2, 2, 5), (Divide_Rem, 4, 1, 4), (Minmax_Clamp, 4, 4, 4), (Horner_Loop, 2, 1, 4)]\<rparr>"

definition case_0344 :: "case_program" where
  "case_0344 =
     \<lparr>case_id = 344,
      case_input = [0xdaf72461, 0xc7f22fb0, 0xef5fc152, 0x00000100, 0x7da2e5cd, 0xffffffff, 0x278cf016, 0x518a9782,
                    0x9b3c8384, 0x86bde202, 0x0fdaa241, 0x32b7f7df, 0xd9f916fb, 0xf44dc322, 0xa2db475c, 0x98964856],
      case_kernel = histogram_kernel 11,
      reg_inputs = [9, 13, 1, 5], reg5_init = 0x9a8b9098,
      memory_keys = [0x00000158, 0x000002b0, 0x00000560, 0x00000ac0, 0x00001580, 0x00002b00, 0x00005600, 0x0000ac00],
      case_stmts = [(Divide_Rem, 2, 4, 4), (Endian_Swap, 0, 2, 3), (Add_Carry, 2, 3, 0), (Add_Carry, 2, 0, 1),
                    (Add_Carry, 3, 5, 5), (Horner_Loop, 1, 0, 1), (Rotate_Mix, 0, 4, 3), (Compare_Select, 5, 0, 1),
                    (Compare_Select, 3, 4, 4), (Popcount_Loop, 5, 2, 2), (Mask_Merge, 1, 1, 4),
                    (Array_Scatter, 2, 0, 3)]\<rparr>"

definition case_0345 :: "case_program" where
  "case_0345 =
     \<lparr>case_id = 345,
      case_input = [0x9a750420, 0xdbf37af7, 0x1ac76354, 0x2abbb6ea, 0x7fffffff, 0x9c9bc56f, 0x6e776f6f, 0x837f514e,
                    0x7c7b8855, 0xc75250cd, 0x995c5566, 0xea8104ae, 0x0000007f, 0x6dabd964, 0x7f615665, 0xb1a6b928],
      case_kernel = histogram_kernel 12,
      reg_inputs = [10, 14, 2, 6], reg5_init = 0x38c30a51,
      memory_keys = [0x00000159, 0x000002b2, 0x00000564, 0x00000ac8, 0x00001590, 0x00002b20, 0x00005640, 0x0000ac80],
      case_stmts = [(Mask_Merge, 5, 1, 3), (Endian_Swap, 1, 4, 2), (Add_Carry, 4, 1, 0), (Array_Scatter, 1, 0, 4),
                    (Switch_Phi, 3, 5, 3), (Popcount_Loop, 1, 2, 4), (Short_Circuit, 1, 5, 0), (Horner_Loop, 4, 1, 1),
                    (Endian_Swap, 4, 1, 1), (Halfword_Swap, 2, 4, 2), (Sub_Borrow, 1, 3, 1), (Divide_Rem, 1, 0, 4)]\<rparr>"

definition case_0346 :: "case_program" where
  "case_0346 =
     \<lparr>case_id = 346,
      case_input = [0x5bf364e3, 0xfff2853f, 0x0c6c201a, 0x80000000, 0x9c3752b9, 0x80000000, 0x9e6e1b95, 0x89dc52c4,
                    0x096f5dd9, 0x08dd1f9e, 0x9f5a35ee, 0xefbb09c4, 0x46f05145, 0x2ef96474, 0x4b1055ac, 0xcbebc61e],
      case_kernel = histogram_kernel 13,
      reg_inputs = [11, 15, 3, 7], reg5_init = 0xd6fa840a,
      memory_keys = [0x0000015a, 0x000002b4, 0x00000568, 0x00000ad0, 0x000015a0, 0x00002b40, 0x00005680, 0x0000ad00],
      case_stmts = [(Compare_Select, 4, 3, 1), (Endian_Swap, 4, 2, 1), (Add_Carry, 4, 0, 1), (Counted_Loop, 0, 0, 3),
                    (Horner_Loop, 3, 0, 1), (Switch_Phi, 3, 2, 0), (Halfword_Swap, 5, 1, 5), (Rotate_Mix, 2, 4, 2),
                    (Reverse_Loop, 1, 1, 4), (Compare_Select, 0, 5, 4), (Byte_Pack, 3, 1, 0), (Minmax_Clamp, 3, 1, 0)]\<rparr>"

definition case_0347 :: "case_program" where
  "case_0347 =
     \<lparr>case_id = 347,
      case_input = [0x1b7144a2, 0xe3f3d078, 0xf9f4821c, 0xdea2a48c, 0x8a62df6c, 0x4ee5ffeb, 0xfffffffe, 0x5b299408,
                    0xee285608, 0x4932ad51, 0x00000002, 0x378dfab5, 0x9ef692ac, 0xb71f7e32, 0x96aa4495, 0xe2db3760],
      case_kernel = histogram_kernel 14,
      reg_inputs = [12, 0, 4, 8], reg5_init = 0x7531fdc3,
      memory_keys = [0x0000015b, 0x000002b6, 0x0000056c, 0x00000ad8, 0x000015b0, 0x00002b60, 0x000056c0, 0x0000ad80],
      case_stmts = [(Byte_Pack, 5, 2, 4), (Endian_Swap, 5, 2, 2), (Add_Carry, 4, 4, 5), (Horner_Loop, 3, 0, 2),
                    (Minmax_Clamp, 5, 0, 3), (Endian_Swap, 3, 2, 3), (Counted_Loop, 2, 0, 2), (Switch_Phi, 5, 5, 2),
                    (Endian_Swap, 2, 0, 1), (Horner_Loop, 5, 1, 4), (Horner_Loop, 5, 5, 1), (Array_Scatter, 0, 5, 5)]\<rparr>"

definition case_0348 :: "case_program" where
  "case_0348 =
     \<lparr>case_id = 348,
      case_input = [0xd8ffa564, 0x00000100, 0x293803c3, 0x6080e701, 0xbc8f8b24, 0xb2845620, 0x6942726f, 0xffffffff,
                    0x53556e1c, 0x19243b71, 0x83be43de, 0x362ed1ef, 0x88aea104, 0x1dbd7e5d, 0x2b93ab19, 0xf105416a],
      case_kernel = histogram_kernel 15,
      reg_inputs = [13, 1, 5, 9], reg5_init = 0x1369777c,
      memory_keys = [0x0000015c, 0x000002b8, 0x00000570, 0x00000ae0, 0x000015c0, 0x00002b80, 0x00005700, 0x0000ae00],
      case_stmts = [(Halfword_Swap, 1, 3, 0), (Endian_Swap, 1, 5, 2), (Add_Carry, 0, 4, 5), (Endian_Swap, 3, 2, 5),
                    (Reverse_Loop, 2, 4, 2), (Carry_Chain, 4, 4, 1), (Byte_Pack, 3, 2, 3), (Horner_Loop, 2, 2, 4),
                    (Carry_Chain, 5, 3, 0), (Minmax_Clamp, 1, 0, 0), (Sub_Borrow, 2, 5, 3), (Sub_Borrow, 2, 2, 4)]\<rparr>"

definition case_0349 :: "case_program" where
  "case_0349 =
     \<lparr>case_id = 349,
      case_input = [0x987d8525, 0xabf22fe9, 0xdca0a1c5, 0xc0899227, 0xaada06f1, 0xa1671d23, 0x20b9ed16, 0xfbe56672,
                    0x00000000, 0x58cb89be, 0x1538b4f9, 0xee18229e, 0x50a862ed, 0x845b641b, 0xf629ba20, 0xd835b014],
      case_kernel = histogram_kernel 4,
      reg_inputs = [14, 2, 6, 10], reg5_init = 0xb1a0f135,
      memory_keys = [0x0000015d, 0x000002ba, 0x00000574, 0x00000ae8, 0x000015d0, 0x00002ba0, 0x00005740, 0x0000ae80],
      case_stmts = [(Array_Scatter, 4, 4, 1), (Endian_Swap, 2, 3, 5), (Add_Carry, 2, 4, 5), (Divide_Rem, 4, 2, 2),
                    (Array_Scatter, 4, 4, 4), (Divide_Rem, 2, 2, 0), (Endian_Swap, 2, 1, 0), (Carry_Chain, 5, 3, 0),
                    (Mask_Merge, 2, 0, 1), (Sub_Borrow, 2, 2, 2), (Sub_Borrow, 0, 5, 4), (Add_Carry, 5, 2, 3)]\<rparr>"

definition case_0350 :: "case_program" where
  "case_0350 =
     \<lparr>case_id = 350,
      case_input = [0x00000000, 0x8ff3d021, 0xca0be28b, 0x9499f567, 0x5d1a3c50, 0x60fa6ca4, 0xd0a099ec, 0xf14665f8,
                    0xc106b041, 0x9744c6ed, 0x133ed471, 0xeb222ff4, 0x17a7e6ba, 0xc709d90b, 0xc258b9e9, 0xa278cf22],
      case_kernel = matrix3_kernel,
      reg_inputs = [15, 3, 7, 11], reg5_init = 0x4fd86aee,
      memory_keys = [0x0000015e, 0x000002bc, 0x00000578, 0x00000af0, 0x000015e0, 0x00002bc0, 0x00005780, 0x0000af00],
      case_stmts = [(Counted_Loop, 3, 2, 3), (Endian_Swap, 1, 1, 0), (Add_Carry, 4, 5, 4), (Byte_Pack, 3, 0, 5),
                    (Popcount_Loop, 4, 1, 2), (Reverse_Loop, 0, 4, 2), (Popcount_Loop, 4, 3, 3), (Gray_Decode, 5, 2, 3),
                    (Counted_Loop, 3, 0, 2), (Multiply_Low, 0, 1, 0), (Gray_Decode, 0, 3, 3), (Halfword_Swap, 3, 5, 1)]\<rparr>"

definition case_0351 :: "case_program" where
  "case_0351 =
     \<lparr>case_id = 351,
      case_input = [0x1979c5a7, 0x00000001, 0x3f93408d, 0x34908041, 0x4b4fb185, 0x731927a7, 0x995b0695, 0x23b3a334,
                    0x2641bb90, 0xd6ab7422, 0x85b82356, 0x3314dc85, 0xcfa12553, 0x5eefc34d, 0x1fe2a8d0, 0x8b483e5c],
      case_kernel = matrix3_kernel,
      reg_inputs = [0, 4, 8, 12], reg5_init = 0xee0fe4a7,
      memory_keys = [0x0000015f, 0x000002be, 0x0000057c, 0x00000af8, 0x000015f0, 0x00002be0, 0x000057c0, 0x0000af80],
      case_stmts = [(Switch_Phi, 4, 5, 4), (Endian_Swap, 4, 5, 1), (Add_Carry, 2, 5, 2), (Reverse_Loop, 0, 4, 2),
                    (Counted_Loop, 4, 5, 2), (Minmax_Clamp, 2, 0, 1), (Horner_Loop, 1, 4, 0), (Carry_Chain, 2, 3, 1),
                    (Popcount_Loop, 2, 1, 3), (Carry_Chain, 1, 3, 4), (Gray_Decode, 4, 1, 2), (Sub_Borrow, 4, 3, 0)]\<rparr>"

definition case_0352 :: "case_program" where
  "case_0352 =
     \<lparr>case_id = 352,
      case_input = [0xc6802a57, 0x67ff7905, 0x00000002, 0xa3813f09, 0xc2270b3b, 0x28916a32, 0xf71a9380, 0xa0367b35,
                    0x54b1c847, 0x6d0b364e, 0x8ccbb1a2, 0x882a7a30, 0x46fa25ad, 0xa1dd1d07, 0x6918070c, 0x5470f967],
      case_kernel = matrix3_kernel,
      reg_inputs = [1, 5, 9, 13], reg5_init = 0x8c475e60,
      memory_keys = [0x00000160, 0x000002c0, 0x00000580, 0x00000b00, 0x00001600, 0x00002c00, 0x00005800, 0x0000b000],
      case_stmts = [(Short_Circuit, 0, 1, 3), (Endian_Swap, 2, 1, 3), (Add_Carry, 5, 4, 2), (Rotate_Mix, 1, 0, 0),
                    (Endian_Swap, 0, 1, 0), (Horner_Loop, 4, 0, 1), (Horner_Loop, 3, 0, 4), (Short_Circuit, 4, 3, 4),
                    (Halfword_Swap, 5, 1, 0), (Horner_Loop, 0, 1, 3), (Compare_Select, 4, 0, 3),
                    (Carry_Chain, 0, 5, 4)]\<rparr>"

definition case_0353 :: "case_program" where
  "case_0353 =
     \<lparr>case_id = 353,
      case_input = [0x86020a16, 0x7bfe2c42, 0xb8a9f8bc, 0x00000003, 0xd47286ee, 0x3b722131, 0xbee10cf9, 0x72c3bdf9,
                    0xb3f6c396, 0x2ce48481, 0x1a4d4685, 0x501c8941, 0x9efce644, 0x383b0741, 0xb4a21635, 0x7d400819],
      case_kernel = matrix3_kernel,
      reg_inputs = [2, 6, 10, 14], reg5_init = 0x2a7ed819,
      memory_keys = [0x00000161, 0x000002c2, 0x00000584, 0x00000b08, 0x00001610, 0x00002c20, 0x00005840, 0x0000b080],
      case_stmts = [(Popcount_Loop, 3, 2, 0), (Endian_Swap, 5, 1, 2), (Add_Carry, 5, 4, 4), (Byte_Pack, 2, 4, 5),
                    (Reverse_Loop, 2, 5, 0), (Endian_Swap, 0, 4, 4), (Sub_Borrow, 4, 1, 1), (Mask_Merge, 1, 2, 2),
                    (Switch_Phi, 2, 2, 3), (Carry_Chain, 3, 1, 1), (Rotate_Mix, 2, 0, 0), (Gray_Decode, 3, 1, 1)]\<rparr>"

definition case_0354 :: "case_program" where
  "case_0354 =
     \<lparr>case_id = 354,
      case_input = [0x47846ad5, 0x5fffd38a, 0xae02bbf2, 0x57982d6f, 0x0000007f, 0xfaef50b6, 0x4ef87803, 0x7860be73,
                    0xc6e2161a, 0xe36bcbd2, 0x1c4b260d, 0x5526842b, 0xd9f36213, 0x7b69ba51, 0x80d315fc, 0x070d772f],
      case_kernel = matrix3_kernel,
      reg_inputs = [3, 7, 11, 15], reg5_init = 0xc8b651d2,
      memory_keys = [0x00000162, 0x000002c4, 0x00000588, 0x00000b10, 0x00001620, 0x00002c40, 0x00005880, 0x0000b100],
      case_stmts = [(Reverse_Loop, 0, 4, 4), (Endian_Swap, 2, 1, 3), (Add_Carry, 5, 1, 1), (Add_Carry, 5, 4, 2),
                    (Carry_Chain, 0, 2, 2), (Gray_Decode, 4, 2, 0), (Endian_Swap, 2, 5, 0), (Short_Circuit, 1, 5, 5),
                    (Minmax_Clamp, 1, 2, 2), (Halfword_Swap, 5, 2, 5), (Add_Carry, 4, 0, 3), (Byte_Pack, 3, 4, 1)]\<rparr>"

definition case_0355 :: "case_program" where
  "case_0355 =
     \<lparr>case_id = 355,
      case_input = [0x07064a94, 0x43fe86cd, 0x5b9a19f4, 0xf7915849, 0x35e7319a, 0x00000080, 0x0703e77a, 0xaa9578bf,
                    0x21a51dcb, 0xa284791d, 0x8acdd12a, 0x8d10775a, 0x01f5a1fa, 0xe28fa017, 0x5d6904c5, 0x2e3d8651],
      case_kernel = matrix3_kernel,
      reg_inputs = [4, 8, 12, 0], reg5_init = 0x66edcb8b,
      memory_keys = [0x00000163, 0x000002c6, 0x0000058c, 0x00000b18, 0x00001630, 0x00002c60, 0x000058c0, 0x0000b180],
      case_stmts = [(Gray_Decode, 5, 3, 1), (Endian_Swap, 1, 1, 4), (Add_Carry, 5, 1, 3), (Mask_Merge, 0, 2, 1),
                    (Array_Scatter, 0, 0, 4), (Endian_Swap, 2, 4, 3), (Byte_Pack, 1, 4, 1), (Endian_Swap, 2, 4, 3),
                    (Byte_Pack, 2, 5, 1), (Popcount_Loop, 4, 0, 5), (Add_Carry, 4, 0, 4), (Reverse_Loop, 2, 4, 2)]\<rparr>"

definition case_0356 :: "case_program" where
  "case_0356 =
     \<lparr>case_id = 356,
      case_input = [0xc488ab52, 0x17fe2c1b, 0x8b56982b, 0x49b31bc4, 0x030a65d2, 0x156db27e, 0x000000ff, 0xd8ac4c09,
                    0x9cd825df, 0xf292ef3d, 0x00af503d, 0x8cb35c00, 0x17ad9252, 0x482da078, 0xe050eb49, 0x3de3f05b],
      case_kernel = matrix3_kernel,
      reg_inputs = [5, 9, 13, 1], reg5_init = 0x05254544,
      memory_keys = [0x00000164, 0x000002c8, 0x00000590, 0x00000b20, 0x00001640, 0x00002c80, 0x00005900, 0x0000b200],
      case_stmts = [(Minmax_Clamp, 5, 2, 1), (Endian_Swap, 3, 0, 0), (Add_Carry, 1, 5, 1), (Byte_Pack, 0, 2, 4),
                    (Gray_Decode, 5, 0, 5), (Counted_Loop, 1, 4, 3), (Compare_Select, 0, 2, 0),
                    (Popcount_Loop, 3, 1, 5), (Short_Circuit, 1, 2, 2), (Carry_Chain, 4, 3, 3), (Reverse_Loop, 5, 2, 0),
                    (Reverse_Loop, 2, 1, 5)]\<rparr>"

definition case_0357 :: "case_program" where
  "case_0357 =
     \<lparr>case_id = 357,
      case_input = [0x840a8b13, 0x0bff795c, 0x7ece3a2d, 0xe9ba6ee2, 0x155fe807, 0x068ef97d, 0xf02f8e80, 0x00000100,
                    0x7b9f2e0e, 0xb37d5df2, 0x9629a71a, 0x5485af71, 0xcfab51bb, 0xd1cbba3e, 0x3deafa70, 0x14d30125],
      case_kernel = matrix3_kernel,
      reg_inputs = [6, 10, 14, 2], reg5_init = 0xa35cbefd,
      memory_keys = [0x00000165, 0x000002ca, 0x00000594, 0x00000b28, 0x00001650, 0x00002ca0, 0x00005940, 0x0000b280],
      case_stmts = [(Endian_Swap, 4, 1, 0), (Endian_Swap, 2, 0, 1), (Add_Carry, 1, 1, 1), (Counted_Loop, 5, 2, 3),
                    (Add_Carry, 3, 2, 5), (Halfword_Swap, 3, 4, 4), (Add_Carry, 3, 1, 3), (Minmax_Clamp, 4, 0, 3),
                    (Multiply_Low, 0, 5, 5), (Horner_Loop, 3, 1, 3), (Compare_Select, 1, 0, 5), (Byte_Pack, 5, 3, 0)]\<rparr>"

definition case_0358 :: "case_program" where
  "case_0358 =
     \<lparr>case_id = 358,
      case_input = [0x458cebd0, 0x2ffe8694, 0x68657963, 0xbdaa09a2, 0xe29fd2a6, 0xc71388fa, 0x0036fa7a, 0x00fa894f,
                    0x7fffffff, 0x7cf212a1, 0x902fc792, 0x51bfa21b, 0x88a4d5ec, 0x9299072e, 0x099bf9b9, 0x6e9e7e13],
      case_kernel = matrix3_kernel,
      reg_inputs = [7, 11, 15, 3], reg5_init = 0x419438b6,
      memory_keys = [0x00000166, 0x000002cc, 0x00000598, 0x00000b30, 0x00001660, 0x00002cc0, 0x00005980, 0x0000b300],
      case_stmts = [(Carry_Chain, 1, 1, 2), (Endian_Swap, 5, 2, 2), (Add_Carry, 1, 0, 4), (Mask_Merge, 2, 4, 2),
                    (Short_Circuit, 5, 5, 5), (Compare_Select, 1, 0, 4), (Add_Carry, 3, 3, 2), (Endian_Swap, 2, 5, 2),
                    (Minmax_Clamp, 1, 5, 0), (Popcount_Loop, 3, 0, 3), (Divide_Rem, 5, 2, 2), (Multiply_Low, 1, 0, 4)]\<rparr>"

definition case_0359 :: "case_program" where
  "case_0359 =
     \<lparr>case_id = 359,
      case_input = [0x050ecb91, 0x33ffd3d3, 0x9dfddb65, 0x1da37c84, 0xf4ca5f73, 0xd4f0c3f9, 0x49cd6503, 0xd20f4f83,
                    0xe9ccf053, 0x80000000, 0x06a930b5, 0x8989516a, 0x50a21605, 0x0b7f1d68, 0xd421e880, 0x47ae8f6d],
      case_kernel = matrix3_kernel,
      reg_inputs = [8, 12, 0, 4], reg5_init = 0xdfcbb26f,
      memory_keys = [0x00000167, 0x000002ce, 0x0000059c, 0x00000b38, 0x00001670, 0x00002ce0, 0x000059c0, 0x0000b380],
      case_stmts = [(Horner_Loop, 2, 4, 3), (Endian_Swap, 4, 0, 5), (Add_Carry, 5, 2, 4), (Halfword_Swap, 1, 2, 5),
                    (Horner_Loop, 1, 1, 5), (Short_Circuit, 1, 4, 5), (Reverse_Loop, 4, 4, 3), (Divide_Rem, 1, 0, 4),
                    (Multiply_Low, 4, 2, 1), (Halfword_Swap, 4, 4, 1), (Minmax_Clamp, 1, 0, 1),
                    (Counted_Loop, 2, 4, 5)]\<rparr>"

definition case_0360 :: "case_program" where
  "case_0360 =
     \<lparr>case_id = 360,
      case_input = [0xc291285d, 0x87fdd339, 0xc1fedf99, 0x77e57693, 0x427dd6e8, 0x536edaab, 0xf3813a36, 0xf50ded76,
                    0xa058f3b9, 0x6ec5cd6e, 0xfffffffe, 0x1f536b6b, 0x06bc44ea, 0x33abb415, 0xe2fe5eda, 0x07985beb],
      case_kernel = matrix3_kernel,
      reg_inputs = [9, 13, 1, 5], reg5_init = 0x7e032c28,
      memory_keys = [0x00000168, 0x000002d0, 0x000005a0, 0x00000b40, 0x00001680, 0x00002d00, 0x00005a00, 0x0000b400],
      case_stmts = [(Add_Carry, 2, 4, 2), (Carry_Chain, 1, 1, 1), (Add_Carry, 1, 5, 0), (Divide_Rem, 3, 4, 4),
                    (Sub_Borrow, 0, 4, 5), (Divide_Rem, 3, 1, 4), (Endian_Swap, 5, 4, 1), (Multiply_Low, 2, 1, 3),
                    (Mask_Merge, 3, 4, 2), (Array_Scatter, 3, 3, 3), (Endian_Swap, 0, 1, 5), (Add_Carry, 4, 1, 0)]\<rparr>"

definition case_0361 :: "case_program" where
  "case_0361 =
     \<lparr>case_id = 361,
      case_input = [0x8213081c, 0x9bfc867e, 0x34667d9f, 0xd7ec03b5, 0x54285b3d, 0x408d91a8, 0xba7aa54f, 0x27f82bba,
                    0x471ff868, 0x2f2a7fa1, 0x7a1fe7ac, 0xffffffff, 0xdeba8703, 0xaa4dae53, 0x3f444fe3, 0x2ea8aa95],
      case_kernel = matrix3_kernel,
      reg_inputs = [10, 14, 2, 6], reg5_init = 0x1c3aa5e1,
      memory_keys = [0x00000169, 0x000002d2, 0x000005a4, 0x00000b48, 0x00001690, 0x00002d20, 0x00005a40, 0x0000b480],
      case_stmts = [(Sub_Borrow, 1, 1, 5), (Carry_Chain, 0, 5, 4), (Add_Carry, 5, 5, 4), (Array_Scatter, 2, 4, 3),
                    (Counted_Loop, 4, 4, 1), (Reverse_Loop, 1, 5, 3), (Horner_Loop, 4, 5, 0), (Reverse_Loop, 5, 0, 1),
                    (Rotate_Mix, 4, 3, 1), (Minmax_Clamp, 0, 5, 3), (Endian_Swap, 2, 3, 0), (Array_Scatter, 1, 5, 1)]\<rparr>"

definition case_0362 :: "case_program" where
  "case_0362 =
     \<lparr>case_id = 362,
      case_input = [0x439568df, 0xbffd79b6, 0x22cd3ed1, 0x83fc64f5, 0x00000000, 0x8110e02f, 0x4a63d1b5, 0x2d5b2830,
                    0x320b2de4, 0xe0a530f2, 0x7c198724, 0xc25f9570, 0x00000000, 0xe91f1343, 0x0b354c2a, 0x54e5d5a3],
      case_kernel = matrix3_kernel,
      reg_inputs = [11, 15, 3, 7], reg5_init = 0xba721f9a,
      memory_keys = [0x0000016a, 0x000002d4, 0x000005a8, 0x00000b50, 0x000016a0, 0x00002d40, 0x00005a80, 0x0000b500],
      case_stmts = [(Rotate_Mix, 2, 1, 3), (Carry_Chain, 1, 1, 1), (Add_Carry, 5, 2, 5), (Compare_Select, 5, 2, 0),
                    (Reverse_Loop, 0, 5, 1), (Minmax_Clamp, 3, 1, 3), (Byte_Pack, 0, 1, 1), (Gray_Decode, 1, 5, 0),
                    (Mask_Merge, 1, 5, 4), (Rotate_Mix, 0, 4, 5), (Multiply_Low, 4, 5, 1), (Mask_Merge, 5, 0, 3)]\<rparr>"

definition case_0363 :: "case_program" where
  "case_0363 =
     \<lparr>case_id = 363,
      case_input = [0x0317489e, 0xa3fc2cf1, 0xd7559cd7, 0x23f511d3, 0xb5bdec49, 0x92f3ab2c, 0x03984ecc, 0xffaeeefc,
                    0xd54c2635, 0xa14a823d, 0xea9f7003, 0x00000080, 0x41b3c0bd, 0x00000001, 0xd68f5d13, 0x7dd524dd],
      case_kernel = matrix3_kernel,
      reg_inputs = [12, 0, 4, 8], reg5_init = 0x58a99953,
      memory_keys = [0x0000016b, 0x000002d6, 0x000005ac, 0x00000b58, 0x000016b0, 0x00002d60, 0x00005ac0, 0x0000b580],
      case_stmts = [(Multiply_Low, 1, 4, 2), (Carry_Chain, 2, 3, 0), (Add_Carry, 1, 4, 5), (Switch_Phi, 2, 2, 1),
                    (Popcount_Loop, 2, 5, 1), (Counted_Loop, 3, 1, 2), (Endian_Swap, 5, 4, 0), (Carry_Chain, 0, 4, 0),
                    (Counted_Loop, 0, 2, 5), (Horner_Loop, 1, 0, 1), (Multiply_Low, 2, 3, 2), (Add_Carry, 4, 0, 0)]\<rparr>"

definition case_0364 :: "case_program" where
  "case_0364 =
     \<lparr>case_id = 364,
      case_input = [0xc099a958, 0xf7fc8627, 0xfffffffe, 0x9dd7525e, 0x8350b801, 0x6e9202e7, 0xbd4fb84f, 0x8d97da4a,
                    0x68311e21, 0xf15c141d, 0x60fdf114, 0x1bca4d5b, 0x57ebf315, 0xda5b096a, 0x00000002, 0x6e0b52d7],
      case_kernel = matrix3_kernel,
      reg_inputs = [13, 1, 5, 9], reg5_init = 0xf6e1130c,
      memory_keys = [0x0000016c, 0x000002d8, 0x000005b0, 0x00000b60, 0x000016c0, 0x00002d80, 0x00005b00, 0x0000b600],
      case_stmts = [(Divide_Rem, 1, 1, 2), (Carry_Chain, 0, 2, 4), (Add_Carry, 5, 2, 3), (Array_Scatter, 0, 2, 4),
                    (Byte_Pack, 1, 5, 0), (Popcount_Loop, 4, 5, 4), (Minmax_Clamp, 4, 4, 5), (Counted_Loop, 3, 3, 2),
                    (Mask_Merge, 1, 5, 4), (Short_Circuit, 1, 1, 3), (Mask_Merge, 5, 1, 2), (Divide_Rem, 4, 3, 3)]\<rparr>"

definition case_0365 :: "case_program" where
  "case_0365 =
     \<lparr>case_id = 365,
      case_input = [0x801b8919, 0xebfdd360, 0xf201bf0e, 0x3dde2778, 0x950535d4, 0x7d7149e4, 0xf4b42736, 0x5f621c86,
                    0x8f7615f0, 0x00000003, 0xf67b0633, 0xc3fcbe2a, 0x8fed30fc, 0x43bd132c, 0xb60ca3a6, 0x00000003],
      case_kernel = matrix3_kernel,
      reg_inputs = [14, 2, 6, 10], reg5_init = 0x95188cc5,
      memory_keys = [0x0000016d, 0x000002da, 0x000005b4, 0x00000b68, 0x000016d0, 0x00002da0, 0x00005b40, 0x0000b680],
      case_stmts = [(Mask_Merge, 2, 4, 5), (Carry_Chain, 5, 2, 5), (Add_Carry, 1, 4, 5), (Short_Circuit, 5, 0, 5),
                    (Add_Carry, 3, 3, 4), (Byte_Pack, 0, 5, 5), (Carry_Chain, 5, 1, 4), (Horner_Loop, 0, 0, 0),
                    (Carry_Chain, 4, 4, 1), (Array_Scatter, 4, 1, 5), (Mask_Merge, 5, 5, 3), (Endian_Swap, 3, 1, 2)]\<rparr>"

definition case_0366 :: "case_program" where
  "case_0366 =
     \<lparr>case_id = 366,
      case_input = [0x7fffffff, 0xcffc2ca8, 0xe4aafc40, 0x69ce4038, 0x62c50f75, 0xbcec3863, 0x04ad53cc, 0x55c11f0c,
                    0xfa62c07c, 0x7f3ce981, 0xf07d66bb, 0xc6c6b340, 0xc8e2b4ab, 0x00efae3c, 0x827da06f, 0x3d76dc9f],
      case_kernel = matrix3_kernel,
      reg_inputs = [15, 3, 7, 11], reg5_init = 0x3350067e,
      memory_keys = [0x0000016e, 0x000002dc, 0x000005b8, 0x00000b70, 0x000016e0, 0x00002dc0, 0x00005b80, 0x0000b700],
      case_stmts = [(Compare_Select, 5, 4, 1), (Carry_Chain, 4, 4, 4), (Add_Carry, 5, 5, 0), (Switch_Phi, 4, 0, 2),
                    (Short_Circuit, 1, 2, 2), (Array_Scatter, 2, 3, 5), (Compare_Select, 3, 1, 1),
                    (Carry_Chain, 2, 1, 3), (Popcount_Loop, 5, 4, 0), (Horner_Loop, 2, 2, 3), (Byte_Pack, 5, 3, 4),
                    (Sub_Borrow, 3, 2, 0)]\<rparr>"

definition case_0367 :: "case_program" where
  "case_0367 =
     \<lparr>case_id = 367,
      case_input = [0x011fc99b, 0x00000080, 0x11325e46, 0xc9c7351e, 0x749082a0, 0xaf0f7360, 0x4d56ccb5, 0x00000001,
                    0x1d25cbad, 0x3ed35b4e, 0x66fb919c, 0x1ef04031, 0x10e47742, 0x9909b47a, 0x5fc7b156, 0x14462de1],
      case_kernel = matrix3_kernel,
      reg_inputs = [0, 4, 8, 12], reg5_init = 0xd1878037,
      memory_keys = [0x0000016f, 0x000002de, 0x000005bc, 0x00000b78, 0x000016f0, 0x00002de0, 0x00005bc0, 0x0000b780],
      case_stmts = [(Byte_Pack, 0, 1, 4), (Carry_Chain, 5, 0, 3), (Add_Carry, 3, 3, 4), (Reverse_Loop, 1, 2, 5),
                    (Switch_Phi, 3, 4, 4), (Switch_Phi, 0, 5, 0), (Short_Circuit, 0, 2, 4), (Switch_Phi, 5, 2, 1),
                    (Counted_Loop, 4, 5, 5), (Carry_Chain, 1, 2, 3), (Horner_Loop, 5, 5, 1), (Minmax_Clamp, 4, 0, 5)]\<rparr>"

definition case_0368 :: "case_program" where
  "case_0368 =
     \<lparr>case_id = 368,
      case_input = [0xcea22e43, 0xa7fa2d7d, 0x000000ff, 0x094fac3c, 0x59921dd8, 0xe2615e7f, 0xa51e755c, 0xf68f0680,
                    0x0439d9e1, 0x14b64edf, 0x266d87ef, 0x191dcc40, 0x6ed385c8, 0xf0d55d55, 0x000000ff, 0xd659190b],
      case_kernel = matrix3_kernel,
      reg_inputs = [1, 5, 9, 13], reg5_init = 0x6fbef9f0,
      memory_keys = [0x00000170, 0x000002e0, 0x000005c0, 0x00000b80, 0x00001700, 0x00002e00, 0x00005c00, 0x0000b800],
      case_stmts = [(Halfword_Swap, 1, 4, 1), (Carry_Chain, 3, 1, 3), (Add_Carry, 1, 4, 1), (Compare_Select, 4, 3, 0),
                    (Mask_Merge, 0, 0, 4), (Array_Scatter, 3, 0, 1), (Reverse_Loop, 3, 2, 4), (Multiply_Low, 5, 1, 0),
                    (Array_Scatter, 1, 0, 4), (Horner_Loop, 3, 2, 0), (Switch_Phi, 1, 2, 0), (Minmax_Clamp, 2, 4, 1)]\<rparr>"

definition case_0369 :: "case_program" where
  "case_0369 =
     \<lparr>case_id = 369,
      case_input = [0x8e200e02, 0xbbfb783a, 0xa336f2fa, 0x00000100, 0x4fc7900d, 0xffffffff, 0xece5ea25, 0x247ac04c,
                    0xe37ed230, 0x5559fc10, 0xb0eb70c8, 0xc12b3f31, 0xb6d54621, 0x69334713, 0xf89858b7, 0xff69e875],
      case_kernel = matrix3_kernel,
      reg_inputs = [2, 6, 10, 14], reg5_init = 0x0df673a9,
      memory_keys = [0x00000171, 0x000002e2, 0x000005c4, 0x00000b88, 0x00001710, 0x00002e20, 0x00005c40, 0x0000b880],
      case_stmts = [(Array_Scatter, 4, 3, 2), (Carry_Chain, 4, 1, 2), (Add_Carry, 3, 0, 1), (Gray_Decode, 1, 3, 5),
                    (Reverse_Loop, 0, 4, 4), (Multiply_Low, 3, 0, 0), (Add_Carry, 2, 1, 3), (Counted_Loop, 2, 0, 0),
                    (Reverse_Loop, 4, 3, 5), (Compare_Select, 4, 4, 2), (Gray_Decode, 1, 4, 5), (Sub_Borrow, 5, 4, 0)]\<rparr>"

definition case_0370 :: "case_program" where
  "case_0370 =
     \<lparr>case_id = 370,
      case_input = [0x4fa66ec1, 0x9ffa87f2, 0xb59db1b4, 0xfd56be5a, 0x7fffffff, 0x301f64fb, 0x1cfc9edf, 0x2ed9c3c6,
                    0x966a07bc, 0x9ad6b343, 0xb6ed1040, 0xc411325b, 0x0000007f, 0x2a61fa03, 0xcce95b7e, 0x85249743],
      case_kernel = matrix3_kernel,
      reg_inputs = [3, 7, 11, 15], reg5_init = 0xac2ded62,
      memory_keys = [0x00000172, 0x000002e4, 0x000005c8, 0x00000b90, 0x00001720, 0x00002e40, 0x00005c80, 0x0000b900],
      case_stmts = [(Counted_Loop, 3, 1, 0), (Carry_Chain, 3, 5, 3), (Add_Carry, 3, 5, 4), (Divide_Rem, 4, 3, 0),
                    (Counted_Loop, 2, 1, 2), (Sub_Borrow, 3, 0, 0), (Short_Circuit, 4, 5, 0), (Gray_Decode, 0, 5, 5),
                    (Sub_Borrow, 1, 5, 0), (Short_Circuit, 4, 3, 2), (Sub_Borrow, 5, 4, 4), (Popcount_Loop, 1, 3, 4)]\<rparr>"

definition case_0371 :: "case_program" where
  "case_0371 =
     \<lparr>case_id = 371,
      case_input = [0x0f244e80, 0x83fbd2b5, 0x400513b2, 0x80000000, 0xae522779, 0x80000000, 0x550701a6, 0xfc2c050a,
                    0x712d0c6d, 0xdb39018c, 0x206be767, 0x1c27c12a, 0x29dc019f, 0xb387e045, 0x11534a47, 0xac14663d],
      case_kernel = matrix3_kernel,
      reg_inputs = [4, 8, 12, 0], reg5_init = 0x4a65671b,
      memory_keys = [0x00000173, 0x000002e6, 0x000005cc, 0x00000b98, 0x00001730, 0x00002e60, 0x00005cc0, 0x0000b980],
      case_stmts = [(Switch_Phi, 4, 0, 1), (Carry_Chain, 0, 3, 2), (Add_Carry, 3, 5, 0), (Popcount_Loop, 1, 1, 1),
                    (Popcount_Loop, 2, 1, 2), (Switch_Phi, 3, 2, 5), (Reverse_Loop, 3, 0, 1), (Rotate_Mix, 1, 0, 5),
                    (Carry_Chain, 2, 4, 3), (Sub_Borrow, 3, 3, 0), (Sub_Borrow, 5, 4, 1), (Halfword_Swap, 0, 3, 5)]\<rparr>"

definition case_0372 :: "case_program" where
  "case_0372 =
     \<lparr>case_id = 372,
      case_input = [0xccaaaf46, 0xd7fb7863, 0x90c9926d, 0xe37d88f1, 0x98bf7331, 0xdf9d8633, 0xfffffffe, 0x8e1531bc,
                    0xcc503479, 0x8b2f97ac, 0x00000002, 0x1d84ea70, 0x3f843237, 0x1925e02a, 0xac6aa5cb, 0xbfca1037],
      case_kernel = matrix3_kernel,
      reg_inputs = [5, 9, 13, 1], reg5_init = 0xe89ce0d4,
      memory_keys = [0x00000174, 0x000002e8, 0x000005d0, 0x00000ba0, 0x00001740, 0x00002e80, 0x00005d00, 0x0000ba00],
      case_stmts = [(Short_Circuit, 4, 1, 5), (Carry_Chain, 2, 4, 2), (Add_Carry, 3, 3, 0), (Multiply_Low, 5, 5, 0),
                    (Multiply_Low, 5, 5, 3), (Add_Carry, 0, 0, 3), (Multiply_Low, 4, 4, 4), (Counted_Loop, 2, 1, 5),
                    (Mask_Merge, 5, 5, 2), (Compare_Select, 1, 4, 2), (Gray_Decode, 2, 2, 3), (Divide_Rem, 0, 2, 4)]\<rparr>"

definition case_0373 :: "case_program" where
  "case_0373 =
     \<lparr>case_id = 373,
      case_input = [0x8c288f07, 0x00000100, 0x6551306b, 0x4374fdd7, 0x8eeafee4, 0xcc7ecd30, 0xa22b685c, 0xffffffff,
                    0x2b173fa8, 0xcac02563, 0x3c8f9157, 0xc5b21901, 0xe782f1de, 0x80c3fa6c, 0x71d0b4f2, 0x96fae149],
      case_kernel = matrix3_kernel,
      reg_inputs = [6, 10, 14, 2], reg5_init = 0x86d45a8d,
      memory_keys = [0x00000175, 0x000002ea, 0x000005d4, 0x00000ba8, 0x00001750, 0x00002ea0, 0x00005d40, 0x0000ba80],
      case_stmts = [(Popcount_Loop, 1, 2, 4), (Carry_Chain, 1, 2, 3), (Add_Carry, 1, 1, 2), (Counted_Loop, 0, 1, 5),
                    (Add_Carry, 5, 1, 3), (Compare_Select, 2, 0, 4), (Popcount_Loop, 3, 3, 5), (Gray_Decode, 3, 4, 1),
                    (Carry_Chain, 4, 2, 1), (Multiply_Low, 4, 2, 2), (Multiply_Low, 4, 0, 4), (Array_Scatter, 3, 0, 1)]\<rparr>"

definition case_0374 :: "case_program" where
  "case_0374 =
     \<lparr>case_id = 374,
      case_input = [0x4daeefc4, 0xeffbd2ec, 0x73fa7325, 0x17649a97, 0x792ac445, 0x0de3bcb7, 0x52321ca6, 0x5643f4fa,
                    0x00000000, 0x054f6a30, 0x3a89f1df, 0xc088146b, 0xa08d7589, 0xc391477c, 0x45a1b73b, 0xecb79e7f],
      case_kernel = matrix3_kernel,
      reg_inputs = [7, 11, 15, 3], reg5_init = 0x250bd446,
      memory_keys = [0x00000176, 0x000002ec, 0x000005d8, 0x00000bb0, 0x00001760, 0x00002ec0, 0x00005d80, 0x0000bb00],
      case_stmts = [(Reverse_Loop, 4, 2, 2), (Carry_Chain, 0, 0, 4), (Add_Carry, 5, 4, 5), (Sub_Borrow, 5, 1, 4),
                    (Minmax_Clamp, 5, 2, 3), (Divide_Rem, 0, 4, 4), (Array_Scatter, 5, 1, 0), (Counted_Loop, 1, 3, 2),
                    (Endian_Swap, 5, 4, 4), (Sub_Borrow, 2, 3, 2), (Popcount_Loop, 0, 4, 3), (Sub_Borrow, 5, 5, 1)]\<rparr>"

definition case_0375 :: "case_program" where
  "case_0375 =
     \<lparr>case_id = 375,
      case_input = [0x00000000, 0xf3fa87ab, 0x8662d123, 0xb76defb1, 0x6f7f4990, 0x1e00f7b4, 0x1bc983df, 0x84b63236,
                    0xb944e1f5, 0x44a0d8ff, 0xac0f06f8, 0x18bee71a, 0x788bb660, 0x5a775d3a, 0x981ba602, 0xc5876f01],
      case_kernel = endian_kernel 0,
      reg_inputs = [8, 12, 0, 4], reg5_init = 0xc3434dff,
      memory_keys = [0x00000177, 0x000002ee, 0x000005dc, 0x00000bb8, 0x00001770, 0x00002ee0, 0x00005dc0, 0x0000bb80],
      case_stmts = [(Gray_Decode, 1, 1, 5), (Carry_Chain, 3, 2, 5), (Add_Carry, 1, 4, 3), (Halfword_Swap, 0, 5, 3),
                    (Gray_Decode, 1, 0, 5), (Counted_Loop, 0, 0, 5), (Multiply_Low, 2, 2, 1), (Multiply_Low, 4, 2, 2),
                    (Compare_Select, 0, 3, 5), (Minmax_Clamp, 3, 3, 2), (Sub_Borrow, 4, 0, 4), (Add_Carry, 4, 1, 0)]\<rparr>"

definition case_0376 :: "case_program" where
  "case_0376 =
     \<lparr>case_id = 376,
      case_input = [0xcab32c49, 0x00000001, 0xda61d5df, 0xdd2be5a6, 0xd9c8c00b, 0x999eeee6, 0xa185dcea, 0xa3b490c3,
                    0xf0d0e21f, 0x1778b5ff, 0x463f26c6, 0x8e64dd1b, 0x2e95e48f, 0x62a3f447, 0xaec41058, 0x85b1bb87],
      case_kernel = endian_kernel 1,
      reg_inputs = [9, 13, 1, 5], reg5_init = 0x617ac7b8,
      memory_keys = [0x00000178, 0x000002f0, 0x000005e0, 0x00000bc0, 0x00001780, 0x00002f00, 0x00005e00, 0x0000bc00],
      case_stmts = [(Minmax_Clamp, 5, 3, 0), (Carry_Chain, 4, 5, 1), (Add_Carry, 3, 3, 3), (Halfword_Swap, 0, 5, 4),
                    (Array_Scatter, 0, 3, 1), (Reverse_Loop, 4, 3, 0), (Halfword_Swap, 5, 0, 1),
                    (Minmax_Clamp, 1, 1, 1), (Add_Carry, 3, 1, 0), (Popcount_Loop, 0, 0, 0), (Minmax_Clamp, 3, 3, 4),
                    (Rotate_Mix, 0, 2, 5)]\<rparr>"

definition case_0377 :: "case_program" where
  "case_0377 =
     \<lparr>case_id = 377,
      case_input = [0x8a310c08, 0x5bf9d206, 0x00000002, 0x7d229080, 0xcf9d4dde, 0x8a7da5e5, 0xe87e4393, 0x7141560f,
                    0x1797e9ce, 0x56970730, 0xd0b9d1e1, 0x56522e6a, 0xf6932766, 0xfb45ee01, 0x737e0161, 0xac814af9],
      case_kernel = endian_kernel 2,
      reg_inputs = [10, 14, 2, 6], reg5_init = 0xffb24171,
      memory_keys = [0x00000179, 0x000002f2, 0x000005e4, 0x00000bc8, 0x00001790, 0x00002f20, 0x00005e40, 0x0000bc80],
      case_stmts = [(Endian_Swap, 0, 0, 3), (Carry_Chain, 3, 3, 4), (Add_Carry, 3, 5, 1), (Endian_Swap, 3, 5, 5),
                    (Counted_Loop, 2, 1, 3), (Short_Circuit, 2, 5, 3), (Compare_Select, 2, 5, 2),
                    (Popcount_Loop, 4, 2, 5), (Gray_Decode, 4, 4, 1), (Add_Carry, 1, 4, 2), (Add_Carry, 5, 1, 5),
                    (Multiply_Low, 5, 4, 2)]\<rparr>"

definition case_0378 :: "case_program" where
  "case_0378 =
     \<lparr>case_id = 378,
      case_input = [0x4bb76ccb, 0x7ff82dce, 0x39523497, 0x00000003, 0x385d777f, 0x4be0d462, 0x18673769, 0x7be25585,
                    0x62833c42, 0x99184863, 0xd6bfb169, 0x53682300, 0xb19ca331, 0xb8175311, 0x470f02a8, 0xd6cc35cf],
      case_kernel = endian_kernel 3,
      reg_inputs = [11, 15, 3, 7], reg5_init = 0x9de9bb2a,
      memory_keys = [0x0000017a, 0x000002f4, 0x000005e8, 0x00000bd0, 0x000017a0, 0x00002f40, 0x00005e80, 0x0000bd00],
      case_stmts = [(Carry_Chain, 5, 0, 1), (Carry_Chain, 0, 1, 3), (Add_Carry, 3, 4, 4), (Counted_Loop, 4, 1, 2),
                    (Carry_Chain, 0, 2, 5), (Compare_Select, 4, 1, 3), (Compare_Select, 4, 1, 1),
                    (Short_Circuit, 4, 5, 0), (Divide_Rem, 1, 0, 0), (Reverse_Loop, 1, 1, 2), (Counted_Loop, 3, 3, 4),
                    (Horner_Loop, 1, 3, 2)]\<rparr>"

definition case_0379 :: "case_program" where
  "case_0379 =
     \<lparr>case_id = 379,
      case_input = [0x0b354c8a, 0x63f97889, 0xccca9691, 0x893b82e6, 0x0000007f, 0x58039f61, 0x519ca810, 0xa9179349,
                    0x85c43793, 0xd8f7faac, 0x4039464e, 0x8b5ed071, 0x699a60d8, 0x21f14957, 0x9ab51391, 0xfffcc4b1],
      case_kernel = endian_kernel 4,
      reg_inputs = [12, 0, 4, 8], reg5_init = 0x3c2134e3,
      memory_keys = [0x0000017b, 0x000002f6, 0x000005ec, 0x00000bd8, 0x000017b0, 0x00002f60, 0x00005ec0, 0x0000bd80],
      case_stmts = [(Horner_Loop, 0, 1, 0), (Carry_Chain, 1, 1, 4), (Add_Carry, 5, 4, 2), (Horner_Loop, 1, 3, 5),
                    (Array_Scatter, 2, 2, 5), (Add_Carry, 4, 3, 4), (Divide_Rem, 5, 4, 0), (Endian_Swap, 5, 4, 2),
                    (Multiply_Low, 2, 5, 1), (Switch_Phi, 4, 3, 4), (Rotate_Mix, 1, 3, 1), (Compare_Select, 2, 5, 5)]\<rparr>"

definition case_0380 :: "case_program" where
  "case_0380 =
     \<lparr>case_id = 380,
      case_input = [0xc8bbad4c, 0x37f9d25f, 0x1c06174e, 0x3719c16b, 0x18e5aee2, 0x00000080, 0xef4b5e93, 0xdb2ea7ff,
                    0x38b90f87, 0x88e16c8c, 0xca5bc759, 0x8afdfb2b, 0x7fc25370, 0x8b534938, 0x278cfc1d, 0xec22b2bb],
      case_kernel = endian_kernel 5,
      reg_inputs = [13, 1, 5, 9], reg5_init = 0xda58ae9c,
      memory_keys = [0x0000017c, 0x000002f8, 0x000005f0, 0x00000be0, 0x000017c0, 0x00002f80, 0x00005f00, 0x0000be00],
      case_stmts = [(Add_Carry, 4, 4, 0), (Horner_Loop, 3, 0, 2), (Add_Carry, 1, 4, 0), (Mask_Merge, 3, 5, 2),
                    (Gray_Decode, 5, 0, 2), (Multiply_Low, 3, 1, 2), (Endian_Swap, 4, 2, 1), (Endian_Swap, 4, 1, 4),
                    (Add_Carry, 3, 0, 0), (Minmax_Clamp, 0, 2, 4), (Add_Carry, 0, 1, 5), (Reverse_Loop, 2, 2, 2)]\<rparr>"

definition case_0381 :: "case_program" where
  "case_0381 =
     \<lparr>case_id = 381,
      case_input = [0x88398d0d, 0x2bf88718, 0xe99eb548, 0x9710b44d, 0x0eb02337, 0xb7817da9, 0x000000ff, 0x09db6133,
                    0xdffe0456, 0xc90ede43, 0x5cdd307e, 0x52cb085a, 0xa7c49099, 0x12b5537e, 0xfa36ed24, 0xc51243c5],
      case_kernel = endian_kernel 6,
      reg_inputs = [14, 2, 6, 10], reg5_init = 0x78902855,
      memory_keys = [0x0000017d, 0x000002fa, 0x000005f4, 0x00000be8, 0x000017d0, 0x00002fa0, 0x00005f40, 0x0000be80],
      case_stmts = [(Sub_Borrow, 1, 3, 3), (Horner_Loop, 0, 2, 5), (Add_Carry, 1, 0, 0), (Short_Circuit, 2, 3, 3),
                    (Add_Carry, 1, 0, 2), (Endian_Swap, 3, 3, 3), (Switch_Phi, 5, 3, 4), (Halfword_Swap, 5, 2, 0),
                    (Switch_Phi, 2, 3, 5), (Endian_Swap, 3, 2, 4), (Halfword_Swap, 4, 5, 4), (Gray_Decode, 3, 4, 1)]\<rparr>"

definition case_0382 :: "case_program" where
  "case_0382 =
     \<lparr>case_id = 382,
      case_input = [0x49bfedce, 0x0ff978d0, 0xff35f606, 0xc300d30d, 0xf9701996, 0x761c0c2e, 0x56a9b510, 0x00000100,
                    0xaaead1da, 0x06819110, 0x5adb50f6, 0x57f10530, 0xe0cb14ce, 0x51e7ee6e, 0xce47eeed, 0xbf5f3cf3],
      case_kernel = endian_kernel 7,
      reg_inputs = [15, 3, 7, 11], reg5_init = 0x16c7a20e,
      memory_keys = [0x0000017e, 0x000002fc, 0x000005f8, 0x00000bf0, 0x000017e0, 0x00002fc0, 0x00005f80, 0x0000bf00],
      case_stmts = [(Rotate_Mix, 0, 3, 5), (Horner_Loop, 1, 2, 0), (Add_Carry, 5, 5, 3), (Byte_Pack, 1, 5, 0),
                    (Divide_Rem, 1, 1, 4), (Multiply_Low, 3, 5, 1), (Switch_Phi, 3, 3, 3), (Array_Scatter, 3, 5, 1),
                    (Minmax_Clamp, 3, 5, 0), (Switch_Phi, 3, 1, 4), (Carry_Chain, 0, 1, 5), (Multiply_Low, 1, 3, 3)]\<rparr>"

definition case_0383 :: "case_program" where
  "case_0383 =
     \<lparr>case_id = 383,
      case_input = [0x093dcd8f, 0x13f82d97, 0x0aad5400, 0x6309a62b, 0xef259443, 0x65ff472d, 0x1f522a69, 0xd18da475,
                    0x7fffffff, 0x476e23df, 0xcc5da7d1, 0x8fc7f641, 0x38cdd727, 0xc801f428, 0x13fdffd4, 0x966fcd8d],
      case_kernel = endian_kernel 8,
      reg_inputs = [0, 4, 8, 12], reg5_init = 0xb4ff1bc7,
      memory_keys = [0x0000017f, 0x000002fe, 0x000005fc, 0x00000bf8, 0x000017f0, 0x00002fe0, 0x00005fc0, 0x0000bf80],
      case_stmts = [(Multiply_Low, 1, 0, 0), (Horner_Loop, 4, 4, 5), (Add_Carry, 3, 1, 3), (Reverse_Loop, 0, 3, 1),
                    (Gray_Decode, 5, 5, 2), (Endian_Swap, 3, 1, 0), (Array_Scatter, 4, 4, 0), (Minmax_Clamp, 4, 4, 1),
                    (Switch_Phi, 4, 0, 5), (Reverse_Loop, 4, 5, 2), (Rotate_Mix, 4, 5, 2), (Compare_Select, 0, 5, 4)]\<rparr>"

definition case_0384 :: "case_program" where
  "case_0384 =
     \<lparr>case_id = 384,
      case_input = [0xb75e128e, 0xefc88695, 0x7282cd33, 0xc272c586, 0xfe86a6c2, 0x3c0f3828, 0xf322147e, 0x8043cf45,
                    0x92496dd0, 0x80000000, 0x371ea75b, 0xb52d2690, 0x2c9ab2e7, 0x96ac9068, 0x0a991860, 0xf7aacc91],
      case_kernel = endian_kernel 9,
      reg_inputs = [1, 5, 9, 13], reg5_init = 0x53369580,
      memory_keys = [0x00000180, 0x00000300, 0x00000600, 0x00000c00, 0x00001800, 0x00003000, 0x00006000, 0x0000c000],
      case_stmts = [(Divide_Rem, 3, 4, 5), (Horner_Loop, 0, 0, 3), (Add_Carry, 3, 3, 1), (Switch_Phi, 2, 5, 5),
                    (Array_Scatter, 4, 1, 3), (Counted_Loop, 3, 4, 1), (Divide_Rem, 0, 4, 3), (Mask_Merge, 5, 0, 0),
                    (Compare_Select, 1, 3, 4), (Array_Scatter, 2, 4, 2), (Carry_Chain, 4, 4, 5),
                    (Array_Scatter, 5, 5, 2)]\<rparr>"

definition case_0385 :: "case_program" where
  "case_0385 =
     \<lparr>case_id = 385,
      case_input = [0xf7dc32cf, 0xf3c9d3d2, 0x871a6f35, 0x627bb0a0, 0xe8d32b17, 0x2fec732b, 0xbad98b07, 0x52b60989,
                    0x750e6601, 0x36d99e22, 0xfffffffe, 0x6d1bd5e1, 0xf49c710e, 0x0f4a8a2e, 0xd7230959, 0xde9a3def],
      case_kernel = endian_kernel 10,
      reg_inputs = [2, 6, 10, 14], reg5_init = 0xf16e0f39,
      memory_keys = [0x00000181, 0x00000302, 0x00000604, 0x00000c08, 0x00001810, 0x00003020, 0x00006040, 0x0000c080],
      case_stmts = [(Mask_Merge, 4, 5, 2), (Horner_Loop, 5, 2, 2), (Add_Carry, 3, 5, 3), (Compare_Select, 5, 5, 0),
                    (Reverse_Loop, 4, 1, 1), (Short_Circuit, 5, 4, 2), (Compare_Select, 5, 5, 4), (Divide_Rem, 0, 5, 2),
                    (Mask_Merge, 4, 0, 3), (Short_Circuit, 5, 0, 0), (Counted_Loop, 4, 0, 4), (Add_Carry, 4, 1, 5)]\<rparr>"

definition case_0386 :: "case_program" where
  "case_0386 =
     \<lparr>case_id = 386,
      case_input = [0x365a520c, 0xd7c82c1a, 0x91b12c7b, 0x366bd7e0, 0x1f1311b6, 0xee7102ac, 0x4ac0fffd, 0x58150a03,
                    0x001ab38d, 0xf956d171, 0xa79e30f4, 0xffffffff, 0xb393f559, 0x4c18373e, 0xe3520a90, 0xa4d742d9],
      case_kernel = endian_kernel 11,
      reg_inputs = [3, 7, 11, 15], reg5_init = 0x8fa588f2,
      memory_keys = [0x00000182, 0x00000304, 0x00000608, 0x00000c10, 0x00001820, 0x00003040, 0x00006080, 0x0000c100],
      case_stmts = [(Compare_Select, 1, 1, 4), (Horner_Loop, 2, 2, 1), (Add_Carry, 3, 2, 4), (Mask_Merge, 0, 3, 1),
                    (Counted_Loop, 0, 2, 1), (Compare_Select, 1, 4, 4), (Rotate_Mix, 3, 1, 1), (Mask_Merge, 4, 4, 5),
                    (Rotate_Mix, 5, 0, 0), (Reverse_Loop, 3, 1, 4), (Add_Carry, 0, 2, 1), (Divide_Rem, 4, 2, 5)]\<rparr>"

definition case_0387 :: "case_program" where
  "case_0387 =
     \<lparr>case_id = 387,
      case_input = [0x76d8724d, 0xcbc9795d, 0x64298e7d, 0x9662a2c6, 0x00000000, 0xfd9249af, 0x033b6084, 0x8ae0cccf,
                    0xe75db85c, 0xb8b963be, 0x3118c7d3, 0xb0172bfa, 0x00000000, 0xd5fe2d78, 0x3ee81ba9, 0x8de7b3a7],
      case_kernel = endian_kernel 12,
      reg_inputs = [4, 8, 12, 0], reg5_init = 0x2ddd02ab,
      memory_keys = [0x00000183, 0x00000306, 0x0000060c, 0x00000c18, 0x00001830, 0x00003060, 0x000060c0, 0x0000c180],
      case_stmts = [(Byte_Pack, 4, 4, 5), (Horner_Loop, 3, 2, 4), (Add_Carry, 3, 2, 4), (Add_Carry, 3, 1, 0),
                    (Endian_Swap, 2, 0, 1), (Add_Carry, 3, 0, 3), (Halfword_Swap, 0, 4, 4), (Minmax_Clamp, 5, 1, 5),
                    (Endian_Swap, 4, 5, 5), (Switch_Phi, 4, 1, 0), (Add_Carry, 0, 4, 0), (Array_Scatter, 1, 4, 4)]\<rparr>"

definition case_0388 :: "case_program" where
  "case_0388 =
     \<lparr>case_id = 388,
      case_input = [0xb556938b, 0x9fc9d38b, 0xb4e50fa2, 0x2840e14b, 0x3fabc82b, 0x01f3e064, 0xbdec9607, 0xf8d9f879,
                    0x5a208048, 0xe8aff59e, 0xbb7a46c4, 0x00000080, 0x7dcd0518, 0x00000001, 0x83d1f425, 0x9e39c5ad],
      case_kernel = endian_kernel 13,
      reg_inputs = [5, 9, 13, 1], reg5_init = 0xcc147c64,
      memory_keys = [0x00000184, 0x00000308, 0x00000610, 0x00000c20, 0x00001840, 0x00003080, 0x00006100, 0x0000c200],
      case_stmts = [(Halfword_Swap, 4, 1, 3), (Horner_Loop, 5, 5, 2), (Add_Carry, 5, 4, 0), (Counted_Loop, 1, 1, 3),
                    (Byte_Pack, 1, 0, 4), (Byte_Pack, 2, 2, 5), (Array_Scatter, 3, 4, 5), (Minmax_Clamp, 2, 2, 5),
                    (Carry_Chain, 5, 0, 4), (Short_Circuit, 4, 0, 0), (Counted_Loop, 3, 4, 4), (Endian_Swap, 3, 5, 5)]\<rparr>"

definition case_0389 :: "case_program" where
  "case_0389 =
     \<lparr>case_id = 389,
      case_input = [0xf5d4b3ca, 0x83c886cc, 0xfffffffe, 0x8849946d, 0x29fe45fe, 0x1210ab67, 0xf417097e, 0x2a2c3eb5,
                    0xbd678b99, 0xa9404751, 0x2dfcb1e3, 0x6982f3d1, 0xa5cbc6f1, 0xe6ba3751, 0x00000002, 0xb70934d3],
      case_kernel = endian_kernel 14,
      reg_inputs = [6, 10, 14, 2], reg5_init = 0x6a4bf61d,
      memory_keys = [0x00000185, 0x0000030a, 0x00000614, 0x00000c28, 0x00001850, 0x000030a0, 0x00006140, 0x0000c280],
      case_stmts = [(Array_Scatter, 1, 4, 0), (Horner_Loop, 0, 1, 1), (Add_Carry, 5, 4, 4), (Byte_Pack, 2, 5, 0),
                    (Minmax_Clamp, 5, 2, 0), (Popcount_Loop, 0, 2, 0), (Gray_Decode, 2, 3, 4), (Array_Scatter, 3, 5, 5),
                    (Sub_Borrow, 2, 1, 5), (Mask_Merge, 1, 4, 0), (Counted_Loop, 3, 0, 3), (Add_Carry, 4, 3, 0)]\<rparr>"

definition case_0390 :: "case_program" where
  "case_0390 =
     \<lparr>case_id = 390,
      case_input = [0x3452d309, 0xa7c97904, 0x57d6eeea, 0xdc59f32d, 0xde3e7f5f, 0xd38ddae0, 0x040e7d84, 0x208f3d3f,
                    0xc8735e15, 0x00000003, 0x2bfad16b, 0x6cb8febb, 0xe2c442a6, 0xa5e88a41, 0x6a1ae6d5, 0x00000003],
      case_kernel = endian_kernel 15,
      reg_inputs = [7, 11, 15, 3], reg5_init = 0x08836fd6,
      memory_keys = [0x00000186, 0x0000030c, 0x00000618, 0x00000c30, 0x00001860, 0x000030c0, 0x00006180, 0x0000c300],
      case_stmts = [(Counted_Loop, 4, 2, 2), (Horner_Loop, 1, 1, 4), (Add_Carry, 1, 5, 1), (Divide_Rem, 5, 3, 1),
                    (Divide_Rem, 5, 3, 4), (Switch_Phi, 4, 0, 4), (Horner_Loop, 4, 5, 3), (Minmax_Clamp, 1, 2, 0),
                    (Counted_Loop, 1, 1, 2), (Horner_Loop, 3, 5, 4), (Add_Carry, 1, 4, 4), (Minmax_Clamp, 2, 4, 2)]\<rparr>"

definition case_0391 :: "case_program" where
  "case_0391 =
     \<lparr>case_id = 391,
      case_input = [0x7fffffff, 0xbbc82c43, 0xa24e4cec, 0x7c50860b, 0xc86bf28a, 0xc06e91e3, 0x4df5e2fd, 0xf27afbf3,
                    0x2f3455c4, 0x2720bacd, 0xbd7c264c, 0xb48e0dca, 0x3ac2814f, 0x3c0e9007, 0xb7a0f7ec, 0xe474ba9b],
      case_kernel = endian_kernel 0,
      reg_inputs = [8, 12, 0, 4], reg5_init = 0xa6bae98f,
      memory_keys = [0x00000187, 0x0000030e, 0x0000061c, 0x00000c38, 0x00001870, 0x000030e0, 0x000061c0, 0x0000c380],
      case_stmts = [(Switch_Phi, 5, 1, 5), (Horner_Loop, 0, 1, 5), (Add_Carry, 1, 3, 5), (Sub_Borrow, 2, 1, 2),
                    (Multiply_Low, 1, 5, 2), (Endian_Swap, 2, 4, 3), (Popcount_Loop, 5, 4, 0), (Sub_Borrow, 4, 3, 0),
                    (Array_Scatter, 2, 2, 1), (Rotate_Mix, 0, 3, 0), (Add_Carry, 5, 0, 3), (Popcount_Loop, 3, 4, 3)]\<rparr>"

definition case_0392 :: "case_program" where
  "case_0392 =
     \<lparr>case_id = 392,
      case_input = [0xb34f1084, 0x00000080, 0xfe4d4810, 0x16168c1c, 0x7edc7b11, 0x47f088b1, 0xf7b9bdc8, 0x00000001,
                    0x66a0562e, 0x74f8d7cd, 0x574c0672, 0x225437cb, 0x6cdcd3a0, 0x04da397a, 0x817f41b6, 0xa4426e1d],
      case_kernel = endian_kernel 1,
      reg_inputs = [9, 13, 1, 5], reg5_init = 0x44f26348,
      memory_keys = [0x00000188, 0x00000310, 0x00000620, 0x00000c40, 0x00001880, 0x00003100, 0x00006200, 0x0000c400],
      case_stmts = [(Short_Circuit, 3, 5, 0), (Horner_Loop, 1, 2, 1), (Add_Carry, 5, 2, 1), (Mask_Merge, 2, 1, 5),
                    (Sub_Borrow, 4, 2, 4), (Mask_Merge, 2, 3, 0), (Rotate_Mix, 0, 4, 4), (Counted_Loop, 1, 2, 3),
                    (Switch_Phi, 1, 4, 2), (Switch_Phi, 1, 0, 0), (Sub_Borrow, 4, 3, 1), (Horner_Loop, 3, 1, 4)]\<rparr>"

definition case_0393 :: "case_program" where
  "case_0393 =
     \<lparr>case_id = 393,
      case_input = [0xf3cd30c5, 0x13cb79ee, 0x000000ff, 0xb61ff93a, 0x6889f6c4, 0x5413c3b2, 0xbe4222b1, 0x078d9fca,
                    0x81e75dff, 0x35176502, 0xc1caf155, 0xfa62c4ba, 0xb4da1049, 0x9d3c233c, 0x000000ff, 0x8d729f63],
      case_kernel = endian_kernel 2,
      reg_inputs = [10, 14, 2, 6], reg5_init = 0xe329dd01,
      memory_keys = [0x00000189, 0x00000312, 0x00000624, 0x00000c48, 0x00001890, 0x00003120, 0x00006240, 0x0000c480],
      case_stmts = [(Popcount_Loop, 0, 0, 3), (Horner_Loop, 4, 2, 4), (Add_Carry, 1, 0, 5), (Add_Carry, 3, 5, 2),
                    (Carry_Chain, 0, 4, 2), (Multiply_Low, 2, 3, 3), (Short_Circuit, 1, 1, 3), (Horner_Loop, 2, 5, 5),
                    (Halfword_Swap, 4, 1, 1), (Counted_Loop, 0, 4, 2), (Endian_Swap, 0, 3, 2), (Rotate_Mix, 2, 1, 1)]\<rparr>"

definition case_0394 :: "case_program" where
  "case_0394 =
     \<lparr>case_id = 394,
      case_input = [0x324b5006, 0x37ca8626, 0x1d7ea958, 0x00000100, 0x9f49cc65, 0xffffffff, 0x4e5b564b, 0x0d2e9c40,
                    0xf4f38873, 0xfa982a51, 0xc7cc91dd, 0xff58c9d0, 0xf3d5941e, 0xde6e9e2c, 0x68b45346, 0xf73fe055],
      case_kernel = endian_kernel 3,
      reg_inputs = [11, 15, 3, 7], reg5_init = 0x816156ba,
      memory_keys = [0x0000018a, 0x00000314, 0x00000628, 0x00000c50, 0x000018a0, 0x00003140, 0x00006280, 0x0000c500],
      case_stmts = [(Reverse_Loop, 3, 4, 5), (Horner_Loop, 3, 4, 1), (Add_Carry, 5, 5, 2), (Multiply_Low, 2, 3, 1),
                    (Reverse_Loop, 0, 3, 2), (Popcount_Loop, 4, 1, 3), (Add_Carry, 5, 3, 0), (Compare_Select, 2, 2, 4),
                    (Switch_Phi, 1, 1, 2), (Short_Circuit, 2, 5, 2), (Switch_Phi, 0, 5, 5), (Carry_Chain, 4, 2, 1)]\<rparr>"

definition case_0395 :: "case_program" where
  "case_0395 =
     \<lparr>case_id = 395,
      case_input = [0x72c97047, 0x2bcbd361, 0xe8e60b5e, 0x4206eb5c, 0x7fffffff, 0x866df936, 0x07a0c932, 0xdfdb5a8c,
                    0x13b483a2, 0xbb77989e, 0x514a66fa, 0x276e3aa1, 0x0000007f, 0x4788846a, 0xb50e427f, 0xde0f112b],
      case_kernel = endian_kernel 4,
      reg_inputs = [12, 0, 4, 8], reg5_init = 0x1f98d073,
      memory_keys = [0x0000018b, 0x00000316, 0x0000062c, 0x00000c58, 0x000018b0, 0x00003160, 0x000062c0, 0x0000c580],
      case_stmts = [(Gray_Decode, 2, 1, 2), (Horner_Loop, 4, 4, 0), (Add_Carry, 3, 3, 2), (Carry_Chain, 5, 1, 0),
                    (Array_Scatter, 0, 5, 0), (Byte_Pack, 0, 1, 4), (Counted_Loop, 0, 4, 5), (Horner_Loop, 3, 5, 0),
                    (Short_Circuit, 0, 2, 5), (Mask_Merge, 3, 5, 2), (Horner_Loop, 0, 3, 0), (Byte_Pack, 5, 4, 0)]\<rparr>"

definition case_0396 :: "case_program" where
  "case_0396 =
     \<lparr>case_id = 396,
      case_input = [0xb1479181, 0x7fcb79b7, 0x382a8a81, 0x80000000, 0xbff115f8, 0x80000000, 0xb9773fb1, 0xade26e3a,
                    0xaec9bbb6, 0xeb610ebe, 0xdb28e7ed, 0x26cd11fb, 0x3d8b645f, 0xed2a8405, 0x0837adf3, 0xcdd16721],
      case_kernel = endian_kernel 5,
      reg_inputs = [13, 1, 5, 9], reg5_init = 0xbdd04a2c,
      memory_keys = [0x0000018c, 0x00000318, 0x00000630, 0x00000c60, 0x000018c0, 0x00003180, 0x00006300, 0x0000c600],
      case_stmts = [(Minmax_Clamp, 2, 0, 0), (Horner_Loop, 0, 1, 0), (Add_Carry, 1, 1, 2), (Divide_Rem, 5, 5, 1),
                    (Switch_Phi, 1, 5, 1), (Short_Circuit, 3, 5, 0), (Byte_Pack, 1, 2, 0), (Gray_Decode, 2, 0, 4),
                    (Gray_Decode, 3, 1, 2), (Counted_Loop, 5, 2, 0), (Sub_Borrow, 3, 3, 0), (Horner_Loop, 1, 1, 1)]\<rparr>"

definition case_0397 :: "case_program" where
  "case_0397 =
     \<lparr>case_id = 397,
      case_input = [0xf1c5b1c0, 0x63ca2cf0, 0xcdb22887, 0x5c2dddf7, 0xa9a4982d, 0x69ef1bfe, 0xfffffffe, 0x7f17a8f6,
                    0x498eb067, 0xaa8ebc71, 0x00000002, 0xfefbe28a, 0xe58da7b6, 0x74cc9e43, 0xd58dbcca, 0xe4e1965f],
      case_kernel = endian_kernel 6,
      reg_inputs = [14, 2, 6, 10], reg5_init = 0x5c07c3e5,
      memory_keys = [0x0000018d, 0x0000031a, 0x00000634, 0x00000c68, 0x000018d0, 0x000031a0, 0x00006340, 0x0000c680],
      case_stmts = [(Endian_Swap, 1, 1, 1), (Horner_Loop, 5, 1, 3), (Add_Carry, 3, 3, 0), (Sub_Borrow, 2, 5, 4),
                    (Halfword_Swap, 1, 5, 1), (Reverse_Loop, 5, 5, 5), (Array_Scatter, 2, 5, 1),
                    (Counted_Loop, 1, 3, 0), (Add_Carry, 2, 4, 5), (Switch_Phi, 4, 0, 2), (Mask_Merge, 3, 1, 5),
                    (Counted_Loop, 0, 3, 2)]\<rparr>"

definition case_0398 :: "case_program" where
  "case_0398 =
     \<lparr>case_id = 398,
      case_input = [0x3043d103, 0x00000100, 0xdb196bc9, 0x083dbab7, 0x5e64a28c, 0xa8726a79, 0x0095d432, 0xffffffff,
                    0x3c9a65eb, 0x6501f322, 0x4ba87042, 0xfbc1efe0, 0xa28223e1, 0x379e2353, 0xe1fcbf03, 0x9eace969],
      case_kernel = endian_kernel 7,
      reg_inputs = [15, 3, 7, 11], reg5_init = 0xfa3f3d9e,
      memory_keys = [0x0000018e, 0x0000031c, 0x00000638, 0x00000c70, 0x000018e0, 0x000031c0, 0x00006380, 0x0000c700],
      case_stmts = [(Carry_Chain, 2, 1, 1), (Horner_Loop, 4, 5, 4), (Add_Carry, 3, 0, 1), (Rotate_Mix, 5, 3, 5),
                    (Minmax_Clamp, 1, 4, 1), (Halfword_Swap, 3, 5, 5), (Array_Scatter, 0, 3, 4),
                    (Multiply_Low, 5, 2, 5), (Multiply_Low, 5, 2, 0), (Mask_Merge, 0, 1, 0), (Gray_Decode, 5, 1, 0),
                    (Counted_Loop, 4, 0, 0)]\<rparr>"

definition case_0399 :: "case_program" where
  "case_0399 =
     \<lparr>case_id = 399,
      case_input = [0x70c1f142, 0x5bca867f, 0x2e81c9cf, 0xa834cf91, 0x48312f59, 0xbb91217a, 0x496e4b4b, 0xa7416db0,
                    0x00000000, 0x24ee41ed, 0xdd2e8765, 0x23f71c91, 0x7a84e008, 0xae783915, 0x3c46ae3a, 0xb79c1817],
      case_kernel = endian_kernel 8,
      reg_inputs = [0, 4, 8, 12], reg5_init = 0x9876b757,
      memory_keys = [0x0000018f, 0x0000031e, 0x0000063c, 0x00000c78, 0x000018f0, 0x000031e0, 0x000063c0, 0x0000c780],
      case_stmts = [(Horner_Loop, 1, 0, 0), (Horner_Loop, 1, 1, 1), (Add_Carry, 5, 2, 3), (Horner_Loop, 2, 5, 2),
                    (Byte_Pack, 1, 4, 5), (Compare_Select, 1, 3, 2), (Horner_Loop, 1, 4, 1), (Rotate_Mix, 2, 5, 3),
                    (Minmax_Clamp, 0, 1, 1), (Short_Circuit, 3, 1, 4), (Byte_Pack, 1, 5, 5), (Byte_Pack, 5, 0, 3)]\<rparr>"

lemma conforms_0300: "conforms (case_0300 junk) (ring_prediction 5 12)"
  by (rule conformsI) (simp_all add: case_0300_def upt_rec stmt_ok_def ring_predicted)

lemma conforms_0301: "conforms (case_0301 junk) (ring_prediction 6 13)"
  by (rule conformsI) (simp_all add: case_0301_def upt_rec stmt_ok_def ring_predicted)

lemma conforms_0302: "conforms (case_0302 junk) (ring_prediction 7 14)"
  by (rule conformsI) (simp_all add: case_0302_def upt_rec stmt_ok_def ring_predicted)

lemma conforms_0303: "conforms (case_0303 junk) (ring_prediction 8 15)"
  by (rule conformsI) (simp_all add: case_0303_def upt_rec stmt_ok_def ring_predicted)

lemma conforms_0304: "conforms (case_0304 junk) (ring_prediction 9 12)"
  by (rule conformsI) (simp_all add: case_0304_def upt_rec stmt_ok_def ring_predicted)

lemma conforms_0305: "conforms (case_0305 junk) (ring_prediction 10 13)"
  by (rule conformsI) (simp_all add: case_0305_def upt_rec stmt_ok_def ring_predicted)

lemma conforms_0306: "conforms (case_0306 junk) (ring_prediction 11 14)"
  by (rule conformsI) (simp_all add: case_0306_def upt_rec stmt_ok_def ring_predicted)

lemma conforms_0307: "conforms (case_0307 junk) (ring_prediction 5 15)"
  by (rule conformsI) (simp_all add: case_0307_def upt_rec stmt_ok_def ring_predicted)

lemma conforms_0308: "conforms (case_0308 junk) (ring_prediction 6 12)"
  by (rule conformsI) (simp_all add: case_0308_def upt_rec stmt_ok_def ring_predicted)

lemma conforms_0309: "conforms (case_0309 junk) (ring_prediction 7 13)"
  by (rule conformsI) (simp_all add: case_0309_def upt_rec stmt_ok_def ring_predicted)

lemma conforms_0310: "conforms (case_0310 junk) (ring_prediction 8 14)"
  by (rule conformsI) (simp_all add: case_0310_def upt_rec stmt_ok_def ring_predicted)

lemma conforms_0311: "conforms (case_0311 junk) (ring_prediction 9 15)"
  by (rule conformsI) (simp_all add: case_0311_def upt_rec stmt_ok_def ring_predicted)

lemma conforms_0312: "conforms (case_0312 junk) (ring_prediction 10 12)"
  by (rule conformsI) (simp_all add: case_0312_def upt_rec stmt_ok_def ring_predicted)

lemma conforms_0313: "conforms (case_0313 junk) (ring_prediction 11 13)"
  by (rule conformsI) (simp_all add: case_0313_def upt_rec stmt_ok_def ring_predicted)

lemma conforms_0314: "conforms (case_0314 junk) (ring_prediction 5 14)"
  by (rule conformsI) (simp_all add: case_0314_def upt_rec stmt_ok_def ring_predicted)

lemma conforms_0315: "conforms (case_0315 junk) (ring_prediction 6 15)"
  by (rule conformsI) (simp_all add: case_0315_def upt_rec stmt_ok_def ring_predicted)

lemma conforms_0316: "conforms (case_0316 junk) (ring_prediction 7 12)"
  by (rule conformsI) (simp_all add: case_0316_def upt_rec stmt_ok_def ring_predicted)

lemma conforms_0317: "conforms (case_0317 junk) (ring_prediction 8 13)"
  by (rule conformsI) (simp_all add: case_0317_def upt_rec stmt_ok_def ring_predicted)

lemma conforms_0318: "conforms (case_0318 junk) (ring_prediction 9 14)"
  by (rule conformsI) (simp_all add: case_0318_def upt_rec stmt_ok_def ring_predicted)

lemma conforms_0319: "conforms (case_0319 junk) (ring_prediction 10 15)"
  by (rule conformsI) (simp_all add: case_0319_def upt_rec stmt_ok_def ring_predicted)

lemma conforms_0320: "conforms (case_0320 junk) (ring_prediction 11 12)"
  by (rule conformsI) (simp_all add: case_0320_def upt_rec stmt_ok_def ring_predicted)

lemma conforms_0321: "conforms (case_0321 junk) (ring_prediction 5 13)"
  by (rule conformsI) (simp_all add: case_0321_def upt_rec stmt_ok_def ring_predicted)

lemma conforms_0322: "conforms (case_0322 junk) (ring_prediction 6 14)"
  by (rule conformsI) (simp_all add: case_0322_def upt_rec stmt_ok_def ring_predicted)

lemma conforms_0323: "conforms (case_0323 junk) (ring_prediction 7 15)"
  by (rule conformsI) (simp_all add: case_0323_def upt_rec stmt_ok_def ring_predicted)

lemma conforms_0324: "conforms (case_0324 junk) (ring_prediction 8 12)"
  by (rule conformsI) (simp_all add: case_0324_def upt_rec stmt_ok_def ring_predicted)

lemma conforms_0325: "conforms case_0325 (histogram_prediction 4)"
  by (rule conformsI) (simp_all add: case_0325_def upt_rec stmt_ok_def histogram_predicted)

lemma conforms_0326: "conforms case_0326 (histogram_prediction 5)"
  by (rule conformsI) (simp_all add: case_0326_def upt_rec stmt_ok_def histogram_predicted)

lemma conforms_0327: "conforms case_0327 (histogram_prediction 6)"
  by (rule conformsI) (simp_all add: case_0327_def upt_rec stmt_ok_def histogram_predicted)

lemma conforms_0328: "conforms case_0328 (histogram_prediction 7)"
  by (rule conformsI) (simp_all add: case_0328_def upt_rec stmt_ok_def histogram_predicted)

lemma conforms_0329: "conforms case_0329 (histogram_prediction 8)"
  by (rule conformsI) (simp_all add: case_0329_def upt_rec stmt_ok_def histogram_predicted)

lemma conforms_0330: "conforms case_0330 (histogram_prediction 9)"
  by (rule conformsI) (simp_all add: case_0330_def upt_rec stmt_ok_def histogram_predicted)

lemma conforms_0331: "conforms case_0331 (histogram_prediction 10)"
  by (rule conformsI) (simp_all add: case_0331_def upt_rec stmt_ok_def histogram_predicted)

lemma conforms_0332: "conforms case_0332 (histogram_prediction 11)"
  by (rule conformsI) (simp_all add: case_0332_def upt_rec stmt_ok_def histogram_predicted)

lemma conforms_0333: "conforms case_0333 (histogram_prediction 12)"
  by (rule conformsI) (simp_all add: case_0333_def upt_rec stmt_ok_def histogram_predicted)

lemma conforms_0334: "conforms case_0334 (histogram_prediction 13)"
  by (rule conformsI) (simp_all add: case_0334_def upt_rec stmt_ok_def histogram_predicted)

lemma conforms_0335: "conforms case_0335 (histogram_prediction 14)"
  by (rule conformsI) (simp_all add: case_0335_def upt_rec stmt_ok_def histogram_predicted)

lemma conforms_0336: "conforms case_0336 (histogram_prediction 15)"
  by (rule conformsI) (simp_all add: case_0336_def upt_rec stmt_ok_def histogram_predicted)

lemma conforms_0337: "conforms case_0337 (histogram_prediction 4)"
  by (rule conformsI) (simp_all add: case_0337_def upt_rec stmt_ok_def histogram_predicted)

lemma conforms_0338: "conforms case_0338 (histogram_prediction 5)"
  by (rule conformsI) (simp_all add: case_0338_def upt_rec stmt_ok_def histogram_predicted)

lemma conforms_0339: "conforms case_0339 (histogram_prediction 6)"
  by (rule conformsI) (simp_all add: case_0339_def upt_rec stmt_ok_def histogram_predicted)

lemma conforms_0340: "conforms case_0340 (histogram_prediction 7)"
  by (rule conformsI) (simp_all add: case_0340_def upt_rec stmt_ok_def histogram_predicted)

lemma conforms_0341: "conforms case_0341 (histogram_prediction 8)"
  by (rule conformsI) (simp_all add: case_0341_def upt_rec stmt_ok_def histogram_predicted)

lemma conforms_0342: "conforms case_0342 (histogram_prediction 9)"
  by (rule conformsI) (simp_all add: case_0342_def upt_rec stmt_ok_def histogram_predicted)

lemma conforms_0343: "conforms case_0343 (histogram_prediction 10)"
  by (rule conformsI) (simp_all add: case_0343_def upt_rec stmt_ok_def histogram_predicted)

lemma conforms_0344: "conforms case_0344 (histogram_prediction 11)"
  by (rule conformsI) (simp_all add: case_0344_def upt_rec stmt_ok_def histogram_predicted)

lemma conforms_0345: "conforms case_0345 (histogram_prediction 12)"
  by (rule conformsI) (simp_all add: case_0345_def upt_rec stmt_ok_def histogram_predicted)

lemma conforms_0346: "conforms case_0346 (histogram_prediction 13)"
  by (rule conformsI) (simp_all add: case_0346_def upt_rec stmt_ok_def histogram_predicted)

lemma conforms_0347: "conforms case_0347 (histogram_prediction 14)"
  by (rule conformsI) (simp_all add: case_0347_def upt_rec stmt_ok_def histogram_predicted)

lemma conforms_0348: "conforms case_0348 (histogram_prediction 15)"
  by (rule conformsI) (simp_all add: case_0348_def upt_rec stmt_ok_def histogram_predicted)

lemma conforms_0349: "conforms case_0349 (histogram_prediction 4)"
  by (rule conformsI) (simp_all add: case_0349_def upt_rec stmt_ok_def histogram_predicted)

lemma conforms_0350: "conforms case_0350 (matrix3_prediction)"
  by (rule conformsI) (simp_all add: case_0350_def upt_rec stmt_ok_def matrix3_predicted)

lemma conforms_0351: "conforms case_0351 (matrix3_prediction)"
  by (rule conformsI) (simp_all add: case_0351_def upt_rec stmt_ok_def matrix3_predicted)

lemma conforms_0352: "conforms case_0352 (matrix3_prediction)"
  by (rule conformsI) (simp_all add: case_0352_def upt_rec stmt_ok_def matrix3_predicted)

lemma conforms_0353: "conforms case_0353 (matrix3_prediction)"
  by (rule conformsI) (simp_all add: case_0353_def upt_rec stmt_ok_def matrix3_predicted)

lemma conforms_0354: "conforms case_0354 (matrix3_prediction)"
  by (rule conformsI) (simp_all add: case_0354_def upt_rec stmt_ok_def matrix3_predicted)

lemma conforms_0355: "conforms case_0355 (matrix3_prediction)"
  by (rule conformsI) (simp_all add: case_0355_def upt_rec stmt_ok_def matrix3_predicted)

lemma conforms_0356: "conforms case_0356 (matrix3_prediction)"
  by (rule conformsI) (simp_all add: case_0356_def upt_rec stmt_ok_def matrix3_predicted)

lemma conforms_0357: "conforms case_0357 (matrix3_prediction)"
  by (rule conformsI) (simp_all add: case_0357_def upt_rec stmt_ok_def matrix3_predicted)

lemma conforms_0358: "conforms case_0358 (matrix3_prediction)"
  by (rule conformsI) (simp_all add: case_0358_def upt_rec stmt_ok_def matrix3_predicted)

lemma conforms_0359: "conforms case_0359 (matrix3_prediction)"
  by (rule conformsI) (simp_all add: case_0359_def upt_rec stmt_ok_def matrix3_predicted)

lemma conforms_0360: "conforms case_0360 (matrix3_prediction)"
  by (rule conformsI) (simp_all add: case_0360_def upt_rec stmt_ok_def matrix3_predicted)

lemma conforms_0361: "conforms case_0361 (matrix3_prediction)"
  by (rule conformsI) (simp_all add: case_0361_def upt_rec stmt_ok_def matrix3_predicted)

lemma conforms_0362: "conforms case_0362 (matrix3_prediction)"
  by (rule conformsI) (simp_all add: case_0362_def upt_rec stmt_ok_def matrix3_predicted)

lemma conforms_0363: "conforms case_0363 (matrix3_prediction)"
  by (rule conformsI) (simp_all add: case_0363_def upt_rec stmt_ok_def matrix3_predicted)

lemma conforms_0364: "conforms case_0364 (matrix3_prediction)"
  by (rule conformsI) (simp_all add: case_0364_def upt_rec stmt_ok_def matrix3_predicted)

lemma conforms_0365: "conforms case_0365 (matrix3_prediction)"
  by (rule conformsI) (simp_all add: case_0365_def upt_rec stmt_ok_def matrix3_predicted)

lemma conforms_0366: "conforms case_0366 (matrix3_prediction)"
  by (rule conformsI) (simp_all add: case_0366_def upt_rec stmt_ok_def matrix3_predicted)

lemma conforms_0367: "conforms case_0367 (matrix3_prediction)"
  by (rule conformsI) (simp_all add: case_0367_def upt_rec stmt_ok_def matrix3_predicted)

lemma conforms_0368: "conforms case_0368 (matrix3_prediction)"
  by (rule conformsI) (simp_all add: case_0368_def upt_rec stmt_ok_def matrix3_predicted)

lemma conforms_0369: "conforms case_0369 (matrix3_prediction)"
  by (rule conformsI) (simp_all add: case_0369_def upt_rec stmt_ok_def matrix3_predicted)

lemma conforms_0370: "conforms case_0370 (matrix3_prediction)"
  by (rule conformsI) (simp_all add: case_0370_def upt_rec stmt_ok_def matrix3_predicted)

lemma conforms_0371: "conforms case_0371 (matrix3_prediction)"
  by (rule conformsI) (simp_all add: case_0371_def upt_rec stmt_ok_def matrix3_predicted)

lemma conforms_0372: "conforms case_0372 (matrix3_prediction)"
  by (rule conformsI) (simp_all add: case_0372_def upt_rec stmt_ok_def matrix3_predicted)

lemma conforms_0373: "conforms case_0373 (matrix3_prediction)"
  by (rule conformsI) (simp_all add: case_0373_def upt_rec stmt_ok_def matrix3_predicted)

lemma conforms_0374: "conforms case_0374 (matrix3_prediction)"
  by (rule conformsI) (simp_all add: case_0374_def upt_rec stmt_ok_def matrix3_predicted)

lemma conforms_0375: "conforms case_0375 (endian_prediction 0)"
  by (rule conformsI) (simp_all add: case_0375_def upt_rec stmt_ok_def endian_predicted)

lemma conforms_0376: "conforms case_0376 (endian_prediction 1)"
  by (rule conformsI) (simp_all add: case_0376_def upt_rec stmt_ok_def endian_predicted)

lemma conforms_0377: "conforms case_0377 (endian_prediction 2)"
  by (rule conformsI) (simp_all add: case_0377_def upt_rec stmt_ok_def endian_predicted)

lemma conforms_0378: "conforms case_0378 (endian_prediction 3)"
  by (rule conformsI) (simp_all add: case_0378_def upt_rec stmt_ok_def endian_predicted)

lemma conforms_0379: "conforms case_0379 (endian_prediction 4)"
  by (rule conformsI) (simp_all add: case_0379_def upt_rec stmt_ok_def endian_predicted)

lemma conforms_0380: "conforms case_0380 (endian_prediction 5)"
  by (rule conformsI) (simp_all add: case_0380_def upt_rec stmt_ok_def endian_predicted)

lemma conforms_0381: "conforms case_0381 (endian_prediction 6)"
  by (rule conformsI) (simp_all add: case_0381_def upt_rec stmt_ok_def endian_predicted)

lemma conforms_0382: "conforms case_0382 (endian_prediction 7)"
  by (rule conformsI) (simp_all add: case_0382_def upt_rec stmt_ok_def endian_predicted)

lemma conforms_0383: "conforms case_0383 (endian_prediction 8)"
  by (rule conformsI) (simp_all add: case_0383_def upt_rec stmt_ok_def endian_predicted)

lemma conforms_0384: "conforms case_0384 (endian_prediction 9)"
  by (rule conformsI) (simp_all add: case_0384_def upt_rec stmt_ok_def endian_predicted)

lemma conforms_0385: "conforms case_0385 (endian_prediction 10)"
  by (rule conformsI) (simp_all add: case_0385_def upt_rec stmt_ok_def endian_predicted)

lemma conforms_0386: "conforms case_0386 (endian_prediction 11)"
  by (rule conformsI) (simp_all add: case_0386_def upt_rec stmt_ok_def endian_predicted)

lemma conforms_0387: "conforms case_0387 (endian_prediction 12)"
  by (rule conformsI) (simp_all add: case_0387_def upt_rec stmt_ok_def endian_predicted)

lemma conforms_0388: "conforms case_0388 (endian_prediction 13)"
  by (rule conformsI) (simp_all add: case_0388_def upt_rec stmt_ok_def endian_predicted)

lemma conforms_0389: "conforms case_0389 (endian_prediction 14)"
  by (rule conformsI) (simp_all add: case_0389_def upt_rec stmt_ok_def endian_predicted)

lemma conforms_0390: "conforms case_0390 (endian_prediction 15)"
  by (rule conformsI) (simp_all add: case_0390_def upt_rec stmt_ok_def endian_predicted)

lemma conforms_0391: "conforms case_0391 (endian_prediction 0)"
  by (rule conformsI) (simp_all add: case_0391_def upt_rec stmt_ok_def endian_predicted)

lemma conforms_0392: "conforms case_0392 (endian_prediction 1)"
  by (rule conformsI) (simp_all add: case_0392_def upt_rec stmt_ok_def endian_predicted)

lemma conforms_0393: "conforms case_0393 (endian_prediction 2)"
  by (rule conformsI) (simp_all add: case_0393_def upt_rec stmt_ok_def endian_predicted)

lemma conforms_0394: "conforms case_0394 (endian_prediction 3)"
  by (rule conformsI) (simp_all add: case_0394_def upt_rec stmt_ok_def endian_predicted)

lemma conforms_0395: "conforms case_0395 (endian_prediction 4)"
  by (rule conformsI) (simp_all add: case_0395_def upt_rec stmt_ok_def endian_predicted)

lemma conforms_0396: "conforms case_0396 (endian_prediction 5)"
  by (rule conformsI) (simp_all add: case_0396_def upt_rec stmt_ok_def endian_predicted)

lemma conforms_0397: "conforms case_0397 (endian_prediction 6)"
  by (rule conformsI) (simp_all add: case_0397_def upt_rec stmt_ok_def endian_predicted)

lemma conforms_0398: "conforms case_0398 (endian_prediction 7)"
  by (rule conformsI) (simp_all add: case_0398_def upt_rec stmt_ok_def endian_predicted)

lemma conforms_0399: "conforms case_0399 (endian_prediction 8)"
  by (rule conformsI) (simp_all add: case_0399_def upt_rec stmt_ok_def endian_predicted)

definition corpus_3 :: "(nat \<Rightarrow> u32) \<Rightarrow> (case_program \<times> (u32 list \<Rightarrow> u32)) list" where
  "corpus_3 junk =
    [(case_0300 junk, ring_prediction 5 12),
     (case_0301 junk, ring_prediction 6 13),
     (case_0302 junk, ring_prediction 7 14),
     (case_0303 junk, ring_prediction 8 15),
     (case_0304 junk, ring_prediction 9 12),
     (case_0305 junk, ring_prediction 10 13),
     (case_0306 junk, ring_prediction 11 14),
     (case_0307 junk, ring_prediction 5 15),
     (case_0308 junk, ring_prediction 6 12),
     (case_0309 junk, ring_prediction 7 13),
     (case_0310 junk, ring_prediction 8 14),
     (case_0311 junk, ring_prediction 9 15),
     (case_0312 junk, ring_prediction 10 12),
     (case_0313 junk, ring_prediction 11 13),
     (case_0314 junk, ring_prediction 5 14),
     (case_0315 junk, ring_prediction 6 15),
     (case_0316 junk, ring_prediction 7 12),
     (case_0317 junk, ring_prediction 8 13),
     (case_0318 junk, ring_prediction 9 14),
     (case_0319 junk, ring_prediction 10 15),
     (case_0320 junk, ring_prediction 11 12),
     (case_0321 junk, ring_prediction 5 13),
     (case_0322 junk, ring_prediction 6 14),
     (case_0323 junk, ring_prediction 7 15),
     (case_0324 junk, ring_prediction 8 12),
     (case_0325, histogram_prediction 4),
     (case_0326, histogram_prediction 5),
     (case_0327, histogram_prediction 6),
     (case_0328, histogram_prediction 7),
     (case_0329, histogram_prediction 8),
     (case_0330, histogram_prediction 9),
     (case_0331, histogram_prediction 10),
     (case_0332, histogram_prediction 11),
     (case_0333, histogram_prediction 12),
     (case_0334, histogram_prediction 13),
     (case_0335, histogram_prediction 14),
     (case_0336, histogram_prediction 15),
     (case_0337, histogram_prediction 4),
     (case_0338, histogram_prediction 5),
     (case_0339, histogram_prediction 6),
     (case_0340, histogram_prediction 7),
     (case_0341, histogram_prediction 8),
     (case_0342, histogram_prediction 9),
     (case_0343, histogram_prediction 10),
     (case_0344, histogram_prediction 11),
     (case_0345, histogram_prediction 12),
     (case_0346, histogram_prediction 13),
     (case_0347, histogram_prediction 14),
     (case_0348, histogram_prediction 15),
     (case_0349, histogram_prediction 4),
     (case_0350, matrix3_prediction),
     (case_0351, matrix3_prediction),
     (case_0352, matrix3_prediction),
     (case_0353, matrix3_prediction),
     (case_0354, matrix3_prediction),
     (case_0355, matrix3_prediction),
     (case_0356, matrix3_prediction),
     (case_0357, matrix3_prediction),
     (case_0358, matrix3_prediction),
     (case_0359, matrix3_prediction),
     (case_0360, matrix3_prediction),
     (case_0361, matrix3_prediction),
     (case_0362, matrix3_prediction),
     (case_0363, matrix3_prediction),
     (case_0364, matrix3_prediction),
     (case_0365, matrix3_prediction),
     (case_0366, matrix3_prediction),
     (case_0367, matrix3_prediction),
     (case_0368, matrix3_prediction),
     (case_0369, matrix3_prediction),
     (case_0370, matrix3_prediction),
     (case_0371, matrix3_prediction),
     (case_0372, matrix3_prediction),
     (case_0373, matrix3_prediction),
     (case_0374, matrix3_prediction),
     (case_0375, endian_prediction 0),
     (case_0376, endian_prediction 1),
     (case_0377, endian_prediction 2),
     (case_0378, endian_prediction 3),
     (case_0379, endian_prediction 4),
     (case_0380, endian_prediction 5),
     (case_0381, endian_prediction 6),
     (case_0382, endian_prediction 7),
     (case_0383, endian_prediction 8),
     (case_0384, endian_prediction 9),
     (case_0385, endian_prediction 10),
     (case_0386, endian_prediction 11),
     (case_0387, endian_prediction 12),
     (case_0388, endian_prediction 13),
     (case_0389, endian_prediction 14),
     (case_0390, endian_prediction 15),
     (case_0391, endian_prediction 0),
     (case_0392, endian_prediction 1),
     (case_0393, endian_prediction 2),
     (case_0394, endian_prediction 3),
     (case_0395, endian_prediction 4),
     (case_0396, endian_prediction 5),
     (case_0397, endian_prediction 6),
     (case_0398, endian_prediction 7),
     (case_0399, endian_prediction 8)]"

lemmas corpus_3_programs =
  conforms_0300 conforms_0301 conforms_0302 conforms_0303 conforms_0304 conforms_0305 conforms_0306 conforms_0307
  conforms_0308 conforms_0309 conforms_0310 conforms_0311 conforms_0312 conforms_0313 conforms_0314 conforms_0315
  conforms_0316 conforms_0317 conforms_0318 conforms_0319 conforms_0320 conforms_0321 conforms_0322 conforms_0323
  conforms_0324 conforms_0325 conforms_0326 conforms_0327 conforms_0328 conforms_0329 conforms_0330 conforms_0331
  conforms_0332 conforms_0333 conforms_0334 conforms_0335 conforms_0336 conforms_0337 conforms_0338 conforms_0339
  conforms_0340 conforms_0341 conforms_0342 conforms_0343 conforms_0344 conforms_0345 conforms_0346 conforms_0347
  conforms_0348 conforms_0349 conforms_0350 conforms_0351 conforms_0352 conforms_0353 conforms_0354 conforms_0355
  conforms_0356 conforms_0357 conforms_0358 conforms_0359 conforms_0360 conforms_0361 conforms_0362 conforms_0363
  conforms_0364 conforms_0365 conforms_0366 conforms_0367 conforms_0368 conforms_0369 conforms_0370 conforms_0371
  conforms_0372 conforms_0373 conforms_0374 conforms_0375 conforms_0376 conforms_0377 conforms_0378 conforms_0379
  conforms_0380 conforms_0381 conforms_0382 conforms_0383 conforms_0384 conforms_0385 conforms_0386 conforms_0387
  conforms_0388 conforms_0389 conforms_0390 conforms_0391 conforms_0392 conforms_0393 conforms_0394 conforms_0395
  conforms_0396 conforms_0397 conforms_0398 conforms_0399

lemma corpus_3_conforms: "list_all (\<lambda>(c, prediction). conforms c prediction) (corpus_3 junk)"
  unfolding corpus_3_def list.pred_inject prod.case by (intro conjI corpus_3_programs list.pred_inject(1))

lemma corpus_3_ids: "map (\<lambda>(c, prediction). case_id c) (corpus_3 junk) = [300..<400]"
  by (simp add: corpus_3_def upt_conv_Cons
      case_0300_def case_0301_def case_0302_def case_0303_def case_0304_def case_0305_def case_0306_def
      case_0307_def case_0308_def case_0309_def case_0310_def case_0311_def case_0312_def case_0313_def
      case_0314_def case_0315_def case_0316_def case_0317_def case_0318_def case_0319_def case_0320_def
      case_0321_def case_0322_def case_0323_def case_0324_def case_0325_def case_0326_def case_0327_def
      case_0328_def case_0329_def case_0330_def case_0331_def case_0332_def case_0333_def case_0334_def
      case_0335_def case_0336_def case_0337_def case_0338_def case_0339_def case_0340_def case_0341_def
      case_0342_def case_0343_def case_0344_def case_0345_def case_0346_def case_0347_def case_0348_def
      case_0349_def case_0350_def case_0351_def case_0352_def case_0353_def case_0354_def case_0355_def
      case_0356_def case_0357_def case_0358_def case_0359_def case_0360_def case_0361_def case_0362_def
      case_0363_def case_0364_def case_0365_def case_0366_def case_0367_def case_0368_def case_0369_def
      case_0370_def case_0371_def case_0372_def case_0373_def case_0374_def case_0375_def case_0376_def
      case_0377_def case_0378_def case_0379_def case_0380_def case_0381_def case_0382_def case_0383_def
      case_0384_def case_0385_def case_0386_def case_0387_def case_0388_def case_0389_def case_0390_def
      case_0391_def case_0392_def case_0393_def case_0394_def case_0395_def case_0396_def case_0397_def
      case_0398_def case_0399_def)

end
