(* ===== verification/Corpus_Cases_4.thy ===== *)
theory Corpus_Cases_4
  imports Corpus_Checksums Corpus_Bits Corpus_Control Corpus_Algorithms Corpus_Buffers
begin

text \<open>
  The programs 400 to 499 of the edge-case corpus, one definition per file: inputs, kernel with the parameters of the
  scenario, initial literals and statements, as the C text has them.  Their kernels are the move,
  dense switch, sparse switch and protocol kernels.  Every program conforms to the prediction of its kernel.
\<close>

definition case_0400 :: "(nat \<Rightarrow> u32) \<Rightarrow> case_program" where
  "case_0400 junk =
     \<lparr>case_id = 400,
      case_input = [0x00000000, 0x2fcdd2ed, 0x691dc775, 0x68bc56b3, 0x6533b021, 0xf6ff0c65, 0xa126f2a2, 0xd6fab2f0,
                    0xc2c17c76, 0x0e8b547c, 0x9db89116, 0x241a90e0, 0x04b31282, 0xc7a4d03a, 0x46a356e2, 0x75832cfd],
      case_kernel = move_kernel junk 0 5 4,
      reg_inputs = [1, 5, 9, 13], reg5_init = 0x36ae3110,
      memory_keys = [0x00000190, 0x00000320, 0x00000640, 0x00000c80, 0x00001900, 0x00003200, 0x00006400, 0x0000c800],
      case_stmts = [(Add_Carry, 2, 1, 3), (Add_Carry, 5, 0, 1), (Sub_Borrow, 1, 3, 4), (Byte_Pack, 5, 0, 5),
                    (Popcount_Loop, 2, 2, 5), (Divide_Rem, 4, 4, 5), (Popcount_Loop, 0, 4, 3), (Reverse_Loop, 4, 0, 4),
                    (Gray_Decode, 5, 0, 0), (Array_Scatter, 3, 1, 1), (Horner_Loop, 3, 2, 4), (Switch_Phi, 1, 4, 5)]\<rparr>"

definition case_0401 :: "(nat \<Rightarrow> u32) \<Rightarrow> case_program" where
  "case_0401 junk =
     \<lparr>case_id = 401,
      case_input = [0xfffe36db, 0x00000001, 0x9c856573, 0xc8b52395, 0x73663df4, 0xe51c4766, 0xe8dd6ddb, 0x040f743c,
                    0x258677a7, 0x4f64e6b3, 0x0b3e6631, 0xfc2c6391, 0xdcb5d16b, 0x5e42ca7c, 0x9b1947db, 0x5cb3dd83],
      case_kernel = move_kernel junk 1 6 5,
      reg_inputs = [2, 6, 10, 14], reg5_init = 0xd4e5aac9,
      memory_keys = [0x00000191, 0x00000322, 0x00000644, 0x00000c88, 0x00001910, 0x00003220, 0x00006440, 0x0000c880],
      case_stmts = [(Sub_Borrow, 1, 0, 4), (Add_Carry, 4, 2, 2), (Sub_Borrow, 3, 1, 0), (Carry_Chain, 0, 4, 0),
                    (Counted_Loop, 4, 0, 1), (Reverse_Loop, 0, 4, 0), (Horner_Loop, 5, 1, 0), (Gray_Decode, 3, 3, 0),
                    (Divide_Rem, 4, 1, 1), (Halfword_Swap, 0, 5, 1), (Gray_Decode, 5, 2, 3), (Reverse_Loop, 2, 4, 2)]\<rparr>"

definition case_0402 :: "(nat \<Rightarrow> u32) \<Rightarrow> case_program" where
  "case_0402 junk =
     \<lparr>case_id = 402,
      case_input = [0x3e785618, 0x17cd7862, 0x00000002, 0x9ca544d5, 0x84a60755, 0x248136e1, 0x18c41921, 0x0eac77b6,
                    0x5092a22b, 0x80eba9e0, 0x0d3806b9, 0xf9166efb, 0x9bba553c, 0x1d10776c, 0xaf684412, 0x26fea2b5],
      case_kernel = move_kernel junk 2 7 6,
      reg_inputs = [3, 7, 11, 15], reg5_init = 0x731d2482,
      memory_keys = [0x00000192, 0x00000324, 0x00000648, 0x00000c90, 0x00001920, 0x00003240, 0x00006480, 0x0000c900],
      case_stmts = [(Rotate_Mix, 2, 0, 2), (Add_Carry, 3, 4, 5), (Sub_Borrow, 1, 0, 3), (Sub_Borrow, 1, 2, 3),
                    (Carry_Chain, 2, 5, 1), (Add_Carry, 2, 4, 2), (Multiply_Low, 3, 5, 3), (Rotate_Mix, 3, 0, 5),
                    (Multiply_Low, 5, 1, 0), (Rotate_Mix, 0, 0, 5), (Array_Scatter, 5, 0, 2), (Counted_Loop, 2, 1, 2)]\<rparr>"

definition case_0403 :: "(nat \<Rightarrow> u32) \<Rightarrow> case_program" where
  "case_0403 junk =
     \<lparr>case_id = 403,
      case_input = [0x7efa7659, 0x0bcc2d25, 0x7fb6843b, 0x00000003, 0x92f38a80, 0x37627de2, 0x513f8658, 0xdc59b17a,
                    0xb7d5a9fa, 0xc1041b2f, 0x9bbef19e, 0x21209d8a, 0x43bc96d5, 0x84f66d2a, 0x72d2552b, 0x0fce53cb],
      case_kernel = move_kernel junk 3 8 7,
      reg_inputs = [4, 8, 12, 0], reg5_init = 0x11549e3b,
      memory_keys = [0x00000193, 0x00000326, 0x0000064c, 0x00000c98, 0x00001930, 0x00003260, 0x000064c0, 0x0000c980],
      case_stmts = [(Multiply_Low, 5, 1, 5), (Add_Carry, 0, 0, 4), (Sub_Borrow, 5, 4, 3), (Short_Circuit, 2, 0, 4),
                    (Endian_Swap, 4, 3, 5), (Counted_Loop, 0, 2, 1), (Sub_Borrow, 2, 4, 4), (Switch_Phi, 4, 3, 3),
                    (Short_Circuit, 4, 2, 5), (Horner_Loop, 3, 2, 5), (Sub_Borrow, 1, 2, 1), (Byte_Pack, 5, 3, 5)]\<rparr>"

definition case_0404 :: "(nat \<Rightarrow> u32) \<Rightarrow> case_program" where
  "case_0404 junk =
     \<lparr>case_id = 404,
      case_input = [0xbd74979f, 0x5fcc87f3, 0xaf7a05e4, 0x828e727e, 0x0000007f, 0xcb03d429, 0xefe870db, 0xae6085cc,
                    0x0aa891ee, 0x91128d0f, 0x11dc7089, 0x2083b6d0, 0x55e4a57d, 0x2e546d45, 0xcfebbaa7, 0x1c1025c1],
      case_kernel = move_kernel junk 4 5 4,
      reg_inputs = [5, 9, 13, 1], reg5_init = 0xaf8c17f4,
      memory_keys = [0x00000194, 0x00000328, 0x00000650, 0x00000ca0, 0x00001940, 0x00003280, 0x00006500, 0x0000ca00],
      case_stmts = [(Divide_Rem, 3, 0, 3), (Add_Carry, 2, 1, 0), (Sub_Borrow, 3, 2, 3), (Carry_Chain, 0, 2, 1),
                    (Gray_Decode, 5, 1, 4), (Mask_Merge, 5, 4, 3), (Short_Circuit, 1, 0, 3), (Horner_Loop, 3, 2, 3),
                    (Multiply_Low, 3, 3, 2), (Short_Circuit, 1, 3, 1), (Switch_Phi, 4, 2, 3), (Byte_Pack, 5, 4, 4)]\<rparr>"

definition case_0405 :: "(nat \<Rightarrow> u32) \<Rightarrow> case_program" where
  "case_0405 junk =
     \<lparr>case_id = 405,
      case_input = [0xfdf6b7de, 0x43cdd2b4, 0x5ae2a7e2, 0x22870758, 0xb24b531d, 0x00000080, 0xa613efa2, 0x7c954300,
                    0xedef9a3f, 0xd0fd3fc0, 0x875a87ae, 0xf8b545a1, 0x8de26694, 0xb7b27703, 0x1251ab9e, 0x3520d4bf],
      case_kernel = move_kernel junk 0 6 5,
      reg_inputs = [6, 10, 14, 2], reg5_init = 0x4dc391ad,
      memory_keys = [0x00000195, 0x0000032a, 0x00000654, 0x00000ca8, 0x00001950, 0x000032a0, 0x00006540, 0x0000ca80],
      case_stmts = [(Mask_Merge, 4, 3, 4), (Add_Carry, 5, 5, 1), (Sub_Borrow, 1, 4, 3), (Switch_Phi, 3, 4, 2),
                    (Minmax_Clamp, 1, 5, 2), (Byte_Pack, 5, 0, 4), (Compare_Select, 0, 1, 0), (Carry_Chain, 4, 1, 3),
                    (Add_Carry, 2, 4, 3), (Mask_Merge, 0, 1, 5), (Horner_Loop, 2, 2, 2), (Carry_Chain, 2, 2, 3)]\<rparr>"

definition case_0406 :: "(nat \<Rightarrow> u32) \<Rightarrow> case_program" where
  "case_0406 junk =
     \<lparr>case_id = 406,
      case_input = [0x3c70d71d, 0x67cc2d7c, 0x4c49e4ac, 0x76976018, 0x458b69bc, 0x197deead, 0x000000ff, 0x7636408a,
                    0x98fb4fb3, 0x1f727093, 0x815ce726, 0xfd8f48cb, 0xcaede2c3, 0xf4e0ca13, 0x2620a857, 0x4f6dab89],
      case_kernel = move_kernel junk 1 7 6,
      reg_inputs = [7, 11, 15, 3], reg5_init = 0xebfb0b66,
      memory_keys = [0x00000196, 0x0000032c, 0x00000658, 0x00000cb0, 0x00001960, 0x000032c0, 0x00006580, 0x0000cb00],
      case_stmts = [(Compare_Select, 3, 3, 2), (Add_Carry, 2, 3, 2), (Sub_Borrow, 5, 3, 2), (Short_Circuit, 2, 0, 3),
                    (Halfword_Swap, 5, 2, 2), (Endian_Swap, 1, 2, 2), (Carry_Chain, 2, 1, 5), (Multiply_Low, 4, 4, 0),
                    (Gray_Decode, 1, 2, 0), (Switch_Phi, 2, 0, 1), (Endian_Swap, 0, 0, 1), (Counted_Loop, 2, 1, 5)]\<rparr>"

definition case_0407 :: "(nat \<Rightarrow> u32) \<Rightarrow> case_program" where
  "case_0407 junk =
     \<lparr>case_id = 407,
      case_input = [0x7cf2f75c, 0x7bcd783b, 0xb9d146aa, 0xd69e153e, 0x53dee469, 0x0a9ea5ae, 0x1ff10421, 0x00000100,
                    0x7fbc4462, 0x5e9dc25c, 0x17da1001, 0x25b9bbba, 0x12eb212a, 0x6d06d055, 0xfb9ab96e, 0x665d5af7],
      case_kernel = move_kernel junk 2 8 7,
      reg_inputs = [8, 12, 0, 4], reg5_init = 0x8a32851f,
      memory_keys = [0x00000197, 0x0000032e, 0x0000065c, 0x00000cb8, 0x00001970, 0x000032e0, 0x000065c0, 0x0000cb80],
      case_stmts = [(Byte_Pack, 2, 0, 3), (Add_Carry, 3, 5, 5), (Sub_Borrow, 1, 1, 2), (Mask_Merge, 3, 4, 2),
                    (Horner_Loop, 3, 4, 2), (Byte_Pack, 5, 4, 1), (Add_Carry, 5, 2, 4), (Counted_Loop, 5, 1, 2),
                    (Halfword_Swap, 4, 1, 5), (Counted_Loop, 3, 0, 1), (Array_Scatter, 2, 0, 2),
                    (Gray_Decode, 1, 3, 0)]\<rparr>"

definition case_0408 :: "(nat \<Rightarrow> u32) \<Rightarrow> case_program" where
  "case_0408 junk =
     \<lparr>case_id = 408,
      case_input = [0xbb6d1490, 0xcfcf78d1, 0xe5d24256, 0xbcd81f29, 0xe5696df2, 0x8d00bcfc, 0xa5bd5b14, 0x83c124b3,
                    0x7fffffff, 0x0d45af5c, 0xfdea303f, 0xb36381bb, 0x44f573c5, 0x55d27928, 0xcd450f34, 0x266b8e71],
      case_kernel = move_kernel junk 3 5 4,
      reg_inputs = [9, 13, 1, 5], reg5_init = 0x2869fed8,
      memory_keys = [0x00000198, 0x00000330, 0x00000660, 0x00000cc0, 0x00001980, 0x00003300, 0x00006600, 0x0000cc00],
      case_stmts = [(Halfword_Swap, 4, 0, 2), (Add_Carry, 0, 0, 1), (Sub_Borrow, 3, 2, 2), (Sub_Borrow, 5, 2, 5),
                    (Endian_Swap, 2, 3, 0), (Multiply_Low, 1, 3, 0), (Multiply_Low, 0, 4, 0), (Endian_Swap, 0, 2, 5),
                    (Carry_Chain, 5, 1, 0), (Horner_Loop, 2, 1, 3), (Halfword_Swap, 1, 5, 2), (Endian_Swap, 5, 4, 3)]\<rparr>"

definition case_0409 :: "(nat \<Rightarrow> u32) \<Rightarrow> case_program" where
  "case_0409 junk =
     \<lparr>case_id = 409,
      case_input = [0xfbef34d1, 0xd3ce2d96, 0x104ae050, 0x1cd16a0f, 0xf33ce027, 0x9ee3f7ff, 0xec46c46d, 0x5134e27f,
                    0xd16f4c59, 0x80000000, 0x6b6cc718, 0x6b5572ca, 0x9cf3b02c, 0xcc34636e, 0x10ff1e0d, 0x0f5b7f0f],
      case_kernel = move_kernel junk 4 6 5,
      reg_inputs = [10, 14, 2, 6], reg5_init = 0xc6a17891,
      memory_keys = [0x00000199, 0x00000332, 0x00000664, 0x00000cc8, 0x00001990, 0x00003320, 0x00006640, 0x0000cc80],
      case_stmts = [(Array_Scatter, 5, 3, 5), (Add_Carry, 3, 0, 0), (Sub_Borrow, 1, 0, 2), (Short_Circuit, 4, 4, 2),
                    (Compare_Select, 2, 1, 4), (Endian_Swap, 3, 3, 5), (Array_Scatter, 3, 5, 3),
                    (Halfword_Swap, 3, 3, 3), (Mask_Merge, 0, 2, 1), (Rotate_Mix, 1, 3, 3), (Short_Circuit, 3, 1, 3),
                    (Halfword_Swap, 0, 2, 0)]\<rparr>"

definition case_0410 :: "(nat \<Rightarrow> u32) \<Rightarrow> case_program" where
  "case_0410 junk =
     \<lparr>case_id = 410,
      case_input = [0x3a695412, 0xf7cfd25e, 0x06e1a31e, 0x48c10d4f, 0x04fcda86, 0x5f7e8678, 0x1c5fb097, 0x5b97e1f5,
                    0xa47b99d5, 0x832552c0, 0xfffffffe, 0x6e6f7fa0, 0xdbfc347b, 0x8f66de7e, 0x248e1dc4, 0x75160039],
      case_kernel = move_kernel junk 0 7 6,
      reg_inputs = [11, 15, 3, 7], reg5_init = 0x64d8f24a,
      memory_keys = [0x0000019a, 0x00000334, 0x00000668, 0x00000cd0, 0x000019a0, 0x00003340, 0x00006680, 0x0000cd00],
      case_stmts = [(Counted_Loop, 2, 1, 5), (Add_Carry, 0, 2, 3), (Sub_Borrow, 3, 1, 5), (Horner_Loop, 1, 2, 5),
                    (Compare_Select, 0, 2, 4), (Byte_Pack, 3, 5, 5), (Sub_Borrow, 5, 3, 2), (Popcount_Loop, 5, 2, 0),
                    (Reverse_Loop, 3, 0, 4), (Add_Carry, 1, 4, 5), (Reverse_Loop, 5, 1, 4), (Short_Circuit, 4, 5, 0)]\<rparr>"

definition case_0411 :: "(nat \<Rightarrow> u32) \<Rightarrow> case_program" where
  "case_0411 junk =
     \<lparr>case_id = 411,
      case_input = [0x7aeb7453, 0xebce8719, 0xf3790118, 0xe8c87869, 0x12a95753, 0x4c9dcd7b, 0x55a42fee, 0x89622739,
                    0x433c9204, 0xc2cae00f, 0xfbec50b7, 0xffffffff, 0x03faf792, 0x1680c438, 0xf9340cfd, 0x5c26f147],
      case_kernel = move_kernel junk 1 8 7,
      reg_inputs = [12, 0, 4, 8], reg5_init = 0x03106c03,
      memory_keys = [0x0000019b, 0x00000336, 0x0000066c, 0x00000cd8, 0x000019b0, 0x00003360, 0x000066c0, 0x0000cd80],
      case_stmts = [(Switch_Phi, 1, 4, 0), (Add_Carry, 3, 4, 2), (Sub_Borrow, 5, 3, 5), (Counted_Loop, 0, 2, 2),
                    (Popcount_Loop, 4, 4, 0), (Mask_Merge, 5, 5, 4), (Horner_Loop, 0, 4, 1), (Short_Circuit, 0, 5, 4),
                    (Sub_Borrow, 0, 1, 1), (Endian_Swap, 0, 2, 3), (Rotate_Mix, 3, 5, 5), (Array_Scatter, 3, 5, 3)]\<rparr>"

definition case_0412 :: "(nat \<Rightarrow> u32) \<Rightarrow> case_program" where
  "case_0412 junk =
     \<lparr>case_id = 412,
      case_input = [0xb9659595, 0xbfce2dcf, 0x23b580c7, 0x56ea3be4, 0x00000000, 0xb0fc64b0, 0xeb73d96d, 0xfb5b138f,
                    0xfe41aa10, 0x92dc762f, 0x718ed1a0, 0xb7faa78b, 0x00000000, 0xbc22c457, 0x440de371, 0x4ff8874d],
      case_kernel = move_kernel junk 2 5 4,
      reg_inputs = [13, 1, 5, 9], reg5_init = 0xa147e5bc,
      memory_keys = [0x0000019c, 0x00000338, 0x00000670, 0x00000ce0, 0x000019c0, 0x00003380, 0x00006700, 0x0000ce00],
      case_stmts = [(Short_Circuit, 1, 5, 0), (Add_Carry, 3, 1, 4), (Sub_Borrow, 3, 1, 1), (Short_Circuit, 0, 2, 5),
                    (Multiply_Low, 3, 0, 3), (Compare_Select, 4, 1, 4), (Counted_Loop, 3, 4, 0),
                    (Short_Circuit, 5, 0, 2), (Carry_Chain, 1, 2, 0), (Compare_Select, 4, 1, 3),
                    (Short_Circuit, 2, 1, 3), (Array_Scatter, 3, 4, 0)]\<rparr>"

definition case_0413 :: "(nat \<Rightarrow> u32) \<Rightarrow> case_program" where
  "case_0413 junk =
     \<lparr>case_id = 413,
      case_input = [0xf9e7b5d4, 0xa3cf7888, 0xd62d22c1, 0xf6e34ec2, 0x32118ece, 0xa31f2fb3, 0xa2884614, 0x29aed543,
                    0x1906a1c1, 0xd333c4e0, 0xe7082687, 0x00000080, 0xcda407d3, 0x00000001, 0x99b7f248, 0x66c87633],
      case_kernel = move_kernel junk 3 6 5,
      reg_inputs = [14, 2, 6, 10], reg5_init = 0x3f7f5f75,
      memory_keys = [0x0000019d, 0x0000033a, 0x00000674, 0x00000ce8, 0x000019d0, 0x000033a0, 0x00006740, 0x0000ce80],
      case_stmts = [(Popcount_Loop, 0, 4, 5), (Add_Carry, 4, 5, 5), (Sub_Borrow, 1, 5, 1), (Mask_Merge, 3, 0, 2),
                    (Short_Circuit, 1, 0, 5), (Short_Circuit, 0, 1, 1), (Minmax_Clamp, 4, 1, 3), (Mask_Merge, 4, 3, 4),
                    (Array_Scatter, 2, 1, 1), (Horner_Loop, 1, 1, 3), (Short_Circuit, 2, 3, 4),
                    (Short_Circuit, 4, 4, 3)]\<rparr>"

definition case_0414 :: "(nat \<Rightarrow> u32) \<Rightarrow> case_program" where
  "case_0414 junk =
     \<lparr>case_id = 414,
      case_input = [0x3861d517, 0x87ce8740, 0xfffffffe, 0xa2f32982, 0xc5d1b46f, 0x62825e34, 0x529132ee, 0x230dd6c9,
                    0x6c12744d, 0x1cbc8bb3, 0xe10e460f, 0x6af65990, 0x8aab8384, 0x66966301, 0x00000002, 0x1c850905],
      case_kernel = move_kernel junk 4 7 6,
      reg_inputs = [15, 3, 7, 11], reg5_init = 0xddb6d92e,
      memory_keys = [0x0000019e, 0x0000033c, 0x00000678, 0x00000cf0, 0x000019e0, 0x000033c0, 0x00006780, 0x0000cf00],
      case_stmts = [(Reverse_Loop, 3, 2, 1), (Add_Carry, 3, 3, 0), (Sub_Borrow, 1, 0, 4), (Counted_Loop, 2, 2, 1),
                    (Short_Circuit, 1, 3, 5), (Reverse_Loop, 0, 1, 5), (Add_Carry, 4, 1, 4), (Short_Circuit, 2, 0, 1),
                    (Rotate_Mix, 1, 1, 2), (Sub_Borrow, 1, 2, 5), (Reverse_Loop, 0, 3, 3), (Minmax_Clamp, 2, 1, 3)]\<rparr>"

definition case_0415 :: "(nat \<Rightarrow> u32) \<Rightarrow> case_program" where
  "case_0415 junk =
     \<lparr>case_id = 415,
      case_input = [0x78e3f556, 0x9bcfd207, 0x351ec389, 0x02fa5ca4, 0xd38439ba, 0x71611537, 0x1b6aad97, 0xf1f81005,
                    0x8b557f9c, 0x00000003, 0x7788b128, 0xb2c0aae1, 0x52ad406d, 0xff707947, 0x707ce0b8, 0x00000003],
      case_kernel = move_kernel junk 0 8 7,
      reg_inputs = [0, 4, 8, 12], reg5_init = 0x7bee52e7,
      memory_keys = [0x0000019f, 0x0000033e, 0x0000067c, 0x00000cf8, 0x000019f0, 0x000033e0, 0x000067c0, 0x0000cf80],
      case_stmts = [(Gray_Decode, 0, 5, 0), (Add_Carry, 2, 5, 1), (Sub_Borrow, 5, 0, 0), (Multiply_Low, 1, 0, 2),
                    (Gray_Decode, 3, 1, 1), (Divide_Rem, 0, 5, 2), (Counted_Loop, 5, 0, 1), (Popcount_Loop, 5, 1, 5),
                    (Sub_Borrow, 0, 0, 5), (Add_Carry, 4, 4, 5), (Rotate_Mix, 4, 1, 0), (Mask_Merge, 3, 3, 4)]\<rparr>"

definition case_0416 :: "(nat \<Rightarrow> u32) \<Rightarrow> case_program" where
  "case_0416 junk =
     \<lparr>case_id = 416,
      case_input = [0x7fffffff, 0x6fc22e64, 0x47bcd9be, 0x95ebe3ec, 0x5aec8304, 0x2ae958a2, 0x752b3882, 0x727dc804,
                    0xf9a50c4b, 0xe6f37b10, 0x7efb23dc, 0x09fe0c54, 0xdbf64093, 0x0042a70d, 0x06864f64, 0xea8d3f40],
      case_kernel = move_kernel junk 1 5 4,
      reg_inputs = [1, 5, 9, 13], reg5_init = 0x1a25cca0,
      memory_keys = [0x000001a0, 0x00000340, 0x00000680, 0x00000d00, 0x00001a00, 0x00003400, 0x00006800, 0x0000d000],
      case_stmts = [(Minmax_Clamp, 4, 5, 3), (Add_Carry, 2, 3, 5), (Sub_Borrow, 4, 1, 0), (Horner_Loop, 4, 2, 4),
                    (Minmax_Clamp, 1, 5, 3), (Switch_Phi, 0, 1, 0), (Counted_Loop, 5, 2, 5), (Gray_Decode, 3, 5, 4),
                    (Short_Circuit, 3, 4, 4), (Mask_Merge, 3, 2, 2), (Multiply_Low, 2, 2, 1), (Rotate_Mix, 5, 3, 4)]\<rparr>"

definition case_0417 :: "(nat \<Rightarrow> u32) \<Rightarrow> case_program" where
  "case_0417 junk =
     \<lparr>case_id = 417,
      case_input = [0xe7983ae7, 0x00000080, 0xb2247bb8, 0x35e296ca, 0x4cb90ed1, 0x390a13a1, 0x3cd0a7fb, 0x00000001,
                    0x1ee2079a, 0xa71cc9df, 0xe87dd4fb, 0xd1c8ff25, 0x03f0837a, 0x99a4bd4b, 0xdb3c5e5d, 0xc3bdce3e],
      case_kernel = move_kernel junk 2 6 5,
      reg_inputs = [2, 6, 10, 14], reg5_init = 0xb85d4659,
      memory_keys = [0x000001a1, 0x00000342, 0x00000684, 0x00000d08, 0x00001a10, 0x00003420, 0x00006840, 0x0000d080],
      case_stmts = [(Endian_Swap, 5, 2, 0), (Add_Carry, 1, 3, 2), (Sub_Borrow, 2, 3, 2), (Reverse_Loop, 3, 4, 3),
                    (Gray_Decode, 1, 3, 5), (Sub_Borrow, 0, 1, 5), (Minmax_Clamp, 4, 5, 0), (Counted_Loop, 0, 2, 4),
                    (Byte_Pack, 2, 5, 5), (Divide_Rem, 4, 0, 2), (Switch_Phi, 4, 2, 4), (Switch_Phi, 0, 5, 1)]\<rparr>"

definition case_0418 :: "(nat \<Rightarrow> u32) \<Rightarrow> case_program" where
  "case_0418 junk =
     \<lparr>case_id = 418,
      case_input = [0x261e5a24, 0x57c284eb, 0x000000ff, 0x61f2f18a, 0xbb793470, 0xf8976226, 0xccc9d301, 0xaa2b0d42,
                    0x6bf6d216, 0x6893868c, 0xee7bb473, 0xd4f2f24f, 0x44ff072d, 0xdaf6005b, 0x000000ff, 0xb9f0b108],
      case_kernel = move_kernel junk 3 7 6,
      reg_inputs = [3, 7, 11, 15], reg5_init = 0x5694c012,
      memory_keys = [0x000001a2, 0x00000344, 0x00000688, 0x00000d10, 0x00001a20, 0x00003440, 0x00006880, 0x0000d100],
      case_stmts = [(Carry_Chain, 4, 4, 0), (Add_Carry, 2, 1, 3), (Sub_Borrow, 2, 4, 5), (Mask_Merge, 2, 4, 0),
                    (Horner_Loop, 1, 4, 1), (Horner_Loop, 2, 1, 3), (Minmax_Clamp, 0, 3, 3), (Gray_Decode, 0, 3, 1),
                    (Add_Carry, 3, 5, 4), (Carry_Chain, 2, 3, 4), (Mask_Merge, 4, 0, 5), (Switch_Phi, 0, 4, 5)]\<rparr>"

definition case_0419 :: "(nat \<Rightarrow> u32) \<Rightarrow> case_program" where
  "case_0419 junk =
     \<lparr>case_id = 419,
      case_input = [0x669c7a65, 0x4bc3d1ac, 0x51179af0, 0x00000100, 0xad2cb9a5, 0xffffffff, 0x85324c78, 0x78decb8e,
                    0x8cb1d9c7, 0x297c3443, 0x78fd4354, 0x0cc4013e, 0x9cf9c4c4, 0x43101a1d, 0x32f74cad, 0x90c04076],
      case_kernel = move_kernel junk 4 8 7,
      reg_inputs = [4, 8, 12, 0], reg5_init = 0xf4cc39cb,
      memory_keys = [0x000001a3, 0x00000346, 0x0000068c, 0x00000d18, 0x00001a30, 0x00003460, 0x000068c0, 0x0000d180],
      case_stmts = [(Horner_Loop, 5, 3, 1), (Add_Carry, 3, 5, 4), (Sub_Borrow, 2, 4, 1), (Add_Carry, 5, 2, 1),
                    (Minmax_Clamp, 5, 2, 5), (Sub_Borrow, 0, 5, 0), (Counted_Loop, 1, 4, 0), (Counted_Loop, 1, 2, 1),
                    (Horner_Loop, 4, 4, 5), (Multiply_Low, 5, 5, 2), (Endian_Swap, 2, 4, 4), (Rotate_Mix, 5, 2, 0)]\<rparr>"

definition case_0420 :: "(nat \<Rightarrow> u32) \<Rightarrow> case_program" where
  "case_0420 junk =
     \<lparr>case_id = 420,
      case_input = [0xa5129ba3, 0x1fc37b7a, 0x81db1b2f, 0x7fd9c721, 0x7fffffff, 0x171580ee, 0x3be5bafb, 0x0ae7ff38,
                    0x31cce1d3, 0x796aa263, 0xf29fc243, 0x0d672a64, 0x0000007f, 0xe9b21a72, 0x8fcea321, 0x831e367c],
      case_kernel = move_kernel junk 0 5 4,
      reg_inputs = [5, 9, 13, 1], reg5_init = 0x9303b384,
      memory_keys = [0x000001a4, 0x00000348, 0x00000690, 0x00000d20, 0x00001a40, 0x00003480, 0x00006900, 0x0000d200],
      case_stmts = [(Add_Carry, 1, 4, 5), (Sub_Borrow, 1, 2, 4), (Sub_Borrow, 0, 2, 1), (Carry_Chain, 5, 4, 2),
                    (Compare_Select, 0, 2, 4), (Rotate_Mix, 3, 1, 0), (Byte_Pack, 2, 0, 5), (Counted_Loop, 2, 3, 1),
                    (Add_Carry, 5, 5, 0), (Add_Carry, 5, 2, 4), (Switch_Phi, 5, 4, 2), (Carry_Chain, 3, 5, 5)]\<rparr>"

definition case_0421 :: "(nat \<Rightarrow> u32) \<Rightarrow> case_program" where
  "case_0421 junk =
     \<lparr>case_id = 421,
      case_input = [0xe590bbe2, 0x03c22e3d, 0x7443b929, 0x80000000, 0x8d946038, 0x80000000, 0x721e2582, 0xd81239f4,
                    0xd68bea02, 0x388510ac, 0x64193564, 0xd551d915, 0x52a73485, 0x70540034, 0x5274b218, 0xaa2ec702],
      case_kernel = move_kernel junk 1 6 5,
      reg_inputs = [6, 10, 14, 2], reg5_init = 0x313b2d3d,
      memory_keys = [0x000001a5, 0x0000034a, 0x00000694, 0x00000d28, 0x00001a50, 0x000034a0, 0x00006940, 0x0000d280],
      case_stmts = [(Sub_Borrow, 4, 1, 4), (Sub_Borrow, 0, 4, 1), (Sub_Borrow, 4, 4, 3), (Gray_Decode, 2, 2, 1),
                    (Array_Scatter, 2, 2, 2), (Short_Circuit, 5, 3, 5), (Mask_Merge, 1, 3, 0), (Byte_Pack, 3, 4, 1),
                    (Gray_Decode, 0, 4, 5), (Endian_Swap, 0, 0, 2), (Byte_Pack, 1, 2, 3), (Gray_Decode, 2, 3, 2)]\<rparr>"

definition case_0422 :: "(nat \<Rightarrow> u32) \<Rightarrow> case_program" where
  "case_0422 junk =
     \<lparr>case_id = 422,
      case_input = [0x2416db21, 0x27c3d1f5, 0x62e8fa67, 0x8bc0d547, 0x7a545a99, 0xc56bba6a, 0xfffffffe, 0xd2b13a7e,
                    0xa39f3f8e, 0xf70a5fff, 0x00000002, 0xd06bd47f, 0x15a8b0d2, 0x3306bd24, 0x6605b1d1, 0xd063b834],
      case_kernel = move_kernel junk 2 7 6,
      reg_inputs = [7, 11, 15, 3], reg5_init = 0xcf72a6f6,
      memory_keys = [0x000001a6, 0x0000034c, 0x00000698, 0x00000d30, 0x00001a60, 0x000034c0, 0x00006980, 0x0000d300],
      case_stmts = [(Rotate_Mix, 3, 5, 4), (Sub_Borrow, 1, 0, 0), (Sub_Borrow, 0, 3, 0), (Divide_Rem, 3, 0, 0),
                    (Mask_Merge, 2, 1, 2), (Rotate_Mix, 5, 5, 5), (Endian_Swap, 1, 3, 1), (Counted_Loop, 1, 1, 0),
                    (Minmax_Clamp, 1, 4, 0), (Gray_Decode, 2, 3, 2), (Popcount_Loop, 3, 0, 2), (Gray_Decode, 2, 4, 2)]\<rparr>"

definition case_0423 :: "(nat \<Rightarrow> u32) \<Rightarrow> case_program" where
  "case_0423 junk =
     \<lparr>case_id = 423,
      case_input = [0x6494fb60, 0x00000100, 0x97705861, 0x2bc9a061, 0x6c01d74c, 0xd688f169, 0xcbfcce01, 0xffffffff,
                    0x44d8345f, 0xb6e5ed30, 0xf499a2cb, 0x085d270e, 0xcdae733b, 0xaae0a762, 0xbbbfa0e8, 0xf953494a],
      case_kernel = move_kernel junk 3 8 7,
      reg_inputs = [8, 12, 0, 4], reg5_init = 0x6daa20af,
      memory_keys = [0x000001a7, 0x0000034e, 0x0000069c, 0x00000d38, 0x00001a70, 0x000034e0, 0x000069c0, 0x0000d380],
      case_stmts = [(Multiply_Low, 0, 0, 3), (Sub_Borrow, 2, 2, 5), (Sub_Borrow, 2, 1, 4), (Sub_Borrow, 4, 2, 5),
                    (Reverse_Loop, 4, 5, 2), (Short_Circuit, 1, 1, 2), (Byte_Pack, 2, 4, 2), (Byte_Pack, 2, 4, 4),
                    (Horner_Loop, 0, 1, 5), (Reverse_Loop, 1, 3, 0), (Array_Scatter, 1, 4, 3), (Reverse_Loop, 5, 0, 1)]\<rparr>"

definition case_0424 :: "(nat \<Rightarrow> u32) \<Rightarrow> case_program" where
  "case_0424 junk =
     \<lparr>case_id = 424,
      case_input = [0xa30b18ac, 0x8fc08458, 0xcb735c9d, 0x418faa76, 0xdab65ed7, 0x5116e83b, 0x71b09134, 0x27465e47,
                    0x00000000, 0xe53d8030, 0x1ea982f5, 0x9e871d0f, 0x9bb021d4, 0x92340e1f, 0x8d6016b2, 0xb9659dcc],
      case_kernel = move_kernel junk 4 5 4,
      reg_inputs = [9, 13, 1, 5], reg5_init = 0x0be19a68,
      memory_keys = [0x000001a8, 0x00000350, 0x000006a0, 0x00000d40, 0x00001a80, 0x00003500, 0x00006a00, 0x0000d400],
      case_stmts = [(Divide_Rem, 4, 2, 2), (Sub_Borrow, 1, 3, 3), (Sub_Borrow, 2, 2, 4), (Array_Scatter, 0, 2, 0),
                    (Halfword_Swap, 1, 2, 0), (Add_Carry, 3, 2, 5), (Halfword_Swap, 1, 4, 2), (Minmax_Clamp, 1, 3, 1),
                    (Endian_Swap, 3, 5, 4), (Multiply_Low, 0, 0, 0), (Minmax_Clamp, 4, 3, 1), (Halfword_Swap, 1, 5, 2)]\<rparr>"

definition case_0425 :: "case_program" where
  "case_0425 =
     \<lparr>case_id = 425,
      case_input = [0x00000000, 0x93c1d11f, 0x3eebfe9b, 0xe186df50, 0xcce3d302, 0x42f5a338, 0x384b0e4d, 0xf5b3988b,
                    0xea0b3c64, 0xa4d232ff, 0x882f75d2, 0x46b1ee7e, 0x43b6e23d, 0x0bd21459, 0x50da078b, 0x90556cb2],
      case_kernel = dense_switch_kernel,
      reg_inputs = [10, 14, 2, 6], reg5_init = 0xaa191421,
      memory_keys = [0x000001a9, 0x00000352, 0x000006a4, 0x00000d48, 0x00001a90, 0x00003520, 0x00006a40, 0x0000d480],
      case_stmts = [(Mask_Merge, 3, 5, 5), (Sub_Borrow, 4, 1, 4), (Sub_Borrow, 0, 0, 4), (Divide_Rem, 1, 2, 1),
                    (Horner_Loop, 1, 0, 2), (Counted_Loop, 1, 2, 4), (Counted_Loop, 0, 5, 5), (Array_Scatter, 0, 2, 5),
                    (Counted_Loop, 4, 0, 3), (Reverse_Loop, 1, 2, 4), (Divide_Rem, 2, 3, 2), (Endian_Swap, 2, 1, 3)]\<rparr>"

definition case_0426 :: "case_program" where
  "case_0426 =
     \<lparr>case_id = 426,
      case_input = [0x220f582e, 0x00000001, 0x2840bdd5, 0xb596b810, 0x3b23e9a3, 0x8368d2bf, 0xc8527ab7, 0xff109b01,
                    0x9f1fe9e8, 0x6b5d7dac, 0x8e29155a, 0x438be314, 0x04b9666a, 0x4880a949, 0x64ab0442, 0xea181384],
      case_kernel = dense_switch_kernel,
      reg_inputs = [11, 15, 3, 7], reg5_init = 0x48508dda,
      memory_keys = [0x000001aa, 0x00000354, 0x000006a8, 0x00000d50, 0x00001aa0, 0x00003540, 0x00006a80, 0x0000d500],
      case_stmts = [(Compare_Select, 2, 3, 3), (Sub_Borrow, 1, 5, 5), (Sub_Borrow, 0, 5, 1), (Horner_Loop, 0, 4, 2),
                    (Gray_Decode, 5, 5, 0), (Short_Circuit, 5, 2, 4), (Compare_Select, 4, 5, 0),
                    (Halfword_Swap, 0, 5, 0), (Mask_Merge, 1, 0, 0), (Divide_Rem, 1, 3, 0), (Compare_Select, 4, 1, 3),
                    (Array_Scatter, 4, 0, 5)]\<rparr>"

definition case_0427 :: "case_program" where
  "case_0427 =
     \<lparr>case_id = 427,
      case_input = [0x628d786f, 0xabc17b90, 0x00000002, 0x159fcd36, 0x2d766476, 0x908b99bc, 0x81a9e5ce, 0x2de55dcd,
                    0x7858e239, 0x2ab2cf63, 0x18afe27d, 0x9bbd1065, 0xdcbfa583, 0xd166b30f, 0xb911157b, 0xc328e2fa],
      case_kernel = dense_switch_kernel,
      reg_inputs = [12, 0, 4, 8], reg5_init = 0xe6880793,
      memory_keys = [0x000001ab, 0x00000356, 0x000006ac, 0x00000d58, 0x00001ab0, 0x00003560, 0x00006ac0, 0x0000d580],
      case_stmts = [(Byte_Pack, 1, 2, 2), (Sub_Borrow, 0, 3, 4), (Sub_Borrow, 2, 1, 3), (Reverse_Loop, 3, 0, 1),
                    (Add_Carry, 1, 3, 2), (Carry_Chain, 1, 4, 3), (Minmax_Clamp, 1, 2, 5), (Mask_Merge, 3, 2, 2),
                    (Reverse_Loop, 2, 3, 1), (Endian_Swap, 2, 3, 4), (Carry_Chain, 2, 3, 4), (Short_Circuit, 1, 0, 0)]\<rparr>"

definition case_0428 :: "case_program" where
  "case_0428 =
     \<lparr>case_id = 428,
      case_input = [0xa10399a9, 0xffc1d146, 0x0d149e0c, 0x00000003, 0x1b9b303e, 0x6cea3077, 0x3f7e134d, 0x5fdc697b,
                    0xc525da2d, 0x7aa45943, 0x92cd636a, 0x9a1e3b3f, 0xcae7962b, 0x7bc4b360, 0x0428faf7, 0xd0f694f0],
      case_kernel = dense_switch_kernel,
      reg_inputs = [13, 1, 5, 9], reg5_init = 0x84bf814c,
      memory_keys = [0x000001ac, 0x00000358, 0x000006b0, 0x00000d60, 0x00001ac0, 0x00003580, 0x00006b00, 0x0000d600],
      case_stmts = [(Halfword_Swap, 3, 3, 2), (Sub_Borrow, 0, 4, 0), (Sub_Borrow, 0, 1, 5), (Halfword_Swap, 5, 2, 2),
                    (Compare_Select, 4, 1, 3), (Array_Scatter, 0, 0, 1), (Endian_Swap, 4, 4, 0), (Endian_Swap, 0, 3, 4),
                    (Popcount_Loop, 3, 4, 0), (Counted_Loop, 0, 4, 0), (Short_Circuit, 1, 1, 2),
                    (Short_Circuit, 3, 1, 1)]\<rparr>"

definition case_0429 :: "case_program" where
  "case_0429 =
     \<lparr>case_id = 429,
      case_input = [0xe181b9e8, 0xe3c08401, 0xf88c3c0a, 0x0bb4fb9d, 0x0000007f, 0x7f097b74, 0x76858c34, 0x8d29afb7,
                    0x2262d1fc, 0x3b4beb8c, 0x044b944d, 0x4228c84e, 0x12e155c2, 0xe222a926, 0xd992ebce, 0xf9c6658e],
      case_kernel = dense_switch_kernel,
      reg_inputs = [14, 2, 6, 10], reg5_init = 0x22f6fb05,
      memory_keys = [0x000001ad, 0x0000035a, 0x000006b4, 0x00000d68, 0x00001ad0, 0x000035a0, 0x00006b40, 0x0000d680],
      case_stmts = [(Array_Scatter, 4, 4, 1), (Sub_Borrow, 5, 0, 3), (Sub_Borrow, 0, 3, 1), (Mask_Merge, 0, 2, 5),
                    (Endian_Swap, 4, 3, 1), (Byte_Pack, 4, 0, 2), (Horner_Loop, 1, 3, 3), (Halfword_Swap, 3, 2, 2),
                    (Counted_Loop, 2, 3, 3), (Switch_Phi, 3, 4, 4), (Halfword_Swap, 5, 1, 3), (Popcount_Loop, 2, 5, 0)]\<rparr>"

definition case_0430 :: "case_program" where
  "case_0430 =
     \<lparr>case_id = 430,
      case_input = [0x2007d92b, 0xc7c17bc9, 0xee277f44, 0x5fa49cdd, 0xfa0e874a, 0x00000080, 0x869cf8ce, 0x878aac3d,
                    0x57760470, 0xf4c4a4df, 0x024df4c5, 0x4712c524, 0x55eed195, 0xa1701436, 0xede3e807, 0x838b1ab8],
      case_kernel = dense_switch_kernel,
      reg_inputs = [15, 3, 7, 11], reg5_init = 0xc12e74be,
      memory_keys = [0x000001ae, 0x0000035c, 0x000006b8, 0x00000d70, 0x00001ae0, 0x000035c0, 0x00006b80, 0x0000d700],
      case_stmts = [(Counted_Loop, 1, 4, 3), (Sub_Borrow, 4, 2, 2), (Sub_Borrow, 2, 4, 2), (Carry_Chain, 3, 0, 0),
                    (Mask_Merge, 4, 4, 3), (Array_Scatter, 4, 4, 2), (Multiply_Low, 5, 3, 0), (Endian_Swap, 3, 3, 3),
                    (Endian_Swap, 3, 5, 2), (Mask_Merge, 3, 5, 2), (Compare_Select, 5, 5, 2), (Popcount_Loop, 4, 2, 4)]\<rparr>"

definition case_0431 :: "case_program" where
  "case_0431 =
     \<lparr>case_id = 431,
      case_input = [0x6085f96a, 0xdbc02e8e, 0x1bbfdd42, 0xffade9fb, 0xec5b0a9f, 0xad7741f0, 0x000000ff, 0x557f6af1,
                    0xb0310fa1, 0xb52b1610, 0x94cb03e2, 0x9f243655, 0x8de8127c, 0x38960e70, 0x3059f93e, 0xaabbebc6],
      case_kernel = dense_switch_kernel,
      reg_inputs = [0, 4, 8, 12], reg5_init = 0x5f65ee77,
      memory_keys = [0x000001af, 0x0000035e, 0x000006bc, 0x00000d78, 0x00001af0, 0x000035e0, 0x00006bc0, 0x0000d780],
      case_stmts = [(Switch_Phi, 2, 5, 2), (Sub_Borrow, 3, 2, 3), (Sub_Borrow, 2, 0, 2), (Gray_Decode, 4, 4, 1),
                    (Compare_Select, 0, 0, 5), (Multiply_Low, 4, 4, 3), (Sub_Borrow, 2, 2, 3), (Short_Circuit, 2, 0, 5),
                    (Counted_Loop, 0, 2, 1), (Add_Carry, 4, 3, 2), (Carry_Chain, 3, 1, 1), (Halfword_Swap, 1, 0, 5)]\<rparr>"

definition case_0432 :: "case_program" where
  "case_0432 =
     \<lparr>case_id = 432,
      case_input = [0xaf381eb2, 0xafc77a1c, 0x5c23d3f8, 0x3f2570d9, 0xc15995e7, 0xe0196cef, 0x272fde5e, 0x00000100,
                    0xa92d1ded, 0x9f4e0381, 0xd45d1591, 0x98c9ba24, 0xf3dfe0f6, 0x514ae75f, 0x4abc01e6, 0x68a4df2c],
      case_kernel = dense_switch_kernel,
      reg_inputs = [1, 5, 9, 13], reg5_init = 0xfd9d6830,
      memory_keys = [0x000001b0, 0x00000360, 0x000006c0, 0x00000d80, 0x00001b00, 0x00003600, 0x00006c00, 0x0000d800],
      case_stmts = [(Short_Circuit, 5, 2, 1), (Sub_Borrow, 5, 5, 3), (Sub_Borrow, 0, 1, 3), (Gray_Decode, 3, 5, 0),
                    (Short_Circuit, 5, 4, 5), (Popcount_Loop, 3, 1, 0), (Gray_Decode, 5, 4, 5), (Divide_Rem, 4, 5, 4),
                    (Sub_Borrow, 3, 3, 4), (Endian_Swap, 4, 5, 1), (Reverse_Loop, 5, 0, 4), (Short_Circuit, 3, 2, 1)]\<rparr>"

definition case_0433 :: "case_program" where
  "case_0433 =
     \<lparr>case_id = 433,
      case_input = [0xefba3ef3, 0xb3c62f5b, 0xa9bb71fe, 0x9f2c05ff, 0xd70c1832, 0xf3fa27ec, 0x6ed44127, 0xf631737d,
                    0x7fffffff, 0xdea1b14e, 0x42dbe2b6, 0x40ff4955, 0x2bd9231f, 0xc8acfd19, 0x970610df, 0x41942e52],
      case_kernel = dense_switch_kernel,
      reg_inputs = [2, 6, 10, 14], reg5_init = 0x9bd4e1e9,
      memory_keys = [0x000001b1, 0x00000362, 0x000006c4, 0x00000d88, 0x00001b10, 0x00003620, 0x00006c40, 0x0000d880],
      case_stmts = [(Popcount_Loop, 2, 5, 4), (Sub_Borrow, 2, 5, 4), (Sub_Borrow, 0, 5, 5), (Compare_Select, 0, 1, 1),
                    (Horner_Loop, 5, 0, 3), (Byte_Pack, 1, 3, 5), (Mask_Merge, 0, 5, 0), (Array_Scatter, 5, 0, 0),
                    (Rotate_Mix, 2, 2, 5), (Add_Carry, 3, 1, 1), (Reverse_Loop, 3, 4, 5), (Array_Scatter, 0, 4, 4)]\<rparr>"

definition case_0434 :: "case_program" where
  "case_0434 =
     \<lparr>case_id = 434,
      case_input = [0x2e3c5e30, 0x97c7d093, 0xbf1032b0, 0xcb3c62bf, 0x20cc2293, 0x3267566b, 0x9ecd35dd, 0xfc9270f7,
                    0x3b7ec3b0, 0x80000000, 0x44dd823e, 0x45c5443f, 0x6cd6a748, 0x8bfe4009, 0xa3771316, 0x3bd95164],
      case_kernel = dense_switch_kernel,
      reg_inputs = [3, 7, 11, 15], reg5_init = 0x3a0c5ba2,
      memory_keys = [0x000001b2, 0x00000364, 0x000006c8, 0x00000d90, 0x00001b20, 0x00003640, 0x00006c80, 0x0000d900],
      case_stmts = [(Reverse_Loop, 3, 3, 0), (Sub_Borrow, 3, 5, 5), (Sub_Borrow, 2, 2, 4), (Sub_Borrow, 3, 3, 0),
                    (Horner_Loop, 1, 3, 3), (Sub_Borrow, 1, 5, 3), (Sub_Borrow, 0, 1, 1), (Divide_Rem, 5, 5, 3),
                    (Endian_Swap, 1, 4, 0), (Carry_Chain, 1, 2, 5), (Halfword_Swap, 3, 2, 0), (Mask_Merge, 4, 3, 4)]\<rparr>"

definition case_0435 :: "case_program" where
  "case_0435 =
     \<lparr>case_id = 435,
      case_input = [0x6ebe7e71, 0x8bc685d4, 0x4a8890b6, 0x6b351799, 0x3699af46, 0x21841d68, 0xd736aaa4, 0x2e67b63b,
                    0xdc39c861, 0x50c14cd2, 0xfffffffe, 0x9df3b74e, 0xb4d064a1, 0x12185a4f, 0x7ecd022f, 0x12e9a01a],
      case_kernel = dense_switch_kernel,
      reg_inputs = [4, 8, 12, 0], reg5_init = 0xd843d55b,
      memory_keys = [0x000001b3, 0x00000366, 0x000006cc, 0x00000d98, 0x00001b30, 0x00003660, 0x00006cc0, 0x0000d980],
      case_stmts = [(Gray_Decode, 4, 2, 1), (Sub_Borrow, 2, 5, 0), (Sub_Borrow, 0, 0, 2), (Short_Circuit, 4, 3, 1),
                    (Divide_Rem, 5, 5, 3), (Horner_Loop, 1, 1, 0), (Byte_Pack, 3, 0, 0), (Mask_Merge, 2, 0, 5),
                    (Carry_Chain, 0, 1, 3), (Switch_Phi, 0, 4, 5), (Divide_Rem, 1, 0, 5), (Divide_Rem, 3, 5, 1)]\<rparr>"

definition case_0436 :: "case_program" where
  "case_0436 =
     \<lparr>case_id = 436,
      case_input = [0xad309fb7, 0xdfc62f02, 0x9a441169, 0xd5175414, 0x0074fb0e, 0xdde5b4a3, 0x69e15c27, 0x5c5e828d,
                    0x6144f075, 0x00d7daf2, 0x5839f40e, 0xffffffff, 0xa2885709, 0xb8ba5a20, 0xc3f4eda3, 0x0137d610],
      case_kernel = dense_switch_kernel,
      reg_inputs = [5, 9, 13, 1], reg5_init = 0x767b4f14,
      memory_keys = [0x000001b4, 0x00000368, 0x000006d0, 0x00000da0, 0x00001b40, 0x00003680, 0x00006d00, 0x0000da00],
      case_stmts = [(Minmax_Clamp, 4, 5, 5), (Sub_Borrow, 0, 2, 4), (Sub_Borrow, 0, 4, 0), (Compare_Select, 4, 5, 0),
                    (Rotate_Mix, 4, 3, 2), (Minmax_Clamp, 4, 1, 4), (Reverse_Loop, 4, 2, 5), (Mask_Merge, 1, 1, 1),
                    (Sub_Borrow, 5, 0, 0), (Halfword_Swap, 0, 3, 1), (Carry_Chain, 0, 2, 5), (Add_Carry, 5, 4, 4)]\<rparr>"

definition case_0437 :: "case_program" where
  "case_0437 =
     \<lparr>case_id = 437,
      case_input = [0xedb2bff6, 0xc3c77a45, 0x6fdcb36f, 0x751e2132, 0x00000000, 0xce06ffa0, 0x201ac35e, 0x8eab4441,
                    0x8603fba4, 0x4138683d, 0xcebf0329, 0x44666f65, 0x00000000, 0x215c4066, 0x1e4efc9a, 0x2807276e],
      case_kernel = dense_switch_kernel,
      reg_inputs = [6, 10, 14, 2], reg5_init = 0x14b2c8cd,
      memory_keys = [0x000001b5, 0x0000036a, 0x000006d4, 0x00000da8, 0x00001b50, 0x000036a0, 0x00006d40, 0x0000da80],
      case_stmts = [(Endian_Swap, 1, 2, 0), (Sub_Borrow, 3, 2, 5), (Sub_Borrow, 2, 0, 2), (Horner_Loop, 3, 3, 1),
                    (Popcount_Loop, 2, 5, 2), (Carry_Chain, 2, 1, 3), (Add_Carry, 5, 3, 0), (Add_Carry, 4, 2, 5),
                    (Carry_Chain, 2, 3, 3), (Mask_Merge, 5, 5, 3), (Reverse_Loop, 4, 4, 4), (Array_Scatter, 2, 4, 1)]\<rparr>"

definition case_0438 :: "case_program" where
  "case_0438 =
     \<lparr>case_id = 438,
      case_input = [0x2c34df35, 0xe7c6858d, 0x7977f021, 0x210e4672, 0xe1e14c7a, 0x0f9b8e27, 0xd003b7a4, 0x840847cb,
                    0xf3172e28, 0x8eb7276e, 0xc8b963a1, 0x00000080, 0x3d8110b7, 0x00000001, 0x2a3fff53, 0x524a5858],
      case_kernel = dense_switch_kernel,
      reg_inputs = [7, 11, 15, 3], reg5_init = 0xb2ea4286,
      memory_keys = [0x000001b6, 0x0000036c, 0x000006d8, 0x00000db0, 0x00001b60, 0x000036c0, 0x00006d80, 0x0000db00],
      case_stmts = [(Carry_Chain, 0, 4, 0), (Sub_Borrow, 0, 2, 4), (Sub_Borrow, 2, 5, 5), (Short_Circuit, 4, 5, 2),
                    (Endian_Swap, 2, 0, 2), (Add_Carry, 2, 1, 3), (Halfword_Swap, 5, 1, 3), (Endian_Swap, 0, 5, 4),
                    (Array_Scatter, 1, 1, 0), (Gray_Decode, 5, 0, 1), (Short_Circuit, 0, 0, 3), (Sub_Borrow, 4, 1, 5)]\<rparr>"

definition case_0439 :: "case_program" where
  "case_0439 =
     \<lparr>case_id = 439,
      case_input = [0x6cb6ff74, 0xfbc7d0ca, 0xfffffffe, 0x81073354, 0xf7b4c1af, 0x1c78c524, 0x99f828dd, 0x56fd8107,
                    0x145025f9, 0xcf5895a1, 0x5e3f9486, 0x996a917e, 0xe587d35e, 0xfbe8e730, 0x00000002, 0x7b7aa926],
      case_kernel = dense_switch_kernel,
      reg_inputs = [8, 12, 0, 4], reg5_init = 0x5121bc3f,
      memory_keys = [0x000001b7, 0x0000036e, 0x000006dc, 0x00000db8, 0x00001b70, 0x000036e0, 0x00006dc0, 0x0000db80],
      case_stmts = [(Horner_Loop, 3, 5, 3), (Sub_Borrow, 1, 4, 3), (Sub_Borrow, 0, 1, 5), (Mask_Merge, 5, 3, 1),
                    (Reverse_Loop, 2, 4, 4), (Reverse_Loop, 0, 3, 0), (Compare_Select, 0, 0, 2),
                    (Halfword_Swap, 3, 2, 0), (Reverse_Loop, 2, 4, 3), (Counted_Loop, 4, 4, 1),
                    (Halfword_Swap, 2, 2, 4), (Short_Circuit, 5, 3, 4)]\<rparr>"

definition case_0440 :: "case_program" where
  "case_0440 =
     \<lparr>case_id = 440,
      case_input = [0xab291cb8, 0x4fc5d020, 0xd0ec56db, 0xeb413943, 0x41034834, 0x9be6dc76, 0x23b477e8, 0x71ff23f2,
                    0x5dc42613, 0x00000003, 0xb40fb4b8, 0x0fb0ab7f, 0xb39981b1, 0xc33c4e4d, 0xc15a5830, 0x00000003],
      case_kernel = dense_switch_kernel,
      reg_inputs = [9, 13, 1, 5], reg5_init = 0xef5935f8,
      memory_keys = [0x000001b8, 0x00000370, 0x000006e0, 0x00000dc0, 0x00001b80, 0x00003700, 0x00006e00, 0x0000dc00],
      case_stmts = [(Add_Carry, 1, 1, 2), (Rotate_Mix, 0, 1, 5), (Sub_Borrow, 0, 4, 3), (Mask_Merge, 5, 1, 0),
                    (Minmax_Clamp, 1, 3, 2), (Rotate_Mix, 2, 4, 1), (Mask_Merge, 5, 0, 0), (Switch_Phi, 4, 1, 5),
                    (Divide_Rem, 1, 4, 2), (Gray_Decode, 5, 1, 1), (Array_Scatter, 5, 5, 4), (Carry_Chain, 1, 2, 1)]\<rparr>"

definition case_0441 :: "case_program" where
  "case_0441 =
     \<lparr>case_id = 441,
      case_input = [0x7fffffff, 0x53c48567, 0x2574f4dd, 0x4b484c65, 0x5756c5e1, 0x88059775, 0x6a4fe891, 0xa30ae53e,
                    0xba832dc2, 0xdd6f4a6e, 0x2289439f, 0xd786580e, 0x6b9f4258, 0x5ada540b, 0x1ce04909, 0x127c8cde],
      case_kernel = dense_switch_kernel,
      reg_inputs = [10, 14, 2, 6], reg5_init = 0x8d90afb1,
      memory_keys = [0x000001b9, 0x00000372, 0x000006e4, 0x00000dc8, 0x00001b90, 0x00003720, 0x00006e40, 0x0000dc80],
      case_stmts = [(Sub_Borrow, 4, 0, 1), (Rotate_Mix, 3, 3, 2), (Sub_Borrow, 2, 4, 1), (Minmax_Clamp, 4, 3, 1),
                    (Gray_Decode, 3, 3, 2), (Halfword_Swap, 2, 0, 4), (Multiply_Low, 0, 3, 5), (Carry_Chain, 1, 2, 5),
                    (Switch_Phi, 2, 1, 1), (Compare_Select, 2, 1, 1), (Popcount_Loop, 5, 1, 1), (Horner_Loop, 2, 0, 0)]\<rparr>"

definition case_0442 :: "case_program" where
  "case_0442 =
     \<lparr>case_id = 442,
      case_input = [0x2a2d5c3a, 0x00000080, 0x33dfb793, 0x1f582b25, 0xa096ff40, 0x4998e6f2, 0x9a569c6b, 0x00000001,
                    0xcf97f84e, 0x12e0053d, 0x248f2317, 0xd2bc5564, 0x2c90c60f, 0x1988e91b, 0x28914ac0, 0x6831f3e8],
      case_kernel = dense_switch_kernel,
      reg_inputs = [11, 15, 3, 7], reg5_init = 0x2bc8296a,
      memory_keys = [0x000001ba, 0x00000374, 0x000006e8, 0x00000dd0, 0x00001ba0, 0x00003740, 0x00006e80, 0x0000dd00],
      case_stmts = [(Rotate_Mix, 1, 2, 5), (Rotate_Mix, 2, 1, 5), (Sub_Borrow, 0, 3, 2), (Gray_Decode, 3, 5, 4),
                    (Horner_Loop, 1, 0, 4), (Compare_Select, 0, 4, 4), (Switch_Phi, 4, 5, 2), (Switch_Phi, 5, 5, 0),
                    (Short_Circuit, 5, 5, 0), (Minmax_Clamp, 4, 2, 5), (Multiply_Low, 5, 5, 4), (Gray_Decode, 0, 1, 0)]\<rparr>"

definition case_0443 :: "case_program" where
  "case_0443 =
     \<lparr>case_id = 443,
      case_input = [0x6aaf7c7b, 0x6bc42fe8, 0x000000ff, 0xbf515e03, 0xb6c37295, 0x5a7badf1, 0xd3ad0312, 0x7b5c2078,
                    0x28d0f39f, 0x530fb7f2, 0xb209d430, 0x0a8aa615, 0xf49605e6, 0x806ef35d, 0x000000ff, 0x41010296],
      case_kernel = dense_switch_kernel,
      reg_inputs = [12, 0, 4, 8], reg5_init = 0xc9ffa323,
      memory_keys = [0x000001bb, 0x00000376, 0x000006ec, 0x00000dd8, 0x00001bb0, 0x00003760, 0x00006ec0, 0x0000dd80],
      case_stmts = [(Multiply_Low, 0, 5, 2), (Rotate_Mix, 1, 3, 4), (Sub_Borrow, 0, 5, 0), (Compare_Select, 0, 1, 5),
                    (Short_Circuit, 1, 0, 2), (Add_Carry, 4, 4, 5), (Array_Scatter, 5, 2, 5), (Compare_Select, 0, 0, 2),
                    (Horner_Loop, 0, 4, 3), (Array_Scatter, 5, 0, 1), (Horner_Loop, 5, 1, 1), (Counted_Loop, 5, 5, 3)]\<rparr>"

definition case_0444 :: "case_program" where
  "case_0444 =
     \<lparr>case_id = 444,
      case_input = [0xa9219dbd, 0x3fc4853e, 0x168b944a, 0x00000100, 0x802e26dd, 0xffffffff, 0x6d7af591, 0x096514ce,
                    0x95adcb8b, 0x031921d2, 0x386b5527, 0x0b298d4f, 0xe2ce364e, 0x2accf332, 0x4812b475, 0x52df749c],
      case_kernel = dense_switch_kernel,
      reg_inputs = [13, 1, 5, 9], reg5_init = 0x68371cdc,
      memory_keys = [0x000001bc, 0x00000378, 0x000006f0, 0x00000de0, 0x00001bc0, 0x00003780, 0x00006f00, 0x0000de00],
      case_stmts = [(Divide_Rem, 4, 0, 0), (Rotate_Mix, 3, 0, 2), (Sub_Borrow, 0, 1, 2), (Minmax_Clamp, 2, 1, 2),
                    (Reverse_Loop, 2, 0, 3), (Horner_Loop, 1, 2, 5), (Divide_Rem, 2, 0, 0), (Reverse_Loop, 5, 5, 4),
                    (Add_Carry, 5, 3, 0), (Reverse_Loop, 1, 5, 3), (Mask_Merge, 2, 1, 1), (Counted_Loop, 5, 2, 0)]\<rparr>"

definition case_0445 :: "case_program" where
  "case_0445 =
     \<lparr>case_id = 445,
      case_input = [0xe9a3bdfc, 0x23c5d079, 0xe313364c, 0xa17a68a8, 0x7fffffff, 0xb5f94f39, 0x24816ae8, 0xdb90d202,
                    0x72eac05a, 0x42f6931d, 0xaeeda200, 0xd31f7e3e, 0x0000007f, 0xb32ae974, 0x95a8a54c, 0x7bef85e2],
      case_kernel = dense_switch_kernel,
      reg_inputs = [14, 2, 6, 10], reg5_init = 0x066e9695,
      memory_keys = [0x000001bd, 0x0000037a, 0x000006f4, 0x00000de8, 0x00001bd0, 0x000037a0, 0x00006f40, 0x0000de80],
      case_stmts = [(Mask_Merge, 3, 1, 3), (Rotate_Mix, 4, 0, 5), (Sub_Borrow, 4, 5, 4), (Array_Scatter, 1, 3, 3),
                    (Popcount_Loop, 4, 4, 3), (Sub_Borrow, 3, 2, 0), (Counted_Loop, 1, 5, 1), (Switch_Phi, 2, 4, 2),
                    (Gray_Decode, 0, 2, 3), (Horner_Loop, 2, 1, 3), (Sub_Borrow, 4, 1, 0), (Horner_Loop, 2, 2, 3)]\<rparr>"

definition case_0446 :: "case_program" where
  "case_0446 =
     \<lparr>case_id = 446,
      case_input = [0x2825dd3f, 0x07c42fb1, 0xf5b87502, 0x80000000, 0x61bb91a9, 0x80000000, 0xd4981e12, 0xd133d188,
                    0x07fe15d6, 0x8d79dc4e, 0xa8ebc288, 0xd6257354, 0x7dc771f0, 0xf0785464, 0xa1d9a685, 0x01a2fad4],
      case_kernel = dense_switch_kernel,
      reg_inputs = [15, 3, 7, 11], reg5_init = 0xa4a6104e,
      memory_keys = [0x000001be, 0x0000037c, 0x000006f8, 0x00000df0, 0x00001be0, 0x000037c0, 0x00006f80, 0x0000df00],
      case_stmts = [(Compare_Select, 2, 1, 5), (Rotate_Mix, 3, 2, 0), (Sub_Borrow, 4, 4, 5), (Compare_Select, 4, 3, 4),
                    (Endian_Swap, 2, 3, 3), (Switch_Phi, 3, 2, 4), (Compare_Select, 1, 3, 2), (Carry_Chain, 0, 1, 1),
                    (Halfword_Swap, 1, 4, 4), (Array_Scatter, 4, 4, 3), (Horner_Loop, 4, 1, 5), (Byte_Pack, 2, 3, 5)]\<rparr>"

definition case_0447 :: "case_program" where
  "case_0447 =
     \<lparr>case_id = 447,
      case_input = [0x68a7fd7e, 0x1bc57af6, 0x0020d704, 0x55637ace, 0x77ee1c7c, 0x678775bd, 0xfffffffe, 0x03c61744,
                    0xe0b91e07, 0xcc966e81, 0x00000002, 0x0e138025, 0xa5c1b219, 0x699e4e22, 0x7c63b7bc, 0x28920baa],
      case_kernel = dense_switch_kernel,
      reg_inputs = [0, 4, 8, 12], reg5_init = 0x42dd8a07,
      memory_keys = [0x000001bf, 0x0000037e, 0x000006fc, 0x00000df8, 0x00001bf0, 0x000037e0, 0x00006fc0, 0x0000df80],
      case_stmts = [(Byte_Pack, 1, 0, 2), (Rotate_Mix, 0, 2, 3), (Sub_Borrow, 0, 4, 3), (Horner_Loop, 1, 1, 3),
                    (Compare_Select, 2, 1, 3), (Sub_Borrow, 5, 4, 3), (Divide_Rem, 2, 4, 1), (Multiply_Low, 1, 4, 5),
                    (Horner_Loop, 2, 1, 5), (Halfword_Swap, 3, 4, 3), (Gray_Decode, 0, 1, 2), (Counted_Loop, 3, 3, 0)]\<rparr>"

definition case_0448 :: "case_program" where
  "case_0448 =
     \<lparr>case_id = 448,
      case_input = [0x97d602de, 0x00000100, 0x18fee429, 0x6d408953, 0xb652ed4f, 0x11c3f93d, 0xfd304d87, 0xffffffff,
                    0xd493a6e6, 0xddbe2e42, 0xabdc1a7e, 0x69f0d3d7, 0x813dfdc1, 0x4b2eddb4, 0xab5cc51d, 0x52c302f9],
      case_kernel = dense_switch_kernel,
      reg_inputs = [1, 5, 9, 13], reg5_init = 0xe11503c0,
      memory_keys = [0x000001c0, 0x00000380, 0x00000700, 0x00000e00, 0x00001c00, 0x00003800, 0x00007000, 0x0000e000],
      case_stmts = [(Halfword_Swap, 2, 1, 0), (Rotate_Mix, 0, 2, 0), (Sub_Borrow, 5, 5, 0), (Switch_Phi, 4, 0, 3),
                    (Reverse_Loop, 1, 3, 5), (Short_Circuit, 5, 3, 3), (Mask_Merge, 4, 5, 2), (Add_Carry, 5, 4, 0),
                    (Gray_Decode, 2, 3, 5), (Short_Circuit, 4, 4, 4), (Mask_Merge, 0, 4, 4), (Horner_Loop, 2, 0, 2)]\<rparr>"

definition case_0449 :: "case_program" where
  "case_0449 =
     \<lparr>case_id = 449,
      case_input = [0xd754229f, 0xf3dc8231, 0xed66462f, 0xcd49fc75, 0xa007609a, 0x0220b23e, 0xb4cbd2fe, 0xb4ce070a,
                    0x00000000, 0x9c519c8d, 0x3d5aed59, 0xb1c620a6, 0x593b3e28, 0xd2c8c7f2, 0x76e6d424, 0x7bf3f387],
      case_kernel = dense_switch_kernel,
      reg_inputs = [2, 6, 10, 14], reg5_init = 0x7f4c7d79,
      memory_keys = [0x000001c1, 0x00000382, 0x00000704, 0x00000e08, 0x00001c10, 0x00003820, 0x00007040, 0x0000e080],
      case_stmts = [(Array_Scatter, 3, 0, 1), (Rotate_Mix, 1, 2, 1), (Sub_Borrow, 5, 1, 4), (Rotate_Mix, 3, 0, 4),
                    (Array_Scatter, 1, 1, 5), (Counted_Loop, 3, 5, 0), (Gray_Decode, 5, 4, 3), (Mask_Merge, 2, 5, 0),
                    (Short_Circuit, 3, 4, 2), (Sub_Borrow, 5, 4, 2), (Array_Scatter, 4, 0, 1), (Carry_Chain, 1, 2, 5)]\<rparr>"

definition case_0450 :: "case_program" where
  "case_0450 =
     \<lparr>case_id = 450,
      case_input = [0x00000000, 0xd7dd7df9, 0xfbcd0561, 0x99599b35, 0x57c75a3b, 0xc3bdc3b9, 0x44d2a604, 0xbe6d0480,
                    0x46c078bb, 0x53ded3de, 0x3b5c8dd1, 0xb4fc2dcc, 0x1e34ba7f, 0x919a7ae2, 0x4297d7ed, 0x01be8cb1],
      case_kernel = sparse_switch_kernel,
      reg_inputs = [3, 7, 11, 15], reg5_init = 0x1d83f732,
      memory_keys = [0x000001c2, 0x00000384, 0x00000708, 0x00000e10, 0x00001c20, 0x00003840, 0x00007080, 0x0000e100],
      case_stmts = [(Counted_Loop, 0, 0, 3), (Rotate_Mix, 2, 0, 2), (Sub_Borrow, 5, 0, 5), (Mask_Merge, 4, 2, 1),
                    (Array_Scatter, 5, 0, 3), (Halfword_Swap, 5, 1, 0), (Gray_Decode, 1, 2, 0), (Divide_Rem, 2, 0, 5),
                    (Switch_Phi, 2, 4, 5), (Byte_Pack, 1, 1, 0), (Multiply_Low, 2, 0, 2), (Compare_Select, 1, 5, 5)]\<rparr>"

definition case_0451 :: "case_program" where
  "case_0451 =
     \<lparr>case_id = 451,
      case_input = [0x5650621d, 0x00000001, 0x0e55a767, 0x3950ee13, 0x4192d7ee, 0xd05e88ba, 0x0d29397d, 0x6c98c24c,
                    0xa187736a, 0x12316111, 0xadda7af6, 0x6ccadebd, 0xc6327996, 0x087c60a4, 0x9f2dc6d4, 0x288e7dcf],
      case_kernel = sparse_switch_kernel,
      reg_inputs = [4, 8, 12, 0], reg5_init = 0xbbbb70eb,
      memory_keys = [0x000001c3, 0x00000386, 0x0000070c, 0x00000e18, 0x00001c30, 0x00003860, 0x000070c0, 0x0000e180],
      case_stmts = [(Switch_Phi, 1, 3, 0), (Rotate_Mix, 3, 4, 5), (Sub_Borrow, 3, 0, 5), (Minmax_Clamp, 3, 0, 0),
                    (Counted_Loop, 3, 0, 1), (Compare_Select, 5, 1, 1), (Popcount_Loop, 2, 5, 1), (Sub_Borrow, 5, 5, 5),
                    (Halfword_Swap, 5, 3, 2), (Reverse_Loop, 4, 5, 4), (Switch_Phi, 0, 4, 5), (Horner_Loop, 2, 1, 0)]\<rparr>"

definition case_0452 :: "case_program" where
  "case_0452 =
     \<lparr>case_id = 452,
      case_input = [0x95de83db, 0x9fdc8268, 0x00000002, 0x8772ad9e, 0x777f83a6, 0x2c3f2171, 0xb3fecffe, 0x1ea1f6fa,
                    0x1cfa4b7e, 0x4227f731, 0x27b8fbe1, 0x6d69f5e7, 0xd06a4a3e, 0xa2de60cb, 0x22142958, 0x3b500bc5],
      case_kernel = sparse_switch_kernel,
      reg_inputs = [5, 9, 13, 1], reg5_init = 0x59f2eaa4,
      memory_keys = [0x000001c4, 0x00000388, 0x00000710, 0x00000e20, 0x00001c40, 0x00003880, 0x00007100, 0x0000e200],
      case_stmts = [(Short_Circuit, 5, 4, 0), (Rotate_Mix, 1, 3, 5), (Sub_Borrow, 5, 2, 3), (Reverse_Loop, 3, 4, 1),
                    (Halfword_Swap, 2, 0, 4), (Popcount_Loop, 0, 1, 3), (Short_Circuit, 5, 1, 2), (Sub_Borrow, 4, 4, 5),
                    (Gray_Decode, 0, 0, 1), (Mask_Merge, 4, 2, 0), (Popcount_Loop, 1, 4, 1), (Switch_Phi, 2, 0, 3)]\<rparr>"

definition case_0453 :: "case_program" where
  "case_0453 =
     \<lparr>case_id = 453,
      case_input = [0xd55ca39a, 0x83ddd72f, 0x2b0184be, 0x00000003, 0x612a0e73, 0x3fdc6a72, 0xfa055087, 0xcc543036,
                    0xfbbd40af, 0x03c845fe, 0xb13e0cc6, 0xb55f0696, 0x086c89d7, 0x3b387a8d, 0xffae3861, 0x1260fabb],
      case_kernel = sparse_switch_kernel,
      reg_inputs = [6, 10, 14, 2], reg5_init = 0xf82a645d,
      memory_keys = [0x000001c5, 0x0000038a, 0x00000714, 0x00000e28, 0x00001c50, 0x000038a0, 0x00007140, 0x0000e280],
      case_stmts = [(Popcount_Loop, 0, 5, 5), (Rotate_Mix, 0, 5, 0), (Sub_Borrow, 3, 2, 3), (Byte_Pack, 4, 2, 2),
                    (Gray_Decode, 0, 0, 4), (Horner_Loop, 0, 5, 4), (Compare_Select, 0, 2, 3), (Halfword_Swap, 3, 1, 1),
                    (Short_Circuit, 3, 3, 4), (Minmax_Clamp, 3, 4, 2), (Array_Scatter, 3, 4, 0),
                    (Carry_Chain, 3, 2, 0)]\<rparr>"

definition case_0454 :: "case_program" where
  "case_0454 =
     \<lparr>case_id = 454,
      case_input = [0x14dac359, 0xa7dc28e7, 0x3daac7f0, 0x736bbff8, 0x0000007f, 0xfe411bf5, 0x0a1c247d, 0xc6f733bc,
                    0x8ea99523, 0xcc470aad, 0xb7386c4e, 0xb0650bfc, 0x4f630d80, 0x786ac79d, 0xcbdf3ba8, 0x682d858d],
      case_kernel = sparse_switch_kernel,
      reg_inputs = [7, 11, 15, 3], reg5_init = 0x9661de16,
      memory_keys = [0x000001c6, 0x0000038c, 0x00000718, 0x00000e30, 0x00001c60, 0x000038c0, 0x00007180, 0x0000e300],
      case_stmts = [(Reverse_Loop, 1, 3, 3), (Rotate_Mix, 1, 5, 3), (Sub_Borrow, 5, 1, 4), (Halfword_Swap, 5, 2, 3),
                    (Byte_Pack, 4, 3, 0), (Mask_Merge, 2, 5, 4), (Compare_Select, 0, 2, 2), (Mask_Merge, 5, 0, 4),
                    (Byte_Pack, 0, 5, 1), (Carry_Chain, 5, 5, 2), (Switch_Phi, 5, 4, 1), (Carry_Chain, 1, 1, 0)]\<rparr>"

definition case_0455 :: "case_program" where
  "case_0455 =
     \<lparr>case_id = 455,
      case_input = [0x5458e318, 0xbbdd7da0, 0xc83265f6, 0xd362cade, 0x80bfb907, 0x00000080, 0x43e7bb04, 0x1402f570,
                    0x69ee9ef2, 0x8da8b862, 0x21be9b69, 0x6853f88d, 0x9765ce69, 0xe18cdddb, 0x16652a91, 0x411d74f3],
      case_kernel = sparse_switch_kernel,
      reg_inputs = [8, 12, 0, 4], reg5_init = 0x349957cf,
      memory_keys = [0x000001c7, 0x0000038e, 0x0000071c, 0x00000e38, 0x00001c70, 0x000038e0, 0x000071c0, 0x0000e380],
      case_stmts = [(Gray_Decode, 4, 4, 2), (Rotate_Mix, 0, 1, 2), (Sub_Borrow, 5, 5, 4), (Sub_Borrow, 2, 2, 4),
                    (Short_Circuit, 4, 1, 0), (Switch_Phi, 2, 1, 5), (Divide_Rem, 5, 3, 5), (Short_Circuit, 4, 5, 0),
                    (Minmax_Clamp, 1, 4, 0), (Switch_Phi, 0, 5, 0), (Horner_Loop, 1, 0, 4), (Multiply_Low, 0, 5, 5)]\<rparr>"

definition case_0456 :: "case_program" where
  "case_0456 =
     \<lparr>case_id = 456,
      case_input = [0x93c700d4, 0x0fdf7d4a, 0x9431610a, 0xb924c0c9, 0x3608309c, 0x6a3c49a4, 0x000000ff, 0x33005785,
                    0x207a9d18, 0xde70d562, 0xcb8ebb57, 0xfe89c28c, 0xc17b9c86, 0xd95874a6, 0x20ba9ccb, 0x012ba075],
      case_kernel = sparse_switch_kernel,
      reg_inputs = [9, 13, 1, 5], reg5_init = 0xd2d0d188,
      memory_keys = [0x000001c8, 0x00000390, 0x00000720, 0x00000e40, 0x00001c80, 0x00003900, 0x00007200, 0x0000e400],
      case_stmts = [(Minmax_Clamp, 4, 0, 5), (Rotate_Mix, 5, 2, 0), (Sub_Borrow, 1, 0, 4), (Mask_Merge, 0, 0, 1),
                    (Counted_Loop, 3, 0, 0), (Multiply_Low, 2, 2, 2), (Byte_Pack, 0, 1, 3), (Multiply_Low, 3, 2, 1),
                    (Rotate_Mix, 0, 4, 1), (Compare_Select, 5, 4, 4), (Reverse_Loop, 4, 3, 4), (Endian_Swap, 4, 2, 4)]\<rparr>"

definition case_0457 :: "case_program" where
  "case_0457 =
     \<lparr>case_id = 457,
      case_input = [0xd3452095, 0x13de280d, 0x61a9c30c, 0x192db5ef, 0x205dbd49, 0x79df02a7, 0xb0507b48, 0x00000100,
                    0xc73d96c9, 0x9f9f67ad, 0x5d084c70, 0x26bf31fd, 0x197d5f6f, 0x40be6ee0, 0xfd008df2, 0x281b510b],
      case_kernel = sparse_switch_kernel,
      reg_inputs = [10, 14, 2, 6], reg5_init = 0x71084b41,
      memory_keys = [0x000001c9, 0x00000392, 0x00000724, 0x00000e48, 0x00001c90, 0x00003920, 0x00007240, 0x0000e480],
      case_stmts = [(Endian_Swap, 5, 5, 0), (Rotate_Mix, 4, 2, 3), (Sub_Borrow, 5, 0, 2), (Minmax_Clamp, 3, 4, 4),
                    (Endian_Swap, 3, 4, 2), (Endian_Swap, 4, 2, 5), (Endian_Swap, 5, 0, 2), (Compare_Select, 4, 3, 1),
                    (Sub_Borrow, 3, 5, 2), (Horner_Loop, 4, 2, 0), (Carry_Chain, 4, 5, 5), (Halfword_Swap, 5, 0, 3)]\<rparr>"

definition case_0458 :: "case_program" where
  "case_0458 =
     \<lparr>case_id = 458,
      case_input = [0x12c34056, 0x37dfd7c5, 0x77028042, 0x4d3dd2af, 0xd79d87e8, 0xb8427320, 0x40490fb2, 0xeb5692c3,
                    0x7fffffff, 0x501028fe, 0x5b0e2cf8, 0x23853c97, 0x5e72db38, 0x03ecd3f0, 0xc9718e3b, 0x52562e3d],
      case_kernel = sparse_switch_kernel,
      reg_inputs = [11, 15, 3, 7], reg5_init = 0x0f3fc4fa,
      memory_keys = [0x000001ca, 0x00000394, 0x00000728, 0x00000e50, 0x00001ca0, 0x00003940, 0x00007280, 0x0000e500],
      case_stmts = [(Carry_Chain, 0, 1, 4), (Rotate_Mix, 1, 4, 4), (Sub_Borrow, 1, 1, 1), (Multiply_Low, 2, 0, 1),
                    (Endian_Swap, 3, 5, 4), (Byte_Pack, 2, 0, 3), (Array_Scatter, 3, 0, 1), (Multiply_Low, 4, 2, 0),
                    (Carry_Chain, 4, 3, 5), (Mask_Merge, 2, 3, 2), (Divide_Rem, 4, 5, 2), (Halfword_Swap, 1, 3, 5)]\<rparr>"

definition case_0459 :: "case_program" where
  "case_0459 =
     \<lparr>case_id = 459,
      case_input = [0x52416017, 0x2bde8282, 0x829a2244, 0xed34a789, 0xc1c80a3d, 0xaba13823, 0x09b290cb, 0x39a3540f,
                    0x556e4894, 0x80000000, 0xcd88dbdf, 0xfbb3cfe6, 0x867418d1, 0x9a0ac9b6, 0x14cb9f02, 0x7b66df43],
      case_kernel = sparse_switch_kernel,
      reg_inputs = [12, 0, 4, 8], reg5_init = 0xad773eb3,
      memory_keys = [0x000001cb, 0x00000396, 0x0000072c, 0x00000e58, 0x00001cb0, 0x00003960, 0x000072c0, 0x0000e580],
      case_stmts = [(Horner_Loop, 1, 4, 3), (Rotate_Mix, 4, 0, 1), (Sub_Borrow, 1, 3, 3), (Reverse_Loop, 5, 2, 4),
                    (Compare_Select, 3, 5, 2), (Mask_Merge, 0, 0, 2), (Byte_Pack, 0, 1, 4), (Counted_Loop, 3, 5, 0),
                    (Endian_Swap, 1, 2, 2), (Divide_Rem, 3, 3, 2), (Short_Circuit, 4, 3, 5), (Popcount_Loop, 4, 1, 4)]\<rparr>"

definition case_0460 :: "case_program" where
  "case_0460 =
     \<lparr>case_id = 460,
      case_input = [0x91cf81d1, 0x7fde2854, 0x5256a39b, 0x5316e404, 0xf7255e75, 0x57c091e8, 0xb7656648, 0x4b9a60b9,
                    0xe8137080, 0x41e90c11, 0xfffffffe, 0xfa10e4bc, 0x902c2b79, 0x30a8c9d9, 0xa9f2708e, 0x68b8a949],
      case_kernel = sparse_switch_kernel,
      reg_inputs = [13, 1, 5, 9], reg5_init = 0x4baeb86c,
      memory_keys = [0x000001cc, 0x00000398, 0x00000730, 0x00000e60, 0x00001cc0, 0x00003980, 0x00007300, 0x0000e600],
      case_stmts = [(Add_Carry, 3, 3, 1), (Multiply_Low, 0, 5, 3), (Sub_Borrow, 5, 3, 1), (Halfword_Swap, 3, 4, 1),
                    (Minmax_Clamp, 2, 3, 3), (Reverse_Loop, 5, 2, 2), (Rotate_Mix, 1, 5, 5), (Compare_Select, 0, 4, 0),
                    (Rotate_Mix, 0, 1, 3), (Byte_Pack, 5, 4, 2), (Compare_Select, 3, 5, 1), (Mask_Merge, 0, 2, 1)]\<rparr>"

definition case_0461 :: "case_program" where
  "case_0461 =
     \<lparr>case_id = 461,
      case_input = [0xd14da190, 0x63df7d13, 0xa7ce019d, 0xf31f9122, 0xe170d3a0, 0x4423daeb, 0xfe9ef931, 0x996fa675,
                    0x0f547b51, 0x0006bede, 0xd16cadef, 0xffffffff, 0x482ae890, 0xa94ed39f, 0x744861b7, 0x41885837],
      case_kernel = sparse_switch_kernel,
      reg_inputs = [14, 2, 6, 10], reg5_init = 0xe9e63225,
      memory_keys = [0x000001cd, 0x0000039a, 0x00000734, 0x00000e68, 0x00001cd0, 0x000039a0, 0x00007340, 0x0000e680],
      case_stmts = [(Sub_Borrow, 4, 0, 0), (Multiply_Low, 5, 1, 4), (Sub_Borrow, 5, 3, 5), (Sub_Borrow, 4, 4, 0),
                    (Switch_Phi, 2, 3, 1), (Minmax_Clamp, 3, 2, 3), (Halfword_Swap, 2, 4, 4), (Horner_Loop, 1, 1, 2),
                    (Mask_Merge, 1, 0, 0), (Rotate_Mix, 0, 2, 4), (Reverse_Loop, 1, 5, 2), (Halfword_Swap, 1, 0, 0)]\<rparr>"

definition case_0462 :: "case_program" where
  "case_0462 =
     \<lparr>case_id = 462,
      case_input = [0x10cbc153, 0x47de82db, 0xb16542d3, 0xa70ff662, 0x00000000, 0x85beab6c, 0x0e878dcb, 0x93cca5ff,
                    0x7a40aedd, 0xcf89f18d, 0xd76acd67, 0x271c1aa7, 0x00000000, 0xea1c6e8f, 0x4039627e, 0x3bc52701],
      case_kernel = sparse_switch_kernel,
      reg_inputs = [15, 3, 7, 11], reg5_init = 0x881dabde,
      memory_keys = [0x000001ce, 0x0000039c, 0x00000738, 0x00000e70, 0x00001ce0, 0x000039c0, 0x00007380, 0x0000e700],
      case_stmts = [(Rotate_Mix, 3, 4, 2), (Multiply_Low, 4, 1, 1), (Sub_Borrow, 3, 4, 0), (Compare_Select, 1, 2, 3),
                    (Multiply_Low, 0, 0, 3), (Reverse_Loop, 5, 2, 3), (Divide_Rem, 0, 4, 1), (Carry_Chain, 5, 2, 1),
                    (Reverse_Loop, 2, 2, 3), (Add_Carry, 0, 5, 4), (Halfword_Swap, 1, 1, 5), (Halfword_Swap, 5, 1, 0)]\<rparr>"

definition case_0463 :: "case_program" where
  "case_0463 =
     \<lparr>case_id = 463,
      case_input = [0x5049e112, 0x5bdfd79c, 0x44fde0d5, 0x07068344, 0x00e564d4, 0x965de06f, 0x477c12b2, 0x41396333,
                    0x9d07a50c, 0x8e664342, 0x41ec3a40, 0x00000080, 0xd723af2e, 0x00000001, 0x9d837347, 0x12f5d67f],
      case_kernel = sparse_switch_kernel,
      reg_inputs = [0, 4, 8, 12], reg5_init = 0x26552597,
      memory_keys = [0x000001cf, 0x0000039e, 0x0000073c, 0x00000e78, 0x00001cf0, 0x000039e0, 0x000073c0, 0x0000e780],
      case_stmts = [(Multiply_Low, 2, 5, 5), (Multiply_Low, 3, 1, 2), (Sub_Borrow, 5, 2, 0), (Horner_Loop, 4, 4, 0),
                    (Add_Carry, 0, 0, 3), (Short_Circuit, 1, 2, 4), (Counted_Loop, 1, 5, 4), (Multiply_Low, 4, 3, 3),
                    (Array_Scatter, 1, 1, 0), (Popcount_Loop, 5, 1, 0), (Add_Carry, 5, 1, 0), (Sub_Borrow, 2, 3, 5)]\<rparr>"

definition case_0464 :: "case_program" where
  "case_0464 =
     \<lparr>case_id = 464,
      case_input = [0x9ff406ca, 0x2fd8830e, 0xfffffffe, 0xc78e1a66, 0x2de7fbac, 0xdb33cd70, 0xaf34ab5b, 0x3082bc73,
                    0x841bb740, 0xa40356d3, 0x017a2c33, 0xf8c765a7, 0xa9145da4, 0x1a269de6, 0x00000002, 0xd0eae295],
      case_kernel = sparse_switch_kernel,
      reg_inputs = [1, 5, 9, 13], reg5_init = 0xc48c9f50,
      memory_keys = [0x000001d0, 0x000003a0, 0x00000740, 0x00000e80, 0x00001d00, 0x00003a00, 0x00007400, 0x0000e800],
      case_stmts = [(Divide_Rem, 1, 4, 2), (Multiply_Low, 3, 4, 4), (Sub_Borrow, 5, 1, 3), (Horner_Loop, 1, 5, 5),
                    (Reverse_Loop, 5, 2, 5), (Carry_Chain, 4, 5, 3), (Minmax_Clamp, 0, 5, 0), (Byte_Pack, 2, 2, 4),
                    (Compare_Select, 0, 0, 5), (Minmax_Clamp, 3, 1, 3), (Short_Circuit, 5, 4, 5),
                    (Mask_Merge, 4, 5, 1)]\<rparr>"

definition case_0465 :: "case_program" where
  "case_0465 =
     \<lparr>case_id = 465,
      case_input = [0xdf76268b, 0x33d9d649, 0xf6f94c69, 0x67876f40, 0x3bb27679, 0xc8d08673, 0xe6cf3422, 0xe2777abf,
                    0x635cbc91, 0x00000003, 0x97fcdb14, 0x20f196d6, 0x71129e4d, 0x83c087a0, 0x3adc9aa6, 0x00000003],
      case_kernel = sparse_switch_kernel,
      reg_inputs = [2, 6, 10, 14], reg5_init = 0x62c41909,
      memory_keys = [0x000001d1, 0x000003a2, 0x00000744, 0x00000e88, 0x00001d10, 0x00003a20, 0x00007440, 0x0000e880],
      case_stmts = [(Mask_Merge, 0, 5, 3), (Multiply_Low, 0, 2, 1), (Sub_Borrow, 3, 1, 5), (Compare_Select, 0, 3, 2),
                    (Popcount_Loop, 1, 4, 1), (Halfword_Swap, 0, 1, 4), (Reverse_Loop, 5, 2, 1),
                    (Counted_Loop, 3, 1, 4), (Popcount_Loop, 3, 5, 2), (Mask_Merge, 4, 5, 3), (Add_Carry, 3, 4, 4),
                    (Divide_Rem, 3, 5, 2)]\<rparr>"

definition case_0466 :: "case_program" where
  "case_0466 =
     \<lparr>case_id = 466,
      case_input = [0x7fffffff, 0x17d82981, 0xe0520f27, 0x33970800, 0xcc724cd8, 0x094df7f4, 0x16d640d8, 0xe8d47935,
                    0x1648691d, 0x2a63ab4f, 0x91fabb9c, 0x25cb9bbc, 0x361d1a1a, 0xc0923ab0, 0x0ead996f, 0x83976cdd],
      case_kernel = sparse_switch_kernel,
      reg_inputs = [3, 7, 11, 15], reg5_init = 0x00fb92c2,
      memory_keys = [0x000001d2, 0x000003a4, 0x00000748, 0x00000e90, 0x00001d20, 0x00003a40, 0x00007480, 0x0000e900],
      case_stmts = [(Compare_Select, 1, 3, 1), (Multiply_Low, 1, 4, 0), (Sub_Borrow, 3, 0, 2),
                    (Popcount_Loop, 1, 1, 3), (Popcount_Loop, 5, 1, 3), (Counted_Loop, 2, 3, 2), (Rotate_Mix, 3, 2, 0),
                    (Byte_Pack, 1, 4, 5), (Rotate_Mix, 0, 5, 1), (Gray_Decode, 2, 4, 3), (Counted_Loop, 3, 2, 5),
                    (Add_Carry, 5, 0, 4)]\<rparr>"

definition case_0467 :: "case_program" where
  "case_0467 =
     \<lparr>case_id = 467,
      case_input = [0x5e726609, 0x00000080, 0x15caad21, 0x939e7d26, 0xda27c10d, 0x1aaebcf7, 0x5f2ddfa1, 0x00000001,
                    0xf10f62cc, 0x6b8c1980, 0x077c4cbb, 0xfdfd68cd, 0xee1bd9f3, 0x597420f6, 0xd3178856, 0xaaa79da3],
      case_kernel = sparse_switch_kernel,
      reg_inputs = [4, 8, 12, 0], reg5_init = 0x9f330c7b,
      memory_keys = [0x000001d3, 0x000003a6, 0x0000074c, 0x00000e98, 0x00001d30, 0x00003a60, 0x000074c0, 0x0000e980],
      case_stmts = [(Byte_Pack, 0, 0, 0), (Multiply_Low, 2, 2, 5), (Sub_Borrow, 3, 0, 2), (Add_Carry, 2, 5, 4),
                    (Carry_Chain, 3, 3, 5), (Add_Carry, 4, 3, 3), (Halfword_Swap, 0, 1, 5), (Reverse_Loop, 2, 1, 1),
                    (Mask_Merge, 5, 4, 0), (Compare_Select, 1, 0, 1), (Compare_Select, 5, 0, 2),
                    (Popcount_Loop, 0, 4, 3)]\<rparr>"

definition case_0468 :: "case_program" where
  "case_0468 =
     \<lparr>case_id = 468,
      case_input = [0x9dfc87cf, 0x5fd9d610, 0x000000ff, 0x2dbc3eab, 0xecca9545, 0xe6cf153c, 0xe1fa2922, 0x48188b4f,
                    0x4c725ad8, 0x3b9a8fa0, 0x8d1ecdac, 0xfc5e4397, 0xf843ea5b, 0xf3d62099, 0x000000ff, 0xb979eba9],
      case_kernel = sparse_switch_kernel,
      reg_inputs = [5, 9, 13, 1], reg5_init = 0x3d6a8634,
      memory_keys = [0x000001d4, 0x000003a8, 0x00000750, 0x00000ea0, 0x00001d40, 0x00003a80, 0x00007500, 0x0000ea00],
      case_stmts = [(Halfword_Swap, 2, 5, 4), (Multiply_Low, 4, 1, 3), (Sub_Borrow, 3, 2, 4), (Reverse_Loop, 0, 1, 3),
                    (Halfword_Swap, 0, 5, 0), (Switch_Phi, 5, 1, 1), (Array_Scatter, 3, 3, 0), (Counted_Loop, 1, 0, 3),
                    (Reverse_Loop, 0, 1, 1), (Mask_Merge, 3, 3, 1), (Divide_Rem, 0, 4, 2), (Sub_Borrow, 0, 3, 0)]\<rparr>"

definition case_0469 :: "case_program" where
  "case_0469 =
     \<lparr>case_id = 469,
      case_input = [0xdd7ea78e, 0x43d88357, 0x309e8ef8, 0x00000100, 0xfa9f1890, 0xffffffff, 0xa801b65b, 0x9aed4d83,
                    0xab355109, 0x7a753d6f, 0x1b983a8b, 0x2468b0e6, 0x204529b2, 0x6a303adf, 0xb39476e3, 0x90491ad7],
      case_kernel = sparse_switch_kernel,
      reg_inputs = [6, 10, 14, 2], reg5_init = 0xdba1ffed,
      memory_keys = [0x000001d5, 0x000003aa, 0x00000754, 0x00000ea8, 0x00001d50, 0x00003aa0, 0x00007540, 0x0000ea80],
      case_stmts = [(Array_Scatter, 3, 4, 1), (Multiply_Low, 5, 3, 0), (Sub_Borrow, 1, 0, 0), (Multiply_Low, 5, 3, 4),
                    (Byte_Pack, 4, 3, 4), (Endian_Swap, 3, 5, 4), (Byte_Pack, 2, 4, 1), (Horner_Loop, 0, 3, 3),
                    (Popcount_Loop, 3, 2, 0), (Short_Circuit, 2, 1, 3), (Divide_Rem, 0, 2, 5),
                    (Halfword_Swap, 1, 3, 1)]\<rparr>"

definition case_0470 :: "case_program" where
  "case_0470 =
     \<lparr>case_id = 470,
      case_input = [0x1cf8c74d, 0x67d97c9f, 0x2635cdb6, 0xd9a52ccd, 0x7fffffff, 0x34b12fb8, 0x5818c2a1, 0x904e4e09,
                    0xde218485, 0xb5fa723c, 0x1d9e5a03, 0x2152bd8c, 0x0000007f, 0x296287cf, 0x87e5752a, 0xea0465e1],
      case_kernel = sparse_switch_kernel,
      reg_inputs = [7, 11, 15, 3], reg5_init = 0x79d979a6,
      memory_keys = [0x000001d6, 0x000003ac, 0x00000758, 0x00000eb0, 0x00001d60, 0x00003ac0, 0x00007580, 0x0000eb00],
      case_stmts = [(Counted_Loop, 0, 2, 3), (Multiply_Low, 4, 5, 1), (Sub_Borrow, 1, 1, 3), (Halfword_Swap, 4, 1, 3),
                    (Multiply_Low, 4, 2, 4), (Multiply_Low, 1, 3, 0), (Gray_Decode, 4, 0, 4), (Carry_Chain, 2, 0, 2),
                    (Carry_Chain, 4, 0, 3), (Compare_Select, 0, 4, 5), (Compare_Select, 0, 4, 4),
                    (Minmax_Clamp, 3, 2, 1)]\<rparr>"

definition case_0471 :: "case_program" where
  "case_0471 =
     \<lparr>case_id = 471,
      case_input = [0x5c7ae70c, 0x7bd829d8, 0xd3ad6fb0, 0x80000000, 0x1b0aafe4, 0x80000000, 0x11e35dd8, 0x42bb88c5,
                    0x39668f54, 0xf415c0f3, 0x8b18ad24, 0xf9644efd, 0xbf4c6e0c, 0xb0849d89, 0x5a5f6413, 0xc334949f],
      case_kernel = sparse_switch_kernel,
      reg_inputs = [8, 12, 0, 4], reg5_init = 0x1810f35f,
      memory_keys = [0x000001d7, 0x000003ae, 0x0000075c, 0x00000eb8, 0x00001d70, 0x00003ae0, 0x000075c0, 0x0000eb80],
      case_stmts = [(Switch_Phi, 1, 1, 0), (Multiply_Low, 5, 3, 2), (Sub_Borrow, 3, 1, 1), (Endian_Swap, 1, 1, 2),
                    (Add_Carry, 0, 2, 0), (Array_Scatter, 1, 5, 1), (Mask_Merge, 5, 1, 3), (Multiply_Low, 1, 1, 0),
                    (Endian_Swap, 3, 1, 0), (Switch_Phi, 3, 0, 3), (Compare_Select, 2, 4, 3), (Sub_Borrow, 0, 0, 2)]\<rparr>"

definition case_0472 :: "case_program" where
  "case_0472 =
     \<lparr>case_id = 472,
      case_input = [0x9be504c0, 0xcfda2932, 0x8fae6b4c, 0x13ea53fc, 0xadbd267f, 0xa0cc7de9, 0xfffffffe, 0x65b92a30,
                    0x70f28cbe, 0xa7cdadf3, 0x00000002, 0x6fbe74fc, 0xe9523ce3, 0x885034f4, 0x6c80d249, 0x83024019],
      case_kernel = sparse_switch_kernel,
      reg_inputs = [9, 13, 1, 5], reg5_init = 0xb6486d18,
      memory_keys = [0x000001d8, 0x000003b0, 0x00000760, 0x00000ec0, 0x00001d80, 0x00003b00, 0x00007600, 0x0000ec00],
      case_stmts = [(Short_Circuit, 5, 5, 5), (Multiply_Low, 4, 4, 2), (Sub_Borrow, 5, 0, 1), (Popcount_Loop, 5, 5, 5),
                    (Reverse_Loop, 5, 5, 2), (Sub_Borrow, 1, 2, 4), (Rotate_Mix, 2, 3, 5), (Halfword_Swap, 4, 0, 3),
                    (Multiply_Low, 0, 5, 3), (Compare_Select, 2, 5, 1), (Switch_Phi, 1, 5, 5), (Switch_Phi, 0, 1, 3)]\<rparr>"

definition case_0473 :: "case_program" where
  "case_0473 =
     \<lparr>case_id = 473,
      case_input = [0xdb672481, 0x00000100, 0x7a36c94a, 0xb3e326da, 0xbbe8abaa, 0xb32f36ea, 0xe2549d94, 0xffffffff,
                    0x97b5876f, 0xe6221f3c, 0xf7ae7a3d, 0xb788878d, 0x3154ff0a, 0x11b62eb2, 0xb13ac370, 0xaa32b167],
      case_kernel = sparse_switch_kernel,
      reg_inputs = [10, 14, 2, 6], reg5_init = 0x547fe6d1,
      memory_keys = [0x000001d9, 0x000003b2, 0x00000764, 0x00000ec8, 0x00001d90, 0x00003b20, 0x00007640, 0x0000ec80],
      case_stmts = [(Popcount_Loop, 4, 2, 4), (Multiply_Low, 5, 0, 1), (Sub_Borrow, 1, 0, 5), (Add_Carry, 4, 3, 2),
                    (Mask_Merge, 5, 1, 0), (Gray_Decode, 1, 2, 1), (Minmax_Clamp, 5, 0, 4), (Array_Scatter, 1, 5, 1),
                    (Short_Circuit, 5, 4, 4), (Gray_Decode, 5, 5, 3), (Gray_Decode, 3, 5, 4), (Rotate_Mix, 3, 5, 2)]\<rparr>"

definition case_0474 :: "case_program" where
  "case_0474 =
     \<lparr>case_id = 474,
      case_input = [0x1ae14442, 0xf7da83bd, 0x6c9d8a04, 0xe7f3419a, 0x4c28910b, 0x72b2476d, 0x124de96e, 0xbdefef76,
                    0x00000000, 0x29ad506f, 0xf1a81ab5, 0xb2b28ae7, 0x765b7b5d, 0x52e493a2, 0x854bc0b9, 0xd07fce51],
      case_kernel = sparse_switch_kernel,
      reg_inputs = [11, 15, 3, 7], reg5_init = 0xf2b7608a,
      memory_keys = [0x000001da, 0x000003b4, 0x00000768, 0x00000ed0, 0x00001da0, 0x00003b40, 0x00007680, 0x0000ed00],
      case_stmts = [(Reverse_Loop, 5, 4, 2), (Multiply_Low, 0, 2, 2), (Sub_Borrow, 1, 5, 4), (Switch_Phi, 5, 3, 1),
                    (Endian_Swap, 1, 4, 0), (Endian_Swap, 5, 2, 1), (Short_Circuit, 5, 4, 1), (Divide_Rem, 1, 4, 2),
                    (Gray_Decode, 0, 0, 3), (Endian_Swap, 1, 4, 1), (Mask_Merge, 1, 1, 5), (Reverse_Loop, 3, 4, 0)]\<rparr>"

definition case_0475 :: "case_program" where
  "case_0475 =
     \<lparr>case_id = 475,
      case_input = [0x00000000, 0xebdbd6fa, 0x99052802, 0x47fa34bc, 0x5a7d1cde, 0x61510c6e, 0x5bb67617, 0x6f1a29ba,
                    0x05e65932, 0x6842e2a0, 0x672eed92, 0x6a847996, 0xae5db8b4, 0xcb0289e4, 0x58f1d180, 0xf94f3f2f],
      case_kernel = protocol_kernel 4,
      reg_inputs = [12, 0, 4, 8], reg5_init = 0x90eeda43,
      memory_keys = [0x000001db, 0x000003b6, 0x0000076c, 0x00000ed8, 0x00001db0, 0x00003b60, 0x000076c0, 0x0000ed80],
      case_stmts = [(Gray_Decode, 4, 5, 5), (Multiply_Low, 3, 0, 5), (Sub_Borrow, 3, 1, 4), (Carry_Chain, 4, 3, 2),
                    (Counted_Loop, 3, 0, 0), (Gray_Decode, 3, 0, 2), (Counted_Loop, 2, 5, 2), (Popcount_Loop, 2, 5, 4),
                    (Halfword_Swap, 1, 3, 2), (Short_Circuit, 2, 0, 1), (Array_Scatter, 3, 3, 0),
                    (Horner_Loop, 2, 4, 1)]\<rparr>"

definition case_0476 :: "case_program" where
  "case_0476 =
     \<lparr>case_id = 476,
      case_input = [0x99ed85c5, 0x00000001, 0x49c9a9dd, 0xf9d87731, 0x6c904896, 0x9d30a5a5, 0xe5618094, 0x1d231d0c,
                    0xb89b6126, 0x38547480, 0xed4c6c85, 0x6b2752cc, 0xb8058b1c, 0x61a0898b, 0xe5c83e0c, 0xea914925],
      case_kernel = protocol_kernel 5,
      reg_inputs = [13, 1, 5, 9], reg5_init = 0x2f2653fc,
      memory_keys = [0x000001dc, 0x000003b8, 0x00000770, 0x00000ee0, 0x00001dc0, 0x00003b80, 0x00007700, 0x0000ee00],
      case_stmts = [(Minmax_Clamp, 0, 2, 5), (Multiply_Low, 1, 1, 5), (Sub_Borrow, 1, 5, 2), (Halfword_Swap, 0, 3, 1),
                    (Short_Circuit, 0, 2, 1), (Divide_Rem, 2, 0, 0), (Gray_Decode, 5, 3, 1), (Sub_Borrow, 3, 4, 4),
                    (Gray_Decode, 0, 4, 3), (Horner_Loop, 2, 5, 3), (Multiply_Low, 4, 5, 4), (Gray_Decode, 0, 5, 2)]\<rparr>"

definition case_0477 :: "case_program" where
  "case_0477 =
     \<lparr>case_id = 477,
      case_input = [0xd96fa584, 0xa3da296b, 0x00000002, 0x59d10217, 0x7ac5c543, 0x8ed3eea6, 0xac9a1fed, 0xcfd6dbc0,
                    0x5fdc6af7, 0x79bbc64f, 0x7bca9ba2, 0xb311a1bd, 0x600348f5, 0xf84693cd, 0x38722f35, 0xc3a1b85b],
      case_kernel = protocol_kernel 6,
      reg_inputs = [14, 2, 6, 10], reg5_init = 0xcd5dcdb5,
      memory_keys = [0x000001dd, 0x000003ba, 0x00000774, 0x00000ee8, 0x00001dd0, 0x00003ba0, 0x00007740, 0x0000ee80],
      case_stmts = [(Endian_Swap, 3, 5, 0), (Multiply_Low, 2, 3, 4), (Sub_Borrow, 1, 3, 4), (Endian_Swap, 3, 3, 2),
                    (Horner_Loop, 0, 2, 1), (Reverse_Loop, 4, 4, 5), (Endian_Swap, 4, 0, 0), (Divide_Rem, 4, 3, 4),
                    (Minmax_Clamp, 1, 3, 0), (Reverse_Loop, 1, 3, 5), (Multiply_Low, 2, 1, 1), (Carry_Chain, 3, 1, 5)]\<rparr>"

definition case_0478 :: "case_program" where
  "case_0478 =
     \<lparr>case_id = 478,
      case_input = [0x18e9c547, 0x87dbd6a3, 0xaafa4895, 0x00000003, 0x8d05ffe2, 0x4f4e9f21, 0x5c836b17, 0xc575d84a,
                    0x2ac8bf7b, 0xb634891c, 0x7dccfb2a, 0xb62bacd7, 0x270ccca2, 0xbb142edd, 0x0c032cfc, 0xb9ecc76d],
      case_kernel = protocol_kernel 7,
      reg_inputs = [15, 3, 7, 11], reg5_init = 0x6b95476e,
      memory_keys = [0x000001de, 0x000003bc, 0x00000778, 0x00000ef0, 0x00001de0, 0x00003bc0, 0x00007780, 0x0000ef00],
      case_stmts = [(Carry_Chain, 4, 3, 0), (Multiply_Low, 1, 3, 1), (Sub_Borrow, 5, 4, 5), (Compare_Select, 0, 1, 3),
                    (Multiply_Low, 2, 3, 3), (Halfword_Swap, 0, 2, 1), (Endian_Swap, 2, 0, 5), (Popcount_Loop, 0, 0, 1),
                    (Multiply_Low, 2, 5, 3), (Divide_Rem, 1, 2, 3), (Mask_Merge, 0, 1, 4), (Counted_Loop, 3, 2, 1)]\<rparr>"

definition case_0479 :: "case_program" where
  "case_0479 =
     \<lparr>case_id = 479,
      case_input = [0x586be506, 0x9bda83e4, 0x5f62ea93, 0xadc81071, 0x0000007f, 0x5cadd422, 0x1578f46e, 0x17801e86,
                    0xcd8fb4aa, 0xf7db3bd3, 0xeb4a0c0d, 0x6e1d5fa6, 0xff0a0f4b, 0x22f2349b, 0xd1b93dc5, 0x90dc3613],
      case_kernel = protocol_kernel 8,
      reg_inputs = [0, 4, 8, 12], reg5_init = 0x09ccc127,
      memory_keys = [0x000001df, 0x000003be, 0x0000077c, 0x00000ef8, 0x00001df0, 0x00003be0, 0x000077c0, 0x0000ef80],
      case_stmts = [(Horner_Loop, 1, 2, 5), (Multiply_Low, 2, 5, 0), (Sub_Borrow, 1, 0, 1), (Gray_Decode, 5, 1, 2),
                    (Short_Circuit, 4, 3, 5), (Reverse_Loop, 4, 4, 0), (Switch_Phi, 1, 1, 4), (Minmax_Clamp, 3, 1, 3),
                    (Halfword_Swap, 1, 2, 0), (Endian_Swap, 2, 0, 1), (Mask_Merge, 4, 3, 1), (Multiply_Low, 4, 0, 4)]\<rparr>"

definition case_0480 :: "case_program" where
  "case_0480 =
     \<lparr>case_id = 480,
      case_input = [0x87920af6, 0x6fd77f87, 0x2dc0f0a4, 0x3ad9af39, 0x1238c889, 0x00000080, 0x7b39617b, 0x9405c687,
                    0xbf7fc77d, 0x4c7b79bf, 0xe2399ef9, 0xd523f913, 0x76510fb5, 0xddc0ead1, 0xa7439219, 0x4fe4f128],
      case_kernel = protocol_kernel 9,
      reg_inputs = [1, 5, 9, 13], reg5_init = 0xa8043ae0,
      memory_keys = [0x000001e0, 0x000003c0, 0x00000780, 0x00000f00, 0x00001e00, 0x00003c00, 0x00007800, 0x0000f000],
      case_stmts = [(Add_Carry, 5, 4, 0), (Divide_Rem, 4, 1, 0), (Sub_Borrow, 2, 1, 3), (Horner_Loop, 2, 5, 2),
                    (Gray_Decode, 2, 1, 5), (Sub_Borrow, 0, 0, 2), (Switch_Phi, 3, 5, 4), (Reverse_Loop, 1, 3, 0),
                    (Mask_Merge, 2, 4, 3), (Divide_Rem, 3, 2, 0), (Add_Carry, 2, 2, 4), (Add_Carry, 4, 4, 4)]\<rparr>"

definition case_0481 :: "case_program" where
  "case_0481 =
     \<lparr>case_id = 481,
      case_input = [0xc7102ab7, 0x73d62ac0, 0xd85852a2, 0x9ad0da1f, 0x046d455c, 0x14c6d2b4, 0x000000ff, 0x46f0004b,
                    0x5838ccac, 0x0d94cb70, 0x74bf69de, 0x0d150a62, 0xae57cc5c, 0x4426f097, 0x7af98320, 0x66d40056],
      case_kernel = protocol_kernel 10,
      reg_inputs = [2, 6, 10, 14], reg5_init = 0x463bb499,
      memory_keys = [0x000001e1, 0x000003c2, 0x00000784, 0x00000f08, 0x00001e10, 0x00003c20, 0x00007840, 0x0000f080],
      case_stmts = [(Sub_Borrow, 2, 1, 1), (Divide_Rem, 3, 1, 1), (Sub_Borrow, 4, 5, 5), (Counted_Loop, 3, 1, 3),
                    (Minmax_Clamp, 2, 1, 5), (Switch_Phi, 4, 2, 3), (Sub_Borrow, 4, 2, 5), (Byte_Pack, 0, 0, 2),
                    (Counted_Loop, 5, 1, 2), (Endian_Swap, 4, 2, 4), (Short_Circuit, 4, 0, 5), (Endian_Swap, 3, 2, 1)]\<rparr>"

definition case_0482 :: "case_program" where
  "case_0482 =
     \<lparr>case_id = 482,
      case_input = [0x06964a74, 0x57d7d508, 0xcef311ec, 0xcec0bd5f, 0xf3ad7ffd, 0xd55ba333, 0xc2db8af8, 0x00000100,
                    0x2d2c1920, 0xc21b8423, 0x72b90956, 0x082f0708, 0xe958480b, 0x07744d87, 0x4e8880e9, 0x1c997f60],
      case_kernel = protocol_kernel 11,
      reg_inputs = [3, 7, 11, 15], reg5_init = 0xe4732e52,
      memory_keys = [0x000001e2, 0x000003c4, 0x00000788, 0x00000f10, 0x00001e20, 0x00003c40, 0x00007880, 0x0000f100],
      case_stmts = [(Rotate_Mix, 1, 1, 5), (Divide_Rem, 0, 1, 4), (Sub_Borrow, 4, 0, 0), (Mask_Merge, 2, 3, 2),
                    (Minmax_Clamp, 0, 4, 1), (Array_Scatter, 2, 4, 5), (Sub_Borrow, 4, 2, 2), (Compare_Select, 0, 1, 5),
                    (Sub_Borrow, 4, 3, 1), (Switch_Phi, 0, 1, 4), (Carry_Chain, 4, 2, 2), (Array_Scatter, 3, 3, 1)]\<rparr>"

definition case_0483 :: "case_program" where
  "case_0483 =
     \<lparr>case_id = 483,
      case_input = [0x46146a35, 0x4bd6804f, 0x3b6bb3ea, 0x6ec9c879, 0xe5f8f228, 0xc6b8e830, 0x8b201581, 0x9ea6c50d,
                    0x7fffffff, 0x83f436ec, 0xe43ffe71, 0xd019f479, 0x315e8be2, 0x9e9257c1, 0x933291d0, 0x35a98e1e],
      case_kernel = protocol_kernel 12,
      reg_inputs = [4, 8, 12, 0], reg5_init = 0x82aaa80b,
      memory_keys = [0x000001e3, 0x000003c6, 0x0000078c, 0x00000f18, 0x00001e30, 0x00003c60, 0x000078c0, 0x0000f180],
      case_stmts = [(Multiply_Low, 0, 4, 4), (Divide_Rem, 1, 3, 5), (Sub_Borrow, 2, 2, 2), (Minmax_Clamp, 3, 1, 3),
                    (Byte_Pack, 2, 4, 5), (Byte_Pack, 0, 4, 4), (Multiply_Low, 1, 5, 5), (Multiply_Low, 3, 4, 3),
                    (Compare_Select, 1, 0, 0), (Counted_Loop, 3, 3, 2), (Counted_Loop, 4, 4, 3), (Divide_Rem, 0, 1, 2)]\<rparr>"

definition case_0484 :: "case_program" where
  "case_0484 =
     \<lparr>case_id = 484,
      case_input = [0x859a8bf3, 0x1fd62a99, 0xeba73235, 0xd0eb8bf4, 0xd315a660, 0x3ad941fb, 0x35f7e302, 0xec9ff1bb,
                    0x77162ae5, 0x80000000, 0x6e5d7f66, 0xd1badf23, 0x2706b84a, 0x343057ae, 0x2e0b7e5c, 0x2677f814],
      case_kernel = protocol_kernel 13,
      reg_inputs = [5, 9, 13, 1], reg5_init = 0x20e221c4,
      memory_keys = [0x000001e4, 0x000003c8, 0x00000790, 0x00000f20, 0x00001e40, 0x00003c80, 0x00007900, 0x0000f200],
      case_stmts = [(Divide_Rem, 4, 1, 4), (Divide_Rem, 5, 4, 5), (Sub_Borrow, 2, 0, 0), (Rotate_Mix, 1, 3, 4),
                    (Sub_Borrow, 3, 0, 0), (Divide_Rem, 1, 4, 2), (Rotate_Mix, 2, 5, 4), (Byte_Pack, 0, 5, 1),
                    (Popcount_Loop, 4, 3, 5), (Popcount_Loop, 5, 0, 2), (Short_Circuit, 1, 0, 1),
                    (Short_Circuit, 4, 0, 1)]\<rparr>"

definition case_0485 :: "case_program" where
  "case_0485 =
     \<lparr>case_id = 485,
      case_input = [0xc518abb2, 0x03d77fde, 0x1e3f9033, 0x70e2fed2, 0xc5402bb5, 0x293a0af8, 0x7c0c7c7b, 0x3e6a3777,
                    0x90512134, 0x920d1203, 0xfffffffe, 0x098c2c52, 0xff007ba3, 0xadd64de8, 0xf3b16f65, 0x0f47096a],
      case_kernel = protocol_kernel 14,
      reg_inputs = [6, 10, 14, 2], reg5_init = 0xbf199b7d,
      memory_keys = [0x000001e5, 0x000003ca, 0x00000794, 0x00000f28, 0x00001e50, 0x00003ca0, 0x00007940, 0x0000f280],
      case_stmts = [(Mask_Merge, 1, 2, 3), (Divide_Rem, 2, 2, 0), (Sub_Borrow, 4, 4, 4), (Gray_Decode, 0, 5, 1),
                    (Reverse_Loop, 5, 4, 4), (Carry_Chain, 3, 0, 1), (Short_Circuit, 1, 4, 5), (Reverse_Loop, 5, 2, 5),
                    (Counted_Loop, 5, 0, 4), (Divide_Rem, 0, 4, 2), (Halfword_Swap, 3, 2, 2), (Endian_Swap, 3, 4, 0)]\<rparr>"

definition case_0486 :: "case_program" where
  "case_0486 =
     \<lparr>case_id = 486,
      case_input = [0x049ecb71, 0x27d68016, 0x0894d37d, 0x24f29992, 0x32801114, 0xe8a77b7f, 0x8c150881, 0x34c934fd,
                    0xe545f4b8, 0x5d825d50, 0xfedde8c9, 0xffffffff, 0xb80ffff4, 0xee84f0f8, 0xc7c06cac, 0x750a765c],
      case_kernel = protocol_kernel 15,
      reg_inputs = [7, 11, 15, 3], reg5_init = 0x5d511536,
      memory_keys = [0x000001e6, 0x000003cc, 0x00000798, 0x00000f30, 0x00001e60, 0x00003cc0, 0x00007980, 0x0000f300],
      case_stmts = [(Compare_Select, 2, 0, 3), (Divide_Rem, 3, 4, 5), (Sub_Borrow, 4, 5, 3), (Halfword_Swap, 5, 1, 0),
                    (Compare_Select, 5, 5, 0), (Halfword_Swap, 1, 4, 3), (Short_Circuit, 5, 4, 0),
                    (Horner_Loop, 1, 3, 4), (Sub_Borrow, 0, 0, 1), (Carry_Chain, 2, 3, 0), (Carry_Chain, 5, 2, 3),
                    (Popcount_Loop, 1, 3, 4)]\<rparr>"

definition case_0487 :: "case_program" where
  "case_0487 =
     \<lparr>case_id = 487,
      case_input = [0x441ceb30, 0x3bd7d551, 0xfd0c717b, 0x84fbecb4, 0x00000000, 0xfb44307c, 0xc5ee97f8, 0xe63cf231,
                    0x0202ff69, 0x1c6def9f, 0x685b1fee, 0xd480d249, 0x00000000, 0x7762eabe, 0x1a7a7d95, 0x5c3a8722],
      case_kernel = protocol_kernel 4,
      reg_inputs = [8, 12, 0, 4], reg5_init = 0xfb888eef,
      memory_keys = [0x000001e7, 0x000003ce, 0x0000079c, 0x00000f38, 0x00001e70, 0x00003ce0, 0x000079c0, 0x0000f380],
      case_stmts = [(Byte_Pack, 1, 3, 0), (Divide_Rem, 0, 2, 2), (Sub_Borrow, 4, 5, 5), (Sub_Borrow, 4, 3, 1),
                    (Sub_Borrow, 1, 5, 4), (Counted_Loop, 3, 4, 2), (Counted_Loop, 4, 5, 1), (Carry_Chain, 2, 2, 0),
                    (Counted_Loop, 1, 3, 2), (Horner_Loop, 1, 3, 4), (Reverse_Loop, 3, 0, 4), (Add_Carry, 4, 3, 5)]\<rparr>"

definition case_0488 :: "case_program" where
  "case_0488 =
     \<lparr>case_id = 488,
      case_input = [0x838308fc, 0x8fd5d5bb, 0xa10f7587, 0xeebde6a3, 0x9262155a, 0x7cda292e, 0x7fa2c8cd, 0xc13e50c4,
                    0x4b96fc83, 0x4fb5829f, 0x826b3fd0, 0x00000080, 0x36176ef2, 0x00000001, 0x2ca5cbcf, 0x1c0c53a4],
      case_kernel = protocol_kernel 5,
      reg_inputs = [9, 13, 1, 5], reg5_init = 0x99c008a8,
      memory_keys = [0x000001e8, 0x000003d0, 0x000007a0, 0x00000f40, 0x00001e80, 0x00003d00, 0x00007a00, 0x0000f400],
      case_stmts = [(Halfword_Swap, 5, 3, 1), (Divide_Rem, 3, 3, 2), (Sub_Borrow, 4, 0, 1), (Array_Scatter, 2, 3, 0),
                    (Multiply_Low, 4, 0, 2), (Counted_Loop, 3, 5, 3), (Endian_Swap, 3, 1, 5), (Sub_Borrow, 5, 1, 5),
                    (Short_Circuit, 2, 1, 1), (Rotate_Mix, 4, 4, 2), (Switch_Phi, 4, 1, 0), (Counted_Loop, 0, 2, 4)]\<rparr>"

definition case_0489 :: "case_program" where
  "case_0489 =
     \<lparr>case_id = 489,
      case_input = [0xc30128bd, 0x93d480fc, 0xfffffffe, 0x4eb49385, 0x8437988f, 0x6f39622d, 0x365957b4, 0x13cb9608,
                    0xacd1f752, 0x0e5a3050, 0x14edc8f7, 0x9a6c1b39, 0xee11ad1b, 0xd6505985, 0x00000002, 0x353ca2da],
      case_kernel = protocol_kernel 6,
      reg_inputs = [10, 14, 2, 6], reg5_init = 0x37f78261,
      memory_keys = [0x000001e9, 0x000003d2, 0x000007a4, 0x00000f48, 0x00001e90, 0x00003d20, 0x00007a40, 0x0000f480],
      case_stmts = [(Array_Scatter, 0, 0, 2), (Divide_Rem, 0, 3, 1), (Sub_Borrow, 2, 4, 5), (Add_Carry, 3, 3, 3),
                    (Minmax_Clamp, 2, 4, 4), (Divide_Rem, 1, 5, 2), (Gray_Decode, 4, 4, 0), (Divide_Rem, 4, 2, 3),
                    (Byte_Pack, 5, 0, 0), (Gray_Decode, 3, 2, 4), (Byte_Pack, 2, 3, 1), (Switch_Phi, 5, 0, 5)]\<rparr>"

definition case_0490 :: "case_program" where
  "case_0490 =
     \<lparr>case_id = 490,
      case_input = [0x0287487e, 0xb7d57f34, 0x423c94cf, 0x1aa4f4c5, 0x73f7a22e, 0xaea413aa, 0xc640234e, 0x19689582,
                    0xd9c522de, 0x00000003, 0x12eba87f, 0x9f561653, 0xa91e294c, 0x9502e495, 0xc56ed93f, 0x00000003],
      case_kernel = protocol_kernel 7,
      reg_inputs = [11, 15, 3, 7], reg5_init = 0xd62efc1a,
      memory_keys = [0x000001ea, 0x000003d4, 0x000007a8, 0x00000f50, 0x00001ea0, 0x00003d40, 0x00007a80, 0x0000f500],
      case_stmts = [(Counted_Loop, 1, 2, 4), (Divide_Rem, 5, 5, 2), (Sub_Borrow, 4, 1, 2), (Horner_Loop, 0, 5, 4),
                    (Halfword_Swap, 2, 1, 2), (Carry_Chain, 1, 5, 2), (Multiply_Low, 0, 2, 1), (Endian_Swap, 4, 3, 2),
                    (Halfword_Swap, 2, 4, 1), (Endian_Swap, 1, 3, 0), (Endian_Swap, 0, 5, 0), (Switch_Phi, 5, 5, 5)]\<rparr>"

definition case_0491 :: "case_program" where
  "case_0491 =
     \<lparr>case_id = 491,
      case_input = [0x7fffffff, 0xabd42a73, 0xb7a436c9, 0xbaad81e3, 0x65a22ffb, 0xbd4758a9, 0x8fbbbc37, 0xcb9d534e,
                    0x3e82290f, 0x803acdcc, 0x846d5f58, 0x4760e522, 0x7118eaa5, 0x0ce4fed3, 0x18d4c806, 0x66412c92],
      case_kernel = protocol_kernel 8,
      reg_inputs = [12, 0, 4, 8], reg5_init = 0x746675d3,
      memory_keys = [0x000001eb, 0x000003d6, 0x000007ac, 0x00000f58, 0x00001eb0, 0x00003d60, 0x00007ac0, 0x0000f580],
      case_stmts = [(Switch_Phi, 4, 5, 3), (Divide_Rem, 4, 1, 5), (Sub_Borrow, 2, 5, 4), (Counted_Loop, 1, 5, 5),
                    (Byte_Pack, 0, 1, 0), (Divide_Rem, 3, 5, 1), (Endian_Swap, 1, 1, 2), (Divide_Rem, 3, 2, 4),
                    (Multiply_Low, 5, 5, 4), (Halfword_Swap, 0, 1, 4), (Endian_Swap, 2, 1, 1), (Counted_Loop, 4, 3, 0)]\<rparr>"

definition case_0492 :: "case_program" where
  "case_0492 =
     \<lparr>case_id = 492,
      case_input = [0x818b89f9, 0x00000080, 0x6768b716, 0x048fc26e, 0x534f7bb3, 0x4126f162, 0x316c4ab4, 0x00000001,
                    0x83ff111b, 0xd02c5bec, 0x0e0fde4f, 0x46c3ce78, 0x6740d90d, 0xa646febc, 0xa5ed278a, 0x759f5a98],
      case_kernel = protocol_kernel 9,
      reg_inputs = [13, 1, 5, 9], reg5_init = 0x129def8c,
      memory_keys = [0x000001ec, 0x000003d8, 0x000007b0, 0x00000f60, 0x00001ec0, 0x00003d80, 0x00007b00, 0x0000f600],
      case_stmts = [(Short_Circuit, 4, 2, 5), (Divide_Rem, 2, 0, 5), (Sub_Borrow, 0, 5, 4), (Short_Circuit, 5, 1, 2),
                    (Endian_Swap, 1, 5, 1), (Horner_Loop, 0, 5, 3), (Halfword_Swap, 4, 5, 5), (Short_Circuit, 4, 1, 2),
                    (Minmax_Clamp, 2, 0, 3), (Byte_Pack, 0, 4, 2), (Gray_Decode, 5, 5, 1), (Rotate_Mix, 4, 4, 1)]\<rparr>"

definition case_0493 :: "case_program" where
  "case_0493 =
     \<lparr>case_id = 493,
      case_input = [0xc109a9b8, 0xe3d5d5e2, 0x000000ff, 0xa486b748, 0x451af666, 0x52c5ba61, 0x7897d5cd, 0x6b51a134,
                    0x64b81aca, 0x91c3e923, 0x98892968, 0x9ef53d09, 0xbf461ae4, 0x3fa0e4fa, 0x000000ff, 0x5cafabe6],
      case_kernel = protocol_kernel 10,
      reg_inputs = [14, 2, 6, 10], reg5_init = 0xb0d56945,
      memory_keys = [0x000001ed, 0x000003da, 0x000007b4, 0x00000f68, 0x00001ed0, 0x00003da0, 0x00007b40, 0x0000f680],
      case_stmts = [(Popcount_Loop, 3, 5, 2), (Divide_Rem, 3, 4, 4), (Sub_Borrow, 0, 3, 2), (Mask_Merge, 2, 5, 5),
                    (Carry_Chain, 1, 3, 5), (Mask_Merge, 2, 1, 0), (Carry_Chain, 3, 0, 0), (Popcount_Loop, 3, 0, 4),
                    (Switch_Phi, 5, 1, 2), (Counted_Loop, 3, 2, 4), (Multiply_Low, 5, 5, 4), (Gray_Decode, 5, 2, 2)]\<rparr>"

definition case_0494 :: "case_program" where
  "case_0494 =
     \<lparr>case_id = 494,
      case_input = [0x008fc97b, 0xc7d42a2a, 0x845b565e, 0x00000100, 0xb2daccc7, 0xffffffff, 0x888ea137, 0x61f2a2be,
                    0x11accf46, 0x5e4ca670, 0x9e8f49e0, 0x9bcf3063, 0xf8499eb3, 0x7cf259ea, 0x4c26357a, 0x26e2d4d0],
      case_kernel = protocol_kernel 11,
      reg_inputs = [15, 3, 7, 11], reg5_init = 0x4f0ce2fe,
      memory_keys = [0x000001ee, 0x000003dc, 0x000007b8, 0x00000f70, 0x00001ee0, 0x00003dc0, 0x00007b80, 0x0000f700],
      case_stmts = [(Reverse_Loop, 2, 3, 2), (Divide_Rem, 2, 0, 1), (Sub_Borrow, 2, 4, 5), (Rotate_Mix, 5, 1, 4),
                    (Rotate_Mix, 1, 2, 3), (Horner_Loop, 2, 5, 2), (Rotate_Mix, 5, 0, 5), (Minmax_Clamp, 3, 1, 3),
                    (Short_Circuit, 0, 1, 1), (Minmax_Clamp, 3, 3, 0), (Endian_Swap, 1, 5, 1), (Switch_Phi, 1, 1, 2)]\<rparr>"

definition case_0495 :: "case_program" where
  "case_0495 =
     \<lparr>case_id = 495,
      case_input = [0x400de93a, 0xdbd57f6d, 0x71c3f458, 0x509fa52e, 0x7fffffff, 0x80bb80e5, 0xc1753e4e, 0xb3076472,
                    0xf6ebc497, 0x1fa314bf, 0x0809bec7, 0x43f9c312, 0x0000007f, 0xe51443ac, 0x919c2443, 0x0fd225ae],
      case_kernel = protocol_kernel 12,
      reg_inputs = [0, 4, 8, 12], reg5_init = 0xed445cb7,
      memory_keys = [0x000001ef, 0x000003de, 0x000007bc, 0x00000f78, 0x00001ef0, 0x00003de0, 0x00007bc0, 0x0000f780],
      case_stmts = [(Gray_Decode, 3, 0, 5), (Divide_Rem, 5, 2, 0), (Sub_Borrow, 4, 0, 5), (Gray_Decode, 2, 3, 1),
                    (Array_Scatter, 5, 2, 3), (Array_Scatter, 2, 1, 3), (Add_Carry, 0, 1, 0), (Array_Scatter, 4, 2, 1),
                    (Horner_Loop, 1, 4, 0), (Array_Scatter, 4, 5, 2), (Endian_Swap, 3, 5, 4), (Carry_Chain, 4, 3, 5)]\<rparr>"

definition case_0496 :: "case_program" where
  "case_0496 =
     \<lparr>case_id = 496,
      case_input = [0x8fb00ee2, 0xafd22bff, 0x365ffae2, 0x80000000, 0x898dde6a, 0x80000000, 0x293d87a7, 0xc2bcbb32,
                    0xeff7d6db, 0x35c6012e, 0x489fa8b4, 0x44144f63, 0x5e78afd0, 0x8cc8aa83, 0xeb79dc9b, 0xcdcd1144],
      case_kernel = protocol_kernel 13,
      reg_inputs = [1, 5, 9, 13], reg5_init = 0x8b7bd670,
      memory_keys = [0x000001f0, 0x000003e0, 0x000007c0, 0x00000f80, 0x00001f00, 0x00003e00, 0x00007c00, 0x0000f800],
      case_stmts = [(Minmax_Clamp, 4, 3, 2), (Divide_Rem, 3, 5, 0), (Sub_Borrow, 0, 5, 2), (Byte_Pack, 5, 0, 4),
                    (Gray_Decode, 2, 4, 3), (Multiply_Low, 1, 0, 0), (Compare_Select, 1, 1, 2),
                    (Array_Scatter, 4, 1, 2), (Short_Circuit, 2, 3, 5), (Halfword_Swap, 4, 1, 1), (Mask_Merge, 1, 4, 3),
                    (Counted_Loop, 2, 3, 3)]\<rparr>"

definition case_0497 :: "case_program" where
  "case_0497 =
     \<lparr>case_id = 497,
      case_input = [0xcf322ea3, 0xb3d37eb8, 0xc3c758e4, 0x301e492a, 0x9fd853bf, 0xde36e6f9, 0xfffffffe, 0x10497dfe,
                    0x08b0dd0a, 0x7429b3e1, 0x00000002, 0x9c22bc12, 0x867e6c39, 0x152eb0c5, 0x36c3cda2, 0xe4fde03a],
      case_kernel = protocol_kernel 14,
      reg_inputs = [2, 6, 10, 14], reg5_init = 0x29b35029,
      memory_keys = [0x000001f1, 0x000003e2, 0x000007c4, 0x00000f88, 0x00001f10, 0x00003e20, 0x00007c40, 0x0000f880],
      case_stmts = [(Endian_Swap, 1, 4, 1), (Divide_Rem, 0, 3, 5), (Sub_Borrow, 2, 3, 0), (Reverse_Loop, 0, 2, 3),
                    (Divide_Rem, 4, 2, 5), (Endian_Swap, 3, 0, 5), (Divide_Rem, 0, 0, 5), (Short_Circuit, 1, 4, 4),
                    (Switch_Phi, 3, 0, 0), (Sub_Borrow, 3, 5, 3), (Mask_Merge, 1, 0, 4), (Byte_Pack, 5, 3, 2)]\<rparr>"

definition case_0498 :: "case_program" where
  "case_0498 =
     \<lparr>case_id = 498,
      case_input = [0x0eb44e60, 0x00000100, 0xd56c1baa, 0x640e2e6a, 0x6818691e, 0x1fab977e, 0x90df6c24, 0xffffffff,
                    0x7da40886, 0xbba6fcb2, 0xd81f3f1b, 0x9918b178, 0xc171e86e, 0x567c0dd5, 0x02b2ce6b, 0x9eb09f0c],
      case_kernel = protocol_kernel 15,
      reg_inputs = [3, 7, 11, 15], reg5_init = 0xc7eac9e2,
      memory_keys = [0x000001f2, 0x000003e4, 0x000007c8, 0x00000f90, 0x00001f20, 0x00003e40, 0x00007c80, 0x0000f900],
      case_stmts = [(Carry_Chain, 2, 0, 3), (Divide_Rem, 3, 1, 2), (Sub_Borrow, 2, 2, 5), (Popcount_Loop, 5, 0, 0),
                    (Add_Carry, 4, 3, 3), (Horner_Loop, 3, 2, 5), (Add_Carry, 4, 4, 2), (Array_Scatter, 5, 1, 1),
                    (Minmax_Clamp, 0, 2, 1), (Gray_Decode, 3, 2, 5), (Multiply_Low, 3, 0, 3), (Byte_Pack, 1, 0, 0)]\<rparr>"

definition case_0499 :: "case_program" where
  "case_0499 =
     \<lparr>case_id = 499,
      case_input = [0x4e366e21, 0x8bd3d437, 0x20f4b9ac, 0xc4075b4c, 0x7e4de4cb, 0x0c48dc7d, 0xd924f35d, 0xc81fb8b8,
                    0x00000000, 0xfa494e7d, 0x4e99c83c, 0x412e4209, 0x19772b87, 0xcf9a1793, 0xdf08df52, 0xb7806e72],
      case_kernel = protocol_kernel 4,
      reg_inputs = [4, 8, 12, 0], reg5_init = 0x6622439b,
      memory_keys = [0x000001f3, 0x000003e6, 0x000007cc, 0x00000f98, 0x00001f30, 0x00003e60, 0x00007cc0, 0x0000f980],
      case_stmts = [(Horner_Loop, 1, 5, 2), (Divide_Rem, 2, 3, 3), (Sub_Borrow, 4, 0, 3), (Add_Carry, 4, 0, 3),
                    (Horner_Loop, 0, 5, 5), (Sub_Borrow, 5, 4, 4), (Counted_Loop, 5, 5, 5), (Halfword_Swap, 0, 2, 3),
                    (Horner_Loop, 1, 3, 0), (Carry_Chain, 0, 2, 5), (Horner_Loop, 1, 2, 2), (Rotate_Mix, 4, 4, 5)]\<rparr>"

lemma conforms_0400: "conforms (case_0400 junk) (move_prediction 0 5 4)"
  by (rule conformsI) (simp_all add: case_0400_def upt_rec stmt_ok_def move_predicted)

lemma conforms_0401: "conforms (case_0401 junk) (move_prediction 1 6 5)"
  by (rule conformsI) (simp_all add: case_0401_def upt_rec stmt_ok_def move_predicted)

lemma conforms_0402: "conforms (case_0402 junk) (move_prediction 2 7 6)"
  by (rule conformsI) (simp_all add: case_0402_def upt_rec stmt_ok_def move_predicted)

lemma conforms_0403: "conforms (case_0403 junk) (move_prediction 3 8 7)"
  by (rule conformsI) (simp_all add: case_0403_def upt_rec stmt_ok_def move_predicted)

lemma conforms_0404: "conforms (case_0404 junk) (move_prediction 4 5 4)"
  by (rule conformsI) (simp_all add: case_0404_def upt_rec stmt_ok_def move_predicted)

lemma conforms_0405: "conforms (case_0405 junk) (move_prediction 0 6 5)"
  by (rule conformsI) (simp_all add: case_0405_def upt_rec stmt_ok_def move_predicted)

lemma conforms_0406: "conforms (case_0406 junk) (move_prediction 1 7 6)"
  by (rule conformsI) (simp_all add: case_0406_def upt_rec stmt_ok_def move_predicted)

lemma conforms_0407: "conforms (case_0407 junk) (move_prediction 2 8 7)"
  by (rule conformsI) (simp_all add: case_0407_def upt_rec stmt_ok_def move_predicted)

lemma conforms_0408: "conforms (case_0408 junk) (move_prediction 3 5 4)"
  by (rule conformsI) (simp_all add: case_0408_def upt_rec stmt_ok_def move_predicted)

lemma conforms_0409: "conforms (case_0409 junk) (move_prediction 4 6 5)"
  by (rule conformsI) (simp_all add: case_0409_def upt_rec stmt_ok_def move_predicted)

lemma conforms_0410: "conforms (case_0410 junk) (move_prediction 0 7 6)"
  by (rule conformsI) (simp_all add: case_0410_def upt_rec stmt_ok_def move_predicted)

lemma conforms_0411: "conforms (case_0411 junk) (move_prediction 1 8 7)"
  by (rule conformsI) (simp_all add: case_0411_def upt_rec stmt_ok_def move_predicted)

lemma conforms_0412: "conforms (case_0412 junk) (move_prediction 2 5 4)"
  by (rule conformsI) (simp_all add: case_0412_def upt_rec stmt_ok_def move_predicted)

lemma conforms_0413: "conforms (case_0413 junk) (move_prediction 3 6 5)"
  by (rule conformsI) (simp_all add: case_0413_def upt_rec stmt_ok_def move_predicted)

lemma conforms_0414: "conforms (case_0414 junk) (move_prediction 4 7 6)"
  by (rule conformsI) (simp_all add: case_0414_def upt_rec stmt_ok_def move_predicted)

lemma conforms_0415: "conforms (case_0415 junk) (move_prediction 0 8 7)"
  by (rule conformsI) (simp_all add: case_0415_def upt_rec stmt_ok_def move_predicted)

lemma conforms_0416: "conforms (case_0416 junk) (move_prediction 1 5 4)"
  by (rule conformsI) (simp_all add: case_0416_def upt_rec stmt_ok_def move_predicted)

lemma conforms_0417: "conforms (case_0417 junk) (move_prediction 2 6 5)"
  by (rule conformsI) (simp_all add: case_0417_def upt_rec stmt_ok_def move_predicted)

lemma conforms_0418: "conforms (case_0418 junk) (move_prediction 3 7 6)"
  by (rule conformsI) (simp_all add: case_0418_def upt_rec stmt_ok_def move_predicted)

lemma conforms_0419: "conforms (case_0419 junk) (move_prediction 4 8 7)"
  by (rule conformsI) (simp_all add: case_0419_def upt_rec stmt_ok_def move_predicted)

lemma conforms_0420: "conforms (case_0420 junk) (move_prediction 0 5 4)"
  by (rule conformsI) (simp_all add: case_0420_def upt_rec stmt_ok_def move_predicted)

lemma conforms_0421: "conforms (case_0421 junk) (move_prediction 1 6 5)"
  by (rule conformsI) (simp_all add: case_0421_def upt_rec stmt_ok_def move_predicted)

lemma conforms_0422: "conforms (case_0422 junk) (move_prediction 2 7 6)"
  by (rule conformsI) (simp_all add: case_0422_def upt_rec stmt_ok_def move_predicted)

lemma conforms_0423: "conforms (case_0423 junk) (move_prediction 3 8 7)"
  by (rule conformsI) (simp_all add: case_0423_def upt_rec stmt_ok_def move_predicted)

lemma conforms_0424: "conforms (case_0424 junk) (move_prediction 4 5 4)"
  by (rule conformsI) (simp_all add: case_0424_def upt_rec stmt_ok_def move_predicted)

lemma conforms_0425: "conforms case_0425 (dense_switch_prediction)"
  by (rule conformsI) (simp_all add: case_0425_def upt_rec stmt_ok_def dense_switch_predicted)

lemma conforms_0426: "conforms case_0426 (dense_switch_prediction)"
  by (rule conformsI) (simp_all add: case_0426_def upt_rec stmt_ok_def dense_switch_predicted)

lemma conforms_0427: "conforms case_0427 (dense_switch_prediction)"
  by (rule conformsI) (simp_all add: case_0427_def upt_rec stmt_ok_def dense_switch_predicted)

lemma conforms_0428: "conforms case_0428 (dense_switch_prediction)"
  by (rule conformsI) (simp_all add: case_0428_def upt_rec stmt_ok_def dense_switch_predicted)

lemma conforms_0429: "conforms case_0429 (dense_switch_prediction)"
  by (rule conformsI) (simp_all add: case_0429_def upt_rec stmt_ok_def dense_switch_predicted)

lemma conforms_0430: "conforms case_0430 (dense_switch_prediction)"
  by (rule conformsI) (simp_all add: case_0430_def upt_rec stmt_ok_def dense_switch_predicted)

lemma conforms_0431: "conforms case_0431 (dense_switch_prediction)"
  by (rule conformsI) (simp_all add: case_0431_def upt_rec stmt_ok_def dense_switch_predicted)

lemma conforms_0432: "conforms case_0432 (dense_switch_prediction)"
  by (rule conformsI) (simp_all add: case_0432_def upt_rec stmt_ok_def dense_switch_predicted)

lemma conforms_0433: "conforms case_0433 (dense_switch_prediction)"
  by (rule conformsI) (simp_all add: case_0433_def upt_rec stmt_ok_def dense_switch_predicted)

lemma conforms_0434: "conforms case_0434 (dense_switch_prediction)"
  by (rule conformsI) (simp_all add: case_0434_def upt_rec stmt_ok_def dense_switch_predicted)

lemma conforms_0435: "conforms case_0435 (dense_switch_prediction)"
  by (rule conformsI) (simp_all add: case_0435_def upt_rec stmt_ok_def dense_switch_predicted)

lemma conforms_0436: "conforms case_0436 (dense_switch_prediction)"
  by (rule conformsI) (simp_all add: case_0436_def upt_rec stmt_ok_def dense_switch_predicted)

lemma conforms_0437: "conforms case_0437 (dense_switch_prediction)"
  by (rule conformsI) (simp_all add: case_0437_def upt_rec stmt_ok_def dense_switch_predicted)

lemma conforms_0438: "conforms case_0438 (dense_switch_prediction)"
  by (rule conformsI) (simp_all add: case_0438_def upt_rec stmt_ok_def dense_switch_predicted)

lemma conforms_0439: "conforms case_0439 (dense_switch_prediction)"
  by (rule conformsI) (simp_all add: case_0439_def upt_rec stmt_ok_def dense_switch_predicted)

lemma conforms_0440: "conforms case_0440 (dense_switch_prediction)"
  by (rule conformsI) (simp_all add: case_0440_def upt_rec stmt_ok_def dense_switch_predicted)

lemma conforms_0441: "conforms case_0441 (dense_switch_prediction)"
  by (rule conformsI) (simp_all add: case_0441_def upt_rec stmt_ok_def dense_switch_predicted)

lemma conforms_0442: "conforms case_0442 (dense_switch_prediction)"
  by (rule conformsI) (simp_all add: case_0442_def upt_rec stmt_ok_def dense_switch_predicted)

lemma conforms_0443: "conforms case_0443 (dense_switch_prediction)"
  by (rule conformsI) (simp_all add: case_0443_def upt_rec stmt_ok_def dense_switch_predicted)

lemma conforms_0444: "conforms case_0444 (dense_switch_prediction)"
  by (rule conformsI) (simp_all add: case_0444_def upt_rec stmt_ok_def dense_switch_predicted)

lemma conforms_0445: "conforms case_0445 (dense_switch_prediction)"
  by (rule conformsI) (simp_all add: case_0445_def upt_rec stmt_ok_def dense_switch_predicted)

lemma conforms_0446: "conforms case_0446 (dense_switch_prediction)"
  by (rule conformsI) (simp_all add: case_0446_def upt_rec stmt_ok_def dense_switch_predicted)

lemma conforms_0447: "conforms case_0447 (dense_switch_prediction)"
  by (rule conformsI) (simp_all add: case_0447_def upt_rec stmt_ok_def dense_switch_predicted)

lemma conforms_0448: "conforms case_0448 (dense_switch_prediction)"
  by (rule conformsI) (simp_all add: case_0448_def upt_rec stmt_ok_def dense_switch_predicted)

lemma conforms_0449: "conforms case_0449 (dense_switch_prediction)"
  by (rule conformsI) (simp_all add: case_0449_def upt_rec stmt_ok_def dense_switch_predicted)

lemma conforms_0450: "conforms case_0450 (sparse_switch_prediction)"
  by (rule conformsI) (simp_all add: case_0450_def upt_rec stmt_ok_def sparse_switch_predicted)

lemma conforms_0451: "conforms case_0451 (sparse_switch_prediction)"
  by (rule conformsI) (simp_all add: case_0451_def upt_rec stmt_ok_def sparse_switch_predicted)

lemma conforms_0452: "conforms case_0452 (sparse_switch_prediction)"
  by (rule conformsI) (simp_all add: case_0452_def upt_rec stmt_ok_def sparse_switch_predicted)

lemma conforms_0453: "conforms case_0453 (sparse_switch_prediction)"
  by (rule conformsI) (simp_all add: case_0453_def upt_rec stmt_ok_def sparse_switch_predicted)

lemma conforms_0454: "conforms case_0454 (sparse_switch_prediction)"
  by (rule conformsI) (simp_all add: case_0454_def upt_rec stmt_ok_def sparse_switch_predicted)

lemma conforms_0455: "conforms case_0455 (sparse_switch_prediction)"
  by (rule conformsI) (simp_all add: case_0455_def upt_rec stmt_ok_def sparse_switch_predicted)

lemma conforms_0456: "conforms case_0456 (sparse_switch_prediction)"
  by (rule conformsI) (simp_all add: case_0456_def upt_rec stmt_ok_def sparse_switch_predicted)

lemma conforms_0457: "conforms case_0457 (sparse_switch_prediction)"
  by (rule conformsI) (simp_all add: case_0457_def upt_rec stmt_ok_def sparse_switch_predicted)

lemma conforms_0458: "conforms case_0458 (sparse_switch_prediction)"
  by (rule conformsI) (simp_all add: case_0458_def upt_rec stmt_ok_def sparse_switch_predicted)

lemma conforms_0459: "conforms case_0459 (sparse_switch_prediction)"
  by (rule conformsI) (simp_all add: case_0459_def upt_rec stmt_ok_def sparse_switch_predicted)

lemma conforms_0460: "conforms case_0460 (sparse_switch_prediction)"
  by (rule conformsI) (simp_all add: case_0460_def upt_rec stmt_ok_def sparse_switch_predicted)

lemma conforms_0461: "conforms case_0461 (sparse_switch_prediction)"
  by (rule conformsI) (simp_all add: case_0461_def upt_rec stmt_ok_def sparse_switch_predicted)

lemma conforms_0462: "conforms case_0462 (sparse_switch_prediction)"
  by (rule conformsI) (simp_all add: case_0462_def upt_rec stmt_ok_def sparse_switch_predicted)

lemma conforms_0463: "conforms case_0463 (sparse_switch_prediction)"
  by (rule conformsI) (simp_all add: case_0463_def upt_rec stmt_ok_def sparse_switch_predicted)

lemma conforms_0464: "conforms case_0464 (sparse_switch_prediction)"
  by (rule conformsI) (simp_all add: case_0464_def upt_rec stmt_ok_def sparse_switch_predicted)

lemma conforms_0465: "conforms case_0465 (sparse_switch_prediction)"
  by (rule conformsI) (simp_all add: case_0465_def upt_rec stmt_ok_def sparse_switch_predicted)

lemma conforms_0466: "conforms case_0466 (sparse_switch_prediction)"
  by (rule conformsI) (simp_all add: case_0466_def upt_rec stmt_ok_def sparse_switch_predicted)

lemma conforms_0467: "conforms case_0467 (sparse_switch_prediction)"
  by (rule conformsI) (simp_all add: case_0467_def upt_rec stmt_ok_def sparse_switch_predicted)

lemma conforms_0468: "conforms case_0468 (sparse_switch_prediction)"
  by (rule conformsI) (simp_all add: case_0468_def upt_rec stmt_ok_def sparse_switch_predicted)

lemma conforms_0469: "conforms case_0469 (sparse_switch_prediction)"
  by (rule conformsI) (simp_all add: case_0469_def upt_rec stmt_ok_def sparse_switch_predicted)

lemma conforms_0470: "conforms case_0470 (sparse_switch_prediction)"
  by (rule conformsI) (simp_all add: case_0470_def upt_rec stmt_ok_def sparse_switch_predicted)

lemma conforms_0471: "conforms case_0471 (sparse_switch_prediction)"
  by (rule conformsI) (simp_all add: case_0471_def upt_rec stmt_ok_def sparse_switch_predicted)

lemma conforms_0472: "conforms case_0472 (sparse_switch_prediction)"
  by (rule conformsI) (simp_all add: case_0472_def upt_rec stmt_ok_def sparse_switch_predicted)

lemma conforms_0473: "conforms case_0473 (sparse_switch_prediction)"
  by (rule conformsI) (simp_all add: case_0473_def upt_rec stmt_ok_def sparse_switch_predicted)

lemma conforms_0474: "conforms case_0474 (sparse_switch_prediction)"
  by (rule conformsI) (simp_all add: case_0474_def upt_rec stmt_ok_def sparse_switch_predicted)

lemma conforms_0475: "conforms case_0475 (protocol_prediction 4)"
  by (rule conformsI) (simp_all add: case_0475_def upt_rec stmt_ok_def protocol_predicted)

lemma conforms_0476: "conforms case_0476 (protocol_prediction 5)"
  by (rule conformsI) (simp_all add: case_0476_def upt_rec stmt_ok_def protocol_predicted)

lemma conforms_0477: "conforms case_0477 (protocol_prediction 6)"
  by (rule conformsI) (simp_all add: case_0477_def upt_rec stmt_ok_def protocol_predicted)

lemma conforms_0478: "conforms case_0478 (protocol_prediction 7)"
  by (rule conformsI) (simp_all add: case_0478_def upt_rec stmt_ok_def protocol_predicted)

lemma conforms_0479: "conforms case_0479 (protocol_prediction 8)"
  by (rule conformsI) (simp_all add: case_0479_def upt_rec stmt_ok_def protocol_predicted)

lemma conforms_0480: "conforms case_0480 (protocol_prediction 9)"
  by (rule conformsI) (simp_all add: case_0480_def upt_rec stmt_ok_def protocol_predicted)

lemma conforms_0481: "conforms case_0481 (protocol_prediction 10)"
  by (rule conformsI) (simp_all add: case_0481_def upt_rec stmt_ok_def protocol_predicted)

lemma conforms_0482: "conforms case_0482 (protocol_prediction 11)"
  by (rule conformsI) (simp_all add: case_0482_def upt_rec stmt_ok_def protocol_predicted)

lemma conforms_0483: "conforms case_0483 (protocol_prediction 12)"
  by (rule conformsI) (simp_all add: case_0483_def upt_rec stmt_ok_def protocol_predicted)

lemma conforms_0484: "conforms case_0484 (protocol_prediction 13)"
  by (rule conformsI) (simp_all add: case_0484_def upt_rec stmt_ok_def protocol_predicted)

lemma conforms_0485: "conforms case_0485 (protocol_prediction 14)"
  by (rule conformsI) (simp_all add: case_0485_def upt_rec stmt_ok_def protocol_predicted)

lemma conforms_0486: "conforms case_0486 (protocol_prediction 15)"
  by (rule conformsI) (simp_all add: case_0486_def upt_rec stmt_ok_def protocol_predicted)

lemma conforms_0487: "conforms case_0487 (protocol_prediction 4)"
  by (rule conformsI) (simp_all add: case_0487_def upt_rec stmt_ok_def protocol_predicted)

lemma conforms_0488: "conforms case_0488 (protocol_prediction 5)"
  by (rule conformsI) (simp_all add: case_0488_def upt_rec stmt_ok_def protocol_predicted)

lemma conforms_0489: "conforms case_0489 (protocol_prediction 6)"
  by (rule conformsI) (simp_all add: case_0489_def upt_rec stmt_ok_def protocol_predicted)

lemma conforms_0490: "conforms case_0490 (protocol_prediction 7)"
  by (rule conformsI) (simp_all add: case_0490_def upt_rec stmt_ok_def protocol_predicted)

lemma conforms_0491: "conforms case_0491 (protocol_prediction 8)"
  by (rule conformsI) (simp_all add: case_0491_def upt_rec stmt_ok_def protocol_predicted)

lemma conforms_0492: "conforms case_0492 (protocol_prediction 9)"
  by (rule conformsI) (simp_all add: case_0492_def upt_rec stmt_ok_def protocol_predicted)

lemma conforms_0493: "conforms case_0493 (protocol_prediction 10)"
  by (rule conformsI) (simp_all add: case_0493_def upt_rec stmt_ok_def protocol_predicted)

lemma conforms_0494: "conforms case_0494 (protocol_prediction 11)"
  by (rule conformsI) (simp_all add: case_0494_def upt_rec stmt_ok_def protocol_predicted)

lemma conforms_0495: "conforms case_0495 (protocol_prediction 12)"
  by (rule conformsI) (simp_all add: case_0495_def upt_rec stmt_ok_def protocol_predicted)

lemma conforms_0496: "conforms case_0496 (protocol_prediction 13)"
  by (rule conformsI) (simp_all add: case_0496_def upt_rec stmt_ok_def protocol_predicted)

lemma conforms_0497: "conforms case_0497 (protocol_prediction 14)"
  by (rule conformsI) (simp_all add: case_0497_def upt_rec stmt_ok_def protocol_predicted)

lemma conforms_0498: "conforms case_0498 (protocol_prediction 15)"
  by (rule conformsI) (simp_all add: case_0498_def upt_rec stmt_ok_def protocol_predicted)

lemma conforms_0499: "conforms case_0499 (protocol_prediction 4)"
  by (rule conformsI) (simp_all add: case_0499_def upt_rec stmt_ok_def protocol_predicted)

definition corpus_4 :: "(nat \<Rightarrow> u32) \<Rightarrow> (case_program \<times> (u32 list \<Rightarrow> u32)) list" where
  "corpus_4 junk =
    [(case_0400 junk, move_prediction 0 5 4),
     (case_0401 junk, move_prediction 1 6 5),
     (case_0402 junk, move_prediction 2 7 6),
     (case_0403 junk, move_prediction 3 8 7),
     (case_0404 junk, move_prediction 4 5 4),
     (case_0405 junk, move_prediction 0 6 5),
     (case_0406 junk, move_prediction 1 7 6),
     (case_0407 junk, move_prediction 2 8 7),
     (case_0408 junk, move_prediction 3 5 4),
     (case_0409 junk, move_prediction 4 6 5),
     (case_0410 junk, move_prediction 0 7 6),
     (case_0411 junk, move_prediction 1 8 7),
     (case_0412 junk, move_prediction 2 5 4),
     (case_0413 junk, move_prediction 3 6 5),
     (case_0414 junk, move_prediction 4 7 6),
     (case_0415 junk, move_prediction 0 8 7),
     (case_0416 junk, move_prediction 1 5 4),
     (case_0417 junk, move_prediction 2 6 5),
     (case_0418 junk, move_prediction 3 7 6),
     (case_0419 junk, move_prediction 4 8 7),
     (case_0420 junk, move_prediction 0 5 4),
     (case_0421 junk, move_prediction 1 6 5),
     (case_0422 junk, move_prediction 2 7 6),
     (case_0423 junk, move_prediction 3 8 7),
     (case_0424 junk, move_prediction 4 5 4),
     (case_0425, dense_switch_prediction),
     (case_0426, dense_switch_prediction),
     (case_0427, dense_switch_prediction),
     (case_0428, dense_switch_prediction),
     (case_0429, dense_switch_prediction),
     (case_0430, dense_switch_prediction),
     (case_0431, dense_switch_prediction),
     (case_0432, dense_switch_prediction),
     (case_0433, dense_switch_prediction),
     (case_0434, dense_switch_prediction),
     (case_0435, dense_switch_prediction),
     (case_0436, dense_switch_prediction),
     (case_0437, dense_switch_prediction),
     (case_0438, dense_switch_prediction),
     (case_0439, dense_switch_prediction),
     (case_0440, dense_switch_prediction),
     (case_0441, dense_switch_prediction),
     (case_0442, dense_switch_prediction),
     (case_0443, dense_switch_prediction),
     (case_0444, dense_switch_prediction),
     (case_0445, dense_switch_prediction),
     (case_0446, dense_switch_prediction),
     (case_0447, dense_switch_prediction),
     (case_0448, dense_switch_prediction),
     (case_0449, dense_switch_prediction),
     (case_0450, sparse_switch_prediction),
     (case_0451, sparse_switch_prediction),
     (case_0452, sparse_switch_prediction),
     (case_0453, sparse_switch_prediction),
     (case_0454, sparse_switch_prediction),
     (case_0455, sparse_switch_prediction),
     (case_0456, sparse_switch_prediction),
     (case_0457, sparse_switch_prediction),
     (case_0458, sparse_switch_prediction),
     (case_0459, sparse_switch_prediction),
     (case_0460, sparse_switch_prediction),
     (case_0461, sparse_switch_prediction),
     (case_0462, sparse_switch_prediction),
     (case_0463, sparse_switch_prediction),
     (case_0464, sparse_switch_prediction),
     (case_0465, sparse_switch_prediction),
     (case_0466, sparse_switch_prediction),
     (case_0467, sparse_switch_prediction),
     (case_0468, sparse_switch_prediction),
     (case_0469, sparse_switch_prediction),
     (case_0470, sparse_switch_prediction),
     (case_0471, sparse_switch_prediction),
     (case_0472, sparse_switch_prediction),
     (case_0473, sparse_switch_prediction),
     (case_0474, sparse_switch_prediction),
     (case_0475, protocol_prediction 4),
     (case_0476, protocol_prediction 5),
     (case_0477, protocol_prediction 6),
     (case_0478, protocol_prediction 7),
     (case_0479, protocol_prediction 8),
     (case_0480, protocol_prediction 9),
     (case_0481, protocol_prediction 10),
     (case_0482, protocol_prediction 11),
     (case_0483, protocol_prediction 12),
     (case_0484, protocol_prediction 13),
     (case_0485, protocol_prediction 14),
     (case_0486, protocol_prediction 15),
     (case_0487, protocol_prediction 4),
     (case_0488, protocol_prediction 5),
     (case_0489, protocol_prediction 6),
     (case_0490, protocol_prediction 7),
     (case_0491, protocol_prediction 8),
     (case_0492, protocol_prediction 9),
     (case_0493, protocol_prediction 10),
     (case_0494, protocol_prediction 11),
     (case_0495, protocol_prediction 12),
     (case_0496, protocol_prediction 13),
     (case_0497, protocol_prediction 14),
     (case_0498, protocol_prediction 15),
     (case_0499, protocol_prediction 4)]"

lemmas corpus_4_programs =
  conforms_0400 conforms_0401 conforms_0402 conforms_0403 conforms_0404 conforms_0405 conforms_0406 conforms_0407
  conforms_0408 conforms_0409 conforms_0410 conforms_0411 conforms_0412 conforms_0413 conforms_0414 conforms_0415
  conforms_0416 conforms_0417 conforms_0418 conforms_0419 conforms_0420 conforms_0421 conforms_0422 conforms_0423
  conforms_0424 conforms_0425 conforms_0426 conforms_0427 conforms_0428 conforms_0429 conforms_0430 conforms_0431
  conforms_0432 conforms_0433 conforms_0434 conforms_0435 conforms_0436 conforms_0437 conforms_0438 conforms_0439
  conforms_0440 conforms_0441 conforms_0442 conforms_0443 conforms_0444 conforms_0445 conforms_0446 conforms_0447
  conforms_0448 conforms_0449 conforms_0450 conforms_0451 conforms_0452 conforms_0453 conforms_0454 conforms_0455
  conforms_0456 conforms_0457 conforms_0458 conforms_0459 conforms_0460 conforms_0461 conforms_0462 conforms_0463
  conforms_0464 conforms_0465 conforms_0466 conforms_0467 conforms_0468 conforms_0469 conforms_0470 conforms_0471
  conforms_0472 conforms_0473 conforms_0474 conforms_0475 conforms_0476 conforms_0477 conforms_0478 conforms_0479
  conforms_0480 conforms_0481 conforms_0482 conforms_0483 conforms_0484 conforms_0485 conforms_0486 conforms_0487
  conforms_0488 conforms_0489 conforms_0490 conforms_0491 conforms_0492 conforms_0493 conforms_0494 conforms_0495
  conforms_0496 conforms_0497 conforms_0498 conforms_0499

lemma corpus_4_conforms: "list_all (\<lambda>(c, prediction). conforms c prediction) (corpus_4 junk)"
  unfolding corpus_4_def list.pred_inject prod.case by (intro conjI corpus_4_programs list.pred_inject(1))

lemma corpus_4_ids: "map (\<lambda>(c, prediction). case_id c) (corpus_4 junk) = [400..<500]"
  by (simp add: corpus_4_def upt_conv_Cons
      case_0400_def case_0401_def case_0402_def case_0403_def case_0404_def case_0405_def case_0406_def
      case_0407_def case_0408_def case_0409_def case_0410_def case_0411_def case_0412_def case_0413_def
      case_0414_def case_0415_def case_0416_def case_0417_def case_0418_def case_0419_def case_0420_def
      case_0421_def case_0422_def case_0423_def case_0424_def case_0425_def case_0426_def case_0427_def
      case_0428_def case_0429_def case_0430_def case_0431_def case_0432_def case_0433_def case_0434_def
      case_0435_def case_0436_def case_0437_def case_0438_def case_0439_def case_0440_def case_0441_def
      case_0442_def case_0443_def case_0444_def case_0445_def case_0446_def case_0447_def case_0448_def
      case_0449_def case_0450_def case_0451_def case_0452_def case_0453_def case_0454_def case_0455_def
      case_0456_def case_0457_def case_0458_def case_0459_def case_0460_def case_0461_def case_0462_def
      case_0463_def case_0464_def case_0465_def case_0466_def case_0467_def case_0468_def case_0469_def
      case_0470_def case_0471_def case_0472_def case_0473_def case_0474_def case_0475_def case_0476_def
      case_0477_def case_0478_def case_0479_def case_0480_def case_0481_def case_0482_def case_0483_def
      case_0484_def case_0485_def case_0486_def case_0487_def case_0488_def case_0489_def case_0490_def
      case_0491_def case_0492_def case_0493_def case_0494_def case_0495_def case_0496_def case_0497_def
      case_0498_def case_0499_def)

end
