(* ===== verification/Corpus_Cases_5.thy ===== *)
theory Corpus_Cases_5
  imports Corpus_Checksums Corpus_Bits Corpus_Control Corpus_Algorithms Corpus_Buffers
begin

text \<open>
  The programs 500 to 599 of the edge-case corpus, one definition per file: inputs, kernel with the parameters of the
  scenario, initial literals and statements, as the C text has them.  Their kernels are the short circuit,
  nested break, eight arguments and struct by value kernels.  Every program conforms to the prediction of its kernel.
\<close>

definition case_0500 :: "case_program" where
  "case_0500 =
     \<lparr>case_id = 500,
      case_input = [0x00000000, 0xdfd37ee1, 0xf0383873, 0x7a2518c1, 0x48a0b083, 0xf02975b6, 0x67f305de, 0xba268c0e,
                    0x279e3b43, 0xaa5fd85d, 0xc4fb492b, 0x408d6953, 0x0f2f182f, 0x653817fc, 0x623130de, 0xa45e1878],
      case_kernel = short_circuit_kernel 0,
      reg_inputs = [5, 9, 13, 1], reg5_init = 0x0459bd54,
      memory_keys = [0x000001f4, 0x000003e8, 0x000007d0, 0x00000fa0, 0x00001f40, 0x00003e80, 0x00007d00, 0x0000fa00],
      case_stmts = [(Add_Carry, 3, 4, 4), (Mask_Merge, 2, 2, 3), (Sub_Borrow, 0, 0, 3), (Rotate_Mix, 0, 4, 0),
                    (Endian_Swap, 3, 3, 0), (Reverse_Loop, 0, 4, 0), (Gray_Decode, 4, 1, 0), (Add_Carry, 3, 3, 3),
                    (Short_Circuit, 4, 4, 3), (Endian_Swap, 2, 5, 3), (Array_Scatter, 4, 2, 0), (Carry_Chain, 0, 3, 4)]\<rparr>"

definition case_0501 :: "case_program" where
  "case_0501 =
     \<lparr>case_id = 501,
      case_input = [0xcd3aafa6, 0x00000001, 0x05a09a75, 0xda2c6de7, 0x5ef53d56, 0xe3ca3eb5, 0x2e089aa7, 0x68d34ac2,
                    0xc0d93092, 0xebb06a92, 0x527dbe0c, 0x98bb9a22, 0xd729dbc6, 0xfcde0dba, 0xbf8b21e7, 0x8d6ee906],
      case_kernel = short_circuit_kernel 1,
      reg_inputs = [6, 10, 14, 2], reg5_init = 0xa291370d,
      memory_keys = [0x000001f5, 0x000003ea, 0x000007d4, 0x00000fa8, 0x00001f50, 0x00003ea0, 0x00007d40, 0x0000fa80],
      case_stmts = [(Sub_Borrow, 0, 5, 5), (Mask_Merge, 5, 4, 2), (Sub_Borrow, 4, 2, 1), (Switch_Phi, 3, 0, 3),
                    (Compare_Select, 5, 3, 4), (Add_Carry, 4, 0, 1), (Array_Scatter, 5, 0, 5), (Endian_Swap, 4, 4, 5),
                    (Switch_Phi, 5, 1, 4), (Short_Circuit, 3, 5, 3), (Mask_Merge, 4, 2, 3), (Multiply_Low, 1, 3, 1)]\<rparr>"

definition case_0502 :: "case_program" where
  "case_0502 =
     \<lparr>case_id = 502,
      case_input = [0x0cbccf65, 0xe7d3d46e, 0x00000002, 0x8e3c0aa7, 0xa93507f7, 0x22574f32, 0xde11ee5d, 0x62704948,
                    0xb5cde51e, 0x243f25c1, 0x547bde84, 0x9d819748, 0x90265f91, 0xbf8cb0aa, 0x8bfa222e, 0xf7239630],
      case_kernel = short_circuit_kernel 2,
      reg_inputs = [7, 11, 15, 3], reg5_init = 0x40c8b0c6,
      memory_keys = [0x000001f6, 0x000003ec, 0x000007d8, 0x00000fb0, 0x00001f60, 0x00003ec0, 0x00007d80, 0x0000fb00],
      case_stmts = [(Rotate_Mix, 1, 5, 1), (Mask_Merge, 2, 2, 1), (Sub_Borrow, 4, 5, 2), (Halfword_Swap, 2, 2, 2),
                    (Carry_Chain, 5, 2, 4), (Compare_Select, 2, 0, 5), (Mask_Merge, 3, 0, 0), (Divide_Rem, 0, 3, 0),
                    (Short_Circuit, 2, 5, 3), (Compare_Select, 3, 4, 5), (Horner_Loop, 0, 4, 0), (Byte_Pack, 3, 0, 3)]\<rparr>"

definition case_0503 :: "case_program" where
  "case_0503 =
     \<lparr>case_id = 503,
      case_input = [0x4c3eef24, 0xfbd28129, 0xe6937b3d, 0x00000003, 0xbf608a22, 0x31b40431, 0x97ea7124, 0xb0858f84,
                    0x528aeecf, 0x65d0970e, 0xc2fd29a3, 0x45b76439, 0x48209c78, 0x266aaaec, 0x56403317, 0xde13674e],
      case_kernel = short_circuit_kernel 3,
      reg_inputs = [8, 12, 0, 4], reg5_init = 0xdf002a7f,
      memory_keys = [0x000001f7, 0x000003ee, 0x000007dc, 0x00000fb8, 0x00001f70, 0x00003ee0, 0x00007dc0, 0x0000fb80],
      case_stmts = [(Multiply_Low, 2, 0, 2), (Mask_Merge, 3, 4, 4), (Sub_Borrow, 2, 1, 4), (Endian_Swap, 3, 0, 3),
                    (Array_Scatter, 5, 2, 0), (Add_Carry, 4, 4, 4), (Gray_Decode, 0, 1, 1), (Array_Scatter, 1, 2, 2),
                    (Gray_Decode, 1, 4, 4), (Byte_Pack, 0, 0, 5), (Switch_Phi, 2, 0, 3), (Reverse_Loop, 0, 4, 2)]\<rparr>"

definition case_0504 :: "case_program" where
  "case_0504 =
     \<lparr>case_id = 504,
      case_input = [0x8ba10ce8, 0x4fd081c3, 0xba907fc1, 0x44737596, 0x0000007f, 0xb62a1d63, 0x2da62e11, 0x97872d71,
                    0x1b1eed25, 0x3608fa0e, 0x28cd099d, 0xd36d5e38, 0x1e3ece97, 0x1ebe0391, 0x609f854d, 0x9e25b3c8],
      case_kernel = short_circuit_kernel 4,
      reg_inputs = [9, 13, 1, 5], reg5_init = 0x7d37a438,
      memory_keys = [0x000001f8, 0x000003f0, 0x000007e0, 0x00000fc0, 0x00001f80, 0x00003f00, 0x00007e00, 0x0000fc00],
      case_stmts = [(Divide_Rem, 4, 0, 3), (Mask_Merge, 2, 3, 0), (Sub_Borrow, 0, 0, 0), (Endian_Swap, 1, 0, 4),
                    (Multiply_Low, 4, 1, 2), (Short_Circuit, 4, 5, 3), (Minmax_Clamp, 5, 1, 5),
                    (Compare_Select, 0, 1, 3), (Endian_Swap, 0, 2, 1), (Carry_Chain, 1, 3, 1), (Rotate_Mix, 3, 3, 3),
                    (Add_Carry, 2, 3, 5)]\<rparr>"

definition case_0505 :: "case_program" where
  "case_0505 =
     \<lparr>case_id = 505,
      case_input = [0xcb232ca9, 0x53d1d484, 0x4f08ddc7, 0xe47a00b0, 0x1f828e6c, 0x00000080, 0x645db168, 0x4572ebbd,
                    0xfc59e6f4, 0x77e748c1, 0xbe4bfeba, 0x0b5bad49, 0xc6380d7e, 0x875819d7, 0xbd259474, 0xb71542b6],
      case_kernel = short_circuit_kernel 5,
      reg_inputs = [10, 14, 2, 6], reg5_init = 0x1b6f1df1,
      memory_keys = [0x000001f9, 0x000003f2, 0x000007e4, 0x00000fc8, 0x00001f90, 0x00003f20, 0x00007e40, 0x0000fc80],
      case_stmts = [(Mask_Merge, 5, 5, 0), (Mask_Merge, 5, 1, 1), (Sub_Borrow, 4, 4, 4), (Divide_Rem, 4, 4, 5),
                    (Divide_Rem, 2, 5, 0), (Reverse_Loop, 4, 3, 0), (Carry_Chain, 2, 0, 2), (Gray_Decode, 3, 4, 1),
                    (Carry_Chain, 3, 5, 2), (Horner_Loop, 0, 5, 5), (Carry_Chain, 1, 5, 4), (Sub_Borrow, 3, 3, 0)]\<rparr>"

definition case_0506 :: "case_program" where
  "case_0506 =
     \<lparr>case_id = 506,
      case_input = [0x0aa54c6a, 0x77d02b4c, 0x59a39e89, 0xb06a67f0, 0xe842b4cd, 0x645427e7, 0x000000ff, 0x4fd1e837,
                    0x894d3378, 0xb8680792, 0xb84d9e32, 0x0e61a023, 0x81378929, 0xc40aa4c7, 0x895497bd, 0xcd583d80],
      case_kernel = short_circuit_kernel 6,
      reg_inputs = [11, 15, 3, 7], reg5_init = 0xb9a697aa,
      memory_keys = [0x000001fa, 0x000003f4, 0x000007e8, 0x00000fd0, 0x00001fa0, 0x00003f40, 0x00007e80, 0x0000fd00],
      case_stmts = [(Compare_Select, 0, 5, 2), (Mask_Merge, 4, 3, 4), (Sub_Borrow, 0, 5, 1), (Byte_Pack, 1, 2, 2),
                    (Divide_Rem, 2, 4, 0), (Add_Carry, 2, 3, 2), (Carry_Chain, 4, 4, 5), (Compare_Select, 3, 3, 0),
                    (Sub_Borrow, 4, 5, 5), (Array_Scatter, 4, 0, 1), (Divide_Rem, 1, 3, 3), (Popcount_Loop, 1, 2, 0)]\<rparr>"

definition case_0507 :: "case_program" where
  "case_0507 =
     \<lparr>case_id = 507,
      case_input = [0x4a276c2b, 0x6bd17e0b, 0xac3b3c8f, 0x106312d6, 0xfe173918, 0x77b76ce4, 0xddbf5aeb, 0x00000100,
                    0x6e0a38a9, 0xf987b55d, 0x2ecb6915, 0xd6575352, 0x59314ac0, 0x5decbe81, 0x54ee8684, 0xe468ccfe],
      case_kernel = short_circuit_kernel 7,
      reg_inputs = [12, 0, 4, 8], reg5_init = 0x57de1163,
      memory_keys = [0x000001fb, 0x000003f6, 0x000007ec, 0x00000fd8, 0x00001fb0, 0x00003f60, 0x00007ec0, 0x0000fd80],
      case_stmts = [(Byte_Pack, 1, 0, 1), (Mask_Merge, 3, 5, 1), (Sub_Borrow, 4, 3, 1), (Reverse_Loop, 4, 4, 1),
                    (Switch_Phi, 2, 4, 0), (Reverse_Loop, 4, 5, 5), (Short_Circuit, 5, 3, 0), (Multiply_Low, 4, 4, 4),
                    (Carry_Chain, 3, 2, 2), (Halfword_Swap, 3, 4, 5), (Halfword_Swap, 1, 1, 2),
                    (Short_Circuit, 0, 4, 5)]\<rparr>"

definition case_0508 :: "case_program" where
  "case_0508 =
     \<lparr>case_id = 508,
      case_input = [0x89a98ded, 0x3fd1d4dd, 0x7cf7bd50, 0xae41515b, 0xc8fa6d50, 0x8bd6c52f, 0x6368ac68, 0xef1d1a4d,
                    0x7fffffff, 0xa991237d, 0xa4a9e802, 0xd7f47808, 0x4f697968, 0xf74ebeee, 0xe9d76908, 0xf7b6baf4],
      case_kernel = short_circuit_kernel 8,
      reg_inputs = [13, 1, 5, 9], reg5_init = 0xf6158b1c,
      memory_keys = [0x000001fc, 0x000003f8, 0x000007f0, 0x00000fe0, 0x00001fc0, 0x00003f80, 0x00007f00, 0x0000fe00],
      case_stmts = [(Halfword_Swap, 3, 1, 1), (Mask_Merge, 5, 4, 5), (Sub_Borrow, 2, 5, 1), (Short_Circuit, 2, 0, 2),
                    (Popcount_Loop, 3, 0, 3), (Endian_Swap, 3, 5, 1), (Endian_Swap, 4, 5, 1), (Gray_Decode, 3, 3, 2),
                    (Array_Scatter, 0, 1, 1), (Switch_Phi, 5, 1, 3), (Counted_Loop, 4, 3, 0), (Minmax_Clamp, 2, 1, 4)]\<rparr>"

definition case_0509 :: "case_program" where
  "case_0509 =
     \<lparr>case_id = 509,
      case_input = [0xc92badac, 0x23d0819a, 0x896f1f56, 0x0e48247d, 0xdeafe085, 0x98358e2c, 0x2a933311, 0x3de8dc81,
                    0x34300b6c, 0x80000000, 0x322f1f25, 0x0fc28b79, 0x976fba81, 0x6ea8a4a8, 0x346d7831, 0xde864b8a],
      case_kernel = short_circuit_kernel 9,
      reg_inputs = [14, 2, 6, 10], reg5_init = 0x944d04d5,
      memory_keys = [0x000001fd, 0x000003fa, 0x000007f4, 0x00000fe8, 0x00001fd0, 0x00003fa0, 0x00007f40, 0x0000fe80],
      case_stmts = [(Array_Scatter, 2, 4, 2), (Mask_Merge, 4, 2, 4), (Sub_Borrow, 4, 5, 3), (Sub_Borrow, 3, 2, 1),
                    (Counted_Loop, 3, 4, 5), (Horner_Loop, 3, 3, 0), (Multiply_Low, 5, 2, 0), (Carry_Chain, 2, 0, 0),
                    (Rotate_Mix, 3, 4, 4), (Counted_Loop, 4, 3, 1), (Carry_Chain, 0, 5, 1), (Array_Scatter, 1, 5, 1)]\<rparr>"

definition case_0510 :: "case_program" where
  "case_0510 =
     \<lparr>case_id = 510,
      case_input = [0x08adcd6f, 0x07d17e52, 0x9fc45c18, 0x5a58433d, 0x296fda24, 0x59a8ffab, 0xda8a47eb, 0x374bdf0b,
                    0x4124dee0, 0x27f1dee1, 0xfffffffe, 0x0af88613, 0xd0603ed6, 0x2dfa19b8, 0x001c7bf8, 0xa4cb34bc],
      case_kernel = short_circuit_kernel 10,
      reg_inputs = [15, 3, 7, 11], reg5_init = 0x32847e8e,
      memory_keys = [0x000001fe, 0x000003fc, 0x000007f8, 0x00000ff0, 0x00001fe0, 0x00003fc0, 0x00007f80, 0x0000ff00],
      case_stmts = [(Counted_Loop, 1, 4, 4), (Mask_Merge, 5, 4, 3), (Sub_Borrow, 4, 2, 4), (Rotate_Mix, 0, 4, 2),
                    (Rotate_Mix, 1, 5, 3), (Popcount_Loop, 5, 5, 4), (Horner_Loop, 3, 2, 3), (Switch_Phi, 2, 1, 3),
                    (Sub_Borrow, 2, 4, 5), (Minmax_Clamp, 0, 4, 1), (Add_Carry, 2, 3, 2), (Endian_Swap, 5, 0, 5)]\<rparr>"

definition case_0511 :: "case_program" where
  "case_0511 =
     \<lparr>case_id = 511,
      case_input = [0x482fed2e, 0x1bd02b15, 0x6a5cfe1e, 0xfa51361b, 0x3f3a57f1, 0x4a4bb4a8, 0x9371d892, 0xe5be19c7,
                    0xa663d531, 0x661e6c2e, 0xa2af888a, 0xffffffff, 0x0866fd3f, 0xb41c03fe, 0xdda66ac1, 0x8dfbc5c2],
      case_kernel = short_circuit_kernel 11,
      reg_inputs = [0, 4, 8, 12], reg5_init = 0xd0bbf847,
      memory_keys = [0x000001ff, 0x000003fe, 0x000007fc, 0x00000ff8, 0x00001ff0, 0x00003fe0, 0x00007fc0, 0x0000ff80],
      case_stmts = [(Switch_Phi, 4, 1, 5), (Mask_Merge, 4, 2, 4), (Sub_Borrow, 4, 0, 0), (Switch_Phi, 1, 2, 5),
                    (Mask_Merge, 3, 3, 1), (Horner_Loop, 3, 1, 5), (Mask_Merge, 4, 3, 4), (Reverse_Loop, 1, 2, 1),
                    (Reverse_Loop, 3, 3, 2), (Mask_Merge, 1, 4, 1), (Halfword_Swap, 2, 5, 3), (Divide_Rem, 2, 0, 0)]\<rparr>"

definition case_0512 :: "case_program" where
  "case_0512 =
     \<lparr>case_id = 512,
      case_input = [0x7020f1e8, 0xd710971b, 0x50569b68, 0x0ef93514, 0x00000000, 0x69074ff4, 0xf1c230a6, 0xfbe71795,
                    0xacd94b2b, 0xb7ecfab5, 0x83a284ec, 0x8117b148, 0x00000000, 0x2590338a, 0xafb56dcd, 0x40f396e5],
      case_kernel = short_circuit_kernel 12,
      reg_inputs = [1, 5, 9, 13], reg5_init = 0x6ef37200,
      memory_keys = [0x00000200, 0x00000400, 0x00000800, 0x00001000, 0x00002000, 0x00004000, 0x00008000, 0x00010000],
      case_stmts = [(Short_Circuit, 1, 3, 3), (Mask_Merge, 1, 4, 2), (Sub_Borrow, 3, 1, 4), (Sub_Borrow, 1, 1, 5),
                    (Byte_Pack, 4, 5, 4), (Endian_Swap, 3, 3, 0), (Counted_Loop, 2, 0, 4), (Array_Scatter, 0, 2, 1),
                    (Carry_Chain, 4, 3, 5), (Sub_Borrow, 1, 2, 3), (Carry_Chain, 5, 1, 3), (Compare_Select, 0, 4, 2)]\<rparr>"

definition case_0513 :: "case_program" where
  "case_0513 =
     \<lparr>case_id = 513,
      case_input = [0x30a2d1a9, 0xcb11c25c, 0xa5ce396e, 0xaef04032, 0xd88a610b, 0x7ae404f7, 0xb839afdf, 0x2912d159,
                    0x4b9e40fa, 0xf603487a, 0x152473cb, 0x00000080, 0xe0ea9f59, 0x00000001, 0x720f7cf4, 0x69c3679b],
      case_kernel = short_circuit_kernel 13,
      reg_inputs = [2, 6, 10, 14], reg5_init = 0x0d2aebb9,
      memory_keys = [0x00000201, 0x00000402, 0x00000804, 0x00001008, 0x00002010, 0x00004020, 0x00008040, 0x00010080],
      case_stmts = [(Popcount_Loop, 4, 0, 2), (Mask_Merge, 0, 0, 3), (Sub_Borrow, 1, 5, 2), (Add_Carry, 4, 5, 2),
                    (Halfword_Swap, 0, 5, 2), (Byte_Pack, 3, 5, 3), (Add_Carry, 3, 3, 3), (Add_Carry, 1, 5, 5),
                    (Popcount_Loop, 3, 2, 2), (Minmax_Clamp, 2, 2, 3), (Compare_Select, 3, 3, 2), (Byte_Pack, 1, 4, 3)]\<rparr>"

definition case_0514 :: "case_program" where
  "case_0514 =
     \<lparr>case_id = 514,
      case_input = [0xf124b16a, 0xef103d94, 0xfffffffe, 0xfae02772, 0x2f4a5baa, 0xbb797570, 0x4820db25, 0x23b1d2d3,
                    0x3e8a9576, 0x398c0729, 0x13221343, 0x5c1b4f53, 0xa7e51b0e, 0xff2494dc, 0x00000002, 0x138e18ad],
      case_kernel = short_circuit_kernel 14,
      reg_inputs = [3, 7, 11, 15], reg5_init = 0xab626572,
      memory_keys = [0x00000202, 0x00000404, 0x00000808, 0x00001010, 0x00002020, 0x00004040, 0x00008080, 0x00010100],
      case_stmts = [(Reverse_Loop, 5, 4, 0), (Mask_Merge, 3, 2, 4), (Sub_Borrow, 5, 0, 5), (Multiply_Low, 1, 5, 5),
                    (Divide_Rem, 2, 2, 0), (Popcount_Loop, 3, 3, 3), (Add_Carry, 3, 1, 0), (Mask_Merge, 5, 2, 0),
                    (Carry_Chain, 0, 2, 3), (Rotate_Mix, 2, 5, 3), (Short_Circuit, 1, 3, 5), (Multiply_Low, 3, 3, 3)]\<rparr>"

definition case_0515 :: "case_program" where
  "case_0515 =
     \<lparr>case_id = 515,
      case_input = [0xb1a6912b, 0xf31168d3, 0x46fdd826, 0x5ae95254, 0x391fd67f, 0xa89a3e73, 0x01db445c, 0xf144141f,
                    0xd9cd9ea7, 0x00000003, 0x85a4e464, 0x842dbc22, 0x7fe3d8e7, 0x66c28e9a, 0x9bc46e04, 0x00000003],
      case_kernel = short_circuit_kernel 15,
      reg_inputs = [4, 8, 12, 0], reg5_init = 0x4999df2b,
      memory_keys = [0x00000203, 0x00000406, 0x0000080c, 0x00001018, 0x00002030, 0x00004060, 0x000080c0, 0x00010180],
      case_stmts = [(Gray_Decode, 4, 5, 5), (Mask_Merge, 2, 4, 1), (Sub_Borrow, 3, 2, 5), (Rotate_Mix, 0, 3, 0),
                    (Byte_Pack, 2, 0, 0), (Switch_Phi, 1, 1, 4), (Rotate_Mix, 4, 0, 5), (Minmax_Clamp, 4, 3, 2),
                    (Popcount_Loop, 3, 3, 4), (Horner_Loop, 5, 1, 3), (Minmax_Clamp, 5, 3, 0), (Rotate_Mix, 4, 5, 2)]\<rparr>"

definition case_0516 :: "case_program" where
  "case_0516 =
     \<lparr>case_id = 516,
      case_input = [0x7fffffff, 0xa711c205, 0x963159f9, 0xe4cb11d9, 0x0ff28237, 0x54fb97b8, 0xbf0cb2df, 0x837d20a9,
                    0x64b0a6b3, 0x287523c6, 0x0fc66573, 0x858e9778, 0x69bbeb4f, 0xcc608ef5, 0x26fd8188, 0x29609fd9],
      case_kernel = short_circuit_kernel 16,
      reg_inputs = [5, 9, 13, 1], reg5_init = 0xe7d158e4,
      memory_keys = [0x00000204, 0x00000408, 0x00000810, 0x00001020, 0x00002040, 0x00004080, 0x00008100, 0x00010200],
      case_stmts = [(Minmax_Clamp, 0, 0, 1), (Mask_Merge, 0, 1, 1), (Sub_Borrow, 1, 2, 5), (Add_Carry, 2, 3, 5),
                    (Endian_Swap, 3, 0, 3), (Short_Circuit, 0, 3, 2), (Switch_Phi, 1, 2, 4), (Add_Carry, 1, 0, 0),
                    (Rotate_Mix, 0, 2, 1), (Halfword_Swap, 3, 4, 5), (Counted_Loop, 4, 3, 0), (Reverse_Loop, 2, 4, 5)]\<rparr>"

definition case_0517 :: "case_program" where
  "case_0517 =
     \<lparr>case_id = 517,
      case_input = [0x32aa50ac, 0x00000080, 0x63a9fbff, 0x44c264ff, 0x19a70fe2, 0x4718dcbb, 0xf6f72da6, 0x00000001,
                    0x83f7ad62, 0x699a9109, 0x99409254, 0x5db86409, 0xb1bd28a6, 0x558694b3, 0xfb4790b1, 0x00506ea7],
      case_kernel = short_circuit_kernel 17,
      reg_inputs = [6, 10, 14, 2], reg5_init = 0x8608d29d,
      memory_keys = [0x00000205, 0x0000040a, 0x00000814, 0x00001028, 0x00002050, 0x000040a0, 0x00008140, 0x00010280],
      case_stmts = [(Endian_Swap, 3, 3, 2), (Mask_Merge, 3, 5, 0), (Sub_Borrow, 1, 4, 1), (Sub_Borrow, 5, 5, 4),
                    (Carry_Chain, 1, 0, 3), (Reverse_Loop, 2, 5, 3), (Mask_Merge, 2, 1, 3), (Endian_Swap, 0, 5, 4),
                    (Endian_Swap, 1, 5, 2), (Popcount_Loop, 0, 4, 1), (Carry_Chain, 2, 1, 5), (Horner_Loop, 5, 2, 0)]\<rparr>"

definition case_0518 :: "case_program" where
  "case_0518 =
     \<lparr>case_id = 518,
      case_input = [0xf32c306f, 0x9f11688a, 0x000000ff, 0x10d203bf, 0xee673543, 0x8685ad3c, 0x06ee595c, 0x5b2be5ef,
                    0xf6e378ee, 0xa615de5a, 0x9f46f2dc, 0x58826963, 0xf6b2acf1, 0x16d429a3, 0x000000ff, 0x7a1d1191],
      case_kernel = short_circuit_kernel 18,
      reg_inputs = [7, 11, 15, 3], reg5_init = 0x24404c56,
      memory_keys = [0x00000206, 0x0000040c, 0x00000818, 0x00001030, 0x00002060, 0x000040c0, 0x00008180, 0x00010300],
      case_stmts = [(Carry_Chain, 0, 5, 2), (Mask_Merge, 2, 5, 3), (Sub_Borrow, 3, 1, 4), (Rotate_Mix, 0, 3, 3),
                    (Carry_Chain, 1, 5, 1), (Divide_Rem, 4, 3, 5), (Mask_Merge, 0, 3, 0), (Halfword_Swap, 0, 4, 1),
                    (Rotate_Mix, 4, 3, 3), (Byte_Pack, 0, 5, 1), (Add_Carry, 2, 3, 0), (Multiply_Low, 5, 1, 4)]\<rparr>"

definition case_0519 :: "case_program" where
  "case_0519 =
     \<lparr>case_id = 519,
      case_input = [0xb3ae102e, 0x83103dcd, 0x809a1ab7, 0x00000100, 0xf832b896, 0xffffffff, 0x4f15c625, 0x89de2323,
                    0x11a4733f, 0xe7fa6c95, 0x09c005fb, 0x80b49a12, 0x2eb46f18, 0x8f3233e5, 0x128c8241, 0x532de0ef],
      case_kernel = short_circuit_kernel 19,
      reg_inputs = [8, 12, 0, 4], reg5_init = 0xc277c60f,
      memory_keys = [0x00000207, 0x0000040e, 0x0000081c, 0x00001038, 0x00002070, 0x000040e0, 0x000081c0, 0x00010380],
      case_stmts = [(Horner_Loop, 3, 4, 5), (Mask_Merge, 1, 1, 4), (Sub_Borrow, 1, 5, 2), (Multiply_Low, 3, 3, 0),
                    (Popcount_Loop, 3, 3, 1), (Rotate_Mix, 4, 5, 2), (Horner_Loop, 5, 0, 5), (Endian_Swap, 1, 1, 3),
                    (Mask_Merge, 5, 4, 4), (Carry_Chain, 1, 5, 5), (Minmax_Clamp, 0, 1, 3), (Carry_Chain, 4, 3, 1)]\<rparr>"

definition case_0520 :: "case_program" where
  "case_0520 =
     \<lparr>case_id = 520,
      case_input = [0x7431f3e2, 0x37123d27, 0xdc991e4b, 0xda9d7c8e, 0x7fffffff, 0x12f8ff6d, 0xf5599910, 0xaedc81d6,
                    0x583070d5, 0xb4220195, 0xe3f025c5, 0x166ea013, 0x0000007f, 0xb7e69a98, 0x2453341b, 0x131b3469],
      case_kernel = short_circuit_kernel 20,
      reg_inputs = [9, 13, 1, 5], reg5_init = 0x60af3fc8,
      memory_keys = [0x00000208, 0x00000410, 0x00000820, 0x00001040, 0x00002080, 0x00004100, 0x00008200, 0x00010400],
      case_stmts = [(Add_Carry, 5, 4, 2), (Compare_Select, 4, 2, 0), (Sub_Borrow, 5, 0, 0), (Horner_Loop, 5, 3, 1),
                    (Switch_Phi, 4, 2, 5), (Rotate_Mix, 2, 4, 5), (Halfword_Swap, 0, 2, 5), (Carry_Chain, 0, 0, 0),
                    (Multiply_Low, 4, 0, 1), (Horner_Loop, 2, 2, 1), (Endian_Swap, 3, 4, 5), (Short_Circuit, 2, 0, 0)]\<rparr>"

definition case_0521 :: "case_program" where
  "case_0521 =
     \<lparr>case_id = 521,
      case_input = [0x34b3d3a3, 0x2b136860, 0x2901bc4d, 0x80000000, 0x58d0bcd8, 0x80000000, 0xbca20669, 0x7c29471a,
                    0xbf777b04, 0xf5cdb35a, 0x7576d2e2, 0xce585362, 0xa0acfe1e, 0x2e0080de, 0xf9e92522, 0x3a2bc517],
      case_kernel = short_circuit_kernel 21,
      reg_inputs = [10, 14, 2, 6], reg5_init = 0xfee6b981,
      memory_keys = [0x00000209, 0x00000412, 0x00000824, 0x00001048, 0x00002090, 0x00004120, 0x00008240, 0x00010480],
      case_stmts = [(Sub_Borrow, 4, 1, 1), (Compare_Select, 3, 4, 1), (Sub_Borrow, 3, 2, 0), (Carry_Chain, 4, 1, 4),
                    (Add_Carry, 0, 4, 3), (Halfword_Swap, 4, 4, 4), (Compare_Select, 3, 5, 4), (Multiply_Low, 1, 3, 2),
                    (Minmax_Clamp, 5, 5, 0), (Carry_Chain, 1, 0, 5), (Endian_Swap, 3, 2, 0), (Endian_Swap, 3, 4, 3)]\<rparr>"

definition case_0522 :: "case_program" where
  "case_0522 =
     \<lparr>case_id = 522,
      case_input = [0xf535b360, 0x0f1297a8, 0x3faaff03, 0x2e846ee8, 0xaf108679, 0xc086c5e9, 0xfffffffe, 0x768a4490,
                    0xca63ae88, 0x3a42fc09, 0x00000002, 0xcb625e08, 0xe7a37a49, 0x6d523dce, 0xcd9826eb, 0x4066ba21],
      case_kernel = short_circuit_kernel 22,
      reg_inputs = [11, 15, 3, 7], reg5_init = 0x9d1e333a,
      memory_keys = [0x0000020a, 0x00000414, 0x00000828, 0x00001050, 0x000020a0, 0x00004140, 0x00008280, 0x00010500],
      case_stmts = [(Rotate_Mix, 1, 5, 5), (Compare_Select, 2, 2, 4), (Sub_Borrow, 5, 3, 3), (Endian_Swap, 1, 1, 3),
                    (Minmax_Clamp, 0, 5, 3), (Counted_Loop, 0, 4, 0), (Rotate_Mix, 1, 5, 1), (Counted_Loop, 5, 0, 1),
                    (Byte_Pack, 0, 3, 5), (Halfword_Swap, 5, 1, 3), (Gray_Decode, 3, 2, 5), (Sub_Borrow, 3, 3, 3)]\<rparr>"

definition case_0523 :: "case_program" where
  "case_0523 =
     \<lparr>case_id = 523,
      case_input = [0xb5b79321, 0x00000100, 0xca325d05, 0x8e8d1bce, 0xb9450bac, 0xd3658eea, 0x0540edea, 0xffffffff,
                    0x2d24a559, 0x7bad4ec6, 0xe5f6454d, 0x1354ad79, 0x3fa5b9a0, 0xf4b42788, 0x102237d2, 0x69564b5f],
      case_kernel = short_circuit_kernel 23,
      reg_inputs = [12, 0, 4, 8], reg5_init = 0x3b55acf3,
      memory_keys = [0x0000020b, 0x00000416, 0x0000082c, 0x00001058, 0x000020b0, 0x00004160, 0x000082c0, 0x00010580],
      case_stmts = [(Multiply_Low, 0, 4, 2), (Compare_Select, 1, 2, 1), (Sub_Borrow, 1, 5, 3), (Minmax_Clamp, 4, 1, 4),
                    (Switch_Phi, 2, 1, 3), (Halfword_Swap, 0, 4, 1), (Minmax_Clamp, 0, 0, 0), (Byte_Pack, 4, 3, 5),
                    (Minmax_Clamp, 5, 4, 0), (Mask_Merge, 4, 1, 5), (Multiply_Low, 3, 0, 4), (Divide_Rem, 0, 3, 0)]\<rparr>"

definition case_0524 :: "case_program" where
  "case_0524 =
     \<lparr>case_id = 524,
      case_input = [0x763972e7, 0x47136839, 0x1afedcda, 0x30af5843, 0x8fa85fe4, 0x2f042721, 0xbb971b69, 0xd646b6ea,
                    0x00000000, 0x2bbbd8e6, 0x6f94c45a, 0x12f78623, 0x29fd8a08, 0x5e1627e7, 0xad1bd85e, 0x7a883d55],
      case_kernel = short_circuit_kernel 24,
      reg_inputs = [13, 1, 5, 9], reg5_init = 0xd98d26ac,
      memory_keys = [0x0000020c, 0x00000418, 0x00000830, 0x00001060, 0x000020c0, 0x00004180, 0x00008300, 0x00010600],
      case_stmts = [(Divide_Rem, 2, 1, 0), (Compare_Select, 1, 3, 5), (Sub_Borrow, 1, 3, 1), (Carry_Chain, 4, 1, 1),
                    (Array_Scatter, 5, 1, 2), (Switch_Phi, 5, 2, 5), (Array_Scatter, 3, 2, 5), (Horner_Loop, 5, 2, 1),
                    (Gray_Decode, 2, 1, 1), (Counted_Loop, 2, 4, 1), (Sub_Borrow, 0, 4, 2), (Divide_Rem, 4, 4, 3)]\<rparr>"

definition case_0525 :: "case_program" where
  "case_0525 =
     \<lparr>case_id = 525,
      case_input = [0x00000000, 0x5b123d7e, 0xef667edc, 0x90a62d65, 0x99fdd231, 0x3ce76c22, 0xf26c8410, 0x04b37026,
                    0x771e969c, 0x6a546a29, 0xf912337d, 0xcac17552, 0xf1fb49e1, 0xc7f03da1, 0x70a1c967, 0x53b8cc2b],
      case_kernel = nested_break_kernel 3 0,
      reg_inputs = [14, 2, 6, 10], reg5_init = 0x77c4a065,
      memory_keys = [0x0000020d, 0x0000041a, 0x00000834, 0x00001068, 0x000020d0, 0x000041a0, 0x00008340, 0x00010680],
      case_stmts = [(Mask_Merge, 3, 4, 3), (Compare_Select, 2, 3, 2), (Sub_Borrow, 5, 3, 3), (Horner_Loop, 5, 1, 0),
                    (Rotate_Mix, 1, 5, 0), (Array_Scatter, 1, 4, 4), (Multiply_Low, 0, 3, 0), (Compare_Select, 2, 5, 3),
                    (Short_Circuit, 1, 4, 4), (Gray_Decode, 1, 2, 1), (Sub_Borrow, 0, 0, 1), (Mask_Merge, 3, 2, 0)]\<rparr>"

definition case_0526 :: "case_program" where
  "case_0526 =
     \<lparr>case_id = 526,
      case_input = [0xf73d3265, 0x00000001, 0xf9cd3d92, 0xc4b64a25, 0x6e3de890, 0xfd7a1da5, 0x0275f0ea, 0x0e1073ac,
                    0x020a4310, 0xa5db257a, 0xff1453f5, 0xcffb7838, 0xb6f4cdb6, 0x84a280b1, 0x44d0caae, 0x29f5b31d],
      case_kernel = nested_break_kernel 4 1,
      reg_inputs = [15, 3, 7, 11], reg5_init = 0x15fc1a1e,
      memory_keys = [0x0000020e, 0x0000041c, 0x00000838, 0x00001070, 0x000020e0, 0x000041c0, 0x00008380, 0x00010700],
      case_stmts = [(Compare_Select, 4, 4, 5), (Compare_Select, 5, 3, 1), (Sub_Borrow, 3, 4, 2),
                    (Minmax_Clamp, 2, 3, 3), (Rotate_Mix, 5, 2, 2), (Gray_Decode, 5, 4, 4), (Gray_Decode, 4, 3, 5),
                    (Gray_Decode, 0, 2, 4), (Switch_Phi, 0, 4, 3), (Mask_Merge, 3, 1, 5), (Switch_Phi, 4, 2, 4),
                    (Array_Scatter, 3, 3, 0)]\<rparr>"

definition case_0527 :: "case_program" where
  "case_0527 =
     \<lparr>case_id = 527,
      case_input = [0xb7bf1224, 0x631297f1, 0x00000002, 0x64bf3f03, 0x78686545, 0xee9956a6, 0x4b8e6f93, 0xdce5b560,
                    0xe54d48c1, 0xe43497b5, 0x6992a4d2, 0x17cd8b49, 0x6ef20e5f, 0x1d449af7, 0x996adb97, 0x00c54263],
      case_kernel = nested_break_kernel 5 2,
      reg_inputs = [0, 4, 8, 12], reg5_init = 0xb43393d7,
      memory_keys = [0x0000020f, 0x0000041e, 0x0000083c, 0x00001078, 0x000020f0, 0x000041e0, 0x000083c0, 0x00010780],
      case_stmts = [(Byte_Pack, 1, 3, 0), (Compare_Select, 0, 3, 4), (Sub_Borrow, 3, 0, 4), (Endian_Swap, 3, 3, 0),
                    (Mask_Merge, 3, 4, 0), (Mask_Merge, 3, 2, 1), (Array_Scatter, 3, 0, 0), (Compare_Select, 1, 5, 2),
                    (Add_Carry, 1, 3, 4), (Minmax_Clamp, 0, 3, 5), (Gray_Decode, 4, 4, 3), (Minmax_Clamp, 2, 1, 3)]\<rparr>"

definition case_0528 :: "case_program" where
  "case_0528 =
     \<lparr>case_id = 528,
      case_input = [0x7802f5fc, 0x1715c363, 0x4bc9912e, 0x00000003, 0x556afa3d, 0xa3f77bb9, 0xa3c6d67a, 0xad5e6a20,
                    0xfc515a8d, 0xce518224, 0x2904b2a1, 0x10200738, 0x10c5fcd5, 0x749873d8, 0xe38f234f, 0xc2da7689],
      case_kernel = nested_break_kernel 6 3,
      reg_inputs = [1, 5, 9, 13], reg5_init = 0x526b0d90,
      memory_keys = [0x00000210, 0x00000420, 0x00000840, 0x00001080, 0x00002100, 0x00004200, 0x00008400, 0x00010800],
      case_stmts = [(Halfword_Swap, 4, 0, 5), (Compare_Select, 0, 0, 4), (Sub_Borrow, 1, 5, 5), (Sub_Borrow, 2, 2, 5),
                    (Multiply_Low, 2, 2, 4), (Horner_Loop, 0, 3, 2), (Gray_Decode, 2, 4, 0), (Rotate_Mix, 3, 4, 1),
                    (Byte_Pack, 4, 2, 5), (Sub_Borrow, 2, 1, 0), (Multiply_Low, 0, 3, 2), (Minmax_Clamp, 0, 5, 1)]\<rparr>"

definition case_0529 :: "case_program" where
  "case_0529 =
     \<lparr>case_id = 529,
      case_input = [0x3880d5bd, 0x0b149624, 0xbe513328, 0x043ed307, 0x0000007f, 0xb01430ba, 0xea3d4903, 0x7fabacec,
                    0x1b16515c, 0x8fbe30eb, 0xbf824586, 0xc816f449, 0xc8c33f3c, 0xed7e699e, 0x3e353276, 0xebea87f7],
      case_kernel = nested_break_kernel 7 4,
      reg_inputs = [2, 6, 10, 14], reg5_init = 0xf0a28749,
      memory_keys = [0x00000211, 0x00000422, 0x00000844, 0x00001088, 0x00002110, 0x00004220, 0x00008440, 0x00010880],
      case_stmts = [(Array_Scatter, 1, 1, 2), (Compare_Select, 3, 2, 5), (Sub_Borrow, 5, 3, 1), (Divide_Rem, 3, 0, 0),
                    (Add_Carry, 4, 2, 0), (Array_Scatter, 0, 5, 3), (Popcount_Loop, 3, 5, 1), (Horner_Loop, 2, 3, 5),
                    (Short_Circuit, 1, 1, 4), (Add_Carry, 5, 1, 2), (Switch_Phi, 4, 3, 3), (Endian_Swap, 5, 1, 2)]\<rparr>"

definition case_0530 :: "case_program" where
  "case_0530 =
     \<lparr>case_id = 530,
      case_input = [0xf906b57e, 0x2f1569ec, 0xa8fa7066, 0x502eb447, 0xb4ff4d49, 0x00000080, 0x1a243df9, 0x7508af66,
                    0x6e0284d0, 0x40317fb8, 0xb984250e, 0xcd2cf923, 0x8fccbb6b, 0xae2cd48e, 0x0a4431bf, 0x91a7f8c1],
      case_kernel = nested_break_kernel 8 5,
      reg_inputs = [3, 7, 11, 15], reg5_init = 0x8eda0102,
      memory_keys = [0x00000212, 0x00000424, 0x00000848, 0x00001090, 0x00002120, 0x00004240, 0x00008480, 0x00010900],
      case_stmts = [(Counted_Loop, 2, 5, 2), (Compare_Select, 0, 2, 2), (Sub_Borrow, 3, 0, 2), (Multiply_Low, 4, 2, 5),
                    (Minmax_Clamp, 2, 3, 0), (Gray_Decode, 2, 5, 3), (Sub_Borrow, 1, 3, 4), (Reverse_Loop, 2, 4, 2),
                    (Byte_Pack, 4, 5, 1), (Counted_Loop, 5, 2, 4), (Sub_Borrow, 0, 1, 4), (Sub_Borrow, 3, 4, 4)]\<rparr>"

definition case_0531 :: "case_program" where
  "case_0531 =
     \<lparr>case_id = 531,
      case_input = [0xb984953f, 0x33143cab, 0x5d62d260, 0xf027c161, 0xa2aac09c, 0x626a0a3e, 0x000000ff, 0xa7fd69aa,
                    0x89458f01, 0x01decd77, 0x2f02d229, 0x151a0a52, 0x57ca7882, 0x37cacec8, 0xd7fe2086, 0xb89709bf],
      case_kernel = nested_break_kernel 3 6,
      reg_inputs = [4, 8, 12, 0], reg5_init = 0x2d117abb,
      memory_keys = [0x00000213, 0x00000426, 0x0000084c, 0x00001098, 0x00002130, 0x00004260, 0x000084c0, 0x00010980],
      case_stmts = [(Switch_Phi, 1, 0, 5), (Compare_Select, 5, 2, 3), (Sub_Borrow, 5, 4, 4), (Compare_Select, 5, 4, 0),
                    (Gray_Decode, 2, 5, 2), (Popcount_Loop, 2, 3, 0), (Switch_Phi, 4, 2, 3), (Byte_Pack, 3, 1, 0),
                    (Minmax_Clamp, 5, 2, 2), (Gray_Decode, 0, 2, 4), (Sub_Borrow, 4, 5, 5), (Add_Carry, 4, 2, 5)]\<rparr>"

definition case_0532 :: "case_program" where
  "case_0532 =
     \<lparr>case_id = 532,
      case_input = [0x7a0a74f9, 0x6714967d, 0x8dae53bf, 0x4e0582ec, 0x944794d4, 0x9e0ba3f5, 0xed085403, 0x00000100,
                    0x3438b715, 0x51c85b57, 0xa560533e, 0x14b92108, 0x41924b2a, 0x9d68cea7, 0x6ac7cf0a, 0xab497fb5],
      case_kernel = nested_break_kernel 4 7,
      reg_inputs = [5, 9, 13, 1], reg5_init = 0xcb48f474,
      memory_keys = [0x00000214, 0x00000428, 0x00000850, 0x000010a0, 0x00002140, 0x00004280, 0x00008500, 0x00010a00],
      case_stmts = [(Short_Circuit, 3, 3, 5), (Compare_Select, 1, 1, 3), (Sub_Borrow, 3, 2, 4),
                    (Halfword_Swap, 1, 4, 5), (Popcount_Loop, 1, 3, 1), (Reverse_Loop, 1, 1, 2),
                    (Reverse_Loop, 5, 0, 4), (Horner_Loop, 4, 2, 4), (Multiply_Low, 2, 1, 5), (Divide_Rem, 2, 5, 4),
                    (Gray_Decode, 3, 3, 1), (Add_Carry, 2, 5, 0)]\<rparr>"

definition case_0533 :: "case_program" where
  "case_0533 =
     \<lparr>case_id = 533,
      case_input = [0x3a8854b8, 0x7b15c33a, 0x7836f1b9, 0xee0cf7ca, 0x82121901, 0x8de8e8f6, 0xa4f3cb7a, 0x07319bd0,
                    0x7fffffff, 0x1027e998, 0x33e6a419, 0xcc8fd279, 0x999488c3, 0x048ed4e1, 0xb77dde33, 0x82798ecb],
      case_kernel = nested_break_kernel 5 8,
      reg_inputs = [6, 10, 14, 2], reg5_init = 0x69806e2d,
      memory_keys = [0x00000215, 0x0000042a, 0x00000854, 0x000010a8, 0x00002150, 0x000042a0, 0x00008540, 0x00010a80],
      case_stmts = [(Popcount_Loop, 4, 2, 0), (Compare_Select, 2, 3, 0), (Sub_Borrow, 5, 0, 0),
                    (Popcount_Loop, 2, 0, 0), (Rotate_Mix, 1, 1, 3), (Halfword_Swap, 1, 3, 5), (Divide_Rem, 0, 3, 1),
                    (Carry_Chain, 3, 5, 4), (Short_Circuit, 3, 2, 4), (Array_Scatter, 5, 5, 4), (Multiply_Low, 5, 3, 0),
                    (Mask_Merge, 1, 1, 1)]\<rparr>"

definition case_0534 :: "case_program" where
  "case_0534 =
     \<lparr>case_id = 534,
      case_input = [0xfb0e347b, 0x5f143cf2, 0x6e9db2f7, 0xba1c908a, 0x75d223a0, 0x4c759971, 0x54eabf80, 0x0d92985a,
                    0xa66b6948, 0x80000000, 0x35e0c491, 0xc9b5df13, 0xde9b0c94, 0x47dc69f1, 0x830cddfa, 0xf834f1fd],
      case_kernel = nested_break_kernel 6 9,
      reg_inputs = [7, 11, 15, 3], reg5_init = 0x07b7e7e6,
      memory_keys = [0x00000216, 0x0000042c, 0x00000858, 0x000010b0, 0x00002160, 0x000042c0, 0x00008580, 0x00010b00],
      case_stmts = [(Reverse_Loop, 5, 4, 4), (Compare_Select, 5, 5, 5), (Sub_Borrow, 3, 3, 3), (Counted_Loop, 3, 2, 1),
                    (Carry_Chain, 1, 0, 3), (Counted_Loop, 3, 1, 1), (Short_Circuit, 2, 5, 4), (Gray_Decode, 5, 4, 5),
                    (Switch_Phi, 4, 2, 1), (Gray_Decode, 3, 2, 2), (Endian_Swap, 1, 5, 1), (Endian_Swap, 5, 4, 5)]\<rparr>"

definition case_0535 :: "case_program" where
  "case_0535 =
     \<lparr>case_id = 535,
      case_input = [0xbb8c143a, 0x431569b5, 0x9b0510f1, 0x1a15e5ac, 0x6387ae75, 0x5f96d272, 0x1d1120f9, 0xdf675e96,
                    0x412c6299, 0x9e471404, 0xfffffffe, 0x11832c62, 0x069dcf7d, 0xde3a73b7, 0x5eb6ccc3, 0xd1040083],
      case_kernel = nested_break_kernel 7 10,
      reg_inputs = [8, 12, 0, 4], reg5_init = 0xa5ef619f,
      memory_keys = [0x00000217, 0x0000042e, 0x0000085c, 0x000010b8, 0x00002170, 0x000042e0, 0x000085c0, 0x00010b80],
      case_stmts = [(Gray_Decode, 2, 3, 3), (Compare_Select, 2, 5, 0), (Sub_Borrow, 3, 1, 5), (Gray_Decode, 0, 0, 0),
                    (Sub_Borrow, 1, 0, 1), (Add_Carry, 1, 3, 2), (Compare_Select, 3, 2, 3), (Carry_Chain, 2, 1, 1),
                    (Halfword_Swap, 1, 5, 0), (Rotate_Mix, 2, 4, 4), (Mask_Merge, 3, 5, 2), (Short_Circuit, 4, 2, 2)]\<rparr>"

definition case_0536 :: "case_program" where
  "case_0536 =
     \<lparr>case_id = 536,
      case_input = [0x7c13f7f6, 0xf717695f, 0xc706140d, 0x7053efbb, 0xd53027ee, 0xd808cb20, 0xa75d7fcc, 0xf865fc63,
                    0x08b86173, 0xcd9f7904, 0x49561388, 0xffffffff, 0x50839d92, 0xe6eedaca, 0x68697a99, 0x9132d405],
      case_kernel = nested_break_kernel 8 11,
      reg_inputs = [9, 13, 1, 5], reg5_init = 0x4426db58,
      memory_keys = [0x00000218, 0x00000430, 0x00000860, 0x000010c0, 0x00002180, 0x00004300, 0x00008600, 0x00010c00],
      case_stmts = [(Minmax_Clamp, 0, 3, 0), (Compare_Select, 3, 2, 2), (Sub_Borrow, 5, 2, 1), (Horner_Loop, 0, 2, 1),
                    (Switch_Phi, 4, 1, 5), (Divide_Rem, 5, 2, 5), (Endian_Swap, 0, 2, 5), (Mask_Merge, 1, 2, 0),
                    (Compare_Select, 2, 3, 3), (Multiply_Low, 5, 5, 0), (Divide_Rem, 2, 2, 2), (Rotate_Mix, 0, 1, 5)]\<rparr>"

definition case_0537 :: "case_program" where
  "case_0537 =
     \<lparr>case_id = 537,
      case_input = [0x3c91d7b7, 0xeb163c18, 0x329eb60b, 0xd05a9a9d, 0x00000000, 0xcbeb8023, 0xeea6e0b5, 0x2a903aaf,
                    0xefff6aa2, 0x8c70cbcb, 0xdfd0e4af, 0x5f6fe512, 0x00000000, 0x7f08c08c, 0xb5d36ba0, 0xb802257b],
      case_kernel = nested_break_kernel 3 12,
      reg_inputs = [10, 14, 2, 6], reg5_init = 0xe25e5511,
      memory_keys = [0x00000219, 0x00000432, 0x00000864, 0x000010c8, 0x00002190, 0x00004320, 0x00008640, 0x00010c80],
      case_stmts = [(Endian_Swap, 3, 2, 3), (Compare_Select, 0, 4, 5), (Sub_Borrow, 5, 0, 3), (Rotate_Mix, 3, 4, 0),
                    (Minmax_Clamp, 2, 1, 5), (Carry_Chain, 5, 4, 4), (Horner_Loop, 5, 3, 0), (Divide_Rem, 4, 5, 2),
                    (Array_Scatter, 1, 4, 4), (Rotate_Mix, 2, 1, 2), (Divide_Rem, 0, 2, 1), (Byte_Pack, 3, 3, 0)]\<rparr>"

definition case_0538 :: "case_program" where
  "case_0538 =
     \<lparr>case_id = 538,
      case_input = [0xfd17b774, 0xcf17c3d0, 0x2435f545, 0x844afddd, 0x34a5909a, 0x0a76f1a4, 0x1ebf944f, 0x20333925,
                    0x9aebbf2e, 0x43ff8498, 0xd9d68427, 0x00000080, 0xcf8ada2c, 0x00000001, 0x81a26869, 0xc24f5a4d],
      case_kernel = nested_break_kernel 4 13,
      reg_inputs = [11, 15, 3, 7], reg5_init = 0x8095ceca,
      memory_keys = [0x0000021a, 0x00000434, 0x00000868, 0x000010d0, 0x000021a0, 0x00004340, 0x00008680, 0x00010d00],
      case_stmts = [(Carry_Chain, 0, 0, 3), (Compare_Select, 3, 4, 2), (Sub_Borrow, 5, 5, 0), (Endian_Swap, 4, 2, 5),
                    (Add_Carry, 2, 4, 5), (Halfword_Swap, 5, 2, 4), (Horner_Loop, 5, 5, 5), (Popcount_Loop, 2, 4, 1),
                    (Compare_Select, 0, 2, 5), (Short_Circuit, 2, 4, 0), (Reverse_Loop, 4, 4, 0),
                    (Multiply_Low, 5, 2, 2)]\<rparr>"

definition case_0539 :: "case_program" where
  "case_0539 =
     \<lparr>case_id = 539,
      case_input = [0xbd959735, 0xd3169697, 0xfffffffe, 0x244388fb, 0x22f01d4f, 0x1995baa7, 0x57440b36, 0xf2c6ffe9,
                    0x7dacb4ff, 0x02103657, 0x4f507300, 0x82631b09, 0x178c19c5, 0xa5bc67da, 0x00000002, 0xeb7fab33],
      case_kernel = nested_break_kernel 5 14,
      reg_inputs = [12, 0, 4, 8], reg5_init = 0x1ecd4883,
      memory_keys = [0x0000021b, 0x00000436, 0x0000086c, 0x000010d8, 0x000021b0, 0x00004360, 0x000086c0, 0x00010d80],
      case_stmts = [(Horner_Loop, 1, 5, 0), (Compare_Select, 2, 2, 3), (Sub_Borrow, 1, 1, 4), (Add_Carry, 3, 2, 2),
                    (Switch_Phi, 2, 4, 5), (Reverse_Loop, 3, 0, 3), (Popcount_Loop, 4, 2, 4), (Short_Circuit, 3, 5, 3),
                    (Sub_Borrow, 1, 5, 0), (Array_Scatter, 5, 2, 0), (Rotate_Mix, 4, 4, 3), (Compare_Select, 2, 4, 3)]\<rparr>"

definition case_0540 :: "case_program" where
  "case_0540 =
     \<lparr>case_id = 540,
      case_input = [0x7e1b76f3, 0x87163c41, 0x0161d69c, 0x9a61cb76, 0x141d4907, 0xe5f4136c, 0xe993fdb5, 0x80ffcb5f,
                    0xc0d18ceb, 0x00000003, 0xc532f217, 0x83c03053, 0x01d42a6d, 0x0f1e67b5, 0xe12196dc, 0x00000003],
      case_kernel = nested_break_kernel 6 15,
      reg_inputs = [13, 1, 5, 9], reg5_init = 0xbd04c23c,
      memory_keys = [0x0000021c, 0x00000438, 0x00000870, 0x000010e0, 0x000021c0, 0x00004380, 0x00008700, 0x00010e00],
      case_stmts = [(Add_Carry, 3, 2, 0), (Byte_Pack, 2, 3, 3), (Sub_Borrow, 5, 5, 0), (Compare_Select, 3, 4, 3),
                    (Endian_Swap, 3, 2, 2), (Popcount_Loop, 4, 0, 3), (Halfword_Swap, 5, 2, 5),
                    (Halfword_Swap, 2, 4, 5), (Reverse_Loop, 4, 4, 5), (Compare_Select, 3, 1, 0), (Divide_Rem, 3, 0, 5),
                    (Carry_Chain, 0, 3, 2)]\<rparr>"

definition case_0541 :: "case_program" where
  "case_0541 =
     \<lparr>case_id = 541,
      case_input = [0x7fffffff, 0x9b176906, 0xf4f9749a, 0x3a68be50, 0x0248c4d2, 0xf617586f, 0xa06862cc, 0x520a0d93,
                    0x2796873a, 0x13e912b8, 0x53b40530, 0x5bf6c322, 0xd9d2e984, 0x96f87df3, 0x3c9b87e5, 0xd1912c47],
      case_kernel = nested_break_kernel 7 16,
      reg_inputs = [14, 2, 6, 10], reg5_init = 0x5b3c3bf5,
      memory_keys = [0x0000021d, 0x0000043a, 0x00000874, 0x000010e8, 0x000021d0, 0x000043a0, 0x00008740, 0x00010e80],
      case_stmts = [(Sub_Borrow, 0, 5, 5), (Byte_Pack, 1, 5, 2), (Sub_Borrow, 1, 1, 0), (Switch_Phi, 4, 2, 0),
                    (Carry_Chain, 1, 4, 0), (Switch_Phi, 0, 2, 2), (Counted_Loop, 2, 3, 4), (Endian_Swap, 5, 5, 5),
                    (Endian_Swap, 3, 3, 4), (Gray_Decode, 4, 3, 0), (Halfword_Swap, 1, 2, 4), (Horner_Loop, 3, 5, 1)]\<rparr>"

definition case_0542 :: "case_program" where
  "case_0542 =
     \<lparr>case_id = 542,
      case_input = [0xff1f3671, 0x00000080, 0xe25237d4, 0x6e78d910, 0xf588fe73, 0x378a29e8, 0x50711636, 0x00000001,
                    0x528252b6, 0xdc665deb, 0x55b265b8, 0x5eccce48, 0x9edd6dd3, 0xd5aac0e3, 0x08ea842c, 0xabdc5371],
      case_kernel = nested_break_kernel 8 17,
      reg_inputs = [15, 3, 7, 11], reg5_init = 0xf973b5ae,
      memory_keys = [0x0000021e, 0x0000043c, 0x00000878, 0x000010f0, 0x000021e0, 0x000043c0, 0x00008780, 0x00010f00],
      case_stmts = [(Rotate_Mix, 1, 3, 1), (Byte_Pack, 4, 3, 1), (Sub_Borrow, 1, 2, 1), (Divide_Rem, 1, 4, 5),
                    (Compare_Select, 3, 1, 4), (Mask_Merge, 0, 4, 2), (Compare_Select, 0, 3, 1),
                    (Halfword_Swap, 1, 0, 4), (Counted_Loop, 4, 1, 5), (Sub_Borrow, 2, 4, 0), (Carry_Chain, 3, 4, 5),
                    (Gray_Decode, 1, 0, 3)]\<rparr>"

definition case_0543 :: "case_program" where
  "case_0543 =
     \<lparr>case_id = 543,
      case_input = [0xbf9d1630, 0xa317c389, 0x000000ff, 0xce71ac36, 0xe3dd73a6, 0x246962eb, 0x198a894f, 0x8a5cc8d5,
                    0xb5c55967, 0x9d89ef24, 0xc334929f, 0x86fa3d39, 0x46dbae3a, 0x4c4cdaa5, 0x000000ff, 0x82eca20f],
      case_kernel = nested_break_kernel 3 18,
      reg_inputs = [0, 4, 8, 12], reg5_init = 0x97ab2f67,
      memory_keys = [0x0000021f, 0x0000043e, 0x0000087c, 0x000010f8, 0x000021f0, 0x000043e0, 0x000087c0, 0x00010f80],
      case_stmts = [(Multiply_Low, 2, 4, 0), (Byte_Pack, 3, 3, 2), (Sub_Borrow, 1, 2, 3), (Array_Scatter, 2, 4, 2),
                    (Endian_Swap, 5, 5, 4), (Gray_Decode, 0, 4, 5), (Minmax_Clamp, 5, 0, 2), (Mask_Merge, 0, 3, 2),
                    (Mask_Merge, 5, 0, 0), (Minmax_Clamp, 5, 0, 2), (Reverse_Loop, 5, 2, 4), (Rotate_Mix, 0, 2, 0)]\<rparr>"

definition case_0544 :: "case_program" where
  "case_0544 =
     \<lparr>case_id = 544,
      case_input = [0x6064f9c0, 0x571a3fea, 0x65688fe5, 0x00000100, 0x6ab5c918, 0xffffffff, 0x77cb1c5a, 0x09d910d4,
                    0xc7352ab0, 0x2629ad48, 0xca47006b, 0x3dc49b8c, 0xcf80aec4, 0xb37e04ef, 0xa3aa3ac9, 0x5dd46534],
      case_kernel = nested_break_kernel 4 19,
      reg_inputs = [1, 5, 9, 13], reg5_init = 0x35e2a920,
      memory_keys = [0x00000220, 0x00000440, 0x00000880, 0x00001100, 0x00002200, 0x00004400, 0x00008800, 0x00011000],
      case_stmts = [(Divide_Rem, 2, 0, 5), (Byte_Pack, 3, 3, 0), (Sub_Borrow, 4, 1, 3), (Popcount_Loop, 1, 4, 4),
                    (Compare_Select, 3, 5, 0), (Halfword_Swap, 0, 2, 3), (Short_Circuit, 3, 0, 2), (Byte_Pack, 4, 1, 1),
                    (Short_Circuit, 4, 4, 1), (Endian_Swap, 0, 0, 1), (Byte_Pack, 1, 5, 3), (Endian_Swap, 0, 2, 2)]\<rparr>"

definition case_0545 :: "case_program" where
  "case_0545 =
     \<lparr>case_id = 545,
      case_input = [0x20e6d981, 0x4b1b6aad, 0x90f02de3, 0xf9696658, 0x7fffffff, 0x6c02647d, 0x3e308323, 0xdb2cd618,
                    0x20722161, 0x67c61f87, 0x5cc1f74c, 0xe5f268fd, 0x0000007f, 0x2a981ea9, 0x7e102bf0, 0x74e4944a],
      case_kernel = nested_break_kernel 5 20,
      reg_inputs = [2, 6, 10, 14], reg5_init = 0xd41a22d9,
      memory_keys = [0x00000221, 0x00000442, 0x00000884, 0x00001108, 0x00002210, 0x00004420, 0x00008840, 0x00011080],
      case_stmts = [(Mask_Merge, 5, 3, 0), (Byte_Pack, 2, 3, 3), (Sub_Borrow, 0, 5, 3), (Short_Circuit, 2, 0, 1),
                    (Sub_Borrow, 5, 1, 0), (Rotate_Mix, 0, 0, 0), (Reverse_Loop, 4, 3, 3), (Reverse_Loop, 1, 0, 5),
                    (Gray_Decode, 3, 3, 0), (Minmax_Clamp, 5, 2, 5), (Switch_Phi, 3, 5, 4), (Halfword_Swap, 1, 4, 3)]\<rparr>"

definition case_0546 :: "case_program" where
  "case_0546 =
     \<lparr>case_id = 546,
      case_input = [0xe160b942, 0x6f1a9565, 0x865b6ead, 0x80000000, 0x8b207e6c, 0x80000000, 0xce29f7d9, 0xd18fd592,
                    0x5566f4ed, 0xa84950d4, 0x5ac797c4, 0xe0c86597, 0x5089e97a, 0x69caa3b9, 0x4a612839, 0x0ea9eb7c],
      case_kernel = nested_break_kernel 6 21,
      reg_inputs = [3, 7, 11, 15], reg5_init = 0x72519c92,
      memory_keys = [0x00000222, 0x00000444, 0x00000888, 0x00001110, 0x00002220, 0x00004440, 0x00008880, 0x00011100],
      case_stmts = [(Compare_Select, 4, 1, 4), (Byte_Pack, 3, 1, 4), (Sub_Borrow, 0, 2, 0), (Multiply_Low, 1, 0, 4),
                    (Popcount_Loop, 5, 4, 2), (Divide_Rem, 2, 0, 2), (Reverse_Loop, 4, 3, 2), (Horner_Loop, 1, 1, 0),
                    (Divide_Rem, 4, 5, 1), (Compare_Select, 3, 1, 5), (Sub_Borrow, 1, 5, 5), (Halfword_Swap, 1, 3, 3)]\<rparr>"

definition case_0547 :: "case_program" where
  "case_0547 =
     \<lparr>case_id = 547,
      case_input = [0xa1e29903, 0x731bc022, 0x73c3ccab, 0x0d70743e, 0x9d75f3b9, 0xbe7c5ef9, 0xfffffffe, 0x037a135e,
                    0xb221ff3c, 0xe9a6e21b, 0x00000002, 0x38fe96e6, 0x888f2a93, 0xf02cb9ff, 0x97db3900, 0x27991a02],
      case_kernel = nested_break_kernel 7 22,
      reg_inputs = [4, 8, 12, 0], reg5_init = 0x1089164b,
      memory_keys = [0x00000223, 0x00000446, 0x0000088c, 0x00001118, 0x00002230, 0x00004460, 0x000088c0, 0x00011180],
      case_stmts = [(Byte_Pack, 3, 4, 1), (Byte_Pack, 0, 1, 5), (Sub_Borrow, 2, 2, 2), (Rotate_Mix, 4, 4, 5),
                    (Compare_Select, 5, 2, 4), (Reverse_Loop, 0, 2, 5), (Add_Carry, 5, 2, 5), (Compare_Select, 2, 2, 4),
                    (Multiply_Low, 1, 0, 2), (Horner_Loop, 4, 1, 3), (Endian_Swap, 5, 1, 2), (Sub_Borrow, 2, 3, 4)]\<rparr>"

definition case_0548 :: "case_program" where
  "case_0548 =
     \<lparr>case_id = 548,
      case_input = [0x626c78c5, 0x00000100, 0xa30f4d74, 0xb35237b3, 0xab98a7f1, 0x421df732, 0x39059e23, 0xffffffff,
                    0x0f5cc728, 0xb9b0743b, 0x4623e1f4, 0x395dbdbc, 0x9ed7193b, 0x5a8eb990, 0x2ae2d68c, 0x34476c08],
      case_kernel = nested_break_kernel 8 23,
      reg_inputs = [5, 9, 13, 1], reg5_init = 0xaec09004,
      memory_keys = [0x00000224, 0x00000448, 0x00000890, 0x00001120, 0x00002240, 0x00004480, 0x00008900, 0x00011200],
      case_stmts = [(Halfword_Swap, 5, 5, 3), (Byte_Pack, 0, 4, 3), (Sub_Borrow, 4, 2, 2), (Short_Circuit, 2, 2, 4),
                    (Halfword_Swap, 0, 2, 1), (Endian_Swap, 5, 4, 5), (Sub_Borrow, 0, 2, 0), (Reverse_Loop, 1, 1, 0),
                    (Short_Circuit, 2, 5, 3), (Short_Circuit, 0, 4, 5), (Byte_Pack, 4, 1, 0), (Endian_Swap, 0, 0, 5)]\<rparr>"

definition case_0549 :: "case_program" where
  "case_0549 =
     \<lparr>case_id = 549,
      case_input = [0x22ee5884, 0x3b1a3fb3, 0x5697ef72, 0x135b4295, 0xbdcd2a24, 0x51febc31, 0x70fe015a, 0xa3b6e124,
                    0x00000000, 0xf85fc6f4, 0xd0a516d3, 0xe16b4ecd, 0x46d1dad2, 0xc368a3d6, 0xf758c7b5, 0x1d779d76],
      case_kernel = nested_break_kernel 3 24,
      reg_inputs = [6, 10, 14, 2], reg5_init = 0x4cf809bd,
      memory_keys = [0x00000225, 0x0000044a, 0x00000894, 0x00001128, 0x00002250, 0x000044a0, 0x00008940, 0x00011280],
      case_stmts = [(Array_Scatter, 0, 2, 2), (Byte_Pack, 3, 4, 2), (Sub_Borrow, 0, 4, 2), (Popcount_Loop, 1, 4, 3),
                    (Multiply_Low, 4, 0, 5), (Horner_Loop, 3, 0, 0), (Switch_Phi, 1, 5, 5), (Gray_Decode, 0, 2, 2),
                    (Byte_Pack, 5, 0, 2), (Sub_Borrow, 5, 0, 1), (Switch_Phi, 2, 5, 3), (Divide_Rem, 3, 0, 2)]\<rparr>"

definition case_0550 :: "case_program" where
  "case_0550 =
     \<lparr>case_id = 550,
      case_input = [0x00000000, 0x1f1bc07b, 0x403cac3c, 0x474b25d5, 0x4a0d1085, 0x9063cdb6, 0x80e775a0, 0xa915e2ae,
                    0x9d0f1975, 0x37d089a7, 0xd6a3765b, 0xe45143a7, 0x01de5e85, 0x803a1ec6, 0xc329c47c, 0x673ae240],
      case_kernel = eight_arguments_kernel,
      reg_inputs = [7, 11, 15, 3], reg5_init = 0xeb2f8376,
      memory_keys = [0x00000226, 0x0000044c, 0x00000898, 0x00001130, 0x00002260, 0x000044c0, 0x00008980, 0x00011300],
      case_stmts = [(Counted_Loop, 5, 4, 2), (Byte_Pack, 0, 4, 5), (Sub_Borrow, 0, 3, 1), (Rotate_Mix, 4, 4, 4),
                    (Horner_Loop, 2, 1, 1), (Popcount_Loop, 3, 0, 4), (Switch_Phi, 3, 5, 4), (Carry_Chain, 4, 3, 5),
                    (Divide_Rem, 0, 0, 1), (Horner_Loop, 3, 3, 1), (Array_Scatter, 4, 3, 2), (Add_Carry, 5, 3, 2)]\<rparr>"

definition case_0551 :: "case_program" where
  "case_0551 =
     \<lparr>case_id = 551,
      case_input = [0xa3ea1806, 0x00000001, 0xb5a40e3a, 0xe74250f3, 0x5c589d50, 0x838086b5, 0xc91cead9, 0x7be02462,
                    0x7a4812a4, 0x763f3b68, 0x4025817c, 0x3c67b0d6, 0xd9d89d6c, 0x19dc0480, 0x1e93d545, 0x4e0a133e],
      case_kernel = eight_arguments_kernel,
      reg_inputs = [8, 12, 0, 4], reg5_init = 0x8966fd2f,
      memory_keys = [0x00000227, 0x0000044e, 0x0000089c, 0x00001138, 0x00002270, 0x000044e0, 0x000089c0, 0x00011380],
      case_stmts = [(Switch_Phi, 2, 1, 3), (Byte_Pack, 1, 0, 0), (Sub_Borrow, 4, 1, 3), (Multiply_Low, 5, 0, 1),
                    (Divide_Rem, 4, 1, 5), (Horner_Loop, 3, 4, 3), (Popcount_Loop, 4, 4, 3), (Switch_Phi, 5, 0, 3),
                    (Switch_Phi, 3, 5, 0), (Compare_Select, 4, 5, 1), (Sub_Borrow, 0, 3, 5), (Endian_Swap, 0, 3, 3)]\<rparr>"

definition case_0552 :: "case_program" where
  "case_0552 =
     \<lparr>case_id = 552,
      case_input = [0x6475fbca, 0xb71895d6, 0x00000002, 0x8d045ae4, 0xeaef14cb, 0x041e9fe7, 0x7350b5ec, 0x5ce28697,
                    0x33dc114e, 0x25e75668, 0xaa15a142, 0xaabd8ad7, 0x8fc6cf83, 0x2108adfd, 0x284c631f, 0x0e3cc7b8],
      case_kernel = eight_arguments_kernel,
      reg_inputs = [9, 13, 1, 5], reg5_init = 0x279e76e8,
      memory_keys = [0x00000228, 0x00000450, 0x000008a0, 0x00001140, 0x00002280, 0x00004500, 0x00008a00, 0x00011400],
      case_stmts = [(Short_Circuit, 0, 1, 0), (Byte_Pack, 4, 3, 0), (Sub_Borrow, 4, 0, 5), (Byte_Pack, 3, 2, 4),
                    (Counted_Loop, 5, 2, 5), (Multiply_Low, 5, 3, 2), (Compare_Select, 5, 2, 1), (Add_Carry, 4, 3, 4),
                    (Array_Scatter, 2, 1, 1), (Byte_Pack, 3, 2, 5), (Short_Circuit, 5, 0, 3), (Multiply_Low, 0, 2, 0)]\<rparr>"

definition case_0553 :: "case_program" where
  "case_0553 =
     \<lparr>case_id = 553,
      case_input = [0x24f7db8b, 0xab19c091, 0x1c3fa8c0, 0x00000003, 0xfcba991e, 0x17fdd4e4, 0x3aab2a95, 0x8e17405b,
                    0xd49b1a9f, 0x6408e4a7, 0x3c935665, 0x728b79a6, 0x57c00c6a, 0xb8eeb7bb, 0xf5f67226, 0x270c36c6],
      case_kernel = eight_arguments_kernel,
      reg_inputs = [10, 14, 2, 6], reg5_init = 0xc5d5f0a1,
      memory_keys = [0x00000229, 0x00000452, 0x000008a4, 0x00001148, 0x00002290, 0x00004520, 0x00008a40, 0x00011480],
      case_stmts = [(Popcount_Loop, 3, 2, 3), (Byte_Pack, 5, 3, 5), (Sub_Borrow, 0, 2, 5), (Compare_Select, 0, 4, 5),
                    (Popcount_Loop, 5, 0, 1), (Endian_Swap, 1, 1, 1), (Halfword_Swap, 0, 5, 2), (Endian_Swap, 3, 0, 2),
                    (Carry_Chain, 3, 2, 0), (Reverse_Loop, 0, 2, 5), (Short_Circuit, 5, 0, 2), (Carry_Chain, 3, 0, 5)]\<rparr>"

definition case_0554 :: "case_program" where
  "case_0554 =
     \<lparr>case_id = 554,
      case_input = [0xe571bb48, 0x8f183f59, 0x0a94eb8e, 0x791d4882, 0x0000007f, 0xd660a563, 0xcab25e6f, 0x84b443d1,
                    0xa18fcf13, 0xab87abf4, 0x3a9536ed, 0x77b174cc, 0x10cf883d, 0xfbbc0aab, 0xc18771ef, 0x5d4149f0],
      case_kernel = eight_arguments_kernel,
      reg_inputs = [11, 15, 3, 7], reg5_init = 0x640d6a5a,
      memory_keys = [0x0000022a, 0x00000454, 0x000008a8, 0x00001150, 0x000022a0, 0x00004540, 0x00008a80, 0x00011500],
      case_stmts = [(Reverse_Loop, 0, 0, 3), (Byte_Pack, 0, 5, 0), (Sub_Borrow, 0, 5, 4), (Popcount_Loop, 5, 2, 2),
                    (Endian_Swap, 1, 5, 1), (Multiply_Low, 5, 1, 3), (Short_Circuit, 2, 5, 1), (Divide_Rem, 5, 5, 3),
                    (Sub_Borrow, 0, 0, 1), (Minmax_Clamp, 2, 5, 3), (Rotate_Mix, 5, 2, 5), (Counted_Loop, 5, 5, 1)]\<rparr>"

definition case_0555 :: "case_program" where
  "case_0555 =
     \<lparr>case_id = 555,
      case_input = [0xa5f39b09, 0x93196a1e, 0xff0c4988, 0xd9143da4, 0x1d2f2e6a, 0x00000080, 0x8349c116, 0x5641851d,
                    0x46c8c4c2, 0xea68193b, 0xac13c1ca, 0xaf8787bd, 0xc8c94bd4, 0x625a10ed, 0x1c3d60d6, 0x7471b88e],
      case_kernel = eight_arguments_kernel,
      reg_inputs = [12, 0, 4, 8], reg5_init = 0x0244e413,
      memory_keys = [0x0000022b, 0x00000456, 0x000008ac, 0x00001158, 0x000022b0, 0x00004560, 0x00008ac0, 0x00011580],
      case_stmts = [(Gray_Decode, 3, 3, 0), (Byte_Pack, 1, 3, 3), (Sub_Borrow, 2, 1, 2), (Short_Circuit, 2, 4, 1),
                    (Rotate_Mix, 5, 5, 5), (Endian_Swap, 3, 3, 4), (Carry_Chain, 5, 2, 2), (Mask_Merge, 2, 0, 1),
                    (Counted_Loop, 1, 5, 4), (Array_Scatter, 1, 5, 5), (Carry_Chain, 1, 0, 0), (Multiply_Low, 4, 1, 2)]\<rparr>"

definition case_0556 :: "case_program" where
  "case_0556 =
     \<lparr>case_id = 556,
      case_input = [0x667d7acf, 0xc719c0c8, 0x2fc0c857, 0x67367e29, 0x2bc27a22, 0x39e247ab, 0x000000ff, 0x2478b1ab,
                    0xfbb5fcd6, 0xba7e8f1b, 0x267140dd, 0xae24ace7, 0xde91787c, 0xc8f81082, 0xa1048f5a, 0x67afce84],
      case_kernel = eight_arguments_kernel,
      reg_inputs = [13, 1, 5, 9], reg5_init = 0xa07c5dcc,
      memory_keys = [0x0000022c, 0x00000458, 0x000008b0, 0x00001160, 0x000022c0, 0x00004580, 0x00008b00, 0x00011600],
      case_stmts = [(Minmax_Clamp, 5, 2, 4), (Byte_Pack, 1, 4, 3), (Sub_Borrow, 0, 5, 4), (Compare_Select, 0, 2, 4),
                    (Minmax_Clamp, 2, 5, 0), (Reverse_Loop, 0, 5, 2), (Horner_Loop, 0, 0, 1), (Mask_Merge, 1, 3, 5),
                    (Endian_Swap, 4, 2, 1), (Counted_Loop, 1, 2, 3), (Divide_Rem, 0, 0, 0), (Horner_Loop, 4, 4, 5)]\<rparr>"

definition case_0557 :: "case_program" where
  "case_0557 =
     \<lparr>case_id = 557,
      case_input = [0x26ff5a8e, 0xdb18958f, 0xda586a51, 0xc73f0b0f, 0x3d97f7f7, 0x2a010ca8, 0x7465a8ec, 0x00000100,
                    0x1cf2f707, 0xfb913dd4, 0xb0f7b7fa, 0x76125f96, 0x0697bb95, 0x511e0ac4, 0x7cbe9e63, 0x4e9f3ffa],
      case_kernel = eight_arguments_kernel,
      reg_inputs = [14, 2, 6, 10], reg5_init = 0x3eb3d785,
      memory_keys = [0x0000022d, 0x0000045a, 0x000008b4, 0x00001168, 0x000022d0, 0x000045a0, 0x00008b40, 0x00011680],
      case_stmts = [(Endian_Swap, 4, 1, 5), (Byte_Pack, 4, 2, 4), (Sub_Borrow, 4, 1, 2), (Byte_Pack, 5, 2, 1),
                    (Multiply_Low, 0, 5, 2), (Divide_Rem, 2, 1, 1), (Sub_Borrow, 5, 1, 4), (Minmax_Clamp, 2, 0, 3),
                    (Compare_Select, 3, 3, 4), (Byte_Pack, 2, 2, 1), (Divide_Rem, 0, 2, 3), (Carry_Chain, 5, 2, 4)]\<rparr>"

definition case_0558 :: "case_program" where
  "case_0558 =
     \<lparr>case_id = 558,
      case_input = [0xe7793a4d, 0xff196a47, 0xccf3291f, 0x932f6c4f, 0xca57cd56, 0xeb9c7d2f, 0x847cdc16, 0xfc2e74ed,
                    0x7fffffff, 0x341e7287, 0xb6f1d772, 0x732852fc, 0x41983fc2, 0x124cb7d4, 0x48cf9daa, 0x34d240cc],
      case_kernel = eight_arguments_kernel,
      reg_inputs = [15, 3, 7, 11], reg5_init = 0xdceb513e,
      memory_keys = [0x0000022e, 0x0000045c, 0x000008b8, 0x00001170, 0x000022e0, 0x000045c0, 0x00008b80, 0x00011700],
      case_stmts = [(Carry_Chain, 3, 1, 3), (Byte_Pack, 1, 2, 1), (Sub_Borrow, 2, 2, 5), (Short_Circuit, 2, 0, 0),
                    (Switch_Phi, 4, 2, 0), (Counted_Loop, 2, 1, 1), (Array_Scatter, 3, 5, 3), (Array_Scatter, 4, 1, 2),
                    (Sub_Borrow, 4, 1, 3), (Mask_Merge, 2, 5, 1), (Compare_Select, 4, 4, 4), (Reverse_Loop, 1, 1, 4)]\<rparr>"

definition case_0559 :: "case_program" where
  "case_0559 =
     \<lparr>case_id = 559,
      case_input = [0xa7fb1a0c, 0xe3183f00, 0x396b8b19, 0x33261969, 0xdc024083, 0xf87f362c, 0xcd87436f, 0x2edbb221,
                    0x8ea1295a, 0x80000000, 0x20772055, 0xab1ea18d, 0x999efc2b, 0x8baaad92, 0x95758c93, 0x1de2b1b2],
      case_kernel = eight_arguments_kernel,
      reg_inputs = [0, 4, 8, 12], reg5_init = 0x7b22caf7,
      memory_keys = [0x0000022f, 0x0000045e, 0x000008bc, 0x00001178, 0x000022f0, 0x000045e0, 0x00008bc0, 0x00011780],
      case_stmts = [(Horner_Loop, 2, 2, 2), (Byte_Pack, 2, 4, 4), (Sub_Borrow, 0, 4, 1), (Popcount_Loop, 3, 4, 1),
                    (Divide_Rem, 4, 0, 2), (Add_Carry, 4, 3, 4), (Horner_Loop, 0, 4, 4), (Minmax_Clamp, 3, 2, 4),
                    (Carry_Chain, 3, 2, 0), (Minmax_Clamp, 1, 3, 5), (Reverse_Loop, 2, 0, 1), (Multiply_Low, 0, 1, 1)]\<rparr>"

definition case_0560 :: "case_program" where
  "case_0560 =
     \<lparr>case_id = 560,
      case_input = [0x6846fdd4, 0x971f6b92, 0x7ef785a3, 0xf3ae804b, 0xf100dffb, 0xb5111b33, 0x25cffa86, 0x5f606d61,
                    0x97bd3b16, 0x5f94d5d9, 0xfffffffe, 0xacf32dfc, 0xe7a90ea1, 0xe27644bd, 0xef90744b, 0xdffd8558],
      case_kernel = eight_arguments_kernel,
      reg_inputs = [1, 5, 9, 13], reg5_init = 0x195a44b0,
      memory_keys = [0x00000230, 0x00000460, 0x000008c0, 0x00001180, 0x00002300, 0x00004600, 0x00008c00, 0x00011800],
      case_stmts = [(Add_Carry, 3, 5, 3), (Halfword_Swap, 2, 3, 0), (Sub_Borrow, 2, 5, 2), (Popcount_Loop, 0, 1, 0),
                    (Reverse_Loop, 3, 0, 4), (Carry_Chain, 3, 2, 5), (Endian_Swap, 1, 2, 4), (Add_Carry, 1, 3, 5),
                    (Mask_Merge, 4, 5, 5), (Array_Scatter, 3, 5, 2), (Rotate_Mix, 2, 5, 4), (Multiply_Low, 4, 1, 5)]\<rparr>"

definition case_0561 :: "case_program" where
  "case_0561 =
     \<lparr>case_id = 561,
      case_input = [0x28c4dd95, 0x8b1e3ed5, 0x8b6f27a5, 0x53a7f56d, 0xe755522e, 0xa6f25030, 0x6c3465ff, 0x8d95abad,
                    0x70fa30c7, 0x1e7b6716, 0xf667c101, 0xffffffff, 0x3fafcd48, 0x7b905efb, 0x322a6572, 0xf6cd7426],
      case_kernel = eight_arguments_kernel,
      reg_inputs = [2, 6, 10, 14], reg5_init = 0xb791be69,
      memory_keys = [0x00000231, 0x00000462, 0x000008c4, 0x00001188, 0x00002310, 0x00004620, 0x00008c40, 0x00011880],
      case_stmts = [(Sub_Borrow, 0, 2, 0), (Halfword_Swap, 3, 3, 1), (Sub_Borrow, 2, 5, 0), (Minmax_Clamp, 5, 1, 1),
                    (Sub_Borrow, 3, 0, 2), (Add_Carry, 1, 0, 0), (Multiply_Low, 4, 1, 5), (Sub_Borrow, 2, 0, 1),
                    (Reverse_Loop, 5, 0, 0), (Divide_Rem, 2, 5, 2), (Reverse_Loop, 2, 3, 3), (Reverse_Loop, 5, 5, 2)]\<rparr>"

definition case_0562 :: "case_program" where
  "case_0562 =
     \<lparr>case_id = 562,
      case_input = [0xe942bd56, 0xaf1fc11d, 0x9dc464eb, 0x07b7922d, 0x00000000, 0x676f21b7, 0x9c2d1105, 0x8736a827,
                    0x05eee54b, 0xd1f42845, 0xf061a189, 0x71ffd3e7, 0x00000000, 0x38c2e3eb, 0x065b66bb, 0x8c800b10],
      case_kernel = eight_arguments_kernel,
      reg_inputs = [3, 7, 11, 15], reg5_init = 0x55c93822,
      memory_keys = [0x00000232, 0x00000464, 0x000008c8, 0x00001190, 0x00002320, 0x00004640, 0x00008c80, 0x00011900],
      case_stmts = [(Rotate_Mix, 5, 2, 0), (Halfword_Swap, 4, 5, 2), (Sub_Borrow, 2, 0, 1), (Multiply_Low, 2, 1, 2),
                    (Endian_Swap, 3, 3, 4), (Compare_Select, 3, 4, 2), (Horner_Loop, 2, 3, 0), (Add_Carry, 0, 1, 4),
                    (Array_Scatter, 4, 0, 1), (Compare_Select, 2, 4, 2), (Divide_Rem, 4, 3, 0), (Rotate_Mix, 5, 2, 0)]\<rparr>"

definition case_0563 :: "case_program" where
  "case_0563 =
     \<lparr>case_id = 563,
      case_input = [0xa9c09d17, 0xb31e945a, 0x685cc6ed, 0xa7bee70b, 0x06c0e55a, 0x748c6ab4, 0xd5d68e7c, 0x55c36eeb,
                    0xe2a9ee9a, 0x901b9a8a, 0x66e756ae, 0x00000080, 0xa0a68af6, 0x00000001, 0xdbe17782, 0xa5b0fa6e],
      case_kernel = eight_arguments_kernel,
      reg_inputs = [4, 8, 12, 0], reg5_init = 0xf400b1db,
      memory_keys = [0x00000233, 0x00000466, 0x000008cc, 0x00001198, 0x00002330, 0x00004660, 0x00008cc0, 0x00011980],
      case_stmts = [(Multiply_Low, 4, 5, 3), (Halfword_Swap, 3, 3, 5), (Sub_Borrow, 2, 4, 5),
                    (Compare_Select, 5, 1, 1), (Rotate_Mix, 5, 3, 2), (Divide_Rem, 3, 2, 1), (Endian_Swap, 5, 2, 1),
                    (Endian_Swap, 5, 0, 4), (Counted_Loop, 3, 1, 0), (Horner_Loop, 5, 4, 0), (Halfword_Swap, 2, 3, 5),
                    (Gray_Decode, 2, 0, 5)]\<rparr>"

definition case_0564 :: "case_program" where
  "case_0564 =
     \<lparr>case_id = 564,
      case_input = [0x6a4e7cd1, 0xe71e3e8c, 0xfffffffe, 0x199ca486, 0x302db112, 0x88edc37f, 0x6b0178ff, 0x27fa5a5d,
                    0x5fd4d68e, 0xc00d0caa, 0xec85d7b9, 0xa86a0bcc, 0xb6feb95e, 0x0b86f9c2, 0x00000002, 0xb66e8c64],
      case_kernel = eight_arguments_kernel,
      reg_inputs = [5, 9, 13, 1], reg5_init = 0x92382b94,
      memory_keys = [0x00000234, 0x00000468, 0x000008d0, 0x000011a0, 0x00002340, 0x00004680, 0x00008d00, 0x00011a00],
      case_stmts = [(Divide_Rem, 4, 0, 3), (Halfword_Swap, 5, 0, 5), (Sub_Borrow, 2, 4, 1), (Add_Carry, 1, 1, 4),
                    (Short_Circuit, 2, 1, 5), (Multiply_Low, 0, 4, 1), (Short_Circuit, 4, 2, 2), (Mask_Merge, 4, 1, 0),
                    (Array_Scatter, 4, 0, 1), (Divide_Rem, 5, 5, 2), (Carry_Chain, 1, 1, 1), (Byte_Pack, 4, 5, 4)]\<rparr>"

definition case_0565 :: "case_program" where
  "case_0565 =
     \<lparr>case_id = 565,
      case_input = [0x2acc5c90, 0xfb1f6bcb, 0x4d08e534, 0xb995d1a0, 0x26783cc7, 0x9b0e887c, 0x22fae786, 0xf50f9c91,
                    0xb893dd5f, 0x00000003, 0x7a03209e, 0x705cf8bd, 0x6ef87ab7, 0x9260e384, 0xbb628937, 0x00000003],
      case_kernel = eight_arguments_kernel,
      reg_inputs = [6, 10, 14, 2], reg5_init = 0x306fa54d,
      memory_keys = [0x00000235, 0x0000046a, 0x000008d4, 0x000011a8, 0x00002350, 0x000046a0, 0x00008d40, 0x00011a80],
      case_stmts = [(Mask_Merge, 3, 3, 2), (Halfword_Swap, 2, 2, 4), (Sub_Borrow, 4, 2, 1), (Mask_Merge, 2, 1, 3),
                    (Switch_Phi, 2, 3, 3), (Mask_Merge, 2, 2, 4), (Reverse_Loop, 1, 1, 1), (Add_Carry, 5, 4, 0),
                    (Compare_Select, 1, 5, 4), (Popcount_Loop, 0, 3, 4), (Reverse_Loop, 3, 3, 4),
                    (Reverse_Loop, 5, 3, 5)]\<rparr>"

definition case_0566 :: "case_program" where
  "case_0566 =
     \<lparr>case_id = 566,
      case_input = [0x7fffffff, 0xdf1e9403, 0x5ba3a67a, 0xed85b6e0, 0xd1b80666, 0x5a93f9fb, 0xd2e3937c, 0xffac9f1b,
                    0xcd8708d3, 0x4e6df136, 0x7c054016, 0x7566f5d7, 0x29f7fee0, 0xd1325e94, 0x8f138afe, 0xe513022c],
      case_kernel = eight_arguments_kernel,
      reg_inputs = [7, 11, 15, 3], reg5_init = 0xcea71f06,
      memory_keys = [0x00000236, 0x0000046c, 0x000008d8, 0x000011b0, 0x00002360, 0x000046c0, 0x00008d80, 0x00011b00],
      case_stmts = [(Compare_Select, 2, 3, 2), (Halfword_Swap, 1, 4, 1), (Sub_Borrow, 2, 3, 4),
                    (Counted_Loop, 3, 5, 4), (Byte_Pack, 0, 4, 5), (Switch_Phi, 4, 2, 2), (Counted_Loop, 1, 1, 4),
                    (Mask_Merge, 3, 1, 5), (Endian_Swap, 4, 5, 5), (Multiply_Low, 4, 0, 0), (Halfword_Swap, 3, 3, 5),
                    (Carry_Chain, 1, 4, 3)]\<rparr>"

definition case_0567 :: "case_program" where
  "case_0567 =
     \<lparr>case_id = 567,
      case_input = [0xabc81c12, 0x00000080, 0xae3b047c, 0x4d8cc3c6, 0xc7ed8bb3, 0x4970b2f8, 0x9b180c05, 0x00000001,
                    0x2ac00302, 0x0f8243f9, 0xea83b731, 0xad5006a6, 0xf1f13d09, 0x48d444d2, 0x52a99bc7, 0xcc23f352],
      case_kernel = eight_arguments_kernel,
      reg_inputs = [8, 12, 0, 4], reg5_init = 0x6cde98bf,
      memory_keys = [0x00000237, 0x0000046e, 0x000008dc, 0x000011b8, 0x00002370, 0x000046e0, 0x00008dc0, 0x00011b80],
      case_stmts = [(Byte_Pack, 1, 0, 1), (Halfword_Swap, 4, 0, 2), (Sub_Borrow, 2, 1, 4), (Gray_Decode, 4, 3, 3),
                    (Minmax_Clamp, 2, 0, 5), (Endian_Swap, 4, 4, 5), (Minmax_Clamp, 2, 0, 5), (Divide_Rem, 4, 4, 3),
                    (Compare_Select, 3, 4, 2), (Compare_Select, 3, 2, 2), (Add_Carry, 1, 3, 2), (Gray_Decode, 0, 2, 2)]\<rparr>"

definition case_0568 :: "case_program" where
  "case_0568 =
     \<lparr>case_id = 568,
      case_input = [0x6c57ffde, 0x771dc1ae, 0x000000ff, 0x27cac9d1, 0x715a0228, 0xceeeabaa, 0x21545330, 0x0a5bfb22,
                    0x635400e8, 0x5c5a2ef9, 0x00b3970f, 0x3b8a3ca7, 0xa7ef6fe6, 0x7000edaf, 0x000000ff, 0x8c1527d4],
      case_kernel = eight_arguments_kernel,
      reg_inputs = [9, 13, 1, 5], reg5_init = 0x0b161278,
      memory_keys = [0x00000238, 0x00000470, 0x000008e0, 0x000011c0, 0x00002380, 0x00004700, 0x00008e00, 0x00011c00],
      case_stmts = [(Halfword_Swap, 5, 4, 0), (Halfword_Swap, 1, 3, 0), (Sub_Borrow, 0, 0, 4), (Byte_Pack, 0, 1, 4),
                    (Rotate_Mix, 5, 5, 3), (Endian_Swap, 0, 1, 2), (Gray_Decode, 5, 4, 1), (Gray_Decode, 5, 3, 0),
                    (Halfword_Swap, 0, 0, 3), (Multiply_Low, 4, 3, 0), (Sub_Borrow, 0, 0, 0), (Endian_Swap, 2, 1, 5)]\<rparr>"

definition case_0569 :: "case_program" where
  "case_0569 =
     \<lparr>case_id = 569,
      case_input = [0x2cd5df9f, 0x6b1c94e9, 0x07a0a286, 0x00000100, 0x670f8ffd, 0xffffffff, 0x68afcc49, 0xd8ae3dee,
                    0x84130b39, 0x1db59c36, 0x96356028, 0xe3bccfd6, 0x7fe9ac0f, 0xe9e6f7e9, 0xb9cc3ca4, 0xa525d6aa],
      case_kernel = eight_arguments_kernel,
      reg_inputs = [10, 14, 2, 6], reg5_init = 0xa94d8c31,
      memory_keys = [0x00000239, 0x00000472, 0x000008e4, 0x000011c8, 0x00002390, 0x00004720, 0x00008e40, 0x00011c80],
      case_stmts = [(Array_Scatter, 4, 5, 1), (Halfword_Swap, 2, 5, 3), (Sub_Borrow, 4, 4, 4), (Counted_Loop, 5, 3, 3),
                    (Endian_Swap, 5, 1, 1), (Switch_Phi, 0, 3, 3), (Endian_Swap, 2, 3, 2), (Carry_Chain, 2, 4, 4),
                    (Switch_Phi, 1, 5, 4), (Reverse_Loop, 5, 3, 2), (Endian_Swap, 2, 2, 3), (Short_Circuit, 1, 1, 2)]\<rparr>"

definition case_0570 :: "case_program" where
  "case_0570 =
     \<lparr>case_id = 570,
      case_input = [0xed53bf5c, 0x4f1d6b21, 0x110be1c8, 0xd3d3dbb7, 0x7fffffff, 0x1c90912e, 0x98b6b8b3, 0xd20d3e64,
                    0xf107deb5, 0xd23ad365, 0x903300a0, 0xe686c2bc, 0x0000007f, 0xaab44af9, 0x8dbd3f6d, 0xdf68a99c],
      case_kernel = eight_arguments_kernel,
      reg_inputs = [11, 15, 3, 7], reg5_init = 0x478505ea,
      memory_keys = [0x0000023a, 0x00000474, 0x000008e8, 0x000011d0, 0x000023a0, 0x00004740, 0x00008e80, 0x00011d00],
      case_stmts = [(Counted_Loop, 1, 5, 1), (Halfword_Swap, 1, 3, 2), (Sub_Borrow, 4, 3, 5), (Popcount_Loop, 4, 5, 2),
                    (Popcount_Loop, 3, 0, 5), (Sub_Borrow, 4, 3, 3), (Popcount_Loop, 2, 1, 5), (Multiply_Low, 2, 5, 5),
                    (Divide_Rem, 2, 5, 5), (Short_Circuit, 5, 4, 4), (Switch_Phi, 4, 4, 4), (Minmax_Clamp, 5, 4, 4)]\<rparr>"

definition case_0571 :: "case_program" where
  "case_0571 =
     \<lparr>case_id = 571,
      case_input = [0xadd19f1d, 0x531c3e66, 0xe49343ce, 0x80000000, 0x869a3889, 0x80000000, 0xd14d27ca, 0x00f8f8a8,
                    0x1640d564, 0x93d561aa, 0x06b5f787, 0x3eb031cd, 0xe0e0ebb1, 0x335250bf, 0x50072e54, 0xf65858e2],
      case_kernel = eight_arguments_kernel,
      reg_inputs = [12, 0, 4, 8], reg5_init = 0xe5bc7fa3,
      memory_keys = [0x0000023b, 0x00000476, 0x000008ec, 0x000011d8, 0x000023b0, 0x00004760, 0x00008ec0, 0x00011d80],
      case_stmts = [(Switch_Phi, 0, 0, 2), (Halfword_Swap, 2, 3, 3), (Sub_Borrow, 0, 5, 3), (Minmax_Clamp, 5, 3, 1),
                    (Counted_Loop, 1, 2, 3), (Gray_Decode, 2, 5, 0), (Multiply_Low, 3, 2, 4), (Carry_Chain, 5, 4, 5),
                    (Switch_Phi, 1, 0, 0), (Array_Scatter, 4, 0, 0), (Horner_Loop, 2, 4, 1), (Array_Scatter, 4, 2, 5)]\<rparr>"

definition case_0572 :: "case_program" where
  "case_0572 =
     \<lparr>case_id = 572,
      case_input = [0x6e5f7edb, 0x071c94b0, 0x345fc211, 0xcdf8ed1c, 0xb0776cc1, 0xf31273e6, 0xfffffffe, 0x72c1cc1e,
                    0xab3ded70, 0xc3c3f78a, 0x00000002, 0x3f131a97, 0xf6b8d819, 0x99f050d0, 0xed3ec1d8, 0xe5862ee8],
      case_kernel = eight_arguments_kernel,
      reg_inputs = [13, 1, 5, 9], reg5_init = 0x83f3f95c,
      memory_keys = [0x0000023c, 0x00000478, 0x000008f0, 0x000011e0, 0x000023c0, 0x00004780, 0x00008f00, 0x00011e00],
      case_stmts = [(Short_Circuit, 0, 5, 2), (Halfword_Swap, 2, 2, 5), (Sub_Borrow, 2, 1, 3), (Reverse_Loop, 3, 1, 2),
                    (Add_Carry, 2, 2, 0), (Short_Circuit, 1, 1, 2), (Compare_Select, 2, 0, 3), (Reverse_Loop, 0, 1, 1),
                    (Add_Carry, 4, 5, 5), (Reverse_Loop, 4, 1, 4), (Mask_Merge, 1, 4, 1), (Array_Scatter, 2, 3, 4)]\<rparr>"

definition case_0573 :: "case_program" where
  "case_0573 =
     \<lparr>case_id = 573,
      case_input = [0x2edd5e9a, 0x00000100, 0xc1c76017, 0x6df1983a, 0xa622e114, 0xe0f138e5, 0x26614e30, 0xffffffff,
                    0x4c7ae6a1, 0x822c4545, 0x1a5181b7, 0xe725e9e6, 0x2ebe1bf0, 0x00164a96, 0x3084d0e1, 0xccb6df96],
      case_kernel = eight_arguments_kernel,
      reg_inputs = [14, 2, 6, 10], reg5_init = 0x222b7315,
      memory_keys = [0x0000023d, 0x0000047a, 0x000008f4, 0x000011e8, 0x000023d0, 0x000047a0, 0x00008f40, 0x00011e80],
      case_stmts = [(Popcount_Loop, 1, 0, 5), (Halfword_Swap, 1, 2, 4), (Sub_Borrow, 4, 3, 3), (Horner_Loop, 0, 1, 1),
                    (Switch_Phi, 2, 2, 0), (Reverse_Loop, 1, 5, 3), (Short_Circuit, 3, 1, 0), (Gray_Decode, 1, 4, 3),
                    (Byte_Pack, 3, 4, 2), (Multiply_Low, 5, 3, 2), (Sub_Borrow, 1, 0, 2), (Halfword_Swap, 1, 3, 3)]\<rparr>"

definition case_0574 :: "case_program" where
  "case_0574 =
     \<lparr>case_id = 574,
      case_input = [0xef5b3e59, 0x3f1c3e3f, 0xd76c2359, 0x39e1ff7a, 0x51e2dbb5, 0x216c4962, 0xd6783aca, 0xaa970958,
                    0x00000000, 0x4da30a16, 0x1c57e13f, 0xe21fe48c, 0x69b19fa7, 0x4344f786, 0x04f5d328, 0xb6fba0a0],
      case_kernel = eight_arguments_kernel,
      reg_inputs = [15, 3, 7, 11], reg5_init = 0xc062ecce,
      memory_keys = [0x0000023e, 0x0000047c, 0x000008f8, 0x000011f0, 0x000023e0, 0x000047c0, 0x00008f80, 0x00011f00],
      case_stmts = [(Reverse_Loop, 4, 2, 5), (Halfword_Swap, 2, 0, 5), (Sub_Borrow, 2, 2, 2), (Add_Carry, 3, 1, 2),
                    (Switch_Phi, 2, 5, 4), (Halfword_Swap, 1, 1, 3), (Short_Circuit, 3, 3, 1), (Reverse_Loop, 5, 3, 4),
                    (Minmax_Clamp, 4, 0, 3), (Array_Scatter, 3, 0, 4), (Multiply_Low, 5, 0, 3),
                    (Minmax_Clamp, 1, 2, 1)]\<rparr>"

definition case_0575 :: "case_program" where
  "case_0575 =
     \<lparr>case_id = 575,
      case_input = [0x00000000, 0x231d6b78, 0x22f4815f, 0x99e88a5c, 0x47b75660, 0x328f0261, 0x9f83a5b3, 0x7862cf94,
                    0xde2938fc, 0x0c4cb8d9, 0x8ad11618, 0x3a2917fd, 0xb1b75c4e, 0xdaa2edc0, 0xd94fc211, 0x9fcb51de],
      case_kernel = struct_by_value_kernel,
      reg_inputs = [0, 4, 8, 12], reg5_init = 0x5e9a6687,
      memory_keys = [0x0000023f, 0x0000047e, 0x000008fc, 0x000011f8, 0x000023f0, 0x000047e0, 0x00008fc0, 0x00011f80],
      case_stmts = [(Gray_Decode, 1, 1, 4), (Halfword_Swap, 1, 2, 0), (Sub_Borrow, 0, 0, 0), (Mask_Merge, 2, 1, 5),
                    (Halfword_Swap, 2, 3, 0), (Counted_Loop, 5, 1, 4), (Rotate_Mix, 4, 2, 4), (Gray_Decode, 4, 0, 2),
                    (Switch_Phi, 3, 5, 2), (Short_Circuit, 0, 0, 4), (Horner_Loop, 3, 4, 4), (Mask_Merge, 4, 0, 4)]\<rparr>"

definition case_0576 :: "case_program" where
  "case_0576 =
     \<lparr>case_id = 576,
      case_input = [0x50a8e1b8, 0x00000001, 0x3a2ab272, 0xa1cb79c1, 0x860ba753, 0x44cb8ee1, 0xffd0695f, 0x1d9f1916,
                    0xea03801d, 0x1d64f81a, 0x1f6039c9, 0x5dca440f, 0x954b1396, 0xf8127e56, 0x0e70b0b0, 0xe59a588d],
      case_kernel = struct_by_value_kernel,
      reg_inputs = [1, 5, 9, 13], reg5_init = 0xfcd1e040,
      memory_keys = [0x00000240, 0x00000480, 0x00000900, 0x00001200, 0x00002400, 0x00004800, 0x00009000, 0x00012000],
      case_stmts = [(Minmax_Clamp, 4, 0, 4), (Halfword_Swap, 1, 2, 3), (Sub_Borrow, 3, 5, 1), (Endian_Swap, 5, 2, 1),
                    (Short_Circuit, 3, 3, 0), (Switch_Phi, 1, 4, 2), (Horner_Loop, 0, 5, 5), (Divide_Rem, 2, 2, 5),
                    (Horner_Loop, 1, 5, 4), (Add_Carry, 5, 4, 5), (Array_Scatter, 5, 1, 4), (Halfword_Swap, 5, 5, 4)]\<rparr>"

definition case_0577 :: "case_program" where
  "case_0577 =
     \<lparr>case_id = 577,
      case_input = [0x102ac1f9, 0xcb0493bf, 0x00000002, 0x01c20ce7, 0x905e2a86, 0x5728c5e2, 0xb62bf626, 0xcf6adfda,
                    0x0d448bcc, 0x5c8b4ad5, 0x89e6ceee, 0x85fcb77e, 0x4d4dd07f, 0x61f46410, 0xd3caa189, 0xccaaa9f3],
      case_kernel = struct_by_value_kernel,
      reg_inputs = [2, 6, 10, 14], reg5_init = 0x9b0959f9,
      memory_keys = [0x00000241, 0x00000482, 0x00000904, 0x00001208, 0x00002410, 0x00004820, 0x00009040, 0x00012080],
      case_stmts = [(Endian_Swap, 1, 1, 3), (Halfword_Swap, 0, 4, 4), (Sub_Borrow, 1, 5, 1), (Halfword_Swap, 4, 0, 4),
                    (Horner_Loop, 5, 1, 2), (Mask_Merge, 3, 4, 3), (Array_Scatter, 3, 4, 2), (Mask_Merge, 5, 1, 3),
                    (Minmax_Clamp, 2, 2, 1), (Mask_Merge, 0, 2, 5), (Sub_Borrow, 3, 3, 3), (Endian_Swap, 0, 3, 5)]\<rparr>"

definition case_0578 :: "case_program" where
  "case_0578 =
     \<lparr>case_id = 578,
      case_input = [0xd1aca13a, 0xef056c77, 0xd919533a, 0x00000003, 0x679e1027, 0x96b5b465, 0x463282dc, 0xc5c9dc50,
                    0x78505e40, 0x93040586, 0x8fe0ae66, 0x80c6ba14, 0x0a425428, 0x22a6d900, 0xe7bba240, 0xb6e7d6c5],
      case_kernel = struct_by_value_kernel,
      reg_inputs = [3, 7, 11, 15], reg5_init = 0x3940d3b2,
      memory_keys = [0x00000242, 0x00000484, 0x00000908, 0x00001210, 0x00002420, 0x00004840, 0x00009080, 0x00012100],
      case_stmts = [(Carry_Chain, 2, 5, 5), (Halfword_Swap, 1, 4, 5), (Sub_Borrow, 1, 4, 2), (Horner_Loop, 1, 4, 3),
                    (Horner_Loop, 3, 2, 2), (Byte_Pack, 5, 2, 5), (Popcount_Loop, 5, 2, 1), (Short_Circuit, 3, 0, 2),
                    (Switch_Phi, 1, 4, 2), (Multiply_Low, 4, 1, 5), (Multiply_Low, 3, 1, 0), (Mask_Merge, 0, 0, 3)]\<rparr>"

definition case_0579 :: "case_program" where
  "case_0579 =
     \<lparr>case_id = 579,
      case_input = [0x912e817b, 0xf3043930, 0x2c81f13c, 0xf5db1e81, 0x0000007f, 0x8556ff66, 0x0fc91da5, 0x173c1a9c,
                    0x9f175591, 0xd2ebb749, 0x19665941, 0x58f04965, 0xd24497c1, 0xbb40c346, 0x3a01b379, 0x9fd727bb],
      case_kernel = struct_by_value_kernel,
      reg_inputs = [4, 8, 12, 0], reg5_init = 0xd7784d6b,
      memory_keys = [0x00000243, 0x00000486, 0x0000090c, 0x00001218, 0x00002430, 0x00004860, 0x000090c0, 0x00012180],
      case_stmts = [(Horner_Loop, 1, 2, 4), (Halfword_Swap, 4, 4, 0), (Sub_Borrow, 1, 2, 4), (Counted_Loop, 4, 4, 4),
                    (Minmax_Clamp, 3, 2, 4), (Mask_Merge, 1, 4, 4), (Multiply_Low, 4, 1, 4), (Popcount_Loop, 0, 3, 2),
                    (Short_Circuit, 4, 5, 1), (Reverse_Loop, 1, 1, 3), (Horner_Loop, 3, 5, 5), (Divide_Rem, 3, 4, 2)]\<rparr>"

definition case_0580 :: "case_program" where
  "case_0580 =
     \<lparr>case_id = 580,
      case_input = [0x52a060bd, 0xa70493e6, 0xfc4d70e3, 0x4bf95d0c, 0x4726c9ba, 0x00000080, 0xb11eeb26, 0x65052e2a,
                    0x226a6d85, 0x82fd2169, 0x9304d856, 0x5953623f, 0xc41ca469, 0x11e2c329, 0x87385cf5, 0x8c0951b1],
      case_kernel = struct_by_value_kernel,
      reg_inputs = [5, 9, 13, 1], reg5_init = 0x75afc724,
      memory_keys = [0x00000244, 0x00000488, 0x00000910, 0x00001220, 0x00002440, 0x00004880, 0x00009100, 0x00012200],
      case_stmts = [(Add_Carry, 3, 1, 4), (Array_Scatter, 4, 3, 2), (Sub_Borrow, 1, 4, 0), (Short_Circuit, 2, 2, 1),
                    (Reverse_Loop, 2, 2, 5), (Compare_Select, 0, 2, 2), (Reverse_Loop, 3, 5, 5),
                    (Array_Scatter, 1, 4, 2), (Horner_Loop, 1, 4, 0), (Popcount_Loop, 1, 4, 5),
                    (Popcount_Loop, 0, 3, 3), (Divide_Rem, 5, 1, 3)]\<rparr>"

definition case_0581 :: "case_program" where
  "case_0581 =
     \<lparr>case_id = 581,
      case_input = [0x122240fc, 0xbb05c6a1, 0x09d5d2e5, 0xebf0282a, 0x5173446f, 0x6ad41dae, 0x000000ff, 0xb7f0e8e6,
                    0xc52d6654, 0xc31293a6, 0x05822f71, 0x8165914e, 0x1c1a6780, 0x8804d96f, 0x5a824dcc, 0xa539a0cf],
      case_kernel = struct_by_value_kernel,
      reg_inputs = [6, 10, 14, 2], reg5_init = 0x13e740dd,
      memory_keys = [0x00000245, 0x0000048a, 0x00000914, 0x00001228, 0x00002450, 0x000048a0, 0x00009140, 0x00012280],
      case_stmts = [(Sub_Borrow, 4, 0, 5), (Array_Scatter, 3, 1, 1), (Sub_Borrow, 1, 4, 0), (Mask_Merge, 1, 4, 4),
                    (Endian_Swap, 2, 4, 1), (Minmax_Clamp, 4, 0, 1), (Short_Circuit, 0, 0, 2), (Halfword_Swap, 2, 1, 4),
                    (Short_Circuit, 4, 1, 5), (Short_Circuit, 0, 0, 3), (Sub_Borrow, 0, 5, 2), (Mask_Merge, 2, 3, 2)]\<rparr>"

definition case_0582 :: "case_program" where
  "case_0582 =
     \<lparr>case_id = 582,
      case_input = [0xd3a4203f, 0x9f043969, 0x1f7e91ab, 0xbfe04f6a, 0xa6b37ece, 0xab496c29, 0x08fc00a5, 0x00000100,
                    0xb039b3d8, 0x0c9ddcf5, 0x03844ff9, 0x845f9c24, 0x5b15e3d7, 0xcb56647f, 0x6ef34e05, 0xdf74dff9],
      case_kernel = struct_by_value_kernel,
      reg_inputs = [7, 11, 15, 3], reg5_init = 0xb21eba96,
      memory_keys = [0x00000246, 0x0000048c, 0x00000918, 0x00001230, 0x00002460, 0x000048c0, 0x00009180, 0x00012300],
      case_stmts = [(Rotate_Mix, 3, 0, 1), (Array_Scatter, 0, 1, 0), (Sub_Borrow, 5, 3, 3), (Reverse_Loop, 4, 2, 5),
                    (Endian_Swap, 2, 3, 1), (Rotate_Mix, 0, 2, 1), (Halfword_Swap, 0, 4, 5), (Popcount_Loop, 4, 4, 1),
                    (Byte_Pack, 3, 3, 0), (Counted_Loop, 2, 3, 1), (Byte_Pack, 4, 5, 5), (Sub_Borrow, 0, 2, 0)]\<rparr>"

definition case_0583 :: "case_program" where
  "case_0583 =
     \<lparr>case_id = 583,
      case_input = [0x9326007e, 0x83056c2e, 0xeae633ad, 0x1fe93a4c, 0xb0e6f31b, 0xb8aa272a, 0x41079fdc, 0x6fa62da0,
                    0x7fffffff, 0x4d726e3a, 0x9502b8de, 0x5c696f55, 0x8313203e, 0x52b07e39, 0xb3495f3c, 0xf6442e87],
      case_kernel = struct_by_value_kernel,
      reg_inputs = [8, 12, 0, 4], reg5_init = 0x5056344f,
      memory_keys = [0x00000247, 0x0000048e, 0x0000091c, 0x00001238, 0x00002470, 0x000048e0, 0x000091c0, 0x00012380],
      case_stmts = [(Multiply_Low, 4, 1, 0), (Array_Scatter, 5, 3, 1), (Sub_Borrow, 5, 5, 5), (Byte_Pack, 5, 2, 2),
                    (Carry_Chain, 0, 3, 5), (Minmax_Clamp, 2, 2, 4), (Carry_Chain, 3, 1, 0), (Short_Circuit, 1, 1, 1),
                    (Divide_Rem, 2, 4, 1), (Byte_Pack, 5, 1, 1), (Multiply_Low, 2, 1, 2), (Divide_Rem, 1, 2, 1)]\<rparr>"

definition case_0584 :: "case_program" where
  "case_0584 =
     \<lparr>case_id = 584,
      case_input = [0x54b9e3b2, 0x37076cc4, 0xb6e53751, 0x75af305b, 0x06517a80, 0x3f343e78, 0xfb4bc0e9, 0x48a48f55,
                    0x1eeabbe3, 0x80000000, 0x7f3298e0, 0xcab35554, 0xd50d72d1, 0x6a64d744, 0x8596e966, 0xb672fa01],
      case_kernel = struct_by_value_kernel,
      reg_inputs = [9, 13, 1, 5], reg5_init = 0xee8dae08,
      memory_keys = [0x00000248, 0x00000490, 0x00000920, 0x00001240, 0x00002480, 0x00004900, 0x00009200, 0x00012400],
      case_stmts = [(Divide_Rem, 2, 5, 1), (Array_Scatter, 2, 4, 3), (Sub_Borrow, 5, 2, 5), (Gray_Decode, 1, 4, 1),
                    (Add_Carry, 5, 2, 1), (Divide_Rem, 0, 1, 3), (Array_Scatter, 4, 3, 2), (Byte_Pack, 2, 4, 0),
                    (Rotate_Mix, 3, 2, 0), (Carry_Chain, 4, 0, 5), (Counted_Loop, 1, 0, 2), (Rotate_Mix, 3, 1, 2)]\<rparr>"

definition case_0585 :: "case_program" where
  "case_0585 =
     \<lparr>case_id = 585,
      case_input = [0x143bc3f3, 0x2b063983, 0x437d9557, 0xd5a6457d, 0x1004f755, 0x2cd7757b, 0xb2b05f90, 0x9a514999,
                    0xf9adb032, 0x5f45b1f5, 0xfffffffe, 0x1285a625, 0x0d0bb138, 0xf382cd02, 0x582cf85f, 0x9f420b7f],
      case_kernel = struct_by_value_kernel,
      reg_inputs = [10, 14, 2, 6], reg5_init = 0x8cc527c1,
      memory_keys = [0x00000249, 0x00000492, 0x00000924, 0x00001248, 0x00002490, 0x00004920, 0x00009240, 0x00012480],
      case_stmts = [(Mask_Merge, 3, 0, 0), (Array_Scatter, 3, 4, 2), (Sub_Borrow, 1, 4, 5), (Compare_Select, 0, 2, 2),
                    (Gray_Decode, 3, 0, 5), (Counted_Loop, 2, 1, 0), (Gray_Decode, 5, 0, 1), (Counted_Loop, 3, 5, 0),
                    (Popcount_Loop, 0, 3, 3), (Multiply_Low, 5, 0, 3), (Carry_Chain, 3, 2, 1), (Horner_Loop, 2, 1, 5)]\<rparr>"

definition case_0586 :: "case_program" where
  "case_0586 =
     \<lparr>case_id = 586,
      case_input = [0xd5bda330, 0x0f07c64b, 0x55d6d619, 0x81b6223d, 0xe7c4cdf4, 0xed4a04fc, 0x42a92b6a, 0x90f24a13,
                    0x8cb965be, 0x90cafea6, 0xefb20f4f, 0xffffffff, 0x4a04356f, 0xb0d07012, 0x6c5dfb96, 0xe50f7449],
      case_kernel = struct_by_value_kernel,
      reg_inputs = [11, 15, 3, 7], reg5_init = 0x2afca17a,
      memory_keys = [0x0000024a, 0x00000494, 0x00000928, 0x00001250, 0x000024a0, 0x00004940, 0x00009280, 0x00012500],
      case_stmts = [(Compare_Select, 0, 2, 4), (Array_Scatter, 0, 0, 3), (Sub_Borrow, 1, 1, 2),
                    (Popcount_Loop, 5, 2, 1), (Gray_Decode, 5, 3, 5), (Halfword_Swap, 0, 5, 2), (Gray_Decode, 5, 2, 4),
                    (Horner_Loop, 3, 0, 1), (Carry_Chain, 3, 1, 0), (Popcount_Loop, 3, 1, 5), (Divide_Rem, 5, 4, 2),
                    (Byte_Pack, 0, 2, 1)]\<rparr>"

definition case_0587 :: "case_program" where
  "case_0587 =
     \<lparr>case_id = 587,
      case_input = [0x953f8371, 0x1306930c, 0xa04e741f, 0x21bf571b, 0x00000000, 0xfea94fff, 0x0b52b413, 0x42078cdf,
                    0x6bfe6e6f, 0xd1254c69, 0x7934f868, 0xcf89583e, 0x00000000, 0x29366a54, 0xb1e7eaaf, 0xcc3f8537],
      case_kernel = struct_by_value_kernel,
      reg_inputs = [12, 0, 4, 8], reg5_init = 0xc9341b33,
      memory_keys = [0x0000024b, 0x00000496, 0x0000092c, 0x00001258, 0x000024b0, 0x00004960, 0x000092c0, 0x00012580],
      case_stmts = [(Byte_Pack, 1, 1, 1), (Array_Scatter, 5, 0, 4), (Sub_Borrow, 1, 5, 0), (Divide_Rem, 4, 2, 0),
                    (Divide_Rem, 1, 3, 3), (Rotate_Mix, 4, 1, 5), (Sub_Borrow, 0, 3, 3), (Carry_Chain, 2, 3, 3),
                    (Sub_Borrow, 4, 2, 1), (Halfword_Swap, 4, 5, 1), (Add_Carry, 1, 2, 1), (Counted_Loop, 1, 4, 4)]\<rparr>"

definition case_0588 :: "case_program" where
  "case_0588 =
     \<lparr>case_id = 588,
      case_input = [0x56b162b7, 0x470639da, 0x7082f5c0, 0x9f9d1496, 0xc77c1469, 0x02c8e634, 0xb5854290, 0x303eb869,
                    0xd683567b, 0x8133da49, 0xf356797f, 0x00000080, 0x845ac52e, 0x00000001, 0x0cde0523, 0xdfe1f33d],
      case_kernel = struct_by_value_kernel,
      reg_inputs = [13, 1, 5, 9], reg5_init = 0x676b94ec,
      memory_keys = [0x0000024c, 0x00000498, 0x00000930, 0x00001260, 0x000024c0, 0x00004980, 0x00009300, 0x00012600],
      case_stmts = [(Halfword_Swap, 3, 4, 3), (Array_Scatter, 5, 1, 0), (Sub_Borrow, 1, 1, 0), (Counted_Loop, 0, 2, 5),
                    (Counted_Loop, 2, 3, 4), (Popcount_Loop, 3, 5, 3), (Add_Carry, 1, 5, 0), (Rotate_Mix, 5, 0, 1),
                    (Reverse_Loop, 1, 1, 0), (Gray_Decode, 0, 0, 5), (Reverse_Loop, 4, 4, 3), (Carry_Chain, 1, 3, 5)]\<rparr>"

definition case_0589 :: "case_program" where
  "case_0589 =
     \<lparr>case_id = 589,
      case_input = [0x163342f6, 0x5b076c9d, 0xfffffffe, 0x3f9461b0, 0xd12999bc, 0x112bad37, 0xfc7edde9, 0xe2cb7ea5,
                    0x31c45daa, 0xc0dc6886, 0x65d08e58, 0x161c8015, 0x5c5c06c7, 0x1a72707d, 0x00000002, 0xf6d10243],
      case_kernel = struct_by_value_kernel,
      reg_inputs = [14, 2, 6, 10], reg5_init = 0x05a30ea5,
      memory_keys = [0x0000024d, 0x0000049a, 0x00000934, 0x00001268, 0x000024d0, 0x000049a0, 0x00009340, 0x00012680],
      case_stmts = [(Array_Scatter, 4, 3, 4), (Array_Scatter, 4, 3, 3), (Sub_Borrow, 3, 1, 4), (Multiply_Low, 3, 2, 0),
                    (Mask_Merge, 2, 1, 4), (Gray_Decode, 3, 1, 0), (Rotate_Mix, 4, 2, 3), (Byte_Pack, 2, 5, 3),
                    (Sub_Borrow, 0, 0, 5), (Rotate_Mix, 1, 4, 1), (Compare_Select, 2, 0, 0), (Multiply_Low, 4, 5, 0)]\<rparr>"

definition case_0590 :: "case_program" where
  "case_0590 =
     \<lparr>case_id = 590,
      case_input = [0xd7b52235, 0x7f069355, 0x93b11488, 0x6b8406f0, 0x26e9a31d, 0xd0b6dcb0, 0x0c67a913, 0xe8687d2f,
                    0x44d08826, 0x00000003, 0x63d6eed0, 0x13268d7f, 0x1b538290, 0x5920cd6d, 0xe51517d3, 0x00000003],
      case_kernel = struct_by_value_kernel,
      reg_inputs = [15, 3, 7, 11], reg5_init = 0xa3da885e,
      memory_keys = [0x0000024e, 0x0000049c, 0x00000938, 0x00001270, 0x000024e0, 0x000049c0, 0x00009380, 0x00012700],
      case_stmts = [(Counted_Loop, 3, 1, 0), (Array_Scatter, 5, 1, 2), (Sub_Borrow, 5, 0, 5), (Halfword_Swap, 0, 2, 3),
                    (Mask_Merge, 2, 4, 4), (Endian_Swap, 5, 3, 4), (Counted_Loop, 4, 2, 2), (Rotate_Mix, 2, 4, 0),
                    (Carry_Chain, 1, 0, 2), (Minmax_Clamp, 3, 3, 1), (Minmax_Clamp, 0, 4, 1), (Byte_Pack, 2, 4, 2)]\<rparr>"

definition case_0591 :: "case_program" where
  "case_0591 =
     \<lparr>case_id = 591,
      case_input = [0x7fffffff, 0x6307c612, 0x6629b68e, 0xcb8d73d6, 0x30bc2ec8, 0xc35597b3, 0x459c366a, 0x3a9dbbe3,
                    0xa39783f7, 0x4ebc951a, 0xf55019f7, 0xcb107e0e, 0xc3554179, 0xc0c6d72b, 0x38af06ea, 0xa5ac8c0b],
      case_kernel = struct_by_value_kernel,
      reg_inputs = [0, 4, 8, 12], reg5_init = 0x42120217,
      memory_keys = [0x0000024f, 0x0000049e, 0x0000093c, 0x00001278, 0x000024f0, 0x000049e0, 0x000093c0, 0x00012780],
      case_stmts = [(Switch_Phi, 0, 2, 1), (Array_Scatter, 0, 3, 3), (Sub_Borrow, 3, 0, 1), (Sub_Borrow, 1, 0, 4),
                    (Reverse_Loop, 2, 2, 0), (Horner_Loop, 5, 1, 1), (Halfword_Swap, 3, 3, 1), (Multiply_Low, 5, 3, 0),
                    (Sub_Borrow, 2, 5, 5), (Sub_Borrow, 2, 1, 5), (Add_Carry, 0, 2, 2), (Compare_Select, 5, 0, 3)]\<rparr>"

definition case_0592 :: "case_program" where
  "case_0592 =
     \<lparr>case_id = 592,
      case_input = [0x588ae5ac, 0x00000080, 0x21b5b834, 0x0b05eaf4, 0x1dbeb1b0, 0x8e3bbaac, 0xadd48f83, 0x00000001,
                    0xba8b91bb, 0x64d9808b, 0xb5c60f84, 0xccfdf27f, 0xbd62b3f3, 0xa91a3e04, 0x424afe32, 0x67b3b8e1],
      case_kernel = struct_by_value_kernel,
      reg_inputs = [1, 5, 9, 13], reg5_init = 0xe0497bd0,
      memory_keys = [0x00000250, 0x000004a0, 0x00000940, 0x00001280, 0x00002500, 0x00004a00, 0x00009400, 0x00012800],
      case_stmts = [(Short_Circuit, 1, 5, 2), (Array_Scatter, 2, 4, 1), (Sub_Borrow, 5, 1, 4),
                    (Array_Scatter, 0, 1, 1), (Halfword_Swap, 3, 4, 0), (Array_Scatter, 0, 0, 4),
                    (Reverse_Loop, 4, 1, 3), (Horner_Loop, 1, 4, 3), (Reverse_Loop, 1, 2, 2), (Short_Circuit, 0, 1, 4),
                    (Add_Carry, 0, 3, 1), (Reverse_Loop, 1, 4, 5)]\<rparr>"

definition case_0593 :: "case_program" where
  "case_0593 =
     \<lparr>case_id = 593,
      case_input = [0x1808c5ed, 0x0b01c7c7, 0x000000ff, 0xab0c9fd2, 0x0beb3c65, 0x9dd8f1af, 0xe42f10fa, 0x99d3a26f,
                    0x5dcc9a6a, 0x25363244, 0x2340f8a3, 0x14cb010e, 0x6564701a, 0x30fc2442, 0x000000ff, 0x4e83499f],
      case_kernel = struct_by_value_kernel,
      reg_inputs = [2, 6, 10, 14], reg5_init = 0x7e80f589,
      memory_keys = [0x00000251, 0x000004a2, 0x00000944, 0x00001288, 0x00002510, 0x00004a20, 0x00009440, 0x00012880],
      case_stmts = [(Popcount_Loop, 4, 4, 1), (Array_Scatter, 1, 2, 2), (Sub_Borrow, 1, 1, 0), (Divide_Rem, 1, 3, 4),
                    (Gray_Decode, 1, 2, 0), (Gray_Decode, 2, 4, 5), (Add_Carry, 5, 4, 2), (Counted_Loop, 2, 3, 5),
                    (Sub_Borrow, 0, 1, 5), (Endian_Swap, 1, 1, 4), (Halfword_Swap, 0, 5, 2), (Switch_Phi, 2, 0, 4)]\<rparr>"

definition case_0594 :: "case_program" where
  "case_0594 =
     \<lparr>case_id = 594,
      case_input = [0xd98ea52e, 0x2f00380f, 0xc286597c, 0x00000100, 0xfc2b06c4, 0xffffffff, 0x14366400, 0x9370a1e5,
                    0x28d84fe6, 0xeab97d17, 0x2546982b, 0x11f10c64, 0x226bf44d, 0x73ae9952, 0xab81ecc2, 0x34ce36a9],
      case_kernel = struct_by_value_kernel,
      reg_inputs = [3, 7, 11, 15], reg5_init = 0x1cb86f42,
      memory_keys = [0x00000252, 0x000004a4, 0x00000948, 0x00001290, 0x00002520, 0x00004a40, 0x00009480, 0x00012900],
      case_stmts = [(Reverse_Loop, 5, 0, 5), (Array_Scatter, 2, 4, 5), (Sub_Borrow, 5, 0, 5), (Switch_Phi, 0, 3, 1),
                    (Switch_Phi, 3, 5, 0), (Array_Scatter, 2, 2, 1), (Short_Circuit, 1, 0, 3), (Multiply_Low, 2, 4, 2),
                    (Compare_Select, 3, 3, 2), (Gray_Decode, 3, 4, 4), (Rotate_Mix, 0, 5, 1), (Multiply_Low, 4, 3, 4)]\<rparr>"

definition case_0595 :: "case_program" where
  "case_0595 =
     \<lparr>case_id = 595,
      case_input = [0x990c856f, 0x33016d48, 0x371efb7a, 0x5f158db4, 0x7fffffff, 0x4fa6cb2b, 0x5dcdfb79, 0x41856729,
                    0xcf9f4437, 0xab56cfd8, 0xb3c06f0c, 0xc9c7ff15, 0x0000007f, 0xea488314, 0x763bfdfb, 0x1dfec7d7],
      case_kernel = struct_by_value_kernel,
      reg_inputs = [4, 8, 12, 0], reg5_init = 0xbaefe8fb,
      memory_keys = [0x00000253, 0x000004a6, 0x0000094c, 0x00001298, 0x00002530, 0x00004a60, 0x000094c0, 0x00012980],
      case_stmts = [(Gray_Decode, 2, 1, 4), (Array_Scatter, 3, 4, 4), (Sub_Borrow, 5, 0, 1), (Compare_Select, 5, 5, 2),
                    (Halfword_Swap, 5, 3, 2), (Byte_Pack, 4, 0, 0), (Rotate_Mix, 2, 5, 4), (Counted_Loop, 5, 3, 4),
                    (Popcount_Loop, 0, 2, 3), (Counted_Loop, 4, 4, 4), (Rotate_Mix, 4, 5, 2), (Counted_Loop, 1, 1, 3)]\<rparr>"

definition case_0596 :: "case_program" where
  "case_0596 =
     \<lparr>case_id = 596,
      case_input = [0x5a8264a9, 0x6701c79e, 0xe7d27aa5, 0x80000000, 0xdc93df59, 0x80000000, 0xe31a0dfa, 0x33bc539f,
                    0x72e27c23, 0xfb4059f8, 0x39a2ee1b, 0xc864d44f, 0xec35040c, 0x40ea837b, 0xcb021277, 0x0e20b1dd],
      case_kernel = struct_by_value_kernel,
      reg_inputs = [5, 9, 13, 1], reg5_init = 0x592762b4,
      memory_keys = [0x00000254, 0x000004a8, 0x00000950, 0x000012a0, 0x00002540, 0x00004a80, 0x00009500, 0x00012a00],
      case_stmts = [(Minmax_Clamp, 4, 2, 4), (Array_Scatter, 5, 3, 2), (Sub_Borrow, 1, 2, 3), (Short_Circuit, 3, 3, 3),
                    (Carry_Chain, 0, 1, 3), (Minmax_Clamp, 3, 4, 2), (Switch_Phi, 3, 1, 5), (Rotate_Mix, 2, 2, 4),
                    (Counted_Loop, 5, 5, 0), (Mask_Merge, 0, 5, 4), (Add_Carry, 1, 5, 4), (Rotate_Mix, 5, 4, 4)]\<rparr>"

definition case_0597 :: "case_program" where
  "case_0597 =
     \<lparr>case_id = 597,
      case_input = [0x1a0044e8, 0x7b0092d9, 0x124ad8a3, 0x413ebb1f, 0xcac6528c, 0xa02429e3, 0xfffffffe, 0xe1499553,
                    0x95a577f2, 0xbaafeb37, 0x00000002, 0x1052273e, 0x3433c7e5, 0xd90c993d, 0x16b8034e, 0x271040a3],
      case_kernel = struct_by_value_kernel,
      reg_inputs = [6, 10, 14, 2], reg5_init = 0xf75edc6d,
      memory_keys = [0x00000255, 0x000004aa, 0x00000954, 0x000012a8, 0x00002550, 0x00004aa0, 0x00009540, 0x00012a80],
      case_stmts = [(Endian_Swap, 5, 3, 1), (Array_Scatter, 2, 1, 5), (Sub_Borrow, 5, 0, 5), (Array_Scatter, 2, 3, 4),
                    (Endian_Swap, 4, 1, 1), (Counted_Loop, 5, 2, 5), (Endian_Swap, 4, 2, 0), (Byte_Pack, 3, 3, 4),
                    (Mask_Merge, 0, 0, 5), (Halfword_Swap, 3, 1, 0), (Minmax_Clamp, 5, 1, 3), (Gray_Decode, 0, 4, 5)]\<rparr>"

definition case_0598 :: "case_program" where
  "case_0598 =
     \<lparr>case_id = 598,
      case_input = [0xdb86242b, 0x00000100, 0x04e19bed, 0x152edc5f, 0x3d06682d, 0x61b95864, 0x5af8e679, 0xffffffff,
                    0xe0b1a27e, 0x7520a464, 0xa92279b4, 0x15682a54, 0x733c43b2, 0x9a5e242d, 0x22c90087, 0x5d5d3f95],
      case_kernel = struct_by_value_kernel,
      reg_inputs = [7, 11, 15, 3], reg5_init = 0x95965626,
      memory_keys = [0x00000256, 0x000004ac, 0x00000958, 0x000012b0, 0x00002560, 0x00004ac0, 0x00009580, 0x00012b00],
      case_stmts = [(Carry_Chain, 2, 3, 5), (Array_Scatter, 3, 5, 0), (Sub_Borrow, 3, 5, 2), (Reverse_Loop, 5, 1, 1),
                    (Mask_Merge, 2, 0, 5), (Divide_Rem, 1, 0, 1), (Sub_Borrow, 4, 2, 1), (Carry_Chain, 1, 4, 5),
                    (Compare_Select, 1, 4, 2), (Compare_Select, 3, 2, 4), (Rotate_Mix, 1, 5, 0), (Switch_Phi, 2, 3, 5)]\<rparr>"

definition case_0599 :: "case_program" where
  "case_0599 =
     \<lparr>case_id = 599,
      case_input = [0x9b04046a, 0x43003856, 0xf17939eb, 0xb527a979, 0x2b53e5f8, 0x725a1367, 0x13037900, 0x391f5015,
                    0x00000000, 0x34cf16ab, 0x3fa48e93, 0xcd5ed925, 0xab3a805b, 0x03b83e6b, 0xff7311be, 0x746dceeb],
      case_kernel = struct_by_value_kernel,
      reg_inputs = [8, 12, 0, 4], reg5_init = 0x33cdcfdf,
      memory_keys = [0x00000257, 0x000004ae, 0x0000095c, 0x000012b8, 0x00002570, 0x00004ae0, 0x000095c0, 0x00012b80],
      case_stmts = [(Horner_Loop, 3, 4, 4), (Array_Scatter, 0, 5, 1), (Sub_Borrow, 1, 3, 4), (Switch_Phi, 0, 3, 0),
                    (Rotate_Mix, 4, 0, 3), (Counted_Loop, 3, 4, 2), (Horner_Loop, 3, 3, 4), (Horner_Loop, 2, 5, 5),
                    (Popcount_Loop, 4, 3, 5), (Multiply_Low, 0, 4, 2), (Compare_Select, 1, 5, 5),
                    (Compare_Select, 3, 5, 2)]\<rparr>"

lemma conforms_0500: "conforms case_0500 (short_circuit_prediction 0)"
  by (rule conformsI) (simp_all add: case_0500_def upt_rec stmt_ok_def short_circuit_predicted)

lemma conforms_0501: "conforms case_0501 (short_circuit_prediction 1)"
  by (rule conformsI) (simp_all add: case_0501_def upt_rec stmt_ok_def short_circuit_predicted)

lemma conforms_0502: "conforms case_0502 (short_circuit_prediction 2)"
  by (rule conformsI) (simp_all add: case_0502_def upt_rec stmt_ok_def short_circuit_predicted)

lemma conforms_0503: "conforms case_0503 (short_circuit_prediction 3)"
  by (rule conformsI) (simp_all add: case_0503_def upt_rec stmt_ok_def short_circuit_predicted)

lemma conforms_0504: "conforms case_0504 (short_circuit_prediction 4)"
  by (rule conformsI) (simp_all add: case_0504_def upt_rec stmt_ok_def short_circuit_predicted)

lemma conforms_0505: "conforms case_0505 (short_circuit_prediction 5)"
  by (rule conformsI) (simp_all add: case_0505_def upt_rec stmt_ok_def short_circuit_predicted)

lemma conforms_0506: "conforms case_0506 (short_circuit_prediction 6)"
  by (rule conformsI) (simp_all add: case_0506_def upt_rec stmt_ok_def short_circuit_predicted)

lemma conforms_0507: "conforms case_0507 (short_circuit_prediction 7)"
  by (rule conformsI) (simp_all add: case_0507_def upt_rec stmt_ok_def short_circuit_predicted)

lemma conforms_0508: "conforms case_0508 (short_circuit_prediction 8)"
  by (rule conformsI) (simp_all add: case_0508_def upt_rec stmt_ok_def short_circuit_predicted)

lemma conforms_0509: "conforms case_0509 (short_circuit_prediction 9)"
  by (rule conformsI) (simp_all add: case_0509_def upt_rec stmt_ok_def short_circuit_predicted)

lemma conforms_0510: "conforms case_0510 (short_circuit_prediction 10)"
  by (rule conformsI) (simp_all add: case_0510_def upt_rec stmt_ok_def short_circuit_predicted)

lemma conforms_0511: "conforms case_0511 (short_circuit_prediction 11)"
  by (rule conformsI) (simp_all add: case_0511_def upt_rec stmt_ok_def short_circuit_predicted)

lemma conforms_0512: "conforms case_0512 (short_circuit_prediction 12)"
  by (rule conformsI) (simp_all add: case_0512_def upt_rec stmt_ok_def short_circuit_predicted)

lemma conforms_0513: "conforms case_0513 (short_circuit_prediction 13)"
  by (rule conformsI) (simp_all add: case_0513_def upt_rec stmt_ok_def short_circuit_predicted)

lemma conforms_0514: "conforms case_0514 (short_circuit_prediction 14)"
  by (rule conformsI) (simp_all add: case_0514_def upt_rec stmt_ok_def short_circuit_predicted)

lemma conforms_0515: "conforms case_0515 (short_circuit_prediction 15)"
  by (rule conformsI) (simp_all add: case_0515_def upt_rec stmt_ok_def short_circuit_predicted)

lemma conforms_0516: "conforms case_0516 (short_circuit_prediction 16)"
  by (rule conformsI) (simp_all add: case_0516_def upt_rec stmt_ok_def short_circuit_predicted)

lemma conforms_0517: "conforms case_0517 (short_circuit_prediction 17)"
  by (rule conformsI) (simp_all add: case_0517_def upt_rec stmt_ok_def short_circuit_predicted)

lemma conforms_0518: "conforms case_0518 (short_circuit_prediction 18)"
  by (rule conformsI) (simp_all add: case_0518_def upt_rec stmt_ok_def short_circuit_predicted)

lemma conforms_0519: "conforms case_0519 (short_circuit_prediction 19)"
  by (rule conformsI) (simp_all add: case_0519_def upt_rec stmt_ok_def short_circuit_predicted)

lemma conforms_0520: "conforms case_0520 (short_circuit_prediction 20)"
  by (rule conformsI) (simp_all add: case_0520_def upt_rec stmt_ok_def short_circuit_predicted)

lemma conforms_0521: "conforms case_0521 (short_circuit_prediction 21)"
  by (rule conformsI) (simp_all add: case_0521_def upt_rec stmt_ok_def short_circuit_predicted)

lemma conforms_0522: "conforms case_0522 (short_circuit_prediction 22)"
  by (rule conformsI) (simp_all add: case_0522_def upt_rec stmt_ok_def short_circuit_predicted)

lemma conforms_0523: "conforms case_0523 (short_circuit_prediction 23)"
  by (rule conformsI) (simp_all add: case_0523_def upt_rec stmt_ok_def short_circuit_predicted)

lemma conforms_0524: "conforms case_0524 (short_circuit_prediction 24)"
  by (rule conformsI) (simp_all add: case_0524_def upt_rec stmt_ok_def short_circuit_predicted)

lemma conforms_0525: "conforms case_0525 (nested_break_prediction 3 0)"
  by (rule conformsI) (simp_all add: case_0525_def upt_rec stmt_ok_def nested_break_predicted)

lemma conforms_0526: "conforms case_0526 (nested_break_prediction 4 1)"
  by (rule conformsI) (simp_all add: case_0526_def upt_rec stmt_ok_def nested_break_predicted)

lemma conforms_0527: "conforms case_0527 (nested_break_prediction 5 2)"
  by (rule conformsI) (simp_all add: case_0527_def upt_rec stmt_ok_def nested_break_predicted)

lemma conforms_0528: "conforms case_0528 (nested_break_prediction 6 3)"
  by (rule conformsI) (simp_all add: case_0528_def upt_rec stmt_ok_def nested_break_predicted)

lemma conforms_0529: "conforms case_0529 (nested_break_prediction 7 4)"
  by (rule conformsI) (simp_all add: case_0529_def upt_rec stmt_ok_def nested_break_predicted)

lemma conforms_0530: "conforms case_0530 (nested_break_prediction 8 5)"
  by (rule conformsI) (simp_all add: case_0530_def upt_rec stmt_ok_def nested_break_predicted)

lemma conforms_0531: "conforms case_0531 (nested_break_prediction 3 6)"
  by (rule conformsI) (simp_all add: case_0531_def upt_rec stmt_ok_def nested_break_predicted)

lemma conforms_0532: "conforms case_0532 (nested_break_prediction 4 7)"
  by (rule conformsI) (simp_all add: case_0532_def upt_rec stmt_ok_def nested_break_predicted)

lemma conforms_0533: "conforms case_0533 (nested_break_prediction 5 8)"
  by (rule conformsI) (simp_all add: case_0533_def upt_rec stmt_ok_def nested_break_predicted)

lemma conforms_0534: "conforms case_0534 (nested_break_prediction 6 9)"
  by (rule conformsI) (simp_all add: case_0534_def upt_rec stmt_ok_def nested_break_predicted)

lemma conforms_0535: "conforms case_0535 (nested_break_prediction 7 10)"
  by (rule conformsI) (simp_all add: case_0535_def upt_rec stmt_ok_def nested_break_predicted)

lemma conforms_0536: "conforms case_0536 (nested_break_prediction 8 11)"
  by (rule conformsI) (simp_all add: case_0536_def upt_rec stmt_ok_def nested_break_predicted)

lemma conforms_0537: "conforms case_0537 (nested_break_prediction 3 12)"
  by (rule conformsI) (simp_all add: case_0537_def upt_rec stmt_ok_def nested_break_predicted)

lemma conforms_0538: "conforms case_0538 (nested_break_prediction 4 13)"
  by (rule conformsI) (simp_all add: case_0538_def upt_rec stmt_ok_def nested_break_predicted)

lemma conforms_0539: "conforms case_0539 (nested_break_prediction 5 14)"
  by (rule conformsI) (simp_all add: case_0539_def upt_rec stmt_ok_def nested_break_predicted)

lemma conforms_0540: "conforms case_0540 (nested_break_prediction 6 15)"
  by (rule conformsI) (simp_all add: case_0540_def upt_rec stmt_ok_def nested_break_predicted)

lemma conforms_0541: "conforms case_0541 (nested_break_prediction 7 16)"
  by (rule conformsI) (simp_all add: case_0541_def upt_rec stmt_ok_def nested_break_predicted)

lemma conforms_0542: "conforms case_0542 (nested_break_prediction 8 17)"
  by (rule conformsI) (simp_all add: case_0542_def upt_rec stmt_ok_def nested_break_predicted)

lemma conforms_0543: "conforms case_0543 (nested_break_prediction 3 18)"
  by (rule conformsI) (simp_all add: case_0543_def upt_rec stmt_ok_def nested_break_predicted)

lemma conforms_0544: "conforms case_0544 (nested_break_prediction 4 19)"
  by (rule conformsI) (simp_all add: case_0544_def upt_rec stmt_ok_def nested_break_predicted)

lemma conforms_0545: "conforms case_0545 (nested_break_prediction 5 20)"
  by (rule conformsI) (simp_all add: case_0545_def upt_rec stmt_ok_def nested_break_predicted)

lemma conforms_0546: "conforms case_0546 (nested_break_prediction 6 21)"
  by (rule conformsI) (simp_all add: case_0546_def upt_rec stmt_ok_def nested_break_predicted)

lemma conforms_0547: "conforms case_0547 (nested_break_prediction 7 22)"
  by (rule conformsI) (simp_all add: case_0547_def upt_rec stmt_ok_def nested_break_predicted)

lemma conforms_0548: "conforms case_0548 (nested_break_prediction 8 23)"
  by (rule conformsI) (simp_all add: case_0548_def upt_rec stmt_ok_def nested_break_predicted)

lemma conforms_0549: "conforms case_0549 (nested_break_prediction 3 24)"
  by (rule conformsI) (simp_all add: case_0549_def upt_rec stmt_ok_def nested_break_predicted)

lemma conforms_0550: "conforms case_0550 (eight_arguments_prediction)"
  by (rule conformsI) (simp_all add: case_0550_def upt_rec stmt_ok_def eight_arguments_predicted)

lemma conforms_0551: "conforms case_0551 (eight_arguments_prediction)"
  by (rule conformsI) (simp_all add: case_0551_def upt_rec stmt_ok_def eight_arguments_predicted)

lemma conforms_0552: "conforms case_0552 (eight_arguments_prediction)"
  by (rule conformsI) (simp_all add: case_0552_def upt_rec stmt_ok_def eight_arguments_predicted)

lemma conforms_0553: "conforms case_0553 (eight_arguments_prediction)"
  by (rule conformsI) (simp_all add: case_0553_def upt_rec stmt_ok_def eight_arguments_predicted)

lemma conforms_0554: "conforms case_0554 (eight_arguments_prediction)"
  by (rule conformsI) (simp_all add: case_0554_def upt_rec stmt_ok_def eight_arguments_predicted)

lemma conforms_0555: "conforms case_0555 (eight_arguments_prediction)"
  by (rule conformsI) (simp_all add: case_0555_def upt_rec stmt_ok_def eight_arguments_predicted)

lemma conforms_0556: "conforms case_0556 (eight_arguments_prediction)"
  by (rule conformsI) (simp_all add: case_0556_def upt_rec stmt_ok_def eight_arguments_predicted)

lemma conforms_0557: "conforms case_0557 (eight_arguments_prediction)"
  by (rule conformsI) (simp_all add: case_0557_def upt_rec stmt_ok_def eight_arguments_predicted)

lemma conforms_0558: "conforms case_0558 (eight_arguments_prediction)"
  by (rule conformsI) (simp_all add: case_0558_def upt_rec stmt_ok_def eight_arguments_predicted)

lemma conforms_0559: "conforms case_0559 (eight_arguments_prediction)"
  by (rule conformsI) (simp_all add: case_0559_def upt_rec stmt_ok_def eight_arguments_predicted)

lemma conforms_0560: "conforms case_0560 (eight_arguments_prediction)"
  by (rule conformsI) (simp_all add: case_0560_def upt_rec stmt_ok_def eight_arguments_predicted)

lemma conforms_0561: "conforms case_0561 (eight_arguments_prediction)"
  by (rule conformsI) (simp_all add: case_0561_def upt_rec stmt_ok_def eight_arguments_predicted)

lemma conforms_0562: "conforms case_0562 (eight_arguments_prediction)"
  by (rule conformsI) (simp_all add: case_0562_def upt_rec stmt_ok_def eight_arguments_predicted)

lemma conforms_0563: "conforms case_0563 (eight_arguments_prediction)"
  by (rule conformsI) (simp_all add: case_0563_def upt_rec stmt_ok_def eight_arguments_predicted)

lemma conforms_0564: "conforms case_0564 (eight_arguments_prediction)"
  by (rule conformsI) (simp_all add: case_0564_def upt_rec stmt_ok_def eight_arguments_predicted)

lemma conforms_0565: "conforms case_0565 (eight_arguments_prediction)"
  by (rule conformsI) (simp_all add: case_0565_def upt_rec stmt_ok_def eight_arguments_predicted)

lemma conforms_0566: "conforms case_0566 (eight_arguments_prediction)"
  by (rule conformsI) (simp_all add: case_0566_def upt_rec stmt_ok_def eight_arguments_predicted)

lemma conforms_0567: "conforms case_0567 (eight_arguments_prediction)"
  by (rule conformsI) (simp_all add: case_0567_def upt_rec stmt_ok_def eight_arguments_predicted)

lemma conforms_0568: "conforms case_0568 (eight_arguments_prediction)"
  by (rule conformsI) (simp_all add: case_0568_def upt_rec stmt_ok_def eight_arguments_predicted)

lemma conforms_0569: "conforms case_0569 (eight_arguments_prediction)"
  by (rule conformsI) (simp_all add: case_0569_def upt_rec stmt_ok_def eight_arguments_predicted)

lemma conforms_0570: "conforms case_0570 (eight_arguments_prediction)"
  by (rule conformsI) (simp_all add: case_0570_def upt_rec stmt_ok_def eight_arguments_predicted)

lemma conforms_0571: "conforms case_0571 (eight_arguments_prediction)"
  by (rule conformsI) (simp_all add: case_0571_def upt_rec stmt_ok_def eight_arguments_predicted)

lemma conforms_0572: "conforms case_0572 (eight_arguments_prediction)"
  by (rule conformsI) (simp_all add: case_0572_def upt_rec stmt_ok_def eight_arguments_predicted)

lemma conforms_0573: "conforms case_0573 (eight_arguments_prediction)"
  by (rule conformsI) (simp_all add: case_0573_def upt_rec stmt_ok_def eight_arguments_predicted)

lemma conforms_0574: "conforms case_0574 (eight_arguments_prediction)"
  by (rule conformsI) (simp_all add: case_0574_def upt_rec stmt_ok_def eight_arguments_predicted)

lemma conforms_0575: "conforms case_0575 (struct_by_value_prediction)"
  by (rule conformsI) (simp_all add: case_0575_def upt_rec stmt_ok_def struct_by_value_predicted)

lemma conforms_0576: "conforms case_0576 (struct_by_value_prediction)"
  by (rule conformsI) (simp_all add: case_0576_def upt_rec stmt_ok_def struct_by_value_predicted)

lemma conforms_0577: "conforms case_0577 (struct_by_value_prediction)"
  by (rule conformsI) (simp_all add: case_0577_def upt_rec stmt_ok_def struct_by_value_predicted)

lemma conforms_0578: "conforms case_0578 (struct_by_value_prediction)"
  by (rule conformsI) (simp_all add: case_0578_def upt_rec stmt_ok_def struct_by_value_predicted)

lemma conforms_0579: "conforms case_0579 (struct_by_value_prediction)"
  by (rule conformsI) (simp_all add: case_0579_def upt_rec stmt_ok_def struct_by_value_predicted)

lemma conforms_0580: "conforms case_0580 (struct_by_value_prediction)"
  by (rule conformsI) (simp_all add: case_0580_def upt_rec stmt_ok_def struct_by_value_predicted)

lemma conforms_0581: "conforms case_0581 (struct_by_value_prediction)"
  by (rule conformsI) (simp_all add: case_0581_def upt_rec stmt_ok_def struct_by_value_predicted)

lemma conforms_0582: "conforms case_0582 (struct_by_value_prediction)"
  by (rule conformsI) (simp_all add: case_0582_def upt_rec stmt_ok_def struct_by_value_predicted)

lemma conforms_0583: "conforms case_0583 (struct_by_value_prediction)"
  by (rule conformsI) (simp_all add: case_0583_def upt_rec stmt_ok_def struct_by_value_predicted)

lemma conforms_0584: "conforms case_0584 (struct_by_value_prediction)"
  by (rule conformsI) (simp_all add: case_0584_def upt_rec stmt_ok_def struct_by_value_predicted)

lemma conforms_0585: "conforms case_0585 (struct_by_value_prediction)"
  by (rule conformsI) (simp_all add: case_0585_def upt_rec stmt_ok_def struct_by_value_predicted)

lemma conforms_0586: "conforms case_0586 (struct_by_value_prediction)"
  by (rule conformsI) (simp_all add: case_0586_def upt_rec stmt_ok_def struct_by_value_predicted)

lemma conforms_0587: "conforms case_0587 (struct_by_value_prediction)"
  by (rule conformsI) (simp_all add: case_0587_def upt_rec stmt_ok_def struct_by_value_predicted)

lemma conforms_0588: "conforms case_0588 (struct_by_value_prediction)"
  by (rule conformsI) (simp_all add: case_0588_def upt_rec stmt_ok_def struct_by_value_predicted)

lemma conforms_0589: "conforms case_0589 (struct_by_value_prediction)"
  by (rule conformsI) (simp_all add: case_0589_def upt_rec stmt_ok_def struct_by_value_predicted)

lemma conforms_0590: "conforms case_0590 (struct_by_value_prediction)"
  by (rule conformsI) (simp_all add: case_0590_def upt_rec stmt_ok_def struct_by_value_predicted)

lemma conforms_0591: "conforms case_0591 (struct_by_value_prediction)"
  by (rule conformsI) (simp_all add: case_0591_def upt_rec stmt_ok_def struct_by_value_predicted)

lemma conforms_0592: "conforms case_0592 (struct_by_value_prediction)"
  by (rule conformsI) (simp_all add: case_0592_def upt_rec stmt_ok_def struct_by_value_predicted)

lemma conforms_0593: "conforms case_0593 (struct_by_value_prediction)"
  by (rule conformsI) (simp_all add: case_0593_def upt_rec stmt_ok_def struct_by_value_predicted)

lemma conforms_0594: "conforms case_0594 (struct_by_value_prediction)"
  by (rule conformsI) (simp_all add: case_0594_def upt_rec stmt_ok_def struct_by_value_predicted)

lemma conforms_0595: "conforms case_0595 (struct_by_value_prediction)"
  by (rule conformsI) (simp_all add: case_0595_def upt_rec stmt_ok_def struct_by_value_predicted)

lemma conforms_0596: "conforms case_0596 (struct_by_value_prediction)"
  by (rule conformsI) (simp_all add: case_0596_def upt_rec stmt_ok_def struct_by_value_predicted)

lemma conforms_0597: "conforms case_0597 (struct_by_value_prediction)"
  by (rule conformsI) (simp_all add: case_0597_def upt_rec stmt_ok_def struct_by_value_predicted)

lemma conforms_0598: "conforms case_0598 (struct_by_value_prediction)"
  by (rule conformsI) (simp_all add: case_0598_def upt_rec stmt_ok_def struct_by_value_predicted)

lemma conforms_0599: "conforms case_0599 (struct_by_value_prediction)"
  by (rule conformsI) (simp_all add: case_0599_def upt_rec stmt_ok_def struct_by_value_predicted)

definition corpus_5 :: "(nat \<Rightarrow> u32) \<Rightarrow> (case_program \<times> (u32 list \<Rightarrow> u32)) list" where
  "corpus_5 junk =
    [(case_0500, short_circuit_prediction 0),
     (case_0501, short_circuit_prediction 1),
     (case_0502, short_circuit_prediction 2),
     (case_0503, short_circuit_prediction 3),
     (case_0504, short_circuit_prediction 4),
     (case_0505, short_circuit_prediction 5),
     (case_0506, short_circuit_prediction 6),
     (case_0507, short_circuit_prediction 7),
     (case_0508, short_circuit_prediction 8),
     (case_0509, short_circuit_prediction 9),
     (case_0510, short_circuit_prediction 10),
     (case_0511, short_circuit_prediction 11),
     (case_0512, short_circuit_prediction 12),
     (case_0513, short_circuit_prediction 13),
     (case_0514, short_circuit_prediction 14),
     (case_0515, short_circuit_prediction 15),
     (case_0516, short_circuit_prediction 16),
     (case_0517, short_circuit_prediction 17),
     (case_0518, short_circuit_prediction 18),
     (case_0519, short_circuit_prediction 19),
     (case_0520, short_circuit_prediction 20),
     (case_0521, short_circuit_prediction 21),
     (case_0522, short_circuit_prediction 22),
     (case_0523, short_circuit_prediction 23),
     (case_0524, short_circuit_prediction 24),
     (case_0525, nested_break_prediction 3 0),
     (case_0526, nested_break_prediction 4 1),
     (case_0527, nested_break_prediction 5 2),
     (case_0528, nested_break_prediction 6 3),
     (case_0529, nested_break_prediction 7 4),
     (case_0530, nested_break_prediction 8 5),
     (case_0531, nested_break_prediction 3 6),
     (case_0532, nested_break_prediction 4 7),
     (case_0533, nested_break_prediction 5 8),
     (case_0534, nested_break_prediction 6 9),
     (case_0535, nested_break_prediction 7 10),
     (case_0536, nested_break_prediction 8 11),
     (case_0537, nested_break_prediction 3 12),
     (case_0538, nested_break_prediction 4 13),
     (case_0539, nested_break_prediction 5 14),
     (case_0540, nested_break_prediction 6 15),
     (case_0541, nested_break_prediction 7 16),
     (case_0542, nested_break_prediction 8 17),
     (case_0543, nested_break_prediction 3 18),
     (case_0544, nested_break_prediction 4 19),
     (case_0545, nested_break_prediction 5 20),
     (case_0546, nested_break_prediction 6 21),
     (case_0547, nested_break_prediction 7 22),
     (case_0548, nested_break_prediction 8 23),
     (case_0549, nested_break_prediction 3 24),
     (case_0550, eight_arguments_prediction),
     (case_0551, eight_arguments_prediction),
     (case_0552, eight_arguments_prediction),
     (case_0553, eight_arguments_prediction),
     (case_0554, eight_arguments_prediction),
     (case_0555, eight_arguments_prediction),
     (case_0556, eight_arguments_prediction),
     (case_0557, eight_arguments_prediction),
     (case_0558, eight_arguments_prediction),
     (case_0559, eight_arguments_prediction),
     (case_0560, eight_arguments_prediction),
     (case_0561, eight_arguments_prediction),
     (case_0562, eight_arguments_prediction),
     (case_0563, eight_arguments_prediction),
     (case_0564, eight_arguments_prediction),
     (case_0565, eight_arguments_prediction),
     (case_0566, eight_arguments_prediction),
     (case_0567, eight_arguments_prediction),
     (case_0568, eight_arguments_prediction),
     (case_0569, eight_arguments_prediction),
     (case_0570, eight_arguments_prediction),
     (case_0571, eight_arguments_prediction),
     (case_0572, eight_arguments_prediction),
     (case_0573, eight_arguments_prediction),
     (case_0574, eight_arguments_prediction),
     (case_0575, struct_by_value_prediction),
     (case_0576, struct_by_value_prediction),
     (case_0577, struct_by_value_prediction),
     (case_0578, struct_by_value_prediction),
     (case_0579, struct_by_value_prediction),
     (case_0580, struct_by_value_prediction),
     (case_0581, struct_by_value_prediction),
     (case_0582, struct_by_value_prediction),
     (case_0583, struct_by_value_prediction),
     (case_0584, struct_by_value_prediction),
     (case_0585, struct_by_value_prediction),
     (case_0586, struct_by_value_prediction),
     (case_0587, struct_by_value_prediction),
     (case_0588, struct_by_value_prediction),
     (case_0589, struct_by_value_prediction),
     (case_0590, struct_by_value_prediction),
     (case_0591, struct_by_value_prediction),
     (case_0592, struct_by_value_prediction),
     (case_0593, struct_by_value_prediction),
     (case_0594, struct_by_value_prediction),
     (case_0595, struct_by_value_prediction),
     (case_0596, struct_by_value_prediction),
     (case_0597, struct_by_value_prediction),
     (case_0598, struct_by_value_prediction),
     (case_0599, struct_by_value_prediction)]"

lemmas corpus_5_programs =
  conforms_0500 conforms_0501 conforms_0502 conforms_0503 conforms_0504 conforms_0505 conforms_0506 conforms_0507
  conforms_0508 conforms_0509 conforms_0510 conforms_0511 conforms_0512 conforms_0513 conforms_0514 conforms_0515
  conforms_0516 conforms_0517 conforms_0518 conforms_0519 conforms_0520 conforms_0521 conforms_0522 conforms_0523
  conforms_0524 conforms_0525 conforms_0526 conforms_0527 conforms_0528 conforms_0529 conforms_0530 conforms_0531
  conforms_0532 conforms_0533 conforms_0534 conforms_0535 conforms_0536 conforms_0537 conforms_0538 conforms_0539
  conforms_0540 conforms_0541 conforms_0542 conforms_0543 conforms_0544 conforms_0545 conforms_0546 conforms_0547
  conforms_0548 conforms_0549 conforms_0550 conforms_0551 conforms_0552 conforms_0553 conforms_0554 conforms_0555
  conforms_0556 conforms_0557 conforms_0558 conforms_0559 conforms_0560 conforms_0561 conforms_0562 conforms_0563
  conforms_0564 conforms_0565 conforms_0566 conforms_0567 conforms_0568 conforms_0569 conforms_0570 conforms_0571
  conforms_0572 conforms_0573 conforms_0574 conforms_0575 conforms_0576 conforms_0577 conforms_0578 conforms_0579
  conforms_0580 conforms_0581 conforms_0582 conforms_0583 conforms_0584 conforms_0585 conforms_0586 conforms_0587
  conforms_0588 conforms_0589 conforms_0590 conforms_0591 conforms_0592 conforms_0593 conforms_0594 conforms_0595
  conforms_0596 conforms_0597 conforms_0598 conforms_0599

lemma corpus_5_conforms: "list_all (\<lambda>(c, prediction). conforms c prediction) (corpus_5 junk)"
  unfolding corpus_5_def list.pred_inject prod.case by (intro conjI corpus_5_programs list.pred_inject(1))

lemma corpus_5_ids: "map (\<lambda>(c, prediction). case_id c) (corpus_5 junk) = [500..<600]"
  by (simp add: corpus_5_def upt_conv_Cons
      case_0500_def case_0501_def case_0502_def case_0503_def case_0504_def case_0505_def case_0506_def
      case_0507_def case_0508_def case_0509_def case_0510_def case_0511_def case_0512_def case_0513_def
      case_0514_def case_0515_def case_0516_def case_0517_def case_0518_def case_0519_def case_0520_def
      case_0521_def case_0522_def case_0523_def case_0524_def case_0525_def case_0526_def case_0527_def
      case_0528_def case_0529_def case_0530_def case_0531_def case_0532_def case_0533_def case_0534_def
      case_0535_def case_0536_def case_0537_def case_0538_def case_0539_def case_0540_def case_0541_def
      case_0542_def case_0543_def case_0544_def case_0545_def case_0546_def case_0547_def case_0548_def
      case_0549_def case_0550_def case_0551_def case_0552_def case_0553_def case_0554_def case_0555_def
      case_0556_def case_0557_def case_0558_def case_0559_def case_0560_def case_0561_def case_0562_def
      case_0563_def case_0564_def case_0565_def case_0566_def case_0567_def case_0568_def case_0569_def
      case_0570_def case_0571_def case_0572_def case_0573_def case_0574_def case_0575_def case_0576_def
      case_0577_def case_0578_def case_0579_def case_0580_def case_0581_def case_0582_def case_0583_def
      case_0584_def case_0585_def case_0586_def case_0587_def case_0588_def case_0589_def case_0590_def
      case_0591_def case_0592_def case_0593_def case_0594_def case_0595_def case_0596_def case_0597_def
      case_0598_def case_0599_def)

end
