(* ===== verification/Corpus_Cases_6.thy ===== *)
theory Corpus_Cases_6
  imports Corpus_Checksums Corpus_Bits Corpus_Control Corpus_Algorithms Corpus_Buffers
begin

text \<open>
  The programs 600 to 699 of the edge-case corpus, one definition per file: inputs, kernel with the parameters of the
  scenario, initial literals and statements, as the C text has them.  Their kernels are the struct return,
  function pointer, gcd and deadline kernels.  Every program conforms to the prediction of its kernel.
\<close>

definition case_0600 :: "case_program" where
  "case_0600 =
     \<lparr>case_id = 600,
      case_input = [0x00000000, 0xf70238bc, 0xad7a3d17, 0xdf61a36e, 0x9de46c63, 0xf5c40a35, 0xa94f2635, 0x1e1df2e0,
                    0x4e62aa45, 0x67177bab, 0xd594aead, 0x5b84e324, 0xfd24d2b4, 0x3b6c9716, 0xc9aca7e4, 0x345b1a6d],
      case_kernel = struct_return_kernel,
      reg_inputs = [9, 13, 1, 5], reg5_init = 0xd2054998,
      memory_keys = [0x00000258, 0x000004b0, 0x00000960, 0x000012c0, 0x00002580, 0x00004b00, 0x00009600, 0x00012c00],
      case_stmts = [(Add_Carry, 3, 4, 5), (Counted_Loop, 1, 4, 1), (Sub_Borrow, 5, 4, 0), (Byte_Pack, 4, 5, 3),
                    (Short_Circuit, 5, 1, 1), (Reverse_Loop, 1, 5, 3), (Minmax_Clamp, 2, 3, 4), (Divide_Rem, 1, 4, 2),
                    (Multiply_Low, 3, 1, 0), (Compare_Select, 3, 1, 4), (Gray_Decode, 0, 0, 3),
                    (Minmax_Clamp, 3, 4, 5)]\<rparr>"

definition case_0601 :: "case_program" where
  "case_0601 =
     \<lparr>case_id = 601,
      case_input = [0x1c19c7e7, 0x00000001, 0x58e29f11, 0x7f68d648, 0x8bb1e1b6, 0xe6274136, 0xe0b4b94c, 0xcce8342c,
                    0xa925a194, 0x26f8c964, 0x4312598a, 0x83b21055, 0x2522115d, 0xa28a8d50, 0x1416b6dd, 0x1d6beb13],
      case_kernel = struct_return_kernel,
      reg_inputs = [10, 14, 2, 6], reg5_init = 0x703cc351,
      memory_keys = [0x00000259, 0x000004b2, 0x00000964, 0x000012c8, 0x00002590, 0x00004b20, 0x00009640, 0x00012c80],
      case_stmts = [(Sub_Borrow, 2, 5, 4), (Counted_Loop, 2, 2, 2), (Sub_Borrow, 1, 4, 2), (Rotate_Mix, 1, 1, 4),
                    (Byte_Pack, 3, 1, 5), (Halfword_Swap, 1, 5, 0), (Counted_Loop, 1, 2, 3), (Array_Scatter, 4, 1, 2),
                    (Divide_Rem, 2, 0, 3), (Horner_Loop, 2, 5, 0), (Gray_Decode, 4, 4, 4), (Mask_Merge, 4, 2, 4)]\<rparr>"

definition case_0602 :: "case_program" where
  "case_0602 =
     \<lparr>case_id = 602,
      case_input = [0xdd9fa724, 0xcf029233, 0x00000002, 0x2b78b108, 0x7c71db17, 0x27ba30b1, 0x10adcdb6, 0xc64b37a6,
                    0xdc317418, 0xe9778637, 0x45143902, 0x86881d3f, 0x622d950a, 0xe1d83040, 0x2067b514, 0x67269425],
      case_kernel = struct_return_kernel,
      reg_inputs = [11, 15, 3, 7], reg5_init = 0x0e743d0a,
      memory_keys = [0x0000025a, 0x000004b4, 0x00000968, 0x000012d0, 0x000025a0, 0x00004b40, 0x00009680, 0x00012d00],
      case_stmts = [(Rotate_Mix, 5, 3, 2), (Counted_Loop, 1, 2, 3), (Sub_Borrow, 5, 3, 3), (Mask_Merge, 4, 5, 3),
                    (Switch_Phi, 1, 2, 1), (Carry_Chain, 5, 3, 0), (Reverse_Loop, 1, 0, 4), (Divide_Rem, 4, 2, 3),
                    (Byte_Pack, 3, 0, 2), (Endian_Swap, 0, 2, 0), (Endian_Swap, 2, 4, 5), (Array_Scatter, 4, 1, 2)]\<rparr>"

definition case_0603 :: "case_program" where
  "case_0603 =
     \<lparr>case_id = 603,
      case_input = [0x9d1d8765, 0xd303c774, 0xbbd17e59, 0x00000003, 0x6a2456c2, 0x34597bb2, 0x595652cf, 0x14bef16a,
                    0x3b767fc9, 0xa89834f8, 0xd392ce25, 0x5ebeee4e, 0xba2b56e3, 0x783e2a06, 0xfddda42d, 0x4e16655b],
      case_kernel = struct_return_kernel,
      reg_inputs = [12, 0, 4, 8], reg5_init = 0xacabb6c3,
      memory_keys = [0x0000025b, 0x000004b6, 0x0000096c, 0x000012d8, 0x000025b0, 0x00004b60, 0x000096c0, 0x00012d80],
      case_stmts = [(Multiply_Low, 0, 0, 5), (Counted_Loop, 4, 0, 2), (Sub_Borrow, 1, 5, 3), (Add_Carry, 5, 5, 4),
                    (Add_Carry, 1, 2, 1), (Halfword_Swap, 3, 5, 1), (Minmax_Clamp, 2, 3, 5), (Array_Scatter, 1, 5, 5),
                    (Divide_Rem, 0, 5, 5), (Add_Carry, 3, 0, 0), (Popcount_Loop, 0, 4, 0), (Divide_Rem, 1, 1, 1)]\<rparr>"

definition case_0604 :: "case_program" where
  "case_0604 =
     \<lparr>case_id = 604,
      case_input = [0x5e9366a3, 0x87036da2, 0x6b1dff86, 0x355387a3, 0x0000007f, 0xc838d279, 0xe781a44c, 0x6687c5dc,
                    0x860b47dd, 0xf88ea2d8, 0x59f04f32, 0x5f1dc514, 0xac73654b, 0xd29c2a69, 0x40e44ba1, 0x5dc81351],
      case_kernel = struct_return_kernel,
      reg_inputs = [13, 1, 5, 9], reg5_init = 0x4ae3307c,
      memory_keys = [0x0000025c, 0x000004b8, 0x00000970, 0x000012e0, 0x000025c0, 0x00004b80, 0x00009700, 0x00012e00],
      case_stmts = [(Divide_Rem, 2, 1, 5), (Counted_Loop, 2, 5, 2), (Sub_Borrow, 1, 1, 5), (Counted_Loop, 3, 3, 1),
                    (Carry_Chain, 2, 0, 0), (Byte_Pack, 0, 5, 5), (Endian_Swap, 1, 5, 4), (Mask_Merge, 2, 4, 1),
                    (Horner_Loop, 5, 4, 0), (Switch_Phi, 5, 1, 0), (Horner_Loop, 5, 2, 0), (Add_Carry, 1, 2, 0)]\<rparr>"

definition case_0605 :: "case_program" where
  "case_0605 =
     \<lparr>case_id = 605,
      case_input = [0x1e1146e2, 0x9b0238e5, 0x9e855d80, 0x955af285, 0x4a9c8f5f, 0x00000080, 0xae7a3b35, 0xb4720310,
                    0x614c4c0c, 0xb9611017, 0xcf76b815, 0x872b3665, 0x7475a6a2, 0x4b7a302f, 0x9d5e5a98, 0x74f8e22f],
      case_kernel = struct_return_kernel,
      reg_inputs = [14, 2, 6, 10], reg5_init = 0xe91aaa35,
      memory_keys = [0x0000025d, 0x000004ba, 0x00000974, 0x000012e8, 0x000025d0, 0x00004ba0, 0x00009740, 0x00012e80],
      case_stmts = [(Mask_Merge, 1, 4, 2), (Counted_Loop, 5, 1, 1), (Sub_Borrow, 5, 5, 3), (Byte_Pack, 0, 1, 2),
                    (Array_Scatter, 0, 0, 4), (Array_Scatter, 0, 1, 2), (Multiply_Low, 2, 4, 1),
                    (Minmax_Clamp, 5, 1, 3), (Divide_Rem, 2, 5, 3), (Reverse_Loop, 4, 1, 4), (Gray_Decode, 1, 4, 1),
                    (Popcount_Loop, 2, 0, 5)]\<rparr>"

definition case_0606 :: "case_program" where
  "case_0606 =
     \<lparr>case_id = 606,
      case_input = [0xdf972621, 0xbf03c72d, 0x882e1ece, 0xc14a95c5, 0xbd5cb5fe, 0x1a46e8fd, 0x000000ff, 0xbed1009a,
                    0x14589980, 0x76ee5f44, 0xc970d89d, 0x82113b0f, 0x337a22f5, 0x08288d3f, 0xa92f5951, 0x0eb59d19],
      case_kernel = struct_return_kernel,
      reg_inputs = [15, 3, 7, 11], reg5_init = 0x875223ee,
      memory_keys = [0x0000025e, 0x000004bc, 0x00000978, 0x000012f0, 0x000025e0, 0x00004bc0, 0x00009780, 0x00012f00],
      case_stmts = [(Compare_Select, 0, 0, 2), (Counted_Loop, 2, 1, 0), (Sub_Borrow, 3, 2, 0),
                    (Halfword_Swap, 3, 3, 5), (Array_Scatter, 2, 3, 2), (Byte_Pack, 2, 5, 4), (Gray_Decode, 0, 0, 2),
                    (Mask_Merge, 1, 2, 4), (Switch_Phi, 3, 3, 2), (Halfword_Swap, 2, 0, 2), (Array_Scatter, 1, 4, 2),
                    (Endian_Swap, 4, 3, 5)]\<rparr>"

definition case_0607 :: "case_program" where
  "case_0607 =
     \<lparr>case_id = 607,
      case_input = [0x9f150660, 0xa302926a, 0x7db6bcc8, 0x6143e0e3, 0xab09382b, 0x09a5a3fe, 0x1798d0b6, 0x00000100,
                    0xf31f9251, 0x3701ed8b, 0x5ff62fba, 0x5a27c87e, 0xeb7ce11c, 0x91ce9779, 0x74954868, 0x27856c67],
      case_kernel = struct_return_kernel,
      reg_inputs = [0, 4, 8, 12], reg5_init = 0x25899da7,
      memory_keys = [0x0000025f, 0x000004be, 0x0000097c, 0x000012f8, 0x000025f0, 0x00004be0, 0x000097c0, 0x00012f80],
      case_stmts = [(Byte_Pack, 1, 5, 1), (Counted_Loop, 1, 1, 5), (Sub_Borrow, 1, 0, 2), (Mask_Merge, 2, 1, 2),
                    (Reverse_Loop, 0, 1, 0), (Endian_Swap, 2, 3, 5), (Popcount_Loop, 3, 3, 5), (Minmax_Clamp, 0, 5, 4),
                    (Divide_Rem, 0, 4, 3), (Array_Scatter, 5, 4, 0), (Endian_Swap, 5, 4, 3), (Divide_Rem, 3, 1, 2)]\<rparr>"

definition case_0608 :: "case_program" where
  "case_0608 =
     \<lparr>case_id = 608,
      case_input = [0x40ece990, 0x570f6e09, 0x0f14a6ff, 0xf6525fab, 0x22618295, 0x522dee6b, 0x79d945a3, 0xefa11e57,
                    0x7fffffff, 0x8ca1afe7, 0x5685bd4e, 0xe1196ecb, 0x6227e1e2, 0x6efc4933, 0x026fe7b4, 0xf8bdab5c],
      case_kernel = struct_return_kernel,
      reg_inputs = [1, 5, 9, 13], reg5_init = 0xc3c11760,
      memory_keys = [0x00000260, 0x000004c0, 0x00000980, 0x00001300, 0x00002600, 0x00004c00, 0x00009800, 0x00013000],
      case_stmts = [(Halfword_Swap, 3, 3, 0), (Counted_Loop, 1, 5, 5), (Sub_Borrow, 4, 1, 0), (Array_Scatter, 5, 3, 4),
                    (Popcount_Loop, 4, 5, 0), (Reverse_Loop, 4, 3, 5), (Mask_Merge, 5, 1, 1), (Compare_Select, 2, 3, 5),
                    (Array_Scatter, 3, 2, 0), (Add_Carry, 2, 2, 5), (Divide_Rem, 1, 5, 0), (Multiply_Low, 3, 5, 4)]\<rparr>"

definition case_0609 :: "case_program" where
  "case_0609 =
     \<lparr>case_id = 609,
      case_input = [0x006ec9d1, 0x4b0e3b4e, 0xfa8c04f9, 0x565b2a8d, 0x34340f40, 0x41cea568, 0x3022dada, 0x3d54d89b,
                    0x66a8ea57, 0x80000000, 0xc0034a69, 0x392f9dba, 0xba21220b, 0xf71a5375, 0xdfd5f68d, 0xd18d5a22],
      case_kernel = struct_return_kernel,
      reg_inputs = [2, 6, 10, 14], reg5_init = 0x61f89119,
      memory_keys = [0x00000261, 0x000004c2, 0x00000984, 0x00001308, 0x00002610, 0x00004c20, 0x00009840, 0x00013080],
      case_stmts = [(Array_Scatter, 0, 4, 3), (Counted_Loop, 0, 5, 0), (Sub_Borrow, 4, 5, 0), (Add_Carry, 2, 5, 5),
                    (Compare_Select, 4, 5, 0), (Divide_Rem, 4, 1, 4), (Multiply_Low, 0, 2, 0), (Gray_Decode, 1, 2, 1),
                    (Reverse_Loop, 0, 3, 3), (Array_Scatter, 1, 4, 3), (Minmax_Clamp, 5, 5, 5),
                    (Counted_Loop, 4, 3, 5)]\<rparr>"

definition case_0610 :: "case_program" where
  "case_0610 =
     \<lparr>case_id = 610,
      case_input = [0xc1e8a912, 0x6f0fc486, 0xec2747b7, 0x024b4dcd, 0xc3f435e1, 0x8053d4ef, 0xc03bae20, 0x37f7db11,
                    0x13bc3fdb, 0x02c1527b, 0xfffffffe, 0x3c1590d0, 0xfd2ea65c, 0xb448ee65, 0xeba4f544, 0xabc02514],
      case_kernel = struct_return_kernel,
      reg_inputs = [3, 7, 11, 15], reg5_init = 0x00300ad2,
      memory_keys = [0x00000262, 0x000004c4, 0x00000988, 0x00001310, 0x00002620, 0x00004c40, 0x00009880, 0x00013100],
      case_stmts = [(Counted_Loop, 1, 2, 1), (Counted_Loop, 5, 3, 3), (Sub_Borrow, 0, 0, 5), (Horner_Loop, 1, 3, 2),
                    (Carry_Chain, 4, 0, 4), (Reverse_Loop, 4, 5, 4), (Gray_Decode, 2, 0, 1), (Counted_Loop, 5, 3, 0),
                    (Sub_Borrow, 3, 3, 4), (Switch_Phi, 5, 5, 3), (Counted_Loop, 1, 5, 4), (Counted_Loop, 2, 4, 3)]\<rparr>"

definition case_0611 :: "case_program" where
  "case_0611 =
     \<lparr>case_id = 611,
      case_input = [0x816a8953, 0x730e91c1, 0x19bfe5b1, 0xa24238eb, 0xd5a1b834, 0x93b09fec, 0x89c03159, 0xe5021ddd,
                    0xf4fb340a, 0x432ee0b4, 0x5083ddc6, 0xffffffff, 0x252865b5, 0x2daef423, 0x361ee47d, 0x82f0d46a],
      case_kernel = struct_return_kernel,
      reg_inputs = [4, 8, 12, 0], reg5_init = 0x9e67848b,
      memory_keys = [0x00000263, 0x000004c6, 0x0000098c, 0x00001318, 0x00002630, 0x00004c60, 0x000098c0, 0x00013180],
      case_stmts = [(Switch_Phi, 0, 1, 0), (Counted_Loop, 2, 3, 2), (Sub_Borrow, 2, 0, 1), (Counted_Loop, 4, 3, 1),
                    (Mask_Merge, 4, 0, 4), (Halfword_Swap, 0, 5, 3), (Mask_Merge, 3, 5, 4), (Horner_Loop, 0, 2, 0),
                    (Carry_Chain, 4, 2, 5), (Reverse_Loop, 2, 1, 5), (Carry_Chain, 5, 5, 5), (Switch_Phi, 3, 2, 2)]\<rparr>"

definition case_0612 :: "case_program" where
  "case_0612 =
     \<lparr>case_id = 612,
      case_input = [0x42e46895, 0x270e3b17, 0xc973646e, 0x1c607b66, 0x00000000, 0x6fd13627, 0x3717c7da, 0x973b296b,
                    0x49860c1e, 0x13387694, 0xdae15cd1, 0xe58048fb, 0x00000000, 0x870cf44c, 0x8b270bf1, 0x912ea260],
      case_kernel = struct_return_kernel,
      reg_inputs = [5, 9, 13, 1], reg5_init = 0x3c9efe44,
      memory_keys = [0x00000264, 0x000004c8, 0x00000990, 0x00001320, 0x00002640, 0x00004c80, 0x00009900, 0x00013200],
      case_stmts = [(Short_Circuit, 2, 0, 4), (Counted_Loop, 2, 4, 2), (Sub_Borrow, 4, 4, 5), (Divide_Rem, 0, 5, 2),
                    (Byte_Pack, 5, 4, 5), (Horner_Loop, 3, 3, 1), (Add_Carry, 4, 3, 3), (Gray_Decode, 5, 3, 4),
                    (Popcount_Loop, 3, 1, 0), (Popcount_Loop, 4, 2, 1), (Short_Circuit, 4, 5, 1),
                    (Gray_Decode, 5, 5, 5)]\<rparr>"

definition case_0613 :: "case_program" where
  "case_0613 =
     \<lparr>case_id = 613,
      case_input = [0x026648d4, 0x3b0f6e50, 0x3cebc668, 0xbc690e40, 0xf51961a9, 0x7c327d24, 0x7eec58a3, 0x45ceefa7,
                    0xaec107cf, 0x52d7c45b, 0x4c67abf6, 0x00000080, 0xeb7695f4, 0x00000001, 0x569d1ac8, 0xb81e531e],
      case_kernel = struct_return_kernel,
      reg_inputs = [6, 10, 14, 2], reg5_init = 0xdad677fd,
      memory_keys = [0x00000265, 0x000004ca, 0x00000994, 0x00001328, 0x00002650, 0x00004ca0, 0x00009940, 0x00013280],
      case_stmts = [(Popcount_Loop, 5, 5, 5), (Counted_Loop, 1, 4, 5), (Sub_Borrow, 2, 2, 5), (Endian_Swap, 3, 3, 3),
                    (Minmax_Clamp, 3, 0, 1), (Sub_Borrow, 5, 1, 4), (Carry_Chain, 3, 4, 0), (Reverse_Loop, 0, 2, 0),
                    (Compare_Select, 2, 4, 5), (Add_Carry, 1, 4, 1), (Halfword_Swap, 2, 5, 0),
                    (Compare_Select, 4, 1, 0)]\<rparr>"

definition case_0614 :: "case_program" where
  "case_0614 =
     \<lparr>case_id = 614,
      case_input = [0xc3e02817, 0x1f0e9198, 0xfffffffe, 0xe8796900, 0x02d95b08, 0xbdaf0ca3, 0x8ef52c59, 0x4f6dec2d,
                    0xdbd5d243, 0x9d588b08, 0x4a61cb7e, 0x388cb6e0, 0xac7911a3, 0x5db8531a, 0x00000002, 0xc2532c28],
      case_kernel = struct_return_kernel,
      reg_inputs = [7, 11, 15, 3], reg5_init = 0x790df1b6,
      memory_keys = [0x00000266, 0x000004cc, 0x00000998, 0x00001330, 0x00002660, 0x00004cc0, 0x00009980, 0x00013300],
      case_stmts = [(Reverse_Loop, 0, 5, 3), (Counted_Loop, 4, 0, 0), (Sub_Borrow, 0, 1, 2), (Reverse_Loop, 2, 5, 4),
                    (Halfword_Swap, 5, 3, 3), (Horner_Loop, 5, 1, 2), (Carry_Chain, 1, 0, 5), (Gray_Decode, 4, 3, 1),
                    (Mask_Merge, 1, 0, 2), (Carry_Chain, 3, 1, 5), (Rotate_Mix, 0, 3, 3), (Compare_Select, 2, 2, 2)]\<rparr>"

definition case_0615 :: "case_program" where
  "case_0615 =
     \<lparr>case_id = 615,
      case_input = [0x83620856, 0x030fc4df, 0xdfd82720, 0x48701c26, 0x148cd6dd, 0xae4c47a0, 0xc70eb320, 0x9d982ae1,
                    0x3c92d992, 0x00000003, 0xdce73c59, 0xe0ba4591, 0x747fd24a, 0xc45e495c, 0xbf560838, 0x00000003],
      case_kernel = struct_return_kernel,
      reg_inputs = [8, 12, 0, 4], reg5_init = 0x17456b6f,
      memory_keys = [0x00000267, 0x000004ce, 0x0000099c, 0x00001338, 0x00002670, 0x00004ce0, 0x000099c0, 0x00013380],
      case_stmts = [(Gray_Decode, 5, 4, 4), (Counted_Loop, 3, 4, 1), (Sub_Borrow, 0, 1, 4), (Byte_Pack, 5, 3, 5),
                    (Horner_Loop, 3, 5, 1), (Mask_Merge, 1, 1, 5), (Add_Carry, 4, 5, 4), (Reverse_Loop, 1, 0, 5),
                    (Reverse_Loop, 0, 1, 5), (Switch_Phi, 0, 3, 5), (Carry_Chain, 4, 3, 0), (Byte_Pack, 5, 2, 5)]\<rparr>"

definition case_0616 :: "case_program" where
  "case_0616 =
     \<lparr>case_id = 616,
      case_input = [0x7fffffff, 0xb70dc435, 0x83db23dc, 0x22361631, 0xa23b5f46, 0x29d25ef2, 0x7d42ec15, 0xba9a8814,
                    0x7506da78, 0x8f6f54c7, 0x36d71c67, 0x76607f90, 0x226180a5, 0xfc8ae021, 0x8989be62, 0xab5509d0],
      case_kernel = struct_return_kernel,
      reg_inputs = [9, 13, 1, 5], reg5_init = 0xb57ce528,
      memory_keys = [0x00000268, 0x000004d0, 0x000009a0, 0x00001340, 0x00002680, 0x00004d00, 0x00009a00, 0x00013400],
      case_stmts = [(Minmax_Clamp, 1, 4, 1), (Counted_Loop, 4, 1, 5), (Sub_Borrow, 2, 2, 2), (Multiply_Low, 3, 5, 0),
                    (Popcount_Loop, 2, 2, 1), (Array_Scatter, 5, 2, 4), (Byte_Pack, 1, 3, 2), (Array_Scatter, 4, 1, 2),
                    (Divide_Rem, 5, 3, 2), (Rotate_Mix, 5, 2, 3), (Switch_Phi, 1, 0, 0), (Mask_Merge, 1, 3, 0)]\<rparr>"

definition case_0617 :: "case_program" where
  "case_0617 =
     \<lparr>case_id = 617,
      case_input = [0x047fcbdb, 0x00000080, 0x764381da, 0x823f6317, 0xb46ed293, 0x3a3115f1, 0x34b9736c, 0x00000001,
                    0x9241d1a9, 0xce80e608, 0xa051eb40, 0xae568ce1, 0xfa67434c, 0x656cfa67, 0x5433af5b, 0x8265f8ae],
      case_kernel = struct_return_kernel,
      reg_inputs = [10, 14, 2, 6], reg5_init = 0x53b45ee1,
      memory_keys = [0x00000269, 0x000004d2, 0x000009a4, 0x00001348, 0x00002690, 0x00004d20, 0x00009a40, 0x00013480],
      case_stmts = [(Endian_Swap, 4, 1, 2), (Counted_Loop, 1, 1, 4), (Sub_Borrow, 2, 0, 2), (Reverse_Loop, 0, 1, 1),
                    (Reverse_Loop, 2, 0, 5), (Horner_Loop, 1, 2, 3), (Popcount_Loop, 2, 0, 1), (Divide_Rem, 3, 0, 0),
                    (Horner_Loop, 4, 0, 1), (Horner_Loop, 0, 4, 1), (Gray_Decode, 5, 2, 1), (Add_Carry, 2, 5, 3)]\<rparr>"

definition case_0618 :: "case_program" where
  "case_0618 =
     \<lparr>case_id = 618,
      case_input = [0xc5f9ab18, 0x8f0d6eba, 0x000000ff, 0xd62f0457, 0x43aee832, 0xfbac6476, 0xc4a00796, 0x62cc4d52,
                    0xe7550425, 0x010fa95b, 0xa6578bc8, 0xab6c818b, 0xbd68c71b, 0x263e4777, 0x000000ff, 0xf8288798],
      case_kernel = struct_return_kernel,
      reg_inputs = [11, 15, 3, 7], reg5_init = 0xf1ebd89a,
      memory_keys = [0x0000026a, 0x000004d4, 0x000009a8, 0x00001350, 0x000026a0, 0x00004d40, 0x00009a80, 0x00013500],
      case_stmts = [(Carry_Chain, 5, 3, 0), (Counted_Loop, 0, 1, 3), (Sub_Borrow, 2, 1, 3), (Array_Scatter, 5, 1, 0),
                    (Carry_Chain, 4, 1, 3), (Array_Scatter, 1, 4, 5), (Endian_Swap, 2, 0, 4), (Mask_Merge, 5, 5, 1),
                    (Add_Carry, 5, 4, 4), (Endian_Swap, 0, 1, 5), (Sub_Borrow, 5, 4, 4), (Add_Carry, 0, 0, 1)]\<rparr>"

definition case_0619 :: "case_program" where
  "case_0619 =
     \<lparr>case_id = 619,
      case_input = [0x857b8b59, 0x930c3bfd, 0x95706092, 0x00000100, 0x55fb65e7, 0xffffffff, 0x8d5b98ef, 0xb0398b9e,
                    0x00120ff4, 0x40e01b94, 0x30d17cef, 0x735a72fa, 0x656e04f2, 0xbfd85d31, 0xbdf8bdab, 0xd11876e6],
      case_kernel = struct_return_kernel,
      reg_inputs = [12, 0, 4, 8], reg5_init = 0x90235253,
      memory_keys = [0x0000026b, 0x000004d6, 0x000009ac, 0x00001358, 0x000026b0, 0x00004d60, 0x00009ac0, 0x00013580],
      case_stmts = [(Horner_Loop, 2, 2, 1), (Counted_Loop, 5, 1, 4), (Sub_Borrow, 4, 1, 3), (Add_Carry, 0, 3, 5),
                    (Endian_Swap, 2, 1, 1), (Byte_Pack, 5, 2, 0), (Switch_Phi, 1, 3, 3), (Divide_Rem, 2, 2, 5),
                    (Horner_Loop, 2, 3, 5), (Minmax_Clamp, 3, 5, 3), (Popcount_Loop, 1, 4, 5),
                    (Array_Scatter, 5, 4, 2)]\<rparr>"

definition case_0620 :: "case_program" where
  "case_0620 =
     \<lparr>case_id = 620,
      case_input = [0x46f56a9f, 0xc70c912b, 0x45bce14d, 0xc80432fc, 0x7fffffff, 0x142e86be, 0x338c6e6c, 0xc200bf28,
                    0xbd6f37e0, 0x10f68db4, 0xbab3fdf8, 0x72f959a0, 0x0000007f, 0x157a5d5e, 0x00c15227, 0xc2c600ec],
      case_kernel = struct_return_kernel,
      reg_inputs = [13, 1, 5, 9], reg5_init = 0x2e5acc0c,
      memory_keys = [0x0000026c, 0x000004d8, 0x000009b0, 0x00001360, 0x000026c0, 0x00004d80, 0x00009b00, 0x00013600],
      case_stmts = [(Add_Carry, 4, 3, 1), (Switch_Phi, 3, 2, 4), (Sub_Borrow, 2, 1, 1), (Carry_Chain, 2, 1, 0),
                    (Switch_Phi, 5, 1, 0), (Halfword_Swap, 0, 4, 0), (Rotate_Mix, 0, 3, 2), (Add_Carry, 1, 3, 1),
                    (Add_Carry, 5, 2, 0), (Horner_Loop, 5, 4, 1), (Multiply_Low, 2, 0, 1), (Popcount_Loop, 5, 3, 1)]\<rparr>"

definition case_0621 :: "case_program" where
  "case_0621 =
     \<lparr>case_id = 621,
      case_input = [0x06774ade, 0xdb0dc46c, 0xb024434b, 0x80000000, 0x7543bc7a, 0x80000000, 0x7a77f115, 0x10f579e4,
                    0x5a283c31, 0x51193f7b, 0x2c350adf, 0xaacfaad1, 0xab30f4b3, 0x8c9c4718, 0xdd7b431e, 0xebf6f192],
      case_kernel = struct_return_kernel,
      reg_inputs = [14, 2, 6, 10], reg5_init = 0xcc9245c5,
      memory_keys = [0x0000026d, 0x000004da, 0x000009b4, 0x00001368, 0x000026d0, 0x00004da0, 0x00009b40, 0x00013680],
      case_stmts = [(Sub_Borrow, 1, 0, 2), (Switch_Phi, 2, 0, 1), (Sub_Borrow, 0, 5, 3), (Switch_Phi, 1, 3, 1),
                    (Short_Circuit, 5, 3, 0), (Carry_Chain, 0, 0, 5), (Minmax_Clamp, 5, 2, 3), (Mask_Merge, 2, 4, 3),
                    (Switch_Phi, 2, 5, 5), (Counted_Loop, 4, 4, 1), (Multiply_Low, 4, 2, 4), (Divide_Rem, 2, 1, 2)]\<rparr>"

definition case_0622 :: "case_program" where
  "case_0622 =
     \<lparr>case_id = 622,
      case_input = [0xc7f12a1d, 0xff0c3ba4, 0xa68f0005, 0x3c1d209a, 0x828386db, 0xc650bc3a, 0xfffffffe, 0x1a567a6e,
                    0x2f3ce9bd, 0x9e967028, 0x00000002, 0xaff5a7bb, 0xec3f70e4, 0xcfcefa08, 0xe90a40d7, 0x91bb8ea4],
      case_kernel = struct_return_kernel,
      reg_inputs = [15, 3, 7, 11], reg5_init = 0x6ac9bf7e,
      memory_keys = [0x0000026e, 0x000004dc, 0x000009b8, 0x00001370, 0x000026e0, 0x00004dc0, 0x00009b80, 0x00013700],
      case_stmts = [(Rotate_Mix, 4, 4, 4), (Switch_Phi, 5, 0, 4), (Sub_Borrow, 0, 4, 0), (Divide_Rem, 4, 5, 2),
                    (Minmax_Clamp, 3, 4, 4), (Divide_Rem, 0, 4, 3), (Short_Circuit, 1, 2, 4), (Add_Carry, 2, 5, 4),
                    (Add_Carry, 1, 3, 4), (Add_Carry, 2, 3, 1), (Array_Scatter, 4, 4, 5), (Minmax_Clamp, 2, 4, 0)]\<rparr>"

definition case_0623 :: "case_program" where
  "case_0623 =
     \<lparr>case_id = 623,
      case_input = [0x87730a5c, 0x00000100, 0x5317a203, 0x9c1455bc, 0x94d60b0e, 0xd5b3f739, 0xc3951a96, 0xffffffff,
                    0xc87be26c, 0xdf79c2e7, 0xbcb59d70, 0x77c354ca, 0x3439b30d, 0x5628e04e, 0x34b051ee, 0xb88b7fda],
      case_kernel = struct_return_kernel,
      reg_inputs = [0, 4, 8, 12], reg5_init = 0x09013937,
      memory_keys = [0x0000026f, 0x000004de, 0x000009bc, 0x00001378, 0x000026f0, 0x00004de0, 0x00009bc0, 0x00013780],
      case_stmts = [(Multiply_Low, 1, 5, 1), (Switch_Phi, 4, 4, 5), (Sub_Borrow, 2, 0, 2), (Endian_Swap, 1, 3, 3),
                    (Gray_Decode, 5, 0, 0), (Reverse_Loop, 2, 4, 4), (Counted_Loop, 0, 3, 5), (Array_Scatter, 5, 0, 0),
                    (Gray_Decode, 0, 4, 3), (Sub_Borrow, 5, 3, 3), (Sub_Borrow, 4, 2, 4), (Mask_Merge, 5, 2, 1)]\<rparr>"

definition case_0624 :: "case_program" where
  "case_0624 =
     \<lparr>case_id = 624,
      case_input = [0x48ceed84, 0x970a3a71, 0x148bacb9, 0x5c9ccc9e, 0xb9d49476, 0x98ddda26, 0x2bdda37f, 0xb91863e2,
                    0x00000000, 0xf51cd776, 0xfc238b03, 0x702ed8bb, 0x4a0e4187, 0x3ff40961, 0x4e55a936, 0x7a944b30],
      case_kernel = struct_return_kernel,
      reg_inputs = [1, 5, 9, 13], reg5_init = 0xa738b2f0,
      memory_keys = [0x00000270, 0x000004e0, 0x000009c0, 0x00001380, 0x00002700, 0x00004e00, 0x00009c00, 0x00013800],
      case_stmts = [(Divide_Rem, 0, 4, 2), (Switch_Phi, 4, 5, 5), (Sub_Borrow, 2, 5, 5), (Sub_Borrow, 0, 2, 2),
                    (Array_Scatter, 0, 0, 4), (Halfword_Swap, 3, 5, 1), (Halfword_Swap, 5, 5, 5),
                    (Array_Scatter, 3, 1, 1), (Divide_Rem, 1, 1, 0), (Minmax_Clamp, 5, 3, 4), (Mask_Merge, 0, 5, 3),
                    (Sub_Borrow, 3, 4, 5)]\<rparr>"

definition case_0625 :: "case_program" where
  "case_0625 =
     \<lparr>case_id = 625,
      case_input = [0x00000000, 0x8b0b6f36, 0xe1130ebf, 0xfc95b9b8, 0xaf8119a3, 0x8b3e9125, 0x62263c06, 0x6beda52e,
                    0x3620fbf1, 0xb4f365b9, 0x6aa57c24, 0xa8182bca, 0x9208826e, 0xa6121327, 0x93efb80f, 0x53a4ba4e],
      case_kernel = function_pointer_kernel 0,
      reg_inputs = [2, 6, 10, 14], reg5_init = 0x45702ca9,
      memory_keys = [0x00000271, 0x000004e2, 0x000009c4, 0x00001388, 0x00002710, 0x00004e20, 0x00009c40, 0x00013880],
      case_stmts = [(Mask_Merge, 5, 3, 1), (Switch_Phi, 5, 1, 4), (Sub_Borrow, 4, 3, 5), (Minmax_Clamp, 5, 0, 5),
                    (Compare_Select, 0, 0, 4), (Counted_Loop, 3, 5, 0), (Carry_Chain, 4, 2, 2), (Add_Carry, 0, 2, 3),
                    (Multiply_Low, 4, 2, 1), (Mask_Merge, 4, 1, 2), (Popcount_Loop, 0, 1, 4), (Add_Carry, 0, 4, 4)]\<rparr>"

definition case_0626 :: "case_program" where
  "case_0626 =
     \<lparr>case_id = 626,
      case_input = [0xc9caad06, 0x00000001, 0xf7b84df1, 0xa885def8, 0x58412302, 0x4aa3e0a2, 0x923f48fc, 0x614ea6a4,
                    0x43342e7d, 0x7b7c2aea, 0x6ca31cac, 0xad2226a0, 0xd5070639, 0xe540ae37, 0xa79ebbc6, 0x29e9c578],
      case_kernel = function_pointer_kernel 1,
      reg_inputs = [3, 7, 11, 15], reg5_init = 0xe3a7a662,
      memory_keys = [0x00000272, 0x000004e4, 0x000009c8, 0x00001390, 0x00002720, 0x00004e40, 0x00009c80, 0x00013900],
      case_stmts = [(Compare_Select, 2, 1, 5), (Switch_Phi, 2, 1, 1), (Sub_Borrow, 2, 0, 4), (Switch_Phi, 2, 0, 0),
                    (Counted_Loop, 0, 3, 2), (Short_Circuit, 3, 1, 0), (Compare_Select, 4, 4, 1), (Sub_Borrow, 2, 1, 4),
                    (Add_Carry, 5, 0, 2), (Switch_Phi, 4, 4, 0), (Gray_Decode, 4, 3, 1), (Add_Carry, 0, 3, 0)]\<rparr>"

definition case_0627 :: "case_program" where
  "case_0627 =
     \<lparr>case_id = 627,
      case_input = [0x89488d47, 0xb30bc5b9, 0x00000002, 0x088cabde, 0x4e14aed7, 0x5940aba1, 0xdbc4d785, 0xb3bb6068,
                    0xa47325ac, 0x3a939825, 0xfa25eb8b, 0x7514d5d1, 0x0d01c5d0, 0x7ca6b471, 0x7a24aaff, 0x00d93406],
      case_kernel = function_pointer_kernel 2,
      reg_inputs = [4, 8, 12, 0], reg5_init = 0x81df201b,
      memory_keys = [0x00000273, 0x000004e6, 0x000009cc, 0x00001398, 0x00002730, 0x00004e60, 0x00009cc0, 0x00013980],
      case_stmts = [(Byte_Pack, 5, 0, 0), (Switch_Phi, 1, 1, 2), (Sub_Borrow, 0, 2, 4), (Compare_Select, 1, 0, 3),
                    (Sub_Borrow, 2, 1, 4), (Counted_Loop, 1, 1, 5), (Add_Carry, 3, 3, 4), (Halfword_Swap, 3, 4, 4),
                    (Gray_Decode, 2, 3, 5), (Carry_Chain, 3, 0, 4), (Byte_Pack, 4, 3, 0), (Popcount_Loop, 1, 5, 3)]\<rparr>"

definition case_0628 :: "case_program" where
  "case_0628 =
     \<lparr>case_id = 628,
      case_input = [0x4ac66c81, 0xe70b6f6f, 0xd2ec6e28, 0x00000003, 0x78f9fa9f, 0xa521026a, 0x65132106, 0xc18254de,
                    0x190e1db8, 0x6a850e05, 0x70476a9c, 0x74b7fe8b, 0x1b59f678, 0xd604b41e, 0xc71d4573, 0x1307420c],
      case_kernel = function_pointer_kernel 3,
      reg_inputs = [5, 9, 13, 1], reg5_init = 0x201699d4,
      memory_keys = [0x00000274, 0x000004e8, 0x000009d0, 0x000013a0, 0x00002740, 0x00004e80, 0x00009d00, 0x00013a00],
      case_stmts = [(Halfword_Swap, 5, 5, 0), (Switch_Phi, 5, 4, 4), (Sub_Borrow, 4, 4, 2), (Divide_Rem, 5, 4, 2),
                    (Byte_Pack, 1, 5, 1), (Popcount_Loop, 2, 1, 5), (Endian_Swap, 0, 5, 1), (Short_Circuit, 4, 3, 2),
                    (Divide_Rem, 3, 0, 2), (Mask_Merge, 1, 3, 0), (Popcount_Loop, 5, 3, 4), (Sub_Borrow, 3, 2, 0)]\<rparr>"

definition case_0629 :: "case_program" where
  "case_0629 =
     \<lparr>case_id = 629,
      case_input = [0x0a444cc0, 0xfb0a3a28, 0x2774cc2e, 0x16a79d75, 0x0000007f, 0xb6c24969, 0x2ce8be7f, 0x13779212,
                    0xfe491669, 0x2b6abcca, 0xe6c19dbb, 0xac810dfa, 0xc35f3591, 0x4fe2ae58, 0x1aa7544a, 0x3a37b372],
      case_kernel = function_pointer_kernel 0,
      reg_inputs = [6, 10, 14, 2], reg5_init = 0xbe4e138d,
      memory_keys = [0x00000275, 0x000004ea, 0x000009d4, 0x000013a8, 0x00002750, 0x00004ea0, 0x00009d40, 0x00013a80],
      case_stmts = [(Array_Scatter, 2, 0, 1), (Switch_Phi, 0, 0, 1), (Sub_Borrow, 4, 4, 0), (Sub_Borrow, 4, 4, 5),
                    (Minmax_Clamp, 3, 5, 5), (Horner_Loop, 0, 3, 0), (Horner_Loop, 1, 0, 0), (Mask_Merge, 1, 0, 0),
                    (Horner_Loop, 0, 5, 3), (Halfword_Swap, 4, 5, 2), (Endian_Swap, 5, 3, 5), (Add_Carry, 4, 0, 5)]\<rparr>"

definition case_0630 :: "case_program" where
  "case_0630 =
     \<lparr>case_id = 630,
      case_input = [0xcbc22c03, 0xdf0bc5e0, 0x31df8f60, 0x42b7fa35, 0x996c4deb, 0x00000080, 0xdcf1ca85, 0x19d49198,
                    0x8b5dc3e5, 0xe4e5f399, 0xe0c7fd33, 0xa9bb0090, 0x8450b1c6, 0x0cb01348, 0x2ed65783, 0x407acc44],
      case_kernel = function_pointer_kernel 1,
      reg_inputs = [7, 11, 15, 3], reg5_init = 0x5c858d46,
      memory_keys = [0x00000276, 0x000004ec, 0x000009d8, 0x000013b0, 0x00002760, 0x00004ec0, 0x00009d80, 0x00013b00],
      case_stmts = [(Counted_Loop, 1, 4, 3), (Switch_Phi, 1, 0, 2), (Sub_Borrow, 4, 3, 3), (Reverse_Loop, 5, 4, 4),
                    (Short_Circuit, 1, 0, 3), (Sub_Borrow, 4, 5, 0), (Gray_Decode, 3, 0, 1), (Short_Circuit, 5, 1, 3),
                    (Add_Carry, 5, 3, 2), (Carry_Chain, 2, 0, 4), (Gray_Decode, 1, 5, 0), (Divide_Rem, 2, 5, 1)]\<rparr>"

definition case_0631 :: "case_program" where
  "case_0631 =
     \<lparr>case_id = 631,
      case_input = [0x8b400c42, 0xc30a90a7, 0xc4472d66, 0xe2be8f13, 0x8f39c03e, 0x64bc73ed, 0x000000ff, 0xcb215754,
                    0x6c1ac834, 0xa50a4156, 0x76410a14, 0x718df3e1, 0x5c56722f, 0x9556090e, 0xf36c46ba, 0x694a3d3a],
      case_kernel = function_pointer_kernel 2,
      reg_inputs = [8, 12, 0, 4], reg5_init = 0xfabd06ff,
      memory_keys = [0x00000277, 0x000004ee, 0x000009dc, 0x000013b8, 0x00002770, 0x00004ee0, 0x00009dc0, 0x00013b80],
      case_stmts = [(Switch_Phi, 0, 1, 2), (Switch_Phi, 0, 0, 3), (Sub_Borrow, 4, 3, 1), (Switch_Phi, 4, 2, 3),
                    (Multiply_Low, 3, 0, 1), (Multiply_Low, 0, 1, 1), (Array_Scatter, 4, 1, 0), (Sub_Borrow, 0, 0, 3),
                    (Multiply_Low, 2, 4, 5), (Multiply_Low, 1, 0, 4), (Horner_Loop, 1, 3, 1), (Popcount_Loop, 3, 5, 0)]\<rparr>"

definition case_0632 :: "case_program" where
  "case_0632 =
     \<lparr>case_id = 632,
      case_input = [0x4cdfef8e, 0x7708904d, 0x9844299a, 0x88f88504, 0x398e49a5, 0xe3226abf, 0x2f460ac9, 0x00000100,
                    0x258ecbde, 0xf6d22c56, 0x9c712a2a, 0xe757c9e0, 0x0a4820c0, 0xad82a073, 0xc5b3f0e0, 0x297ce9bc],
      case_kernel = function_pointer_kernel 3,
      reg_inputs = [9, 13, 1, 5], reg5_init = 0x98f480b8,
      memory_keys = [0x00000278, 0x000004f0, 0x000009e0, 0x000013c0, 0x00002780, 0x00004f00, 0x00009e00, 0x00013c00],
      case_stmts = [(Short_Circuit, 4, 3, 3), (Switch_Phi, 1, 3, 1), (Sub_Borrow, 4, 2, 3), (Gray_Decode, 2, 4, 0),
                    (Sub_Borrow, 2, 1, 5), (Gray_Decode, 0, 0, 4), (Rotate_Mix, 3, 5, 4), (Compare_Select, 1, 3, 4),
                    (Mask_Merge, 3, 2, 0), (Counted_Loop, 2, 5, 4), (Rotate_Mix, 4, 4, 5), (Byte_Pack, 1, 4, 3)]\<rparr>"

definition case_0633 :: "case_program" where
  "case_0633 =
     \<lparr>case_id = 633,
      case_input = [0x0c5dcfcf, 0x6b09c50a, 0x6ddc8b9c, 0x28f1f022, 0x2fdbc470, 0xf0c121bc, 0x66bd95b0, 0x3ed6336d,
                    0x7fffffff, 0xb73d9e99, 0x0af7dd0d, 0x3f613a91, 0xd24ee329, 0x3464ba35, 0x1809e1d9, 0x004c18c2],
      case_kernel = function_pointer_kernel 0,
      reg_inputs = [10, 14, 2, 6], reg5_init = 0x372bfa71,
      memory_keys = [0x00000279, 0x000004f2, 0x000009e4, 0x000013c8, 0x00002790, 0x00004f20, 0x00009e40, 0x00013c80],
      case_stmts = [(Popcount_Loop, 1, 4, 4), (Switch_Phi, 4, 5, 4), (Sub_Borrow, 2, 0, 3), (Counted_Loop, 5, 0, 1),
                    (Compare_Select, 0, 3, 5), (Array_Scatter, 4, 0, 1), (Short_Circuit, 0, 0, 5),
                    (Switch_Phi, 4, 4, 4), (Compare_Select, 2, 1, 3), (Multiply_Low, 3, 1, 2), (Reverse_Loop, 0, 2, 0),
                    (Counted_Loop, 4, 4, 4)]\<rparr>"

definition case_0634 :: "case_program" where
  "case_0634 =
     \<lparr>case_id = 634,
      case_input = [0xcddbaf0c, 0x4f083ac2, 0x7b77c8d2, 0x7ce19762, 0xd81bfed1, 0x315c503b, 0x96a4e14a, 0x347530e7,
                    0xb7dd1583, 0x80000000, 0x0cf1bd85, 0x3a5b37fb, 0x9541677e, 0x77360725, 0x2c78e210, 0x7a0167f4],
      case_kernel = function_pointer_kernel 1,
      reg_inputs = [11, 15, 3, 7], reg5_init = 0xd563742a,
      memory_keys = [0x0000027a, 0x000004f4, 0x000009e8, 0x000013d0, 0x000027a0, 0x00004f40, 0x00009e80, 0x00013d00],
      case_stmts = [(Reverse_Loop, 2, 4, 2), (Switch_Phi, 1, 3, 1), (Sub_Borrow, 0, 3, 4), (Sub_Borrow, 0, 0, 4),
                    (Counted_Loop, 4, 2, 5), (Switch_Phi, 2, 0, 1), (Halfword_Swap, 4, 4, 0), (Carry_Chain, 4, 3, 5),
                    (Mask_Merge, 5, 1, 0), (Endian_Swap, 1, 0, 4), (Minmax_Clamp, 4, 2, 5), (Counted_Loop, 4, 1, 2)]\<rparr>"

definition case_0635 :: "case_program" where
  "case_0635 =
     \<lparr>case_id = 635,
      case_input = [0x8d598f4d, 0x53096f85, 0x8eef6ad4, 0xdce8e244, 0xce4e7304, 0x22bf1b38, 0xdf5f7e33, 0xe680f62b,
                    0x509a1e52, 0x395d6305, 0xfffffffe, 0xe26dc48a, 0x4d47a497, 0xeed01d63, 0xf1c2f329, 0x5331968a],
      case_kernel = function_pointer_kernel 2,
      reg_inputs = [12, 0, 4, 8], reg5_init = 0x739aede3,
      memory_keys = [0x0000027b, 0x000004f6, 0x000009ec, 0x000013d8, 0x000027b0, 0x00004f60, 0x00009ec0, 0x00013d80],
      case_stmts = [(Gray_Decode, 1, 5, 3), (Switch_Phi, 0, 3, 0), (Sub_Borrow, 2, 3, 0), (Minmax_Clamp, 3, 4, 3),
                    (Popcount_Loop, 0, 0, 1), (Mask_Merge, 0, 2, 2), (Rotate_Mix, 3, 5, 3), (Switch_Phi, 5, 4, 3),
                    (Compare_Select, 2, 0, 3), (Short_Circuit, 2, 2, 4), (Divide_Rem, 0, 4, 0), (Byte_Pack, 1, 3, 5)]\<rparr>"

definition case_0636 :: "case_program" where
  "case_0636 =
     \<lparr>case_id = 636,
      case_input = [0x4ed76e8b, 0x0709c553, 0x5e23eb0b, 0x62caa1c9, 0xf8a3274c, 0xdedeb2f3, 0x618888b0, 0x94b9c29d,
                    0xede72646, 0x694bf525, 0x1015cbb5, 0xffffffff, 0x5b1f973f, 0x44721d0c, 0x4cfb1ca5, 0x40efe080],
      case_kernel = function_pointer_kernel 3,
      reg_inputs = [13, 1, 5, 9], reg5_init = 0x11d2679c,
      memory_keys = [0x0000027c, 0x000004f8, 0x000009f0, 0x000013e0, 0x000027c0, 0x00004f80, 0x00009f00, 0x00013e00],
      case_stmts = [(Minmax_Clamp, 1, 0, 3), (Switch_Phi, 0, 4, 4), (Sub_Borrow, 2, 5, 2), (Carry_Chain, 5, 4, 0),
                    (Horner_Loop, 1, 4, 0), (Counted_Loop, 5, 2, 0), (Horner_Loop, 2, 3, 4), (Switch_Phi, 0, 5, 3),
                    (Mask_Merge, 1, 5, 2), (Horner_Loop, 4, 5, 4), (Rotate_Mix, 5, 2, 4), (Byte_Pack, 3, 2, 2)]\<rparr>"

definition case_0637 :: "case_program" where
  "case_0637 =
     \<lparr>case_id = 637,
      case_input = [0x0e554eca, 0x1b089014, 0xabbb490d, 0xc2c3d4ef, 0x00000000, 0xcd3df9f0, 0x287317c9, 0x464c0451,
                    0x0aa02d97, 0x28a447ea, 0x86933c92, 0x3bf81ca1, 0x00000000, 0xdd94074a, 0x91410d9c, 0x69df11fe],
      case_kernel = function_pointer_kernel 0,
      reg_inputs = [14, 2, 6, 10], reg5_init = 0xb009e155,
      memory_keys = [0x0000027d, 0x000004fa, 0x000009f4, 0x000013e8, 0x000027d0, 0x00004fa0, 0x00009f40, 0x00013e80],
      case_stmts = [(Endian_Swap, 0, 3, 4), (Switch_Phi, 3, 2, 5), (Sub_Borrow, 0, 1, 4), (Gray_Decode, 0, 0, 5),
                    (Add_Carry, 5, 2, 4), (Minmax_Clamp, 5, 2, 3), (Popcount_Loop, 3, 0, 3), (Reverse_Loop, 1, 0, 3),
                    (Reverse_Loop, 2, 4, 5), (Counted_Loop, 5, 5, 0), (Rotate_Mix, 3, 4, 5), (Counted_Loop, 2, 2, 1)]\<rparr>"

definition case_0638 :: "case_program" where
  "case_0638 =
     \<lparr>case_id = 638,
      case_input = [0xcfd32e09, 0x3f096fdc, 0xbd100a43, 0x96d3b3af, 0x19369038, 0x0ca08877, 0xd86a6333, 0x4cef07db,
                    0x7fb4f81b, 0xe72b08b9, 0x80955c1a, 0x00000080, 0xc416d081, 0x00000001, 0xa5300e55, 0x13926ec8],
      case_kernel = function_pointer_kernel 1,
      reg_inputs = [15, 3, 7, 11], reg5_init = 0x4e415b0e,
      memory_keys = [0x0000027e, 0x000004fc, 0x000009f8, 0x000013f0, 0x000027e0, 0x00004fc0, 0x00009f80, 0x00013f00],
      case_stmts = [(Carry_Chain, 1, 3, 0), (Switch_Phi, 4, 4, 0), (Sub_Borrow, 0, 2, 5), (Divide_Rem, 5, 4, 2),
                    (Add_Carry, 1, 5, 4), (Rotate_Mix, 1, 2, 5), (Sub_Borrow, 1, 2, 0), (Multiply_Low, 5, 3, 4),
                    (Endian_Swap, 5, 2, 0), (Short_Circuit, 3, 0, 2), (Add_Carry, 3, 2, 4), (Carry_Chain, 2, 3, 5)]\<rparr>"

definition case_0639 :: "case_program" where
  "case_0639 =
     \<lparr>case_id = 639,
      case_input = [0x8f510e48, 0x23083a9b, 0xfffffffe, 0x36dac689, 0x0f631ded, 0x1f43c374, 0x9191fc4a, 0x9e1ac117,
                    0x98f3f3ca, 0xa6c4ba76, 0x1613ab3d, 0xe6f4e2ba, 0x1c101368, 0x0720a01c, 0x00000002, 0x3aa29fb6],
      case_kernel = function_pointer_kernel 2,
      reg_inputs = [0, 4, 8, 12], reg5_init = 0xec78d4c7,
      memory_keys = [0x0000027f, 0x000004fe, 0x000009fc, 0x000013f8, 0x000027f0, 0x00004fe0, 0x00009fc0, 0x00013f80],
      case_stmts = [(Horner_Loop, 4, 4, 5), (Switch_Phi, 5, 0, 5), (Sub_Borrow, 0, 2, 3), (Sub_Borrow, 0, 4, 5),
                    (Horner_Loop, 1, 3, 2), (Add_Carry, 5, 4, 0), (Multiply_Low, 0, 1, 3), (Reverse_Loop, 4, 4, 0),
                    (Carry_Chain, 0, 1, 3), (Popcount_Loop, 4, 2, 4), (Short_Circuit, 3, 2, 1), (Horner_Loop, 5, 3, 0)]\<rparr>"

definition case_0640 :: "case_program" where
  "case_0640 =
     \<lparr>case_id = 640,
      case_input = [0x3132d149, 0xdf389199, 0x30a73176, 0x97a1a524, 0x1ec02f6c, 0x46b3bc71, 0x7de1c25d, 0xcfd4aa27,
                    0x47174411, 0x00000003, 0xed50abb7, 0xdc1e326b, 0x084776a8, 0x598dc45c, 0x61eef8d8, 0x00000003],
      case_kernel = function_pointer_kernel 3,
      reg_inputs = [1, 5, 9, 13], reg5_init = 0x8ab04e80,
      memory_keys = [0x00000280, 0x00000500, 0x00000a00, 0x00001400, 0x00002800, 0x00005000, 0x0000a000, 0x00014000],
      case_stmts = [(Add_Carry, 2, 2, 4), (Short_Circuit, 3, 0, 1), (Sub_Borrow, 4, 2, 3), (Minmax_Clamp, 2, 2, 5),
                    (Array_Scatter, 4, 1, 5), (Multiply_Low, 3, 5, 3), (Rotate_Mix, 2, 5, 2), (Switch_Phi, 3, 0, 3),
                    (Multiply_Low, 3, 4, 0), (Rotate_Mix, 0, 5, 2), (Short_Circuit, 5, 3, 4), (Short_Circuit, 4, 1, 2)]\<rparr>"

definition case_0641 :: "case_program" where
  "case_0641 =
     \<lparr>case_id = 641,
      case_input = [0x7fffffff, 0xc339c4de, 0xc53f9370, 0x37a8d002, 0x0895a2b9, 0x5550f772, 0x341a5d24, 0x1d216ceb,
                    0xa0504fc0, 0xd773078b, 0x7bd65c90, 0x0428c11a, 0xd041b541, 0xc06bde1a, 0xbc54e9e1, 0x72576fd4],
      case_kernel = function_pointer_kernel 0,
      reg_inputs = [2, 6, 10, 14], reg5_init = 0x28e7c839,
      memory_keys = [0x00000281, 0x00000502, 0x00000a04, 0x00001408, 0x00002810, 0x00005020, 0x0000a040, 0x00014080],
      case_stmts = [(Sub_Borrow, 5, 1, 3), (Short_Circuit, 2, 4, 0), (Sub_Borrow, 2, 2, 5), (Mask_Merge, 3, 4, 0),
                    (Carry_Chain, 0, 1, 1), (Mask_Merge, 1, 3, 4), (Add_Carry, 3, 0, 3), (Carry_Chain, 0, 3, 5),
                    (Minmax_Clamp, 4, 5, 1), (Gray_Decode, 5, 1, 2), (Halfword_Swap, 5, 3, 3), (Sub_Borrow, 5, 3, 1)]\<rparr>"

definition case_0642 :: "case_program" where
  "case_0642 =
     \<lparr>case_id = 642,
      case_input = [0xb03691cb, 0x00000080, 0xd394d03e, 0x63b8b742, 0xff559818, 0x94cd86f5, 0xc40329de, 0x00000001,
                    0xd5449a4c, 0x18fc48d8, 0x7dd03c18, 0x0112cc70, 0x974e3116, 0x8339630a, 0x8825ea28, 0x081a10e2],
      case_kernel = function_pointer_kernel 1,
      reg_inputs = [3, 7, 11, 15], reg5_init = 0xc71f41f2,
      memory_keys = [0x00000282, 0x00000504, 0x00000a08, 0x00001410, 0x00002820, 0x00005040, 0x0000a080, 0x00014100],
      case_stmts = [(Rotate_Mix, 0, 5, 1), (Short_Circuit, 1, 4, 5), (Sub_Borrow, 0, 1, 4), (Reverse_Loop, 0, 2, 3),
                    (Compare_Select, 0, 4, 5), (Multiply_Low, 1, 3, 0), (Add_Carry, 1, 4, 2), (Horner_Loop, 4, 2, 4),
                    (Horner_Loop, 3, 5, 4), (Endian_Swap, 1, 0, 0), (Carry_Chain, 1, 3, 0), (Sub_Borrow, 5, 0, 5)]\<rparr>"

definition case_0643 :: "case_program" where
  "case_0643 =
     \<lparr>case_id = 643,
      case_input = [0xf0b4b18a, 0xfb396e51, 0x000000ff, 0xc3b1c264, 0xe90015cd, 0x872ecdf6, 0x8df8b6a7, 0xc577a9ad,
                    0x3203919d, 0x5913fa17, 0xeb56cb3f, 0xd9243f01, 0x4f48f2ff, 0x1adf794c, 0x000000ff, 0x212ae19c],
      case_kernel = function_pointer_kernel 2,
      reg_inputs = [4, 8, 12, 0], reg5_init = 0x6556bbab,
      memory_keys = [0x00000283, 0x00000506, 0x00000a0c, 0x00001418, 0x00002830, 0x00005060, 0x0000a0c0, 0x00014180],
      case_stmts = [(Multiply_Low, 5, 2, 0), (Short_Circuit, 2, 0, 0), (Sub_Borrow, 0, 1, 0), (Multiply_Low, 1, 0, 4),
                    (Endian_Swap, 2, 4, 5), (Sub_Borrow, 5, 3, 5), (Reverse_Loop, 2, 3, 5), (Counted_Loop, 1, 5, 0),
                    (Divide_Rem, 0, 0, 5), (Add_Carry, 2, 2, 0), (Counted_Loop, 3, 3, 1), (Halfword_Swap, 0, 2, 2)]\<rparr>"

definition case_0644 :: "case_program" where
  "case_0644 =
     \<lparr>case_id = 644,
      case_input = [0x333a504c, 0xaf39c487, 0xf6c0f3e7, 0x00000100, 0xdfed4185, 0xffffffff, 0x332f4024, 0xb74e9d1b,
                    0x8f7ea989, 0x09056c37, 0x61344a28, 0xd887145b, 0x5910c157, 0xb07d7923, 0xe8a6149d, 0x32f49796],
      case_kernel = function_pointer_kernel 3,
      reg_inputs = [5, 9, 13, 1], reg5_init = 0x038e3564,
      memory_keys = [0x00000284, 0x00000508, 0x00000a10, 0x00001420, 0x00002840, 0x00005080, 0x0000a100, 0x00014200],
      case_stmts = [(Divide_Rem, 1, 5, 4), (Short_Circuit, 2, 1, 4), (Sub_Borrow, 4, 5, 4), (Endian_Swap, 1, 4, 3),
                    (Switch_Phi, 3, 0, 0), (Counted_Loop, 4, 5, 3), (Horner_Loop, 5, 3, 2), (Counted_Loop, 0, 0, 2),
                    (Byte_Pack, 3, 1, 2), (Byte_Pack, 2, 3, 0), (Minmax_Clamp, 0, 1, 1), (Minmax_Clamp, 4, 1, 3)]\<rparr>"

definition case_0645 :: "case_program" where
  "case_0645 =
     \<lparr>case_id = 645,
      case_input = [0x73b8700d, 0xb33891c0, 0x035851e1, 0xdd9af4cf, 0x7fffffff, 0x68ac2f3e, 0x7ad4df5d, 0x65bb5bd7,
                    0x6839a258, 0x48eadef8, 0xf7b2bd0f, 0x00b1e72a, 0x0000007f, 0x299b6365, 0x351c05a4, 0x1bc466e8],
      case_kernel = function_pointer_kernel 0,
      reg_inputs = [6, 10, 14, 2], reg5_init = 0xa1c5af1d,
      memory_keys = [0x00000285, 0x0000050a, 0x00000a14, 0x00001428, 0x00002850, 0x000050a0, 0x0000a140, 0x00014280],
      case_stmts = [(Mask_Merge, 2, 2, 3), (Short_Circuit, 5, 1, 1), (Sub_Borrow, 4, 5, 2), (Divide_Rem, 0, 4, 4),
                    (Minmax_Clamp, 5, 2, 0), (Short_Circuit, 0, 5, 2), (Popcount_Loop, 4, 2, 5),
                    (Multiply_Low, 3, 5, 0), (Add_Carry, 0, 0, 5), (Carry_Chain, 5, 1, 2), (Divide_Rem, 0, 1, 4),
                    (Mask_Merge, 1, 1, 0)]\<rparr>"

definition case_0646 :: "case_program" where
  "case_0646 =
     \<lparr>case_id = 646,
      case_input = [0xb23e10ce, 0x97396e08, 0x15f312af, 0x80000000, 0x3e78f6f1, 0x80000000, 0x8acdaba7, 0x6f18585d,
                    0x1d2d77d4, 0x876591ab, 0xf1b4dd87, 0x058bea40, 0xc61986e9, 0x6ac9de75, 0x016d066d, 0x618919de],
      case_kernel = function_pointer_kernel 1,
      reg_inputs = [7, 11, 15, 3], reg5_init = 0x3ffd28d6,
      memory_keys = [0x00000286, 0x0000050c, 0x00000a18, 0x00001430, 0x00002860, 0x000050c0, 0x0000a180, 0x00014300],
      case_stmts = [(Compare_Select, 3, 4, 1), (Short_Circuit, 0, 3, 2), (Sub_Borrow, 2, 4, 5), (Gray_Decode, 5, 2, 1),
                    (Divide_Rem, 3, 5, 4), (Carry_Chain, 2, 1, 2), (Endian_Swap, 2, 2, 2), (Reverse_Loop, 5, 2, 3),
                    (Switch_Phi, 3, 2, 4), (Add_Carry, 1, 4, 4), (Reverse_Loop, 0, 3, 3), (Sub_Borrow, 5, 4, 4)]\<rparr>"

definition case_0647 :: "case_program" where
  "case_0647 =
     \<lparr>case_id = 647,
      case_input = [0xf2bc308f, 0x8b383b4f, 0xe06bb0a9, 0x2983e6a9, 0x282d7b24, 0xbad215ba, 0xfffffffe, 0xbded9e91,
                    0xfa6a7c05, 0xc68a2364, 0x00000002, 0xddbd1931, 0x1e1f4500, 0xf32fc433, 0xdcd71754, 0x48b9e8a0],
      case_kernel = function_pointer_kernel 2,
      reg_inputs = [8, 12, 0, 4], reg5_init = 0xde34a28f,
      memory_keys = [0x00000287, 0x0000050e, 0x00000a1c, 0x00001438, 0x00002870, 0x000050e0, 0x0000a1c0, 0x00014380],
      case_stmts = [(Byte_Pack, 4, 5, 4), (Short_Circuit, 3, 1, 3), (Sub_Borrow, 0, 4, 1), (Rotate_Mix, 2, 2, 4),
                    (Horner_Loop, 3, 3, 4), (Short_Circuit, 0, 1, 5), (Switch_Phi, 5, 3, 1), (Horner_Loop, 2, 1, 1),
                    (Halfword_Swap, 4, 3, 1), (Mask_Merge, 0, 0, 4), (Compare_Select, 2, 3, 2), (Divide_Rem, 0, 0, 5)]\<rparr>"

definition case_0648 :: "case_program" where
  "case_0648 =
     \<lparr>case_id = 648,
      case_input = [0x3523d343, 0x00000100, 0xbc68b455, 0x43c5ecbe, 0x9e9af2bf, 0x3d4c0ce8, 0x797a6beb, 0xffffffff,
                    0xb3fe7fef, 0x95524e64, 0x8d020a9e, 0x4b672330, 0x480117ef, 0xcbfb6d4e, 0xea08a10e, 0x088f3c26],
      case_kernel = function_pointer_kernel 3,
      reg_inputs = [9, 13, 1, 5], reg5_init = 0x7c6c1c48,
      memory_keys = [0x00000288, 0x00000510, 0x00000a20, 0x00001440, 0x00002880, 0x00005100, 0x0000a200, 0x00014400],
      case_stmts = [(Halfword_Swap, 4, 3, 3), (Short_Circuit, 0, 4, 3), (Sub_Borrow, 4, 5, 3), (Rotate_Mix, 2, 4, 3),
                    (Array_Scatter, 2, 0, 2), (Short_Circuit, 4, 0, 4), (Minmax_Clamp, 2, 1, 3), (Add_Carry, 1, 2, 2),
                    (Reverse_Loop, 1, 3, 2), (Halfword_Swap, 5, 3, 2), (Gray_Decode, 1, 2, 0),
                    (Compare_Select, 0, 1, 4)]\<rparr>"

definition case_0649 :: "case_program" where
  "case_0649 =
     \<lparr>case_id = 649,
      case_input = [0x75a1f302, 0x233b6ee2, 0x49f01653, 0xe3cc9998, 0x88cf7f6a, 0x2eaf47eb, 0x3081f492, 0x481afaa8,
                    0x00000000, 0xd4bdfcab, 0x1b84fdb9, 0x9351d041, 0x9007d406, 0x521d7708, 0x37b2b037, 0x21bfcd58],
      case_kernel = function_pointer_kernel 0,
      reg_inputs = [10, 14, 2, 6], reg5_init = 0x1aa39601,
      memory_keys = [0x00000289, 0x00000512, 0x00000a24, 0x00001448, 0x00002890, 0x00005120, 0x0000a240, 0x00014480],
      case_stmts = [(Array_Scatter, 1, 4, 4), (Short_Circuit, 3, 0, 4), (Sub_Borrow, 0, 3, 1), (Switch_Phi, 1, 0, 4),
                    (Compare_Select, 0, 2, 0), (Rotate_Mix, 4, 2, 5), (Reverse_Loop, 3, 2, 0), (Sub_Borrow, 4, 3, 2),
                    (Endian_Swap, 4, 4, 3), (Mask_Merge, 4, 3, 2), (Gray_Decode, 5, 4, 3), (Gray_Decode, 3, 5, 3)]\<rparr>"

definition case_0650 :: "case_program" where
  "case_0650 =
     \<lparr>case_id = 650,
      case_input = [0x00000000, 0x073a912a, 0x5f5b551d, 0xb7dcfed8, 0x7f0f45cb, 0xef32366c, 0xc0988068, 0x42b9f922,
                    0x21ada1b2, 0x1b32b3f8, 0x1d829d31, 0x966bdd2b, 0xd7085051, 0x114fca18, 0x03c3b3fe, 0x5bf2b26e],
      case_kernel = gcd_kernel 1 18763,
      reg_inputs = [11, 15, 3, 7], reg5_init = 0xb8db0fba,
      memory_keys = [0x0000028a, 0x00000514, 0x00000a28, 0x00001450, 0x000028a0, 0x00005140, 0x0000a280, 0x00014500],
      case_stmts = [(Counted_Loop, 2, 2, 4), (Short_Circuit, 0, 4, 1), (Sub_Borrow, 0, 2, 0), (Minmax_Clamp, 2, 2, 5),
                    (Rotate_Mix, 4, 5, 2), (Add_Carry, 2, 2, 1), (Compare_Select, 3, 0, 5), (Halfword_Swap, 0, 0, 5),
                    (Reverse_Loop, 3, 4, 2), (Horner_Loop, 2, 0, 2), (Mask_Merge, 3, 4, 4), (Horner_Loop, 5, 0, 1)]\<rparr>"

definition case_0651 :: "case_program" where
  "case_0651 =
     \<lparr>case_id = 651,
      case_input = [0xf4a5b380, 0x00000001, 0xaac3f71b, 0x17d58bfe, 0x695ac81e, 0xfcd17d6f, 0x89631f11, 0x904c3fee,
                    0xc6eaaa63, 0x5add0137, 0x8b046a16, 0x4e5d2e5a, 0x0f0e93b8, 0x88a9d05e, 0xde79a2c7, 0x72c24310],
      case_kernel = gcd_kernel 20097 2,
      reg_inputs = [12, 0, 4, 8], reg5_init = 0x57128973,
      memory_keys = [0x0000028b, 0x00000516, 0x00000a2c, 0x00001458, 0x000028b0, 0x00005160, 0x0000a2c0, 0x00014580],
      case_stmts = [(Switch_Phi, 3, 5, 1), (Short_Circuit, 5, 0, 4), (Sub_Borrow, 2, 2, 0), (Mask_Merge, 5, 2, 0),
                    (Mask_Merge, 2, 1, 4), (Compare_Select, 2, 2, 0), (Add_Carry, 2, 3, 4), (Sub_Borrow, 3, 1, 1),
                    (Mask_Merge, 2, 3, 5), (Rotate_Mix, 5, 2, 4), (Popcount_Loop, 3, 2, 3), (Compare_Select, 4, 2, 2)]\<rparr>"

definition case_0652 :: "case_program" where
  "case_0652 =
     \<lparr>case_id = 652,
      case_input = [0x372b5246, 0x4f3b6ebb, 0x00000002, 0xa9f7c873, 0x5fb79c56, 0x00b0d4a4, 0x37b4e992, 0xe2750b58,
                    0x7b979277, 0x0acb9717, 0x0166eb01, 0x4ffe0500, 0x1956a010, 0x220bd031, 0x63404d4b, 0x611c351a],
      case_kernel = gcd_kernel 25991 55036,
      reg_inputs = [13, 1, 5, 9], reg5_init = 0xf54a032c,
      memory_keys = [0x0000028c, 0x00000518, 0x00000a30, 0x00001460, 0x000028c0, 0x00005180, 0x0000a300, 0x00014600],
      case_stmts = [(Short_Circuit, 5, 4, 1), (Short_Circuit, 3, 3, 0), (Sub_Borrow, 4, 2, 2), (Multiply_Low, 1, 2, 1),
                    (Horner_Loop, 3, 5, 5), (Mask_Merge, 3, 2, 4), (Mask_Merge, 3, 3, 3), (Sub_Borrow, 2, 0, 1),
                    (Rotate_Mix, 1, 2, 0), (Array_Scatter, 3, 1, 0), (Byte_Pack, 2, 2, 3), (Counted_Loop, 0, 5, 5)]\<rparr>"

definition case_0653 :: "case_program" where
  "case_0653 =
     \<lparr>case_id = 653,
      case_input = [0x77a97207, 0x533a3bfc, 0x8f97d4c2, 0x00000003, 0x49e21183, 0x13539fa7, 0x7e4f76eb, 0x3080cd94,
                    0x9cd099a6, 0x4b2425d8, 0x97e01c26, 0x97c8f671, 0xc15063f9, 0xbbedca77, 0xbefa5c72, 0x482cc464],
      case_kernel = gcd_kernel 53480 5373,
      reg_inputs = [14, 2, 6, 10], reg5_init = 0x93817ce5,
      memory_keys = [0x0000028d, 0x0000051a, 0x00000a34, 0x00001468, 0x000028d0, 0x000051a0, 0x0000a340, 0x00014680],
      case_stmts = [(Popcount_Loop, 0, 1, 4), (Short_Circuit, 0, 1, 3), (Sub_Borrow, 4, 0, 2), (Counted_Loop, 4, 4, 2),
                    (Minmax_Clamp, 3, 3, 3), (Switch_Phi, 3, 0, 1), (Byte_Pack, 2, 0, 0), (Halfword_Swap, 3, 1, 5),
                    (Endian_Swap, 2, 1, 5), (Halfword_Swap, 4, 5, 0), (Gray_Decode, 0, 2, 0), (Horner_Loop, 1, 3, 0)]\<rparr>"

definition case_0654 :: "case_program" where
  "case_0654 =
     \<lparr>case_id = 654,
      case_input = [0xb62f12c4, 0x773bc434, 0x993c978c, 0x5deeda15, 0x0000007f, 0xd2ceee20, 0x8e560211, 0x3a23ce1e,
                    0xe9c44c2a, 0x84ab6a8b, 0x91e67cae, 0x92f2fb1b, 0x865fe7ae, 0xf8bf7767, 0x8a8b5fbb, 0x3261bb52],
      case_kernel = gcd_kernel 18309 5557,
      reg_inputs = [15, 3, 7, 11], reg5_init = 0x31b8f69e,
      memory_keys = [0x0000028e, 0x0000051c, 0x00000a38, 0x00001470, 0x000028e0, 0x000051c0, 0x0000a380, 0x00014700],
      case_stmts = [(Reverse_Loop, 3, 5, 0), (Short_Circuit, 3, 1, 0), (Sub_Borrow, 4, 3, 5), (Endian_Swap, 1, 2, 5),
                    (Short_Circuit, 5, 0, 3), (Array_Scatter, 3, 4, 3), (Horner_Loop, 0, 0, 3),
                    (Popcount_Loop, 5, 0, 2), (Carry_Chain, 5, 3, 0), (Compare_Select, 0, 2, 0), (Mask_Merge, 0, 2, 3),
                    (Multiply_Low, 5, 4, 0)]\<rparr>"

definition case_0655 :: "case_program" where
  "case_0655 =
     \<lparr>case_id = 655,
      case_input = [0xf6ad3285, 0x6b3a9173, 0x6ca4358a, 0xfde7af33, 0xa877a6f7, 0x00000080, 0xc7ad9d68, 0xe8d608d2,
                    0x0e8347fb, 0xc544d844, 0x07608b89, 0x4ac4086a, 0x5e592447, 0x61596d21, 0x57314e82, 0x1b514a2c],
      case_kernel = gcd_kernel 45798 20436,
      reg_inputs = [0, 4, 8, 12], reg5_init = 0xcff07057,
      memory_keys = [0x0000028f, 0x0000051e, 0x00000a3c, 0x00001478, 0x000028f0, 0x000051e0, 0x0000a3c0, 0x00014780],
      case_stmts = [(Gray_Decode, 4, 0, 1), (Short_Circuit, 4, 1, 5), (Sub_Borrow, 0, 1, 5), (Divide_Rem, 4, 0, 2),
                    (Gray_Decode, 3, 4, 1), (Byte_Pack, 1, 2, 4), (Mask_Merge, 5, 1, 2), (Add_Carry, 0, 1, 4),
                    (Popcount_Loop, 0, 4, 3), (Horner_Loop, 3, 4, 0), (Sub_Borrow, 0, 4, 2), (Reverse_Loop, 4, 2, 1)]\<rparr>"

definition case_0656 :: "case_program" where
  "case_0656 =
     \<lparr>case_id = 656,
      case_input = [0x3910d55d, 0x1f3dc5e1, 0x2b383b30, 0x3d6f3611, 0x8575398f, 0x8c43883c, 0x000000ff, 0x996dd792,
                    0x179f55b7, 0xef21cdd5, 0x47f69dfa, 0x4d29841b, 0x206ed6cd, 0x0885840e, 0x2dd4b65a, 0xd94e7ec6],
      case_kernel = gcd_kernel 44510 42050,
      reg_inputs = [1, 5, 9, 13], reg5_init = 0x6e27ea10,
      memory_keys = [0x00000290, 0x00000520, 0x00000a40, 0x00001480, 0x00002900, 0x00005200, 0x0000a400, 0x00014800],
      case_stmts = [(Minmax_Clamp, 1, 5, 0), (Short_Circuit, 2, 2, 1), (Sub_Borrow, 4, 0, 2), (Add_Carry, 1, 5, 5),
                    (Popcount_Loop, 2, 4, 3), (Mask_Merge, 0, 3, 5), (Gray_Decode, 2, 1, 0), (Short_Circuit, 4, 2, 5),
                    (Compare_Select, 3, 3, 4), (Counted_Loop, 5, 4, 1), (Endian_Swap, 2, 5, 1),
                    (Counted_Loop, 4, 0, 3)]\<rparr>"

definition case_0657 :: "case_program" where
  "case_0657 =
     \<lparr>case_id = 657,
      case_input = [0x7992f51c, 0x033c90a6, 0xdea09936, 0x9d664337, 0x9320b45a, 0x9fa0c33f, 0x661ebbf8, 0x00000100,
                    0xf0d85e66, 0xaece7f1a, 0xd1706add, 0x951f776a, 0xf8681524, 0x91639e48, 0xf06ea763, 0xf07e8fb8],
      case_kernel = gcd_kernel 34141 839,
      reg_inputs = [2, 6, 10, 14], reg5_init = 0x0c5f63c9,
      memory_keys = [0x00000291, 0x00000522, 0x00000a44, 0x00001488, 0x00002910, 0x00005220, 0x0000a440, 0x00014880],
      case_stmts = [(Endian_Swap, 0, 0, 1), (Short_Circuit, 5, 4, 2), (Sub_Borrow, 0, 2, 4), (Mask_Merge, 2, 3, 2),
                    (Rotate_Mix, 2, 2, 5), (Switch_Phi, 4, 1, 0), (Mask_Merge, 5, 0, 3), (Mask_Merge, 1, 3, 1),
                    (Mask_Merge, 4, 4, 1), (Byte_Pack, 0, 2, 5), (Array_Scatter, 0, 3, 4), (Byte_Pack, 1, 4, 2)]\<rparr>"

definition case_0658 :: "case_program" where
  "case_0658 =
     \<lparr>case_id = 658,
      case_input = [0xb81495df, 0x273d6f6e, 0xc80bda78, 0xc9762477, 0x64e08efb, 0x5e3db2b8, 0x9607cf02, 0x413b12d4,
                    0x7fffffff, 0x61413049, 0xd7760a55, 0x90257a00, 0xbf679173, 0xd2312358, 0xc41fa4aa, 0x8a33f08e],
      case_kernel = gcd_kernel 36832 17647,
      reg_inputs = [3, 7, 11, 15], reg5_init = 0xaa96dd82,
      memory_keys = [0x00000292, 0x00000524, 0x00000a48, 0x00001490, 0x00002920, 0x00005240, 0x0000a480, 0x00014900],
      case_stmts = [(Carry_Chain, 5, 2, 3), (Short_Circuit, 2, 2, 5), (Sub_Borrow, 4, 5, 5), (Carry_Chain, 5, 3, 5),
                    (Compare_Select, 4, 3, 3), (Mask_Merge, 0, 3, 2), (Popcount_Loop, 1, 4, 0),
                    (Halfword_Swap, 1, 4, 4), (Compare_Select, 5, 0, 0), (Sub_Borrow, 2, 1, 1), (Gray_Decode, 2, 1, 5),
                    (Byte_Pack, 5, 1, 2)]\<rparr>"

definition case_0659 :: "case_program" where
  "case_0659 =
     \<lparr>case_id = 659,
      case_input = [0xf896b59e, 0x3b3c3a29, 0x3d93787e, 0x697f5151, 0x72b5032e, 0x4ddef9bb, 0xdffc507b, 0x93ced418,
                    0x628b803b, 0x80000000, 0x41f0fd72, 0x48138971, 0x6761529a, 0x4bd7391e, 0x19a5b593, 0xa30301f0],
      case_kernel = gcd_kernel 26463 22794,
      reg_inputs = [4, 8, 12, 0], reg5_init = 0x48ce573b,
      memory_keys = [0x00000293, 0x00000526, 0x00000a4c, 0x00001498, 0x00002930, 0x00005260, 0x0000a4c0, 0x00014980],
      case_stmts = [(Horner_Loop, 2, 3, 0), (Short_Circuit, 3, 4, 4), (Sub_Borrow, 0, 5, 1), (Multiply_Low, 2, 5, 4),
                    (Endian_Swap, 2, 3, 5), (Gray_Decode, 4, 3, 1), (Switch_Phi, 0, 1, 3), (Array_Scatter, 2, 3, 2),
                    (Sub_Borrow, 2, 3, 1), (Divide_Rem, 1, 3, 3), (Gray_Decode, 4, 1, 4), (Rotate_Mix, 4, 3, 5)]\<rparr>"

definition case_0660 :: "case_program" where
  "case_0660 =
     \<lparr>case_id = 660,
      case_input = [0x3b185458, 0x6f3c90ff, 0xed5ff9a1, 0xd75d12dc, 0x44585766, 0xb1bf5070, 0x612ba6f8, 0xe1f7e0ae,
                    0xdff6b82f, 0x70b814a6, 0xfffffffe, 0x49b0a22b, 0x71396132, 0xe1753971, 0xa49c5a1f, 0xb0dd77fa],
      case_kernel = gcd_kernel 10201 256,
      reg_inputs = [5, 9, 13, 1], reg5_init = 0xe705d0f4,
      memory_keys = [0x00000294, 0x00000528, 0x00000a50, 0x000014a0, 0x00002940, 0x00005280, 0x0000a500, 0x00014a00],
      case_stmts = [(Add_Carry, 2, 4, 4), (Popcount_Loop, 1, 3, 4), (Sub_Borrow, 2, 5, 5), (Array_Scatter, 2, 1, 3),
                    (Horner_Loop, 5, 1, 2), (Halfword_Swap, 3, 3, 3), (Reverse_Loop, 5, 1, 0), (Popcount_Loop, 1, 4, 4),
                    (Counted_Loop, 5, 2, 4), (Switch_Phi, 3, 0, 3), (Sub_Borrow, 1, 3, 4), (Compare_Select, 4, 4, 2)]\<rparr>"

definition case_0661 :: "case_program" where
  "case_0661 =
     \<lparr>case_id = 661,
      case_input = [0x7b9a7419, 0x733dc5b8, 0x18c75ba7, 0x775467fa, 0x520ddab3, 0xa25c1b73, 0x28d03981, 0x33022662,
                    0x38b1b3fe, 0x3157a669, 0x5d148b42, 0xffffffff, 0xa93fa2db, 0x78932337, 0x79264b26, 0x99ed8684],
      case_kernel = gcd_kernel 59834 48153,
      reg_inputs = [6, 10, 14, 2], reg5_init = 0x853d4aad,
      memory_keys = [0x00000295, 0x0000052a, 0x00000a54, 0x000014a8, 0x00002950, 0x000052a0, 0x0000a540, 0x00014a80],
      case_stmts = [(Sub_Borrow, 3, 1, 5), (Popcount_Loop, 2, 1, 5), (Sub_Borrow, 2, 5, 5), (Short_Circuit, 1, 3, 4),
                    (Halfword_Swap, 5, 1, 4), (Rotate_Mix, 1, 5, 0), (Divide_Rem, 2, 4, 1), (Halfword_Swap, 2, 3, 0),
                    (Popcount_Loop, 4, 1, 3), (Rotate_Mix, 4, 2, 5), (Sub_Borrow, 1, 1, 5), (Byte_Pack, 3, 0, 1)]\<rparr>"

definition case_0662 :: "case_program" where
  "case_0662 =
     \<lparr>case_id = 662,
      case_input = [0xba1c14da, 0x573c3a70, 0x0e6c18e9, 0x234400ba, 0x00000000, 0x63c16af4, 0xd8c94d7b, 0x39a125e8,
                    0x4da56672, 0xfed8e93a, 0x5b12ebca, 0x94bc5c30, 0x00000000, 0x3bc19e27, 0x4d5748ef, 0xe3a0f9b2],
      case_kernel = gcd_kernel 2523 44913,
      reg_inputs = [7, 11, 15, 3], reg5_init = 0x2374c466,
      memory_keys = [0x00000296, 0x0000052c, 0x00000a58, 0x000014b0, 0x00002960, 0x000052c0, 0x0000a580, 0x00014b00],
      case_stmts = [(Rotate_Mix, 4, 5, 1), (Popcount_Loop, 1, 5, 4), (Sub_Borrow, 4, 2, 4), (Byte_Pack, 0, 5, 1),
                    (Minmax_Clamp, 3, 2, 4), (Short_Circuit, 3, 5, 2), (Minmax_Clamp, 2, 4, 0), (Sub_Borrow, 2, 0, 1),
                    (Carry_Chain, 5, 1, 4), (Minmax_Clamp, 4, 1, 1), (Multiply_Low, 5, 5, 4), (Horner_Loop, 5, 5, 1)]\<rparr>"

definition case_0663 :: "case_program" where
  "case_0663 =
     \<lparr>case_id = 663,
      case_input = [0xfa9e349b, 0x4b3d6f37, 0xfbf4baef, 0x834d759c, 0xb3986dc7, 0x702221f7, 0x9132d202, 0xeb54e324,
                    0xaae26da3, 0xbf375bf5, 0xcd941ced, 0x00000080, 0x3636e565, 0x00000001, 0x90ed59d6, 0xca9008cc],
      case_kernel = gcd_kernel 52156 37368,
      reg_inputs = [8, 12, 0, 4], reg5_init = 0xc1ac3e1f,
      memory_keys = [0x00000297, 0x0000052e, 0x00000a5c, 0x000014b8, 0x00002970, 0x000052e0, 0x0000a5c0, 0x00014b80],
      case_stmts = [(Multiply_Low, 3, 0, 0), (Popcount_Loop, 2, 1, 1), (Sub_Borrow, 4, 4, 2), (Counted_Loop, 3, 3, 4),
                    (Gray_Decode, 5, 0, 4), (Compare_Select, 5, 1, 3), (Counted_Loop, 5, 3, 5), (Minmax_Clamp, 5, 5, 1),
                    (Endian_Swap, 4, 2, 1), (Mask_Merge, 3, 3, 3), (Multiply_Low, 5, 3, 3), (Reverse_Loop, 2, 5, 2)]\<rparr>"

definition case_0664 :: "case_program" where
  "case_0664 =
     \<lparr>case_id = 664,
      case_input = [0x3d01d757, 0xff3f6fdd, 0xfffffffe, 0xe90b7f8b, 0x052fe45c, 0xf7bc38a5, 0x2b7e8d37, 0xcc5641d1,
                    0xe3766e49, 0xecef36f5, 0x27a43cd3, 0xda509540, 0x6028b78a, 0x9af32d1c, 0x00000002, 0x8aa6dc4a],
      case_kernel = gcd_kernel 50840 27486,
      reg_inputs = [9, 13, 1, 5], reg5_init = 0x5fe3b7d8,
      memory_keys = [0x00000298, 0x00000530, 0x00000a60, 0x000014c0, 0x00002980, 0x00005300, 0x0000a600, 0x00014c00],
      case_stmts = [(Divide_Rem, 5, 4, 5), (Popcount_Loop, 1, 2, 1), (Sub_Borrow, 4, 3, 0), (Compare_Select, 5, 1, 3),
                    (Endian_Swap, 2, 3, 0), (Carry_Chain, 5, 2, 0), (Mask_Merge, 2, 1, 3), (Byte_Pack, 2, 4, 0),
                    (Byte_Pack, 1, 2, 0), (Minmax_Clamp, 4, 4, 3), (Compare_Select, 4, 0, 3), (Halfword_Swap, 0, 2, 3)]\<rparr>"

definition case_0665 :: "case_program" where
  "case_0665 =
     \<lparr>case_id = 665,
      case_input = [0x7d83f716, 0xe33e3a9a, 0x526f1c15, 0x49020aad, 0x137a6989, 0xe45f73a6, 0x6285124e, 0x1ea3871d,
                    0x04316598, 0x00000003, 0xb122cbf4, 0x02666631, 0xb82e7463, 0x0315375a, 0x7b88feb5, 0x00000003],
      case_kernel = gcd_kernel 40471 46267,
      reg_inputs = [10, 14, 2, 6], reg5_init = 0xfe1b3191,
      memory_keys = [0x00000299, 0x00000532, 0x00000a64, 0x000014c8, 0x00002990, 0x00005320, 0x0000a640, 0x00014c80],
      case_stmts = [(Mask_Merge, 0, 3, 4), (Popcount_Loop, 2, 2, 4), (Sub_Borrow, 0, 5, 0), (Switch_Phi, 4, 3, 2),
                    (Reverse_Loop, 4, 5, 0), (Add_Carry, 1, 0, 1), (Byte_Pack, 5, 0, 2), (Carry_Chain, 1, 1, 2),
                    (Divide_Rem, 4, 1, 5), (Sub_Borrow, 5, 4, 5), (Reverse_Loop, 4, 4, 2), (Array_Scatter, 3, 0, 2)]\<rparr>"

definition case_0666 :: "case_program" where
  "case_0666 =
     \<lparr>case_id = 666,
      case_input = [0x7fffffff, 0xc73fc552, 0x44c45f5b, 0x1d126ded, 0xe4ba5328, 0x25c20221, 0x929c66b4, 0x14008497,
                    0x7125b014, 0x628fcb69, 0xb724ab7c, 0x075c6b5b, 0xff21f034, 0x40478a4a, 0x4ff9fd7c, 0xd9db5202],
      case_kernel = gcd_kernel 23648 5267,
      reg_inputs = [11, 15, 3, 7], reg5_init = 0x9c52ab4a,
      memory_keys = [0x0000029a, 0x00000534, 0x00000a68, 0x000014d0, 0x000029a0, 0x00005340, 0x0000a680, 0x00014d00],
      case_stmts = [(Compare_Select, 1, 5, 0), (Popcount_Loop, 1, 0, 3), (Sub_Borrow, 4, 4, 3), (Add_Carry, 3, 3, 3),
                    (Reverse_Loop, 2, 4, 4), (Reverse_Loop, 5, 4, 1), (Multiply_Low, 3, 4, 5), (Switch_Phi, 5, 4, 1),
                    (Switch_Phi, 3, 3, 0), (Switch_Phi, 5, 1, 3), (Short_Circuit, 0, 0, 5), (Popcount_Loop, 3, 5, 4)]\<rparr>"

definition case_0667 :: "case_program" where
  "case_0667 =
     \<lparr>case_id = 667,
      case_input = [0xfc87b794, 0x00000080, 0xb15cfd5d, 0xbd1b18cb, 0xf2efdefd, 0x36214922, 0xdb67f9cd, 0x00000001,
                    0x9662bbc5, 0x236079a6, 0x21a25c5b, 0xdf6a982a, 0x272733dd, 0xd9a1900c, 0x9243ec45, 0xf0eba37c],
      case_kernel = gcd_kernel 32789 129,
      reg_inputs = [12, 0, 4, 8], reg5_init = 0x3a8a2503,
      memory_keys = [0x0000029b, 0x00000536, 0x00000a6c, 0x000014d8, 0x000029b0, 0x00005360, 0x0000a6c0, 0x00014d80],
      case_stmts = [(Byte_Pack, 0, 0, 1), (Popcount_Loop, 0, 2, 0), (Sub_Borrow, 0, 2, 1), (Mask_Merge, 2, 1, 0),
                    (Endian_Swap, 2, 2, 4), (Add_Carry, 3, 2, 4), (Endian_Swap, 4, 3, 4), (Compare_Select, 0, 3, 5),
                    (Short_Circuit, 0, 2, 1), (Rotate_Mix, 2, 1, 5), (Short_Circuit, 2, 4, 0),
                    (Short_Circuit, 0, 1, 3)]\<rparr>"

definition case_0668 :: "case_program" where
  "case_0668 =
     \<lparr>case_id = 668,
      case_input = [0x3f095652, 0x8f3e3ac3, 0x000000ff, 0x03395b46, 0xc4028ab5, 0xca40e0e9, 0x65b00f4e, 0xb4cc76ed,
                    0x2b1f83d1, 0x7376ef86, 0xabc0dd4c, 0xdec9b370, 0x317f0075, 0x73039063, 0x000000ff, 0xe335d576],
      case_kernel = gcd_kernel 16531 40164,
      reg_inputs = [13, 1, 5, 9], reg5_init = 0xd8c19ebc,
      memory_keys = [0x0000029c, 0x00000538, 0x00000a70, 0x000014e0, 0x000029c0, 0x00005380, 0x0000a700, 0x00014e00],
      case_stmts = [(Halfword_Swap, 0, 5, 5), (Popcount_Loop, 0, 5, 2), (Sub_Borrow, 2, 2, 1), (Gray_Decode, 2, 3, 1),
                    (Horner_Loop, 3, 4, 5), (Horner_Loop, 0, 4, 0), (Divide_Rem, 5, 1, 1), (Compare_Select, 3, 4, 1),
                    (Gray_Decode, 1, 5, 0), (Endian_Swap, 0, 4, 5), (Carry_Chain, 3, 2, 2), (Add_Carry, 0, 0, 0)]\<rparr>"

definition case_0669 :: "case_program" where
  "case_0669 =
     \<lparr>case_id = 669,
      case_input = [0x7f8b7613, 0x933f6f84, 0x9408de84, 0x00000100, 0xd2570760, 0xffffffff, 0x2c4b9037, 0x6639b021,
                    0xcc588800, 0x32995d49, 0x3d462a6b, 0x06ff4001, 0xe979c39c, 0xeae58a25, 0xf2c012f0, 0xca052408],
      case_kernel = gcd_kernel 6164 28069,
      reg_inputs = [14, 2, 6, 10], reg5_init = 0x76f91875,
      memory_keys = [0x0000029d, 0x0000053a, 0x00000a74, 0x000014e8, 0x000029d0, 0x000053a0, 0x0000a740, 0x00014e80],
      case_stmts = [(Array_Scatter, 1, 4, 2), (Popcount_Loop, 1, 3, 1), (Sub_Borrow, 4, 0, 5), (Carry_Chain, 5, 5, 0),
                    (Add_Carry, 3, 0, 1), (Mask_Merge, 0, 2, 5), (Carry_Chain, 4, 0, 2), (Multiply_Low, 4, 5, 3),
                    (Add_Carry, 4, 0, 1), (Short_Circuit, 1, 0, 1), (Rotate_Mix, 5, 0, 3), (Endian_Swap, 1, 0, 3)]\<rparr>"

definition case_0670 :: "case_program" where
  "case_0670 =
     \<lparr>case_id = 670,
      case_input = [0xbe0d16d0, 0xb73e904c, 0x82a39dca, 0xf7204920, 0x7fffffff, 0x183eda6d, 0xdc52e4cd, 0x6c9ab3ab,
                    0xb94c5d8c, 0xfd16121a, 0x3b404ae3, 0x03c54d6b, 0x0000007f, 0xa9b73735, 0xc6b11139, 0xb0485b3e],
      case_kernel = gcd_kernel 8849 50701,
      reg_inputs = [15, 3, 7, 11], reg5_init = 0x1530922e,
      memory_keys = [0x0000029e, 0x0000053c, 0x00000a78, 0x000014f0, 0x000029e0, 0x000053c0, 0x0000a780, 0x00014f00],
      case_stmts = [(Counted_Loop, 4, 0, 2), (Popcount_Loop, 4, 3, 0), (Sub_Borrow, 4, 1, 0), (Array_Scatter, 0, 3, 5),
                    (Halfword_Swap, 3, 5, 3), (Switch_Phi, 4, 2, 3), (Reverse_Loop, 0, 4, 1), (Reverse_Loop, 0, 2, 4),
                    (Multiply_Low, 3, 4, 4), (Carry_Chain, 5, 3, 3), (Minmax_Clamp, 3, 4, 2), (Mask_Merge, 3, 1, 5)]\<rparr>"

definition case_0671 :: "case_program" where
  "case_0671 =
     \<lparr>case_id = 671,
      case_input = [0xfe8f3691, 0xab3fc50b, 0x773b3fcc, 0x80000000, 0x33c2b014, 0x80000000, 0x95a97bb4, 0xbe6f7567,
                    0x5e0b565d, 0xbcf9a0d5, 0xadc6bdc4, 0xdbf3be1a, 0x76708422, 0x30512d73, 0x1b0b0000, 0x9978aa40],
      case_kernel = gcd_kernel 58482 43148,
      reg_inputs = [0, 4, 8, 12], reg5_init = 0xb3680be7,
      memory_keys = [0x0000029f, 0x0000053e, 0x00000a7c, 0x000014f8, 0x000029f0, 0x000053e0, 0x0000a7c0, 0x00014f80],
      case_stmts = [(Switch_Phi, 3, 5, 5), (Popcount_Loop, 3, 5, 5), (Sub_Borrow, 4, 5, 0), (Short_Circuit, 1, 5, 4),
                    (Gray_Decode, 1, 1, 3), (Endian_Swap, 2, 2, 4), (Short_Circuit, 3, 3, 0), (Byte_Pack, 3, 3, 4),
                    (Minmax_Clamp, 0, 5, 1), (Byte_Pack, 4, 3, 1), (Short_Circuit, 1, 0, 1), (Divide_Rem, 2, 1, 4)]\<rparr>"

definition case_0672 :: "case_program" where
  "case_0672 =
     \<lparr>case_id = 672,
      case_input = [0x2176d961, 0x5f323968, 0x059925fb, 0xc038834e, 0xbaaa0aaa, 0x5055dcfb, 0xfffffffe, 0x3deaad66,
                    0x2cfb258a, 0x0759e2b9, 0x00000002, 0x60cd18af, 0xff2b84dc, 0xcf63f339, 0x6df1afdc, 0x46406d7b],
      case_kernel = gcd_kernel 17026 47017,
      reg_inputs = [1, 5, 9, 13], reg5_init = 0x519f85a0,
      memory_keys = [0x000002a0, 0x00000540, 0x00000a80, 0x00001500, 0x00002a00, 0x00005400, 0x0000a800, 0x00015000],
      case_stmts = [(Short_Circuit, 3, 5, 4), (Popcount_Loop, 5, 1, 3), (Sub_Borrow, 3, 2, 4), (Divide_Rem, 4, 3, 0),
                    (Minmax_Clamp, 1, 5, 1), (Reverse_Loop, 4, 4, 0), (Divide_Rem, 3, 5, 0), (Mask_Merge, 3, 5, 3),
                    (Endian_Swap, 1, 5, 4), (Carry_Chain, 1, 3, 4), (Mask_Merge, 3, 1, 0), (Byte_Pack, 4, 3, 4)]\<rparr>"

definition case_0673 :: "case_program" where
  "case_0673 =
     \<lparr>case_id = 673,
      case_input = [0x61f4f920, 0x00000100, 0xf00187fd, 0x6031f668, 0xacff877f, 0x43b697f8, 0xb21371d8, 0xffffffff,
                    0xcbbc2e5b, 0x46b65076, 0x3233d817, 0xb8fbebde, 0x272d4735, 0x5685e97f, 0xb04bbee5, 0x6f709c05],
      case_kernel = gcd_kernel 44513 257,
      reg_inputs = [2, 6, 10, 14], reg5_init = 0xefd6ff59,
      memory_keys = [0x000002a1, 0x00000542, 0x00000a84, 0x00001508, 0x00002a10, 0x00005420, 0x0000a840, 0x00015080],
      case_stmts = [(Popcount_Loop, 2, 2, 1), (Popcount_Loop, 4, 5, 0), (Sub_Borrow, 5, 2, 4),
                    (Popcount_Loop, 3, 3, 3), (Horner_Loop, 1, 1, 3), (Add_Carry, 4, 2, 5), (Counted_Loop, 4, 0, 5),
                    (Add_Carry, 4, 2, 3), (Reverse_Loop, 2, 4, 1), (Byte_Pack, 4, 5, 0), (Endian_Swap, 5, 5, 1),
                    (Counted_Loop, 5, 3, 5)]\<rparr>"

definition case_0674 :: "case_program" where
  "case_0674 =
     \<lparr>case_id = 674,
      case_input = [0xa07299e3, 0x673293e7, 0xe6aac4b3, 0x34219128, 0x5b3fbdde, 0x822be67f, 0x420a0522, 0xe5bc6820,
                    0x00000000, 0x89391f25, 0x3435b89f, 0xbdc1e6b4, 0x6022c362, 0x15d7546f, 0x843abd2c, 0x153de333],
      case_kernel = gcd_kernel 25060 7912,
      reg_inputs = [3, 7, 11, 15], reg5_init = 0x8e0e7912,
      memory_keys = [0x000002a2, 0x00000544, 0x00000a88, 0x00001510, 0x00002a20, 0x00005440, 0x0000a880, 0x00015100],
      case_stmts = [(Reverse_Loop, 3, 0, 3), (Popcount_Loop, 5, 1, 3), (Sub_Borrow, 3, 3, 5), (Counted_Loop, 2, 3, 2),
                    (Gray_Decode, 5, 4, 5), (Carry_Chain, 2, 2, 1), (Counted_Loop, 4, 2, 4), (Mask_Merge, 4, 5, 2),
                    (Mask_Merge, 1, 2, 2), (Popcount_Loop, 4, 4, 4), (Byte_Pack, 5, 5, 0), (Rotate_Mix, 1, 2, 1)]\<rparr>"

definition case_0675 :: "case_program" where
  "case_0675 =
     \<lparr>case_id = 675,
      case_input = [0x00000000, 0x7b33c6a0, 0x133266b5, 0x9428e40e, 0x4d6a300b, 0x91c8ad7c, 0x0bf19a5b, 0x3749aeec,
                    0x59eff006, 0xc8d6adea, 0xa2b34fb8, 0x65f715c5, 0xb824008b, 0x8c314e29, 0x5980ac15, 0x3c0d124d],
      case_kernel = deadline_kernel,
      reg_inputs = [4, 8, 12, 0], reg5_init = 0x2c45f2cb,
      memory_keys = [0x000002a3, 0x00000546, 0x00000a8c, 0x00001518, 0x00002a30, 0x00005460, 0x0000a8c0, 0x00015180],
      case_stmts = [(Gray_Decode, 0, 1, 4), (Popcount_Loop, 4, 1, 0), (Sub_Borrow, 3, 1, 3), (Horner_Loop, 1, 1, 5),
                    (Minmax_Clamp, 3, 4, 5), (Add_Carry, 0, 2, 2), (Short_Circuit, 3, 5, 1), (Minmax_Clamp, 5, 4, 0),
                    (Counted_Loop, 4, 5, 5), (Divide_Rem, 5, 0, 2), (Byte_Pack, 5, 3, 3), (Byte_Pack, 2, 2, 0)]\<rparr>"

definition case_0676 :: "case_program" where
  "case_0676 =
     \<lparr>case_id = 676,
      case_input = [0x237e5864, 0x00000001, 0xc3fee76a, 0x2a0aa783, 0x7b876443, 0x6da904b7, 0xb5266cd8, 0x45709a5a,
                    0xe492c812, 0x98c03bca, 0x28d1ceaf, 0x64543e9f, 0xae7c3323, 0x26934e46, 0xe4b94399, 0x2fd36447],
      case_kernel = deadline_kernel,
      reg_inputs = [5, 9, 13, 1], reg5_init = 0xca7d6c84,
      memory_keys = [0x000002a4, 0x00000548, 0x00000a90, 0x00001520, 0x00002a40, 0x00005480, 0x0000a900, 0x00015200],
      case_stmts = [(Minmax_Clamp, 4, 0, 2), (Popcount_Loop, 0, 4, 0), (Sub_Borrow, 1, 5, 5), (Mask_Merge, 3, 3, 0),
                    (Counted_Loop, 2, 2, 4), (Byte_Pack, 5, 2, 2), (Popcount_Loop, 2, 3, 2), (Halfword_Swap, 0, 1, 2),
                    (Array_Scatter, 3, 2, 0), (Gray_Decode, 1, 1, 2), (Sub_Borrow, 2, 5, 1), (Switch_Phi, 4, 3, 5)]\<rparr>"

definition case_0677 :: "case_program" where
  "case_0677 =
     \<lparr>case_id = 677,
      case_input = [0x63fc7825, 0x33323931, 0x00000002, 0x8a03d2a5, 0x6dd2e996, 0x7e4a4fb4, 0xfcddf3a1, 0x97855c96,
                    0x03d5c3c3, 0xd92f8905, 0xbe573988, 0xbc62cdee, 0x767af0ca, 0xbf755400, 0x390352a0, 0x06e39539],
      case_kernel = deadline_kernel,
      reg_inputs = [6, 10, 14, 2], reg5_init = 0x68b4e63d,
      memory_keys = [0x000002a5, 0x0000054a, 0x00000a94, 0x00001528, 0x00002a50, 0x000054a0, 0x0000a940, 0x00015280],
      case_stmts = [(Endian_Swap, 3, 5, 3), (Popcount_Loop, 3, 2, 3), (Sub_Borrow, 5, 5, 1), (Short_Circuit, 0, 5, 3),
                    (Array_Scatter, 0, 0, 4), (Array_Scatter, 5, 4, 3), (Horner_Loop, 3, 0, 3), (Sub_Borrow, 5, 0, 0),
                    (Counted_Loop, 4, 3, 3), (Compare_Select, 0, 1, 2), (Sub_Borrow, 4, 1, 4),
                    (Compare_Select, 5, 1, 4)]\<rparr>"

definition case_0678 :: "case_program" where
  "case_0678 =
     \<lparr>case_id = 678,
      case_input = [0xa27a18e6, 0x1733c6f9, 0x20cd0622, 0x00000003, 0x9a12d337, 0xbfd73e33, 0x0cc4875b, 0x9d265f1c,
                    0x76c1164f, 0x16a0c656, 0xb8515900, 0xb958c084, 0x3175749d, 0xfc27e910, 0x0d725169, 0x7caeea0f],
      case_kernel = deadline_kernel,
      reg_inputs = [7, 11, 15, 3], reg5_init = 0x06ec5ff6,
      memory_keys = [0x000002a6, 0x0000054c, 0x00000a98, 0x00001530, 0x00002a60, 0x000054c0, 0x0000a980, 0x00015300],
      case_stmts = [(Carry_Chain, 2, 1, 3), (Popcount_Loop, 2, 4, 2), (Sub_Borrow, 1, 0, 2), (Switch_Phi, 1, 1, 4),
                    (Mask_Merge, 4, 1, 0), (Horner_Loop, 5, 0, 5), (Gray_Decode, 3, 4, 2), (Add_Carry, 1, 5, 3),
                    (Sub_Borrow, 5, 3, 0), (Halfword_Swap, 0, 0, 4), (Gray_Decode, 2, 3, 3), (Reverse_Loop, 5, 0, 2)]\<rparr>"

definition case_0679 :: "case_program" where
  "case_0679 =
     \<lparr>case_id = 679,
      case_input = [0xe2f838a7, 0x0b3293be, 0xd555a424, 0x7e1ac0c3, 0x0000007f, 0xac347530, 0x453f1822, 0x4fd399d0,
                    0x91861d9e, 0x574f7499, 0x2ed7ae27, 0x616e33f5, 0xe973b774, 0x65c1f356, 0xd0c84050, 0x559e1b71],
      case_kernel = deadline_kernel,
      reg_inputs = [8, 12, 0, 4], reg5_init = 0xa523d9af,
      memory_keys = [0x000002a7, 0x0000054e, 0x00000a9c, 0x00001538, 0x00002a70, 0x000054e0, 0x0000a9c0, 0x00015380],
      case_stmts = [(Horner_Loop, 5, 4, 0), (Popcount_Loop, 1, 4, 3), (Sub_Borrow, 1, 0, 0), (Carry_Chain, 2, 5, 3),
                    (Counted_Loop, 4, 5, 0), (Popcount_Loop, 1, 2, 2), (Sub_Borrow, 0, 5, 5), (Endian_Swap, 2, 0, 3),
                    (Rotate_Mix, 4, 2, 3), (Mask_Merge, 1, 2, 2), (Multiply_Low, 4, 3, 0), (Switch_Phi, 2, 0, 1)]\<rparr>"

definition case_0680 :: "case_program" where
  "case_0680 =
     \<lparr>case_id = 680,
      case_input = [0x2567db6b, 0xbf309354, 0x8956a0d8, 0x145ccad4, 0x3af0d779, 0x00000080, 0xff734717, 0x68d13b25,
                    0xd8121e74, 0x04971999, 0xc4e78e19, 0xf7b409f4, 0xbf6de59b, 0x5d155a2b, 0xe617f60a, 0x15a8cff7],
      case_kernel = deadline_kernel,
      reg_inputs = [9, 13, 1, 5], reg5_init = 0x435b5368,
      memory_keys = [0x000002a8, 0x00000550, 0x00000aa0, 0x00001540, 0x00002a80, 0x00005500, 0x0000aa00, 0x00015400],
      case_stmts = [(Add_Carry, 5, 4, 3), (Reverse_Loop, 2, 1, 5), (Sub_Borrow, 3, 1, 2), (Compare_Select, 0, 5, 0),
                    (Minmax_Clamp, 1, 0, 4), (Popcount_Loop, 5, 3, 5), (Counted_Loop, 5, 3, 5),
                    (Compare_Select, 1, 3, 4), (Short_Circuit, 1, 4, 0), (Short_Circuit, 4, 5, 2),
                    (Rotate_Mix, 3, 0, 0), (Array_Scatter, 4, 1, 0)]\<rparr>"

definition case_0681 :: "case_program" where
  "case_0681 =
     \<lparr>case_id = 681,
      case_input = [0x65e5fb2a, 0xa331c613, 0x7cce02de, 0xb455bff2, 0x2ca55aac, 0x38492761, 0x000000ff, 0xba24fde9,
                    0x3f5515a5, 0x4578ab56, 0x5261793e, 0x2f82fa85, 0x676b2672, 0xc4f3406d, 0x3bade733, 0x3c983e89],
      case_kernel = deadline_kernel,
      reg_inputs = [10, 14, 2, 6], reg5_init = 0xe192cd21,
      memory_keys = [0x000002a9, 0x00000552, 0x00000aa4, 0x00001548, 0x00002a90, 0x00005520, 0x0000aa40, 0x00015480],
      case_stmts = [(Sub_Borrow, 0, 3, 0), (Reverse_Loop, 1, 3, 2), (Sub_Borrow, 1, 5, 0), (Gray_Decode, 3, 5, 1),
                    (Byte_Pack, 1, 2, 2), (Switch_Phi, 5, 5, 4), (Halfword_Swap, 0, 4, 0), (Byte_Pack, 2, 0, 0),
                    (Multiply_Low, 0, 3, 3), (Array_Scatter, 3, 1, 0), (Rotate_Mix, 5, 0, 5), (Minmax_Clamp, 3, 5, 5)]\<rparr>"

definition case_0682 :: "case_program" where
  "case_0682 =
     \<lparr>case_id = 682,
      case_input = [0xa4639be9, 0x873039db, 0x6a654190, 0xe045d8b2, 0xdb65600d, 0xf9d456e6, 0x4691ac94, 0x00000100,
                    0x4a41c029, 0x8af7e405, 0x546719b6, 0x2ab8f7ef, 0x2064a225, 0x87a1fd7d, 0x0fdce4fa, 0x46d541bf],
      case_kernel = deadline_kernel,
      reg_inputs = [11, 15, 3, 7], reg5_init = 0x7fca46da,
      memory_keys = [0x000002aa, 0x00000554, 0x00000aa8, 0x00001550, 0x00002aa0, 0x00005540, 0x0000aa80, 0x00015500],
      case_stmts = [(Rotate_Mix, 3, 1, 4), (Reverse_Loop, 4, 5, 5), (Sub_Borrow, 1, 4, 3), (Halfword_Swap, 0, 3, 4),
                    (Multiply_Low, 1, 5, 0), (Endian_Swap, 5, 3, 2), (Minmax_Clamp, 4, 4, 3), (Counted_Loop, 2, 5, 1),
                    (Add_Carry, 1, 1, 0), (Gray_Decode, 5, 0, 0), (Add_Carry, 3, 4, 0), (Divide_Rem, 5, 4, 1)]\<rparr>"

definition case_0683 :: "case_program" where
  "case_0683 =
     \<lparr>case_id = 683,
      case_input = [0xe4e1bba8, 0x9b316c9c, 0x9ffde396, 0x404cad94, 0xcd30edd8, 0xea371de5, 0x0f6a33ed, 0x627238af,
                    0x7fffffff, 0xcb1856ca, 0xc2e1ee91, 0xf28e049e, 0xf86261cc, 0x1e47e73b, 0xd266f5c3, 0x6fe5b0c1],
      case_kernel = deadline_kernel,
      reg_inputs = [12, 0, 4, 8], reg5_init = 0x1e01c093,
      memory_keys = [0x000002ab, 0x00000556, 0x00000aac, 0x00001558, 0x00002ab0, 0x00005560, 0x0000aac0, 0x00015580],
      case_stmts = [(Multiply_Low, 2, 2, 3), (Reverse_Loop, 5, 5, 2), (Sub_Borrow, 1, 4, 3), (Endian_Swap, 5, 5, 5),
                    (Minmax_Clamp, 3, 3, 2), (Switch_Phi, 3, 3, 5), (Compare_Select, 1, 3, 4), (Multiply_Low, 5, 2, 1),
                    (Multiply_Low, 4, 0, 5), (Compare_Select, 2, 4, 0), (Add_Carry, 3, 0, 3), (Endian_Swap, 0, 0, 2)]\<rparr>"

definition case_0684 :: "case_program" where
  "case_0684 =
     \<lparr>case_id = 684,
      case_input = [0x276f5a6e, 0xcf31c64a, 0x4f316249, 0xfe6eee19, 0xfbddb990, 0x1656b42e, 0xb1bdc56e, 0x104b0c19,
                    0x107bf3ec, 0x80000000, 0x48836f86, 0xf32d2fc4, 0xee3a5264, 0xb4e5e754, 0x6f5f1a4f, 0x7c3bc6cb],
      case_kernel = deadline_kernel,
      reg_inputs = [13, 1, 5, 9], reg5_init = 0xbc393a4c,
      memory_keys = [0x000002ac, 0x00000558, 0x00000ab0, 0x00001560, 0x00002ac0, 0x00005580, 0x0000ab00, 0x00015600],
      case_stmts = [(Divide_Rem, 0, 5, 1), (Reverse_Loop, 5, 4, 0), (Sub_Borrow, 3, 2, 1), (Byte_Pack, 5, 3, 2),
                    (Reverse_Loop, 2, 1, 1), (Add_Carry, 4, 3, 1), (Gray_Decode, 0, 3, 1), (Multiply_Low, 2, 5, 1),
                    (Add_Carry, 3, 5, 4), (Mask_Merge, 0, 1, 0), (Compare_Select, 2, 4, 3), (Mask_Merge, 0, 1, 1)]\<rparr>"

definition case_0685 :: "case_program" where
  "case_0685 =
     \<lparr>case_id = 685,
      case_input = [0x67ed7a2f, 0xd330930d, 0xbaa9c04f, 0x5e679b3f, 0xed883445, 0x05b5ff2d, 0xf8465a17, 0xc2becad5,
                    0xf73cf83d, 0xdae17225, 0xfffffffe, 0x2b1bdcb5, 0x363c918d, 0x2d03fd12, 0xb2e50b76, 0x550b37b5],
      case_kernel = deadline_kernel,
      reg_inputs = [14, 2, 6, 10], reg5_init = 0x5a70b405,
      memory_keys = [0x000002ad, 0x0000055a, 0x00000ab4, 0x00001568, 0x00002ad0, 0x000055a0, 0x0000ab40, 0x00015680],
      case_stmts = [(Mask_Merge, 1, 4, 2), (Reverse_Loop, 4, 2, 5), (Sub_Borrow, 1, 2, 1), (Reverse_Loop, 0, 1, 3),
                    (Mask_Merge, 0, 5, 1), (Carry_Chain, 0, 5, 0), (Sub_Borrow, 3, 2, 0), (Carry_Chain, 5, 2, 1),
                    (Switch_Phi, 4, 2, 1), (Minmax_Clamp, 5, 5, 4), (Carry_Chain, 0, 2, 4), (Add_Carry, 5, 5, 4)]\<rparr>"

definition case_0686 :: "case_program" where
  "case_0686 =
     \<lparr>case_id = 686,
      case_input = [0xa66b1aec, 0xf7316cc5, 0xac028301, 0x0a77fc7f, 0x1a480ee4, 0xc4288eaa, 0x085f2eed, 0xc81dc95f,
                    0x82282db1, 0x156e3d76, 0xd803f829, 0xffffffff, 0x713315da, 0x6e514002, 0x869408bf, 0x2f464883],
      case_kernel = deadline_kernel,
      reg_inputs = [15, 3, 7, 11], reg5_init = 0xf8a82dbe,
      memory_keys = [0x000002ae, 0x0000055c, 0x00000ab8, 0x00001570, 0x00002ae0, 0x000055c0, 0x0000ab80, 0x00015700],
      case_stmts = [(Compare_Select, 0, 2, 4), (Reverse_Loop, 1, 2, 2), (Sub_Borrow, 5, 1, 4),
                    (Array_Scatter, 3, 1, 0), (Sub_Borrow, 4, 4, 1), (Minmax_Clamp, 4, 3, 0), (Array_Scatter, 5, 4, 3),
                    (Switch_Phi, 5, 5, 0), (Halfword_Swap, 5, 2, 0), (Reverse_Loop, 5, 0, 2), (Add_Carry, 2, 0, 3),
                    (Add_Carry, 3, 0, 4)]\<rparr>"

definition case_0687 :: "case_program" where
  "case_0687 =
     \<lparr>case_id = 687,
      case_input = [0xe6e93aad, 0xeb303982, 0x599a2107, 0xaa7e8959, 0x00000000, 0xd7cbc5a9, 0x41a4b194, 0x1ae80f93,
                    0x656f2660, 0x54818fb9, 0x4e850f0e, 0xf61722ae, 0x00000000, 0xf7b75a44, 0x5b2e1986, 0x0676b9fd],
      case_kernel = deadline_kernel,
      reg_inputs = [0, 4, 8, 12], reg5_init = 0x96dfa777,
      memory_keys = [0x000002af, 0x0000055e, 0x00000abc, 0x00001578, 0x00002af0, 0x000055e0, 0x0000abc0, 0x00015780],
      case_stmts = [(Byte_Pack, 5, 5, 3), (Reverse_Loop, 2, 0, 1), (Sub_Borrow, 5, 5, 4), (Minmax_Clamp, 0, 5, 3),
                    (Reverse_Loop, 4, 2, 1), (Compare_Select, 0, 5, 3), (Gray_Decode, 0, 5, 0),
                    (Compare_Select, 2, 2, 2), (Multiply_Low, 4, 5, 5), (Byte_Pack, 4, 4, 4), (Add_Carry, 0, 0, 0),
                    (Sub_Borrow, 2, 4, 1)]\<rparr>"

definition case_0688 :: "case_program" where
  "case_0688 =
     \<lparr>case_id = 688,
      case_input = [0x2954dd75, 0x9f376d10, 0x1e062fbd, 0x6af6107b, 0x211f1c49, 0x9aa5e8b6, 0xa9ec087d, 0x6b53d0d3,
                    0x7c73342c, 0x7ee49a28, 0x0e13197d, 0x00000080, 0xd70224b9, 0x00000001, 0x21cbe15e, 0xc4698d17],
      case_kernel = deadline_kernel,
      reg_inputs = [1, 5, 9, 13], reg5_init = 0x35172130,
      memory_keys = [0x000002b0, 0x00000560, 0x00000ac0, 0x00001580, 0x00002b00, 0x00005600, 0x0000ac00, 0x00015800],
      case_stmts = [(Halfword_Swap, 4, 0, 4), (Reverse_Loop, 2, 5, 1), (Sub_Borrow, 1, 4, 3), (Halfword_Swap, 1, 4, 4),
                    (Short_Circuit, 1, 0, 3), (Minmax_Clamp, 3, 0, 4), (Popcount_Loop, 3, 1, 4),
                    (Reverse_Loop, 2, 3, 1), (Divide_Rem, 5, 2, 2), (Reverse_Loop, 2, 4, 1), (Minmax_Clamp, 4, 1, 5),
                    (Endian_Swap, 2, 4, 3)]\<rparr>"

definition case_0689 :: "case_program" where
  "case_0689 =
     \<lparr>case_id = 689,
      case_input = [0x69d6fd34, 0x83363857, 0xfffffffe, 0xcaff655d, 0x374a919c, 0x8946a3b5, 0xe0179704, 0xb9a6161f,
                    0x9b343ffd, 0x3f0b28e7, 0x9895ee5a, 0x29cc5dae, 0x0f04e750, 0x078da92d, 0x00000002, 0xed597c69],
      case_kernel = deadline_kernel,
      reg_inputs = [2, 6, 10, 14], reg5_init = 0xd34e9ae9,
      memory_keys = [0x000002b1, 0x00000562, 0x00000ac4, 0x00001588, 0x00002b10, 0x00005620, 0x0000ac40, 0x00015880],
      case_stmts = [(Array_Scatter, 3, 3, 5), (Reverse_Loop, 3, 1, 2), (Sub_Borrow, 3, 2, 1), (Popcount_Loop, 4, 4, 1),
                    (Switch_Phi, 3, 2, 5), (Counted_Loop, 3, 2, 1), (Gray_Decode, 2, 4, 3), (Byte_Pack, 1, 0, 3),
                    (Horner_Loop, 0, 5, 5), (Byte_Pack, 1, 0, 1), (Short_Circuit, 4, 3, 0), (Short_Circuit, 3, 2, 4)]\<rparr>"

definition case_0690 :: "case_program" where
  "case_0690 =
     \<lparr>case_id = 690,
      case_input = [0xa8509df7, 0xa737c79f, 0xfd35cef5, 0x9eef021d, 0xc08aab3d, 0x48dbd232, 0x100ee3fe, 0xb3051595,
                    0xee20ea71, 0x00000003, 0x9e938ed2, 0x2cf650c4, 0x480b6307, 0x44df143d, 0xc800f3ae, 0x00000003],
      case_kernel = deadline_kernel,
      reg_inputs = [3, 7, 11, 15], reg5_init = 0x718614a2,
      memory_keys = [0x000002b2, 0x00000564, 0x00000ac8, 0x00001590, 0x00002b20, 0x00005640, 0x0000ac80, 0x00015900],
      case_stmts = [(Counted_Loop, 2, 1, 5), (Reverse_Loop, 4, 1, 3), (Sub_Borrow, 1, 5, 2), (Reverse_Loop, 3, 4, 4),
                    (Byte_Pack, 1, 1, 5), (Add_Carry, 5, 2, 5), (Switch_Phi, 0, 0, 0), (Counted_Loop, 3, 1, 4),
                    (Short_Circuit, 5, 3, 2), (Mask_Merge, 3, 3, 1), (Carry_Chain, 0, 1, 1), (Add_Carry, 3, 5, 0)]\<rparr>"

definition case_0691 :: "case_program" where
  "case_0691 =
     \<lparr>case_id = 691,
      case_input = [0x7fffffff, 0xbb3692d8, 0x08ad6cf3, 0x3ee6773b, 0xd6df26e8, 0x5b389931, 0x59f57c87, 0x61f0d359,
                    0x0967e1a0, 0xb16bd57b, 0x081579f5, 0xf4c0a3b5, 0x900da0ee, 0xdd390e7b, 0x15bae297, 0xbe24f221],
      case_kernel = deadline_kernel,
      reg_inputs = [4, 8, 12, 0], reg5_init = 0x0fbd8e5b,
      memory_keys = [0x000002b3, 0x00000566, 0x00000acc, 0x00001598, 0x00002b30, 0x00005660, 0x0000acc0, 0x00015980],
      case_stmts = [(Switch_Phi, 5, 4, 2), (Reverse_Loop, 5, 1, 0), (Sub_Borrow, 5, 5, 2), (Horner_Loop, 4, 4, 5),
                    (Divide_Rem, 3, 3, 1), (Rotate_Mix, 5, 2, 4), (Popcount_Loop, 1, 5, 1), (Multiply_Low, 4, 4, 4),
                    (Switch_Phi, 2, 4, 1), (Minmax_Clamp, 4, 1, 3), (Compare_Select, 4, 5, 4), (Endian_Swap, 0, 1, 1)]\<rparr>"

definition case_0692 :: "case_program" where
  "case_0692 =
     \<lparr>case_id = 692,
      case_input = [0x2b5c5c70, 0x00000080, 0xd861ed2c, 0x80c434b6, 0xe03272a0, 0xa75930fa, 0xe7228a04, 0x00000001,
                    0xb41ad9b4, 0xe17d435b, 0x8277f8e2, 0xf56388ef, 0x86559346, 0x779b0e14, 0xa8830d1b, 0xadfa842b],
      case_kernel = deadline_kernel,
      reg_inputs = [5, 9, 13, 1], reg5_init = 0xadf50814,
      memory_keys = [0x000002b4, 0x00000568, 0x00000ad0, 0x000015a0, 0x00002b40, 0x00005680, 0x0000ad00, 0x00015a00],
      case_stmts = [(Short_Circuit, 5, 1, 0), (Reverse_Loop, 3, 4, 0), (Sub_Borrow, 5, 3, 0), (Endian_Swap, 0, 0, 2),
                    (Compare_Select, 0, 3, 0), (Sub_Borrow, 4, 4, 4), (Short_Circuit, 4, 1, 4), (Switch_Phi, 1, 5, 2),
                    (Halfword_Swap, 3, 3, 2), (Horner_Loop, 2, 2, 5), (Short_Circuit, 3, 5, 0),
                    (Array_Scatter, 4, 4, 2)]\<rparr>"

definition case_0693 :: "case_program" where
  "case_0693 =
     \<lparr>case_id = 693,
      case_input = [0x6bde7c31, 0xf3376d49, 0x000000ff, 0x20cd4190, 0xf667ff75, 0xb4ba7bf9, 0xaed9157d, 0xc13c2123,
                    0x535dd265, 0xa092f194, 0x14f10fc5, 0x2d557b9e, 0x5e5350af, 0xee7d1452, 0x000000ff, 0x84ca7555],
      case_kernel = deadline_kernel,
      reg_inputs = [6, 10, 14, 2], reg5_init = 0x4c2c81cd,
      memory_keys = [0x000002b5, 0x0000056a, 0x00000ad4, 0x000015a8, 0x00002b50, 0x000056a0, 0x0000ad40, 0x00015a80],
      case_stmts = [(Popcount_Loop, 2, 2, 3), (Reverse_Loop, 0, 2, 5), (Sub_Borrow, 5, 3, 2), (Add_Carry, 3, 2, 5),
                    (Mask_Merge, 0, 5, 0), (Horner_Loop, 4, 0, 5), (Carry_Chain, 5, 0, 5), (Reverse_Loop, 2, 2, 2),
                    (Multiply_Low, 4, 2, 1), (Rotate_Mix, 3, 2, 1), (Divide_Rem, 3, 5, 3), (Short_Circuit, 3, 0, 1)]\<rparr>"

definition case_0694 :: "case_program" where
  "case_0694 =
     \<lparr>case_id = 694,
      case_input = [0xaa581cf2, 0xd7369281, 0x3b520c64, 0x00000100, 0x01a7c5d4, 0xffffffff, 0x5ec06187, 0xcb9f22a9,
                    0x264907e9, 0x6f1dbec7, 0x12f76f4d, 0x286f76f4, 0x195cd4f8, 0xad2fa942, 0x41481feb, 0xfe870a63],
      case_kernel = deadline_kernel,
      reg_inputs = [7, 11, 15, 3], reg5_init = 0xea63fb86,
      memory_keys = [0x000002b6, 0x0000056c, 0x00000ad8, 0x000015b0, 0x00002b60, 0x000056c0, 0x0000ad80, 0x00015b00],
      case_stmts = [(Reverse_Loop, 3, 4, 3), (Reverse_Loop, 3, 0, 2), (Sub_Borrow, 1, 2, 5), (Multiply_Low, 2, 2, 0),
                    (Mask_Merge, 0, 4, 2), (Mask_Merge, 2, 4, 1), (Counted_Loop, 5, 2, 0), (Horner_Loop, 0, 3, 3),
                    (Halfword_Swap, 1, 0, 4), (Divide_Rem, 3, 5, 1), (Rotate_Mix, 5, 3, 4), (Add_Carry, 1, 1, 3)]\<rparr>"

definition case_0695 :: "case_program" where
  "case_0695 =
     \<lparr>case_id = 695,
      case_input = [0xeada3cb3, 0xcb37c7c6, 0xcecaae62, 0xd4d453f6, 0x7fffffff, 0x66c4417d, 0x173bfefe, 0x196ae465,
                    0xc10e0c38, 0x2ef20c08, 0x8471986a, 0xf0598585, 0x0000007f, 0x34c9b304, 0x9cf20ed2, 0xd7b7fb1d],
      case_kernel = deadline_kernel,
      reg_inputs = [8, 12, 0, 4], reg5_init = 0x889b753f,
      memory_keys = [0x000002b7, 0x0000056e, 0x00000adc, 0x000015b8, 0x00002b70, 0x000056e0, 0x0000adc0, 0x00015b80],
      case_stmts = [(Gray_Decode, 2, 3, 4), (Reverse_Loop, 4, 2, 5), (Sub_Borrow, 5, 4, 1), (Compare_Select, 3, 2, 3),
                    (Counted_Loop, 2, 2, 0), (Byte_Pack, 2, 2, 4), (Short_Circuit, 2, 5, 5), (Reverse_Loop, 5, 4, 5),
                    (Switch_Phi, 2, 5, 5), (Endian_Swap, 2, 5, 3), (Compare_Select, 5, 1, 1), (Mask_Merge, 0, 1, 2)]\<rparr>"

definition case_0696 :: "case_program" where
  "case_0696 =
     \<lparr>case_id = 696,
      case_input = [0x2d45df7f, 0x7f35c72c, 0x92c9aa9e, 0x80000000, 0xa145c19a, 0x80000000, 0xad77a1cb, 0x3e684690,
                    0x889a0fd2, 0x7d2a6108, 0x6e41b854, 0x6683bf84, 0x974445fe, 0x0c1d1a79, 0xaa2db888, 0x97812f9b],
      case_kernel = deadline_kernel,
      reg_inputs = [9, 13, 1, 5], reg5_init = 0x26d2eef8,
      memory_keys = [0x000002b8, 0x00000570, 0x00000ae0, 0x000015c0, 0x00002b80, 0x00005700, 0x0000ae00, 0x00015c00],
      case_stmts = [(Minmax_Clamp, 2, 1, 3), (Reverse_Loop, 1, 5, 5), (Sub_Borrow, 3, 3, 3), (Counted_Loop, 1, 4, 4),
                    (Minmax_Clamp, 1, 5, 0), (Multiply_Low, 2, 1, 3), (Gray_Decode, 3, 1, 1), (Popcount_Loop, 0, 5, 4),
                    (Sub_Borrow, 3, 3, 4), (Add_Carry, 3, 0, 3), (Switch_Phi, 0, 0, 1), (Horner_Loop, 4, 4, 1)]\<rparr>"

definition case_0697 :: "case_program" where
  "case_0697 =
     \<lparr>case_id = 697,
      case_input = [0x6dc7ff3e, 0x6334926b, 0x67510898, 0x1e9b2cc7, 0xb7104c4f, 0xf2b9132c, 0xfffffffe, 0xec9d805c,
                    0x6fdd0403, 0x3cc5d3c7, 0x00000002, 0xbeb54cf5, 0x4f428617, 0x95fb003f, 0x7797a9b1, 0xbeb1dee5],
      case_kernel = deadline_kernel,
      reg_inputs = [10, 14, 2, 6], reg5_init = 0xc50a68b1,
      memory_keys = [0x000002b9, 0x00000572, 0x00000ae4, 0x000015c8, 0x00002b90, 0x00005720, 0x0000ae40, 0x00015c80],
      case_stmts = [(Endian_Swap, 1, 0, 4), (Reverse_Loop, 0, 3, 2), (Sub_Borrow, 5, 5, 3), (Gray_Decode, 4, 0, 1),
                    (Multiply_Low, 3, 3, 0), (Sub_Borrow, 2, 3, 4), (Sub_Borrow, 2, 4, 2), (Short_Circuit, 1, 2, 2),
                    (Reverse_Loop, 2, 0, 5), (Popcount_Loop, 2, 4, 5), (Gray_Decode, 2, 2, 0), (Reverse_Loop, 1, 0, 4)]\<rparr>"

definition case_0698 :: "case_program" where
  "case_0698 =
     \<lparr>case_id = 698,
      case_input = [0xac419ffd, 0x00000100, 0x71fa4bd6, 0x4a8b4b87, 0x40d076ee, 0x332462ab, 0x14954a48, 0xffffffff,
                    0x1ac9d18f, 0xf34a9c94, 0xfec12ffb, 0xbb8f419f, 0x084d0240, 0xd6a9bd2f, 0x43e6aa78, 0xc4fca1d3],
      case_kernel = deadline_kernel,
      reg_inputs = [11, 15, 3, 7], reg5_init = 0x6341e26a,
      memory_keys = [0x000002ba, 0x00000574, 0x00000ae8, 0x000015d0, 0x00002ba0, 0x00005740, 0x0000ae80, 0x00015d00],
      case_stmts = [(Carry_Chain, 2, 4, 2), (Reverse_Loop, 1, 5, 1), (Sub_Borrow, 5, 4, 4), (Short_Circuit, 1, 2, 4),
                    (Byte_Pack, 5, 4, 4), (Switch_Phi, 0, 5, 2), (Sub_Borrow, 2, 0, 1), (Mask_Merge, 5, 1, 3),
                    (Endian_Swap, 1, 4, 4), (Byte_Pack, 2, 1, 3), (Mask_Merge, 4, 2, 1), (Compare_Select, 1, 3, 0)]\<rparr>"

definition case_0699 :: "case_program" where
  "case_0699 =
     \<lparr>case_id = 699,
      case_input = [0xecc3bfbc, 0x5b3438e4, 0x8462e9d0, 0xea823ea1, 0x5685fb3b, 0x20c729a8, 0x5d6ed531, 0x34cb451a,
                    0x00000000, 0xb2a52e5b, 0x6847d8dc, 0x63b9b2ee, 0xd04bc1a9, 0x4f4fa769, 0x9e5cbb41, 0xedcc50ad],
      case_kernel = deadline_kernel,
      reg_inputs = [12, 0, 4, 8], reg5_init = 0x01795c23,
      memory_keys = [0x000002bb, 0x00000576, 0x00000aec, 0x000015d8, 0x00002bb0, 0x00005760, 0x0000aec0, 0x00015d80],
      case_stmts = [(Horner_Loop, 5, 3, 3), (Reverse_Loop, 2, 1, 4), (Sub_Borrow, 1, 2, 2), (Endian_Swap, 4, 4, 3),
                    (Minmax_Clamp, 5, 4, 4), (Endian_Swap, 2, 1, 3), (Byte_Pack, 5, 3, 0), (Halfword_Swap, 4, 2, 1),
                    (Compare_Select, 2, 5, 1), (Reverse_Loop, 3, 1, 5), (Sub_Borrow, 0, 4, 0), (Byte_Pack, 4, 3, 5)]\<rparr>"

lemma conforms_0600: "conforms case_0600 (struct_return_prediction)"
  by (rule conformsI) (simp_all add: case_0600_def upt_rec stmt_ok_def struct_return_predicted)

lemma conforms_0601: "conforms case_0601 (struct_return_prediction)"
  by (rule conformsI) (simp_all add: case_0601_def upt_rec stmt_ok_def struct_return_predicted)

lemma conforms_0602: "conforms case_0602 (struct_return_prediction)"
  by (rule conformsI) (simp_all add: case_0602_def upt_rec stmt_ok_def struct_return_predicted)

lemma conforms_0603: "conforms case_0603 (struct_return_prediction)"
  by (rule conformsI) (simp_all add: case_0603_def upt_rec stmt_ok_def struct_return_predicted)

lemma conforms_0604: "conforms case_0604 (struct_return_prediction)"
  by (rule conformsI) (simp_all add: case_0604_def upt_rec stmt_ok_def struct_return_predicted)

lemma conforms_0605: "conforms case_0605 (struct_return_prediction)"
  by (rule conformsI) (simp_all add: case_0605_def upt_rec stmt_ok_def struct_return_predicted)

lemma conforms_0606: "conforms case_0606 (struct_return_prediction)"
  by (rule conformsI) (simp_all add: case_0606_def upt_rec stmt_ok_def struct_return_predicted)

lemma conforms_0607: "conforms case_0607 (struct_return_prediction)"
  by (rule conformsI) (simp_all add: case_0607_def upt_rec stmt_ok_def struct_return_predicted)

lemma conforms_0608: "conforms case_0608 (struct_return_prediction)"
  by (rule conformsI) (simp_all add: case_0608_def upt_rec stmt_ok_def struct_return_predicted)

lemma conforms_0609: "conforms case_0609 (struct_return_prediction)"
  by (rule conformsI) (simp_all add: case_0609_def upt_rec stmt_ok_def struct_return_predicted)

lemma conforms_0610: "conforms case_0610 (struct_return_prediction)"
  by (rule conformsI) (simp_all add: case_0610_def upt_rec stmt_ok_def struct_return_predicted)

lemma conforms_0611: "conforms case_0611 (struct_return_prediction)"
  by (rule conformsI) (simp_all add: case_0611_def upt_rec stmt_ok_def struct_return_predicted)

lemma conforms_0612: "conforms case_0612 (struct_return_prediction)"
  by (rule conformsI) (simp_all add: case_0612_def upt_rec stmt_ok_def struct_return_predicted)

lemma conforms_0613: "conforms case_0613 (struct_return_prediction)"
  by (rule conformsI) (simp_all add: case_0613_def upt_rec stmt_ok_def struct_return_predicted)

lemma conforms_0614: "conforms case_0614 (struct_return_prediction)"
  by (rule conformsI) (simp_all add: case_0614_def upt_rec stmt_ok_def struct_return_predicted)

lemma conforms_0615: "conforms case_0615 (struct_return_prediction)"
  by (rule conformsI) (simp_all add: case_0615_def upt_rec stmt_ok_def struct_return_predicted)

lemma conforms_0616: "conforms case_0616 (struct_return_prediction)"
  by (rule conformsI) (simp_all add: case_0616_def upt_rec stmt_ok_def struct_return_predicted)

lemma conforms_0617: "conforms case_0617 (struct_return_prediction)"
  by (rule conformsI) (simp_all add: case_0617_def upt_rec stmt_ok_def struct_return_predicted)

lemma conforms_0618: "conforms case_0618 (struct_return_prediction)"
  by (rule conformsI) (simp_all add: case_0618_def upt_rec stmt_ok_def struct_return_predicted)

lemma conforms_0619: "conforms case_0619 (struct_return_prediction)"
  by (rule conformsI) (simp_all add: case_0619_def upt_rec stmt_ok_def struct_return_predicted)

lemma conforms_0620: "conforms case_0620 (struct_return_prediction)"
  by (rule conformsI) (simp_all add: case_0620_def upt_rec stmt_ok_def struct_return_predicted)

lemma conforms_0621: "conforms case_0621 (struct_return_prediction)"
  by (rule conformsI) (simp_all add: case_0621_def upt_rec stmt_ok_def struct_return_predicted)

lemma conforms_0622: "conforms case_0622 (struct_return_prediction)"
  by (rule conformsI) (simp_all add: case_0622_def upt_rec stmt_ok_def struct_return_predicted)

lemma conforms_0623: "conforms case_0623 (struct_return_prediction)"
  by (rule conformsI) (simp_all add: case_0623_def upt_rec stmt_ok_def struct_return_predicted)

lemma conforms_0624: "conforms case_0624 (struct_return_prediction)"
  by (rule conformsI) (simp_all add: case_0624_def upt_rec stmt_ok_def struct_return_predicted)

lemma conforms_0625: "conforms case_0625 (function_pointer_prediction 0)"
  by (rule conformsI) (simp_all add: case_0625_def upt_rec stmt_ok_def function_pointer_predicted)

lemma conforms_0626: "conforms case_0626 (function_pointer_prediction 1)"
  by (rule conformsI) (simp_all add: case_0626_def upt_rec stmt_ok_def function_pointer_predicted)

lemma conforms_0627: "conforms case_0627 (function_pointer_prediction 2)"
  by (rule conformsI) (simp_all add: case_0627_def upt_rec stmt_ok_def function_pointer_predicted)

lemma conforms_0628: "conforms case_0628 (function_pointer_prediction 3)"
  by (rule conformsI) (simp_all add: case_0628_def upt_rec stmt_ok_def function_pointer_predicted)

lemma conforms_0629: "conforms case_0629 (function_pointer_prediction 0)"
  by (rule conformsI) (simp_all add: case_0629_def upt_rec stmt_ok_def function_pointer_predicted)

lemma conforms_0630: "conforms case_0630 (function_pointer_prediction 1)"
  by (rule conformsI) (simp_all add: case_0630_def upt_rec stmt_ok_def function_pointer_predicted)

lemma conforms_0631: "conforms case_0631 (function_pointer_prediction 2)"
  by (rule conformsI) (simp_all add: case_0631_def upt_rec stmt_ok_def function_pointer_predicted)

lemma conforms_0632: "conforms case_0632 (function_pointer_prediction 3)"
  by (rule conformsI) (simp_all add: case_0632_def upt_rec stmt_ok_def function_pointer_predicted)

lemma conforms_0633: "conforms case_0633 (function_pointer_prediction 0)"
  by (rule conformsI) (simp_all add: case_0633_def upt_rec stmt_ok_def function_pointer_predicted)

lemma conforms_0634: "conforms case_0634 (function_pointer_prediction 1)"
  by (rule conformsI) (simp_all add: case_0634_def upt_rec stmt_ok_def function_pointer_predicted)

lemma conforms_0635: "conforms case_0635 (function_pointer_prediction 2)"
  by (rule conformsI) (simp_all add: case_0635_def upt_rec stmt_ok_def function_pointer_predicted)

lemma conforms_0636: "conforms case_0636 (function_pointer_prediction 3)"
  by (rule conformsI) (simp_all add: case_0636_def upt_rec stmt_ok_def function_pointer_predicted)

lemma conforms_0637: "conforms case_0637 (function_pointer_prediction 0)"
  by (rule conformsI) (simp_all add: case_0637_def upt_rec stmt_ok_def function_pointer_predicted)

lemma conforms_0638: "conforms case_0638 (function_pointer_prediction 1)"
  by (rule conformsI) (simp_all add: case_0638_def upt_rec stmt_ok_def function_pointer_predicted)

lemma conforms_0639: "conforms case_0639 (function_pointer_prediction 2)"
  by (rule conformsI) (simp_all add: case_0639_def upt_rec stmt_ok_def function_pointer_predicted)

lemma conforms_0640: "conforms case_0640 (function_pointer_prediction 3)"
  by (rule conformsI) (simp_all add: case_0640_def upt_rec stmt_ok_def function_pointer_predicted)

lemma conforms_0641: "conforms case_0641 (function_pointer_prediction 0)"
  by (rule conformsI) (simp_all add: case_0641_def upt_rec stmt_ok_def function_pointer_predicted)

lemma conforms_0642: "conforms case_0642 (function_pointer_prediction 1)"
  by (rule conformsI) (simp_all add: case_0642_def upt_rec stmt_ok_def function_pointer_predicted)

lemma conforms_0643: "conforms case_0643 (function_pointer_prediction 2)"
  by (rule conformsI) (simp_all add: case_0643_def upt_rec stmt_ok_def function_pointer_predicted)

lemma conforms_0644: "conforms case_0644 (function_pointer_prediction 3)"
  by (rule conformsI) (simp_all add: case_0644_def upt_rec stmt_ok_def function_pointer_predicted)

lemma conforms_0645: "conforms case_0645 (function_pointer_prediction 0)"
  by (rule conformsI) (simp_all add: case_0645_def upt_rec stmt_ok_def function_pointer_predicted)

lemma conforms_0646: "conforms case_0646 (function_pointer_prediction 1)"
  by (rule conformsI) (simp_all add: case_0646_def upt_rec stmt_ok_def function_pointer_predicted)

lemma conforms_0647: "conforms case_0647 (function_pointer_prediction 2)"
  by (rule conformsI) (simp_all add: case_0647_def upt_rec stmt_ok_def function_pointer_predicted)

lemma conforms_0648: "conforms case_0648 (function_pointer_prediction 3)"
  by (rule conformsI) (simp_all add: case_0648_def upt_rec stmt_ok_def function_pointer_predicted)

lemma conforms_0649: "conforms case_0649 (function_pointer_prediction 0)"
  by (rule conformsI) (simp_all add: case_0649_def upt_rec stmt_ok_def function_pointer_predicted)

lemma conforms_0650: "conforms case_0650 (\<lambda>_. gcd_prediction 1 18763)"
  by (rule conformsI) (simp_all add: case_0650_def upt_rec stmt_ok_def gcd_predicted)

lemma conforms_0651: "conforms case_0651 (\<lambda>_. gcd_prediction 20097 2)"
  by (rule conformsI) (simp_all add: case_0651_def upt_rec stmt_ok_def gcd_predicted)

lemma conforms_0652: "conforms case_0652 (\<lambda>_. gcd_prediction 25991 55036)"
  by (rule conformsI) (simp_all add: case_0652_def upt_rec stmt_ok_def gcd_predicted)

lemma conforms_0653: "conforms case_0653 (\<lambda>_. gcd_prediction 53480 5373)"
  by (rule conformsI) (simp_all add: case_0653_def upt_rec stmt_ok_def gcd_predicted)

lemma conforms_0654: "conforms case_0654 (\<lambda>_. gcd_prediction 18309 5557)"
  by (rule conformsI) (simp_all add: case_0654_def upt_rec stmt_ok_def gcd_predicted)

lemma conforms_0655: "conforms case_0655 (\<lambda>_. gcd_prediction 45798 20436)"
  by (rule conformsI) (simp_all add: case_0655_def upt_rec stmt_ok_def gcd_predicted)

lemma conforms_0656: "conforms case_0656 (\<lambda>_. gcd_prediction 44510 42050)"
  by (rule conformsI) (simp_all add: case_0656_def upt_rec stmt_ok_def gcd_predicted)

lemma conforms_0657: "conforms case_0657 (\<lambda>_. gcd_prediction 34141 839)"
  by (rule conformsI) (simp_all add: case_0657_def upt_rec stmt_ok_def gcd_predicted)

lemma conforms_0658: "conforms case_0658 (\<lambda>_. gcd_prediction 36832 17647)"
  by (rule conformsI) (simp_all add: case_0658_def upt_rec stmt_ok_def gcd_predicted)

lemma conforms_0659: "conforms case_0659 (\<lambda>_. gcd_prediction 26463 22794)"
  by (rule conformsI) (simp_all add: case_0659_def upt_rec stmt_ok_def gcd_predicted)

lemma conforms_0660: "conforms case_0660 (\<lambda>_. gcd_prediction 10201 256)"
  by (rule conformsI) (simp_all add: case_0660_def upt_rec stmt_ok_def gcd_predicted)

lemma conforms_0661: "conforms case_0661 (\<lambda>_. gcd_prediction 59834 48153)"
  by (rule conformsI) (simp_all add: case_0661_def upt_rec stmt_ok_def gcd_predicted)

lemma conforms_0662: "conforms case_0662 (\<lambda>_. gcd_prediction 2523 44913)"
  by (rule conformsI) (simp_all add: case_0662_def upt_rec stmt_ok_def gcd_predicted)

lemma conforms_0663: "conforms case_0663 (\<lambda>_. gcd_prediction 52156 37368)"
  by (rule conformsI) (simp_all add: case_0663_def upt_rec stmt_ok_def gcd_predicted)

lemma conforms_0664: "conforms case_0664 (\<lambda>_. gcd_prediction 50840 27486)"
  by (rule conformsI) (simp_all add: case_0664_def upt_rec stmt_ok_def gcd_predicted)

lemma conforms_0665: "conforms case_0665 (\<lambda>_. gcd_prediction 40471 46267)"
  by (rule conformsI) (simp_all add: case_0665_def upt_rec stmt_ok_def gcd_predicted)

lemma conforms_0666: "conforms case_0666 (\<lambda>_. gcd_prediction 23648 5267)"
  by (rule conformsI) (simp_all add: case_0666_def upt_rec stmt_ok_def gcd_predicted)

lemma conforms_0667: "conforms case_0667 (\<lambda>_. gcd_prediction 32789 129)"
  by (rule conformsI) (simp_all add: case_0667_def upt_rec stmt_ok_def gcd_predicted)

lemma conforms_0668: "conforms case_0668 (\<lambda>_. gcd_prediction 16531 40164)"
  by (rule conformsI) (simp_all add: case_0668_def upt_rec stmt_ok_def gcd_predicted)

lemma conforms_0669: "conforms case_0669 (\<lambda>_. gcd_prediction 6164 28069)"
  by (rule conformsI) (simp_all add: case_0669_def upt_rec stmt_ok_def gcd_predicted)

lemma conforms_0670: "conforms case_0670 (\<lambda>_. gcd_prediction 8849 50701)"
  by (rule conformsI) (simp_all add: case_0670_def upt_rec stmt_ok_def gcd_predicted)

lemma conforms_0671: "conforms case_0671 (\<lambda>_. gcd_prediction 58482 43148)"
  by (rule conformsI) (simp_all add: case_0671_def upt_rec stmt_ok_def gcd_predicted)

lemma conforms_0672: "conforms case_0672 (\<lambda>_. gcd_prediction 17026 47017)"
  by (rule conformsI) (simp_all add: case_0672_def upt_rec stmt_ok_def gcd_predicted)

lemma conforms_0673: "conforms case_0673 (\<lambda>_. gcd_prediction 44513 257)"
  by (rule conformsI) (simp_all add: case_0673_def upt_rec stmt_ok_def gcd_predicted)

lemma conforms_0674: "conforms case_0674 (\<lambda>_. gcd_prediction 25060 7912)"
  by (rule conformsI) (simp_all add: case_0674_def upt_rec stmt_ok_def gcd_predicted)

lemma conforms_0675: "conforms case_0675 (deadline_prediction)"
  by (rule conformsI) (simp_all add: case_0675_def upt_rec stmt_ok_def deadline_predicted)

lemma conforms_0676: "conforms case_0676 (deadline_prediction)"
  by (rule conformsI) (simp_all add: case_0676_def upt_rec stmt_ok_def deadline_predicted)

lemma conforms_0677: "conforms case_0677 (deadline_prediction)"
  by (rule conformsI) (simp_all add: case_0677_def upt_rec stmt_ok_def deadline_predicted)

lemma conforms_0678: "conforms case_0678 (deadline_prediction)"
  by (rule conformsI) (simp_all add: case_0678_def upt_rec stmt_ok_def deadline_predicted)

lemma conforms_0679: "conforms case_0679 (deadline_prediction)"
  by (rule conformsI) (simp_all add: case_0679_def upt_rec stmt_ok_def deadline_predicted)

lemma conforms_0680: "conforms case_0680 (deadline_prediction)"
  by (rule conformsI) (simp_all add: case_0680_def upt_rec stmt_ok_def deadline_predicted)

lemma conforms_0681: "conforms case_0681 (deadline_prediction)"
  by (rule conformsI) (simp_all add: case_0681_def upt_rec stmt_ok_def deadline_predicted)

lemma conforms_0682: "conforms case_0682 (deadline_prediction)"
  by (rule conformsI) (simp_all add: case_0682_def upt_rec stmt_ok_def deadline_predicted)

lemma conforms_0683: "conforms case_0683 (deadline_prediction)"
  by (rule conformsI) (simp_all add: case_0683_def upt_rec stmt_ok_def deadline_predicted)

lemma conforms_0684: "conforms case_0684 (deadline_prediction)"
  by (rule conformsI) (simp_all add: case_0684_def upt_rec stmt_ok_def deadline_predicted)

lemma conforms_0685: "conforms case_0685 (deadline_prediction)"
  by (rule conformsI) (simp_all add: case_0685_def upt_rec stmt_ok_def deadline_predicted)

lemma conforms_0686: "conforms case_0686 (deadline_prediction)"
  by (rule conformsI) (simp_all add: case_0686_def upt_rec stmt_ok_def deadline_predicted)

lemma conforms_0687: "conforms case_0687 (deadline_prediction)"
  by (rule conformsI) (simp_all add: case_0687_def upt_rec stmt_ok_def deadline_predicted)

lemma conforms_0688: "conforms case_0688 (deadline_prediction)"
  by (rule conformsI) (simp_all add: case_0688_def upt_rec stmt_ok_def deadline_predicted)

lemma conforms_0689: "conforms case_0689 (deadline_prediction)"
  by (rule conformsI) (simp_all add: case_0689_def upt_rec stmt_ok_def deadline_predicted)

lemma conforms_0690: "conforms case_0690 (deadline_prediction)"
  by (rule conformsI) (simp_all add: case_0690_def upt_rec stmt_ok_def deadline_predicted)

lemma conforms_0691: "conforms case_0691 (deadline_prediction)"
  by (rule conformsI) (simp_all add: case_0691_def upt_rec stmt_ok_def deadline_predicted)

lemma conforms_0692: "conforms case_0692 (deadline_prediction)"
  by (rule conformsI) (simp_all add: case_0692_def upt_rec stmt_ok_def deadline_predicted)

lemma conforms_0693: "conforms case_0693 (deadline_prediction)"
  by (rule conformsI) (simp_all add: case_0693_def upt_rec stmt_ok_def deadline_predicted)

lemma conforms_0694: "conforms case_0694 (deadline_prediction)"
  by (rule conformsI) (simp_all add: case_0694_def upt_rec stmt_ok_def deadline_predicted)

lemma conforms_0695: "conforms case_0695 (deadline_prediction)"
  by (rule conformsI) (simp_all add: case_0695_def upt_rec stmt_ok_def deadline_predicted)

lemma conforms_0696: "conforms case_0696 (deadline_prediction)"
  by (rule conformsI) (simp_all add: case_0696_def upt_rec stmt_ok_def deadline_predicted)

lemma conforms_0697: "conforms case_0697 (deadline_prediction)"
  by (rule conformsI) (simp_all add: case_0697_def upt_rec stmt_ok_def deadline_predicted)

lemma conforms_0698: "conforms case_0698 (deadline_prediction)"
  by (rule conformsI) (simp_all add: case_0698_def upt_rec stmt_ok_def deadline_predicted)

lemma conforms_0699: "conforms case_0699 (deadline_prediction)"
  by (rule conformsI) (simp_all add: case_0699_def upt_rec stmt_ok_def deadline_predicted)

definition corpus_6 :: "(nat \<Rightarrow> u32) \<Rightarrow> (case_program \<times> (u32 list \<Rightarrow> u32)) list" where
  "corpus_6 junk =
    [(case_0600, struct_return_prediction),
     (case_0601, struct_return_prediction),
     (case_0602, struct_return_prediction),
     (case_0603, struct_return_prediction),
     (case_0604, struct_return_prediction),
     (case_0605, struct_return_prediction),
     (case_0606, struct_return_prediction),
     (case_0607, struct_return_prediction),
     (case_0608, struct_return_prediction),
     (case_0609, struct_return_prediction),
     (case_0610, struct_return_prediction),
     (case_0611, struct_return_prediction),
     (case_0612, struct_return_prediction),
     (case_0613, struct_return_prediction),
     (case_0614, struct_return_prediction),
     (case_0615, struct_return_prediction),
     (case_0616, struct_return_prediction),
     (case_0617, struct_return_prediction),
     (case_0618, struct_return_prediction),
     (case_0619, struct_return_prediction),
     (case_0620, struct_return_prediction),
     (case_0621, struct_return_prediction),
     (case_0622, struct_return_prediction),
     (case_0623, struct_return_prediction),
     (case_0624, struct_return_prediction),
     (case_0625, function_pointer_prediction 0),
     (case_0626, function_pointer_prediction 1),
     (case_0627, function_pointer_prediction 2),
     (case_0628, function_pointer_prediction 3),
     (case_0629, function_pointer_prediction 0),
     (case_0630, function_pointer_prediction 1),
     (case_0631, function_pointer_prediction 2),
     (case_0632, function_pointer_prediction 3),
     (case_0633, function_pointer_prediction 0),
     (case_0634, function_pointer_prediction 1),
     (case_0635, function_pointer_prediction 2),
     (case_0636, function_pointer_prediction 3),
     (case_0637, function_pointer_prediction 0),
     (case_0638, function_pointer_prediction 1),
     (case_0639, function_pointer_prediction 2),
     (case_0640, function_pointer_prediction 3),
     (case_0641, function_pointer_prediction 0),
     (case_0642, function_pointer_prediction 1),
     (case_0643, function_pointer_prediction 2),
     (case_0644, function_pointer_prediction 3),
     (case_0645, function_pointer_prediction 0),
     (case_0646, function_pointer_prediction 1),
     (case_0647, function_pointer_prediction 2),
     (case_0648, function_pointer_prediction 3),
     (case_0649, function_pointer_prediction 0),
     (case_0650, \<lambda>_. gcd_prediction 1 18763),
     (case_0651, \<lambda>_. gcd_prediction 20097 2),
     (case_0652, \<lambda>_. gcd_prediction 25991 55036),
     (case_0653, \<lambda>_. gcd_prediction 53480 5373),
     (case_0654, \<lambda>_. gcd_prediction 18309 5557),
     (case_0655, \<lambda>_. gcd_prediction 45798 20436),
     (case_0656, \<lambda>_. gcd_prediction 44510 42050),
     (case_0657, \<lambda>_. gcd_prediction 34141 839),
     (case_0658, \<lambda>_. gcd_prediction 36832 17647),
     (case_0659, \<lambda>_. gcd_prediction 26463 22794),
     (case_0660, \<lambda>_. gcd_prediction 10201 256),
     (case_0661, \<lambda>_. gcd_prediction 59834 48153),
     (case_0662, \<lambda>_. gcd_prediction 2523 44913),
     (case_0663, \<lambda>_. gcd_prediction 52156 37368),
     (case_0664, \<lambda>_. gcd_prediction 50840 27486),
     (case_0665, \<lambda>_. gcd_prediction 40471 46267),
     (case_0666, \<lambda>_. gcd_prediction 23648 5267),
     (case_0667, \<lambda>_. gcd_prediction 32789 129),
     (case_0668, \<lambda>_. gcd_prediction 16531 40164),
     (case_0669, \<lambda>_. gcd_prediction 6164 28069),
     (case_0670, \<lambda>_. gcd_prediction 8849 50701),
     (case_0671, \<lambda>_. gcd_prediction 58482 43148),
     (case_0672, \<lambda>_. gcd_prediction 17026 47017),
     (case_0673, \<lambda>_. gcd_prediction 44513 257),
     (case_0674, \<lambda>_. gcd_prediction 25060 7912),
     (case_0675, deadline_prediction),
     (case_0676, deadline_prediction),
     (case_0677, deadline_prediction),
     (case_0678, deadline_prediction),
     (case_0679, deadline_prediction),
     (case_0680, deadline_prediction),
     (case_0681, deadline_prediction),
     (case_0682, deadline_prediction),
     (case_0683, deadline_prediction),
     (case_0684, deadline_prediction),
     (case_0685, deadline_prediction),
     (case_0686, deadline_prediction),
     (case_0687, deadline_prediction),
     (case_0688, deadline_prediction),
     (case_0689, deadline_prediction),
     (case_0690, deadline_prediction),
     (case_0691, deadline_prediction),
     (case_0692, deadline_prediction),
     (case_0693, deadline_prediction),
     (case_0694, deadline_prediction),
     (case_0695, deadline_prediction),
     (case_0696, deadline_prediction),
     (case_0697, deadline_prediction),
     (case_0698, deadline_prediction),
     (case_0699, deadline_prediction)]"

lemmas corpus_6_programs =
  conforms_0600 conforms_0601 conforms_0602 conforms_0603 conforms_0604 conforms_0605 conforms_0606 conforms_0607
  conforms_0608 conforms_0609 conforms_0610 conforms_0611 conforms_0612 conforms_0613 conforms_0614 conforms_0615
  conforms_0616 conforms_0617 conforms_0618 conforms_0619 conforms_0620 conforms_0621 conforms_0622 conforms_0623
  conforms_0624 conforms_0625 conforms_0626 conforms_0627 conforms_0628 conforms_0629 conforms_0630 conforms_0631
  conforms_0632 conforms_0633 conforms_0634 conforms_0635 conforms_0636 conforms_0637 conforms_0638 conforms_0639
  conforms_0640 conforms_0641 conforms_0642 conforms_0643 conforms_0644 conforms_0645 conforms_0646 conforms_0647
  conforms_0648 conforms_0649 conforms_0650 conforms_0651 conforms_0652 conforms_0653 conforms_0654 conforms_0655
  conforms_0656 conforms_0657 conforms_0658 conforms_0659 conforms_0660 conforms_0661 conforms_0662 conforms_0663
  conforms_0664 conforms_0665 conforms_0666 conforms_0667 conforms_0668 conforms_0669 conforms_0670 conforms_0671
  conforms_0672 conforms_0673 conforms_0674 conforms_0675 conforms_0676 conforms_0677 conforms_0678 conforms_0679
  conforms_0680 conforms_0681 conforms_0682 conforms_0683 conforms_0684 conforms_0685 conforms_0686 conforms_0687
  conforms_0688 conforms_0689 conforms_0690 conforms_0691 conforms_0692 conforms_0693 conforms_0694 conforms_0695
  conforms_0696 conforms_0697 conforms_0698 conforms_0699

lemma corpus_6_conforms: "list_all (\<lambda>(c, prediction). conforms c prediction) (corpus_6 junk)"
  unfolding corpus_6_def list.pred_inject prod.case by (intro conjI corpus_6_programs list.pred_inject(1))

lemma corpus_6_ids: "map (\<lambda>(c, prediction). case_id c) (corpus_6 junk) = [600..<700]"
  by (simp add: corpus_6_def upt_conv_Cons
      case_0600_def case_0601_def case_0602_def case_0603_def case_0604_def case_0605_def case_0606_def
      case_0607_def case_0608_def case_0609_def case_0610_def case_0611_def case_0612_def case_0613_def
      case_0614_def case_0615_def case_0616_def case_0617_def case_0618_def case_0619_def case_0620_def
      case_0621_def case_0622_def case_0623_def case_0624_def case_0625_def case_0626_def case_0627_def
      case_0628_def case_0629_def case_0630_def case_0631_def case_0632_def case_0633_def case_0634_def
      case_0635_def case_0636_def case_0637_def case_0638_def case_0639_def case_0640_def case_0641_def
      case_0642_def case_0643_def case_0644_def case_0645_def case_0646_def case_0647_def case_0648_def
      case_0649_def case_0650_def case_0651_def case_0652_def case_0653_def case_0654_def case_0655_def
      case_0656_def case_0657_def case_0658_def case_0659_def case_0660_def case_0661_def case_0662_def
      case_0663_def case_0664_def case_0665_def case_0666_def case_0667_def case_0668_def case_0669_def
      case_0670_def case_0671_def case_0672_def case_0673_def case_0674_def case_0675_def case_0676_def
      case_0677_def case_0678_def case_0679_def case_0680_def case_0681_def case_0682_def case_0683_def
      case_0684_def case_0685_def case_0686_def case_0687_def case_0688_def case_0689_def case_0690_def
      case_0691_def case_0692_def case_0693_def case_0694_def case_0695_def case_0696_def case_0697_def
      case_0698_def case_0699_def)

end
