(* ===== verification/Corpus_Cases_7.thy ===== *)
theory Corpus_Cases_7
  imports Corpus_Checksums Corpus_Bits Corpus_Control Corpus_Algorithms Corpus_Buffers
begin

text \<open>
  The programs 700 to 799 of the edge-case corpus, one definition per file: inputs, kernel with the parameters of the
  scenario, initial literals and statements, as the C text has them.  Their kernels are the debounce,
  uart frame, cobs and spi kernels.  Every program conforms to the prediction of its kernel.
\<close>

definition case_0700 :: "case_program" where
  "case_0700 =
     \<lparr>case_id = 700,
      case_input = [0x00000000, 0x0f349232, 0x54ae680f, 0x54a07d2c, 0x6068af73, 0xdca68063, 0xe3b923b2, 0x46f271ac,
                    0x40f3e24a, 0xe2b3b87b, 0xe22559cb, 0x621a99b4, 0xc613f201, 0xe5eda706, 0x236554cd, 0xfe1226a7],
      case_kernel = debounce_kernel 4 2,
      reg_inputs = [13, 1, 5, 9], reg5_init = 0x9fb0d5dc,
      memory_keys = [0x000002bc, 0x00000578, 0x00000af0, 0x000015e0, 0x00002bc0, 0x00005780, 0x0000af00, 0x00015e00],
      case_stmts = [(Add_Carry, 5, 4, 3), (Gray_Decode, 0, 2, 0), (Sub_Borrow, 3, 2, 4), (Horner_Loop, 4, 2, 2),
                    (Counted_Loop, 2, 0, 1), (Rotate_Mix, 1, 1, 5), (Carry_Chain, 2, 1, 1), (Add_Carry, 3, 1, 5),
                    (Endian_Swap, 1, 4, 2), (Popcount_Loop, 1, 4, 3), (Multiply_Low, 1, 2, 0), (Byte_Pack, 4, 4, 4)]\<rparr>"

definition case_0701 :: "case_program" where
  "case_0701 =
     \<lparr>case_id = 701,
      case_input = [0x6fcf7e3b, 0x00000001, 0xa136ca09, 0xf4a9080a, 0x763d22a6, 0xcf45cb60, 0xaa42bccb, 0x9407b760,
                    0xa7b4e99b, 0xa35c0ab4, 0x74a3aeec, 0xba2c6ac5, 0x1e1531e8, 0x7c0bbd40, 0xfedf45f4, 0xd722d7d9],
      case_kernel = debounce_kernel 5 3,
      reg_inputs = [14, 2, 6, 10], reg5_init = 0x3de84f95,
      memory_keys = [0x000002bd, 0x0000057a, 0x00000af4, 0x000015e8, 0x00002bd0, 0x000057a0, 0x0000af40, 0x00015e80],
      case_stmts = [(Sub_Borrow, 0, 3, 0), (Gray_Decode, 1, 0, 5), (Sub_Borrow, 1, 0, 2), (Rotate_Mix, 1, 2, 3),
                    (Sub_Borrow, 4, 4, 3), (Halfword_Swap, 3, 3, 0), (Add_Carry, 5, 4, 0), (Endian_Swap, 4, 0, 3),
                    (Reverse_Loop, 0, 1, 1), (Divide_Rem, 2, 4, 5), (Gray_Decode, 3, 0, 3), (Reverse_Loop, 3, 2, 3)]\<rparr>"

definition case_0702 :: "case_program" where
  "case_0702 =
     \<lparr>case_id = 702,
      case_input = [0xae491ef8, 0x373438bd, 0x00000002, 0xa0b96f4a, 0x81fd1807, 0x0ed8bae7, 0x5a5bc831, 0x9ea4b4ea,
                    0xd2a03c17, 0x6cd345e7, 0x72a5ce64, 0xbf1667af, 0x591ab5bf, 0x3f590050, 0xcaae463d, 0xad6fa8ef],
      case_kernel = debounce_kernel 6 4,
      reg_inputs = [15, 3, 7, 11], reg5_init = 0xdc1fc94e,
      memory_keys = [0x000002be, 0x0000057c, 0x00000af8, 0x000015f0, 0x00002be0, 0x000057c0, 0x0000af80, 0x00015f00],
      case_stmts = [(Rotate_Mix, 5, 3, 2), (Gray_Decode, 4, 0, 4), (Sub_Borrow, 3, 5, 5), (Sub_Borrow, 2, 4, 0),
                    (Popcount_Loop, 0, 5, 3), (Compare_Select, 1, 5, 0), (Add_Carry, 5, 2, 1), (Short_Circuit, 0, 1, 0),
                    (Popcount_Loop, 3, 1, 0), (Compare_Select, 0, 1, 3), (Endian_Swap, 5, 2, 0),
                    (Reverse_Loop, 5, 3, 3)]\<rparr>"

definition case_0703 :: "case_program" where
  "case_0703 =
     \<lparr>case_id = 703,
      case_input = [0xeecb3eb9, 0x2b356dfa, 0x42052b41, 0x00000003, 0x97a895d2, 0x1d3bf1e4, 0x13a05748, 0x4c517226,
                    0x35e737c6, 0x2d3cf728, 0xe4233943, 0x672094de, 0x811c7656, 0xa6bf1a16, 0x17145704, 0x845f5991],
      case_kernel = debounce_kernel 7 5,
      reg_inputs = [0, 4, 8, 12], reg5_init = 0x7a574307,
      memory_keys = [0x000002bf, 0x0000057e, 0x00000afc, 0x000015f8, 0x00002bf0, 0x000057e0, 0x0000afc0, 0x00015f80],
      case_stmts = [(Multiply_Low, 0, 4, 3), (Gray_Decode, 3, 0, 3), (Sub_Borrow, 3, 1, 5), (Divide_Rem, 3, 2, 3),
                    (Compare_Select, 0, 5, 3), (Minmax_Clamp, 5, 3, 1), (Reverse_Loop, 2, 5, 0), (Mask_Merge, 1, 0, 4),
                    (Compare_Select, 0, 0, 3), (Horner_Loop, 1, 5, 3), (Popcount_Loop, 5, 0, 1), (Byte_Pack, 0, 1, 0)]\<rparr>"

definition case_0704 :: "case_program" where
  "case_0704 =
     \<lparr>case_id = 704,
      case_input = [0x11bac119, 0xdf2dc07a, 0x5adb186c, 0x3893e9f1, 0x0000007f, 0x6b7f7d64, 0x73f39ba4, 0x29aca4a4,
                    0x01cd8f27, 0x3c14b7eb, 0x71921692, 0x00c3c72c, 0xa5e0398e, 0x840f8980, 0xc02b25a5, 0xfe0e50c2],
      case_kernel = debounce_kernel 8 2,
      reg_inputs = [1, 5, 9, 13], reg5_init = 0x188ebcc0,
      memory_keys = [0x000002c0, 0x00000580, 0x00000b00, 0x00001600, 0x00002c00, 0x00005800, 0x0000b000, 0x00016000],
      case_stmts = [(Divide_Rem, 1, 1, 1), (Gray_Decode, 1, 4, 0), (Sub_Borrow, 0, 2, 0), (Short_Circuit, 4, 3, 3),
                    (Rotate_Mix, 5, 1, 3), (Popcount_Loop, 5, 4, 5), (Byte_Pack, 2, 2, 1), (Reverse_Loop, 5, 0, 3),
                    (Carry_Chain, 2, 4, 5), (Multiply_Low, 2, 1, 0), (Switch_Phi, 1, 3, 3), (Compare_Select, 1, 2, 4)]\<rparr>"

definition case_0705 :: "case_program" where
  "case_0705 =
     \<lparr>case_id = 705,
      case_input = [0x5138e158, 0xc32c953d, 0xaf43ba6a, 0x989a9cd7, 0x4041e934, 0x00000080, 0x3a0804dd, 0xfb596268,
                    0xe68a84f6, 0x7dfb0524, 0xe714e1b5, 0xd8f5345d, 0x7de6fa67, 0x1de993c6, 0x1d91349c, 0xd73ea1bc],
      case_kernel = debounce_kernel 9 3,
      reg_inputs = [2, 6, 10, 14], reg5_init = 0xb6c63679,
      memory_keys = [0x000002c1, 0x00000582, 0x00000b04, 0x00001608, 0x00002c10, 0x00005820, 0x0000b040, 0x00016080],
      case_stmts = [(Mask_Merge, 0, 4, 2), (Gray_Decode, 2, 2, 1), (Sub_Borrow, 2, 4, 0), (Popcount_Loop, 5, 3, 4),
                    (Array_Scatter, 3, 5, 3), (Multiply_Low, 1, 4, 0), (Endian_Swap, 1, 3, 4), (Multiply_Low, 0, 3, 5),
                    (Mask_Merge, 3, 5, 2), (Reverse_Loop, 1, 3, 2), (Horner_Loop, 5, 3, 2), (Multiply_Low, 4, 2, 1)]\<rparr>"

definition case_0706 :: "case_program" where
  "case_0706 =
     \<lparr>case_id = 706,
      case_input = [0x90be819b, 0xe72d6af5, 0xb9e8f924, 0xcc8afb97, 0xb781d395, 0xb90147e0, 0x000000ff, 0xf1fa61e2,
                    0x939e517a, 0xb2744a77, 0xe112813d, 0xddcf3937, 0x3ae97e30, 0x5ebb2ed6, 0x29e03755, 0xad73de8a],
      case_kernel = debounce_kernel 10 4,
      reg_inputs = [3, 7, 11, 15], reg5_init = 0x54fdb032,
      memory_keys = [0x000002c2, 0x00000584, 0x00000b08, 0x00001610, 0x00002c20, 0x00005840, 0x0000b080, 0x00016100],
      case_stmts = [(Compare_Select, 3, 2, 2), (Gray_Decode, 3, 0, 2), (Sub_Borrow, 0, 5, 3), (Counted_Loop, 2, 1, 5),
                    (Popcount_Loop, 3, 0, 3), (Array_Scatter, 1, 0, 2), (Mask_Merge, 5, 1, 3),
                    (Compare_Select, 4, 4, 4), (Compare_Select, 4, 3, 5), (Halfword_Swap, 1, 4, 2),
                    (Endian_Swap, 1, 1, 5), (Byte_Pack, 4, 1, 5)]\<rparr>"

definition case_0707 :: "case_program" where
  "case_0707 =
     \<lparr>case_id = 707,
      case_input = [0xd03ca1da, 0xfb2c3fb2, 0x4c705b22, 0x6c838eb1, 0xa1d45e40, 0xaae20ce3, 0x83eaef5e, 0x00000100,
                    0x74d95aab, 0xf39bf8b8, 0x7794761a, 0x05f9ca46, 0xe2efbdd9, 0xc75d3490, 0xf45a266c, 0x84432ff4],
      case_kernel = debounce_kernel 11 5,
      reg_inputs = [4, 8, 12, 0], reg5_init = 0xf33529eb,
      memory_keys = [0x000002c3, 0x00000586, 0x00000b0c, 0x00001618, 0x00002c30, 0x00005860, 0x0000b0c0, 0x00016180],
      case_stmts = [(Byte_Pack, 2, 1, 1), (Gray_Decode, 2, 0, 5), (Sub_Borrow, 4, 1, 5), (Switch_Phi, 5, 5, 2),
                    (Compare_Select, 3, 2, 3), (Horner_Loop, 1, 2, 1), (Gray_Decode, 0, 2, 4), (Switch_Phi, 5, 5, 0),
                    (Array_Scatter, 5, 0, 0), (Sub_Borrow, 0, 4, 2), (Popcount_Loop, 3, 5, 4), (Counted_Loop, 1, 5, 2)]\<rparr>"

definition case_0708 :: "case_program" where
  "case_0708 =
     \<lparr>case_id = 708,
      case_input = [0x13b2401c, 0xaf2c9564, 0x9cbcdafd, 0xd2a1cd3c, 0x97390a08, 0x5683a528, 0x3d3d19dd, 0x51369398,
                    0x7fffffff, 0xa38d6e98, 0xfdf6f70d, 0x045ae11c, 0xf4b78e71, 0x6dff34ff, 0x4963c9e0, 0x979d59fe],
      case_kernel = debounce_kernel 12 2,
      reg_inputs = [5, 9, 13, 1], reg5_init = 0x916ca3a4,
      memory_keys = [0x000002c4, 0x00000588, 0x00000b10, 0x00001620, 0x00002c40, 0x00005880, 0x0000b100, 0x00016200],
      case_stmts = [(Halfword_Swap, 4, 4, 1), (Gray_Decode, 2, 1, 3), (Sub_Borrow, 4, 5, 5), (Array_Scatter, 5, 1, 1),
                    (Halfword_Swap, 0, 2, 4), (Halfword_Swap, 0, 4, 3), (Compare_Select, 3, 0, 1),
                    (Multiply_Low, 2, 2, 2), (Counted_Loop, 0, 1, 1), (Reverse_Loop, 2, 1, 4), (Multiply_Low, 4, 3, 4),
                    (Reverse_Loop, 3, 0, 1)]\<rparr>"

definition case_0709 :: "case_program" where
  "case_0709 =
     \<lparr>case_id = 709,
      case_input = [0x5330605d, 0xb32dc023, 0x692478fb, 0x72a8b81a, 0x816c87dd, 0x4560ee2b, 0x74c686a4, 0x83c35554,
                    0x2ee3696e, 0x80000000, 0x6b70002a, 0xdc6c126d, 0x2cb14d98, 0xf4192eb9, 0x94d9d8d9, 0xbeada880],
      case_kernel = debounce_kernel 13 3,
      reg_inputs = [6, 10, 14, 2], reg5_init = 0x2fa41d5d,
      memory_keys = [0x000002c5, 0x0000058a, 0x00000b14, 0x00001628, 0x00002c50, 0x000058a0, 0x0000b140, 0x00016280],
      case_stmts = [(Array_Scatter, 1, 5, 2), (Gray_Decode, 5, 5, 4), (Sub_Borrow, 2, 3, 1), (Halfword_Swap, 0, 1, 4),
                    (Multiply_Low, 2, 2, 2), (Reverse_Loop, 4, 0, 2), (Short_Circuit, 0, 1, 2), (Rotate_Mix, 1, 3, 2),
                    (Array_Scatter, 5, 0, 2), (Horner_Loop, 3, 3, 4), (Multiply_Low, 2, 1, 5), (Multiply_Low, 0, 4, 0)]\<rparr>"

definition case_0710 :: "case_program" where
  "case_0710 =
     \<lparr>case_id = 710,
      case_input = [0x92b6009e, 0x972c3feb, 0x7f8f3bb5, 0x26b8df5a, 0x76acbd7c, 0x84fd9fac, 0x84dff25e, 0x896056de,
                    0x5bf7bce2, 0x2ded9304, 0xfffffffe, 0xd9561f07, 0x6bbec9cf, 0xb74b93a9, 0xa0a8db10, 0xc4e0d7b6],
      case_kernel = debounce_kernel 14 4,
      reg_inputs = [7, 11, 15, 3], reg5_init = 0xcddb9716,
      memory_keys = [0x000002c6, 0x0000058c, 0x00000b18, 0x00001630, 0x00002c60, 0x000058c0, 0x0000b180, 0x00016300],
      case_stmts = [(Counted_Loop, 4, 3, 0), (Gray_Decode, 0, 1, 3), (Sub_Borrow, 4, 0, 2), (Byte_Pack, 1, 1, 3),
                    (Multiply_Low, 2, 3, 0), (Divide_Rem, 2, 0, 4), (Halfword_Swap, 4, 1, 5), (Byte_Pack, 5, 4, 1),
                    (Rotate_Mix, 4, 4, 1), (Sub_Borrow, 1, 4, 0), (Array_Scatter, 2, 3, 4), (Horner_Loop, 0, 5, 0)]\<rparr>"

definition case_0711 :: "case_program" where
  "case_0711 =
     \<lparr>case_id = 711,
      case_input = [0xd23420df, 0x8b2d6aac, 0x8a1799b3, 0x86b1aa7c, 0x60f930a9, 0x971ed4af, 0xcd246d27, 0x5b959012,
                    0xbcb0b733, 0x6c0221cb, 0xfbf09785, 0xffffffff, 0xb3b80a26, 0x2ead89ef, 0x7d12ca29, 0xedd026c8],
      case_kernel = debounce_kernel 15 5,
      reg_inputs = [8, 12, 0, 4], reg5_init = 0x6c1310cf,
      memory_keys = [0x000002c7, 0x0000058e, 0x00000b1c, 0x00001638, 0x00002c70, 0x000058e0, 0x0000b1c0, 0x00016380],
      case_stmts = [(Switch_Phi, 5, 2, 5), (Gray_Decode, 3, 1, 2), (Sub_Borrow, 0, 4, 2), (Compare_Select, 0, 1, 2),
                    (Minmax_Clamp, 4, 5, 2), (Reverse_Loop, 0, 4, 3), (Counted_Loop, 1, 2, 0), (Rotate_Mix, 2, 5, 3),
                    (Sub_Borrow, 3, 1, 2), (Divide_Rem, 0, 2, 0), (Array_Scatter, 0, 1, 3), (Counted_Loop, 1, 5, 5)]\<rparr>"

definition case_0712 :: "case_program" where
  "case_0712 =
     \<lparr>case_id = 712,
      case_input = [0x15abc313, 0x3f2f6a46, 0xd6149d4f, 0xecf7a06b, 0x00000000, 0x1080cdfd, 0x77683212, 0x7c9732e7,
                    0xf524b4d9, 0x3fda4ccb, 0x11c0b7bb, 0x97bad677, 0x00000000, 0x16792092, 0x4bcd7c73, 0xade6f24e],
      case_kernel = debounce_kernel 4 2,
      reg_inputs = [9, 13, 1, 5], reg5_init = 0x0a4a8a88,
      memory_keys = [0x000002c8, 0x00000590, 0x00000b20, 0x00001640, 0x00002c80, 0x00005900, 0x0000b200, 0x00016400],
      case_stmts = [(Short_Circuit, 1, 0, 0), (Gray_Decode, 0, 2, 2), (Sub_Borrow, 0, 3, 2), (Carry_Chain, 0, 5, 3),
                    (Compare_Select, 3, 2, 2), (Reverse_Loop, 2, 5, 2), (Sub_Borrow, 4, 2, 4), (Endian_Swap, 3, 4, 2),
                    (Horner_Loop, 2, 3, 5), (Endian_Swap, 5, 1, 2), (Halfword_Swap, 1, 0, 5), (Divide_Rem, 1, 2, 0)]\<rparr>"

definition case_0713 :: "case_program" where
  "case_0713 =
     \<lparr>case_id = 713,
      case_input = [0x5529e352, 0x232e3f01, 0x238c3f49, 0x4cfed54d, 0xc01b34e7, 0x036386fe, 0x3e93ad6b, 0xae62f42b,
                    0x1263bf08, 0x7e35fe04, 0x8746409c, 0x00000080, 0x3da09b20, 0x00000001, 0x96776d4a, 0x84d60330],
      case_kernel = debounce_kernel 5 3,
      reg_inputs = [10, 14, 2, 6], reg5_init = 0xa8820441,
      memory_keys = [0x000002c9, 0x00000592, 0x00000b24, 0x00001648, 0x00002c90, 0x00005920, 0x0000b240, 0x00016480],
      case_stmts = [(Popcount_Loop, 4, 1, 5), (Gray_Decode, 5, 4, 1), (Sub_Borrow, 4, 1, 0), (Horner_Loop, 3, 5, 2),
                    (Sub_Borrow, 3, 0, 2), (Short_Circuit, 4, 3, 5), (Gray_Decode, 5, 5, 3), (Minmax_Clamp, 2, 5, 0),
                    (Halfword_Swap, 1, 0, 0), (Add_Carry, 0, 1, 4), (Short_Circuit, 1, 4, 0), (Mask_Merge, 0, 0, 5)]\<rparr>"

definition case_0714 :: "case_program" where
  "case_0714 =
     \<lparr>case_id = 714,
      case_input = [0x94af8391, 0x072fc0c9, 0xfffffffe, 0x18eeb20d, 0x37db0e46, 0xc2fef779, 0xce8ad991, 0xa4c1f7a1,
                    0x67776a84, 0xb1bab157, 0x81402014, 0x4ab6286c, 0x7aaf1f77, 0xcccd87c4, 0x00000002, 0xfe9b7c06],
      case_kernel = debounce_kernel 6 4,
      reg_inputs = [11, 15, 3, 7], reg5_init = 0x46b97dfa,
      memory_keys = [0x000002ca, 0x00000594, 0x00000b28, 0x00001650, 0x00002ca0, 0x00005940, 0x0000b280, 0x00016500],
      case_stmts = [(Reverse_Loop, 5, 1, 1), (Gray_Decode, 0, 0, 0), (Sub_Borrow, 0, 0, 5), (Short_Circuit, 0, 5, 1),
                    (Popcount_Loop, 1, 5, 4), (Reverse_Loop, 2, 5, 5), (Gray_Decode, 1, 3, 2), (Sub_Borrow, 0, 0, 5),
                    (Multiply_Low, 2, 4, 1), (Counted_Loop, 2, 0, 2), (Reverse_Loop, 3, 4, 3), (Sub_Borrow, 4, 3, 1)]\<rparr>"

definition case_0715 :: "case_program" where
  "case_0715 =
     \<lparr>case_id = 715,
      case_input = [0xd42da3d0, 0x1b2e958e, 0xc0bfde01, 0xb8e7c72b, 0x218e8393, 0xd11dbc7a, 0x877146e8, 0x7634316d,
                    0x80306155, 0x00000003, 0x17c6d733, 0x9280db1d, 0xa2a9dc9e, 0x552b9d82, 0x7fbc7fba, 0x00000003],
      case_kernel = debounce_kernel 7 5,
      reg_inputs = [12, 0, 4, 8], reg5_init = 0xe4f0f7b3,
      memory_keys = [0x000002cb, 0x00000596, 0x00000b2c, 0x00001658, 0x00002cb0, 0x00005960, 0x0000b2c0, 0x00016580],
      case_stmts = [(Gray_Decode, 4, 0, 4), (Gray_Decode, 3, 0, 5), (Sub_Borrow, 2, 2, 3), (Popcount_Loop, 5, 1, 2),
                    (Carry_Chain, 1, 5, 4), (Short_Circuit, 2, 3, 0), (Popcount_Loop, 0, 2, 5), (Add_Carry, 3, 5, 3),
                    (Minmax_Clamp, 3, 5, 0), (Switch_Phi, 1, 2, 4), (Rotate_Mix, 3, 4, 2), (Short_Circuit, 1, 5, 0)]\<rparr>"

definition case_0716 :: "case_program" where
  "case_0716 =
     \<lparr>case_id = 716,
      case_input = [0x7fffffff, 0x4f2e3f58, 0x10735fde, 0x06c584a6, 0x1763d7db, 0x2d7c15b1, 0x39a6b06b, 0x040d05db,
                    0x3d4d5941, 0xa04395b8, 0x9da45624, 0x9323f047, 0xb4f1ef36, 0xff899ded, 0xc2859036, 0xc475fb72],
      case_kernel = debounce_kernel 8 2,
      reg_inputs = [13, 1, 5, 9], reg5_init = 0x8328716c,
      memory_keys = [0x000002cc, 0x00000598, 0x00000b30, 0x00001660, 0x00002cc0, 0x00005980, 0x0000b300, 0x00016600],
      case_stmts = [(Minmax_Clamp, 0, 1, 4), (Gray_Decode, 5, 1, 1), (Sub_Borrow, 4, 4, 3), (Gray_Decode, 3, 3, 1),
                    (Add_Carry, 2, 3, 5), (Multiply_Low, 5, 1, 2), (Divide_Rem, 1, 2, 2), (Divide_Rem, 0, 4, 3),
                    (Multiply_Low, 2, 2, 3), (Divide_Rem, 5, 1, 2), (Add_Carry, 2, 4, 0), (Minmax_Clamp, 5, 2, 1)]\<rparr>"

definition case_0717 :: "case_program" where
  "case_0717 =
     \<lparr>case_id = 717,
      case_input = [0x57216257, 0x00000080, 0xe5ebfdd8, 0xa6ccf180, 0x01365a0e, 0x3e9f5eb2, 0x705d2f12, 0x00000001,
                    0xda0a5290, 0xe1ac2777, 0x0b22a103, 0x4b150336, 0x6cf72cdf, 0x666f87ab, 0x1f3f810f, 0xed450a0c],
      case_kernel = debounce_kernel 9 3,
      reg_inputs = [14, 2, 6, 10], reg5_init = 0x215feb25,
      memory_keys = [0x000002cd, 0x0000059a, 0x00000b34, 0x00001668, 0x00002cd0, 0x000059a0, 0x0000b340, 0x00016680],
      case_stmts = [(Endian_Swap, 1, 2, 3), (Gray_Decode, 0, 1, 4), (Sub_Borrow, 0, 2, 3), (Reverse_Loop, 2, 5, 2),
                    (Byte_Pack, 2, 5, 1), (Popcount_Loop, 3, 1, 1), (Compare_Select, 4, 1, 1), (Popcount_Loop, 3, 3, 3),
                    (Divide_Rem, 1, 5, 4), (Popcount_Loop, 4, 5, 4), (Short_Circuit, 0, 0, 5), (Mask_Merge, 4, 2, 0)]\<rparr>"

definition case_0718 :: "case_program" where
  "case_0718 =
     \<lparr>case_id = 718,
      case_input = [0x96a70294, 0x772e95d7, 0x000000ff, 0xf2dc96c0, 0xf6f660af, 0xff022f35, 0x80445be8, 0xdc5bc09d,
                    0xaf1e871c, 0x2e236824, 0x0d24c18b, 0x4e2f0e5c, 0x2bf8a888, 0x253d3abb, 0x000000ff, 0x9708753a],
      case_kernel = debounce_kernel 10 4,
      reg_inputs = [15, 3, 7, 11], reg5_init = 0xbf9764de,
      memory_keys = [0x000002ce, 0x0000059c, 0x00000b38, 0x00001670, 0x00002ce0, 0x000059c0, 0x0000b380, 0x00016700],
      case_stmts = [(Carry_Chain, 0, 2, 1), (Gray_Decode, 1, 5, 3), (Sub_Borrow, 0, 5, 0), (Array_Scatter, 3, 1, 1),
                    (Gray_Decode, 2, 4, 1), (Switch_Phi, 1, 5, 5), (Counted_Loop, 4, 1, 2), (Halfword_Swap, 5, 4, 0),
                    (Gray_Decode, 0, 3, 1), (Multiply_Low, 4, 2, 2), (Compare_Select, 4, 2, 4), (Sub_Borrow, 2, 1, 4)]\<rparr>"

definition case_0719 :: "case_program" where
  "case_0719 =
     \<lparr>case_id = 719,
      case_input = [0xd62522d5, 0x6b2fc090, 0x06d81c90, 0x00000100, 0xe0a3ed7a, 0xffffffff, 0xc9bfc491, 0x0eae0651,
                    0x48598ccd, 0x6fccdaeb, 0x9ba236ac, 0x9619fd2d, 0xf3fe6b61, 0xbcdb20fd, 0xf6f493ff, 0xbe388444],
      case_kernel = debounce_kernel 11 5,
      reg_inputs = [0, 4, 8, 12], reg5_init = 0x5dcede97,
      memory_keys = [0x000002cf, 0x0000059e, 0x00000b3c, 0x00001678, 0x00002cf0, 0x000059e0, 0x0000b3c0, 0x00016780],
      case_stmts = [(Horner_Loop, 5, 1, 2), (Gray_Decode, 4, 1, 0), (Sub_Borrow, 2, 1, 2), (Halfword_Swap, 0, 1, 4),
                    (Minmax_Clamp, 0, 2, 1), (Mask_Merge, 1, 5, 0), (Halfword_Swap, 5, 4, 3), (Endian_Swap, 2, 5, 4),
                    (Add_Carry, 5, 0, 4), (Carry_Chain, 5, 2, 0), (Carry_Chain, 4, 4, 5), (Divide_Rem, 1, 1, 1)]\<rparr>"

definition case_0720 :: "case_program" where
  "case_0720 =
     \<lparr>case_id = 720,
      case_input = [0x1998c50d, 0x1f289402, 0x4144122a, 0x925d7ac4, 0x7fffffff, 0xa18f4929, 0x21f77d78, 0x7f15d911,
                    0x51459e81, 0x45a9cf7a, 0xdb3420df, 0x91f4715c, 0x0000007f, 0xd507c9d2, 0x8c116b27, 0x7c27b0ae],
      case_kernel = debounce_kernel 12 2,
      reg_inputs = [1, 5, 9, 13], reg5_init = 0xfc065850,
      memory_keys = [0x000002d0, 0x000005a0, 0x00000b40, 0x00001680, 0x00002d00, 0x00005a00, 0x0000b400, 0x00016800],
      case_stmts = [(Add_Carry, 4, 0, 3), (Minmax_Clamp, 4, 4, 4), (Sub_Borrow, 4, 0, 3), (Halfword_Swap, 1, 2, 3),
                    (Compare_Select, 1, 0, 5), (Byte_Pack, 0, 2, 3), (Counted_Loop, 4, 4, 1), (Endian_Swap, 0, 4, 1),
                    (Switch_Phi, 0, 3, 5), (Switch_Phi, 3, 2, 5), (Compare_Select, 0, 3, 0), (Divide_Rem, 5, 3, 5)]\<rparr>"

definition case_0721 :: "case_program" where
  "case_0721 =
     \<lparr>case_id = 721,
      case_input = [0x591ae54c, 0x0329c145, 0xb4dcb02c, 0x80000000, 0xdbf4ffd7, 0x80000000, 0x680ce201, 0xade01fdd,
                    0xb6029550, 0x04467db5, 0x4db2d7f8, 0x49c2822d, 0x55cf5a02, 0x4ce1d394, 0x51ab7a1e, 0x551741d0],
      case_kernel = debounce_kernel 13 3,
      reg_inputs = [2, 6, 10, 14], reg5_init = 0x9a3dd209,
      memory_keys = [0x000002d1, 0x000005a2, 0x00000b44, 0x00001688, 0x00002d10, 0x00005a20, 0x0000b440, 0x00016880],
      case_stmts = [(Sub_Borrow, 5, 3, 2), (Minmax_Clamp, 5, 2, 1), (Sub_Borrow, 2, 4, 5), (Mask_Merge, 4, 0, 4),
                    (Endian_Swap, 5, 0, 1), (Mask_Merge, 2, 4, 4), (Minmax_Clamp, 3, 3, 4), (Add_Carry, 3, 3, 5),
                    (Short_Circuit, 3, 4, 0), (Counted_Loop, 0, 2, 1), (Counted_Loop, 4, 1, 3), (Sub_Borrow, 2, 1, 2)]\<rparr>"

definition case_0722 :: "case_program" where
  "case_0722 =
     \<lparr>case_id = 722,
      case_input = [0x989c858f, 0x27283e8d, 0xa277f362, 0x664468a2, 0x2c34c576, 0x73f173ad, 0xfffffffe, 0xa7431c57,
                    0xc31640dc, 0xcbc932e6, 0x00000002, 0x4cf88f47, 0x12c0de55, 0x0fb36e84, 0x65da79d7, 0x2f5a3ee6],
      case_kernel = debounce_kernel 14 4,
      reg_inputs = [3, 7, 11, 15], reg5_init = 0x38754bc2,
      memory_keys = [0x000002d2, 0x000005a4, 0x00000b48, 0x00001690, 0x00002d20, 0x00005a40, 0x0000b480, 0x00016900],
      case_stmts = [(Rotate_Mix, 4, 1, 0), (Minmax_Clamp, 0, 2, 0), (Sub_Borrow, 4, 3, 2), (Compare_Select, 3, 0, 1),
                    (Popcount_Loop, 1, 5, 3), (Gray_Decode, 2, 2, 2), (Short_Circuit, 5, 5, 3),
                    (Popcount_Loop, 3, 4, 2), (Switch_Phi, 4, 4, 5), (Add_Carry, 4, 5, 3), (Short_Circuit, 0, 1, 0),
                    (Endian_Swap, 2, 0, 0)]\<rparr>"

definition case_0723 :: "case_program" where
  "case_0723 =
     \<lparr>case_id = 723,
      case_input = [0xd81ea5ce, 0x00000100, 0x57ef5164, 0xc64d1d84, 0x3a6148a3, 0x601238ae, 0xd1ee0982, 0xffffffff,
                    0x24514b0d, 0x8a268029, 0xdd324057, 0x94ce7c36, 0xcac61dbc, 0x965574c2, 0xb86068ee, 0x066acf98],
      case_kernel = debounce_kernel 15 5,
      reg_inputs = [4, 8, 12, 0], reg5_init = 0xd6acc57b,
      memory_keys = [0x000002d3, 0x000005a6, 0x00000b4c, 0x00001698, 0x00002d30, 0x00005a60, 0x0000b4c0, 0x00016980],
      case_stmts = [(Multiply_Low, 3, 2, 5), (Minmax_Clamp, 3, 4, 1), (Sub_Borrow, 0, 5, 4), (Multiply_Low, 4, 4, 4),
                    (Counted_Loop, 3, 5, 3), (Popcount_Loop, 4, 4, 3), (Rotate_Mix, 4, 4, 0), (Minmax_Clamp, 2, 1, 4),
                    (Divide_Rem, 3, 1, 4), (Endian_Swap, 3, 5, 5), (Add_Carry, 2, 5, 3), (Add_Carry, 3, 2, 5)]\<rparr>"

definition case_0724 :: "case_program" where
  "case_0724 =
     \<lparr>case_id = 724,
      case_input = [0x1b904408, 0x6f29c11c, 0x8723d0bb, 0x786f5e09, 0x0c8c1ceb, 0x9c739165, 0x6f39ff01, 0x078fee2d,
                    0x00000000, 0xda301609, 0x5750c140, 0x956d576c, 0xdc9e2e14, 0x3cf774ad, 0x05598762, 0x15b4b992],
      case_kernel = debounce_kernel 4 2,
      reg_inputs = [5, 9, 13, 1], reg5_init = 0x74e43f34,
      memory_keys = [0x000002d4, 0x000005a8, 0x00000b50, 0x000016a0, 0x00002d40, 0x00005a80, 0x0000b500, 0x00016a00],
      case_stmts = [(Divide_Rem, 3, 3, 5), (Minmax_Clamp, 5, 5, 5), (Sub_Borrow, 2, 1, 4), (Popcount_Loop, 4, 2, 5),
                    (Divide_Rem, 0, 3, 4), (Counted_Loop, 3, 0, 5), (Byte_Pack, 3, 2, 5), (Halfword_Swap, 3, 4, 4),
                    (Byte_Pack, 2, 4, 1), (Counted_Loop, 3, 0, 1), (Carry_Chain, 5, 3, 3), (Halfword_Swap, 3, 3, 4)]\<rparr>"

definition case_0725 :: "case_program" where
  "case_0725 =
     \<lparr>case_id = 725,
      case_input = [0x00000000, 0x7328945b, 0x72bb72bd, 0xd8662b2f, 0x1ad9913e, 0x8f90da66, 0x26c26078, 0xd57a28e1,
                    0x7e6b78c8, 0x9bdfa4c6, 0xc1d63667, 0x4d5ba41d, 0x0498edfd, 0xa5116eeb, 0xd8e3965b, 0x3c8448ec],
      case_kernel = uart_frame_kernel 0,
      reg_inputs = [6, 10, 14, 2], reg5_init = 0x131bb8ed,
      memory_keys = [0x000002d5, 0x000005aa, 0x00000b54, 0x000016a8, 0x00002d50, 0x00005aa0, 0x0000b540, 0x00016a80],
      case_stmts = [(Mask_Merge, 4, 2, 4), (Minmax_Clamp, 0, 1, 4), (Sub_Borrow, 4, 1, 2), (Halfword_Swap, 5, 0, 0),
                    (Switch_Phi, 4, 5, 4), (Short_Circuit, 3, 4, 2), (Mask_Merge, 2, 5, 0), (Popcount_Loop, 4, 5, 0),
                    (Add_Carry, 5, 1, 2), (Switch_Phi, 2, 0, 5), (Reverse_Loop, 3, 5, 0), (Endian_Swap, 4, 3, 3)]\<rparr>"

definition case_0726 :: "case_program" where
  "case_0726 =
     \<lparr>case_id = 726,
      case_input = [0x9a94048a, 0x00000001, 0x641031f3, 0x8c764c6f, 0xed19ab9f, 0x4e0dabe1, 0xd6db1482, 0xdfd92b6b,
                    0x0b7fad44, 0x5450eb95, 0xc7d056ef, 0x4861a977, 0x439769aa, 0xe643d3fb, 0xec929592, 0x46c937da],
      case_kernel = uart_frame_kernel 1,
      reg_inputs = [7, 11, 15, 3], reg5_init = 0xb15332a6,
      memory_keys = [0x000002d6, 0x000005ac, 0x00000b58, 0x000016b0, 0x00002d60, 0x00005ac0, 0x0000b580, 0x00016b00],
      case_stmts = [(Compare_Select, 3, 2, 4), (Minmax_Clamp, 3, 1, 1), (Sub_Borrow, 2, 0, 1), (Switch_Phi, 2, 0, 5),
                    (Multiply_Low, 4, 0, 0), (Carry_Chain, 1, 4, 4), (Array_Scatter, 2, 1, 3), (Halfword_Swap, 0, 4, 3),
                    (Gray_Decode, 0, 5, 3), (Endian_Swap, 4, 3, 3), (Add_Carry, 5, 1, 1), (Mask_Merge, 0, 0, 5)]\<rparr>"

definition case_0727 :: "case_program" where
  "case_0727 =
     \<lparr>case_id = 727,
      case_input = [0xda1624cb, 0x4b283ed4, 0x00000002, 0x2c7f3949, 0xfb4c264a, 0x5deee0e2, 0x9f208bfb, 0x0d2ceda7,
                    0xec38a695, 0x15bf595a, 0x5156a1c8, 0x90575a06, 0x9b91aa43, 0x7fa5c9bd, 0x312884ab, 0x6ff9c6a4],
      case_kernel = uart_frame_kernel 2,
      reg_inputs = [8, 12, 0, 4], reg5_init = 0x4f8aac5f,
      memory_keys = [0x000002d7, 0x000005ae, 0x00000b5c, 0x000016b8, 0x00002d70, 0x00005ae0, 0x0000b5c0, 0x00016b80],
      case_stmts = [(Byte_Pack, 2, 3, 3), (Minmax_Clamp, 4, 1, 2), (Sub_Borrow, 0, 2, 1), (Compare_Select, 3, 0, 0),
                    (Halfword_Swap, 2, 4, 0), (Divide_Rem, 1, 2, 5), (Gray_Decode, 5, 2, 2), (Popcount_Loop, 3, 3, 3),
                    (Halfword_Swap, 3, 0, 0), (Add_Carry, 3, 5, 5), (Halfword_Swap, 3, 3, 2), (Minmax_Clamp, 1, 4, 4)]\<rparr>"

definition case_0728 :: "case_program" where
  "case_0728 =
     \<lparr>case_id = 728,
      case_input = [0x1d89c707, 0xff2a3e3e, 0xcd8b9709, 0x00000003, 0x4dfbafd1, 0xda70f9b0, 0x256cd4ce, 0x2a2e4f52,
                    0xa5aca57f, 0x4667345a, 0xbb6681f6, 0x068d6007, 0xcd8ff8ac, 0x477160c0, 0x07f732f1, 0x2fcf1222],
      case_kernel = uart_frame_kernel 3,
      reg_inputs = [9, 13, 1, 5], reg5_init = 0xedc22618,
      memory_keys = [0x000002d8, 0x000005b0, 0x00000b60, 0x000016c0, 0x00002d80, 0x00005b00, 0x0000b600, 0x00016c00],
      case_stmts = [(Halfword_Swap, 0, 5, 0), (Minmax_Clamp, 3, 4, 4), (Sub_Borrow, 2, 3, 5), (Reverse_Loop, 5, 0, 1),
                    (Compare_Select, 1, 1, 4), (Halfword_Swap, 5, 3, 4), (Short_Circuit, 2, 2, 2),
                    (Counted_Loop, 2, 0, 2), (Carry_Chain, 0, 4, 5), (Popcount_Loop, 4, 4, 5), (Sub_Borrow, 2, 2, 2),
                    (Compare_Select, 1, 1, 1)]\<rparr>"

definition case_0729 :: "case_program" where
  "case_0729 =
     \<lparr>case_id = 729,
      case_input = [0x5d0be746, 0xe32b6b79, 0x3813350f, 0xe6304678, 0x0000007f, 0xc993b2b3, 0x6c974bb7, 0xf8db899e,
                    0x42ebaeae, 0x07888695, 0x2de076d1, 0xdebb9376, 0x15893b45, 0xde977a86, 0xda4d23c8, 0x06ffe35c],
      case_kernel = uart_frame_kernel 4,
      reg_inputs = [10, 14, 2, 6], reg5_init = 0x8bf99fd1,
      memory_keys = [0x000002d9, 0x000005b2, 0x00000b64, 0x000016c8, 0x00002d90, 0x00005b20, 0x0000b640, 0x00016c80],
      case_stmts = [(Array_Scatter, 1, 4, 1), (Minmax_Clamp, 2, 4, 5), (Sub_Borrow, 0, 1, 1), (Switch_Phi, 4, 0, 2),
                    (Mask_Merge, 3, 5, 4), (Rotate_Mix, 3, 3, 5), (Carry_Chain, 3, 5, 3), (Horner_Loop, 1, 5, 4),
                    (Popcount_Loop, 1, 5, 0), (Minmax_Clamp, 1, 0, 3), (Popcount_Loop, 2, 4, 3), (Byte_Pack, 4, 3, 2)]\<rparr>"

definition case_0730 :: "case_program" where
  "case_0730 =
     \<lparr>case_id = 730,
      case_input = [0x9c8d8785, 0xc72a94b1, 0x2eb87641, 0xb2202138, 0xac6e18a5, 0x00000080, 0x9c8e3f4d, 0xf2788a14,
                    0x37ff7b22, 0xc807c9c6, 0x2be61659, 0xdb819e1c, 0x5286bf12, 0x9dc5c796, 0xee3c2001, 0x7cb29c6a],
      case_kernel = uart_frame_kernel 5,
      reg_inputs = [11, 15, 3, 7], reg5_init = 0x2a31198a,
      memory_keys = [0x000002da, 0x000005b4, 0x00000b68, 0x000016d0, 0x00002da0, 0x00005b40, 0x0000b680, 0x00016d00],
      case_stmts = [(Counted_Loop, 0, 0, 3), (Minmax_Clamp, 5, 0, 0), (Sub_Borrow, 0, 0, 0), (Halfword_Swap, 3, 4, 3),
                    (Endian_Swap, 1, 0, 0), (Halfword_Swap, 5, 3, 1), (Rotate_Mix, 3, 1, 2), (Reverse_Loop, 5, 4, 5),
                    (Compare_Select, 0, 3, 3), (Reverse_Loop, 3, 3, 5), (Gray_Decode, 2, 2, 0), (Switch_Phi, 4, 2, 0)]\<rparr>"

definition case_0731 :: "case_program" where
  "case_0731 =
     \<lparr>case_id = 731,
      case_input = [0xdc0fa7c4, 0xdb2bc1f6, 0xdb20d447, 0x1229541e, 0xba3b9570, 0x1bed8837, 0x000000ff, 0x208d4cd8,
                    0xd0b870f3, 0x89e87b09, 0xbd60e17e, 0x03b76d6d, 0x8a807cfb, 0x0423ddd0, 0x33863138, 0x55826d14],
      case_kernel = uart_frame_kernel 6,
      reg_inputs = [12, 0, 4, 8], reg5_init = 0xc8689343,
      memory_keys = [0x000002db, 0x000005b6, 0x00000b6c, 0x000016d8, 0x00002db0, 0x00005b60, 0x0000b6c0, 0x00016d80],
      case_stmts = [(Switch_Phi, 5, 1, 2), (Minmax_Clamp, 0, 4, 5), (Sub_Borrow, 2, 4, 4), (Mask_Merge, 4, 4, 4),
                    (Compare_Select, 1, 0, 4), (Rotate_Mix, 1, 3, 0), (Short_Circuit, 2, 2, 3), (Horner_Loop, 0, 3, 3),
                    (Array_Scatter, 3, 2, 4), (Gray_Decode, 0, 5, 5), (Switch_Phi, 4, 0, 3), (Rotate_Mix, 1, 4, 3)]\<rparr>"

definition case_0732 :: "case_program" where
  "case_0732 =
     \<lparr>case_id = 732,
      case_input = [0x1f814602, 0x8f2b6b20, 0x0bec5598, 0xac0b1793, 0x8cd6c138, 0xe78c21fc, 0x6ba256b7, 0x00000100,
                    0x6dc548e7, 0xd9feed29, 0x37026069, 0x02144637, 0x9cd84f53, 0xae81ddbf, 0x8ebfdeb4, 0x465c1b1e],
      case_kernel = uart_frame_kernel 7,
      reg_inputs = [13, 1, 5, 9], reg5_init = 0x66a00cfc,
      memory_keys = [0x000002dc, 0x000005b8, 0x00000b70, 0x000016e0, 0x00002dc0, 0x00005b80, 0x0000b700, 0x00016e00],
      case_stmts = [(Short_Circuit, 5, 4, 4), (Minmax_Clamp, 2, 1, 5), (Sub_Borrow, 4, 0, 0), (Horner_Loop, 4, 4, 5),
                    (Add_Carry, 4, 0, 1), (Array_Scatter, 4, 1, 2), (Mask_Merge, 3, 0, 0), (Horner_Loop, 1, 0, 1),
                    (Compare_Select, 4, 1, 1), (Add_Carry, 4, 4, 3), (Popcount_Loop, 3, 4, 1), (Rotate_Mix, 3, 5, 2)]\<rparr>"

definition case_0733 :: "case_program" where
  "case_0733 =
     \<lparr>case_id = 733,
      case_input = [0x5f036643, 0x932a3e67, 0xfe74f79e, 0x0c0262b5, 0x9a834ced, 0xf46f6aff, 0x2259c9ce, 0x8041bea2,
                    0x7fffffff, 0x98115fe6, 0xa184974e, 0xda22b546, 0x44de8cba, 0x3767c7f9, 0x5305cf8d, 0x6f6cea60],
      case_kernel = uart_frame_kernel 8,
      reg_inputs = [14, 2, 6, 10], reg5_init = 0x04d786b5,
      memory_keys = [0x000002dd, 0x000005ba, 0x00000b74, 0x000016e8, 0x00002dd0, 0x00005ba0, 0x0000b740, 0x00016e80],
      case_stmts = [(Popcount_Loop, 4, 1, 5), (Minmax_Clamp, 1, 5, 4), (Sub_Borrow, 0, 0, 2), (Reverse_Loop, 5, 0, 4),
                    (Horner_Loop, 2, 0, 3), (Multiply_Low, 2, 3, 1), (Switch_Phi, 2, 5, 3), (Compare_Select, 0, 5, 5),
                    (Popcount_Loop, 5, 4, 2), (Popcount_Loop, 5, 2, 1), (Endian_Swap, 5, 2, 0), (Switch_Phi, 2, 3, 3)]\<rparr>"

definition case_0734 :: "case_program" where
  "case_0734 =
     \<lparr>case_id = 734,
      case_input = [0x9e850680, 0xb72bc1af, 0xe8dfb4d0, 0x581205f5, 0x6d43764c, 0x35f21b78, 0xd240bd34, 0x8ae2bd28,
                    0xff9696ba, 0x80000000, 0xa782f7c6, 0xdf18b82c, 0x03d108ed, 0x74357ae9, 0x6774cc44, 0x15219556],
      case_kernel = uart_frame_kernel 9,
      reg_inputs = [15, 3, 7, 11], reg5_init = 0xa30f006e,
      memory_keys = [0x000002de, 0x000005bc, 0x00000b78, 0x000016f0, 0x00002de0, 0x00005bc0, 0x0000b780, 0x00016f00],
      case_stmts = [(Reverse_Loop, 5, 5, 5), (Minmax_Clamp, 2, 3, 5), (Sub_Borrow, 0, 3, 5), (Popcount_Loop, 4, 4, 5),
                    (Switch_Phi, 0, 5, 1), (Sub_Borrow, 0, 1, 3), (Horner_Loop, 0, 3, 4), (Horner_Loop, 2, 2, 4),
                    (Counted_Loop, 0, 2, 1), (Byte_Pack, 1, 5, 1), (Byte_Pack, 3, 4, 5), (Gray_Decode, 0, 0, 3)]\<rparr>"

definition case_0735 :: "case_program" where
  "case_0735 =
     \<lparr>case_id = 735,
      case_input = [0xde0726c1, 0xab2a94e8, 0x1d4716d6, 0xf81b70d3, 0x7b16fb99, 0x2611507b, 0x9bbb224d, 0x58177be4,
                    0x18d19d6b, 0x1671a27a, 0xfffffffe, 0x072e4b5d, 0xdbd7cb04, 0xedd360af, 0xbacedd7d, 0x3c116428],
      case_kernel = uart_frame_kernel 10,
      reg_inputs = [0, 4, 8, 12], reg5_init = 0x41467a27,
      memory_keys = [0x000002df, 0x000005be, 0x00000b7c, 0x000016f8, 0x00002df0, 0x00005be0, 0x0000b7c0, 0x00016f80],
      case_stmts = [(Gray_Decode, 2, 2, 0), (Minmax_Clamp, 3, 5, 2), (Sub_Borrow, 0, 5, 5), (Halfword_Swap, 3, 2, 0),
                    (Divide_Rem, 4, 1, 3), (Horner_Loop, 2, 3, 2), (Endian_Swap, 5, 2, 1), (Rotate_Mix, 1, 1, 4),
                    (Sub_Borrow, 5, 3, 0), (Compare_Select, 2, 3, 5), (Horner_Loop, 5, 2, 4), (Carry_Chain, 3, 4, 2)]\<rparr>"

definition case_0736 :: "case_program" where
  "case_0736 =
     \<lparr>case_id = 736,
      case_input = [0x01fec931, 0x5f27688b, 0x6fe50ce1, 0x6f0acf9b, 0xf27e4127, 0x7d991dee, 0xf5fab758, 0xdb92a3e5,
                    0x6a21eebc, 0xadd1e016, 0x38779215, 0xffffffff, 0x528ccbfa, 0x12e1bee5, 0xcc3472a1, 0xe329a313],
      case_kernel = uart_frame_kernel 11,
      reg_inputs = [1, 5, 9, 13], reg5_init = 0xdf7df3e0,
      memory_keys = [0x000002e0, 0x000005c0, 0x00000b80, 0x00001700, 0x00002e00, 0x00005c00, 0x0000b800, 0x00017000],
      case_stmts = [(Minmax_Clamp, 4, 0, 3), (Minmax_Clamp, 5, 5, 0), (Sub_Borrow, 1, 2, 5), (Add_Carry, 0, 2, 2),
                    (Multiply_Low, 2, 5, 1), (Add_Carry, 4, 1, 4), (Sub_Borrow, 1, 2, 5), (Divide_Rem, 1, 1, 1),
                    (Short_Circuit, 2, 1, 1), (Gray_Decode, 3, 3, 0), (Reverse_Loop, 3, 1, 1), (Sub_Borrow, 5, 0, 0)]\<rparr>"

definition case_0737 :: "case_program" where
  "case_0737 =
     \<lparr>case_id = 737,
      case_input = [0x417ce970, 0x43263dcc, 0x9a7daee7, 0xcf03babd, 0x00000000, 0x6e7a56ed, 0xbc012821, 0x09676529,
                    0x8d66e56d, 0xec3e52d9, 0xaef16532, 0x64261e99, 0x00000000, 0x8b07a4a3, 0x118e6398, 0xca19526d],
      case_kernel = uart_frame_kernel 12,
      reg_inputs = [2, 6, 10, 14], reg5_init = 0x7db56d99,
      memory_keys = [0x000002e1, 0x000005c2, 0x00000b84, 0x00001708, 0x00002e10, 0x00005c20, 0x0000b840, 0x00017080],
      case_stmts = [(Endian_Swap, 1, 3, 4), (Minmax_Clamp, 4, 1, 1), (Sub_Borrow, 1, 2, 5), (Sub_Borrow, 5, 0, 5),
                    (Minmax_Clamp, 0, 1, 3), (Carry_Chain, 0, 1, 5), (Gray_Decode, 0, 5, 0), (Array_Scatter, 4, 0, 3),
                    (Switch_Phi, 5, 0, 4), (Compare_Select, 4, 5, 4), (Counted_Loop, 5, 5, 2), (Divide_Rem, 0, 2, 1)]\<rparr>"

definition case_0738 :: "case_program" where
  "case_0738 =
     \<lparr>case_id = 738,
      case_input = [0x80fa89b3, 0x6727c204, 0x8cd6eda9, 0x9b13ddfd, 0x13ebf653, 0xafe7276a, 0x4c185cdb, 0x03c466a3,
                    0xf87230e1, 0x23b11d8a, 0xa8f705ba, 0x00000080, 0xcd858c44, 0x00000001, 0x25ff6051, 0xb0542d5b],
      case_kernel = uart_frame_kernel 13,
      reg_inputs = [3, 7, 11, 15], reg5_init = 0x1bece752,
      memory_keys = [0x000002e2, 0x000005c4, 0x00000b88, 0x00001710, 0x00002e20, 0x00005c40, 0x0000b880, 0x00017100],
      case_stmts = [(Carry_Chain, 2, 1, 2), (Minmax_Clamp, 1, 3, 4), (Sub_Borrow, 5, 1, 2), (Compare_Select, 0, 2, 0),
                    (Add_Carry, 0, 0, 1), (Minmax_Clamp, 4, 3, 5), (Multiply_Low, 2, 3, 3), (Add_Carry, 4, 3, 0),
                    (Short_Circuit, 0, 0, 1), (Divide_Rem, 0, 0, 4), (Short_Circuit, 3, 5, 5), (Divide_Rem, 2, 1, 1)]\<rparr>"

definition case_0739 :: "case_program" where
  "case_0739 =
     \<lparr>case_id = 739,
      case_input = [0xc078a9f2, 0x7b269743, 0xfffffffe, 0x3b1aa8db, 0x05be7b86, 0xbc046c69, 0x05e3c3a2, 0xd131a06f,
                    0x1f353b30, 0x625eaf45, 0x3e71f29d, 0xb92ae082, 0x15834fad, 0x51b303f5, 0x00000002, 0x9964dc25],
      case_kernel = uart_frame_kernel 14,
      reg_inputs = [4, 8, 12, 0], reg5_init = 0xba24610b,
      memory_keys = [0x000002e3, 0x000005c6, 0x00000b8c, 0x00001718, 0x00002e30, 0x00005c60, 0x0000b8c0, 0x00017180],
      case_stmts = [(Horner_Loop, 5, 2, 5), (Minmax_Clamp, 2, 5, 3), (Sub_Borrow, 5, 5, 0), (Byte_Pack, 1, 0, 5),
                    (Multiply_Low, 2, 4, 3), (Rotate_Mix, 2, 3, 2), (Endian_Swap, 3, 2, 0), (Array_Scatter, 1, 4, 0),
                    (Gray_Decode, 5, 5, 0), (Mask_Merge, 5, 0, 4), (Minmax_Clamp, 1, 1, 4), (Endian_Swap, 5, 5, 0)]\<rparr>"

definition case_0740 :: "case_program" where
  "case_0740 =
     \<lparr>case_id = 740,
      case_input = [0x03f64834, 0x2f263d95, 0xa982ce70, 0x8538eb56, 0x33532fce, 0x4065c5a2, 0xbb343521, 0xa30894d9,
                    0xa2480324, 0x00000003, 0xb413738a, 0xb889cbd8, 0x03db7c05, 0xfb11039a, 0x457c9ee4, 0x00000003],
      case_kernel = uart_frame_kernel 15,
      reg_inputs = [5, 9, 13, 1], reg5_init = 0x585bdac4,
      memory_keys = [0x000002e4, 0x000005c8, 0x00000b90, 0x00001720, 0x00002e40, 0x00005c80, 0x0000b900, 0x00017200],
      case_stmts = [(Add_Carry, 3, 3, 1), (Endian_Swap, 0, 0, 1), (Sub_Borrow, 1, 1, 4), (Endian_Swap, 1, 2, 2),
                    (Sub_Borrow, 3, 4, 2), (Popcount_Loop, 3, 3, 0), (Minmax_Clamp, 0, 4, 5), (Array_Scatter, 4, 1, 2),
                    (Short_Circuit, 2, 2, 1), (Rotate_Mix, 3, 5, 0), (Rotate_Mix, 4, 5, 2), (Endian_Swap, 5, 4, 5)]\<rparr>"

definition case_0741 :: "case_program" where
  "case_0741 =
     \<lparr>case_id = 741,
      case_input = [0x7fffffff, 0x332768d2, 0x5c1a6c76, 0x25319e70, 0x2506a21b, 0x53868ea1, 0xf2cfaa58, 0x71fd5215,
                    0x450f08f5, 0x73a78baa, 0x229584ad, 0x60bf38a9, 0xdbddbfec, 0x62f719dc, 0x98c68fdd, 0xa38a5b51],
      case_kernel = uart_frame_kernel 0,
      reg_inputs = [6, 10, 14, 2], reg5_init = 0xf693547d,
      memory_keys = [0x000002e5, 0x000005ca, 0x00000b94, 0x00001728, 0x00002e50, 0x00005ca0, 0x0000b940, 0x00017280],
      case_stmts = [(Sub_Borrow, 0, 4, 0), (Endian_Swap, 5, 2, 4), (Sub_Borrow, 5, 3, 4), (Minmax_Clamp, 0, 2, 1),
                    (Rotate_Mix, 3, 4, 2), (Multiply_Low, 1, 3, 3), (Carry_Chain, 1, 1, 2), (Short_Circuit, 5, 0, 0),
                    (Switch_Phi, 1, 3, 2), (Byte_Pack, 0, 3, 0), (Compare_Select, 2, 3, 3), (Divide_Rem, 0, 4, 2)]\<rparr>"

definition case_0742 :: "case_program" where
  "case_0742 =
     \<lparr>case_id = 742,
      case_input = [0x82f208b6, 0x00000080, 0x4ab12f38, 0x7121f930, 0xd2c698ba, 0x921bff26, 0x02d6dea2, 0x00000001,
                    0x301bdd79, 0xbc28c4f9, 0x2493e425, 0x658535c3, 0x9cd23bbb, 0x21a5a4cc, 0xacb78c14, 0xd9c72467],
      case_kernel = uart_frame_kernel 1,
      reg_inputs = [7, 11, 15, 3], reg5_init = 0x94cace36,
      memory_keys = [0x000002e6, 0x000005cc, 0x00000b98, 0x00001730, 0x00002e60, 0x00005cc0, 0x0000b980, 0x00017300],
      case_stmts = [(Rotate_Mix, 1, 2, 4), (Endian_Swap, 0, 0, 5), (Sub_Borrow, 1, 4, 5), (Multiply_Low, 3, 4, 2),
                    (Rotate_Mix, 5, 3, 2), (Popcount_Loop, 5, 3, 5), (Carry_Chain, 3, 1, 3), (Popcount_Loop, 3, 5, 5),
                    (Short_Circuit, 2, 1, 5), (Popcount_Loop, 0, 4, 2), (Divide_Rem, 2, 1, 4),
                    (Halfword_Swap, 0, 5, 2)]\<rparr>"

definition case_0743 :: "case_program" where
  "case_0743 =
     \<lparr>case_id = 743,
      case_input = [0xc27028f7, 0x0b27c25d, 0x000000ff, 0xd1288c16, 0xc493156f, 0x81f8b425, 0x4b2d41db, 0xa9ab9753,
                    0xd75cd6a8, 0xfdc77636, 0xb2151302, 0xbdb3c6b2, 0x44d4f852, 0xb843be8a, 0x000000ff, 0xf0f7d519],
      case_kernel = uart_frame_kernel 2,
      reg_inputs = [8, 12, 0, 4], reg5_init = 0x330247ef,
      memory_keys = [0x000002e7, 0x000005ce, 0x00000b9c, 0x00001738, 0x00002e70, 0x00005ce0, 0x0000b9c0, 0x00017380],
      case_stmts = [(Multiply_Low, 4, 5, 1), (Endian_Swap, 1, 4, 4), (Sub_Borrow, 5, 0, 5), (Rotate_Mix, 4, 0, 3),
                    (Mask_Merge, 1, 1, 0), (Gray_Decode, 3, 3, 0), (Minmax_Clamp, 0, 0, 2), (Add_Carry, 2, 4, 1),
                    (Gray_Decode, 5, 2, 0), (Divide_Rem, 5, 2, 2), (Short_Circuit, 2, 1, 3), (Endian_Swap, 5, 5, 5)]\<rparr>"

definition case_0744 :: "case_program" where
  "case_0744 =
     \<lparr>case_id = 744,
      case_input = [0x05efcb3b, 0xbf25c2b7, 0xe32a89c2, 0x00000100, 0x72249cf4, 0xffffffff, 0xf1611eee, 0x8ea935a6,
                    0x9ec8d542, 0xae1f1b36, 0x5825333c, 0x2b69fcb3, 0x12caaabd, 0x809717f7, 0x47d22b77, 0xb0c1019f],
      case_kernel = uart_frame_kernel 3,
      reg_inputs = [9, 13, 1, 5], reg5_init = 0xd139c1a8,
      memory_keys = [0x000002e8, 0x000005d0, 0x00000ba0, 0x00001740, 0x00002e80, 0x00005d00, 0x0000ba00, 0x00017400],
      case_stmts = [(Divide_Rem, 2, 5, 2), (Endian_Swap, 2, 1, 0), (Sub_Borrow, 3, 3, 1), (Rotate_Mix, 2, 0, 0),
                    (Horner_Loop, 2, 2, 0), (Multiply_Low, 5, 0, 5), (Multiply_Low, 3, 2, 2), (Switch_Phi, 3, 3, 4),
                    (Mask_Merge, 4, 2, 1), (Array_Scatter, 0, 3, 0), (Popcount_Loop, 3, 0, 3), (Horner_Loop, 3, 0, 4)]\<rparr>"

definition case_0745 :: "case_program" where
  "case_0745 =
     \<lparr>case_id = 745,
      case_input = [0x456deb7a, 0xa32497f0, 0x16b22bc4, 0x1b67f327, 0x7fffffff, 0x1585e674, 0xb89a8197, 0x5c5cf36a,
                    0x798fde93, 0xeff0a9f9, 0xcea3c41b, 0xf35f0fc2, 0x0000007f, 0x19710db1, 0x9a683a4e, 0x99f1f0e1],
      case_kernel = uart_frame_kernel 4,
      reg_inputs = [10, 14, 2, 6], reg5_init = 0x6f713b61,
      memory_keys = [0x000002e9, 0x000005d2, 0x00000ba4, 0x00001748, 0x00002e90, 0x00005d20, 0x0000ba40, 0x00017480],
      case_stmts = [(Mask_Merge, 5, 0, 3), (Endian_Swap, 1, 5, 5), (Sub_Borrow, 3, 3, 1), (Multiply_Low, 5, 4, 3),
                    (Add_Carry, 0, 2, 2), (Endian_Swap, 3, 2, 4), (Popcount_Loop, 0, 3, 1), (Reverse_Loop, 0, 0, 2),
                    (Compare_Select, 3, 1, 0), (Divide_Rem, 1, 3, 2), (Mask_Merge, 3, 4, 0), (Counted_Loop, 0, 4, 3)]\<rparr>"

definition case_0746 :: "case_program" where
  "case_0746 =
     \<lparr>case_id = 746,
      case_input = [0x84eb8bb9, 0x87256838, 0x0019688a, 0x80000000, 0x93b12b80, 0x80000000, 0x4883f56d, 0x56fff0e0,
                    0x0c9b0b1f, 0x207fe6aa, 0xc8a5a493, 0xf66502a8, 0x8dc3ed03, 0x5a23b0a1, 0xae193987, 0xe3bc8fd7],
      case_kernel = uart_frame_kernel 5,
      reg_inputs = [11, 15, 3, 7], reg5_init = 0x0da8b51a,
      memory_keys = [0x000002ea, 0x000005d4, 0x00000ba8, 0x00001750, 0x00002ea0, 0x00005d40, 0x0000ba80, 0x00017500],
      case_stmts = [(Compare_Select, 0, 0, 3), (Endian_Swap, 2, 1, 4), (Sub_Borrow, 1, 0, 0), (Divide_Rem, 2, 0, 2),
                    (Divide_Rem, 2, 3, 4), (Gray_Decode, 5, 4, 0), (Endian_Swap, 0, 1, 4), (Switch_Phi, 0, 5, 5),
                    (Endian_Swap, 0, 1, 3), (Counted_Loop, 1, 4, 4), (Byte_Pack, 1, 0, 1), (Carry_Chain, 2, 1, 1)]\<rparr>"

definition case_0747 :: "case_program" where
  "case_0747 =
     \<lparr>case_id = 747,
      case_input = [0xc469abf8, 0x9b243d7f, 0xf581ca8c, 0xef7ee141, 0x85e4a655, 0xc7fbdcf0, 0xfffffffe, 0x840a362c,
                    0xebdc00ce, 0x61905465, 0x00000002, 0x2e53f1d9, 0x55c52eea, 0xc3c5aae7, 0x73a328be, 0xca8c7ea9],
      case_kernel = uart_frame_kernel 6,
      reg_inputs = [12, 0, 4, 8], reg5_init = 0xabe02ed3,
      memory_keys = [0x000002eb, 0x000005d6, 0x00000bac, 0x00001758, 0x00002eb0, 0x00005d60, 0x0000bac0, 0x00017580],
      case_stmts = [(Byte_Pack, 3, 1, 4), (Endian_Swap, 1, 1, 3), (Sub_Borrow, 3, 4, 0), (Mask_Merge, 1, 4, 1),
                    (Horner_Loop, 0, 5, 0), (Endian_Swap, 5, 4, 1), (Byte_Pack, 1, 2, 3), (Reverse_Loop, 1, 0, 5),
                    (Reverse_Loop, 1, 0, 2), (Gray_Decode, 0, 4, 0), (Gray_Decode, 5, 2, 2), (Horner_Loop, 1, 1, 2)]\<rparr>"

definition case_0748 :: "case_program" where
  "case_0748 =
     \<lparr>case_id = 748,
      case_input = [0x07e74a3e, 0x00000100, 0x254d4b53, 0x515ca2cc, 0xb309f21d, 0x3b9a753b, 0xbfaf9c97, 0xffffffff,
                    0x56a138da, 0x3186c245, 0xd441d2a3, 0x2ff0da83, 0x439d1d42, 0x6967aa88, 0xce9ac732, 0xd95208a3],
      case_kernel = uart_frame_kernel 7,
      reg_inputs = [13, 1, 5, 9], reg5_init = 0x4a17a88c,
      memory_keys = [0x000002ec, 0x000005d8, 0x00000bb0, 0x00001760, 0x00002ec0, 0x00005d80, 0x0000bb00, 0x00017600],
      case_stmts = [(Halfword_Swap, 1, 4, 2), (Endian_Swap, 1, 0, 1), (Sub_Borrow, 1, 4, 0), (Horner_Loop, 1, 0, 2),
                    (Sub_Borrow, 5, 1, 1), (Counted_Loop, 4, 2, 3), (Compare_Select, 2, 2, 4), (Rotate_Mix, 2, 3, 1),
                    (Popcount_Loop, 4, 3, 3), (Minmax_Clamp, 4, 3, 4), (Endian_Swap, 0, 2, 2), (Byte_Pack, 1, 2, 1)]\<rparr>"

definition case_0749 :: "case_program" where
  "case_0749 =
     \<lparr>case_id = 749,
      case_input = [0x47656a7f, 0xd325c2ee, 0xd0d5e955, 0xf155d7ea, 0xa55c7fc8, 0x28793e38, 0xf65403ee, 0x24c6c456,
                    0x00000000, 0x7069708a, 0x42c72584, 0xf7c629f2, 0x9b9bdeab, 0xf081b0ce, 0x1320d60b, 0xf062f9dd],
      case_kernel = uart_frame_kernel 8,
      reg_inputs = [14, 2, 6, 10], reg5_init = 0xe84f2245,
      memory_keys = [0x000002ed, 0x000005da, 0x00000bb4, 0x00001768, 0x00002ed0, 0x00005da0, 0x0000bb40, 0x00017680],
      case_stmts = [(Array_Scatter, 0, 5, 3), (Endian_Swap, 4, 0, 4), (Sub_Borrow, 5, 0, 4), (Carry_Chain, 2, 2, 1),
                    (Reverse_Loop, 5, 3, 1), (Add_Carry, 2, 4, 2), (Minmax_Clamp, 1, 1, 1), (Byte_Pack, 5, 2, 5),
                    (Compare_Select, 1, 0, 0), (Sub_Borrow, 1, 3, 0), (Sub_Borrow, 2, 4, 5), (Reverse_Loop, 4, 2, 2)]\<rparr>"

definition case_0750 :: "(nat \<Rightarrow> u32) \<Rightarrow> case_program" where
  "case_0750 junk =
     \<lparr>case_id = 750,
      case_input = [0x00000000, 0xf7243d26, 0xc67eaa1b, 0xa545b0aa, 0x529c4569, 0xe9e44fbf, 0x064d7714, 0x2e65c7dc,
                    0xc4f2e687, 0xbfe63fd9, 0x44c1450c, 0xf2fc2498, 0xdc945afc, 0xb3d30dde, 0x2751d5c2, 0x8a2f86eb],
      case_kernel = cobs_kernel junk 4,
      reg_inputs = [15, 3, 7, 11], reg5_init = 0x86869bfe,
      memory_keys = [0x000002ee, 0x000005dc, 0x00000bb8, 0x00001770, 0x00002ee0, 0x00005dc0, 0x0000bb80, 0x00017700],
      case_stmts = [(Counted_Loop, 5, 5, 3), (Endian_Swap, 1, 4, 3), (Sub_Borrow, 1, 3, 3), (Sub_Borrow, 5, 0, 4),
                    (Reverse_Loop, 3, 4, 3), (Counted_Loop, 4, 0, 4), (Minmax_Clamp, 5, 1, 2), (Rotate_Mix, 5, 5, 2),
                    (Endian_Swap, 4, 4, 3), (Multiply_Low, 5, 0, 4), (Gray_Decode, 0, 2, 2), (Carry_Chain, 2, 3, 0)]\<rparr>"

definition case_0751 :: "(nat \<Rightarrow> u32) \<Rightarrow> case_program" where
  "case_0751 junk =
     \<lparr>case_id = 751,
      case_input = [0xc6612afd, 0x00000001, 0x33e6081d, 0x054cc58c, 0x44c9c8bc, 0xfa0704bc, 0x4fb6e86d, 0xfc900110,
                    0x23b5ed56, 0xfe098d16, 0xd247b22b, 0x2acad7e9, 0x04929915, 0x2a351798, 0xfaebc4fb, 0xa31f7795],
      case_kernel = cobs_kernel junk 5,
      reg_inputs = [0, 4, 8, 12], reg5_init = 0x24be15b7,
      memory_keys = [0x000002ef, 0x000005de, 0x00000bbc, 0x00001778, 0x00002ef0, 0x00005de0, 0x0000bbc0, 0x00017780],
      case_stmts = [(Switch_Phi, 4, 2, 4), (Endian_Swap, 0, 2, 0), (Sub_Borrow, 5, 1, 3), (Add_Carry, 2, 4, 5),
                    (Mask_Merge, 3, 2, 1), (Short_Circuit, 0, 0, 3), (Carry_Chain, 4, 4, 3), (Byte_Pack, 2, 4, 2),
                    (Counted_Loop, 1, 5, 4), (Compare_Select, 2, 0, 4), (Byte_Pack, 0, 0, 3), (Multiply_Low, 5, 1, 1)]\<rparr>"

definition case_0752 :: "(nat \<Rightarrow> u32) \<Rightarrow> case_program" where
  "case_0752 junk =
     \<lparr>case_id = 752,
      case_input = [0x09dccd25, 0x9f223cf3, 0x00000002, 0xc5c45cae, 0x69cb57c4, 0xb76929a3, 0xa7fe5184, 0x8d2bde50,
                    0x3aa9ff1a, 0xd46c9887, 0x92d1a458, 0x2d275b98, 0x7aa56b9f, 0x43e9feb7, 0x800e3c23, 0x6100437f],
      case_kernel = cobs_kernel junk 6,
      reg_inputs = [1, 5, 9, 13], reg5_init = 0xc2f58f70,
      memory_keys = [0x000002f0, 0x000005e0, 0x00000bc0, 0x00001780, 0x00002f00, 0x00005e00, 0x0000bc00, 0x00017800],
      case_stmts = [(Short_Circuit, 5, 1, 5), (Endian_Swap, 2, 1, 2), (Sub_Borrow, 3, 2, 2), (Minmax_Clamp, 3, 5, 0),
                    (Byte_Pack, 0, 0, 1), (Counted_Loop, 1, 1, 2), (Halfword_Swap, 1, 4, 5), (Byte_Pack, 0, 5, 3),
                    (Sub_Borrow, 4, 2, 3), (Gray_Decode, 4, 2, 1), (Multiply_Low, 2, 3, 0), (Gray_Decode, 5, 5, 5)]\<rparr>"

definition case_0753 :: "(nat \<Rightarrow> u32) \<Rightarrow> case_program" where
  "case_0753 junk =
     \<lparr>case_id = 753,
      case_input = [0x495eed64, 0x832369b4, 0x81e2a4a1, 0x00000003, 0x7f9eda11, 0xa48a62a0, 0xee05cefd, 0x5fde189c,
                    0xddeef4cb, 0x95832a48, 0x0457537f, 0xf511a8e9, 0xa2a3a876, 0xda0fe4f1, 0x5db42d1a, 0x4830b201],
      case_kernel = cobs_kernel junk 7,
      reg_inputs = [2, 6, 10, 14], reg5_init = 0x612d0929,
      memory_keys = [0x000002f1, 0x000005e2, 0x00000bc4, 0x00001788, 0x00002f10, 0x00005e20, 0x0000bc40, 0x00017880],
      case_stmts = [(Popcount_Loop, 4, 2, 0), (Endian_Swap, 3, 3, 1), (Sub_Borrow, 5, 4, 4), (Popcount_Loop, 2, 5, 3),
                    (Halfword_Swap, 2, 4, 1), (Minmax_Clamp, 1, 3, 1), (Rotate_Mix, 4, 3, 2), (Reverse_Loop, 5, 2, 5),
                    (Rotate_Mix, 3, 1, 4), (Compare_Select, 5, 0, 5), (Horner_Loop, 2, 5, 1), (Carry_Chain, 2, 5, 4)]\<rparr>"

definition case_0754 :: "(nat \<Rightarrow> u32) \<Rightarrow> case_program" where
  "case_0754 junk =
     \<lparr>case_id = 754,
      case_input = [0x88d88da7, 0xa722967c, 0x9749e7ef, 0x31dd4ec8, 0x0000007f, 0x65171327, 0x1e1cba07, 0x557d1b16,
                    0xa8fa2147, 0x5a0c651b, 0x025133f7, 0xf02ba583, 0xe5ac2c21, 0x995d59e1, 0x69c52ed3, 0x327dcd37],
      case_kernel = cobs_kernel junk 8,
      reg_inputs = [3, 7, 11, 15], reg5_init = 0xff6482e2,
      memory_keys = [0x000002f2, 0x000005e4, 0x00000bc8, 0x00001790, 0x00002f20, 0x00005e40, 0x0000bc80, 0x00017900],
      case_stmts = [(Reverse_Loop, 1, 2, 0), (Endian_Swap, 0, 1, 2), (Sub_Borrow, 5, 1, 5), (Rotate_Mix, 3, 3, 2),
                    (Add_Carry, 4, 1, 1), (Counted_Loop, 3, 3, 5), (Compare_Select, 0, 3, 3), (Gray_Decode, 1, 1, 4),
                    (Sub_Borrow, 2, 3, 3), (Divide_Rem, 3, 3, 5), (Popcount_Loop, 0, 5, 0), (Counted_Loop, 0, 0, 2)]\<rparr>"

definition case_0755 :: "(nat \<Rightarrow> u32) \<Rightarrow> case_program" where
  "case_0755 junk =
     \<lparr>case_id = 755,
      case_input = [0xc85aade6, 0xbb23c33b, 0x62d145e9, 0x91d43bee, 0x9e0b6d65, 0x00000080, 0x57e7257e, 0x8788ddda,
                    0x4fbd2a96, 0x1be3d7d4, 0x94d7c4d0, 0x281d56f2, 0x3daaefc8, 0x00bb43a7, 0xb47f3fea, 0x1b4d3c49],
      case_kernel = cobs_kernel junk 9,
      reg_inputs = [4, 8, 12, 0], reg5_init = 0x9d9bfc9b,
      memory_keys = [0x000002f3, 0x000005e6, 0x00000bcc, 0x00001798, 0x00002f30, 0x00005e60, 0x0000bcc0, 0x00017980],
      case_stmts = [(Gray_Decode, 4, 3, 5), (Endian_Swap, 3, 5, 1), (Sub_Borrow, 3, 5, 5), (Horner_Loop, 2, 5, 5),
                    (Switch_Phi, 0, 3, 5), (Divide_Rem, 3, 3, 2), (Minmax_Clamp, 1, 4, 4), (Counted_Loop, 4, 0, 0),
                    (Counted_Loop, 5, 0, 0), (Sub_Borrow, 4, 5, 5), (Endian_Swap, 4, 1, 3), (Multiply_Low, 5, 0, 1)]\<rparr>"

definition case_0756 :: "(nat \<Rightarrow> u32) \<Rightarrow> case_program" where
  "case_0756 junk =
     \<lparr>case_id = 756,
      case_input = [0x0bd44c20, 0xef2369ed, 0xb21dc436, 0x2ff67863, 0xa8e6392d, 0x8a95f1ef, 0x000000ff, 0xf5b1e96c,
                    0xf2c01282, 0x4bf541f4, 0x1eb545c7, 0x29be7da8, 0x2bf2dc60, 0xaa1943c8, 0x0946d066, 0x08934a43],
      case_kernel = cobs_kernel junk 10,
      reg_inputs = [5, 9, 13, 1], reg5_init = 0x3bd37654,
      memory_keys = [0x000002f4, 0x000005e8, 0x00000bd0, 0x000017a0, 0x00002f40, 0x00005e80, 0x0000bd00, 0x00017a00],
      case_stmts = [(Minmax_Clamp, 4, 0, 1), (Endian_Swap, 5, 4, 3), (Sub_Borrow, 1, 5, 3), (Sub_Borrow, 4, 5, 4),
                    (Popcount_Loop, 5, 1, 0), (Horner_Loop, 4, 5, 4), (Popcount_Loop, 2, 4, 5), (Rotate_Mix, 5, 3, 2),
                    (Popcount_Loop, 4, 3, 5), (Carry_Chain, 0, 4, 3), (Switch_Phi, 3, 1, 3), (Gray_Decode, 3, 1, 0)]\<rparr>"

definition case_0757 :: "(nat \<Rightarrow> u32) \<Rightarrow> case_program" where
  "case_0757 junk =
     \<lparr>case_id = 757,
      case_input = [0x4b566c61, 0xf3223caa, 0x47856630, 0x8fff0d45, 0xbeb3b4f8, 0x9976baec, 0xa0cb4c84, 0x00000100,
                    0x15871953, 0x0a1af33b, 0x8833b2e0, 0xf1888ed9, 0xf3f41f89, 0x33ff598e, 0xd4fcc15f, 0x21a3bb3d],
      case_kernel = cobs_kernel junk 11,
      reg_inputs = [6, 10, 14, 2], reg5_init = 0xda0af00d,
      memory_keys = [0x000002f5, 0x000005ea, 0x00000bd4, 0x000017a8, 0x00002f50, 0x00005ea0, 0x0000bd40, 0x00017a80],
      case_stmts = [(Endian_Swap, 5, 1, 4), (Endian_Swap, 0, 2, 2), (Sub_Borrow, 3, 1, 3), (Minmax_Clamp, 1, 1, 5),
                    (Counted_Loop, 5, 5, 2), (Mask_Merge, 4, 3, 1), (Switch_Phi, 5, 5, 0), (Multiply_Low, 4, 2, 4),
                    (Reverse_Loop, 3, 4, 4), (Horner_Loop, 5, 2, 5), (Horner_Loop, 1, 3, 2), (Rotate_Mix, 4, 3, 5)]\<rparr>"

definition case_0758 :: "(nat \<Rightarrow> u32) \<Rightarrow> case_program" where
  "case_0758 junk =
     \<lparr>case_id = 758,
      case_input = [0x8ad00ca2, 0xd723c362, 0x512e257e, 0xdbef6a05, 0x49738e59, 0x58ebcb6b, 0x50d2387e, 0x2de72c2a,
                    0x7fffffff, 0xc595bc68, 0x8e35d268, 0xf4b283b3, 0xb4fb9bde, 0x70ade49e, 0xe08dc296, 0x5beec40b],
      case_kernel = cobs_kernel junk 12,
      reg_inputs = [7, 11, 15, 3], reg5_init = 0x784269c6,
      memory_keys = [0x000002f6, 0x000005ec, 0x00000bd8, 0x000017b0, 0x00002f60, 0x00005ec0, 0x0000bd80, 0x00017b00],
      case_stmts = [(Carry_Chain, 4, 5, 0), (Endian_Swap, 5, 4, 1), (Sub_Borrow, 3, 0, 0), (Byte_Pack, 2, 1, 4),
                    (Carry_Chain, 5, 0, 4), (Horner_Loop, 4, 5, 1), (Byte_Pack, 3, 1, 3), (Reverse_Loop, 4, 1, 5),
                    (Sub_Borrow, 0, 0, 1), (Mask_Merge, 1, 3, 1), (Endian_Swap, 5, 5, 3), (Carry_Chain, 0, 4, 3)]\<rparr>"

definition case_0759 :: "(nat \<Rightarrow> u32) \<Rightarrow> case_program" where
  "case_0759 junk =
     \<lparr>case_id = 759,
      case_input = [0xca522ce3, 0xcb229625, 0xa4b68778, 0x7be61f23, 0x5f26038c, 0x4b088068, 0x1929a707, 0xff12eae6,
                    0x87d4c70e, 0x80000000, 0x18b3254f, 0x2c8470c2, 0x6cfd5837, 0xe94bfed8, 0x3d37d3af, 0x72de3575],
      case_kernel = cobs_kernel junk 13,
      reg_inputs = [8, 12, 0, 4], reg5_init = 0x1679e37f,
      memory_keys = [0x000002f7, 0x000005ee, 0x00000bdc, 0x000017b8, 0x00002f70, 0x00005ee0, 0x0000bdc0, 0x00017b80],
      case_stmts = [(Horner_Loop, 1, 0, 5), (Endian_Swap, 0, 4, 2), (Sub_Borrow, 3, 4, 0), (Rotate_Mix, 5, 1, 1),
                    (Endian_Swap, 5, 0, 0), (Endian_Swap, 0, 1, 0), (Mask_Merge, 2, 0, 4), (Multiply_Low, 1, 2, 3),
                    (Compare_Select, 3, 3, 4), (Minmax_Clamp, 0, 3, 1), (Endian_Swap, 3, 3, 0), (Byte_Pack, 1, 0, 2)]\<rparr>"

definition case_0760 :: "(nat \<Rightarrow> u32) \<Rightarrow> case_program" where
  "case_0760 junk =
     \<lparr>case_id = 760,
      case_input = [0x0dcdcf2f, 0x7f2096cf, 0xf8b58384, 0x11a01534, 0xe9918a17, 0xcc96993a, 0xa365f832, 0xd8104813,
                    0xce40c4e4, 0xd7a263a7, 0xfffffffe, 0xba5e4ac3, 0x3ae30ad8, 0xd19f57a5, 0x0be865f5, 0x32e8e1f3],
      case_kernel = cobs_kernel junk 14,
      reg_inputs = [9, 13, 1, 5], reg5_init = 0xb4b15d38,
      memory_keys = [0x000002f8, 0x000005f0, 0x00000be0, 0x000017c0, 0x00002f80, 0x00005f00, 0x0000be00, 0x00017c00],
      case_stmts = [(Add_Carry, 1, 2, 2), (Carry_Chain, 3, 1, 0), (Sub_Borrow, 3, 3, 4), (Carry_Chain, 3, 3, 0),
                    (Gray_Decode, 0, 3, 0), (Popcount_Loop, 2, 2, 1), (Carry_Chain, 1, 0, 4), (Short_Circuit, 4, 5, 2),
                    (Halfword_Swap, 2, 3, 3), (Popcount_Loop, 3, 2, 1), (Add_Carry, 2, 2, 4), (Mask_Merge, 1, 5, 3)]\<rparr>"

definition case_0761 :: "(nat \<Rightarrow> u32) \<Rightarrow> case_program" where
  "case_0761 junk =
     \<lparr>case_id = 761,
      case_input = [0x4d4fef6e, 0x6321c388, 0x0d2d2182, 0xb1a96012, 0xffc407c2, 0xdf75d239, 0xea9e674b, 0x0ae58edf,
                    0x2907cf35, 0x964dd168, 0x6405f256, 0xffffffff, 0xe2e5c931, 0x48794de3, 0xd65274cc, 0x1bd8108d],
      case_kernel = cobs_kernel junk 15,
      reg_inputs = [10, 14, 2, 6], reg5_init = 0x52e8d6f1,
      memory_keys = [0x000002f9, 0x000005f2, 0x00000be4, 0x000017c8, 0x00002f90, 0x00005f20, 0x0000be40, 0x00017c80],
      case_stmts = [(Sub_Borrow, 0, 1, 3), (Carry_Chain, 2, 5, 5), (Sub_Borrow, 3, 5, 4), (Gray_Decode, 0, 3, 5),
                    (Divide_Rem, 4, 5, 4), (Horner_Loop, 2, 4, 4), (Divide_Rem, 2, 1, 1), (Endian_Swap, 3, 0, 2),
                    (Byte_Pack, 3, 2, 4), (Short_Circuit, 0, 4, 3), (Short_Circuit, 2, 0, 5), (Minmax_Clamp, 2, 5, 4)]\<rparr>"

definition case_0762 :: "(nat \<Rightarrow> u32) \<Rightarrow> case_program" where
  "case_0762 junk =
     \<lparr>case_id = 762,
      case_input = [0x8cc98fad, 0x47203c40, 0x1b8662cc, 0xe5b90752, 0x00000000, 0x1ee8a3be, 0x1a8713b1, 0x00468d55,
                    0x5c131ab9, 0x59c29e3b, 0x620392de, 0x6752b4d8, 0x00000000, 0x0b2bf0f3, 0xe2237705, 0x61956fbb],
      case_kernel = cobs_kernel junk 4,
      reg_inputs = [11, 15, 3, 7], reg5_init = 0xf12050aa,
      memory_keys = [0x000002fa, 0x000005f4, 0x00000be8, 0x000017d0, 0x00002fa0, 0x00005f40, 0x0000be80, 0x00017d00],
      case_stmts = [(Rotate_Mix, 1, 5, 3), (Carry_Chain, 3, 1, 0), (Sub_Borrow, 5, 0, 1), (Add_Carry, 3, 5, 4),
                    (Divide_Rem, 4, 2, 0), (Popcount_Loop, 4, 4, 4), (Add_Carry, 2, 3, 2), (Divide_Rem, 3, 3, 3),
                    (Minmax_Clamp, 2, 0, 3), (Compare_Select, 4, 5, 1), (Carry_Chain, 0, 2, 2),
                    (Short_Circuit, 0, 0, 0)]\<rparr>"

definition case_0763 :: "(nat \<Rightarrow> u32) \<Rightarrow> case_program" where
  "case_0763 junk =
     \<lparr>case_id = 763,
      case_input = [0xcc4bafec, 0x5b216907, 0xee1ec0ca, 0x45b07274, 0x1e51b0b6, 0x0d0be8bd, 0x537c8cc8, 0xd2b34b99,
                    0xbb541168, 0x182d2cf4, 0xf48565f9, 0x00000080, 0x7dec8e8f, 0x00000001, 0x3f99663c, 0x48a59ec5],
      case_kernel = cobs_kernel junk 5,
      reg_inputs = [12, 0, 4, 8], reg5_init = 0x8f57ca63,
      memory_keys = [0x000002fb, 0x000005f6, 0x00000bec, 0x000017d8, 0x00002fb0, 0x00005f60, 0x0000bec0, 0x00017d80],
      case_stmts = [(Multiply_Low, 4, 4, 2), (Carry_Chain, 2, 3, 5), (Sub_Borrow, 3, 2, 3), (Endian_Swap, 2, 3, 5),
                    (Byte_Pack, 0, 2, 2), (Byte_Pack, 2, 2, 5), (Carry_Chain, 5, 2, 1), (Mask_Merge, 0, 2, 3),
                    (Byte_Pack, 5, 1, 2), (Gray_Decode, 5, 5, 5), (Rotate_Mix, 4, 0, 5), (Popcount_Loop, 3, 2, 3)]\<rparr>"

definition case_0764 :: "(nat \<Rightarrow> u32) \<Rightarrow> case_program" where
  "case_0764 junk =
     \<lparr>case_id = 764,
      case_input = [0x0fc54e2a, 0x0f21c3d1, 0xfffffffe, 0xfb9231f9, 0x28bce4fe, 0xf16a4176, 0xedab7a4b, 0xa08a7f2f,
                    0x0629297c, 0x483bbad4, 0x7ee7e4ee, 0xbec76cf3, 0x6bb4bd27, 0x386feada, 0x00000002, 0x5b7be8cf],
      case_kernel = cobs_kernel junk 6,
      reg_inputs = [13, 1, 5, 9], reg5_init = 0x2d8f441c,
      memory_keys = [0x000002fc, 0x000005f8, 0x00000bf0, 0x000017e0, 0x00002fc0, 0x00005f80, 0x0000bf00, 0x00017e00],
      case_stmts = [(Divide_Rem, 4, 3, 4), (Carry_Chain, 2, 2, 1), (Sub_Borrow, 3, 2, 1), (Multiply_Low, 2, 1, 2),
                    (Sub_Borrow, 1, 0, 1), (Divide_Rem, 3, 2, 5), (Multiply_Low, 2, 0, 0), (Sub_Borrow, 3, 1, 1),
                    (Short_Circuit, 0, 2, 3), (Add_Carry, 3, 0, 5), (Short_Circuit, 1, 0, 1), (Array_Scatter, 1, 5, 0)]\<rparr>"

definition case_0765 :: "(nat \<Rightarrow> u32) \<Rightarrow> case_program" where
  "case_0765 junk =
     \<lparr>case_id = 765,
      case_input = [0x4f476e6b, 0x13209696, 0xcb4ae313, 0x5b9b44df, 0x3ee9692b, 0xe2890a75, 0xa450e532, 0x727fb9e3,
                    0xe16e22ad, 0x00000003, 0xe86113c9, 0x66f19f82, 0xb3b27ece, 0xa189f09c, 0x5f1a9889, 0x00000003],
      case_kernel = cobs_kernel junk 7,
      reg_inputs = [14, 2, 6, 10], reg5_init = 0xcbc6bdd5,
      memory_keys = [0x000002fd, 0x000005fa, 0x00000bf4, 0x000017e8, 0x00002fd0, 0x00005fa0, 0x0000bf40, 0x00017e80],
      case_stmts = [(Mask_Merge, 1, 0, 5), (Carry_Chain, 3, 0, 4), (Sub_Borrow, 1, 0, 5), (Carry_Chain, 5, 5, 1),
                    (Counted_Loop, 3, 4, 1), (Reverse_Loop, 5, 0, 2), (Sub_Borrow, 1, 5, 5), (Short_Circuit, 2, 2, 5),
                    (Multiply_Low, 3, 1, 4), (Endian_Swap, 4, 0, 1), (Minmax_Clamp, 5, 4, 2), (Minmax_Clamp, 4, 1, 5)]\<rparr>"

definition case_0766 :: "(nat \<Rightarrow> u32) \<Rightarrow> case_program" where
  "case_0766 junk =
     \<lparr>case_id = 766,
      case_input = [0x7fffffff, 0x3721695e, 0xdde1a05d, 0x0f8b239f, 0xc929538a, 0x23147bf2, 0x544991c8, 0x78dcba69,
                    0x947af721, 0xc65b4748, 0xee677341, 0x63cb92e8, 0xf4bdfa99, 0xe2db4d8c, 0x6b6b9b40, 0x08066687],
      case_kernel = cobs_kernel junk 8,
      reg_inputs = [15, 3, 7, 11], reg5_init = 0x69fe378e,
      memory_keys = [0x000002fe, 0x000005fc, 0x00000bf8, 0x000017f0, 0x00002fe0, 0x00005fc0, 0x0000bf80, 0x00017f00],
      case_stmts = [(Compare_Select, 4, 2, 3), (Carry_Chain, 4, 4, 5), (Sub_Borrow, 1, 3, 4), (Mask_Merge, 4, 5, 2),
                    (Counted_Loop, 1, 3, 5), (Add_Carry, 5, 0, 0), (Popcount_Loop, 1, 1, 2), (Mask_Merge, 4, 1, 4),
                    (Minmax_Clamp, 0, 3, 1), (Horner_Loop, 2, 3, 1), (Rotate_Mix, 3, 4, 3), (Halfword_Swap, 4, 2, 3)]\<rparr>"

definition case_0767 :: "(nat \<Rightarrow> u32) \<Rightarrow> case_program" where
  "case_0767 junk =
     \<lparr>case_id = 767,
      case_input = [0xce432ee9, 0x00000080, 0x2879025b, 0xaf8256b9, 0xdf7cde5f, 0x30f730f1, 0x1db20eb1, 0x00000001,
                    0x733dfcf0, 0x87b4f587, 0x78e18466, 0xbbfd6199, 0x2cbb3970, 0x7b3d57ca, 0xb6d18a79, 0x213697f9],
      case_kernel = cobs_kernel junk 9,
      reg_inputs = [0, 4, 8, 12], reg5_init = 0x0835b147,
      memory_keys = [0x000002ff, 0x000005fe, 0x00000bfc, 0x000017f8, 0x00002ff0, 0x00005fe0, 0x0000bfc0, 0x00017f80],
      case_stmts = [(Byte_Pack, 1, 1, 2), (Carry_Chain, 5, 2, 2), (Sub_Borrow, 5, 1, 0), (Add_Carry, 3, 3, 1),
                    (Endian_Swap, 3, 5, 5), (Rotate_Mix, 3, 0, 3), (Switch_Phi, 4, 2, 3), (Short_Circuit, 5, 0, 0),
                    (Byte_Pack, 1, 2, 4), (Reverse_Loop, 1, 1, 1), (Compare_Select, 5, 4, 2), (Popcount_Loop, 5, 0, 0)]\<rparr>"

definition case_0768 :: "(nat \<Rightarrow> u32) \<Rightarrow> case_program" where
  "case_0768 junk =
     \<lparr>case_id = 768,
      case_input = [0xf204b0aa, 0xc7409a1f, 0x000000ff, 0x3c481575, 0x6ee06bbb, 0x366ea8ff, 0xe985d551, 0x93826cf1,
                    0x7345f01a, 0x4b073839, 0x2d772beb, 0x2e89e23c, 0x742288d3, 0xb58850ba, 0x000000ff, 0x595ab502],
      case_kernel = cobs_kernel junk 10,
      reg_inputs = [1, 5, 9, 13], reg5_init = 0xa66d2b00,
      memory_keys = [0x00000300, 0x00000600, 0x00000c00, 0x00001800, 0x00003000, 0x00006000, 0x0000c000, 0x00018000],
      case_stmts = [(Halfword_Swap, 5, 2, 3), (Carry_Chain, 0, 4, 0), (Sub_Borrow, 2, 5, 4), (Horner_Loop, 5, 4, 0),
                    (Horner_Loop, 5, 4, 1), (Sub_Borrow, 2, 3, 3), (Byte_Pack, 5, 5, 3), (Short_Circuit, 4, 4, 1),
                    (Sub_Borrow, 2, 4, 4), (Carry_Chain, 1, 3, 5), (Counted_Loop, 3, 0, 3), (Byte_Pack, 4, 5, 4)]\<rparr>"

definition case_0769 :: "(nat \<Rightarrow> u32) \<Rightarrow> case_program" where
  "case_0769 junk =
     \<lparr>case_id = 769,
      case_input = [0xb28690eb, 0xdb41cf58, 0x642d6d52, 0x00000100, 0x78b5e66e, 0xffffffff, 0xa07e4a28, 0x4177aa3d,
                    0x9402fbcb, 0x0ae88af6, 0xbbf1dccc, 0xf6bf114d, 0xac244b3a, 0x2c6e4afc, 0x9a035bac, 0x706a447c],
      case_kernel = cobs_kernel junk 11,
      reg_inputs = [2, 6, 10, 14], reg5_init = 0x44a4a4b9,
      memory_keys = [0x00000301, 0x00000602, 0x00000c04, 0x00001808, 0x00003010, 0x00006020, 0x0000c040, 0x00018080],
      case_stmts = [(Array_Scatter, 2, 3, 0), (Carry_Chain, 5, 0, 1), (Sub_Borrow, 0, 5, 0), (Compare_Select, 2, 2, 1),
                    (Add_Carry, 1, 4, 5), (Byte_Pack, 4, 1, 0), (Sub_Borrow, 2, 4, 4), (Popcount_Loop, 5, 5, 3),
                    (Rotate_Mix, 3, 5, 3), (Multiply_Low, 4, 3, 5), (Compare_Select, 3, 0, 0), (Counted_Loop, 5, 1, 5)]\<rparr>"

definition case_0770 :: "(nat \<Rightarrow> u32) \<Rightarrow> case_program" where
  "case_0770 junk =
     \<lparr>case_id = 770,
      case_input = [0x7300f028, 0xff403090, 0x72862e1c, 0xc8510713, 0x7fffffff, 0xe410927b, 0x50673ed2, 0x4bd4a9b7,
                    0xe1162e47, 0xc567c5a5, 0xbdf7bc44, 0xf3851c27, 0x0000007f, 0x6f3cf7ec, 0xae725865, 0x0a273b4a],
      case_kernel = cobs_kernel junk 12,
      reg_inputs = [3, 7, 11, 15], reg5_init = 0xe2dc1e72,
      memory_keys = [0x00000302, 0x00000604, 0x00000c08, 0x00001810, 0x00003020, 0x00006040, 0x0000c080, 0x00018100],
      case_stmts = [(Counted_Loop, 3, 5, 2), (Carry_Chain, 0, 2, 0), (Sub_Borrow, 0, 0, 3), (Sub_Borrow, 1, 2, 4),
                    (Short_Circuit, 5, 3, 1), (Endian_Swap, 4, 3, 0), (Popcount_Loop, 0, 2, 5), (Divide_Rem, 5, 4, 0),
                    (Array_Scatter, 4, 5, 4), (Mask_Merge, 4, 0, 1), (Add_Carry, 3, 2, 1), (Rotate_Mix, 3, 2, 3)]\<rparr>"

definition case_0771 :: "(nat \<Rightarrow> u32) \<Rightarrow> case_program" where
  "case_0771 junk =
     \<lparr>case_id = 771,
      case_input = [0x3382d069, 0xe34165d7, 0x871e8c1a, 0x80000000, 0x9920511a, 0x80000000, 0x199ca1ab, 0x99216f7b,
                    0x06512596, 0x8488776a, 0x2b714b63, 0x2bb3ef56, 0x332d0c84, 0xf6daedaa, 0x73c8495c, 0x2317ca34],
      case_kernel = cobs_kernel junk 13,
      reg_inputs = [4, 8, 12, 0], reg5_init = 0x8113982b,
      memory_keys = [0x00000303, 0x00000606, 0x00000c0c, 0x00001818, 0x00003030, 0x00006060, 0x0000c0c0, 0x00018180],
      case_stmts = [(Switch_Phi, 0, 0, 3), (Carry_Chain, 3, 4, 5), (Sub_Borrow, 2, 4, 3), (Halfword_Swap, 0, 4, 5),
                    (Gray_Decode, 1, 3, 1), (Switch_Phi, 4, 1, 5), (Multiply_Low, 5, 3, 4), (Array_Scatter, 0, 1, 0),
                    (Counted_Loop, 3, 2, 1), (Short_Circuit, 5, 2, 5), (Short_Circuit, 5, 0, 4),
                    (Horner_Loop, 4, 4, 0)]\<rparr>"

definition case_0772 :: "(nat \<Rightarrow> u32) \<Rightarrow> case_program" where
  "case_0772 junk =
     \<lparr>case_id = 772,
      case_input = [0xf00c31af, 0xb741cf01, 0x57d20dc5, 0xd67a31b8, 0xafcd0552, 0x0b9270b3, 0xfffffffe, 0xeb185bcd,
                    0xbb2c1d82, 0xd49ee14a, 0x00000002, 0x2a10c40c, 0x25753f2c, 0x5c78edc5, 0xcef1a6d0, 0x30c9bc3e],
      case_kernel = cobs_kernel junk 14,
      reg_inputs = [5, 9, 13, 1], reg5_init = 0x1f4b11e4,
      memory_keys = [0x00000304, 0x00000608, 0x00000c10, 0x00001820, 0x00003040, 0x00006080, 0x0000c100, 0x00018200],
      case_stmts = [(Short_Circuit, 2, 3, 3), (Carry_Chain, 5, 1, 3), (Sub_Borrow, 0, 4, 5), (Counted_Loop, 2, 4, 0),
                    (Array_Scatter, 0, 3, 4), (Minmax_Clamp, 5, 3, 1), (Rotate_Mix, 0, 1, 5), (Sub_Borrow, 3, 2, 2),
                    (Popcount_Loop, 4, 1, 2), (Switch_Phi, 5, 5, 3), (Counted_Loop, 2, 4, 4), (Byte_Pack, 4, 1, 5)]\<rparr>"

definition case_0773 :: "(nat \<Rightarrow> u32) \<Rightarrow> case_program" where
  "case_0773 junk =
     \<lparr>case_id = 773,
      case_input = [0xb08e11ee, 0x00000100, 0xa24aafc3, 0x7673449e, 0xb9988887, 0x18713bb0, 0xeeb0c851, 0xffffffff,
                    0x5c6b1653, 0x95715385, 0x37953d53, 0xf226377d, 0xfd73fcc5, 0xc59ef783, 0x134bb7e9, 0x19f94d40],
      case_kernel = cobs_kernel junk 15,
      reg_inputs = [6, 10, 14, 2], reg5_init = 0xbd828b9d,
      memory_keys = [0x00000305, 0x0000060a, 0x00000c14, 0x00001828, 0x00003050, 0x000060a0, 0x0000c140, 0x00018280],
      case_stmts = [(Popcount_Loop, 3, 2, 2), (Carry_Chain, 2, 1, 4), (Sub_Borrow, 0, 0, 1), (Horner_Loop, 5, 0, 3),
                    (Counted_Loop, 2, 3, 4), (Counted_Loop, 5, 5, 0), (Add_Carry, 3, 2, 4), (Minmax_Clamp, 2, 5, 2),
                    (Counted_Loop, 5, 0, 1), (Counted_Loop, 2, 5, 1), (Carry_Chain, 0, 4, 5), (Reverse_Loop, 5, 5, 2)]\<rparr>"

definition case_0774 :: "(nat \<Rightarrow> u32) \<Rightarrow> case_program" where
  "case_0774 junk =
     \<lparr>case_id = 774,
      case_input = [0x7108712d, 0x8f41658e, 0xb4e1ec8d, 0x226323de, 0x4e58b226, 0xd9ec4a37, 0x1ea9bcab, 0x334e9e8b,
                    0x00000000, 0x5afe1cd6, 0x31935ddb, 0xf71c3a17, 0xba7c7892, 0x86cc4a93, 0x273ab420, 0x63b43276],
      case_kernel = cobs_kernel junk 4,
      reg_inputs = [7, 11, 15, 3], reg5_init = 0x5bba0556,
      memory_keys = [0x00000306, 0x0000060c, 0x00000c18, 0x00001830, 0x00003060, 0x000060c0, 0x0000c180, 0x00018300],
      case_stmts = [(Reverse_Loop, 0, 2, 0), (Carry_Chain, 3, 1, 1), (Sub_Borrow, 4, 1, 2), (Short_Circuit, 2, 4, 2),
                    (Compare_Select, 0, 0, 2), (Minmax_Clamp, 3, 3, 4), (Short_Circuit, 5, 4, 5),
                    (Popcount_Loop, 0, 2, 3), (Array_Scatter, 0, 0, 0), (Add_Carry, 2, 0, 5), (Divide_Rem, 2, 0, 4),
                    (Carry_Chain, 1, 2, 0)]\<rparr>"

definition case_0775 :: "case_program" where
  "case_0775 =
     \<lparr>case_id = 775,
      case_input = [0x00000000, 0x934030c9, 0x41794e8b, 0x826a56f8, 0x580d3ff3, 0xca0f0134, 0x575223d2, 0xe1bb5847,
                    0xce38c80e, 0x1b11ae19, 0xa715aafc, 0x2f2ac966, 0x627abb7b, 0x1f2a50d5, 0xfa80a519, 0x4a84c308],
      case_kernel = spi_kernel False,
      reg_inputs = [8, 12, 0, 4], reg5_init = 0xf9f17f0f,
      memory_keys = [0x00000307, 0x0000060e, 0x00000c1c, 0x00001838, 0x00003070, 0x000060e0, 0x0000c1c0, 0x00018380],
      case_stmts = [(Gray_Decode, 1, 3, 5), (Carry_Chain, 4, 1, 2), (Sub_Borrow, 4, 1, 0), (Sub_Borrow, 3, 2, 1),
                    (Sub_Borrow, 2, 2, 2), (Reverse_Loop, 1, 5, 1), (Counted_Loop, 0, 3, 0), (Add_Carry, 5, 1, 3),
                    (Rotate_Mix, 1, 3, 5), (Endian_Swap, 3, 2, 3), (Add_Carry, 4, 2, 3), (Byte_Pack, 4, 4, 3)]\<rparr>"

definition case_0776 :: "case_program" where
  "case_0776 =
     \<lparr>case_id = 776,
      case_input = [0xf615b2a0, 0x00000001, 0x1d7a4a77, 0xe82c5cef, 0xeebab668, 0x4d911866, 0xed1e7ce7, 0xc6b9fab2,
                    0x87accbe4, 0x48c9c319, 0x4d258ac2, 0xb9f0f367, 0x3464e994, 0x27fef9a8, 0xcc5f1343, 0x0ab2178e],
      case_kernel = spi_kernel True,
      reg_inputs = [9, 13, 1, 5], reg5_init = 0x9828f8c8,
      memory_keys = [0x00000308, 0x00000610, 0x00000c20, 0x00001840, 0x00003080, 0x00006100, 0x0000c200, 0x00018400],
      case_stmts = [(Minmax_Clamp, 3, 1, 4), (Carry_Chain, 5, 0, 0), (Sub_Borrow, 4, 2, 4), (Popcount_Loop, 3, 0, 0),
                    (Byte_Pack, 3, 3, 0), (Rotate_Mix, 1, 2, 0), (Sub_Borrow, 5, 1, 4), (Switch_Phi, 0, 2, 4),
                    (Minmax_Clamp, 4, 1, 0), (Minmax_Clamp, 0, 3, 1), (Popcount_Loop, 3, 3, 5),
                    (Array_Scatter, 0, 3, 2)]\<rparr>"

definition case_0777 :: "case_program" where
  "case_0777 =
     \<lparr>case_id = 777,
      case_input = [0xb69792e1, 0x3b436564, 0x00000002, 0x482529c9, 0xf8ef3bbd, 0x5e725365, 0xa4e5e39e, 0x144c3c7e,
                    0x60ebc035, 0x092671d6, 0xdba37de5, 0x61c60016, 0xec622a7d, 0xbe18e3ee, 0x11e5027a, 0x2382e6f0],
      case_kernel = spi_kernel False,
      reg_inputs = [10, 14, 2, 6], reg5_init = 0x36607281,
      memory_keys = [0x00000309, 0x00000612, 0x00000c24, 0x00001848, 0x00003090, 0x00006120, 0x0000c240, 0x00018480],
      case_stmts = [(Endian_Swap, 0, 2, 1), (Carry_Chain, 0, 0, 5), (Sub_Borrow, 4, 4, 4), (Add_Carry, 0, 4, 1),
                    (Add_Carry, 5, 5, 2), (Halfword_Swap, 1, 2, 5), (Multiply_Low, 4, 0, 1), (Carry_Chain, 3, 3, 2),
                    (Horner_Loop, 3, 2, 5), (Sub_Borrow, 5, 5, 1), (Endian_Swap, 3, 3, 4), (Short_Circuit, 5, 3, 5)]\<rparr>"

definition case_0778 :: "case_program" where
  "case_0778 =
     \<lparr>case_id = 778,
      case_input = [0x7711f222, 0x1f429aac, 0xfe49ab3f, 0x00000003, 0x0f2f011c, 0x9fef22e2, 0x54fc9764, 0x1eef3ff4,
                    0x15ff15b9, 0xc6a93e85, 0xdda51d6d, 0x64fc0d7c, 0xab6dae2a, 0xfd4a5efe, 0x259401b3, 0x59cf99c6],
      case_kernel = spi_kernel True,
      reg_inputs = [11, 15, 3, 7], reg5_init = 0xd497ec3a,
      memory_keys = [0x0000030a, 0x00000614, 0x00000c28, 0x00001850, 0x000030a0, 0x00006140, 0x0000c280, 0x00018500],
      case_stmts = [(Carry_Chain, 1, 0, 1), (Carry_Chain, 1, 4, 0), (Sub_Borrow, 2, 1, 5), (Horner_Loop, 5, 4, 0),
                    (Add_Carry, 3, 4, 0), (Carry_Chain, 3, 2, 5), (Byte_Pack, 0, 2, 4), (Byte_Pack, 1, 2, 3),
                    (Add_Carry, 0, 2, 2), (Gray_Decode, 5, 2, 1), (Horner_Loop, 5, 5, 1), (Add_Carry, 3, 0, 1)]\<rparr>"

definition case_0779 :: "case_program" where
  "case_0779 =
     \<lparr>case_id = 779,
      case_input = [0x3793d263, 0x0343cfeb, 0x0bd10939, 0xbc3c3baf, 0x0000007f, 0x8c0c69e1, 0x1d07081d, 0xcc1af938,
                    0xf2b81e68, 0x87468c4a, 0x4b23ea4a, 0xbccafe0d, 0x736b6dc3, 0x64ac44b8, 0xf82e108a, 0x70ff68b8],
      case_kernel = spi_kernel False,
      reg_inputs = [12, 0, 4, 8], reg5_init = 0x72cf65f3,
      memory_keys = [0x0000030b, 0x00000616, 0x00000c2c, 0x00001858, 0x000030b0, 0x00006160, 0x0000c2c0, 0x00018580],
      case_stmts = [(Horner_Loop, 2, 1, 0), (Carry_Chain, 2, 0, 5), (Sub_Borrow, 4, 3, 1), (Compare_Select, 2, 2, 5),
                    (Switch_Phi, 5, 4, 4), (Short_Circuit, 1, 4, 2), (Array_Scatter, 5, 1, 1), (Carry_Chain, 4, 1, 5),
                    (Multiply_Low, 5, 5, 3), (Compare_Select, 4, 0, 1), (Byte_Pack, 1, 5, 0), (Array_Scatter, 4, 4, 4)]\<rparr>"

definition case_0780 :: "case_program" where
  "case_0780 =
     \<lparr>case_id = 780,
      case_input = [0xf41d33a5, 0x5743653d, 0xdb1d88e6, 0x021e7822, 0x2f97d881, 0x00000080, 0xa3d0fe9e, 0xbe23cd8e,
                    0x4fc5267c, 0xd7501a6a, 0xc1416b5d, 0xbd69d557, 0x65335e6b, 0xce0e44d7, 0x4517ff06, 0x63211eb2],
      case_kernel = spi_kernel True,
      reg_inputs = [13, 1, 5, 9], reg5_init = 0x1106dfac,
      memory_keys = [0x0000030c, 0x00000618, 0x00000c30, 0x00001860, 0x000030c0, 0x00006180, 0x0000c300, 0x00018600],
      case_stmts = [(Add_Carry, 2, 0, 0), (Horner_Loop, 2, 3, 5), (Sub_Borrow, 0, 1, 3), (Divide_Rem, 0, 0, 4),
                    (Array_Scatter, 4, 0, 5), (Gray_Decode, 4, 4, 2), (Halfword_Swap, 4, 1, 0),
                    (Compare_Select, 1, 4, 1), (Short_Circuit, 0, 0, 0), (Array_Scatter, 0, 3, 5),
                    (Array_Scatter, 2, 1, 4), (Array_Scatter, 0, 3, 3)]\<rparr>"

definition case_0781 :: "case_program" where
  "case_0781 =
     \<lparr>case_id = 781,
      case_input = [0xb49f13e4, 0x4b42307a, 0x2e852ae0, 0xa2170d04, 0x39c25554, 0x638e8b29, 0x000000ff, 0x6cd60b42,
                    0xa8822dad, 0x96bfa8a5, 0x57c79c7a, 0x655f2626, 0xbd359d82, 0x57e85e91, 0x98adee3f, 0x4a11efcc],
      case_kernel = spi_kernel False,
      reg_inputs = [14, 2, 6, 10], reg5_init = 0xaf3e5965,
      memory_keys = [0x0000030d, 0x0000061a, 0x00000c34, 0x00001868, 0x000030d0, 0x000061a0, 0x0000c340, 0x00018680],
      case_stmts = [(Sub_Borrow, 1, 5, 3), (Horner_Loop, 5, 5, 2), (Sub_Borrow, 2, 5, 3), (Popcount_Loop, 5, 4, 5),
                    (Carry_Chain, 0, 0, 1), (Mask_Merge, 4, 0, 3), (Compare_Select, 3, 0, 5), (Switch_Phi, 4, 5, 1),
                    (Switch_Phi, 1, 5, 1), (Short_Circuit, 3, 1, 5), (Array_Scatter, 0, 3, 5),
                    (Halfword_Swap, 5, 3, 0)]\<rparr>"

definition case_0782 :: "case_program" where
  "case_0782 =
     \<lparr>case_id = 782,
      case_input = [0x75197327, 0x6f43cfb2, 0x382e69ae, 0xf6076a44, 0xce026ff5, 0xa213faae, 0x1a32151d, 0x00000100,
                    0xdd96f821, 0x5930e7f6, 0x51c1fcf2, 0x60652b4c, 0xfa3a19d5, 0x14bae381, 0xacdcedf6, 0x305c90fa],
      case_kernel = spi_kernel True,
      reg_inputs = [15, 3, 7, 11], reg5_init = 0x4d75d31e,
      memory_keys = [0x0000030e, 0x0000061c, 0x00000c38, 0x00001870, 0x000030e0, 0x000061c0, 0x0000c380, 0x00018700],
      case_stmts = [(Rotate_Mix, 2, 1, 3), (Horner_Loop, 0, 5, 3), (Sub_Borrow, 4, 0, 2), (Counted_Loop, 2, 2, 2),
                    (Rotate_Mix, 4, 5, 5), (Horner_Loop, 4, 0, 3), (Compare_Select, 3, 0, 2), (Counted_Loop, 2, 2, 2),
                    (Add_Carry, 0, 5, 2), (Carry_Chain, 5, 0, 5), (Multiply_Low, 2, 1, 0), (Minmax_Clamp, 5, 4, 2)]\<rparr>"

definition case_0783 :: "case_program" where
  "case_0783 =
     \<lparr>case_id = 783,
      case_input = [0x359b5366, 0x73429af5, 0xcdb6cba8, 0x560e1f62, 0xd857e220, 0xb1f0b1ad, 0x53c98a64, 0xb480ce04,
                    0x7fffffff, 0x18df5539, 0xc7470bd5, 0xb853d83d, 0x223cda3c, 0x8d5cf9c7, 0x7166fccf, 0x196c6184],
      case_kernel = spi_kernel False,
      reg_inputs = [0, 4, 8, 12], reg5_init = 0xebad4cd7,
      memory_keys = [0x0000030f, 0x0000061e, 0x00000c3c, 0x00001878, 0x000030f0, 0x000061e0, 0x0000c3c0, 0x00018780],
      case_stmts = [(Multiply_Low, 5, 0, 0), (Horner_Loop, 1, 3, 0), (Sub_Borrow, 2, 4, 2), (Horner_Loop, 3, 4, 1),
                    (Array_Scatter, 2, 1, 1), (Popcount_Loop, 4, 4, 0), (Divide_Rem, 2, 5, 5), (Byte_Pack, 3, 1, 0),
                    (Byte_Pack, 1, 4, 3), (Byte_Pack, 2, 2, 1), (Byte_Pack, 4, 3, 5), (Popcount_Loop, 4, 0, 5)]\<rparr>"

definition case_0784 :: "case_program" where
  "case_0784 =
     \<lparr>case_id = 784,
      case_input = [0xfa26b4be, 0x0745ce67, 0x8a2ac512, 0x96868640, 0xf5557d58, 0xfc9e9cb2, 0xbb81338d, 0xc53b1144,
                    0x23cde1bc, 0x80000000, 0x87d11da6, 0xbfbe544c, 0x5c0b28b6, 0xe48010e8, 0x0b830417, 0xdb73556e],
      case_kernel = spi_kernel True,
      reg_inputs = [1, 5, 9, 13], reg5_init = 0x89e4c690,
      memory_keys = [0x00000310, 0x00000620, 0x00000c40, 0x00001880, 0x00003100, 0x00006200, 0x0000c400, 0x00018800],
      case_stmts = [(Divide_Rem, 2, 1, 3), (Horner_Loop, 5, 2, 2), (Sub_Borrow, 2, 3, 5), (Multiply_Low, 0, 5, 0),
                    (Multiply_Low, 1, 3, 3), (Horner_Loop, 3, 1, 5), (Rotate_Mix, 5, 5, 5), (Gray_Decode, 3, 2, 5),
                    (Halfword_Swap, 2, 1, 0), (Counted_Loop, 4, 0, 2), (Gray_Decode, 4, 0, 2), (Sub_Borrow, 2, 4, 1)]\<rparr>"

definition case_0785 :: "case_program" where
  "case_0785 =
     \<lparr>case_id = 785,
      case_input = [0xbaa494ff, 0x1b449b20, 0x7fb26714, 0x368ff366, 0xe300f08d, 0xef7dd7b1, 0xf27aacf4, 0x17ced788,
                    0xc48aea6d, 0x7355f267, 0xfffffffe, 0x6788a73d, 0x840deb5f, 0x7d660aae, 0xd639152e, 0xf243a410],
      case_kernel = spi_kernel False,
      reg_inputs = [2, 6, 10, 14], reg5_init = 0x281c4049,
      memory_keys = [0x00000311, 0x00000622, 0x00000c44, 0x00001888, 0x00003110, 0x00006220, 0x0000c440, 0x00018880],
      case_stmts = [(Mask_Merge, 5, 4, 4), (Horner_Loop, 0, 0, 5), (Sub_Borrow, 4, 1, 3), (Reverse_Loop, 1, 5, 1),
                    (Divide_Rem, 5, 3, 5), (Endian_Swap, 5, 1, 2), (Divide_Rem, 2, 2, 0), (Reverse_Loop, 2, 3, 1),
                    (Byte_Pack, 5, 0, 5), (Gray_Decode, 5, 2, 4), (Byte_Pack, 0, 4, 5), (Short_Circuit, 3, 2, 0)]\<rparr>"

definition case_0786 :: "case_program" where
  "case_0786 =
     \<lparr>case_id = 786,
      case_input = [0x7b22f43c, 0x3f4564e8, 0x6919245a, 0x629f9426, 0x14c0ca2c, 0x2ee0a636, 0x0263d80e, 0x1d6dd402,
                    0xb19e3fe1, 0xbcdabd34, 0x17518a09, 0xffffffff, 0xc3026f08, 0x3e34b7be, 0xe24816e7, 0x880edb26],
      case_kernel = spi_kernel True,
      reg_inputs = [3, 7, 11, 15], reg5_init = 0xc653ba02,
      memory_keys = [0x00000312, 0x00000624, 0x00000c48, 0x00001890, 0x00003120, 0x00006240, 0x0000c480, 0x00018900],
      case_stmts = [(Compare_Select, 0, 2, 4), (Horner_Loop, 1, 4, 2), (Sub_Borrow, 4, 4, 0), (Mask_Merge, 4, 1, 2),
                    (Short_Circuit, 5, 0, 5), (Gray_Decode, 5, 5, 0), (Divide_Rem, 4, 0, 5), (Gray_Decode, 4, 4, 2),
                    (Short_Circuit, 2, 0, 2), (Endian_Swap, 3, 3, 4), (Array_Scatter, 2, 2, 2), (Divide_Rem, 1, 1, 0)]\<rparr>"

definition case_0787 :: "case_program" where
  "case_0787 =
     \<lparr>case_id = 787,
      case_input = [0x3ba0d47d, 0x234431af, 0x9c81865c, 0xc296e100, 0x00000000, 0x3d03ed35, 0x4b984777, 0xcf9812ce,
                    0x56d93430, 0xfd350ffb, 0x81d77d2e, 0xba845926, 0x00000000, 0xa7d2adf8, 0x3ff207de, 0xa13e2a58],
      case_kernel = spi_kernel False,
      reg_inputs = [4, 8, 12, 0], reg5_init = 0x648b33bb,
      memory_keys = [0x00000313, 0x00000626, 0x00000c4c, 0x00001898, 0x00003130, 0x00006260, 0x0000c4c0, 0x00018980],
      case_stmts = [(Byte_Pack, 5, 1, 1), (Horner_Loop, 4, 2, 3), (Sub_Borrow, 2, 4, 0), (Minmax_Clamp, 1, 3, 1),
                    (Gray_Decode, 3, 4, 1), (Popcount_Loop, 1, 5, 3), (Rotate_Mix, 5, 5, 2), (Rotate_Mix, 5, 5, 2),
                    (Byte_Pack, 5, 3, 3), (Divide_Rem, 4, 1, 0), (Mask_Merge, 2, 0, 5), (Array_Scatter, 4, 3, 5)]\<rparr>"

definition case_0788 :: "case_program" where
  "case_0788 =
     \<lparr>case_id = 788,
      case_input = [0xf82e35bb, 0x77449b79, 0x4c4d0783, 0x7cb4a28d, 0x347813b1, 0xc16244fe, 0xf54fb1f4, 0xbda12678,
                    0xeba40c24, 0xad2399db, 0x0bb5fc39, 0x00000080, 0x0d5c9f49, 0x00000001, 0x82cbe852, 0xb2e05c52],
      case_kernel = spi_kernel True,
      reg_inputs = [5, 9, 13, 1], reg5_init = 0x02c2ad74,
      memory_keys = [0x00000314, 0x00000628, 0x00000c50, 0x000018a0, 0x00003140, 0x00006280, 0x0000c500, 0x00018a00],
      case_stmts = [(Halfword_Swap, 3, 2, 5), (Horner_Loop, 0, 1, 5), (Sub_Borrow, 0, 2, 2), (Rotate_Mix, 5, 5, 2),
                    (Endian_Swap, 4, 2, 0), (Counted_Loop, 4, 3, 5), (Horner_Loop, 4, 5, 1), (Compare_Select, 2, 4, 0),
                    (Divide_Rem, 0, 4, 2), (Multiply_Low, 4, 2, 2), (Byte_Pack, 1, 0, 5), (Popcount_Loop, 4, 0, 0)]\<rparr>"

definition case_0789 :: "case_program" where
  "case_0789 =
     \<lparr>case_id = 789,
      case_input = [0xb8ac15fa, 0x6b45ce3e, 0xfffffffe, 0xdcbdd7ab, 0x222d9e64, 0xd2810ffd, 0xbcb42e8d, 0x6f54e0b4,
                    0x0ce307f5, 0xeccc2b14, 0x9d330b1e, 0x6311810d, 0xd55a5ca0, 0x9496b7d1, 0x00000002, 0x9bd0ad2c],
      case_kernel = spi_kernel False,
      reg_inputs = [6, 10, 14, 2], reg5_init = 0xa0fa272d,
      memory_keys = [0x00000315, 0x0000062a, 0x00000c54, 0x000018a8, 0x00003150, 0x000062a0, 0x0000c540, 0x00018a80],
      case_stmts = [(Array_Scatter, 4, 5, 4), (Horner_Loop, 5, 1, 4), (Sub_Borrow, 0, 2, 2), (Gray_Decode, 0, 3, 5),
                    (Rotate_Mix, 2, 4, 2), (Halfword_Swap, 2, 1, 0), (Array_Scatter, 1, 0, 0), (Horner_Loop, 3, 3, 2),
                    (Horner_Loop, 5, 5, 3), (Carry_Chain, 1, 0, 0), (Switch_Phi, 3, 0, 2), (Short_Circuit, 3, 2, 3)]\<rparr>"

definition case_0790 :: "case_program" where
  "case_0790 =
     \<lparr>case_id = 790,
      case_input = [0x792a7539, 0x4f4431f6, 0xaf7ee6cb, 0x88adb0eb, 0xd5eda4c5, 0x131c7e7a, 0x4cad5a77, 0x65f7e33e,
                    0x79f7d279, 0x00000003, 0x9b356b96, 0x662b8c67, 0x9255d8f7, 0xd7c40ac1, 0x6b00faa2, 0x00000003],
      case_kernel = spi_kernel True,
      reg_inputs = [7, 11, 15, 3], reg5_init = 0x3f31a0e6,
      memory_keys = [0x00000316, 0x0000062c, 0x00000c58, 0x000018b0, 0x00003160, 0x000062c0, 0x0000c580, 0x00018b00],
      case_stmts = [(Counted_Loop, 1, 5, 2), (Horner_Loop, 2, 5, 5), (Sub_Borrow, 2, 1, 5), (Divide_Rem, 3, 5, 2),
                    (Carry_Chain, 2, 3, 0), (Rotate_Mix, 2, 3, 2), (Array_Scatter, 3, 4, 3), (Rotate_Mix, 5, 4, 3),
                    (Add_Carry, 0, 1, 4), (Short_Circuit, 1, 3, 0), (Sub_Borrow, 5, 2, 3), (Short_Circuit, 5, 5, 5)]\<rparr>"

definition case_0791 :: "case_program" where
  "case_0791 =
     \<lparr>case_id = 791,
      case_input = [0x7fffffff, 0x534564b1, 0x5ae644cd, 0x28a4c5cd, 0xc3b82910, 0x00ff3579, 0x0556c50e, 0xb70225f2,
                    0x9eb0d9a8, 0x62acd688, 0x0db39cb1, 0xbe1d7f16, 0x4a531b1e, 0x4e221087, 0xb6baeb9b, 0xc8ad2364],
      case_kernel = spi_kernel False,
      reg_inputs = [8, 12, 0, 4], reg5_init = 0xdd691a9f,
      memory_keys = [0x00000317, 0x0000062e, 0x00000c5c, 0x000018b8, 0x00003170, 0x000062e0, 0x0000c5c0, 0x00018b80],
      case_stmts = [(Switch_Phi, 0, 4, 1), (Horner_Loop, 5, 1, 0), (Sub_Borrow, 2, 1, 5), (Endian_Swap, 2, 3, 5),
                    (Endian_Swap, 4, 5, 4), (Minmax_Clamp, 4, 1, 1), (Switch_Phi, 0, 5, 0), (Gray_Decode, 0, 5, 5),
                    (Switch_Phi, 5, 4, 5), (Mask_Merge, 2, 3, 2), (Endian_Swap, 3, 0, 0), (Popcount_Loop, 4, 3, 4)]\<rparr>"

definition case_0792 :: "case_program" where
  "case_0792 =
     \<lparr>case_id = 792,
      case_input = [0xfe37b6b4, 0x00000080, 0x06e54031, 0x42e2cfda, 0x750fa08b, 0x87612c2b, 0xbf1a9a3b, 0x00000001,
                    0xd724da42, 0x3174bb88, 0xe783bc8f, 0x28c74517, 0x1c4d49f1, 0x76f6b9fa, 0x80655dc1, 0x889bf7e2],
      case_kernel = spi_kernel True,
      reg_inputs = [9, 13, 1, 5], reg5_init = 0x7ba09458,
      memory_keys = [0x00000318, 0x00000630, 0x00000c60, 0x000018c0, 0x00003180, 0x00006300, 0x0000c600, 0x00018c00],
      case_stmts = [(Short_Circuit, 0, 4, 0), (Horner_Loop, 4, 2, 4), (Sub_Borrow, 0, 4, 3), (Endian_Swap, 0, 1, 4),
                    (Gray_Decode, 1, 0, 2), (Halfword_Swap, 4, 2, 2), (Add_Carry, 5, 3, 0), (Add_Carry, 1, 2, 0),
                    (Endian_Swap, 0, 2, 2), (Divide_Rem, 5, 0, 4), (Divide_Rem, 0, 5, 2), (Gray_Decode, 4, 2, 1)]\<rparr>"

definition case_0793 :: "case_program" where
  "case_0793 =
     \<lparr>case_id = 793,
      case_input = [0xbeb596f5, 0xfb46311c, 0x000000ff, 0xe2ebbafc, 0x635a2d5e, 0x94826728, 0xf6e10542, 0x42f541cb,
                    0x3063d193, 0x709b0947, 0x71054ba8, 0xf0f1b666, 0xc44b8a18, 0xef10a3bc, 0x000000ff, 0xa1ab069c],
      case_kernel = spi_kernel False,
      reg_inputs = [10, 14, 2, 6], reg5_init = 0x19d80e11,
      memory_keys = [0x00000319, 0x00000632, 0x00000c64, 0x000018c8, 0x00003190, 0x00006320, 0x0000c640, 0x00018c80],
      case_stmts = [(Popcount_Loop, 1, 5, 3), (Horner_Loop, 1, 0, 3), (Sub_Borrow, 4, 0, 1), (Halfword_Swap, 5, 1, 3),
                    (Halfword_Swap, 3, 2, 4), (Counted_Loop, 2, 2, 3), (Compare_Select, 4, 0, 3),
                    (Popcount_Loop, 4, 1, 4), (Rotate_Mix, 3, 5, 1), (Popcount_Loop, 4, 4, 2), (Halfword_Swap, 2, 3, 3),
                    (Counted_Loop, 1, 2, 4)]\<rparr>"

definition case_0794 :: "case_program" where
  "case_0794 =
     \<lparr>case_id = 794,
      case_input = [0x7f33f636, 0xdf47ced4, 0xe5d6a179, 0x00000100, 0x949a17ff, 0xffffffff, 0x06f871b8, 0x48564241,
                    0x4577041f, 0xbf144614, 0x77032b20, 0xf5cbbb0c, 0x83440e4f, 0xac421eac, 0x69ae4f31, 0xdbe679aa],
      case_kernel = spi_kernel True,
      reg_inputs = [11, 15, 3, 7], reg5_init = 0xb80f87ca,
      memory_keys = [0x0000031a, 0x00000634, 0x00000c68, 0x000018d0, 0x000031a0, 0x00006340, 0x0000c680, 0x00018d00],
      case_stmts = [(Reverse_Loop, 4, 1, 3), (Horner_Loop, 0, 2, 0), (Sub_Borrow, 0, 5, 0), (Multiply_Low, 4, 3, 4),
                    (Short_Circuit, 5, 3, 2), (Halfword_Swap, 2, 2, 5), (Reverse_Loop, 2, 0, 2),
                    (Short_Circuit, 0, 4, 3), (Sub_Borrow, 0, 1, 4), (Switch_Phi, 0, 3, 2), (Counted_Loop, 2, 3, 2),
                    (Carry_Chain, 5, 1, 4)]\<rparr>"

definition case_0795 :: "case_program" where
  "case_0795 =
     \<lparr>case_id = 795,
      case_input = [0x3fb1d677, 0xc3469b93, 0x104e037f, 0x16f2a89a, 0x7fffffff, 0x46fc5dac, 0x4f03eec1, 0x9aa3848d,
                    0xa2300fce, 0xfefbf4db, 0xe185dc07, 0x2dfd487d, 0x0000007f, 0x35a404ea, 0xb4145e08, 0xf2d688d4],
      case_kernel = spi_kernel False,
      reg_inputs = [12, 0, 4, 8], reg5_init = 0x56470183,
      memory_keys = [0x0000031b, 0x00000636, 0x00000c6c, 0x000018d8, 0x000031b0, 0x00006360, 0x0000c6c0, 0x00018d80],
      case_stmts = [(Gray_Decode, 3, 2, 2), (Horner_Loop, 1, 4, 5), (Sub_Borrow, 0, 3, 2), (Reverse_Loop, 5, 5, 1),
                    (Multiply_Low, 5, 5, 4), (Counted_Loop, 4, 2, 2), (Minmax_Clamp, 1, 1, 3), (Sub_Borrow, 3, 3, 1),
                    (Counted_Loop, 5, 4, 3), (Counted_Loop, 1, 1, 2), (Reverse_Loop, 0, 1, 3), (Horner_Loop, 2, 5, 3)]\<rparr>"

definition case_0796 :: "case_program" where
  "case_0796 =
     \<lparr>case_id = 796,
      case_input = [0xfc3f37b1, 0x97463145, 0xc08282a0, 0x80000000, 0xb422ce62, 0x80000000, 0xf1d41842, 0xe89ab03b,
                    0x1f4d37da, 0xaeed62fb, 0x6be75d10, 0x2c5e6327, 0x4d1afe0e, 0x9f060485, 0x092db184, 0xe108fede],
      case_kernel = spi_kernel True,
      reg_inputs = [13, 1, 5, 9], reg5_init = 0xf47e7b3c,
      memory_keys = [0x0000031c, 0x00000638, 0x00000c70, 0x000018e0, 0x000031c0, 0x00006380, 0x0000c700, 0x00018e00],
      case_stmts = [(Minmax_Clamp, 5, 5, 0), (Horner_Loop, 3, 1, 1), (Sub_Borrow, 0, 5, 2), (Minmax_Clamp, 3, 5, 4),
                    (Array_Scatter, 0, 1, 5), (Mask_Merge, 3, 0, 2), (Sub_Borrow, 0, 3, 4), (Endian_Swap, 0, 0, 5),
                    (Endian_Swap, 2, 3, 4), (Sub_Borrow, 1, 0, 4), (Divide_Rem, 3, 5, 1), (Multiply_Low, 2, 4, 2)]\<rparr>"

definition case_0797 :: "case_program" where
  "case_0797 =
     \<lparr>case_id = 797,
      case_input = [0xbcbd17f0, 0x8b476402, 0x351a20a6, 0x08d99e31, 0xa27743b7, 0xa97ebf64, 0xfffffffe, 0x3a6f76f7,
                    0xf80a3c0b, 0xef02d034, 0x00000002, 0xf4689056, 0x951c3de7, 0x06e01ec3, 0xd497a0bd, 0xc8380fa0],
      case_kernel = spi_kernel False,
      reg_inputs = [14, 2, 6, 10], reg5_init = 0x92b5f4f5,
      memory_keys = [0x0000031d, 0x0000063a, 0x00000c74, 0x000018e8, 0x000031d0, 0x000063a0, 0x0000c740, 0x00018e80],
      case_stmts = [(Endian_Swap, 2, 0, 3), (Horner_Loop, 2, 3, 4), (Sub_Borrow, 0, 1, 0), (Array_Scatter, 0, 5, 5),
                    (Rotate_Mix, 4, 1, 5), (Multiply_Low, 3, 0, 1), (Multiply_Low, 1, 0, 3), (Divide_Rem, 5, 3, 3),
                    (Carry_Chain, 3, 0, 5), (Minmax_Clamp, 0, 0, 2), (Short_Circuit, 5, 1, 4), (Counted_Loop, 1, 2, 3)]\<rparr>"

definition case_0798 :: "case_program" where
  "case_0798 =
     \<lparr>case_id = 798,
      case_input = [0x7d3b7733, 0x00000100, 0x23b163e8, 0x5cc9f971, 0x55b77916, 0x68e3cee3, 0x4836f3c1, 0xffffffff,
                    0x8d1ee987, 0x208d9f67, 0xfb67cabf, 0xf1529d3c, 0xd213b9b0, 0x45b2a3d3, 0xe0e6a374, 0xb2757096],
      case_kernel = spi_kernel True,
      reg_inputs = [15, 3, 7, 11], reg5_init = 0x30ed6eae,
      memory_keys = [0x0000031e, 0x0000063c, 0x00000c78, 0x000018f0, 0x000031e0, 0x000063c0, 0x0000c780, 0x00018f00],
      case_stmts = [(Carry_Chain, 3, 4, 3), (Horner_Loop, 1, 5, 1), (Sub_Borrow, 2, 0, 1), (Rotate_Mix, 5, 1, 0),
                    (Carry_Chain, 0, 4, 3), (Endian_Swap, 3, 0, 5), (Byte_Pack, 3, 4, 4), (Endian_Swap, 5, 0, 2),
                    (Popcount_Loop, 2, 2, 0), (Rotate_Mix, 4, 5, 4), (Rotate_Mix, 5, 5, 3), (Rotate_Mix, 1, 1, 3)]\<rparr>"

definition case_0799 :: "case_program" where
  "case_0799 =
     \<lparr>case_id = 799,
      case_input = [0x3db95772, 0xb347ce8d, 0xd629c1ee, 0xfcc08c57, 0x43e2f4c3, 0x7b0085e0, 0x01cd6cb8, 0xe239b3b1,
                    0x00000000, 0x61622da8, 0x6de13d98, 0x29646e4d, 0x0a157a59, 0xdc54b995, 0x3d5cb24d, 0x9b4581e8],
      case_kernel = spi_kernel False,
      reg_inputs = [0, 4, 8, 12], reg5_init = 0xcf24e867,
      memory_keys = [0x0000031f, 0x0000063e, 0x00000c7c, 0x000018f8, 0x000031f0, 0x000063e0, 0x0000c7c0, 0x00018f80],
      case_stmts = [(Horner_Loop, 2, 1, 4), (Horner_Loop, 4, 5, 4), (Sub_Borrow, 2, 0, 1), (Gray_Decode, 0, 1, 1),
                    (Array_Scatter, 4, 4, 5), (Switch_Phi, 5, 0, 2), (Mask_Merge, 2, 5, 3), (Short_Circuit, 0, 1, 2),
                    (Rotate_Mix, 5, 3, 5), (Horner_Loop, 1, 3, 2), (Counted_Loop, 5, 5, 0), (Byte_Pack, 2, 3, 4)]\<rparr>"

lemma conforms_0700: "conforms case_0700 (debounce_prediction 4 2)"
  by (rule conformsI) (simp_all add: case_0700_def upt_rec stmt_ok_def debounce_predicted [where threshold = 2, simplified])

lemma conforms_0701: "conforms case_0701 (debounce_prediction 5 3)"
  by (rule conformsI) (simp_all add: case_0701_def upt_rec stmt_ok_def debounce_predicted [where threshold = 3, simplified])

lemma conforms_0702: "conforms case_0702 (debounce_prediction 6 4)"
  by (rule conformsI) (simp_all add: case_0702_def upt_rec stmt_ok_def debounce_predicted [where threshold = 4, simplified])

lemma conforms_0703: "conforms case_0703 (debounce_prediction 7 5)"
  by (rule conformsI) (simp_all add: case_0703_def upt_rec stmt_ok_def debounce_predicted [where threshold = 5, simplified])

lemma conforms_0704: "conforms case_0704 (debounce_prediction 8 2)"
  by (rule conformsI) (simp_all add: case_0704_def upt_rec stmt_ok_def debounce_predicted [where threshold = 2, simplified])

lemma conforms_0705: "conforms case_0705 (debounce_prediction 9 3)"
  by (rule conformsI) (simp_all add: case_0705_def upt_rec stmt_ok_def debounce_predicted [where threshold = 3, simplified])

lemma conforms_0706: "conforms case_0706 (debounce_prediction 10 4)"
  by (rule conformsI) (simp_all add: case_0706_def upt_rec stmt_ok_def debounce_predicted [where threshold = 4, simplified])

lemma conforms_0707: "conforms case_0707 (debounce_prediction 11 5)"
  by (rule conformsI) (simp_all add: case_0707_def upt_rec stmt_ok_def debounce_predicted [where threshold = 5, simplified])

lemma conforms_0708: "conforms case_0708 (debounce_prediction 12 2)"
  by (rule conformsI) (simp_all add: case_0708_def upt_rec stmt_ok_def debounce_predicted [where threshold = 2, simplified])

lemma conforms_0709: "conforms case_0709 (debounce_prediction 13 3)"
  by (rule conformsI) (simp_all add: case_0709_def upt_rec stmt_ok_def debounce_predicted [where threshold = 3, simplified])

lemma conforms_0710: "conforms case_0710 (debounce_prediction 14 4)"
  by (rule conformsI) (simp_all add: case_0710_def upt_rec stmt_ok_def debounce_predicted [where threshold = 4, simplified])

lemma conforms_0711: "conforms case_0711 (debounce_prediction 15 5)"
  by (rule conformsI) (simp_all add: case_0711_def upt_rec stmt_ok_def debounce_predicted [where threshold = 5, simplified])

lemma conforms_0712: "conforms case_0712 (debounce_prediction 4 2)"
  by (rule conformsI) (simp_all add: case_0712_def upt_rec stmt_ok_def debounce_predicted [where threshold = 2, simplified])

lemma conforms_0713: "conforms case_0713 (debounce_prediction 5 3)"
  by (rule conformsI) (simp_all add: case_0713_def upt_rec stmt_ok_def debounce_predicted [where threshold = 3, simplified])

lemma conforms_0714: "conforms case_0714 (debounce_prediction 6 4)"
  by (rule conformsI) (simp_all add: case_0714_def upt_rec stmt_ok_def debounce_predicted [where threshold = 4, simplified])

lemma conforms_0715: "conforms case_0715 (debounce_prediction 7 5)"
  by (rule conformsI) (simp_all add: case_0715_def upt_rec stmt_ok_def debounce_predicted [where threshold = 5, simplified])

lemma conforms_0716: "conforms case_0716 (debounce_prediction 8 2)"
  by (rule conformsI) (simp_all add: case_0716_def upt_rec stmt_ok_def debounce_predicted [where threshold = 2, simplified])

lemma conforms_0717: "conforms case_0717 (debounce_prediction 9 3)"
  by (rule conformsI) (simp_all add: case_0717_def upt_rec stmt_ok_def debounce_predicted [where threshold = 3, simplified])

lemma conforms_0718: "conforms case_0718 (debounce_prediction 10 4)"
  by (rule conformsI) (simp_all add: case_0718_def upt_rec stmt_ok_def debounce_predicted [where threshold = 4, simplified])

lemma conforms_0719: "conforms case_0719 (debounce_prediction 11 5)"
  by (rule conformsI) (simp_all add: case_0719_def upt_rec stmt_ok_def debounce_predicted [where threshold = 5, simplified])

lemma conforms_0720: "conforms case_0720 (debounce_prediction 12 2)"
  by (rule conformsI) (simp_all add: case_0720_def upt_rec stmt_ok_def debounce_predicted [where threshold = 2, simplified])

lemma conforms_0721: "conforms case_0721 (debounce_prediction 13 3)"
  by (rule conformsI) (simp_all add: case_0721_def upt_rec stmt_ok_def debounce_predicted [where threshold = 3, simplified])

lemma conforms_0722: "conforms case_0722 (debounce_prediction 14 4)"
  by (rule conformsI) (simp_all add: case_0722_def upt_rec stmt_ok_def debounce_predicted [where threshold = 4, simplified])

lemma conforms_0723: "conforms case_0723 (debounce_prediction 15 5)"
  by (rule conformsI) (simp_all add: case_0723_def upt_rec stmt_ok_def debounce_predicted [where threshold = 5, simplified])

lemma conforms_0724: "conforms case_0724 (debounce_prediction 4 2)"
  by (rule conformsI) (simp_all add: case_0724_def upt_rec stmt_ok_def debounce_predicted [where threshold = 2, simplified])

lemma conforms_0725: "conforms case_0725 (uart_frame_prediction 0)"
  by (rule conformsI) (simp_all add: case_0725_def upt_rec stmt_ok_def uart_frame_predicted)

lemma conforms_0726: "conforms case_0726 (uart_frame_prediction 1)"
  by (rule conformsI) (simp_all add: case_0726_def upt_rec stmt_ok_def uart_frame_predicted)

lemma conforms_0727: "conforms case_0727 (uart_frame_prediction 2)"
  by (rule conformsI) (simp_all add: case_0727_def upt_rec stmt_ok_def uart_frame_predicted)

lemma conforms_0728: "conforms case_0728 (uart_frame_prediction 3)"
  by (rule conformsI) (simp_all add: case_0728_def upt_rec stmt_ok_def uart_frame_predicted)

lemma conforms_0729: "conforms case_0729 (uart_frame_prediction 4)"
  by (rule conformsI) (simp_all add: case_0729_def upt_rec stmt_ok_def uart_frame_predicted)

lemma conforms_0730: "conforms case_0730 (uart_frame_prediction 5)"
  by (rule conformsI) (simp_all add: case_0730_def upt_rec stmt_ok_def uart_frame_predicted)

lemma conforms_0731: "conforms case_0731 (uart_frame_prediction 6)"
  by (rule conformsI) (simp_all add: case_0731_def upt_rec stmt_ok_def uart_frame_predicted)

lemma conforms_0732: "conforms case_0732 (uart_frame_prediction 7)"
  by (rule conformsI) (simp_all add: case_0732_def upt_rec stmt_ok_def uart_frame_predicted)

lemma conforms_0733: "conforms case_0733 (uart_frame_prediction 8)"
  by (rule conformsI) (simp_all add: case_0733_def upt_rec stmt_ok_def uart_frame_predicted)

lemma conforms_0734: "conforms case_0734 (uart_frame_prediction 9)"
  by (rule conformsI) (simp_all add: case_0734_def upt_rec stmt_ok_def uart_frame_predicted)

lemma conforms_0735: "conforms case_0735 (uart_frame_prediction 10)"
  by (rule conformsI) (simp_all add: case_0735_def upt_rec stmt_ok_def uart_frame_predicted)

lemma conforms_0736: "conforms case_0736 (uart_frame_prediction 11)"
  by (rule conformsI) (simp_all add: case_0736_def upt_rec stmt_ok_def uart_frame_predicted)

lemma conforms_0737: "conforms case_0737 (uart_frame_prediction 12)"
  by (rule conformsI) (simp_all add: case_0737_def upt_rec stmt_ok_def uart_frame_predicted)

lemma conforms_0738: "conforms case_0738 (uart_frame_prediction 13)"
  by (rule conformsI) (simp_all add: case_0738_def upt_rec stmt_ok_def uart_frame_predicted)

lemma conforms_0739: "conforms case_0739 (uart_frame_prediction 14)"
  by (rule conformsI) (simp_all add: case_0739_def upt_rec stmt_ok_def uart_frame_predicted)

lemma conforms_0740: "conforms case_0740 (uart_frame_prediction 15)"
  by (rule conformsI) (simp_all add: case_0740_def upt_rec stmt_ok_def uart_frame_predicted)

lemma conforms_0741: "conforms case_0741 (uart_frame_prediction 0)"
  by (rule conformsI) (simp_all add: case_0741_def upt_rec stmt_ok_def uart_frame_predicted)

lemma conforms_0742: "conforms case_0742 (uart_frame_prediction 1)"
  by (rule conformsI) (simp_all add: case_0742_def upt_rec stmt_ok_def uart_frame_predicted)

lemma conforms_0743: "conforms case_0743 (uart_frame_prediction 2)"
  by (rule conformsI) (simp_all add: case_0743_def upt_rec stmt_ok_def uart_frame_predicted)

lemma conforms_0744: "conforms case_0744 (uart_frame_prediction 3)"
  by (rule conformsI) (simp_all add: case_0744_def upt_rec stmt_ok_def uart_frame_predicted)

lemma conforms_0745: "conforms case_0745 (uart_frame_prediction 4)"
  by (rule conformsI) (simp_all add: case_0745_def upt_rec stmt_ok_def uart_frame_predicted)

lemma conforms_0746: "conforms case_0746 (uart_frame_prediction 5)"
  by (rule conformsI) (simp_all add: case_0746_def upt_rec stmt_ok_def uart_frame_predicted)

lemma conforms_0747: "conforms case_0747 (uart_frame_prediction 6)"
  by (rule conformsI) (simp_all add: case_0747_def upt_rec stmt_ok_def uart_frame_predicted)

lemma conforms_0748: "conforms case_0748 (uart_frame_prediction 7)"
  by (rule conformsI) (simp_all add: case_0748_def upt_rec stmt_ok_def uart_frame_predicted)

lemma conforms_0749: "conforms case_0749 (uart_frame_prediction 8)"
  by (rule conformsI) (simp_all add: case_0749_def upt_rec stmt_ok_def uart_frame_predicted)

lemma conforms_0750: "conforms (case_0750 junk) (cobs_prediction 4)"
  by (rule conformsI) (simp_all add: case_0750_def upt_rec stmt_ok_def cobs_predicted)

lemma conforms_0751: "conforms (case_0751 junk) (cobs_prediction 5)"
  by (rule conformsI) (simp_all add: case_0751_def upt_rec stmt_ok_def cobs_predicted)

lemma conforms_0752: "conforms (case_0752 junk) (cobs_prediction 6)"
  by (rule conformsI) (simp_all add: case_0752_def upt_rec stmt_ok_def cobs_predicted)

lemma conforms_0753: "conforms (case_0753 junk) (cobs_prediction 7)"
  by (rule conformsI) (simp_all add: case_0753_def upt_rec stmt_ok_def cobs_predicted)

lemma conforms_0754: "conforms (case_0754 junk) (cobs_prediction 8)"
  by (rule conformsI) (simp_all add: case_0754_def upt_rec stmt_ok_def cobs_predicted)

lemma conforms_0755: "conforms (case_0755 junk) (cobs_prediction 9)"
  by (rule conformsI) (simp_all add: case_0755_def upt_rec stmt_ok_def cobs_predicted)

lemma conforms_0756: "conforms (case_0756 junk) (cobs_prediction 10)"
  by (rule conformsI) (simp_all add: case_0756_def upt_rec stmt_ok_def cobs_predicted)

lemma conforms_0757: "conforms (case_0757 junk) (cobs_prediction 11)"
  by (rule conformsI) (simp_all add: case_0757_def upt_rec stmt_ok_def cobs_predicted)

lemma conforms_0758: "conforms (case_0758 junk) (cobs_prediction 12)"
  by (rule conformsI) (simp_all add: case_0758_def upt_rec stmt_ok_def cobs_predicted)

lemma conforms_0759: "conforms (case_0759 junk) (cobs_prediction 13)"
  by (rule conformsI) (simp_all add: case_0759_def upt_rec stmt_ok_def cobs_predicted)

lemma conforms_0760: "conforms (case_0760 junk) (cobs_prediction 14)"
  by (rule conformsI) (simp_all add: case_0760_def upt_rec stmt_ok_def cobs_predicted)

lemma conforms_0761: "conforms (case_0761 junk) (cobs_prediction 15)"
  by (rule conformsI) (simp_all add: case_0761_def upt_rec stmt_ok_def cobs_predicted)

lemma conforms_0762: "conforms (case_0762 junk) (cobs_prediction 4)"
  by (rule conformsI) (simp_all add: case_0762_def upt_rec stmt_ok_def cobs_predicted)

lemma conforms_0763: "conforms (case_0763 junk) (cobs_prediction 5)"
  by (rule conformsI) (simp_all add: case_0763_def upt_rec stmt_ok_def cobs_predicted)

lemma conforms_0764: "conforms (case_0764 junk) (cobs_prediction 6)"
  by (rule conformsI) (simp_all add: case_0764_def upt_rec stmt_ok_def cobs_predicted)

lemma conforms_0765: "conforms (case_0765 junk) (cobs_prediction 7)"
  by (rule conformsI) (simp_all add: case_0765_def upt_rec stmt_ok_def cobs_predicted)

lemma conforms_0766: "conforms (case_0766 junk) (cobs_prediction 8)"
  by (rule conformsI) (simp_all add: case_0766_def upt_rec stmt_ok_def cobs_predicted)

lemma conforms_0767: "conforms (case_0767 junk) (cobs_prediction 9)"
  by (rule conformsI) (simp_all add: case_0767_def upt_rec stmt_ok_def cobs_predicted)

lemma conforms_0768: "conforms (case_0768 junk) (cobs_prediction 10)"
  by (rule conformsI) (simp_all add: case_0768_def upt_rec stmt_ok_def cobs_predicted)

lemma conforms_0769: "conforms (case_0769 junk) (cobs_prediction 11)"
  by (rule conformsI) (simp_all add: case_0769_def upt_rec stmt_ok_def cobs_predicted)

lemma conforms_0770: "conforms (case_0770 junk) (cobs_prediction 12)"
  by (rule conformsI) (simp_all add: case_0770_def upt_rec stmt_ok_def cobs_predicted)

lemma conforms_0771: "conforms (case_0771 junk) (cobs_prediction 13)"
  by (rule conformsI) (simp_all add: case_0771_def upt_rec stmt_ok_def cobs_predicted)

lemma conforms_0772: "conforms (case_0772 junk) (cobs_prediction 14)"
  by (rule conformsI) (simp_all add: case_0772_def upt_rec stmt_ok_def cobs_predicted)

lemma conforms_0773: "conforms (case_0773 junk) (cobs_prediction 15)"
  by (rule conformsI) (simp_all add: case_0773_def upt_rec stmt_ok_def cobs_predicted)

lemma conforms_0774: "conforms (case_0774 junk) (cobs_prediction 4)"
  by (rule conformsI) (simp_all add: case_0774_def upt_rec stmt_ok_def cobs_predicted)

lemma conforms_0775: "conforms case_0775 (spi_prediction False)"
  by (rule conformsI) (simp_all add: case_0775_def upt_rec stmt_ok_def spi_predicted)

lemma conforms_0776: "conforms case_0776 (spi_prediction True)"
  by (rule conformsI) (simp_all add: case_0776_def upt_rec stmt_ok_def spi_predicted)

lemma conforms_0777: "conforms case_0777 (spi_prediction False)"
  by (rule conformsI) (simp_all add: case_0777_def upt_rec stmt_ok_def spi_predicted)

lemma conforms_0778: "conforms case_0778 (spi_prediction True)"
  by (rule conformsI) (simp_all add: case_0778_def upt_rec stmt_ok_def spi_predicted)

lemma conforms_0779: "conforms case_0779 (spi_prediction False)"
  by (rule conformsI) (simp_all add: case_0779_def upt_rec stmt_ok_def spi_predicted)

lemma conforms_0780: "conforms case_0780 (spi_prediction True)"
  by (rule conformsI) (simp_all add: case_0780_def upt_rec stmt_ok_def spi_predicted)

lemma conforms_0781: "conforms case_0781 (spi_prediction False)"
  by (rule conformsI) (simp_all add: case_0781_def upt_rec stmt_ok_def spi_predicted)

lemma conforms_0782: "conforms case_0782 (spi_prediction True)"
  by (rule conformsI) (simp_all add: case_0782_def upt_rec stmt_ok_def spi_predicted)

lemma conforms_0783: "conforms case_0783 (spi_prediction False)"
  by (rule conformsI) (simp_all add: case_0783_def upt_rec stmt_ok_def spi_predicted)

lemma conforms_0784: "conforms case_0784 (spi_prediction True)"
  by (rule conformsI) (simp_all add: case_0784_def upt_rec stmt_ok_def spi_predicted)

lemma conforms_0785: "conforms case_0785 (spi_prediction False)"
  by (rule conformsI) (simp_all add: case_0785_def upt_rec stmt_ok_def spi_predicted)

lemma conforms_0786: "conforms case_0786 (spi_prediction True)"
  by (rule conformsI) (simp_all add: case_0786_def upt_rec stmt_ok_def spi_predicted)

lemma conforms_0787: "conforms case_0787 (spi_prediction False)"
  by (rule conformsI) (simp_all add: case_0787_def upt_rec stmt_ok_def spi_predicted)

lemma conforms_0788: "conforms case_0788 (spi_prediction True)"
  by (rule conformsI) (simp_all add: case_0788_def upt_rec stmt_ok_def spi_predicted)

lemma conforms_0789: "conforms case_0789 (spi_prediction False)"
  by (rule conformsI) (simp_all add: case_0789_def upt_rec stmt_ok_def spi_predicted)

lemma conforms_0790: "conforms case_0790 (spi_prediction True)"
  by (rule conformsI) (simp_all add: case_0790_def upt_rec stmt_ok_def spi_predicted)

lemma conforms_0791: "conforms case_0791 (spi_prediction False)"
  by (rule conformsI) (simp_all add: case_0791_def upt_rec stmt_ok_def spi_predicted)

lemma conforms_0792: "conforms case_0792 (spi_prediction True)"
  by (rule conformsI) (simp_all add: case_0792_def upt_rec stmt_ok_def spi_predicted)

lemma conforms_0793: "conforms case_0793 (spi_prediction False)"
  by (rule conformsI) (simp_all add: case_0793_def upt_rec stmt_ok_def spi_predicted)

lemma conforms_0794: "conforms case_0794 (spi_prediction True)"
  by (rule conformsI) (simp_all add: case_0794_def upt_rec stmt_ok_def spi_predicted)

lemma conforms_0795: "conforms case_0795 (spi_prediction False)"
  by (rule conformsI) (simp_all add: case_0795_def upt_rec stmt_ok_def spi_predicted)

lemma conforms_0796: "conforms case_0796 (spi_prediction True)"
  by (rule conformsI) (simp_all add: case_0796_def upt_rec stmt_ok_def spi_predicted)

lemma conforms_0797: "conforms case_0797 (spi_prediction False)"
  by (rule conformsI) (simp_all add: case_0797_def upt_rec stmt_ok_def spi_predicted)

lemma conforms_0798: "conforms case_0798 (spi_prediction True)"
  by (rule conformsI) (simp_all add: case_0798_def upt_rec stmt_ok_def spi_predicted)

lemma conforms_0799: "conforms case_0799 (spi_prediction False)"
  by (rule conformsI) (simp_all add: case_0799_def upt_rec stmt_ok_def spi_predicted)

definition corpus_7 :: "(nat \<Rightarrow> u32) \<Rightarrow> (case_program \<times> (u32 list \<Rightarrow> u32)) list" where
  "corpus_7 junk =
    [(case_0700, debounce_prediction 4 2),
     (case_0701, debounce_prediction 5 3),
     (case_0702, debounce_prediction 6 4),
     (case_0703, debounce_prediction 7 5),
     (case_0704, debounce_prediction 8 2),
     (case_0705, debounce_prediction 9 3),
     (case_0706, debounce_prediction 10 4),
     (case_0707, debounce_prediction 11 5),
     (case_0708, debounce_prediction 12 2),
     (case_0709, debounce_prediction 13 3),
     (case_0710, debounce_prediction 14 4),
     (case_0711, debounce_prediction 15 5),
     (case_0712, debounce_prediction 4 2),
     (case_0713, debounce_prediction 5 3),
     (case_0714, debounce_prediction 6 4),
     (case_0715, debounce_prediction 7 5),
     (case_0716, debounce_prediction 8 2),
     (case_0717, debounce_prediction 9 3),
     (case_0718, debounce_prediction 10 4),
     (case_0719, debounce_prediction 11 5),
     (case_0720, debounce_prediction 12 2),
     (case_0721, debounce_prediction 13 3),
     (case_0722, debounce_prediction 14 4),
     (case_0723, debounce_prediction 15 5),
     (case_0724, debounce_prediction 4 2),
     (case_0725, uart_frame_prediction 0),
     (case_0726, uart_frame_prediction 1),
     (case_0727, uart_frame_prediction 2),
     (case_0728, uart_frame_prediction 3),
     (case_0729, uart_frame_prediction 4),
     (case_0730, uart_frame_prediction 5),
     (case_0731, uart_frame_prediction 6),
     (case_0732, uart_frame_prediction 7),
     (case_0733, uart_frame_prediction 8),
     (case_0734, uart_frame_prediction 9),
     (case_0735, uart_frame_prediction 10),
     (case_0736, uart_frame_prediction 11),
     (case_0737, uart_frame_prediction 12),
     (case_0738, uart_frame_prediction 13),
     (case_0739, uart_frame_prediction 14),
     (case_0740, uart_frame_prediction 15),
     (case_0741, uart_frame_prediction 0),
     (case_0742, uart_frame_prediction 1),
     (case_0743, uart_frame_prediction 2),
     (case_0744, uart_frame_prediction 3),
     (case_0745, uart_frame_prediction 4),
     (case_0746, uart_frame_prediction 5),
     (case_0747, uart_frame_prediction 6),
     (case_0748, uart_frame_prediction 7),
     (case_0749, uart_frame_prediction 8),
     (case_0750 junk, cobs_prediction 4),
     (case_0751 junk, cobs_prediction 5),
     (case_0752 junk, cobs_prediction 6),
     (case_0753 junk, cobs_prediction 7),
     (case_0754 junk, cobs_prediction 8),
     (case_0755 junk, cobs_prediction 9),
     (case_0756 junk, cobs_prediction 10),
     (case_0757 junk, cobs_prediction 11),
     (case_0758 junk, cobs_prediction 12),
     (case_0759 junk, cobs_prediction 13),
     (case_0760 junk, cobs_prediction 14),
     (case_0761 junk, cobs_prediction 15),
     (case_0762 junk, cobs_prediction 4),
     (case_0763 junk, cobs_prediction 5),
     (case_0764 junk, cobs_prediction 6),
     (case_0765 junk, cobs_prediction 7),
     (case_0766 junk, cobs_prediction 8),
     (case_0767 junk, cobs_prediction 9),
     (case_0768 junk, cobs_prediction 10),
     (case_0769 junk, cobs_prediction 11),
     (case_0770 junk, cobs_prediction 12),
     (case_0771 junk, cobs_prediction 13),
     (case_0772 junk, cobs_prediction 14),
     (case_0773 junk, cobs_prediction 15),
     (case_0774 junk, cobs_prediction 4),
     (case_0775, spi_prediction False),
     (case_0776, spi_prediction True),
     (case_0777, spi_prediction False),
     (case_0778, spi_prediction True),
     (case_0779, spi_prediction False),
     (case_0780, spi_prediction True),
     (case_0781, spi_prediction False),
     (case_0782, spi_prediction True),
     (case_0783, spi_prediction False),
     (case_0784, spi_prediction True),
     (case_0785, spi_prediction False),
     (case_0786, spi_prediction True),
     (case_0787, spi_prediction False),
     (case_0788, spi_prediction True),
     (case_0789, spi_prediction False),
     (case_0790, spi_prediction True),
     (case_0791, spi_prediction False),
     (case_0792, spi_prediction True),
     (case_0793, spi_prediction False),
     (case_0794, spi_prediction True),
     (case_0795, spi_prediction False),
     (case_0796, spi_prediction True),
     (case_0797, spi_prediction False),
     (case_0798, spi_prediction True),
     (case_0799, spi_prediction False)]"

lemmas corpus_7_programs =
  conforms_0700 conforms_0701 conforms_0702 conforms_0703 conforms_0704 conforms_0705 conforms_0706 conforms_0707
  conforms_0708 conforms_0709 conforms_0710 conforms_0711 conforms_0712 conforms_0713 conforms_0714 conforms_0715
  conforms_0716 conforms_0717 conforms_0718 conforms_0719 conforms_0720 conforms_0721 conforms_0722 conforms_0723
  conforms_0724 conforms_0725 conforms_0726 conforms_0727 conforms_0728 conforms_0729 conforms_0730 conforms_0731
  conforms_0732 conforms_0733 conforms_0734 conforms_0735 conforms_0736 conforms_0737 conforms_0738 conforms_0739
  conforms_0740 conforms_0741 conforms_0742 conforms_0743 conforms_0744 conforms_0745 conforms_0746 conforms_0747
  conforms_0748 conforms_0749 conforms_0750 conforms_0751 conforms_0752 conforms_0753 conforms_0754 conforms_0755
  conforms_0756 conforms_0757 conforms_0758 conforms_0759 conforms_0760 conforms_0761 conforms_0762 conforms_0763
  conforms_0764 conforms_0765 conforms_0766 conforms_0767 conforms_0768 conforms_0769 conforms_0770 conforms_0771
  conforms_0772 conforms_0773 conforms_0774 conforms_0775 conforms_0776 conforms_0777 conforms_0778 conforms_0779
  conforms_0780 conforms_0781 conforms_0782 conforms_0783 conforms_0784 conforms_0785 conforms_0786 conforms_0787
  conforms_0788 conforms_0789 conforms_0790 conforms_0791 conforms_0792 conforms_0793 conforms_0794 conforms_0795
  conforms_0796 conforms_0797 conforms_0798 conforms_0799

lemma corpus_7_conforms: "list_all (\<lambda>(c, prediction). conforms c prediction) (corpus_7 junk)"
  unfolding corpus_7_def list.pred_inject prod.case by (intro conjI corpus_7_programs list.pred_inject(1))

lemma corpus_7_ids: "map (\<lambda>(c, prediction). case_id c) (corpus_7 junk) = [700..<800]"
  by (simp add: corpus_7_def upt_conv_Cons
      case_0700_def case_0701_def case_0702_def case_0703_def case_0704_def case_0705_def case_0706_def
      case_0707_def case_0708_def case_0709_def case_0710_def case_0711_def case_0712_def case_0713_def
      case_0714_def case_0715_def case_0716_def case_0717_def case_0718_def case_0719_def case_0720_def
      case_0721_def case_0722_def case_0723_def case_0724_def case_0725_def case_0726_def case_0727_def
      case_0728_def case_0729_def case_0730_def case_0731_def case_0732_def case_0733_def case_0734_def
      case_0735_def case_0736_def case_0737_def case_0738_def case_0739_def case_0740_def case_0741_def
      case_0742_def case_0743_def case_0744_def case_0745_def case_0746_def case_0747_def case_0748_def
      case_0749_def case_0750_def case_0751_def case_0752_def case_0753_def case_0754_def case_0755_def
      case_0756_def case_0757_def case_0758_def case_0759_def case_0760_def case_0761_def case_0762_def
      case_0763_def case_0764_def case_0765_def case_0766_def case_0767_def case_0768_def case_0769_def
      case_0770_def case_0771_def case_0772_def case_0773_def case_0774_def case_0775_def case_0776_def
      case_0777_def case_0778_def case_0779_def case_0780_def case_0781_def case_0782_def case_0783_def
      case_0784_def case_0785_def case_0786_def case_0787_def case_0788_def case_0789_def case_0790_def
      case_0791_def case_0792_def case_0793_def case_0794_def case_0795_def case_0796_def case_0797_def
      case_0798_def case_0799_def)

end
