(* ===== verification/Corpus_Cases_8.thy ===== *)
theory Corpus_Cases_8
  imports Corpus_Checksums Corpus_Bits Corpus_Control Corpus_Algorithms Corpus_Buffers
begin

text \<open>
  The programs 800 to 899 of the edge-case corpus, one definition per file: inputs, kernel with the parameters of the
  scenario, initial literals and statements, as the C text has them.  Their kernels are the crc8,
  saturating, multiply accumulate and sqrt kernels.  Every program conforms to the prediction of its kernel.
\<close>

definition case_0800 :: "case_program" where
  "case_0800 =
     \<lparr>case_id = 800,
      case_input = [0x00000000, 0x474a32ee, 0xa48bdbd9, 0x6bd1331f, 0xca8a4e7d, 0x2088c875, 0x6f8cf9ad, 0x61bc6bb0,
                    0x18a99181, 0xdac26fc4, 0x6492af6c, 0x925ac8f8, 0x834e7aa7, 0x236667df, 0x4ba61d91, 0x447d46d3],
      case_kernel = crc8_kernel 4,
      reg_inputs = [1, 5, 9, 13], reg5_init = 0x6d5c6220,
      memory_keys = [0x00000320, 0x00000640, 0x00000c80, 0x00001900, 0x00003200, 0x00006400, 0x0000c800, 0x00019000],
      case_stmts = [(Add_Carry, 0, 1, 1), (Add_Carry, 4, 5, 4), (Rotate_Mix, 3, 3, 3), (Horner_Loop, 1, 1, 3),
                    (Reverse_Loop, 2, 4, 5), (Short_Circuit, 3, 0, 4), (Array_Scatter, 4, 5, 3),
                    (Compare_Select, 4, 3, 3), (Multiply_Low, 2, 5, 4), (Compare_Select, 0, 3, 5),
                    (Horner_Loop, 3, 4, 3), (Add_Carry, 0, 1, 4)]\<rparr>"

definition case_0801 :: "case_program" where
  "case_0801 =
     \<lparr>case_id = 801,
      case_input = [0xa2c298c3, 0x00000001, 0x511379df, 0xcbd84639, 0xdcdfc3a8, 0x336b8376, 0x267766d4, 0xb349ad7c,
                    0xffee9a50, 0x9b2ddd0b, 0xf214584b, 0x4a6c3b89, 0x5b48b94e, 0xba807d99, 0x961c0ca8, 0x6d4db7ad],
      case_kernel = crc8_kernel 5,
      reg_inputs = [2, 6, 10, 14], reg5_init = 0x0b93dbd9,
      memory_keys = [0x00000321, 0x00000642, 0x00000c84, 0x00001908, 0x00003210, 0x00006420, 0x0000c840, 0x00019080],
      case_stmts = [(Sub_Borrow, 1, 2, 4), (Add_Carry, 5, 5, 1), (Rotate_Mix, 3, 1, 1), (Compare_Select, 4, 1, 0),
                    (Array_Scatter, 0, 2, 5), (Rotate_Mix, 1, 0, 1), (Gray_Decode, 5, 4, 2), (Multiply_Low, 5, 4, 3),
                    (Minmax_Clamp, 5, 0, 5), (Gray_Decode, 1, 1, 3), (Byte_Pack, 3, 0, 2), (Endian_Swap, 5, 1, 3)]\<rparr>"

definition case_0802 :: "case_program" where
  "case_0802 =
     \<lparr>case_id = 802,
      case_input = [0x6344f800, 0x7f4a9861, 0x00000002, 0x9fc82179, 0x2b1ff909, 0xf2f6f2f1, 0xd66e122e, 0xb9eaaef6,
                    0x8afa4fdc, 0x54a29258, 0xf41238c3, 0x4f5636e3, 0x1c473d19, 0xf9d2c089, 0xa26d0f61, 0x1700c89b],
      case_kernel = crc8_kernel 6,
      reg_inputs = [3, 7, 11, 15], reg5_init = 0xa9cb5592,
      memory_keys = [0x00000322, 0x00000644, 0x00000c88, 0x00001910, 0x00003220, 0x00006440, 0x0000c880, 0x00019100],
      case_stmts = [(Rotate_Mix, 4, 0, 4), (Add_Carry, 2, 3, 0), (Rotate_Mix, 1, 0, 2), (Popcount_Loop, 3, 1, 5),
                    (Mask_Merge, 2, 5, 3), (Divide_Rem, 3, 0, 1), (Multiply_Low, 1, 0, 1), (Reverse_Loop, 3, 3, 2),
                    (Horner_Loop, 4, 2, 2), (Sub_Borrow, 1, 4, 5), (Sub_Borrow, 5, 0, 3), (Endian_Swap, 5, 4, 3)]\<rparr>"

definition case_0803 :: "case_program" where
  "case_0803 =
     \<lparr>case_id = 803,
      case_input = [0x23c6d841, 0x634bcd26, 0xb2209897, 0x00000003, 0x3d4a74dc, 0xe115b9f2, 0x9f958d57, 0x6b1f683a,
                    0x6dbd440d, 0x154d2097, 0x6294cfe4, 0x9760c592, 0xc441fef0, 0x6034dacf, 0x7fd71e58, 0x3e3039e5],
      case_kernel = crc8_kernel 7,
      reg_inputs = [4, 8, 12, 0], reg5_init = 0x4802cf4b,
      memory_keys = [0x00000323, 0x00000646, 0x00000c8c, 0x00001918, 0x00003230, 0x00006460, 0x0000c8c0, 0x00019180],
      case_stmts = [(Multiply_Low, 3, 5, 5), (Add_Carry, 5, 3, 1), (Rotate_Mix, 3, 0, 0), (Add_Carry, 4, 3, 0),
                    (Carry_Chain, 4, 1, 5), (Rotate_Mix, 3, 4, 0), (Popcount_Loop, 4, 5, 2), (Gray_Decode, 4, 2, 2),
                    (Short_Circuit, 5, 5, 1), (Divide_Rem, 0, 0, 1), (Array_Scatter, 5, 4, 4), (Minmax_Clamp, 4, 2, 2)]\<rparr>"

definition case_0804 :: "case_program" where
  "case_0804 =
     \<lparr>case_id = 804,
      case_input = [0xe0483987, 0x374b67f0, 0x62ec1948, 0x81e317d2, 0x0000007f, 0x1d741039, 0x21427bd4, 0x19265c8c,
                    0xd0c07c19, 0x455bb6b7, 0xe8f64ef3, 0x96c3eec8, 0xd219cd58, 0xca96daa0, 0xc2eef1d4, 0x2dee4fef],
      case_kernel = crc8_kernel 8,
      reg_inputs = [5, 9, 13, 1], reg5_init = 0xe63a4904,
      memory_keys = [0x00000324, 0x00000648, 0x00000c90, 0x00001920, 0x00003240, 0x00006480, 0x0000c900, 0x00019200],
      case_stmts = [(Divide_Rem, 1, 4, 1), (Add_Carry, 1, 0, 5), (Rotate_Mix, 5, 0, 0), (Counted_Loop, 2, 3, 3),
                    (Minmax_Clamp, 1, 5, 0), (Mask_Merge, 2, 4, 0), (Minmax_Clamp, 5, 1, 5), (Multiply_Low, 5, 5, 0),
                    (Multiply_Low, 4, 4, 4), (Byte_Pack, 2, 3, 3), (Horner_Loop, 0, 0, 4), (Add_Carry, 0, 1, 5)]\<rparr>"

definition case_0805 :: "case_program" where
  "case_0805 =
     \<lparr>case_id = 805,
      case_input = [0xa0ca19c6, 0x2b4a32b7, 0x9774bb4e, 0x21ea62f4, 0x1df2ad41, 0x00000080, 0x68b9e4ad, 0xcbd39a40,
                    0x378777c8, 0x04b40478, 0x7e70b9d4, 0x4ef51db9, 0x0a1f0eb1, 0x5370c0e6, 0x1f54e0ed, 0x04debe91],
      case_kernel = crc8_kernel 9,
      reg_inputs = [6, 10, 14, 2], reg5_init = 0x8471c2bd,
      memory_keys = [0x00000325, 0x0000064a, 0x00000c94, 0x00001928, 0x00003250, 0x000064a0, 0x0000c940, 0x00019280],
      case_stmts = [(Mask_Merge, 2, 3, 2), (Add_Carry, 0, 4, 4), (Rotate_Mix, 5, 4, 4), (Horner_Loop, 3, 5, 0),
                    (Switch_Phi, 1, 5, 2), (Horner_Loop, 0, 2, 3), (Reverse_Loop, 0, 2, 4), (Rotate_Mix, 0, 2, 4),
                    (Divide_Rem, 3, 3, 1), (Counted_Loop, 1, 3, 3), (Multiply_Low, 4, 4, 3), (Mask_Merge, 5, 3, 4)]\<rparr>"

definition case_0806 :: "case_program" where
  "case_0806 =
     \<lparr>case_id = 806,
      case_input = [0x614c7905, 0x0f4bcd7f, 0x81dff800, 0x75fa05b4, 0xea3297e0, 0xcf0a2abd, 0x000000ff, 0xc17099ca,
                    0x4293a244, 0xcb3b4b2b, 0x7876d95c, 0x4bcf10d3, 0x4d108ae6, 0x10227df6, 0x2b25e324, 0x7e93c1a7],
      case_kernel = crc8_kernel 10,
      reg_inputs = [7, 11, 15, 3], reg5_init = 0x22a93c76,
      memory_keys = [0x00000326, 0x0000064c, 0x00000c98, 0x00001930, 0x00003260, 0x000064c0, 0x0000c980, 0x00019300],
      case_stmts = [(Compare_Select, 5, 1, 4), (Add_Carry, 1, 4, 1), (Rotate_Mix, 3, 5, 3), (Divide_Rem, 0, 3, 3),
                    (Switch_Phi, 1, 2, 4), (Endian_Swap, 4, 2, 3), (Rotate_Mix, 2, 2, 3), (Byte_Pack, 4, 1, 5),
                    (Gray_Decode, 4, 5, 4), (Divide_Rem, 1, 4, 5), (Popcount_Loop, 4, 2, 4), (Sub_Borrow, 5, 0, 2)]\<rparr>"

definition case_0807 :: "case_program" where
  "case_0807 =
     \<lparr>case_id = 807,
      case_input = [0x21ce5944, 0x134a9838, 0x74475a06, 0xd5f37092, 0xfc671a35, 0xdce961be, 0xd15b0f2e, 0x00000100,
                    0xa5d4a995, 0x8ad4f9e4, 0xeef02e7b, 0x93f9e3a2, 0x9516490f, 0x89c467b0, 0xf69ff21d, 0x57a330d9],
      case_kernel = crc8_kernel 11,
      reg_inputs = [8, 12, 0, 4], reg5_init = 0xc0e0b62f,
      memory_keys = [0x00000327, 0x0000064e, 0x00000c9c, 0x00001938, 0x00003270, 0x000064e0, 0x0000c9c0, 0x00019380],
      case_stmts = [(Byte_Pack, 0, 4, 5), (Add_Carry, 4, 2, 2), (Rotate_Mix, 3, 1, 5), (Popcount_Loop, 5, 5, 4),
                    (Minmax_Clamp, 5, 2, 0), (Gray_Decode, 4, 4, 4), (Halfword_Swap, 5, 5, 4), (Carry_Chain, 5, 2, 1),
                    (Divide_Rem, 3, 2, 3), (Endian_Swap, 2, 2, 1), (Endian_Swap, 2, 0, 1), (Minmax_Clamp, 2, 4, 5)]\<rparr>"

definition case_0808 :: "case_program" where
  "case_0808 =
     \<lparr>case_id = 808,
      case_input = [0xe651ba88, 0xa74898d2, 0x28445efa, 0xbfb57a85, 0x4ad093ae, 0x5b7778ec, 0x6b17501b, 0x3487fdf3,
                    0x7fffffff, 0xd90c94e4, 0x04c00e45, 0x0523d9a3, 0xc3081be0, 0xb110cecd, 0xc0404447, 0x1795e45f],
      case_kernel = crc8_kernel 12,
      reg_inputs = [9, 13, 1, 5], reg5_init = 0x5f182fe8,
      memory_keys = [0x00000328, 0x00000650, 0x00000ca0, 0x00001940, 0x00003280, 0x00006500, 0x0000ca00, 0x00019400],
      case_stmts = [(Halfword_Swap, 2, 2, 2), (Add_Carry, 5, 1, 0), (Rotate_Mix, 5, 4, 1), (Array_Scatter, 1, 1, 3),
                    (Counted_Loop, 4, 5, 2), (Horner_Loop, 4, 1, 5), (Gray_Decode, 2, 3, 0), (Sub_Borrow, 0, 5, 4),
                    (Reverse_Loop, 4, 4, 0), (Short_Circuit, 3, 5, 1), (Add_Carry, 5, 5, 1), (Counted_Loop, 2, 5, 0)]\<rparr>"

definition case_0809 :: "case_program" where
  "case_0809 =
     \<lparr>case_id = 809,
      case_input = [0xa6d39ac9, 0xbb49cd95, 0xdddcfcfc, 0x1fbc0fa3, 0x5c851e7b, 0x489433ef, 0x22eccf62, 0xe6723b3f,
                    0x0b07a1ae, 0x80000000, 0x9246f962, 0xdd152ad2, 0x1b0ed809, 0x28f6d48b, 0x1dfa557e, 0x3ea51521],
      case_kernel = crc8_kernel 13,
      reg_inputs = [10, 14, 2, 6], reg5_init = 0xfd4fa9a1,
      memory_keys = [0x00000329, 0x00000652, 0x00000ca4, 0x00001948, 0x00003290, 0x00006520, 0x0000ca40, 0x00019480],
      case_stmts = [(Array_Scatter, 3, 5, 1), (Add_Carry, 0, 3, 1), (Rotate_Mix, 5, 4, 5), (Minmax_Clamp, 4, 3, 2),
                    (Endian_Swap, 4, 5, 0), (Popcount_Loop, 4, 3, 4), (Sub_Borrow, 1, 2, 3), (Short_Circuit, 1, 4, 2),
                    (Sub_Borrow, 3, 3, 5), (Mask_Merge, 0, 1, 5), (Minmax_Clamp, 1, 3, 2), (Horner_Loop, 1, 5, 1)]\<rparr>"

definition case_0810 :: "case_program" where
  "case_0810 =
     \<lparr>case_id = 810,
      case_input = [0x6755fa0a, 0x9f48325d, 0xcb77bfb2, 0x4bac68e3, 0xab4524da, 0x89094268, 0xd2f5bb98, 0xecd138b5,
                    0x7e137422, 0x576c6978, 0xfffffffe, 0xd82f27b8, 0x5c015c5e, 0x6ba4699b, 0x298b56b7, 0x44e86a17],
      case_kernel = crc8_kernel 14,
      reg_inputs = [11, 15, 3, 7], reg5_init = 0x9b87235a,
      memory_keys = [0x0000032a, 0x00000654, 0x00000ca8, 0x00001950, 0x000032a0, 0x00006540, 0x0000ca80, 0x00019500],
      case_stmts = [(Counted_Loop, 0, 5, 3), (Add_Carry, 1, 5, 4), (Rotate_Mix, 5, 3, 2), (Byte_Pack, 3, 1, 3),
                    (Endian_Swap, 4, 4, 2), (Horner_Loop, 0, 3, 0), (Endian_Swap, 5, 0, 4), (Endian_Swap, 1, 3, 1),
                    (Counted_Loop, 2, 5, 2), (Switch_Phi, 0, 2, 3), (Compare_Select, 1, 3, 1), (Gray_Decode, 5, 4, 1)]\<rparr>"

definition case_0811 :: "case_program" where
  "case_0811 =
     \<lparr>case_id = 811,
      case_input = [0x27d7da4b, 0x8349671a, 0x3eef1db4, 0xeba51dc5, 0xbd10a90f, 0x9aea096b, 0x9b0e24e1, 0x3e24fe79,
                    0x99547ff3, 0x1683dbb7, 0x02c66ecd, 0xffffffff, 0x84079fb7, 0xf24273dd, 0xf431478e, 0x6dd89b69],
      case_kernel = crc8_kernel 15,
      reg_inputs = [12, 0, 4, 8], reg5_init = 0x39be9d13,
      memory_keys = [0x0000032b, 0x00000656, 0x00000cac, 0x00001958, 0x000032b0, 0x00006560, 0x0000cac0, 0x00019580],
      case_stmts = [(Switch_Phi, 1, 2, 2), (Add_Carry, 4, 1, 1), (Rotate_Mix, 1, 3, 2), (Reverse_Loop, 0, 5, 2),
                    (Carry_Chain, 0, 2, 2), (Sub_Borrow, 2, 5, 5), (Byte_Pack, 4, 1, 3), (Add_Carry, 2, 2, 1),
                    (Endian_Swap, 5, 4, 1), (Carry_Chain, 1, 0, 5), (Counted_Loop, 3, 5, 2), (Carry_Chain, 0, 0, 2)]\<rparr>"

definition case_0812 :: "case_program" where
  "case_0812 =
     \<lparr>case_id = 812,
      case_input = [0xe4593b8d, 0xd749cdcc, 0xee239c6b, 0x55875e48, 0x00000000, 0x668ba0a0, 0x25d9d262, 0x4c1dcacf,
                    0x242947e7, 0x46954d97, 0x88a4efda, 0x01baff93, 0x00000000, 0x58e073b2, 0x4908a802, 0x7e06ed63],
      case_kernel = crc8_kernel 4,
      reg_inputs = [13, 1, 5, 9], reg5_init = 0xd7f616cc,
      memory_keys = [0x0000032c, 0x00000658, 0x00000cb0, 0x00001960, 0x000032c0, 0x00006580, 0x0000cb00, 0x00019600],
      case_stmts = [(Short_Circuit, 1, 1, 0), (Add_Carry, 4, 0, 5), (Rotate_Mix, 1, 1, 0), (Add_Carry, 4, 3, 1),
                    (Add_Carry, 3, 2, 3), (Reverse_Loop, 5, 1, 5), (Carry_Chain, 1, 1, 4), (Short_Circuit, 1, 3, 3),
                    (Counted_Loop, 2, 1, 2), (Mask_Merge, 3, 1, 5), (Add_Carry, 4, 1, 4), (Rotate_Mix, 4, 3, 1)]\<rparr>"

definition case_0813 :: "case_program" where
  "case_0813 =
     \<lparr>case_id = 813,
      case_input = [0xa4db1bcc, 0xcb48988b, 0x1bbb3e6d, 0xf58e2b6e, 0x9da87092, 0x7568eba3, 0x6c224d1b, 0x9ee80c03,
                    0xc36e4c36, 0x077aff58, 0x1e2218fd, 0x00000080, 0x4a596ff6, 0x00000001, 0x94b2b93b, 0x57361c1d],
      case_kernel = crc8_kernel 5,
      reg_inputs = [14, 2, 6, 10], reg5_init = 0x762d9085,
      memory_keys = [0x0000032d, 0x0000065a, 0x00000cb4, 0x00001968, 0x000032d0, 0x000065a0, 0x0000cb40, 0x00019680],
      case_stmts = [(Popcount_Loop, 4, 4, 3), (Add_Carry, 1, 2, 4), (Rotate_Mix, 3, 3, 2), (Array_Scatter, 3, 3, 2),
                    (Multiply_Low, 5, 4, 3), (Minmax_Clamp, 1, 3, 4), (Halfword_Swap, 2, 4, 3),
                    (Popcount_Loop, 2, 2, 5), (Popcount_Loop, 5, 0, 3), (Divide_Rem, 4, 5, 3), (Halfword_Swap, 2, 1, 5),
                    (Multiply_Low, 3, 3, 0)]\<rparr>"

definition case_0814 :: "case_program" where
  "case_0814 =
     \<lparr>case_id = 814,
      case_input = [0x655d7b0f, 0xef496743, 0xfffffffe, 0xa19e4c2e, 0x6a684a33, 0xb4f59a24, 0x9c3b39e1, 0x944b0f89,
                    0xb67a99ba, 0xc8f5b00b, 0x18247875, 0xdcb60188, 0x0d56eba1, 0x8254d4e4, 0x00000002, 0x2d7b632b],
      case_kernel = crc8_kernel 6,
      reg_inputs = [15, 3, 7, 11], reg5_init = 0x14650a3e,
      memory_keys = [0x0000032e, 0x0000065c, 0x00000cb8, 0x00001970, 0x000032e0, 0x000065c0, 0x0000cb80, 0x00019700],
      case_stmts = [(Reverse_Loop, 5, 4, 5), (Add_Carry, 4, 2, 1), (Rotate_Mix, 3, 4, 5), (Carry_Chain, 4, 1, 5),
                    (Byte_Pack, 5, 5, 5), (Rotate_Mix, 1, 5, 2), (Halfword_Swap, 2, 0, 0), (Minmax_Clamp, 0, 3, 4),
                    (Rotate_Mix, 4, 2, 0), (Reverse_Loop, 0, 2, 5), (Reverse_Loop, 4, 5, 0), (Byte_Pack, 1, 4, 0)]\<rparr>"

definition case_0815 :: "case_program" where
  "case_0815 =
     \<lparr>case_id = 815,
      case_input = [0x25df5b4e, 0xf3483204, 0xf888df25, 0x01973908, 0x7c3dc7e6, 0xa716d127, 0xd5c0a698, 0x46bec945,
                    0x513d926b, 0x00000003, 0x8ea28f52, 0x0480f2f9, 0xd5502848, 0x1bb2cea2, 0x7d79abcb, 0x00000003],
      case_kernel = crc8_kernel 7,
      reg_inputs = [0, 4, 8, 12], reg5_init = 0xb29c83f7,
      memory_keys = [0x0000032f, 0x0000065e, 0x00000cbc, 0x00001978, 0x000032f0, 0x000065e0, 0x0000cbc0, 0x00019780],
      case_stmts = [(Gray_Decode, 0, 1, 0), (Add_Carry, 3, 0, 2), (Rotate_Mix, 5, 4, 1), (Byte_Pack, 3, 1, 2),
                    (Divide_Rem, 1, 5, 5), (Halfword_Swap, 3, 1, 5), (Rotate_Mix, 1, 3, 1), (Endian_Swap, 5, 2, 0),
                    (Sub_Borrow, 3, 3, 5), (Byte_Pack, 5, 0, 5), (Rotate_Mix, 2, 5, 3), (Reverse_Loop, 4, 4, 1)]\<rparr>"

definition case_0816 :: "case_program" where
  "case_0816 =
     \<lparr>case_id = 816,
      case_input = [0x7fffffff, 0x874f6696, 0xbf14d19f, 0xc11fa02a, 0x513f589e, 0xea78fc38, 0x3d881f71, 0x37051605,
                    0x48218027, 0xa37f1755, 0xce349921, 0x036d7e88, 0xab67dac2, 0x726e278d, 0x079c5313, 0xc654a6bf],
      case_kernel = crc8_kernel 8,
      reg_inputs = [1, 5, 9, 13], reg5_init = 0x50d3fdb0,
      memory_keys = [0x00000330, 0x00000660, 0x00000cc0, 0x00001980, 0x00003300, 0x00006600, 0x0000cc00, 0x00019800],
      case_stmts = [(Minmax_Clamp, 3, 0, 3), (Add_Carry, 3, 1, 0), (Rotate_Mix, 3, 3, 2), (Multiply_Low, 2, 0, 1),
                    (Counted_Loop, 2, 3, 1), (Counted_Loop, 2, 2, 0), (Halfword_Swap, 2, 3, 3),
                    (Popcount_Loop, 5, 3, 1), (Reverse_Loop, 4, 2, 4), (Counted_Loop, 3, 4, 2), (Reverse_Loop, 0, 4, 0),
                    (Reverse_Loop, 0, 2, 5)]\<rparr>"

definition case_0817 :: "case_program" where
  "case_0817 =
     \<lparr>case_id = 817,
      case_input = [0xaae09cd7, 0x00000080, 0x4a8c7399, 0x6116d50c, 0x476ad54b, 0xf99bb73b, 0x74738008, 0x00000001,
                    0xaf668bf6, 0xe290a59a, 0x58b26e06, 0xdb5b8df9, 0x7361192b, 0xeb883dcb, 0xda26422a, 0xef6457c1],
      case_kernel = crc8_kernel 9,
      reg_inputs = [2, 6, 10, 14], reg5_init = 0xef0b7769,
      memory_keys = [0x00000331, 0x00000662, 0x00000cc4, 0x00001988, 0x00003310, 0x00006620, 0x0000cc40, 0x00019880],
      case_stmts = [(Endian_Swap, 0, 1, 2), (Add_Carry, 2, 5, 1), (Rotate_Mix, 3, 5, 4), (Reverse_Loop, 5, 0, 2),
                    (Sub_Borrow, 4, 5, 1), (Add_Carry, 0, 2, 3), (Rotate_Mix, 5, 4, 4), (Minmax_Clamp, 0, 4, 1),
                    (Popcount_Loop, 5, 3, 1), (Multiply_Low, 4, 4, 4), (Carry_Chain, 0, 2, 3), (Multiply_Low, 5, 4, 0)]\<rparr>"

definition case_0818 :: "case_program" where
  "case_0818 =
     \<lparr>case_id = 818,
      case_input = [0x6b66fc14, 0xbf4fcc19, 0x000000ff, 0x3506b24c, 0xb0aaefea, 0x3806c6bc, 0x846af4f2, 0xef53d343,
                    0xda725e7a, 0x2d1feac9, 0x5eb40e8e, 0xde618093, 0x346e9d7c, 0xa8da80db, 0x000000ff, 0x952928f7],
      case_kernel = crc8_kernel 10,
      reg_inputs = [3, 7, 11, 15], reg5_init = 0x8d42f122,
      memory_keys = [0x00000332, 0x00000664, 0x00000cc8, 0x00001990, 0x00003320, 0x00006640, 0x0000cc80, 0x00019900],
      case_stmts = [(Carry_Chain, 1, 5, 0), (Add_Carry, 1, 5, 4), (Rotate_Mix, 5, 4, 5), (Endian_Swap, 0, 0, 3),
                    (Endian_Swap, 4, 4, 5), (Rotate_Mix, 4, 4, 3), (Compare_Select, 3, 0, 5), (Endian_Swap, 0, 5, 2),
                    (Reverse_Loop, 4, 5, 0), (Mask_Merge, 4, 3, 0), (Add_Carry, 2, 2, 4), (Horner_Loop, 3, 5, 2)]\<rparr>"

definition case_0819 :: "case_program" where
  "case_0819 =
     \<lparr>case_id = 819,
      case_input = [0x2be4dc55, 0xa34e995e, 0xa9bf92d1, 0x00000100, 0xa6ff623f, 0xffffffff, 0xcd916b8b, 0x3da6158f,
                    0x3d3555ab, 0x6cf05806, 0xc832f9a9, 0x065773e2, 0xec685e95, 0x313c9a9d, 0x33ed50da, 0xbc19d989],
      case_kernel = crc8_kernel 11,
      reg_inputs = [4, 8, 12, 0], reg5_init = 0x2b7a6adb,
      memory_keys = [0x00000333, 0x00000666, 0x00000ccc, 0x00001998, 0x00003330, 0x00006660, 0x0000ccc0, 0x00019980],
      case_stmts = [(Horner_Loop, 2, 2, 5), (Add_Carry, 2, 5, 1), (Rotate_Mix, 1, 0, 1), (Halfword_Swap, 1, 0, 2),
                    (Compare_Select, 0, 4, 5), (Halfword_Swap, 2, 0, 2), (Divide_Rem, 0, 1, 0),
                    (Halfword_Swap, 5, 0, 4), (Endian_Swap, 1, 2, 3), (Short_Circuit, 3, 1, 2), (Add_Carry, 2, 2, 5),
                    (Counted_Loop, 4, 1, 1)]\<rparr>"

definition case_0820 :: "case_program" where
  "case_0820 =
     \<lparr>case_id = 820,
      case_input = [0xe86a3d93, 0xf74e3388, 0x7973130e, 0x2b2d84e7, 0x7fffffff, 0xd7842474, 0x73469d08, 0x4f9f2139,
                    0x80486dbf, 0x3ce6ce26, 0x425078be, 0x07f458b8, 0x0000007f, 0x9b9e9af2, 0x8ed4bf56, 0xafc7af83],
      case_kernel = crc8_kernel 12,
      reg_inputs = [5, 9, 13, 1], reg5_init = 0xc9b1e494,
      memory_keys = [0x00000334, 0x00000668, 0x00000cd0, 0x000019a0, 0x00003340, 0x00006680, 0x0000cd00, 0x00019a00],
      case_stmts = [(Add_Carry, 4, 3, 5), (Sub_Borrow, 4, 2, 3), (Rotate_Mix, 3, 4, 1), (Rotate_Mix, 5, 4, 1),
                    (Short_Circuit, 3, 0, 4), (Switch_Phi, 5, 4, 0), (Array_Scatter, 5, 3, 1), (Minmax_Clamp, 0, 5, 4),
                    (Counted_Loop, 2, 3, 2), (Horner_Loop, 3, 2, 4), (Carry_Chain, 3, 0, 3), (Rotate_Mix, 4, 2, 0)]\<rparr>"

definition case_0821 :: "case_program" where
  "case_0821 =
     \<lparr>case_id = 821,
      case_input = [0xa8e81dd2, 0xeb4f66cf, 0x8cebb108, 0x80000000, 0x8647bba2, 0x80000000, 0x3abd0271, 0x9d6ae7f5,
                    0x670f666e, 0x7d097ce9, 0xd4d68f99, 0xdfc2abc9, 0x2236aed4, 0x027880b4, 0x536eae6f, 0x86f75efd],
      case_kernel = crc8_kernel 13,
      reg_inputs = [6, 10, 14, 2], reg5_init = 0x67e95e4d,
      memory_keys = [0x00000335, 0x0000066a, 0x00000cd4, 0x000019a8, 0x00003350, 0x000066a0, 0x0000cd40, 0x00019a80],
      case_stmts = [(Sub_Borrow, 5, 2, 0), (Sub_Borrow, 3, 0, 4), (Rotate_Mix, 5, 2, 5), (Gray_Decode, 4, 0, 4),
                    (Byte_Pack, 1, 4, 2), (Endian_Swap, 5, 4, 3), (Horner_Loop, 2, 4, 4), (Mask_Merge, 3, 0, 4),
                    (Endian_Swap, 5, 0, 1), (Rotate_Mix, 0, 0, 4), (Compare_Select, 1, 0, 2), (Gray_Decode, 1, 2, 1)]\<rparr>"

definition case_0822 :: "case_program" where
  "case_0822 =
     \<lparr>case_id = 822,
      case_input = [0x696e7d11, 0xcf4e9907, 0x9a40f246, 0xdf349681, 0x71878103, 0x05fa1ef0, 0xfffffffe, 0x97c9e47f,
                    0x121bb3e2, 0xb28633ba, 0x00000002, 0xdaf8a6a3, 0x65392a83, 0x412a3da4, 0x671fada6, 0xfcba21cb],
      case_kernel = crc8_kernel 14,
      reg_inputs = [7, 11, 15, 3], reg5_init = 0x0620d806,
      memory_keys = [0x00000336, 0x0000066c, 0x00000cd8, 0x000019b0, 0x00003360, 0x000066c0, 0x0000cd80, 0x00019b00],
      case_stmts = [(Rotate_Mix, 0, 2, 0), (Sub_Borrow, 0, 4, 5), (Rotate_Mix, 3, 1, 4), (Minmax_Clamp, 3, 2, 5),
                    (Switch_Phi, 1, 3, 0), (Horner_Loop, 3, 0, 5), (Multiply_Low, 2, 4, 1), (Minmax_Clamp, 3, 3, 5),
                    (Reverse_Loop, 0, 0, 4), (Minmax_Clamp, 2, 5, 2), (Short_Circuit, 3, 2, 1), (Switch_Phi, 1, 5, 3)]\<rparr>"

definition case_0823 :: "case_program" where
  "case_0823 =
     \<lparr>case_id = 823,
      case_input = [0x29ec5d50, 0x00000100, 0x6fd85040, 0x7f3de3a7, 0x67d20cd6, 0x161955f3, 0x835fe9f2, 0xffffffff,
                    0xf55cb833, 0xf3698175, 0x44561836, 0x02ce55d2, 0xbd3fe96a, 0xd8cc27e2, 0xbaa5bc9f, 0xd58ad0b5],
      case_kernel = crc8_kernel 15,
      reg_inputs = [8, 12, 0, 4], reg5_init = 0xa45851bf,
      memory_keys = [0x00000337, 0x0000066e, 0x00000cdc, 0x000019b8, 0x00003370, 0x000066e0, 0x0000cdc0, 0x00019b80],
      case_stmts = [(Multiply_Low, 5, 3, 5), (Sub_Borrow, 1, 4, 4), (Rotate_Mix, 1, 5, 0), (Array_Scatter, 0, 2, 2),
                    (Minmax_Clamp, 5, 1, 0), (Endian_Swap, 1, 2, 2), (Popcount_Loop, 1, 5, 2), (Mask_Merge, 2, 2, 1),
                    (Array_Scatter, 1, 1, 5), (Array_Scatter, 1, 1, 4), (Minmax_Clamp, 1, 0, 0),
                    (Reverse_Loop, 2, 3, 4)]\<rparr>"

definition case_0824 :: "case_program" where
  "case_0824 =
     \<lparr>case_id = 824,
      case_input = [0xee73be9c, 0x674dccaa, 0x33db54bc, 0x157be9b0, 0xd165854d, 0x91874ca1, 0x3913b6c7, 0x623e8046,
                    0x00000000, 0xa0b1ec75, 0xae663808, 0x94146fd3, 0xeb21bb85, 0xe0188e9f, 0x8c7a0ac5, 0x95bc0433],
      case_kernel = crc8_kernel 4,
      reg_inputs = [9, 13, 1, 5], reg5_init = 0x428fcb78,
      memory_keys = [0x00000338, 0x00000670, 0x00000ce0, 0x000019c0, 0x00003380, 0x00006700, 0x0000ce00, 0x00019c00],
      case_stmts = [(Divide_Rem, 3, 3, 0), (Sub_Borrow, 0, 5, 0), (Rotate_Mix, 3, 4, 2), (Popcount_Loop, 0, 4, 5),
                    (Counted_Loop, 2, 4, 4), (Mask_Merge, 1, 1, 1), (Carry_Chain, 4, 1, 4), (Carry_Chain, 3, 1, 0),
                    (Switch_Phi, 2, 3, 0), (Short_Circuit, 4, 2, 0), (Mask_Merge, 4, 3, 0), (Minmax_Clamp, 4, 4, 5)]\<rparr>"

definition case_0825 :: "case_program" where
  "case_0825 =
     \<lparr>case_id = 825,
      case_input = [0x00000000, 0x7b4c99ed, 0xc643f6ba, 0xb5729c96, 0xc7300898, 0x826407a2, 0x70e829be, 0xb0cb468a,
                    0x5b8fb008, 0xe15e5eba, 0x38e0cf2f, 0x4c229ca2, 0x3327786c, 0x79fe94d9, 0x51c01bfc, 0xbc8cf54d],
      case_kernel = saturating_kernel,
      reg_inputs = [10, 14, 2, 6], reg5_init = 0xe0c74531,
      memory_keys = [0x00000339, 0x00000672, 0x00000ce4, 0x000019c8, 0x00003390, 0x00006720, 0x0000ce40, 0x00019c80],
      case_stmts = [(Mask_Merge, 4, 2, 5), (Sub_Borrow, 1, 5, 3), (Rotate_Mix, 5, 2, 2), (Divide_Rem, 5, 4, 0),
                    (Popcount_Loop, 4, 0, 4), (Byte_Pack, 3, 1, 0), (Halfword_Swap, 5, 2, 3), (Byte_Pack, 4, 0, 0),
                    (Short_Circuit, 3, 0, 1), (Sub_Borrow, 5, 2, 4), (Mask_Merge, 2, 3, 5), (Popcount_Loop, 5, 0, 4)]\<rparr>"

definition case_0826 :: "case_program" where
  "case_0826 =
     \<lparr>case_id = 826,
      case_input = [0x6f77fe1e, 0x00000001, 0xd0e8b5f4, 0xe162fbd6, 0x30f03239, 0x43f97625, 0x80f15d44, 0xba684500,
                    0x2e9b6584, 0x2ed111e9, 0x3ee6afa7, 0x491891c8, 0x7428fc3b, 0x3aac29c9, 0x65b11835, 0xc6c18a7b],
      case_kernel = saturating_kernel,
      reg_inputs = [11, 15, 3, 7], reg5_init = 0x7efebeea,
      memory_keys = [0x0000033a, 0x00000674, 0x00000ce8, 0x000019d0, 0x000033a0, 0x00006740, 0x0000ce80, 0x00019d00],
      case_stmts = [(Compare_Select, 1, 4, 3), (Sub_Borrow, 4, 5, 2), (Rotate_Mix, 5, 3, 1), (Switch_Phi, 4, 4, 3),
                    (Sub_Borrow, 0, 3, 2), (Popcount_Loop, 1, 5, 0), (Minmax_Clamp, 5, 0, 4), (Rotate_Mix, 0, 5, 1),
                    (Horner_Loop, 0, 0, 2), (Horner_Loop, 3, 3, 2), (Horner_Loop, 4, 3, 4), (Popcount_Loop, 3, 1, 2)]\<rparr>"

definition case_0827 :: "case_program" where
  "case_0827 =
     \<lparr>case_id = 827,
      case_input = [0x2ff5de5f, 0x434c3362, 0x00000002, 0x416b8ef0, 0x26a5bfec, 0x501a3d26, 0xc90ac23d, 0x689d83cc,
                    0xc9dc6e55, 0x6f3ea326, 0xa8605880, 0x912e62b9, 0xac2e3fd2, 0xa34a338f, 0xb80b090c, 0xeff17b05],
      case_kernel = saturating_kernel,
      reg_inputs = [12, 0, 4, 8], reg5_init = 0x1d3638a3,
      memory_keys = [0x0000033b, 0x00000676, 0x00000cec, 0x000019d8, 0x000033b0, 0x00006760, 0x0000cec0, 0x00019d80],
      case_stmts = [(Byte_Pack, 2, 3, 4), (Sub_Borrow, 1, 1, 5), (Rotate_Mix, 5, 3, 5), (Rotate_Mix, 1, 2, 2),
                    (Carry_Chain, 4, 3, 2), (Switch_Phi, 1, 3, 3), (Compare_Select, 2, 5, 3), (Gray_Decode, 3, 0, 3),
                    (Minmax_Clamp, 5, 3, 5), (Compare_Select, 4, 5, 4), (Gray_Decode, 4, 5, 3), (Divide_Rem, 4, 3, 5)]\<rparr>"

definition case_0828 :: "case_program" where
  "case_0828 =
     \<lparr>case_id = 828,
      case_input = [0xec7b3f99, 0x174c99b4, 0xf5bc962d, 0x00000003, 0x1048eba4, 0xac7b94ed, 0x77dd34be, 0x1aa4b77a,
                    0x74a15641, 0x3f283506, 0x2202d997, 0x908d49e3, 0xba760c7a, 0x09e833e0, 0x0532e680, 0xfc2f0d0f],
      case_kernel = saturating_kernel,
      reg_inputs = [13, 1, 5, 9], reg5_init = 0xbb6db25c,
      memory_keys = [0x0000033c, 0x00000678, 0x00000cf0, 0x000019e0, 0x000033c0, 0x00006780, 0x0000cf00, 0x00019e00],
      case_stmts = [(Halfword_Swap, 0, 2, 2), (Sub_Borrow, 5, 4, 5), (Rotate_Mix, 1, 5, 5), (Short_Circuit, 1, 0, 1),
                    (Minmax_Clamp, 5, 1, 5), (Short_Circuit, 0, 5, 1), (Byte_Pack, 5, 1, 4), (Multiply_Low, 0, 1, 5),
                    (Horner_Loop, 2, 4, 2), (Mask_Merge, 2, 4, 4), (Mask_Merge, 5, 1, 3), (Add_Carry, 2, 0, 4)]\<rparr>"

definition case_0829 :: "case_program" where
  "case_0829 =
     \<lparr>case_id = 829,
      case_input = [0xacf91fd8, 0x0b4dccf3, 0x0024342b, 0x5f40b85b, 0x0000007f, 0xbf98dfee, 0x3e26abc7, 0xc85171b6,
                    0x93e65d90, 0x7ec787c9, 0xb4842eb0, 0x48bbba92, 0x6270cf93, 0x900e29a6, 0xd888f7b9, 0xd51ffc71],
      case_kernel = saturating_kernel,
      reg_inputs = [14, 2, 6, 10], reg5_init = 0x59a52c15,
      memory_keys = [0x0000033d, 0x0000067a, 0x00000cf4, 0x000019e8, 0x000033d0, 0x000067a0, 0x0000cf40, 0x00019e80],
      case_stmts = [(Array_Scatter, 5, 5, 3), (Sub_Borrow, 0, 4, 0), (Rotate_Mix, 5, 5, 1), (Mask_Merge, 4, 4, 4),
                    (Horner_Loop, 5, 3, 3), (Reverse_Loop, 2, 3, 0), (Sub_Borrow, 2, 0, 1), (Reverse_Loop, 5, 2, 3),
                    (Minmax_Clamp, 5, 1, 1), (Short_Circuit, 5, 2, 2), (Endian_Swap, 3, 5, 2),
                    (Popcount_Loop, 5, 0, 1)]\<rparr>"

definition case_0830 :: "case_program" where
  "case_0830 =
     \<lparr>case_id = 830,
      case_input = [0x6d7f7f1b, 0x2f4c333b, 0x168f7765, 0x0b50df1b, 0xf1dd5cd0, 0x00000080, 0xce3fdf3d, 0xc2f2723c,
                    0xe6f2881c, 0xb148c89a, 0xb2824e38, 0x4d81b7f8, 0x257f4bc4, 0xd35c94b6, 0xecf9f470, 0xaf528347],
      case_kernel = saturating_kernel,
      reg_inputs = [15, 3, 7, 11], reg5_init = 0xf7dca5ce,
      memory_keys = [0x0000033e, 0x0000067c, 0x00000cf8, 0x000019f0, 0x000033e0, 0x000067c0, 0x0000cf80, 0x00019f00],
      case_stmts = [(Counted_Loop, 0, 3, 3), (Sub_Borrow, 5, 0, 5), (Rotate_Mix, 5, 0, 4), (Counted_Loop, 5, 2, 3),
                    (Horner_Loop, 3, 2, 1), (Halfword_Swap, 4, 5, 0), (Popcount_Loop, 4, 4, 4), (Switch_Phi, 3, 5, 0),
                    (Byte_Pack, 2, 1, 0), (Compare_Select, 5, 1, 4), (Gray_Decode, 3, 5, 3), (Endian_Swap, 1, 1, 5)]\<rparr>"

definition case_0831 :: "case_program" where
  "case_0831 =
     \<lparr>case_id = 831,
      case_input = [0x2dfd5f5a, 0x334d667c, 0xe317d563, 0xab59aa3d, 0xe788d105, 0x6de6e56a, 0x000000ff, 0x1007b4f0,
                    0x01b583cd, 0xf0a77a55, 0x2404b91f, 0x95b74489, 0xfd79882d, 0x4aba8ef0, 0x3143e549, 0x86627239],
      case_kernel = saturating_kernel,
      reg_inputs = [0, 4, 8, 12], reg5_init = 0x96141f87,
      memory_keys = [0x0000033f, 0x0000067e, 0x00000cfc, 0x000019f8, 0x000033f0, 0x000067e0, 0x0000cfc0, 0x00019f80],
      case_stmts = [(Switch_Phi, 5, 2, 2), (Sub_Borrow, 0, 2, 0), (Rotate_Mix, 3, 2, 2), (Multiply_Low, 0, 2, 0),
                    (Minmax_Clamp, 5, 0, 1), (Rotate_Mix, 4, 1, 5), (Byte_Pack, 1, 5, 5), (Carry_Chain, 0, 4, 4),
                    (Add_Carry, 5, 2, 5), (Multiply_Low, 0, 3, 2), (Switch_Phi, 5, 5, 4), (Minmax_Clamp, 2, 1, 0)]\<rparr>"

definition case_0832 :: "case_program" where
  "case_0832 =
     \<lparr>case_id = 832,
      case_input = [0xd28ca0fa, 0xc755cbfc, 0xfbc9e64e, 0x937a59a0, 0x26342036, 0x1ba269ea, 0xe7978ca8, 0x00000100,
                    0x359f3b2c, 0xe18f3a96, 0xb1b596ce, 0xf254177b, 0xd985c7f5, 0x680a1d66, 0xe67c97e8, 0xfc337b6a],
      case_kernel = saturating_kernel,
      reg_inputs = [1, 5, 9, 13], reg5_init = 0x344b9940,
      memory_keys = [0x00000340, 0x00000680, 0x00000d00, 0x00001a00, 0x00003400, 0x00006800, 0x0000d000, 0x0001a000],
      case_stmts = [(Short_Circuit, 0, 5, 0), (Sub_Borrow, 0, 4, 3), (Rotate_Mix, 2, 3, 1), (Multiply_Low, 3, 1, 2),
                    (Divide_Rem, 0, 2, 5), (Byte_Pack, 4, 2, 1), (Reverse_Loop, 1, 4, 0), (Popcount_Loop, 2, 4, 3),
                    (Add_Carry, 3, 2, 1), (Gray_Decode, 3, 3, 5), (Mask_Merge, 5, 2, 2), (Mask_Merge, 3, 4, 0)]\<rparr>"

definition case_0833 :: "case_program" where
  "case_0833 =
     \<lparr>case_id = 833,
      case_input = [0x920e80bb, 0xdb549ebb, 0x0e514448, 0x33732c86, 0x3061ade3, 0x084122e9, 0xae6c13d1, 0xa70fa4be,
                    0x7fffffff, 0xa0608859, 0x273361e9, 0x2a62e40a, 0x0183041c, 0xf1ec0720, 0x3bc686d1, 0xd5038a14],
      case_kernel = saturating_kernel,
      reg_inputs = [2, 6, 10, 14], reg5_init = 0xd28312f9,
      memory_keys = [0x00000341, 0x00000682, 0x00000d04, 0x00001a08, 0x00003410, 0x00006820, 0x0000d040, 0x0001a080],
      case_stmts = [(Popcount_Loop, 5, 2, 1), (Sub_Borrow, 5, 4, 2), (Rotate_Mix, 0, 5, 1), (Compare_Select, 4, 5, 1),
                    (Byte_Pack, 2, 4, 5), (Sub_Borrow, 0, 4, 2), (Add_Carry, 4, 5, 3), (Add_Carry, 1, 1, 3),
                    (Byte_Pack, 4, 1, 4), (Rotate_Mix, 4, 5, 5), (Endian_Swap, 1, 0, 1), (Short_Circuit, 2, 4, 5)]\<rparr>"

definition case_0834 :: "case_program" where
  "case_0834 =
     \<lparr>case_id = 834,
      case_input = [0x5388e078, 0xff556173, 0x18fa0706, 0x67634bc6, 0xc7a19742, 0xc9dc536e, 0x5e75672b, 0xadaca734,
                    0xa7cce571, 0x80000000, 0x21350161, 0x2f58e960, 0x468c804b, 0xb2beba30, 0x0fb78518, 0xaf4ef522],
      case_kernel = saturating_kernel,
      reg_inputs = [3, 7, 11, 15], reg5_init = 0x70ba8cb2,
      memory_keys = [0x00000342, 0x00000684, 0x00000d08, 0x00001a10, 0x00003420, 0x00006840, 0x0000d080, 0x0001a100],
      case_stmts = [(Reverse_Loop, 2, 2, 1), (Sub_Borrow, 0, 4, 3), (Rotate_Mix, 0, 0, 0), (Mask_Merge, 5, 1, 4),
                    (Byte_Pack, 0, 1, 5), (Byte_Pack, 2, 2, 2), (Divide_Rem, 4, 3, 0), (Array_Scatter, 5, 4, 0),
                    (Minmax_Clamp, 1, 5, 1), (Halfword_Swap, 4, 4, 1), (Byte_Pack, 1, 4, 4), (Short_Circuit, 4, 1, 3)]\<rparr>"

definition case_0835 :: "case_program" where
  "case_0835 =
     \<lparr>case_id = 835,
      case_input = [0x130ac039, 0xe3543434, 0xed62a500, 0xc76a3ee0, 0xd1f41a97, 0xda3f186d, 0x178ef852, 0x7f5961f8,
                    0x408beea0, 0x2e0075c5, 0xfffffffe, 0xf76e1a11, 0x9e8a43a2, 0x2b58a076, 0xd20d9421, 0x867e045c],
      case_kernel = saturating_kernel,
      reg_inputs = [4, 8, 12, 0], reg5_init = 0x0ef2066b,
      memory_keys = [0x00000343, 0x00000686, 0x00000d0c, 0x00001a18, 0x00003430, 0x00006860, 0x0000d0c0, 0x0001a180],
      case_stmts = [(Gray_Decode, 1, 5, 4), (Sub_Borrow, 5, 0, 4), (Rotate_Mix, 2, 2, 4), (Halfword_Swap, 0, 1, 1),
                    (Add_Carry, 2, 1, 5), (Endian_Swap, 2, 2, 3), (Counted_Loop, 5, 4, 3), (Add_Carry, 0, 1, 4),
                    (Horner_Loop, 0, 2, 2), (Endian_Swap, 5, 0, 1), (Horner_Loop, 1, 2, 5), (Endian_Swap, 5, 1, 4)]\<rparr>"

definition case_0836 :: "case_program" where
  "case_0836 =
     \<lparr>case_id = 836,
      case_input = [0xd08421ff, 0xb7549ee2, 0x3dae24df, 0x79487d6d, 0xe7194edf, 0x265eb1a6, 0xa9590ed1, 0x0d60554e,
                    0xfdf6d6b4, 0x7e16e3e5, 0x3dd17751, 0xffffffff, 0x88d2700a, 0x81faa019, 0x6f347bad, 0x95a07256],
      case_kernel = saturating_kernel,
      reg_inputs = [5, 9, 13, 1], reg5_init = 0xad298024,
      memory_keys = [0x00000344, 0x00000688, 0x00000d10, 0x00001a20, 0x00003440, 0x00006880, 0x0000d100, 0x0001a200],
      case_stmts = [(Minmax_Clamp, 1, 2, 2), (Sub_Borrow, 3, 1, 2), (Rotate_Mix, 2, 0, 4), (Counted_Loop, 4, 1, 0),
                    (Rotate_Mix, 1, 1, 2), (Counted_Loop, 1, 0, 3), (Byte_Pack, 4, 4, 0), (Add_Carry, 5, 2, 4),
                    (Short_Circuit, 1, 1, 3), (Counted_Loop, 3, 5, 3), (Popcount_Loop, 2, 4, 3), (Mask_Merge, 5, 4, 5)]\<rparr>"

definition case_0837 :: "case_program" where
  "case_0837 =
     \<lparr>case_id = 837,
      case_input = [0x900601be, 0xab55cba5, 0xc83686d9, 0xd941084b, 0x00000000, 0x35bdfaa5, 0xe0a291a8, 0xdf959382,
                    0x1ab1dd65, 0x3ff9512a, 0xab578076, 0x2efbc23a, 0x00000000, 0x181cba5f, 0xb28e6a94, 0xbc908328],
      case_kernel = saturating_kernel,
      reg_inputs = [6, 10, 14, 2], reg5_init = 0x4b60f9dd,
      memory_keys = [0x00000345, 0x0000068a, 0x00000d14, 0x00001a28, 0x00003450, 0x000068a0, 0x0000d140, 0x0001a280],
      case_stmts = [(Endian_Swap, 2, 5, 3), (Sub_Borrow, 2, 1, 5), (Rotate_Mix, 2, 0, 0), (Gray_Decode, 3, 5, 1),
                    (Array_Scatter, 1, 1, 0), (Halfword_Swap, 3, 4, 2), (Endian_Swap, 1, 3, 1),
                    (Array_Scatter, 4, 3, 0), (Multiply_Low, 4, 4, 4), (Multiply_Low, 4, 5, 5), (Endian_Swap, 4, 2, 2),
                    (Add_Carry, 4, 2, 2)]\<rparr>"

definition case_0838 :: "case_program" where
  "case_0838 =
     \<lparr>case_id = 838,
      case_input = [0x5180617d, 0x8f54346d, 0xde9dc597, 0x8d516f0b, 0x068cf9ab, 0xf4208b22, 0x10bbe552, 0xd5369008,
                    0x6fa508e9, 0xf0761e79, 0xad51e0fe, 0x00000080, 0x17db37b4, 0x00000001, 0x86ff695d, 0xc6ddfc1e],
      case_kernel = saturating_kernel,
      reg_inputs = [7, 11, 15, 3], reg5_init = 0xe9987396,
      memory_keys = [0x00000346, 0x0000068c, 0x00000d18, 0x00001a30, 0x00003460, 0x000068c0, 0x0000d180, 0x0001a300],
      case_stmts = [(Carry_Chain, 1, 5, 5), (Sub_Borrow, 1, 1, 2), (Rotate_Mix, 0, 1, 3), (Short_Circuit, 4, 5, 0),
                    (Sub_Borrow, 1, 0, 0), (Compare_Select, 5, 2, 2), (Endian_Swap, 5, 5, 0), (Divide_Rem, 4, 2, 5),
                    (Add_Carry, 1, 0, 5), (Array_Scatter, 0, 4, 5), (Switch_Phi, 0, 2, 5), (Divide_Rem, 4, 3, 4)]\<rparr>"

definition case_0839 :: "case_program" where
  "case_0839 =
     \<lparr>case_id = 839,
      case_input = [0x1102413c, 0x9355612a, 0xfffffffe, 0x2d581a2d, 0x10d9747e, 0xe7c3c021, 0x59407a2b, 0x07c356c4,
                    0x88e20338, 0xb199acb6, 0x3bd717d9, 0xf3f73c21, 0xcfddf45d, 0xc2a81d09, 0x00000002, 0xefed0d60],
      case_kernel = saturating_kernel,
      reg_inputs = [8, 12, 0, 4], reg5_init = 0x87cfed4f,
      memory_keys = [0x00000347, 0x0000068e, 0x00000d1c, 0x00001a38, 0x00003470, 0x000068e0, 0x0000d1c0, 0x0001a380],
      case_stmts = [(Horner_Loop, 2, 2, 0), (Sub_Borrow, 4, 1, 3), (Rotate_Mix, 4, 3, 5), (Endian_Swap, 5, 1, 1),
                    (Compare_Select, 1, 0, 0), (Divide_Rem, 3, 0, 1), (Multiply_Low, 2, 2, 5), (Endian_Swap, 3, 5, 3),
                    (Switch_Phi, 4, 3, 4), (Short_Circuit, 3, 0, 5), (Multiply_Low, 0, 2, 2), (Sub_Borrow, 1, 5, 1)]\<rparr>"

definition case_0840 :: "case_program" where
  "case_0840 =
     \<lparr>case_id = 840,
      case_input = [0xd69da2f0, 0x275761c0, 0x7706636d, 0x471e103a, 0xa66efde5, 0x605dd973, 0xe30c251e, 0x20c1f431,
                    0xc17600d2, 0x00000003, 0xd1e737e7, 0x652d0620, 0x99c3a6b2, 0xfa7cb474, 0x6d9ace3e, 0x00000003],
      case_kernel = saturating_kernel,
      reg_inputs = [9, 13, 1, 5], reg5_init = 0x26076708,
      memory_keys = [0x00000348, 0x00000690, 0x00000d20, 0x00001a40, 0x00003480, 0x00006900, 0x0000d200, 0x0001a400],
      case_stmts = [(Add_Carry, 0, 0, 1), (Rotate_Mix, 5, 2, 5), (Rotate_Mix, 2, 4, 5), (Endian_Swap, 1, 3, 2),
                    (Minmax_Clamp, 2, 3, 4), (Short_Circuit, 5, 1, 4), (Short_Circuit, 3, 0, 5),
                    (Counted_Loop, 2, 4, 0), (Popcount_Loop, 3, 5, 5), (Sub_Borrow, 4, 1, 5), (Compare_Select, 1, 1, 2),
                    (Byte_Pack, 5, 0, 0)]\<rparr>"

definition case_0841 :: "case_program" where
  "case_0841 =
     \<lparr>case_id = 841,
      case_input = [0x7fffffff, 0x3b563487, 0x829ec16b, 0xe717651c, 0xb03b7030, 0x73be9270, 0xaaf7ba67, 0xf23432fd,
                    0x26310b03, 0xa3ae7379, 0x4761c0c0, 0xbd1bf551, 0x41c5655b, 0x639aae32, 0xb020df07, 0x86eb2898],
      case_kernel = saturating_kernel,
      reg_inputs = [10, 14, 2, 6], reg5_init = 0xc43ee0c1,
      memory_keys = [0x00000349, 0x00000692, 0x00000d24, 0x00001a48, 0x00003490, 0x00006920, 0x0000d240, 0x0001a480],
      case_stmts = [(Sub_Borrow, 3, 3, 4), (Rotate_Mix, 0, 2, 2), (Rotate_Mix, 0, 0, 1), (Add_Carry, 0, 1, 3),
                    (Switch_Phi, 2, 1, 0), (Rotate_Mix, 3, 1, 5), (Reverse_Loop, 0, 3, 4), (Multiply_Low, 3, 3, 2),
                    (Counted_Loop, 0, 0, 0), (Divide_Rem, 1, 5, 5), (Carry_Chain, 5, 1, 5), (Rotate_Mix, 0, 4, 1)]\<rparr>"

definition case_0842 :: "case_program" where
  "case_0842 =
     \<lparr>case_id = 842,
      case_input = [0x5799e272, 0x00000080, 0x94358225, 0xb307025c, 0x47fb4a91, 0xb223e3f7, 0x5aeece9d, 0x00000001,
                    0x5325de8f, 0x6c213c2a, 0x4167a048, 0xb821f83b, 0x06cae10c, 0x20c81322, 0x8451dcce, 0xfca657ae],
      case_kernel = saturating_kernel,
      reg_inputs = [11, 15, 3, 7], reg5_init = 0x62765a7a,
      memory_keys = [0x0000034a, 0x00000694, 0x00000d28, 0x00001a50, 0x000034a0, 0x00006940, 0x0000d280, 0x0001a500],
      case_stmts = [(Rotate_Mix, 4, 5, 4), (Rotate_Mix, 3, 4, 3), (Rotate_Mix, 4, 3, 0), (Multiply_Low, 5, 3, 2),
                    (Horner_Loop, 2, 2, 4), (Halfword_Swap, 1, 5, 3), (Counted_Loop, 0, 5, 5), (Rotate_Mix, 1, 4, 1),
                    (Popcount_Loop, 5, 4, 1), (Compare_Select, 5, 2, 1), (Halfword_Swap, 3, 5, 0),
                    (Reverse_Loop, 2, 5, 5)]\<rparr>"

definition case_0843 :: "case_program" where
  "case_0843 =
     \<lparr>case_id = 843,
      case_input = [0x171bc233, 0x03569e08, 0x000000ff, 0x130e777a, 0x51aec744, 0xa1c0a8f4, 0x131551e4, 0x2a62f7bb,
                    0xb462d55e, 0x2dce8ee5, 0xd7e1576f, 0x60170b4a, 0xdecc22e5, 0xb92e0964, 0x000000ff, 0xd596a6d0],
      case_kernel = saturating_kernel,
      reg_inputs = [12, 0, 4, 8], reg5_init = 0x00add433,
      memory_keys = [0x0000034b, 0x00000696, 0x00000d2c, 0x00001a58, 0x000034b0, 0x00006960, 0x0000d2c0, 0x0001a580],
      case_stmts = [(Multiply_Low, 5, 2, 3), (Rotate_Mix, 2, 4, 0), (Rotate_Mix, 2, 5, 2), (Compare_Select, 2, 1, 3),
                    (Add_Carry, 4, 4, 0), (Reverse_Loop, 3, 1, 2), (Short_Circuit, 3, 4, 0), (Gray_Decode, 2, 1, 5),
                    (Reverse_Loop, 0, 1, 2), (Horner_Loop, 0, 4, 3), (Divide_Rem, 1, 3, 1), (Horner_Loop, 5, 3, 0)]\<rparr>"

definition case_0844 :: "case_program" where
  "case_0844 =
     \<lparr>case_id = 844,
      case_input = [0xd49523f5, 0x575634de, 0xb161a1fc, 0x00000100, 0x6743930c, 0xffffffff, 0xadc2a767, 0x585bc30d,
                    0x091fed4a, 0x7dd818c5, 0x5d83d678, 0x61b42010, 0xc894114d, 0x138c090b, 0xe4d2227b, 0xc648d0da],
      case_kernel = saturating_kernel,
      reg_inputs = [13, 1, 5, 9], reg5_init = 0x9ee54dec,
      memory_keys = [0x0000034c, 0x00000698, 0x00000d30, 0x00001a60, 0x000034c0, 0x00006980, 0x0000d300, 0x0001a600],
      case_stmts = [(Divide_Rem, 1, 3, 5), (Rotate_Mix, 2, 5, 4), (Rotate_Mix, 4, 5, 4), (Divide_Rem, 4, 5, 2),
                    (Compare_Select, 1, 2, 3), (Sub_Borrow, 0, 3, 4), (Array_Scatter, 2, 2, 1), (Switch_Phi, 3, 4, 5),
                    (Sub_Borrow, 1, 0, 3), (Halfword_Swap, 0, 1, 5), (Rotate_Mix, 2, 5, 1), (Multiply_Low, 3, 4, 1)]\<rparr>"

definition case_0845 :: "case_program" where
  "case_0845 =
     \<lparr>case_id = 845,
      case_input = [0x941703b4, 0x4b576199, 0x44f903fa, 0x0d2541d1, 0x7fffffff, 0x4e424a3c, 0xe439381e, 0x8aae05c1,
                    0xee58e69b, 0x3c37aa0a, 0xcb05215f, 0xb982d361, 0x0000007f, 0x8a6a134d, 0x39683342, 0xef7821a4],
      case_kernel = saturating_kernel,
      reg_inputs = [14, 2, 6, 10], reg5_init = 0x3d1cc7a5,
      memory_keys = [0x0000034d, 0x0000069a, 0x00000d34, 0x00001a68, 0x000034d0, 0x000069a0, 0x0000d340, 0x0001a680],
      case_stmts = [(Mask_Merge, 4, 0, 2), (Rotate_Mix, 3, 3, 3), (Rotate_Mix, 2, 3, 2), (Array_Scatter, 5, 5, 1),
                    (Sub_Borrow, 5, 2, 3), (Switch_Phi, 4, 5, 5), (Multiply_Low, 3, 5, 2), (Rotate_Mix, 2, 1, 5),
                    (Carry_Chain, 2, 1, 4), (Array_Scatter, 5, 3, 5), (Counted_Loop, 4, 3, 2), (Counted_Loop, 4, 4, 4)]\<rparr>"

definition case_0846 :: "case_program" where
  "case_0846 =
     \<lparr>case_id = 846,
      case_input = [0x55916377, 0x6f569e51, 0x525240b4, 0x80000000, 0x86d62478, 0x80000000, 0x14204ce4, 0x800d064b,
                    0x9b4c3317, 0xf3b8e559, 0xcd0341d7, 0xbcb8de0b, 0x579d56f3, 0xc938ae5d, 0x0d19308b, 0x95355e92],
      case_kernel = saturating_kernel,
      reg_inputs = [15, 3, 7, 11], reg5_init = 0xdb54415e,
      memory_keys = [0x0000034e, 0x0000069c, 0x00000d38, 0x00001a70, 0x000034e0, 0x000069c0, 0x0000d380, 0x0001a700],
      case_stmts = [(Compare_Select, 1, 0, 0), (Rotate_Mix, 0, 1, 4), (Rotate_Mix, 4, 4, 5), (Counted_Loop, 4, 1, 4),
                    (Sub_Borrow, 5, 5, 1), (Endian_Swap, 4, 1, 1), (Switch_Phi, 1, 5, 3), (Horner_Loop, 0, 2, 0),
                    (Popcount_Loop, 3, 3, 3), (Multiply_Low, 5, 0, 1), (Add_Carry, 2, 5, 3), (Carry_Chain, 2, 5, 2)]\<rparr>"

definition case_0847 :: "case_program" where
  "case_0847 =
     \<lparr>case_id = 847,
      case_input = [0x15134336, 0x7357cb16, 0xa7cae2b2, 0xf93c53b7, 0x9083a9ad, 0x9c3c70b8, 0xfffffffe, 0x52f8c087,
                    0x7c0b38c6, 0xb2575796, 0x00000002, 0x648e2d7a, 0x8f9b951a, 0x50deb41b, 0xd0a321b2, 0xbc05afec],
      case_kernel = saturating_kernel,
      reg_inputs = [0, 4, 8, 12], reg5_init = 0x798bbb17,
      memory_keys = [0x0000034f, 0x0000069e, 0x00000d3c, 0x00001a78, 0x000034f0, 0x000069e0, 0x0000d3c0, 0x0001a780],
      case_stmts = [(Byte_Pack, 2, 5, 5), (Rotate_Mix, 5, 1, 3), (Rotate_Mix, 4, 2, 5), (Gray_Decode, 1, 3, 1),
                    (Carry_Chain, 1, 3, 3), (Byte_Pack, 0, 3, 0), (Mask_Merge, 0, 4, 0), (Counted_Loop, 5, 1, 4),
                    (Reverse_Loop, 0, 2, 0), (Reverse_Loop, 0, 0, 1), (Minmax_Clamp, 4, 1, 4), (Switch_Phi, 3, 1, 5)]\<rparr>"

definition case_0848 :: "case_program" where
  "case_0848 =
     \<lparr>case_id = 848,
      case_input = [0xdaaea4ee, 0x00000100, 0xe056ec08, 0x39b4ca95, 0xbd8136d5, 0xd1525da7, 0xb5936a74, 0xffffffff,
                    0x65172a8a, 0x98324207, 0x1b13a083, 0x6363a10b, 0xf1ac6790, 0x39025d34, 0xaa46d96a, 0x7e1a9b06],
      case_kernel = saturating_kernel,
      reg_inputs = [1, 5, 9, 13], reg5_init = 0x17c334d0,
      memory_keys = [0x00000350, 0x000006a0, 0x00000d40, 0x00001a80, 0x00003500, 0x00006a00, 0x0000d400, 0x0001a800],
      case_stmts = [(Halfword_Swap, 1, 2, 2), (Rotate_Mix, 3, 0, 3), (Rotate_Mix, 0, 5, 4), (Horner_Loop, 0, 0, 0),
                    (Halfword_Swap, 4, 1, 3), (Sub_Borrow, 3, 0, 3), (Multiply_Low, 3, 4, 2), (Compare_Select, 1, 2, 3),
                    (Popcount_Loop, 1, 1, 5), (Horner_Loop, 0, 4, 0), (Short_Circuit, 0, 2, 1), (Byte_Pack, 3, 3, 1)]\<rparr>"

definition case_0849 :: "case_program" where
  "case_0849 =
     \<lparr>case_id = 849,
      case_input = [0x9a2c84af, 0x1b51cac3, 0x15ce4e0e, 0x99bdbfb3, 0xabd4bb00, 0xc2b116a4, 0xfc68f50d, 0xf1b6d90b,
                    0x00000000, 0xd9ddf0c8, 0x8d9557a4, 0xbb55527a, 0x29aaa479, 0xa0e44772, 0x77fcc853, 0x572a6a78],
      case_kernel = saturating_kernel,
      reg_inputs = [2, 6, 10, 14], reg5_init = 0xb5faae89,
      memory_keys = [0x00000351, 0x000006a2, 0x00000d44, 0x00001a88, 0x00003510, 0x00006a20, 0x0000d440, 0x0001a880],
      case_stmts = [(Array_Scatter, 4, 1, 3), (Rotate_Mix, 2, 0, 4), (Rotate_Mix, 2, 5, 4), (Compare_Select, 5, 0, 1),
                    (Gray_Decode, 0, 1, 1), (Horner_Loop, 1, 2, 2), (Sub_Borrow, 4, 5, 3), (Multiply_Low, 0, 3, 3),
                    (Rotate_Mix, 2, 4, 0), (Compare_Select, 3, 2, 0), (Halfword_Swap, 4, 2, 2),
                    (Reverse_Loop, 2, 1, 0)]\<rparr>"

definition case_0850 :: "case_program" where
  "case_0850 =
     \<lparr>case_id = 850,
      case_input = [0x00000000, 0x3f50350b, 0x03650d40, 0xcdadd8f3, 0x5c1481a1, 0x032c6723, 0x0c7181f7, 0xfb15da81,
                    0xf744f4d7, 0x1652bf9b, 0x8b93372c, 0xbe6f5f10, 0x6ea5202e, 0xe3b6fa62, 0x438dcb9a, 0x2d67154e],
      case_kernel = multiply_accumulate_kernel 4,
      reg_inputs = [3, 7, 11, 15], reg5_init = 0x54322842,
      memory_keys = [0x00000352, 0x000006a4, 0x00000d48, 0x00001a90, 0x00003520, 0x00006a40, 0x0000d480, 0x0001a900],
      case_stmts = [(Counted_Loop, 3, 3, 5), (Rotate_Mix, 3, 4, 3), (Rotate_Mix, 2, 2, 5), (Sub_Borrow, 4, 4, 4),
                    (Byte_Pack, 4, 0, 5), (Mask_Merge, 5, 2, 2), (Popcount_Loop, 4, 1, 2), (Compare_Select, 0, 4, 0),
                    (Endian_Swap, 5, 0, 3), (Add_Carry, 1, 1, 2), (Counted_Loop, 2, 4, 5), (Compare_Select, 0, 2, 2)]\<rparr>"

definition case_0851 :: "case_program" where
  "case_0851 =
     \<lparr>case_id = 851,
      case_input = [0x1b28c42d, 0x00000001, 0xf6fdaf46, 0x6da4add5, 0x4a410c74, 0x10cf2c20, 0x458a1e8e, 0x29e01c4d,
                    0x1003ff06, 0x57bd0d54, 0x1d15c00b, 0x6659ac61, 0xb6a3e3c7, 0x7a50e024, 0x9e37daa3, 0x0457e430],
      case_kernel = multiply_accumulate_kernel 5,
      reg_inputs = [4, 8, 12, 0], reg5_init = 0xf269a1fb,
      memory_keys = [0x00000353, 0x000006a6, 0x00000d4c, 0x00001a98, 0x00003530, 0x00006a60, 0x0000d4c0, 0x0001a980],
      case_stmts = [(Switch_Phi, 4, 4, 4), (Rotate_Mix, 4, 2, 0), (Rotate_Mix, 4, 2, 3), (Halfword_Swap, 5, 4, 3),
                    (Divide_Rem, 0, 2, 5), (Horner_Loop, 1, 4, 5), (Multiply_Low, 1, 4, 5), (Switch_Phi, 1, 3, 0),
                    (Compare_Select, 4, 1, 4), (Array_Scatter, 4, 3, 0), (Counted_Loop, 4, 4, 0),
                    (Switch_Phi, 1, 2, 1)]\<rparr>"

definition case_0852 :: "case_program" where
  "case_0852 =
     \<lparr>case_id = 852,
      case_input = [0xd8a625eb, 0x7751ca9a, 0x00000002, 0xd386ee58, 0x7cac583c, 0xecae85eb, 0xfb5de80d, 0x5bd928fb,
                    0xad7ec712, 0x07ab9b74, 0x9777411c, 0x67fa873b, 0xa0fbd06f, 0xd0f2e04b, 0x230e352f, 0x1789923a],
      case_kernel = multiply_accumulate_kernel 6,
      reg_inputs = [5, 9, 13, 1], reg5_init = 0x90a11bb4,
      memory_keys = [0x00000354, 0x000006a8, 0x00000d50, 0x00001aa0, 0x00003540, 0x00006a80, 0x0000d500, 0x0001aa00],
      case_stmts = [(Short_Circuit, 0, 3, 4), (Rotate_Mix, 4, 3, 0), (Rotate_Mix, 4, 2, 3), (Reverse_Loop, 3, 2, 2),
                    (Carry_Chain, 3, 2, 2), (Short_Circuit, 0, 2, 3), (Reverse_Loop, 0, 4, 0), (Horner_Loop, 4, 0, 4),
                    (Sub_Borrow, 3, 2, 3), (Rotate_Mix, 2, 0, 0), (Minmax_Clamp, 5, 4, 2), (Multiply_Low, 3, 5, 0)]\<rparr>"

definition case_0853 :: "case_program" where
  "case_0853 =
     \<lparr>case_id = 853,
      case_input = [0x982405aa, 0x6b509fdd, 0xd3a98c9f, 0x00000003, 0x6af9d5e9, 0xff4dcee8, 0xb2a67774, 0x892cee37,
                    0x4a39ccc3, 0x464429bb, 0x01f1b63b, 0xbfcc744a, 0x78fd1386, 0x4914fa0d, 0xfeb42416, 0x3eb96344],
      case_kernel = multiply_accumulate_kernel 7,
      reg_inputs = [6, 10, 14, 2], reg5_init = 0x2ed8956d,
      memory_keys = [0x00000355, 0x000006aa, 0x00000d54, 0x00001aa8, 0x00003550, 0x00006aa0, 0x0000d540, 0x0001aa80],
      case_stmts = [(Popcount_Loop, 1, 4, 5), (Rotate_Mix, 5, 1, 1), (Rotate_Mix, 4, 2, 3), (Multiply_Low, 4, 2, 3),
                    (Endian_Swap, 3, 2, 2), (Compare_Select, 4, 2, 4), (Short_Circuit, 1, 3, 3),
                    (Compare_Select, 3, 3, 0), (Carry_Chain, 2, 5, 2), (Switch_Phi, 1, 2, 4), (Add_Carry, 3, 4, 1),
                    (Carry_Chain, 0, 5, 1)]\<rparr>"

definition case_0854 :: "case_program" where
  "case_0854 =
     \<lparr>case_id = 854,
      case_input = [0x59a26569, 0x4f516015, 0xc502cfd1, 0x279ffc3e, 0x0000007f, 0x3ed0bf6f, 0x42bf038e, 0x838fedbd,
                    0x3f2d194f, 0x89cb66e8, 0x07f7d6b3, 0xbaf67920, 0x3ff297d1, 0x0a46471d, 0xcac527df, 0x44f41c72],
      case_kernel = multiply_accumulate_kernel 8,
      reg_inputs = [7, 11, 15, 3], reg5_init = 0xcd100f26,
      memory_keys = [0x00000356, 0x000006ac, 0x00000d58, 0x00001ab0, 0x00003560, 0x00006ac0, 0x0000d580, 0x0001ab00],
      case_stmts = [(Reverse_Loop, 4, 2, 5), (Rotate_Mix, 0, 3, 2), (Rotate_Mix, 0, 5, 0), (Minmax_Clamp, 5, 2, 0),
                    (Sub_Borrow, 1, 5, 2), (Halfword_Swap, 0, 2, 0), (Add_Carry, 1, 3, 0), (Horner_Loop, 1, 2, 5),
                    (Endian_Swap, 5, 3, 3), (Array_Scatter, 1, 5, 4), (Rotate_Mix, 5, 0, 0), (Reverse_Loop, 2, 0, 1)]\<rparr>"

definition case_0855 :: "case_program" where
  "case_0855 =
     \<lparr>case_id = 855,
      case_input = [0x19204528, 0x53503552, 0x309a6dd7, 0x87968918, 0x8b6c629d, 0x00000080, 0x0b449cf7, 0x517a2b71,
                    0xd86a129e, 0xc824d427, 0x91712194, 0x62c08a51, 0xe7f45438, 0x93a05d5b, 0x177f36e6, 0x6dc4ed0c],
      case_kernel = multiply_accumulate_kernel 9,
      reg_inputs = [8, 12, 0, 4], reg5_init = 0x6b4788df,
      memory_keys = [0x00000357, 0x000006ae, 0x00000d5c, 0x00001ab8, 0x00003570, 0x00006ae0, 0x0000d5c0, 0x0001ab80],
      case_stmts = [(Gray_Decode, 5, 1, 0), (Rotate_Mix, 5, 3, 3), (Rotate_Mix, 4, 1, 0), (Mask_Merge, 0, 4, 5),
                    (Carry_Chain, 1, 5, 2), (Rotate_Mix, 2, 4, 5), (Reverse_Loop, 0, 2, 5), (Reverse_Loop, 2, 3, 1),
                    (Compare_Select, 0, 4, 2), (Halfword_Swap, 4, 3, 2), (Rotate_Mix, 1, 0, 1), (Switch_Phi, 5, 2, 4)]\<rparr>"

definition case_0856 :: "case_program" where
  "case_0856 =
     \<lparr>case_id = 856,
      case_input = [0xdebfa6e4, 0xe75235b8, 0x6c99692b, 0xedd0830f, 0x3ddbeb06, 0xaaaded3e, 0x000000ff, 0x76788984,
                    0x91fe1174, 0x9bfcb927, 0x7b4101aa, 0xf41ab050, 0xb1ea06d7, 0xab74f426, 0x21a080bc, 0x2df2398a],
      case_kernel = multiply_accumulate_kernel 10,
      reg_inputs = [9, 13, 1, 5], reg5_init = 0x097f0298,
      memory_keys = [0x00000358, 0x000006b0, 0x00000d60, 0x00001ac0, 0x00003580, 0x00006b00, 0x0000d600, 0x0001ac00],
      case_stmts = [(Minmax_Clamp, 1, 5, 1), (Rotate_Mix, 0, 2, 1), (Rotate_Mix, 2, 0, 2), (Popcount_Loop, 0, 2, 2),
                    (Minmax_Clamp, 2, 2, 2), (Compare_Select, 0, 3, 4), (Popcount_Loop, 5, 2, 1),
                    (Endian_Swap, 3, 2, 2), (Short_Circuit, 5, 2, 1), (Array_Scatter, 1, 0, 2), (Multiply_Low, 4, 1, 3),
                    (Mask_Merge, 1, 1, 3)]\<rparr>"

definition case_0857 :: "case_program" where
  "case_0857 =
     \<lparr>case_id = 857,
      case_input = [0x9e3d86a5, 0xfb5360ff, 0x9901cb2d, 0x4dd9f629, 0x2b8e66d3, 0xb94ea63d, 0xf8f35cbb, 0x00000100,
                    0x76b91aa5, 0xda130be8, 0xedc7f68d, 0x2c2c4321, 0x69ecc53e, 0x3292ee60, 0xfc1a9185, 0x04c2c8f4],
      case_kernel = multiply_accumulate_kernel 11,
      reg_inputs = [10, 14, 2, 6], reg5_init = 0xa7b67c51,
      memory_keys = [0x00000359, 0x000006b2, 0x00000d64, 0x00001ac8, 0x00003590, 0x00006b20, 0x0000d640, 0x0001ac80],
      case_stmts = [(Endian_Swap, 0, 0, 4), (Rotate_Mix, 1, 2, 4), (Rotate_Mix, 0, 4, 0), (Add_Carry, 3, 0, 3),
                    (Gray_Decode, 4, 4, 0), (Short_Circuit, 0, 1, 5), (Horner_Loop, 0, 1, 2), (Short_Circuit, 2, 1, 0),
                    (Byte_Pack, 0, 5, 0), (Divide_Rem, 0, 0, 0), (Gray_Decode, 4, 5, 0), (Add_Carry, 4, 3, 0)]\<rparr>"

definition case_0858 :: "case_program" where
  "case_0858 =
     \<lparr>case_id = 858,
      case_input = [0x5fbbe666, 0xdf529f37, 0x8faa8863, 0x19c99169, 0xdc4e5c72, 0x78d3d7ba, 0x08ea2841, 0xae2e4cc2,
                    0x7fffffff, 0x159c44bb, 0xebc19605, 0x29164e4b, 0x2ee34169, 0x71c05370, 0xc86b924c, 0x7e8fb7c2],
      case_kernel = multiply_accumulate_kernel 12,
      reg_inputs = [11, 15, 3, 7], reg5_init = 0x45edf60a,
      memory_keys = [0x0000035a, 0x000006b4, 0x00000d68, 0x00001ad0, 0x000035a0, 0x00006b40, 0x0000d680, 0x0001ad00],
      case_stmts = [(Carry_Chain, 5, 0, 4), (Rotate_Mix, 0, 0, 1), (Rotate_Mix, 0, 5, 5), (Horner_Loop, 2, 2, 0),
                    (Multiply_Low, 0, 3, 0), (Counted_Loop, 4, 1, 3), (Horner_Loop, 0, 5, 3), (Array_Scatter, 4, 2, 3),
                    (Short_Circuit, 3, 1, 3), (Compare_Select, 0, 3, 2), (Popcount_Loop, 4, 5, 3),
                    (Add_Carry, 2, 4, 4)]\<rparr>"

definition case_0859 :: "case_program" where
  "case_0859 =
     \<lparr>case_id = 859,
      case_input = [0x1f39c627, 0xc353ca70, 0x7a322a65, 0xb9c0e44f, 0xca1bd1a7, 0x6b309cb9, 0x4111b738, 0x7cdb8a0e,
                    0xe4eac4f8, 0x80000000, 0x7d476122, 0xf120bd3a, 0xf6e58280, 0xe8264936, 0x15d18375, 0x57bf46bc],
      case_kernel = multiply_accumulate_kernel 13,
      reg_inputs = [12, 0, 4, 8], reg5_init = 0xe4256fc3,
      memory_keys = [0x0000035b, 0x000006b6, 0x00000d6c, 0x00001ad8, 0x000035b0, 0x00006b60, 0x0000d6c0, 0x0001ad80],
      case_stmts = [(Horner_Loop, 4, 5, 1), (Rotate_Mix, 1, 2, 4), (Rotate_Mix, 4, 5, 5), (Compare_Select, 5, 2, 5),
                    (Halfword_Swap, 0, 1, 0), (Short_Circuit, 4, 1, 2), (Sub_Borrow, 1, 4, 2), (Add_Carry, 5, 5, 1),
                    (Byte_Pack, 4, 2, 4), (Gray_Decode, 1, 1, 0), (Array_Scatter, 0, 1, 4), (Mask_Merge, 1, 4, 3)]\<rparr>"

definition case_0860 :: "case_program" where
  "case_0860 =
     \<lparr>case_id = 860,
      case_input = [0xdcb727e1, 0x975360a6, 0xaafeabba, 0x07e2a7c2, 0xfcf685ef, 0x97513572, 0xffc641bb, 0x0ee2beb8,
                    0x5997fcec, 0x04656054, 0xfffffffe, 0xf0839660, 0xe0bdb128, 0x42844959, 0xa8e86cf9, 0x446130b6],
      case_kernel = multiply_accumulate_kernel 14,
      reg_inputs = [13, 1, 5, 9], reg5_init = 0x825ce97c,
      memory_keys = [0x0000035c, 0x000006b8, 0x00000d70, 0x00001ae0, 0x000035c0, 0x00006b80, 0x0000d700, 0x0001ae00],
      case_stmts = [(Add_Carry, 2, 2, 1), (Multiply_Low, 5, 1, 2), (Rotate_Mix, 2, 1, 3), (Halfword_Swap, 1, 4, 2),
                    (Compare_Select, 3, 3, 5), (Multiply_Low, 1, 3, 2), (Minmax_Clamp, 0, 2, 5), (Add_Carry, 4, 2, 3),
                    (Divide_Rem, 1, 5, 5), (Minmax_Clamp, 3, 0, 4), (Horner_Loop, 5, 1, 0), (Mask_Merge, 1, 3, 0)]\<rparr>"

definition case_0861 :: "case_program" where
  "case_0861 =
     \<lparr>case_id = 861,
      case_input = [0x9c3507a0, 0x8b5235e1, 0x5f6609bc, 0xa7ebd2e4, 0xeaa3083a, 0x84b27e71, 0xb63ddec2, 0xdc177874,
                    0xbed0f73d, 0x458ad29b, 0x61a31712, 0xffffffff, 0x38bb72c1, 0xdb62531f, 0x75527dc0, 0x6d51c1c8],
      case_kernel = multiply_accumulate_kernel 15,
      reg_inputs = [14, 2, 6, 10], reg5_init = 0x20946335,
      memory_keys = [0x0000035d, 0x000006ba, 0x00000d74, 0x00001ae8, 0x000035d0, 0x00006ba0, 0x0000d740, 0x0001ae80],
      case_stmts = [(Sub_Borrow, 3, 5, 4), (Multiply_Low, 2, 1, 1), (Rotate_Mix, 2, 5, 1), (Endian_Swap, 2, 4, 3),
                    (Popcount_Loop, 1, 1, 5), (Sub_Borrow, 1, 3, 3), (Reverse_Loop, 5, 3, 4), (Mask_Merge, 1, 1, 5),
                    (Gray_Decode, 0, 2, 2), (Sub_Borrow, 4, 0, 2), (Horner_Loop, 1, 5, 3), (Short_Circuit, 0, 1, 5)]\<rparr>"

definition case_0862 :: "case_program" where
  "case_0862 =
     \<lparr>case_id = 862,
      case_input = [0x5db36763, 0xaf53ca29, 0x49cd4af2, 0xf3fbb5a4, 0x00000000, 0x452f0ff6, 0x4624aa38, 0xd6b47bfe,
                    0xcbc422b1, 0x8a059dc8, 0x67a5779a, 0x2d8f687b, 0x00000000, 0x9830ee0f, 0x41237e09, 0x171cbefe],
      case_kernel = multiply_accumulate_kernel 4,
      reg_inputs = [15, 3, 7, 11], reg5_init = 0xbecbdcee,
      memory_keys = [0x0000035e, 0x000006bc, 0x00000d78, 0x00001af0, 0x000035e0, 0x00006bc0, 0x0000d780, 0x0001af00],
      case_stmts = [(Rotate_Mix, 4, 3, 0), (Multiply_Low, 5, 3, 4), (Rotate_Mix, 2, 4, 2), (Reverse_Loop, 5, 4, 4),
                    (Endian_Swap, 1, 0, 3), (Gray_Decode, 1, 5, 5), (Compare_Select, 3, 1, 5), (Divide_Rem, 3, 4, 4),
                    (Divide_Rem, 5, 2, 3), (Byte_Pack, 4, 1, 0), (Popcount_Loop, 3, 5, 4), (Halfword_Swap, 0, 4, 1)]\<rparr>"

definition case_0863 :: "case_program" where
  "case_0863 =
     \<lparr>case_id = 863,
      case_input = [0x1d314722, 0xb3529f6e, 0xbc55e8f4, 0x53f2c082, 0x0b36bf4e, 0x56cc44f5, 0x0fdf3541, 0x0441bd32,
                    0x2c832960, 0xcbea2f07, 0xf12380bd, 0x00000080, 0xa7b2357f, 0x00000001, 0x9c996f30, 0x3e2c4f80],
      case_kernel = multiply_accumulate_kernel 5,
      reg_inputs = [0, 4, 8, 12], reg5_init = 0x5d0356a7,
      memory_keys = [0x0000035f, 0x000006be, 0x00000d7c, 0x00001af8, 0x000035f0, 0x00006be0, 0x0000d7c0, 0x0001af80],
      case_stmts = [(Multiply_Low, 3, 4, 3), (Multiply_Low, 0, 5, 3), (Rotate_Mix, 0, 0, 4), (Multiply_Low, 2, 2, 3),
                    (Compare_Select, 3, 0, 3), (Popcount_Loop, 5, 5, 4), (Add_Carry, 2, 4, 4), (Mask_Merge, 2, 1, 0),
                    (Byte_Pack, 2, 1, 2), (Carry_Chain, 3, 5, 0), (Popcount_Loop, 3, 5, 1), (Sub_Borrow, 3, 0, 0)]\<rparr>"

definition case_0864 :: "case_program" where
  "case_0864 =
     \<lparr>case_id = 864,
      case_input = [0xc2c8a8d2, 0x475f630d, 0xfffffffe, 0xc4e37fca, 0x825e05f0, 0x0d440960, 0x619ea054, 0x87c46533,
                    0x5e735ab7, 0x704a6d6b, 0xf8501249, 0x4e873dbf, 0x2ee93581, 0xfee42a03, 0x00000002, 0xe11488bb],
      case_kernel = multiply_accumulate_kernel 6,
      reg_inputs = [1, 5, 9, 13], reg5_init = 0xfb3ad060,
      memory_keys = [0x00000360, 0x000006c0, 0x00000d80, 0x00001b00, 0x00003600, 0x00006c00, 0x0000d800, 0x0001b000],
      case_stmts = [(Divide_Rem, 5, 4, 4), (Multiply_Low, 4, 3, 5), (Rotate_Mix, 5, 3, 0), (Multiply_Low, 1, 2, 1),
                    (Sub_Borrow, 5, 4, 5), (Counted_Loop, 5, 1, 2), (Minmax_Clamp, 0, 4, 4), (Switch_Phi, 2, 1, 3),
                    (Counted_Loop, 3, 5, 3), (Gray_Decode, 4, 3, 1), (Divide_Rem, 3, 0, 0), (Counted_Loop, 3, 2, 0)]\<rparr>"

definition case_0865 :: "case_program" where
  "case_0865 =
     \<lparr>case_id = 865,
      case_input = [0x824a8893, 0x5b5e364a, 0x3b6f50c5, 0x64ea0aec, 0x940b8825, 0x1ea74263, 0x28653f2d, 0x5531a3ff,
                    0xb9345166, 0x00000003, 0x6ed6e56e, 0x96b1cece, 0xf6eff668, 0x67023045, 0x37d9d1d5, 0x00000003],
      case_kernel = multiply_accumulate_kernel 7,
      reg_inputs = [2, 6, 10, 14], reg5_init = 0x99724a19,
      memory_keys = [0x00000361, 0x000006c2, 0x00000d84, 0x00001b08, 0x00003610, 0x00006c20, 0x0000d840, 0x0001b080],
      case_stmts = [(Mask_Merge, 0, 1, 5), (Multiply_Low, 3, 5, 0), (Rotate_Mix, 1, 1, 0), (Compare_Select, 4, 4, 0),
                    (Counted_Loop, 3, 4, 5), (Add_Carry, 5, 1, 1), (Counted_Loop, 3, 3, 3), (Compare_Select, 3, 0, 5),
                    (Popcount_Loop, 0, 4, 2), (Compare_Select, 1, 5, 1), (Add_Carry, 3, 4, 1), (Gray_Decode, 0, 0, 3)]\<rparr>"

definition case_0866 :: "case_program" where
  "case_0866 =
     \<lparr>case_id = 866,
      case_input = [0x7fffffff, 0x7f5fc982, 0x2dc4138b, 0x30fa6dac, 0x63cbb284, 0xdf3a33e4, 0xd87c4bd7, 0x5f92a075,
                    0xcc2084ea, 0xfe2a90f7, 0x68d085e6, 0x938bc3a4, 0xb1e0723f, 0x24508d55, 0x03a8d21c, 0xb26906f3],
      case_kernel = multiply_accumulate_kernel 8,
      reg_inputs = [3, 7, 11, 15], reg5_init = 0x37a9c3d2,
      memory_keys = [0x00000362, 0x000006c4, 0x00000d88, 0x00001b10, 0x00003620, 0x00006c40, 0x0000d880, 0x0001b100],
      case_stmts = [(Compare_Select, 5, 3, 1), (Multiply_Low, 0, 5, 1), (Rotate_Mix, 3, 0, 3), (Endian_Swap, 1, 0, 3),
                    (Counted_Loop, 3, 5, 3), (Counted_Loop, 1, 1, 5), (Rotate_Mix, 3, 1, 0), (Multiply_Low, 3, 5, 4),
                    (Reverse_Loop, 3, 2, 3), (Add_Carry, 3, 4, 1), (Carry_Chain, 3, 0, 2), (Byte_Pack, 2, 3, 5)]\<rparr>"

definition case_0867 :: "case_program" where
  "case_0867 =
     \<lparr>case_id = 867,
      case_input = [0x034ec811, 0x00000080, 0xd85cb18d, 0x90f3188a, 0x759e3f51, 0xccd978e7, 0x9187d4ae, 0x00000001,
                    0x2b678f3b, 0xbfc52238, 0xfe5672c1, 0x4bbd30d5, 0x69e6b1d6, 0xbdb69713, 0xde12c325, 0x9b59f78d],
      case_kernel = multiply_accumulate_kernel 9,
      reg_inputs = [4, 8, 12, 0], reg5_init = 0xd5e13d8b,
      memory_keys = [0x00000363, 0x000006c6, 0x00000d8c, 0x00001b18, 0x00003630, 0x00006c60, 0x0000d8c0, 0x0001b180],
      case_stmts = [(Byte_Pack, 4, 4, 0), (Multiply_Low, 5, 3, 0), (Rotate_Mix, 5, 2, 5), (Add_Carry, 2, 2, 2),
                    (Popcount_Loop, 3, 1, 3), (Halfword_Swap, 1, 5, 0), (Divide_Rem, 0, 4, 5), (Rotate_Mix, 2, 2, 0),
                    (Sub_Borrow, 2, 5, 0), (Sub_Borrow, 0, 4, 1), (Carry_Chain, 3, 0, 5), (Reverse_Loop, 5, 1, 0)]\<rparr>"

definition case_0868 :: "case_program" where
  "case_0868 =
     \<lparr>case_id = 868,
      case_input = [0xc0c029d7, 0x375e3613, 0x000000ff, 0x2ed15b07, 0x43736b19, 0x30b8d12c, 0x2f50222d, 0xff5e520f,
                    0x961ab72f, 0xefd3b418, 0x7434f3d6, 0x4a1e1b8f, 0x7fbe827e, 0x1714977c, 0x000000ff, 0x88878187],
      case_kernel = multiply_accumulate_kernel 10,
      reg_inputs = [5, 9, 13, 1], reg5_init = 0x7418b744,
      memory_keys = [0x00000364, 0x000006c8, 0x00000d90, 0x00001b20, 0x00003640, 0x00006c80, 0x0000d900, 0x0001b200],
      case_stmts = [(Halfword_Swap, 4, 3, 2), (Multiply_Low, 1, 2, 4), (Rotate_Mix, 3, 2, 5), (Counted_Loop, 2, 0, 3),
                    (Switch_Phi, 0, 5, 4), (Multiply_Low, 0, 5, 0), (Sub_Borrow, 5, 0, 4), (Reverse_Loop, 1, 3, 2),
                    (Reverse_Loop, 1, 4, 1), (Counted_Loop, 2, 5, 1), (Minmax_Clamp, 0, 0, 5), (Counted_Loop, 1, 0, 3)]\<rparr>"

definition case_0869 :: "case_program" where
  "case_0869 =
     \<lparr>case_id = 869,
      case_input = [0x80420996, 0x2b5f6354, 0xfd089254, 0x00000100, 0x5526e6cc, 0xffffffff, 0x66abbd54, 0x2dab94c3,
                    0x715dbcfe, 0xae3c06d7, 0xe2b204f1, 0x9228e8fe, 0xa7b84197, 0x8ef28d3a, 0xbe913d90, 0xa1b770f9],
      case_kernel = multiply_accumulate_kernel 11,
      reg_inputs = [6, 10, 14, 2], reg5_init = 0x125030fd,
      memory_keys = [0x00000365, 0x000006ca, 0x00000d94, 0x00001b28, 0x00003650, 0x00006ca0, 0x0000d940, 0x0001b280],
      case_stmts = [(Array_Scatter, 3, 0, 3), (Multiply_Low, 2, 0, 5), (Rotate_Mix, 1, 2, 3), (Gray_Decode, 3, 4, 0),
                    (Divide_Rem, 4, 3, 2), (Popcount_Loop, 4, 5, 1), (Gray_Decode, 4, 5, 3), (Multiply_Low, 0, 2, 4),
                    (Mask_Merge, 2, 1, 4), (Switch_Phi, 3, 3, 5), (Halfword_Swap, 4, 0, 2), (Multiply_Low, 0, 2, 2)]\<rparr>"

definition case_0870 :: "case_program" where
  "case_0870 =
     \<lparr>case_id = 870,
      case_input = [0x41c46955, 0x0f5e9c9c, 0xeba3d11a, 0xdac84961, 0x7fffffff, 0xe2c6eba8, 0x96b2c9ae, 0x27089749,
                    0x04496972, 0x61b34984, 0xe4b46479, 0x9712e594, 0x0000007f, 0xcda0302a, 0x8ae03e59, 0xdbfa0fcf],
      case_kernel = multiply_accumulate_kernel 12,
      reg_inputs = [7, 11, 15, 3], reg5_init = 0xb087aab6,
      memory_keys = [0x00000366, 0x000006cc, 0x00000d98, 0x00001b30, 0x00003660, 0x00006cc0, 0x0000d980, 0x0001b300],
      case_stmts = [(Counted_Loop, 0, 4, 1), (Multiply_Low, 5, 0, 2), (Rotate_Mix, 1, 1, 0), (Divide_Rem, 4, 4, 1),
                    (Minmax_Clamp, 4, 0, 0), (Horner_Loop, 0, 3, 1), (Switch_Phi, 4, 1, 4), (Counted_Loop, 4, 1, 1),
                    (Carry_Chain, 1, 1, 1), (Sub_Borrow, 1, 4, 5), (Counted_Loop, 0, 2, 3), (Gray_Decode, 0, 1, 4)]\<rparr>"

definition case_0871 :: "case_program" where
  "case_0871 =
     \<lparr>case_id = 871,
      case_input = [0x01464914, 0x135fc9db, 0x1e3b731c, 0x80000000, 0xb4b351b8, 0x80000000, 0xdf4956d7, 0xf5fd5185,
                    0xe30e62a3, 0x205cfb4b, 0x7232935e, 0x4f2416e5, 0x38b10629, 0x54462a6c, 0x575a2f60, 0xf2cafeb1],
      case_kernel = multiply_accumulate_kernel 13,
      reg_inputs = [8, 12, 0, 4], reg5_init = 0x4ebf246f,
      memory_keys = [0x00000367, 0x000006ce, 0x00000d9c, 0x00001b38, 0x00003670, 0x00006ce0, 0x0000d9c0, 0x0001b380],
      case_stmts = [(Switch_Phi, 5, 3, 0), (Multiply_Low, 0, 0, 5), (Rotate_Mix, 3, 3, 2), (Array_Scatter, 3, 4, 2),
                    (Switch_Phi, 4, 4, 0), (Sub_Borrow, 0, 3, 4), (Array_Scatter, 5, 4, 1), (Multiply_Low, 3, 2, 3),
                    (Popcount_Loop, 4, 4, 2), (Add_Carry, 2, 4, 5), (Counted_Loop, 0, 0, 0), (Reverse_Loop, 3, 1, 5)]\<rparr>"

definition case_0872 :: "case_program" where
  "case_0872 =
     \<lparr>case_id = 872,
      case_input = [0xc6d9aad8, 0xa75dc931, 0x423877e0, 0x10873650, 0x0204d823, 0x76bbb9f9, 0xfffffffe, 0xd2fff370,
                    0xaa9a6149, 0x7384964b, 0x00000002, 0xd9fe2ce4, 0x6eaf54c6, 0x6c928311, 0x6185993a, 0xb2fc2a37],
      case_kernel = multiply_accumulate_kernel 14,
      reg_inputs = [9, 13, 1, 5], reg5_init = 0xecf69e28,
      memory_keys = [0x00000368, 0x000006d0, 0x00000da0, 0x00001b40, 0x00003680, 0x00006d00, 0x0000da00, 0x0001b400],
      case_stmts = [(Short_Circuit, 1, 5, 5), (Multiply_Low, 3, 5, 5), (Rotate_Mix, 5, 0, 4), (Popcount_Loop, 3, 0, 1),
                    (Popcount_Loop, 5, 3, 0), (Popcount_Loop, 0, 4, 3), (Rotate_Mix, 4, 0, 3), (Short_Circuit, 2, 1, 0),
                    (Switch_Phi, 5, 0, 1), (Popcount_Loop, 3, 3, 1), (Switch_Phi, 1, 1, 0), (Halfword_Swap, 3, 0, 0)]\<rparr>"

definition case_0873 :: "case_program" where
  "case_0873 =
     \<lparr>case_id = 873,
      case_input = [0x865b8a99, 0x00000100, 0xb7a0d5e6, 0xb08e4376, 0x145155f6, 0x6558f2fa, 0x2cfe969b, 0xffffffff,
                    0x4ddd6a98, 0x326b2484, 0x0e844447, 0x01c8df95, 0xb6a9972f, 0xf5749957, 0xbc3f8803, 0x9bccdb49],
      case_kernel = multiply_accumulate_kernel 15,
      reg_inputs = [10, 14, 2, 6], reg5_init = 0x8b2e17e1,
      memory_keys = [0x00000369, 0x000006d2, 0x00000da4, 0x00001b48, 0x00003690, 0x00006d20, 0x0000da40, 0x0001b480],
      case_stmts = [(Popcount_Loop, 2, 0, 0), (Multiply_Low, 2, 5, 4), (Rotate_Mix, 1, 2, 2), (Minmax_Clamp, 4, 4, 0),
                    (Reverse_Loop, 3, 1, 2), (Byte_Pack, 4, 2, 4), (Divide_Rem, 1, 3, 2), (Mask_Merge, 5, 0, 4),
                    (Add_Carry, 0, 3, 0), (Short_Circuit, 2, 5, 1), (Multiply_Low, 5, 5, 5), (Array_Scatter, 4, 0, 3)]\<rparr>"

definition case_0874 :: "case_program" where
  "case_0874 =
     \<lparr>case_id = 874,
      case_input = [0x47ddea5a, 0x9f5d63be, 0xa10b96a8, 0xe49e2436, 0xe3916f57, 0xa4c5837d, 0xdce7e261, 0x0aa93636,
                    0x00000000, 0xfde46bd7, 0x088224cf, 0x04f2d2ff, 0xf1a61378, 0xb6262447, 0x884e8bca, 0xe181a47f],
      case_kernel = multiply_accumulate_kernel 4,
      reg_inputs = [11, 15, 3, 7], reg5_init = 0x2965919a,
      memory_keys = [0x0000036a, 0x000006d4, 0x00000da8, 0x00001b50, 0x000036a0, 0x00006d40, 0x0000da80, 0x0001b500],
      case_stmts = [(Reverse_Loop, 3, 4, 4), (Multiply_Low, 1, 3, 3), (Rotate_Mix, 3, 3, 3), (Switch_Phi, 1, 0, 5),
                    (Carry_Chain, 3, 2, 2), (Endian_Swap, 2, 4, 4), (Short_Circuit, 3, 5, 1), (Short_Circuit, 3, 5, 5),
                    (Multiply_Low, 3, 1, 5), (Reverse_Loop, 0, 0, 5), (Array_Scatter, 3, 1, 0), (Endian_Swap, 2, 5, 1)]\<rparr>"

definition case_0875 :: "case_program" where
  "case_0875 =
     \<lparr>case_id = 875,
      case_input = [0x00000000, 0x835c36f9, 0x549334ae, 0x44975110, 0xf5c4e282, 0xb726c87e, 0x951c7d18, 0xd85cf0fa,
                    0xdf8eb4c5, 0xbc0bd918, 0x9e04d3e8, 0xdcc4218e, 0x29a0d091, 0x2fc03e01, 0x55f49af3, 0xc8b15501],
      case_kernel = sqrt_kernel 0x00000000,
      reg_inputs = [12, 0, 4, 8], reg5_init = 0xc79d0b53,
      memory_keys = [0x0000036b, 0x000006d6, 0x00000dac, 0x00001b58, 0x000036b0, 0x00006d60, 0x0000dac0, 0x0001b580],
      case_stmts = [(Gray_Decode, 4, 1, 5), (Multiply_Low, 0, 3, 2), (Rotate_Mix, 5, 5, 1), (Reverse_Loop, 2, 0, 2),
                    (Array_Scatter, 3, 0, 4), (Horner_Loop, 0, 4, 5), (Carry_Chain, 2, 4, 2), (Endian_Swap, 0, 0, 3),
                    (Halfword_Swap, 2, 4, 0), (Gray_Decode, 5, 4, 3), (Endian_Swap, 3, 1, 1), (Short_Circuit, 1, 5, 0)]\<rparr>"

definition case_0876 :: "case_program" where
  "case_0876 =
     \<lparr>case_id = 876,
      case_input = [0xc4d12bdd, 0x00000001, 0x845fb571, 0xfab5129d, 0xc329b6ca, 0x4b4761b5, 0x2bcb8b9b, 0xaa65c44c,
                    0x62f38cd1, 0xec1d4f38, 0x146652ff, 0xdd670ad4, 0x3ff8e339, 0x85623e6e, 0xe8cd757f, 0xdb6f230b],
      case_kernel = sqrt_kernel 0x00000001,
      reg_inputs = [13, 1, 5, 9], reg5_init = 0x65d4850c,
      memory_keys = [0x0000036c, 0x000006d8, 0x00000db0, 0x00001b60, 0x000036c0, 0x00006d80, 0x0000db00, 0x0001b600],
      case_stmts = [(Minmax_Clamp, 2, 0, 3), (Multiply_Low, 4, 4, 4), (Rotate_Mix, 3, 3, 5), (Add_Carry, 4, 2, 3),
                    (Switch_Phi, 4, 0, 5), (Halfword_Swap, 5, 0, 5), (Gray_Decode, 5, 0, 1), (Sub_Borrow, 5, 1, 5),
                    (Horner_Loop, 3, 5, 1), (Short_Circuit, 3, 3, 5), (Switch_Phi, 2, 5, 5), (Halfword_Swap, 3, 2, 5)]\<rparr>"

definition case_0877 :: "case_program" where
  "case_0877 =
     \<lparr>case_id = 877,
      case_input = [0x84530b9c, 0xcb5dc968, 0x00000002, 0x5abc67bb, 0xd57c3b1f, 0x58a42ab6, 0x623014e2, 0x78900280,
                    0x85b48700, 0xadf2fdf7, 0x82e0a5d8, 0x0551f9a5, 0xe7fe20d0, 0x1c842428, 0x35776446, 0xf25fd275],
      case_kernel = sqrt_kernel 0x00000002,
      reg_inputs = [14, 2, 6, 10], reg5_init = 0x040bfec5,
      memory_keys = [0x0000036d, 0x000006da, 0x00000db4, 0x00001b68, 0x000036d0, 0x00006da0, 0x0000db40, 0x0001b680],
      case_stmts = [(Endian_Swap, 1, 5, 2), (Multiply_Low, 1, 0, 5), (Rotate_Mix, 3, 1, 1), (Mask_Merge, 5, 4, 4),
                    (Short_Circuit, 2, 0, 1), (Compare_Select, 5, 2, 4), (Mask_Merge, 4, 1, 4), (Add_Carry, 4, 2, 5),
                    (Short_Circuit, 4, 2, 4), (Endian_Swap, 2, 1, 5), (Gray_Decode, 0, 3, 0), (Sub_Borrow, 2, 4, 2)]\<rparr>"

definition case_0878 :: "case_program" where
  "case_0878 =
     \<lparr>case_id = 878,
      case_input = [0x45d56b5f, 0xef5c36a0, 0x676c5439, 0x00000003, 0x22bc01be, 0x99395b31, 0x92296018, 0x7233010a,
                    0xf0a0528c, 0x627db2a4, 0x84e6c550, 0x006bf4cf, 0xa0f1a487, 0x5fd69938, 0x0106678f, 0x8812ad43],
      case_kernel = sqrt_kernel 0x00000003,
      reg_inputs = [15, 3, 7, 11], reg5_init = 0xa243787e,
      memory_keys = [0x0000036e, 0x000006dc, 0x00000db8, 0x00001b70, 0x000036e0, 0x00006dc0, 0x0000db80, 0x0001b700],
      case_stmts = [(Carry_Chain, 2, 3, 4), (Multiply_Low, 2, 2, 4), (Rotate_Mix, 3, 2, 2), (Carry_Chain, 4, 4, 5),
                    (Halfword_Swap, 2, 1, 5), (Minmax_Clamp, 3, 4, 4), (Sub_Borrow, 2, 1, 5), (Endian_Swap, 2, 3, 4),
                    (Gray_Decode, 5, 2, 5), (Multiply_Low, 2, 0, 5), (Array_Scatter, 2, 5, 3), (Endian_Swap, 2, 1, 4)]\<rparr>"

definition case_0879 :: "case_program" where
  "case_0879 =
     \<lparr>case_id = 879,
      case_input = [0x05574b1e, 0xf35d63e7, 0x92f4f63f, 0xaea575dd, 0x0000007f, 0x8ada1032, 0xdbd2ff61, 0xa0c6c7c6,
                    0x17e7595d, 0x2392006b, 0x12603277, 0xd85d07be, 0x78f7676e, 0xc630837e, 0xdcbc76b6, 0xa1225c3d],
      case_kernel = sqrt_kernel 0x0000007f,
      reg_inputs = [0, 4, 8, 12], reg5_init = 0x407af237,
      memory_keys = [0x0000036f, 0x000006de, 0x00000dbc, 0x00001b78, 0x000036f0, 0x00006de0, 0x0000dbc0, 0x0001b780],
      case_stmts = [(Horner_Loop, 5, 2, 5), (Multiply_Low, 1, 2, 5), (Rotate_Mix, 1, 4, 0), (Multiply_Low, 3, 4, 0),
                    (Gray_Decode, 0, 1, 3), (Compare_Select, 3, 0, 3), (Gray_Decode, 1, 2, 0), (Halfword_Swap, 3, 2, 4),
                    (Halfword_Swap, 2, 5, 4), (Counted_Loop, 3, 0, 5), (Endian_Swap, 4, 3, 4), (Add_Carry, 1, 5, 5)]\<rparr>"

definition case_0880 :: "case_program" where
  "case_0880 =
     \<lparr>case_id = 880,
      case_input = [0xcaeaacc6, 0x875a3775, 0xd568f885, 0x6e2decff, 0x19eb1313, 0x00000080, 0x339a4688, 0xd17d1886,
                    0x0efb4b11, 0x09f715fa, 0x52f62404, 0xdfb08bcf, 0x06c095e4, 0xafec6a51, 0xa6598e6e, 0x633d68d7],
      case_kernel = sqrt_kernel 0x00000080,
      reg_inputs = [1, 5, 9, 13], reg5_init = 0xdeb26bf0,
      memory_keys = [0x00000370, 0x000006e0, 0x00000dc0, 0x00001b80, 0x00003700, 0x00006e00, 0x0000dc00, 0x0001b800],
      case_stmts = [(Add_Carry, 2, 1, 4), (Divide_Rem, 1, 5, 5), (Rotate_Mix, 1, 3, 5), (Horner_Loop, 2, 5, 3),
                    (Mask_Merge, 5, 1, 5), (Short_Circuit, 2, 5, 0), (Sub_Borrow, 0, 2, 2), (Minmax_Clamp, 3, 1, 3),
                    (Gray_Decode, 1, 0, 1), (Switch_Phi, 5, 2, 4), (Popcount_Loop, 2, 0, 3), (Add_Carry, 1, 5, 5)]\<rparr>"

definition case_0881 :: "case_program" where
  "case_0881 =
     \<lparr>case_id = 881,
      case_input = [0x8a688c87, 0x9b5b6232, 0x20f05a83, 0xce2499d9, 0x0fbe9ec6, 0xd457762e, 0x000000ff, 0x0388de4a,
                    0xe9bc40c0, 0x4818a735, 0xc470d323, 0x078678be, 0xdec6560d, 0x360a7017, 0x7be39f57, 0x4a0d99a9],
      case_kernel = sqrt_kernel 0x000000ff,
      reg_inputs = [2, 6, 10, 14], reg5_init = 0x7ce9e5a9,
      memory_keys = [0x00000371, 0x000006e2, 0x00000dc4, 0x00001b88, 0x00003710, 0x00006e20, 0x0000dc40, 0x0001b880],
      case_stmts = [(Sub_Borrow, 5, 0, 1), (Divide_Rem, 4, 5, 4), (Rotate_Mix, 3, 3, 5), (Compare_Select, 1, 1, 4),
                    (Rotate_Mix, 3, 1, 3), (Compare_Select, 2, 1, 5), (Byte_Pack, 5, 1, 3), (Popcount_Loop, 2, 2, 3),
                    (Short_Circuit, 2, 1, 4), (Compare_Select, 0, 2, 2), (Sub_Borrow, 0, 2, 4), (Mask_Merge, 4, 1, 4)]\<rparr>"

definition case_0882 :: "case_program" where
  "case_0882 =
     \<lparr>case_id = 882,
      case_input = [0x4beeec44, 0xbf5a9dfa, 0x365b19cd, 0x9a34fe99, 0xf87ea467, 0x15ca07a9, 0x8a78ad0b, 0x00000100,
                    0x9ca8954c, 0x8797e866, 0xc276b3ab, 0x02bc75d4, 0x99c9d25a, 0x7558cd07, 0x4f929c9e, 0x3040e69f],
      case_kernel = sqrt_kernel 0x00000100,
      reg_inputs = [3, 7, 11, 15], reg5_init = 0x1b215f62,
      memory_keys = [0x00000372, 0x000006e4, 0x00000dc8, 0x00001b90, 0x00003720, 0x00006e40, 0x0000dc80, 0x0001b900],
      case_stmts = [(Rotate_Mix, 4, 2, 1), (Divide_Rem, 1, 3, 3), (Rotate_Mix, 3, 2, 2), (Popcount_Loop, 4, 5, 3),
                    (Counted_Loop, 3, 4, 1), (Divide_Rem, 4, 5, 5), (Gray_Decode, 1, 1, 2), (Add_Carry, 4, 5, 4),
                    (Multiply_Low, 3, 5, 3), (Add_Carry, 4, 3, 2), (Horner_Loop, 0, 2, 1), (Array_Scatter, 2, 0, 4)]\<rparr>"

definition case_0883 :: "case_program" where
  "case_0883 =
     \<lparr>case_id = 883,
      case_input = [0x0b6ccc05, 0xa35bc8bd, 0xc3c3bbcb, 0x3a3d8bbf, 0xee2b29b2, 0x06294caa, 0xc3833272, 0xdbde1b0c,
                    0x7fffffff, 0xc6785aa9, 0x54f0448c, 0xda8a86a5, 0x41cf11b3, 0xecbed741, 0x92288da7, 0x197017e1],
      case_kernel = sqrt_kernel 0x7fffffff,
      reg_inputs = [4, 8, 12, 0], reg5_init = 0xb958d91b,
      memory_keys = [0x00000373, 0x000006e6, 0x00000dcc, 0x00001b98, 0x00003730, 0x00006e60, 0x0000dcc0, 0x0001b980],
      case_stmts = [(Multiply_Low, 3, 5, 2), (Divide_Rem, 4, 5, 4), (Rotate_Mix, 5, 0, 2), (Add_Carry, 5, 5, 2),
                    (Sub_Borrow, 1, 0, 1), (Compare_Select, 0, 1, 2), (Sub_Borrow, 2, 2, 5), (Mask_Merge, 1, 4, 2),
                    (Add_Carry, 4, 2, 2), (Mask_Merge, 5, 1, 4), (Switch_Phi, 0, 2, 2), (Minmax_Clamp, 3, 4, 3)]\<rparr>"

definition case_0884 :: "case_program" where
  "case_0884 =
     \<lparr>case_id = 884,
      case_input = [0xc8e22dc3, 0xf75b626b, 0x130f3a14, 0x841fc832, 0xd8c67dfa, 0xfa48e561, 0x7d54c4f1, 0xa9e72fba,
                    0xc692a689, 0x80000000, 0xde92c59b, 0xdb29adff, 0x5797221b, 0x461cd72e, 0x2f11622b, 0x0aae61eb],
      case_kernel = sqrt_kernel 0x80000000,
      reg_inputs = [5, 9, 13, 1], reg5_init = 0x579052d4,
      memory_keys = [0x00000374, 0x000006e8, 0x00000dd0, 0x00001ba0, 0x00003740, 0x00006e80, 0x0000dd00, 0x0001ba00],
      case_stmts = [(Divide_Rem, 1, 4, 4), (Divide_Rem, 4, 0, 4), (Rotate_Mix, 5, 4, 0), (Reverse_Loop, 5, 3, 3),
                    (Multiply_Low, 4, 2, 0), (Endian_Swap, 1, 5, 2), (Short_Circuit, 5, 0, 4), (Popcount_Loop, 2, 1, 2),
                    (Switch_Phi, 5, 3, 5), (Compare_Select, 3, 4, 4), (Mask_Merge, 5, 2, 2), (Divide_Rem, 3, 5, 4)]\<rparr>"

definition case_0885 :: "case_program" where
  "case_0885 =
     \<lparr>case_id = 885,
      case_input = [0x88600d82, 0xeb5a372c, 0xe6979812, 0x2416bd14, 0xce93f02f, 0xe9abae62, 0x34af5b88, 0x7b12e976,
                    0x21d5ad58, 0xd7817e46, 0xfffffffe, 0x031f5e8e, 0x8f91e1f2, 0xdffacd68, 0xf2ab7312, 0x239e9095],
      case_kernel = sqrt_kernel 0xfffffffe,
      reg_inputs = [6, 10, 14, 2], reg5_init = 0xf5c7cc8d,
      memory_keys = [0x00000375, 0x000006ea, 0x00000dd4, 0x00001ba8, 0x00003750, 0x00006ea0, 0x0000dd40, 0x0001ba80],
      case_stmts = [(Mask_Merge, 2, 5, 1), (Divide_Rem, 3, 2, 1), (Rotate_Mix, 5, 4, 4), (Multiply_Low, 2, 1, 4),
                    (Short_Circuit, 2, 2, 4), (Multiply_Low, 1, 3, 5), (Reverse_Loop, 2, 5, 1),
                    (Halfword_Swap, 5, 4, 0), (Short_Circuit, 2, 0, 2), (Byte_Pack, 2, 2, 4), (Sub_Borrow, 3, 2, 3),
                    (Endian_Swap, 2, 3, 1)]\<rparr>"

definition case_0886 :: "case_program" where
  "case_0886 =
     \<lparr>case_id = 886,
      case_input = [0x49e66d41, 0xcf5bc8e4, 0xf03cdb5c, 0x7006da54, 0x3953ca8e, 0x2836dfe5, 0xc4b62f72, 0x71b1eafc,
                    0x54c178d4, 0x180e3115, 0x4e125234, 0xffffffff, 0xc89e65a5, 0x9ca87078, 0xc6da70db, 0x59d3efa3],
      case_kernel = sqrt_kernel 0xffffffff,
      reg_inputs = [7, 11, 15, 3], reg5_init = 0x93ff4646,
      memory_keys = [0x00000376, 0x000006ec, 0x00000dd8, 0x00001bb0, 0x00003760, 0x00006ec0, 0x0000dd80, 0x0001bb00],
      case_stmts = [(Compare_Select, 1, 3, 1), (Divide_Rem, 4, 4, 2), (Rotate_Mix, 3, 3, 5), (Halfword_Swap, 3, 5, 1),
                    (Short_Circuit, 2, 5, 2), (Mask_Merge, 5, 3, 5), (Compare_Select, 0, 5, 0), (Endian_Swap, 5, 3, 3),
                    (Byte_Pack, 5, 2, 1), (Sub_Borrow, 2, 1, 0), (Switch_Phi, 3, 0, 4), (Sub_Borrow, 4, 0, 1)]\<rparr>"

definition case_0887 :: "case_program" where
  "case_0887 =
     \<lparr>case_id = 887,
      case_input = [0x09644d00, 0xd35a9da3, 0x05a4795a, 0xd00faf72, 0x00000000, 0x3bd594e6, 0x8d4db00b, 0xa3442c30,
                    0xb3867305, 0x59e183da, 0xd894a513, 0xde13a095, 0x00000000, 0x054e6a3e, 0x1b6061e2, 0x70e31edd],
      case_kernel = sqrt_kernel 0x00000000,
      reg_inputs = [8, 12, 0, 4], reg5_init = 0x3236bfff,
      memory_keys = [0x00000377, 0x000006ee, 0x00000ddc, 0x00001bb8, 0x00003770, 0x00006ee0, 0x0000ddc0, 0x0001bb80],
      case_stmts = [(Byte_Pack, 4, 0, 2), (Divide_Rem, 5, 4, 3), (Rotate_Mix, 5, 5, 5), (Endian_Swap, 0, 3, 0),
                    (Multiply_Low, 2, 3, 0), (Multiply_Low, 5, 3, 0), (Short_Circuit, 5, 0, 5), (Add_Carry, 2, 4, 3),
                    (Add_Carry, 2, 5, 0), (Add_Carry, 1, 5, 2), (Byte_Pack, 1, 0, 5), (Add_Carry, 3, 0, 0)]\<rparr>"

definition case_0888 :: "case_program" where
  "case_0888 =
     \<lparr>case_id = 888,
      case_input = [0xcefbaecc, 0x67589d49, 0x59a77da6, 0xba49a565, 0x99b1cec0, 0xbc4b8db4, 0x3701ef3e, 0x84468ec5,
                    0xfa1270ef, 0x0a39eeda, 0x32a4852d, 0x00000080, 0x4686f4a3, 0x00000001, 0x2dbfd7b8, 0x30d5ca5b],
      case_kernel = sqrt_kernel 0x00000001,
      reg_inputs = [9, 13, 1, 5], reg5_init = 0xd06e39b8,
      memory_keys = [0x00000378, 0x000006f0, 0x00000de0, 0x00001bc0, 0x00003780, 0x00006f00, 0x0000de00, 0x0001bc00],
      case_stmts = [(Halfword_Swap, 0, 0, 3), (Divide_Rem, 4, 1, 5), (Rotate_Mix, 5, 0, 3), (Array_Scatter, 4, 1, 3),
                    (Array_Scatter, 3, 2, 0), (Switch_Phi, 5, 2, 5), (Horner_Loop, 4, 4, 3), (Horner_Loop, 5, 3, 0),
                    (Carry_Chain, 1, 3, 1), (Endian_Swap, 0, 2, 2), (Reverse_Loop, 4, 1, 3), (Carry_Chain, 3, 5, 5)]\<rparr>"

definition case_0889 :: "case_program" where
  "case_0889 =
     \<lparr>case_id = 889,
      case_input = [0x8e798e8d, 0x7b59c80e, 0xfffffffe, 0x1a40d043, 0x8fe44315, 0xafa8c6b7, 0x7efa7047, 0x56b34809,
                    0x1d557b3e, 0x4bd65c15, 0xa422720a, 0x90ff69e5, 0x9e80374a, 0xa47cd905, 0x00000002, 0x19e53b25],
      case_kernel = sqrt_kernel 0x00000002,
      reg_inputs = [10, 14, 2, 6], reg5_init = 0x6ea5b371,
      memory_keys = [0x00000379, 0x000006f2, 0x00000de4, 0x00001bc8, 0x00003790, 0x00006f20, 0x0000de40, 0x0001bc80],
      case_stmts = [(Array_Scatter, 5, 1, 4), (Divide_Rem, 3, 1, 0), (Rotate_Mix, 5, 4, 5), (Minmax_Clamp, 3, 1, 2),
                    (Carry_Chain, 3, 4, 4), (Endian_Swap, 5, 0, 4), (Mask_Merge, 3, 5, 2), (Rotate_Mix, 4, 4, 4),
                    (Popcount_Loop, 2, 0, 4), (Divide_Rem, 5, 0, 4), (Reverse_Loop, 0, 1, 4), (Horner_Loop, 4, 1, 4)]\<rparr>"

definition case_0890 :: "case_program" where
  "case_0890 =
     \<lparr>case_id = 890,
      case_input = [0x4fffee4e, 0x5f5837c6, 0xba949cee, 0x4e50b703, 0x782479b4, 0x6e35b730, 0x8ee304bd, 0x5c104b83,
                    0x6841aeb2, 0x00000003, 0xa2241282, 0x95c5648f, 0xd98fb31d, 0xe72e6415, 0xc474c548, 0x00000003],
      case_kernel = sqrt_kernel 0x00000003,
      reg_inputs = [11, 15, 3, 7], reg5_init = 0x0cdd2d2a,
      memory_keys = [0x0000037a, 0x000006f4, 0x00000de8, 0x00001bd0, 0x000037a0, 0x00006f40, 0x0000de80, 0x0001bd00],
      case_stmts = [(Counted_Loop, 4, 1, 2), (Divide_Rem, 4, 1, 1), (Rotate_Mix, 5, 5, 2), (Byte_Pack, 2, 5, 3),
                    (Carry_Chain, 1, 3, 2), (Gray_Decode, 5, 4, 0), (Mask_Merge, 1, 3, 5), (Switch_Phi, 4, 5, 1),
                    (Reverse_Loop, 1, 4, 5), (Reverse_Loop, 3, 1, 0), (Short_Circuit, 0, 5, 3), (Gray_Decode, 4, 2, 2)]\<rparr>"

definition case_0891 :: "case_program" where
  "case_0891 =
     \<lparr>case_id = 891,
      case_input = [0x7fffffff, 0x43596281, 0x4f0c3ee8, 0xee59c225, 0x6e71f461, 0x7dd6fc33, 0xc7189bc4, 0x8ee58d4f,
                    0x8f06a563, 0xc5b6a189, 0x34a2e5a5, 0x4df397fe, 0x018970f4, 0x7ec87e53, 0x19ced471, 0x4a98b56d],
      case_kernel = sqrt_kernel 0x7fffffff,
      reg_inputs = [12, 0, 4, 8], reg5_init = 0xab14a6e3,
      memory_keys = [0x0000037b, 0x000006f6, 0x00000dec, 0x00001bd8, 0x000037b0, 0x00006f60, 0x0000dec0, 0x0001bd80],
      case_stmts = [(Switch_Phi, 1, 2, 1), (Divide_Rem, 3, 3, 0), (Rotate_Mix, 3, 5, 0), (Reverse_Loop, 5, 3, 0),
                    (Endian_Swap, 3, 3, 2), (Array_Scatter, 3, 0, 5), (Switch_Phi, 0, 2, 2), (Rotate_Mix, 3, 2, 1),
                    (Array_Scatter, 4, 5, 2), (Byte_Pack, 2, 1, 0), (Short_Circuit, 4, 5, 4), (Counted_Loop, 5, 2, 3)]\<rparr>"

definition case_0892 :: "case_program" where
  "case_0892 =
     \<lparr>case_id = 892,
      case_input = [0xccf32fc9, 0x00000080, 0x9fc0bf37, 0x507b81a8, 0x589ca029, 0x81b755f8, 0x79cf6d47, 0x00000001,
                    0x327b9d77, 0x95a037a9, 0xbec064b2, 0x4c50bca4, 0x17d1435c, 0xd46a7e3c, 0xa4f73bfd, 0x5946c367],
      case_kernel = sqrt_kernel 0x00000080,
      reg_inputs = [13, 1, 5, 9], reg5_init = 0x494c209c,
      memory_keys = [0x0000037c, 0x000006f8, 0x00000df0, 0x00001be0, 0x000037c0, 0x00006f80, 0x0000df00, 0x0001be00],
      case_stmts = [(Short_Circuit, 3, 3, 5), (Divide_Rem, 3, 4, 4), (Rotate_Mix, 3, 3, 0), (Divide_Rem, 5, 1, 5),
                    (Switch_Phi, 4, 1, 3), (Counted_Loop, 2, 0, 5), (Compare_Select, 3, 2, 3), (Carry_Chain, 2, 1, 5),
                    (Reverse_Loop, 3, 4, 3), (Add_Carry, 4, 0, 4), (Carry_Chain, 1, 1, 0), (Reverse_Loop, 5, 1, 4)]\<rparr>"

definition case_0893 :: "case_program" where
  "case_0893 =
     \<lparr>case_id = 893,
      case_input = [0x8c710f88, 0x0b589d10, 0x000000ff, 0xf072f48e, 0x4ec92dfc, 0x92541efb, 0x3034f23e, 0x2e297f35,
                    0xd53c96a6, 0xd44f8566, 0x28469395, 0x94664fd5, 0xcfd780b5, 0x4d8c647a, 0x000000ff, 0x70763219],
      case_kernel = sqrt_kernel 0x000000ff,
      reg_inputs = [14, 2, 6, 10], reg5_init = 0xe7839a55,
      memory_keys = [0x0000037d, 0x000006fa, 0x00000df4, 0x00001be8, 0x000037d0, 0x00006fa0, 0x0000df40, 0x0001be80],
      case_stmts = [(Popcount_Loop, 2, 0, 2), (Divide_Rem, 2, 4, 1), (Rotate_Mix, 3, 3, 0), (Popcount_Loop, 0, 5, 4),
                    (Halfword_Swap, 2, 1, 3), (Short_Circuit, 2, 0, 0), (Add_Carry, 4, 5, 0), (Multiply_Low, 3, 2, 3),
                    (Endian_Swap, 2, 1, 2), (Sub_Borrow, 1, 2, 0), (Compare_Select, 5, 3, 5), (Byte_Pack, 4, 5, 5)]\<rparr>"

definition case_0894 :: "case_program" where
  "case_0894 =
     \<lparr>case_id = 894,
      case_input = [0x4df76f4b, 0x2f5962d8, 0x7cf35e7f, 0x00000100, 0xb909175d, 0xffffffff, 0xc02d86c4, 0x248a7cbf,
                    0xa028432a, 0x1bc0ca35, 0x2e40f31d, 0x915c42bf, 0x88d804e2, 0x0eded96a, 0x4d3c290d, 0x0a3b4d2f],
      case_kernel = sqrt_kernel 0x00000100,
      reg_inputs = [15, 3, 7, 11], reg5_init = 0x85bb140e,
      memory_keys = [0x0000037e, 0x000006fc, 0x00000df8, 0x00001bf0, 0x000037e0, 0x00006fc0, 0x0000df80, 0x0001bf00],
      case_stmts = [(Reverse_Loop, 5, 4, 0), (Divide_Rem, 5, 4, 2), (Rotate_Mix, 5, 4, 1), (Rotate_Mix, 5, 3, 5),
                    (Divide_Rem, 0, 2, 1), (Rotate_Mix, 4, 4, 4), (Halfword_Swap, 4, 1, 3), (Carry_Chain, 5, 1, 4),
                    (Reverse_Loop, 1, 1, 3), (Switch_Phi, 5, 3, 2), (Add_Carry, 3, 3, 0), (Switch_Phi, 0, 2, 5)]\<rparr>"

definition case_0895 :: "case_program" where
  "case_0895 =
     \<lparr>case_id = 895,
      case_input = [0x0d754f0a, 0x3358379f, 0x896bfc79, 0x046be6e8, 0x7fffffff, 0x402a247f, 0x89d619bd, 0xf67fba73,
                    0x476f48fb, 0x5a2f78fa, 0xb8c6043a, 0x496ab1ce, 0x0000007f, 0x9738c32c, 0x90863834, 0x230bbc51],
      case_kernel = sqrt_kernel 0x7fffffff,
      reg_inputs = [0, 4, 8, 12], reg5_init = 0x23f28dc7,
      memory_keys = [0x0000037f, 0x000006fe, 0x00000dfc, 0x00001bf8, 0x000037f0, 0x00006fe0, 0x0000dfc0, 0x0001bf80],
      case_stmts = [(Gray_Decode, 2, 3, 5), (Divide_Rem, 2, 4, 3), (Rotate_Mix, 3, 0, 5), (Switch_Phi, 4, 1, 2),
                    (Byte_Pack, 4, 0, 1), (Minmax_Clamp, 0, 0, 5), (Rotate_Mix, 3, 4, 2), (Switch_Phi, 4, 4, 0),
                    (Array_Scatter, 2, 0, 4), (Counted_Loop, 0, 1, 0), (Add_Carry, 5, 1, 5), (Reverse_Loop, 3, 4, 2)]\<rparr>"

definition case_0896 :: "case_program" where
  "case_0896 =
     \<lparr>case_id = 896,
      case_input = [0xb316900b, 0xcf689c9d, 0xf144654a, 0x80000000, 0xbeffa809, 0x80000000, 0x65a627aa, 0xa7b1d143,
                    0x988bff20, 0x6a7777c8, 0x438504b0, 0x7380611f, 0x4489a2cb, 0xc995a76c, 0x89e2df80, 0x42cebd4d],
      case_kernel = sqrt_kernel 0x80000000,
      reg_inputs = [1, 5, 9, 13], reg5_init = 0xc22a0780,
      memory_keys = [0x00000380, 0x00000700, 0x00000e00, 0x00001c00, 0x00003800, 0x00007000, 0x0000e000, 0x0001c000],
      case_stmts = [(Minmax_Clamp, 2, 1, 2), (Divide_Rem, 4, 0, 5), (Rotate_Mix, 1, 4, 1), (Reverse_Loop, 4, 3, 4),
                    (Array_Scatter, 1, 0, 2), (Multiply_Low, 0, 3, 4), (Gray_Decode, 3, 0, 1), (Reverse_Loop, 5, 2, 3),
                    (Short_Circuit, 3, 1, 1), (Endian_Swap, 4, 0, 2), (Short_Circuit, 1, 4, 2),
                    (Popcount_Loop, 2, 2, 2)]\<rparr>"

definition case_0897 :: "case_program" where
  "case_0897 =
     \<lparr>case_id = 897,
      case_input = [0xf394b04a, 0xd369c9da, 0x04dcc74c, 0x0519f063, 0xa8aa25dc, 0x0a391079, 0xfffffffe, 0x7544178f,
                    0x7fccf4f1, 0x2b98c507, 0x00000002, 0xabb6926e, 0x9c8f6122, 0x5073bd2a, 0x5458ceb9, 0x6bfe4c33],
      case_kernel = sqrt_kernel 0xfffffffe,
      reg_inputs = [2, 6, 10, 14], reg5_init = 0x60618139,
      memory_keys = [0x00000381, 0x00000702, 0x00000e04, 0x00001c08, 0x00003810, 0x00007020, 0x0000e040, 0x0001c080],
      case_stmts = [(Endian_Swap, 1, 2, 5), (Divide_Rem, 1, 2, 2), (Rotate_Mix, 5, 0, 1), (Switch_Phi, 3, 3, 5),
                    (Rotate_Mix, 1, 2, 2), (Popcount_Loop, 4, 3, 1), (Mask_Merge, 2, 5, 2), (Horner_Loop, 4, 1, 5),
                    (Multiply_Low, 0, 2, 2), (Short_Circuit, 5, 4, 0), (Halfword_Swap, 3, 0, 3),
                    (Short_Circuit, 1, 4, 3)]\<rparr>"

definition case_0898 :: "case_program" where
  "case_0898 =
     \<lparr>case_id = 898,
      case_input = [0x3212d089, 0x00000100, 0x12778402, 0x51099723, 0x5f6a1f7d, 0xcba461fe, 0xdc44cc29, 0xffffffff,
                    0x0ad8217d, 0xe4178a54, 0xd305931f, 0xae8c9f04, 0xdb80e575, 0x1321003a, 0x6029cd70, 0x11b33305],
      case_kernel = sqrt_kernel 0xffffffff,
      reg_inputs = [3, 7, 11, 15], reg5_init = 0xfe98faf2,
      memory_keys = [0x00000382, 0x00000704, 0x00000e08, 0x00001c10, 0x00003820, 0x00007040, 0x0000e080, 0x0001c100],
      case_stmts = [(Carry_Chain, 2, 0, 5), (Divide_Rem, 2, 2, 3), (Rotate_Mix, 5, 3, 2), (Short_Circuit, 0, 3, 0),
                    (Rotate_Mix, 1, 1, 0), (Switch_Phi, 0, 3, 3), (Endian_Swap, 2, 1, 3), (Rotate_Mix, 4, 4, 2),
                    (Minmax_Clamp, 5, 4, 1), (Carry_Chain, 1, 1, 4), (Counted_Loop, 5, 4, 2), (Short_Circuit, 1, 3, 1)]\<rparr>"

definition case_0899 :: "case_program" where
  "case_0899 =
     \<lparr>case_id = 899,
      case_input = [0x7290f0c8, 0xeb696355, 0xe7ef2604, 0xf100e205, 0x493f92a8, 0xd8472afd, 0x95bf5350, 0xad12d2c9,
                    0x00000000, 0xa5f8389b, 0x45836438, 0x76ba6c75, 0x0386269c, 0x8ac71a7c, 0xbd93dc49, 0x3883c27b],
      case_kernel = sqrt_kernel 0x00000000,
      reg_inputs = [4, 8, 12, 0], reg5_init = 0x9cd074ab,
      memory_keys = [0x00000383, 0x00000706, 0x00000e0c, 0x00001c18, 0x00003830, 0x00007060, 0x0000e0c0, 0x0001c180],
      case_stmts = [(Horner_Loop, 1, 1, 0), (Divide_Rem, 5, 0, 0), (Rotate_Mix, 5, 5, 4), (Array_Scatter, 3, 1, 1),
                    (Endian_Swap, 1, 1, 4), (Array_Scatter, 4, 5, 4), (Switch_Phi, 3, 4, 0), (Horner_Loop, 3, 1, 4),
                    (Gray_Decode, 4, 3, 4), (Byte_Pack, 4, 1, 4), (Rotate_Mix, 5, 4, 3), (Sub_Borrow, 0, 5, 4)]\<rparr>"

lemma conforms_0800: "conforms case_0800 (crc8_prediction 4)"
  by (rule conformsI) (simp_all add: case_0800_def upt_rec stmt_ok_def crc8_predicted)

lemma conforms_0801: "conforms case_0801 (crc8_prediction 5)"
  by (rule conformsI) (simp_all add: case_0801_def upt_rec stmt_ok_def crc8_predicted)

lemma conforms_0802: "conforms case_0802 (crc8_prediction 6)"
  by (rule conformsI) (simp_all add: case_0802_def upt_rec stmt_ok_def crc8_predicted)

lemma conforms_0803: "conforms case_0803 (crc8_prediction 7)"
  by (rule conformsI) (simp_all add: case_0803_def upt_rec stmt_ok_def crc8_predicted)

lemma conforms_0804: "conforms case_0804 (crc8_prediction 8)"
  by (rule conformsI) (simp_all add: case_0804_def upt_rec stmt_ok_def crc8_predicted)

lemma conforms_0805: "conforms case_0805 (crc8_prediction 9)"
  by (rule conformsI) (simp_all add: case_0805_def upt_rec stmt_ok_def crc8_predicted)

lemma conforms_0806: "conforms case_0806 (crc8_prediction 10)"
  by (rule conformsI) (simp_all add: case_0806_def upt_rec stmt_ok_def crc8_predicted)

lemma conforms_0807: "conforms case_0807 (crc8_prediction 11)"
  by (rule conformsI) (simp_all add: case_0807_def upt_rec stmt_ok_def crc8_predicted)

lemma conforms_0808: "conforms case_0808 (crc8_prediction 12)"
  by (rule conformsI) (simp_all add: case_0808_def upt_rec stmt_ok_def crc8_predicted)

lemma conforms_0809: "conforms case_0809 (crc8_prediction 13)"
  by (rule conformsI) (simp_all add: case_0809_def upt_rec stmt_ok_def crc8_predicted)

lemma conforms_0810: "conforms case_0810 (crc8_prediction 14)"
  by (rule conformsI) (simp_all add: case_0810_def upt_rec stmt_ok_def crc8_predicted)

lemma conforms_0811: "conforms case_0811 (crc8_prediction 15)"
  by (rule conformsI) (simp_all add: case_0811_def upt_rec stmt_ok_def crc8_predicted)

lemma conforms_0812: "conforms case_0812 (crc8_prediction 4)"
  by (rule conformsI) (simp_all add: case_0812_def upt_rec stmt_ok_def crc8_predicted)

lemma conforms_0813: "conforms case_0813 (crc8_prediction 5)"
  by (rule conformsI) (simp_all add: case_0813_def upt_rec stmt_ok_def crc8_predicted)

lemma conforms_0814: "conforms case_0814 (crc8_prediction 6)"
  by (rule conformsI) (simp_all add: case_0814_def upt_rec stmt_ok_def crc8_predicted)

lemma conforms_0815: "conforms case_0815 (crc8_prediction 7)"
  by (rule conformsI) (simp_all add: case_0815_def upt_rec stmt_ok_def crc8_predicted)

lemma conforms_0816: "conforms case_0816 (crc8_prediction 8)"
  by (rule conformsI) (simp_all add: case_0816_def upt_rec stmt_ok_def crc8_predicted)

lemma conforms_0817: "conforms case_0817 (crc8_prediction 9)"
  by (rule conformsI) (simp_all add: case_0817_def upt_rec stmt_ok_def crc8_predicted)

lemma conforms_0818: "conforms case_0818 (crc8_prediction 10)"
  by (rule conformsI) (simp_all add: case_0818_def upt_rec stmt_ok_def crc8_predicted)

lemma conforms_0819: "conforms case_0819 (crc8_prediction 11)"
  by (rule conformsI) (simp_all add: case_0819_def upt_rec stmt_ok_def crc8_predicted)

lemma conforms_0820: "conforms case_0820 (crc8_prediction 12)"
  by (rule conformsI) (simp_all add: case_0820_def upt_rec stmt_ok_def crc8_predicted)

lemma conforms_0821: "conforms case_0821 (crc8_prediction 13)"
  by (rule conformsI) (simp_all add: case_0821_def upt_rec stmt_ok_def crc8_predicted)

lemma conforms_0822: "conforms case_0822 (crc8_prediction 14)"
  by (rule conformsI) (simp_all add: case_0822_def upt_rec stmt_ok_def crc8_predicted)

lemma conforms_0823: "conforms case_0823 (crc8_prediction 15)"
  by (rule conformsI) (simp_all add: case_0823_def upt_rec stmt_ok_def crc8_predicted)

lemma conforms_0824: "conforms case_0824 (crc8_prediction 4)"
  by (rule conformsI) (simp_all add: case_0824_def upt_rec stmt_ok_def crc8_predicted)

lemma conforms_0825: "conforms case_0825 (saturating_prediction)"
  by (rule conformsI) (simp_all add: case_0825_def upt_rec stmt_ok_def saturating_predicted)

lemma conforms_0826: "conforms case_0826 (saturating_prediction)"
  by (rule conformsI) (simp_all add: case_0826_def upt_rec stmt_ok_def saturating_predicted)

lemma conforms_0827: "conforms case_0827 (saturating_prediction)"
  by (rule conformsI) (simp_all add: case_0827_def upt_rec stmt_ok_def saturating_predicted)

lemma conforms_0828: "conforms case_0828 (saturating_prediction)"
  by (rule conformsI) (simp_all add: case_0828_def upt_rec stmt_ok_def saturating_predicted)

lemma conforms_0829: "conforms case_0829 (saturating_prediction)"
  by (rule conformsI) (simp_all add: case_0829_def upt_rec stmt_ok_def saturating_predicted)

lemma conforms_0830: "conforms case_0830 (saturating_prediction)"
  by (rule conformsI) (simp_all add: case_0830_def upt_rec stmt_ok_def saturating_predicted)

lemma conforms_0831: "conforms case_0831 (saturating_prediction)"
  by (rule conformsI) (simp_all add: case_0831_def upt_rec stmt_ok_def saturating_predicted)

lemma conforms_0832: "conforms case_0832 (saturating_prediction)"
  by (rule conformsI) (simp_all add: case_0832_def upt_rec stmt_ok_def saturating_predicted)

lemma conforms_0833: "conforms case_0833 (saturating_prediction)"
  by (rule conformsI) (simp_all add: case_0833_def upt_rec stmt_ok_def saturating_predicted)

lemma conforms_0834: "conforms case_0834 (saturating_prediction)"
  by (rule conformsI) (simp_all add: case_0834_def upt_rec stmt_ok_def saturating_predicted)

lemma conforms_0835: "conforms case_0835 (saturating_prediction)"
  by (rule conformsI) (simp_all add: case_0835_def upt_rec stmt_ok_def saturating_predicted)

lemma conforms_0836: "conforms case_0836 (saturating_prediction)"
  by (rule conformsI) (simp_all add: case_0836_def upt_rec stmt_ok_def saturating_predicted)

lemma conforms_0837: "conforms case_0837 (saturating_prediction)"
  by (rule conformsI) (simp_all add: case_0837_def upt_rec stmt_ok_def saturating_predicted)

lemma conforms_0838: "conforms case_0838 (saturating_prediction)"
  by (rule conformsI) (simp_all add: case_0838_def upt_rec stmt_ok_def saturating_predicted)

lemma conforms_0839: "conforms case_0839 (saturating_prediction)"
  by (rule conformsI) (simp_all add: case_0839_def upt_rec stmt_ok_def saturating_predicted)

lemma conforms_0840: "conforms case_0840 (saturating_prediction)"
  by (rule conformsI) (simp_all add: case_0840_def upt_rec stmt_ok_def saturating_predicted)

lemma conforms_0841: "conforms case_0841 (saturating_prediction)"
  by (rule conformsI) (simp_all add: case_0841_def upt_rec stmt_ok_def saturating_predicted)

lemma conforms_0842: "conforms case_0842 (saturating_prediction)"
  by (rule conformsI) (simp_all add: case_0842_def upt_rec stmt_ok_def saturating_predicted)

lemma conforms_0843: "conforms case_0843 (saturating_prediction)"
  by (rule conformsI) (simp_all add: case_0843_def upt_rec stmt_ok_def saturating_predicted)

lemma conforms_0844: "conforms case_0844 (saturating_prediction)"
  by (rule conformsI) (simp_all add: case_0844_def upt_rec stmt_ok_def saturating_predicted)

lemma conforms_0845: "conforms case_0845 (saturating_prediction)"
  by (rule conformsI) (simp_all add: case_0845_def upt_rec stmt_ok_def saturating_predicted)

lemma conforms_0846: "conforms case_0846 (saturating_prediction)"
  by (rule conformsI) (simp_all add: case_0846_def upt_rec stmt_ok_def saturating_predicted)

lemma conforms_0847: "conforms case_0847 (saturating_prediction)"
  by (rule conformsI) (simp_all add: case_0847_def upt_rec stmt_ok_def saturating_predicted)

lemma conforms_0848: "conforms case_0848 (saturating_prediction)"
  by (rule conformsI) (simp_all add: case_0848_def upt_rec stmt_ok_def saturating_predicted)

lemma conforms_0849: "conforms case_0849 (saturating_prediction)"
  by (rule conformsI) (simp_all add: case_0849_def upt_rec stmt_ok_def saturating_predicted)

lemma conforms_0850: "conforms case_0850 (multiply_accumulate_prediction 4)"
  by (rule conformsI) (simp_all add: case_0850_def upt_rec stmt_ok_def multiply_accumulate_predicted)

lemma conforms_0851: "conforms case_0851 (multiply_accumulate_prediction 5)"
  by (rule conformsI) (simp_all add: case_0851_def upt_rec stmt_ok_def multiply_accumulate_predicted)

lemma conforms_0852: "conforms case_0852 (multiply_accumulate_prediction 6)"
  by (rule conformsI) (simp_all add: case_0852_def upt_rec stmt_ok_def multiply_accumulate_predicted)

lemma conforms_0853: "conforms case_0853 (multiply_accumulate_prediction 7)"
  by (rule conformsI) (simp_all add: case_0853_def upt_rec stmt_ok_def multiply_accumulate_predicted)

lemma conforms_0854: "conforms case_0854 (multiply_accumulate_prediction 8)"
  by (rule conformsI) (simp_all add: case_0854_def upt_rec stmt_ok_def multiply_accumulate_predicted)

lemma conforms_0855: "conforms case_0855 (multiply_accumulate_prediction 9)"
  by (rule conformsI) (simp_all add: case_0855_def upt_rec stmt_ok_def multiply_accumulate_predicted)

lemma conforms_0856: "conforms case_0856 (multiply_accumulate_prediction 10)"
  by (rule conformsI) (simp_all add: case_0856_def upt_rec stmt_ok_def multiply_accumulate_predicted)

lemma conforms_0857: "conforms case_0857 (multiply_accumulate_prediction 11)"
  by (rule conformsI) (simp_all add: case_0857_def upt_rec stmt_ok_def multiply_accumulate_predicted)

lemma conforms_0858: "conforms case_0858 (multiply_accumulate_prediction 12)"
  by (rule conformsI) (simp_all add: case_0858_def upt_rec stmt_ok_def multiply_accumulate_predicted)

lemma conforms_0859: "conforms case_0859 (multiply_accumulate_prediction 13)"
  by (rule conformsI) (simp_all add: case_0859_def upt_rec stmt_ok_def multiply_accumulate_predicted)

lemma conforms_0860: "conforms case_0860 (multiply_accumulate_prediction 14)"
  by (rule conformsI) (simp_all add: case_0860_def upt_rec stmt_ok_def multiply_accumulate_predicted)

lemma conforms_0861: "conforms case_0861 (multiply_accumulate_prediction 15)"
  by (rule conformsI) (simp_all add: case_0861_def upt_rec stmt_ok_def multiply_accumulate_predicted)

lemma conforms_0862: "conforms case_0862 (multiply_accumulate_prediction 4)"
  by (rule conformsI) (simp_all add: case_0862_def upt_rec stmt_ok_def multiply_accumulate_predicted)

lemma conforms_0863: "conforms case_0863 (multiply_accumulate_prediction 5)"
  by (rule conformsI) (simp_all add: case_0863_def upt_rec stmt_ok_def multiply_accumulate_predicted)

lemma conforms_0864: "conforms case_0864 (multiply_accumulate_prediction 6)"
  by (rule conformsI) (simp_all add: case_0864_def upt_rec stmt_ok_def multiply_accumulate_predicted)

lemma conforms_0865: "conforms case_0865 (multiply_accumulate_prediction 7)"
  by (rule conformsI) (simp_all add: case_0865_def upt_rec stmt_ok_def multiply_accumulate_predicted)

lemma conforms_0866: "conforms case_0866 (multiply_accumulate_prediction 8)"
  by (rule conformsI) (simp_all add: case_0866_def upt_rec stmt_ok_def multiply_accumulate_predicted)

lemma conforms_0867: "conforms case_0867 (multiply_accumulate_prediction 9)"
  by (rule conformsI) (simp_all add: case_0867_def upt_rec stmt_ok_def multiply_accumulate_predicted)

lemma conforms_0868: "conforms case_0868 (multiply_accumulate_prediction 10)"
  by (rule conformsI) (simp_all add: case_0868_def upt_rec stmt_ok_def multiply_accumulate_predicted)

lemma conforms_0869: "conforms case_0869 (multiply_accumulate_prediction 11)"
  by (rule conformsI) (simp_all add: case_0869_def upt_rec stmt_ok_def multiply_accumulate_predicted)

lemma conforms_0870: "conforms case_0870 (multiply_accumulate_prediction 12)"
  by (rule conformsI) (simp_all add: case_0870_def upt_rec stmt_ok_def multiply_accumulate_predicted)

lemma conforms_0871: "conforms case_0871 (multiply_accumulate_prediction 13)"
  by (rule conformsI) (simp_all add: case_0871_def upt_rec stmt_ok_def multiply_accumulate_predicted)

lemma conforms_0872: "conforms case_0872 (multiply_accumulate_prediction 14)"
  by (rule conformsI) (simp_all add: case_0872_def upt_rec stmt_ok_def multiply_accumulate_predicted)

lemma conforms_0873: "conforms case_0873 (multiply_accumulate_prediction 15)"
  by (rule conformsI) (simp_all add: case_0873_def upt_rec stmt_ok_def multiply_accumulate_predicted)

lemma conforms_0874: "conforms case_0874 (multiply_accumulate_prediction 4)"
  by (rule conformsI) (simp_all add: case_0874_def upt_rec stmt_ok_def multiply_accumulate_predicted)

lemma conforms_0875: "conforms case_0875 (\<lambda>_. sqrt_prediction 0x00000000)"
  by (rule conformsI) (simp_all add: case_0875_def upt_rec stmt_ok_def sqrt_predicted)

lemma conforms_0876: "conforms case_0876 (\<lambda>_. sqrt_prediction 0x00000001)"
  by (rule conformsI) (simp_all add: case_0876_def upt_rec stmt_ok_def sqrt_predicted)

lemma conforms_0877: "conforms case_0877 (\<lambda>_. sqrt_prediction 0x00000002)"
  by (rule conformsI) (simp_all add: case_0877_def upt_rec stmt_ok_def sqrt_predicted)

lemma conforms_0878: "conforms case_0878 (\<lambda>_. sqrt_prediction 0x00000003)"
  by (rule conformsI) (simp_all add: case_0878_def upt_rec stmt_ok_def sqrt_predicted)

lemma conforms_0879: "conforms case_0879 (\<lambda>_. sqrt_prediction 0x0000007f)"
  by (rule conformsI) (simp_all add: case_0879_def upt_rec stmt_ok_def sqrt_predicted)

lemma conforms_0880: "conforms case_0880 (\<lambda>_. sqrt_prediction 0x00000080)"
  by (rule conformsI) (simp_all add: case_0880_def upt_rec stmt_ok_def sqrt_predicted)

lemma conforms_0881: "conforms case_0881 (\<lambda>_. sqrt_prediction 0x000000ff)"
  by (rule conformsI) (simp_all add: case_0881_def upt_rec stmt_ok_def sqrt_predicted)

lemma conforms_0882: "conforms case_0882 (\<lambda>_. sqrt_prediction 0x00000100)"
  by (rule conformsI) (simp_all add: case_0882_def upt_rec stmt_ok_def sqrt_predicted)

lemma conforms_0883: "conforms case_0883 (\<lambda>_. sqrt_prediction 0x7fffffff)"
  by (rule conformsI) (simp_all add: case_0883_def upt_rec stmt_ok_def sqrt_predicted)

lemma conforms_0884: "conforms case_0884 (\<lambda>_. sqrt_prediction 0x80000000)"
  by (rule conformsI) (simp_all add: case_0884_def upt_rec stmt_ok_def sqrt_predicted)

lemma conforms_0885: "conforms case_0885 (\<lambda>_. sqrt_prediction 0xfffffffe)"
  by (rule conformsI) (simp_all add: case_0885_def upt_rec stmt_ok_def sqrt_predicted)

lemma conforms_0886: "conforms case_0886 (\<lambda>_. sqrt_prediction 0xffffffff)"
  by (rule conformsI) (simp_all add: case_0886_def upt_rec stmt_ok_def sqrt_predicted)

lemma conforms_0887: "conforms case_0887 (\<lambda>_. sqrt_prediction 0x00000000)"
  by (rule conformsI) (simp_all add: case_0887_def upt_rec stmt_ok_def sqrt_predicted)

lemma conforms_0888: "conforms case_0888 (\<lambda>_. sqrt_prediction 0x00000001)"
  by (rule conformsI) (simp_all add: case_0888_def upt_rec stmt_ok_def sqrt_predicted)

lemma conforms_0889: "conforms case_0889 (\<lambda>_. sqrt_prediction 0x00000002)"
  by (rule conformsI) (simp_all add: case_0889_def upt_rec stmt_ok_def sqrt_predicted)

lemma conforms_0890: "conforms case_0890 (\<lambda>_. sqrt_prediction 0x00000003)"
  by (rule conformsI) (simp_all add: case_0890_def upt_rec stmt_ok_def sqrt_predicted)

lemma conforms_0891: "conforms case_0891 (\<lambda>_. sqrt_prediction 0x7fffffff)"
  by (rule conformsI) (simp_all add: case_0891_def upt_rec stmt_ok_def sqrt_predicted)

lemma conforms_0892: "conforms case_0892 (\<lambda>_. sqrt_prediction 0x00000080)"
  by (rule conformsI) (simp_all add: case_0892_def upt_rec stmt_ok_def sqrt_predicted)

lemma conforms_0893: "conforms case_0893 (\<lambda>_. sqrt_prediction 0x000000ff)"
  by (rule conformsI) (simp_all add: case_0893_def upt_rec stmt_ok_def sqrt_predicted)

lemma conforms_0894: "conforms case_0894 (\<lambda>_. sqrt_prediction 0x00000100)"
  by (rule conformsI) (simp_all add: case_0894_def upt_rec stmt_ok_def sqrt_predicted)

lemma conforms_0895: "conforms case_0895 (\<lambda>_. sqrt_prediction 0x7fffffff)"
  by (rule conformsI) (simp_all add: case_0895_def upt_rec stmt_ok_def sqrt_predicted)

lemma conforms_0896: "conforms case_0896 (\<lambda>_. sqrt_prediction 0x80000000)"
  by (rule conformsI) (simp_all add: case_0896_def upt_rec stmt_ok_def sqrt_predicted)

lemma conforms_0897: "conforms case_0897 (\<lambda>_. sqrt_prediction 0xfffffffe)"
  by (rule conformsI) (simp_all add: case_0897_def upt_rec stmt_ok_def sqrt_predicted)

lemma conforms_0898: "conforms case_0898 (\<lambda>_. sqrt_prediction 0xffffffff)"
  by (rule conformsI) (simp_all add: case_0898_def upt_rec stmt_ok_def sqrt_predicted)

lemma conforms_0899: "conforms case_0899 (\<lambda>_. sqrt_prediction 0x00000000)"
  by (rule conformsI) (simp_all add: case_0899_def upt_rec stmt_ok_def sqrt_predicted)

definition corpus_8 :: "(nat \<Rightarrow> u32) \<Rightarrow> (case_program \<times> (u32 list \<Rightarrow> u32)) list" where
  "corpus_8 junk =
    [(case_0800, crc8_prediction 4),
     (case_0801, crc8_prediction 5),
     (case_0802, crc8_prediction 6),
     (case_0803, crc8_prediction 7),
     (case_0804, crc8_prediction 8),
     (case_0805, crc8_prediction 9),
     (case_0806, crc8_prediction 10),
     (case_0807, crc8_prediction 11),
     (case_0808, crc8_prediction 12),
     (case_0809, crc8_prediction 13),
     (case_0810, crc8_prediction 14),
     (case_0811, crc8_prediction 15),
     (case_0812, crc8_prediction 4),
     (case_0813, crc8_prediction 5),
     (case_0814, crc8_prediction 6),
     (case_0815, crc8_prediction 7),
     (case_0816, crc8_prediction 8),
     (case_0817, crc8_prediction 9),
     (case_0818, crc8_prediction 10),
     (case_0819, crc8_prediction 11),
     (case_0820, crc8_prediction 12),
     (case_0821, crc8_prediction 13),
     (case_0822, crc8_prediction 14),
     (case_0823, crc8_prediction 15),
     (case_0824, crc8_prediction 4),
     (case_0825, saturating_prediction),
     (case_0826, saturating_prediction),
     (case_0827, saturating_prediction),
     (case_0828, saturating_prediction),
     (case_0829, saturating_prediction),
     (case_0830, saturating_prediction),
     (case_0831, saturating_prediction),
     (case_0832, saturating_prediction),
     (case_0833, saturating_prediction),
     (case_0834, saturating_prediction),
     (case_0835, saturating_prediction),
     (case_0836, saturating_prediction),
     (case_0837, saturating_prediction),
     (case_0838, saturating_prediction),
     (case_0839, saturating_prediction),
     (case_0840, saturating_prediction),
     (case_0841, saturating_prediction),
     (case_0842, saturating_prediction),
     (case_0843, saturating_prediction),
     (case_0844, saturating_prediction),
     (case_0845, saturating_prediction),
     (case_0846, saturating_prediction),
     (case_0847, saturating_prediction),
     (case_0848, saturating_prediction),
     (case_0849, saturating_prediction),
     (case_0850, multiply_accumulate_prediction 4),
     (case_0851, multiply_accumulate_prediction 5),
     (case_0852, multiply_accumulate_prediction 6),
     (case_0853, multiply_accumulate_prediction 7),
     (case_0854, multiply_accumulate_prediction 8),
     (case_0855, multiply_accumulate_prediction 9),
     (case_0856, multiply_accumulate_prediction 10),
     (case_0857, multiply_accumulate_prediction 11),
     (case_0858, multiply_accumulate_prediction 12),
     (case_0859, multiply_accumulate_prediction 13),
     (case_0860, multiply_accumulate_prediction 14),
     (case_0861, multiply_accumulate_prediction 15),
     (case_0862, multiply_accumulate_prediction 4),
     (case_0863, multiply_accumulate_prediction 5),
     (case_0864, multiply_accumulate_prediction 6),
     (case_0865, multiply_accumulate_prediction 7),
     (case_0866, multiply_accumulate_prediction 8),
     (case_0867, multiply_accumulate_prediction 9),
     (case_0868, multiply_accumulate_prediction 10),
     (case_0869, multiply_accumulate_prediction 11),
     (case_0870, multiply_accumulate_prediction 12),
     (case_0871, multiply_accumulate_prediction 13),
     (case_0872, multiply_accumulate_prediction 14),
     (case_0873, multiply_accumulate_prediction 15),
     (case_0874, multiply_accumulate_prediction 4),
     (case_0875, \<lambda>_. sqrt_prediction 0x00000000),
     (case_0876, \<lambda>_. sqrt_prediction 0x00000001),
     (case_0877, \<lambda>_. sqrt_prediction 0x00000002),
     (case_0878, \<lambda>_. sqrt_prediction 0x00000003),
     (case_0879, \<lambda>_. sqrt_prediction 0x0000007f),
     (case_0880, \<lambda>_. sqrt_prediction 0x00000080),
     (case_0881, \<lambda>_. sqrt_prediction 0x000000ff),
     (case_0882, \<lambda>_. sqrt_prediction 0x00000100),
     (case_0883, \<lambda>_. sqrt_prediction 0x7fffffff),
     (case_0884, \<lambda>_. sqrt_prediction 0x80000000),
     (case_0885, \<lambda>_. sqrt_prediction 0xfffffffe),
     (case_0886, \<lambda>_. sqrt_prediction 0xffffffff),
     (case_0887, \<lambda>_. sqrt_prediction 0x00000000),
     (case_0888, \<lambda>_. sqrt_prediction 0x00000001),
     (case_0889, \<lambda>_. sqrt_prediction 0x00000002),
     (case_0890, \<lambda>_. sqrt_prediction 0x00000003),
     (case_0891, \<lambda>_. sqrt_prediction 0x7fffffff),
     (case_0892, \<lambda>_. sqrt_prediction 0x00000080),
     (case_0893, \<lambda>_. sqrt_prediction 0x000000ff),
     (case_0894, \<lambda>_. sqrt_prediction 0x00000100),
     (case_0895, \<lambda>_. sqrt_prediction 0x7fffffff),
     (case_0896, \<lambda>_. sqrt_prediction 0x80000000),
     (case_0897, \<lambda>_. sqrt_prediction 0xfffffffe),
     (case_0898, \<lambda>_. sqrt_prediction 0xffffffff),
     (case_0899, \<lambda>_. sqrt_prediction 0x00000000)]"

lemmas corpus_8_programs =
  conforms_0800 conforms_0801 conforms_0802 conforms_0803 conforms_0804 conforms_0805 conforms_0806 conforms_0807
  conforms_0808 conforms_0809 conforms_0810 conforms_0811 conforms_0812 conforms_0813 conforms_0814 conforms_0815
  conforms_0816 conforms_0817 conforms_0818 conforms_0819 conforms_0820 conforms_0821 conforms_0822 conforms_0823
  conforms_0824 conforms_0825 conforms_0826 conforms_0827 conforms_0828 conforms_0829 conforms_0830 conforms_0831
  conforms_0832 conforms_0833 conforms_0834 conforms_0835 conforms_0836 conforms_0837 conforms_0838 conforms_0839
  conforms_0840 conforms_0841 conforms_0842 conforms_0843 conforms_0844 conforms_0845 conforms_0846 conforms_0847
  conforms_0848 conforms_0849 conforms_0850 conforms_0851 conforms_0852 conforms_0853 conforms_0854 conforms_0855
  conforms_0856 conforms_0857 conforms_0858 conforms_0859 conforms_0860 conforms_0861 conforms_0862 conforms_0863
  conforms_0864 conforms_0865 conforms_0866 conforms_0867 conforms_0868 conforms_0869 conforms_0870 conforms_0871
  conforms_0872 conforms_0873 conforms_0874 conforms_0875 conforms_0876 conforms_0877 conforms_0878 conforms_0879
  conforms_0880 conforms_0881 conforms_0882 conforms_0883 conforms_0884 conforms_0885 conforms_0886 conforms_0887
  conforms_0888 conforms_0889 conforms_0890 conforms_0891 conforms_0892 conforms_0893 conforms_0894 conforms_0895
  conforms_0896 conforms_0897 conforms_0898 conforms_0899

lemma corpus_8_conforms: "list_all (\<lambda>(c, prediction). conforms c prediction) (corpus_8 junk)"
  unfolding corpus_8_def list.pred_inject prod.case by (intro conjI corpus_8_programs list.pred_inject(1))

lemma corpus_8_ids: "map (\<lambda>(c, prediction). case_id c) (corpus_8 junk) = [800..<900]"
  by (simp add: corpus_8_def upt_conv_Cons
      case_0800_def case_0801_def case_0802_def case_0803_def case_0804_def case_0805_def case_0806_def
      case_0807_def case_0808_def case_0809_def case_0810_def case_0811_def case_0812_def case_0813_def
      case_0814_def case_0815_def case_0816_def case_0817_def case_0818_def case_0819_def case_0820_def
      case_0821_def case_0822_def case_0823_def case_0824_def case_0825_def case_0826_def case_0827_def
      case_0828_def case_0829_def case_0830_def case_0831_def case_0832_def case_0833_def case_0834_def
      case_0835_def case_0836_def case_0837_def case_0838_def case_0839_def case_0840_def case_0841_def
      case_0842_def case_0843_def case_0844_def case_0845_def case_0846_def case_0847_def case_0848_def
      case_0849_def case_0850_def case_0851_def case_0852_def case_0853_def case_0854_def case_0855_def
      case_0856_def case_0857_def case_0858_def case_0859_def case_0860_def case_0861_def case_0862_def
      case_0863_def case_0864_def case_0865_def case_0866_def case_0867_def case_0868_def case_0869_def
      case_0870_def case_0871_def case_0872_def case_0873_def case_0874_def case_0875_def case_0876_def
      case_0877_def case_0878_def case_0879_def case_0880_def case_0881_def case_0882_def case_0883_def
      case_0884_def case_0885_def case_0886_def case_0887_def case_0888_def case_0889_def case_0890_def
      case_0891_def case_0892_def case_0893_def case_0894_def case_0895_def case_0896_def case_0897_def
      case_0898_def case_0899_def)

end
