(* ===== verification/Corpus_Cases_9.thy ===== *)
theory Corpus_Cases_9
  imports Corpus_Checksums Corpus_Bits Corpus_Control Corpus_Algorithms Corpus_Buffers
begin

text \<open>
  The programs 900 to 999 of the edge-case corpus, one definition per file: inputs, kernel with the parameters of the
  scenario, initial literals and statements, as the C text has them.  Their kernels are the division,
  multiply, fir and median kernels.  Every program conforms to the prediction of its kernel.
\<close>

definition case_0900 :: "case_program" where
  "case_0900 =
     \<lparr>case_id = 900,
      case_input = [0x00000000, 0xbf69c983, 0x3723a7db, 0x4f22a188, 0x7fd2c6e0, 0x24268336, 0x2b68a5d3, 0xdf2be67f,
                    0x50e212b8, 0xf5eeaebb, 0xcfe1e52f, 0x7719472f, 0x15de1534, 0x20651a13, 0x00aa33c5, 0x2b5db471],
      case_kernel = division_kernel,
      reg_inputs = [5, 9, 13, 1], reg5_init = 0x3b07ee64,
      memory_keys = [0x00000384, 0x00000708, 0x00000e10, 0x00001c20, 0x00003840, 0x00007080, 0x0000e100, 0x0001c200],
      case_stmts = [(Add_Carry, 1, 0, 2), (Mask_Merge, 1, 1, 4), (Rotate_Mix, 5, 3, 0), (Byte_Pack, 5, 1, 4),
                    (Gray_Decode, 4, 3, 5), (Rotate_Mix, 1, 1, 4), (Counted_Loop, 4, 0, 3), (Byte_Pack, 4, 2, 0),
                    (Add_Carry, 1, 0, 5), (Minmax_Clamp, 2, 0, 4), (Divide_Rem, 0, 4, 3), (Mask_Merge, 0, 0, 1)]\<rparr>"

definition case_0901 :: "case_program" where
  "case_0901 =
     \<lparr>case_id = 901,
      case_input = [0xf19c314f, 0x00000001, 0xc2bb05dd, 0xef2bd4ae, 0x69874b35, 0x37c5c835, 0x62933aaa, 0x0dde20b3,
                    0xb7a51969, 0xb4011c74, 0x59671208, 0xaf2fb45e, 0xcdd8d6dd, 0xb9830055, 0xdd1022fc, 0x026d450f],
      case_kernel = division_kernel,
      reg_inputs = [6, 10, 14, 2], reg5_init = 0xd93f681d,
      memory_keys = [0x00000385, 0x0000070a, 0x00000e14, 0x00001c28, 0x00003850, 0x000070a0, 0x0000e140, 0x0001c280],
      case_stmts = [(Sub_Borrow, 2, 1, 3), (Mask_Merge, 0, 1, 3), (Rotate_Mix, 5, 3, 2), (Rotate_Mix, 0, 5, 1),
                    (Minmax_Clamp, 4, 1, 3), (Add_Carry, 3, 5, 3), (Minmax_Clamp, 5, 1, 0), (Rotate_Mix, 3, 3, 2),
                    (Switch_Phi, 2, 5, 4), (Endian_Swap, 1, 2, 0), (Divide_Rem, 2, 0, 2), (Divide_Rem, 3, 0, 4)]\<rparr>"

definition case_0902 :: "case_program" where
  "case_0902 =
     \<lparr>case_id = 902,
      case_input = [0x301a518c, 0x8769630c, 0x00000002, 0xbb3bb3ee, 0x9e477194, 0xf658b9b2, 0x928a4e50, 0x077d2339,
                    0xc2b1cce5, 0x7b8e5327, 0x5f617280, 0xaa15b934, 0x8ad7528a, 0xfad1bd45, 0xe9612135, 0x78203a39],
      case_kernel = division_kernel,
      reg_inputs = [7, 11, 15, 3], reg5_init = 0x7776e1d6,
      memory_keys = [0x00000386, 0x0000070c, 0x00000e18, 0x00001c30, 0x00003860, 0x000070c0, 0x0000e180, 0x0001c300],
      case_stmts = [(Rotate_Mix, 5, 1, 1), (Mask_Merge, 3, 3, 2), (Rotate_Mix, 3, 2, 1), (Mask_Merge, 5, 5, 4),
                    (Divide_Rem, 2, 4, 5), (Compare_Select, 3, 5, 1), (Divide_Rem, 1, 3, 1), (Multiply_Low, 5, 0, 5),
                    (Divide_Rem, 3, 1, 3), (Multiply_Low, 5, 5, 4), (Counted_Loop, 2, 4, 3), (Add_Carry, 5, 3, 0)]\<rparr>"

definition case_0903 :: "case_program" where
  "case_0903 =
     \<lparr>case_id = 903,
      case_input = [0x709871cd, 0x9b68364b, 0x2188e495, 0x00000003, 0x8812fc41, 0xe5bbf2b1, 0xdb71d129, 0xd588e5f5,
                    0x25f6c734, 0x3a61e1e8, 0xc9e785a7, 0x72234a45, 0x52d19163, 0x6337a703, 0x34db300c, 0x5110cb47],
      case_kernel = division_kernel,
      reg_inputs = [8, 12, 0, 4], reg5_init = 0x15ae5b8f,
      memory_keys = [0x00000387, 0x0000070e, 0x00000e1c, 0x00001c38, 0x00003870, 0x000070e0, 0x0000e1c0, 0x0001c380],
      case_stmts = [(Multiply_Low, 0, 2, 0), (Mask_Merge, 4, 1, 1), (Rotate_Mix, 3, 4, 5), (Add_Carry, 2, 5, 3),
                    (Gray_Decode, 0, 0, 3), (Short_Circuit, 5, 5, 4), (Reverse_Loop, 0, 4, 4), (Rotate_Mix, 2, 5, 1),
                    (Gray_Decode, 2, 0, 4), (Compare_Select, 2, 1, 0), (Reverse_Loop, 4, 2, 0),
                    (Array_Scatter, 0, 5, 5)]\<rparr>"

definition case_0904 :: "case_program" where
  "case_0904 =
     \<lparr>case_id = 904,
      case_input = [0xb7079201, 0x2f6a36a1, 0x7d8be069, 0x7174ccdf, 0x0000007f, 0x6225ebe3, 0x613d8e1c, 0xf28a4700,
                    0x6c62c4de, 0x69b98ce8, 0x23d7a599, 0xe4f97044, 0x04cfc38c, 0x5be30e7e, 0x02048656, 0x11261fc1],
      case_kernel = division_kernel,
      reg_inputs = [9, 13, 1, 5], reg5_init = 0xb3e5d548,
      memory_keys = [0x00000388, 0x00000710, 0x00000e20, 0x00001c40, 0x00003880, 0x00007100, 0x0000e200, 0x0001c400],
      case_stmts = [(Divide_Rem, 0, 2, 5), (Mask_Merge, 1, 4, 1), (Rotate_Mix, 5, 1, 3), (Minmax_Clamp, 4, 1, 0),
                    (Popcount_Loop, 5, 3, 3), (Add_Carry, 5, 0, 1), (Sub_Borrow, 5, 0, 4), (Endian_Swap, 3, 0, 4),
                    (Mask_Merge, 3, 4, 5), (Switch_Phi, 1, 2, 4), (Byte_Pack, 3, 3, 0), (Horner_Loop, 0, 4, 2)]\<rparr>"

definition case_0905 :: "case_program" where
  "case_0905 =
     \<lparr>case_id = 905,
      case_input = [0xf785b240, 0x336b63e6, 0x8813426f, 0xd17db9f9, 0x28f0f80f, 0x00000080, 0x28c61165, 0x207f81cc,
                    0x8b25cf0f, 0x28563e27, 0xb55152be, 0x3ccf8335, 0xdcc90065, 0xc2051438, 0xdfbe976f, 0x3816eebf],
      case_kernel = division_kernel,
      reg_inputs = [10, 14, 2, 6], reg5_init = 0x521d4f01,
      memory_keys = [0x00000389, 0x00000712, 0x00000e24, 0x00001c48, 0x00003890, 0x00007120, 0x0000e240, 0x0001c480],
      case_stmts = [(Mask_Merge, 3, 3, 2), (Mask_Merge, 2, 4, 2), (Rotate_Mix, 5, 5, 3), (Popcount_Loop, 1, 3, 5),
                    (Carry_Chain, 3, 5, 1), (Carry_Chain, 3, 0, 4), (Switch_Phi, 4, 5, 1), (Minmax_Clamp, 4, 3, 0),
                    (Counted_Loop, 2, 5, 0), (Compare_Select, 0, 2, 4), (Horner_Loop, 3, 3, 5),
                    (Counted_Loop, 3, 4, 5)]\<rparr>"

definition case_0906 :: "case_program" where
  "case_0906 =
     \<lparr>case_id = 906,
      case_input = [0x3603d283, 0x176a9c2e, 0x9eb80121, 0x856ddeb9, 0xdf30c2ae, 0xb05bd167, 0x000000ff, 0x2adc8246,
                    0xfe311a83, 0xe7d97174, 0xb3573236, 0x39f58e5f, 0x9bc68432, 0x8157a928, 0xebcf94a6, 0x425b9189],
      case_kernel = division_kernel,
      reg_inputs = [11, 15, 3, 7], reg5_init = 0xf054c8ba,
      memory_keys = [0x0000038a, 0x00000714, 0x00000e28, 0x00001c50, 0x000038a0, 0x00007140, 0x0000e280, 0x0001c500],
      case_stmts = [(Compare_Select, 2, 5, 2), (Mask_Merge, 1, 2, 5), (Rotate_Mix, 1, 2, 0), (Carry_Chain, 4, 3, 0),
                    (Reverse_Loop, 5, 0, 5), (Minmax_Clamp, 5, 4, 0), (Horner_Loop, 4, 5, 2), (Endian_Swap, 2, 4, 5),
                    (Array_Scatter, 1, 5, 3), (Minmax_Clamp, 0, 5, 0), (Sub_Borrow, 1, 1, 4), (Carry_Chain, 1, 3, 3)]\<rparr>"

definition case_0907 :: "case_program" where
  "case_0907 =
     \<lparr>case_id = 907,
      case_input = [0x7681f2c2, 0x0b6bc969, 0x6b20a327, 0x2564ab9f, 0xc9654f7b, 0xa3b89a64, 0x9124fae6, 0x00000100,
                    0x19761152, 0xa636c3bb, 0x25d1c511, 0xe1c37d2e, 0x43c047db, 0x18b1b36e, 0x3675859f, 0x6b6b60f7],
      case_kernel = division_kernel,
      reg_inputs = [12, 0, 4, 8], reg5_init = 0x8e8c4273,
      memory_keys = [0x0000038b, 0x00000716, 0x00000e2c, 0x00001c58, 0x000038b0, 0x00007160, 0x0000e2c0, 0x0001c580],
      case_stmts = [(Byte_Pack, 5, 0, 5), (Mask_Merge, 4, 0, 4), (Rotate_Mix, 5, 2, 4), (Gray_Decode, 5, 3, 1),
                    (Endian_Swap, 5, 0, 1), (Carry_Chain, 5, 0, 1), (Popcount_Loop, 1, 4, 5), (Halfword_Swap, 1, 5, 1),
                    (Rotate_Mix, 4, 0, 4), (Array_Scatter, 3, 5, 0), (Endian_Swap, 5, 5, 1), (Byte_Pack, 0, 3, 2)]\<rparr>"

definition case_0908 :: "case_program" where
  "case_0908 =
     \<lparr>case_id = 908,
      case_input = [0xb50f1304, 0x5f6b63bf, 0xbbec22f8, 0x9b46e812, 0xff881b33, 0x5fd933af, 0x2ff30c65, 0x8a10703c,
                    0x7fffffff, 0xf620559b, 0xafb34406, 0xe0605674, 0x55987473, 0xb213b301, 0x8b4c6a13, 0x78b516fd],
      case_kernel = division_kernel,
      reg_inputs = [13, 1, 5, 9], reg5_init = 0x2cc3bc2c,
      memory_keys = [0x0000038c, 0x00000718, 0x00000e30, 0x00001c60, 0x000038c0, 0x00007180, 0x0000e300, 0x0001c600],
      case_stmts = [(Halfword_Swap, 1, 5, 5), (Mask_Merge, 0, 5, 2), (Rotate_Mix, 3, 0, 2), (Array_Scatter, 1, 3, 2),
                    (Switch_Phi, 0, 4, 4), (Array_Scatter, 4, 2, 3), (Add_Carry, 4, 4, 0), (Halfword_Swap, 2, 4, 1),
                    (Endian_Swap, 5, 5, 1), (Counted_Loop, 3, 2, 2), (Horner_Loop, 2, 5, 5), (Switch_Phi, 0, 4, 1)]\<rparr>"

definition case_0909 :: "case_program" where
  "case_0909 =
     \<lparr>case_id = 909,
      case_input = [0xf58d3345, 0x436a36f8, 0x4e7480fe, 0x3b4f9d34, 0xe9dd96e6, 0x4c3a78ac, 0x6608931c, 0x58e5b6f0,
                    0x434c2297, 0x80000000, 0x3935b321, 0x3856a505, 0x8d9eb79a, 0x2bf5a947, 0x56f67b2a, 0x5185e783],
      case_kernel = division_kernel,
      reg_inputs = [14, 2, 6, 10], reg5_init = 0xcafb35e5,
      memory_keys = [0x0000038d, 0x0000071a, 0x00000e34, 0x00001c68, 0x000038d0, 0x000071a0, 0x0000e340, 0x0001c680],
      case_stmts = [(Array_Scatter, 2, 2, 4), (Mask_Merge, 3, 5, 3), (Rotate_Mix, 5, 2, 2), (Divide_Rem, 4, 1, 5),
                    (Add_Carry, 0, 2, 2), (Byte_Pack, 0, 0, 0), (Reverse_Loop, 5, 1, 1), (Mask_Merge, 3, 1, 3),
                    (Compare_Select, 2, 4, 0), (Byte_Pack, 4, 2, 0), (Gray_Decode, 4, 5, 4), (Rotate_Mix, 5, 4, 4)]\<rparr>"

definition case_0910 :: "case_program" where
  "case_0910 =
     \<lparr>case_id = 910,
      case_input = [0x340b5386, 0x676bc930, 0x58dfc3b0, 0x6f5ffa74, 0x1e1dac47, 0x8da7092b, 0x9611e7e6, 0x5246b57a,
                    0x3658f71b, 0x7840a807, 0xfffffffe, 0x3d6ca86f, 0xca9133cd, 0x68a71457, 0x628778e3, 0x2bc898b5],
      case_kernel = division_kernel,
      reg_inputs = [15, 3, 7, 11], reg5_init = 0x6932af9e,
      memory_keys = [0x0000038e, 0x0000071c, 0x00000e38, 0x00001c70, 0x000038e0, 0x000071c0, 0x0000e380, 0x0001c700],
      case_stmts = [(Counted_Loop, 3, 0, 0), (Mask_Merge, 2, 5, 4), (Rotate_Mix, 3, 3, 5), (Switch_Phi, 5, 1, 4),
                    (Divide_Rem, 0, 5, 0), (Array_Scatter, 0, 0, 0), (Reverse_Loop, 5, 3, 2), (Halfword_Swap, 1, 2, 0),
                    (Mask_Merge, 3, 2, 3), (Array_Scatter, 4, 5, 2), (Mask_Merge, 0, 1, 5), (Reverse_Loop, 5, 1, 2)]\<rparr>"

definition case_0911 :: "case_program" where
  "case_0911 =
     \<lparr>case_id = 911,
      case_input = [0x748973c7, 0x7b6a9c77, 0xad4761b6, 0xcf568f52, 0x08482192, 0x9e444228, 0xdfea789f, 0x80b373b6,
                    0xd11ffcca, 0x39af1ac8, 0xa9b5248e, 0xffffffff, 0x1297f024, 0xf1410e11, 0xbf3d69da, 0x02f869cb],
      case_kernel = division_kernel,
      reg_inputs = [0, 4, 8, 12], reg5_init = 0x076a2957,
      memory_keys = [0x0000038f, 0x0000071e, 0x00000e3c, 0x00001c78, 0x000038f0, 0x000071e0, 0x0000e3c0, 0x0001c780],
      case_stmts = [(Switch_Phi, 4, 1, 1), (Mask_Merge, 1, 3, 1), (Rotate_Mix, 3, 3, 3), (Compare_Select, 4, 1, 1),
                    (Byte_Pack, 4, 3, 4), (Horner_Loop, 4, 0, 1), (Minmax_Clamp, 2, 4, 1), (Array_Scatter, 2, 3, 2),
                    (Reverse_Loop, 4, 1, 2), (Minmax_Clamp, 3, 5, 4), (Array_Scatter, 2, 3, 0),
                    (Multiply_Low, 2, 5, 5)]\<rparr>"

definition case_0912 :: "case_program" where
  "case_0912 =
     \<lparr>case_id = 912,
      case_input = [0xbb34941f, 0x0f6dc8e5, 0xeadb6f0c, 0x0fde1670, 0x00000000, 0xd32a6f37, 0x37a2c176, 0xf108acf6,
                    0xc803ee86, 0x13ca0f59, 0xe92332fd, 0xe2b7d76f, 0x00000000, 0x989de73e, 0xc5d89102, 0xc0e75d21],
      case_kernel = division_kernel,
      reg_inputs = [1, 5, 9, 13], reg5_init = 0xa5a1a310,
      memory_keys = [0x00000390, 0x00000720, 0x00000e40, 0x00001c80, 0x00003900, 0x00007200, 0x0000e400, 0x0001c800],
      case_stmts = [(Short_Circuit, 3, 4, 4), (Mask_Merge, 5, 0, 3), (Rotate_Mix, 5, 2, 2), (Rotate_Mix, 1, 4, 2),
                    (Mask_Merge, 3, 3, 2), (Popcount_Loop, 5, 3, 4), (Compare_Select, 1, 0, 5), (Endian_Swap, 0, 4, 5),
                    (Endian_Swap, 3, 4, 5), (Sub_Borrow, 3, 5, 5), (Popcount_Loop, 4, 2, 3), (Byte_Pack, 4, 1, 1)]\<rparr>"

definition case_0913 :: "case_program" where
  "case_0913 =
     \<lparr>case_id = 913,
      case_input = [0xfbb6b45e, 0x136c9da2, 0x1f43cd0a, 0xafd76356, 0x331f333f, 0xc0c92434, 0x7e595e0f, 0x23fd6a3a,
                    0x2f44e557, 0x5225bd96, 0x7fa5c5da, 0x00000080, 0xb4a6c147, 0x00000001, 0x1862803b, 0xe9d7ac5f],
      case_kernel = division_kernel,
      reg_inputs = [2, 6, 10, 14], reg5_init = 0x43d91cc9,
      memory_keys = [0x00000391, 0x00000722, 0x00000e44, 0x00001c88, 0x00003910, 0x00007220, 0x0000e440, 0x0001c880],
      case_stmts = [(Popcount_Loop, 0, 5, 1), (Mask_Merge, 4, 4, 0), (Rotate_Mix, 1, 4, 4), (Gray_Decode, 4, 2, 3),
                    (Reverse_Loop, 3, 5, 0), (Multiply_Low, 3, 3, 3), (Short_Circuit, 4, 5, 0),
                    (Halfword_Swap, 1, 3, 5), (Reverse_Loop, 4, 3, 0), (Minmax_Clamp, 0, 5, 5), (Endian_Swap, 2, 0, 4),
                    (Compare_Select, 1, 3, 2)]\<rparr>"

definition case_0914 :: "case_program" where
  "case_0914 =
     \<lparr>case_id = 914,
      case_input = [0x3a30d49d, 0x376d626a, 0xfffffffe, 0xfbc70416, 0xc4df099e, 0x015455b3, 0x8e402af5, 0x295e69b0,
                    0x5a5030db, 0x9daaf2c5, 0x79a3a552, 0x3fbb2974, 0xf3a94510, 0x42294068, 0x00000002, 0x939ad369],
      case_kernel = division_kernel,
      reg_inputs = [3, 7, 11, 15], reg5_init = 0xe2109682,
      memory_keys = [0x00000392, 0x00000724, 0x00000e48, 0x00001c90, 0x00003920, 0x00007240, 0x0000e480, 0x0001c900],
      case_stmts = [(Reverse_Loop, 1, 3, 3), (Mask_Merge, 5, 4, 1), (Rotate_Mix, 3, 3, 3), (Add_Carry, 1, 0, 4),
                    (Reverse_Loop, 3, 4, 4), (Popcount_Loop, 5, 1, 1), (Short_Circuit, 4, 5, 3), (Sub_Borrow, 3, 2, 4),
                    (Mask_Merge, 5, 1, 5), (Carry_Chain, 0, 0, 3), (Switch_Phi, 0, 0, 5), (Reverse_Loop, 1, 4, 0)]\<rparr>"

definition case_0915 :: "case_program" where
  "case_0915 =
     \<lparr>case_id = 915,
      case_input = [0x7ab2f4dc, 0x2b6c372d, 0xfc702c42, 0x5bce7130, 0xd28a844b, 0x12b71eb0, 0xc7bbb58c, 0xfbabaf7c,
                    0xbd173b0a, 0x00000003, 0xef255275, 0xe78dda05, 0x2baf86f9, 0xdbcf5a2e, 0xf1a992cb, 0x00000003],
      case_kernel = division_kernel,
      reg_inputs = [4, 8, 12, 0], reg5_init = 0x8048103b,
      memory_keys = [0x00000393, 0x00000726, 0x00000e4c, 0x00001c98, 0x00003930, 0x00007260, 0x0000e4c0, 0x0001c980],
      case_stmts = [(Gray_Decode, 4, 0, 0), (Mask_Merge, 2, 4, 4), (Rotate_Mix, 3, 5, 5), (Popcount_Loop, 0, 4, 1),
                    (Mask_Merge, 5, 4, 2), (Switch_Phi, 3, 3, 2), (Compare_Select, 5, 0, 4), (Add_Carry, 0, 1, 2),
                    (Compare_Select, 4, 0, 0), (Byte_Pack, 5, 0, 5), (Gray_Decode, 2, 0, 0), (Multiply_Low, 0, 4, 5)]\<rparr>"

definition case_0916 :: "case_program" where
  "case_0916 =
     \<lparr>case_id = 916,
      case_input = [0x7fffffff, 0x7f6c9dfb, 0x2cbcad9d, 0xe5ec32bd, 0xe467d003, 0xeed6b77b, 0x796c430f, 0x89929bca,
                    0x006a031e, 0x8c53d62a, 0x6547d362, 0xe62ef15f, 0x3df7b551, 0x716d5a41, 0x4c907d47, 0xa974541d],
      case_kernel = division_kernel,
      reg_inputs = [5, 9, 13, 1], reg5_init = 0x1e7f89f4,
      memory_keys = [0x00000394, 0x00000728, 0x00000e50, 0x00001ca0, 0x00003940, 0x00007280, 0x0000e500, 0x0001ca00],
      case_stmts = [(Minmax_Clamp, 4, 1, 0), (Mask_Merge, 2, 3, 2), (Rotate_Mix, 1, 1, 1), (Multiply_Low, 4, 2, 2),
                    (Switch_Phi, 0, 2, 1), (Minmax_Clamp, 2, 3, 0), (Byte_Pack, 4, 2, 3), (Short_Circuit, 5, 4, 4),
                    (Endian_Swap, 1, 1, 1), (Add_Carry, 5, 5, 5), (Popcount_Loop, 1, 2, 0), (Gray_Decode, 0, 5, 2)]\<rparr>"

definition case_0917 :: "case_program" where
  "case_0917 =
     \<lparr>case_id = 917,
      case_input = [0xf9be355b, 0x00000080, 0xd9240f9b, 0x45e5479b, 0xf2325dd6, 0xfd35fc78, 0x3097dc76, 0x00000001,
                    0xe72d08cf, 0xcdbc64e5, 0xf3c12445, 0x3e18022e, 0xe5f176b8, 0xe88b4007, 0x912a6c7e, 0x8044a563],
      case_kernel = division_kernel,
      reg_inputs = [6, 10, 14, 2], reg5_init = 0xbcb703ad,
      memory_keys = [0x00000395, 0x0000072a, 0x00000e54, 0x00001ca8, 0x00003950, 0x000072a0, 0x0000e540, 0x0001ca80],
      case_stmts = [(Endian_Swap, 3, 4, 5), (Mask_Merge, 3, 5, 5), (Rotate_Mix, 5, 3, 1), (Reverse_Loop, 1, 4, 3),
                    (Add_Carry, 4, 0, 5), (Rotate_Mix, 0, 1, 3), (Array_Scatter, 1, 1, 0), (Sub_Borrow, 2, 1, 2),
                    (Compare_Select, 0, 0, 0), (Endian_Swap, 4, 5, 1), (Endian_Swap, 3, 0, 5), (Reverse_Loop, 1, 1, 5)]\<rparr>"

definition case_0918 :: "case_program" where
  "case_0918 =
     \<lparr>case_id = 918,
      case_input = [0x38385598, 0x476c3774, 0x000000ff, 0x11f520db, 0x05f26777, 0x3ca88dff, 0xc08ea88c, 0x51c45e8c,
                    0x9239dd43, 0x02332bb6, 0xf5c744cd, 0x3b220f44, 0xa2fef2ef, 0xabd9fd17, 0x000000ff, 0xfa09da55],
      case_kernel = division_kernel,
      reg_inputs = [7, 11, 15, 3], reg5_init = 0x5aee7d66,
      memory_keys = [0x00000396, 0x0000072c, 0x00000e58, 0x00001cb0, 0x00003960, 0x000072c0, 0x0000e580, 0x0001cb00],
      case_stmts = [(Carry_Chain, 0, 2, 3), (Mask_Merge, 4, 1, 4), (Rotate_Mix, 1, 0, 4), (Sub_Borrow, 0, 4, 0),
                    (Divide_Rem, 0, 3, 1), (Short_Circuit, 2, 1, 1), (Mask_Merge, 1, 3, 5), (Minmax_Clamp, 0, 4, 5),
                    (Popcount_Loop, 5, 2, 5), (Multiply_Low, 2, 2, 3), (Multiply_Low, 3, 2, 2), (Carry_Chain, 3, 0, 3)]\<rparr>"

definition case_0919 :: "case_program" where
  "case_0919 =
     \<lparr>case_id = 919,
      case_input = [0x78ba75d9, 0x5b6d6233, 0x3a17eed3, 0x00000100, 0x13a7eaa2, 0xffffffff, 0x897537f5, 0x83319840,
                    0x757ed692, 0x43dc9979, 0x6341b3ea, 0xe314fc35, 0x7af83106, 0x323fe751, 0x78e17e8e, 0xd3392b2b],
      case_kernel = division_kernel,
      reg_inputs = [8, 12, 0, 4], reg5_init = 0xf925f71f,
      memory_keys = [0x00000397, 0x0000072e, 0x00000e5c, 0x00001cb8, 0x00003970, 0x000072e0, 0x0000e5c0, 0x0001cb80],
      case_stmts = [(Horner_Loop, 1, 3, 2), (Mask_Merge, 1, 5, 5), (Rotate_Mix, 5, 4, 4), (Short_Circuit, 3, 4, 3),
                    (Multiply_Low, 4, 5, 3), (Compare_Select, 2, 1, 0), (Gray_Decode, 4, 4, 4), (Sub_Borrow, 1, 3, 5),
                    (Counted_Loop, 2, 3, 4), (Rotate_Mix, 5, 4, 3), (Horner_Loop, 5, 2, 5), (Byte_Pack, 2, 0, 2)]\<rparr>"

definition case_0920 :: "case_program" where
  "case_0920 =
     \<lparr>case_id = 920,
      case_input = [0xbf259615, 0xef6f62d9, 0x6614ea2f, 0xdbba5fea, 0x7fffffff, 0xa8d5dfae, 0x333968c0, 0xa4333ab5,
                    0x3cead578, 0x1004f479, 0x897193d4, 0x75cec634, 0x0000007f, 0x0aeb4e2c, 0x4e3ec8d4, 0x930fffad],
      case_kernel = division_kernel,
      reg_inputs = [9, 13, 1, 5], reg5_init = 0x975d70d8,
      memory_keys = [0x00000398, 0x00000730, 0x00000e60, 0x00001cc0, 0x00003980, 0x00007300, 0x0000e600, 0x0001cc00],
      case_stmts = [(Add_Carry, 1, 1, 5), (Compare_Select, 4, 0, 1), (Rotate_Mix, 1, 1, 0), (Divide_Rem, 1, 4, 2),
                    (Popcount_Loop, 1, 4, 3), (Counted_Loop, 4, 0, 1), (Halfword_Swap, 5, 4, 2),
                    (Compare_Select, 2, 4, 2), (Short_Circuit, 1, 3, 5), (Gray_Decode, 2, 1, 5), (Rotate_Mix, 4, 1, 1),
                    (Mask_Merge, 2, 1, 1)]\<rparr>"

definition case_0921 :: "case_program" where
  "case_0921 =
     \<lparr>case_id = 921,
      case_input = [0xffa7b654, 0xf36e379e, 0x938c4829, 0x80000000, 0xb345eeec, 0x80000000, 0x7ac2f7b9, 0x76c6fc79,
                    0xdbaddea9, 0x51eb46b6, 0x1ff764f3, 0xadf83545, 0xf4e0a000, 0x930d546a, 0x9384d9ed, 0xba3f0ed3],
      case_kernel = division_kernel,
      reg_inputs = [10, 14, 2, 6], reg5_init = 0x3594ea91,
      memory_keys = [0x00000399, 0x00000732, 0x00000e64, 0x00001cc8, 0x00003990, 0x00007320, 0x0000e640, 0x0001cc80],
      case_stmts = [(Sub_Borrow, 4, 4, 0), (Compare_Select, 1, 0, 0), (Rotate_Mix, 3, 1, 2), (Endian_Swap, 2, 4, 1),
                    (Reverse_Loop, 5, 0, 3), (Add_Carry, 4, 2, 0), (Compare_Select, 4, 3, 5), (Switch_Phi, 1, 5, 4),
                    (Switch_Phi, 4, 4, 2), (Compare_Select, 5, 1, 3), (Compare_Select, 4, 1, 4),
                    (Minmax_Clamp, 1, 3, 4)]\<rparr>"

definition case_0922 :: "case_program" where
  "case_0922 =
     \<lparr>case_id = 922,
      case_input = [0x3e21d697, 0xd76fc856, 0x85270b67, 0x2fa34d8c, 0x4485d44d, 0x7aabe52a, 0xfffffffe, 0x7c65fff3,
                    0xaeb90b25, 0x9e6409e5, 0x00000002, 0xa8c2382f, 0xb3ef2457, 0xd05fe97a, 0xa7f5da24, 0xc07271e5],
      case_kernel = division_kernel,
      reg_inputs = [11, 15, 3, 7], reg5_init = 0xd3cc644a,
      memory_keys = [0x0000039a, 0x00000734, 0x00000e68, 0x00001cd0, 0x000039a0, 0x00007340, 0x0000e680, 0x0001cd00],
      case_stmts = [(Rotate_Mix, 3, 4, 0), (Compare_Select, 4, 2, 1), (Rotate_Mix, 1, 0, 1), (Compare_Select, 1, 2, 4),
                    (Carry_Chain, 3, 1, 5), (Counted_Loop, 2, 4, 0), (Carry_Chain, 2, 5, 4), (Rotate_Mix, 1, 4, 5),
                    (Add_Carry, 5, 4, 1), (Halfword_Swap, 1, 0, 3), (Halfword_Swap, 4, 3, 1), (Minmax_Clamp, 3, 0, 4)]\<rparr>"

definition case_0923 :: "case_program" where
  "case_0923 =
     \<lparr>case_id = 923,
      case_input = [0x7ea3f6d6, 0x00000100, 0x70bfa961, 0x8faa38aa, 0x52d05998, 0x6948ae29, 0xc3201c3a, 0xffffffff,
                    0x49fe00f4, 0xdf8bbb2a, 0x8f77f35c, 0x70f4cb5e, 0x6be9e7be, 0x49b9f33c, 0x7a4fcb1d, 0xe942809b],
      case_kernel = division_kernel,
      reg_inputs = [12, 0, 4, 8], reg5_init = 0x7203de03,
      memory_keys = [0x0000039b, 0x00000736, 0x00000e6c, 0x00001cd8, 0x000039b0, 0x00007360, 0x0000e6c0, 0x0001cd80],
      case_stmts = [(Multiply_Low, 4, 5, 1), (Compare_Select, 1, 4, 4), (Rotate_Mix, 1, 0, 1), (Horner_Loop, 0, 4, 5),
                    (Endian_Swap, 5, 1, 5), (Divide_Rem, 0, 0, 3), (Halfword_Swap, 3, 4, 5), (Byte_Pack, 0, 3, 3),
                    (Switch_Phi, 2, 1, 4), (Popcount_Loop, 2, 4, 3), (Minmax_Clamp, 4, 5, 0), (Mask_Merge, 2, 4, 3)]\<rparr>"

definition case_0924 :: "case_program" where
  "case_0924 =
     \<lparr>case_id = 924,
      case_input = [0xbd2d1710, 0x9f6e37c7, 0xa07328be, 0x31887b27, 0x643d0dd0, 0x952907e2, 0x7df7eab9, 0xdca90d89,
                    0x00000000, 0x8f9d2d0a, 0x0515724b, 0x7157e004, 0x7db1d416, 0xe31bf353, 0xc7762491, 0xfa9cf691],
      case_kernel = division_kernel,
      reg_inputs = [13, 1, 5, 9], reg5_init = 0x103b57bc,
      memory_keys = [0x0000039c, 0x00000738, 0x00000e70, 0x00001ce0, 0x000039c0, 0x00007380, 0x0000e700, 0x0001ce00],
      case_stmts = [(Divide_Rem, 0, 0, 1), (Compare_Select, 5, 3, 4), (Rotate_Mix, 5, 0, 3), (Mask_Merge, 2, 4, 0),
                    (Horner_Loop, 0, 3, 2), (Horner_Loop, 3, 0, 5), (Sub_Borrow, 0, 4, 4), (Byte_Pack, 5, 0, 5),
                    (Short_Circuit, 3, 2, 3), (Counted_Loop, 0, 5, 3), (Rotate_Mix, 1, 1, 4), (Sub_Borrow, 2, 5, 0)]\<rparr>"

definition case_0925 :: "case_program" where
  "case_0925 =
     \<lparr>case_id = 925,
      case_input = [0x00000000, 0x836f6280, 0x55eb8ab8, 0x91810e01, 0x72688005, 0x86ca4ce1, 0x340c75c0, 0x0e5ccb45,
                    0x13c43331, 0xce729fc5, 0x9393856c, 0xa9611375, 0xa5b717ff, 0x7afde915, 0x1acc35a8, 0xd3ac07ef],
      case_kernel = multiply_kernel,
      reg_inputs = [14, 2, 6, 10], reg5_init = 0xae72d175,
      memory_keys = [0x0000039d, 0x0000073a, 0x00000e74, 0x00001ce8, 0x000039d0, 0x000073a0, 0x0000e740, 0x0001ce80],
      case_stmts = [(Mask_Merge, 5, 1, 0), (Compare_Select, 4, 5, 3), (Rotate_Mix, 5, 4, 5), (Minmax_Clamp, 5, 0, 5),
                    (Minmax_Clamp, 2, 3, 4), (Endian_Swap, 5, 0, 4), (Byte_Pack, 3, 1, 5), (Compare_Select, 4, 5, 3),
                    (Multiply_Low, 2, 5, 2), (Byte_Pack, 1, 1, 3), (Rotate_Mix, 3, 5, 3), (Short_Circuit, 3, 1, 3)]\<rparr>"

definition case_0926 :: "case_program" where
  "case_0926 =
     \<lparr>case_id = 926,
      case_input = [0x3c295792, 0x00000001, 0x4340c9f6, 0xc5916941, 0x85a8baa4, 0x47573d66, 0xc415013a, 0x04ffc8cf,
                    0x66d0e6bd, 0x01fdd096, 0x9595e5e4, 0xac5b1e1f, 0xe2b893a8, 0x39af5405, 0x2ebd3661, 0xa9e178d9],
      case_kernel = multiply_kernel,
      reg_inputs = [15, 3, 7, 11], reg5_init = 0x4caa4b2e,
      memory_keys = [0x0000039e, 0x0000073c, 0x00000e78, 0x00001cf0, 0x000039e0, 0x000073c0, 0x0000e780, 0x0001cf00],
      case_stmts = [(Compare_Select, 2, 1, 4), (Compare_Select, 3, 1, 2), (Rotate_Mix, 3, 3, 0), (Byte_Pack, 2, 0, 2),
                    (Halfword_Swap, 2, 0, 2), (Horner_Loop, 3, 2, 2), (Switch_Phi, 5, 5, 2), (Switch_Phi, 2, 2, 4),
                    (Divide_Rem, 5, 1, 1), (Popcount_Loop, 3, 2, 1), (Add_Carry, 1, 3, 0), (Minmax_Clamp, 5, 2, 3)]\<rparr>"

definition case_0927 :: "case_program" where
  "case_0927 =
     \<lparr>case_id = 927,
      case_input = [0x7cab77d3, 0xbb6fc80f, 0x00000002, 0x65981c67, 0x93fd3771, 0x54b47665, 0x8dee9e43, 0xd60a0e03,
                    0x8197ed6c, 0x40126259, 0x031312c3, 0x746ded6e, 0x3abe5041, 0xa0494e43, 0xf3072758, 0x80d189a7],
      case_kernel = multiply_kernel,
      reg_inputs = [0, 4, 8, 12], reg5_init = 0xeae1c4e7,
      memory_keys = [0x0000039f, 0x0000073e, 0x00000e7c, 0x00001cf8, 0x000039f0, 0x000073e0, 0x0000e7c0, 0x0001cf80],
      case_stmts = [(Byte_Pack, 3, 2, 1), (Compare_Select, 4, 5, 3), (Rotate_Mix, 3, 1, 0), (Carry_Chain, 1, 2, 3),
                    (Horner_Loop, 2, 2, 2), (Array_Scatter, 1, 2, 5), (Mask_Merge, 4, 0, 3), (Carry_Chain, 3, 3, 0),
                    (Byte_Pack, 4, 2, 4), (Divide_Rem, 4, 2, 5), (Add_Carry, 1, 3, 5), (Mask_Merge, 4, 0, 4)]\<rparr>"

definition case_0928 :: "case_program" where
  "case_0928 =
     \<lparr>case_id = 928,
      case_input = [0xa3529823, 0x4f62346c, 0xc47a71c7, 0x00000003, 0x1a958dcf, 0x0f3c3bf0, 0xe3af0b56, 0x558fd602,
                    0xf3679ebb, 0xfbb22035, 0x0a608037, 0xcf534bdb, 0xb3e550bf, 0x5f7b9009, 0x85fd8884, 0x5fe94e9c],
      case_kernel = multiply_kernel,
      reg_inputs = [1, 5, 9, 13], reg5_init = 0x89193ea0,
      memory_keys = [0x000003a0, 0x00000740, 0x00000e80, 0x00001d00, 0x00003a00, 0x00007400, 0x0000e800, 0x0001d000],
      case_stmts = [(Halfword_Swap, 3, 4, 2), (Compare_Select, 4, 5, 3), (Rotate_Mix, 0, 0, 2),
                    (Counted_Loop, 2, 0, 3), (Short_Circuit, 2, 2, 2), (Counted_Loop, 3, 2, 1), (Mask_Merge, 0, 0, 5),
                    (Minmax_Clamp, 3, 1, 3), (Counted_Loop, 3, 0, 5), (Array_Scatter, 1, 0, 2), (Endian_Swap, 3, 4, 0),
                    (Reverse_Loop, 2, 2, 0)]\<rparr>"

definition case_0929 :: "case_program" where
  "case_0929 =
     \<lparr>case_id = 929,
      case_input = [0xe3d0b862, 0x5363612b, 0x31e2d3c1, 0x5280d609, 0x0000007f, 0x1cdf70f3, 0xaa54942f, 0x877a10ce,
                    0x1420956a, 0xba5d92fa, 0x9ce67710, 0x1765b8aa, 0x6be39356, 0xc69d8a4f, 0x584799bd, 0x76d9bfe2],
      case_kernel = multiply_kernel,
      reg_inputs = [2, 6, 10, 14], reg5_init = 0x2750b859,
      memory_keys = [0x000003a1, 0x00000742, 0x00000e84, 0x00001d08, 0x00003a10, 0x00007420, 0x0000e840, 0x0001d080],
      case_stmts = [(Array_Scatter, 0, 1, 1), (Compare_Select, 3, 5, 4), (Rotate_Mix, 0, 0, 4), (Byte_Pack, 1, 4, 2),
                    (Horner_Loop, 2, 0, 0), (Short_Circuit, 1, 0, 2), (Byte_Pack, 5, 1, 2), (Sub_Borrow, 2, 4, 3),
                    (Sub_Borrow, 2, 5, 2), (Short_Circuit, 4, 4, 0), (Array_Scatter, 1, 4, 5), (Switch_Phi, 5, 0, 3)]\<rparr>"

definition case_0930 :: "case_program" where
  "case_0930 =
     \<lparr>case_id = 930,
      case_input = [0x2256d8a1, 0x77629ee3, 0x2749908f, 0x0690b149, 0xfb003abb, 0x00000080, 0x5a4de0d5, 0x8dd91344,
                    0x613440e6, 0x75d2dda9, 0x9ae01798, 0x125fb5c0, 0x2cec1701, 0x85cf375f, 0x6c369a74, 0x0c94c0d4],
      case_kernel = multiply_kernel,
      reg_inputs = [3, 7, 11, 15], reg5_init = 0xc5883212,
      memory_keys = [0x000003a2, 0x00000744, 0x00000e88, 0x00001d10, 0x00003a20, 0x00007440, 0x0000e880, 0x0001d100],
      case_stmts = [(Counted_Loop, 5, 1, 1), (Compare_Select, 0, 1, 1), (Rotate_Mix, 2, 5, 3), (Add_Carry, 2, 4, 3),
                    (Gray_Decode, 0, 5, 2), (Carry_Chain, 5, 4, 0), (Gray_Decode, 1, 5, 5), (Divide_Rem, 2, 1, 0),
                    (Compare_Select, 1, 5, 1), (Counted_Loop, 0, 5, 0), (Switch_Phi, 1, 2, 2), (Horner_Loop, 3, 3, 1)]\<rparr>"

definition case_0931 :: "case_program" where
  "case_0931 =
     \<lparr>case_id = 931,
      case_input = [0x62d4f8e0, 0x6b63cba4, 0xd2d13289, 0xa699c46f, 0xed55b76e, 0xcea14a77, 0x000000ff, 0x5f2cd588,
                    0x86734b37, 0x343d6f66, 0x0c66e0bf, 0xca6946b1, 0xf4ead4e8, 0x1c292d19, 0xb18c8b4d, 0x25a431aa],
      case_kernel = multiply_kernel,
      reg_inputs = [4, 8, 12, 0], reg5_init = 0x63bfabcb,
      memory_keys = [0x000003a3, 0x00000746, 0x00000e8c, 0x00001d18, 0x00003a30, 0x00007460, 0x0000e8c0, 0x0001d180],
      case_stmts = [(Switch_Phi, 4, 4, 0), (Compare_Select, 3, 5, 2), (Rotate_Mix, 0, 3, 1), (Endian_Swap, 1, 4, 4),
                    (Add_Carry, 2, 5, 4), (Add_Carry, 5, 0, 5), (Array_Scatter, 4, 0, 2), (Array_Scatter, 1, 2, 4),
                    (Mask_Merge, 2, 4, 4), (Horner_Loop, 1, 1, 2), (Horner_Loop, 1, 0, 5), (Counted_Loop, 0, 1, 2)]\<rparr>"

definition case_0932 :: "case_program" where
  "case_0932 =
     \<lparr>case_id = 932,
      case_input = [0xa15a1926, 0x3f636172, 0x021db356, 0x18bb87e2, 0xdbb8e326, 0x32c0e3bc, 0xad61892f, 0x00000100,
                    0x3b0e7323, 0x642bf946, 0x860461a8, 0xcbca6deb, 0xe2b2e740, 0xb68b2d76, 0x0cb564c1, 0x367a47a0],
      case_kernel = multiply_kernel,
      reg_inputs = [5, 9, 13, 1], reg5_init = 0x01f72584,
      memory_keys = [0x000003a4, 0x00000748, 0x00000e90, 0x00001d20, 0x00003a40, 0x00007480, 0x0000e900, 0x0001d200],
      case_stmts = [(Short_Circuit, 0, 5, 0), (Compare_Select, 3, 2, 2), (Rotate_Mix, 0, 1, 5),
                    (Multiply_Low, 3, 2, 5), (Counted_Loop, 3, 1, 5), (Gray_Decode, 2, 4, 3), (Halfword_Swap, 1, 0, 1),
                    (Mask_Merge, 2, 5, 4), (Compare_Select, 3, 3, 1), (Add_Carry, 3, 2, 4), (Mask_Merge, 2, 0, 1),
                    (Reverse_Loop, 0, 0, 3)]\<rparr>"

definition case_0933 :: "case_program" where
  "case_0933 =
     \<lparr>case_id = 933,
      case_input = [0xe1d83967, 0x23623435, 0xf7851150, 0xb8b2f2c4, 0xcded6ef3, 0x2123a8bf, 0xe49a1656, 0xffe027f2,
                    0x7fffffff, 0x25c44b89, 0x1082968f, 0x13fc9e9a, 0x3ab424a9, 0x2f6d3730, 0xd10f75f8, 0x1f4ab6de],
      case_kernel = multiply_kernel,
      reg_inputs = [6, 10, 14, 2], reg5_init = 0xa02e9f3d,
      memory_keys = [0x000003a5, 0x0000074a, 0x00000e94, 0x00001d28, 0x00003a50, 0x000074a0, 0x0000e940, 0x0001d280],
      case_stmts = [(Popcount_Loop, 5, 4, 3), (Compare_Select, 4, 0, 3), (Rotate_Mix, 4, 3, 5), (Carry_Chain, 2, 0, 2),
                    (Mask_Merge, 5, 3, 3), (Sub_Borrow, 0, 2, 0), (Reverse_Loop, 0, 5, 0), (Short_Circuit, 1, 4, 4),
                    (Array_Scatter, 4, 0, 4), (Popcount_Loop, 2, 0, 4), (Sub_Borrow, 4, 4, 4), (Switch_Phi, 5, 2, 0)]\<rparr>"

definition case_0934 :: "case_program" where
  "case_0934 =
     \<lparr>case_id = 934,
      case_input = [0x205e59a4, 0x0763cbfd, 0xe12e521e, 0xeca29584, 0x3a2d5452, 0xe0bed938, 0x148362ac, 0xf5432478,
                    0xa95dad7e, 0x80000000, 0x1684f607, 0x16c693f0, 0x7dbba0fe, 0x6c3f8a20, 0xe57e7631, 0x6507c9e8],
      case_kernel = multiply_kernel,
      reg_inputs = [7, 11, 15, 3], reg5_init = 0x3e6618f6,
      memory_keys = [0x000003a6, 0x0000074c, 0x00000e98, 0x00001d30, 0x00003a60, 0x000074c0, 0x0000e980, 0x0001d300],
      case_stmts = [(Reverse_Loop, 0, 2, 3), (Compare_Select, 3, 2, 4), (Rotate_Mix, 4, 4, 0),
                    (Popcount_Loop, 5, 4, 1), (Array_Scatter, 1, 2, 1), (Horner_Loop, 2, 0, 0),
                    (Compare_Select, 4, 5, 3), (Sub_Borrow, 1, 3, 3), (Carry_Chain, 5, 0, 3), (Byte_Pack, 0, 5, 2),
                    (Byte_Pack, 4, 2, 3), (Horner_Loop, 1, 3, 0)]\<rparr>"

definition case_0935 :: "case_program" where
  "case_0935 =
     \<lparr>case_id = 935,
      case_input = [0x60dc79e5, 0x1b629eba, 0x14b6f018, 0x4cabe0a2, 0x2c78d987, 0xf35d923b, 0x5d78fdd5, 0x27b6e2b4,
                    0x4e1aa6af, 0xaba4b615, 0xfffffffe, 0xcef06081, 0xa5bd6317, 0xf5d99066, 0x38c46708, 0x4c373896],
      case_kernel = multiply_kernel,
      reg_inputs = [8, 12, 0, 4], reg5_init = 0xdc9d92af,
      memory_keys = [0x000003a7, 0x0000074e, 0x00000e9c, 0x00001d38, 0x00003a70, 0x000074e0, 0x0000e9c0, 0x0001d380],
      case_stmts = [(Gray_Decode, 3, 1, 4), (Compare_Select, 0, 2, 3), (Rotate_Mix, 2, 2, 2), (Halfword_Swap, 4, 2, 4),
                    (Counted_Loop, 5, 0, 5), (Mask_Merge, 4, 2, 1), (Divide_Rem, 3, 2, 2), (Add_Carry, 0, 0, 5),
                    (Sub_Borrow, 4, 1, 0), (Reverse_Loop, 3, 3, 2), (Multiply_Low, 2, 0, 4), (Counted_Loop, 2, 1, 3)]\<rparr>"

definition case_0936 :: "case_program" where
  "case_0936 =
     \<lparr>case_id = 936,
      case_input = [0xa7439a29, 0xaf609e50, 0x48b5f4e4, 0x26edeab5, 0x9acf501c, 0x74c38b69, 0xe734a2e0, 0x00b44041,
                    0x078ea545, 0xf87cdb15, 0x6a32211e, 0xffffffff, 0xf3a331f8, 0xcd0d391b, 0x0e1bd152, 0x0c01ec10],
      case_kernel = multiply_kernel,
      reg_inputs = [9, 13, 1, 5], reg5_init = 0x7ad50c68,
      memory_keys = [0x000003a8, 0x00000750, 0x00000ea0, 0x00001d40, 0x00003a80, 0x00007500, 0x0000ea00, 0x0001d400],
      case_stmts = [(Minmax_Clamp, 1, 5, 1), (Compare_Select, 5, 5, 3), (Rotate_Mix, 2, 5, 0),
                    (Halfword_Swap, 4, 0, 5), (Divide_Rem, 4, 5, 5), (Popcount_Loop, 4, 3, 4), (Byte_Pack, 0, 0, 4),
                    (Horner_Loop, 5, 1, 2), (Gray_Decode, 3, 1, 3), (Byte_Pack, 4, 4, 0), (Rotate_Mix, 1, 5, 0),
                    (Minmax_Clamp, 0, 0, 0)]\<rparr>"

definition case_0937 :: "case_program" where
  "case_0937 =
     \<lparr>case_id = 937,
      case_input = [0xe7c1ba68, 0xb361cb17, 0xbd2d56e2, 0x86e49f93, 0x00000000, 0x6720c06a, 0xaecf3d99, 0xd241868d,
                    0xe0c9ae94, 0xb99369da, 0xfcb4d639, 0x801ca9f1, 0x00000000, 0x54eb235d, 0xd3a1c06b, 0x25311d6e],
      case_kernel = multiply_kernel,
      reg_inputs = [10, 14, 2, 6], reg5_init = 0x190c8621,
      memory_keys = [0x000003a9, 0x00000752, 0x00000ea4, 0x00001d48, 0x00003a90, 0x00007520, 0x0000ea40, 0x0001d480],
      case_stmts = [(Endian_Swap, 0, 2, 4), (Compare_Select, 0, 3, 2), (Rotate_Mix, 4, 1, 2), (Mask_Merge, 5, 2, 2),
                    (Multiply_Low, 4, 5, 3), (Byte_Pack, 2, 3, 5), (Sub_Borrow, 1, 1, 1), (Carry_Chain, 4, 4, 0),
                    (Halfword_Swap, 4, 0, 0), (Reverse_Loop, 1, 0, 4), (Rotate_Mix, 5, 3, 1), (Endian_Swap, 3, 0, 3)]\<rparr>"

definition case_0938 :: "case_program" where
  "case_0938 =
     \<lparr>case_id = 938,
      case_input = [0x2647daab, 0x976034df, 0xab8615ac, 0xd2f4f8d3, 0x7b5ae768, 0xa6bdb1ed, 0x5ed64963, 0xd8e28507,
                    0x95dd7b18, 0x761c2689, 0xfab2b6b1, 0x00000080, 0x6caa7646, 0x00000001, 0xe7d0c3a2, 0x5f7c6258],
      case_kernel = multiply_kernel,
      reg_inputs = [11, 15, 3, 7], reg5_init = 0xb743ffda,
      memory_keys = [0x000003aa, 0x00000754, 0x00000ea8, 0x00001d50, 0x00003aa0, 0x00007540, 0x0000ea80, 0x0001d500],
      case_stmts = [(Carry_Chain, 3, 0, 4), (Compare_Select, 5, 5, 5), (Rotate_Mix, 2, 0, 1), (Rotate_Mix, 0, 2, 1),
                    (Switch_Phi, 2, 0, 5), (Endian_Swap, 0, 3, 1), (Popcount_Loop, 3, 1, 2), (Gray_Decode, 0, 5, 3),
                    (Byte_Pack, 5, 2, 3), (Divide_Rem, 1, 1, 0), (Add_Carry, 1, 5, 4), (Array_Scatter, 3, 5, 1)]\<rparr>"

definition case_0939 :: "case_program" where
  "case_0939 =
     \<lparr>case_id = 939,
      case_input = [0x66c5faea, 0x8b616198, 0xfffffffe, 0x72fd8df5, 0x6d0f6abd, 0xb55efaee, 0x172dd61a, 0x0a1743cb,
                    0x729a70c9, 0x37f39446, 0x6c344196, 0x5d1057ea, 0xb4acb5af, 0x8e5f840b, 0x00000002, 0x764c9326],
      case_kernel = multiply_kernel,
      reg_inputs = [12, 0, 4, 8], reg5_init = 0x557b7993,
      memory_keys = [0x000003ab, 0x00000756, 0x00000eac, 0x00001d58, 0x00003ab0, 0x00007560, 0x0000eac0, 0x0001d580],
      case_stmts = [(Horner_Loop, 4, 3, 3), (Compare_Select, 4, 3, 0), (Rotate_Mix, 2, 4, 3), (Horner_Loop, 1, 4, 4),
                    (Divide_Rem, 4, 4, 1), (Byte_Pack, 0, 5, 4), (Gray_Decode, 4, 0, 5), (Compare_Select, 5, 4, 3),
                    (Halfword_Swap, 2, 5, 4), (Endian_Swap, 4, 5, 4), (Short_Circuit, 1, 1, 3),
                    (Short_Circuit, 2, 5, 4)]\<rparr>"

definition case_0940 :: "case_program" where
  "case_0940 =
     \<lparr>case_id = 940,
      case_input = [0xa54b1b2c, 0xdf61cb4e, 0x8ed23675, 0xccdfce78, 0x5be23ef5, 0x493f5325, 0xa9fa2099, 0x782e777d,
                    0xcfe748dd, 0x00000003, 0xe656c081, 0x5cb37cb0, 0xa2f48607, 0x24fd8464, 0x87533d17, 0x00000003],
      case_kernel = multiply_kernel,
      reg_inputs = [13, 1, 5, 9], reg5_init = 0xf3b2f34c,
      memory_keys = [0x000003ac, 0x00000758, 0x00000eb0, 0x00001d60, 0x00003ac0, 0x00007580, 0x0000eb00, 0x0001d600],
      case_stmts = [(Add_Carry, 4, 2, 1), (Byte_Pack, 0, 0, 0), (Rotate_Mix, 0, 4, 1), (Sub_Borrow, 1, 2, 5),
                    (Counted_Loop, 3, 4, 2), (Short_Circuit, 5, 5, 2), (Carry_Chain, 1, 2, 2), (Carry_Chain, 2, 1, 1),
                    (Switch_Phi, 3, 4, 3), (Counted_Loop, 0, 0, 4), (Reverse_Loop, 4, 5, 5), (Minmax_Clamp, 0, 2, 5)]\<rparr>"

definition case_0941 :: "case_program" where
  "case_0941 =
     \<lparr>case_id = 941,
      case_input = [0x7fffffff, 0xc3609e09, 0x7b4a9473, 0x6cd6bb5e, 0x4db7b320, 0x5adc1826, 0xe001bfe0, 0xaadbb1b1,
                    0x28a0430c, 0x260ab0a9, 0x70d037a6, 0x84858fc1, 0x7af245ee, 0xbd1b9e22, 0x5ae92c2e, 0x4ca21452],
      case_kernel = multiply_kernel,
      reg_inputs = [14, 2, 6, 10], reg5_init = 0x91ea6d05,
      memory_keys = [0x000003ad, 0x0000075a, 0x00000eb4, 0x00001d68, 0x00003ad0, 0x000075a0, 0x0000eb40, 0x0001d680],
      case_stmts = [(Sub_Borrow, 3, 3, 2), (Byte_Pack, 3, 2, 5), (Rotate_Mix, 4, 4, 3), (Minmax_Clamp, 4, 2, 4),
                    (Popcount_Loop, 1, 2, 0), (Counted_Loop, 1, 5, 3), (Divide_Rem, 0, 5, 5), (Multiply_Low, 5, 4, 3),
                    (Divide_Rem, 2, 5, 4), (Byte_Pack, 5, 4, 4), (Carry_Chain, 4, 5, 2), (Endian_Swap, 1, 2, 0)]\<rparr>"

definition case_0942 :: "case_program" where
  "case_0942 =
     \<lparr>case_id = 942,
      case_input = [0x244f5bae, 0x00000080, 0x6de1d73d, 0x38c6dc1e, 0xba778981, 0x9b4169a1, 0x1018cb1a, 0x00000001,
                    0x5db49680, 0xe985fffa, 0x76d6572e, 0x81bf82ab, 0x3dfdc1b9, 0xfe492332, 0x6e982fe7, 0x36ef6b64],
      case_kernel = multiply_kernel,
      reg_inputs = [15, 3, 7, 11], reg5_init = 0x3021e6be,
      memory_keys = [0x000003ae, 0x0000075c, 0x00000eb8, 0x00001d70, 0x00003ae0, 0x000075c0, 0x0000eb80, 0x0001d700],
      case_stmts = [(Rotate_Mix, 0, 5, 2), (Byte_Pack, 0, 2, 0), (Rotate_Mix, 4, 5, 2), (Gray_Decode, 1, 4, 5),
                    (Array_Scatter, 5, 3, 2), (Divide_Rem, 1, 3, 3), (Divide_Rem, 2, 5, 2), (Counted_Loop, 3, 3, 4),
                    (Switch_Phi, 5, 3, 1), (Sub_Borrow, 5, 1, 0), (Minmax_Clamp, 0, 5, 1), (Sub_Borrow, 5, 1, 2)]\<rparr>"

definition case_0943 :: "case_program" where
  "case_0943 =
     \<lparr>case_id = 943,
      case_input = [0x64cd7bef, 0xfb603486, 0x000000ff, 0x98cfa938, 0xac220454, 0x88a222a2, 0x59e35463, 0x728d74f7,
                    0xbaf39d51, 0xa86a4d35, 0xe050a009, 0x598971da, 0xe5fb0250, 0x67af3974, 0x000000ff, 0x1fdf9a1a],
      case_kernel = multiply_kernel,
      reg_inputs = [0, 4, 8, 12], reg5_init = 0xce596077,
      memory_keys = [0x000003af, 0x0000075e, 0x00000ebc, 0x00001d78, 0x00003af0, 0x000075e0, 0x0000ebc0, 0x0001d780],
      case_stmts = [(Multiply_Low, 5, 4, 5), (Byte_Pack, 3, 2, 5), (Rotate_Mix, 2, 1, 4), (Counted_Loop, 4, 2, 0),
                    (Rotate_Mix, 5, 3, 0), (Compare_Select, 3, 5, 0), (Rotate_Mix, 5, 2, 5), (Horner_Loop, 0, 2, 4),
                    (Divide_Rem, 4, 0, 4), (Minmax_Clamp, 4, 1, 2), (Add_Carry, 2, 3, 2), (Divide_Rem, 0, 5, 1)]\<rparr>"

definition case_0944 :: "case_program" where
  "case_0944 =
     \<lparr>case_id = 944,
      case_input = [0xab709c37, 0x8f676014, 0xdfe57b81, 0x00000100, 0x81209b2c, 0xffffffff, 0xb1abed8a, 0x0336abb7,
                    0xa3ef8f1d, 0x820f58a4, 0xa0c6b67a, 0x5e64fdab, 0x9bccf0da, 0x0e73d05b, 0xc9c7c606, 0xddc0aef0],
      case_kernel = multiply_kernel,
      reg_inputs = [1, 5, 9, 13], reg5_init = 0x6c90da30,
      memory_keys = [0x000003b0, 0x00000760, 0x00000ec0, 0x00001d80, 0x00003b00, 0x00007600, 0x0000ec00, 0x0001d800],
      case_stmts = [(Divide_Rem, 2, 1, 4), (Byte_Pack, 5, 1, 1), (Rotate_Mix, 0, 4, 3), (Carry_Chain, 5, 3, 3),
                    (Add_Carry, 2, 5, 2), (Add_Carry, 4, 2, 1), (Add_Carry, 4, 2, 5), (Byte_Pack, 0, 1, 1),
                    (Multiply_Low, 1, 1, 5), (Mask_Merge, 0, 5, 1), (Minmax_Clamp, 2, 2, 1), (Minmax_Clamp, 4, 3, 3)]\<rparr>"

definition case_0945 :: "case_program" where
  "case_0945 =
     \<lparr>case_id = 945,
      case_input = [0xebf2bc76, 0x93663553, 0x2a7dd987, 0xf84e453c, 0x7fffffff, 0xd62f44be, 0xf85072f3, 0xd1c36d7b,
                    0x44a884cc, 0xc3e0ea6b, 0x3640415d, 0x86520eda, 0x0000007f, 0x9795ca1d, 0x147dd73f, 0xf4f05f8e],
      case_kernel = multiply_kernel,
      reg_inputs = [2, 6, 10, 14], reg5_init = 0x0ac853e9,
      memory_keys = [0x000003b1, 0x00000762, 0x00000ec4, 0x00001d88, 0x00003b10, 0x00007620, 0x0000ec40, 0x0001d880],
      case_stmts = [(Mask_Merge, 1, 0, 1), (Byte_Pack, 2, 1, 0), (Rotate_Mix, 2, 4, 1), (Switch_Phi, 2, 3, 2),
                    (Horner_Loop, 4, 3, 0), (Counted_Loop, 0, 0, 2), (Carry_Chain, 3, 3, 4), (Counted_Loop, 3, 4, 5),
                    (Divide_Rem, 2, 4, 0), (Short_Circuit, 3, 3, 3), (Halfword_Swap, 2, 2, 0),
                    (Popcount_Loop, 1, 5, 4)]\<rparr>"

definition case_0946 :: "case_program" where
  "case_0946 =
     \<lparr>case_id = 946,
      case_input = [0x2a74dcb5, 0xb767ca9b, 0x3cd69ac9, 0x80000000, 0x60b52c58, 0x80000000, 0x08490609, 0xdb606ef1,
                    0x31bc5140, 0x0c6fa538, 0x304621d5, 0x836803b0, 0x04c5b764, 0xd4c7770d, 0x200cd4f6, 0x8ebd20b8],
      case_kernel = multiply_kernel,
      reg_inputs = [3, 7, 11, 15], reg5_init = 0xa8ffcda2,
      memory_keys = [0x000003b2, 0x00000764, 0x00000ec8, 0x00001d90, 0x00003b20, 0x00007640, 0x0000ec80, 0x0001d900],
      case_stmts = [(Compare_Select, 0, 4, 3), (Byte_Pack, 5, 3, 5), (Rotate_Mix, 4, 3, 2), (Halfword_Swap, 5, 5, 5),
                    (Horner_Loop, 4, 4, 4), (Halfword_Swap, 2, 0, 2), (Rotate_Mix, 5, 1, 5), (Multiply_Low, 1, 3, 4),
                    (Byte_Pack, 3, 2, 1), (Rotate_Mix, 5, 4, 5), (Carry_Chain, 2, 2, 3), (Array_Scatter, 3, 4, 2)]\<rparr>"

definition case_0947 :: "case_program" where
  "case_0947 =
     \<lparr>case_id = 947,
      case_input = [0x6af6fcf4, 0xab669fdc, 0xc94e38cf, 0x0c57575a, 0x76e0a18d, 0x04517e3a, 0xfffffffe, 0x0995a83d,
                    0xd6fb5a91, 0x4d8017f7, 0x00000002, 0x5b5ef0c1, 0xdcc3748d, 0x4d216d4b, 0xfdb6c5cf, 0xa78dd1c6],
      case_kernel = multiply_kernel,
      reg_inputs = [4, 8, 12, 0], reg5_init = 0x4737475b,
      memory_keys = [0x000003b3, 0x00000766, 0x00000ecc, 0x00001d98, 0x00003b30, 0x00007660, 0x0000ecc0, 0x0001d980],
      case_stmts = [(Byte_Pack, 1, 5, 0), (Byte_Pack, 0, 5, 0), (Rotate_Mix, 4, 1, 0), (Sub_Borrow, 4, 3, 0),
                    (Minmax_Clamp, 0, 0, 2), (Carry_Chain, 2, 0, 3), (Minmax_Clamp, 2, 4, 2), (Rotate_Mix, 4, 4, 2),
                    (Add_Carry, 4, 3, 4), (Gray_Decode, 0, 2, 1), (Compare_Select, 0, 2, 4), (Add_Carry, 2, 4, 5)]\<rparr>"

definition case_0948 :: "case_program" where
  "case_0948 =
     \<lparr>case_id = 948,
      case_input = [0xa9781d32, 0x00000100, 0x1982b910, 0xb27514d7, 0x400df5c5, 0xf830d7f1, 0xff656ff3, 0xffffffff,
                    0x6b866285, 0x1d9681d7, 0x2ca257e5, 0x5afddb9b, 0xca9b4725, 0xe7836d24, 0x408f2a43, 0xb453a7cc],
      case_kernel = multiply_kernel,
      reg_inputs = [5, 9, 13, 1], reg5_init = 0xe56ec114,
      memory_keys = [0x000003b4, 0x00000768, 0x00000ed0, 0x00001da0, 0x00003b40, 0x00007680, 0x0000ed00, 0x0001da00],
      case_stmts = [(Halfword_Swap, 5, 0, 0), (Byte_Pack, 2, 2, 2), (Rotate_Mix, 2, 1, 4), (Horner_Loop, 0, 1, 3),
                    (Reverse_Loop, 1, 4, 3), (Sub_Borrow, 1, 4, 3), (Sub_Borrow, 5, 2, 1), (Counted_Loop, 1, 1, 4),
                    (Gray_Decode, 5, 2, 1), (Divide_Rem, 2, 1, 5), (Short_Circuit, 3, 4, 2), (Add_Carry, 2, 3, 0)]\<rparr>"

definition case_0949 :: "case_program" where
  "case_0949 =
     \<lparr>case_id = 949,
      case_input = [0xe9fa3d73, 0xe367604d, 0xec1a1b16, 0x127c61f1, 0x56587810, 0xebd39cf2, 0xb69ef08a, 0xa9595a47,
                    0x00000000, 0x5c793318, 0xba24a0c2, 0x82cb28ea, 0x129d84cc, 0x7e657762, 0x9d353b7a, 0x9d6356b2],
      case_kernel = multiply_kernel,
      reg_inputs = [6, 10, 14, 2], reg5_init = 0x83a63acd,
      memory_keys = [0x000003b5, 0x0000076a, 0x00000ed4, 0x00001da8, 0x00003b50, 0x000076a0, 0x0000ed40, 0x0001da80],
      case_stmts = [(Array_Scatter, 4, 5, 5), (Byte_Pack, 3, 2, 3), (Rotate_Mix, 2, 1, 2), (Counted_Loop, 1, 1, 2),
                    (Popcount_Loop, 1, 2, 1), (Multiply_Low, 1, 0, 2), (Multiply_Low, 2, 3, 4), (Horner_Loop, 4, 4, 0),
                    (Minmax_Clamp, 2, 3, 0), (Endian_Swap, 1, 5, 5), (Add_Carry, 1, 2, 3), (Endian_Swap, 5, 5, 3)]\<rparr>"

definition case_0950 :: "case_program" where
  "case_0950 =
     \<lparr>case_id = 950,
      case_input = [0x00000000, 0xc7669f85, 0xfab15858, 0x466c06b1, 0xa19842b1, 0x2a4eed75, 0x46878470, 0xa3fa59cd,
                    0xf9d5bcd8, 0x93f67c4b, 0xbc22c04a, 0x87f12580, 0x5592009b, 0x3d37ca72, 0xa94438b3, 0xe72e2984],
      case_kernel = fir_kernel 4,
      reg_inputs = [7, 11, 15, 3], reg5_init = 0x21ddb486,
      memory_keys = [0x000003b6, 0x0000076c, 0x00000ed8, 0x00001db0, 0x00003b60, 0x000076c0, 0x0000ed80, 0x0001db00],
      case_stmts = [(Counted_Loop, 1, 3, 3), (Byte_Pack, 4, 4, 0), (Rotate_Mix, 2, 0, 1), (Array_Scatter, 4, 5, 5),
                    (Endian_Swap, 1, 1, 1), (Array_Scatter, 1, 4, 2), (Switch_Phi, 0, 3, 3), (Rotate_Mix, 4, 3, 3),
                    (Gray_Decode, 5, 3, 3), (Byte_Pack, 1, 2, 1), (Counted_Loop, 1, 4, 0), (Popcount_Loop, 1, 4, 5)]\<rparr>"

definition case_0951 :: "case_program" where
  "case_0951 =
     \<lparr>case_id = 951,
      case_input = [0x68fe7df1, 0x00000001, 0x0f29fa5e, 0xe6657397, 0xb7cdcf64, 0x39ada676, 0x0f7c1b09, 0x710f9f01,
                    0x1e92b709, 0xd219ce84, 0x2aa4376d, 0x5fc7d6f1, 0x8d94c372, 0xa4d1d034, 0x74fe298a, 0xce1ed8fa],
      case_kernel = fir_kernel 5,
      reg_inputs = [8, 12, 0, 4], reg5_init = 0xc0152e3f,
      memory_keys = [0x000003b7, 0x0000076e, 0x00000edc, 0x00001db8, 0x00003b70, 0x000076e0, 0x0000edc0, 0x0001db80],
      case_stmts = [(Switch_Phi, 2, 0, 4), (Byte_Pack, 5, 4, 3), (Rotate_Mix, 0, 2, 5), (Add_Carry, 1, 1, 0),
                    (Rotate_Mix, 3, 3, 3), (Switch_Phi, 3, 2, 1), (Array_Scatter, 1, 0, 2), (Gray_Decode, 1, 2, 5),
                    (Halfword_Swap, 4, 2, 4), (Reverse_Loop, 0, 4, 5), (Counted_Loop, 5, 0, 5), (Divide_Rem, 4, 4, 4)]\<rparr>"

definition case_0952 :: "case_program" where
  "case_0952 =
     \<lparr>case_id = 952,
      case_input = [0xaf619e3d, 0x6f65ca28, 0x00000002, 0x8c237980, 0x017a46ff, 0xbe33bf24, 0xb530443c, 0x560d3df4,
                    0x5706b4e3, 0x81c1a384, 0xc0941753, 0xc91decf0, 0xdb8a919d, 0x9c057949, 0x42219fd0, 0x8e280c7c],
      case_kernel = fir_kernel 6,
      reg_inputs = [9, 13, 1, 5], reg5_init = 0x5e4ca7f8,
      memory_keys = [0x000003b8, 0x00000770, 0x00000ee0, 0x00001dc0, 0x00003b80, 0x00007700, 0x0000ee00, 0x0001dc00],
      case_stmts = [(Short_Circuit, 0, 0, 1), (Byte_Pack, 0, 5, 5), (Rotate_Mix, 2, 5, 5), (Minmax_Clamp, 1, 3, 1),
                    (Minmax_Clamp, 0, 4, 5), (Multiply_Low, 5, 1, 4), (Carry_Chain, 4, 4, 4), (Short_Circuit, 4, 3, 0),
                    (Reverse_Loop, 5, 0, 1), (Switch_Phi, 3, 5, 5), (Switch_Phi, 2, 5, 3), (Reverse_Loop, 0, 1, 1)]\<rparr>"

definition case_0953 :: "case_program" where
  "case_0953 =
     \<lparr>case_id = 953,
      case_input = [0xefe3be7c, 0x73649f6f, 0xa6b25ca4, 0x00000003, 0x172fcb2a, 0xadd0f427, 0xfccbdb45, 0x84f8fb38,
                    0xb041bf32, 0xc02e114b, 0x5612e074, 0x112b1f81, 0x038c5274, 0x05e3630f, 0x9f9b8ee9, 0xa718fd02],
      case_kernel = fir_kernel 7,
      reg_inputs = [10, 14, 2, 6], reg5_init = 0xfc8421b1,
      memory_keys = [0x000003b9, 0x00000772, 0x00000ee4, 0x00001dc8, 0x00003b90, 0x00007720, 0x0000ee40, 0x0001dc80],
      case_stmts = [(Popcount_Loop, 1, 3, 4), (Byte_Pack, 1, 3, 0), (Rotate_Mix, 0, 1, 3), (Array_Scatter, 0, 5, 0),
                    (Byte_Pack, 2, 4, 1), (Sub_Borrow, 5, 5, 1), (Add_Carry, 5, 5, 3), (Mask_Merge, 1, 0, 2),
                    (Endian_Swap, 0, 3, 0), (Counted_Loop, 0, 1, 1), (Gray_Decode, 2, 1, 4), (Gray_Decode, 1, 5, 4)]\<rparr>"

definition case_0954 :: "case_program" where
  "case_0954 =
     \<lparr>case_id = 954,
      case_input = [0x2e65debf, 0x576560a7, 0xb0191fea, 0x783a6be6, 0x0000007f, 0x6c4d85a0, 0x0cd2afbf, 0x8e5bf8b2,
                    0xc5556abe, 0x0fa15e18, 0x501480fc, 0x141112eb, 0x4483d623, 0x46b1de1f, 0xabea8d20, 0xdd558234],
      case_kernel = fir_kernel 8,
      reg_inputs = [11, 15, 3, 7], reg5_init = 0x9abb9b6a,
      memory_keys = [0x000003ba, 0x00000774, 0x00000ee8, 0x00001dd0, 0x00003ba0, 0x00007740, 0x0000ee80, 0x0001dd00],
      case_stmts = [(Reverse_Loop, 4, 3, 0), (Byte_Pack, 0, 3, 3), (Rotate_Mix, 2, 2, 0), (Counted_Loop, 1, 3, 3),
                    (Byte_Pack, 0, 3, 3), (Multiply_Low, 1, 3, 1), (Divide_Rem, 1, 3, 2), (Short_Circuit, 5, 1, 1),
                    (Compare_Select, 1, 5, 3), (Minmax_Clamp, 4, 0, 3), (Mask_Merge, 0, 1, 3), (Horner_Loop, 3, 2, 4)]\<rparr>"

definition case_0955 :: "case_program" where
  "case_0955 =
     \<lparr>case_id = 955,
      case_input = [0x6ee7fefe, 0x4b6435e0, 0x4581bdec, 0xd8331ec0, 0xf6ba7c5e, 0x00000080, 0x452930c6, 0x5cae3e7e,
                    0x2212616f, 0x4e4eecd7, 0xc69277db, 0xcc27e19a, 0x9c8515ca, 0xdf57c459, 0x76509c19, 0xf465734a],
      case_kernel = fir_kernel 9,
      reg_inputs = [12, 0, 4, 8], reg5_init = 0x38f31523,
      memory_keys = [0x000003bb, 0x00000776, 0x00000eec, 0x00001dd8, 0x00003bb0, 0x00007760, 0x0000eec0, 0x0001dd80],
      case_stmts = [(Gray_Decode, 1, 0, 3), (Byte_Pack, 5, 5, 2), (Rotate_Mix, 2, 4, 0), (Multiply_Low, 0, 3, 4),
                    (Short_Circuit, 2, 5, 5), (Endian_Swap, 1, 1, 0), (Rotate_Mix, 4, 2, 5), (Mask_Merge, 4, 0, 3),
                    (Popcount_Loop, 4, 0, 0), (Endian_Swap, 5, 2, 1), (Mask_Merge, 2, 3, 0), (Rotate_Mix, 4, 2, 3)]\<rparr>"

definition case_0956 :: "case_program" where
  "case_0956 =
     \<lparr>case_id = 956,
      case_input = [0xad691f38, 0x1f649f36, 0x954d3c33, 0x66115d4d, 0xc0572816, 0x83cf6768, 0x000000ff, 0x2e970ac8,
                    0x9f6f597b, 0x1e587af7, 0x4cf0f6cc, 0xcd84cac0, 0x8add2662, 0x75f5c436, 0xcb697395, 0xe7bb0540],
      case_kernel = fir_kernel 10,
      reg_inputs = [13, 1, 5, 9], reg5_init = 0xd72a8edc,
      memory_keys = [0x000003bc, 0x00000778, 0x00000ef0, 0x00001de0, 0x00003bc0, 0x00007780, 0x0000ef00, 0x0001de00],
      case_stmts = [(Minmax_Clamp, 3, 1, 3), (Byte_Pack, 5, 4, 4), (Rotate_Mix, 4, 2, 0), (Endian_Swap, 2, 5, 5),
                    (Reverse_Loop, 1, 3, 2), (Counted_Loop, 2, 1, 2), (Gray_Decode, 5, 0, 0), (Mask_Merge, 5, 1, 5),
                    (Reverse_Loop, 5, 5, 3), (Counted_Loop, 3, 1, 5), (Multiply_Low, 5, 1, 4), (Counted_Loop, 2, 1, 2)]\<rparr>"

definition case_0957 :: "case_program" where
  "case_0957 =
     \<lparr>case_id = 957,
      case_input = [0xedeb3f79, 0x0365ca71, 0x60d59e35, 0xc618286b, 0xd602a5c3, 0x902c2c6b, 0xb205593c, 0x00000100,
                    0x782852aa, 0x5fb7c838, 0xda7601eb, 0x15b239b1, 0x52dbe58b, 0xec13de70, 0x16d362ac, 0xce8bf43e],
      case_kernel = fir_kernel 11,
      reg_inputs = [14, 2, 6, 10], reg5_init = 0x75620895,
      memory_keys = [0x000003bd, 0x0000077a, 0x00000ef4, 0x00001de8, 0x00003bd0, 0x000077a0, 0x0000ef40, 0x0001de80],
      case_stmts = [(Endian_Swap, 2, 2, 2), (Byte_Pack, 0, 4, 5), (Rotate_Mix, 0, 4, 2), (Halfword_Swap, 3, 5, 4),
                    (Sub_Borrow, 1, 3, 4), (Add_Carry, 2, 3, 5), (Popcount_Loop, 2, 3, 1), (Divide_Rem, 2, 0, 5),
                    (Array_Scatter, 2, 2, 0), (Horner_Loop, 0, 1, 5), (Byte_Pack, 5, 1, 1), (Switch_Phi, 3, 5, 1)]\<rparr>"

definition case_0958 :: "case_program" where
  "case_0958 =
     \<lparr>case_id = 958,
      case_input = [0x2c6d5fba, 0x276435b9, 0x767edd7b, 0x92084f2b, 0x21c29f62, 0x51b15dec, 0x421c2dc6, 0xf6c1cf8e,
                    0x7fffffff, 0x9038876b, 0xdc706163, 0x108834db, 0x15d461dc, 0xaf416360, 0x22a26165, 0xb4c68b08],
      case_kernel = fir_kernel 12,
      reg_inputs = [15, 3, 7, 11], reg5_init = 0x1399824e,
      memory_keys = [0x000003be, 0x0000077c, 0x00000ef8, 0x00001df0, 0x00003be0, 0x000077c0, 0x0000ef80, 0x0001df00],
      case_stmts = [(Carry_Chain, 5, 2, 2), (Byte_Pack, 5, 0, 0), (Rotate_Mix, 0, 5, 5), (Switch_Phi, 4, 3, 3),
                    (Array_Scatter, 1, 4, 2), (Counted_Loop, 4, 1, 3), (Mask_Merge, 0, 3, 0), (Popcount_Loop, 0, 3, 2),
                    (Rotate_Mix, 5, 2, 5), (Mask_Merge, 4, 0, 5), (Popcount_Loop, 1, 3, 4), (Byte_Pack, 3, 2, 5)]\<rparr>"

definition case_0959 :: "case_program" where
  "case_0959 =
     \<lparr>case_id = 959,
      case_input = [0x6cef7ffb, 0x3b6560fe, 0x83e67f7d, 0x32013a0d, 0x379712b7, 0x425216ef, 0x0be7b2bf, 0x24340942,
                    0xea7b8cf7, 0x80000000, 0x4af69644, 0xc8bec7aa, 0xcdd2a235, 0x36a77926, 0xff18705c, 0x9df67a76],
      case_kernel = fir_kernel 13,
      reg_inputs = [0, 4, 8, 12], reg5_init = 0xb1d0fc07,
      memory_keys = [0x000003bf, 0x0000077e, 0x00000efc, 0x00001df8, 0x00003bf0, 0x000077e0, 0x0000efc0, 0x0001df80],
      case_stmts = [(Horner_Loop, 0, 1, 1), (Byte_Pack, 4, 4, 3), (Rotate_Mix, 2, 5, 3), (Rotate_Mix, 5, 5, 4),
                    (Compare_Select, 1, 2, 2), (Divide_Rem, 0, 3, 2), (Gray_Decode, 3, 0, 3), (Add_Carry, 3, 0, 2),
                    (Mask_Merge, 0, 1, 0), (Minmax_Clamp, 3, 0, 5), (Mask_Merge, 3, 3, 5), (Counted_Loop, 0, 2, 2)]\<rparr>"

definition case_0960 :: "case_program" where
  "case_0960 =
     \<lparr>case_id = 960,
      case_input = [0x939e805b, 0xcf7dcd7e, 0x9b384c50, 0x0a22c990, 0xf62be384, 0x34169a6f, 0x6bb47e53, 0x41c9dfc0,
                    0xde513416, 0xc0ff7567, 0xfffffffe, 0xaf5d9458, 0xe92eeded, 0x1417eab0, 0x282702fd, 0xe7a77325],
      case_kernel = fir_kernel 14,
      reg_inputs = [1, 5, 9, 13], reg5_init = 0x500875c0,
      memory_keys = [0x000003c0, 0x00000780, 0x00000f00, 0x00001e00, 0x00003c00, 0x00007800, 0x0000f000, 0x0001e000],
      case_stmts = [(Add_Carry, 3, 4, 3), (Halfword_Swap, 2, 0, 4), (Rotate_Mix, 5, 4, 0), (Carry_Chain, 2, 2, 2),
                    (Rotate_Mix, 0, 2, 4), (Sub_Borrow, 4, 4, 0), (Rotate_Mix, 3, 5, 0), (Horner_Loop, 3, 4, 5),
                    (Popcount_Loop, 2, 5, 4), (Divide_Rem, 4, 0, 0), (Multiply_Low, 3, 4, 1), (Horner_Loop, 5, 5, 2)]\<rparr>"

definition case_0961 :: "case_program" where
  "case_0961 =
     \<lparr>case_id = 961,
      case_input = [0xd31ca01a, 0xd37c9839, 0x6ea0ee56, 0xaa2bbcb6, 0xe07e6e51, 0x27f5d16c, 0x224fe12a, 0x933c190c,
                    0x39163fc7, 0x8110c7a8, 0x49c14eb2, 0xffffffff, 0x31282e04, 0x8df1f0f6, 0xf59d13c4, 0xce97825b],
      case_kernel = fir_kernel 15,
      reg_inputs = [2, 6, 10, 14], reg5_init = 0xee3fef79,
      memory_keys = [0x000003c1, 0x00000782, 0x00000f04, 0x00001e08, 0x00003c10, 0x00007820, 0x0000f040, 0x0001e080],
      case_stmts = [(Sub_Borrow, 0, 3, 2), (Halfword_Swap, 5, 2, 3), (Rotate_Mix, 3, 2, 4), (Switch_Phi, 5, 0, 5),
                    (Array_Scatter, 4, 4, 2), (Gray_Decode, 2, 4, 3), (Minmax_Clamp, 2, 2, 1), (Reverse_Loop, 4, 3, 1),
                    (Rotate_Mix, 3, 2, 3), (Endian_Swap, 3, 4, 4), (Byte_Pack, 1, 2, 2), (Carry_Chain, 4, 3, 5)]\<rparr>"

definition case_0962 :: "case_program" where
  "case_0962 =
     \<lparr>case_id = 962,
      case_input = [0x129ac0d9, 0xf77d67f1, 0x780bad18, 0xfe3bdbf6, 0x00000000, 0xe668a0eb, 0xd25695d0, 0x999f1a86,
                    0x4c02ea4b, 0x4e9f88fb, 0x4fc72e3a, 0x72516a43, 0x00000000, 0xcea34de6, 0xc1ec100d, 0xb4dafd6d],
      case_kernel = fir_kernel 4,
      reg_inputs = [3, 7, 11, 15], reg5_init = 0x8c776932,
      memory_keys = [0x000003c2, 0x00000784, 0x00000f08, 0x00001e10, 0x00003c20, 0x00007840, 0x0000f080, 0x0001e100],
      case_stmts = [(Rotate_Mix, 3, 3, 0), (Halfword_Swap, 0, 0, 0), (Rotate_Mix, 1, 1, 1), (Minmax_Clamp, 2, 4, 2),
                    (Array_Scatter, 2, 3, 4), (Sub_Borrow, 0, 4, 5), (Minmax_Clamp, 0, 4, 4), (Switch_Phi, 4, 4, 4),
                    (Mask_Merge, 4, 0, 0), (Multiply_Low, 1, 1, 4), (Popcount_Loop, 5, 2, 5), (Reverse_Loop, 4, 2, 5)]\<rparr>"

definition case_0963 :: "case_program" where
  "case_0963 =
     \<lparr>case_id = 963,
      case_input = [0x5218e098, 0xeb7c32b6, 0x8d930f1e, 0x5e32aed0, 0x01ebd925, 0xf58bebe8, 0x9bad0aa9, 0x4b6adc4a,
                    0xab45e19a, 0x0f703a34, 0xd941d91d, 0x00000080, 0xae2169ba, 0x00000001, 0x1c560134, 0x9dea0c13],
      case_kernel = fir_kernel 5,
      reg_inputs = [4, 8, 12, 0], reg5_init = 0x2aaee2eb,
      memory_keys = [0x000003c3, 0x00000786, 0x00000f0c, 0x00001e18, 0x00003c30, 0x00007860, 0x0000f0c0, 0x0001e180],
      case_stmts = [(Multiply_Low, 2, 2, 3), (Halfword_Swap, 3, 2, 5), (Rotate_Mix, 1, 1, 1), (Array_Scatter, 3, 2, 3),
                    (Rotate_Mix, 4, 1, 2), (Gray_Decode, 4, 4, 0), (Reverse_Loop, 3, 5, 5), (Compare_Select, 5, 3, 4),
                    (Carry_Chain, 1, 3, 3), (Rotate_Mix, 0, 5, 4), (Sub_Borrow, 1, 4, 2), (Horner_Loop, 3, 0, 0)]\<rparr>"

definition case_0964 :: "case_program" where
  "case_0964 =
     \<lparr>case_id = 964,
      case_input = [0x9196015e, 0xbf7c9860, 0xfffffffe, 0xe010ed5d, 0x37068d6d, 0x09ea4223, 0x257afc2a, 0x3953e8fc,
                    0x1638d98e, 0x5f66ac14, 0x5323580a, 0xabc4b268, 0xb8795a12, 0xfde757cf, 0x00000002, 0x8e347a19],
      case_kernel = fir_kernel 6,
      reg_inputs = [5, 9, 13, 1], reg5_init = 0xc8e65ca4,
      memory_keys = [0x000003c4, 0x00000788, 0x00000f10, 0x00001e20, 0x00003c40, 0x00007880, 0x0000f100, 0x0001e200],
      case_stmts = [(Divide_Rem, 4, 3, 3), (Halfword_Swap, 5, 5, 5), (Rotate_Mix, 1, 3, 3), (Byte_Pack, 3, 0, 4),
                    (Halfword_Swap, 1, 3, 1), (Add_Carry, 3, 0, 4), (Gray_Decode, 0, 5, 0), (Counted_Loop, 2, 2, 0),
                    (Endian_Swap, 4, 2, 4), (Popcount_Loop, 2, 4, 4), (Multiply_Low, 0, 4, 4), (Byte_Pack, 3, 5, 5)]\<rparr>"

definition case_0965 :: "case_program" where
  "case_0965 =
     \<lparr>case_id = 965,
      case_input = [0xd114211f, 0xa37dcd27, 0xa8c72cc7, 0x4019987b, 0x215300b8, 0x1a090920, 0x6c816353, 0xeba62e30,
                    0xf17fd25f, 0x00000003, 0xc5a5af2d, 0x73f24119, 0x607f99fb, 0x64014d89, 0x7cd5ff81, 0x00000003],
      case_kernel = fir_kernel 7,
      reg_inputs = [6, 10, 14, 2], reg5_init = 0x671dd65d,
      memory_keys = [0x000003c5, 0x0000078a, 0x00000f14, 0x00001e28, 0x00003c50, 0x000078a0, 0x0000f140, 0x0001e280],
      case_stmts = [(Mask_Merge, 3, 2, 4), (Halfword_Swap, 0, 5, 4), (Rotate_Mix, 5, 1, 1), (Carry_Chain, 0, 2, 3),
                    (Multiply_Low, 1, 3, 5), (Compare_Select, 5, 2, 5), (Sub_Borrow, 1, 4, 3), (Horner_Loop, 5, 5, 4),
                    (Counted_Loop, 1, 5, 3), (Add_Carry, 3, 0, 4), (Gray_Decode, 2, 0, 5), (Rotate_Mix, 4, 3, 0)]\<rparr>"

definition case_0966 :: "case_program" where
  "case_0966 =
     \<lparr>case_id = 966,
      case_input = [0x7fffffff, 0x877c32ef, 0xbe6c6f89, 0x1409ff3b, 0xd6933a19, 0xdb9478a7, 0x9c9817a9, 0xe1052dba,
                    0x846b07d3, 0xd1065188, 0xc3a3cfa5, 0x76c84c73, 0x27701dac, 0x2753f099, 0x48a4fc48, 0xdd49f451],
      case_kernel = fir_kernel 8,
      reg_inputs = [7, 11, 15, 3], reg5_init = 0x05555016,
      memory_keys = [0x000003c6, 0x0000078c, 0x00000f18, 0x00001e30, 0x00003c60, 0x000078c0, 0x0000f180, 0x0001e300],
      case_stmts = [(Compare_Select, 0, 2, 0), (Halfword_Swap, 1, 1, 3), (Rotate_Mix, 5, 4, 0), (Mask_Merge, 1, 4, 2),
                    (Horner_Loop, 1, 0, 5), (Add_Carry, 5, 0, 5), (Sub_Borrow, 1, 2, 0), (Rotate_Mix, 1, 4, 1),
                    (Popcount_Loop, 4, 5, 0), (Reverse_Loop, 1, 5, 0), (Endian_Swap, 0, 0, 4), (Counted_Loop, 2, 2, 2)]\<rparr>"

definition case_0967 :: "case_program" where
  "case_0967 =
     \<lparr>case_id = 967,
      case_input = [0x5010619d, 0x00000080, 0x4bf4cd8f, 0xb4008a1d, 0xc0c6b7cc, 0xc87733a4, 0xd56388d0, 0x00000001,
                    0x632c0c02, 0x90e9e347, 0x55253882, 0xaefebf02, 0xff76de45, 0xbeb5eadf, 0x951eed71, 0xf479052f],
      case_kernel = fir_kernel 9,
      reg_inputs = [8, 12, 0, 4], reg5_init = 0xa38cc9cf,
      memory_keys = [0x000003c7, 0x0000078e, 0x00000f1c, 0x00001e38, 0x00003c70, 0x000078e0, 0x0000f1c0, 0x0001e380],
      case_stmts = [(Byte_Pack, 1, 5, 1), (Halfword_Swap, 0, 5, 4), (Rotate_Mix, 5, 2, 0), (Minmax_Clamp, 4, 2, 1),
                    (Short_Circuit, 3, 2, 1), (Carry_Chain, 5, 4, 2), (Switch_Phi, 2, 1, 3), (Switch_Phi, 0, 3, 5),
                    (Counted_Loop, 5, 2, 5), (Multiply_Low, 2, 1, 4), (Array_Scatter, 0, 0, 1), (Gray_Decode, 1, 2, 1)]\<rparr>"

definition case_0968 :: "case_program" where
  "case_0968 =
     \<lparr>case_id = 968,
      case_input = [0x978f8251, 0x2f7f6742, 0x000000ff, 0xde46800a, 0x76713e57, 0x4fe92af6, 0x6f2fd7e5, 0x14f24983,
                    0x2ab80fe8, 0xc3318e47, 0xbf1518bc, 0x38248503, 0xa9688caa, 0x866143a2, 0x000000ff, 0xb44fd1a9],
      case_kernel = fir_kernel 10,
      reg_inputs = [9, 13, 1, 5], reg5_init = 0x41c44388,
      memory_keys = [0x000003c8, 0x00000790, 0x00000f20, 0x00001e40, 0x00003c80, 0x00007900, 0x0000f200, 0x0001e400],
      case_stmts = [(Halfword_Swap, 3, 3, 0), (Halfword_Swap, 1, 4, 2), (Rotate_Mix, 5, 5, 2), (Add_Carry, 4, 4, 4),
                    (Counted_Loop, 4, 5, 3), (Reverse_Loop, 5, 3, 5), (Add_Carry, 3, 3, 1), (Divide_Rem, 1, 4, 4),
                    (Halfword_Swap, 2, 4, 0), (Counted_Loop, 3, 4, 0), (Short_Circuit, 5, 3, 1), (Mask_Merge, 5, 5, 2)]\<rparr>"

definition case_0969 :: "case_program" where
  "case_0969 =
     \<lparr>case_id = 969,
      case_input = [0xd70da210, 0x337e3205, 0xe26f6b75, 0x00000100, 0x6024b382, 0xffffffff, 0x26d4489c, 0xc6078f4f,
                    0xcdff0439, 0x82de3c88, 0x2993ef9b, 0xe0127672, 0x716e4f43, 0x1f8759e4, 0x7e7b4a12, 0x9d7f20d7],
      case_kernel = fir_kernel 11,
      reg_inputs = [10, 14, 2, 6], reg5_init = 0xdffbbd41,
      memory_keys = [0x000003c9, 0x00000792, 0x00000f24, 0x00001e48, 0x00003c90, 0x00007920, 0x0000f240, 0x0001e480],
      case_stmts = [(Array_Scatter, 0, 2, 1), (Halfword_Swap, 4, 4, 5), (Rotate_Mix, 1, 3, 2),
                    (Popcount_Loop, 3, 2, 5), (Array_Scatter, 0, 5, 1), (Minmax_Clamp, 3, 1, 0), (Carry_Chain, 2, 4, 2),
                    (Popcount_Loop, 0, 1, 2), (Gray_Decode, 5, 5, 3), (Byte_Pack, 0, 0, 4), (Divide_Rem, 1, 3, 2),
                    (Add_Carry, 2, 3, 3)]\<rparr>"

definition case_0970 :: "case_program" where
  "case_0970 =
     \<lparr>case_id = 970,
      case_input = [0x168bc2d3, 0x177fcdcd, 0xf4c4283b, 0x2a5f926c, 0x7fffffff, 0x9d971072, 0xd6cd3c66, 0xcca48cc5,
                    0xb8ebd1b5, 0x4d5173db, 0x2f958f13, 0xe5287b18, 0x0000007f, 0x5cd5e4f4, 0x4a0a49db, 0xe7325fe1],
      case_kernel = fir_kernel 12,
      reg_inputs = [11, 15, 3, 7], reg5_init = 0x7e3336fa,
      memory_keys = [0x000003ca, 0x00000794, 0x00000f28, 0x00001e50, 0x00003ca0, 0x00007940, 0x0000f280, 0x0001e500],
      case_stmts = [(Counted_Loop, 1, 0, 1), (Halfword_Swap, 3, 0, 2), (Rotate_Mix, 1, 2, 3), (Rotate_Mix, 2, 2, 0),
                    (Mask_Merge, 4, 0, 5), (Carry_Chain, 1, 5, 4), (Reverse_Loop, 0, 0, 5), (Minmax_Clamp, 4, 4, 3),
                    (Add_Carry, 0, 5, 2), (Mask_Merge, 4, 1, 2), (Rotate_Mix, 5, 5, 1), (Divide_Rem, 2, 2, 5)]\<rparr>"

definition case_0971 :: "case_program" where
  "case_0971 =
     \<lparr>case_id = 971,
      case_input = [0x5609e292, 0x0b7e988a, 0x015c8a3d, 0x80000000, 0x81b104f6, 0x80000000, 0x9f36a31f, 0x1e514a09,
                    0x5facda64, 0x0cbec114, 0xb9137834, 0x3d1e8869, 0xee6708fd, 0xc533feb2, 0x97b058e2, 0xce02ae9f],
      case_kernel = fir_kernel 13,
      reg_inputs = [12, 0, 4, 8], reg5_init = 0x1c6ab0b3,
      memory_keys = [0x000003cb, 0x00000796, 0x00000f2c, 0x00001e58, 0x00003cb0, 0x00007960, 0x0000f2c0, 0x0001e580],
      case_stmts = [(Switch_Phi, 0, 5, 2), (Halfword_Swap, 4, 2, 1), (Rotate_Mix, 3, 2, 3), (Gray_Decode, 1, 4, 3),
                    (Compare_Select, 2, 4, 3), (Minmax_Clamp, 5, 5, 3), (Add_Carry, 1, 3, 4), (Array_Scatter, 5, 1, 1),
                    (Horner_Loop, 5, 4, 5), (Divide_Rem, 3, 5, 2), (Reverse_Loop, 3, 1, 4), (Popcount_Loop, 3, 2, 0)]\<rparr>"

definition case_0972 :: "case_program" where
  "case_0972 =
     \<lparr>case_id = 972,
      case_input = [0x95870354, 0x5f7e325c, 0xd1900be2, 0x3474a4c7, 0xb75c50be, 0x7215f2ba, 0xfffffffe, 0x6c687ebf,
                    0xe2d1e270, 0x5ca85734, 0x00000002, 0x3cbda333, 0xf83f3b55, 0x6f91fedd, 0x2a89b76e, 0xdddcd895],
      case_kernel = fir_kernel 14,
      reg_inputs = [13, 1, 5, 9], reg5_init = 0xbaa22a6c,
      memory_keys = [0x000003cc, 0x00000798, 0x00000f30, 0x00001e60, 0x00003cc0, 0x00007980, 0x0000f300, 0x0001e600],
      case_stmts = [(Short_Circuit, 0, 0, 4), (Halfword_Swap, 4, 3, 5), (Rotate_Mix, 3, 2, 1),
                    (Array_Scatter, 5, 4, 2), (Halfword_Swap, 1, 4, 4), (Multiply_Low, 2, 1, 5), (Mask_Merge, 0, 5, 3),
                    (Endian_Swap, 0, 2, 1), (Short_Circuit, 4, 1, 4), (Byte_Pack, 5, 0, 0), (Halfword_Swap, 0, 3, 0),
                    (Endian_Swap, 5, 5, 1)]\<rparr>"

definition case_0973 :: "case_program" where
  "case_0973 =
     \<lparr>case_id = 973,
      case_input = [0xd5052315, 0x00000100, 0x2408a9e4, 0x947dd1e1, 0xa109dd6b, 0x61f6b9b9, 0x681acae5, 0xffffffff,
                    0x0596e9a1, 0x1d47e5fb, 0xa5f70e04, 0xe48b5042, 0x2039f8bc, 0xf677e49b, 0xf733a657, 0xf4ec29eb],
      case_kernel = fir_kernel 15,
      reg_inputs = [14, 2, 6, 10], reg5_init = 0x58d9a425,
      memory_keys = [0x000003cd, 0x0000079a, 0x00000f34, 0x00001e68, 0x00003cd0, 0x000079a0, 0x0000f340, 0x0001e680],
      case_stmts = [(Popcount_Loop, 1, 3, 1), (Halfword_Swap, 3, 3, 2), (Rotate_Mix, 1, 4, 5), (Add_Carry, 4, 4, 3),
                    (Switch_Phi, 1, 0, 2), (Array_Scatter, 4, 5, 4), (Byte_Pack, 3, 0, 2), (Short_Circuit, 1, 3, 3),
                    (Byte_Pack, 5, 0, 1), (Compare_Select, 0, 2, 0), (Add_Carry, 2, 5, 3), (Minmax_Clamp, 0, 5, 4)]\<rparr>"

definition case_0974 :: "case_program" where
  "case_0974 =
     \<lparr>case_id = 974,
      case_input = [0x148343d6, 0x677e98d3, 0x32a3eaaa, 0xc06db6a1, 0x56c9e7ca, 0xa06bc83e, 0x9803be1f, 0xb43ebbf9,
                    0x00000000, 0xd2c8aaa8, 0xa3f16e8c, 0xe1b15d28, 0x67367ceb, 0xb525598b, 0xc342a59e, 0x8ea156dd],
      case_kernel = fir_kernel 4,
      reg_inputs = [15, 3, 7, 11], reg5_init = 0xf7111dde,
      memory_keys = [0x000003ce, 0x0000079c, 0x00000f38, 0x00001e70, 0x00003ce0, 0x000079c0, 0x0000f380, 0x0001e700],
      case_stmts = [(Reverse_Loop, 4, 3, 1), (Halfword_Swap, 0, 1, 1), (Rotate_Mix, 1, 3, 4), (Switch_Phi, 5, 0, 2),
                    (Multiply_Low, 5, 3, 4), (Gray_Decode, 2, 1, 4), (Horner_Loop, 1, 2, 1), (Sub_Borrow, 3, 2, 4),
                    (Short_Circuit, 2, 4, 0), (Minmax_Clamp, 2, 1, 0), (Reverse_Loop, 2, 5, 4),
                    (Minmax_Clamp, 0, 4, 0)]\<rparr>"

definition case_0975 :: "case_program" where
  "case_0975 =
     \<lparr>case_id = 975,
      case_input = [0x00000000, 0x7b7fcd94, 0xc73b48ac, 0x6064c387, 0x409c6a1f, 0xb388833d, 0xd1f82166, 0x66cb7d35,
                    0x97c537fc, 0x93271867, 0x357799ab, 0x3987ae59, 0xbf30bf02, 0x2cc343cd, 0x1ef8b4a7, 0xa791a7a3],
      case_kernel = median_kernel 0,
      reg_inputs = [0, 4, 8, 12], reg5_init = 0x95489797,
      memory_keys = [0x000003cf, 0x0000079e, 0x00000f3c, 0x00001e78, 0x00003cf0, 0x000079e0, 0x0000f3c0, 0x0001e780],
      case_stmts = [(Gray_Decode, 1, 0, 2), (Halfword_Swap, 3, 3, 2), (Rotate_Mix, 3, 3, 2), (Rotate_Mix, 2, 0, 5),
                    (Halfword_Swap, 3, 1, 0), (Endian_Swap, 0, 5, 3), (Mask_Merge, 0, 5, 2), (Add_Carry, 4, 1, 2),
                    (Multiply_Low, 3, 1, 5), (Array_Scatter, 3, 3, 4), (Rotate_Mix, 0, 1, 3), (Mask_Merge, 1, 2, 1)]\<rparr>"

definition case_0976 :: "case_program" where
  "case_0976 =
     \<lparr>case_id = 976,
      case_input = [0x9bbc844f, 0x00000001, 0x80a74616, 0xa0ec5aa5, 0x6d9ef567, 0xfee6ae22, 0x39b0988f, 0x1770a275,
                    0x8ed925b0, 0xb9420df6, 0x75e18fd8, 0x3e6a2228, 0xc1074d88, 0x451faae2, 0x641d4c7f, 0x658e9349],
      case_kernel = median_kernel 1,
      reg_inputs = [1, 5, 9, 13], reg5_init = 0x33801150,
      memory_keys = [0x000003d0, 0x000007a0, 0x00000f40, 0x00001e80, 0x00003d00, 0x00007a00, 0x0000f400, 0x0001e800],
      case_stmts = [(Minmax_Clamp, 2, 1, 5), (Halfword_Swap, 3, 0, 4), (Rotate_Mix, 5, 0, 5), (Carry_Chain, 1, 3, 2),
                    (Carry_Chain, 0, 5, 4), (Multiply_Low, 5, 0, 2), (Byte_Pack, 3, 1, 4), (Halfword_Swap, 0, 2, 3),
                    (Minmax_Clamp, 2, 2, 0), (Halfword_Swap, 3, 1, 1), (Counted_Loop, 4, 4, 2), (Sub_Borrow, 5, 4, 1)]\<rparr>"

definition case_0977 :: "case_program" where
  "case_0977 =
     \<lparr>case_id = 977,
      case_input = [0xdb3ea40e, 0x1379cc41, 0x00000002, 0x00e52f83, 0x7bcb78b2, 0xed05e521, 0x704b07f6, 0xc58564b9,
                    0x699e2e61, 0xf8adbf39, 0xe36778ff, 0xe65cd159, 0x19018e61, 0xdcf9b0a4, 0xb9a75d46, 0x4cbe6237],
      case_kernel = median_kernel 2,
      reg_inputs = [2, 6, 10, 14], reg5_init = 0xd1b78b09,
      memory_keys = [0x000003d1, 0x000007a2, 0x00000f44, 0x00001e88, 0x00003d10, 0x00007a20, 0x0000f440, 0x0001e880],
      case_stmts = [(Endian_Swap, 5, 4, 0), (Halfword_Swap, 0, 4, 3), (Rotate_Mix, 5, 4, 1), (Byte_Pack, 2, 3, 3),
                    (Mask_Merge, 2, 5, 0), (Sub_Borrow, 1, 0, 5), (Endian_Swap, 4, 0, 1), (Mask_Merge, 3, 5, 1),
                    (Horner_Loop, 1, 5, 1), (Sub_Borrow, 4, 3, 1), (Compare_Select, 4, 4, 3), (Halfword_Swap, 4, 2, 2)]\<rparr>"

definition case_0978 :: "case_program" where
  "case_0978 =
     \<lparr>case_id = 978,
      case_input = [0x1ab8c4cd, 0x37783389, 0x6394a75e, 0x00000003, 0x8c0b4213, 0x2c9894a6, 0x8052730c, 0xcf266733,
                    0x1c8afbed, 0x3722f06a, 0xe5611877, 0xe366dc33, 0x5e0e0a36, 0x9fab0db4, 0x8dd65e8f, 0x36f31d01],
      case_kernel = median_kernel 3,
      reg_inputs = [3, 7, 11, 15], reg5_init = 0x6fef04c2,
      memory_keys = [0x000003d2, 0x000007a4, 0x00000f48, 0x00001e90, 0x00003d20, 0x00007a40, 0x0000f480, 0x0001e900],
      case_stmts = [(Carry_Chain, 2, 4, 4), (Halfword_Swap, 3, 2, 0), (Rotate_Mix, 5, 5, 2), (Minmax_Clamp, 5, 1, 2),
                    (Sub_Borrow, 0, 2, 4), (Byte_Pack, 3, 2, 1), (Mask_Merge, 2, 4, 4), (Minmax_Clamp, 5, 4, 2),
                    (Short_Circuit, 4, 5, 0), (Gray_Decode, 0, 0, 3), (Minmax_Clamp, 2, 2, 4),
                    (Halfword_Swap, 2, 1, 2)]\<rparr>"

definition case_0979 :: "case_program" where
  "case_0979 =
     \<lparr>case_id = 979,
      case_input = [0x5a3ae48c, 0x2b7966ce, 0x960c0558, 0xf4fc3de5, 0x0000007f, 0x3f7bdfa5, 0xc9a9ec75, 0x1dd3a1ff,
                    0xfbcdf03c, 0x76cd42a5, 0x73e7ef50, 0x3b502f42, 0x8608c9df, 0x064d17f2, 0x506c4fb6, 0x1fc3ec7f],
      case_kernel = median_kernel 4,
      reg_inputs = [4, 8, 12, 0], reg5_init = 0x0e267e7b,
      memory_keys = [0x000003d3, 0x000007a6, 0x00000f4c, 0x00001e98, 0x00003d30, 0x00007a60, 0x0000f4c0, 0x0001e980],
      case_stmts = [(Horner_Loop, 5, 1, 3), (Halfword_Swap, 2, 4, 5), (Rotate_Mix, 5, 1, 4), (Mask_Merge, 2, 3, 3),
                    (Reverse_Loop, 4, 4, 4), (Endian_Swap, 1, 4, 2), (Multiply_Low, 5, 1, 3), (Array_Scatter, 2, 3, 4),
                    (Multiply_Low, 5, 4, 5), (Reverse_Loop, 1, 4, 5), (Halfword_Swap, 2, 4, 1), (Sub_Borrow, 5, 1, 5)]\<rparr>"

definition case_0980 :: "case_program" where
  "case_0980 =
     \<lparr>case_id = 980,
      case_input = [0x99b4054a, 0x7f79cc18, 0x46c08487, 0x4ade7e68, 0xacb39b8e, 0x00000080, 0x777e1af6, 0x6fea9549,
                    0x46b0c828, 0x26dbd485, 0xf9856e47, 0x3af30418, 0x9050fa77, 0xacef179d, 0xed55a03a, 0x0c1d9a75],
      case_kernel = median_kernel 5,
      reg_inputs = [5, 9, 13, 1], reg5_init = 0xac5df834,
      memory_keys = [0x000003d4, 0x000007a8, 0x00000f50, 0x00001ea0, 0x00003d40, 0x00007a80, 0x0000f500, 0x0001ea00],
      case_stmts = [(Add_Carry, 1, 0, 3), (Array_Scatter, 4, 1, 1), (Rotate_Mix, 5, 5, 0), (Gray_Decode, 0, 3, 2),
                    (Short_Circuit, 1, 4, 1), (Carry_Chain, 4, 0, 4), (Reverse_Loop, 4, 5, 4), (Mask_Merge, 1, 2, 4),
                    (Short_Circuit, 4, 1, 0), (Mask_Merge, 1, 3, 5), (Compare_Select, 1, 4, 1), (Sub_Borrow, 1, 0, 2)]\<rparr>"

definition case_0981 :: "case_program" where
  "case_0981 =
     \<lparr>case_id = 981,
      case_input = [0xd936250b, 0x6378995f, 0xb3582681, 0xead70b4e, 0xbae6165b, 0xd0f93d6d, 0x000000ff, 0xbd1f5385,
                    0xa1f7c3f9, 0x6734664a, 0x6f039960, 0xe2c5f769, 0x4856399e, 0x35090ddb, 0x30efb103, 0x252d6b0b],
      case_kernel = median_kernel 6,
      reg_inputs = [6, 10, 14, 2], reg5_init = 0x4a9571ed,
      memory_keys = [0x000003d5, 0x000007aa, 0x00000f54, 0x00001ea8, 0x00003d50, 0x00007aa0, 0x0000f540, 0x0001ea80],
      case_stmts = [(Sub_Borrow, 4, 5, 2), (Array_Scatter, 1, 1, 4), (Rotate_Mix, 1, 1, 0), (Rotate_Mix, 3, 1, 5),
                    (Multiply_Low, 1, 2, 3), (Minmax_Clamp, 4, 4, 3), (Minmax_Clamp, 5, 0, 5), (Add_Carry, 2, 1, 4),
                    (Multiply_Low, 1, 4, 3), (Halfword_Swap, 4, 5, 3), (Reverse_Loop, 1, 2, 4),
                    (Halfword_Swap, 0, 2, 3)]\<rparr>"

definition case_0982 :: "case_program" where
  "case_0982 =
     \<lparr>case_id = 982,
      case_input = [0x18b045c8, 0x47796697, 0xa5f365cf, 0xbec76c0e, 0x4d262cfa, 0x11644cea, 0xce9cf175, 0x00000100,
                    0xd4e31675, 0xa8bb2919, 0x6905f9e8, 0xe7fffa03, 0x0f59bdc9, 0x765bb0cb, 0x049eb2ca, 0x5f60143d],
      case_kernel = median_kernel 7,
      reg_inputs = [7, 11, 15, 3], reg5_init = 0xe8cceba6,
      memory_keys = [0x000003d6, 0x000007ac, 0x00000f58, 0x00001eb0, 0x00003d60, 0x00007ac0, 0x0000f580, 0x0001eb00],
      case_stmts = [(Rotate_Mix, 1, 5, 2), (Array_Scatter, 4, 3, 3), (Rotate_Mix, 5, 0, 3), (Popcount_Loop, 0, 1, 4),
                    (Byte_Pack, 5, 1, 3), (Compare_Select, 2, 4, 3), (Divide_Rem, 3, 0, 2), (Array_Scatter, 0, 2, 3),
                    (Add_Carry, 0, 2, 2), (Reverse_Loop, 0, 0, 1), (Halfword_Swap, 3, 2, 1), (Minmax_Clamp, 4, 1, 5)]\<rparr>"

definition case_0983 :: "case_program" where
  "case_0983 =
     \<lparr>case_id = 983,
      case_input = [0x58326589, 0x5b7833d0, 0x506bc7c9, 0x1ece1928, 0x5b73a12f, 0x028707e9, 0x87676e0c, 0x654996c3,
                    0x7fffffff, 0xe9549bd6, 0xff830ecf, 0x3fc90972, 0xd75f7e20, 0xefbdaa8d, 0xd924a3f3, 0x7650e543],
      case_kernel = median_kernel 8,
      reg_inputs = [8, 12, 0, 4], reg5_init = 0x8704655f,
      memory_keys = [0x000003d7, 0x000007ae, 0x00000f5c, 0x00001eb8, 0x00003d70, 0x00007ae0, 0x0000f5c0, 0x0001eb80],
      case_stmts = [(Multiply_Low, 0, 0, 3), (Array_Scatter, 5, 5, 0), (Rotate_Mix, 3, 0, 3), (Add_Carry, 3, 3, 3),
                    (Minmax_Clamp, 1, 3, 5), (Halfword_Swap, 0, 0, 2), (Reverse_Loop, 2, 1, 1), (Add_Carry, 5, 3, 3),
                    (Gray_Decode, 3, 3, 1), (Horner_Loop, 3, 4, 5), (Minmax_Clamp, 5, 4, 2), (Popcount_Loop, 3, 1, 0)]\<rparr>"

definition case_0984 :: "case_program" where
  "case_0984 =
     \<lparr>case_id = 984,
      case_input = [0x9fad8645, 0xef7a333a, 0x0c68c335, 0x7488133f, 0xedc428b4, 0x85191ebb, 0x3d2b3139, 0x424b3436,
                    0x7a301e4e, 0x80000000, 0x15b32ef1, 0xa9133373, 0x81412ccf, 0xd76903f0, 0xeffb15a9, 0x366631c5],
      case_kernel = median_kernel 9,
      reg_inputs = [9, 13, 1, 5], reg5_init = 0x253bdf18,
      memory_keys = [0x000003d8, 0x000007b0, 0x00000f60, 0x00001ec0, 0x00003d80, 0x00007b00, 0x0000f600, 0x0001ec00],
      case_stmts = [(Divide_Rem, 2, 4, 2), (Array_Scatter, 2, 0, 4), (Rotate_Mix, 5, 5, 3), (Add_Carry, 3, 5, 4),
                    (Rotate_Mix, 0, 2, 3), (Short_Circuit, 0, 3, 3), (Popcount_Loop, 5, 5, 3), (Horner_Loop, 0, 2, 4),
                    (Popcount_Loop, 2, 5, 0), (Compare_Select, 0, 1, 1), (Array_Scatter, 2, 3, 0),
                    (Multiply_Low, 3, 0, 5)]\<rparr>"

definition case_0985 :: "case_program" where
  "case_0985 =
     \<lparr>case_id = 985,
      case_input = [0xdf2fa604, 0xf37b667d, 0xf9f06133, 0xd4816619, 0xfb91a561, 0x96fa55b8, 0x74d0ae40, 0x90bef2fa,
                    0x9d77159f, 0xfb634419, 0xfffffffe, 0x7125c002, 0x5947ef26, 0x4e8f19b6, 0x32410490, 0x1f56c0bb],
      case_kernel = median_kernel 10,
      reg_inputs = [10, 14, 2, 6], reg5_init = 0xc37358d1,
      memory_keys = [0x000003d9, 0x000007b2, 0x00000f64, 0x00001ec8, 0x00003d90, 0x00007b20, 0x0000f640, 0x0001ec80],
      case_stmts = [(Mask_Merge, 1, 5, 3), (Array_Scatter, 5, 2, 5), (Rotate_Mix, 5, 1, 5), (Array_Scatter, 0, 5, 5),
                    (Sub_Borrow, 4, 0, 1), (Counted_Loop, 2, 5, 0), (Multiply_Low, 0, 0, 2), (Counted_Loop, 3, 5, 0),
                    (Compare_Select, 1, 2, 1), (Switch_Phi, 3, 1, 5), (Array_Scatter, 4, 1, 1),
                    (Counted_Loop, 4, 4, 0)]\<rparr>"

definition case_0986 :: "case_program" where
  "case_0986 =
     \<lparr>case_id = 986,
      case_input = [0x1ea9c6c7, 0xd77a99b5, 0xef5b227d, 0x80910159, 0x0c519fc0, 0x5767243f, 0x84c9daba, 0x9a1df170,
                    0xe863c013, 0x34ec0b4a, 0x8533b95e, 0xffffffff, 0x1e486b71, 0x0ddda4a6, 0x06300759, 0x651bbf8d],
      case_kernel = median_kernel 11,
      reg_inputs = [11, 15, 3, 7], reg5_init = 0x61aad28a,
      memory_keys = [0x000003da, 0x000007b4, 0x00000f68, 0x00001ed0, 0x00003da0, 0x00007b40, 0x0000f680, 0x0001ed00],
      case_stmts = [(Compare_Select, 2, 1, 3), (Array_Scatter, 2, 0, 0), (Rotate_Mix, 5, 4, 2), (Rotate_Mix, 5, 3, 2),
                    (Sub_Borrow, 4, 3, 3), (Short_Circuit, 0, 5, 4), (Multiply_Low, 2, 4, 1), (Horner_Loop, 5, 2, 5),
                    (Endian_Swap, 2, 2, 0), (Mask_Merge, 3, 2, 3), (Gray_Decode, 0, 5, 2), (Counted_Loop, 2, 1, 4)]\<rparr>"

definition case_0987 :: "case_program" where
  "case_0987 =
     \<lparr>case_id = 987,
      case_input = [0x5e2be686, 0xcb7bccf2, 0x1ac3807b, 0x2098747f, 0x00000000, 0x44846f3c, 0xcd3245c3, 0x48e837bc,
                    0x0f24cbc2, 0x7503b985, 0x13b54e79, 0xac293e19, 0x00000000, 0x943bbee0, 0xdb8a1660, 0x4c2b4ef3],
      case_kernel = median_kernel 0,
      reg_inputs = [12, 0, 4, 8], reg5_init = 0xffe24c43,
      memory_keys = [0x000003db, 0x000007b6, 0x00000f6c, 0x00001ed8, 0x00003db0, 0x00007b60, 0x0000f6c0, 0x0001ed80],
      case_stmts = [(Byte_Pack, 5, 0, 4), (Array_Scatter, 5, 2, 3), (Rotate_Mix, 5, 0, 0), (Switch_Phi, 0, 5, 3),
                    (Rotate_Mix, 0, 1, 5), (Carry_Chain, 2, 3, 1), (Sub_Borrow, 1, 5, 0), (Carry_Chain, 2, 3, 5),
                    (Carry_Chain, 5, 5, 3), (Halfword_Swap, 4, 4, 1), (Byte_Pack, 4, 1, 5), (Switch_Phi, 3, 1, 3)]\<rparr>"

definition case_0988 :: "case_program" where
  "case_0988 =
     \<lparr>case_id = 988,
      case_input = [0x9da50740, 0x9f7b6624, 0xca0f01a4, 0x9eba37f2, 0x2ce9465d, 0xb8e5c6f7, 0x73e5b340, 0x3ad1030a,
                    0xb259f3d6, 0x25152fa5, 0x99d7cf6e, 0x00000080, 0xd0169b30, 0x00000001, 0x66b3f9ec, 0x5ff538f9],
      case_kernel = median_kernel 1,
      reg_inputs = [13, 1, 5, 9], reg5_init = 0x9e19c5fc,
      memory_keys = [0x000003dc, 0x000007b8, 0x00000f70, 0x00001ee0, 0x00003dc0, 0x00007b80, 0x0000f700, 0x0001ee00],
      case_stmts = [(Halfword_Swap, 5, 5, 2), (Array_Scatter, 3, 5, 5), (Rotate_Mix, 1, 0, 0), (Endian_Swap, 4, 5, 4),
                    (Minmax_Clamp, 3, 3, 2), (Mask_Merge, 5, 3, 5), (Divide_Rem, 2, 5, 5), (Reverse_Loop, 5, 2, 3),
                    (Popcount_Loop, 0, 4, 2), (Horner_Loop, 2, 3, 5), (Mask_Merge, 5, 5, 3), (Multiply_Low, 3, 0, 0)]\<rparr>"

definition case_0989 :: "case_program" where
  "case_0989 =
     \<lparr>case_id = 989,
      case_input = [0xdd272701, 0x837a3363, 0xfffffffe, 0x3eb342d4, 0x3abccb88, 0xab068df4, 0x3a1e2c39, 0xe824c5c6,
                    0x551ef807, 0x64fa9d6a, 0x0f513849, 0x75bce632, 0x081058d9, 0xa77fa4c9, 0x00000002, 0x76c5c987],
      case_kernel = median_kernel 2,
      reg_inputs = [14, 2, 6, 10], reg5_init = 0x3c513fb5,
      memory_keys = [0x000003dd, 0x000007ba, 0x00000f74, 0x00001ee8, 0x00003dd0, 0x00007ba0, 0x0000f740, 0x0001ee80],
      case_stmts = [(Array_Scatter, 4, 0, 1), (Array_Scatter, 4, 1, 0), (Rotate_Mix, 5, 0, 4), (Divide_Rem, 3, 1, 1),
                    (Gray_Decode, 1, 5, 0), (Gray_Decode, 5, 3, 4), (Reverse_Loop, 5, 4, 0), (Byte_Pack, 4, 5, 3),
                    (Counted_Loop, 3, 1, 3), (Compare_Select, 3, 5, 1), (Array_Scatter, 3, 1, 4),
                    (Counted_Loop, 4, 2, 5)]\<rparr>"

definition case_0990 :: "case_program" where
  "case_0990 =
     \<lparr>case_id = 990,
      case_input = [0x1ca147c2, 0xa77bccab, 0x293ce0ec, 0x6aa32594, 0xcd7cf129, 0x6a9bfc73, 0xca0758c3, 0xe287c64c,
                    0x200a2d8b, 0x00000003, 0x095758c1, 0x7086eb58, 0x4f1fdc8e, 0xe42d19d9, 0x8f78eb1c, 0x00000003],
      case_kernel = median_kernel 3,
      reg_inputs = [15, 3, 7, 11], reg5_init = 0xda88b96e,
      memory_keys = [0x000003de, 0x000007bc, 0x00000f78, 0x00001ef0, 0x00003de0, 0x00007bc0, 0x0000f780, 0x0001ef00],
      case_stmts = [(Counted_Loop, 3, 0, 1), (Array_Scatter, 1, 3, 3), (Rotate_Mix, 3, 3, 5), (Horner_Loop, 4, 5, 2),
                    (Byte_Pack, 5, 0, 2), (Popcount_Loop, 1, 1, 2), (Counted_Loop, 5, 4, 3), (Carry_Chain, 0, 2, 2),
                    (Array_Scatter, 0, 1, 2), (Halfword_Swap, 5, 0, 1), (Horner_Loop, 1, 1, 5),
                    (Counted_Loop, 4, 5, 1)]\<rparr>"

definition case_0991 :: "case_program" where
  "case_0991 =
     \<lparr>case_id = 991,
      case_input = [0x7fffffff, 0xbb7a99ec, 0xdca442ea, 0xcaaa50b2, 0xdb297cfc, 0x7978b770, 0x83fcc7ba, 0x30720080,
                    0xc74d265a, 0xea9a60f6, 0x9fd1afe6, 0xa8b01829, 0x97191f67, 0x7dcb039f, 0x52c2fa25, 0x25b847cf],
      case_kernel = median_kernel 4,
      reg_inputs = [0, 4, 8, 12], reg5_init = 0x78c03327,
      memory_keys = [0x000003df, 0x000007be, 0x00000f7c, 0x00001ef8, 0x00003df0, 0x00007be0, 0x0000f7c0, 0x0001ef80],
      case_stmts = [(Switch_Phi, 4, 1, 2), (Array_Scatter, 0, 1, 2), (Rotate_Mix, 3, 3, 5), (Compare_Select, 3, 5, 1),
                    (Halfword_Swap, 5, 0, 0), (Switch_Phi, 5, 1, 5), (Short_Circuit, 4, 1, 4), (Horner_Loop, 5, 3, 0),
                    (Rotate_Mix, 5, 2, 1), (Popcount_Loop, 0, 0, 1), (Horner_Loop, 1, 5, 4), (Byte_Pack, 3, 3, 0)]\<rparr>"

definition case_0992 :: "case_program" where
  "case_0992 =
     \<lparr>case_id = 992,
      case_input = [0x83da8873, 0x00000080, 0xae0658dd, 0x5dbbeffa, 0x5241c642, 0x22f0fae5, 0xedbd52af, 0x00000001,
                    0xb5bd558d, 0x513a229a, 0x96a23d12, 0x138ebe9c, 0x1e421f99, 0x82f9ddd5, 0x243855f9, 0xfa8080f4],
      case_kernel = median_kernel 5,
      reg_inputs = [1, 5, 9, 13], reg5_init = 0x16f7ace0,
      memory_keys = [0x000003e0, 0x000007c0, 0x00000f80, 0x00001f00, 0x00003e00, 0x00007c00, 0x0000f800, 0x0001f000],
      case_stmts = [(Short_Circuit, 0, 5, 1), (Array_Scatter, 0, 3, 4), (Rotate_Mix, 4, 0, 5), (Reverse_Loop, 4, 1, 1),
                    (Horner_Loop, 3, 0, 2), (Divide_Rem, 3, 1, 3), (Short_Circuit, 0, 5, 2), (Array_Scatter, 5, 1, 1),
                    (Byte_Pack, 2, 2, 0), (Divide_Rem, 3, 0, 4), (Counted_Loop, 3, 2, 5), (Short_Circuit, 3, 5, 4)]\<rparr>"

definition case_0993 :: "case_program" where
  "case_0993 =
     \<lparr>case_id = 993,
      case_input = [0xc358a832, 0x537630c8, 0x000000ff, 0xfdb29adc, 0x44144b97, 0x3113b1e6, 0xa446cdd6, 0x61021e4d,
                    0x52fa5e5c, 0x10d59055, 0x0024ca35, 0xcbb84ded, 0xc644dc70, 0x1b1fc793, 0x000000ff, 0xd3b0718a],
      case_kernel = median_kernel 6,
      reg_inputs = [2, 6, 10, 14], reg5_init = 0xb52f2699,
      memory_keys = [0x000003e1, 0x000007c2, 0x00000f84, 0x00001f08, 0x00003e10, 0x00007c20, 0x0000f840, 0x0001f080],
      case_stmts = [(Popcount_Loop, 1, 4, 0), (Array_Scatter, 1, 1, 1), (Rotate_Mix, 4, 0, 1), (Byte_Pack, 5, 1, 2),
                    (Short_Circuit, 1, 2, 2), (Reverse_Loop, 3, 3, 0), (Reverse_Loop, 1, 2, 1),
                    (Halfword_Swap, 2, 4, 3), (Divide_Rem, 5, 1, 3), (Array_Scatter, 4, 0, 4), (Rotate_Mix, 1, 0, 2),
                    (Mask_Merge, 4, 3, 5)]\<rparr>"

definition case_0994 :: "case_program" where
  "case_0994 =
     \<lparr>case_id = 994,
      case_input = [0x02dec8f1, 0x7777cf00, 0x4d35b995, 0x00000100, 0xb3d47136, 0xffffffff, 0x545fb92c, 0x6ba11dc7,
                    0x27ee8bd0, 0xdf5adf06, 0x0622aabd, 0xce824087, 0x814b5827, 0x584d7a83, 0xcdf34709, 0xa9fd0ebc],
      case_kernel = median_kernel 7,
      reg_inputs = [3, 7, 11, 15], reg5_init = 0x5366a052,
      memory_keys = [0x000003e2, 0x000007c4, 0x00000f88, 0x00001f10, 0x00003e20, 0x00007c40, 0x0000f880, 0x0001f100],
      case_stmts = [(Reverse_Loop, 2, 0, 4), (Array_Scatter, 4, 1, 0), (Rotate_Mix, 2, 1, 2), (Divide_Rem, 0, 5, 3),
                    (Add_Carry, 5, 3, 4), (Add_Carry, 3, 3, 0), (Counted_Loop, 1, 4, 0), (Array_Scatter, 2, 1, 4),
                    (Multiply_Low, 0, 5, 2), (Multiply_Low, 2, 1, 4), (Add_Carry, 5, 0, 1), (Endian_Swap, 0, 0, 5)]\<rparr>"

definition case_0995 :: "case_program" where
  "case_0995 =
     \<lparr>case_id = 995,
      case_input = [0x425ce8b0, 0x6b769a47, 0xb8ad1b93, 0x09ab88ba, 0x7fffffff, 0xe36d8b62, 0x1da42655, 0xb954db0b,
                    0xc0a98001, 0x9eb56dc9, 0x90a45d9a, 0x16b4b3f6, 0x0000007f, 0xc1ab60c5, 0x10495630, 0x80cdffc2],
      case_kernel = median_kernel 8,
      reg_inputs = [4, 8, 12, 0], reg5_init = 0xf19e1a0b,
      memory_keys = [0x000003e3, 0x000007c6, 0x00000f8c, 0x00001f18, 0x00003e30, 0x00007c60, 0x0000f8c0, 0x0001f180],
      case_stmts = [(Gray_Decode, 3, 3, 3), (Array_Scatter, 3, 1, 1), (Rotate_Mix, 2, 1, 0), (Endian_Swap, 1, 3, 0),
                    (Multiply_Low, 5, 5, 4), (Counted_Loop, 5, 3, 5), (Divide_Rem, 0, 1, 3), (Add_Carry, 5, 4, 2),
                    (Short_Circuit, 3, 0, 3), (Rotate_Mix, 5, 5, 4), (Halfword_Swap, 3, 4, 0), (Divide_Rem, 3, 0, 4)]\<rparr>"

definition case_0996 :: "case_program" where
  "case_0996 =
     \<lparr>case_id = 996,
      case_input = [0x81d20976, 0x3f763091, 0x68619a4c, 0x80000000, 0x936ca8ab, 0x80000000, 0xa373d0d6, 0xcb6defbd,
                    0x7dd4b815, 0xcea3fbe9, 0x1ac6dc8d, 0x171798ac, 0x4f15a866, 0x6b0960aa, 0xad70b9bc, 0x931389c8],
      case_kernel = median_kernel 9,
      reg_inputs = [5, 9, 13, 1], reg5_init = 0x8fd593c4,
      memory_keys = [0x000003e4, 0x000007c8, 0x00000f90, 0x00001f20, 0x00003e40, 0x00007c80, 0x0000f900, 0x0001f200],
      case_stmts = [(Minmax_Clamp, 3, 4, 1), (Array_Scatter, 5, 0, 1), (Rotate_Mix, 4, 3, 4), (Multiply_Low, 1, 5, 5),
                    (Endian_Swap, 4, 5, 3), (Mask_Merge, 2, 5, 1), (Sub_Borrow, 1, 3, 0), (Halfword_Swap, 0, 3, 2),
                    (Byte_Pack, 2, 1, 2), (Array_Scatter, 5, 2, 0), (Counted_Loop, 0, 2, 2), (Add_Carry, 3, 5, 3)]\<rparr>"

definition case_0997 :: "case_program" where
  "case_0997 =
     \<lparr>case_id = 997,
      case_input = [0xc1502937, 0x237765d6, 0x9df9384a, 0x1780be11, 0x8539257e, 0x0cef69aa, 0xfffffffe, 0x19982971,
                    0x9a93b3c4, 0x8f4c4926, 0x00000002, 0xcf216bdd, 0x97136b8f, 0xf2ef7aec, 0x70caa885, 0xba2378b6],
      case_kernel = median_kernel 10,
      reg_inputs = [6, 10, 14, 2], reg5_init = 0x2e0d0d7d,
      memory_keys = [0x000003e5, 0x000007ca, 0x00000f94, 0x00001f28, 0x00003e50, 0x00007ca0, 0x0000f940, 0x0001f280],
      case_stmts = [(Endian_Swap, 2, 3, 0), (Array_Scatter, 4, 0, 2), (Rotate_Mix, 4, 1, 4), (Reverse_Loop, 0, 1, 0),
                    (Carry_Chain, 0, 5, 5), (Multiply_Low, 4, 5, 2), (Switch_Phi, 0, 4, 3), (Array_Scatter, 5, 0, 2),
                    (Divide_Rem, 1, 4, 3), (Halfword_Swap, 0, 4, 4), (Rotate_Mix, 4, 0, 3), (Popcount_Loop, 0, 3, 0)]\<rparr>"

definition case_0998 :: "case_program" where
  "case_0998 =
     \<lparr>case_id = 998,
      case_input = [0x00d649f4, 0x00000100, 0x8b527b04, 0x4390d951, 0x72f91fdf, 0xcd72182d, 0x1a913b55, 0xffffffff,
                    0xef876648, 0x40c30675, 0x8a464b22, 0xca1b66b7, 0xd01cefd8, 0xb1bdc7fc, 0x44bbab4c, 0xc06e0780],
      case_kernel = median_kernel 11,
      reg_inputs = [7, 11, 15, 3], reg5_init = 0xcc448736,
      memory_keys = [0x000003e6, 0x000007cc, 0x00000f98, 0x00001f30, 0x00003e60, 0x00007cc0, 0x0000f980, 0x0001f300],
      case_stmts = [(Carry_Chain, 5, 1, 0), (Array_Scatter, 5, 0, 3), (Rotate_Mix, 2, 4, 5), (Popcount_Loop, 5, 5, 5),
                    (Rotate_Mix, 0, 4, 1), (Endian_Swap, 4, 1, 0), (Byte_Pack, 2, 0, 2), (Halfword_Swap, 5, 5, 1),
                    (Horner_Loop, 4, 0, 4), (Counted_Loop, 4, 1, 2), (Short_Circuit, 0, 0, 2), (Mask_Merge, 0, 0, 4)]\<rparr>"

definition case_0999 :: "case_program" where
  "case_0999 =
     \<lparr>case_id = 999,
      case_input = [0x405469b5, 0x1b77cf59, 0x7ecad902, 0xe399ac77, 0x64ac920a, 0xde91532e, 0x536aa42c, 0xc1ceec37,
                    0x00000000, 0x012cb4ba, 0x1cc0bc05, 0x122d95c6, 0x081a2c31, 0x285bddba, 0x9901ba75, 0xe95ef6fe],
      case_kernel = median_kernel 0,
      reg_inputs = [8, 12, 0, 4], reg5_init = 0x6a7c00ef,
      memory_keys = [0x000003e7, 0x000007ce, 0x00000f9c, 0x00001f38, 0x00003e70, 0x00007ce0, 0x0000f9c0, 0x0001f380],
      case_stmts = [(Horner_Loop, 0, 0, 1), (Array_Scatter, 0, 0, 2), (Rotate_Mix, 4, 2, 1), (Divide_Rem, 0, 1, 2),
                    (Mask_Merge, 4, 0, 1), (Byte_Pack, 2, 1, 1), (Array_Scatter, 5, 5, 5), (Sub_Borrow, 0, 0, 3),
                    (Short_Circuit, 3, 1, 1), (Horner_Loop, 5, 1, 4), (Minmax_Clamp, 0, 0, 3), (Minmax_Clamp, 1, 2, 1)]\<rparr>"

lemma conforms_0900: "conforms case_0900 (division_prediction)"
  by (rule conformsI) (simp_all add: case_0900_def upt_rec stmt_ok_def division_predicted)

lemma conforms_0901: "conforms case_0901 (division_prediction)"
  by (rule conformsI) (simp_all add: case_0901_def upt_rec stmt_ok_def division_predicted)

lemma conforms_0902: "conforms case_0902 (division_prediction)"
  by (rule conformsI) (simp_all add: case_0902_def upt_rec stmt_ok_def division_predicted)

lemma conforms_0903: "conforms case_0903 (division_prediction)"
  by (rule conformsI) (simp_all add: case_0903_def upt_rec stmt_ok_def division_predicted)

lemma conforms_0904: "conforms case_0904 (division_prediction)"
  by (rule conformsI) (simp_all add: case_0904_def upt_rec stmt_ok_def division_predicted)

lemma conforms_0905: "conforms case_0905 (division_prediction)"
  by (rule conformsI) (simp_all add: case_0905_def upt_rec stmt_ok_def division_predicted)

lemma conforms_0906: "conforms case_0906 (division_prediction)"
  by (rule conformsI) (simp_all add: case_0906_def upt_rec stmt_ok_def division_predicted)

lemma conforms_0907: "conforms case_0907 (division_prediction)"
  by (rule conformsI) (simp_all add: case_0907_def upt_rec stmt_ok_def division_predicted)

lemma conforms_0908: "conforms case_0908 (division_prediction)"
  by (rule conformsI) (simp_all add: case_0908_def upt_rec stmt_ok_def division_predicted)

lemma conforms_0909: "conforms case_0909 (division_prediction)"
  by (rule conformsI) (simp_all add: case_0909_def upt_rec stmt_ok_def division_predicted)

lemma conforms_0910: "conforms case_0910 (division_prediction)"
  by (rule conformsI) (simp_all add: case_0910_def upt_rec stmt_ok_def division_predicted)

lemma conforms_0911: "conforms case_0911 (division_prediction)"
  by (rule conformsI) (simp_all add: case_0911_def upt_rec stmt_ok_def division_predicted)

lemma conforms_0912: "conforms case_0912 (division_prediction)"
  by (rule conformsI) (simp_all add: case_0912_def upt_rec stmt_ok_def division_predicted)

lemma conforms_0913: "conforms case_0913 (division_prediction)"
  by (rule conformsI) (simp_all add: case_0913_def upt_rec stmt_ok_def division_predicted)

lemma conforms_0914: "conforms case_0914 (division_prediction)"
  by (rule conformsI) (simp_all add: case_0914_def upt_rec stmt_ok_def division_predicted)

lemma conforms_0915: "conforms case_0915 (division_prediction)"
  by (rule conformsI) (simp_all add: case_0915_def upt_rec stmt_ok_def division_predicted)

lemma conforms_0916: "conforms case_0916 (division_prediction)"
  by (rule conformsI) (simp_all add: case_0916_def upt_rec stmt_ok_def division_predicted)

lemma conforms_0917: "conforms case_0917 (division_prediction)"
  by (rule conformsI) (simp_all add: case_0917_def upt_rec stmt_ok_def division_predicted)

lemma conforms_0918: "conforms case_0918 (division_prediction)"
  by (rule conformsI) (simp_all add: case_0918_def upt_rec stmt_ok_def division_predicted)

lemma conforms_0919: "conforms case_0919 (division_prediction)"
  by (rule conformsI) (simp_all add: case_0919_def upt_rec stmt_ok_def division_predicted)

lemma conforms_0920: "conforms case_0920 (division_prediction)"
  by (rule conformsI) (simp_all add: case_0920_def upt_rec stmt_ok_def division_predicted)

lemma conforms_0921: "conforms case_0921 (division_prediction)"
  by (rule conformsI) (simp_all add: case_0921_def upt_rec stmt_ok_def division_predicted)

lemma conforms_0922: "conforms case_0922 (division_prediction)"
  by (rule conformsI) (simp_all add: case_0922_def upt_rec stmt_ok_def division_predicted)

lemma conforms_0923: "conforms case_0923 (division_prediction)"
  by (rule conformsI) (simp_all add: case_0923_def upt_rec stmt_ok_def division_predicted)

lemma conforms_0924: "conforms case_0924 (division_prediction)"
  by (rule conformsI) (simp_all add: case_0924_def upt_rec stmt_ok_def division_predicted)

lemma conforms_0925: "conforms case_0925 (multiply_prediction)"
  by (rule conformsI) (simp_all add: case_0925_def upt_rec stmt_ok_def multiply_predicted)

lemma conforms_0926: "conforms case_0926 (multiply_prediction)"
  by (rule conformsI) (simp_all add: case_0926_def upt_rec stmt_ok_def multiply_predicted)

lemma conforms_0927: "conforms case_0927 (multiply_prediction)"
  by (rule conformsI) (simp_all add: case_0927_def upt_rec stmt_ok_def multiply_predicted)

lemma conforms_0928: "conforms case_0928 (multiply_prediction)"
  by (rule conformsI) (simp_all add: case_0928_def upt_rec stmt_ok_def multiply_predicted)

lemma conforms_0929: "conforms case_0929 (multiply_prediction)"
  by (rule conformsI) (simp_all add: case_0929_def upt_rec stmt_ok_def multiply_predicted)

lemma conforms_0930: "conforms case_0930 (multiply_prediction)"
  by (rule conformsI) (simp_all add: case_0930_def upt_rec stmt_ok_def multiply_predicted)

lemma conforms_0931: "conforms case_0931 (multiply_prediction)"
  by (rule conformsI) (simp_all add: case_0931_def upt_rec stmt_ok_def multiply_predicted)

lemma conforms_0932: "conforms case_0932 (multiply_prediction)"
  by (rule conformsI) (simp_all add: case_0932_def upt_rec stmt_ok_def multiply_predicted)

lemma conforms_0933: "conforms case_0933 (multiply_prediction)"
  by (rule conformsI) (simp_all add: case_0933_def upt_rec stmt_ok_def multiply_predicted)

lemma conforms_0934: "conforms case_0934 (multiply_prediction)"
  by (rule conformsI) (simp_all add: case_0934_def upt_rec stmt_ok_def multiply_predicted)

lemma conforms_0935: "conforms case_0935 (multiply_prediction)"
  by (rule conformsI) (simp_all add: case_0935_def upt_rec stmt_ok_def multiply_predicted)

lemma conforms_0936: "conforms case_0936 (multiply_prediction)"
  by (rule conformsI) (simp_all add: case_0936_def upt_rec stmt_ok_def multiply_predicted)

lemma conforms_0937: "conforms case_0937 (multiply_prediction)"
  by (rule conformsI) (simp_all add: case_0937_def upt_rec stmt_ok_def multiply_predicted)

lemma conforms_0938: "conforms case_0938 (multiply_prediction)"
  by (rule conformsI) (simp_all add: case_0938_def upt_rec stmt_ok_def multiply_predicted)

lemma conforms_0939: "conforms case_0939 (multiply_prediction)"
  by (rule conformsI) (simp_all add: case_0939_def upt_rec stmt_ok_def multiply_predicted)

lemma conforms_0940: "conforms case_0940 (multiply_prediction)"
  by (rule conformsI) (simp_all add: case_0940_def upt_rec stmt_ok_def multiply_predicted)

lemma conforms_0941: "conforms case_0941 (multiply_prediction)"
  by (rule conformsI) (simp_all add: case_0941_def upt_rec stmt_ok_def multiply_predicted)

lemma conforms_0942: "conforms case_0942 (multiply_prediction)"
  by (rule conformsI) (simp_all add: case_0942_def upt_rec stmt_ok_def multiply_predicted)

lemma conforms_0943: "conforms case_0943 (multiply_prediction)"
  by (rule conformsI) (simp_all add: case_0943_def upt_rec stmt_ok_def multiply_predicted)

lemma conforms_0944: "conforms case_0944 (multiply_prediction)"
  by (rule conformsI) (simp_all add: case_0944_def upt_rec stmt_ok_def multiply_predicted)

lemma conforms_0945: "conforms case_0945 (multiply_prediction)"
  by (rule conformsI) (simp_all add: case_0945_def upt_rec stmt_ok_def multiply_predicted)

lemma conforms_0946: "conforms case_0946 (multiply_prediction)"
  by (rule conformsI) (simp_all add: case_0946_def upt_rec stmt_ok_def multiply_predicted)

lemma conforms_0947: "conforms case_0947 (multiply_prediction)"
  by (rule conformsI) (simp_all add: case_0947_def upt_rec stmt_ok_def multiply_predicted)

lemma conforms_0948: "conforms case_0948 (multiply_prediction)"
  by (rule conformsI) (simp_all add: case_0948_def upt_rec stmt_ok_def multiply_predicted)

lemma conforms_0949: "conforms case_0949 (multiply_prediction)"
  by (rule conformsI) (simp_all add: case_0949_def upt_rec stmt_ok_def multiply_predicted)

lemma conforms_0950: "conforms case_0950 (fir_prediction 4)"
  by (rule conformsI) (simp_all add: case_0950_def upt_rec stmt_ok_def fir_predicted)

lemma conforms_0951: "conforms case_0951 (fir_prediction 5)"
  by (rule conformsI) (simp_all add: case_0951_def upt_rec stmt_ok_def fir_predicted)

lemma conforms_0952: "conforms case_0952 (fir_prediction 6)"
  by (rule conformsI) (simp_all add: case_0952_def upt_rec stmt_ok_def fir_predicted)

lemma conforms_0953: "conforms case_0953 (fir_prediction 7)"
  by (rule conformsI) (simp_all add: case_0953_def upt_rec stmt_ok_def fir_predicted)

lemma conforms_0954: "conforms case_0954 (fir_prediction 8)"
  by (rule conformsI) (simp_all add: case_0954_def upt_rec stmt_ok_def fir_predicted)

lemma conforms_0955: "conforms case_0955 (fir_prediction 9)"
  by (rule conformsI) (simp_all add: case_0955_def upt_rec stmt_ok_def fir_predicted)

lemma conforms_0956: "conforms case_0956 (fir_prediction 10)"
  by (rule conformsI) (simp_all add: case_0956_def upt_rec stmt_ok_def fir_predicted)

lemma conforms_0957: "conforms case_0957 (fir_prediction 11)"
  by (rule conformsI) (simp_all add: case_0957_def upt_rec stmt_ok_def fir_predicted)

lemma conforms_0958: "conforms case_0958 (fir_prediction 12)"
  by (rule conformsI) (simp_all add: case_0958_def upt_rec stmt_ok_def fir_predicted)

lemma conforms_0959: "conforms case_0959 (fir_prediction 13)"
  by (rule conformsI) (simp_all add: case_0959_def upt_rec stmt_ok_def fir_predicted)

lemma conforms_0960: "conforms case_0960 (fir_prediction 14)"
  by (rule conformsI) (simp_all add: case_0960_def upt_rec stmt_ok_def fir_predicted)

lemma conforms_0961: "conforms case_0961 (fir_prediction 15)"
  by (rule conformsI) (simp_all add: case_0961_def upt_rec stmt_ok_def fir_predicted)

lemma conforms_0962: "conforms case_0962 (fir_prediction 4)"
  by (rule conformsI) (simp_all add: case_0962_def upt_rec stmt_ok_def fir_predicted)

lemma conforms_0963: "conforms case_0963 (fir_prediction 5)"
  by (rule conformsI) (simp_all add: case_0963_def upt_rec stmt_ok_def fir_predicted)

lemma conforms_0964: "conforms case_0964 (fir_prediction 6)"
  by (rule conformsI) (simp_all add: case_0964_def upt_rec stmt_ok_def fir_predicted)

lemma conforms_0965: "conforms case_0965 (fir_prediction 7)"
  by (rule conformsI) (simp_all add: case_0965_def upt_rec stmt_ok_def fir_predicted)

lemma conforms_0966: "conforms case_0966 (fir_prediction 8)"
  by (rule conformsI) (simp_all add: case_0966_def upt_rec stmt_ok_def fir_predicted)

lemma conforms_0967: "conforms case_0967 (fir_prediction 9)"
  by (rule conformsI) (simp_all add: case_0967_def upt_rec stmt_ok_def fir_predicted)

lemma conforms_0968: "conforms case_0968 (fir_prediction 10)"
  by (rule conformsI) (simp_all add: case_0968_def upt_rec stmt_ok_def fir_predicted)

lemma conforms_0969: "conforms case_0969 (fir_prediction 11)"
  by (rule conformsI) (simp_all add: case_0969_def upt_rec stmt_ok_def fir_predicted)

lemma conforms_0970: "conforms case_0970 (fir_prediction 12)"
  by (rule conformsI) (simp_all add: case_0970_def upt_rec stmt_ok_def fir_predicted)

lemma conforms_0971: "conforms case_0971 (fir_prediction 13)"
  by (rule conformsI) (simp_all add: case_0971_def upt_rec stmt_ok_def fir_predicted)

lemma conforms_0972: "conforms case_0972 (fir_prediction 14)"
  by (rule conformsI) (simp_all add: case_0972_def upt_rec stmt_ok_def fir_predicted)

lemma conforms_0973: "conforms case_0973 (fir_prediction 15)"
  by (rule conformsI) (simp_all add: case_0973_def upt_rec stmt_ok_def fir_predicted)

lemma conforms_0974: "conforms case_0974 (fir_prediction 4)"
  by (rule conformsI) (simp_all add: case_0974_def upt_rec stmt_ok_def fir_predicted)

lemma conforms_0975: "conforms case_0975 (median_prediction 0)"
  by (rule conformsI) (simp_all add: case_0975_def upt_rec stmt_ok_def median_predicted)

lemma conforms_0976: "conforms case_0976 (median_prediction 1)"
  by (rule conformsI) (simp_all add: case_0976_def upt_rec stmt_ok_def median_predicted)

lemma conforms_0977: "conforms case_0977 (median_prediction 2)"
  by (rule conformsI) (simp_all add: case_0977_def upt_rec stmt_ok_def median_predicted)

lemma conforms_0978: "conforms case_0978 (median_prediction 3)"
  by (rule conformsI) (simp_all add: case_0978_def upt_rec stmt_ok_def median_predicted)

lemma conforms_0979: "conforms case_0979 (median_prediction 4)"
  by (rule conformsI) (simp_all add: case_0979_def upt_rec stmt_ok_def median_predicted)

lemma conforms_0980: "conforms case_0980 (median_prediction 5)"
  by (rule conformsI) (simp_all add: case_0980_def upt_rec stmt_ok_def median_predicted)

lemma conforms_0981: "conforms case_0981 (median_prediction 6)"
  by (rule conformsI) (simp_all add: case_0981_def upt_rec stmt_ok_def median_predicted)

lemma conforms_0982: "conforms case_0982 (median_prediction 7)"
  by (rule conformsI) (simp_all add: case_0982_def upt_rec stmt_ok_def median_predicted)

lemma conforms_0983: "conforms case_0983 (median_prediction 8)"
  by (rule conformsI) (simp_all add: case_0983_def upt_rec stmt_ok_def median_predicted)

lemma conforms_0984: "conforms case_0984 (median_prediction 9)"
  by (rule conformsI) (simp_all add: case_0984_def upt_rec stmt_ok_def median_predicted)

lemma conforms_0985: "conforms case_0985 (median_prediction 10)"
  by (rule conformsI) (simp_all add: case_0985_def upt_rec stmt_ok_def median_predicted)

lemma conforms_0986: "conforms case_0986 (median_prediction 11)"
  by (rule conformsI) (simp_all add: case_0986_def upt_rec stmt_ok_def median_predicted)

lemma conforms_0987: "conforms case_0987 (median_prediction 0)"
  by (rule conformsI) (simp_all add: case_0987_def upt_rec stmt_ok_def median_predicted)

lemma conforms_0988: "conforms case_0988 (median_prediction 1)"
  by (rule conformsI) (simp_all add: case_0988_def upt_rec stmt_ok_def median_predicted)

lemma conforms_0989: "conforms case_0989 (median_prediction 2)"
  by (rule conformsI) (simp_all add: case_0989_def upt_rec stmt_ok_def median_predicted)

lemma conforms_0990: "conforms case_0990 (median_prediction 3)"
  by (rule conformsI) (simp_all add: case_0990_def upt_rec stmt_ok_def median_predicted)

lemma conforms_0991: "conforms case_0991 (median_prediction 4)"
  by (rule conformsI) (simp_all add: case_0991_def upt_rec stmt_ok_def median_predicted)

lemma conforms_0992: "conforms case_0992 (median_prediction 5)"
  by (rule conformsI) (simp_all add: case_0992_def upt_rec stmt_ok_def median_predicted)

lemma conforms_0993: "conforms case_0993 (median_prediction 6)"
  by (rule conformsI) (simp_all add: case_0993_def upt_rec stmt_ok_def median_predicted)

lemma conforms_0994: "conforms case_0994 (median_prediction 7)"
  by (rule conformsI) (simp_all add: case_0994_def upt_rec stmt_ok_def median_predicted)

lemma conforms_0995: "conforms case_0995 (median_prediction 8)"
  by (rule conformsI) (simp_all add: case_0995_def upt_rec stmt_ok_def median_predicted)

lemma conforms_0996: "conforms case_0996 (median_prediction 9)"
  by (rule conformsI) (simp_all add: case_0996_def upt_rec stmt_ok_def median_predicted)

lemma conforms_0997: "conforms case_0997 (median_prediction 10)"
  by (rule conformsI) (simp_all add: case_0997_def upt_rec stmt_ok_def median_predicted)

lemma conforms_0998: "conforms case_0998 (median_prediction 11)"
  by (rule conformsI) (simp_all add: case_0998_def upt_rec stmt_ok_def median_predicted)

lemma conforms_0999: "conforms case_0999 (median_prediction 0)"
  by (rule conformsI) (simp_all add: case_0999_def upt_rec stmt_ok_def median_predicted)

definition corpus_9 :: "(nat \<Rightarrow> u32) \<Rightarrow> (case_program \<times> (u32 list \<Rightarrow> u32)) list" where
  "corpus_9 junk =
    [(case_0900, division_prediction),
     (case_0901, division_prediction),
     (case_0902, division_prediction),
     (case_0903, division_prediction),
     (case_0904, division_prediction),
     (case_0905, division_prediction),
     (case_0906, division_prediction),
     (case_0907, division_prediction),
     (case_0908, division_prediction),
     (case_0909, division_prediction),
     (case_0910, division_prediction),
     (case_0911, division_prediction),
     (case_0912, division_prediction),
     (case_0913, division_prediction),
     (case_0914, division_prediction),
     (case_0915, division_prediction),
     (case_0916, division_prediction),
     (case_0917, division_prediction),
     (case_0918, division_prediction),
     (case_0919, division_prediction),
     (case_0920, division_prediction),
     (case_0921, division_prediction),
     (case_0922, division_prediction),
     (case_0923, division_prediction),
     (case_0924, division_prediction),
     (case_0925, multiply_prediction),
     (case_0926, multiply_prediction),
     (case_0927, multiply_prediction),
     (case_0928, multiply_prediction),
     (case_0929, multiply_prediction),
     (case_0930, multiply_prediction),
     (case_0931, multiply_prediction),
     (case_0932, multiply_prediction),
     (case_0933, multiply_prediction),
     (case_0934, multiply_prediction),
     (case_0935, multiply_prediction),
     (case_0936, multiply_prediction),
     (case_0937, multiply_prediction),
     (case_0938, multiply_prediction),
     (case_0939, multiply_prediction),
     (case_0940, multiply_prediction),
     (case_0941, multiply_prediction),
     (case_0942, multiply_prediction),
     (case_0943, multiply_prediction),
     (case_0944, multiply_prediction),
     (case_0945, multiply_prediction),
     (case_0946, multiply_prediction),
     (case_0947, multiply_prediction),
     (case_0948, multiply_prediction),
     (case_0949, multiply_prediction),
     (case_0950, fir_prediction 4),
     (case_0951, fir_prediction 5),
     (case_0952, fir_prediction 6),
     (case_0953, fir_prediction 7),
     (case_0954, fir_prediction 8),
     (case_0955, fir_prediction 9),
     (case_0956, fir_prediction 10),
     (case_0957, fir_prediction 11),
     (case_0958, fir_prediction 12),
     (case_0959, fir_prediction 13),
     (case_0960, fir_prediction 14),
     (case_0961, fir_prediction 15),
     (case_0962, fir_prediction 4),
     (case_0963, fir_prediction 5),
     (case_0964, fir_prediction 6),
     (case_0965, fir_prediction 7),
     (case_0966, fir_prediction 8),
     (case_0967, fir_prediction 9),
     (case_0968, fir_prediction 10),
     (case_0969, fir_prediction 11),
     (case_0970, fir_prediction 12),
     (case_0971, fir_prediction 13),
     (case_0972, fir_prediction 14),
     (case_0973, fir_prediction 15),
     (case_0974, fir_prediction 4),
     (case_0975, median_prediction 0),
     (case_0976, median_prediction 1),
     (case_0977, median_prediction 2),
     (case_0978, median_prediction 3),
     (case_0979, median_prediction 4),
     (case_0980, median_prediction 5),
     (case_0981, median_prediction 6),
     (case_0982, median_prediction 7),
     (case_0983, median_prediction 8),
     (case_0984, median_prediction 9),
     (case_0985, median_prediction 10),
     (case_0986, median_prediction 11),
     (case_0987, median_prediction 0),
     (case_0988, median_prediction 1),
     (case_0989, median_prediction 2),
     (case_0990, median_prediction 3),
     (case_0991, median_prediction 4),
     (case_0992, median_prediction 5),
     (case_0993, median_prediction 6),
     (case_0994, median_prediction 7),
     (case_0995, median_prediction 8),
     (case_0996, median_prediction 9),
     (case_0997, median_prediction 10),
     (case_0998, median_prediction 11),
     (case_0999, median_prediction 0)]"

lemmas corpus_9_programs =
  conforms_0900 conforms_0901 conforms_0902 conforms_0903 conforms_0904 conforms_0905 conforms_0906 conforms_0907
  conforms_0908 conforms_0909 conforms_0910 conforms_0911 conforms_0912 conforms_0913 conforms_0914 conforms_0915
  conforms_0916 conforms_0917 conforms_0918 conforms_0919 conforms_0920 conforms_0921 conforms_0922 conforms_0923
  conforms_0924 conforms_0925 conforms_0926 conforms_0927 conforms_0928 conforms_0929 conforms_0930 conforms_0931
  conforms_0932 conforms_0933 conforms_0934 conforms_0935 conforms_0936 conforms_0937 conforms_0938 conforms_0939
  conforms_0940 conforms_0941 conforms_0942 conforms_0943 conforms_0944 conforms_0945 conforms_0946 conforms_0947
  conforms_0948 conforms_0949 conforms_0950 conforms_0951 conforms_0952 conforms_0953 conforms_0954 conforms_0955
  conforms_0956 conforms_0957 conforms_0958 conforms_0959 conforms_0960 conforms_0961 conforms_0962 conforms_0963
  conforms_0964 conforms_0965 conforms_0966 conforms_0967 conforms_0968 conforms_0969 conforms_0970 conforms_0971
  conforms_0972 conforms_0973 conforms_0974 conforms_0975 conforms_0976 conforms_0977 conforms_0978 conforms_0979
  conforms_0980 conforms_0981 conforms_0982 conforms_0983 conforms_0984 conforms_0985 conforms_0986 conforms_0987
  conforms_0988 conforms_0989 conforms_0990 conforms_0991 conforms_0992 conforms_0993 conforms_0994 conforms_0995
  conforms_0996 conforms_0997 conforms_0998 conforms_0999

lemma corpus_9_conforms: "list_all (\<lambda>(c, prediction). conforms c prediction) (corpus_9 junk)"
  unfolding corpus_9_def list.pred_inject prod.case by (intro conjI corpus_9_programs list.pred_inject(1))

lemma corpus_9_ids: "map (\<lambda>(c, prediction). case_id c) (corpus_9 junk) = [900..<1000]"
  by (simp add: corpus_9_def upt_conv_Cons
      case_0900_def case_0901_def case_0902_def case_0903_def case_0904_def case_0905_def case_0906_def
      case_0907_def case_0908_def case_0909_def case_0910_def case_0911_def case_0912_def case_0913_def
      case_0914_def case_0915_def case_0916_def case_0917_def case_0918_def case_0919_def case_0920_def
      case_0921_def case_0922_def case_0923_def case_0924_def case_0925_def case_0926_def case_0927_def
      case_0928_def case_0929_def case_0930_def case_0931_def case_0932_def case_0933_def case_0934_def
      case_0935_def case_0936_def case_0937_def case_0938_def case_0939_def case_0940_def case_0941_def
      case_0942_def case_0943_def case_0944_def case_0945_def case_0946_def case_0947_def case_0948_def
      case_0949_def case_0950_def case_0951_def case_0952_def case_0953_def case_0954_def case_0955_def
      case_0956_def case_0957_def case_0958_def case_0959_def case_0960_def case_0961_def case_0962_def
      case_0963_def case_0964_def case_0965_def case_0966_def case_0967_def case_0968_def case_0969_def
      case_0970_def case_0971_def case_0972_def case_0973_def case_0974_def case_0975_def case_0976_def
      case_0977_def case_0978_def case_0979_def case_0980_def case_0981_def case_0982_def case_0983_def
      case_0984_def case_0985_def case_0986_def case_0987_def case_0988_def case_0989_def case_0990_def
      case_0991_def case_0992_def case_0993_def case_0994_def case_0995_def case_0996_def case_0997_def
      case_0998_def case_0999_def)

end
