(* ===== verification/Corpus_Contract.thy ===== *)
theory Corpus_Contract
  imports Corpus_Ops "HOL-Library.Monad_Syntax"
begin

text \<open>
  The contract in the head of every corpus program: \<^emph>\<open>freestanding ISO C unsigned arithmetic; no undefined
  behavior\<close>.  This theory gives the statements a second semantics in which every array access, shift and
  division that C leaves undefined yields \<open>None\<close>, and shows that a well-formed statement has a value there,
  the one of \<open>exec_stmt\<close>.
\<close>

section \<open>Operations that C leaves undefined\<close>

definition element :: "'a list \<Rightarrow> nat \<Rightarrow> 'a option" where
  "element xs i = (if i < length xs then Some (xs ! i) else None)"

definition store_element :: "'a list \<Rightarrow> nat \<Rightarrow> 'a \<Rightarrow> 'a list option" where
  "store_element xs i v = (if i < length xs then Some (xs[i := v]) else None)"

definition shift_left :: "u32 \<Rightarrow> nat \<Rightarrow> u32 option" where
  "shift_left a n = (if n < 32 then Some (shl a n) else None)"

definition shift_right :: "u32 \<Rightarrow> nat \<Rightarrow> u32 option" where
  "shift_right a n = (if n < 32 then Some (shr a n) else None)"

definition divide :: "u32 \<Rightarrow> u32 \<Rightarrow> u32 option" where
  "divide a b = (if b = 0 then None else Some (a div b))"

definition modulo :: "u32 \<Rightarrow> u32 \<Rightarrow> u32 option" where
  "modulo a b = (if b = 0 then None else Some (a mod b))"

text \<open>\<open>a << n | a >> m\<close> and \<open>a >> n | a << m\<close>\<close>

definition shift_pair :: "u32 \<Rightarrow> nat \<Rightarrow> nat \<Rightarrow> u32 option" where
  "shift_pair a n m = do { x \<leftarrow> shift_left a n; y \<leftarrow> shift_right a m; Some (x OR y) }"

definition shift_pair_right :: "u32 \<Rightarrow> nat \<Rightarrow> nat \<Rightarrow> u32 option" where
  "shift_pair_right a n m = do { x \<leftarrow> shift_right a n; y \<leftarrow> shift_left a m; Some (x OR y) }"

fun checked_gray :: "nat list \<Rightarrow> u32 \<Rightarrow> u32 option" where
  "checked_gray [] g = Some g"
| "checked_gray (n # ns) g = do { x \<leftarrow> shift_right g n; checked_gray ns (g XOR x) }"

fun checked_counted :: "u32 \<Rightarrow> nat list \<Rightarrow> u32 \<Rightarrow> u32 option" where
  "checked_counted b [] v = Some v"
| "checked_counted b (i # is) v = do { v \<leftarrow> shift_pair (v + (b XOR of_nat i)) 3 29; checked_counted b is v }"

text \<open>What a statement computes from its operands; \<open>x\<close> and \<open>y\<close> are the destination and its successor.\<close>

definition checked_value :: "nat \<Rightarrow> opcode \<Rightarrow> u32 list \<Rightarrow> nat \<Rightarrow> u32 \<Rightarrow> u32 \<Rightarrow> u32 option" where
  "checked_value step opc r d a b =
     (case opc of
        Add_Carry \<Rightarrow> (let sum = a + b in Some (sum XOR of_bool (sum < a)))
      | Sub_Borrow \<Rightarrow> (let diff = a - b in Some (diff XOR of_bool (a < b)))
      | Rotate_Mix \<Rightarrow>
          (let shift = b AND 31; shift7 = (shift + 7) AND 31 in do {
             x \<leftarrow> (if shift = 0 then Some a else shift_pair a (unat shift) (unat (32 - shift)));
             y \<leftarrow> (if shift7 = 0 then Some b else shift_pair_right b (unat shift7) (unat (32 - shift7)));
             Some (x XOR y) })
      | Multiply_Low \<Rightarrow> Some (a * (b OR 1) + 0x9e3779b9)
      | Divide_Rem \<Rightarrow>
          (let divisor = (b AND 0xffff) OR 1 in do {
             rm \<leftarrow> modulo a divisor;
             q \<leftarrow> divide a divisor;
             x \<leftarrow> shift_pair rm 9 23;
             Some (q XOR x) })
      | Mask_Merge \<Rightarrow> do {
             msk \<leftarrow> shift_pair a ((step + 3) mod 32) (32 - (step + 3) mod 32);
             Some ((a AND msk) OR (b AND NOT msk)) }
      | Compare_Select \<Rightarrow> Some (if a < b then a + 0x10204081 else b - 0x01020408)
      | Byte_Pack \<Rightarrow> do {
             x \<leftarrow> shift_left (b AND 0xff) 8;
             a8 \<leftarrow> shift_right a 8;
             y \<leftarrow> shift_left (a8 AND 0xff) 16;
             b8 \<leftarrow> shift_right b 8;
             z \<leftarrow> shift_left (b8 AND 0xff) 24;
             Some ((a AND 0xff) OR x OR y OR z) }
      | Halfword_Swap \<Rightarrow> do { x \<leftarrow> shift_pair a 16 16; Some (x XOR (b AND 0xffff0000)) }
      | Array_Scatter \<Rightarrow> shift_pair b (step + 1) (31 - step)
      | Counted_Loop \<Rightarrow> checked_counted b [0..<3 + step mod 5] a
      | Switch_Phi \<Rightarrow>
          (let sel = a AND 3
           in if sel = 0 then Some (b + a)
              else if sel = 1 then Some (b - a)
              else if sel = 2 then do { x \<leftarrow> shift_pair a 5 27; Some (b XOR x) }
              else Some (b * 3 XOR a))
      | Short_Circuit \<Rightarrow>
          Some (if b AND 1 \<noteq> 0 then if b AND 2 \<noteq> 0 then (a + 3) XOR 0x55aa55aa else a + 3 else a)
      | Popcount_Loop \<Rightarrow> Some (popcount_loop a 0 XOR b)
      | Reverse_Loop \<Rightarrow> Some (reverse_loop a XOR b)
      | Gray_Decode \<Rightarrow> do {
             x \<leftarrow> shift_right a 1;
             g \<leftarrow> checked_gray [1, 2, 4, 8, 16] (a XOR x);
             Some (g XOR b) }
      | Minmax_Clamp \<Rightarrow>
          (let low = (if a < b then a else b); high = (if a > b then a else b) in do {
             x \<leftarrow> element r d;
             let clamp = (if x < low then low else if x > high then high else x);
             Some (clamp XOR low XOR high) })
      | Endian_Swap \<Rightarrow> do {
             p \<leftarrow> shift_left (a AND 0xff) 24;
             q \<leftarrow> shift_left (a AND 0xff00) 8;
             a8 \<leftarrow> shift_right a 8;
             t \<leftarrow> shift_right a 24;
             x \<leftarrow> shift_pair b 8 24;
             Some ((p OR q OR (a8 AND 0xff00) OR t) XOR x) }
      | Carry_Chain \<Rightarrow> do {
             x \<leftarrow> element r d;
             y \<leftarrow> element r ((d + 1) mod 6);
             let low = a + b;
             Some (low XOR (x + y + of_bool (low < a))) }
      | Horner_Loop \<Rightarrow> Some (fold (\<lambda>c p. p * (b OR 1) + c) [3, 5, 17, 257] a))"

definition checked_stmt :: "nat \<Rightarrow> stmt \<Rightarrow> machine \<Rightarrow> machine option" where
  "checked_stmt step st s =
     (case st of (opc, d, le, ri) \<Rightarrow> case s of (r, memory) \<Rightarrow> do {
        a \<leftarrow> element r le;
        b \<leftarrow> element r ri;
        (v, memory) \<leftarrow>
          (if opc = Array_Scatter then
             (let index = unat (a AND 7) in do {
                w \<leftarrow> element memory index;
                memory \<leftarrow> store_element memory index (w XOR b);
                w \<leftarrow> element memory index;
                v \<leftarrow> checked_value step opc r d a w;
                Some (v, memory) })
           else do { v \<leftarrow> checked_value step opc r d a b; Some (v, memory) });
        r \<leftarrow> store_element r d v;
        Some (r, memory) })"

fun checked_run :: "nat \<Rightarrow> stmt list \<Rightarrow> machine \<Rightarrow> machine option" where
  "checked_run step [] s = Some s"
| "checked_run step (st # sts) s = do { s \<leftarrow> checked_stmt step st s; checked_run (Suc step) sts s }"

fun checked_map :: "('a \<Rightarrow> 'b option) \<Rightarrow> 'a list \<Rightarrow> 'b list option" where
  "checked_map f [] = Some []"
| "checked_map f (x # xs) = do { y \<leftarrow> f x; ys \<leftarrow> checked_map f xs; Some (y # ys) }"

definition checked_start :: "case_program \<Rightarrow> machine option" where
  "checked_start c = do {
     regs \<leftarrow> checked_map (element (case_input c)) (reg_inputs c);
     memory \<leftarrow> checked_map (\<lambda>i. do { x \<leftarrow> element (case_input c) i; k \<leftarrow> element (memory_keys c) i; Some (x XOR k) })
       [0..<8];
     Some ([case_kernel c (case_input c)] @ regs @ [reg5_init c], memory) }"

section \<open>Well-formed statements have a value\<close>

lemmas defined_operations = shift_left_def shift_right_def shift_pair_def shift_pair_right_def

lemma checked_counted_eq: "checked_counted b is v = Some (fold (counted_step b) is v)"
  by (induction b "is" v rule: checked_counted.induct)
    (simp_all add: defined_operations counted_step_def Let_def)

lemma or_1_nonzero: "(b AND 0xffff) OR 1 \<noteq> (0 :: u32)"
proof
  assume "(b AND 0xffff) OR 1 = 0"
  then have "bit ((b AND 0xffff) OR 1) 0 = bit (0 :: u32) 0" by (simp only:)
  then show False by (simp add: bit_or_iff bit_1_iff)
qed

lemma rotation_counts:
  fixes b :: u32
  assumes "k = b AND 31" and "k \<noteq> 0"
  shows "unat k < 32" and "unat (32 - k) < 32"
proof -
  show k: "unat k < 32"
    unfolding assms(1) and_31 by simp
  then have "unat (32 - k) = 32 - unat k"
    by (simp add: unat_sub word_le_nat_alt)
  then show "unat (32 - k) < 32"
    using assms(2) by (simp add: unat_gt_0)
qed

lemma checked_rotate_mix:
  "checked_value step Rotate_Mix r d a b =
    Some (let shift = b AND 31; shift7 = (shift + 7) AND 31
     in (if shift = 0 then a else shl a (unat shift) OR shr a (unat (32 - shift))) XOR
        (if shift7 = 0 then b else shr b (unat shift7) OR shl b (unat (32 - shift7))))"
  using rotation_counts [OF refl, of b] rotation_counts [OF refl, of "(b AND 31) + 7"]
  by (simp add: checked_value_def Let_def defined_operations)

lemma checked_stmt_exec:
  assumes "step < 12" and "stmt_ok st" and "length (fst s) = 6" and "length (snd s) = 8"
  shows "checked_stmt step st s = Some (exec_stmt step st s)"
proof -
  obtain opc d le ri where st: "st = (opc, d, le, ri)" by (cases st) auto
  obtain r m where s: "s = (r, m)" by (cases s)
  have n: "d < length r" "le < length r" "ri < length r" "Suc d mod 6 < length r" "d < 6"
    using assms by (simp_all add: st s stmt_ok_def)
  have i: "unat (r ! le AND 7) < length m"
    using assms by (simp add: s and_7)
  note unfolds = checked_value_def element_def store_element_def Let_def defined_operations
  show ?thesis
  proof (cases "opc = Rotate_Mix")
    case True
    then show ?thesis
      using n by (simp add: st s exec_stmt_def checked_stmt_def checked_rotate_mix element_def store_element_def Let_def)
  next
    case False
    then show ?thesis
      unfolding st s exec_stmt_def checked_stmt_def
      using n i assms(1)
      by (cases opc) (simp_all add: unfolds divide_def modulo_def or_1_nonzero checked_counted_eq gray_chain_def)
  qed
qed

lemma checked_run_reference:
  assumes "step + length sts \<le> 12" and "list_all stmt_ok sts" and "length (fst s) = 6" and "length (snd s) = 8"
  shows "checked_run step sts s = Some (reference_run step sts s)"
  using assms
proof (induction sts arbitrary: step s)
  case (Cons st sts)
  then have "checked_stmt step st s = Some (reference_stmt step st s)"
    by (simp add: checked_stmt_exec exec_reference)
  then show ?case
    using Cons by simp
qed simp

lemma checked_map_total: "(\<And>x. x \<in> set xs \<Longrightarrow> f x = Some (g x)) \<Longrightarrow> checked_map f xs = Some (map g xs)"
  by (induction xs) simp_all

lemma checked_start_reference:
  assumes "generated c"
  shows "checked_start c = Some (reference_start (case_kernel c (case_input c)) c)"
proof -
  have i: "length (case_input c) = 16" "length (memory_keys c) = 8" "set (reg_inputs c) \<subseteq> {..<16}"
    using assms by (auto simp: generated_def)
  have "checked_map (element (case_input c)) (reg_inputs c) = Some (map (\<lambda>i. case_input c ! i) (reg_inputs c))"
    using i by (intro checked_map_total) (auto simp: element_def)
  moreover have "checked_map (\<lambda>i. do { x \<leftarrow> element (case_input c) i; k \<leftarrow> element (memory_keys c) i; Some (x XOR k) }) [0..<8] =
      Some (map (\<lambda>i. case_input c ! i XOR memory_keys c ! i) [0..<8])"
    using i by (intro checked_map_total) (simp add: element_def)
  ultimately show ?thesis
    unfolding case_start_reference [OF assms, symmetric]
    by (simp add: checked_start_def case_start_def)
qed

end
