(* ===== verification/Corpus.thy ===== *)
theory Corpus
  imports Corpus_Cases_0 Corpus_Cases_1 Corpus_Cases_2 Corpus_Cases_3 Corpus_Cases_4
    Corpus_Cases_5 Corpus_Cases_6 Corpus_Cases_7 Corpus_Cases_8 Corpus_Cases_9 Corpus_Contract
begin

text \<open>
  The whole edge-case corpus: a thousand programs, each with the prediction of its kernel, and what holds of all of
  them.  The kernels' own correctness is stated here too: remainders of polynomial divisions, sorted
  permutations, searches, roots and quotients, queues and frames.
\<close>

definition corpus :: "(nat \<Rightarrow> u32) \<Rightarrow> (case_program \<times> (u32 list \<Rightarrow> u32)) list" where
  "corpus junk =
     corpus_0 junk @ corpus_1 junk @ corpus_2 junk @ corpus_3 junk @ corpus_4 junk @
     corpus_5 junk @ corpus_6 junk @ corpus_7 junk @ corpus_8 junk @ corpus_9 junk"

lemma corpus_all_conform: "list_all (\<lambda>(c, prediction). conforms c prediction) (corpus junk)"
  unfolding corpus_def list_all_append
  by (intro conjI corpus_0_conforms corpus_1_conforms corpus_2_conforms corpus_3_conforms corpus_4_conforms
      corpus_5_conforms corpus_6_conforms corpus_7_conforms corpus_8_conforms corpus_9_conforms)

lemma corpus_member_conforms: "(c, prediction) \<in> set (corpus junk) \<Longrightarrow> conforms c prediction"
  using corpus_all_conform [of junk] by (auto simp: list_all_iff)

lemma upt_join: "i \<le> j \<Longrightarrow> j \<le> k \<Longrightarrow> [i..<j] @ [j..<k] = [i..<k]"
  by (metis le_Suc_ex upt_add_eq_append)

text \<open>Every number of a program occurs, in order.\<close>

lemma corpus_ids: "map (\<lambda>(c, prediction). case_id c) (corpus junk) = [0..<1000]"
proof -
  have "[0..<100] @ [100..<200] @ [200..<300] @ [300..<400] @ [400..<500] @ [500..<600] @ [600..<700] @
      [700..<800] @ [800..<900] @ [900..<1000] = [0..<1000 :: nat]"
    by (simp add: upt_join del: upt_rec_numeral)
  then show ?thesis
    unfolding corpus_def map_append corpus_0_ids corpus_1_ids corpus_2_ids corpus_3_ids corpus_4_ids
      corpus_5_ids corpus_6_ids corpus_7_ids corpus_8_ids corpus_9_ids .
qed

section \<open>Every program of the corpus\<close>

text \<open>C10.
  Every program of the corpus, whatever its uninitialised arrays hold, returns the digest the generator
  predicts: the kernel's predicted value and the twelve reference statements give the same final registers and memory as
  the C statements.
\<close>

theorem corpus_predicted:
  assumes "(c, prediction) \<in> set (corpus junk)"
  shows "remu_case plain_build c = reference_case (prediction (case_input c)) c"
  using conforms_whole_program [OF corpus_member_conforms [OF assms]] .

lemma case_0641_in_corpus: "(case_0641, function_pointer_prediction 0) \<in> set (corpus junk)"
  by (simp add: corpus_def corpus_6_def)

theorem corpus_predicted_witness:
  "remu_case plain_build case_0641 = 0x4bb17cc2 \<and>
   reference_case (function_pointer_prediction 0 (case_input case_0641)) case_0641 = 0x4bb17cc2"
proof -
  have "remu_case plain_build case_0641 = 0x4bb17cc2" by code_simp
  then show ?thesis
    using corpus_predicted [OF case_0641_in_corpus] by metis
qed

text \<open>A build of a corpus program that stops after statement \<open>n\<close> returns the register, the memory word or the
  digest it was built for, taken from the state that the first \<open>n\<close> reference statements reach.
\<close>

theorem corpus_checkpoints:
  assumes "(c, prediction) \<in> set (corpus junk)" and "\<not> kernel_only cfg"
    and "stop_after cfg = Some n" and "0 < n" and "n \<le> 12"
  shows "remu_case cfg c =
    (case reference_run 0 (take n (case_stmts c)) (reference_start (prediction (case_input c)) c) of (r, memory) \<Rightarrow>
       case return_register cfg of
         Some i \<Rightarrow> r ! i
       | None \<Rightarrow>
           (case return_memory cfg of
              Some i \<Rightarrow> memory ! i
            | None \<Rightarrow>
                if return_register_digest cfg then digest r
                else if return_memory_digest cfg then digest memory
                else digest r XOR word_rotl 11 (digest memory)))"
  unfolding conforms_checkpoint [OF corpus_member_conforms [OF assms(1)] assms(2-)]
  by (simp add: checkpoint_return_def Let_def mix_digests_rotl split: prod.splits option.splits)

theorem corpus_checkpoints_witness:
  "remu_case (plain_build\<lparr>stop_after := Some 1, return_register := Some 5\<rparr>) case_0641 = 0x496936e0 \<and>
   fst (reference_run 0 (take 1 (case_stmts case_0641))
     (reference_start (function_pointer_prediction 0 (case_input case_0641)) case_0641)) ! 5 = 0x496936e0"
proof -
  have "remu_case (plain_build\<lparr>stop_after := Some 1, return_register := Some 5\<rparr>) case_0641 = 0x496936e0" by code_simp
  then show ?thesis
    using corpus_checkpoints [OF case_0641_in_corpus, of "plain_build\<lparr>stop_after := Some 1, return_register := Some 5\<rparr>" 1]
    by (simp add: plain_build_def split: prod.splits)
qed



section \<open>The kernels\<close>

text \<open>C34.
  The CRC kernels compute remainders: the coefficients left in the CRC-32 register, the CRC-16/CCITT register and the
  CRC-8 register after the message are those of the polynomial division of the message, followed by as
  many zeros as the register is wide and with the initial value added to its front, by the generator polynomial.
\<close>

theorem crc_remainders:
  fixes msg :: bytes
  shows "lsb_first (fold crc32_byte msg r32) =
      long_division crc32_poly (add_prefix (lsb_first r32) (concat (map lsb_first msg) @ replicate 32 False)) \<and>
    msb_first (fold crc16_byte msg r16) =
      long_division crc16_poly (add_prefix (msb_first r16) (concat (map msb_first msg) @ replicate 16 False)) \<and>
    msb_first (fold crc8_byte msg r8) =
      long_division crc8_poly (add_prefix (msb_first r8) (concat (map msb_first msg) @ replicate 8 False))"
proof -
  have "crc32_byte = crc32.absorb" "crc16_byte = crc16.absorb" "crc8_byte = crc8.absorb"
    by (simp_all add: fun_eq_iff crc32_byte_def crc32.absorb_def crc16_byte_def crc16.absorb_def
        crc8_byte_def crc8.absorb_def)
  moreover have "length crc32_poly = 32" "length crc16_poly = 16" "length crc8_poly = 8"
    by (simp_all add: crc32_poly_def crc16_poly_def crc8_poly_def)
  ultimately show ?thesis
    using crc32.remainder [of msg r32] crc16.remainder [of msg r16] crc8.remainder [of msg r8] by simp
qed

text \<open>The insertion sort of the corpus sorts: the first \<open>len\<close> entries become the sorted list of themselves, the
  entries beyond are untouched.
\<close>

theorem insertion_sort_correct:
  assumes "len \<le> length a"
  shows "sorted (take len (insertion_sort len a)) \<and>
    mset (take len (insertion_sort len a)) = mset (take len a) \<and>
    drop len (insertion_sort len a) = drop len a"
  using assms by (simp add: insertion_sort_spec)

theorem insertion_sort_correct_witness:
  "insertion_sort 3 [9, 4, 7, 1] = [4, 7, 9, 1] \<and> sorted (take 3 (insertion_sort 3 [9, 4, 7, 1]))"
proof -
  have "insertion_sort 3 [9, 4, 7, 1] = [4, 7, 9, 1]" by code_simp
  then show ?thesis using insertion_sort_correct [of 3 "[9, 4, 7, 1]"] by simp
qed

text \<open>
  The binary search of the corpus, over a sorted array, returns the first position of the needle, or all
  ones when the array does not have it.
\<close>

theorem binary_search_correct:
  assumes "sorted a" and "length a < 2 ^ 32"
  shows "if needle \<in> set a
    then unat (search_kernel a needle input) < length a \<and> a ! unat (search_kernel a needle input) = needle \<and>
      (\<forall>i < unat (search_kernel a needle input). a ! i < needle)
    else search_kernel a needle input = 0xffffffff"
  using search_predicted [OF assms, of needle input] search_position [OF assms] by (auto simp: search_prediction_def)

theorem binary_search_correct_witness:
  "search_kernel [3, 5, 5, 8] 5 [] = 1 \<and> unat (search_kernel [3, 5, 5, 8] 5 []) < length [3, 5, 5, 8 :: u32]"
proof -
  have "search_kernel [3, 5, 5, 8] 5 [] = 1" by code_simp
  then show ?thesis using binary_search_correct [of "[3, 5, 5, 8]" 5 "[]"] by simp
qed

text \<open>The integer square root loop ends with the floor of the square root and the remainder.
\<close>

theorem integer_sqrt_correct:
  "case sqrt_loop v 0 (scale_loop v (shl 1 30)) of (remainder, root) \<Rightarrow>
     unat root * unat root + unat remainder = unat v \<and> unat v < (unat root + 1) * (unat root + 1)"
  by (rule sqrt_loops_unat)

text \<open>
  Restoring division ends with the quotient and the remainder, for every numerator and every divisor of at
  most sixteen bits.
\<close>

theorem restoring_division_correct:
  assumes "0 < unat d" and "unat d < 65536"
  shows "case fold (division_step n d) (rev [1..<33]) (0, 0) of (quot, remainder) \<Rightarrow>
    unat quot = unat n div unat d \<and> unat remainder = unat n mod unat d"
proof -
  have "unat n div unat d < 2 ^ 32" "unat n mod unat d < 2 ^ 32"
    using unsigned_less [where w = n, where 'a = nat] le_less_trans [OF div_le_dividend]
      le_less_trans [OF mod_less_eq_dividend] by auto
  then show ?thesis
    using division_fold [OF assms, of 0 n] by (simp add: unat_u32_of_nat del: upt_rec_numeral)
qed

theorem restoring_division_correct_witness:
  "case fold (division_step 1000003 (7 :: u32)) (rev [1..<33]) (0, 0) of (quot, remainder) \<Rightarrow>
     unat quot = 142857 \<and> unat remainder = 4"
  using restoring_division_correct [of 7 1000003] by simp

text \<open>C35.
  The ring buffer refines a bounded list queue: after any sequence of the kernel's operations its invariant
  holds, its contents are those of the list, the results agree, and draining it delivers the contents in order.
\<close>

theorem ring_buffer_refines:
  assumes "0 < capacity"
  shows "case fold (ring_step capacity input) is (ring_empty junk capacity, 0) of (q, result) \<Rightarrow>
    ring_invar capacity q \<and>
    fold (queue_step capacity input) is ([], 0) = (ring_contents capacity q, result) \<and>
    ring_drain capacity q result = fold (\<lambda>x result. word_rotl 3 result XOR x) (ring_contents capacity q) result"
proof -
  have "ring_step capacity = ring_fifo.step capacity"
    by (intro ext) (simp add: ring_step_def ring_fifo.step_def)
  moreover have "ring_invar capacity (ring_empty junk capacity)" "ring_contents capacity (ring_empty junk capacity) = []"
    using assms by (simp_all add: ring_invar_def ring_empty_def ring_contents_def)
  moreover have "take_in = (\<lambda>x result. word_rotl 3 result XOR x)"
    by (intro ext) (rule take_in_rotl)
  ultimately show ?thesis
    using ring_fifo.run_refines [of capacity "ring_empty junk capacity" input "is" 0] ring_drain_fold [of capacity]
    by (auto split: prod.splits)
qed

theorem ring_buffer_refines_witness:
  "case fold (ring_step 5 [6, 8]) [0, 1] (ring_empty (\<lambda>_. 0) 5, 0) of (q, result) \<Rightarrow>
     ring_invar 5 q \<and> ring_contents 5 q = [6, 9] \<and> result = 0"
proof -
  have "fold (queue_step 5 [6, 8]) [0, 1] ([], 0) = ([6, 9], 0)" by code_simp
  then show ?thesis
    using ring_buffer_refines [of 5 "[6, 8]" "[0, 1]" "\<lambda>_. 0"] by (auto split: prod.splits)
qed

text \<open>C36.
  The COBS frame the encoder leaves in its buffer has one byte more than the message, contains no zero byte, and
  decodes to the message, for messages of up to sixteen bytes.
\<close>

theorem cobs_roundtrip:
  assumes "len \<le> 16"
  shows "let c = cobs_frame junk len input;
      frame = map ucast (take (write_at c) (outbuf c)) :: bytes;
      message = map (\<lambda>i. to_u8 (input ! i)) [0..<len]
    in length frame = len + 1 \<and> 0 \<notin> set frame \<and> cobs_decode frame = Some message"
proof -
  let ?m = "map (\<lambda>i. to_u8 (input ! i)) [0..<len]"
  note f = cobs_frame_encode [OF assms, where input = input and junk = junk]
  have "map to_u8 (map ucast (cobs_encode ?m) :: u32 list) = cobs_encode ?m"
    by (simp add: comp_def ucast_8_32_byte)
  then have "map to_u8 (take (write_at (cobs_frame junk len input)) (outbuf (cobs_frame junk len input))) = cobs_encode ?m"
    unfolding f .
  then show ?thesis
    using cobs_encode_ok [of ?m] assms unfolding Let_def by (simp only:) simp
qed

theorem cobs_roundtrip_witness:
  "cobs_decode (map ucast (take (write_at (cobs_frame (\<lambda>_. 7) 3 [17, 0, 34])) (outbuf (cobs_frame (\<lambda>_. 7) 3 [17, 0, 34])))) =
     Some [17, 0, 34]"
  using cobs_roundtrip [of 3 "\<lambda>_. 7" "[17, 0, 34]"] by (simp add: Let_def upt_rec)

text \<open>
  The debouncer's counter implements a window: the level it returns is the one the last \<open>threshold\<close> agreeing samples
  set, and the transitions it counts are the samples that change it.
\<close>

theorem debouncer_window:
  assumes "0 < threshold" and "threshold < 65536" and "0 < len" and "len < 65535"
  shows "debounce_kernel len (of_nat threshold) input =
    (let samp = \<lambda>i. odd (input ! i)
     in of_nat (65536 * card {i. i < len \<and> debounced samp threshold (Suc i) \<noteq> debounced samp threshold i} +
       of_bool (debounced samp threshold len)))"
  using debounce_predicted [OF assms, of input] by (simp add: debounce_prediction_def level_changes_def Let_def)

theorem debouncer_window_witness:
  "debounce_kernel 4 2 [0, 1, 1, 0] = 0x10001 \<and>
   card {i. i < 4 \<and> debounced (\<lambda>i. odd ([0, 1, 1, 0 :: u32] ! i)) 2 (Suc i) \<noteq>
     debounced (\<lambda>i. odd ([0, 1, 1, 0 :: u32] ! i)) 2 i} < 65536"
proof -
  let ?S = "{i. i < 4 \<and> debounced (\<lambda>i. odd ([0, 1, 1, 0 :: u32] ! i)) 2 (Suc i) \<noteq>
     debounced (\<lambda>i. odd ([0, 1, 1, 0 :: u32] ! i)) 2 i}"
  have "debounce_kernel 4 2 [0, 1, 1, 0] = 0x10001" by code_simp
  moreover have "card ?S \<le> card {..<4 :: nat}" by (rule card_mono) auto
  ultimately show ?thesis
    using debouncer_window [of 2 4 "[0, 1, 1, 0]"] by simp
qed

text \<open>
  The parity bit of the UART frame kernel never shows: parity and stop bit are shifted to the same place, so the
  frame is the stop bit and the data byte for every byte, of even or odd parity.
\<close>

theorem uart_parity_lost:
  "frame_parity byte = of_bool (odd (ones (take_bit 8 byte))) \<and> uart_frame byte = 0x200 OR shl byte 1"
  by (simp only: frame_parity_eq uart_frame_eq)

end
