(* ===== verification/Memory.thy ===== *)
theory Memory
  imports Prelude
begin

text \<open>
  The flat 32-bit address space of the freestanding C programs: a store of bytes, the loops every
  C runtime of the repository walks it with (copy upwards, copy downwards, fill), little-endian
  word accesses, and the C strings in it.  Pointers are addresses and wrap at \<open>2 ^ 32\<close>, as they do
  on the 32-bit targets.
\<close>

type_synonym mem = "u32 \<Rightarrow> u8"

section \<open>Loops over bytes\<close>

function copy_up :: "mem \<Rightarrow> u32 \<Rightarrow> u32 \<Rightarrow> u32 \<Rightarrow> mem" where
  "copy_up m destination source len =
     (if len \<noteq> 0 then copy_up (m(destination := m source)) (destination + 1) (source + 1) (len - 1) else m)"
  by pat_completeness auto

function copy_down :: "mem \<Rightarrow> u32 \<Rightarrow> u32 \<Rightarrow> u32 \<Rightarrow> mem" where
  "copy_down m destination source len =
     (if len \<noteq> 0 then
        copy_down (m(destination + (len - 1) := m (source + (len - 1)))) destination source (len - 1)
      else m)"
  by pat_completeness auto

function fill_up :: "mem \<Rightarrow> u32 \<Rightarrow> u8 \<Rightarrow> u32 \<Rightarrow> mem" where
  "fill_up m destination value len =
     (if len \<noteq> 0 then fill_up (m(destination := value)) (destination + 1) value (len - 1) else m)"
  by pat_completeness auto

lemma unat_pred_less: "w \<noteq> 0 \<Longrightarrow> unat (w - 1) < unat (w :: 'a::len word)"
  by (simp add: unat_minus_one unat_gt_0)

termination copy_up
  by (relation "measure (\<lambda>(m, d, s, n). unat n)") (auto intro: unat_pred_less)

termination copy_down
  by (relation "measure (\<lambda>(m, d, s, n). unat n)") (auto intro: unat_pred_less)

termination fill_up
  by (relation "measure (\<lambda>(m, d, v, n). unat n)") (auto intro: unat_pred_less)

declare copy_up.simps [simp del] copy_down.simps [simp del] fill_up.simps [simp del]

section \<open>Words and ranges\<close>

definition load :: "mem \<Rightarrow> u32 \<Rightarrow> nat \<Rightarrow> bytes" where
  "load m p n = map (\<lambda>i. m (p + of_nat i)) [0..<n]"

definition load16 :: "mem \<Rightarrow> u32 \<Rightarrow> u16" where
  "load16 m p = ucast (m p) OR shl (ucast (m (p + 1))) 8"

definition load32 :: "mem \<Rightarrow> u32 \<Rightarrow> u32" where
  "load32 m p = ucast (m p) OR shl (ucast (m (p + 1))) 8
                OR shl (ucast (m (p + 2))) 16 OR shl (ucast (m (p + 3))) 24"

definition store16 :: "u32 \<Rightarrow> u16 \<Rightarrow> mem \<Rightarrow> mem" where
  "store16 p v m = m(p := to_u8 v, p + 1 := to_u8 (shr v 8))"

definition store32 :: "u32 \<Rightarrow> u32 \<Rightarrow> mem \<Rightarrow> mem" where
  "store32 p v m =
     m(p := to_u8 v, p + 1 := to_u8 (shr v 8), p + 2 := to_u8 (shr v 16), p + 3 := to_u8 (shr v 24))"

fun store_bytes :: "u32 \<Rightarrow> bytes \<Rightarrow> mem \<Rightarrow> mem" where
  "store_bytes p [] m = m"
| "store_bytes p (b # bs) m = store_bytes (p + 1) bs (m(p := b))"

text \<open>A C string of bytes \<open>cs\<close> lies at \<open>p\<close>: no byte of it is zero and a zero byte follows.\<close>

definition c_string :: "mem \<Rightarrow> u32 \<Rightarrow> bytes \<Rightarrow> bool" where
  "c_string m p cs \<longleftrightarrow> load m p (length cs) = cs \<and> 0 \<notin> set cs \<and> m (p + of_nat (length cs)) = 0"

text \<open>Bytes lie at an address.\<close>

fun bytes_at :: "mem \<Rightarrow> u32 \<Rightarrow> bytes \<Rightarrow> bool" where
  "bytes_at m p [] \<longleftrightarrow> True"
| "bytes_at m p (b # bs) \<longleftrightarrow> m p = b \<and> bytes_at m (p + 1) bs"

section \<open>What the loops compute\<close>

lemma of_nat_less_word: "i < unat w \<Longrightarrow> (of_nat i :: 'a::len word) < w"
  by (simp add: word_less_nat_alt unsigned_of_nat) (metis order.strict_trans1 take_bit_nat_less_eq_self)

lemma word_pred_less: "(k :: u32) \<noteq> 0 \<Longrightarrow> n \<noteq> 0 \<Longrightarrow> k - 1 < n - 1 \<longleftrightarrow> k < n"
  by (simp add: word_less_nat_alt unat_minus_one) (metis Suc_pred
      not_less_eq unat_gt_0)

text \<open>
  Copying upwards is a simultaneous copy unless the destination starts strictly inside the source
  range; copying downwards is one unless the source starts strictly inside the destination range.
\<close>

lemma copy_up_apply:
  "d = s \<or> n \<le> d - s \<Longrightarrow>
   copy_up m d s n a = (if a - d < n then m (s + (a - d)) else m a)"
proof (induction m d s n rule: copy_up.induct)
  case (1 m d s n)
  show ?case
  proof (cases "n = 0")
    case True
    then show ?thesis by (simp add: copy_up.simps)
  next
    case n: False
    let ?m = "m(d := m s)"
    have "d + 1 = s + 1 \<or> n - 1 \<le> (d + 1) - (s + 1)"
      using 1 (2) n by (auto simp: word_le_nat_alt unat_minus_one)
    note next_byte = 1 (1) [OF n this]
    have step: "copy_up m d s n a =
        (if a - (d + 1) < n - 1 then ?m (s + 1 + (a - (d + 1))) else ?m a)"
      unfolding next_byte [symmetric] using n by (subst copy_up.simps) simp
    show ?thesis
    proof (cases "a = d")
      case True
      then show ?thesis
        using n step by (auto simp: word_gt_0)
    next
      case a: False
      have "a - (d + 1) < n - 1 \<longleftrightarrow> a - d < n"
        using word_pred_less [of "a - d" n] a n by (simp add: algebra_simps)
      moreover have "s + (a - d) \<noteq> d" if "a - d < n"
      proof
        assume "s + (a - d) = d"
        then have "d - s = a - d" by (metis add_diff_cancel_left')
        with 1 (2) that a show False by auto
      qed
      ultimately show ?thesis
        using a step by (auto simp: algebra_simps)
    qed
  qed
qed

lemma copy_down_apply:
  "d = s \<or> n \<le> s - d \<Longrightarrow>
   copy_down m d s n a = (if a - d < n then m (s + (a - d)) else m a)"
proof (induction m d s n rule: copy_down.induct)
  case (1 m d s n)
  show ?case
  proof (cases "n = 0")
    case True
    then show ?thesis by (simp add: copy_down.simps)
  next
    case n: False
    let ?m = "m(d + (n - 1) := m (s + (n - 1)))"
    have "d = s \<or> n - 1 \<le> s - d"
      using 1 (2) n by (auto simp: word_le_nat_alt unat_minus_one)
    note next_byte = 1 (1) [OF n this]
    have step: "copy_down m d s n a = (if a - d < n - 1 then ?m (s + (a - d)) else ?m a)"
      unfolding next_byte [symmetric] using n by (subst copy_down.simps) simp
    show ?thesis
    proof (cases "a - d = n - 1")
      case True
      then have "a = d + (n - 1)" by (simp add: algebra_simps)
      then show ?thesis
        using n step True by (simp add: word_less_nat_alt unat_minus_one unat_gt_0)
    next
      case a: False
      have "a - d < n - 1 \<longleftrightarrow> a - d < n"
        using a n by (simp add: word_less_nat_alt unat_minus_one word_unat_eq_iff) linarith
      moreover have "s + (a - d) \<noteq> d + (n - 1)" if "a - d < n"
      proof
        assume "s + (a - d) = d + (n - 1)"
        then have diff: "s - d = (n - 1) - (a - d)" by (simp add: algebra_simps)
        have "a - d \<le> n - 1"
          using that n by (simp add: word_le_nat_alt word_less_nat_alt unat_minus_one)
        then have "unat (s - d) \<le> unat (n - 1)"
          unfolding diff by (subst unat_sub) simp_all
        moreover have "unat n \<le> unat (s - d)"
          using 1 (2) a diff by (metis eq_iff_diff_eq_0 word_le_nat_alt)
        ultimately show False
          using unat_pred_less [OF n] by simp
      qed
      ultimately show ?thesis
        using a step by (auto simp: algebra_simps)
    qed
  qed
qed

lemma fill_up_apply: "fill_up m d v n a = (if a - d < n then v else m a)"
proof (induction m d v n rule: fill_up.induct)
  case (1 m d v n)
  show ?case
  proof (cases "n = 0")
    case False
    have "a \<noteq> d \<Longrightarrow> a - (d + 1) < n - 1 \<longleftrightarrow> a - d < n"
      using word_pred_less [of "a - d" n] False by (simp add: algebra_simps)
    moreover have "fill_up m d v n a = (if a - (d + 1) < n - 1 then v else (m(d := v)) a)"
      unfolding 1 [OF False, symmetric] using False by (subst fill_up.simps) simp
    ultimately show ?thesis
      using False by (auto simp: word_gt_0)
  qed (simp add: fill_up.simps)
qed

section \<open>Strings in memory\<close>

lemma load_Suc: "load m p (Suc n) = m p # load m (p + 1) n"
  unfolding load_def by (rule nth_equalityI) (auto simp: nth_Cons add.assoc simp del: upt_Suc split: nat.split)

lemma load_0 [simp]: "load m p 0 = []"
  by (simp add: load_def)

lemma length_load [simp]: "length (load m p n) = n"
  by (simp add: load_def)

lemma nth_load [simp]: "i < n \<Longrightarrow> load m p n ! i = m (p + of_nat i)"
  by (simp add: load_def)

lemma c_string_Nil [simp]: "c_string m p [] \<longleftrightarrow> m p = 0"
  by (simp add: c_string_def)

lemma c_string_Cons [simp]: "c_string m p (c # cs) \<longleftrightarrow> m p = c \<and> c \<noteq> 0 \<and> c_string m (p + 1) cs"
  by (auto simp: c_string_def load_Suc add.assoc)

text \<open>A string is determined by its address.\<close>

lemma c_string_unique: "c_string m p cs \<Longrightarrow> c_string m p ds \<Longrightarrow> cs = ds"
proof (induction cs arbitrary: p ds)
  case (Cons c cs)
  then show ?case by (cases ds) auto
qed (metis c_string_Cons c_string_Nil list.exhaust)

text \<open>A string ends before the addresses wrap.\<close>

lemma c_string_short:
  assumes "c_string m p cs"
  shows "length cs < 2 ^ 32"
proof (rule ccontr)
  assume long: "\<not> length cs < 2 ^ 32"
  define j where "j = length cs - 2 ^ 32"
  then have "length cs = j + 2 ^ 32" using long by simp
  then have j: "j < length cs" "(of_nat (length cs) :: u32) = of_nat j"
    by simp_all
  then have "cs ! j = 0"
    using assms by (metis c_string_def nth_load)
  with j assms show False
    by (metis c_string_def nth_mem)
qed

end
