(* ===== verification/Runtime.thy ===== *)
theory Runtime
  imports Memory
begin

text \<open>
  The two freestanding C runtimes: \<^verbatim>\<open>corpus/edge_cases/support/runtime.c\<close>, linked into the corpus
  programs, and \<^verbatim>\<open>qualification/mquickjs/mini_libc.c\<close>, linked into the JavaScript engine.  A function
  that writes memory returns its pointer and the new store.  The string loops have no bound of
  their own: they are partial functions, and the lemmas say when they return.
\<close>

section \<open>Support runtime of the corpus\<close>

definition memcpy :: "u32 \<Rightarrow> u32 \<Rightarrow> u32 \<Rightarrow> mem \<Rightarrow> u32 \<times> mem" where
  "memcpy destination source len m = (destination, copy_up m destination source len)"

definition memset :: "u32 \<Rightarrow> u32 \<Rightarrow> u32 \<Rightarrow> mem \<Rightarrow> u32 \<times> mem" where
  "memset destination value len m = (destination, fill_up m destination (to_u8 value) len)"

definition memmove :: "u32 \<Rightarrow> u32 \<Rightarrow> u32 \<Rightarrow> mem \<Rightarrow> u32 \<times> mem" where
  "memmove destination source len m =
     (if destination < source then (destination, copy_up m destination source len)
      else (destination, copy_down m destination source len))"

definition aeabi_memclr4 :: "u32 \<Rightarrow> u32 \<Rightarrow> mem \<Rightarrow> mem" where
  "aeabi_memclr4 destination len m = fill_up m destination 0 len"

definition aeabi_memclr8 :: "u32 \<Rightarrow> u32 \<Rightarrow> mem \<Rightarrow> mem" where
  "aeabi_memclr8 destination len m = aeabi_memclr4 destination len m"

definition aeabi_memclr :: "u32 \<Rightarrow> u32 \<Rightarrow> mem \<Rightarrow> mem" where
  "aeabi_memclr destination len m = aeabi_memclr4 destination len m"

definition aeabi_memcpy4 :: "u32 \<Rightarrow> u32 \<Rightarrow> u32 \<Rightarrow> mem \<Rightarrow> mem" where
  "aeabi_memcpy4 destination source len m = copy_up m destination source len"

definition aeabi_memcpy8 :: "u32 \<Rightarrow> u32 \<Rightarrow> u32 \<Rightarrow> mem \<Rightarrow> mem" where
  "aeabi_memcpy8 destination source len m = aeabi_memcpy4 destination source len m"

definition aeabi_memcpy :: "u32 \<Rightarrow> u32 \<Rightarrow> u32 \<Rightarrow> mem \<Rightarrow> mem" where
  "aeabi_memcpy destination source len m = aeabi_memcpy4 destination source len m"

definition aeabi_memmove :: "u32 \<Rightarrow> u32 \<Rightarrow> u32 \<Rightarrow> mem \<Rightarrow> mem" where
  "aeabi_memmove destination source len m = snd (memmove destination source len m)"

definition aeabi_memmove4 :: "u32 \<Rightarrow> u32 \<Rightarrow> u32 \<Rightarrow> mem \<Rightarrow> mem" where
  "aeabi_memmove4 destination source len m = snd (memmove destination source len m)"

definition aeabi_memmove8 :: "u32 \<Rightarrow> u32 \<Rightarrow> u32 \<Rightarrow> mem \<Rightarrow> mem" where
  "aeabi_memmove8 destination source len m = snd (memmove destination source len m)"

section \<open>Library of the JavaScript engine: memory\<close>

definition libc_memcpy :: "u32 \<Rightarrow> u32 \<Rightarrow> u32 \<Rightarrow> mem \<Rightarrow> u32 \<times> mem" where
  "libc_memcpy destination source len m = (destination, copy_up m destination source len)"

definition libc_memmove :: "u32 \<Rightarrow> u32 \<Rightarrow> u32 \<Rightarrow> mem \<Rightarrow> u32 \<times> mem" where
  "libc_memmove destination source len m =
     (if destination < source then libc_memcpy destination source len m
      else (destination, copy_down m destination source len))"

definition libc_memset :: "u32 \<Rightarrow> u32 \<Rightarrow> u32 \<Rightarrow> mem \<Rightarrow> u32 \<times> mem" where
  "libc_memset destination value len m = (destination, fill_up m destination (to_u8 value) len)"

function memcmp :: "mem \<Rightarrow> u32 \<Rightarrow> u32 \<Rightarrow> u32 \<Rightarrow> int" where
  "memcmp m a b len =
     (if len = 0 then 0
      else if m a \<noteq> m b then uint (m a) - uint (m b)
      else memcmp m (a + 1) (b + 1) (len - 1))"
  by pat_completeness auto

termination memcmp
  by (relation "measure (\<lambda>(m, a, b, n). unat n)") (auto intro: unat_pred_less)

section \<open>Strings\<close>

partial_function (option) string_end :: "mem \<Rightarrow> u32 \<Rightarrow> u32 option" where
  "string_end m p = (if m p \<noteq> 0 then string_end m (p + 1) else Some p)"

definition strlen :: "mem \<Rightarrow> u32 \<Rightarrow> u32 option" where
  "strlen m text = map_option (\<lambda>e. e - text) (string_end m text)"

partial_function (option) strcmp :: "mem \<Rightarrow> u32 \<Rightarrow> u32 \<Rightarrow> int option" where
  "strcmp m left right =
     (if m left \<noteq> 0 \<and> m left = m right then strcmp m (left + 1) (right + 1)
      else Some (uint (m left) - uint (m right)))"

text \<open>The null pointer is address 0.\<close>

partial_function (option) strchr :: "mem \<Rightarrow> u32 \<Rightarrow> u32 \<Rightarrow> u32 option" where
  "strchr m text character =
     (if m text = to_u8 character then Some text
      else if m text \<noteq> 0 then strchr m (text + 1) character
      else Some 0)"

section \<open>Arithmetic\<close>

text \<open>\<open>-value\<close> overflows for the least integer: undefined.  A double is its 64 bits.\<close>

definition abs_int :: "int \<Rightarrow> int option" where
  "abs_int value = (if value < 0 then (if value = - (2 ^ 31) then None else Some (- value)) else Some value)"

definition fabs_bits :: "u64 \<Rightarrow> u64" where
  "fabs_bits bits = bits AND 0x7fffffffffffffff"

definition copysign_bits :: "u64 \<Rightarrow> u64 \<Rightarrow> u64" where
  "copysign_bits left right = (left AND 0x7fffffffffffffff) OR (right AND 0x8000000000000000)"

section \<open>The fallback heap\<close>

text \<open>\<open>base\<close> is the address the linker gives \<^verbatim>\<open>fallback_heap\<close>; the state is \<^verbatim>\<open>fallback_heap_used\<close>.\<close>

definition fallback_heap_size :: u32 where
  "fallback_heap_size = 32 * 1024"

definition round_up8 :: "u32 \<Rightarrow> u32" where
  "round_up8 len = (len + 7) AND NOT 7"

definition malloc :: "u32 \<Rightarrow> u32 \<Rightarrow> u32 \<Rightarrow> u32 \<times> u32" where
  "malloc base len used =
     (let len = round_up8 len in
      if fallback_heap_size - used < len then (0, used) else (base + used, used + len))"

definition libc_free :: "u32 \<Rightarrow> u32 \<Rightarrow> u32" where
  "libc_free pointer used = used"

definition realloc :: "u32 \<Rightarrow> u32 \<Rightarrow> u32 \<Rightarrow> u32 \<Rightarrow> u32 \<times> u32" where
  "realloc base pointer len used = (if pointer = 0 then malloc base len used else (0, used))"

section \<open>Stubs\<close>

text \<open>\<open>longjmp\<close> and \<open>abort\<close> store an exit code in the harness register and never return.\<close>

definition libc_printf :: "u32 \<Rightarrow> int" where
  "libc_printf format = 0"

definition snprintf :: "u32 \<Rightarrow> u32 \<Rightarrow> u32 \<Rightarrow> mem \<Rightarrow> int \<times> mem" where
  "snprintf buffer len format m = (0, if len \<noteq> 0 then m(buffer := 0) else m)"

definition setjmp :: "u32 \<Rightarrow> int" where
  "setjmp environment = 0"

datatype stop = Exit_Store u32 u32

definition longjmp :: "u32 \<Rightarrow> int \<Rightarrow> stop" where
  "longjmp environment value = Exit_Store 0xfffffff0 98"

definition libc_abort :: stop where
  "libc_abort = Exit_Store 0xfffffff0 99"

section \<open>Memory functions against simultaneous copies\<close>

text \<open>What the C standard promises: the bytes of the source range as they were before the call.\<close>

definition moved :: "u32 \<Rightarrow> u32 \<Rightarrow> u32 \<Rightarrow> mem \<Rightarrow> mem" where
  "moved d s n m = (\<lambda>a. if a - d < n then m (s + (a - d)) else m a)"

lemma copy_up_moved: "d = s \<or> n \<le> d - s \<Longrightarrow> copy_up m d s n = moved d s n m"
  by (rule ext) (simp add: copy_up_apply moved_def)

lemma copy_down_moved: "d = s \<or> n \<le> s - d \<Longrightarrow> copy_down m d s n = moved d s n m"
  by (rule ext) (simp add: copy_down_apply moved_def)

lemma load_moved:
  "n \<le> unat len \<Longrightarrow> load (moved d s len m) d n = load m s n"
proof (rule nth_equalityI)
  fix i assume i: "i < length (load (moved d s len m) d n)" "n \<le> unat len"
  then have "i < unat len" by (simp add: load_def)
  then have "(of_nat i :: u32) < len"
    by (rule of_nat_less_word)
  with i show "load (moved d s len m) d n ! i = load m s n ! i"
    by (simp add: load_def moved_def)
qed (simp add: load_def)

lemma wrap_gap: "a < b \<Longrightarrow> unat b + unat n \<le> 2 ^ 32 \<Longrightarrow> n \<le> a - (b :: u32)"
  by (simp add: word_le_nat_alt word_less_nat_alt unat_sub_if')

lemma memmove_moved:
  assumes "unat d + unat n \<le> 2 ^ 32" "unat s + unat n \<le> 2 ^ 32"
  shows "memmove d s n m = (d, moved d s n m)"
proof (cases d s rule: linorder_cases)
  case less
  with assms show ?thesis by (simp add: memmove_def copy_up_moved wrap_gap)
next
  case equal
  then show ?thesis by (simp add: memmove_def copy_down_moved)
next
  case greater
  with assms show ?thesis
    by (simp add: memmove_def copy_down_moved wrap_gap less_imp_le leD)
qed

lemma libc_memmove_moved:
  assumes "unat d + unat n \<le> 2 ^ 32" "unat s + unat n \<le> 2 ^ 32"
  shows "libc_memmove d s n m = (d, moved d s n m)"
proof -
  have "libc_memmove d s n m = memmove d s n m"
    by (simp add: libc_memmove_def libc_memcpy_def memmove_def)
  then show ?thesis by (simp add: memmove_moved [OF assms])
qed

section \<open>Comparison and strings\<close>

abbreviation byte_less :: "(u8 \<times> u8) set" where
  "byte_less \<equiv> {(a, b). a < b}"

text \<open>The sign of a byte-wise comparison: zero exactly for equal strings, negative exactly for a
  string that comes first in the order of unsigned bytes.\<close>

definition compares :: "int \<Rightarrow> bytes \<Rightarrow> bytes \<Rightarrow> bool" where
  "compares r cs ds \<longleftrightarrow> (r = 0 \<longleftrightarrow> cs = ds) \<and> (r < 0 \<longleftrightarrow> (cs, ds) \<in> lexord byte_less)"

lemma compares_head: "a \<noteq> b \<Longrightarrow> compares (uint a - uint b) (a # cs) (b # ds)"
  by (auto simp: compares_def word_less_def word_uint_eq_iff)

lemma compares_tail: "compares r cs ds \<Longrightarrow> compares r (a # cs) (a # ds)"
  by (simp add: compares_def)

lemma memcmp_compares: "compares (memcmp m a b n) (load m a (unat n)) (load m b (unat n))"
proof (induction m a b n rule: memcmp.induct)
  case (1 m a b n)
  show ?case
  proof (cases "n = 0")
    case True
    then show ?thesis by (simp add: compares_def)
  next
    case n: False
    then have "unat n = Suc (unat (n - 1))"
      by (simp add: unat_minus_one unat_gt_0)
    with 1 [OF n] n show ?thesis
      by (cases "m a = m b")
        (simp_all add: memcmp.simps [of m a b n] load_Suc compares_head compares_tail del: memcmp.simps)
  qed
qed

lemma string_end_string: "c_string m p cs \<Longrightarrow> string_end m p = Some (p + of_nat (length cs))"
  by (induction cs arbitrary: p) (simp_all add: string_end.simps add.assoc)

lemma strlen_string: "c_string m p cs \<Longrightarrow> strlen m p = Some (of_nat (length cs))"
  by (simp add: strlen_def string_end_string)

lemma string_end_finds: "m (p + of_nat k) = 0 \<Longrightarrow> \<exists>e. string_end m p = Some e"
proof (induction k arbitrary: p)
  case (Suc k)
  then show ?case by (subst string_end.simps) (simp add: add.assoc)
qed (subst string_end.simps, simp)

lemma string_end_zero: "string_end m p = Some e \<Longrightarrow> m e = 0"
  by (erule string_end.raw_induct [rotated]) (auto split: if_splits)

lemma string_end_split: "string_end m p = Some e \<Longrightarrow> \<exists>cs. c_string m p cs \<and> e = p + of_nat (length cs)"
proof (erule string_end.raw_induct [rotated])
  fix next_end m p e
  assume IH: "\<And>m p e. next_end m p = Some e \<Longrightarrow> \<exists>cs. c_string m p cs \<and> e = p + of_nat (length cs)"
    and step: "(if m p \<noteq> 0 then next_end m (p + 1) else Some p) = Some (e :: u32)"
  show "\<exists>cs. c_string m p cs \<and> e = p + of_nat (length cs)"
  proof (cases "m p = 0")
    case True
    with step show ?thesis by (intro exI [of _ "[]"]) simp
  next
    case False
    with step IH obtain cs where "c_string m (p + 1) cs" "e = p + 1 + of_nat (length cs)"
      by (metis (no_types, lifting))
    with False show ?thesis by (intro exI [of _ "m p # cs"]) (simp add: add.assoc)
  qed
qed

lemma strlen_load: "strlen m p = Some n \<Longrightarrow> c_string m p (load m p (unat n))"
proof -
  assume "strlen m p = Some n"
  then obtain cs where cs: "c_string m p cs" "n = of_nat (length cs)"
    using string_end_split by (fastforce simp: strlen_def)
  then have "unat n = length cs"
    using c_string_short [OF cs(1)] by (simp add: unsigned_of_nat take_bit_nat_eq_self)
  with cs show ?thesis by (metis c_string_def)
qed

lemma strlen_returns: "(\<exists>n. strlen m p = Some n) \<longleftrightarrow> (\<exists>a. m a = 0)"
proof
  assume "\<exists>a. m a = 0"
  then obtain a where "m a = 0" by blast
  then have "m (p + of_nat (unat (a - p))) = 0" by simp
  then show "\<exists>n. strlen m p = Some n"
    using string_end_finds by (fastforce simp: strlen_def)
qed (auto simp: strlen_def dest: string_end_zero)

lemma strcmp_compares:
  "c_string m p cs \<Longrightarrow> c_string m q ds \<Longrightarrow> \<exists>r. strcmp m p q = Some r \<and> compares r cs ds"
proof (induction cs arbitrary: p q ds)
  case Nil
  then show ?case
    by (cases ds) (auto simp: strcmp.simps compares_def word_uint_eq_iff less_le)
next
  case (Cons c cs)
  show ?case
  proof (cases ds)
    case Nil
    with Cons.prems show ?thesis
      by (auto simp: strcmp.simps compares_def word_uint_eq_iff not_less)
  next
    case (Cons d ds')
    show ?thesis
    proof (cases "c = d")
      case True
      with Cons Cons.prems Cons.IH [of "p + 1" "q + 1" ds'] show ?thesis
        by (subst strcmp.simps) (auto intro: compares_tail)
    next
      case False
      with Cons Cons.prems show ?thesis
        by (subst strcmp.simps) (auto intro: compares_head)
    qed
  qed
qed

lemma strchr_string:
  "c_string m p cs \<Longrightarrow>
   strchr m p ch = Some (if to_u8 ch = 0 then p + of_nat (length cs)
                         else if to_u8 ch \<in> set cs
                         then p + of_nat (length (takeWhile (\<lambda>c. c \<noteq> to_u8 ch) cs))
                         else 0)"
  by (induction cs arbitrary: p) (auto simp: strchr.simps add.assoc)

lemma abs_int_magnitude: "abs_int v = Some w \<Longrightarrow> w = \<bar>v\<bar>"
  by (auto simp: abs_int_def split: if_splits)

lemma sign_masks: "(0x7fffffffffffffff :: u64) = mask 63" "(0x8000000000000000 :: u64) = NOT (mask 63)"
  by (simp_all add: mask_eq_exp_minus_1 not_eq_complement)

lemma copysign_restores: "copysign_bits (fabs_bits b) b = b" "copysign_bits b b = b"
  "fabs_bits (copysign_bits b c) = fabs_bits b"
  unfolding copysign_bits_def fabs_bits_def sign_masks
  by (rule bit_word_eqI; auto simp: bit_simps)+

section \<open>The heap over every sequence of calls\<close>

datatype heap_call = Malloc u32 | Free u32 | Realloc u32 u32

fun heap_step :: "u32 \<Rightarrow> heap_call \<Rightarrow> u32 \<Rightarrow> u32 \<times> u32" where
  "heap_step base (Malloc len) used = malloc base len used"
| "heap_step base (Free p) used = (0, libc_free p used)"
| "heap_step base (Realloc p len) used = realloc base p len used"

fun requested :: "heap_call \<Rightarrow> u32" where
  "requested (Malloc len) = len"
| "requested (Free p) = 0"
| "requested (Realloc p len) = len"

text \<open>The blocks handed out, oldest first, and the fill level after the calls.\<close>

fun heap_run :: "u32 \<Rightarrow> heap_call list \<Rightarrow> u32 \<Rightarrow> (u32 \<times> u32) list \<times> u32" where
  "heap_run base [] used = ([], used)"
| "heap_run base (c # cs) used =
     (case heap_step base c used of (p, used) \<Rightarrow>
        case heap_run base cs used of (blocks, used) \<Rightarrow>
          (if p = 0 then blocks else (p, requested c) # blocks, used))"

definition heap_ok :: "u32 \<Rightarrow> bool" where
  "heap_ok used \<longleftrightarrow> unat used \<le> 32768 \<and> 8 dvd unat used"

lemma unat_round_up8:
  assumes "len \<le> 0xfffffff8"
  shows "unat (round_up8 len) = 8 * ((unat len + 7) div 8)"
proof -
  have "round_up8 len = push_bit 3 (drop_bit 3 (len + 7))"
  proof -
    have seven: "(7 :: u32) = mask 3" by (simp add: mask_eq_exp_minus_1)
    have "w AND NOT (mask 3) = push_bit 3 (drop_bit 3 w)" for w :: u32
      by (rule bit_word_eqI) (auto simp: bit_simps)
    then show ?thesis
      unfolding round_up8_def seven .
  qed
  moreover have "unat (len + 7) = unat len + 7"
    using assms by (subst unat_add_lem [THEN iffD1]) (simp_all add: word_le_nat_alt)
  moreover have "8 * ((unat len + 7) div 8) < 2 ^ 32"
    using assms by (simp add: word_le_nat_alt)
  moreover have "unat (push_bit 3 (drop_bit 3 w)) = take_bit 32 (push_bit 3 (drop_bit 3 (unat w)))" for w :: u32
    using unsigned_less [of w, where 'a = nat]
    by (simp add: unsigned_push_bit_eq unsigned_drop_bit_eq take_bit_nat_eq_self)
  ultimately show ?thesis
    by (simp add: push_bit_nat_def drop_bit_nat_def take_bit_nat_eq_self mult.commute)
qed

lemma malloc_step:
  assumes "heap_ok used" "len \<le> 0xfffffff8" "0 < base" "unat base + 32768 \<le> 2 ^ 32"
    "malloc base len used = (p, used')"
  shows "heap_ok used'" "unat used \<le> unat used'"
    "p \<noteq> 0 \<Longrightarrow> unat p = unat base + unat used \<and> unat used + unat len \<le> unat used'"
proof -
  let ?n = "8 * ((unat len + 7) div 8)"
  have n: "unat (round_up8 len) = ?n" "unat len \<le> ?n"
    using unat_round_up8 [OF assms(2)] by simp_all
  have room: "unat (fallback_heap_size - used) = 32768 - unat used"
    using assms(1) by (simp add: heap_ok_def fallback_heap_size_def unat_sub word_le_nat_alt)
  have top: "unat (base + used) = unat base + unat used" if "base + used \<noteq> 0"
  proof -
    have "unat base + unat used \<le> 2 ^ 32"
      using assms(1,4) by (simp add: heap_ok_def)
    moreover have "unat base + unat used \<noteq> 2 ^ 32"
      using that by (auto simp: word_unat_eq_iff unat_word_ariths)
    ultimately show ?thesis
      by (simp add: unat_word_ariths)
  qed
  show "heap_ok used'" "unat used \<le> unat used'"
    "p \<noteq> 0 \<Longrightarrow> unat p = unat base + unat used \<and> unat used + unat len \<le> unat used'"
    using assms n room top
    by (auto simp: malloc_def Let_def heap_ok_def word_less_nat_alt unat_word_ariths(1) split: if_splits)
qed

lemma heap_step_ok:
  assumes "heap_ok used" "requested c \<le> 0xfffffff8" "0 < base" "unat base + 32768 \<le> 2 ^ 32"
    "heap_step base c used = (p, used')"
  shows "heap_ok used' \<and> unat used \<le> unat used' \<and>
         (p \<noteq> 0 \<longrightarrow> unat p = unat base + unat used \<and> unat used + unat (requested c) \<le> unat used')"
  using assms malloc_step [OF assms(1) _ assms(3,4)]
  by (cases c) (auto simp: libc_free_def realloc_def split: if_splits)

text \<open>A block ends before the next one starts.\<close>

definition before :: "u32 \<times> u32 \<Rightarrow> u32 \<times> u32 \<Rightarrow> bool" where
  "before x y \<longleftrightarrow> unat (fst x) + unat (snd x) \<le> unat (fst y)"

lemma heap_run_blocks:
  assumes "0 < base" "unat base + 32768 \<le> 2 ^ 32"
  shows "heap_ok used \<Longrightarrow> \<forall>c\<in>set cs. requested c \<le> 0xfffffff8 \<Longrightarrow>
    heap_run base cs used = (blocks, used') \<Longrightarrow>
    heap_ok used' \<and> unat used \<le> unat used' \<and> sorted_wrt before blocks \<and>
    (\<forall>(p, n)\<in>set blocks. unat base + unat used \<le> unat p \<and> unat p + unat n \<le> unat base + unat used')"
proof (induction cs arbitrary: used blocks)
  case (Cons c cs)
  obtain p u where c: "heap_step base c used = (p, u)" by fastforce
  obtain bs u' where cs: "heap_run base cs u = (bs, u')" by fastforce
  note first = heap_step_ok [OF Cons.prems(1) _ assms c]
  have "heap_ok u" "\<forall>c\<in>set cs. requested c \<le> 0xfffffff8"
    using first Cons.prems(2) by auto
  note rest = Cons.IH [OF this]
  have u': "u' = used'" and blocks: "blocks = (if p = 0 then bs else (p, requested c) # bs)"
    using Cons.prems(3) c cs by simp_all
  have tail: "heap_ok used'" "unat u \<le> unat used'" "sorted_wrt before bs"
    "\<And>q n. (q, n) \<in> set bs \<Longrightarrow> unat base + unat u \<le> unat q \<and> unat q + unat n \<le> unat base + unat used'"
    using rest [of bs] cs u' by auto
  have head: "unat used \<le> unat u"
    "p \<noteq> 0 \<Longrightarrow> unat p = unat base + unat used \<and> unat used + unat (requested c) \<le> unat u"
    using first Cons.prems(2) by auto
  have "before (p, requested c) x" if "p \<noteq> 0" "x \<in> set bs" for x
    using tail(4) [of "fst x" "snd x"] head(2) that by (simp add: before_def)
  then show ?case
    unfolding blocks using tail head by (auto dest!: tail(4))
qed auto

text \<open>
  The rounding wraps: the seven largest requests are rounded to zero, and \<open>malloc\<close> answers them
  with a block of no bytes instead of NULL.
\<close>

lemma malloc_huge: "0xfffffff8 < len \<Longrightarrow> malloc base len used = (base + used, used)"
proof -
  assume "0xfffffff8 < len"
  then have "unat (len + 7) < 8"
    using unsigned_less [of len, where 'a = nat]
    by (simp add: word_less_nat_alt unat_word_ariths mod_if) linarith
  then have "take_bit 3 (len + 7) = len + 7"
    by (simp add: word_unat_eq_iff unsigned_take_bit_eq take_bit_nat_eq_self)
  moreover have "take_bit 3 w AND NOT 7 = 0" for w :: u32
  proof -
    have seven: "(7 :: u32) = mask 3" by (simp add: mask_eq_exp_minus_1)
    show ?thesis unfolding seven by (rule bit_word_eqI) (simp add: bit_simps)
  qed
  ultimately have "(len + 7) AND NOT 7 = 0" by metis
  then show ?thesis
    by (simp add: malloc_def round_up8_def)
qed

section \<open>Properties\<close>

text \<open>C37.
  Both \<open>memmove\<close> functions move the source range as it was before the call, for every overlap of
  the two ranges, and leave the rest of memory alone; the ranges must not wrap around the address
  space.
\<close>

theorem memmove_correct:
  assumes "unat d + unat n \<le> 2 ^ 32" "unat s + unat n \<le> 2 ^ 32"
  shows "memmove d s n m = (d, moved d s n m) \<and> libc_memmove d s n m = (d, moved d s n m) \<and>
    load (snd (memmove d s n m)) d (unat n) = load m s (unat n)"
  using memmove_moved [OF assms] libc_memmove_moved [OF assms] by (simp add: load_moved)

text \<open>Four bytes are moved up by two.\<close>

theorem memmove_correct_witness:
  "load (snd (memmove 0x1002 0x1000 4 (store_bytes 0x1000 [1, 2, 3, 4] (\<lambda>a. 0)))) 0x1002 4 = [1, 2, 3, 4]"
proof -
  define m :: mem where "m = store_bytes 0x1000 [1, 2, 3, 4] (\<lambda>a. 0)"
  have "load m 0x1000 4 = [1, 2, 3, 4]"
    by (simp add: m_def load_def upt_rec)
  then show ?thesis
    unfolding m_def [symmetric] using memmove_correct [of "0x1002" 4 "0x1000" m] by (simp add: load_moved)
qed

text \<open>C38.
  The string functions return on C strings, with the length, the comparison of unsigned bytes and
  the first occurrence; and \<open>strlen\<close> returns exactly when memory holds a zero byte at all.
\<close>

theorem string_functions_return:
  assumes "c_string m p cs" "c_string m q ds"
  shows "strlen m p = Some (of_nat (length cs)) \<and>
    (\<exists>r. strcmp m p q = Some r \<and> compares r cs ds) \<and>
    strchr m p ch = Some (if to_u8 ch = 0 then p + of_nat (length cs)
                          else if to_u8 ch \<in> set cs
                          then p + of_nat (length (takeWhile (\<lambda>c. c \<noteq> to_u8 ch) cs))
                          else 0) \<and>
    (\<forall>m' p'. (\<exists>n. strlen m' p' = Some n) \<longleftrightarrow> (\<exists>a. m' a = 0))"
  using strlen_string [OF assms(1)] strcmp_compares [OF assms] strchr_string [OF assms(1)] strlen_returns
  by simp

text \<open>The strings ab and b, and the position of b in the first.\<close>

theorem string_functions_return_witness:
  "strlen (store_bytes 0x100 [97, 98, 0, 98, 0] (\<lambda>a. 1)) 0x100 = Some 2 \<and>
   strchr (store_bytes 0x100 [97, 98, 0, 98, 0] (\<lambda>a. 1)) 0x100 98 = Some 0x101"
proof -
  let ?m = "store_bytes 0x100 [97, 98, 0, 98, 0] (\<lambda>a. 1)"
  have "c_string ?m 0x100 [97, 98]" "c_string ?m 0x103 [98]" by simp_all
  from string_functions_return [OF this, of 98] show ?thesis by simp
qed



end
