(* ===== verification/Printf.thy ===== *)
theory Printf
  imports Runtime
begin

text \<open>
  The CoreMark port: its clock (\<^verbatim>\<open>qualification/coremark/core_portme.c\<close>) and its formatted output
  (\<^verbatim>\<open>ee_printf.c\<close>).  A character is
  written by a store to the console register; the model collects the bytes.  The variable arguments
  are the words the caller passes; int, long and pointers have 32 bits on the targets.  Reading past
  the last argument, an overflowing field width and a count of characters that leaves the range of
  int are undefined in C and are errors here.
\<close>

section \<open>The clock of the port\<close>

text \<open>\<open>now\<close> is what the tick register answers.\<close>

record core_clock =
  start_ticks :: u32
  stop_ticks :: u32

definition start_time :: "u32 \<Rightarrow> core_clock \<Rightarrow> core_clock" where
  "start_time now c = c\<lparr>start_ticks := now\<rparr>"

definition stop_time :: "u32 \<Rightarrow> core_clock \<Rightarrow> core_clock" where
  "stop_time now c = c\<lparr>stop_ticks := now\<rparr>"

definition get_time :: "core_clock \<Rightarrow> u32" where
  "get_time c = stop_ticks c - start_ticks c"

definition time_in_secs :: "u32 \<Rightarrow> u32" where
  "time_in_secs ticks = ticks div 1000000"

definition align_mem :: "u32 \<Rightarrow> u32" where
  "align_mem v = 4 + ((v - 1) AND NOT 3)"

record core_portable =
  portable_id :: u8

text \<open>The two size checks compare constants of the targets and never print.\<close>

definition portable_init :: "core_portable \<Rightarrow> core_portable" where
  "portable_init p = p\<lparr>portable_id := 1\<rparr>"

definition portable_fini :: "core_portable \<Rightarrow> core_portable" where
  "portable_fini p = p\<lparr>portable_id := 0\<rparr>"

text \<open>The measured time is right across one wrap of the tick register.\<close>

lemma get_time_elapsed:
  "elapsed < 2 ^ 32 \<Longrightarrow> unat (get_time (stop_time (t + of_nat elapsed) (start_time t c))) = elapsed"
  by (simp add: get_time_def stop_time_def start_time_def unsigned_of_nat take_bit_nat_eq_self)

section \<open>The routines\<close>

datatype printf_error = Missing_Argument | Width_Overflow | Count_Overflow

text \<open>The value of a signed addition is defined in C when it is in the range of int.\<close>

definition fits_int :: "int \<Rightarrow> bool" where
  "fits_int n \<longleftrightarrow> - (2 ^ 31) \<le> n \<and> n < 2 ^ 31"

definition put_character :: "u8 \<Rightarrow> bytes \<Rightarrow> bytes" where
  "put_character character out = out @ [character]"

partial_function (option) put_string ::
  "mem \<Rightarrow> u32 \<Rightarrow> int \<Rightarrow> bytes \<Rightarrow> (printf_error + int \<times> bytes) option" where
  "put_string m text written out =
     (if m text \<noteq> 0 then
        (let out = put_character (m text) out in
         if fits_int (written + 1) then put_string m (text + 1) (written + 1) out
         else Some (Inl Count_Overflow))
      else Some (Inr (written, out)))"

definition digit_character :: "u32 \<Rightarrow> u8" where
  "digit_character digit = (if digit < 10 then 48 + to_u8 digit else 97 + to_u8 digit - 10)"

text \<open>The digits collected so far are the first \<open>count\<close> elements of the array.\<close>

partial_function (option) digit_loop :: "u32 \<Rightarrow> u32 \<Rightarrow> bytes \<Rightarrow> bytes option" where
  "digit_loop value radix digits =
     (let digits = digits @ [digit_character (value mod radix)]; value = value div radix in
      if value \<noteq> 0 then digit_loop value radix digits else Some digits)"

function pad_loop :: "int \<Rightarrow> int \<Rightarrow> u8 \<Rightarrow> int \<Rightarrow> bytes \<Rightarrow> printf_error + int \<times> bytes" where
  "pad_loop width count pad written out =
     (if count < width then
        (let out = put_character pad out in
         if fits_int (written + 1) then pad_loop (width - 1) count pad (written + 1) out
         else Inl Count_Overflow)
      else Inr (written, out))"
  by pat_completeness auto

termination pad_loop
  by (relation "measure (\<lambda>(width, count, pad, written, out). nat (width - count))") auto

fun put_digits :: "bytes \<Rightarrow> nat \<Rightarrow> int \<Rightarrow> bytes \<Rightarrow> printf_error + int \<times> bytes" where
  "put_digits digits 0 written out = Inr (written, out)"
| "put_digits digits (Suc count) written out =
     (let out = put_character (digits ! count) out in
      if fits_int (written + 1) then put_digits digits count (written + 1) out
      else Inl Count_Overflow)"

definition put_unsigned :: "u32 \<Rightarrow> u32 \<Rightarrow> int \<Rightarrow> u8 \<Rightarrow> bytes \<Rightarrow> (printf_error + int \<times> bytes) option" where
  "put_unsigned value radix width pad out =
     (case digit_loop value radix [] of None \<Rightarrow> None
      | Some digits \<Rightarrow>
          (case pad_loop width (int (length digits)) pad 0 out of
             Inl e \<Rightarrow> Some (Inl e)
           | Inr (written, out) \<Rightarrow> Some (put_digits digits (length digits) written out)))"

partial_function (option) width_loop :: "mem \<Rightarrow> u32 \<Rightarrow> int \<Rightarrow> (printf_error + int \<times> u32) option" where
  "width_loop m format width =
     (if 48 \<le> m format \<and> m format \<le> 57 then
        (let width = width * 10 + (uint (m format) - 48) in
         if 2 ^ 31 \<le> width then Some (Inl Width_Overflow) else width_loop m (format + 1) width)
      else Some (Inr (width, format)))"

text \<open>The switch on the conversion character, with the arguments left.\<close>

definition convert ::
  "mem \<Rightarrow> u8 \<Rightarrow> int \<Rightarrow> u8 \<Rightarrow> u32 list \<Rightarrow> int \<Rightarrow> bytes \<Rightarrow> (printf_error + u32 list \<times> int \<times> bytes) option" where
  "convert m conversion width pad arguments written out =
     (let add = (\<lambda>written n rest out.
            if fits_int (written + n) then Some (Inr (rest, written + n, out)) else Some (Inl Count_Overflow));
          add_result = (\<lambda>written result rest.
            (case result of None \<Rightarrow> None | Some (Inl e) \<Rightarrow> Some (Inl e)
             | Some (Inr (n, out)) \<Rightarrow> add written n rest out));
          with_argument = (\<lambda>k. case arguments of [] \<Rightarrow> Some (Inl Missing_Argument) | a # rest \<Rightarrow> k a rest) in
      if conversion = 37 then add written 1 arguments (put_character 37 out)
      else if conversion = 99 then
        with_argument (\<lambda>a rest. add written 1 rest (put_character (to_u8 a) out))
      else if conversion = 115 then
        with_argument (\<lambda>a rest. add_result written (put_string m a 0 out) rest)
      else if conversion = 100 then
        with_argument (\<lambda>a rest.
          if a <s 0 then
            (let out = put_character 45 out in
             if fits_int (written + 1)
             then add_result (written + 1) (put_unsigned (0 - a) 10 width pad out) rest
             else Some (Inl Count_Overflow))
          else add_result written (put_unsigned a 10 width pad out) rest)
      else if conversion = 117 then
        with_argument (\<lambda>a rest. add_result written (put_unsigned a 10 width pad out) rest)
      else if conversion = 120 then
        with_argument (\<lambda>a rest. add_result written (put_unsigned a 16 width pad out) rest)
      else add written 1 arguments (put_character 63 out))"

partial_function (option) format_loop ::
  "mem \<Rightarrow> u32 \<Rightarrow> u32 list \<Rightarrow> int \<Rightarrow> bytes \<Rightarrow> (printf_error + int \<times> bytes) option" where
  "format_loop m format arguments written out =
     (if m format = 0 then Some (Inr (written, out))
      else if m format \<noteq> 37 then
        (let out = put_character (m format) out in
         if fits_int (written + 1) then format_loop m (format + 1) arguments (written + 1) out
         else Some (Inl Count_Overflow))
      else
        (let format = format + 1;
             pad = (if m format = 48 then 48 else 32);
             format = (if m format = 48 then format + 1 else format) in
         Option.bind (width_loop m format 0) (\<lambda>w. case w of
           Inl e \<Rightarrow> Some (Inl e)
         | Inr (width, format) \<Rightarrow>
             (let format = (if m format = 108 then format + 1 else format) in
              Option.bind (convert m (m format) width pad arguments written out) (\<lambda>r. case r of
                Inl e \<Rightarrow> Some (Inl e)
              | Inr (rest, written, out) \<Rightarrow> format_loop m (format + 1) rest written out)))))"

definition ee_printf :: "mem \<Rightarrow> u32 \<Rightarrow> u32 list \<Rightarrow> (printf_error + int \<times> bytes) option" where
  "ee_printf m format arguments = format_loop m format arguments 0 []"

declare pad_loop.simps [simp del]

section \<open>Numerals and fields\<close>

text \<open>The reference: positional numerals, most significant digit first, filled on the left.\<close>

definition digit_of :: "nat \<Rightarrow> u8" where
  "digit_of k = of_nat (if k < 10 then 48 + k else 87 + k)"

function numeral_of :: "nat \<Rightarrow> nat \<Rightarrow> bytes" where
  "numeral_of b n = (if b < 2 \<or> n < b then [digit_of n] else numeral_of b (n div b) @ [digit_of (n mod b)])"
  by pat_completeness auto

termination numeral_of
  by (relation "measure snd") auto

declare numeral_of.simps [simp del]

lemma numeral_of_digit: "n < b \<Longrightarrow> numeral_of b n = [digit_of n]"
  by (simp add: numeral_of.simps)

lemma numeral_of_more: "2 \<le> b \<Longrightarrow> b \<le> n \<Longrightarrow> numeral_of b n = numeral_of b (n div b) @ [digit_of (n mod b)]"
  by (subst numeral_of.simps) simp

definition digit_value :: "u8 \<Rightarrow> nat" where
  "digit_value c = (if c \<le> 57 then unat c - 48 else unat c - 87)"

definition numeral_value :: "nat \<Rightarrow> bytes \<Rightarrow> nat" where
  "numeral_value b = foldl (\<lambda>v c. v * b + digit_value c) 0"

definition field :: "int \<Rightarrow> u8 \<Rightarrow> bytes \<Rightarrow> bytes" where
  "field width pad ds = replicate (nat (width - int (length ds))) pad @ ds"

lemma digit_value_of [simp]: "k < 16 \<Longrightarrow> digit_value (digit_of k) = k"
  by (auto simp: digit_value_def digit_of_def word_le_nat_alt unsigned_of_nat take_bit_nat_eq_self)

lemma numeral_roundtrip: "2 \<le> b \<Longrightarrow> b \<le> 16 \<Longrightarrow> numeral_value b (numeral_of b n) = n"
proof (induction b n rule: numeral_of.induct)
  case (1 b n)
  from \<open>2 \<le> b\<close> have "n mod b < b" by simp
  with \<open>b \<le> 16\<close> have "digit_value (digit_of (n mod b)) = n mod b" by simp
  with 1 show ?case
    by (subst numeral_of.simps) (simp add: numeral_value_def)
qed

lemma length_numeral_of: "2 \<le> b \<Longrightarrow> n < b ^ k \<Longrightarrow> 0 < k \<Longrightarrow> length (numeral_of b n) \<le> k"
proof (induction k arbitrary: n)
  case (Suc k)
  show ?case
  proof (cases "n < b")
    case False
    with Suc.prems have "n div b < b ^ k" "0 < k"
      by (auto simp: div_less_iff_less_mult mult.commute intro: gr0I)
    with Suc False show ?thesis by (subst numeral_of.simps) simp
  qed (subst numeral_of.simps, simp)
qed simp

lemma digit_character_of: "d < 16 \<Longrightarrow> digit_character d = digit_of (unat d)"
  by (auto simp: digit_character_def digit_of_def word_less_nat_alt to_u8_of_nat word_unat_eq_iff
      unsigned_of_nat unat_word_ariths unsigned_ucast_eq take_bit_nat_eq_self)

lemma digit_loop_numeral:
  assumes "2 \<le> radix" "radix \<le> 16"
  shows "digit_loop v radix ds = Some (ds @ rev (numeral_of (unat radix) (unat v)))"
proof (induction "unat v" arbitrary: v ds rule: less_induct)
  case less
  have r: "2 \<le> unat radix" "unat radix \<le> 16"
    using assms by (simp_all add: word_le_nat_alt)
  have "v mod radix < 16"
    using assms r by (simp add: word_less_nat_alt unat_mod_distrib order.strict_trans2 [OF mod_less_divisor])
  then have digit: "digit_character (v mod radix) = digit_of (unat v mod unat radix)"
    by (simp add: digit_character_of unat_mod_distrib)
  show ?case
  proof (cases "v div radix = 0")
    case True
    then have "unat v < unat radix"
      using r by (simp add: word_unat_eq_iff unat_div_distrib div_eq_0_iff)
    with True digit show ?thesis
      by (subst digit_loop.simps, subst numeral_of.simps) (simp add: Let_def)
  next
    case False
    then have big: "\<not> unat v < unat radix"
      by (auto simp: word_unat_eq_iff unat_div_distrib)
    with r have "unat (v div radix) < unat v"
      by (simp add: unat_div_distrib div_less_dividend)
    with less False big r digit show ?thesis
      by (subst digit_loop.simps, subst numeral_of.simps) (simp add: Let_def unat_div_distrib)
  qed
qed

text \<open>
  What it means to write some characters: they are appended and counted, unless the count leaves
  the range of int.  Writing two texts one after the other is writing their concatenation.
\<close>

definition counted :: "int \<Rightarrow> bytes \<Rightarrow> bytes \<Rightarrow> printf_error + int \<times> bytes" where
  "counted w cs out =
     (if w + int (length cs) < 2 ^ 31 then Inr (w + int (length cs), out @ cs) else Inl Count_Overflow)"

lemma counted_nil: "w < 2 ^ 31 \<Longrightarrow> counted w [] out = Inr (w, out)"
  by (simp add: counted_def)

lemma counted_step:
  "0 \<le> w \<Longrightarrow> (if fits_int (w + 1) then counted (w + 1) cs (out @ [c]) else Inl Count_Overflow) =
     counted w (c # cs) out"
  by (auto simp: counted_def fits_int_def add_ac)

lemma counted_append:
  "0 \<le> w \<Longrightarrow> (case counted w cs out of Inl e \<Rightarrow> Inl e | Inr (v, o') \<Rightarrow> counted v ds o') = counted w (cs @ ds) out"
  by (auto simp: counted_def add_ac)

lemma pad_loop_field:
  "0 \<le> w \<Longrightarrow> w < 2 ^ 31 \<Longrightarrow>
   pad_loop width count pad w out = counted w (replicate (nat (width - count)) pad) out"
proof (induction width count pad w out rule: pad_loop.induct)
  case (1 width count pad w out)
  show ?case
  proof (cases "count < width")
    case True
    then have n: "nat (width - count) = Suc (nat (width - 1 - count))" by simp
    show ?thesis
      unfolding n replicate_Suc counted_step [OF 1(2), symmetric] using 1 True
      by (subst pad_loop.simps) (auto simp: put_character_def Let_def fits_int_def)
  qed (use 1 in \<open>simp add: pad_loop.simps counted_def\<close>)
qed

lemma put_digits_rev:
  "k \<le> length ds \<Longrightarrow> 0 \<le> w \<Longrightarrow> w < 2 ^ 31 \<Longrightarrow> put_digits ds k w out = counted w (rev (take k ds)) out"
proof (induction k arbitrary: w out)
  case (Suc k)
  then have r: "rev (take (Suc k) ds) = ds ! k # rev (take k ds)"
    by (simp add: take_Suc_conv_app_nth)
  show ?case
    unfolding r counted_step [OF Suc.prems(2), symmetric] using Suc
    by (auto simp: put_character_def Let_def fits_int_def)
qed (simp add: counted_def)

lemma put_unsigned_field:
  assumes "2 \<le> radix" "radix \<le> 16"
  shows "put_unsigned value radix width pad out =
    Some (counted 0 (field width pad (numeral_of (unat radix) (unat value))) out)"
proof -
  let ?ds = "numeral_of (unat radix) (unat value)"
  let ?p = "counted 0 (replicate (nat (width - int (length ?ds))) pad) out"
  have "put_unsigned value radix width pad out =
      Some (case ?p of Inl e \<Rightarrow> Inl e | Inr (w, out) \<Rightarrow> put_digits (rev ?ds) (length ?ds) w out)"
    unfolding put_unsigned_def digit_loop_numeral [OF assms] append_Nil option.case length_rev
    by (subst pad_loop_field) (auto split: sum.split)
  also have "(case ?p of Inl e \<Rightarrow> Inl e | Inr (w, out) \<Rightarrow> put_digits (rev ?ds) (length ?ds) w out) =
      (case ?p of Inl e \<Rightarrow> Inl e | Inr (w, out) \<Rightarrow> counted w ?ds out)"
    by (simp add: counted_def [of 0] put_digits_rev)
  finally show ?thesis
    by (simp add: counted_append field_def)
qed

lemma put_string_string:
  "c_string m p cs \<Longrightarrow> 0 \<le> w \<Longrightarrow> w < 2 ^ 31 \<Longrightarrow> put_string m p w out = Some (counted w cs out)"
proof (induction cs arbitrary: p w out)
  case (Cons c cs)
  then show ?case
    unfolding counted_step [OF Cons.prems(2), symmetric]
    by (subst put_string.simps) (auto simp: put_character_def Let_def fits_int_def)
qed (simp add: put_string.simps counted_nil)

section \<open>Formats\<close>

text \<open>
  The format language: a character, or a conversion with its flag, its width digits, its length
  modifier and its conversion character.  \<open>spell\<close> is its concrete syntax; \<open>render\<close> is the text it
  stands for, given the arguments, and the arguments left.
\<close>

datatype item = Plain u8 | Conversion bool "nat list" bool u8

fun well_formed :: "item \<Rightarrow> bool" where
  "well_formed (Plain c) \<longleftrightarrow> c \<noteq> 0 \<and> c \<noteq> 37"
| "well_formed (Conversion zero ds long c) \<longleftrightarrow>
     c \<noteq> 0 \<and> (\<not> long \<longrightarrow> c \<noteq> 108 \<and> \<not> (48 \<le> c \<and> c \<le> 57)) \<and>
     (\<forall>d\<in>set ds. d < 10) \<and> (\<not> zero \<longrightarrow> ds = [] \<or> hd ds \<noteq> 0) \<and>
     foldl (\<lambda>v d. v * 10 + d) 0 ds < 2 ^ 31"

fun spell :: "item \<Rightarrow> bytes" where
  "spell (Plain c) = [c]"
| "spell (Conversion zero ds long c) =
     37 # (if zero then [48] else []) @ map (\<lambda>d. 48 + of_nat d) ds @ (if long then [108] else []) @ [c]"

definition string_at :: "mem \<Rightarrow> u32 \<Rightarrow> bytes option" where
  "string_at m p = map_option (\<lambda>n. load m p (unat n)) (strlen m p)"

fun render :: "mem \<Rightarrow> item \<Rightarrow> u32 list \<Rightarrow> (bytes \<times> u32 list) option" where
  "render m (Plain c) args = Some ([c], args)"
| "render m (Conversion zero ds long c) args =
     (let width = int (foldl (\<lambda>v d. v * 10 + d) 0 ds);
          number = (\<lambda>b n. field width (if zero then 48 else 32) (numeral_of b n)) in
      if c = 37 then Some ([37], args)
      else if c \<notin> {99, 115, 100, 117, 120} then Some ([63], args)
      else case args of [] \<Rightarrow> None | a # rest \<Rightarrow>
        if c = 99 then Some ([to_u8 a], rest)
        else if c = 115 then map_option (\<lambda>cs. (cs, rest)) (string_at m a)
        else if c = 100 then
          Some ((if sint a < 0 then 45 # number 10 (nat (- sint a)) else number 10 (nat (sint a))), rest)
        else if c = 117 then Some (number 10 (unat a), rest)
        else Some (number 16 (unat a), rest))"

fun render_all :: "mem \<Rightarrow> item list \<Rightarrow> u32 list \<Rightarrow> bytes option" where
  "render_all m [] args = Some []"
| "render_all m (i # is) args =
     (case render m i args of None \<Rightarrow> None
      | Some (cs, rest) \<Rightarrow> map_option (\<lambda>ds. cs @ ds) (render_all m is rest))"

lemma bytes_at_append:
  "bytes_at m p (bs @ cs) \<longleftrightarrow> bytes_at m p bs \<and> bytes_at m (p + of_nat (length bs)) cs"
  by (induction bs arbitrary: p) (auto simp: add.assoc)

lemma c_string_append:
  "c_string m p (bs @ cs) \<longleftrightarrow> bytes_at m p bs \<and> 0 \<notin> set bs \<and> c_string m (p + of_nat (length bs)) cs"
  by (induction bs arbitrary: p) (auto simp: add.assoc)

lemma string_at_string: "string_at m p = Some cs \<Longrightarrow> c_string m p cs"
  by (auto simp: string_at_def intro: strlen_load)

lemma width_grows: "(w :: nat) \<le> foldl (\<lambda>v d. v * 10 + d) w ds"
proof (induction ds arbitrary: w)
  case (Cons d ds)
  have "w \<le> w * 10 + d" by simp
  also have "\<dots> \<le> foldl (\<lambda>v d. v * 10 + d) (w * 10 + d) ds" by (rule Cons)
  finally show ?case by simp
qed simp

lemma width_loop_digits:
  assumes "\<forall>d\<in>set ds. d < 10" "bytes_at m p (map (\<lambda>d. 48 + of_nat d) ds)"
    "\<not> (48 \<le> m (p + of_nat (length ds)) \<and> m (p + of_nat (length ds)) \<le> 57)"
    "foldl (\<lambda>v d. v * 10 + d) w ds < 2 ^ 31"
  shows "width_loop m p (int w) =
    Some (Inr (int (foldl (\<lambda>v d. v * 10 + d) w ds), p + of_nat (length ds)))"
  using assms
proof (induction ds arbitrary: p w)
  case Nil
  then show ?case by (subst width_loop.simps) auto
next
  case (Cons d ds)
  have d: "uint (m p) = 48 + int d" "d < 10"
    using Cons.prems(1,2) by (auto simp: uint_word_ariths unsigned_of_nat take_bit_nat_eq_self)
  then have "48 \<le> m p" "m p \<le> 57"
    by (simp_all add: word_le_def)
  moreover have "w * 10 + d < 2 ^ 31"
    using width_grows [of "w * 10 + d" ds] Cons.prems(4) by simp
  moreover have "width_loop m (p + 1) (int (w * 10 + d)) =
      Some (Inr (int (foldl (\<lambda>v d. v * 10 + d) (w * 10 + d) ds), p + 1 + of_nat (length ds)))"
    using Cons.prems by (intro Cons.IH) (simp_all add: add.assoc)
  ultimately show ?case
    using d by (subst width_loop.simps) (simp add: Let_def add.assoc)
qed

section \<open>The interpreter implements the format language\<close>

lemma unat_magnitude:
  "unat (if a <s 0 then 0 - a else a) = nat \<bar>sint (a :: u32)\<bar>"
proof -
  have range: "- (2 ^ 31) \<le> sint a" "sint a < 2 ^ 31"
    using sint_ge [of a] sint_lt [of a] by simp_all
  have u: "uint a = sint a mod 2 ^ 32"
    by (simp add: uint_sint take_bit_eq_mod)
  show ?thesis
  proof (cases "sint a < 0")
    case True
    have "uint (0 - a) = (- sint a) mod 2 ^ 32"
      by (simp add: uint_word_ariths u mod_minus_eq)
    with True range show ?thesis
      by (simp add: word_sless_alt unat_eq_nat_uint)
  qed (use range u in \<open>simp add: word_sless_alt unat_eq_nat_uint\<close>)
qed

definition convert_result ::
  "u32 list \<Rightarrow> printf_error + int \<times> bytes \<Rightarrow> (printf_error + u32 list \<times> int \<times> bytes) option" where
  "convert_result rest r = Some (case r of Inl e \<Rightarrow> Inl e | Inr (w, out) \<Rightarrow> Inr (rest, w, out))"

lemma convert_renders:
  assumes "render m (Conversion zero ds long c) args = Some (cs, rest)" "0 \<le> written" "written < 2 ^ 31"
  shows "convert m c (int (foldl (\<lambda>v d. v * 10 + d) 0 ds)) (if zero then 48 else 32) args written out =
    convert_result rest (counted written cs out)"
proof -
  consider "c = 37" | "c \<notin> {37, 99, 115, 100, 117, 120}" |
    a where "c \<in> {99, 115, 100, 117, 120}" "args = a # rest"
    using assms(1) by (auto simp: Let_def split: if_splits list.splits)
  then show ?thesis
  proof cases
    case 3
    have "convert m 100 w pad (a # rest) written out = convert_result rest (counted written s out)"
      if "s = (if sint a < 0 then [45] else []) @ field w pad (numeral_of 10 (nat \<bar>sint a\<bar>))" for w pad s
      using unat_magnitude [of a] that assms(2,3)
      by (auto simp: convert_def Let_def put_unsigned_field put_character_def word_sless_alt counted_def
          fits_int_def convert_result_def split: if_splits)
    with 3 assms show ?thesis
      by (auto simp: Let_def convert_def put_unsigned_field put_character_def counted_def fits_int_def
          convert_result_def dest!: string_at_string put_string_string [of _ _ _ 0 out] split: if_splits)
  qed (use assms in \<open>auto simp: convert_def Let_def put_character_def counted_def fits_int_def
      convert_result_def split: if_splits\<close>)
qed

text \<open>What is left of the interpretation after a piece of the text was written.\<close>

definition go_on :: "(printf_error + int \<times> bytes) \<Rightarrow> (int \<Rightarrow> bytes \<Rightarrow> (printf_error + int \<times> bytes) option) \<Rightarrow>
    (printf_error + int \<times> bytes) option" where
  "go_on r k = (case r of Inl e \<Rightarrow> Some (Inl e) | Inr (w, out) \<Rightarrow> k w out)"

lemma go_on_convert:
  "Option.bind (convert_result rest r) (\<lambda>r. case r of Inl e \<Rightarrow> Some (Inl e) | Inr (rest, w, out) \<Rightarrow> k rest w out) =
   go_on r (k rest)"
  by (auto simp: convert_result_def go_on_def split: sum.split)

lemma directive_step:
  assumes wf: "well_formed (Conversion zero ds long c)"
    and at: "bytes_at m p (spell (Conversion zero ds long c))"
    and out: "render m (Conversion zero ds long c) args = Some (cs, rest)" and w: "0 \<le> written" "written < 2 ^ 31"
  shows "format_loop m p args written out = go_on (counted written cs out)
    (format_loop m (p + of_nat (length (spell (Conversion zero ds long c)))) rest)"
proof -
  define q where "q = p + 1 + (if zero then 1 else 0)"
  define e where "e = q + of_nat (length ds)"
  define f where "f = e + (if long then 1 else 0)"
  have p: "m p = 37" and ds: "bytes_at m q (map (\<lambda>d. 48 + of_nat d) ds)"
    and f: "m f = c" and e: "m e = (if long then 108 else c)" and zero: "zero \<Longrightarrow> m (p + 1) = 48"
    using at by (auto simp: bytes_at_append q_def e_def f_def add.assoc split: if_splits)
  have no_flag: "m (p + 1) \<noteq> 48" if "\<not> zero"
  proof (cases ds)
    case Nil
    with e wf that show ?thesis by (auto simp: e_def q_def)
  next
    case (Cons d ds')
    then have "m (p + 1) = 48 + of_nat d" "0 < d" "d < 10"
      using ds wf that by (auto simp: q_def)
    then show ?thesis
      by (auto simp: word_unat_eq_iff unat_word_ariths unsigned_of_nat take_bit_nat_eq_self)
  qed
  have "\<not> (48 \<le> m e \<and> m e \<le> 57)"
    using e wf by auto
  with ds wf have width: "width_loop m q 0 = Some (Inr (int (foldl (\<lambda>v d. v * 10 + d) 0 ds), e))"
    using width_loop_digits [of ds m q 0] by (simp add: e_def)
  have long: "(if m e = 108 then e + 1 else e) = f"
    using e wf by (auto simp: f_def)
  have here: "(if m (p + 1) = 48 then p + 1 + 1 else p + 1) = q"
    "(if m (p + 1) = 48 then 48 else 32) = (if zero then 48 else 32 :: u8)"
    using zero no_flag by (auto simp: q_def)
  have "format_loop m p args written out = go_on (counted written cs out) (format_loop m (f + 1) rest)"
    unfolding format_loop.simps [of m p] Let_def here
    by (simp add: p width long f convert_renders [OF out w] go_on_convert)
  also have "f + 1 = p + of_nat (length (spell (Conversion zero ds long c)))"
    by (simp add: f_def e_def q_def)
  finally show ?thesis .
qed

lemma format_loop_items:
  assumes "\<forall>i\<in>set its. well_formed i" "c_string m p (concat (map spell its))"
    "render_all m its args = Some cs" "0 \<le> written" "written < 2 ^ 31"
  shows "format_loop m p args written out = Some (counted written cs out)"
  using assms
proof (induction its arbitrary: p args cs written out)
  case Nil
  then show ?case by (subst format_loop.simps) (simp add: counted_nil)
next
  case (Cons i its)
  obtain ds rest es where i: "render m i args = Some (ds, rest)" and items: "render_all m its rest = Some es"
    and cs: "cs = ds @ es"
    using Cons.prems(3) by (auto split: option.splits)
  have at: "bytes_at m p (spell i)" and tail: "c_string m (p + of_nat (length (spell i))) (concat (map spell its))"
    using Cons.prems(2) by (simp_all add: c_string_append)
  let ?k = "format_loop m (p + of_nat (length (spell i))) rest"
  have "format_loop m p args written out = go_on (counted written ds out) ?k"
  proof (cases i)
    case (Plain c)
    with at i Cons.prems(1,4) show ?thesis
      by (subst format_loop.simps) (auto simp: put_character_def go_on_def counted_def fits_int_def Let_def)
  next
    case (Conversion zero w long c)
    with at i Cons.prems(1,4,5) show ?thesis
      by (metis directive_step list.set_intros(1))
  qed
  also have "\<dots> = Some (case counted written ds out of Inl e \<Rightarrow> Inl e | Inr (w, out) \<Rightarrow> counted w es out)"
    using Cons.IH [OF _ tail items] Cons.prems(1,4) by (simp add: go_on_def counted_def [of written])
  finally show ?case
    using Cons.prems(4) by (simp add: counted_append cs)
qed

text \<open>The digit array of 16 characters never overflows.\<close>

lemma digits_fit:
  assumes "radix \<in> {10, 16}"
  shows "\<exists>ds. digit_loop v radix [] = Some ds \<and> length ds \<le> 10"
proof -
  have v: "unat v < 2 ^ 32"
    using unsigned_less [of v, where 'a = nat] by simp
  have "length (numeral_of (unat radix) (unat v)) \<le> 10"
    using assms v by (intro length_numeral_of) auto
  with assms show ?thesis
    by (auto simp: digit_loop_numeral word_le_nat_alt)
qed

text \<open>
  A format that ends in a percent sign: the interpreter takes the terminating zero for the
  conversion character, prints a question mark and goes on behind the end of the string.
\<close>

lemma dangling_percent:
  assumes "c_string m p [37]"
    and "0 \<le> written" "written + 1 < 2 ^ 31"
  shows "format_loop m p args written out = format_loop m (p + 2) args (written + 1) (out @ [63])"
proof -
  have p: "m p = 37" "m (p + 1) = 0"
    using assms(1) by simp_all
  have "width_loop m (p + 1) 0 = Some (Inr (0, p + 1))"
    by (subst width_loop.simps) (simp add: p)
  moreover have "convert m 0 0 32 args written out = Some (Inr (args, written + 1, out @ [63]))"
    using assms(2,3) by (simp add: convert_def put_character_def fits_int_def Let_def)
  ultimately show ?thesis
    by (subst format_loop.simps) (simp add: p add.assoc)
qed

text \<open>
  A negative number in a field: the sign comes before the padding, so that the text of
  \<^verbatim>\<open>ee_printf("%5d", -3)\<close> is a sign, four blanks and the digit, one character too wide.
\<close>

lemma signed_field:
  assumes "c_string m p [37, 53, 100]"
  shows "ee_printf m p [-3] = Some (Inr (6, [45, 32, 32, 32, 32, 51]))"
proof -
  let ?its = "[Conversion False [5] False 100]"
  have short: "field 5 32 [51] = [32, 32, 32, 32, 51]"
    by (simp add: field_def numeral_eq_Suc)
  have "concat (map spell ?its) = [37, 53, 100]"
    by simp
  moreover have "render_all m ?its [-3] = Some [45, 32, 32, 32, 32, 51]"
    using short by (simp add: numeral_of_digit digit_of_def)
  ultimately show ?thesis
    using assms format_loop_items [of ?its m p "[-3]" "[45, 32, 32, 32, 32, 51]" 0 "[]"]
    by (simp add: ee_printf_def word_le_nat_alt counted_def)
qed

text \<open>C40.
  \<open>ee_printf\<close> implements the format language: for every well-formed format in memory whose
  conversions find their arguments, it returns, writes exactly the rendered text, and reports its
  length, whenever the text has less than \<open>2 ^ 31\<close> characters; with a longer text the count of
  characters overflows, which is undefined in C.
\<close>

theorem ee_printf_renders:
  assumes "\<forall>i\<in>set its. well_formed i" "c_string m format (concat (map spell its))"
    "render_all m its args = Some cs"
  shows "ee_printf m format args =
    Some (if length cs < 2 ^ 31 then Inr (int (length cs), cs) else Inl Count_Overflow)"
proof -
  have "int (length cs) < 2 ^ 31 \<longleftrightarrow> length cs < 2 ^ 31"
    by simp
  then show ?thesis
    using format_loop_items [OF assms, of 0 "[]"] by (simp add: ee_printf_def counted_def)
qed

text \<open>\<^verbatim>\<open>ee_printf("n=%04x", 0x2a)\<close> at address 0x1000.\<close>

theorem ee_printf_renders_witness:
  "ee_printf (store_bytes 0x1000 [110, 61, 37, 48, 52, 120, 0] (\<lambda>a. 0)) 0x1000 [0x2a] =
     Some (Inr (6, [110, 61, 48, 48, 50, 97]))"
proof -
  let ?m = "store_bytes 0x1000 [110, 61, 37, 48, 52, 120, 0] (\<lambda>a. 0)"
  let ?its = "[Plain 110, Plain 61, Conversion True [4] False 120]"
  have short: "field 4 48 [50, 97] = [48, 48, 50, 97]"
    by (simp add: field_def numeral_eq_Suc)
  have "\<forall>i\<in>set ?its. well_formed i"
    by (simp add: word_le_nat_alt)
  moreover have "c_string ?m 0x1000 (concat (map spell ?its))"
    by simp
  moreover have "render_all ?m ?its [0x2a] = Some [110, 61, 48, 48, 50, 97]"
    using short by (simp add: numeral_of_more numeral_of_digit digit_of_def)
  ultimately show ?thesis
    using ee_printf_renders [of ?its ?m "0x1000" "[0x2a]" "[110, 61, 48, 48, 50, 97]"] by simp
qed

end
