(* ===== verification/Harness.thy ===== *)
theory Harness
  imports Runtime
begin

text \<open>
  The functions and the exit status of the JavaScript qualification, \<^verbatim>\<open>qualification/mquickjs/harness.c\<close>.  The engine is
  a library the harness calls: what its calls return is a parameter.  An exit status of 0 is success.
\<close>

text \<open>
  The engine's answers: whether the context was created, the result of the relocation, whether
  loading and running raise an exception, the text of that exception (no text when the conversion
  fails), and the result as an integer, if it converts.
\<close>

record engine =
  new_context :: bool
  relocate :: int
  load_exception :: bool
  run_exception :: bool
  exception_text :: "bytes option"
  to_int32 :: "int option"

text \<open>
  The functions the harness gives the scripts.  The engine's values and its context are parameters: the undefined value, the
  conversions of numbers and dates, the garbage collection.  The functions ignore their arguments, and time stands still.
\<close>

record ('c, 'v) runtime =
  JS_UNDEFINED :: 'v
  JS_NewInt32 :: "'c \<Rightarrow> int \<Rightarrow> 'v \<times> 'c"
  JS_NewDate :: "'c \<Rightarrow> int \<Rightarrow> 'v \<times> 'c"
  JS_GC :: "'c \<Rightarrow> 'c"

definition js_print :: "('c, 'v) runtime \<Rightarrow> 'c \<Rightarrow> 'v \<Rightarrow> 'v list \<Rightarrow> 'v \<times> 'c" where
  "js_print J ctx this argv = (JS_UNDEFINED J, ctx)"

definition js_gc :: "('c, 'v) runtime \<Rightarrow> 'c \<Rightarrow> 'v \<Rightarrow> 'v list \<Rightarrow> 'v \<times> 'c" where
  "js_gc J ctx this argv = (JS_UNDEFINED J, JS_GC J ctx)"

definition js_load :: "('c, 'v) runtime \<Rightarrow> 'c \<Rightarrow> 'v \<Rightarrow> 'v list \<Rightarrow> 'v \<times> 'c" where
  "js_load J ctx this argv = (JS_UNDEFINED J, ctx)"

definition js_setTimeout :: "('c, 'v) runtime \<Rightarrow> 'c \<Rightarrow> 'v \<Rightarrow> 'v list \<Rightarrow> 'v \<times> 'c" where
  "js_setTimeout J ctx this argv = JS_NewInt32 J ctx 0"

definition js_clearTimeout :: "('c, 'v) runtime \<Rightarrow> 'c \<Rightarrow> 'v \<Rightarrow> 'v list \<Rightarrow> 'v \<times> 'c" where
  "js_clearTimeout J ctx this argv = (JS_UNDEFINED J, ctx)"

definition js_date_constructor :: "('c, 'v) runtime \<Rightarrow> 'c \<Rightarrow> 'v \<Rightarrow> 'v list \<Rightarrow> 'v \<times> 'c" where
  "js_date_constructor J ctx this argv = JS_NewDate J ctx 0"

definition js_date_now :: "('c, 'v) runtime \<Rightarrow> 'c \<Rightarrow> 'v \<Rightarrow> 'v list \<Rightarrow> 'v \<times> 'c" where
  "js_date_now J ctx this argv = JS_NewInt32 J ctx 0"

definition js_performance_now :: "('c, 'v) runtime \<Rightarrow> 'c \<Rightarrow> 'v \<Rightarrow> 'v list \<Rightarrow> 'v \<times> 'c" where
  "js_performance_now J ctx this argv = JS_NewInt32 J ctx 0"

text \<open>Up to four characters of the message after an offset, least significant first.\<close>

fun diagnostic_loop :: "bytes \<Rightarrow> nat \<Rightarrow> nat \<Rightarrow> nat \<Rightarrow> u32 \<Rightarrow> u32" where
  "diagnostic_loop message offset index 0 diagnostic = diagnostic"
| "diagnostic_loop message offset index (Suc left) diagnostic =
     (if message ! (offset + index) \<noteq> 0 then
        diagnostic_loop message offset (index + 1) left
          (diagnostic OR shl (to_u32 (message ! (offset + index))) (index * 8))
      else diagnostic)"

definition exception_status :: "nat \<Rightarrow> bytes option \<Rightarrow> int" where
  "exception_status offset message =
     (let diagnostic = (case message of None \<Rightarrow> 0 | Some text \<Rightarrow> diagnostic_loop text offset 0 4 0) in
      if diagnostic = 0 then 11 else sint diagnostic)"

definition harness_main :: "nat \<Rightarrow> engine \<Rightarrow> int" where
  "harness_main offset e =
     (if \<not> new_context e then 10
      else if relocate e \<noteq> 0 then 13
      else if load_exception e \<or> run_exception e then exception_status offset (exception_text e)
      else case to_int32 e of None \<Rightarrow> 12
        | Some value \<Rightarrow> if value \<noteq> 0 then 20 + value else 0)"

lemma sint_zero_iff: "sint (w :: u32) = 0 \<longleftrightarrow> w = 0"
proof
  assume "sint w = 0"
  then have "(of_int (sint w) :: u32) = 0" by simp
  then show "w = 0" by simp
qed simp

lemma exception_status_nonzero: "exception_status offset message \<noteq> 0"
  by (simp add: exception_status_def Let_def sint_zero_iff)

text \<open>
  The status is 0 for a run that yields 0, and also for one that yields -20: the harness reports a
  failing workload by adding 20 to its result, and this sum is 0.
\<close>

lemma harness_success:
  "harness_main offset e = 0 \<longleftrightarrow>
   new_context e \<and> relocate e = 0 \<and> \<not> load_exception e \<and> \<not> run_exception e \<and> to_int32 e \<in> {Some 0, Some (- 20)}"
  by (auto simp: harness_main_def exception_status_nonzero split: option.splits)

end
