(* ===== verification/Evidence.thy ===== *)
theory Evidence
  imports Prelude "HOL-Library.State_Monad"
begin

text \<open>
  What a run leaves behind as evidence: the qualification programs are judged by the order of the events
  in their traces, whatever else happens in between.  The rules that compute what a program adds to a log are the same for
  every kind of log: the locale \<open>logbook\<close> has them.
\<close>

text \<open>The events of a trace exhibit a list of patterns if they match in this order, with gaps.\<close>

fun exhibits :: "('a \<Rightarrow> bool) list \<Rightarrow> 'a list \<Rightarrow> bool" where
  "exhibits [] es \<longleftrightarrow> True"
| "exhibits (p # ps) [] \<longleftrightarrow> False"
| "exhibits (p # ps) (e # es) \<longleftrightarrow> p e \<and> exhibits ps es \<or> exhibits (p # ps) es"

lemma exhibits_Cons: "exhibits ps es \<Longrightarrow> exhibits ps (e # es)"
  by (cases ps) auto

lemma exhibits_skip: "exhibits ps es \<Longrightarrow> exhibits ps (fs @ es)"
  by (induction fs) (auto intro: exhibits_Cons)

lemma exhibits_append: "exhibits ps es \<Longrightarrow> exhibits qs fs \<Longrightarrow> exhibits (ps @ qs) (es @ fs)"
proof (induction ps es rule: exhibits.induct)
  case (1 es)
  then show ?case by (simp add: exhibits_skip)
qed auto

lemma exhibits_Cons_D: "exhibits (p # ps) es \<Longrightarrow> exhibits ps es"
  by (induction "p # ps" es rule: exhibits.induct) (auto intro: exhibits_Cons)

text \<open>Matching may be greedy.\<close>

lemma exhibits_greedy [simp]:
  "p e \<Longrightarrow> exhibits (p # ps) (e # es) \<longleftrightarrow> exhibits ps es"
  "\<not> p e \<Longrightarrow> exhibits (p # ps) (e # es) \<longleftrightarrow> exhibits (p # ps) es"
  by (auto dest: exhibits_Cons_D)

declare exhibits.simps(3) [simp del]

lemma exhibits_single: "exhibits [p] es \<longleftrightarrow> list_ex p es"
proof (induction es)
  case (Cons e es)
  then show ?case by (cases "p e") auto
qed simp

lemma exhibits_replicate [simp]: "\<not> p x \<Longrightarrow> exhibits (p # ps) (replicate k x @ es) \<longleftrightarrow> exhibits (p # ps) es"
  by (induction k) simp_all

lemma exhibits_before: "exhibits ps es \<Longrightarrow> exhibits ps (es @ fs)"
  using exhibits_append [of ps es "[]" fs] by simp

section \<open>Programs that keep a log\<close>

locale logbook =
  fixes log :: "'w \<Rightarrow> 'e list"
begin

text \<open>
  \<open>leaves M Q\<close>: from every state, \<open>M\<close> only extends the log, and its result and the entries it adds satisfy \<open>Q\<close>.
\<close>

definition leaves :: "('w, 'a) state \<Rightarrow> ('a \<Rightarrow> 'e list \<Rightarrow> bool) \<Rightarrow> bool" where
  "leaves M Q \<longleftrightarrow> (\<forall>w. \<exists>es. log (snd (run_state M w)) = log w @ es \<and> Q (fst (run_state M w)) es)"

lemma leaves_mono: "leaves M Q \<Longrightarrow> (\<And>a es. Q a es \<Longrightarrow> R a es) \<Longrightarrow> leaves M R"
  unfolding leaves_def by blast

lemma leaves_return: "Q a [] \<Longrightarrow> leaves (State_Monad.return a) Q"
  by (simp add: leaves_def)

lemma leaves_bind:
  assumes "leaves M (\<lambda>a es. leaves (f a) (\<lambda>b fs. Q b (es @ fs)))"
  shows "leaves (State_Monad.bind M f) Q"
  unfolding leaves_def
proof
  fix w
  obtain a v where M: "run_state M w = (a, v)" by fastforce
  with assms obtain es where es: "log v = log w @ es" "leaves (f a) (\<lambda>b fs. Q b (es @ fs))"
    unfolding leaves_def by (metis fst_conv snd_conv)
  then obtain fs where "log (snd (run_state (f a) v)) = log v @ fs" "Q (fst (run_state (f a) v)) (es @ fs)"
    unfolding leaves_def by metis
  with M es show "\<exists>es. log (snd (run_state (State_Monad.bind M f) w)) = log w @ es \<and>
      Q (fst (run_state (State_Monad.bind M f) w)) es"
    by (intro exI [of _ "es @ fs"]) simp
qed

lemma leaves_if: "(b \<Longrightarrow> leaves M Q) \<Longrightarrow> (\<not> b \<Longrightarrow> leaves N Q) \<Longrightarrow> leaves (if b then M else N) Q"
  by simp

lemmas leaves_rules = leaves_return leaves_bind leaves_if

end

end
