(* ===== verification/Probe.thy ===== *)
theory Probe
  imports Memory Mmio Evidence
begin

text \<open>
  Bare-metal qualification programs: sequences of register accesses, bounded polls and checks that
  return an exit code.  They are written in the state monad over a \<open>world\<close>: the memory, the state of
  the devices and the trace of what the program did and saw.  The devices are not part of the
  programs: a \<open>board\<close> gives their answer to every register access, at which they may also rewrite
  memory (DMA).
\<close>

section \<open>Worlds\<close>

record 'd board =
  b_read :: "u32 \<Rightarrow> mem \<Rightarrow> 'd \<Rightarrow> u32 \<times> mem \<times> 'd"
  b_write :: "u32 \<Rightarrow> u32 \<Rightarrow> mem \<Rightarrow> 'd \<Rightarrow> mem \<times> 'd"

text \<open>A trace event: a register access, or a byte of memory the program looked at.\<close>

datatype event = Bus io | Seen u32 u8

record 'd world =
  w_mem :: mem
  w_device :: 'd
  w_trace :: "event list"

type_synonym ('d, 'a) prog = "('d world, 'a) state"

definition READ32 :: "'d board \<Rightarrow> u32 \<Rightarrow> ('d, u32) prog" where
  "READ32 B address = State (\<lambda>w. case b_read B address (w_mem w) (w_device w) of (v, m, d) \<Rightarrow>
     (v, \<lparr>w_mem = m, w_device = d, w_trace = w_trace w @ [Bus (Rd address v)]\<rparr>))"

definition WRITE32 :: "'d board \<Rightarrow> u32 \<Rightarrow> u32 \<Rightarrow> ('d, unit) prog" where
  "WRITE32 B address v = State (\<lambda>w. case b_write B address v (w_mem w) (w_device w) of (m, d) \<Rightarrow>
     ((), \<lparr>w_mem = m, w_device = d, w_trace = w_trace w @ [Bus (Wr address v)]\<rparr>))"

definition peek8 :: "u32 \<Rightarrow> ('d, u8) prog" where
  "peek8 p = State (\<lambda>w. (w_mem w p, w\<lparr>w_trace := w_trace w @ [Seen p (w_mem w p)]\<rparr>))"

definition modify_mem :: "(mem \<Rightarrow> mem) \<Rightarrow> ('d, unit) prog" where
  "modify_mem f = State (\<lambda>w. ((), w\<lparr>w_mem := f (w_mem w)\<rparr>))"

definition poke8 :: "u32 \<Rightarrow> u8 \<Rightarrow> ('d, unit) prog" where
  "poke8 p v = modify_mem (\<lambda>m. m(p := v))"

definition poke32 :: "u32 \<Rightarrow> u32 \<Rightarrow> ('d, unit) prog" where
  "poke32 p v = modify_mem (store32 p v)"

definition peek16 :: "u32 \<Rightarrow> ('d, u16) prog" where
  "peek16 p = do {
     b0 \<leftarrow> peek8 p; b1 \<leftarrow> peek8 (p + 1);
     State_Monad.return (ucast b0 OR shl (ucast b1) 8) }"

definition peek32 :: "u32 \<Rightarrow> ('d, u32) prog" where
  "peek32 p = do {
     b0 \<leftarrow> peek8 p; b1 \<leftarrow> peek8 (p + 1); b2 \<leftarrow> peek8 (p + 2); b3 \<leftarrow> peek8 (p + 3);
     State_Monad.return (ucast b0 OR shl (ucast b1) 8 OR shl (ucast b2) 16 OR shl (ucast b3) 24) }"

section \<open>Polls and checks\<close>

text \<open>
  \<open>for (timeout = 0; timeout < n; ++timeout) { event = READ32(address); if (stop(event)) break; }\<close>
\<close>

primrec poll :: "'d board \<Rightarrow> nat \<Rightarrow> u32 \<Rightarrow> (u32 \<Rightarrow> bool) \<Rightarrow> u32 \<Rightarrow> ('d, u32) prog" where
  "poll B 0 address stop event = State_Monad.return event"
| "poll B (Suc n) address stop event = do {
     event \<leftarrow> READ32 B address;
     if stop event then State_Monad.return event else poll B n address stop event }"

text \<open>\<open>a || b || ...\<close>: the operands are evaluated in order up to the first that holds.\<close>

fun any_of :: "('d, bool) prog list \<Rightarrow> ('d, bool) prog" where
  "any_of [] = State_Monad.return False"
| "any_of (c # cs) = do { b \<leftarrow> c; if b then State_Monad.return True else any_of cs }"

definition register_is :: "'d board \<Rightarrow> u32 \<Rightarrow> (u32 \<Rightarrow> bool) \<Rightarrow> ('d, bool) prog" where
  "register_is B address P = do { v \<leftarrow> READ32 B address; State_Monad.return (P v) }"

definition byte_differs :: "u32 \<Rightarrow> u8 \<Rightarrow> ('d, bool) prog" where
  "byte_differs p v = do { b \<leftarrow> peek8 p; State_Monad.return (b \<noteq> v) }"

text \<open>
  A function body as a sequence of parts, each of which either returns an error code from the
  function or falls through with 0.
\<close>

fun checked :: "('d, int) prog list \<Rightarrow> ('d, int) prog" where
  "checked [] = State_Monad.return 0"
| "checked (M # Ms) = do { r \<leftarrow> M; if r \<noteq> 0 then State_Monad.return r else checked Ms }"

definition act :: "('d, unit) prog \<Rightarrow> ('d, int) prog" where
  "act M = do { M; State_Monad.return 0 }"

definition fail_if :: "int \<Rightarrow> ('d, bool) prog list \<Rightarrow> ('d, int) prog" where
  "fail_if failure cs = do { b \<leftarrow> any_of cs; State_Monad.return (if b then failure else 0) }"

fun write_all :: "'d board \<Rightarrow> (u32 \<times> u32) list \<Rightarrow> ('d, unit) prog" where
  "write_all B [] = State_Monad.return ()"
| "write_all B ((a, v) # rest) = do { WRITE32 B a v; write_all B rest }"

section \<open>Specifications of traces\<close>

text \<open>
  \<open>traces M Q\<close>: from every world, \<open>M\<close> only extends the trace, and its result and the events it adds
  satisfy \<open>Q\<close>.  The rules compute weakest conditions backwards through a program.
\<close>

definition traces :: "('d, 'a) prog \<Rightarrow> ('a \<Rightarrow> event list \<Rightarrow> bool) \<Rightarrow> bool" where
  "traces M Q \<longleftrightarrow> (\<forall>w. \<exists>es. w_trace (snd (run_state M w)) = w_trace w @ es \<and> Q (fst (run_state M w)) es)"

named_theorems trace_rules \<open>weakest conditions of the parts of a program\<close>

interpretation trace: logbook w_trace .

lemma traces_leaves: "traces = trace.leaves"
  by (intro ext) (simp add: traces_def trace.leaves_def)

lemma traces_mono: "traces M Q \<Longrightarrow> (\<And>a es. Q a es \<Longrightarrow> R a es) \<Longrightarrow> traces M R"
  unfolding traces_leaves by (rule trace.leaves_mono)

lemma traces_return [trace_rules]: "Q a [] \<Longrightarrow> traces (State_Monad.return a) Q"
  unfolding traces_leaves by (rule trace.leaves_return)

lemma traces_bind [trace_rules]:
  "traces M (\<lambda>a es. traces (f a) (\<lambda>b fs. Q b (es @ fs))) \<Longrightarrow> traces (State_Monad.bind M f) Q"
  unfolding traces_leaves by (rule trace.leaves_bind)

lemma traces_READ32 [trace_rules]: "(\<And>v. Q v [Bus (Rd a v)]) \<Longrightarrow> traces (READ32 B a) Q"
  by (simp add: traces_def READ32_def split: prod.splits)

lemma traces_WRITE32 [trace_rules]: "Q () [Bus (Wr a v)] \<Longrightarrow> traces (WRITE32 B a v) Q"
  by (simp add: traces_def WRITE32_def split: prod.splits)

lemma traces_peek8 [trace_rules]: "(\<And>b. Q b [Seen p b]) \<Longrightarrow> traces (peek8 p) Q"
  by (simp add: traces_def peek8_def)

lemma traces_modify_mem [trace_rules]: "Q () [] \<Longrightarrow> traces (modify_mem f) Q"
  by (simp add: traces_def modify_mem_def)

lemma traces_poke [trace_rules]: "Q () [] \<Longrightarrow> traces (poke8 p b) Q" "Q () [] \<Longrightarrow> traces (poke32 p v) Q"
  by (simp_all add: poke8_def poke32_def traces_modify_mem)

lemma traces_if [trace_rules]:
  "(b \<Longrightarrow> traces M Q) \<Longrightarrow> (\<not> b \<Longrightarrow> traces N Q) \<Longrightarrow> traces (if b then M else N) Q"
  by simp

text \<open>A poll that is allowed at least one turn ends with the answer it returns.\<close>

lemma traces_poll [trace_rules]:
  "0 < n \<Longrightarrow> (\<And>v es. length es < n \<Longrightarrow> Q v (es @ [Bus (Rd a v)])) \<Longrightarrow> traces (poll B n a stop e) Q"
proof (induction n arbitrary: Q e)
  case (Suc n)
  have last: "Q v [Bus (Rd a v)]" for v
    using Suc.prems(2) [of "[]"] by simp
  show ?case
    unfolding poll.simps
  proof (intro trace_rules, simp add: last)
    fix v
    show "traces (poll B n a stop v) (\<lambda>b fs. Q b ([Bus (Rd a v)] @ fs))"
    proof (cases n)
      case 0
      then show ?thesis by (simp add: last traces_return)
    next
      case (Suc k)
      then show ?thesis
        using Suc.IH [of "\<lambda>b fs. Q b ([Bus (Rd a v)] @ fs)" v] Suc.prems(2) [of "Bus (Rd a v) # _"]
        by simp
    qed
  qed
qed simp

lemma traces_write_all [trace_rules]:
  "Q () (map (\<lambda>(a, v). Bus (Wr a v)) ws) \<Longrightarrow> traces (write_all B ws) Q"
proof (induction ws arbitrary: Q)
  case (Cons x ws)
  obtain a v where "x = (a, v)" by fastforce
  with Cons show ?case by (auto intro!: trace_rules)
qed (simp add: traces_return)

text \<open>The definitions to unfold before the rules apply.\<close>

lemmas probe_parts =
  act_def fail_if_def any_of.simps register_is_def byte_differs_def peek16_def peek32_def list.map prod.case

section \<open>Patterns of events\<close>

definition wrote :: "u32 \<Rightarrow> u32 \<Rightarrow> event \<Rightarrow> bool" where
  "wrote a v e \<longleftrightarrow> e = Bus (Wr a v)"

definition wrote_some :: "u32 \<Rightarrow> (u32 \<Rightarrow> bool) \<Rightarrow> event \<Rightarrow> bool" where
  "wrote_some a P e \<longleftrightarrow> (case e of Bus (Wr b v) \<Rightarrow> b = a \<and> P v | _ \<Rightarrow> False)"

definition answered :: "u32 \<Rightarrow> (u32 \<Rightarrow> bool) \<Rightarrow> event \<Rightarrow> bool" where
  "answered a P e \<longleftrightarrow> (case e of Bus (Rd b v) \<Rightarrow> b = a \<and> P v | _ \<Rightarrow> False)"

definition saw :: "u32 \<Rightarrow> (u8 \<Rightarrow> bool) \<Rightarrow> event \<Rightarrow> bool" where
  "saw p P e \<longleftrightarrow> (case e of Seen q v \<Rightarrow> q = p \<and> P v | _ \<Rightarrow> False)"

abbreviation saw_bytes :: "u32 \<Rightarrow> (nat \<times> u8) list \<Rightarrow> (event \<Rightarrow> bool) list" where
  "saw_bytes p bs \<equiv> map (\<lambda>(i, b). saw (p + of_nat i) (\<lambda>v. v = b)) bs"

lemma pattern_simps [simp]:
  "wrote a v (Bus (Wr b u)) \<longleftrightarrow> b = a \<and> u = v" "\<not> wrote a v (Bus (Rd b u))" "\<not> wrote a v (Seen p c)"
  "wrote_some a P (Bus (Wr b u)) \<longleftrightarrow> b = a \<and> P u" "\<not> wrote_some a P (Bus (Rd b u))" "\<not> wrote_some a P (Seen p c)"
  "answered a P (Bus (Rd b u)) \<longleftrightarrow> b = a \<and> P u" "\<not> answered a P (Bus (Wr b u))" "\<not> answered a P (Seen p c)"
  "saw p R (Seen q c) \<longleftrightarrow> q = p \<and> R c" "\<not> saw p R (Bus i)"
  by (auto simp: wrote_def wrote_some_def answered_def saw_def)

section \<open>Contracts of program parts\<close>

text \<open>
  \<open>part M C n ps\<close>: the part \<open>M\<close> returns 0 or a code of \<open>C\<close>, adds at most \<open>n\<close> events to the trace, and
  returns 0 only with a trace that exhibits \<open>ps\<close>.
\<close>

definition part :: "('d, int) prog \<Rightarrow> int set \<Rightarrow> nat \<Rightarrow> (event \<Rightarrow> bool) list \<Rightarrow> bool" where
  "part M C n ps \<longleftrightarrow>
     traces M (\<lambda>r es. r \<in> insert 0 C \<and> length es \<le> n \<and> (r = 0 \<longrightarrow> exhibits ps es))"

lemma partI:
  "traces M (\<lambda>r es. r \<in> insert 0 C \<and> length es \<le> n \<and> (r = 0 \<longrightarrow> exhibits ps es)) \<Longrightarrow> part M C n ps"
  by (simp add: part_def)

lemma part_weaken: "part M C n ps \<Longrightarrow> C \<subseteq> D \<Longrightarrow> n \<le> k \<Longrightarrow> ps = qs \<Longrightarrow> part M D k qs"
  unfolding part_def by (rule traces_mono, assumption) auto

lemma part_checked_Nil: "part (checked []) {} 0 []"
  by (simp add: part_def traces_return)

lemma part_checked_Cons:
  assumes "part M C n ps" "part (checked Ms) D k qs"
  shows "part (checked (M # Ms)) (C \<union> D) (n + k) (ps @ qs)"
  unfolding part_def checked.simps
proof (intro traces_bind traces_mono [OF assms(1) [unfolded part_def]] traces_if)
  fix r es
  assume "r \<in> insert 0 C \<and> length es \<le> n \<and> (r = 0 \<longrightarrow> exhibits ps es)" "r \<noteq> 0"
  then show "traces (State_Monad.return r) (\<lambda>b fs. b \<in> insert 0 (C \<union> D) \<and>
      length (es @ fs) \<le> n + k \<and> (b = 0 \<longrightarrow> exhibits (ps @ qs) (es @ fs)))"
    by (intro traces_return) auto
next
  fix r es
  assume "r \<in> insert 0 C \<and> length es \<le> n \<and> (r = 0 \<longrightarrow> exhibits ps es)" "\<not> r \<noteq> 0"
  then show "traces (checked Ms) (\<lambda>b fs. b \<in> insert 0 (C \<union> D) \<and>
      length (es @ fs) \<le> n + k \<and> (b = 0 \<longrightarrow> exhibits (ps @ qs) (es @ fs)))"
    by (intro traces_mono [OF assms(2) [unfolded part_def]]) (auto intro: exhibits_append)
qed

lemma part_write: "part (act (WRITE32 B a v)) {} 1 [wrote a v]"
  unfolding probe_parts by (intro partI trace_rules) simp_all

text \<open>What a contract says of a run.\<close>

lemma part_from:
  assumes "part M C n ps"
  shows "\<exists>es. w_trace (snd (run_state M w)) = w_trace w @ es \<and> length es \<le> n \<and>
    fst (run_state M w) \<in> insert 0 C \<and> (fst (run_state M w) = 0 \<longrightarrow> exhibits ps es)"
  using assms unfolding part_def traces_def by blast

section \<open>A scripted board\<close>

text \<open>
  The devices answer the reads from a tape; with an answer they may store bytes in memory.  Writes
  change nothing.  It instantiates the board where a theorem is evaluated on a concrete input.
\<close>

type_synonym tape = "(u32 \<times> (u32 \<times> bytes) list) list"

definition tape_board :: "tape board" where
  "tape_board =
     \<lparr>b_read = (\<lambda>a m d. case d of [] \<Rightarrow> (0, m, [])
                | (v, dma) # rest \<Rightarrow> (v, fold (\<lambda>(p, bs). store_bytes p bs) dma m, rest)),
      b_write = (\<lambda>a v m d. (m, d))\<rparr>"

definition tape_world :: "tape \<Rightarrow> tape world" where
  "tape_world t = \<lparr>w_mem = (\<lambda>a. 0), w_device = t, w_trace = []\<rparr>"

lemma run_poll_numeral:
  "run_state (poll B (numeral k) a stop e) w =
     (case run_state (READ32 B a) w of (v, w') \<Rightarrow>
        if stop v then (v, w') else run_state (poll B (pred_numeral k) a stop v) w')"
  by (simp add: numeral_eq_Suc split: prod.split)

lemma run_tape [simp]:
  "run_state (READ32 tape_board a) \<lparr>w_mem = m, w_device = (v, dma) # t, w_trace = es\<rparr> =
     (v, \<lparr>w_mem = fold (\<lambda>(p, bs). store_bytes p bs) dma m, w_device = t, w_trace = es @ [Bus (Rd a v)]\<rparr>)"
  "run_state (WRITE32 tape_board a v) \<lparr>w_mem = m, w_device = t, w_trace = es\<rparr> =
     ((), \<lparr>w_mem = m, w_device = t, w_trace = es @ [Bus (Wr a v)]\<rparr>)"
  "run_state (peek8 p) \<lparr>w_mem = m, w_device = t, w_trace = es\<rparr> =
     (m p, \<lparr>w_mem = m, w_device = t, w_trace = es @ [Seen p (m p)]\<rparr>)"
  "run_state (modify_mem f) \<lparr>w_mem = m, w_device = t, w_trace = es\<rparr> =
     ((), \<lparr>w_mem = f m, w_device = t, w_trace = es\<rparr>)"
  by (simp_all add: READ32_def WRITE32_def peek8_def modify_mem_def tape_board_def)

lemma run_write_all [simp]:
  "run_state (write_all tape_board ws) \<lparr>w_mem = m, w_device = t, w_trace = es\<rparr> =
     ((), \<lparr>w_mem = m, w_device = t, w_trace = es @ map (\<lambda>(a, v). Bus (Wr a v)) ws\<rparr>)"
  by (induction tape_board ws arbitrary: es rule: write_all.induct) simp_all

text \<open>
  A part passes on a piece of tape: from any memory and trace it returns 0, having read exactly this
  piece.
\<close>

definition passes_on :: "(tape, int) prog \<Rightarrow> tape \<Rightarrow> bool" where
  "passes_on M t \<longleftrightarrow> (\<forall>m rest es. \<exists>m' es'.
     run_state M \<lparr>w_mem = m, w_device = t @ rest, w_trace = es\<rparr> =
       (0, \<lparr>w_mem = m', w_device = rest, w_trace = es'\<rparr>))"

lemma run_checked_append:
  "run_state (checked (Ms @ Ns)) w =
     (case run_state (checked Ms) w of (r, w') \<Rightarrow> if r \<noteq> 0 then (r, w') else run_state (checked Ns) w')"
  by (induction Ms arbitrary: w) (auto split: prod.splits)

lemma passes_append:
  assumes "passes_on (checked Ms) t" "passes_on (checked Ns) u"
  shows "passes_on (checked (Ms @ Ns)) (t @ u)"
  unfolding passes_on_def
proof (intro allI)
  fix m rest es
  obtain m' es' where "run_state (checked Ms) \<lparr>w_mem = m, w_device = t @ u @ rest, w_trace = es\<rparr> =
      (0, \<lparr>w_mem = m', w_device = u @ rest, w_trace = es'\<rparr>)"
    using assms(1) unfolding passes_on_def by blast
  moreover obtain m'' es'' where "run_state (checked Ns) \<lparr>w_mem = m', w_device = u @ rest, w_trace = es'\<rparr> =
      (0, \<lparr>w_mem = m'', w_device = rest, w_trace = es''\<rparr>)"
    using assms(2) unfolding passes_on_def by blast
  ultimately show "\<exists>m' es'. run_state (checked (Ms @ Ns)) \<lparr>w_mem = m, w_device = (t @ u) @ rest, w_trace = es\<rparr> =
      (0, \<lparr>w_mem = m', w_device = rest, w_trace = es'\<rparr>)"
    by (simp add: run_checked_append)
qed

text \<open>A function called as a part.\<close>

lemma passes_single:
  assumes "passes_on M t"
  shows "passes_on (checked [M]) t"
  unfolding passes_on_def
proof (intro allI)
  fix m rest es
  obtain m' es' where "run_state M \<lparr>w_mem = m, w_device = t @ rest, w_trace = es\<rparr> =
      (0, \<lparr>w_mem = m', w_device = rest, w_trace = es'\<rparr>)"
    using assms unfolding passes_on_def by blast
  then show "\<exists>m' es'. run_state (checked [M]) \<lparr>w_mem = m, w_device = t @ rest, w_trace = es\<rparr> =
      (0, \<lparr>w_mem = m', w_device = rest, w_trace = es'\<rparr>)"
    by simp
qed

lemma passes_onD: "passes_on M t \<Longrightarrow> fst (run_state M (tape_world t)) = 0"
  unfolding passes_on_def tape_world_def by (metis append_Nil2 fst_conv)

end
