(* ===== verification/Stack_C6.thy ===== *)
theory Stack_C6
  imports Probe Rf
begin

text \<open>
  The ESP32-C6 radio qualification firmware, \<^verbatim>\<open>qualification/radio/custom-stack-probe/esp32c6.c\<close>: it
  drives the Wi-Fi MAC, the IEEE 802.15.4 MAC and the BLE baseband at register level, checks what
  they answer, and returns 0 or the code of the first check that failed.  A function of the source is
  a sequence of parts (\<open>checked\<close>), cut at its early returns.
\<close>

section \<open>Registers\<close>

definition WIFI_MAC_BASE :: u32 where "WIFI_MAC_BASE = 0x600a4000"
definition WIFI_INTERRUPT_MASK :: u32 where "WIFI_INTERRUPT_MASK = WIFI_MAC_BASE + 0x0c40"
definition WIFI_INTERRUPT_EVENT :: u32 where "WIFI_INTERRUPT_EVENT = WIFI_MAC_BASE + 0x0c48"
definition WIFI_INTERRUPT_CLEAR :: u32 where "WIFI_INTERRUPT_CLEAR = WIFI_MAC_BASE + 0x0c4c"
definition WIFI_RX_BASE :: u32 where "WIFI_RX_BASE = WIFI_MAC_BASE + 0x0084"
definition WIFI_QUEUE_STATE_CLEAR :: u32 where "WIFI_QUEUE_STATE_CLEAR = WIFI_MAC_BASE + 0x0cb4"
definition WIFI_QUEUE_STATE :: u32 where "WIFI_QUEUE_STATE = WIFI_MAC_BASE + 0x0cb8"
definition WIFI_QUEUE2_CONTROL :: u32 where "WIFI_QUEUE2_CONTROL = WIFI_MAC_BASE + 0x0d6c"
definition WIFI_RESET_CONTROL :: u32 where "WIFI_RESET_CONTROL = WIFI_MAC_BASE + 0x0ddc"
definition WIFI_TX_DONE :: u32 where "WIFI_TX_DONE = shl 1 7"
definition WIFI_RX_DONE :: u32 where "WIFI_RX_DONE = shl 1 14"
definition WIFI_QUEUE_ENABLE :: u32 where "WIFI_QUEUE_ENABLE = shl 3 30"
definition WIFI_RF_FREQUENCY_CONTROL :: u32 where "WIFI_RF_FREQUENCY_CONTROL = 0x600a00c0"
definition WIFI_RF_GAIN_FIRST :: u32 where "WIFI_RF_GAIN_FIRST = 0x600a08cc"
definition WIFI_RF_GAIN_SECOND :: u32 where "WIFI_RF_GAIN_SECOND = 0x600a08d0"
definition WIFI_RF_GAIN_FINAL :: u32 where "WIFI_RF_GAIN_FINAL = 0x600a08d4"
definition WIFI_RF_FRONTEND_FORCE :: u32 where "WIFI_RF_FRONTEND_FORCE = 0x600a0910"
definition INTERRUPT_MATRIX_BASE :: u32 where "INTERRUPT_MATRIX_BASE = 0x60010000"
definition INTERRUPT_MATRIX_WIFI_ROUTE :: u32 where "INTERRUPT_MATRIX_WIFI_ROUTE = INTERRUPT_MATRIX_BASE + 0x0000"
definition INTERRUPT_MATRIX_STATUS0 :: u32 where "INTERRUPT_MATRIX_STATUS0 = INTERRUPT_MATRIX_BASE + 0x0134"
definition WIFI_CPU_INTERRUPT :: u32 where "WIFI_CPU_INTERRUPT = 5"
definition BLE_CPU_INTERRUPT :: u32 where "BLE_CPU_INTERRUPT = 8"
definition INTERRUPT_MATRIX_BLE_BB_ROUTE :: u32 where "INTERRUPT_MATRIX_BLE_BB_ROUTE = INTERRUPT_MATRIX_BASE + 5 * 4"
definition PLIC_MACHINE_BASE :: u32 where "PLIC_MACHINE_BASE = 0x20001000"
definition PLIC_ENABLE :: u32 where "PLIC_ENABLE = PLIC_MACHINE_BASE + 0x0000"
definition PLIC_PENDING :: u32 where "PLIC_PENDING = PLIC_MACHINE_BASE + 0x000c"
definition PLIC_THRESHOLD :: u32 where "PLIC_THRESHOLD = PLIC_MACHINE_BASE + 0x0090"
definition IEEE802154_BASE :: u32 where "IEEE802154_BASE = 0x600a3000"
definition IEEE802154_COMMAND :: u32 where "IEEE802154_COMMAND = IEEE802154_BASE + 0x0000"
definition IEEE802154_CONFIGURATION :: u32 where "IEEE802154_CONFIGURATION = IEEE802154_BASE + 0x0004"
definition IEEE802154_PAN0_SHORT_ADDRESS :: u32 where "IEEE802154_PAN0_SHORT_ADDRESS = IEEE802154_BASE + 0x0008"
definition IEEE802154_PAN0_ID :: u32 where "IEEE802154_PAN0_ID = IEEE802154_BASE + 0x000c"
definition IEEE802154_PAN1_SHORT_ADDRESS :: u32 where "IEEE802154_PAN1_SHORT_ADDRESS = IEEE802154_BASE + 0x0018"
definition IEEE802154_PAN1_ID :: u32 where "IEEE802154_PAN1_ID = IEEE802154_BASE + 0x001c"
definition IEEE802154_CHANNEL :: u32 where "IEEE802154_CHANNEL = IEEE802154_BASE + 0x0048"
definition IEEE802154_ED_DURATION :: u32 where "IEEE802154_ED_DURATION = IEEE802154_BASE + 0x0050"
definition IEEE802154_ED_CONFIGURATION :: u32 where "IEEE802154_ED_CONFIGURATION = IEEE802154_BASE + 0x0054"
definition IEEE802154_EVENT_ENABLE :: u32 where "IEEE802154_EVENT_ENABLE = IEEE802154_BASE + 0x0060"
definition IEEE802154_EVENT_STATUS :: u32 where "IEEE802154_EVENT_STATUS = IEEE802154_BASE + 0x0064"
definition IEEE802154_RX_STATUS :: u32 where "IEEE802154_RX_STATUS = IEEE802154_BASE + 0x0080"
definition IEEE802154_TX_STATUS :: u32 where "IEEE802154_TX_STATUS = IEEE802154_BASE + 0x0084"
definition IEEE802154_TIMER0_THRESHOLD :: u32 where "IEEE802154_TIMER0_THRESHOLD = IEEE802154_BASE + 0x00a8"
definition IEEE802154_TX_DMA_ADDRESS :: u32 where "IEEE802154_TX_DMA_ADDRESS = IEEE802154_BASE + 0x00d0"
definition IEEE802154_RX_DMA_ADDRESS :: u32 where "IEEE802154_RX_DMA_ADDRESS = IEEE802154_BASE + 0x00e0"
definition IEEE802154_SECURITY_CONTROL :: u32 where "IEEE802154_SECURITY_CONTROL = IEEE802154_BASE + 0x0128"
definition IEEE802154_DEBUG_TX_SECURITY_ERRORS :: u32 where "IEEE802154_DEBUG_TX_SECURITY_ERRORS = IEEE802154_BASE + 0x0178"
definition IEEE802154_MAC_DATE :: u32 where "IEEE802154_MAC_DATE = IEEE802154_BASE + 0x0184"
definition IEEE802154_TX_DONE :: u32 where "IEEE802154_TX_DONE = shl 1 0"
definition IEEE802154_RX_DONE :: u32 where "IEEE802154_RX_DONE = shl 1 1"
definition IEEE802154_ACK_TX_DONE :: u32 where "IEEE802154_ACK_TX_DONE = shl 1 2"
definition IEEE802154_ACK_RX_DONE :: u32 where "IEEE802154_ACK_RX_DONE = shl 1 3"
definition IEEE802154_RX_ABORT :: u32 where "IEEE802154_RX_ABORT = shl 1 4"
definition IEEE802154_TX_ABORT :: u32 where "IEEE802154_TX_ABORT = shl 1 5"
definition IEEE802154_ED_DONE :: u32 where "IEEE802154_ED_DONE = shl 1 6"
definition IEEE802154_TIMER0_DONE :: u32 where "IEEE802154_TIMER0_DONE = shl 1 8"
definition IEEE802154_TX_START :: u32 where "IEEE802154_TX_START = 0x41"
definition IEEE802154_RX_START :: u32 where "IEEE802154_RX_START = 0x42"
definition IEEE802154_CCA_TX_START :: u32 where "IEEE802154_CCA_TX_START = 0x43"
definition IEEE802154_ED_START :: u32 where "IEEE802154_ED_START = 0x44"
definition IEEE802154_STOP :: u32 where "IEEE802154_STOP = 0x45"
definition IEEE802154_TIMER0_START :: u32 where "IEEE802154_TIMER0_START = 0x4c"
definition IEEE802154_TIMER0_STOP :: u32 where "IEEE802154_TIMER0_STOP = 0x4d"
definition IEEE802154_AUTOMATIC_ACK_TRANSMIT :: u32 where "IEEE802154_AUTOMATIC_ACK_TRANSMIT = shl 1 0"
definition IEEE802154_AUTOMATIC_ACK_RECEIVE :: u32 where "IEEE802154_AUTOMATIC_ACK_RECEIVE = shl 1 3"
definition IEEE802154_PROMISCUOUS :: u32 where "IEEE802154_PROMISCUOUS = shl 1 7"
definition IEEE802154_PAN0_ENABLE :: u32 where "IEEE802154_PAN0_ENABLE = shl 1 28"
definition IEEE802154_PAN1_ENABLE :: u32 where "IEEE802154_PAN1_ENABLE = shl 1 29"
definition BLE_BASEBAND_BASE :: u32 where "BLE_BASEBAND_BASE = 0x600a1000"
definition BLE_BASEBAND_SCHEDULER_KICK :: u32 where "BLE_BASEBAND_SCHEDULER_KICK = BLE_BASEBAND_BASE + 0x028"
definition BLE_BASEBAND_INTERRUPT_ENABLE0 :: u32 where "BLE_BASEBAND_INTERRUPT_ENABLE0 = BLE_BASEBAND_BASE + 0x304"
definition BLE_BASEBAND_INTERRUPT_CLEAR0 :: u32 where "BLE_BASEBAND_INTERRUPT_CLEAR0 = BLE_BASEBAND_BASE + 0x308"
definition BLE_BASEBAND_INTERRUPT_RAW0 :: u32 where "BLE_BASEBAND_INTERRUPT_RAW0 = BLE_BASEBAND_BASE + 0x30c"
definition BLE_BASEBAND_SCHEDULER_HEAD :: u32 where "BLE_BASEBAND_SCHEDULER_HEAD = BLE_BASEBAND_BASE + 0x8fc"
definition BLE_BASEBAND_TIMER_CURRENT :: u32 where "BLE_BASEBAND_TIMER_CURRENT = BLE_BASEBAND_BASE + 0x924"
definition BLE_BASEBAND_RESET :: u32 where "BLE_BASEBAND_RESET = BLE_BASEBAND_BASE + 0xff0"
definition BLE_EVENT_END :: u32 where "BLE_EVENT_END = shl 1 21"
definition BLE_EVENT_RX :: u32 where "BLE_EVENT_RX = shl 1 27"
definition BLE_EVENT_SUCCESS :: u32 where "BLE_EVENT_SUCCESS = shl 1 28"
definition BLE_SCHEDULE_OWNED :: u32 where "BLE_SCHEDULE_OWNED = shl 1 13"
definition MODEM_SYSCON_CLOCK_CONFIG :: u32 where "MODEM_SYSCON_CLOCK_CONFIG = 0x600a9804"
definition MODEM_SYSCON_WIFI_CLOCK_ENABLE :: u32 where "MODEM_SYSCON_WIFI_CLOCK_ENABLE = 0x600a9814"
definition MODEM_WIFI_APB_CLOCK :: u32 where "MODEM_WIFI_APB_CLOCK = shl 1 9"
definition MODEM_WIFI_MAC_CLOCK :: u32 where "MODEM_WIFI_MAC_CLOCK = shl 1 10"
definition MODEM_BLE_APB_CLOCK :: u32 where "MODEM_BLE_APB_CLOCK = shl 1 17"
definition MODEM_BLE_BB_CLOCK :: u32 where "MODEM_BLE_BB_CLOCK = shl 1 18"
definition MODEM_ZB_APB_CLOCK :: u32 where "MODEM_ZB_APB_CLOCK = shl 1 23"
definition MODEM_ZB_MAC_CLOCK :: u32 where "MODEM_ZB_MAC_CLOCK = shl 1 24"
definition MODEM_SECURITY_CCM_CLOCK :: u32 where "MODEM_SECURITY_CCM_CLOCK = shl 1 26"

definition PLIC_PRIORITY :: "u32 \<Rightarrow> u32" where "PLIC_PRIORITY line = PLIC_MACHINE_BASE + 0x0010 + line * 4"

section \<open>Static objects\<close>

text \<open>The addresses the linker gives the arrays.\<close>

record c6_objects =
  ieee802154_frame :: u32
  ieee802154_ack_frame :: u32
  ieee802154_no_ack_frame :: u32
  ieee802154_invalid_security_frame :: u32
  remu_ieee802154_rx_buffer :: u32
  remu_wifi_frame :: u32
  remu_wifi_descriptor :: u32
  remu_wifi_rx_buffer :: u32
  remu_wifi_rx_descriptor :: u32
  remu_ble_tx_schedule :: u32
  remu_ble_tx_state :: u32
  remu_ble_tx_header :: u32
  remu_ble_tx_buffer :: u32
  remu_ble_rx_schedule :: u32
  remu_ble_rx_state :: u32
  remu_ble_rx_descriptor :: u32
  remu_ble_rx_payload :: u32

definition wifi_rf_gain_14dbm :: "c6_rf_gain list" where
  "wifi_rf_gain_14dbm = map gain_of
     [(0x40200000, 0xe3c10080, 0x000000fe), (0x40200000, 0xe3c30080, 0x000000fe), (0x40200000, 0xe3c50080, 0x000000fe),
      (0x40200000, 0xe3c70080, 0x000000fe), (0x40200000, 0xe3c90080, 0x000000fe), (0x40200000, 0xe3cb0080, 0x000000fe),
      (0x40200000, 0xe3e10080, 0x000000fe), (0x40200000, 0xe3e30080, 0x000000fe), (0x40200000, 0xe3e50080, 0x000000fe),
      (0x40200000, 0xe3e70080, 0x000000fe), (0x40200000, 0xe3e90080, 0x000000fe), (0x40200000, 0x90020301, 0xfffff882),
      (0x40200000, 0x90020301, 0xfffff682), (0x40200000, 0x90020301, 0xfffffb81), (0x40200000, 0x90020301, 0xfffff981),
      (0x40200000, 0x90020301, 0xfffff781), (0x40200000, 0x10020301, 0xfffffa81), (0x40200000, 0x10020301, 0xfffff881),
      (0x40200000, 0x10020301, 0xfffff681), (0x40200000, 0x90020301, 0xfffffb80), (0x40200000, 0x90020301, 0xfffff980),
      (0x40200000, 0x90020301, 0xfffff780), (0x40200000, 0x90020301, 0xfffff580), (0x40200000, 0x10060100, 0xfffffb80),
      (0x40200000, 0x10060100, 0xfffff980), (0x40200000, 0x10060100, 0xfffff780), (0x40200000, 0x10020301, 0xfffff980),
      (0x40200000, 0x10020301, 0xfffff780), (0x40200000, 0x10020301, 0xfffff580), (0x40200000, 0x10020301, 0xfffff380),
      (0x40200000, 0x10020301, 0xfffff180), (0x40200000, 0x10020301, 0xffffef80), (0x40200000, 0x10020301, 0xffffed80),
      (0x40200000, 0x10020301, 0xffffeb80), (0x40200000, 0x10020301, 0xffffe980), (0x40200000, 0x10020301, 0xffffe780),
      (0x40200000, 0x10020301, 0xffffe580), (0x40200000, 0x10020301, 0xffffe380), (0x40200000, 0x10020301, 0xffffe180),
      (0x40200000, 0x10020301, 0xffffdf80), (0x40200000, 0x10020301, 0xffffdd80), (0x40200000, 0x10020301, 0xffffdb80),
      (0x40200000, 0x10020301, 0xffffd980)]"

text \<open>The initialised frames: a length byte and the bytes of a frame with room for its check sequence.\<close>

definition ieee802154_frame_bytes :: bytes where
  "ieee802154_frame_bytes = [6, 0x01, 0x00, 0x2a, 0xa5, 0, 0]"

definition ieee802154_ack_frame_bytes :: bytes where
  "ieee802154_ack_frame_bytes = [6, 0x21, 0x00, 0x44, 0xa5, 0, 0]"

definition ieee802154_no_ack_frame_bytes :: bytes where
  "ieee802154_no_ack_frame_bytes = [6, 0x21, 0x00, 0x45, 0xa5, 0, 0]"

definition ieee802154_invalid_security_frame_bytes :: bytes where
  "ieee802154_invalid_security_frame_bytes = [6, 0x01, 0x00, 0x2b, 0xa5, 0, 0]"

definition remu_wifi_frame_bytes :: bytes where
  "remu_wifi_frame_bytes =
     [28, 0, 0, 0, 0, 0, 0, 0, 0x40, 0x00, 0x00, 0x00, 0xff, 0xff, 0xff, 0xff, 0xff, 0xff,
      0x02, 0x00, 0x00, 0x00, 0x00, 0x06, 0xff, 0xff, 0xff, 0xff, 0xff, 0xff, 0x00, 0x00]"

definition advertising_data :: bytes where
  "advertising_data =
     [0x02, 0x01, 0x06, 0x0b, 0x09, 0x52, 0x65, 0x6e, 0x76, 0x6f, 0x2d, 0x42, 0x4c, 0x45, 0x31]"

definition expected_rx :: bytes where
  "expected_rx = [0x42, 0x0c, 0xaa, 0xbb, 0xcc, 0xdd, 0xee, 0xc1, 0x02, 0x01, 0x06, 0x02, 0x09, 0x52]"

section \<open>Helpers\<close>

definition write32 :: "u32 \<Rightarrow> u32 \<Rightarrow> u32 \<Rightarrow> ('d, unit) prog" where
  "write32 bytes offset v = do {
     poke8 (bytes + offset) (to_u8 v);
     poke8 (bytes + (offset + 1)) (to_u8 (shr v 8));
     poke8 (bytes + (offset + 2)) (to_u8 (shr v 16));
     poke8 (bytes + (offset + 3)) (to_u8 (shr v 24)) }"

definition pointer20 :: "u32 \<Rightarrow> u32" where
  "pointer20 address = address AND 0x000fffff"

text \<open>A fence: the model executes the accesses in program order.\<close>

definition dma_publish :: "('d, unit) prog" where
  "dma_publish = State_Monad.return ()"

fun gain_program :: "c6_rf_gain list \<Rightarrow> (u32 \<times> u32) list" where
  "gain_program [] = []"
| "gain_program (g # gs) =
     (WIFI_RF_GAIN_FIRST, g_first g) # (WIFI_RF_GAIN_SECOND, g_second g) #
     (WIFI_RF_GAIN_FINAL, g_final g) # gain_program gs"

definition configure_wifi_rf :: "'d board \<Rightarrow> u32 \<Rightarrow> ('d, unit) prog" where
  "configure_wifi_rf B channel = do {
     WRITE32 B WIFI_RF_FRONTEND_FORCE 0x200;
     WRITE32 B WIFI_RF_FREQUENCY_CONTROL (0x42844000 OR (0x380 + channel * 0x280));
     write_all B (gain_program wifi_rf_gain_14dbm);
     WRITE32 B WIFI_RF_FRONTEND_FORCE 0 }"

section \<open>Wi-Fi reception\<close>

definition wifi_rx_arm :: "'d board \<Rightarrow> c6_objects \<Rightarrow> ('d, int) prog" where
  "wifi_rx_arm B L = act (do {
     poke32 (remu_wifi_rx_descriptor L) (shl 1 31 OR shl 512 14 OR 512);
     poke32 (remu_wifi_rx_descriptor L + 4) (remu_wifi_rx_buffer L);
     poke32 (remu_wifi_rx_descriptor L + 8) 0;
     WRITE32 B WIFI_RX_BASE (remu_wifi_rx_descriptor L) })"

definition wifi_rx_wait :: "'d board \<Rightarrow> ('d, int) prog" where
  "wifi_rx_wait B = do {
     event \<leftarrow> poll B 20000 WIFI_INTERRUPT_EVENT (\<lambda>event. event AND WIFI_RX_DONE \<noteq> 0) 0;
     State_Monad.return (if event AND WIFI_RX_DONE = 0 then 10 else 0) }"

definition wifi_rx_length :: "c6_objects \<Rightarrow> ('d, int) prog" where
  "wifi_rx_length L = do {
     control \<leftarrow> peek32 (remu_wifi_rx_descriptor L);
     State_Monad.return
       (if control AND shl 1 31 \<noteq> 0 \<or> control AND shl 1 30 = 0 \<or>
           (shr control 14) AND 0x3fff < 92 + 24 + 4 then 11 else 0) }"

definition wifi_rx_frame :: "c6_objects \<Rightarrow> ('d, int) prog" where
  "wifi_rx_frame L = (let frame = remu_wifi_rx_buffer L + 92 in
     fail_if 12 [byte_differs frame 0x80, byte_differs (frame + 1) 0x00,
       byte_differs (frame + 4) 0xff, byte_differs (frame + 9) 0xff,
       byte_differs (frame + 10) 0x02, byte_differs (frame + 15) 0x01])"

definition wifi_rx_clear :: "'d board \<Rightarrow> ('d, int) prog" where
  "wifi_rx_clear B = do {
     WRITE32 B WIFI_INTERRUPT_CLEAR WIFI_RX_DONE;
     fail_if 13 [register_is B WIFI_INTERRUPT_EVENT (\<lambda>v. v AND WIFI_RX_DONE \<noteq> 0)] }"

definition verify_wifi_rx :: "'d board \<Rightarrow> c6_objects \<Rightarrow> ('d, int) prog" where
  "verify_wifi_rx B L = checked
     [wifi_rx_arm B L, wifi_rx_wait B, wifi_rx_length L, wifi_rx_frame L, wifi_rx_clear B]"

section \<open>Bluetooth\<close>

definition ble_setup :: "'d board \<Rightarrow> ('d, int) prog" where
  "ble_setup B = act (do {
     WRITE32 B INTERRUPT_MATRIX_BLE_BB_ROUTE BLE_CPU_INTERRUPT;
     enabled \<leftarrow> READ32 B PLIC_ENABLE;
     WRITE32 B PLIC_ENABLE (enabled OR shl 1 (unat BLE_CPU_INTERRUPT));
     WRITE32 B (PLIC_PRIORITY BLE_CPU_INTERRUPT) 3;
     clocks \<leftarrow> READ32 B MODEM_SYSCON_WIFI_CLOCK_ENABLE;
     WRITE32 B MODEM_SYSCON_WIFI_CLOCK_ENABLE (clocks OR MODEM_BLE_APB_CLOCK OR MODEM_BLE_BB_CLOCK);
     WRITE32 B BLE_BASEBAND_RESET 0;
     WRITE32 B BLE_BASEBAND_RESET 1;
     WRITE32 B BLE_BASEBAND_INTERRUPT_ENABLE0 (BLE_EVENT_END OR BLE_EVENT_RX OR BLE_EVENT_SUCCESS) })"

text \<open>One schedule, its state, the allocator header and the PDU, linked by pointers.\<close>

definition ble_tx_prepare :: "'d board \<Rightarrow> c6_objects \<Rightarrow> ('d, unit) prog" where
  "ble_tx_prepare B L = do {
     write32 (remu_ble_tx_header L) 8 (remu_ble_tx_buffer L);
     poke8 (remu_ble_tx_buffer L + 0x10) 0x06;
     poke8 (remu_ble_tx_buffer L + 0x11) (6 + of_nat (length advertising_data));
     modify_mem (store_bytes (remu_ble_tx_buffer L + 0x12) advertising_data);
     poke8 (remu_ble_tx_state L + 0x34) 0x02;
     poke8 (remu_ble_tx_state L + 0x39) 0xc6;
     write32 (remu_ble_tx_state L) 0x60 (remu_ble_tx_header L);
     write32 (remu_ble_tx_schedule L) 4 (remu_ble_tx_state L);
     now \<leftarrow> READ32 B BLE_BASEBAND_TIMER_CURRENT;
     write32 (remu_ble_tx_schedule L) 8 (now + 2);
     write32 (remu_ble_tx_schedule L) 0x0c (now + 2 + 200);
     write32 (remu_ble_tx_schedule L) 0x28 BLE_SCHEDULE_OWNED;
     poke8 (remu_ble_tx_schedule L + 0x35) 1;
     dma_publish }"

definition ble_tx_kick :: "'d board \<Rightarrow> c6_objects \<Rightarrow> ('d, unit) prog" where
  "ble_tx_kick B L = do {
     WRITE32 B BLE_BASEBAND_SCHEDULER_HEAD (pointer20 (remu_ble_tx_schedule L));
     WRITE32 B BLE_BASEBAND_SCHEDULER_KICK 1 }"

definition ble_tx_wait :: "'d board \<Rightarrow> c6_objects \<Rightarrow> ('d, int) prog" where
  "ble_tx_wait B L = do {
     event \<leftarrow> poll B 50000 BLE_BASEBAND_INTERRUPT_RAW0 (\<lambda>event. event AND BLE_EVENT_END \<noteq> 0) 0;
     fail_if 16
       [State_Monad.return (event AND (BLE_EVENT_END OR BLE_EVENT_SUCCESS) \<noteq> BLE_EVENT_END OR BLE_EVENT_SUCCESS),
        do { owner \<leftarrow> peek32 (remu_ble_tx_schedule L + 0x28);
             State_Monad.return (owner AND BLE_SCHEDULE_OWNED \<noteq> 0) }] }"

definition ble_tx_routed :: "'d board \<Rightarrow> ('d, int) prog" where
  "ble_tx_routed B = fail_if 17
     [register_is B INTERRUPT_MATRIX_STATUS0 (\<lambda>v. v AND shl 1 5 = 0),
      register_is B PLIC_PENDING (\<lambda>v. v AND shl 1 (unat BLE_CPU_INTERRUPT) = 0)]"

definition ble_tx_clear :: "'d board \<Rightarrow> ('d, int) prog" where
  "ble_tx_clear B = do {
     WRITE32 B BLE_BASEBAND_INTERRUPT_CLEAR0 (BLE_EVENT_END OR BLE_EVENT_SUCCESS);
     fail_if 18 [register_is B BLE_BASEBAND_INTERRUPT_RAW0
                   (\<lambda>v. v AND (BLE_EVENT_END OR BLE_EVENT_SUCCESS) \<noteq> 0)] }"

definition ble_rx_prepare :: "'d board \<Rightarrow> c6_objects \<Rightarrow> ('d, unit) prog" where
  "ble_rx_prepare B L = do {
     write32 (remu_ble_rx_descriptor L) 4 (remu_ble_rx_descriptor L + 4);
     write32 (remu_ble_rx_descriptor L) 8 (remu_ble_rx_payload L);
     write32 (remu_ble_rx_payload L) 0x18 0xffff;
     write32 (remu_ble_rx_state L) 8 (remu_ble_rx_descriptor L + 4);
     write32 (remu_ble_rx_state L) 0x2c 50000;
     write32 (remu_ble_rx_state L) 0x5c (remu_ble_rx_descriptor L);
     write32 (remu_ble_rx_schedule L) 4 (remu_ble_rx_state L);
     now \<leftarrow> READ32 B BLE_BASEBAND_TIMER_CURRENT;
     write32 (remu_ble_rx_schedule L) 8 (now + 2);
     write32 (remu_ble_rx_schedule L) 0x0c (now + 2 + 200);
     write32 (remu_ble_rx_schedule L) 0x28 BLE_SCHEDULE_OWNED;
     poke8 (remu_ble_rx_schedule L + 0x35) 2;
     dma_publish }"

definition ble_rx_kick :: "'d board \<Rightarrow> c6_objects \<Rightarrow> ('d, unit) prog" where
  "ble_rx_kick B L = do {
     WRITE32 B BLE_BASEBAND_SCHEDULER_HEAD (pointer20 (remu_ble_rx_schedule L));
     WRITE32 B BLE_BASEBAND_SCHEDULER_KICK 1 }"

definition ble_rx_wait :: "'d board \<Rightarrow> ('d, int) prog" where
  "ble_rx_wait B = do {
     event \<leftarrow> poll B 60000 BLE_BASEBAND_INTERRUPT_RAW0 (\<lambda>event. event AND BLE_EVENT_RX \<noteq> 0) 0;
     State_Monad.return
       (if event AND (BLE_EVENT_END OR BLE_EVENT_RX OR BLE_EVENT_SUCCESS) \<noteq>
           BLE_EVENT_END OR BLE_EVENT_RX OR BLE_EVENT_SUCCESS then 19 else 0) }"

definition ble_rx_compare :: "c6_objects \<Rightarrow> ('d, int) prog" where
  "ble_rx_compare L = fail_if 20
     (map (\<lambda>index. byte_differs (remu_ble_rx_payload L + (0x1c + of_nat index)) (expected_rx ! index))
        [0..<length expected_rx])"

definition ble_rx_metadata :: "c6_objects \<Rightarrow> ('d, int) prog" where
  "ble_rx_metadata L = fail_if 21
     [byte_differs (remu_ble_rx_payload L + 0x0f) (- 80),
      do { status \<leftarrow> peek32 (remu_ble_rx_state L + 0x14);
           State_Monad.return (status AND BLE_EVENT_RX = 0) }]"

definition ble_rx_clear :: "'d board \<Rightarrow> ('d, int) prog" where
  "ble_rx_clear B = do {
     WRITE32 B BLE_BASEBAND_INTERRUPT_CLEAR0 (BLE_EVENT_END OR BLE_EVENT_RX OR BLE_EVENT_SUCCESS);
     fail_if 22
       [register_is B BLE_BASEBAND_INTERRUPT_RAW0
          (\<lambda>v. v AND (BLE_EVENT_END OR BLE_EVENT_RX OR BLE_EVENT_SUCCESS) \<noteq> 0),
        register_is B INTERRUPT_MATRIX_STATUS0 (\<lambda>v. v AND shl 1 5 \<noteq> 0),
        register_is B PLIC_PENDING (\<lambda>v. v AND shl 1 (unat BLE_CPU_INTERRUPT) \<noteq> 0)] }"

definition verify_ble :: "'d board \<Rightarrow> c6_objects \<Rightarrow> ('d, int) prog" where
  "verify_ble B L = checked
     [ble_setup B,
      act (ble_tx_prepare B L), act (ble_tx_kick B L), ble_tx_wait B L, ble_tx_routed B, ble_tx_clear B,
      act (ble_rx_prepare B L), act (ble_rx_kick B L), ble_rx_wait B, ble_rx_compare L, ble_rx_metadata L,
      ble_rx_clear B]"

section \<open>IEEE 802.15.4 filters, acknowledgements and security\<close>

abbreviation ret :: "'a \<Rightarrow> ('d, 'a) prog" where
  "ret \<equiv> State_Monad.return"

definition rx_bytes_differ :: "c6_objects \<Rightarrow> (nat \<times> u8) list \<Rightarrow> ('d, bool) prog list" where
  "rx_bytes_differ L expected =
     map (\<lambda>(index, v). byte_differs (remu_ieee802154_rx_buffer L + of_nat index) v) expected"

definition wait_event :: "'d board \<Rightarrow> (u32 \<Rightarrow> bool) \<Rightarrow> ('d, u32) prog" where
  "wait_event B stop = poll B 20000 IEEE802154_EVENT_STATUS stop 0"

definition ieee_filter_setup :: "'d board \<Rightarrow> c6_objects \<Rightarrow> ('d, int) prog" where
  "ieee_filter_setup B L = act (write_all B
     [(IEEE802154_PAN0_ID, 0x1234), (IEEE802154_PAN0_SHORT_ADDRESS, 0x5678),
      (IEEE802154_PAN1_ID, 0xabcd), (IEEE802154_PAN1_SHORT_ADDRESS, 0x1357),
      (IEEE802154_CONFIGURATION,
       IEEE802154_AUTOMATIC_ACK_RECEIVE OR IEEE802154_PAN0_ENABLE OR IEEE802154_PAN1_ENABLE),
      (IEEE802154_RX_DMA_ADDRESS, remu_ieee802154_rx_buffer L),
      (IEEE802154_COMMAND, IEEE802154_RX_START)])"

definition ieee_filter_abort :: "'d board \<Rightarrow> ('d, int) prog" where
  "ieee_filter_abort B = do {
     event \<leftarrow> wait_event B (\<lambda>event. event AND (IEEE802154_RX_ABORT OR IEEE802154_RX_DONE) \<noteq> 0);
     fail_if 23 [ret (event AND IEEE802154_RX_ABORT = 0), ret (event AND IEEE802154_RX_DONE \<noteq> 0),
                 register_is B IEEE802154_RX_STATUS (\<lambda>v. v \<noteq> 0x51)] }"

definition ieee_pan1_frame :: "'d board \<Rightarrow> c6_objects \<Rightarrow> ('d, int) prog" where
  "ieee_pan1_frame B L = do {
     WRITE32 B IEEE802154_EVENT_STATUS IEEE802154_RX_ABORT;
     WRITE32 B IEEE802154_COMMAND IEEE802154_RX_START;
     event \<leftarrow> wait_event B (\<lambda>event. event AND (IEEE802154_RX_ABORT OR IEEE802154_RX_DONE) \<noteq> 0);
     fail_if 24 (ret (event AND IEEE802154_RX_DONE = 0) # rx_bytes_differ L
       [(0, 11), (1, 0x01), (2, 0x08), (3, 0x32), (4, 0xcd), (5, 0xab), (6, 0x57), (7, 0x13),
        (10, - 80), (11, 63)]) }"

definition ieee_ack_request :: "'d board \<Rightarrow> c6_objects \<Rightarrow> ('d, int) prog" where
  "ieee_ack_request B L = do {
     WRITE32 B IEEE802154_EVENT_STATUS IEEE802154_RX_DONE;
     WRITE32 B IEEE802154_TX_DMA_ADDRESS (ieee802154_ack_frame L);
     WRITE32 B IEEE802154_COMMAND IEEE802154_TX_START;
     event \<leftarrow> wait_event B (\<lambda>event. event AND IEEE802154_TX_DONE \<noteq> 0);
     fail_if 25 [ret (event AND IEEE802154_TX_DONE = 0)] }"

definition ieee_ack_received :: "'d board \<Rightarrow> c6_objects \<Rightarrow> ('d, int) prog" where
  "ieee_ack_received B L = do {
     WRITE32 B IEEE802154_EVENT_STATUS IEEE802154_TX_DONE;
     WRITE32 B IEEE802154_TIMER0_THRESHOLD 10000;
     WRITE32 B IEEE802154_COMMAND IEEE802154_TIMER0_START;
     event \<leftarrow> wait_event B (\<lambda>event. event AND (IEEE802154_ACK_RX_DONE OR IEEE802154_TIMER0_DONE) \<noteq> 0);
     fail_if 26 (ret (event AND IEEE802154_ACK_RX_DONE = 0) # ret (event AND IEEE802154_TIMER0_DONE \<noteq> 0) #
       rx_bytes_differ L [(0, 5), (1, 0x02), (2, 0x00), (3, 0x44), (4, - 80), (5, 63)]) }"

definition ieee_no_ack_request :: "'d board \<Rightarrow> c6_objects \<Rightarrow> ('d, int) prog" where
  "ieee_no_ack_request B L = do {
     WRITE32 B IEEE802154_COMMAND IEEE802154_TIMER0_STOP;
     WRITE32 B IEEE802154_EVENT_STATUS IEEE802154_ACK_RX_DONE;
     WRITE32 B IEEE802154_TX_DMA_ADDRESS (ieee802154_no_ack_frame L);
     WRITE32 B IEEE802154_COMMAND IEEE802154_TX_START;
     event \<leftarrow> wait_event B (\<lambda>event. event AND IEEE802154_TX_DONE \<noteq> 0);
     fail_if 27 [ret (event AND IEEE802154_TX_DONE = 0)] }"

definition ieee_ack_timeout :: "'d board \<Rightarrow> ('d, int) prog" where
  "ieee_ack_timeout B = do {
     WRITE32 B IEEE802154_EVENT_STATUS IEEE802154_TX_DONE;
     WRITE32 B IEEE802154_TIMER0_THRESHOLD 512;
     WRITE32 B IEEE802154_COMMAND IEEE802154_TIMER0_START;
     event \<leftarrow> wait_event B (\<lambda>event. event AND (IEEE802154_ACK_RX_DONE OR IEEE802154_TIMER0_DONE) \<noteq> 0);
     fail_if 28 [ret (event AND IEEE802154_TIMER0_DONE = 0), ret (event AND IEEE802154_ACK_RX_DONE \<noteq> 0)] }"

definition ieee_auto_ack :: "'d board \<Rightarrow> c6_objects \<Rightarrow> ('d, int) prog" where
  "ieee_auto_ack B L = do {
     write_all B
       [(IEEE802154_EVENT_STATUS, IEEE802154_TIMER0_DONE),
        (IEEE802154_COMMAND, IEEE802154_TIMER0_STOP),
        (IEEE802154_COMMAND, IEEE802154_STOP),
        (IEEE802154_CONFIGURATION,
         IEEE802154_AUTOMATIC_ACK_TRANSMIT OR IEEE802154_AUTOMATIC_ACK_RECEIVE OR
         IEEE802154_PAN0_ENABLE OR IEEE802154_PAN1_ENABLE),
        (IEEE802154_COMMAND, IEEE802154_RX_START)];
     event \<leftarrow> wait_event B (\<lambda>event. event AND (IEEE802154_RX_DONE OR IEEE802154_ACK_TX_DONE) =
                                 IEEE802154_RX_DONE OR IEEE802154_ACK_TX_DONE);
     fail_if 29
       (ret (event AND (IEEE802154_RX_DONE OR IEEE802154_ACK_TX_DONE) \<noteq>
             IEEE802154_RX_DONE OR IEEE802154_ACK_TX_DONE) #
        rx_bytes_differ L [(0, 11), (1, 0x21), (2, 0x08), (3, 0x46), (4, 0xcd), (5, 0xab),
                           (10, - 80), (11, 63)]) }"

definition ieee_security_abort :: "'d board \<Rightarrow> c6_objects \<Rightarrow> ('d, int) prog" where
  "ieee_security_abort B L = do {
     WRITE32 B IEEE802154_EVENT_STATUS (IEEE802154_RX_DONE OR IEEE802154_ACK_TX_DONE);
     WRITE32 B IEEE802154_SECURITY_CONTROL (1 OR shl 5 8);
     WRITE32 B IEEE802154_TX_DMA_ADDRESS (ieee802154_invalid_security_frame L);
     WRITE32 B IEEE802154_COMMAND IEEE802154_TX_START;
     event \<leftarrow> wait_event B (\<lambda>event. event AND IEEE802154_TX_ABORT \<noteq> 0);
     fail_if 30 [ret (event AND IEEE802154_TX_ABORT = 0),
                 register_is B IEEE802154_TX_STATUS (\<lambda>v. v \<noteq> shl 19 4 OR shl 1 16),
                 register_is B IEEE802154_DEBUG_TX_SECURITY_ERRORS (\<lambda>v. v \<noteq> 1)] }"

definition ieee_cca :: "'d board \<Rightarrow> c6_objects \<Rightarrow> ('d, int) prog" where
  "ieee_cca B L = do {
     write_all B
       [(IEEE802154_EVENT_STATUS, IEEE802154_TX_ABORT),
        (IEEE802154_SECURITY_CONTROL, 0),
        (IEEE802154_ED_DURATION, 8),
        (IEEE802154_ED_CONFIGURATION, to_u32 (- 75 :: u8) OR shl 1 14),
        (IEEE802154_TX_DMA_ADDRESS, ieee802154_frame L),
        (IEEE802154_COMMAND, IEEE802154_CCA_TX_START)];
     event \<leftarrow> wait_event B (\<lambda>event. event AND (IEEE802154_TX_DONE OR IEEE802154_TX_ABORT) \<noteq> 0);
     fail_if 31 [ret (event AND IEEE802154_TX_DONE = 0), ret (event AND IEEE802154_TX_ABORT \<noteq> 0)] }"

definition verify_ieee802154_filter_and_ack :: "'d board \<Rightarrow> c6_objects \<Rightarrow> ('d, int) prog" where
  "verify_ieee802154_filter_and_ack B L = checked
     [ieee_filter_setup B L, ieee_filter_abort B, ieee_pan1_frame B L, ieee_ack_request B L,
      ieee_ack_received B L, ieee_no_ack_request B L, ieee_ack_timeout B, ieee_auto_ack B L,
      ieee_security_abort B L, ieee_cca B L,
      act (WRITE32 B IEEE802154_EVENT_STATUS IEEE802154_TX_DONE)]"

section \<open>The main program\<close>

definition wifi_reset :: "'d board \<Rightarrow> ('d, int) prog" where
  "wifi_reset B = do {
     WRITE32 B WIFI_RESET_CONTROL (shl 1 1);
     fail_if 1 [register_is B WIFI_RESET_CONTROL (\<lambda>v. v AND 1 = 0)] }"

definition wifi_setup :: "'d board \<Rightarrow> ('d, int) prog" where
  "wifi_setup B = act (do {
     WRITE32 B INTERRUPT_MATRIX_WIFI_ROUTE WIFI_CPU_INTERRUPT;
     WRITE32 B PLIC_ENABLE (shl 1 (unat WIFI_CPU_INTERRUPT));
     WRITE32 B (PLIC_PRIORITY WIFI_CPU_INTERRUPT) 3;
     WRITE32 B PLIC_THRESHOLD 1;
     clocks \<leftarrow> READ32 B MODEM_SYSCON_WIFI_CLOCK_ENABLE;
     WRITE32 B MODEM_SYSCON_WIFI_CLOCK_ENABLE
       (clocks OR Stack_C6.MODEM_WIFI_APB_CLOCK OR Stack_C6.MODEM_WIFI_MAC_CLOCK OR
        MODEM_BLE_APB_CLOCK OR MODEM_BLE_BB_CLOCK) })"

definition wifi_tx_start :: "'d board \<Rightarrow> c6_objects \<Rightarrow> ('d, int) prog" where
  "wifi_tx_start B L = act (do {
     WRITE32 B WIFI_INTERRUPT_MASK (WIFI_TX_DONE OR WIFI_RX_DONE);
     poke32 (remu_wifi_descriptor L) 0xc0000000;
     poke32 (remu_wifi_descriptor L + 4) (remu_wifi_frame L);
     poke32 (remu_wifi_descriptor L + 8) 0;
     WRITE32 B WIFI_QUEUE2_CONTROL (WIFI_QUEUE_ENABLE OR (remu_wifi_descriptor L AND 0x000fffff)) })"

primrec wifi_tx_wait :: "'d board \<Rightarrow> nat \<Rightarrow> ('d, unit) prog" where
  "wifi_tx_wait B 0 = ret ()"
| "wifi_tx_wait B (Suc n) = do {
     queue \<leftarrow> READ32 B WIFI_QUEUE_STATE;
     if queue AND 1 \<noteq> 0 then do {
       event \<leftarrow> READ32 B WIFI_INTERRUPT_EVENT;
       if event AND WIFI_TX_DONE \<noteq> 0 then ret () else wifi_tx_wait B n }
     else wifi_tx_wait B n }"

definition wifi_tx_check :: "'d board \<Rightarrow> ('d, int) prog" where
  "wifi_tx_check B = checked
     [fail_if 2 [register_is B WIFI_QUEUE_STATE (\<lambda>v. v AND 1 = 0)],
      fail_if 3 [register_is B WIFI_INTERRUPT_EVENT (\<lambda>v. v AND WIFI_TX_DONE = 0)],
      fail_if 4 [register_is B INTERRUPT_MATRIX_STATUS0 (\<lambda>v. v AND 1 = 0),
                 register_is B PLIC_PENDING (\<lambda>v. v AND shl 1 (unat WIFI_CPU_INTERRUPT) = 0)]]"

definition wifi_tx_clear :: "'d board \<Rightarrow> ('d, int) prog" where
  "wifi_tx_clear B = do {
     WRITE32 B WIFI_INTERRUPT_CLEAR WIFI_TX_DONE;
     WRITE32 B WIFI_QUEUE_STATE_CLEAR 1;
     fail_if 5
       [register_is B WIFI_INTERRUPT_EVENT (\<lambda>v. v AND WIFI_TX_DONE \<noteq> 0),
        register_is B WIFI_QUEUE_STATE (\<lambda>v. v AND 1 \<noteq> 0),
        register_is B INTERRUPT_MATRIX_STATUS0 (\<lambda>v. v AND 1 \<noteq> 0),
        register_is B PLIC_PENDING (\<lambda>v. v AND shl 1 (unat WIFI_CPU_INTERRUPT) \<noteq> 0)] }"

definition ieee_identify :: "'d board \<Rightarrow> ('d, int) prog" where
  "ieee_identify B = fail_if 6
     [register_is B IEEE802154_MAC_DATE (\<lambda>v. v AND 0x0fffffff \<noteq> 0x00220622)]"

definition ieee_tx :: "'d board \<Rightarrow> c6_objects \<Rightarrow> ('d, int) prog" where
  "ieee_tx B L = do {
     write_all B
       [(MODEM_SYSCON_CLOCK_CONFIG, MODEM_ZB_APB_CLOCK OR MODEM_ZB_MAC_CLOCK OR MODEM_SECURITY_CCM_CLOCK),
        (IEEE802154_CHANNEL, 3),
        (IEEE802154_EVENT_ENABLE, 0x1fff),
        (IEEE802154_TX_DMA_ADDRESS, ieee802154_frame L),
        (IEEE802154_COMMAND, IEEE802154_TX_START)];
     event \<leftarrow> poll B 1000 IEEE802154_EVENT_STATUS (\<lambda>event. event AND (IEEE802154_TX_DONE OR shl 1 5) \<noteq> 0) 0;
     fail_if 7 [ret (event AND IEEE802154_TX_DONE = 0)] }"

definition ieee_tx_clear :: "'d board \<Rightarrow> ('d, int) prog" where
  "ieee_tx_clear B = do {
     WRITE32 B IEEE802154_EVENT_STATUS IEEE802154_TX_DONE;
     fail_if 8 [register_is B IEEE802154_EVENT_STATUS (\<lambda>v. v AND IEEE802154_TX_DONE \<noteq> 0)] }"

definition ieee_rx :: "'d board \<Rightarrow> c6_objects \<Rightarrow> ('d, int) prog" where
  "ieee_rx B L = do {
     WRITE32 B IEEE802154_CONFIGURATION IEEE802154_PROMISCUOUS;
     WRITE32 B IEEE802154_RX_DMA_ADDRESS (remu_ieee802154_rx_buffer L);
     WRITE32 B IEEE802154_COMMAND IEEE802154_RX_START;
     event \<leftarrow> wait_event B (\<lambda>event. event AND (IEEE802154_RX_DONE OR shl 1 4) \<noteq> 0);
     fail_if 14 (ret (event AND IEEE802154_RX_DONE = 0) # rx_bytes_differ L
       [(0, 6), (1, 0x01), (2, 0x00), (3, 0x02), (4, 0xaa), (5, - 80), (6, 63)]) }"

definition ieee_rx_clear :: "'d board \<Rightarrow> ('d, int) prog" where
  "ieee_rx_clear B = do {
     WRITE32 B IEEE802154_EVENT_STATUS IEEE802154_RX_DONE;
     fail_if 15 [register_is B IEEE802154_EVENT_STATUS (\<lambda>v. v AND IEEE802154_RX_DONE \<noteq> 0)] }"

definition ieee_energy_detect :: "'d board \<Rightarrow> ('d, int) prog" where
  "ieee_energy_detect B = do {
     WRITE32 B IEEE802154_COMMAND IEEE802154_ED_START;
     event \<leftarrow> poll B 1000 IEEE802154_EVENT_STATUS (\<lambda>event. event AND IEEE802154_ED_DONE \<noteq> 0) 0;
     fail_if 9 [ret (event AND IEEE802154_ED_DONE = 0)] }"

definition c6_main :: "'d board \<Rightarrow> c6_objects \<Rightarrow> ('d, int) prog" where
  "c6_main B L = checked
     [wifi_reset B, wifi_setup B, act (configure_wifi_rf B 1), wifi_tx_start B L,
      act (wifi_tx_wait B 20000), wifi_tx_check B, wifi_tx_clear B,
      verify_wifi_rx B L,
      ieee_identify B, ieee_tx B L, ieee_tx_clear B, ieee_rx B L, ieee_rx_clear B, ieee_energy_detect B,
      act (WRITE32 B IEEE802154_EVENT_STATUS IEEE802154_ED_DONE),
      verify_ieee802154_filter_and_ack B L,
      verify_ble B L]"

section \<open>The initial frames\<close>

text \<open>
  The length byte of each 802.15.4 frame counts the bytes after it; the acknowledgement-request bit
  is set in exactly the two frames that ask for one; the length word of the Wi-Fi frame is its 24
  MAC bytes and the check sequence.
\<close>

lemma frames_well_formed:
  "f \<in> {ieee802154_frame_bytes, ieee802154_ack_frame_bytes, ieee802154_no_ack_frame_bytes,
        ieee802154_invalid_security_frame_bytes} \<Longrightarrow>
   unat (hd f) = length f - 1 \<and>
   (f ! 1 AND 0x20 \<noteq> 0 \<longleftrightarrow> f \<in> {ieee802154_ack_frame_bytes, ieee802154_no_ack_frame_bytes})"
  "unat (hd remu_wifi_frame_bytes) = length remu_wifi_frame_bytes - 8 + 4"
  by (auto simp: ieee802154_frame_bytes_def ieee802154_ack_frame_bytes_def ieee802154_no_ack_frame_bytes_def
      ieee802154_invalid_security_frame_bytes_def remu_wifi_frame_bytes_def)

end
