(* ===== verification/Stack_C6_Evidence.thy ===== *)
theory Stack_C6_Evidence
  imports Stack_C6
begin

text \<open>
  What the exit code of the ESP32-C6 qualification firmware means.  Every part of the program has a
  contract: the codes it may return, a bound on the accesses it makes whatever the devices answer, and
  the evidence, as a list of trace patterns, that a result of 0 stands for.  The contracts of the
  functions and of the whole program are composed from these.
\<close>

lemmas program_parts = probe_parts dma_publish_def write32_def wait_event_def rx_bytes_differ_def

section \<open>Wi-Fi\<close>

definition wifi_tx_evidence :: "c6_objects \<Rightarrow> (event \<Rightarrow> bool) list" where
  "wifi_tx_evidence L =
     [wrote WIFI_RESET_CONTROL (shl 1 1), answered WIFI_RESET_CONTROL (\<lambda>v. v AND 1 \<noteq> 0),
      wrote INTERRUPT_MATRIX_WIFI_ROUTE WIFI_CPU_INTERRUPT,
      wrote PLIC_ENABLE (shl 1 (unat WIFI_CPU_INTERRUPT)),
      wrote (PLIC_PRIORITY WIFI_CPU_INTERRUPT) 3, wrote PLIC_THRESHOLD 1] @
     map (\<lambda>e f. f = Bus e) (tuning_trace 1 gain_14dbm) @
     [wrote WIFI_INTERRUPT_MASK (WIFI_TX_DONE OR WIFI_RX_DONE),
      wrote WIFI_QUEUE2_CONTROL (WIFI_QUEUE_ENABLE OR (remu_wifi_descriptor L AND 0x000fffff)),
      answered WIFI_QUEUE_STATE (\<lambda>v. v AND 1 \<noteq> 0),
      answered WIFI_INTERRUPT_EVENT (\<lambda>v. v AND WIFI_TX_DONE \<noteq> 0),
      answered INTERRUPT_MATRIX_STATUS0 (\<lambda>v. v AND 1 \<noteq> 0),
      answered PLIC_PENDING (\<lambda>v. v AND shl 1 (unat WIFI_CPU_INTERRUPT) \<noteq> 0),
      wrote WIFI_INTERRUPT_CLEAR WIFI_TX_DONE, wrote WIFI_QUEUE_STATE_CLEAR 1,
      answered WIFI_INTERRUPT_EVENT (\<lambda>v. v AND WIFI_TX_DONE = 0),
      answered WIFI_QUEUE_STATE (\<lambda>v. v AND 1 = 0),
      answered INTERRUPT_MATRIX_STATUS0 (\<lambda>v. v AND 1 = 0),
      answered PLIC_PENDING (\<lambda>v. v AND shl 1 (unat WIFI_CPU_INTERRUPT) = 0)]"

definition wifi_rx_evidence :: "c6_objects \<Rightarrow> (event \<Rightarrow> bool) list" where
  "wifi_rx_evidence L =
     [wrote WIFI_RX_BASE (remu_wifi_rx_descriptor L),
      answered WIFI_INTERRUPT_EVENT (\<lambda>v. v AND WIFI_RX_DONE \<noteq> 0)] @
     saw_bytes (remu_wifi_rx_buffer L + 92) [(0, 0x80), (1, 0x00), (4, 0xff), (9, 0xff), (10, 0x02), (15, 0x01)] @
     [wrote WIFI_INTERRUPT_CLEAR WIFI_RX_DONE,
      answered WIFI_INTERRUPT_EVENT (\<lambda>v. v AND WIFI_RX_DONE = 0)]"

lemma part_wifi_reset:
  "part (wifi_reset B) {1} 2
     [wrote WIFI_RESET_CONTROL (shl 1 1), answered WIFI_RESET_CONTROL (\<lambda>v. v AND 1 \<noteq> 0)]"
  unfolding wifi_reset_def program_parts
  by (intro partI trace_rules) simp_all

lemma part_wifi_setup:
  "part (wifi_setup B) {} 6
     [wrote INTERRUPT_MATRIX_WIFI_ROUTE WIFI_CPU_INTERRUPT,
      wrote PLIC_ENABLE (shl 1 (unat WIFI_CPU_INTERRUPT)),
      wrote (PLIC_PRIORITY WIFI_CPU_INTERRUPT) 3, wrote PLIC_THRESHOLD 1]"
  unfolding wifi_setup_def program_parts
  by (intro partI trace_rules) simp_all

text \<open>The tuning program is the one of the other firmware: channel 1 at 14 dBm.\<close>

lemma gain_program_trace:
  "map (\<lambda>(a, v). Bus (Wr a v)) (gain_program gs) = map Bus (concat (map gain_writes gs))"
  by (induction gs)
    (simp_all add: gain_writes_def WIFI_RF_GAIN_FIRST_def WIFI_RF_GAIN_SECOND_def WIFI_RF_GAIN_FINAL_def
      C6_REG_TX_GAIN_FIRST_def C6_REG_TX_GAIN_SECOND_def C6_REG_TX_GAIN_FINAL_def)

lemma gain_tables_equal: "wifi_rf_gain_14dbm = gain_14dbm"
  by (simp add: wifi_rf_gain_14dbm_def gain_14dbm_def)

lemma pll_code:
  assumes "legal_channel c"
  shows "0x42844000 OR (0x380 + to_u32 c * 0x280) = pll_word c"
proof -
  have "unat c \<in> {1..13}"
    using assms by (simp add: legal_channel_def word_le_nat_alt)
  then have "c \<in> of_nat ` {1..13}"
    by (intro image_eqI [of _ _ "unat c"]) simp_all
  then show ?thesis
    by (auto simp: pll_word_def atLeastAtMost_upt upt_rec)
qed

lemma traces_configure_wifi_rf:
  assumes "legal_channel c" "Q () (map Bus (tuning_trace c gain_14dbm))"
  shows "traces (configure_wifi_rf B (to_u32 c)) Q"
  unfolding configure_wifi_rf_def gain_tables_equal
  using assms
  by (intro trace_rules)
    (simp add: gain_program_trace pll_code tuning_trace_def WIFI_RF_FRONTEND_FORCE_def
      WIFI_RF_FREQUENCY_CONTROL_def C6_REG_RF_FRONTEND_FORCE_def C6_REG_RFPLL_CHANNEL_CONTROL_def
      RF_FRONTEND_OFF_def)

lemma exhibits_self: "exhibits (map (\<lambda>e f. f = Bus e) es) (map Bus es)"
  by (induction es) simp_all

lemma length_tuning_trace: "length (tuning_trace c gain_14dbm) = 132"
  by (simp add: tuning_trace_def gain_14dbm_def gain_writes_def)

lemma part_configure_wifi_rf:
  "part (act (configure_wifi_rf B 1)) {} 132 (map (\<lambda>e f. f = Bus e) (tuning_trace 1 gain_14dbm))"
proof -
  have "traces (configure_wifi_rf B (to_u32 (1 :: u8))) (\<lambda>a es. traces (ret 0) (\<lambda>b fs. b \<in> insert 0 {} \<and>
      length (es @ fs) \<le> 132 \<and>
      (b = 0 \<longrightarrow> exhibits (map (\<lambda>e f. f = Bus e) (tuning_trace 1 gain_14dbm)) (es @ fs))))"
    by (intro traces_configure_wifi_rf traces_return)
      (simp_all add: legal_channel_def exhibits_self length_tuning_trace)
  then show ?thesis
    unfolding act_def by (intro partI traces_bind) simp
qed

lemma part_wifi_tx_start:
  "part (wifi_tx_start B L) {} 2
     [wrote WIFI_INTERRUPT_MASK (WIFI_TX_DONE OR WIFI_RX_DONE),
      wrote WIFI_QUEUE2_CONTROL (WIFI_QUEUE_ENABLE OR (remu_wifi_descriptor L AND 0x000fffff))]"
  unfolding wifi_tx_start_def program_parts
  by (intro partI trace_rules) simp_all

lemma traces_wifi_tx_wait: "traces (wifi_tx_wait B n) (\<lambda>_ es. length es \<le> 2 * n)"
proof (induction n)
  case (Suc n)
  show ?case
    unfolding wifi_tx_wait.simps
    by (intro trace_rules traces_mono [OF Suc]) simp_all
qed (simp add: traces_return)

lemma part_wifi_tx_wait: "part (act (wifi_tx_wait B 20000)) {} 40000 []"
  unfolding act_def
  by (intro partI traces_bind traces_mono [OF traces_wifi_tx_wait] traces_return) simp

lemma part_wifi_tx_check:
  "part (wifi_tx_check B) {2, 3, 4} 4
     [answered WIFI_QUEUE_STATE (\<lambda>v. v AND 1 \<noteq> 0),
      answered WIFI_INTERRUPT_EVENT (\<lambda>v. v AND WIFI_TX_DONE \<noteq> 0),
      answered INTERRUPT_MATRIX_STATUS0 (\<lambda>v. v AND 1 \<noteq> 0),
      answered PLIC_PENDING (\<lambda>v. v AND shl 1 (unat WIFI_CPU_INTERRUPT) \<noteq> 0)]"
  unfolding wifi_tx_check_def program_parts checked.simps
  by (intro partI trace_rules) simp_all

lemma part_wifi_tx_clear:
  "part (wifi_tx_clear B) {5} 6
     [wrote WIFI_INTERRUPT_CLEAR WIFI_TX_DONE, wrote WIFI_QUEUE_STATE_CLEAR 1,
      answered WIFI_INTERRUPT_EVENT (\<lambda>v. v AND WIFI_TX_DONE = 0),
      answered WIFI_QUEUE_STATE (\<lambda>v. v AND 1 = 0),
      answered INTERRUPT_MATRIX_STATUS0 (\<lambda>v. v AND 1 = 0),
      answered PLIC_PENDING (\<lambda>v. v AND shl 1 (unat WIFI_CPU_INTERRUPT) = 0)]"
  unfolding wifi_tx_clear_def program_parts
  by (intro partI trace_rules) simp_all

lemma part_wifi_rx_arm:
  "part (wifi_rx_arm B L) {} 1 [wrote WIFI_RX_BASE (remu_wifi_rx_descriptor L)]"
  unfolding wifi_rx_arm_def program_parts
  by (intro partI trace_rules) simp_all

lemma part_wifi_rx_wait:
  "part (wifi_rx_wait B) {10} 20000 [answered WIFI_INTERRUPT_EVENT (\<lambda>v. v AND WIFI_RX_DONE \<noteq> 0)]"
  unfolding wifi_rx_wait_def program_parts
  by (intro partI trace_rules) (simp_all add: exhibits_skip)

lemma part_wifi_rx_length: "part (wifi_rx_length L) {11} 4 []"
  unfolding wifi_rx_length_def program_parts
  by (intro partI trace_rules) simp_all

lemma part_wifi_rx_frame:
  "part (wifi_rx_frame L) {12} 6
     (saw_bytes (remu_wifi_rx_buffer L + 92)
        [(0, 0x80), (1, 0x00), (4, 0xff), (9, 0xff), (10, 0x02), (15, 0x01)])"
  unfolding wifi_rx_frame_def program_parts Let_def
  by (intro partI trace_rules) simp_all

lemma part_wifi_rx_clear:
  "part (wifi_rx_clear B) {13} 2
     [wrote WIFI_INTERRUPT_CLEAR WIFI_RX_DONE,
      answered WIFI_INTERRUPT_EVENT (\<lambda>v. v AND WIFI_RX_DONE = 0)]"
  unfolding wifi_rx_clear_def program_parts
  by (intro partI trace_rules) simp_all

lemma part_verify_wifi_rx: "part (verify_wifi_rx B L) {10, 11, 12, 13} 20013 (wifi_rx_evidence L)"
  unfolding verify_wifi_rx_def wifi_rx_evidence_def
  by (rule part_weaken)
    (rule part_checked_Cons part_checked_Nil part_wifi_rx_arm part_wifi_rx_wait part_wifi_rx_length
      part_wifi_rx_frame part_wifi_rx_clear | simp)+

section \<open>IEEE 802.15.4\<close>

definition ieee_evidence :: "c6_objects \<Rightarrow> (event \<Rightarrow> bool) list" where
  "ieee_evidence L =
     [answered IEEE802154_MAC_DATE (\<lambda>v. v AND 0x0fffffff = 0x00220622)] @
     [wrote MODEM_SYSCON_CLOCK_CONFIG (MODEM_ZB_APB_CLOCK OR MODEM_ZB_MAC_CLOCK OR MODEM_SECURITY_CCM_CLOCK),
      wrote IEEE802154_CHANNEL 3,
      wrote IEEE802154_EVENT_ENABLE 0x1fff,
      wrote IEEE802154_TX_DMA_ADDRESS (ieee802154_frame L),
      wrote IEEE802154_COMMAND IEEE802154_TX_START,
      answered IEEE802154_EVENT_STATUS (\<lambda>v. v AND IEEE802154_TX_DONE \<noteq> 0)] @
     [wrote IEEE802154_EVENT_STATUS IEEE802154_TX_DONE,
      answered IEEE802154_EVENT_STATUS (\<lambda>v. v AND IEEE802154_TX_DONE = 0)] @
     [wrote IEEE802154_CONFIGURATION IEEE802154_PROMISCUOUS,
      wrote IEEE802154_RX_DMA_ADDRESS (remu_ieee802154_rx_buffer L),
      wrote IEEE802154_COMMAND IEEE802154_RX_START,
      answered IEEE802154_EVENT_STATUS (\<lambda>v. v AND IEEE802154_RX_DONE \<noteq> 0)] @
     saw_bytes (remu_ieee802154_rx_buffer L)
       [(0, 6), (1, 0x01), (2, 0x00), (3, 0x02), (4, 0xaa), (5, - 80), (6, 63)] @
     [wrote IEEE802154_EVENT_STATUS IEEE802154_RX_DONE,
      answered IEEE802154_EVENT_STATUS (\<lambda>v. v AND IEEE802154_RX_DONE = 0)] @
     [wrote IEEE802154_COMMAND IEEE802154_ED_START,
      answered IEEE802154_EVENT_STATUS (\<lambda>v. v AND IEEE802154_ED_DONE \<noteq> 0)] @
     [wrote IEEE802154_EVENT_STATUS IEEE802154_ED_DONE]"

definition ieee_filter_evidence :: "c6_objects \<Rightarrow> (event \<Rightarrow> bool) list" where
  "ieee_filter_evidence L =
     [wrote IEEE802154_PAN0_ID 0x1234,
      wrote IEEE802154_PAN0_SHORT_ADDRESS 0x5678,
      wrote IEEE802154_PAN1_ID 0xabcd,
      wrote IEEE802154_PAN1_SHORT_ADDRESS 0x1357,
      wrote IEEE802154_CONFIGURATION (IEEE802154_AUTOMATIC_ACK_RECEIVE OR IEEE802154_PAN0_ENABLE OR IEEE802154_PAN1_ENABLE),
      wrote IEEE802154_RX_DMA_ADDRESS (remu_ieee802154_rx_buffer L),
      wrote IEEE802154_COMMAND IEEE802154_RX_START] @
     [answered IEEE802154_EVENT_STATUS (\<lambda>v. v AND IEEE802154_RX_ABORT \<noteq> 0 \<and> v AND IEEE802154_RX_DONE = 0),
      answered IEEE802154_RX_STATUS (\<lambda>v. v = 0x51)] @
     [wrote IEEE802154_EVENT_STATUS IEEE802154_RX_ABORT,
      wrote IEEE802154_COMMAND IEEE802154_RX_START,
      answered IEEE802154_EVENT_STATUS (\<lambda>v. v AND IEEE802154_RX_DONE \<noteq> 0)] @
     saw_bytes (remu_ieee802154_rx_buffer L)
       [(0, 11), (1, 0x01), (2, 0x08), (3, 0x32), (4, 0xcd), (5, 0xab), (6, 0x57), (7, 0x13),
        (10, - 80), (11, 63)] @
     [wrote IEEE802154_EVENT_STATUS IEEE802154_RX_DONE,
      wrote IEEE802154_TX_DMA_ADDRESS (ieee802154_ack_frame L),
      wrote IEEE802154_COMMAND IEEE802154_TX_START,
      answered IEEE802154_EVENT_STATUS (\<lambda>v. v AND IEEE802154_TX_DONE \<noteq> 0)] @
     [wrote IEEE802154_EVENT_STATUS IEEE802154_TX_DONE,
      wrote IEEE802154_TIMER0_THRESHOLD 10000,
      wrote IEEE802154_COMMAND IEEE802154_TIMER0_START,
      answered IEEE802154_EVENT_STATUS (\<lambda>v. v AND IEEE802154_ACK_RX_DONE \<noteq> 0 \<and> v AND IEEE802154_TIMER0_DONE = 0)] @
     saw_bytes (remu_ieee802154_rx_buffer L)
       [(0, 5), (1, 0x02), (2, 0x00), (3, 0x44), (4, - 80), (5, 63)] @
     [wrote IEEE802154_COMMAND IEEE802154_TIMER0_STOP,
      wrote IEEE802154_EVENT_STATUS IEEE802154_ACK_RX_DONE,
      wrote IEEE802154_TX_DMA_ADDRESS (ieee802154_no_ack_frame L),
      wrote IEEE802154_COMMAND IEEE802154_TX_START,
      answered IEEE802154_EVENT_STATUS (\<lambda>v. v AND IEEE802154_TX_DONE \<noteq> 0)] @
     [wrote IEEE802154_EVENT_STATUS IEEE802154_TX_DONE,
      wrote IEEE802154_TIMER0_THRESHOLD 512,
      wrote IEEE802154_COMMAND IEEE802154_TIMER0_START,
      answered IEEE802154_EVENT_STATUS (\<lambda>v. v AND IEEE802154_TIMER0_DONE \<noteq> 0 \<and> v AND IEEE802154_ACK_RX_DONE = 0)] @
     [wrote IEEE802154_EVENT_STATUS IEEE802154_TIMER0_DONE,
      wrote IEEE802154_COMMAND IEEE802154_TIMER0_STOP,
      wrote IEEE802154_COMMAND IEEE802154_STOP,
      wrote IEEE802154_CONFIGURATION (IEEE802154_AUTOMATIC_ACK_TRANSMIT OR IEEE802154_AUTOMATIC_ACK_RECEIVE OR IEEE802154_PAN0_ENABLE OR IEEE802154_PAN1_ENABLE),
      wrote IEEE802154_COMMAND IEEE802154_RX_START,
      answered IEEE802154_EVENT_STATUS (\<lambda>v. v AND (IEEE802154_RX_DONE OR IEEE802154_ACK_TX_DONE) = IEEE802154_RX_DONE OR IEEE802154_ACK_TX_DONE)] @
     saw_bytes (remu_ieee802154_rx_buffer L)
       [(0, 11), (1, 0x21), (2, 0x08), (3, 0x46), (4, 0xcd), (5, 0xab), (10, - 80), (11, 63)] @
     [wrote IEEE802154_EVENT_STATUS (IEEE802154_RX_DONE OR IEEE802154_ACK_TX_DONE),
      wrote IEEE802154_SECURITY_CONTROL (1 OR shl 5 8),
      wrote IEEE802154_TX_DMA_ADDRESS (ieee802154_invalid_security_frame L),
      wrote IEEE802154_COMMAND IEEE802154_TX_START,
      answered IEEE802154_EVENT_STATUS (\<lambda>v. v AND IEEE802154_TX_ABORT \<noteq> 0),
      answered IEEE802154_TX_STATUS (\<lambda>v. v = shl 19 4 OR shl 1 16),
      answered IEEE802154_DEBUG_TX_SECURITY_ERRORS (\<lambda>v. v = 1)] @
     [wrote IEEE802154_EVENT_STATUS IEEE802154_TX_ABORT,
      wrote IEEE802154_SECURITY_CONTROL 0,
      wrote IEEE802154_ED_DURATION 8,
      wrote IEEE802154_ED_CONFIGURATION (to_u32 (- 75 :: u8) OR shl 1 14),
      wrote IEEE802154_TX_DMA_ADDRESS (ieee802154_frame L),
      wrote IEEE802154_COMMAND IEEE802154_CCA_TX_START,
      answered IEEE802154_EVENT_STATUS (\<lambda>v. v AND IEEE802154_TX_DONE \<noteq> 0 \<and> v AND IEEE802154_TX_ABORT = 0)] @
     [wrote IEEE802154_EVENT_STATUS IEEE802154_TX_DONE]"

lemma part_ieee_identify:
  "part (ieee_identify B) {6} 1
     [answered IEEE802154_MAC_DATE (\<lambda>v. v AND 0x0fffffff = 0x00220622)]"
  unfolding ieee_identify_def program_parts
  by (intro partI trace_rules) (simp_all add: exhibits_skip)

lemma part_ieee_tx:
  "part (ieee_tx B L) {7} 1005
     [wrote MODEM_SYSCON_CLOCK_CONFIG (MODEM_ZB_APB_CLOCK OR MODEM_ZB_MAC_CLOCK OR MODEM_SECURITY_CCM_CLOCK),
      wrote IEEE802154_CHANNEL 3,
      wrote IEEE802154_EVENT_ENABLE 0x1fff,
      wrote IEEE802154_TX_DMA_ADDRESS (ieee802154_frame L),
      wrote IEEE802154_COMMAND IEEE802154_TX_START,
      answered IEEE802154_EVENT_STATUS (\<lambda>v. v AND IEEE802154_TX_DONE \<noteq> 0)]"
  unfolding ieee_tx_def program_parts
  by (intro partI trace_rules) (simp_all add: exhibits_skip)

lemma part_ieee_tx_clear:
  "part (ieee_tx_clear B) {8} 2
     [wrote IEEE802154_EVENT_STATUS IEEE802154_TX_DONE,
      answered IEEE802154_EVENT_STATUS (\<lambda>v. v AND IEEE802154_TX_DONE = 0)]"
  unfolding ieee_tx_clear_def program_parts
  by (intro partI trace_rules) (simp_all add: exhibits_skip)

lemma part_ieee_rx:
  "part (ieee_rx B L) {14} 20010
     ([wrote IEEE802154_CONFIGURATION IEEE802154_PROMISCUOUS,
      wrote IEEE802154_RX_DMA_ADDRESS (remu_ieee802154_rx_buffer L),
      wrote IEEE802154_COMMAND IEEE802154_RX_START,
      answered IEEE802154_EVENT_STATUS (\<lambda>v. v AND IEEE802154_RX_DONE \<noteq> 0)] @
     saw_bytes (remu_ieee802154_rx_buffer L)
       [(0, 6), (1, 0x01), (2, 0x00), (3, 0x02), (4, 0xaa), (5, - 80), (6, 63)])"
  unfolding ieee_rx_def program_parts
  by (intro partI trace_rules) (simp_all add: exhibits_skip)

lemma part_ieee_rx_clear:
  "part (ieee_rx_clear B) {15} 2
     [wrote IEEE802154_EVENT_STATUS IEEE802154_RX_DONE,
      answered IEEE802154_EVENT_STATUS (\<lambda>v. v AND IEEE802154_RX_DONE = 0)]"
  unfolding ieee_rx_clear_def program_parts
  by (intro partI trace_rules) (simp_all add: exhibits_skip)

lemma part_ieee_energy_detect:
  "part (ieee_energy_detect B) {9} 1001
     [wrote IEEE802154_COMMAND IEEE802154_ED_START,
      answered IEEE802154_EVENT_STATUS (\<lambda>v. v AND IEEE802154_ED_DONE \<noteq> 0)]"
  unfolding ieee_energy_detect_def program_parts
  by (intro partI trace_rules) (simp_all add: exhibits_skip)

lemma part_ieee_filter_setup:
  "part (ieee_filter_setup B L) {} 7
     [wrote IEEE802154_PAN0_ID 0x1234,
      wrote IEEE802154_PAN0_SHORT_ADDRESS 0x5678,
      wrote IEEE802154_PAN1_ID 0xabcd,
      wrote IEEE802154_PAN1_SHORT_ADDRESS 0x1357,
      wrote IEEE802154_CONFIGURATION (IEEE802154_AUTOMATIC_ACK_RECEIVE OR IEEE802154_PAN0_ENABLE OR IEEE802154_PAN1_ENABLE),
      wrote IEEE802154_RX_DMA_ADDRESS (remu_ieee802154_rx_buffer L),
      wrote IEEE802154_COMMAND IEEE802154_RX_START]"
  unfolding ieee_filter_setup_def program_parts
  by (intro partI trace_rules) (simp_all add: exhibits_skip)

lemma part_ieee_filter_abort:
  "part (ieee_filter_abort B) {23} 20001
     [answered IEEE802154_EVENT_STATUS (\<lambda>v. v AND IEEE802154_RX_ABORT \<noteq> 0 \<and> v AND IEEE802154_RX_DONE = 0),
      answered IEEE802154_RX_STATUS (\<lambda>v. v = 0x51)]"
  unfolding ieee_filter_abort_def program_parts
  by (intro partI trace_rules) (simp_all add: exhibits_skip)

lemma part_ieee_pan1_frame:
  "part (ieee_pan1_frame B L) {24} 20012
     ([wrote IEEE802154_EVENT_STATUS IEEE802154_RX_ABORT,
      wrote IEEE802154_COMMAND IEEE802154_RX_START,
      answered IEEE802154_EVENT_STATUS (\<lambda>v. v AND IEEE802154_RX_DONE \<noteq> 0)] @
     saw_bytes (remu_ieee802154_rx_buffer L)
       [(0, 11), (1, 0x01), (2, 0x08), (3, 0x32), (4, 0xcd), (5, 0xab), (6, 0x57), (7, 0x13),
        (10, - 80), (11, 63)])"
  unfolding ieee_pan1_frame_def program_parts
  by (intro partI trace_rules) (simp_all add: exhibits_skip)

lemma part_ieee_ack_request:
  "part (ieee_ack_request B L) {25} 20003
     [wrote IEEE802154_EVENT_STATUS IEEE802154_RX_DONE,
      wrote IEEE802154_TX_DMA_ADDRESS (ieee802154_ack_frame L),
      wrote IEEE802154_COMMAND IEEE802154_TX_START,
      answered IEEE802154_EVENT_STATUS (\<lambda>v. v AND IEEE802154_TX_DONE \<noteq> 0)]"
  unfolding ieee_ack_request_def program_parts
  by (intro partI trace_rules) (simp_all add: exhibits_skip)

lemma part_ieee_ack_received:
  "part (ieee_ack_received B L) {26} 20009
     ([wrote IEEE802154_EVENT_STATUS IEEE802154_TX_DONE,
      wrote IEEE802154_TIMER0_THRESHOLD 10000,
      wrote IEEE802154_COMMAND IEEE802154_TIMER0_START,
      answered IEEE802154_EVENT_STATUS (\<lambda>v. v AND IEEE802154_ACK_RX_DONE \<noteq> 0 \<and> v AND IEEE802154_TIMER0_DONE = 0)] @
     saw_bytes (remu_ieee802154_rx_buffer L)
       [(0, 5), (1, 0x02), (2, 0x00), (3, 0x44), (4, - 80), (5, 63)])"
  unfolding ieee_ack_received_def program_parts
  by (intro partI trace_rules) (simp_all add: exhibits_skip)

lemma part_ieee_no_ack_request:
  "part (ieee_no_ack_request B L) {27} 20004
     [wrote IEEE802154_COMMAND IEEE802154_TIMER0_STOP,
      wrote IEEE802154_EVENT_STATUS IEEE802154_ACK_RX_DONE,
      wrote IEEE802154_TX_DMA_ADDRESS (ieee802154_no_ack_frame L),
      wrote IEEE802154_COMMAND IEEE802154_TX_START,
      answered IEEE802154_EVENT_STATUS (\<lambda>v. v AND IEEE802154_TX_DONE \<noteq> 0)]"
  unfolding ieee_no_ack_request_def program_parts
  by (intro partI trace_rules) (simp_all add: exhibits_skip)

lemma part_ieee_ack_timeout:
  "part (ieee_ack_timeout B) {28} 20003
     [wrote IEEE802154_EVENT_STATUS IEEE802154_TX_DONE,
      wrote IEEE802154_TIMER0_THRESHOLD 512,
      wrote IEEE802154_COMMAND IEEE802154_TIMER0_START,
      answered IEEE802154_EVENT_STATUS (\<lambda>v. v AND IEEE802154_TIMER0_DONE \<noteq> 0 \<and> v AND IEEE802154_ACK_RX_DONE = 0)]"
  unfolding ieee_ack_timeout_def program_parts
  by (intro partI trace_rules) (simp_all add: exhibits_skip)

lemma part_ieee_auto_ack:
  "part (ieee_auto_ack B L) {29} 20013
     ([wrote IEEE802154_EVENT_STATUS IEEE802154_TIMER0_DONE,
      wrote IEEE802154_COMMAND IEEE802154_TIMER0_STOP,
      wrote IEEE802154_COMMAND IEEE802154_STOP,
      wrote IEEE802154_CONFIGURATION (IEEE802154_AUTOMATIC_ACK_TRANSMIT OR IEEE802154_AUTOMATIC_ACK_RECEIVE OR IEEE802154_PAN0_ENABLE OR IEEE802154_PAN1_ENABLE),
      wrote IEEE802154_COMMAND IEEE802154_RX_START,
      answered IEEE802154_EVENT_STATUS (\<lambda>v. v AND (IEEE802154_RX_DONE OR IEEE802154_ACK_TX_DONE) = IEEE802154_RX_DONE OR IEEE802154_ACK_TX_DONE)] @
     saw_bytes (remu_ieee802154_rx_buffer L)
       [(0, 11), (1, 0x21), (2, 0x08), (3, 0x46), (4, 0xcd), (5, 0xab), (10, - 80), (11, 63)])"
  unfolding ieee_auto_ack_def program_parts
  by (intro partI trace_rules) (simp_all add: exhibits_skip)

lemma part_ieee_security_abort:
  "part (ieee_security_abort B L) {30} 20006
     [wrote IEEE802154_EVENT_STATUS (IEEE802154_RX_DONE OR IEEE802154_ACK_TX_DONE),
      wrote IEEE802154_SECURITY_CONTROL (1 OR shl 5 8),
      wrote IEEE802154_TX_DMA_ADDRESS (ieee802154_invalid_security_frame L),
      wrote IEEE802154_COMMAND IEEE802154_TX_START,
      answered IEEE802154_EVENT_STATUS (\<lambda>v. v AND IEEE802154_TX_ABORT \<noteq> 0),
      answered IEEE802154_TX_STATUS (\<lambda>v. v = shl 19 4 OR shl 1 16),
      answered IEEE802154_DEBUG_TX_SECURITY_ERRORS (\<lambda>v. v = 1)]"
  unfolding ieee_security_abort_def program_parts
  by (intro partI trace_rules) (simp_all add: exhibits_skip)

lemma part_ieee_cca:
  "part (ieee_cca B L) {31} 20006
     [wrote IEEE802154_EVENT_STATUS IEEE802154_TX_ABORT,
      wrote IEEE802154_SECURITY_CONTROL 0,
      wrote IEEE802154_ED_DURATION 8,
      wrote IEEE802154_ED_CONFIGURATION (to_u32 (- 75 :: u8) OR shl 1 14),
      wrote IEEE802154_TX_DMA_ADDRESS (ieee802154_frame L),
      wrote IEEE802154_COMMAND IEEE802154_CCA_TX_START,
      answered IEEE802154_EVENT_STATUS (\<lambda>v. v AND IEEE802154_TX_DONE \<noteq> 0 \<and> v AND IEEE802154_TX_ABORT = 0)]"
  unfolding ieee_cca_def program_parts
  by (intro partI trace_rules) (simp_all add: exhibits_skip)

section \<open>Bluetooth\<close>

definition ble_evidence :: "c6_objects \<Rightarrow> (event \<Rightarrow> bool) list" where
  "ble_evidence L =
     [wrote INTERRUPT_MATRIX_BLE_BB_ROUTE BLE_CPU_INTERRUPT,
      wrote_some PLIC_ENABLE (\<lambda>v. \<exists>u. v = u OR shl 1 (unat BLE_CPU_INTERRUPT)),
      wrote (PLIC_PRIORITY BLE_CPU_INTERRUPT) 3,
      wrote_some MODEM_SYSCON_WIFI_CLOCK_ENABLE (\<lambda>v. \<exists>u. v = u OR MODEM_BLE_APB_CLOCK OR MODEM_BLE_BB_CLOCK),
      wrote BLE_BASEBAND_RESET 0,
      wrote BLE_BASEBAND_RESET 1,
      wrote BLE_BASEBAND_INTERRUPT_ENABLE0 (BLE_EVENT_END OR BLE_EVENT_RX OR BLE_EVENT_SUCCESS)] @
     [answered BLE_BASEBAND_TIMER_CURRENT (\<lambda>v. True)] @
     [wrote BLE_BASEBAND_SCHEDULER_HEAD (pointer20 (remu_ble_tx_schedule L)),
      wrote BLE_BASEBAND_SCHEDULER_KICK 1] @
     [answered BLE_BASEBAND_INTERRUPT_RAW0 (\<lambda>v. v AND (BLE_EVENT_END OR BLE_EVENT_SUCCESS) = BLE_EVENT_END OR BLE_EVENT_SUCCESS)] @
     [answered INTERRUPT_MATRIX_STATUS0 (\<lambda>v. v AND shl 1 5 \<noteq> 0),
      answered PLIC_PENDING (\<lambda>v. v AND shl 1 (unat BLE_CPU_INTERRUPT) \<noteq> 0)] @
     [wrote BLE_BASEBAND_INTERRUPT_CLEAR0 (BLE_EVENT_END OR BLE_EVENT_SUCCESS),
      answered BLE_BASEBAND_INTERRUPT_RAW0 (\<lambda>v. v AND (BLE_EVENT_END OR BLE_EVENT_SUCCESS) = 0)] @
     [answered BLE_BASEBAND_TIMER_CURRENT (\<lambda>v. True)] @
     [wrote BLE_BASEBAND_SCHEDULER_HEAD (pointer20 (remu_ble_rx_schedule L)),
      wrote BLE_BASEBAND_SCHEDULER_KICK 1] @
     [answered BLE_BASEBAND_INTERRUPT_RAW0 (\<lambda>v. v AND (BLE_EVENT_END OR BLE_EVENT_RX OR BLE_EVENT_SUCCESS) = BLE_EVENT_END OR BLE_EVENT_RX OR BLE_EVENT_SUCCESS)] @
     saw_bytes (remu_ble_rx_payload L + 0x1c) (enumerate 0 expected_rx) @
     [saw (remu_ble_rx_payload L + 0x0f) (\<lambda>v. v = - 80)] @
     [wrote BLE_BASEBAND_INTERRUPT_CLEAR0 (BLE_EVENT_END OR BLE_EVENT_RX OR BLE_EVENT_SUCCESS),
      answered BLE_BASEBAND_INTERRUPT_RAW0 (\<lambda>v. v AND (BLE_EVENT_END OR BLE_EVENT_RX OR BLE_EVENT_SUCCESS) = 0),
      answered INTERRUPT_MATRIX_STATUS0 (\<lambda>v. v AND shl 1 5 = 0),
      answered PLIC_PENDING (\<lambda>v. v AND shl 1 (unat BLE_CPU_INTERRUPT) = 0)]"

lemma or_exists: "\<exists>u. v OR x = u OR (x :: u32)"
  by blast

lemma part_ble_setup:
  "part (ble_setup B) {} 9
     [wrote INTERRUPT_MATRIX_BLE_BB_ROUTE BLE_CPU_INTERRUPT,
      wrote_some PLIC_ENABLE (\<lambda>v. \<exists>u. v = u OR shl 1 (unat BLE_CPU_INTERRUPT)),
      wrote (PLIC_PRIORITY BLE_CPU_INTERRUPT) 3,
      wrote_some MODEM_SYSCON_WIFI_CLOCK_ENABLE (\<lambda>v. \<exists>u. v = u OR MODEM_BLE_APB_CLOCK OR MODEM_BLE_BB_CLOCK),
      wrote BLE_BASEBAND_RESET 0,
      wrote BLE_BASEBAND_RESET 1,
      wrote BLE_BASEBAND_INTERRUPT_ENABLE0 (BLE_EVENT_END OR BLE_EVENT_RX OR BLE_EVENT_SUCCESS)]"
  unfolding ble_setup_def program_parts
  by (intro partI trace_rules) (simp_all add: or_exists)

lemma part_ble_tx_prepare:
  "part (act (ble_tx_prepare B L)) {} 1
     [answered BLE_BASEBAND_TIMER_CURRENT (\<lambda>v. True)]"
  unfolding ble_tx_prepare_def program_parts
  by (intro partI trace_rules) (simp_all add: exhibits_skip)

lemma part_ble_tx_kick:
  "part (act (ble_tx_kick B L)) {} 2
     [wrote BLE_BASEBAND_SCHEDULER_HEAD (pointer20 (remu_ble_tx_schedule L)),
      wrote BLE_BASEBAND_SCHEDULER_KICK 1]"
  unfolding ble_tx_kick_def program_parts
  by (intro partI trace_rules) (simp_all add: exhibits_skip)

lemma part_ble_tx_wait:
  "part (ble_tx_wait B L) {16} 50004
     [answered BLE_BASEBAND_INTERRUPT_RAW0 (\<lambda>v. v AND (BLE_EVENT_END OR BLE_EVENT_SUCCESS) = BLE_EVENT_END OR BLE_EVENT_SUCCESS)]"
  unfolding ble_tx_wait_def program_parts
  by (intro partI trace_rules) (simp_all add: exhibits_skip)

lemma part_ble_tx_routed:
  "part (ble_tx_routed B) {17} 2
     [answered INTERRUPT_MATRIX_STATUS0 (\<lambda>v. v AND shl 1 5 \<noteq> 0),
      answered PLIC_PENDING (\<lambda>v. v AND shl 1 (unat BLE_CPU_INTERRUPT) \<noteq> 0)]"
  unfolding ble_tx_routed_def program_parts
  by (intro partI trace_rules) (simp_all add: exhibits_skip)

lemma part_ble_tx_clear:
  "part (ble_tx_clear B) {18} 2
     [wrote BLE_BASEBAND_INTERRUPT_CLEAR0 (BLE_EVENT_END OR BLE_EVENT_SUCCESS),
      answered BLE_BASEBAND_INTERRUPT_RAW0 (\<lambda>v. v AND (BLE_EVENT_END OR BLE_EVENT_SUCCESS) = 0)]"
  unfolding ble_tx_clear_def program_parts
  by (intro partI trace_rules) (simp_all add: exhibits_skip)

lemma part_ble_rx_prepare:
  "part (act (ble_rx_prepare B L)) {} 1
     [answered BLE_BASEBAND_TIMER_CURRENT (\<lambda>v. True)]"
  unfolding ble_rx_prepare_def program_parts
  by (intro partI trace_rules) (simp_all add: exhibits_skip)

lemma part_ble_rx_kick:
  "part (act (ble_rx_kick B L)) {} 2
     [wrote BLE_BASEBAND_SCHEDULER_HEAD (pointer20 (remu_ble_rx_schedule L)),
      wrote BLE_BASEBAND_SCHEDULER_KICK 1]"
  unfolding ble_rx_kick_def program_parts
  by (intro partI trace_rules) (simp_all add: exhibits_skip)

lemma part_ble_rx_wait:
  "part (ble_rx_wait B) {19} 60000
     [answered BLE_BASEBAND_INTERRUPT_RAW0 (\<lambda>v. v AND (BLE_EVENT_END OR BLE_EVENT_RX OR BLE_EVENT_SUCCESS) = BLE_EVENT_END OR BLE_EVENT_RX OR BLE_EVENT_SUCCESS)]"
  unfolding ble_rx_wait_def program_parts
  by (intro partI trace_rules) (simp_all add: exhibits_skip)

lemma part_ble_rx_compare:
  "part (ble_rx_compare L) {20} 14 (saw_bytes (remu_ble_rx_payload L + 0x1c) (enumerate 0 expected_rx))"
proof -
  have "ble_rx_compare L = fail_if 20
      (map (\<lambda>(index, v). byte_differs (remu_ble_rx_payload L + 0x1c + of_nat index) v) (enumerate 0 expected_rx))"
    by (simp add: ble_rx_compare_def enumerate_eq_zip map_nth zip_map2 expected_rx_def upt_rec add.assoc)
  note compare = this
  show ?thesis
    unfolding compare expected_rx_def enumerate_simps program_parts
    by (intro partI trace_rules) simp_all
qed

lemma part_ble_rx_metadata:
  "part (ble_rx_metadata L) {21} 5
     [saw (remu_ble_rx_payload L + 0x0f) (\<lambda>v. v = - 80)]"
  unfolding ble_rx_metadata_def program_parts
  by (intro partI trace_rules) (simp_all add: exhibits_skip)

lemma part_ble_rx_clear:
  "part (ble_rx_clear B) {22} 4
     [wrote BLE_BASEBAND_INTERRUPT_CLEAR0 (BLE_EVENT_END OR BLE_EVENT_RX OR BLE_EVENT_SUCCESS),
      answered BLE_BASEBAND_INTERRUPT_RAW0 (\<lambda>v. v AND (BLE_EVENT_END OR BLE_EVENT_RX OR BLE_EVENT_SUCCESS) = 0),
      answered INTERRUPT_MATRIX_STATUS0 (\<lambda>v. v AND shl 1 5 = 0),
      answered PLIC_PENDING (\<lambda>v. v AND shl 1 (unat BLE_CPU_INTERRUPT) = 0)]"
  unfolding ble_rx_clear_def program_parts
  by (intro partI trace_rules) (simp_all add: exhibits_skip)

lemma part_verify_ieee802154:
  "part (verify_ieee802154_filter_and_ack B L) {23..31} 180100 (ieee_filter_evidence L)"
  unfolding verify_ieee802154_filter_and_ack_def ieee_filter_evidence_def
  by (rule part_weaken)
    (rule part_checked_Cons part_checked_Nil part_ieee_filter_setup part_ieee_filter_abort part_ieee_pan1_frame
      part_ieee_ack_request part_ieee_ack_received part_ieee_no_ack_request part_ieee_ack_timeout
      part_ieee_auto_ack part_ieee_security_abort part_ieee_cca part_write | simp)+

lemma part_verify_ble: "part (verify_ble B L) {16..22} 110050 (ble_evidence L)"
  unfolding verify_ble_def ble_evidence_def
  by (rule part_weaken)
    (rule part_checked_Cons part_checked_Nil part_ble_setup part_ble_tx_prepare part_ble_tx_kick part_ble_tx_wait
      part_ble_tx_routed part_ble_tx_clear part_ble_rx_prepare part_ble_rx_kick part_ble_rx_wait
      part_ble_rx_compare part_ble_rx_metadata part_ble_rx_clear | simp)+

section \<open>The program\<close>

definition c6_evidence :: "c6_objects \<Rightarrow> (event \<Rightarrow> bool) list" where
  "c6_evidence L = wifi_tx_evidence L @ wifi_rx_evidence L @ ieee_evidence L @ ieee_filter_evidence L @ ble_evidence L"

lemma part_c6_main: "part (c6_main B L) {1..31} 375000 (c6_evidence L)"
  unfolding c6_main_def c6_evidence_def wifi_tx_evidence_def ieee_evidence_def
  by (rule part_weaken)
    (rule part_checked_Cons part_checked_Nil part_wifi_reset part_wifi_setup part_configure_wifi_rf
      part_wifi_tx_start part_wifi_tx_wait part_wifi_tx_check part_wifi_tx_clear part_verify_wifi_rx
      part_ieee_identify part_ieee_tx part_ieee_tx_clear part_ieee_rx part_ieee_rx_clear
      part_ieee_energy_detect part_write part_verify_ieee802154 part_verify_ble | simp)+

section \<open>A board that passes\<close>

definition c6_layout :: c6_objects where
  "c6_layout =
     \<lparr>ieee802154_frame = 0x40800000, ieee802154_ack_frame = 0x40800010, ieee802154_no_ack_frame = 0x40800020,
      ieee802154_invalid_security_frame = 0x40800030, remu_ieee802154_rx_buffer = 0x40800100,
      remu_wifi_frame = 0x40800200, remu_wifi_descriptor = 0x40800300, remu_wifi_rx_buffer = 0x40800400,
      remu_wifi_rx_descriptor = 0x40800600, remu_ble_tx_schedule = 0x40800700, remu_ble_tx_state = 0x40800800,
      remu_ble_tx_header = 0x40800900, remu_ble_tx_buffer = 0x40800a00, remu_ble_rx_schedule = 0x40800b00,
      remu_ble_rx_state = 0x40800c00, remu_ble_rx_descriptor = 0x40800d00, remu_ble_rx_payload = 0x40800e00\<rparr>"

text \<open>The answers of the peripherals in the order the program reads them, with the frames they deliver.\<close>

definition wifi_tape :: tape where
  "wifi_tape =
    [(1, []), (0, []), (1, []), (0x80, []), (1, []), (0x80, []), (1, []), (0x20, []),
     (0, []), (0, []), (0, []), (0, [])]"

definition wifi_rx_tape :: tape where
  "wifi_rx_tape =
    [(0x4000, [(0x40800600, [0, 0, 0x1e, 0x40]),
               (0x4080045c, [0x80, 0, 0, 0, 0xff, 0, 0, 0, 0, 0xff, 2, 0, 0, 0, 0, 1])]),
     (0, [])]"

definition ieee_tape :: tape where
  "ieee_tape =
    [(0x00220622, []), (1, []), (0, []), (2, [(0x40800100, [6, 1, 0, 2, 0xaa, - 80, 63])]), (0, []), (0x40, [])]"

definition filter_tape :: tape where
  "filter_tape =
    [(0x10, []), (0x51, []),
     (2, [(0x40800100, [11, 1, 8, 0x32, 0xcd, 0xab, 0x57, 0x13, 0, 0, - 80, 63])]),
     (1, []), (8, [(0x40800100, [5, 2, 0, 0x44, - 80, 63])]),
     (1, []), (0x100, []),
     (6, [(0x40800100, [11, 0x21, 8, 0x46, 0xcd, 0xab, 0, 0, 0, 0, - 80, 63])]),
     (0x20, []), (0x10130, []), (1, []), (1, [])]"

definition ble_tape :: tape where
  "ble_tape =
    [(0, []), (0, []), (100, []), (0x10200000, [(0x40800728, [0, 0, 0, 0])]), (0x20, []), (0x100, []), (0, []),
     (200, []),
     (0x18200000, [(0x40800e1c, expected_rx), (0x40800e0f, [- 80]), (0x40800c14, [0, 0, 0, 8])]),
     (0, []), (0, []), (0, [])]"

lemma run_wifi_tx_wait:
  "run_state (wifi_tx_wait B (numeral k)) w =
   run_state (State_Monad.bind (READ32 B WIFI_QUEUE_STATE) (\<lambda>queue.
     if queue AND 1 \<noteq> 0 then State_Monad.bind (READ32 B WIFI_INTERRUPT_EVENT) (\<lambda>event.
       if event AND WIFI_TX_DONE \<noteq> 0 then ret () else wifi_tx_wait B (pred_numeral k))
     else wifi_tx_wait B (pred_numeral k))) w"
  by (simp add: numeral_eq_Suc)

lemma passes_wifi_tx:
  "passes_on (checked [wifi_reset tape_board, wifi_setup tape_board, act (configure_wifi_rf tape_board 1),
     wifi_tx_start tape_board c6_layout, act (wifi_tx_wait tape_board 20000), wifi_tx_check tape_board,
     wifi_tx_clear tape_board]) wifi_tape"
  by (simp add: passes_on_def wifi_tape_def wifi_reset_def wifi_setup_def configure_wifi_rf_def wifi_tx_start_def
      wifi_tx_check_def wifi_tx_clear_def run_wifi_tx_wait program_parts poke32_def WIFI_TX_DONE_def
      WIFI_CPU_INTERRUPT_def)

lemma passes_wifi_rx: "passes_on (verify_wifi_rx tape_board c6_layout) wifi_rx_tape"
  by (simp add: passes_on_def wifi_rx_tape_def verify_wifi_rx_def wifi_rx_arm_def wifi_rx_wait_def
      wifi_rx_length_def wifi_rx_frame_def wifi_rx_clear_def run_poll_numeral program_parts poke32_def
      WIFI_RX_DONE_def c6_layout_def Let_def)

lemmas ieee_bits =
  IEEE802154_TX_DONE_def IEEE802154_RX_DONE_def IEEE802154_ACK_TX_DONE_def IEEE802154_ACK_RX_DONE_def
  IEEE802154_RX_ABORT_def IEEE802154_TX_ABORT_def IEEE802154_ED_DONE_def IEEE802154_TIMER0_DONE_def

lemma passes_ieee:
  "passes_on (checked [ieee_identify tape_board, ieee_tx tape_board c6_layout, ieee_tx_clear tape_board,
     ieee_rx tape_board c6_layout, ieee_rx_clear tape_board, ieee_energy_detect tape_board,
     act (WRITE32 tape_board IEEE802154_EVENT_STATUS IEEE802154_ED_DONE)]) ieee_tape"
  by (simp add: passes_on_def ieee_tape_def ieee_identify_def ieee_tx_def ieee_tx_clear_def ieee_rx_def
      ieee_rx_clear_def ieee_energy_detect_def run_poll_numeral program_parts ieee_bits c6_layout_def)

lemma passes_filter: "passes_on (verify_ieee802154_filter_and_ack tape_board c6_layout) filter_tape"
  by (simp add: passes_on_def filter_tape_def verify_ieee802154_filter_and_ack_def ieee_filter_setup_def
      ieee_filter_abort_def ieee_pan1_frame_def ieee_ack_request_def ieee_ack_received_def
      ieee_no_ack_request_def ieee_ack_timeout_def ieee_auto_ack_def ieee_security_abort_def ieee_cca_def
      run_poll_numeral program_parts ieee_bits c6_layout_def)

lemma passes_ble: "passes_on (verify_ble tape_board c6_layout) ble_tape"
  by (simp add: passes_on_def ble_tape_def verify_ble_def ble_setup_def ble_tx_prepare_def ble_tx_kick_def
      ble_tx_wait_def ble_tx_routed_def ble_tx_clear_def ble_rx_prepare_def ble_rx_kick_def ble_rx_wait_def
      ble_rx_compare_def ble_rx_metadata_def ble_rx_clear_def run_poll_numeral program_parts poke8_def
      BLE_EVENT_END_def BLE_EVENT_SUCCESS_def BLE_EVENT_RX_def BLE_SCHEDULE_OWNED_def BLE_CPU_INTERRUPT_def
      c6_layout_def expected_rx_def upt_rec)

definition c6_tape :: tape where
  "c6_tape = wifi_tape @ wifi_rx_tape @ ieee_tape @ filter_tape @ ble_tape"

lemma passes_c6_main: "passes_on (c6_main tape_board c6_layout) c6_tape"
  using passes_append [OF passes_wifi_tx passes_append [OF passes_single [OF passes_wifi_rx]
      passes_append [OF passes_ieee passes_append [OF passes_single [OF passes_filter]
      passes_single [OF passes_ble]]]]]
  by (simp only: c6_main_def c6_tape_def append.simps)

section \<open>Properties\<close>



end
