(* ===== verification/Stack_S3.thy ===== *)
theory Stack_S3
  imports Probe
begin

text \<open>
  The ESP32-S3 radio qualification firmware, \<^verbatim>\<open>qualification/radio/custom-stack-probe/esp32s3.c\<close>.  Its
  single function keeps a failure code and runs each block only while the code is 0; that is a
  sequence of \<open>checked\<close> parts.  The code is stored in the exit register at the end.
\<close>

section \<open>Registers\<close>

definition WIFI_MAC_BASE :: u32 where "WIFI_MAC_BASE = 0x60033000"
definition WIFI_INTERRUPT_MASK :: u32 where "WIFI_INTERRUPT_MASK = WIFI_MAC_BASE + 0x0c34"
definition WIFI_INTERRUPT_EVENT :: u32 where "WIFI_INTERRUPT_EVENT = WIFI_MAC_BASE + 0x0c3c"
definition WIFI_INTERRUPT_CLEAR :: u32 where "WIFI_INTERRUPT_CLEAR = WIFI_MAC_BASE + 0x0c40"
definition WIFI_RX_BASE :: u32 where "WIFI_RX_BASE = WIFI_MAC_BASE + 0x0088"
definition WIFI_QUEUE_STATE_CLEAR :: u32 where "WIFI_QUEUE_STATE_CLEAR = WIFI_MAC_BASE + 0x0cac"
definition WIFI_QUEUE_STATE :: u32 where "WIFI_QUEUE_STATE = WIFI_MAC_BASE + 0x0cb0"
definition WIFI_QUEUE0_CONTROL :: u32 where "WIFI_QUEUE0_CONTROL = WIFI_MAC_BASE + 0x0d08"
definition WIFI_RESET_CONTROL :: u32 where "WIFI_RESET_CONTROL = WIFI_MAC_BASE + 0x0d14"
definition WIFI_CURRENT_TIME :: u32 where "WIFI_CURRENT_TIME = WIFI_MAC_BASE + 0x2000"
definition WIFI_TSF_LATCH_CONTROL :: u32 where "WIFI_TSF_LATCH_CONTROL = WIFI_MAC_BASE + 0x200c"
definition WIFI_TSF_HIGH :: u32 where "WIFI_TSF_HIGH = WIFI_MAC_BASE + 0x2018"
definition WIFI_TSF_LOW :: u32 where "WIFI_TSF_LOW = WIFI_MAC_BASE + 0x201c"
definition WIFI_RANDOM_DATA :: u32 where "WIFI_RANDOM_DATA = WIFI_MAC_BASE + 0x207c"
definition WIFI_TX_DONE :: u32 where "WIFI_TX_DONE = shl 1 7"
definition WIFI_RX_DONE :: u32 where "WIFI_RX_DONE = shl 1 14"
definition WIFI_QUEUE_ENABLE :: u32 where "WIFI_QUEUE_ENABLE = shl 3 30"
definition INTERRUPT_MATRIX_BASE :: u32 where "INTERRUPT_MATRIX_BASE = 0x600c2000"
definition INTERRUPT_MATRIX_WIFI_ROUTE :: u32 where "INTERRUPT_MATRIX_WIFI_ROUTE = INTERRUPT_MATRIX_BASE + 0x0000"
definition INTERRUPT_MATRIX_STATUS0 :: u32 where "INTERRUPT_MATRIX_STATUS0 = INTERRUPT_MATRIX_BASE + 0x018c"
definition WIFI_CPU_INTERRUPT :: u32 where "WIFI_CPU_INTERRUPT = 5"
definition BLE_BASE :: u32 where "BLE_BASE = 0x60031000"
definition BLE_INTERRUPT_STATUS :: u32 where "BLE_INTERRUPT_STATUS = BLE_BASE + 0x010"
definition BLE_INTERRUPT_CLEAR :: u32 where "BLE_INTERRUPT_CLEAR = BLE_BASE + 0x018"
definition BLE_TIME_LATCH :: u32 where "BLE_TIME_LATCH = BLE_BASE + 0x01c"
definition BLE_SCHEDULER_KICK :: u32 where "BLE_SCHEDULER_KICK = BLE_BASE + 0x100"
definition BLE_MAPPING0 :: u32 where "BLE_MAPPING0 = BLE_BASE + 0x204"
definition BLE_MAPPING_VALID_LOW :: u32 where "BLE_MAPPING_VALID_LOW = BLE_BASE + 0x2c4"
definition BLE_RX_INTERRUPT :: u32 where "BLE_RX_INTERRUPT = shl 1 2"
definition BLE_END_INTERRUPT :: u32 where "BLE_END_INTERRUPT = shl 1 5"
definition BLE_TIME_LATCH_REQUEST :: u32 where "BLE_TIME_LATCH_REQUEST = shl 1 31"
definition BLE_SCHEDULER_START :: u32 where "BLE_SCHEDULER_START = shl 1 31"

definition EXIT_CODE :: u32 where "EXIT_CODE = 0xfffffff0"

section \<open>Static objects\<close>

record s3_objects =
  s3_wifi_frame :: u32
  s3_wifi_descriptor :: u32
  s3_wifi_rx_buffer :: u32
  s3_wifi_rx_descriptor :: u32
  s3_ble_slot :: u32
  s3_ble_control :: u32
  s3_ble_tx_descriptor :: u32
  s3_ble_payload :: u32
  s3_ble_rx_descriptor :: u32
  s3_ble_rx_payload :: u32

definition s3_wifi_frame_bytes :: bytes where
  "s3_wifi_frame_bytes =
     [0x40, 0x00, 0x00, 0x00, 0xff, 0xff, 0xff, 0xff, 0xff, 0xff, 0x02, 0x00, 0x00, 0x00, 0x00, 0x03,
      0xff, 0xff, 0xff, 0xff, 0xff, 0xff, 0x00, 0x00]"

definition s3_ble_payload_bytes :: bytes where
  "s3_ble_payload_bytes =
     [0x02, 0x01, 0x06, 0x0b, 0x09, 0x52, 0x65, 0x6e, 0x76, 0x6f, 0x2d, 0x42, 0x4c, 0x45, 0x31]"

text \<open>\<^verbatim>\<open>sizeof(remu_wifi_frame)\<close>.\<close>

definition wifi_frame_size :: u32 where
  "wifi_frame_size = of_nat (length s3_wifi_frame_bytes)"

section \<open>Helpers\<close>

definition write16 :: "u32 \<Rightarrow> u32 \<Rightarrow> u16 \<Rightarrow> ('d, unit) prog" where
  "write16 bytes offset v = do {
     poke8 (bytes + offset) (to_u8 v);
     poke8 (bytes + (offset + 1)) (to_u8 (shr v 8)) }"

definition write32 :: "u32 \<Rightarrow> u32 \<Rightarrow> u32 \<Rightarrow> ('d, unit) prog" where
  "write32 bytes offset v = do {
     write16 bytes offset (to_u16 v);
     write16 bytes (offset + 2) (to_u16 (shr v 16)) }"

definition ble_mapping :: "u32 \<Rightarrow> u32 \<Rightarrow> u32" where
  "ble_mapping em_offset cpu_address =
     shl (shr em_offset 2) 18 OR shr (cpu_address AND 0x000fffff) 2"

section \<open>Wi-Fi\<close>

definition s3_reset :: "'d board \<Rightarrow> ('d, int) prog" where
  "s3_reset B = do {
     WRITE32 B WIFI_RESET_CONTROL (shl 1 1);
     fail_if 1 [register_is B WIFI_RESET_CONTROL (\<lambda>v. v AND 1 = 0)] }"

definition s3_wifi_tx_start :: "'d board \<Rightarrow> s3_objects \<Rightarrow> ('d, int) prog" where
  "s3_wifi_tx_start B L = act (do {
     WRITE32 B INTERRUPT_MATRIX_WIFI_ROUTE WIFI_CPU_INTERRUPT;
     WRITE32 B WIFI_INTERRUPT_MASK (WIFI_TX_DONE OR WIFI_RX_DONE);
     poke32 (s3_wifi_descriptor L) (0xc0000000 OR shl (wifi_frame_size + 4) 12 OR wifi_frame_size);
     poke32 (s3_wifi_descriptor L + 4) (s3_wifi_frame L);
     poke32 (s3_wifi_descriptor L + 8) 0;
     WRITE32 B WIFI_QUEUE0_CONTROL (WIFI_QUEUE_ENABLE OR (s3_wifi_descriptor L AND 0x000fffff)) })"

primrec s3_wifi_tx_wait :: "'d board \<Rightarrow> nat \<Rightarrow> ('d, unit) prog" where
  "s3_wifi_tx_wait B 0 = State_Monad.return ()"
| "s3_wifi_tx_wait B (Suc n) = do {
     queue \<leftarrow> READ32 B WIFI_QUEUE_STATE;
     if queue AND 1 \<noteq> 0 then do {
       event \<leftarrow> READ32 B WIFI_INTERRUPT_EVENT;
       if event AND WIFI_TX_DONE \<noteq> 0 then State_Monad.return () else s3_wifi_tx_wait B n }
     else s3_wifi_tx_wait B n }"

definition s3_wifi_tx_check :: "'d board \<Rightarrow> ('d, int) prog" where
  "s3_wifi_tx_check B = checked
     [fail_if 2 [register_is B WIFI_QUEUE_STATE (\<lambda>v. v AND 1 = 0)],
      fail_if 3 [register_is B WIFI_INTERRUPT_EVENT (\<lambda>v. v AND WIFI_TX_DONE = 0)],
      fail_if 4 [register_is B INTERRUPT_MATRIX_STATUS0 (\<lambda>v. v AND 1 = 0)]]"

definition s3_wifi_tx_clear :: "'d board \<Rightarrow> ('d, int) prog" where
  "s3_wifi_tx_clear B = do {
     WRITE32 B WIFI_INTERRUPT_CLEAR WIFI_TX_DONE;
     WRITE32 B WIFI_QUEUE_STATE_CLEAR 1;
     fail_if 5
       [register_is B WIFI_INTERRUPT_EVENT (\<lambda>v. v AND WIFI_TX_DONE \<noteq> 0),
        register_is B WIFI_QUEUE_STATE (\<lambda>v. v AND 1 \<noteq> 0),
        register_is B INTERRUPT_MATRIX_STATUS0 (\<lambda>v. v AND 1 \<noteq> 0)] }"

definition s3_wifi_rx_wait :: "'d board \<Rightarrow> s3_objects \<Rightarrow> ('d, int) prog" where
  "s3_wifi_rx_wait B L = do {
     poke32 (s3_wifi_rx_descriptor L) (shl 1 31 OR shl 512 12 OR 512);
     poke32 (s3_wifi_rx_descriptor L + 4) (s3_wifi_rx_buffer L);
     poke32 (s3_wifi_rx_descriptor L + 8) 0;
     WRITE32 B WIFI_RX_BASE (s3_wifi_rx_descriptor L);
     event \<leftarrow> poll B 20000 WIFI_INTERRUPT_EVENT (\<lambda>event. event AND WIFI_RX_DONE \<noteq> 0) 0;
     State_Monad.return (if event AND WIFI_RX_DONE = 0 then 9 else 0) }"

definition s3_wifi_rx_length :: "s3_objects \<Rightarrow> ('d, int) prog" where
  "s3_wifi_rx_length L = do {
     control \<leftarrow> peek32 (s3_wifi_rx_descriptor L);
     State_Monad.return
       (if control AND shl 1 31 \<noteq> 0 \<or> control AND shl 1 30 = 0 \<or>
           (shr control 12) AND 0x0fff < 48 + 24 + 4 then 10 else 0) }"

definition s3_wifi_rx_frame :: "s3_objects \<Rightarrow> ('d, int) prog" where
  "s3_wifi_rx_frame L = (let frame = s3_wifi_rx_buffer L + 48 in
     fail_if 11 [byte_differs frame 0x80, byte_differs (frame + 1) 0x00,
       byte_differs (frame + 4) 0xff, byte_differs (frame + 9) 0xff,
       byte_differs (frame + 10) 0x02, byte_differs (frame + 15) 0x01])"

definition s3_wifi_rx_clear :: "'d board \<Rightarrow> ('d, int) prog" where
  "s3_wifi_rx_clear B = do {
     WRITE32 B WIFI_INTERRUPT_CLEAR WIFI_RX_DONE;
     fail_if 12 [register_is B WIFI_INTERRUPT_EVENT (\<lambda>v. v AND WIFI_RX_DONE \<noteq> 0)] }"

section \<open>Bluetooth\<close>

definition s3_ble_map :: "'d board \<Rightarrow> s3_objects \<Rightarrow> ('d, int) prog" where
  "s3_ble_map B L = act (write_all B
     [(BLE_MAPPING0 + 0, ble_mapping 0x0000 (s3_ble_slot L)),
      (BLE_MAPPING0 + 4, ble_mapping 0x0400 (s3_ble_control L)),
      (BLE_MAPPING0 + 8, ble_mapping 0x1400 (s3_ble_tx_descriptor L)),
      (BLE_MAPPING0 + 12, ble_mapping 0x2400 (s3_ble_payload L)),
      (BLE_MAPPING0 + 16, ble_mapping 0x1000 (s3_ble_rx_descriptor L)),
      (BLE_MAPPING0 + 20, ble_mapping 0x3000 (s3_ble_rx_payload L)),
      (BLE_MAPPING_VALID_LOW, 0x3f),
      (BLE_TIME_LATCH, BLE_TIME_LATCH_REQUEST)])"

definition s3_ble_tx :: "'d board \<Rightarrow> s3_objects \<Rightarrow> ('d, int) prog" where
  "s3_ble_tx B L = do {
     latched \<leftarrow> READ32 B BLE_TIME_LATCH;
     write16 (s3_ble_slot L) 0 0x2802;
     write32 (s3_ble_slot L) 2 (latched + 2);
     write16 (s3_ble_slot L) 6 624;
     write16 (s3_ble_slot L) 8 0x0200;
     write32 (s3_ble_control L) 12 0x8e89bed6;
     write16 (s3_ble_control L) 22 39;
     write16 (s3_ble_control L) 28 0x1400;
     write16 (s3_ble_tx_descriptor L) 2 0x1546;
     write16 (s3_ble_tx_descriptor L) 4 0x2400;
     WRITE32 B BLE_SCHEDULER_KICK BLE_SCHEDULER_START;
     event \<leftarrow> poll B 50000 BLE_INTERRUPT_STATUS (\<lambda>event. event AND BLE_END_INTERRUPT \<noteq> 0) 0;
     State_Monad.return (if event AND BLE_END_INTERRUPT = 0 then 13 else 0) }"

definition s3_ble_tx_state :: "s3_objects \<Rightarrow> ('d, int) prog" where
  "s3_ble_tx_state L = do {
     status \<leftarrow> peek8 (s3_ble_slot L);
     State_Monad.return (if status AND 0x38 \<noteq> shl 4 3 then 14 else 0) }"

definition s3_ble_tx_clear :: "'d board \<Rightarrow> ('d, int) prog" where
  "s3_ble_tx_clear B = do {
     WRITE32 B BLE_INTERRUPT_CLEAR BLE_END_INTERRUPT;
     fail_if 15 [register_is B BLE_INTERRUPT_STATUS (\<lambda>v. v AND BLE_END_INTERRUPT \<noteq> 0)] }"

definition s3_ble_rx :: "'d board \<Rightarrow> s3_objects \<Rightarrow> ('d, int) prog" where
  "s3_ble_rx B L = do {
     write16 (s3_ble_rx_descriptor L) 0 0x1000;
     write16 (s3_ble_rx_descriptor L) 2 0x8000;
     write16 (s3_ble_rx_descriptor L) 18 0x3000;
     WRITE32 B BLE_TIME_LATCH BLE_TIME_LATCH_REQUEST;
     latched \<leftarrow> READ32 B BLE_TIME_LATCH;
     write16 (s3_ble_slot L) 0 0x0208;
     write32 (s3_ble_slot L) 2 (latched + 2);
     write16 (s3_ble_slot L) 6 624;
     write16 (s3_ble_slot L) 8 0x0200;
     write32 (s3_ble_control L) 12 0x8e89bed6;
     write16 (s3_ble_control L) 22 39;
     write16 (s3_ble_control L) 28 0;
     write16 (s3_ble_control L) 32 16;
     WRITE32 B BLE_SCHEDULER_KICK BLE_SCHEDULER_START;
     event \<leftarrow> poll B 50000 BLE_INTERRUPT_STATUS (\<lambda>event. event AND BLE_RX_INTERRUPT \<noteq> 0) 0;
     State_Monad.return (if event AND BLE_RX_INTERRUPT = 0 then 16 else 0) }"

definition halfword_is :: "u32 \<Rightarrow> (u16 \<Rightarrow> bool) \<Rightarrow> ('d, bool) prog" where
  "halfword_is p P = do { v \<leftarrow> peek16 p; State_Monad.return (P v) }"

definition s3_ble_rx_owner :: "s3_objects \<Rightarrow> ('d, int) prog" where
  "s3_ble_rx_owner L = fail_if 17
     [halfword_is (s3_ble_rx_descriptor L + 0) (\<lambda>v. v AND 0x8000 = 0),
      halfword_is (s3_ble_rx_descriptor L + 2) (\<lambda>v. v AND 0x8000 \<noteq> 0)]"

definition s3_ble_rx_header :: "s3_objects \<Rightarrow> ('d, int) prog" where
  "s3_ble_rx_header L = fail_if 18 [halfword_is (s3_ble_rx_descriptor L + 4) (\<lambda>v. v \<noteq> 0x0c42)]"

definition s3_ble_rx_compare :: "s3_objects \<Rightarrow> ('d, int) prog" where
  "s3_ble_rx_compare L = fail_if 19
     (map (\<lambda>(index, v). byte_differs (s3_ble_rx_payload L + of_nat index) v)
       [(0, 0xaa), (1, 0xbb), (2, 0xcc), (3, 0xdd), (4, 0xee), (5, 0xc1), (6, 0x02), (7, 0x01),
        (8, 0x06), (9, 0x02), (10, 0x09), (11, 0x52)])"

definition s3_ble_rx_metadata :: "s3_objects \<Rightarrow> ('d, int) prog" where
  "s3_ble_rx_metadata L = do {
     rxchass \<leftarrow> peek16 (s3_ble_rx_descriptor L + 14);
     rxrssi \<leftarrow> peek16 (s3_ble_rx_descriptor L + 6);
     State_Monad.return (if rxchass \<noteq> 0 \<or> rxrssi AND 0xff \<noteq> 0xb0 then 20 else 0) }"

definition s3_ble_rx_clear :: "'d board \<Rightarrow> ('d, int) prog" where
  "s3_ble_rx_clear B = do {
     WRITE32 B BLE_INTERRUPT_CLEAR BLE_RX_INTERRUPT;
     fail_if 21 [register_is B BLE_INTERRUPT_STATUS (\<lambda>v. v AND BLE_RX_INTERRUPT \<noteq> 0)] }"

section \<open>Clocks and entropy\<close>

definition s3_time :: "'d board \<Rightarrow> ('d, int) prog" where
  "s3_time B = do {
     before \<leftarrow> READ32 B WIFI_CURRENT_TIME;
     after \<leftarrow> READ32 B WIFI_CURRENT_TIME;
     State_Monad.return (if after < before then 6 else 0) }"

definition s3_tsf :: "'d board \<Rightarrow> ('d, int) prog" where
  "s3_tsf B = do {
     WRITE32 B WIFI_TSF_LATCH_CONTROL 1;
     low \<leftarrow> READ32 B WIFI_TSF_LOW;
     high \<leftarrow> READ32 B WIFI_TSF_HIGH;
     State_Monad.return (if low OR high = 0 then 7 else 0) }"

definition s3_random :: "'d board \<Rightarrow> ('d, int) prog" where
  "s3_random B = do {
     first \<leftarrow> READ32 B WIFI_RANDOM_DATA;
     second \<leftarrow> READ32 B WIFI_RANDOM_DATA;
     State_Monad.return (if first = 0 \<or> second = 0 \<or> first = second then 8 else 0) }"

section \<open>The program\<close>

definition s3_checks :: "'d board \<Rightarrow> s3_objects \<Rightarrow> ('d, int) prog" where
  "s3_checks B L = checked
     [s3_reset B, s3_wifi_tx_start B L, act (s3_wifi_tx_wait B 20000), s3_wifi_tx_check B, s3_wifi_tx_clear B,
      s3_wifi_rx_wait B L, s3_wifi_rx_length L, s3_wifi_rx_frame L, s3_wifi_rx_clear B,
      s3_ble_map B L, s3_ble_tx B L, s3_ble_tx_state L, s3_ble_tx_clear B,
      s3_ble_rx B L, s3_ble_rx_owner L, s3_ble_rx_header L, s3_ble_rx_compare L, s3_ble_rx_metadata L,
      s3_ble_rx_clear B,
      s3_time B, s3_tsf B, s3_random B]"

text \<open>After the store the processor stops at a breakpoint.\<close>

definition s3_start :: "'d board \<Rightarrow> s3_objects \<Rightarrow> ('d, int) prog" where
  "s3_start B L = do {
     failure \<leftarrow> s3_checks B L;
     WRITE32 B EXIT_CODE (of_int failure);
     State_Monad.return failure }"

section \<open>Contracts\<close>

text \<open>The evidence a result of 0 stands for, in the order of the program.\<close>

definition s3_evidence :: "s3_objects \<Rightarrow> (event \<Rightarrow> bool) list" where
  "s3_evidence L =
     [wrote WIFI_RESET_CONTROL (shl 1 1),
      answered WIFI_RESET_CONTROL (\<lambda>v. v AND 1 \<noteq> 0)] @
     [wrote INTERRUPT_MATRIX_WIFI_ROUTE WIFI_CPU_INTERRUPT,
      wrote WIFI_INTERRUPT_MASK (WIFI_TX_DONE OR WIFI_RX_DONE),
      wrote WIFI_QUEUE0_CONTROL (WIFI_QUEUE_ENABLE OR (s3_wifi_descriptor L AND 0x000fffff))] @
     [answered WIFI_QUEUE_STATE (\<lambda>v. v AND 1 \<noteq> 0),
      answered WIFI_INTERRUPT_EVENT (\<lambda>v. v AND WIFI_TX_DONE \<noteq> 0),
      answered INTERRUPT_MATRIX_STATUS0 (\<lambda>v. v AND 1 \<noteq> 0)] @
     [wrote WIFI_INTERRUPT_CLEAR WIFI_TX_DONE,
      wrote WIFI_QUEUE_STATE_CLEAR 1,
      answered WIFI_INTERRUPT_EVENT (\<lambda>v. v AND WIFI_TX_DONE = 0),
      answered WIFI_QUEUE_STATE (\<lambda>v. v AND 1 = 0),
      answered INTERRUPT_MATRIX_STATUS0 (\<lambda>v. v AND 1 = 0)] @
     [wrote WIFI_RX_BASE (s3_wifi_rx_descriptor L),
      answered WIFI_INTERRUPT_EVENT (\<lambda>v. v AND WIFI_RX_DONE \<noteq> 0)] @
     saw_bytes (s3_wifi_rx_buffer L + 48)
       [(0, 0x80), (1, 0x00), (4, 0xff), (9, 0xff), (10, 0x02), (15, 0x01)] @
     [wrote WIFI_INTERRUPT_CLEAR WIFI_RX_DONE,
      answered WIFI_INTERRUPT_EVENT (\<lambda>v. v AND WIFI_RX_DONE = 0)] @
     [wrote (BLE_MAPPING0 + 0) (ble_mapping 0x0000 (s3_ble_slot L)),
      wrote (BLE_MAPPING0 + 4) (ble_mapping 0x0400 (s3_ble_control L)),
      wrote (BLE_MAPPING0 + 8) (ble_mapping 0x1400 (s3_ble_tx_descriptor L)),
      wrote (BLE_MAPPING0 + 12) (ble_mapping 0x2400 (s3_ble_payload L)),
      wrote (BLE_MAPPING0 + 16) (ble_mapping 0x1000 (s3_ble_rx_descriptor L)),
      wrote (BLE_MAPPING0 + 20) (ble_mapping 0x3000 (s3_ble_rx_payload L)),
      wrote BLE_MAPPING_VALID_LOW 0x3f,
      wrote BLE_TIME_LATCH BLE_TIME_LATCH_REQUEST] @
     [answered BLE_TIME_LATCH (\<lambda>v. True),
      wrote BLE_SCHEDULER_KICK BLE_SCHEDULER_START,
      answered BLE_INTERRUPT_STATUS (\<lambda>v. v AND BLE_END_INTERRUPT \<noteq> 0)] @
     [saw (s3_ble_slot L) (\<lambda>v. v AND 0x38 = shl 4 3)] @
     [wrote BLE_INTERRUPT_CLEAR BLE_END_INTERRUPT,
      answered BLE_INTERRUPT_STATUS (\<lambda>v. v AND BLE_END_INTERRUPT = 0)] @
     [wrote BLE_TIME_LATCH BLE_TIME_LATCH_REQUEST,
      answered BLE_TIME_LATCH (\<lambda>v. True),
      wrote BLE_SCHEDULER_KICK BLE_SCHEDULER_START,
      answered BLE_INTERRUPT_STATUS (\<lambda>v. v AND BLE_RX_INTERRUPT \<noteq> 0)] @
     saw_bytes (s3_ble_rx_payload L)
       [(0, 0xaa), (1, 0xbb), (2, 0xcc), (3, 0xdd), (4, 0xee), (5, 0xc1), (6, 0x02), (7, 0x01),
        (8, 0x06), (9, 0x02), (10, 0x09), (11, 0x52)] @
     [wrote BLE_INTERRUPT_CLEAR BLE_RX_INTERRUPT,
      answered BLE_INTERRUPT_STATUS (\<lambda>v. v AND BLE_RX_INTERRUPT = 0)] @
     [wrote WIFI_TSF_LATCH_CONTROL 1] @
     [answered WIFI_RANDOM_DATA (\<lambda>v. v \<noteq> 0),
      answered WIFI_RANDOM_DATA (\<lambda>v. v \<noteq> 0)]"

lemma traces_s3_wifi_tx_wait: "traces (s3_wifi_tx_wait B n) (\<lambda>_ es. length es \<le> 2 * n)"
proof (induction n)
  case (Suc n)
  show ?case
    unfolding s3_wifi_tx_wait.simps
    by (intro trace_rules traces_mono [OF Suc]) simp_all
qed (simp add: traces_return)

lemma part_s3_wifi_tx_wait: "part (act (s3_wifi_tx_wait B 20000)) {} 40000 []"
  unfolding act_def
  by (intro partI traces_bind traces_mono [OF traces_s3_wifi_tx_wait] traces_return) simp

lemma part_s3_reset:
  "part (s3_reset B) {1} 2
     [wrote WIFI_RESET_CONTROL (shl 1 1),
      answered WIFI_RESET_CONTROL (\<lambda>v. v AND 1 \<noteq> 0)]"
  unfolding s3_reset_def probe_parts
  by (intro partI trace_rules) (simp_all add: exhibits_skip)

lemma part_s3_wifi_tx_start:
  "part (s3_wifi_tx_start B L) {} 3
     [wrote INTERRUPT_MATRIX_WIFI_ROUTE WIFI_CPU_INTERRUPT,
      wrote WIFI_INTERRUPT_MASK (WIFI_TX_DONE OR WIFI_RX_DONE),
      wrote WIFI_QUEUE0_CONTROL (WIFI_QUEUE_ENABLE OR (s3_wifi_descriptor L AND 0x000fffff))]"
  unfolding s3_wifi_tx_start_def probe_parts
  by (intro partI trace_rules) (simp_all add: exhibits_skip)

lemma part_s3_wifi_tx_check:
  "part (s3_wifi_tx_check B) {2, 3, 4} 3
     [answered WIFI_QUEUE_STATE (\<lambda>v. v AND 1 \<noteq> 0),
      answered WIFI_INTERRUPT_EVENT (\<lambda>v. v AND WIFI_TX_DONE \<noteq> 0),
      answered INTERRUPT_MATRIX_STATUS0 (\<lambda>v. v AND 1 \<noteq> 0)]"
  unfolding s3_wifi_tx_check_def probe_parts checked.simps
  by (intro partI trace_rules) (simp_all add: exhibits_skip)

lemma part_s3_wifi_tx_clear:
  "part (s3_wifi_tx_clear B) {5} 5
     [wrote WIFI_INTERRUPT_CLEAR WIFI_TX_DONE,
      wrote WIFI_QUEUE_STATE_CLEAR 1,
      answered WIFI_INTERRUPT_EVENT (\<lambda>v. v AND WIFI_TX_DONE = 0),
      answered WIFI_QUEUE_STATE (\<lambda>v. v AND 1 = 0),
      answered INTERRUPT_MATRIX_STATUS0 (\<lambda>v. v AND 1 = 0)]"
  unfolding s3_wifi_tx_clear_def probe_parts
  by (intro partI trace_rules) (simp_all add: exhibits_skip)

lemma part_s3_wifi_rx_wait:
  "part (s3_wifi_rx_wait B L) {9} 20001
     [wrote WIFI_RX_BASE (s3_wifi_rx_descriptor L),
      answered WIFI_INTERRUPT_EVENT (\<lambda>v. v AND WIFI_RX_DONE \<noteq> 0)]"
  unfolding s3_wifi_rx_wait_def probe_parts
  by (intro partI trace_rules) (simp_all add: exhibits_skip)

lemma part_s3_wifi_rx_length:
  "part (s3_wifi_rx_length L) {10} 4
     []"
  unfolding s3_wifi_rx_length_def probe_parts
  by (intro partI trace_rules) (simp_all add: exhibits_skip)

lemma part_s3_wifi_rx_frame:
  "part (s3_wifi_rx_frame L) {11} 6
     (saw_bytes (s3_wifi_rx_buffer L + 48)
       [(0, 0x80), (1, 0x00), (4, 0xff), (9, 0xff), (10, 0x02), (15, 0x01)])"
  unfolding s3_wifi_rx_frame_def probe_parts Let_def
  by (intro partI trace_rules) (simp_all add: exhibits_skip)

lemma part_s3_wifi_rx_clear:
  "part (s3_wifi_rx_clear B) {12} 2
     [wrote WIFI_INTERRUPT_CLEAR WIFI_RX_DONE,
      answered WIFI_INTERRUPT_EVENT (\<lambda>v. v AND WIFI_RX_DONE = 0)]"
  unfolding s3_wifi_rx_clear_def probe_parts
  by (intro partI trace_rules) (simp_all add: exhibits_skip)

lemma part_s3_ble_map:
  "part (s3_ble_map B L) {} 8
     [wrote (BLE_MAPPING0 + 0) (ble_mapping 0x0000 (s3_ble_slot L)),
      wrote (BLE_MAPPING0 + 4) (ble_mapping 0x0400 (s3_ble_control L)),
      wrote (BLE_MAPPING0 + 8) (ble_mapping 0x1400 (s3_ble_tx_descriptor L)),
      wrote (BLE_MAPPING0 + 12) (ble_mapping 0x2400 (s3_ble_payload L)),
      wrote (BLE_MAPPING0 + 16) (ble_mapping 0x1000 (s3_ble_rx_descriptor L)),
      wrote (BLE_MAPPING0 + 20) (ble_mapping 0x3000 (s3_ble_rx_payload L)),
      wrote BLE_MAPPING_VALID_LOW 0x3f,
      wrote BLE_TIME_LATCH BLE_TIME_LATCH_REQUEST]"
  unfolding s3_ble_map_def probe_parts
  by (intro partI trace_rules) (simp_all add: exhibits_skip)

lemma part_s3_ble_tx:
  "part (s3_ble_tx B L) {13} 50002
     [answered BLE_TIME_LATCH (\<lambda>v. True),
      wrote BLE_SCHEDULER_KICK BLE_SCHEDULER_START,
      answered BLE_INTERRUPT_STATUS (\<lambda>v. v AND BLE_END_INTERRUPT \<noteq> 0)]"
  unfolding s3_ble_tx_def probe_parts write16_def write32_def
  by (intro partI trace_rules) (simp_all add: exhibits_skip)

lemma part_s3_ble_tx_state:
  "part (s3_ble_tx_state L) {14} 1
     [saw (s3_ble_slot L) (\<lambda>v. v AND 0x38 = shl 4 3)]"
  unfolding s3_ble_tx_state_def probe_parts
  by (intro partI trace_rules) (simp_all add: exhibits_skip)

lemma part_s3_ble_tx_clear:
  "part (s3_ble_tx_clear B) {15} 2
     [wrote BLE_INTERRUPT_CLEAR BLE_END_INTERRUPT,
      answered BLE_INTERRUPT_STATUS (\<lambda>v. v AND BLE_END_INTERRUPT = 0)]"
  unfolding s3_ble_tx_clear_def probe_parts
  by (intro partI trace_rules) (simp_all add: exhibits_skip)

lemma part_s3_ble_rx:
  "part (s3_ble_rx B L) {16} 50003
     [wrote BLE_TIME_LATCH BLE_TIME_LATCH_REQUEST,
      answered BLE_TIME_LATCH (\<lambda>v. True),
      wrote BLE_SCHEDULER_KICK BLE_SCHEDULER_START,
      answered BLE_INTERRUPT_STATUS (\<lambda>v. v AND BLE_RX_INTERRUPT \<noteq> 0)]"
  unfolding s3_ble_rx_def probe_parts write16_def write32_def
  by (intro partI trace_rules) (simp_all add: exhibits_skip)

lemma part_s3_ble_rx_owner:
  "part (s3_ble_rx_owner L) {17} 4
     []"
  unfolding s3_ble_rx_owner_def probe_parts halfword_is_def
  by (intro partI trace_rules) (simp_all add: exhibits_skip)

lemma part_s3_ble_rx_header:
  "part (s3_ble_rx_header L) {18} 2
     []"
  unfolding s3_ble_rx_header_def probe_parts halfword_is_def
  by (intro partI trace_rules) (simp_all add: exhibits_skip)

lemma part_s3_ble_rx_compare:
  "part (s3_ble_rx_compare L) {19} 12
     (saw_bytes (s3_ble_rx_payload L)
       [(0, 0xaa), (1, 0xbb), (2, 0xcc), (3, 0xdd), (4, 0xee), (5, 0xc1), (6, 0x02), (7, 0x01),
        (8, 0x06), (9, 0x02), (10, 0x09), (11, 0x52)])"
  unfolding s3_ble_rx_compare_def probe_parts
  by (intro partI trace_rules) (simp_all add: exhibits_skip)

lemma part_s3_ble_rx_metadata:
  "part (s3_ble_rx_metadata L) {20} 4
     []"
  unfolding s3_ble_rx_metadata_def probe_parts
  by (intro partI trace_rules) (simp_all add: exhibits_skip)

lemma part_s3_ble_rx_clear:
  "part (s3_ble_rx_clear B) {21} 2
     [wrote BLE_INTERRUPT_CLEAR BLE_RX_INTERRUPT,
      answered BLE_INTERRUPT_STATUS (\<lambda>v. v AND BLE_RX_INTERRUPT = 0)]"
  unfolding s3_ble_rx_clear_def probe_parts
  by (intro partI trace_rules) (simp_all add: exhibits_skip)

lemma part_s3_time:
  "part (s3_time B) {6} 2
     []"
  unfolding s3_time_def probe_parts
  by (intro partI trace_rules) (simp_all add: exhibits_skip)

lemma part_s3_tsf:
  "part (s3_tsf B) {7} 3
     [wrote WIFI_TSF_LATCH_CONTROL 1]"
  unfolding s3_tsf_def probe_parts
  by (intro partI trace_rules) (simp_all add: exhibits_skip)

lemma part_s3_random:
  "part (s3_random B) {8} 2
     [answered WIFI_RANDOM_DATA (\<lambda>v. v \<noteq> 0),
      answered WIFI_RANDOM_DATA (\<lambda>v. v \<noteq> 0)]"
  unfolding s3_random_def probe_parts
  by (intro partI trace_rules) (simp_all add: exhibits_skip)

lemma part_s3_checks: "part (s3_checks B L) {1..21} 160100 (s3_evidence L)"
  unfolding s3_checks_def s3_evidence_def
  by (rule part_weaken)
    (rule part_checked_Cons part_checked_Nil part_s3_wifi_tx_wait
      part_s3_reset part_s3_wifi_tx_start part_s3_wifi_tx_check part_s3_wifi_tx_clear part_s3_wifi_rx_wait part_s3_wifi_rx_length part_s3_wifi_rx_frame part_s3_wifi_rx_clear
      part_s3_ble_map part_s3_ble_tx part_s3_ble_tx_state part_s3_ble_tx_clear part_s3_ble_rx part_s3_ble_rx_owner part_s3_ble_rx_header
      part_s3_ble_rx_compare part_s3_ble_rx_metadata part_s3_ble_rx_clear part_s3_time part_s3_tsf part_s3_random | simp)+

section \<open>A board that passes\<close>

definition s3_layout :: s3_objects where
  "s3_layout = \<lparr>s3_wifi_frame = 0x3fc80000, s3_wifi_descriptor = 0x3fc80100, s3_wifi_rx_buffer = 0x3fc80200,
     s3_wifi_rx_descriptor = 0x3fc80400, s3_ble_slot = 0x3fc80500, s3_ble_control = 0x3fc80600,
     s3_ble_tx_descriptor = 0x3fc80700, s3_ble_payload = 0x3fc80800, s3_ble_rx_descriptor = 0x3fc80900,
     s3_ble_rx_payload = 0x3fc80a00\<rparr>"

text \<open>The answers of the Wi-Fi MAC, the BLE controller and the clocks, with the frames they deliver.\<close>

definition s3_wifi_tape :: tape where
  "s3_wifi_tape =
    [(1, []), (1, []), (0x80, []), (1, []), (0x80, []), (1, []), (0, []), (0, []), (0, []),
     (0x4000, [(0x3fc80400, [0, 0xc0, 0x04, 0x40]),
               (0x3fc80230, [0x80, 0, 0, 0, 0xff, 0, 0, 0, 0, 0xff, 2, 0, 0, 0, 0, 1])]),
     (0, [])]"

definition s3_ble_tape :: tape where
  "s3_ble_tape =
    [(100, []), (0x20, [(0x3fc80500, [0x20])]), (0, []),
     (200, []), (4, [(0x3fc80900, [0, 0x80, 0, 0, 0x42, 0x0c, 0xb0, 0, 0, 0, 0, 0, 0, 0, 0, 0]),
                     (0x3fc80a00, [0xaa, 0xbb, 0xcc, 0xdd, 0xee, 0xc1, 2, 1, 6, 2, 9, 0x52])]),
     (0, [])]"

definition s3_clock_tape :: tape where
  "s3_clock_tape = [(7, []), (8, []), (1, []), (0, []), (5, []), (9, [])]"

lemma run_s3_wifi_tx_wait:
  "run_state (s3_wifi_tx_wait B (numeral k)) w =
   run_state (State_Monad.bind (READ32 B WIFI_QUEUE_STATE) (\<lambda>queue.
     if queue AND 1 \<noteq> 0 then State_Monad.bind (READ32 B WIFI_INTERRUPT_EVENT) (\<lambda>event.
       if event AND WIFI_TX_DONE \<noteq> 0 then State_Monad.return () else s3_wifi_tx_wait B (pred_numeral k))
     else s3_wifi_tx_wait B (pred_numeral k))) w"
  by (simp add: numeral_eq_Suc)

lemma passes_s3_wifi_tx:
  "passes_on (checked [s3_reset tape_board, s3_wifi_tx_start tape_board s3_layout,
     act (s3_wifi_tx_wait tape_board 20000), s3_wifi_tx_check tape_board, s3_wifi_tx_clear tape_board])
   [(1, []), (1, []), (0x80, []), (1, []), (0x80, []), (1, []), (0, []), (0, []), (0, [])]"
  by (simp add: passes_on_def s3_reset_def s3_wifi_tx_start_def s3_wifi_tx_check_def s3_wifi_tx_clear_def
      run_s3_wifi_tx_wait probe_parts poke32_def WIFI_TX_DONE_def)

lemma passes_s3_wifi_rx:
  "passes_on (checked [s3_wifi_rx_wait tape_board s3_layout, s3_wifi_rx_length s3_layout,
     s3_wifi_rx_frame s3_layout, s3_wifi_rx_clear tape_board])
   [(0x4000, [(0x3fc80400, [0, 0xc0, 0x04, 0x40]),
              (0x3fc80230, [0x80, 0, 0, 0, 0xff, 0, 0, 0, 0, 0xff, 2, 0, 0, 0, 0, 1])]), (0, [])]"
  by (simp add: passes_on_def s3_wifi_rx_wait_def s3_wifi_rx_length_def s3_wifi_rx_frame_def
      s3_wifi_rx_clear_def run_poll_numeral probe_parts poke32_def WIFI_RX_DONE_def s3_layout_def Let_def)

lemma passes_s3_ble_tx:
  "passes_on (checked [s3_ble_map tape_board s3_layout, s3_ble_tx tape_board s3_layout,
     s3_ble_tx_state s3_layout, s3_ble_tx_clear tape_board])
   [(100, []), (0x20, [(0x3fc80500, [0x20])]), (0, [])]"
  by (simp add: passes_on_def s3_ble_map_def s3_ble_tx_def s3_ble_tx_state_def s3_ble_tx_clear_def
      write16_def write32_def run_poll_numeral probe_parts poke8_def BLE_END_INTERRUPT_def s3_layout_def)

lemma passes_s3_ble_rx:
  "passes_on (checked [s3_ble_rx tape_board s3_layout, s3_ble_rx_owner s3_layout, s3_ble_rx_header s3_layout,
     s3_ble_rx_compare s3_layout, s3_ble_rx_metadata s3_layout, s3_ble_rx_clear tape_board])
   [(200, []), (4, [(0x3fc80900, [0, 0x80, 0, 0, 0x42, 0x0c, 0xb0, 0, 0, 0, 0, 0, 0, 0, 0, 0]),
                    (0x3fc80a00, [0xaa, 0xbb, 0xcc, 0xdd, 0xee, 0xc1, 2, 1, 6, 2, 9, 0x52])]), (0, [])]"
  by (simp add: passes_on_def s3_ble_rx_def s3_ble_rx_owner_def s3_ble_rx_header_def s3_ble_rx_compare_def
      s3_ble_rx_metadata_def s3_ble_rx_clear_def halfword_is_def write16_def write32_def run_poll_numeral
      probe_parts poke8_def BLE_RX_INTERRUPT_def s3_layout_def)

lemma passes_s3_clocks:
  "passes_on (checked [s3_time tape_board, s3_tsf tape_board, s3_random tape_board]) s3_clock_tape"
  by (simp add: passes_on_def s3_time_def s3_tsf_def s3_random_def s3_clock_tape_def)

lemma passes_s3_checks:
  "passes_on (s3_checks tape_board s3_layout) (s3_wifi_tape @ s3_ble_tape @ s3_clock_tape)"
  using passes_append [OF passes_append [OF passes_s3_wifi_tx passes_s3_wifi_rx]
      passes_append [OF passes_append [OF passes_s3_ble_tx passes_s3_ble_rx] passes_s3_clocks]]
  by (simp only: s3_checks_def s3_wifi_tape_def s3_ble_tape_def append.simps append_assoc)

section \<open>Properties\<close>

lemma s3_start_trace:
  "\<exists>es. w_trace (snd (run_state (s3_start B L) w)) = w_trace w @ es \<and> length es \<le> 160101 \<and>
     fst (run_state (s3_start B L) w) \<in> {0..21} \<and>
     Bus (Wr EXIT_CODE (of_int (fst (run_state (s3_start B L) w)))) = last es \<and>
     (fst (run_state (s3_start B L) w) = 0 \<longrightarrow> exhibits (s3_evidence L @ [wrote EXIT_CODE 0]) es)"
proof -
  obtain r w1 where r: "run_state (s3_checks B L) w = (r, w1)" by fastforce
  obtain es where es: "w_trace w1 = w_trace w @ es" "length es \<le> 160100" "r \<in> insert 0 {1..21}"
    "r = 0 \<longrightarrow> exhibits (s3_evidence L) es"
    using part_from [OF part_s3_checks, of B L w] r by auto
  have "run_state (s3_start B L) w = (r, snd (run_state (WRITE32 B EXIT_CODE (of_int r)) w1))"
    by (simp add: s3_start_def r split: prod.split)
  moreover have "w_trace (snd (run_state (WRITE32 B EXIT_CODE (of_int r)) w1)) =
      w_trace w @ (es @ [Bus (Wr EXIT_CODE (of_int r))])"
    by (simp add: WRITE32_def es(1) split: prod.split)
  moreover have "exhibits [wrote EXIT_CODE 0] [Bus (Wr EXIT_CODE 0)]"
    by simp
  ultimately show ?thesis
    using es(2-4) by (intro exI [of _ "es @ [Bus (Wr EXIT_CODE (of_int r))]"]) (auto intro: exhibits_append)
qed



end
