(* ===== verification/Smoke.thy ===== *)
theory Smoke
  imports Prelude "HOL-Library.Monad_Syntax"
begin

text \<open>
  The smoke programs (\<^verbatim>\<open>corpus/smoke\<close>): small bare-metal programs, one per microcontroller, that
  touch the peripherals and return a status.  They share a handful of statement forms: register stores,
  read-modify-writes, checks that set a failure bit, note a failure code or return, waits that poll a
  register or wait for an interrupt handler's counter.  This theory has the statement forms with their
  execution on a chip, and the lemmas on runs that hold for every program; the programs are in
  \<open>Smoke_Mcu\<close>, \<open>Smoke_Rp\<close>, \<open>Smoke_Esp\<close> and \<open>Vendor_Probes\<close>.
\<close>

section \<open>Registers and the chip\<close>

text \<open>\<open>REG8(address)\<close>, \<open>REG16(address)\<close>, \<open>REG32(address)\<close>: a register with its width.\<close>

datatype reg = R8 u32 | R16 u32 | R32 u32

fun clip :: "reg \<Rightarrow> u32 \<Rightarrow> u32" where
  "clip (R8 a) v = v AND 0xff"
| "clip (R16 a) v = v AND 0xffff"
| "clip (R32 a) v = v"

text \<open>
  The chip is not part of the programs: it answers every register access, and after every access it may
  have interrupts to serve, given by the numbers of their handlers.
\<close>

record 'd chip =
  c_read :: "reg \<Rightarrow> 'd \<Rightarrow> u32 \<times> 'd"
  c_write :: "reg \<Rightarrow> u32 \<Rightarrow> 'd \<Rightarrow> 'd"
  c_irq :: "'d \<Rightarrow> nat list \<times> 'd"

datatype access = Ld reg u32 | St reg u32

datatype entry = In_Main access | In_Handler nat access

record 'd bench =
  dev :: 'd
  counter :: "nat \<Rightarrow> u32"
  journal :: "entry list"

section \<open>Interrupt handlers\<close>

text \<open>A handler stores, modifies registers and counts; \<open>m\<close> is the mask of the counter's type.\<close>

datatype hcmd = H_Put reg u32 | H_Update reg "u32 \<Rightarrow> u32" | H_Count nat u32

definition raw_load :: "'d chip \<Rightarrow> (access \<Rightarrow> entry) \<Rightarrow> reg \<Rightarrow> 'd bench \<Rightarrow> u32 \<times> 'd bench" where
  "raw_load C tag r w =
     (case c_read C r (dev w) of (v, d) \<Rightarrow>
        (clip r v, w\<lparr>dev := d, journal := journal w @ [tag (Ld r (clip r v))]\<rparr>))"

definition raw_store :: "'d chip \<Rightarrow> (access \<Rightarrow> entry) \<Rightarrow> reg \<Rightarrow> u32 \<Rightarrow> 'd bench \<Rightarrow> 'd bench" where
  "raw_store C tag r v w =
     w\<lparr>dev := c_write C r (clip r v) (dev w), journal := journal w @ [tag (St r (clip r v))]\<rparr>"

fun handle :: "'d chip \<Rightarrow> nat \<Rightarrow> hcmd \<Rightarrow> 'd bench \<Rightarrow> 'd bench" where
  "handle C n (H_Put r v) w = raw_store C (In_Handler n) r v w"
| "handle C n (H_Update r f) w = (case raw_load C (In_Handler n) r w of (v, w) \<Rightarrow> raw_store C (In_Handler n) r (f v) w)"
| "handle C n (H_Count i m) w = w\<lparr>counter := (counter w)(i := (counter w i + 1) AND m)\<rparr>"

definition serve :: "'d chip \<Rightarrow> (nat \<Rightarrow> hcmd list) \<Rightarrow> 'd bench \<Rightarrow> 'd bench" where
  "serve C isr w =
     (case c_irq C (dev w) of (ns, d) \<Rightarrow> fold (\<lambda>n. fold (handle C n) (isr n)) ns (w\<lparr>dev := d\<rparr>))"

definition load :: "'d chip \<Rightarrow> (nat \<Rightarrow> hcmd list) \<Rightarrow> reg \<Rightarrow> 'd bench \<Rightarrow> u32 \<times> 'd bench" where
  "load C isr r w = (case raw_load C In_Main r w of (v, w) \<Rightarrow> (v, serve C isr w))"

definition store :: "'d chip \<Rightarrow> (nat \<Rightarrow> hcmd list) \<Rightarrow> reg \<Rightarrow> u32 \<Rightarrow> 'd bench \<Rightarrow> 'd bench" where
  "store C isr r v w = serve C isr (raw_store C In_Main r v w)"

section \<open>Statements\<close>

text \<open>
  A condition \<open>a || b || ...\<close>: each operand reads its registers in order and tests the values; the
  operands after the first that holds are not evaluated.
\<close>

type_synonym cond = "(reg list \<times> (u32 list \<Rightarrow> bool)) list"

abbreviation reads :: "reg \<Rightarrow> (u32 \<Rightarrow> bool) \<Rightarrow> reg list \<times> (u32 list \<Rightarrow> bool)" where
  "reads r p \<equiv> ([r], \<lambda>vs. p (vs ! 0))"

abbreviation holds :: "bool \<Rightarrow> reg list \<times> (u32 list \<Rightarrow> bool)" where
  "holds b \<equiv> ([], \<lambda>vs. b)"

datatype cmd =
    Put reg u32                                   \<comment> \<open>\<open>REG = v;\<close>\<close>
  | Update reg "u32 \<Rightarrow> u32"                       \<comment> \<open>\<open>REG = f(REG);\<close>\<close>
  | Report reg "u32 \<Rightarrow> u32"                       \<comment> \<open>\<open>REG = f(failures);\<close>\<close>
  | Flag nat cond                                 \<comment> \<open>\<open>failures |= cond << n;\<close>\<close>
  | Note u32 cond                                 \<comment> \<open>\<open>if (cond) failure = code;\<close>\<close>
  | Fail u32 cond                                 \<comment> \<open>\<open>if (cond) return code;\<close>\<close>
  | Await "(reg \<times> u32) list" reg "u32 \<Rightarrow> bool"    \<comment> \<open>\<open>do { stores } while (!stop(REG));\<close>\<close>
  | Poll nat reg "u32 \<Rightarrow> bool" u32                \<comment> \<open>at most \<open>n\<close> reads, then \<open>return code\<close>\<close>
  | Await_Counts "(nat \<times> u32) list"               \<comment> \<open>\<open>while (count < k || ...) {}\<close>\<close>

abbreviation await :: "reg \<Rightarrow> (u32 \<Rightarrow> bool) \<Rightarrow> cmd" where
  "await r stop \<equiv> Await [] r stop"

fun read_all :: "'d chip \<Rightarrow> (nat \<Rightarrow> hcmd list) \<Rightarrow> reg list \<Rightarrow> 'd bench \<Rightarrow> u32 list \<times> 'd bench" where
  "read_all C isr [] w = ([], w)"
| "read_all C isr (r # rs) w =
     (case load C isr r w of (v, w) \<Rightarrow> case read_all C isr rs w of (vs, w) \<Rightarrow> (v # vs, w))"

fun test :: "'d chip \<Rightarrow> (nat \<Rightarrow> hcmd list) \<Rightarrow> cond \<Rightarrow> 'd bench \<Rightarrow> bool \<times> 'd bench" where
  "test C isr [] w = (False, w)"
| "test C isr ((rs, p) # ts) w =
     (case read_all C isr rs w of (vs, w) \<Rightarrow> if p vs then (True, w) else test C isr ts w)"

fun put_all :: "'d chip \<Rightarrow> (nat \<Rightarrow> hcmd list) \<Rightarrow> (reg \<times> u32) list \<Rightarrow> 'd bench \<Rightarrow> 'd bench" where
  "put_all C isr [] w = w"
| "put_all C isr ((r, v) # ps) w = put_all C isr ps (store C isr r v w)"

text \<open>The loops poll at most \<open>n\<close> times; \<open>None\<close> when the condition has not come true.\<close>

fun await_loop ::
  "'d chip \<Rightarrow> (nat \<Rightarrow> hcmd list) \<Rightarrow> nat \<Rightarrow> (reg \<times> u32) list \<Rightarrow> reg \<Rightarrow> (u32 \<Rightarrow> bool) \<Rightarrow> 'd bench \<Rightarrow> bool \<times> 'd bench" where
  "await_loop C isr 0 ps r stop w = (False, w)"
| "await_loop C isr (Suc n) ps r stop w =
     (case load C isr r (put_all C isr ps w) of (v, w) \<Rightarrow>
        if stop v then (True, w) else await_loop C isr n ps r stop w)"

fun count_loop ::
  "'d chip \<Rightarrow> (nat \<Rightarrow> hcmd list) \<Rightarrow> nat \<Rightarrow> (nat \<times> u32) list \<Rightarrow> 'd bench \<Rightarrow> 'd bench option" where
  "count_loop C isr 0 ks w = None"
| "count_loop C isr (Suc n) ks w =
     (if \<exists>(i, k) \<in> set ks. counter w i < k then count_loop C isr n ks (serve C isr w) else Some w)"

text \<open>A statement ends the program with a status, or goes on with the failures so far.\<close>

definition exec ::
  "'d chip \<Rightarrow> (nat \<Rightarrow> hcmd list) \<Rightarrow> nat \<Rightarrow> cmd \<Rightarrow> u32 \<Rightarrow> 'd bench \<Rightarrow> ((u32 + u32) \<times> 'd bench) option" where
  "exec C isr n c failures w =
     (case c of
        Put r v \<Rightarrow> Some (Inr failures, store C isr r v w)
      | Update r f \<Rightarrow> (case load C isr r w of (v, w) \<Rightarrow> Some (Inr failures, store C isr r (f v) w))
      | Report r f \<Rightarrow> Some (Inr failures, store C isr r (f failures) w)
      | Flag k ts \<Rightarrow>
          (case test C isr ts w of (b, w) \<Rightarrow> Some (Inr (failures OR (if b then shl 1 k else 0)), w))
      | Note code ts \<Rightarrow>
          (case test C isr ts w of (b, w) \<Rightarrow> Some (Inr (if b then code else failures), w))
      | Fail code ts \<Rightarrow>
          (case test C isr ts w of (b, w) \<Rightarrow> Some (if b then Inl code else Inr failures, w))
      | Await ps r stop \<Rightarrow>
          (case await_loop C isr n ps r stop w of (b, w) \<Rightarrow> if b then Some (Inr failures, w) else None)
      | Poll k r stop code \<Rightarrow>
          (case await_loop C isr k [] r stop w of (b, w) \<Rightarrow> Some (if b then Inr failures else Inl code, w))
      | Await_Counts ks \<Rightarrow> do { w \<leftarrow> count_loop C isr n ks w; Some (Inr failures, w) })"

fun run :: "'d chip \<Rightarrow> (nat \<Rightarrow> hcmd list) \<Rightarrow> nat \<Rightarrow> cmd list \<Rightarrow> u32 \<Rightarrow> 'd bench \<Rightarrow> (u32 \<times> 'd bench) option" where
  "run C isr n [] failures w = Some (failures, w)"
| "run C isr n (c # cs) failures w = do {
     (result, w) \<leftarrow> exec C isr n c failures w;
     case result of Inl code \<Rightarrow> Some (code, w) | Inr failures \<Rightarrow> run C isr n cs failures w }"

text \<open>A program: its statements, its handlers, and the register that takes the status, if there is one.\<close>

record program =
  body :: "cmd list"
  handlers :: "nat \<Rightarrow> hcmd list"
  exit_register :: "reg option"

definition perform :: "'d chip \<Rightarrow> nat \<Rightarrow> program \<Rightarrow> 'd bench \<Rightarrow> (u32 \<times> 'd bench) option" where
  "perform C n p w = do {
     (code, w) \<leftarrow> run C (handlers p) n (body p) 0 w;
     Some (code, case exit_register p of None \<Rightarrow> w | Some r \<Rightarrow> store C (handlers p) r code w) }"

section \<open>What the program itself did\<close>

text \<open>The accesses of the program, without those of the handlers.\<close>

fun mains :: "entry list \<Rightarrow> access list" where
  "mains [] = []"
| "mains (In_Main a # es) = a # mains es"
| "mains (In_Handler n a # es) = mains es"

abbreviation did :: "'d bench \<Rightarrow> access list" where
  "did w \<equiv> mains (journal w)"

lemma mains_append [simp]: "mains (es @ fs) = mains es @ mains fs"
  by (induction es rule: mains.induct) simp_all

lemma handle_did [simp]: "did (handle C n c w) = did w"
  by (cases c) (simp_all add: raw_load_def raw_store_def split: prod.split)

lemma handler_did: "did (fold (handle C n) cs w) = did w"
  by (induction cs arbitrary: w) simp_all

lemma handlers_did: "did (fold (\<lambda>n. fold (handle C n) (isr n)) ns w) = did w"
  by (induction ns arbitrary: w) (simp_all add: handler_did)

lemma serve_did [simp]: "did (serve C isr w) = did w"
  by (simp add: serve_def handlers_did split: prod.split)

lemma load_did [simp]: "did (snd (load C isr r w)) = did w @ [Ld r (fst (load C isr r w))]"
  by (simp add: load_def raw_load_def split: prod.split)

lemma loaded: "load C isr r w = (v, w') \<Longrightarrow> did w' = did w @ [Ld r v]"
  using load_did [of C isr r w] by simp

lemma store_did [simp]: "did (store C isr r v w) = did w @ [St r (clip r v)]"
  by (simp add: store_def raw_store_def)

definition stores :: "(reg \<times> u32) list \<Rightarrow> access list" where
  "stores ps = map (\<lambda>(r, v). St r (clip r v)) ps"

lemma put_all_did [simp]: "did (put_all C isr ps w) = did w @ stores ps"
  by (induction C isr ps w rule: put_all.induct) (simp_all add: stores_def)

lemma read_all_did:
  "read_all C isr rs w = (vs, w') \<Longrightarrow> length vs = length rs \<and> did w' = did w @ map2 Ld rs vs"
proof (induction C isr rs w arbitrary: vs w' rule: read_all.induct)
  case (2 C isr r rs w)
  obtain v w1 where l: "load C isr r w = (v, w1)" by fastforce
  obtain us w2 where r: "read_all C isr rs w1 = (us, w2)" by fastforce
  show ?case
    using "2.IH" [OF l [symmetric] r] "2.prems" l r loaded [OF l] by auto
qed simp

section \<open>Specification of a passing run\<close>

text \<open>The reads that establish that a condition is false, and that it is true.\<close>

fun refuted :: "cond \<Rightarrow> access list \<Rightarrow> bool" where
  "refuted [] xs \<longleftrightarrow> xs = []"
| "refuted ((rs, p) # ts) xs \<longleftrightarrow>
     (\<exists>vs ys. length vs = length rs \<and> \<not> p vs \<and> xs = map2 Ld rs vs @ ys \<and> refuted ts ys)"

fun confirmed :: "cond \<Rightarrow> access list \<Rightarrow> bool" where
  "confirmed [] xs \<longleftrightarrow> False"
| "confirmed ((rs, p) # ts) xs \<longleftrightarrow>
     (\<exists>vs ys. length vs = length rs \<and> xs = map2 Ld rs vs @ ys \<and> (if p vs then ys = [] else confirmed ts ys))"

lemma test_did:
  "test C isr ts w = (b, w') \<Longrightarrow> \<exists>xs. did w' = did w @ xs \<and> (if b then confirmed ts xs else refuted ts xs)"
proof (induction C isr ts w arbitrary: b w' rule: test.induct)
  case (2 C isr rs p ts w)
  obtain vs w1 where r: "read_all C isr rs w = (vs, w1)" by fastforce
  have d: "length vs = length rs" "did w1 = did w @ map2 Ld rs vs"
    using read_all_did [OF r] by auto
  show ?case
  proof (cases "p vs")
    case True
    then show ?thesis using "2.prems" r d by auto
  next
    case False
    then have "test C isr ts w1 = (b, w')" using "2.prems" r by simp
    then obtain xs where "did w' = did w1 @ xs" "if b then confirmed ts xs else refuted ts xs"
      using "2.IH" [OF r [symmetric] False] by blast
    then show ?thesis
      using d False by (intro exI [of _ "map2 Ld rs vs @ xs"]) auto
  qed
qed simp

text \<open>The turns of a polling loop with the values it read.\<close>

definition turns :: "(reg \<times> u32) list \<Rightarrow> reg \<Rightarrow> u32 list \<Rightarrow> access list" where
  "turns ps r us = concat (map (\<lambda>u. stores ps @ [Ld r u]) us)"

lemma await_loop_did:
  "await_loop C isr n ps r stop w = (b, w') \<Longrightarrow>
   \<exists>us. did w' = did w @ turns ps r us \<and> length us \<le> n \<and>
     (if b then us \<noteq> [] \<and> stop (last us) \<and> (\<forall>u \<in> set (butlast us). \<not> stop u)
      else length us = n \<and> (\<forall>u \<in> set us. \<not> stop u))"
proof (induction C isr n ps r stop w arbitrary: b w' rule: await_loop.induct)
  case (2 C isr n ps r stop w)
  obtain v w1 where l: "load C isr r (put_all C isr ps w) = (v, w1)" by fastforce
  have d: "did w1 = did w @ stores ps @ [Ld r v]"
    using load_did [of C isr r "put_all C isr ps w"] by (simp add: l)
  show ?case
  proof (cases "stop v")
    case True
    then show ?thesis
      using "2.prems" l d by (intro exI [of _ "[v]"]) (auto simp: turns_def)
  next
    case False
    then have "await_loop C isr n ps r stop w1 = (b, w')" using "2.prems" l by simp
    then obtain us where "did w' = did w1 @ turns ps r us" "length us \<le> n"
      "if b then us \<noteq> [] \<and> stop (last us) \<and> (\<forall>u \<in> set (butlast us). \<not> stop u)
       else length us = n \<and> (\<forall>u \<in> set us. \<not> stop u)"
      using "2.IH" [OF l [symmetric] False] by blast
    then show ?thesis
      using d False by (intro exI [of _ "v # us"]) (auto simp: turns_def)
  qed
qed (auto simp: turns_def)

lemma count_loop_did:
  "count_loop C isr n ks w = Some w' \<Longrightarrow> did w' = did w \<and> (\<forall>(i, k) \<in> set ks. k \<le> counter w' i)"
  by (induction C isr n ks w rule: count_loop.induct) (auto split: if_splits simp: not_less)

text \<open>
  \<open>clean c xs\<close>: the accesses \<open>xs\<close> are those of a statement that found nothing to complain about.  A
  passing run is one statement after the other.
\<close>

definition clean :: "cmd \<Rightarrow> access list \<Rightarrow> bool" where
  "clean c xs =
     (case c of
        Put r v \<Rightarrow> xs = [St r (clip r v)]
      | Update r f \<Rightarrow> \<exists>v. xs = [Ld r v, St r (clip r (f v))]
      | Report r f \<Rightarrow> xs = [St r (clip r (f 0))]
      | Flag k ts \<Rightarrow> refuted ts xs
      | Note code ts \<Rightarrow> refuted ts xs
      | Fail code ts \<Rightarrow> refuted ts xs
      | Await ps r stop \<Rightarrow>
          \<exists>us v. xs = turns ps r (us @ [v]) \<and> stop v \<and> (\<forall>u \<in> set us. \<not> stop u)
      | Poll k r stop code \<Rightarrow>
          \<exists>us v. xs = turns [] r (us @ [v]) \<and> stop v \<and> (\<forall>u \<in> set us. \<not> stop u) \<and> length us < k
      | Await_Counts ks \<Rightarrow> xs = [])"

fun passing :: "cmd list \<Rightarrow> access list \<Rightarrow> bool" where
  "passing [] xs \<longleftrightarrow> xs = []"
| "passing (c # cs) xs \<longleftrightarrow> (\<exists>ys zs. xs = ys @ zs \<and> clean c ys \<and> passing cs zs)"

text \<open>Failure codes are not zero and failure bits are bits of a word.\<close>

fun sound_cmd :: "cmd \<Rightarrow> bool" where
  "sound_cmd (Flag k ts) \<longleftrightarrow> k < 32"
| "sound_cmd (Note code ts) \<longleftrightarrow> code \<noteq> 0"
| "sound_cmd (Fail code ts) \<longleftrightarrow> code \<noteq> 0"
| "sound_cmd (Poll k r stop code) \<longleftrightarrow> code \<noteq> 0"
| "sound_cmd c \<longleftrightarrow> True"

lemma or_zero: "a OR b = (0 :: u32) \<longleftrightarrow> a = 0 \<and> b = 0"
  by (auto simp: bit_eq_iff bit_or_iff)

lemma flag_bit: "k < 32 \<Longrightarrow> shl 1 k \<noteq> (0 :: u32)"
proof
  assume "k < 32" "shl 1 k = (0 :: u32)"
  then have "bit (shl 1 k :: u32) k = bit (0 :: u32) k" by (simp only:)
  with \<open>k < 32\<close> show False by (simp add: bit_simps bit_push_bit_iff)
qed

lemma last_split: "us \<noteq> [] \<Longrightarrow> \<exists>xs x. us = xs @ [x] \<and> butlast us = xs \<and> last us = x"
  by (metis append_butlast_last_id)

lemma exec_clean:
  assumes "exec C isr n c f w = Some (Inr 0, w')" and "sound_cmd c"
  shows "f = 0 \<and> (\<exists>xs. did w' = did w @ xs \<and> clean c xs)"
proof (cases c)
  case (Put r v)
  then show ?thesis using assms by (auto simp: exec_def clean_def)
next
  case (Update r g)
  then show ?thesis
    using assms loaded [of C isr r w] by (auto simp: exec_def clean_def split: prod.splits)
next
  case (Report r g)
  then show ?thesis using assms by (auto simp: exec_def clean_def)
next
  case (Flag k ts)
  then show ?thesis
    using assms flag_bit [of k] test_did [of C isr ts w]
    by (fastforce simp: exec_def clean_def or_zero split: prod.splits if_splits)
next
  case (Note code ts)
  then show ?thesis
    using assms test_did [of C isr ts w] by (fastforce simp: exec_def clean_def split: prod.splits if_splits)
next
  case (Fail code ts)
  then show ?thesis
    using assms test_did [of C isr ts w] by (fastforce simp: exec_def clean_def split: prod.splits if_splits)
next
  case (Await ps r stop)
  then obtain us where "f = 0" "did w' = did w @ turns ps r us" "us \<noteq> []" "stop (last us)"
      "\<forall>u \<in> set (butlast us). \<not> stop u"
    using assms await_loop_did [of C isr n ps r stop w]
    by (fastforce simp: exec_def split: prod.splits if_splits)
  then show ?thesis
    using Await last_split [of us] by (fastforce simp: clean_def)
next
  case (Poll k r stop code)
  then obtain us where "f = 0" "did w' = did w @ turns [] r us" "us \<noteq> []" "stop (last us)"
      "\<forall>u \<in> set (butlast us). \<not> stop u" "length us \<le> k"
    using assms await_loop_did [of C isr k "[]" r stop w]
    by (fastforce simp: exec_def split: prod.splits if_splits)
  then show ?thesis
    using Poll last_split [of us] by (fastforce simp: clean_def)
next
  case (Await_Counts ks)
  then show ?thesis
    using assms count_loop_did [of C isr n ks w] by (auto simp: exec_def clean_def bind_eq_Some_conv)
qed

lemma exec_code:
  "exec C isr n c f w = Some (Inl code, w') \<Longrightarrow> sound_cmd c \<Longrightarrow> code \<noteq> 0"
  by (cases c) (auto simp: exec_def bind_eq_Some_conv split: prod.splits if_splits)

lemma run_passing:
  "run C isr n cs f w = Some (0, w') \<Longrightarrow> list_all sound_cmd cs \<Longrightarrow>
   f = 0 \<and> (\<exists>xs. did w' = did w @ xs \<and> passing cs xs)"
proof (induction C isr n cs f w rule: run.induct)
  case (2 C isr n c cs f w)
  then obtain result w1 where e: "exec C isr n c f w = Some (result, w1)"
    and r: "(case result of Inl code \<Rightarrow> Some (code, w1) | Inr g \<Rightarrow> run C isr n cs g w1) = Some (0, w')"
    by (auto simp: bind_eq_Some_conv)
  show ?case
  proof (cases result)
    case (Inl code)
    then show ?thesis using e r "2.prems"(2) exec_code [of C isr n c f w code w1] by simp
  next
    case (Inr g)
    then have "g = 0" and "\<exists>xs. did w' = did w1 @ xs \<and> passing cs xs"
      using "2.IH" [OF e refl Inr] r "2.prems"(2) by auto
    then show ?thesis
      using exec_clean [of C isr n c f w w1] e Inr "2.prems"(2) by fastforce
  qed
qed simp

section \<open>What a program writes to a register\<close>

fun stored :: "reg \<Rightarrow> access list \<Rightarrow> u32 list" where
  "stored r [] = []"
| "stored r (St q v # xs) = (if q = r then v # stored r xs else stored r xs)"
| "stored r (Ld q v # xs) = stored r xs"

fun written :: "reg \<Rightarrow> cmd list \<Rightarrow> u32 list" where
  "written r [] = []"
| "written r (Put q v # cs) = (if q = r then clip r v # written r cs else written r cs)"
| "written r (c # cs) = written r cs"

text \<open>Statements that touch the register only by plain stores, and statements that never return early.\<close>

fun steady :: "reg \<Rightarrow> cmd \<Rightarrow> bool" where
  "steady r (Update q f) \<longleftrightarrow> q \<noteq> r"
| "steady r (Report q f) \<longleftrightarrow> q \<noteq> r"
| "steady r (Await ps q stop) \<longleftrightarrow> r \<notin> fst ` set ps"
| "steady r c \<longleftrightarrow> True"

fun falls_through :: "cmd \<Rightarrow> bool" where
  "falls_through (Fail code ts) \<longleftrightarrow> False"
| "falls_through (Poll k r stop code) \<longleftrightarrow> False"
| "falls_through c \<longleftrightarrow> True"

lemma stored_append [simp]: "stored r (xs @ ys) = stored r xs @ stored r ys"
  by (induction r xs rule: stored.induct) simp_all

lemma stored_loads: "length rs = length vs \<Longrightarrow> stored r (map2 Ld rs vs) = []"
  by (induction rs vs rule: list_induct2) simp_all

lemma stored_stores: "r \<notin> fst ` set ps \<Longrightarrow> stored r (stores ps) = []"
  by (induction ps) (auto simp: stores_def)

lemma stored_turns: "r \<notin> fst ` set ps \<Longrightarrow> stored r (turns ps q us) = []"
  by (induction us) (simp_all add: turns_def stored_stores)

lemma stored_refuted: "refuted ts xs \<Longrightarrow> stored r xs = []"
  by (induction ts xs rule: refuted.induct) (auto simp: stored_loads)

lemma stored_confirmed: "confirmed ts xs \<Longrightarrow> stored r xs = []"
  by (induction ts xs rule: confirmed.induct) (auto simp: stored_loads split: if_splits)

lemma test_stored: "test C isr ts w = (b, w') \<Longrightarrow> stored r (did w') = stored r (did w)"
  using test_did [of C isr ts w b w'] by (auto simp: stored_refuted stored_confirmed split: if_splits)

lemma await_stored:
  "await_loop C isr n ps q stop w = (b, w') \<Longrightarrow> r \<notin> fst ` set ps \<Longrightarrow> stored r (did w') = stored r (did w)"
  using await_loop_did [of C isr n ps q stop w b w'] by (auto simp: stored_turns)

lemma exec_stored:
  assumes "exec C isr n c f w = Some (result, w')" and "steady r c"
  shows "stored r (did w') = stored r (did w) @ written r [c]"
proof (cases c)
  case (Update q g)
  then show ?thesis
    using assms loaded [of C isr q w] by (auto simp: exec_def split: prod.splits)
next
  case (Await ps q stop)
  then show ?thesis
    using assms await_stored [of C isr n ps q stop w] by (auto simp: exec_def split: prod.splits if_splits)
next
  case (Poll k q stop code)
  then show ?thesis
    using assms await_stored [of C isr k "[]" q stop w] by (auto simp: exec_def split: prod.splits if_splits)
next
  case (Await_Counts ks)
  then show ?thesis
    using assms count_loop_did [of C isr n ks w] by (auto simp: exec_def bind_eq_Some_conv)
qed (use assms test_stored [of C isr _ w] in \<open>auto simp: exec_def split: prod.splits if_splits\<close>)

lemma exec_falls_through:
  "exec C isr n c f w = Some (result, w') \<Longrightarrow> falls_through c \<Longrightarrow> \<exists>g. result = Inr g"
  by (cases c) (auto simp: exec_def bind_eq_Some_conv split: prod.splits if_splits)

lemma written_append: "written r (cs @ ds) = written r cs @ written r ds"
  by (induction r cs rule: written.induct) simp_all

lemma run_stored:
  "run C isr n cs f w = Some (code, w') \<Longrightarrow> list_all (steady r) cs \<Longrightarrow>
   \<exists>k \<le> length cs. stored r (did w') = stored r (did w) @ written r (take k cs) \<and>
     (list_all falls_through cs \<longrightarrow> k = length cs)"
proof (induction C isr n cs f w rule: run.induct)
  case (2 C isr n c cs f w)
  then obtain result w1 where e: "exec C isr n c f w = Some (result, w1)"
    and r: "(case result of Inl code \<Rightarrow> Some (code, w1) | Inr g \<Rightarrow> run C isr n cs g w1) = Some (code, w')"
    by (auto simp: bind_eq_Some_conv)
  have s: "stored r (did w1) = stored r (did w) @ written r [c]"
    using exec_stored [OF e] "2.prems"(2) by simp
  show ?case
  proof (cases result)
    case (Inl code)
    then show ?thesis
      using s r exec_falls_through [OF e] by (intro exI [of _ 1]) auto
  next
    case (Inr g)
    then obtain k where "k \<le> length cs" "stored r (did w') = stored r (did w1) @ written r (take k cs)"
      "list_all falls_through cs \<longrightarrow> k = length cs"
      using "2.IH" [OF e refl Inr] r "2.prems"(2) by auto
    then show ?thesis
      using s written_append [of r "[c]" "take k cs"] by (intro exI [of _ "Suc k"]) auto
  qed
qed simp

section \<open>Returning\<close>

text \<open>More polls never change an answer.\<close>

lemma await_loop_more:
  "await_loop C isr n ps r stop w = (True, w') \<Longrightarrow> n \<le> m \<Longrightarrow> await_loop C isr m ps r stop w = (True, w')"
proof (induction C isr n ps r stop w arbitrary: m rule: await_loop.induct)
  case (2 C isr n ps r stop w)
  then show ?case by (cases m) (auto split: prod.splits if_splits)
qed simp

lemma count_loop_more:
  "count_loop C isr n ks w = Some w' \<Longrightarrow> n \<le> m \<Longrightarrow> count_loop C isr m ks w = Some w'"
proof (induction C isr n ks w arbitrary: m rule: count_loop.induct)
  case (2 C isr n ks w)
  then show ?case by (cases m) (auto split: if_splits)
qed simp

lemma exec_more:
  assumes "exec C isr n c f w = Some x" and "n \<le> m"
  shows "exec C isr m c f w = Some x"
proof (cases c)
  case (Await ps r stop)
  then show ?thesis
    using assms await_loop_more [of C isr n ps r stop w _ m]
    by (auto simp: exec_def split: prod.splits if_splits)
next
  case (Await_Counts ks)
  then show ?thesis
    using assms count_loop_more [of C isr n ks w _ m] by (auto simp: exec_def bind_eq_Some_conv)
qed (use assms in \<open>simp_all add: exec_def\<close>)

lemma run_more: "run C isr n cs f w = Some x \<Longrightarrow> n \<le> m \<Longrightarrow> run C isr m cs f w = Some x"
proof (induction C isr n cs f w rule: run.induct)
  case (2 C isr n c cs f w)
  then obtain result w1 where e: "exec C isr n c f w = Some (result, w1)"
    by (auto simp: bind_eq_Some_conv)
  then show ?case
    using "2.IH" [OF e refl] "2.prems" exec_more [OF e "2.prems"(2)] by (auto split: sum.splits)
qed simp

text \<open>
  A chip that answers: while a statement waits, every poll brings its condition nearer.  The rank counts
  the polls that are left.
\<close>

definition answers :: "'d chip \<Rightarrow> (nat \<Rightarrow> hcmd list) \<Rightarrow> ('d bench \<Rightarrow> nat) \<Rightarrow> cmd \<Rightarrow> bool" where
  "answers C isr rank c =
     (case c of
        Await ps r stop \<Rightarrow>
          \<forall>w. case load C isr r (put_all C isr ps w) of (v, w') \<Rightarrow> stop v \<or> rank w' < rank w
      | Await_Counts ks \<Rightarrow>
          \<forall>w. (\<exists>(i, k) \<in> set ks. counter w i < k) \<longrightarrow> rank (serve C isr w) < rank w
      | _ \<Rightarrow> True)"

lemma await_loop_returns:
  assumes "answers C isr rank (Await ps r stop)" and "rank w < n"
  shows "fst (await_loop C isr n ps r stop w)"
  using assms(2)
proof (induction n arbitrary: w)
  case (Suc n)
  have "case load C isr r (put_all C isr ps w) of (v, w') \<Rightarrow> stop v \<or> rank w' < rank w"
    using assms(1) by (simp add: answers_def)
  then show ?case using Suc by (auto split: prod.splits)
qed simp

lemma count_loop_returns:
  assumes "answers C isr rank (Await_Counts ks)" and "rank w < n"
  shows "count_loop C isr n ks w \<noteq> None"
  using assms(2)
proof (induction n arbitrary: w)
  case (Suc n)
  have "(\<exists>(i, k) \<in> set ks. counter w i < k) \<longrightarrow> rank (serve C isr w) < rank w"
    using assms(1) by (simp add: answers_def)
  then show ?case using Suc by auto
qed simp

lemma exec_returns:
  assumes "answers C isr rank c" and "\<forall>w. rank w < n"
  shows "exec C isr n c f w \<noteq> None"
proof (cases c)
  case (Await ps r stop)
  then show ?thesis
    using assms await_loop_returns [of C isr rank ps r stop w n] by (auto simp: exec_def split: prod.splits)
next
  case (Await_Counts ks)
  then show ?thesis
    using assms count_loop_returns [of C isr rank ks w n] by (auto simp: exec_def)
qed (simp_all add: exec_def split: prod.split)

lemma run_returns:
  assumes "\<forall>c \<in> set cs. answers C isr (rank c) c \<and> (\<forall>w. rank c w < n)"
  shows "run C isr n cs f w \<noteq> None"
  using assms
proof (induction cs arbitrary: f w)
  case (Cons c cs)
  then obtain result w1 where e: "exec C isr n c f w = Some (result, w1)"
    using exec_returns [of C isr "rank c" c n f w] by auto
  then show ?case using Cons by (cases result) auto
qed simp

end
