(* ===== verification/Smoke_Mcu.thy ===== *)
theory Smoke_Mcu
  imports Smoke Complex_Main
begin

text \<open>
  The smoke programs of the microcontrollers of Microchip, Renesas, ST, Nordic, Silicon Labs and WCH
  (\<^verbatim>\<open>corpus/smoke\<close>).  Each program is the list of its statements in source order, with its
  registers at the addresses of the C text.  What the compiler decides (the sizes of the C types) and what the linker
  decides (the addresses of DMA buffers) are parameters.
\<close>

section \<open>Parts the programs share\<close>

text \<open>The sizes that the checks of the programs ask the compiler for.\<close>

record abi =
  size_char :: nat
  size_short :: nat
  size_int :: nat
  size_long :: nat
  size_pointer :: nat

definition arm_abi :: abi where
  "arm_abi = \<lparr>size_char = 1, size_short = 2, size_int = 4, size_long = 4, size_pointer = 4\<rparr>"

text \<open>\<open>return value == 0u ? 0u : value + recursive_sum(value - 1u);\<close> at the width of the program\<close>

function recursive_sum :: "'a::len word \<Rightarrow> 'a word" where
  "recursive_sum v = (if v = 0 then 0 else v + recursive_sum (v - 1))"
  by pat_completeness auto
termination
  by (relation "measure unat") (simp_all add: unat_minus_one unat_gt_0)

declare recursive_sum.simps [simp del]

definition switch_value :: "'a::len word \<Rightarrow> 'a word" where
  "switch_value v = (if v = 0 then 11 else if v = 2 then 29 else if v = 7 then 47 else if v = 19 then 83 else 101)"

record abi_record =
  tag :: u8
  abi_value :: u16
  wide :: u32

definition main_record :: abi_record where
  "main_record = \<lparr>tag = 9, abi_value = 0x1234, wide = 0x89abcdef\<rparr>"

definition ABI_LARGE :: int where "ABI_LARGE = 300"

text \<open>\<open>dividend\<close> and \<open>switch_input\<close>: initialised variables that the program only reads.\<close>

definition dividend :: u32 where "dividend = 100000"
definition switch_input :: "'a::len word" where "switch_input = 7"

definition size_checks :: "abi \<Rightarrow> nat \<Rightarrow> cmd list" where
  "size_checks A k =
     [Flag k [holds (size_char A \<noteq> 1)], Flag (k + 1) [holds (size_short A \<noteq> 2)],
      Flag (k + 2) [holds (size_int A \<noteq> 4)], Flag (k + 3) [holds (size_long A \<noteq> 4)],
      Flag (k + 4) [holds (size_pointer A \<noteq> 4)]]"

definition record_checks :: "nat \<Rightarrow> cmd list" where
  "record_checks k =
     [Flag k [holds (tag main_record \<noteq> 9), holds (abi_value main_record \<noteq> 0x1234), holds (wide main_record \<noteq> 0x89abcdef)],
      Flag (k + 1) [holds (ABI_LARGE \<noteq> 300)]]"

text \<open>\<open>while (*text != 0) { while (!ready) {} data = (unsigned char)*text++; }\<close>\<close>

definition print_text :: "reg \<Rightarrow> (u32 \<Rightarrow> bool) \<Rightarrow> reg \<Rightarrow> string \<Rightarrow> cmd list" where
  "print_text ready stop data text = concat (map (\<lambda>c. [await ready stop, Put data (of_char c)]) text)"

definition line :: "string \<Rightarrow> string" where
  "line s = s @ [CHR 0x0A]"

definition no_handlers :: "nat \<Rightarrow> hcmd list" where
  "no_handlers n = []"

section \<open>Programs\<close>

subsection \<open>ATSAMD21E18\<close>

definition samd21_PM_APBCMASK :: reg where "samd21_PM_APBCMASK = R32 0x40000420"
definition samd21_PM_APBAMASK :: reg where "samd21_PM_APBAMASK = R32 0x40000418"
definition samd21_GCLK_CLKCTRL :: reg where "samd21_GCLK_CLKCTRL = R16 0x40000c02"
definition samd21_EVSYS_CTRL :: reg where "samd21_EVSYS_CTRL = R8 0x42000400"
definition samd21_EVSYS_CHANNEL :: reg where "samd21_EVSYS_CHANNEL = R32 0x42000404"
definition samd21_EVSYS_CHANNEL_HALF :: reg where "samd21_EVSYS_CHANNEL_HALF = R16 0x42000404"
definition samd21_EVSYS_USER :: reg where "samd21_EVSYS_USER = R16 0x42000408"
definition samd21_EVSYS_INTENSET :: reg where "samd21_EVSYS_INTENSET = R32 0x42000414"
definition samd21_EVSYS_INTFLAG :: reg where "samd21_EVSYS_INTFLAG = R32 0x42000418"
definition samd21_USB_CTRLA :: reg where "samd21_USB_CTRLA = R8 0x41005000"
definition samd21_USB_CTRLB :: reg where "samd21_USB_CTRLB = R16 0x41005008"
definition samd21_USB_DADD :: reg where "samd21_USB_DADD = R8 0x4100500a"
definition samd21_USB_STATUS :: reg where "samd21_USB_STATUS = R8 0x4100500c"
definition samd21_USB_INTENSET :: reg where "samd21_USB_INTENSET = R16 0x41005018"
definition samd21_USB_DESCADD :: reg where "samd21_USB_DESCADD = R32 0x41005024"
definition samd21_USB_EPCFG0 :: reg where "samd21_USB_EPCFG0 = R8 0x41005100"
definition samd21_USB_EPSTATUSCLR0 :: reg where "samd21_USB_EPSTATUSCLR0 = R8 0x41005104"
definition samd21_USB_EPSTATUSSET0 :: reg where "samd21_USB_EPSTATUSSET0 = R8 0x41005105"
definition samd21_USB_EPSTATUS0 :: reg where "samd21_USB_EPSTATUS0 = R8 0x41005106"
definition samd21_USB_EPINTENSET0 :: reg where "samd21_USB_EPINTENSET0 = R8 0x41005109"
definition samd21_PORT_DIRSET :: reg where "samd21_PORT_DIRSET = R32 0x41004408"
definition samd21_PORT_OUTSET :: reg where "samd21_PORT_OUTSET = R32 0x41004418"
definition samd21_PORT_OUTCLR :: reg where "samd21_PORT_OUTCLR = R32 0x41004414"
definition samd21_PORT_IN :: reg where "samd21_PORT_IN = R32 0x41004420"
definition samd21_TC3_CTRLA :: reg where "samd21_TC3_CTRLA = R16 0x42002c00"
definition samd21_TC3_INTENSET :: reg where "samd21_TC3_INTENSET = R8 0x42002c0d"
definition samd21_TC3_INTFLAG :: reg where "samd21_TC3_INTFLAG = R8 0x42002c0e"
definition samd21_TC3_COUNT :: reg where "samd21_TC3_COUNT = R16 0x42002c10"
definition samd21_TC3_CC0 :: reg where "samd21_TC3_CC0 = R16 0x42002c18"
definition samd21_EIC_CTRLA :: reg where "samd21_EIC_CTRLA = R8 0x40001800"
definition samd21_EIC_INTENSET :: reg where "samd21_EIC_INTENSET = R32 0x4000180c"
definition samd21_EIC_INTFLAG :: reg where "samd21_EIC_INTFLAG = R32 0x40001810"
definition samd21_EIC_CONFIG0 :: reg where "samd21_EIC_CONFIG0 = R32 0x40001818"
definition samd21_SERCOM0_CTRLA :: reg where "samd21_SERCOM0_CTRLA = R32 0x42000800"
definition samd21_SERCOM0_CTRLB :: reg where "samd21_SERCOM0_CTRLB = R32 0x42000804"
definition samd21_SERCOM0_STATUS :: reg where "samd21_SERCOM0_STATUS = R16 0x4200081a"
definition samd21_SERCOM0_INTFLAG :: reg where "samd21_SERCOM0_INTFLAG = R8 0x42000818"
definition samd21_SERCOM0_ADDR :: reg where "samd21_SERCOM0_ADDR = R32 0x42000824"
definition samd21_SERCOM0_DATA :: reg where "samd21_SERCOM0_DATA = R16 0x42000828"
definition samd21_SERCOM1_CTRLA :: reg where "samd21_SERCOM1_CTRLA = R32 0x42000c00"
definition samd21_SERCOM1_CTRLB :: reg where "samd21_SERCOM1_CTRLB = R32 0x42000c04"
definition samd21_SERCOM1_DATA :: reg where "samd21_SERCOM1_DATA = R16 0x42000c28"
definition samd21_SERCOM2_CTRLA :: reg where "samd21_SERCOM2_CTRLA = R32 0x42001000"
definition samd21_SERCOM2_CTRLB :: reg where "samd21_SERCOM2_CTRLB = R32 0x42001004"
definition samd21_SERCOM2_DATA :: reg where "samd21_SERCOM2_DATA = R16 0x42001028"
definition samd21_SERCOM3_CTRLA :: reg where "samd21_SERCOM3_CTRLA = R32 0x42001400"
definition samd21_SERCOM3_CTRLB :: reg where "samd21_SERCOM3_CTRLB = R32 0x42001404"
definition samd21_SERCOM3_DATA :: reg where "samd21_SERCOM3_DATA = R16 0x42001428"
definition samd21_TC4_CTRLA :: reg where "samd21_TC4_CTRLA = R16 0x42003000"
definition samd21_TC4_INTENSET :: reg where "samd21_TC4_INTENSET = R8 0x4200300d"
definition samd21_TC4_CC0 :: reg where "samd21_TC4_CC0 = R16 0x42003018"
definition samd21_TC5_CTRLA :: reg where "samd21_TC5_CTRLA = R16 0x42003400"
definition samd21_TC5_INTENSET :: reg where "samd21_TC5_INTENSET = R8 0x4200340d"
definition samd21_TC5_CC0 :: reg where "samd21_TC5_CC0 = R16 0x42003418"
definition samd21_TCC0_CTRLA :: reg where "samd21_TCC0_CTRLA = R32 0x42002000"
definition samd21_TCC0_INTENSET :: reg where "samd21_TCC0_INTENSET = R32 0x42002028"
definition samd21_TCC0_PER :: reg where "samd21_TCC0_PER = R32 0x42002040"
definition samd21_TCC0_CC0 :: reg where "samd21_TCC0_CC0 = R32 0x42002044"
definition samd21_RTC_CTRL :: reg where "samd21_RTC_CTRL = R16 0x40001400"
definition samd21_RTC_INTENSET :: reg where "samd21_RTC_INTENSET = R8 0x40001407"
definition samd21_RTC_COUNT :: reg where "samd21_RTC_COUNT = R32 0x40001410"
definition samd21_RTC_COMP0 :: reg where "samd21_RTC_COMP0 = R32 0x40001418"
definition samd21_DMAC_CTRL :: reg where "samd21_DMAC_CTRL = R16 0x41004800"
definition samd21_DMAC_SWTRIGCTRL :: reg where "samd21_DMAC_SWTRIGCTRL = R32 0x41004810"
definition samd21_DMAC_BASEADDR :: reg where "samd21_DMAC_BASEADDR = R32 0x41004834"
definition samd21_DMAC_WRBADDR :: reg where "samd21_DMAC_WRBADDR = R32 0x41004838"
definition samd21_DMAC_CHID :: reg where "samd21_DMAC_CHID = R8 0x4100483f"
definition samd21_DMAC_CHCTRLA :: reg where "samd21_DMAC_CHCTRLA = R8 0x41004840"
definition samd21_DMAC_CHINTENSET :: reg where "samd21_DMAC_CHINTENSET = R8 0x4100484d"
definition samd21_DMAC_CHINTFLAG :: reg where "samd21_DMAC_CHINTFLAG = R8 0x4100484e"
definition samd21_DMAC_CHSTATUS :: reg where "samd21_DMAC_CHSTATUS = R8 0x4100484f"
definition samd21_I2S_CTRLA :: reg where "samd21_I2S_CTRLA = R8 0x42005000"
definition samd21_I2S_CLKCTRL0 :: reg where "samd21_I2S_CLKCTRL0 = R32 0x42005004"
definition samd21_I2S_INTENSET :: reg where "samd21_I2S_INTENSET = R16 0x42005010"
definition samd21_I2S_INTFLAG :: reg where "samd21_I2S_INTFLAG = R16 0x42005014"
definition samd21_I2S_SYNCBUSY :: reg where "samd21_I2S_SYNCBUSY = R16 0x42005018"
definition samd21_I2S_SERCTRL0 :: reg where "samd21_I2S_SERCTRL0 = R32 0x42005020"
definition samd21_I2S_DATA0 :: reg where "samd21_I2S_DATA0 = R32 0x42005030"
definition samd21_ADC_CTRLA :: reg where "samd21_ADC_CTRLA = R8 0x42004000"
definition samd21_ADC_REFCTRL :: reg where "samd21_ADC_REFCTRL = R8 0x42004001"
definition samd21_ADC_INPUTCTRL :: reg where "samd21_ADC_INPUTCTRL = R32 0x42004010"
definition samd21_ADC_INTENSET :: reg where "samd21_ADC_INTENSET = R8 0x42004017"
definition samd21_ADC_INTFLAG :: reg where "samd21_ADC_INTFLAG = R8 0x42004018"
definition samd21_ADC_RESULT :: reg where "samd21_ADC_RESULT = R16 0x4200401a"
definition samd21_ADC_SWTRIG :: reg where "samd21_ADC_SWTRIG = R8 0x4200400c"
definition samd21_AC_CTRLA :: reg where "samd21_AC_CTRLA = R8 0x42004400"
definition samd21_AC_CTRLB :: reg where "samd21_AC_CTRLB = R8 0x42004401"
definition samd21_AC_STATUSA :: reg where "samd21_AC_STATUSA = R8 0x42004408"
definition samd21_AC_STATUSB :: reg where "samd21_AC_STATUSB = R8 0x42004409"
definition samd21_AC_COMPCTRL0 :: reg where "samd21_AC_COMPCTRL0 = R32 0x42004410"
definition samd21_DAC_CTRLA :: reg where "samd21_DAC_CTRLA = R8 0x42004800"
definition samd21_DAC_CTRLB :: reg where "samd21_DAC_CTRLB = R8 0x42004801"
definition samd21_DAC_DATA :: reg where "samd21_DAC_DATA = R16 0x42004808"
definition samd21_NVIC_ISER0 :: reg where "samd21_NVIC_ISER0 = R32 0xe000e100"

text \<open>The objects of the program that the DMA controller uses, at the addresses the linker gives them.\<close>

record samd21_layout =
  dmac_source :: u32
  dmac_destination :: u32
  dmac_descriptor :: u32
  dmac_writeback :: u32

definition eic_handler :: "hcmd list" where
  "eic_handler = [H_Put samd21_EIC_INTFLAG (shl 1 3)]"

definition tc3_handler :: "hcmd list" where
  "tc3_handler = [H_Put samd21_TC3_INTFLAG (shl 1 4), H_Put samd21_TC3_CTRLA 0, H_Count 0 0xffffffff]"

definition samd21_isr :: "nat \<Rightarrow> hcmd list" where
  "samd21_isr n = (if n = 0 then tc3_handler else if n = 1 then eic_handler else [])"

definition samd21_abi :: "abi \<Rightarrow> cmd list" where
  "samd21_abi A =
     size_checks A 0 @
     [Flag 5 [holds (recursive_sum (12 :: u16) \<noteq> 78)],
      Flag 6 [holds (dividend div 37 \<noteq> 2702)],
      Flag 7 [holds (dividend mod 37 \<noteq> 26)],
      Flag 8 [holds (switch_value (switch_input :: u16) \<noteq> 47)]] @
     record_checks 9"

definition samd21_clocks :: "cmd list" where
  "samd21_clocks =
     [Update samd21_PM_APBCMASK (\<lambda>v. v OR (shl 1 2 OR shl 1 3 OR shl 1 4 OR shl 1 5 OR shl 1 8 OR shl 1 9 OR
        shl 1 10 OR shl 1 11 OR shl 1 12 OR shl 1 13 OR shl 1 16 OR shl 1 17 OR shl 1 18 OR shl 1 20)),
      Update samd21_PM_APBAMASK (\<lambda>v. v OR shl 1 5),
      Put samd21_GCLK_CLKCTRL (shl 0x14 8 OR 0 OR shl 1 14)]"

definition samd21_events :: "cmd list" where
  "samd21_events =
     [Put samd21_EVSYS_CTRL (shl 1 4),
      Put samd21_EVSYS_CHANNEL (2 OR shl 0x36 16 OR shl 1 26),
      Put samd21_EVSYS_USER (0x13 OR shl 3 8),
      Put samd21_EVSYS_INTENSET (shl 1 (8 + 2)),
      Put samd21_EVSYS_CHANNEL_HALF (2 OR shl 1 8),
      Flag 14 [reads samd21_EVSYS_CHANNEL (\<lambda>v. v AND (shl 0x7f 16 OR shl 3 24 OR shl 3 26 OR 0xf) \<noteq>
        2 OR shl 0x36 16 OR shl 1 26)],
      Flag 15 [reads samd21_EVSYS_USER (\<lambda>v. v AND 0x1f \<noteq> 0x13), reads samd21_EVSYS_USER (\<lambda>v. v AND shl 0x1f 8 \<noteq> shl 3 8)],
      Flag 16 [reads samd21_EVSYS_INTFLAG (\<lambda>v. v AND shl 1 (8 + 2) = 0)],
      Put samd21_EVSYS_INTFLAG (shl 1 (8 + 2)),
      Flag 17 [reads samd21_EVSYS_INTFLAG (\<lambda>v. v AND shl 1 (8 + 2) \<noteq> 0)]]"

definition samd21_usb :: "cmd list" where
  "samd21_usb =
     [Put samd21_USB_CTRLA (shl 1 1),
      Put samd21_USB_CTRLB 0,
      Put samd21_USB_DADD 0x85,
      Put samd21_USB_DESCADD 0x20000103,
      Put samd21_USB_EPCFG0 (1 OR shl 1 4),
      Put samd21_USB_EPSTATUSSET0 (shl 1 6 OR shl 1 4),
      Put samd21_USB_EPINTENSET0 (1 OR shl 1 4),
      Put samd21_USB_INTENSET (shl 1 3),
      Flag 18 [reads samd21_USB_CTRLA (\<lambda>v. v \<noteq> shl 1 1), reads samd21_USB_CTRLB (\<lambda>v. v \<noteq> 0), reads samd21_USB_DADD (\<lambda>v. v \<noteq> 0x85),
        reads samd21_USB_STATUS (\<lambda>v. v \<noteq> 0x40), reads samd21_USB_DESCADD (\<lambda>v. v \<noteq> 0x20000103)],
      Flag 19 [reads samd21_USB_EPCFG0 (\<lambda>v. v \<noteq> 1 OR shl 1 4), reads samd21_USB_EPSTATUS0 (\<lambda>v. v \<noteq> shl 1 6 OR shl 1 4),
        reads samd21_USB_EPINTENSET0 (\<lambda>v. v \<noteq> 1 OR shl 1 4), reads samd21_USB_INTENSET (\<lambda>v. v AND shl 1 3 = 0)],
      Put samd21_USB_EPSTATUSCLR0 (shl 1 6),
      Flag 20 [reads samd21_USB_EPSTATUS0 (\<lambda>v. v \<noteq> shl 1 4)]]"

definition samd21_dma :: "samd21_layout \<Rightarrow> cmd list" where
  "samd21_dma L =
     [Put (R16 (dmac_descriptor L)) (shl 1 10 OR shl 1 11 OR shl 1 3 OR 1),
      Put (R16 (dmac_descriptor L + 2)) 4,
      Put (R32 (dmac_descriptor L + 4)) (dmac_source L + 4),
      Put (R32 (dmac_descriptor L + 8)) (dmac_destination L),
      Put (R32 (dmac_descriptor L + 12)) 0,
      Put samd21_DMAC_BASEADDR (dmac_descriptor L),
      Put samd21_DMAC_WRBADDR (dmac_writeback L),
      Put samd21_DMAC_CHID 0,
      Put samd21_DMAC_CHINTENSET (shl 1 1),
      Put samd21_DMAC_CHCTRLA (shl 1 1),
      Put samd21_DMAC_CTRL (shl 1 8 OR shl 1 1),
      Put samd21_DMAC_SWTRIGCTRL 1,
      await samd21_DMAC_CHINTFLAG (\<lambda>v. v AND shl 1 1 \<noteq> 0),
      Flag 21 [reads (R8 (dmac_destination L)) (\<lambda>v. v \<noteq> 0xd4), reads (R8 (dmac_destination L + 1)) (\<lambda>v. v \<noteq> 0xc3),
        reads (R8 (dmac_destination L + 2)) (\<lambda>v. v \<noteq> 0xb2), reads (R8 (dmac_destination L + 3)) (\<lambda>v. v \<noteq> 0xa1)],
      Flag 22 [reads samd21_DMAC_CHSTATUS (\<lambda>v. v AND 0x06 \<noteq> 0)]]"

definition samd21_i2s :: "cmd list" where
  "samd21_i2s =
     [Put samd21_I2S_CLKCTRL0 (shl 1 7 OR shl 1 5 OR shl 1 2 OR 1),
      Put samd21_I2S_SERCTRL0 (shl 4 8 OR 1),
      Put samd21_I2S_CTRLA (shl 1 4 OR shl 1 2 OR shl 1 1),
      Put samd21_I2S_INTENSET (shl 1 8),
      Flag 23 [reads samd21_I2S_SYNCBUSY (\<lambda>v. v \<noteq> 0)],
      Flag 24 [reads samd21_I2S_INTFLAG (\<lambda>v. v AND shl 1 8 = 0)],
      Put samd21_I2S_DATA0 0x12345678,
      Flag 25 [reads samd21_I2S_DATA0 (\<lambda>v. v \<noteq> 0x12345678)],
      Put samd21_I2S_INTFLAG (shl 1 8)]"

definition samd21_console :: "cmd list" where
  "samd21_console =
     [Put samd21_PORT_DIRSET (shl 1 7),
      Put samd21_PORT_OUTSET (shl 1 7),
      Put samd21_EIC_CONFIG0 (shl 1 (3 * 4)),
      Put samd21_EIC_INTENSET (shl 1 3),
      Put samd21_EIC_CTRLA (shl 1 1),
      Put samd21_SERCOM0_CTRLA (shl 1 2 OR 1),
      Put samd21_SERCOM0_CTRLB (shl 1 17),
      Update samd21_SERCOM0_CTRLA (\<lambda>v. v OR shl 1 1)] @
     print_text samd21_SERCOM0_INTFLAG (\<lambda>v. v AND 1 \<noteq> 0) samd21_SERCOM0_DATA (line ''SAMD21'')"

definition samd21_serial :: "cmd list" where
  "samd21_serial =
     [Put samd21_SERCOM0_CTRLA (shl 3 2),
      Put samd21_SERCOM0_CTRLB (shl 1 17),
      Update samd21_SERCOM0_CTRLA (\<lambda>v. v OR shl 1 1),
      Put samd21_SERCOM0_DATA 0x3c,
      await samd21_SERCOM0_INTFLAG (\<lambda>v. v AND shl 1 2 \<noteq> 0),
      Flag 11 [reads samd21_SERCOM0_DATA (\<lambda>v. v \<noteq> 0x3c)],
      Put samd21_SERCOM0_CTRLA (shl 5 2),
      Put samd21_SERCOM0_CTRLB (shl 1 8),
      Update samd21_SERCOM0_CTRLA (\<lambda>v. v OR shl 1 1),
      Put samd21_SERCOM0_ADDR 0xa0,
      Flag 12 [reads samd21_SERCOM0_INTFLAG (\<lambda>v. v AND 1 = 0)],
      Put samd21_SERCOM0_DATA 0x10,
      Put samd21_SERCOM0_CTRLB (shl 2 16),
      Flag 13 [reads samd21_SERCOM0_STATUS (\<lambda>v. v AND shl 3 4 \<noteq> shl 1 4)],
      Put samd21_SERCOM0_CTRLA (shl 1 2),
      Update samd21_SERCOM0_CTRLA (\<lambda>v. v OR shl 1 1)]"

definition samd21_analog :: "cmd list" where
  "samd21_analog =
     [Put samd21_ADC_REFCTRL 0,
      Put samd21_ADC_INPUTCTRL 3,
      Put samd21_ADC_INTENSET 1,
      Put samd21_ADC_CTRLA (shl 1 1),
      Put samd21_ADC_SWTRIG (shl 1 1),
      Flag 26 [reads samd21_ADC_INTFLAG (\<lambda>v. v AND 1 = 0)],
      Flag 27 [reads samd21_ADC_RESULT (\<lambda>v. v \<noteq> 0)],
      Put samd21_ADC_INTFLAG 1,
      Put samd21_AC_CTRLA (shl 1 1),
      Put samd21_AC_COMPCTRL0 (shl 1 5 OR shl 1 1 OR 1),
      Put samd21_AC_CTRLB 1,
      Flag 28 [reads samd21_AC_STATUSB (\<lambda>v. v AND 1 = 0)],
      Flag 29 [reads samd21_AC_STATUSA (\<lambda>v. v AND 1 \<noteq> 0)],
      Put samd21_DAC_CTRLB 1,
      Put samd21_DAC_CTRLA (shl 1 1),
      Put samd21_DAC_DATA 0x2a5]"

definition samd21_ports :: "cmd list" where
  "samd21_ports =
     [Put samd21_SERCOM1_CTRLA (shl 3 2),
      Put samd21_SERCOM1_CTRLB (shl 1 17),
      Update samd21_SERCOM1_CTRLA (\<lambda>v. v OR shl 1 1),
      Put samd21_SERCOM1_DATA 0x51,
      Put samd21_SERCOM2_CTRLA (shl 3 2),
      Put samd21_SERCOM2_CTRLB (shl 1 17),
      Update samd21_SERCOM2_CTRLA (\<lambda>v. v OR shl 1 1),
      Put samd21_SERCOM2_DATA 0x52,
      Put samd21_SERCOM3_CTRLA (shl 3 2),
      Put samd21_SERCOM3_CTRLB (shl 1 17),
      Update samd21_SERCOM3_CTRLA (\<lambda>v. v OR shl 1 1),
      Put samd21_SERCOM3_DATA 0x53,
      Flag 30 [reads samd21_SERCOM1_DATA (\<lambda>v. v \<noteq> 0x51), reads samd21_SERCOM2_DATA (\<lambda>v. v \<noteq> 0x52), reads samd21_SERCOM3_DATA (\<lambda>v. v \<noteq> 0x53)]]"

definition samd21_timers :: "cmd list" where
  "samd21_timers =
     [Put samd21_TC4_CC0 4,
      Put samd21_TC4_INTENSET (shl 1 4),
      Put samd21_TC4_CTRLA (shl 1 1),
      Put samd21_TC5_CC0 5,
      Put samd21_TC5_INTENSET (shl 1 4),
      Put samd21_TC5_CTRLA (shl 1 1),
      Flag 31 [reads samd21_TC4_CC0 (\<lambda>v. v \<noteq> 4), reads samd21_TC5_CC0 (\<lambda>v. v \<noteq> 5)],
      Put samd21_TCC0_PER 31,
      Put samd21_TCC0_CC0 8,
      Put samd21_TCC0_INTENSET (shl 1 16),
      Put samd21_TCC0_CTRLA (shl 1 1),
      Put samd21_RTC_COUNT 0,
      Put samd21_RTC_COMP0 64,
      Put samd21_RTC_INTENSET 1,
      Put samd21_RTC_CTRL (shl 1 1)]"

definition samd21_interrupts :: "cmd list" where
  "samd21_interrupts =
     [Put samd21_TC3_CC0 8,
      Put samd21_TC3_INTENSET (shl 1 4),
      Put samd21_NVIC_ISER0 (shl 1 18),
      Put samd21_TC3_CTRLA (shl 1 1),
      Await_Counts [(0, 1)],
      await samd21_EIC_INTFLAG (\<lambda>v. v AND shl 1 3 \<noteq> 0),
      Fail 2 [reads samd21_PORT_IN (\<lambda>v. v AND shl 1 3 = 0)],
      Put samd21_EIC_INTFLAG (shl 1 3),
      Put samd21_PORT_OUTCLR (shl 1 7)]"

definition samd21_main :: "abi \<Rightarrow> samd21_layout \<Rightarrow> program" where
  "samd21_main A L =
     \<lparr>body = samd21_abi A @ samd21_clocks @ samd21_events @ samd21_usb @ samd21_dma L @ samd21_i2s @
        samd21_console @ samd21_serial @ samd21_analog @ samd21_ports @ samd21_timers @ samd21_interrupts,
      handlers = samd21_isr, exit_register = None\<rparr>"

lemmas samd21_registers = samd21_PM_APBCMASK_def samd21_PM_APBAMASK_def samd21_GCLK_CLKCTRL_def samd21_EVSYS_CTRL_def samd21_EVSYS_CHANNEL_def samd21_EVSYS_CHANNEL_HALF_def samd21_EVSYS_USER_def samd21_EVSYS_INTENSET_def samd21_EVSYS_INTFLAG_def samd21_USB_CTRLA_def samd21_USB_CTRLB_def samd21_USB_DADD_def samd21_USB_STATUS_def samd21_USB_INTENSET_def samd21_USB_DESCADD_def samd21_USB_EPCFG0_def samd21_USB_EPSTATUSCLR0_def samd21_USB_EPSTATUSSET0_def samd21_USB_EPSTATUS0_def samd21_USB_EPINTENSET0_def samd21_PORT_DIRSET_def samd21_PORT_OUTSET_def samd21_PORT_OUTCLR_def samd21_PORT_IN_def samd21_TC3_CTRLA_def samd21_TC3_INTENSET_def samd21_TC3_INTFLAG_def samd21_TC3_COUNT_def samd21_TC3_CC0_def samd21_EIC_CTRLA_def samd21_EIC_INTENSET_def samd21_EIC_INTFLAG_def samd21_EIC_CONFIG0_def samd21_SERCOM0_CTRLA_def samd21_SERCOM0_CTRLB_def samd21_SERCOM0_STATUS_def samd21_SERCOM0_INTFLAG_def samd21_SERCOM0_ADDR_def samd21_SERCOM0_DATA_def samd21_SERCOM1_CTRLA_def samd21_SERCOM1_CTRLB_def samd21_SERCOM1_DATA_def samd21_SERCOM2_CTRLA_def samd21_SERCOM2_CTRLB_def samd21_SERCOM2_DATA_def samd21_SERCOM3_CTRLA_def samd21_SERCOM3_CTRLB_def samd21_SERCOM3_DATA_def samd21_TC4_CTRLA_def samd21_TC4_INTENSET_def samd21_TC4_CC0_def samd21_TC5_CTRLA_def samd21_TC5_INTENSET_def samd21_TC5_CC0_def samd21_TCC0_CTRLA_def samd21_TCC0_INTENSET_def samd21_TCC0_PER_def samd21_TCC0_CC0_def samd21_RTC_CTRL_def samd21_RTC_INTENSET_def samd21_RTC_COUNT_def samd21_RTC_COMP0_def samd21_DMAC_CTRL_def samd21_DMAC_SWTRIGCTRL_def samd21_DMAC_BASEADDR_def samd21_DMAC_WRBADDR_def samd21_DMAC_CHID_def samd21_DMAC_CHCTRLA_def samd21_DMAC_CHINTENSET_def samd21_DMAC_CHINTFLAG_def samd21_DMAC_CHSTATUS_def samd21_I2S_CTRLA_def samd21_I2S_CLKCTRL0_def samd21_I2S_INTENSET_def samd21_I2S_INTFLAG_def samd21_I2S_SYNCBUSY_def samd21_I2S_SERCTRL0_def samd21_I2S_DATA0_def samd21_ADC_CTRLA_def samd21_ADC_REFCTRL_def samd21_ADC_INPUTCTRL_def samd21_ADC_INTENSET_def samd21_ADC_INTFLAG_def samd21_ADC_RESULT_def samd21_ADC_SWTRIG_def samd21_AC_CTRLA_def samd21_AC_CTRLB_def samd21_AC_STATUSA_def samd21_AC_STATUSB_def samd21_AC_COMPCTRL0_def samd21_DAC_CTRLA_def samd21_DAC_CTRLB_def samd21_DAC_DATA_def samd21_NVIC_ISER0_def

subsection \<open>ATSAMD51J19A\<close>

definition samd51_MCLK_APBAMASK :: reg where "samd51_MCLK_APBAMASK = R32 0x40000814"
definition samd51_PORTA_DIRSET :: reg where "samd51_PORTA_DIRSET = R32 0x41008008"
definition samd51_PORTA_OUTCLR :: reg where "samd51_PORTA_OUTCLR = R32 0x41008014"
definition samd51_PORTA_OUTSET :: reg where "samd51_PORTA_OUTSET = R32 0x41008018"
definition samd51_PORTA_IN :: reg where "samd51_PORTA_IN = R32 0x41008020"
definition samd51_SERCOM0_CTRLA :: reg where "samd51_SERCOM0_CTRLA = R32 0x40003000"
definition samd51_SERCOM0_INTFLAG :: reg where "samd51_SERCOM0_INTFLAG = R8 0x40003018"
definition samd51_SERCOM0_DATA :: reg where "samd51_SERCOM0_DATA = R8 0x40003028"
definition samd51_TC0_CTRLA :: reg where "samd51_TC0_CTRLA = R32 0x40003800"
definition samd51_TC0_INTFLAG :: reg where "samd51_TC0_INTFLAG = R8 0x4000380a"
definition samd51_TC0_CC0 :: reg where "samd51_TC0_CC0 = R16 0x4000381c"

definition samd51_uart_write :: "string \<Rightarrow> cmd list" where
  "samd51_uart_write text =
     Put samd51_SERCOM0_CTRLA (shl 1 1) # print_text samd51_SERCOM0_INTFLAG (\<lambda>v. v AND 1 \<noteq> 0) samd51_SERCOM0_DATA text"

definition samd51_main :: program where
  "samd51_main =
     \<lparr>body =
       [Update samd51_MCLK_APBAMASK (\<lambda>v. v OR 1),
        Put samd51_PORTA_DIRSET (shl 1 13),
        Put samd51_PORTA_OUTSET (shl 1 13)] @
       samd51_uart_write (line ''SAMD51J19A'') @
       [Put samd51_TC0_CC0 8,
        Put samd51_TC0_INTFLAG (shl 1 4),
        Put samd51_TC0_CTRLA (shl 1 1),
        await samd51_TC0_INTFLAG (\<lambda>v. v AND shl 1 4 \<noteq> 0),
        Put samd51_TC0_CTRLA 0,
        Flag 0 [reads samd51_PORTA_IN (\<lambda>v. v AND shl 1 3 = 0)],
        Put samd51_PORTA_OUTCLR (shl 1 13)],
      handlers = no_handlers, exit_register = None\<rparr>"

lemmas samd51_registers = samd51_MCLK_APBAMASK_def samd51_PORTA_DIRSET_def samd51_PORTA_OUTCLR_def samd51_PORTA_OUTSET_def samd51_PORTA_IN_def samd51_SERCOM0_CTRLA_def samd51_SERCOM0_INTFLAG_def samd51_SERCOM0_DATA_def samd51_TC0_CTRLA_def samd51_TC0_INTFLAG_def samd51_TC0_CC0_def

subsection \<open>R7FA4M1AB3CFM\<close>

definition ra4m1_SYSTEM_SCKSCR :: reg where "ra4m1_SYSTEM_SCKSCR = R8 0x4001e026"
definition ra4m1_SYSTEM_OSCSF :: reg where "ra4m1_SYSTEM_OSCSF = R8 0x4001e03c"
definition ra4m1_MSTPCRD :: reg where "ra4m1_MSTPCRD = R32 0x40047008"
definition ra4m1_PORT1_PCNTR2 :: reg where "ra4m1_PORT1_PCNTR2 = R32 0x40040024"
definition ra4m1_PORT1_PCNTR3 :: reg where "ra4m1_PORT1_PCNTR3 = R32 0x40040028"
definition ra4m1_P111PFS :: reg where "ra4m1_P111PFS = R32 0x4004086c"
definition ra4m1_ICU_IELSR7 :: reg where "ra4m1_ICU_IELSR7 = R32 0x4000631c"
definition ra4m1_ICU_IELSR8 :: reg where "ra4m1_ICU_IELSR8 = R32 0x40006320"
definition ra4m1_GPT0_GTCR :: reg where "ra4m1_GPT0_GTCR = R32 0x4007802c"
definition ra4m1_GPT0_GTINTAD :: reg where "ra4m1_GPT0_GTINTAD = R32 0x40078038"
definition ra4m1_GPT0_GTST :: reg where "ra4m1_GPT0_GTST = R32 0x4007803c"
definition ra4m1_GPT0_GTPR :: reg where "ra4m1_GPT0_GTPR = R32 0x40078064"
definition ra4m1_SCI9_SCR :: reg where "ra4m1_SCI9_SCR = R8 0x40070122"
definition ra4m1_SCI9_TDR :: reg where "ra4m1_SCI9_TDR = R8 0x40070123"
definition ra4m1_SCI9_SSR :: reg where "ra4m1_SCI9_SSR = R8 0x40070124"
definition ra4m1_NVIC_ISER0 :: reg where "ra4m1_NVIC_ISER0 = R32 0xe000e100"
definition ra4m1_ADC_ADCSR :: reg where "ra4m1_ADC_ADCSR = R16 0x4005c000"
definition ra4m1_ADC_ADREF :: reg where "ra4m1_ADC_ADREF = R8 0x4005c002"
definition ra4m1_ADC_ADANSA0 :: reg where "ra4m1_ADC_ADANSA0 = R16 0x4005c004"
definition ra4m1_ADC_ADDR0 :: reg where "ra4m1_ADC_ADDR0 = R16 0x4005c020"

definition gpt0_handler :: "hcmd list" where
  "gpt0_handler = [H_Put ra4m1_GPT0_GTST 0, H_Put ra4m1_GPT0_GTCR 0, H_Count 0 0xffffffff]"

definition adc_handler :: "hcmd list" where
  "adc_handler = [H_Put ra4m1_ADC_ADREF 0, H_Count 1 0xffffffff]"

definition ra4m1_isr :: "nat \<Rightarrow> hcmd list" where
  "ra4m1_isr n = (if n = 0 then gpt0_handler else if n = 1 then adc_handler else [])"

text \<open>The product of the two floats is a float, so the exact product is what the program converts.\<close>

definition ra4m1_abi :: "abi \<Rightarrow> cmd list" where
  "ra4m1_abi A =
     Flag 0 [holds (\<lfloor>(7 / 4) * 4 :: rat\<rfloor> \<noteq> 7)] # size_checks A 1 @
     [Flag 6 [holds (recursive_sum (12 :: u32) \<noteq> 78)],
      Flag 7 [holds (dividend div 37 \<noteq> 2702)],
      Flag 8 [holds (dividend mod 37 \<noteq> 26)],
      Flag 9 [holds (switch_value (switch_input :: u32) \<noteq> 47)]] @
     record_checks 10"

definition ra4m1_main :: "abi \<Rightarrow> program" where
  "ra4m1_main A =
     \<lparr>body = ra4m1_abi A @
       [Flag 12 [reads ra4m1_SYSTEM_OSCSF (\<lambda>v. v AND 1 = 0)],
        Put ra4m1_SYSTEM_SCKSCR 0,
        Update ra4m1_MSTPCRD (\<lambda>v. v AND NOT (shl 1 5)),
        Put ra4m1_P111PFS (shl 1 2 OR 1),
        Put ra4m1_PORT1_PCNTR3 (shl 1 11),
        Put ra4m1_SCI9_SCR (shl 1 5)] @
       print_text ra4m1_SCI9_SSR (\<lambda>v. v AND 0x80 \<noteq> 0) ra4m1_SCI9_TDR (line ''RA4M1'') @
       [Put ra4m1_ICU_IELSR7 0x05d,
        Put ra4m1_GPT0_GTPR 7,
        Put ra4m1_GPT0_GTINTAD (shl 1 6),
        Put ra4m1_NVIC_ISER0 (shl 1 7),
        Put ra4m1_GPT0_GTCR 1,
        Await_Counts [(0, 1)],
        Put ra4m1_ICU_IELSR8 0x29,
        Put ra4m1_NVIC_ISER0 (shl 1 8),
        Put ra4m1_ADC_ADANSA0 1,
        Put ra4m1_ADC_ADCSR (shl 1 15 OR shl 1 12),
        Await_Counts [(1, 1)],
        Flag 13 [reads ra4m1_ADC_ADDR0 (\<lambda>v. v \<noteq> 0)],
        await ra4m1_PORT1_PCNTR2 (\<lambda>v. v AND shl 1 3 \<noteq> 0),
        Put ra4m1_PORT1_PCNTR3 (shl 1 (11 + 16))],
      handlers = ra4m1_isr, exit_register = None\<rparr>"

lemmas ra4m1_registers = ra4m1_SYSTEM_SCKSCR_def ra4m1_SYSTEM_OSCSF_def ra4m1_MSTPCRD_def ra4m1_PORT1_PCNTR2_def ra4m1_PORT1_PCNTR3_def ra4m1_P111PFS_def ra4m1_ICU_IELSR7_def ra4m1_ICU_IELSR8_def ra4m1_GPT0_GTCR_def ra4m1_GPT0_GTINTAD_def ra4m1_GPT0_GTST_def ra4m1_GPT0_GTPR_def ra4m1_SCI9_SCR_def ra4m1_SCI9_TDR_def ra4m1_SCI9_SSR_def ra4m1_NVIC_ISER0_def ra4m1_ADC_ADCSR_def ra4m1_ADC_ADREF_def ra4m1_ADC_ADANSA0_def ra4m1_ADC_ADDR0_def

subsection \<open>STM32L432KC\<close>

definition l432_RCC_AHB2ENR :: reg where "l432_RCC_AHB2ENR = R32 0x4002104c"
definition l432_RCC_APB1ENR1 :: reg where "l432_RCC_APB1ENR1 = R32 0x40021058"
definition l432_GPIOA_MODER :: reg where "l432_GPIOA_MODER = R32 0x48000000"
definition l432_GPIOA_BSRR :: reg where "l432_GPIOA_BSRR = R32 0x48000018"
definition l432_GPIOA_IDR :: reg where "l432_GPIOA_IDR = R32 0x48000010"
definition l432_TIM2_CR1 :: reg where "l432_TIM2_CR1 = R32 0x40000000"
definition l432_TIM2_DIER :: reg where "l432_TIM2_DIER = R32 0x4000000c"
definition l432_TIM2_SR :: reg where "l432_TIM2_SR = R32 0x40000010"
definition l432_TIM2_ARR :: reg where "l432_TIM2_ARR = R32 0x4000002c"
definition l432_USART2_CR1 :: reg where "l432_USART2_CR1 = R32 0x40004400"
definition l432_USART2_ISR :: reg where "l432_USART2_ISR = R32 0x4000441c"
definition l432_USART2_TDR :: reg where "l432_USART2_TDR = R32 0x40004428"
definition l432_NVIC_ISER0 :: reg where "l432_NVIC_ISER0 = R32 0xe000e100"

definition tim2_handler :: "hcmd list" where
  "tim2_handler = [H_Put l432_TIM2_SR 0, H_Put l432_TIM2_CR1 0, H_Count 0 0xffffffff]"

definition l432_isr :: "nat \<Rightarrow> hcmd list" where
  "l432_isr n = (if n = 0 then tim2_handler else [])"

text \<open>Both products of the floats are floats.\<close>

definition l432_abi :: "abi \<Rightarrow> cmd list" where
  "l432_abi A =
     Flag 0 [holds (\<lfloor>((13 / 4) * 2) * 4 :: rat\<rfloor> \<noteq> 26)] # size_checks A 1 @
     [Flag 6 [holds (recursive_sum (12 :: u32) \<noteq> 78)],
      Flag 7 [holds (dividend div 37 \<noteq> 2702)],
      Flag 8 [holds (dividend mod 37 \<noteq> 26)],
      Flag 9 [holds (switch_value (switch_input :: u32) \<noteq> 47)]] @
     record_checks 10"

definition l432_main :: "abi \<Rightarrow> program" where
  "l432_main A =
     \<lparr>body = l432_abi A @
       [Update l432_RCC_AHB2ENR (\<lambda>v. v OR 1),
        Update l432_RCC_APB1ENR1 (\<lambda>v. v OR (shl 1 0 OR shl 1 17)),
        Update l432_GPIOA_MODER (\<lambda>v. (v AND NOT (shl 3 10 OR shl 3 6)) OR shl 1 10),
        Put l432_GPIOA_BSRR (shl 1 5),
        Put l432_USART2_CR1 (shl 1 0 OR shl 1 3)] @
       print_text l432_USART2_ISR (\<lambda>v. v AND shl 1 7 \<noteq> 0) l432_USART2_TDR (line ''STM32L432'') @
       [Put l432_TIM2_ARR 8,
        Put l432_TIM2_DIER 1,
        Put l432_NVIC_ISER0 (shl 1 28),
        Put l432_TIM2_CR1 1,
        Await_Counts [(0, 1)],
        Flag 12 [reads l432_GPIOA_IDR (\<lambda>v. v AND shl 1 3 = 0)],
        Put l432_GPIOA_BSRR (shl 1 (5 + 16))],
      handlers = l432_isr, exit_register = None\<rparr>"

lemmas l432_registers = l432_RCC_AHB2ENR_def l432_RCC_APB1ENR1_def l432_GPIOA_MODER_def l432_GPIOA_BSRR_def l432_GPIOA_IDR_def l432_TIM2_CR1_def l432_TIM2_DIER_def l432_TIM2_SR_def l432_TIM2_ARR_def l432_USART2_CR1_def l432_USART2_ISR_def l432_USART2_TDR_def l432_NVIC_ISER0_def

subsection \<open>STM32H743ZI\<close>

definition h743_RCC_CR :: reg where "h743_RCC_CR = R32 0x58024400"
definition h743_RCC_AHB1ENR :: reg where "h743_RCC_AHB1ENR = R32 0x580244d8"
definition h743_RCC_AHB4ENR :: reg where "h743_RCC_AHB4ENR = R32 0x580244e0"
definition h743_RCC_APB1LENR :: reg where "h743_RCC_APB1LENR = R32 0x580244e8"
definition h743_FLASH_ACR :: reg where "h743_FLASH_ACR = R32 0x52002000"
definition h743_GPIOA_MODER :: reg where "h743_GPIOA_MODER = R32 0x58020000"
definition h743_GPIOA_IDR :: reg where "h743_GPIOA_IDR = R32 0x58020010"
definition h743_GPIOA_BSRR :: reg where "h743_GPIOA_BSRR = R32 0x58020018"
definition h743_TIM2_CR1 :: reg where "h743_TIM2_CR1 = R32 0x40000000"
definition h743_TIM2_DIER :: reg where "h743_TIM2_DIER = R32 0x4000000c"
definition h743_TIM2_SR :: reg where "h743_TIM2_SR = R32 0x40000010"
definition h743_TIM2_ARR :: reg where "h743_TIM2_ARR = R32 0x4000002c"
definition h743_USART3_CR1 :: reg where "h743_USART3_CR1 = R32 0x40004800"
definition h743_USART3_ISR :: reg where "h743_USART3_ISR = R32 0x4000481c"
definition h743_USART3_TDR :: reg where "h743_USART3_TDR = R32 0x40004828"
definition h743_DMA1_LISR :: reg where "h743_DMA1_LISR = R32 0x40020000"
definition h743_DMA1_LIFCR :: reg where "h743_DMA1_LIFCR = R32 0x40020008"
definition h743_DMA1_S0CR :: reg where "h743_DMA1_S0CR = R32 0x40020010"
definition h743_DMA1_S0NDTR :: reg where "h743_DMA1_S0NDTR = R32 0x40020014"
definition h743_DMA1_S0PAR :: reg where "h743_DMA1_S0PAR = R32 0x40020018"
definition h743_DMA1_S0M0AR :: reg where "h743_DMA1_S0M0AR = R32 0x4002001c"

text \<open>\<open>source\<close> and \<open>destination\<close> point into volatile memory; \<open>destination[i] != source[i]\<close> reads both.\<close>

definition h743_source :: "u32 \<Rightarrow> reg" where "h743_source i = R32 (0x24000000 + 4 * i)"
definition h743_destination :: "u32 \<Rightarrow> reg" where "h743_destination i = R32 (0x24000008 + 4 * i)"

definition h743_main :: program where
  "h743_main =
     \<lparr>body =
       [Flag 0 [reads h743_RCC_CR (\<lambda>v. v AND 3 \<noteq> 3)],
        Update h743_RCC_AHB1ENR (\<lambda>v. v OR 3),
        Update h743_RCC_AHB4ENR (\<lambda>v. v OR 1),
        Update h743_RCC_APB1LENR (\<lambda>v. v OR (shl 1 0 OR shl 1 18)),
        Put h743_FLASH_ACR 3,
        Flag 0 [reads h743_FLASH_ACR (\<lambda>v. v AND 0x3f \<noteq> 3)],
        Update h743_GPIOA_MODER (\<lambda>v. (v AND NOT (shl 3 10 OR shl 3 6)) OR shl 1 10),
        Put h743_GPIOA_BSRR (shl 1 5),
        Put h743_USART3_CR1 (shl 1 0 OR shl 1 3)] @
       print_text h743_USART3_ISR (\<lambda>v. v AND shl 1 7 \<noteq> 0) h743_USART3_TDR (line ''STM32H743'') @
       [Put (h743_source 0) 0x12345678,
        Put (h743_source 1) 0x9abcdef0,
        Put (h743_destination 0) 0,
        Put (h743_destination 1) 0,
        Put h743_DMA1_LIFCR 0x3f,
        Put h743_DMA1_S0PAR 0x24000000,
        Put h743_DMA1_S0M0AR 0x24000008,
        Put h743_DMA1_S0NDTR 2,
        Put h743_DMA1_S0CR (1 OR shl 1 4 OR shl 2 6 OR shl 1 9 OR shl 1 10 OR shl 2 11 OR shl 2 13),
        await h743_DMA1_LISR (\<lambda>v. v AND shl 1 5 \<noteq> 0),
        Flag 0 [([h743_destination 0, h743_source 0], \<lambda>vs. vs ! 0 \<noteq> vs ! 1)],
        Flag 0 [([h743_destination 1, h743_source 1], \<lambda>vs. vs ! 0 \<noteq> vs ! 1)],
        Put h743_TIM2_ARR 8,
        Put h743_TIM2_DIER 1,
        Put h743_TIM2_CR1 1,
        await h743_TIM2_SR (\<lambda>v. v AND 1 \<noteq> 0),
        Put h743_TIM2_CR1 0,
        Flag 0 [reads h743_GPIOA_IDR (\<lambda>v. v AND shl 1 3 = 0)],
        Put h743_GPIOA_BSRR (shl 1 21)],
      handlers = no_handlers, exit_register = None\<rparr>"

lemmas h743_registers = h743_RCC_CR_def h743_RCC_AHB1ENR_def h743_RCC_AHB4ENR_def h743_RCC_APB1LENR_def h743_FLASH_ACR_def h743_GPIOA_MODER_def h743_GPIOA_IDR_def h743_GPIOA_BSRR_def h743_TIM2_CR1_def h743_TIM2_DIER_def h743_TIM2_SR_def h743_TIM2_ARR_def h743_USART3_CR1_def h743_USART3_ISR_def h743_USART3_TDR_def h743_DMA1_LISR_def h743_DMA1_LIFCR_def h743_DMA1_S0CR_def h743_DMA1_S0NDTR_def h743_DMA1_S0PAR_def h743_DMA1_S0M0AR_def

subsection \<open>STM32F103C8\<close>

definition f103_RCC_APB2ENR :: reg where "f103_RCC_APB2ENR = R32 0x40021018"
definition f103_RCC_APB1ENR :: reg where "f103_RCC_APB1ENR = R32 0x4002101c"
definition f103_GPIOA_CRL :: reg where "f103_GPIOA_CRL = R32 0x40010800"
definition f103_GPIOA_IDR :: reg where "f103_GPIOA_IDR = R32 0x40010808"
definition f103_GPIOA_BSRR :: reg where "f103_GPIOA_BSRR = R32 0x40010810"
definition f103_TIM2_CR1 :: reg where "f103_TIM2_CR1 = R32 0x40000000"
definition f103_TIM2_DIER :: reg where "f103_TIM2_DIER = R32 0x4000000c"
definition f103_TIM2_SR :: reg where "f103_TIM2_SR = R32 0x40000010"
definition f103_TIM2_ARR :: reg where "f103_TIM2_ARR = R32 0x4000002c"
definition f103_USART1_SR :: reg where "f103_USART1_SR = R32 0x40013800"
definition f103_USART1_DR :: reg where "f103_USART1_DR = R32 0x40013804"
definition f103_USART1_BRR :: reg where "f103_USART1_BRR = R32 0x40013808"
definition f103_USART1_CR1 :: reg where "f103_USART1_CR1 = R32 0x4001380c"

definition f103_main :: program where
  "f103_main =
     \<lparr>body =
       [Update f103_RCC_APB2ENR (\<lambda>v. v OR (shl 1 0 OR shl 1 2 OR shl 1 14)),
        Update f103_RCC_APB1ENR (\<lambda>v. v OR 1),
        Update f103_GPIOA_CRL (\<lambda>v. (v AND NOT (shl 0xf 20)) OR shl 1 20),
        Put f103_GPIOA_BSRR (shl 1 5),
        Put f103_USART1_BRR 0x271,
        Put f103_USART1_CR1 (shl 1 13 OR shl 1 3)] @
       print_text f103_USART1_SR (\<lambda>v. v AND shl 1 7 \<noteq> 0) f103_USART1_DR (line ''STM32F103'') @
       [Put f103_TIM2_ARR 8,
        Put f103_TIM2_DIER 1,
        Put f103_TIM2_CR1 1,
        await f103_TIM2_SR (\<lambda>v. v AND 1 \<noteq> 0),
        Put f103_TIM2_CR1 0,
        Flag 0 [reads f103_GPIOA_IDR (\<lambda>v. v AND shl 1 3 = 0)],
        Put f103_GPIOA_BSRR (shl 1 21)],
      handlers = no_handlers, exit_register = None\<rparr>"

lemmas f103_registers = f103_RCC_APB2ENR_def f103_RCC_APB1ENR_def f103_GPIOA_CRL_def f103_GPIOA_IDR_def f103_GPIOA_BSRR_def f103_TIM2_CR1_def f103_TIM2_DIER_def f103_TIM2_SR_def f103_TIM2_ARR_def f103_USART1_SR_def f103_USART1_DR_def f103_USART1_BRR_def f103_USART1_CR1_def

subsection \<open>STM32F411RE\<close>

definition f411_RCC_AHB1ENR :: reg where "f411_RCC_AHB1ENR = R32 0x40023830"
definition f411_RCC_APB1ENR :: reg where "f411_RCC_APB1ENR = R32 0x40023840"
definition f411_GPIOA_MODER :: reg where "f411_GPIOA_MODER = R32 0x40020000"
definition f411_GPIOA_IDR :: reg where "f411_GPIOA_IDR = R32 0x40020010"
definition f411_GPIOA_BSRR :: reg where "f411_GPIOA_BSRR = R32 0x40020018"
definition f411_TIM2_CR1 :: reg where "f411_TIM2_CR1 = R32 0x40000000"
definition f411_TIM2_DIER :: reg where "f411_TIM2_DIER = R32 0x4000000c"
definition f411_TIM2_SR :: reg where "f411_TIM2_SR = R32 0x40000010"
definition f411_TIM2_ARR :: reg where "f411_TIM2_ARR = R32 0x4000002c"
definition f411_USART2_SR :: reg where "f411_USART2_SR = R32 0x40004400"
definition f411_USART2_DR :: reg where "f411_USART2_DR = R32 0x40004404"
definition f411_USART2_CR1 :: reg where "f411_USART2_CR1 = R32 0x4000440c"

definition f411_main :: program where
  "f411_main =
     \<lparr>body =
       [Update f411_RCC_AHB1ENR (\<lambda>v. v OR 1),
        Update f411_RCC_APB1ENR (\<lambda>v. v OR (shl 1 0 OR shl 1 17)),
        Update f411_GPIOA_MODER (\<lambda>v. (v AND NOT (shl 3 10 OR shl 3 6)) OR shl 1 10),
        Put f411_GPIOA_BSRR (shl 1 5),
        Put f411_USART2_CR1 (shl 1 13 OR shl 1 3)] @
       print_text f411_USART2_SR (\<lambda>v. v AND shl 1 7 \<noteq> 0) f411_USART2_DR (line ''STM32F411'') @
       [Put f411_TIM2_ARR 8,
        Put f411_TIM2_DIER 1,
        Put f411_TIM2_CR1 1,
        await f411_TIM2_SR (\<lambda>v. v AND 1 \<noteq> 0),
        Put f411_TIM2_CR1 0,
        Flag 0 [reads f411_GPIOA_IDR (\<lambda>v. v AND shl 1 3 = 0)],
        Put f411_GPIOA_BSRR (shl 1 21)],
      handlers = no_handlers, exit_register = None\<rparr>"

lemmas f411_registers = f411_RCC_AHB1ENR_def f411_RCC_APB1ENR_def f411_GPIOA_MODER_def f411_GPIOA_IDR_def f411_GPIOA_BSRR_def f411_TIM2_CR1_def f411_TIM2_DIER_def f411_TIM2_SR_def f411_TIM2_ARR_def f411_USART2_SR_def f411_USART2_DR_def f411_USART2_CR1_def

subsection \<open>nRF52840\<close>

definition nrf_P0_OUTSET :: reg where "nrf_P0_OUTSET = R32 0x50000508"
definition nrf_P0_OUTCLR :: reg where "nrf_P0_OUTCLR = R32 0x5000050c"
definition nrf_P0_IN :: reg where "nrf_P0_IN = R32 0x50000510"
definition nrf_P0_DIRSET :: reg where "nrf_P0_DIRSET = R32 0x50000518"
definition nrf_UART_STARTTX :: reg where "nrf_UART_STARTTX = R32 0x40002008"
definition nrf_UART_EVENT_TXDRDY :: reg where "nrf_UART_EVENT_TXDRDY = R32 0x4000211c"
definition nrf_UART_ENABLE :: reg where "nrf_UART_ENABLE = R32 0x40002500"
definition nrf_UART_TXD :: reg where "nrf_UART_TXD = R32 0x4000251c"
definition nrf_TIMER_START :: reg where "nrf_TIMER_START = R32 0x40008000"
definition nrf_TIMER_EVENT_COMPARE0 :: reg where "nrf_TIMER_EVENT_COMPARE0 = R32 0x40008140"
definition nrf_TIMER_CC0 :: reg where "nrf_TIMER_CC0 = R32 0x40008540"

definition nrf_uart_write :: "string \<Rightarrow> cmd list" where
  "nrf_uart_write text =
     [Put nrf_UART_ENABLE 4, Put nrf_UART_STARTTX 1] @
     concat (map (\<lambda>c. [Put nrf_UART_EVENT_TXDRDY 0, Put nrf_UART_TXD (of_char c), await nrf_UART_EVENT_TXDRDY (\<lambda>v. v \<noteq> 0)]) text)"

definition nrf_main :: program where
  "nrf_main =
     \<lparr>body =
       [Put nrf_P0_DIRSET (shl 1 13),
        Put nrf_P0_OUTSET (shl 1 13)] @
       nrf_uart_write (line ''NRF52840'') @
       [Put nrf_TIMER_CC0 8,
        Put nrf_TIMER_EVENT_COMPARE0 0,
        Put nrf_TIMER_START 1,
        await nrf_TIMER_EVENT_COMPARE0 (\<lambda>v. v \<noteq> 0),
        Flag 0 [reads nrf_P0_IN (\<lambda>v. v AND shl 1 3 = 0)],
        Put nrf_P0_OUTCLR (shl 1 13)],
      handlers = no_handlers, exit_register = None\<rparr>"

lemmas nrf_registers = nrf_P0_OUTSET_def nrf_P0_OUTCLR_def nrf_P0_IN_def nrf_P0_DIRSET_def nrf_UART_STARTTX_def nrf_UART_EVENT_TXDRDY_def nrf_UART_ENABLE_def nrf_UART_TXD_def nrf_TIMER_START_def nrf_TIMER_EVENT_COMPARE0_def nrf_TIMER_CC0_def

subsection \<open>EFM8BB52F32G\<close>

definition efm8_P0 :: reg where "efm8_P0 = R8 0x80"
definition efm8_TCON :: reg where "efm8_TCON = R8 0x88"
definition efm8_TMOD :: reg where "efm8_TMOD = R8 0x89"
definition efm8_TL0 :: reg where "efm8_TL0 = R8 0x8a"
definition efm8_TH0 :: reg where "efm8_TH0 = R8 0x8c"
definition efm8_WDTCN :: reg where "efm8_WDTCN = R8 0x97"
definition efm8_SCON0 :: reg where "efm8_SCON0 = R8 0x98"
definition efm8_SBUF0 :: reg where "efm8_SBUF0 = R8 0x99"
definition efm8_P0MDOUT :: reg where "efm8_P0MDOUT = R8 0xa4"
definition efm8_SFRPAGE :: reg where "efm8_SFRPAGE = R8 0xa7"
definition efm8_IE :: reg where "efm8_IE = R8 0xa8"
definition efm8_XBR0 :: reg where "efm8_XBR0 = R8 0xe1"
definition efm8_XBR2 :: reg where "efm8_XBR2 = R8 0xe3"

function recursive_count :: "u8 \<Rightarrow> u8" where
  "recursive_count v = (if v = 0 then 0 else recursive_count (v - 1) + 1)"
  by pat_completeness auto
termination
  by (relation "measure unat") (simp_all add: unat_minus_one unat_gt_0)

declare recursive_count.simps [simp del]

definition switch_lane :: "u8 \<Rightarrow> u16" where
  "switch_lane s =
     (if s = 0 then 0x0101 else if s = 1 then 0x1212 else if s = 2 then 0x2323 else if s = 3 then 0x3434
      else if s = 4 then 0x4545 else if s = 5 then 0x5656 else if s = 6 then 0x6767 else if s = 7 then 0x7878
      else 0xaaaa)"

definition rotate_left_32 :: "u32 \<Rightarrow> u8 \<Rightarrow> u32" where
  "rotate_left_32 v count =
     (let count = count AND 31
      in shl v (unat count) OR shr v ((32 - unat count) mod 32))"

definition expect :: "bool \<Rightarrow> nat \<Rightarrow> cmd" where
  "expect condition k = Flag k [holds (\<not> condition)]"

record record_t =
  rt_tag :: u8
  rt_value :: u16
  rt_tail :: u8

definition efm8_record :: record_t where
  "efm8_record = \<lparr>rt_tag = 0xa5, rt_value = 0x5aa5, rt_tail = 0x3c\<rparr>"

definition MODE_LARGE :: u16 where "MODE_LARGE = 257"

definition efm8_cells :: "u8 list" where
  "efm8_cells = fold (\<lambda>i cells. cells[i := of_nat (i * 17 + 3)]) [0..<8] (replicate 8 0)"

text \<open>\<open>int\<close> has 16 bits here, so the arithmetic on \<open>uint16_t\<close> is at that width.\<close>

definition efm8_checks :: "abi \<Rightarrow> cmd list" where
  "efm8_checks A =
     [expect ((250 :: u8) + 17 = 11) 0,
      expect ((0x1234 :: u16) * 3 = 0x369c) 1,
      expect ((0x369c :: u16) div 7 = 0x07cd) 2,
      expect ((0x369c :: u16) mod 7 = 1) 3,
      expect (rotate_left_32 0x12345678 7 = 0x1a2b3c09) 4,
      expect ((0x12345678 :: u32) div 37 = 0x007df47f) 5,
      expect ((0x12345678 :: u32) mod 37 = 29) 6,
      expect (recursive_count 8 = 8) 7,
      expect (switch_lane 6 = 0x6767) 8,
      expect (size_char A = 1) 9,
      expect (size_int A = 2) 10,
      expect (size_long A = 4) 11,
      expect (size_pointer A = 3) 12,
      expect (rt_tag efm8_record = 0xa5 \<and> rt_value efm8_record = 0x5aa5 \<and> rt_tail efm8_record = 0x3c) 13,
      expect (MODE_LARGE = 257) 14,
      expect (efm8_cells ! 0 = 3 \<and> efm8_cells ! 7 = 122) 15]"

definition efm8_uart_flush :: "cmd list" where
  "efm8_uart_flush = [await efm8_SCON0 (\<lambda>v. v AND 0x02 \<noteq> 0), Update efm8_SCON0 (\<lambda>v. v AND NOT 0x02)]"

definition efm8_uart_write :: "u32 \<Rightarrow> cmd list" where
  "efm8_uart_write v = Put efm8_SBUF0 v # efm8_uart_flush"

definition efm8_uart_text :: "string \<Rightarrow> cmd list" where
  "efm8_uart_text text = concat (map (\<lambda>c. efm8_uart_write (of_char c)) text)"

definition timer0_isr :: "hcmd list" where
  "timer0_isr = [H_Update efm8_TCON (\<lambda>v. v AND NOT 0x20), H_Update efm8_P0 (\<lambda>v. v XOR 0x01), H_Count 0 0xff]"

definition efm8_isr :: "nat \<Rightarrow> hcmd list" where
  "efm8_isr n = (if n = 1 then timer0_isr else [])"

text \<open>\<open>main\<close> does not return: it ends in an empty loop, with the failures in \<open>failure_mask\<close>.\<close>

definition efm8_main :: "abi \<Rightarrow> program" where
  "efm8_main A =
     \<lparr>body =
       [Put efm8_WDTCN 0xde,
        Put efm8_WDTCN 0xad] @
       efm8_checks A @
       [Put efm8_SFRPAGE 0,
        Put efm8_P0 0x02,
        Put efm8_P0MDOUT 0x01,
        Put efm8_XBR0 0x01,
        Put efm8_XBR2 0x40,
        Put efm8_SCON0 0,
        Flag 15 [reads efm8_P0 (\<lambda>v. v AND 0x02 = 0)]] @
       efm8_uart_text ''EFM8BB52:'' @
       Report efm8_SBUF0 (\<lambda>f. if f = 0 then of_char CHR ''O'' else of_char CHR ''F'') # efm8_uart_flush @
       Report efm8_SBUF0 (\<lambda>f. if f = 0 then of_char CHR ''K'' else f AND 0xff) # efm8_uart_flush @
       efm8_uart_write 0x0a @
       [Put efm8_TMOD 0x02,
        Put efm8_TH0 0xc0,
        Put efm8_TL0 0xc0,
        Put efm8_TCON 0x10,
        Put efm8_IE 0x82,
        Await_Counts [(0, 4)],
        Put efm8_TCON 0] @
       efm8_uart_text (line ''IRQ''),
      handlers = efm8_isr, exit_register = None\<rparr>"

lemmas efm8_registers = efm8_P0_def efm8_TCON_def efm8_TMOD_def efm8_TL0_def efm8_TH0_def efm8_WDTCN_def efm8_SCON0_def efm8_SBUF0_def efm8_P0MDOUT_def efm8_SFRPAGE_def efm8_IE_def efm8_XBR0_def efm8_XBR2_def

subsection \<open>CH32V003: GPIO\<close>

definition wch_gpio_RCC_APB2PCENR :: reg where "wch_gpio_RCC_APB2PCENR = R32 0x40021018"
definition wch_gpio_GPIOC_CFGLR :: reg where "wch_gpio_GPIOC_CFGLR = R32 0x40011000"
definition wch_gpio_GPIOC_BSHR :: reg where "wch_gpio_GPIOC_BSHR = R32 0x40011010"

definition wch_gpio_main :: program where
  "wch_gpio_main =
     \<lparr>body =
       [Update wch_gpio_RCC_APB2PCENR (\<lambda>v. v OR shl 1 4),
        Update wch_gpio_GPIOC_CFGLR (\<lambda>v. (v AND NOT (shl 0xf 4)) OR shl 1 4),
        Put wch_gpio_GPIOC_BSHR (shl 1 1)],
      handlers = no_handlers, exit_register = None\<rparr>"

lemmas wch_gpio_registers = wch_gpio_RCC_APB2PCENR_def wch_gpio_GPIOC_CFGLR_def wch_gpio_GPIOC_BSHR_def

subsection \<open>CH32V003: first serial port\<close>

definition wch_uart_RCC_APB2PCENR :: reg where "wch_uart_RCC_APB2PCENR = R32 0x40021018"
definition wch_uart_USART1_STATR :: reg where "wch_uart_USART1_STATR = R32 0x40013800"
definition wch_uart_USART1_DATAR :: reg where "wch_uart_USART1_DATAR = R32 0x40013804"
definition wch_uart_USART1_BRR :: reg where "wch_uart_USART1_BRR = R32 0x40013808"
definition wch_uart_USART1_CTLR1 :: reg where "wch_uart_USART1_CTLR1 = R32 0x4001380c"

definition wch_uart_main :: program where
  "wch_uart_main =
     \<lparr>body =
       [Update wch_uart_RCC_APB2PCENR (\<lambda>v. v OR shl 1 14),
        Put wch_uart_USART1_BRR 0x01a1,
        Put wch_uart_USART1_CTLR1 (shl 1 13 OR shl 1 3)] @
       print_text wch_uart_USART1_STATR (\<lambda>v. v AND shl 1 7 \<noteq> 0) wch_uart_USART1_DATAR (line ''REMU-WCH''),
      handlers = no_handlers, exit_register = None\<rparr>"

lemmas wch_uart_registers = wch_uart_RCC_APB2PCENR_def wch_uart_USART1_STATR_def wch_uart_USART1_DATAR_def wch_uart_USART1_BRR_def wch_uart_USART1_CTLR1_def

subsection \<open>CH32: second serial port\<close>

definition wch_uart2_RCC_APB2PCENR :: reg where "wch_uart2_RCC_APB2PCENR = R32 0x40021018"
definition wch_uart2_USART2_STATR :: reg where "wch_uart2_USART2_STATR = R32 0x40004400"
definition wch_uart2_USART2_DATAR :: reg where "wch_uart2_USART2_DATAR = R32 0x40004404"
definition wch_uart2_USART2_BRR :: reg where "wch_uart2_USART2_BRR = R32 0x40004408"
definition wch_uart2_USART2_CTLR1 :: reg where "wch_uart2_USART2_CTLR1 = R32 0x4000440c"

definition wch_uart2_main :: program where
  "wch_uart2_main =
     \<lparr>body =
       [Update wch_uart2_RCC_APB2PCENR (\<lambda>v. v OR shl 1 13),
        Put wch_uart2_USART2_BRR 0x01a1,
        Put wch_uart2_USART2_CTLR1 (shl 1 13 OR shl 1 3)] @
       print_text wch_uart2_USART2_STATR (\<lambda>v. v AND shl 1 7 \<noteq> 0) wch_uart2_USART2_DATAR (line ''REMU-WCH2''),
      handlers = no_handlers, exit_register = None\<rparr>"

lemmas wch_uart2_registers = wch_uart2_RCC_APB2PCENR_def wch_uart2_USART2_STATR_def wch_uart2_USART2_DATAR_def wch_uart2_USART2_BRR_def wch_uart2_USART2_CTLR1_def

subsection \<open>CH32: touch key\<close>

definition wch_touch_ADC_STATR :: reg where "wch_touch_ADC_STATR = R32 0x40012400"
definition wch_touch_ADC_CTLR1 :: reg where "wch_touch_ADC_CTLR1 = R32 0x40012404"
definition wch_touch_ADC_CTLR2 :: reg where "wch_touch_ADC_CTLR2 = R32 0x40012408"
definition wch_touch_ADC_RSQR3 :: reg where "wch_touch_ADC_RSQR3 = R32 0x40012434"
definition wch_touch_TKEY_CHG :: reg where "wch_touch_TKEY_CHG = R32 0x4001243c"
definition wch_touch_TKEY_DISCHG :: reg where "wch_touch_TKEY_DISCHG = R32 0x4001244c"
definition wch_touch_TKEY_DR :: reg where "wch_touch_TKEY_DR = R32 0x4001244c"

definition wch_touch_main :: program where
  "wch_touch_main =
     \<lparr>body =
       [Put wch_touch_ADC_CTLR2 1,
        Put wch_touch_ADC_CTLR1 (shl 1 24),
        Put wch_touch_ADC_RSQR3 3,
        Put wch_touch_TKEY_CHG 4,
        Put wch_touch_TKEY_DISCHG 5,
        await wch_touch_ADC_STATR (\<lambda>v. v AND shl 1 1 \<noteq> 0),
        Fail 1 [reads wch_touch_TKEY_DR (\<lambda>v. v \<noteq> 0x0800)]],
      handlers = no_handlers, exit_register = None\<rparr>"

lemmas wch_touch_registers = wch_touch_ADC_STATR_def wch_touch_ADC_CTLR1_def wch_touch_ADC_CTLR2_def wch_touch_ADC_RSQR3_def wch_touch_TKEY_CHG_def wch_touch_TKEY_DISCHG_def wch_touch_TKEY_DR_def

end
