(* ===== verification/Smoke_Rp.thy ===== *)
theory Smoke_Rp
  imports Smoke_Mcu
begin

text \<open>
  The smoke programs of the Raspberry Pi microcontrollers (\<^verbatim>\<open>corpus/smoke/rp*\<close>): GPIO and the two
  processors' interrupt banks, serial ports, SPI and I2C controllers, the PIO block and the USB device.
\<close>

section \<open>Serial ports and GPIO\<close>

subsection \<open>SIO outputs\<close>

definition rp_sio_SIO_GPIO_OUT_SET :: reg where "rp_sio_SIO_GPIO_OUT_SET = R32 0xd0000014"
definition rp_sio_SIO_GPIO_OE_SET :: reg where "rp_sio_SIO_GPIO_OE_SET = R32 0xd0000024"

definition rp_sio_main :: program where
  "rp_sio_main =
     \<lparr>body = [Put rp_sio_SIO_GPIO_OE_SET (shl 1 25), Put rp_sio_SIO_GPIO_OUT_SET (shl 1 25)],
      handlers = no_handlers, exit_register = None\<rparr>"

lemmas rp_sio_registers = rp_sio_SIO_GPIO_OUT_SET_def rp_sio_SIO_GPIO_OE_SET_def

subsection \<open>Serial port\<close>

text \<open>The base address is a macro of the build; the RISC-V build defaults to \<open>0x40070000\<close>.\<close>

definition rp_UART_DR :: "u32 \<Rightarrow> reg" where "rp_UART_DR base = R32 (base + 0x00)"
definition rp_UART_FR :: "u32 \<Rightarrow> reg" where "rp_UART_FR base = R32 (base + 0x18)"
definition rp_UART_CR :: "u32 \<Rightarrow> reg" where "rp_UART_CR base = R32 (base + 0x30)"

definition rp_uart_main :: "u32 \<Rightarrow> program" where
  "rp_uart_main base =
     \<lparr>body =
       Put (rp_UART_CR base) (shl 1 8 OR 1) #
       print_text (rp_UART_FR base) (\<lambda>v. v AND shl 1 5 = 0) (rp_UART_DR base) (line ''REMU-RP''),
      handlers = no_handlers, exit_register = None\<rparr>"

definition rp_riscv_uart_main :: program where
  "rp_riscv_uart_main = rp_uart_main 0x40070000"

subsection \<open>IO bank of the RP2350 (Arm)\<close>

definition rp_io_SIO_GPIO_OUT_SET :: reg where "rp_io_SIO_GPIO_OUT_SET = R32 0xd0000018"
definition rp_io_SIO_GPIO_OE_SET :: reg where "rp_io_SIO_GPIO_OE_SET = R32 0xd0000038"
definition rp_io_GPIO0_STATUS :: reg where "rp_io_GPIO0_STATUS = R32 0x40028000"
definition rp_io_GPIO0_CTRL :: reg where "rp_io_GPIO0_CTRL = R32 0x40028004"
definition rp_io_INTR0 :: reg where "rp_io_INTR0 = R32 0x40028230"
definition rp_io_PROC1_INTE0 :: reg where "rp_io_PROC1_INTE0 = R32 0x40028290"
definition rp_io_PROC1_INTF0 :: reg where "rp_io_PROC1_INTF0 = R32 0x400282a8"
definition rp_io_PROC1_INTS0 :: reg where "rp_io_PROC1_INTS0 = R32 0x400282c0"

definition rp_io_main :: program where
  "rp_io_main =
     (let event = shl 1 3 in
      \<lparr>body =
        [Put rp_io_SIO_GPIO_OE_SET 1,
         Put rp_io_SIO_GPIO_OUT_SET 1,
         Put rp_io_GPIO0_CTRL (shl 3 28 OR shl 3 16 OR shl 3 14 OR shl 3 12 OR 5),
         Fail 1 [reads rp_io_GPIO0_CTRL (\<lambda>v. v \<noteq> 0x3003f005)],
         Fail 2 [reads rp_io_GPIO0_STATUS (\<lambda>v. v AND (shl 1 9 OR shl 1 13) \<noteq> shl 1 9 OR shl 1 13)],
         Put rp_io_INTR0 event,
         Put rp_io_PROC1_INTE0 event,
         Put rp_io_PROC1_INTF0 event,
         Fail 3 [reads rp_io_PROC1_INTS0 (\<lambda>v. v AND event = 0)],
         Put rp_io_PROC1_INTF0 0,
         Fail 4 [reads rp_io_PROC1_INTS0 (\<lambda>v. v AND event \<noteq> 0)]],
       handlers = no_handlers, exit_register = None\<rparr>)"

lemmas rp_io_registers = rp_io_SIO_GPIO_OUT_SET_def rp_io_SIO_GPIO_OE_SET_def rp_io_GPIO0_STATUS_def rp_io_GPIO0_CTRL_def rp_io_INTR0_def rp_io_PROC1_INTE0_def rp_io_PROC1_INTF0_def rp_io_PROC1_INTS0_def

subsection \<open>IO bank of the RP2350 (RISC-V)\<close>

definition rp_riscv_io_SIO_GPIO_OUT_SET :: reg where "rp_riscv_io_SIO_GPIO_OUT_SET = R32 0xd0000018"
definition rp_riscv_io_SIO_GPIO_OE_SET :: reg where "rp_riscv_io_SIO_GPIO_OE_SET = R32 0xd0000038"
definition rp_riscv_io_GPIO0_STATUS :: reg where "rp_riscv_io_GPIO0_STATUS = R32 0x40028000"
definition rp_riscv_io_GPIO0_CTRL :: reg where "rp_riscv_io_GPIO0_CTRL = R32 0x40028004"
definition rp_riscv_io_INTR0 :: reg where "rp_riscv_io_INTR0 = R32 0x40028230"
definition rp_riscv_io_PROC1_INTE0 :: reg where "rp_riscv_io_PROC1_INTE0 = R32 0x40028290"
definition rp_riscv_io_PROC1_INTF0 :: reg where "rp_riscv_io_PROC1_INTF0 = R32 0x400282a8"
definition rp_riscv_io_PROC1_INTS0 :: reg where "rp_riscv_io_PROC1_INTS0 = R32 0x400282c0"

definition rp_riscv_io_main :: program where
  "rp_riscv_io_main =
     (let event = shl 1 3 in
      \<lparr>body =
        [Put rp_riscv_io_SIO_GPIO_OE_SET 1,
         Put rp_riscv_io_SIO_GPIO_OUT_SET 1,
         Put rp_riscv_io_GPIO0_CTRL (shl 3 28 OR shl 3 16 OR shl 3 14 OR shl 3 12 OR 5),
         Fail 1 [reads rp_riscv_io_GPIO0_CTRL (\<lambda>v. v \<noteq> 0x3003f005)],
         Fail 2 [reads rp_riscv_io_GPIO0_STATUS (\<lambda>v. v AND (shl 1 9 OR shl 1 13) \<noteq> shl 1 9 OR shl 1 13)],
         Put rp_riscv_io_INTR0 event,
         Put rp_riscv_io_PROC1_INTE0 event,
         Put rp_riscv_io_PROC1_INTF0 event,
         Fail 3 [reads rp_riscv_io_PROC1_INTS0 (\<lambda>v. v AND event = 0)],
         Put rp_riscv_io_PROC1_INTF0 0,
         Fail 4 [reads rp_riscv_io_PROC1_INTS0 (\<lambda>v. v AND event \<noteq> 0)]],
       handlers = no_handlers, exit_register = None\<rparr>)"

lemmas rp_riscv_io_registers = rp_riscv_io_SIO_GPIO_OUT_SET_def rp_riscv_io_SIO_GPIO_OE_SET_def rp_riscv_io_GPIO0_STATUS_def rp_riscv_io_GPIO0_CTRL_def rp_riscv_io_INTR0_def rp_riscv_io_PROC1_INTE0_def rp_riscv_io_PROC1_INTF0_def rp_riscv_io_PROC1_INTS0_def

subsection \<open>IO bank of the RP2040\<close>

definition rp2040_io_SIO_GPIO_OUT_SET :: reg where "rp2040_io_SIO_GPIO_OUT_SET = R32 0xd0000014"
definition rp2040_io_SIO_GPIO_OE_SET :: reg where "rp2040_io_SIO_GPIO_OE_SET = R32 0xd0000024"
definition rp2040_io_GPIO0_STATUS :: reg where "rp2040_io_GPIO0_STATUS = R32 0x40014000"
definition rp2040_io_GPIO0_CTRL :: reg where "rp2040_io_GPIO0_CTRL = R32 0x40014004"
definition rp2040_io_PROC0_INTE0 :: reg where "rp2040_io_PROC0_INTE0 = R32 0x40014100"
definition rp2040_io_PROC0_INTF0 :: reg where "rp2040_io_PROC0_INTF0 = R32 0x40014110"
definition rp2040_io_PROC0_INTS0 :: reg where "rp2040_io_PROC0_INTS0 = R32 0x40014120"

definition rp2040_io_main :: program where
  "rp2040_io_main =
     (let event = shl 1 3; output_status = shl 1 15 OR shl 1 13 OR shl 1 9 OR shl 1 8 in
      \<lparr>body =
        [Put rp2040_io_SIO_GPIO_OE_SET 1,
         Put rp2040_io_SIO_GPIO_OUT_SET 1,
         Put rp2040_io_GPIO0_CTRL 5,
         Fail 1 [reads rp2040_io_GPIO0_CTRL (\<lambda>v. v \<noteq> 5)],
         Fail 2 [reads rp2040_io_GPIO0_STATUS (\<lambda>v. v AND output_status \<noteq> output_status)],
         Put rp2040_io_PROC0_INTE0 event,
         Put rp2040_io_PROC0_INTF0 event,
         Fail 3 [reads rp2040_io_PROC0_INTS0 (\<lambda>v. v AND event = 0)],
         Put rp2040_io_PROC0_INTF0 0,
         Fail 4 [reads rp2040_io_PROC0_INTS0 (\<lambda>v. v AND event \<noteq> 0)]],
       handlers = no_handlers, exit_register = None\<rparr>)"

lemmas rp2040_io_registers = rp2040_io_SIO_GPIO_OUT_SET_def rp2040_io_SIO_GPIO_OE_SET_def rp2040_io_GPIO0_STATUS_def rp2040_io_GPIO0_CTRL_def rp2040_io_PROC0_INTE0_def rp2040_io_PROC0_INTF0_def rp2040_io_PROC0_INTS0_def

subsection \<open>PIO\<close>

text \<open>The delay loop between enabling and disabling the state machine touches no register.\<close>

definition PIO_REG :: "u32 \<Rightarrow> reg" where "PIO_REG offset = R32 (0x50200000 + offset)"

definition rp_pio_main :: program where
  "rp_pio_main =
     \<lparr>body =
       [Put (PIO_REG 0x048) 0xe001,
        Put (PIO_REG 0x04c) 0xe000,
        Put (PIO_REG 0x0cc) (shl 1 12),
        Put (PIO_REG 0x0dc) (shl 1 26 OR shl 25 5),
        Put (PIO_REG 0x000) 1,
        Put (PIO_REG 0x000) 0],
      handlers = no_handlers, exit_register = None\<rparr>"

definition rp_riscv_pio_main :: program where
  "rp_riscv_pio_main = rp_pio_main"

section \<open>Controllers\<close>

subsection \<open>SPI of the RP2040\<close>

definition rp2040_check_spi :: "u32 \<Rightarrow> u32 \<Rightarrow> cmd list" where
  "rp2040_check_spi base expected =
     [Put (R32 (base + 0x00)) 7,
      Put (R32 (base + 0x10)) 1,
      Put (R32 (base + 0x08)) 1,
      Fail 1 [reads (R32 (base + 0x28)) (\<lambda>v. v AND (shl 1 2 OR shl 1 1) \<noteq> shl 1 2 OR shl 1 1)],
      Put (R32 (base + 0x2c)) (shl 1 4),
      Put (R32 (base + 0x60)) expected,
      Fail 2 [reads (R32 (base + 0x24)) (\<lambda>v. v AND 0xff \<noteq> 1)],
      Fail 3 [reads (R32 (base + 0x28)) (\<lambda>v. v AND shl 1 3 = 0)],
      Fail 4 [reads (R32 (base + 0x30)) (\<lambda>v. v AND shl 1 4 = 0)],
      Fail 5 [reads (R32 (base + 0x60)) (\<lambda>v. v \<noteq> expected)]]"

definition rp2040_spi_main :: program where
  "rp2040_spi_main =
     \<lparr>body = rp2040_check_spi 0x4003c000 0x5a @ rp2040_check_spi 0x40040000 0xa5,
      handlers = no_handlers, exit_register = None\<rparr>"

subsection \<open>SPI of the RP2350\<close>

definition rp2350_check_spi :: "u32 \<Rightarrow> u32 \<Rightarrow> u32 \<Rightarrow> cmd list" where
  "rp2350_check_spi base loopback expected =
     [Put (R32 (base + 0x00)) 7,
      Put (R32 (base + 0x04)) (shl 1 1 OR loopback),
      Fail 1 [reads (R32 (base + 0x0c)) (\<lambda>v. v AND (shl 1 0 OR shl 1 1) \<noteq> shl 1 0 OR shl 1 1)],
      Put (R32 (base + 0x08)) 0x5a,
      Fail 2 [reads (R32 (base + 0x0c)) (\<lambda>v. v AND shl 1 2 = 0)],
      Fail 3 [reads (R32 (base + 0x08)) (\<lambda>v. v \<noteq> expected)],
      Put (R32 (base + 0x14)) (shl 1 3),
      Fail 4 [reads (R32 (base + 0x1c)) (\<lambda>v. v AND shl 1 3 = 0)]]"

definition rp2350_spi_main :: program where
  "rp2350_spi_main =
     \<lparr>body = rp2350_check_spi 0x40080000 (shl 1 0) 0x5a @ rp2350_check_spi 0x40088000 0 0,
      handlers = no_handlers, exit_register = None\<rparr>"

definition rp2350_spi_riscv_main :: program where
  "rp2350_spi_riscv_main = rp2350_spi_main"

subsection \<open>I2C\<close>

text \<open>The three I2C programs have one text and differ in the addresses of the controllers.\<close>

definition rp_i2c_body :: "u32 \<Rightarrow> u32 \<Rightarrow> cmd list" where
  "rp_i2c_body base0 base1 =
     [Put (R32 (base0 + 0x04)) 0x48,
      Put (R32 (base0 + 0x30)) 0,
      Put (R32 (base0 + 0x6c)) 1,
      Put (R32 (base0 + 0x10)) 0x10,
      Put (R32 (base0 + 0x10)) (shl 1 8 OR shl 1 9),
      Fail 1 [reads (R32 (base0 + 0x70)) (\<lambda>v. v AND shl 1 3 = 0)],
      Fail 1 [reads (R32 (base0 + 0x10)) (\<lambda>v. v \<noteq> 0xff)],
      Put (R32 (base1 + 0x04)) 0x48,
      Put (R32 (base1 + 0x30)) 0,
      Put (R32 (base1 + 0x6c)) 1,
      Put (R32 (base1 + 0x10)) (shl 1 8 OR shl 1 9),
      Fail 1 [reads (R32 (base1 + 0x10)) (\<lambda>v. v \<noteq> 0xff)]]"

definition rp_i2c_arm_main :: program where
  "rp_i2c_arm_main = \<lparr>body = rp_i2c_body 0x40090000 0x40098000, handlers = no_handlers, exit_register = None\<rparr>"

definition rp_i2c_riscv_main :: program where
  "rp_i2c_riscv_main = \<lparr>body = rp_i2c_body 0x40090000 0x40098000, handlers = no_handlers, exit_register = None\<rparr>"

definition rp2040_i2c_main :: program where
  "rp2040_i2c_main = \<lparr>body = rp_i2c_body 0x40044000 0x40048000, handlers = no_handlers, exit_register = None\<rparr>"

subsection \<open>USB device\<close>

definition rp_usb_USB_MAIN_CTRL :: reg where "rp_usb_USB_MAIN_CTRL = R32 0x50110040"
definition rp_usb_USB_SIE_CTRL :: reg where "rp_usb_USB_SIE_CTRL = R32 0x5011004c"
definition rp_usb_USB_SIE_STATUS :: reg where "rp_usb_USB_SIE_STATUS = R32 0x50110050"
definition rp_usb_USB_INTR :: reg where "rp_usb_USB_INTR = R32 0x5011008c"
definition rp_usb_USB_MUXING :: reg where "rp_usb_USB_MUXING = R32 0x50110074"

definition rp_usb_main :: program where
  "rp_usb_main =
     \<lparr>body =
       [Put rp_usb_USB_MAIN_CTRL 1,
        Put rp_usb_USB_SIE_CTRL (shl 1 16),
        Put rp_usb_USB_MUXING 1,
        Fail 1 [reads rp_usb_USB_INTR (\<lambda>status. status AND shl 1 11 = 0 \<or> status AND shl 1 12 = 0)],
        Put rp_usb_USB_SIE_STATUS (shl 1 19 OR shl 1 16),
        Fail 2 [reads rp_usb_USB_INTR (\<lambda>status. \<not> (status AND shl 1 11 \<noteq> 0 \<and> status AND shl 1 12 = 0))]],
      handlers = no_handlers, exit_register = None\<rparr>"

lemmas rp_usb_registers = rp_usb_USB_MAIN_CTRL_def rp_usb_USB_SIE_CTRL_def rp_usb_USB_SIE_STATUS_def rp_usb_USB_INTR_def rp_usb_USB_MUXING_def

end
