(* ===== verification/Smoke_Esp.thy ===== *)
theory Smoke_Esp
  imports Smoke_Mcu
begin

text \<open>
  The smoke programs of the Espressif microcontrollers (\<^verbatim>\<open>corpus/smoke/esp32*\<close> and
  \<^verbatim>\<open>xtensa*\<close>).  The Xtensa programs do not return: they store their status in a register at
  \<open>0xfffffff0\<close> and stop.
\<close>

section \<open>Registers of a block\<close>

definition EXIT_REGISTER :: reg where "EXIT_REGISTER = R32 0xfffffff0"

subsection \<open>ESP32-C6: GPIO\<close>

definition c6_gpio_GPIO_OUT_W1TS :: reg where "c6_gpio_GPIO_OUT_W1TS = R32 0x60091008"
definition c6_gpio_GPIO_ENABLE_W1TS :: reg where "c6_gpio_GPIO_ENABLE_W1TS = R32 0x60091024"
definition c6_gpio_SYSTIMER_DATE :: reg where "c6_gpio_SYSTIMER_DATE = R32 0x6000a0fc"

definition c6_gpio_main :: program where
  "c6_gpio_main =
     \<lparr>body =
       [Fail 1 [reads c6_gpio_SYSTIMER_DATE (\<lambda>v. v \<noteq> 35655795)],
        Put c6_gpio_GPIO_ENABLE_W1TS (shl 1 2),
        Put c6_gpio_GPIO_OUT_W1TS (shl 1 2)],
      handlers = no_handlers, exit_register = None\<rparr>"

lemmas c6_gpio_registers = c6_gpio_GPIO_OUT_W1TS_def c6_gpio_GPIO_ENABLE_W1TS_def c6_gpio_SYSTIMER_DATE_def

subsection \<open>ESP32-C6: serial port\<close>

definition c6_uart_UART_FIFO :: reg where "c6_uart_UART_FIFO = R32 0x60000000"

definition c6_uart_main :: program where
  "c6_uart_main =
     \<lparr>body = map (\<lambda>c. Put c6_uart_UART_FIFO (of_char c)) (line ''REMU-ESP''),
      handlers = no_handlers, exit_register = None\<rparr>"

lemmas c6_uart_registers = c6_uart_UART_FIFO_def

subsection \<open>ESP32-P4\<close>

definition p4_GPIO_OUT_W1TS :: reg where "p4_GPIO_OUT_W1TS = R32 0x500e0008"
definition p4_GPIO_ENABLE :: reg where "p4_GPIO_ENABLE = R32 0x500e0020"
definition p4_GPIO_IN :: reg where "p4_GPIO_IN = R32 0x500e003c"
definition p4_UART0_FIFO :: reg where "p4_UART0_FIFO = R32 0x500ca000"
definition p4_TIMER0_CONFIG :: reg where "p4_TIMER0_CONFIG = R32 0x500c2000"
definition p4_TIMER0_COUNTER_LOW :: reg where "p4_TIMER0_COUNTER_LOW = R32 0x500c2004"
definition p4_TIMER0_UPDATE :: reg where "p4_TIMER0_UPDATE = R32 0x500c200c"

definition p4_main :: program where
  "p4_main =
     \<lparr>body =
       [Put p4_GPIO_ENABLE (shl 1 5),
        Put p4_GPIO_OUT_W1TS (shl 1 5)] @
       map (\<lambda>c. Put p4_UART0_FIFO (of_char c)) (line ''ESP32P4'') @
       [Put p4_TIMER0_CONFIG (shl 1 31 OR shl 1 30 OR shl 2 13),
        Await [(p4_TIMER0_UPDATE, 1)] p4_TIMER0_COUNTER_LOW (\<lambda>v. v \<noteq> 0),
        Flag 0 [reads p4_GPIO_IN (\<lambda>v. v AND shl 1 3 = 0)]],
      handlers = no_handlers, exit_register = None\<rparr>"

lemmas p4_registers = p4_GPIO_OUT_W1TS_def p4_GPIO_ENABLE_def p4_GPIO_IN_def p4_UART0_FIFO_def p4_TIMER0_CONFIG_def p4_TIMER0_COUNTER_LOW_def p4_TIMER0_UPDATE_def

section \<open>Xtensa\<close>

definition xtensa_main :: program where
  "xtensa_main =
     \<lparr>body = [Put (R32 0x60004024) (shl 1 2), Put (R32 0x60004008) (shl 1 2), Note (7 + 5) [holds True]],
      handlers = no_handlers, exit_register = Some EXIT_REGISTER\<rparr>"

definition xtensa_uart_main :: program where
  "xtensa_uart_main =
     \<lparr>body = map (\<lambda>c. Put (R32 0x60000000) (of_char c)) (line ''REMU-ESP''),
      handlers = no_handlers, exit_register = Some EXIT_REGISTER\<rparr>"

subsection \<open>Peripheral identities of the ESP32-S3\<close>

text \<open>\<open>CHECK(address, mask, expected, code)\<close>; the last check that fails gives the status.\<close>

definition CHECK :: "u32 \<Rightarrow> u32 \<Rightarrow> u32 \<Rightarrow> u32 \<Rightarrow> cmd" where
  "CHECK address msk expected code = Note code [reads (R32 address) (\<lambda>v. v AND msk \<noteq> expected)]"

definition xtensa_peripherals_main :: program where
  "xtensa_peripherals_main =
     \<lparr>body =
       [CHECK 0x60010000 0xffffffff 0x00000000 1,
        CHECK 0x6002e000 0xffffffff 0x00000000 2,
        CHECK 0x600130f8 0xffffffff 0x02201172 3,
        CHECK 0x600270f8 0xffffffff 0x02201172 4,
        CHECK 0x600240f0 0xffffffff 0x02101190 5,
        CHECK 0x600250f0 0xffffffff 0x02101190 6,
        CHECK 0x6000f080 0xffffffff 0x02009070 7,
        CHECK 0x6002d080 0xffffffff 0x02009070 8,
        CHECK 0x600160cc 0xffffffff 0x02101181 9,
        CHECK 0x600190fc 0xffffffff 0x19040200 10,
        CHECK 0x600170fc 0xffffffff 0x19072601 11,
        CHECK 0x6001e124 0xffffffff 0x02107230 12,
        CHECK 0x6002c124 0xffffffff 0x02107230 13,
        CHECK 0x6002b000 0x0000000f 0x00000001 14,
        CHECK 0x6003f40c 0xffffffff 0x02101180 15,
        CHECK 0x600403fc 0xffffffff 0x02101180 16,
        CHECK 0x600089fc 0xffffffff 0x02101180 17,
        CHECK 0x600410fc 0xffffffff 0x02003020 18,
        CHECK 0x6002806c 0xffffffff 0x3430322a 19,
        CHECK 0x6003b02c 0xffffffff 0x20190402 20,
        CHECK 0x6003a0b4 0xffffffff 0x00000000 21,
        CHECK 0x600071fc 0xffffffff 0x02101290 22,
        CHECK 0x6003e1fc 0xffffffff 0x20190402 23,
        CHECK 0x6003c830 0xffffffff 0x20190425 24,
        CHECK 0x6003de20 0xffffffff 0x20191217 25,
        CHECK 0x600081fc 0xffffffff 0x02101271 26,
        CHECK 0x600c27fc 0xffffffff 0x02012300 27,
        CHECK 0x600090fc 0xffffffff 0x01907160 28,
        CHECK 0x60014084 0xffffffff 0x02010090 29,
        Put (R32 0x50000120) 0x52544353,
        CHECK 0x60021120 0xffffffff 0x52544353 30,
        Put (R32 0x60021124) 0x414c4941,
        CHECK 0x50000124 0xffffffff 0x414c4941 31,
        CHECK 0x600263fc 0xffffffff 0x02101150 32,
        CHECK 0x60026004 0x0001ffff 0x00010727 33,
        CHECK 0x600393fc 0xffffffff 0x02102010 34,
        CHECK 0x60039000 0x807fffff 0x001c0000 35,
        CHECK 0x600c1ffc 0x0fffffff 0x02101280 36,
        CHECK 0x600c1128 0xff33cfff 0xff33cfff 37,
        CHECK 0x600d007c 0x00003ffe 0x00000002 38,
        CHECK 0x600d0544 0x00000003 0x00000000 39,
        CHECK 0x600c43fc 0x0fffffff 0x02012310 40,
        CHECK 0x600c4130 0x00ffffff 0x00001001 41,
        CHECK 0x60008c00 0x000fffff 0x00000100 42,
        CHECK 0x60008cfc 0x0fffffff 0x01905310 43,
        CHECK 0x60008814 0xffffffff 0xffffffff 44,
        CHECK 0x6000885c 0xffff7fff 0xfff07fff 45,
        CHECK 0x600cc058 0x00000003 0x00000000 46,
        CHECK 0x600cc05c 0x3fffffff 0x20200111 47,
        CHECK 0x600085fc 0x0fffffff 0x02101180 48,
        CHECK 0x60004f28 0x0fffffff 0x01802260 49,
        CHECK 0x6000c084 0xffffffff 0x02010090 50,
        CHECK 0x6002a0fc 0xffffffff 0x02012300 51,
        CHECK 0x600ce1fc 0x0fffffff 0x02003040 52],
      handlers = no_handlers, exit_register = Some EXIT_REGISTER\<rparr>"

subsection \<open>USB device controller of the ESP32-S3\<close>

definition usb :: "u32 \<Rightarrow> reg" where "usb offset = R32 (0x60080000 + offset)"
definition RESET_EVENTS :: u32 where "RESET_EVENTS = shl 1 12 OR shl 1 13"

definition usb_wait_for :: "u32 \<Rightarrow> cmd" where
  "usb_wait_for events = Poll 8000 (usb 0x14) (\<lambda>v. v AND events = events) 1"

definition xtensa_usb_main :: program where
  "xtensa_usb_main =
     \<lparr>body =
       [Put (R32 0x60008120) (shl 1 20 OR shl 1 19),
        Put (usb 0x08) 1,
        Put (usb 0x18) (RESET_EVENTS OR shl 1 4 OR shl 1 18 OR shl 1 19),
        Put (usb 0x810) 1,
        Put (usb 0x814) (shl 1 3),
        Put (usb 0x81c) (1 OR shl 1 16),
        usb_wait_for RESET_EVENTS,
        Put (usb 0x14) RESET_EVENTS,
        Put (usb 0xb10) (64 OR shl 1 19 OR shl 3 29),
        usb_wait_for (shl 1 4),
        Fail 2 [([usb 0x20, usb 0x1000, usb 0x1000, usb 0x20], \<lambda>vs.
          let status = vs ! 0; packet_status = shr status 17 AND 0xf; byte_count = shr status 4 AND 0x7ff in
          status AND 0xf \<noteq> 0 \<or> packet_status \<noteq> 6 \<or> byte_count \<noteq> 8 \<or>
          vs ! 1 \<noteq> 0x01000680 \<or> vs ! 2 \<noteq> 0x00120000 \<or> vs ! 3 \<noteq> shl 4 17)],
        Fail 3 [reads (usb 0x14) (\<lambda>v. v AND shl 1 19 = 0)],
        Put (usb 0xb08) (shl 1 3)],
      handlers = no_handlers, exit_register = Some EXIT_REGISTER\<rparr>"

subsection \<open>M5StickS3\<close>

definition gpio :: "u32 \<Rightarrow> reg" where "gpio offset = R32 (0x60004000 + offset)"
definition i2c1 :: "u32 \<Rightarrow> reg" where "i2c1 offset = R32 (0x60027000 + offset)"
definition spi3 :: "u32 \<Rightarrow> reg" where "spi3 offset = R32 (0x60025000 + offset)"
definition i2s0 :: "u32 \<Rightarrow> reg" where "i2s0 offset = R32 (0x6000f000 + offset)"
definition i2s1 :: "u32 \<Rightarrow> reg" where "i2s1 offset = R32 (0x6002d000 + offset)"
definition rmt :: "u32 \<Rightarrow> reg" where "rmt offset = R32 (0x60016000 + offset)"

definition COMMAND :: "u32 \<Rightarrow> u32 \<Rightarrow> u32" where
  "COMMAND bytes opcode = bytes OR shl opcode 11"

text \<open>\<open>gpio_high\<close> is the program's copy of the output register; the functions return its new value.\<close>

definition gpio_high_write :: "nat \<Rightarrow> bool \<Rightarrow> u32 \<Rightarrow> cmd list \<times> u32" where
  "gpio_high_write pin high gpio_high =
     (let b = shl 1 (pin - 32);
          gpio_high = (if high then gpio_high OR b else gpio_high AND NOT b)
      in ([Put (gpio 0x10) gpio_high], gpio_high))"

definition i2c1_write :: "u32 \<Rightarrow> u32 \<Rightarrow> u32 \<Rightarrow> cmd list" where
  "i2c1_write address reg value =
     [Put (i2c1 0x1c) (shl address 1),
      Put (i2c1 0x1c) reg,
      Put (i2c1 0x1c) value,
      Put (i2c1 (0x58 + 0)) (COMMAND 0 0),
      Put (i2c1 (0x58 + 4)) (COMMAND 3 1),
      Put (i2c1 (0x58 + 8)) (COMMAND 0 3),
      Put (i2c1 (0x58 + 12)) (COMMAND 0 4),
      Put (i2c1 0x04) 0x30]"

text \<open>\<open>if (i2c1_read8(address, reg) != expected) failure = code;\<close>\<close>

definition i2c1_read8_check :: "u32 \<Rightarrow> u32 \<Rightarrow> u32 \<Rightarrow> u32 \<Rightarrow> cmd list" where
  "i2c1_read8_check address reg expected code =
     [Put (i2c1 0x1c) (shl address 1),
      Put (i2c1 0x1c) reg,
      Put (i2c1 0x1c) (shl address 1 OR 1),
      Put (i2c1 (0x58 + 0)) (COMMAND 0 0),
      Put (i2c1 (0x58 + 4)) (COMMAND 2 1),
      Put (i2c1 (0x58 + 8)) (COMMAND 0 0),
      Put (i2c1 (0x58 + 12)) (COMMAND 1 1),
      Put (i2c1 (0x58 + 16)) (COMMAND 1 2),
      Put (i2c1 (0x58 + 20)) (COMMAND 0 3),
      Put (i2c1 (0x58 + 24)) (COMMAND 0 4),
      Put (i2c1 0x04) 0x30,
      Note code [reads (i2c1 0x1c) (\<lambda>v. v AND 0xff \<noteq> expected)]]"

definition rmt_item :: "u32 \<Rightarrow> u32 \<Rightarrow> u32 \<Rightarrow> u32 \<Rightarrow> u32" where
  "rmt_item duration0 level0 duration1 level1 =
     duration0 OR shl level0 15 OR shl duration1 16 OR shl level1 31"

definition pack_word :: "u8 list \<Rightarrow> u32" where
  "pack_word bytes =
     fold (\<lambda>index word. word OR shl (ucast (bytes ! index)) (24 - index * 8)) [0..<length bytes] 0"

definition spi3_write :: "u8 list \<Rightarrow> bool \<Rightarrow> u32 \<Rightarrow> cmd list \<times> u32" where
  "spi3_write bytes data_phase gpio_high =
     (case gpio_high_write 45 data_phase gpio_high of (phase, gpio_high) \<Rightarrow>
      case gpio_high_write 41 False gpio_high of (select, gpio_high) \<Rightarrow>
      case gpio_high_write 41 True gpio_high of (deselect, gpio_high) \<Rightarrow>
        (phase @ select @
         [Put (spi3 0x98) (pack_word bytes),
          Put (spi3 0x1c) (of_nat (length bytes) * 8 - 1),
          Put (spi3 0x10) (shl 1 27),
          Put (spi3 0x00) (shl 1 24)] @ deselect, gpio_high))"

fun spi3_writes :: "(u8 list \<times> bool) list \<Rightarrow> u32 \<Rightarrow> cmd list" where
  "spi3_writes [] gpio_high = []"
| "spi3_writes ((bytes, data_phase) # rest) gpio_high =
     (case spi3_write bytes data_phase gpio_high of (cmds, gpio_high) \<Rightarrow> cmds @ spi3_writes rest gpio_high)"

definition m5_high_outputs :: u32 where
  "m5_high_outputs = shl 1 (38 - 32) OR shl 1 (41 - 32) OR shl 1 (45 - 32)"

definition m5_pins :: "cmd list" where
  "m5_pins =
     [Put (gpio 0x04) (shl 1 21),
      Put (gpio 0x20) (shl 1 21),
      Put (gpio 0x10) m5_high_outputs,
      Put (gpio 0x2c) m5_high_outputs,
      Note 1 [reads (gpio 0x3c) (\<lambda>v. v AND shl 1 11 \<noteq> 0)],
      Note 2 [reads (gpio 0x3c) (\<lambda>v. v AND shl 1 12 = 0)],
      Note 3 [reads (gpio 0x40) (\<lambda>v. v AND shl 1 (42 - 32) = 0)]]"

definition m5_i2c :: "cmd list" where
  "m5_i2c =
     i2c1_write 0x6e 0x06 0x0f @ i2c1_write 0x6e 0x10 0x0c @ i2c1_write 0x6e 0x11 0x0c @
     i2c1_read8_check 0x6e 0x00 0x01 4 @
     i2c1_read8_check 0x68 0x00 0x24 5 @
     i2c1_write 0x68 0x5e 0xa5 @ i2c1_write 0x68 0x59 0x01 @ i2c1_write 0x68 0x7d 0x06 @
     i2c1_read8_check 0x68 0x0c 100 6 @
     i2c1_write 0x18 0x00 0x80 @ i2c1_write 0x18 0x0d 0x01 @ i2c1_write 0x18 0x0e 0x02 @
     i2c1_write 0x18 0x12 0x00 @ i2c1_write 0x18 0x13 0x10 @ i2c1_write 0x18 0x17 0xff @
     i2c1_write 0x18 0x32 0xbf"

definition m5_audio :: "cmd list" where
  "m5_audio =
     [Put (i2s0 0x68) 0xa55a1234,
      Put (i2s0 0x24) (shl 1 2),
      Put (i2s1 0x20) (shl 1 2),
      Note 7 [reads (i2s1 0x68) (\<lambda>v. v \<noteq> 0x12345678)]]"

definition m5_infrared :: "cmd list" where
  "m5_infrared =
     [Put (rmt 0x00) (rmt_item 9000 1 4500 0),
      Put (rmt 0x00) (rmt_item 560 1 560 0),
      Put (rmt 0x20) 1,
      Put (rmt 0x34) 3,
      Put (rmt 0x34) 1,
      Note 8 [reads (rmt 0x70) (\<lambda>v. v AND shl 1 16 = 0), reads (rmt 0x10) (\<lambda>v. v \<noteq> rmt_item 9000 1 4500 0)]]"

definition m5_display :: "cmd list" where
  "m5_display =
     spi3_writes
       [([0x21], False), ([0x29], False), ([0x2a], False), ([0x00, 0x34, 0x00, 0xba], True),
        ([0x2b], False), ([0x00, 0x28, 0x01, 0x17], True), ([0x2c], False), ([0xf8, 0x00, 0x07, 0xe0], True)]
       m5_high_outputs"

definition m5_main :: program where
  "m5_main =
     \<lparr>body = m5_pins @ m5_i2c @ m5_audio @ m5_infrared @ m5_display,
      handlers = no_handlers, exit_register = Some EXIT_REGISTER\<rparr>"

section \<open>Processor checks\<close>

text \<open>
  \<^verbatim>\<open>xtensa-qualification\<close>: the arithmetic behind the windowed calls, a compare-and-exchange, a float
  expression, a word in flash and an exception.  \<open>exception_count\<close> is what the exception handler, which
  is assembly, has counted.  In \<open>windowed_abi_probe\<close>, \<open>^\<close> binds tighter than \<open>|\<close>.
\<close>

definition leaf :: "u32 \<Rightarrow> u32 \<Rightarrow> u32 \<Rightarrow> u32 \<Rightarrow> u32 \<Rightarrow> u32 \<Rightarrow> u32" where
  "leaf a b c d e f = a * 3 + b * 5 + (c XOR d) + e div 7 + f mod 11"

definition middle :: "u32 \<Rightarrow> u32" where
  "middle seed = leaf seed (seed + 1) (seed + 2) (seed + 3) (seed * 17) (seed * 19) XOR 0x5a5aa5a5"

definition windowed_abi_probe :: "u32 \<Rightarrow> u32" where
  "windowed_abi_probe seed =
     (let first = middle seed; second = middle (seed + 9)
      in shl first 7 OR (shr first 25 XOR second))"

definition compare_exchange :: "u32 \<Rightarrow> u32 \<Rightarrow> u32 \<Rightarrow> bool \<times> u32 \<times> u32" where
  "compare_exchange word expected desired =
     (if word = expected then (True, desired, expected) else (False, word, word))"

definition atomic_probe :: "u32 \<Rightarrow> bool \<times> u32" where
  "atomic_probe atomic_word =
     (case compare_exchange atomic_word 0x11223344 0xa5a55a5a of (exchanged, atomic_word, expected) \<Rightarrow>
        if \<not> exchanged \<or> expected \<noteq> 0x11223344 \<or> atomic_word \<noteq> 0xa5a55a5a then (False, atomic_word)
        else
          (case compare_exchange atomic_word 0x01020304 0xffffffff of (exchanged, atomic_word, expected) \<Rightarrow>
             (\<not> exchanged \<and> expected = 0xa5a55a5a \<and> atomic_word = 0xa5a55a5a, atomic_word)))"

definition floating_point_probe :: "rat \<Rightarrow> rat \<Rightarrow> bool" where
  "floating_point_probe float_left float_right \<longleftrightarrow> float_left * float_right + 17 / 8 = 7"

definition irom_probe :: "u32 \<Rightarrow> u32" where
  "irom_probe v = v XOR 0x2468ace0"

definition xtensa_qualification_status :: "u32 \<Rightarrow> u32" where
  "xtensa_qualification_status exception_count =
     (if windowed_abi_probe 13 \<noteq> 0x7f5aafe3 then 1
      else if \<not> fst (atomic_probe 0x11223344) then 2
      else if \<not> floating_point_probe (13 / 4) (3 / 2) then 3
      else if exception_count \<noteq> 1 then 4
      else if irom_probe 0x13579bdf \<noteq> 0x373f373f then 5
      else 0)"

text \<open>\<^verbatim>\<open>hazard3/compiler-cases.c\<close>\<close>

definition hazard3_compiler_cases :: "u32 \<Rightarrow> u32 \<Rightarrow> u32" where
  "hazard3_compiler_cases left right =
     (let rotated = shl left (unat (right AND 31)) OR shr left (unat (- right AND 31));
          selected = left AND NOT (shl 1 (unat (right AND 31)));
          address = left + shl right 2
      in rotated XOR selected XOR address XOR of_nat (length (filter (bit left) [0..<32])))"

end
