(* ===== verification/Vendor_Probes.thy ===== *)
theory Vendor_Probes
  imports Smoke_Mcu
begin

text \<open>
  The peripheral probes built against the headers of the ESP-IDF (\<^verbatim>\<open>corpus/vendor/esp-idf\<close> and
  \<^verbatim>\<open>esp-idf-c6\<close>), in the statement forms of the smoke programs.  The headers are not part of the
  repository: \<open>K\<close> gives the value of each of their macros by name.  A probe that stores a status in each
  of its branches and stops is written with \<open>Fail\<close>; the status goes to the register at \<open>0xfffffff0\<close>.
\<close>

definition VENDOR_EXIT :: reg where "VENDOR_EXIT = R32 0xfffffff0"

definition probe :: "cmd list \<Rightarrow> program" where
  "probe cs = \<lparr>body = cs, handlers = (\<lambda>n. []), exit_register = Some VENDOR_EXIT\<rparr>"

section \<open>ESP32-S3\<close>

definition io_mux_probe :: "(string \<Rightarrow> u32) \<Rightarrow> program" where
  "io_mux_probe K =
     (let config = K ''FUN_PU'' OR K ''FUN_IE'' OR shl (K ''PIN_FUNC_GPIO'') (unat (K ''MCU_SEL_S'')) in
      probe
     [Fail 1 [reads (R32 (K ''IO_MUX_DATE_REG'')) (\<lambda>v. v \<noteq> K ''IO_MUX_DATE_VERSION'')],
      Put (R32 (K ''IO_MUX_GPIO2_REG'')) config,
      Fail 2 [reads (R32 (K ''IO_MUX_GPIO2_REG'')) (\<lambda>v. v \<noteq> config)]])"

definition usb_wrap_probe :: "(string \<Rightarrow> u32) \<Rightarrow> program" where
  "usb_wrap_probe K =
     (let reset = K ''USB_WRAP_PHY_CLK_FORCE_ON'' OR K ''USB_WRAP_AHB_CLK_FORCE_ON'' OR K ''USB_WRAP_USB_PAD_ENABLE'';
          pulled = K ''USB_WRAP_USB_PAD_ENABLE'' OR K ''USB_WRAP_PAD_PULL_OVERRIDE'' OR K ''USB_WRAP_DP_PULLUP'' in
      probe
     [Fail 1 [reads (R32 (K ''USB_WRAP_DATE_REG'')) (\<lambda>v. v \<noteq> 0x02102010)],
      Fail 2 [reads (R32 (K ''USB_WRAP_OTG_CONF_REG'')) (\<lambda>v. v \<noteq> reset),
        reads (R32 (K ''USB_WRAP_TEST_CONF_REG'')) (\<lambda>v. v \<noteq> 0)],
      Put (R32 (K ''USB_WRAP_OTG_CONF_REG'')) pulled,
      Put (R32 (K ''USB_WRAP_TEST_CONF_REG'')) (K ''USB_WRAP_TEST_ENABLE'' OR K ''USB_WRAP_TEST_USB_OE'' OR K ''USB_WRAP_TEST_TX_DP''),
      Fail 3 [reads (R32 (K ''USB_WRAP_OTG_CONF_REG'')) (\<lambda>v. v \<noteq> pulled)],
      Fail 4 [reads (R32 (K ''USB_WRAP_TEST_CONF_REG'')) (\<lambda>v. v AND 0x0f \<noteq> 0x07)]])"

definition peri_backup_probe :: "(string \<Rightarrow> u32) \<Rightarrow> program" where
  "peri_backup_probe K =
     probe
     [Fail 1 [reads (R32 (K ''PERI_BACKUP_CONFIG_REG'')) (\<lambda>v. v \<noteq> 0x00006480)],
      Fail 2 [reads (R32 (K ''PERI_BACKUP_DATE_REG'')) (\<lambda>v. v \<noteq> 0x02012300)],
      Put (R32 0x60008050) 0x50424b31,
      Put (R32 (K ''PERI_BACKUP_APB_ADDR_REG'')) 0x60008050,
      Put (R32 (K ''PERI_BACKUP_MEM_ADDR_REG'')) 0x3fc88000,
      Put (R32 (K ''PERI_BACKUP_INT_ENA_REG'')) (K ''PERI_BACKUP_DONE_INT_ENA''),
      Put (R32 (K ''PERI_BACKUP_CONFIG_REG'')) (K ''PERI_BACKUP_ENA'' OR K ''PERI_BACKUP_TO_MEM'' OR K ''PERI_BACKUP_START'' OR shl 1 (unat (K ''PERI_BACKUP_SIZE_S''))),
      Fail 3 [reads (R32 0x3fc88000) (\<lambda>v. v \<noteq> 0x50424b31)],
      Fail 4 [reads (R32 (K ''PERI_BACKUP_INT_ST_REG'')) (\<lambda>v. v AND K ''PERI_BACKUP_DONE_INT_ST'' = 0)],
      Put (R32 (K ''PERI_BACKUP_INT_CLR_REG'')) (K ''PERI_BACKUP_DONE_INT_CLR''),
      Fail 5 [reads (R32 (K ''PERI_BACKUP_INT_ST_REG'')) (\<lambda>v. v \<noteq> 0)]]"

definition pms_probe :: "(string \<Rightarrow> u32) \<Rightarrow> program" where
  "pms_probe K =
     (let uart_read_only = (0xff33cfff AND NOT (K ''SENSITIVE_CORE_0_PIF_PMS_CONSTRAIN_WORLD_0_UART_M'')) OR
            shl 2 (unat (K ''SENSITIVE_CORE_0_PIF_PMS_CONSTRAIN_WORLD_0_UART_S'')) in
      probe
     [Fail 1 [reads (R32 (K ''SENSITIVE_DATE_REG'')) (\<lambda>v. v \<noteq> 0x02101280)],
      Fail 2 [reads (R32 (K ''SENSITIVE_CORE_0_PIF_PMS_CONSTRAIN_0_REG'')) (\<lambda>v. v \<noteq> 0),
        reads (R32 (K ''SENSITIVE_CORE_0_PIF_PMS_CONSTRAIN_1_REG'')) (\<lambda>v. v \<noteq> 0xff33cfff)],
      Fail 3 [reads (R32 (K ''SENSITIVE_EDMA_BOUNDARY_0_REG'')) (\<lambda>v. v \<noteq> 0),
        reads (R32 (K ''SENSITIVE_EDMA_BOUNDARY_1_REG'')) (\<lambda>v. v \<noteq> 0x2000),
        reads (R32 (K ''SENSITIVE_EDMA_BOUNDARY_2_REG'')) (\<lambda>v. v \<noteq> 0x2000),
        reads (R32 (K ''SENSITIVE_EDMA_PMS_SPI2_REG'')) (\<lambda>v. v \<noteq> 0x0f)],
      Put (R32 (K ''SENSITIVE_CORE_0_PIF_PMS_CONSTRAIN_1_REG'')) uart_read_only,
      Put (R32 (K ''SENSITIVE_CORE_0_PIF_PMS_CONSTRAIN_0_REG'')) (K ''SENSITIVE_CORE_0_PIF_PMS_CONSTRAIN_LOCK''),
      Put (R32 (K ''SENSITIVE_CORE_0_PIF_PMS_CONSTRAIN_1_REG'')) 0xff33cfff,
      Put (R32 (K ''SENSITIVE_CORE_0_PIF_PMS_CONSTRAIN_0_REG'')) 0,
      Fail 4 [reads (R32 (K ''SENSITIVE_CORE_0_PIF_PMS_CONSTRAIN_1_REG'')) (\<lambda>v. v \<noteq> uart_read_only),
        reads (R32 (K ''SENSITIVE_CORE_0_PIF_PMS_CONSTRAIN_0_REG'')) (\<lambda>v. v \<noteq> K ''SENSITIVE_CORE_0_PIF_PMS_CONSTRAIN_LOCK'')]])"

definition uhci_probe :: "(string \<Rightarrow> u32) \<Rightarrow> program" where
  "uhci_probe K =
     (let conf0_reset = K ''UHCI_ENCODE_CRC_EN'' OR K ''UHCI_LEN_EOF_EN'' OR K ''UHCI_CRC_REC_EN'' OR K ''UHCI_HEAD_EN'' OR K ''UHCI_SEPER_EN'' in
      probe
     [Fail 1 [reads (R32 (K ''UHCI_DATE_REG(0)'')) (\<lambda>v. v \<noteq> 0x02010090),
        reads (R32 (K ''UHCI_DATE_REG(1)'')) (\<lambda>v. v \<noteq> 0x02010090)],
      Fail 2 [reads (R32 (K ''UHCI_CONF0_REG(0)'')) (\<lambda>v. v \<noteq> conf0_reset)],
      Put (R32 (K ''UHCI_CONF0_REG(0)'')) (conf0_reset OR K ''UHCI_UART2_CE''),
      Put (R32 (K ''UHCI_INT_ENA_REG(0)'')) (K ''UHCI_APP_CTRL0_INT_ENA''),
      Put (R32 (K ''UHCI_APP_INT_SET_REG(0)'')) (K ''UHCI_APP_CTRL0_INT_SET''),
      Fail 3 [reads (R32 (K ''UHCI_INT_ST_REG(0)'')) (\<lambda>v. v AND K ''UHCI_APP_CTRL0_INT_ST'' = 0)],
      Put (R32 (K ''UHCI_INT_CLR_REG(0)'')) (K ''UHCI_APP_CTRL0_INT_CLR''),
      Fail 4 [reads (R32 (K ''UHCI_INT_ST_REG(0)'')) (\<lambda>v. v \<noteq> 0)],
      Put (R32 (K ''UHCI_INT_ENA_REG(1)'')) (K ''UHCI_APP_CTRL1_INT_ENA''),
      Put (R32 (K ''UHCI_APP_INT_SET_REG(1)'')) (K ''UHCI_APP_CTRL1_INT_SET''),
      Fail 5 [reads (R32 (K ''UHCI_INT_ST_REG(1)'')) (\<lambda>v. v AND K ''UHCI_APP_CTRL1_INT_ST'' = 0)],
      Put (R32 (K ''UHCI_INT_CLR_REG(1)'')) (K ''UHCI_APP_CTRL1_INT_CLR''),
      Fail 6 [reads (R32 (K ''UHCI_INT_ST_REG(1)'')) (\<lambda>v. v \<noteq> 0)]])"

definition syscon_probe :: "(string \<Rightarrow> u32) \<Rightarrow> program" where
  "syscon_probe K =
     (let tick_reset = K ''SYSCON_TICK_ENABLE'' OR shl 7 (unat (K ''SYSCON_CK8M_TICK_NUM_S'')) OR shl 39 (unat (K ''SYSCON_XTAL_TICK_NUM_S'')) in
      probe
     [Fail 1 [reads (R32 (K ''SYSCON_DATE_REG'')) (\<lambda>v. v \<noteq> 0x02101150)],
      Fail 2 [reads (R32 (K ''SYSCON_TICK_CONF_REG'')) (\<lambda>v. v \<noteq> tick_reset)],
      Fail 3 [reads (R32 (K ''SYSCON_WIFI_CLK_EN_REG'')) (\<lambda>v. v \<noteq> 0xfffce030),
        reads (R32 (K ''SYSCON_WIFI_RST_EN_REG'')) (\<lambda>v. v \<noteq> 0)],
      Fail 4 [reads (R32 (K ''SYSCON_SPI_MEM_PMS_CTRL_REG'')) (\<lambda>v. v \<noteq> 0)],
      Put (R32 (K ''SYSCON_WIFI_RST_EN_REG'')) 1,
      Put (R32 (K ''SYSCON_WIFI_CLK_EN_REG'')) 0,
      Fail 5 [reads (R32 (K ''SYSCON_WIFI_RST_EN_REG'')) (\<lambda>v. v \<noteq> 1),
        reads (R32 (K ''SYSCON_WIFI_CLK_EN_REG'')) (\<lambda>v. v \<noteq> 0)],
      Put (R32 (K ''SYSCON_WIFI_RST_EN_REG'')) 0,
      Put (R32 (K ''SYSCON_WIFI_CLK_EN_REG'')) 0xfffce030,
      Put (R32 (K ''SYSCON_FLASH_ACE0_ATTR_REG'')) 0x12a,
      Put (R32 (K ''SYSCON_EXT_MEM_PMS_LOCK_REG'')) (K ''SYSCON_EXT_MEM_PMS_LOCK''),
      Put (R32 (K ''SYSCON_FLASH_ACE0_ATTR_REG'')) 0x55,
      Put (R32 (K ''SYSCON_EXT_MEM_PMS_LOCK_REG'')) 0,
      Fail 6 [reads (R32 (K ''SYSCON_FLASH_ACE0_ATTR_REG'')) (\<lambda>v. v \<noteq> 0x12a),
        reads (R32 (K ''SYSCON_EXT_MEM_PMS_LOCK_REG'')) (\<lambda>v. v \<noteq> K ''SYSCON_EXT_MEM_PMS_LOCK'')]])"

definition assist_debug_probe :: "(string \<Rightarrow> u32) \<Rightarrow> program" where
  "assist_debug_probe K =
     (let watched = 0x3fc88000; trace = 0x3fc88100 in
      probe
     [Fail 1 [reads (R32 (K ''ASSIST_DEBUG_REG_DATE_REG'')) (\<lambda>v. v \<noteq> 0x02003040)],
      Fail 2 [reads (R32 (K ''ASSIST_DEBUG_CORE_0_AREA_DRAM0_0_MIN_REG'')) (\<lambda>v. v \<noteq> 0xffffffff),
        reads (R32 (K ''ASSIST_DEBUG_CORE_1_SP_MAX_REG'')) (\<lambda>v. v \<noteq> 0xffffffff),
        reads (R32 (K ''ASSIST_DEBUG_LOG_SETTING_REG'')) (\<lambda>v. v \<noteq> K ''ASSIST_DEBUG_LOG_MEM_LOOP_ENABLE'')],
      Put (R32 (K ''ASSIST_DEBUG_CORE_0_AREA_DRAM0_0_MIN_REG'')) watched,
      Put (R32 (K ''ASSIST_DEBUG_CORE_0_AREA_DRAM0_0_MAX_REG'')) (watched + 3),
      Put (R32 (K ''ASSIST_DEBUG_CORE_0_RCD_PDEBUGENABLE_REG'')) 1,
      Put (R32 (K ''ASSIST_DEBUG_CORE_0_RCD_RECORDING_REG'')) 1,
      Put (R32 (K ''ASSIST_DEBUG_CORE_0_INTERRUPT_ENA_REG'')) (K ''ASSIST_DEBUG_CORE_0_AREA_DRAM0_0_WR_ENA''),
      Put (R32 (K ''ASSIST_DEBUG_LOG_MIN_REG'')) watched,
      Put (R32 (K ''ASSIST_DEBUG_LOG_MAX_REG'')) (watched + 3),
      Put (R32 (K ''ASSIST_DEBUG_LOG_MEM_START_REG'')) trace,
      Put (R32 (K ''ASSIST_DEBUG_LOG_MEM_END_REG'')) (trace + 31),
      Put (R32 (K ''ASSIST_DEBUG_LOG_SETTING_REG'')) (K ''ASSIST_DEBUG_LOG_MEM_LOOP_ENABLE'' OR shl 4 (unat (K ''ASSIST_DEBUG_LOG_ENA_S''))),
      Put (R32 watched) 0xa55a5aa5,
      Put (R32 (K ''ASSIST_DEBUG_CORE_0_RCD_RECORDING_REG'')) 0,
      Fail 3 [reads (R32 (K ''ASSIST_DEBUG_CORE_0_INTERRUPT_RAW_REG'')) (\<lambda>v. v AND K ''ASSIST_DEBUG_CORE_0_AREA_DRAM0_0_WR_RAW'' = 0)],
      Fail 4 [reads (R32 (K ''ASSIST_DEBUG_CORE_0_AREA_PC_REG'')) (\<lambda>v. v = 0)],
      Fail 5 [reads (R32 (trace + 4)) (\<lambda>v. v \<noteq> watched), reads (R32 (trace + 12)) (\<lambda>v. v \<noteq> 0xa55a5aa5)],
      Put (R32 (K ''ASSIST_DEBUG_CORE_0_INTERRUPT_RLS_REG'')) (K ''ASSIST_DEBUG_CORE_0_AREA_DRAM0_0_WR_RLS''),
      Put (R32 (K ''ASSIST_DEBUG_CORE_0_INTERRUPT_CLR_REG'')) (K ''ASSIST_DEBUG_CORE_0_AREA_DRAM0_0_WR_CLR''),
      Fail 6 [reads (R32 (K ''ASSIST_DEBUG_CORE_0_INTERRUPT_RAW_REG'')) (\<lambda>v. v \<noteq> 0)]])"

definition extmem_probe :: "(string \<Rightarrow> u32) \<Rightarrow> program" where
  "extmem_probe K =
     probe
     [Put (R32 (K ''EXTMEM_DCACHE_CTRL_REG'')) 0,
      Put (R32 (K ''EXTMEM_DCACHE_CTRL1_REG'')) (K ''EXTMEM_DCACHE_SHUT_CORE0_BUS'' OR K ''EXTMEM_DCACHE_SHUT_CORE1_BUS''),
      Put (R32 (K ''EXTMEM_ICACHE_CTRL_REG'')) 0,
      Put (R32 (K ''EXTMEM_ICACHE_CTRL1_REG'')) (K ''EXTMEM_ICACHE_SHUT_CORE0_BUS'' OR K ''EXTMEM_ICACHE_SHUT_CORE1_BUS''),
      Note 1 [reads (R32 (K ''EXTMEM_DCACHE_CTRL_REG'')) (\<lambda>v. v \<noteq> 0),
        reads (R32 (K ''EXTMEM_DCACHE_CTRL1_REG'')) (\<lambda>v. v \<noteq> 3),
        reads (R32 (K ''EXTMEM_ICACHE_CTRL_REG'')) (\<lambda>v. v \<noteq> 0),
        reads (R32 (K ''EXTMEM_ICACHE_CTRL1_REG'')) (\<lambda>v. v \<noteq> 3),
        reads (R32 (K ''EXTMEM_CACHE_STATE_REG'')) (\<lambda>v. v \<noteq> 0x00001001),
        reads (R32 (K ''EXTMEM_DATE_REG'')) (\<lambda>v. v \<noteq> 0x02012310)],
      Put (R32 (K ''EXTMEM_DCACHE_CTRL_REG'')) (K ''EXTMEM_DCACHE_ENABLE'' OR shl 3 (unat (K ''EXTMEM_DCACHE_BLOCKSIZE_MODE_S''))),
      Put (R32 (K ''EXTMEM_DCACHE_CTRL1_REG'')) 0,
      Put (R32 (K ''EXTMEM_ICACHE_CTRL_REG'')) (K ''EXTMEM_ICACHE_ENABLE'' OR K ''EXTMEM_ICACHE_BLOCKSIZE_MODE''),
      Put (R32 (K ''EXTMEM_ICACHE_CTRL1_REG'')) 0,
      Note 2 [reads (R32 (K ''EXTMEM_DCACHE_CTRL_REG'')) (\<lambda>v. v \<noteq> 0x19),
        reads (R32 (K ''EXTMEM_ICACHE_CTRL_REG'')) (\<lambda>v. v \<noteq> 0x09)],
      Put (R32 (K ''EXTMEM_DCACHE_PRELOAD_ADDR_REG'')) 0x3c000000,
      Put (R32 (K ''EXTMEM_DCACHE_PRELOAD_SIZE_REG'')) 2,
      Put (R32 (K ''EXTMEM_CACHE_PRELOAD_INT_CTRL_REG'')) (K ''EXTMEM_DCACHE_PRELOAD_INT_ENA''),
      Put (R32 (K ''EXTMEM_DCACHE_PRELOAD_CTRL_REG'')) (K ''EXTMEM_DCACHE_PRELOAD_ENA''),
      Note 3 [reads (R32 (K ''EXTMEM_DCACHE_PRELOAD_CTRL_REG'')) (\<lambda>v. v AND K ''EXTMEM_DCACHE_PRELOAD_DONE'' = 0),
        reads (R32 (K ''EXTMEM_CACHE_PRELOAD_INT_CTRL_REG'')) (\<lambda>v. v AND (K ''EXTMEM_DCACHE_PRELOAD_INT_ENA'' OR K ''EXTMEM_DCACHE_PRELOAD_INT_ST'') \<noteq> 
          K ''EXTMEM_DCACHE_PRELOAD_INT_ENA'' OR K ''EXTMEM_DCACHE_PRELOAD_INT_ST'')],
      Put (R32 (K ''EXTMEM_CACHE_PRELOAD_INT_CTRL_REG'')) (K ''EXTMEM_DCACHE_PRELOAD_INT_CLR''),
      Put (R32 (K ''EXTMEM_DCACHE_SYNC_ADDR_REG'')) 0x3c000000,
      Put (R32 (K ''EXTMEM_DCACHE_SYNC_SIZE_REG'')) 2,
      Put (R32 (K ''EXTMEM_CACHE_SYNC_INT_CTRL_REG'')) (K ''EXTMEM_DCACHE_SYNC_INT_ENA''),
      Put (R32 (K ''EXTMEM_DCACHE_SYNC_CTRL_REG'')) (K ''EXTMEM_DCACHE_INVALIDATE_ENA''),
      Note 4 [reads (R32 (K ''EXTMEM_DCACHE_SYNC_CTRL_REG'')) (\<lambda>v. v AND K ''EXTMEM_DCACHE_SYNC_DONE'' = 0),
        reads (R32 (K ''EXTMEM_CACHE_SYNC_INT_CTRL_REG'')) (\<lambda>v. v AND K ''EXTMEM_DCACHE_SYNC_INT_ST'' = 0)],
      Put (R32 (K ''EXTMEM_CACHE_ACS_CNT_CLR_REG'')) (K ''EXTMEM_ICACHE_ACS_CNT_CLR'' OR K ''EXTMEM_DCACHE_ACS_CNT_CLR''),
      Note 5 [reads (R32 (K ''EXTMEM_IBUS_ACS_CNT_REG'')) (\<lambda>v. v \<noteq> 0),
        reads (R32 (K ''EXTMEM_DBUS_ACS_CNT_REG'')) (\<lambda>v. v \<noteq> 0)]]"

definition rtc_i2c_probe :: "(string \<Rightarrow> u32) \<Rightarrow> program" where
  "rtc_i2c_probe K =
     probe
     [Note 1 [reads (R32 (K ''RTC_I2C_SCL_LOW_REG'')) (\<lambda>v. v \<noteq> 0x100),
        reads (R32 (K ''RTC_I2C_CTRL_REG'')) (\<lambda>v. v \<noteq> 0),
        reads (R32 (K ''RTC_I2C_DATE_REG'')) (\<lambda>v. v \<noteq> 0x01905310)],
      Put (R32 (K ''RTC_I2C_SLAVE_ADDR_REG'')) 0x42,
      Put (R32 (K ''RTC_I2C_DATA_REG'')) (shl 0xa5 (unat (K ''RTC_I2C_SLAVE_TX_DATA_S''))),
      Put (R32 (K ''RTC_I2C_INT_ENA_REG'')) (K ''RTC_I2C_MASTER_TRAN_COMP_INT_ENA'' OR K ''RTC_I2C_TRANS_COMPLETE_INT_ENA'' OR K ''RTC_I2C_TX_DATA_INT_ENA''),
      Put (R32 (K ''RTC_I2C_CTRL_REG'')) (K ''RTC_I2C_I2CCLK_EN'' OR K ''RTC_I2C_I2C_CTRL_CLK_GATE_EN'' OR K ''RTC_I2C_MS_MODE'' OR K ''RTC_I2C_TRANS_START''),
      Note 2 [reads (R32 (K ''RTC_I2C_CTRL_REG'')) (\<lambda>v. v AND K ''RTC_I2C_TRANS_START'' \<noteq> 0),
        reads (R32 (K ''RTC_I2C_DATA_REG'')) (\<lambda>v. v AND K ''RTC_I2C_I2C_DONE'' = 0),
        reads (R32 (K ''RTC_I2C_CMD0_REG'')) (\<lambda>v. v AND K ''RTC_I2C_COMMAND0_DONE'' = 0),
        reads (R32 (K ''RTC_I2C_INT_ST_REG'')) (\<lambda>v. v AND (K ''RTC_I2C_MASTER_TRAN_COMP_INT_ST'' OR
          K ''RTC_I2C_TRANS_COMPLETE_INT_ST'' OR K ''RTC_I2C_TX_DATA_INT_ST'') = 0)],
      Put (R32 (K ''RTC_I2C_INT_CLR_REG'')) 0x1ff,
      Note 3 [reads (R32 (K ''RTC_I2C_INT_RAW_REG'')) (\<lambda>v. v \<noteq> 0),
        reads (R32 (K ''RTC_I2C_INT_ST_REG'')) (\<lambda>v. v \<noteq> 0)],
      Put (R32 (K ''RTC_I2C_CTRL_REG'')) (K ''RTC_I2C_I2C_RESET''),
      Note 4 [reads (R32 (K ''RTC_I2C_CTRL_REG'')) (\<lambda>v. v \<noteq> 0),
        reads (R32 (K ''RTC_I2C_SCL_LOW_REG'')) (\<lambda>v. v \<noteq> 0x100),
        reads (R32 (K ''RTC_I2C_DATE_REG'')) (\<lambda>v. v \<noteq> 0x01905310)]]"

definition rtc_io_sdm_probe :: "(string \<Rightarrow> u32) \<Rightarrow> program" where
  "rtc_io_sdm_probe K =
     probe
     [Note 1 [reads (R32 (K ''RTC_GPIO_OUT_REG'')) (\<lambda>v. v \<noteq> 0),
        reads (R32 (K ''RTC_IO_TOUCH_PAD0_REG'')) (\<lambda>v. v \<noteq> 0x50000000),
        reads (R32 (K ''RTC_IO_TOUCH_PAD1_REG'')) (\<lambda>v. v \<noteq> 0x48000000),
        reads (R32 (K ''RTC_IO_DATE_REG'')) (\<lambda>v. v \<noteq> 0x02101180)],
      Put (R32 (K ''RTC_GPIO_OUT_REG'')) (K ''RTC_GPIO_OUT_DATA_M''),
      Put (R32 (K ''RTC_GPIO_OUT_W1TC_REG'')) (shl 1 (unat (K ''RTC_GPIO_OUT_DATA_S''))),
      Note 2 [reads (R32 (K ''RTC_GPIO_OUT_REG'')) (\<lambda>v. v \<noteq> K ''RTC_GPIO_OUT_DATA_M'' AND NOT (shl 1 (unat (K ''RTC_GPIO_OUT_DATA_S''))))],
      Put (R32 (K ''RTC_GPIO_ENABLE_W1TS_REG'')) (shl 3 (unat (K ''RTC_GPIO_ENABLE_W1TS_S''))),
      Note 3 [reads (R32 (K ''RTC_GPIO_ENABLE_REG'')) (\<lambda>v. v \<noteq> shl 3 (unat (K ''RTC_GPIO_ENABLE_S'')))],
      Put (R32 (K ''RTC_GPIO_PIN0_REG'')) 0xffffffff,
      Note 4 [reads (R32 (K ''RTC_GPIO_PIN0_REG'')) (\<lambda>v. v \<noteq> K ''RTC_GPIO_PIN0_WAKEUP_ENABLE_M'' OR K ''RTC_GPIO_PIN0_INT_TYPE_M'' OR K ''RTC_GPIO_PIN0_PAD_DRIVER_M'')],
      Note 5 [reads (R32 (K ''GPIO_SIGMADELTA0_REG'')) (\<lambda>v. v \<noteq> 0x0000ff00),
        reads (R32 (K ''GPIO_SIGMADELTA7_REG'')) (\<lambda>v. v \<noteq> 0x0000ff00),
        reads (R32 (K ''GPIO_SIGMADELTA_VERSION_REG'')) (\<lambda>v. v \<noteq> 0x01802260)],
      Put (R32 (K ''GPIO_SIGMADELTA0_REG'')) 0xffffffff,
      Put (R32 (K ''GPIO_SIGMADELTA_MISC_REG'')) 0xffffffff,
      Note 6 [reads (R32 (K ''GPIO_SIGMADELTA0_REG'')) (\<lambda>v. v \<noteq> K ''GPIO_SD0_PRESCALE_M'' OR K ''GPIO_SD0_IN_M''),
        reads (R32 (K ''GPIO_SIGMADELTA_MISC_REG'')) (\<lambda>v. v \<noteq> K ''GPIO_SPI_SWAP_M'' OR K ''GPIO_FUNCTION_CLK_EN_M'')]]"

definition sens_probe :: "(string \<Rightarrow> u32) \<Rightarrow> program" where
  "sens_probe K =
     probe
     [Note 1 [reads (R32 (K ''SENS_SAR_READER1_CTRL_REG'')) (\<lambda>v. v \<noteq> 0x20040002),
        reads (R32 (K ''SENS_SAR_ATTEN1_REG'')) (\<lambda>v. v \<noteq> 0xffffffff),
        reads (R32 (K ''SENS_SAR_TOUCH_CONF_REG'')) (\<lambda>v. v \<noteq> 0xfff07fff),
        reads (R32 (K ''SENS_SAR_HALL_CTRL_REG'')) (\<lambda>v. v \<noteq> 0xa0000000),
        reads (R32 (K ''SENS_SARDATE_REG'')) (\<lambda>v. v \<noteq> 0x02101180)],
      Put (R32 (K ''SENS_SAR_TOUCH_THRES3_REG'')) 200,
      Put (R32 (K ''SENS_SAR_COCPU_INT_ENA_W1TS_REG'')) (K ''SENS_COCPU_TOUCH_DONE_INT_ENA'' OR K ''SENS_COCPU_TOUCH_ACTIVE_INT_ENA'' OR
        K ''SENS_COCPU_TOUCH_SCAN_DONE_INT_ENA''),
      Put (R32 (K ''SENS_SAR_TOUCH_CONF_REG'')) (K ''SENS_TOUCH_OUTEN''),
      Note 2 [reads (R32 (K ''SENS_SAR_TOUCH_CHN_ST_REG'')) (\<lambda>v. v AND (K ''SENS_TOUCH_MEAS_DONE'' OR shl 1 3) \<noteq> K ''SENS_TOUCH_MEAS_DONE'' OR shl 1 3),
        reads (R32 (K ''SENS_SAR_TOUCH_STATUS3_REG'')) (\<lambda>v. v AND K ''SENS_TOUCH_PAD3_DATA_M'' \<noteq> 0),
        reads (R32 (K ''SENS_SAR_COCPU_INT_ST_REG'')) (\<lambda>v. v AND (K ''SENS_COCPU_TOUCH_DONE_INT_ST'' OR K ''SENS_COCPU_TOUCH_ACTIVE_INT_ST'' OR
          K ''SENS_COCPU_TOUCH_SCAN_DONE_INT_ST'') = 0)],
      Put (R32 (K ''SENS_SAR_COCPU_INT_CLR_REG'')) 0xfff,
      Put (R32 (K ''SENS_SAR_COCPU_INT_ENA_W1TC_REG'')) 0xfff,
      Note 3 [reads (R32 (K ''SENS_SAR_COCPU_INT_ST_REG'')) (\<lambda>v. v \<noteq> 0),
        reads (R32 (K ''SENS_SAR_COCPU_INT_ENA_REG'')) (\<lambda>v. v \<noteq> 0)],
      Put (R32 (K ''RTC_I2C_INT_ENA_REG'')) (K ''RTC_I2C_RX_DATA_INT_ENA''),
      Put (R32 (K ''SENS_SAR_I2C_CTRL_REG'')) (K ''SENS_SAR_I2C_START_FORCE'' OR K ''SENS_SAR_I2C_START'' OR shl 7 11 OR 0x42),
      Note 4 [reads (R32 (K ''RTC_I2C_DATA_REG'')) (\<lambda>v. v AND K ''RTC_I2C_I2C_DONE'' = 0),
        reads (R32 (K ''RTC_I2C_DATA_REG'')) (\<lambda>v. v AND K ''RTC_I2C_I2C_RDATA_M'' \<noteq> 0xff),
        reads (R32 (K ''RTC_I2C_INT_ST_REG'')) (\<lambda>v. v AND K ''RTC_I2C_RX_DATA_INT_ST'' = 0)]]"

definition DR_REG_EXT_MEM_ENC :: u32 where "DR_REG_EXT_MEM_ENC = 0x600cc000"

definition xts_aes_probe :: "(string \<Rightarrow> u32) \<Rightarrow> program" where
  "xts_aes_probe K =
     probe
     [Note 1 [reads (R32 (DR_REG_EXT_MEM_ENC + 0)) (\<lambda>v. v \<noteq> 0),
        reads (R32 (DR_REG_EXT_MEM_ENC + 0x40)) (\<lambda>v. v \<noteq> 0),
        reads (R32 (DR_REG_EXT_MEM_ENC + 0x58)) (\<lambda>v. v \<noteq> 0),
        reads (R32 (DR_REG_EXT_MEM_ENC + 0x5c)) (\<lambda>v. v \<noteq> 0x20200111)],
      Put (R32 (DR_REG_EXT_MEM_ENC + 0x4c)) 1,
      Note 2 [reads (R32 (DR_REG_EXT_MEM_ENC + 0x58)) (\<lambda>v. v \<noteq> 0)],
      Put (R32 (K ''SYSTEM_EXTERNAL_DEVICE_ENCRYPT_DECRYPT_CONTROL_REG'')) (K ''SYSTEM_ENABLE_SPI_MANUAL_ENCRYPT''),
      Put (R32 (DR_REG_EXT_MEM_ENC + 0x44)) 0,
      Put (R32 (DR_REG_EXT_MEM_ENC + 0x48)) 0,
      Put (R32 (DR_REG_EXT_MEM_ENC + 0x40)) 0,
      Put (R32 (DR_REG_EXT_MEM_ENC + 0x00)) 0x03020100,
      Put (R32 (DR_REG_EXT_MEM_ENC + 0x04)) 0x07060504,
      Put (R32 (DR_REG_EXT_MEM_ENC + 0x08)) 0x0b0a0908,
      Put (R32 (DR_REG_EXT_MEM_ENC + 0x0c)) 0x0f0e0d0c,
      Put (R32 (DR_REG_EXT_MEM_ENC + 0x4c)) 1,
      Note 3 [reads (R32 (DR_REG_EXT_MEM_ENC + 0x58)) (\<lambda>v. v \<noteq> 2)],
      Put (R32 (DR_REG_EXT_MEM_ENC + 0x50)) 1,
      Note 4 [reads (R32 (DR_REG_EXT_MEM_ENC + 0x58)) (\<lambda>v. v \<noteq> 3)],
      Put (R32 (DR_REG_EXT_MEM_ENC + 0x54)) 1,
      Note 5 [reads (R32 (DR_REG_EXT_MEM_ENC + 0x58)) (\<lambda>v. v \<noteq> 0)]]"

text \<open>The addresses the linker gives to the objects and functions the probes name.\<close>

record probe_layout =
  secure_entry :: u32
  world1_entry :: u32
  nmi_unmasked :: u32
  message :: u32
  radio_tx_frame :: u32

text \<open>
  \<open>_start\<close> ends in \<open>world1_entry\<close>, which ends in \<open>secure_entry\<close>, which ends in \<open>nmi_unmasked\<close>.
\<close>

definition world_controller_probe :: "(string \<Rightarrow> u32) \<Rightarrow> probe_layout \<Rightarrow> program" where
  "world_controller_probe K V =
     probe
     [Fail 1 [reads (R32 (K ''WCL_CORE_0_ENTRY_CHECK_REG'')) (\<lambda>v. v \<noteq> 2),
        reads (R32 (K ''WCL_CORE_1_ENTRY_CHECK_REG'')) (\<lambda>v. v \<noteq> 2)],
      Put (R32 (K ''WCL_CORE_0_ENTRY_1_ADDR_REG'')) (secure_entry V),
      Put (R32 (K ''WCL_CORE_0_ENTRY_CHECK_REG'')) 2,
      Put (R32 (K ''WCL_CORE_0_MESSAGE_ADDR_REG'')) (message V),
      Put (R32 (K ''WCL_CORE_0_MESSAGE_MAX_REG'')) 3,
      Put (R32 (K ''WCL_CORE_0_WORLD_TRIGGER_ADDR_REG'')) (world1_entry V),
      Put (R32 (K ''WCL_CORE_0_WORLD_PREPARE_REG'')) 2,
      Put (R32 (K ''WCL_CORE_0_WORLD_UPDATE_REG'')) 0,
      Note 2 [reads (R32 (K ''WCL_CORE_0_WORLD_IRAM0_REG'')) (\<lambda>v. v \<noteq> 2),
        reads (R32 (K ''WCL_CORE_0_WORLD_DRAM0_PIF_REG'')) (\<lambda>v. v \<noteq> 2),
        reads (R32 (K ''WCL_CORE_0_WORLD_PHASE_REG'')) (\<lambda>v. v \<noteq> 0)],
      Put (R32 (message V)) 0,
      Put (R32 (message V)) 1,
      Put (R32 (message V)) 2,
      Put (R32 (message V)) 3,
      Note 3 [reads (R32 (K ''WCL_CORE_0_WORLD_IRAM0_REG'')) (\<lambda>v. v \<noteq> 1),
        reads (R32 (K ''WCL_CORE_0_WORLD_DRAM0_PIF_REG'')) (\<lambda>v. v \<noteq> 1),
        reads (R32 (K ''WCL_CORE_0_MESSAGE_PHASE_REG'')) (\<lambda>v. v \<noteq> 1),
        reads (R32 (K ''WCL_CORE_0_STATUSTABLE1_REG'')) (\<lambda>v. v \<noteq> 0x21),
        reads (R32 (K ''WCL_CORE_0_STATUSTABLE_CURRENT_REG'')) (\<lambda>v. v \<noteq> 2)],
      Put (R32 (K ''WCL_CORE_0_NMI_MASK_TRIGGER_ADDR_REG'')) (nmi_unmasked V),
      Put (R32 (K ''WCL_CORE_0_NMI_MASK_DISABLE_REG'')) 0,
      Put (R32 (K ''WCL_CORE_0_NMI_MASK_ENABLE_REG'')) 0,
      Note 4 [reads (R32 (K ''WCL_CORE_0_NMI_MASK_PHASE_REG'')) (\<lambda>v. v \<noteq> 1)],
      Note 5 [reads (R32 (K ''WCL_CORE_0_NMI_MASK_PHASE_REG'')) (\<lambda>v. v \<noteq> 0)]]"

section \<open>ESP32-C6\<close>

definition returning :: "cmd list \<Rightarrow> program" where
  "returning cs = \<lparr>body = cs, handlers = (\<lambda>n. []), exit_register = None\<rparr>"

definition c6_radio_probe :: "(string \<Rightarrow> u32) \<Rightarrow> probe_layout \<Rightarrow> program" where
  "c6_radio_probe K V =
     returning
     [Fail 1 [reads (R32 (K ''IEEE802154_MAC_DATE_REG'')) (\<lambda>v. v AND K ''IEEE802154_MAC_DATE'' \<noteq> 2229794)],
      Fail 2 [reads (R32 (K ''MODEM_SYSCON_DATE_REG'')) (\<lambda>v. v AND K ''MODEM_SYSCON_DATE'' \<noteq> 35676928)],
      Fail 3 [reads (R32 (K ''MODEM_LPCON_DATE_REG'')) (\<lambda>v. v AND K ''MODEM_LPCON_DATE'' \<noteq> 35676736)],
      Put (R32 (K ''MODEM_SYSCON_CLK_CONF_REG'')) (K ''MODEM_SYSCON_CLK_ZB_APB_EN'' OR K ''MODEM_SYSCON_CLK_ZB_MAC_EN'' OR
        K ''MODEM_SYSCON_CLK_MODEM_SEC_CCM_EN''),
      Put (R32 (K ''IEEE802154_CHANNEL_REG'')) 3,
      Put (R32 (K ''IEEE802154_CTRL_CFG_REG'')) (K ''IEEE802154_PROMISCUOUS_MODE'' OR K ''IEEE802154_HW_AUTO_ACK_RX_EN''),
      Put (R32 (K ''IEEE802154_EVENT_EN_REG'')) 0x1fff,
      Put (R32 (K ''IEEE802154_TXDMA_ADDR_REG'')) (radio_tx_frame V),
      Put (R32 (K ''IEEE802154_COMMAND_REG'')) 0x41,
      Poll 1000 (R32 (K ''IEEE802154_EVENT_STATUS_REG'')) (\<lambda>v. v AND 1 \<noteq> 0) 6,
      Put (R32 (K ''IEEE802154_EVENT_STATUS_REG'')) 1,
      Fail 4 [reads (R32 (K ''IEEE802154_EVENT_STATUS_REG'')) (\<lambda>v. v AND 1 \<noteq> 0)],
      Put (R32 (K ''IEEE802154_COMMAND_REG'')) 0x44,
      Poll 1000 (R32 (K ''IEEE802154_EVENT_STATUS_REG'')) (\<lambda>v. v AND shl 1 6 \<noteq> 0) 5]"

text \<open>\<open>pmpaddr15\<close> is a register of the processor, accessed by instructions of its own.\<close>

definition c6_peripheral_probe :: "(string \<Rightarrow> u32) \<Rightarrow> reg \<Rightarrow> program" where
  "c6_peripheral_probe K pmpaddr15 =
     returning
     [Fail 1 [reads (R32 (K ''I2C_DATE_REG(0)'')) (\<lambda>v. v AND 0xffffffff \<noteq> 35656050)],
      Fail 2 [reads (R32 (K ''SPI_DATE_REG(2)'')) (\<lambda>v. v AND 0x0fffffff \<noteq> 35656448)],
      Fail 3 [reads (R32 (K ''I2S_DATE_REG(0)'')) (\<lambda>v. v AND 0x0fffffff \<noteq> 35655792)],
      Fail 4 [reads (R32 (K ''LEDC_DATE_REG'')) (\<lambda>v. v AND 0x0fffffff \<noteq> 34672976)],
      Fail 5 [reads (R32 (K ''RMT_DATE_REG'')) (\<lambda>v. v AND 0x0fffffff \<noteq> 34636307)],
      Fail 6 [reads (R32 (K ''PCNT_DATE_REG'')) (\<lambda>v. v AND 0xffffffff \<noteq> 419898881)],
      Fail 7 [reads (R32 (K ''MCPWM_VERSION_REG(0)'')) (\<lambda>v. v AND 0x0fffffff \<noteq> 35656256)],
      Fail 8 [reads (R32 (K ''PARL_IO_VERSION_REG'')) (\<lambda>v. v AND 0x0fffffff \<noteq> 35660352)],
      Fail 9 [reads (R32 (K ''GDMA_DATE_REG'')) (\<lambda>v. v AND 0xffffffff \<noteq> 35660368)],
      Fail 10 [reads (R32 (K ''APB_SARADC_CTRL_DATE_REG'')) (\<lambda>v. v AND 0xffffffff \<noteq> 35676736)],
      Fail 11 [reads (R32 (K ''SOC_ETM_DATE_REG'')) (\<lambda>v. v AND 0x0fffffff \<noteq> 35664018)],
      Fail 12 [reads (R32 (K ''SYSTIMER_DATE_REG'')) (\<lambda>v. v AND 0xffffffff \<noteq> 35655795)],
      Fail 13 [reads (R32 (K ''LP_UART_DATE_REG'')) (\<lambda>v. v AND 0xffffffff \<noteq> 35656288)],
      Fail 14 [reads (R32 (K ''LP_I2C_DATE_REG'')) (\<lambda>v. v AND 0xffffffff \<noteq> 35656003)],
      Fail 15 [reads (R32 (K ''LP_WDT_DATE_REG'')) (\<lambda>v. v AND 0x7fffffff \<noteq> 34676864)],
      Fail 16 [reads (R32 (K ''AES_DATE_REG'')) (\<lambda>v. v AND 0x3fffffff \<noteq> 538513936)],
      Fail 17 [reads (R32 (K ''SHA_DATE_REG'')) (\<lambda>v. v AND 0x3fffffff \<noteq> 538972713)],
      Fail 18 [reads (R32 (K ''HMAC_DATE_REG'')) (\<lambda>v. v AND 0x3fffffff \<noteq> 538969624)],
      Fail 19 [reads (R32 (K ''RSA_DATE_REG'')) (\<lambda>v. v AND 0x3fffffff \<noteq> 538969624)],
      Fail 20 [reads (R32 (K ''DS_DATE_REG'')) (\<lambda>v. v AND 0x3fffffff \<noteq> 538969624)],
      Fail 21 [reads (R32 (K ''ECC_MULT_DATE_REG'')) (\<lambda>v. v AND 0x0fffffff \<noteq> 35656256)],
      Fail 22 [reads (R32 (K ''EFUSE_DATE_REG'')) (\<lambda>v. v AND 0x0fffffff \<noteq> 35676928)],
      Fail 23 [reads (R32 (K ''IO_MUX_DATE_REG'')) (\<lambda>v. v AND 0x0fffffff \<noteq> 35655776)],
      Fail 24 [reads (R32 (K ''INTMTX_CORE0_INTERRUPT_REG_DATE_REG'')) (\<lambda>v. v AND 0x0fffffff \<noteq> 35664144)],
      Fail 25 [reads (R32 (K ''INTPRI_DATE_REG'')) (\<lambda>v. v AND 0x0fffffff \<noteq> 35655824)],
      Fail 26 [reads (R32 (K ''UHCI_DATE_REG(0)'')) (\<lambda>v. v AND 0xffffffff \<noteq> 35655936)],
      Put (R32 (K ''IO_MUX_GPIO30_REG'')) (K ''FUN_IE'' OR shl 2 (unat (K ''MCU_SEL_S''))),
      Fail 27 [reads (R32 (K ''IO_MUX_GPIO30_REG'')) (\<lambda>v. v AND (K ''FUN_IE'' OR K ''MCU_SEL_M'') \<noteq> K ''FUN_IE'' OR shl 2 (unat (K ''MCU_SEL_S'')))],
      Put (R32 (K ''INTMTX_CORE0_ECC_INTR_MAP_REG'')) 7,
      Fail 28 [reads (R32 (K ''INTMTX_CORE0_ECC_INTR_MAP_REG'')) (\<lambda>v. v AND 0x1f \<noteq> 7)],
      Put (R32 (K ''INTPRI_CORE0_CPU_INT_PRI_7_REG'')) 3,
      Fail 29 [reads (R32 (K ''INTPRI_CORE0_CPU_INT_PRI_7_REG'')) (\<lambda>v. v AND 0xf \<noteq> 3)],
      Put (R32 (K ''SPI_W0_REG(2)'')) 0x00000201,
      Put (R32 (K ''SPI_MS_DLEN_REG(2)'')) 15,
      Put (R32 (K ''SPI_MISC_REG(2)'')) 0,
      Put (R32 (K ''SPI_USER_REG(2)'')) (K ''SPI_USR_MOSI'' OR K ''SPI_USR_MISO''),
      Put (R32 (K ''SPI_CMD_REG(2)'')) (K ''SPI_USR''),
      Fail 30 [reads (R32 (K ''SPI_W0_REG(2)'')) (\<lambda>v. v AND 0xffff \<noteq> 0x0201)],
      Fail 31 [reads (R32 (K ''DR_REG_TWAI0_BASE'' + 0x08)) (\<lambda>v. v AND 0x0c \<noteq> 0x0c)],
      Fail 32 [reads (R32 (K ''DR_REG_HINF_BASE'')) (\<lambda>v. v AND 0xffffffff \<noteq> 0x00926666)],
      Fail 33 [reads (R32 (K ''TIMG_NTIMERS_DATE_REG(0)'')) (\<lambda>v. v AND 0x0fffffff \<noteq> 35676274)],
      Fail 34 [reads (R32 (K ''EXTMEM_DATE_REG'')) (\<lambda>v. v AND 0x0fffffff \<noteq> 0x02202080)],
      Fail 35 [reads (R32 (K ''PMU_DATE_REG'')) (\<lambda>v. v AND 0x7fffffff \<noteq> 35676752)],
      Fail 36 [reads (R32 (K ''LP_AON_DATE_REG'')) (\<lambda>v. v AND 0x7fffffff \<noteq> 35672704)],
      Fail 37 [reads (R32 (K ''LP_TIMER_DATE_REG'')) (\<lambda>v. v AND 0x7fffffff \<noteq> 34672976)],
      Put (R32 (K ''PLIC_MXINT_ENABLE_REG'')) (shl 1 6),
      Put (R32 (K ''PLIC_MXINT6_PRI_REG'')) 7,
      Put (R32 (K ''PLIC_MXINT_THRESH_REG'')) 3,
      Fail 38 [reads (R32 (K ''PLIC_MXINT_ENABLE_REG'')) (\<lambda>v. v AND (shl 1 6) \<noteq> shl 1 6)],
      Fail 39 [reads (R32 (K ''PLIC_MXINT6_PRI_REG'')) (\<lambda>v. v AND 0xf \<noteq> 7)],
      Fail 40 [reads (R32 (K ''PLIC_MXINT_THRESH_REG'')) (\<lambda>v. v AND 0xff \<noteq> 3)],
      Put (R32 (K ''PLIC_UXINT_ENABLE_REG'')) (shl 1 4),
      Put (R32 (K ''PLIC_UXINT4_PRI_REG'')) 5,
      Fail 41 [reads (R32 (K ''PLIC_UXINT_ENABLE_REG'')) (\<lambda>v. v AND (shl 1 4) \<noteq> shl 1 4)],
      Fail 42 [reads (R32 (K ''PLIC_UXINT4_PRI_REG'')) (\<lambda>v. v AND 0xf \<noteq> 5)],
      Put (R32 (K ''CLINT_MINT_MTIME_L_REG'')) 0,
      Put (R32 (K ''CLINT_MINT_MTIMECMP_L_REG'')) 1,
      Put (R32 (K ''CLINT_MINT_TIMECTL_REG'')) 3,
      Fail 43 [reads (R32 (K ''CLINT_MINT_TIMECTL_REG'')) (\<lambda>v. v AND 7 \<noteq> 7)],
      Put (R32 (K ''CLINT_UINT_SIP_REG'')) 1,
      Fail 44 [reads (R32 (K ''CLINT_UINT_SIP_REG'')) (\<lambda>v. v AND 1 \<noteq> 1)],
      Put (R32 (K ''EXTMEM_L1_CACHE_SYNC_ADDR_REG'')) 0x42800000,
      Put (R32 (K ''EXTMEM_L1_CACHE_SYNC_SIZE_REG'')) 64,
      Put (R32 (K ''EXTMEM_L1_CACHE_SYNC_CTRL_REG'')) (K ''EXTMEM_L1_CACHE_INVALIDATE_ENA''),
      Fail 45 [reads (R32 (K ''EXTMEM_L1_CACHE_SYNC_CTRL_REG'')) (\<lambda>v. v AND (shl 1 4) \<noteq> shl 1 4)],
      Put (R32 (K ''PMU_LP_CPU_PWR1_REG'')) (shl 1 4),
      Fail 46 [reads (R32 (K ''PMU_LP_CPU_PWR1_REG'')) (\<lambda>v. v AND 0xffff \<noteq> shl 1 4)],
      Put (R32 (K ''LP_AON_STORE0_REG'')) 0x13579bdf,
      Fail 47 [reads (R32 (K ''LP_AON_STORE0_REG'')) (\<lambda>v. v AND 0xffffffff \<noteq> 0x13579bdf)],
      Put (R32 (K ''LP_TIMER_TAR0_LOW_REG'')) 0x1234,
      Fail 48 [reads (R32 (K ''LP_TIMER_TAR0_LOW_REG'')) (\<lambda>v. v AND 0xffffffff \<noteq> 0x1234)],
      Put pmpaddr15 0x12345,
      Fail 49 [reads pmpaddr15 (\<lambda>v. v \<noteq> 0x12345)]]"

section \<open>Smoke programs on the headers of avr-libc and of the MSP430\<close>

subsection \<open>ATmega328PB\<close>

text \<open>\<open>sei\<close>, \<open>cli\<close> and the \<open>sleep\<close> instruction touch no register of the model: when interrupts are served is up to the chip.\<close>

function avr_recursive_sum :: "u8 \<Rightarrow> u16" where
  "avr_recursive_sum v = (if v = 0 then 0 else ucast v + avr_recursive_sum (v - 1))"
  by pat_completeness auto
termination
  by (relation "measure unat") (simp_all add: unat_minus_one unat_gt_0)

declare avr_recursive_sum.simps [simp del]

definition avr_switch_value :: "u8 \<Rightarrow> u8" where
  "avr_switch_value v = (if v = 0 then 11 else if v = 2 then 29 else if v = 3 then 47 else if v = 7 then 83 else 101)"

definition avr_handlers :: "(string \<Rightarrow> u32) \<Rightarrow> nat \<Rightarrow> hcmd list" where
  "avr_handlers K n =
     (if n = 0 then [H_Put (R8 (K ''TCCR0B'')) 0, H_Put (R8 (K ''TIFR0'')) (shl 1 (unat (K ''TOV0''))), H_Update (R8 (K ''PORTB'')) (\<lambda>v. v XOR shl 1 (unat (K ''PORTB0''))), H_Count 0 0xff]
      else if n = 1 then [H_Put (R8 (K ''PCIFR'')) (shl 1 (unat (K ''PCIF0''))), H_Update (R8 (K ''PORTB'')) (\<lambda>v. v XOR shl 1 (unat (K ''PORTB0''))), H_Count 3 0xff]
      else if n = 2 then [H_Put (R8 (K ''TCCR3B'')) 0, H_Put (R8 (K ''TIFR3'')) (shl 1 (unat (K ''OCF3A''))), H_Count 1 0xff]
      else if n = 3 then [H_Put (R8 (K ''TCCR4B'')) 0, H_Put (R8 (K ''TIFR4'')) (shl 1 (unat (K ''OCF4A''))), H_Count 2 0xff]
      else [])"

text \<open>\<open>if (eeprom_round_trip(address, value) != value)\<close>\<close>

definition eeprom_round_trip :: "(string \<Rightarrow> u32) \<Rightarrow> u32 \<Rightarrow> u32 \<Rightarrow> nat \<Rightarrow> cmd list" where
  "eeprom_round_trip K address data k =
     [Put (R16 (K ''EEAR'')) address,
      Put (R8 (K ''EEDR'')) data,
      Put (R8 (K ''EECR'')) (shl 1 (unat (K ''EEMPE''))),
      Put (R8 (K ''EECR'')) (shl 1 (unat (K ''EEPE''))),
      Put (R16 (K ''EEAR'')) address,
      Put (R8 (K ''EECR'')) (shl 1 (unat (K ''EERE''))),
      Flag k [reads (R8 (K ''EEDR'')) (\<lambda>v. v \<noteq> data)]]"

definition atmega_main :: "(string \<Rightarrow> u32) \<Rightarrow> program" where
  "atmega_main K =
     \<lparr>body =
       [Flag 0 [holds (avr_recursive_sum 12 \<noteq> 78)],
        Flag 1 [holds ((1000 :: u16) div 7 \<noteq> 142)],
        Flag 2 [holds ((1000 :: u16) mod 7 \<noteq> 6)],
        Flag 3 [holds (avr_switch_value 3 \<noteq> 47)],
        Flag 4 [holds ((9 :: u16) + 0x1234 \<noteq> 0x123d)],
        Flag 5 [holds (ABI_LARGE \<noteq> 300)]] @
       eeprom_round_trip K 17 0x5a 6 @
       [Put (R8 (K ''DDRB'')) (shl 1 (unat (K ''DDB0''))),
        Put (R8 (K ''PORTB'')) 0,
        Put (R8 (K ''UCSR0B'')) (shl 1 (unat (K ''TXEN0''))),
        Put (R8 (K ''PCMSK0'')) (shl 1 (unat (K ''PCINT1''))),
        Put (R8 (K ''PCICR'')) (shl 1 (unat (K ''PCIE0''))),
        Put (R8 (K ''OCR0A'')) 15,
        Put (R8 (K ''TIMSK0'')) (shl 1 (unat (K ''TOIE0''))),
        Put (R8 (K ''TCCR0B'')) (shl 1 (unat (K ''CS00''))),
        Put (R16 (K ''OCR3A'')) 7,
        Put (R8 (K ''TIMSK3'')) (shl 1 (unat (K ''OCIE3A''))),
        Put (R8 (K ''TCCR3B'')) (shl 1 (unat (K ''CS30''))),
        Put (R16 (K ''OCR4A'')) 5,
        Put (R8 (K ''TIMSK4'')) (shl 1 (unat (K ''OCIE4A''))),
        Put (R8 (K ''TCCR4B'')) (shl 1 (unat (K ''CS40''))),
        Await_Counts [(0, 1), (1, 1), (2, 1), (3, 1)],
        Flag 7 [reads (R8 (K ''PINB'')) (\<lambda>v. v AND shl 1 (unat (K ''PINB1'')) = 0)]] @
       print_text (R8 (K ''UCSR0A'')) (\<lambda>v. v AND shl 1 (unat (K ''UDRE0'')) \<noteq> 0) (R8 (K ''UDR0'')) (line ''AVR8-PB''),
      handlers = avr_handlers K, exit_register = None\<rparr>"

subsection \<open>MSP430FR2433\<close>

definition msp430_handlers :: "(string \<Rightarrow> u32) \<Rightarrow> nat \<Rightarrow> hcmd list" where
  "msp430_handlers K n =
     (if n = 0 then [H_Put (R16 (K ''TA0CTL'')) (K ''MC__STOP''), H_Update (R8 (K ''P1OUT'')) (\<lambda>v. v XOR K ''BIT0''), H_Count 0 0xffff]
      else if n = 1 then [H_Update (R8 (K ''P1IFG'')) (\<lambda>v. v AND NOT (K ''BIT1'')), H_Update (R8 (K ''P1OUT'')) (\<lambda>v. v XOR K ''BIT0''), H_Count 1 0xffff]
      else [])"

text \<open>The low-power mode of the waiting loop and the return instruction of the handlers leave no trace in the registers.\<close>

definition msp430_main :: "(string \<Rightarrow> u32) \<Rightarrow> program" where
  "msp430_main K =
     \<lparr>body =
       [Put (R16 (K ''WDTCTL'')) (K ''WDTPW'' OR K ''WDTHOLD''),
        Put (R16 (K ''FRCTL0'')) (K ''FRCTLPW'' OR K ''NWAITS_0''),
        Put (R16 (K ''CSCTL1'')) (K ''DCORSEL_0''),
        Flag 0 [holds (recursive_sum (12 :: u16) \<noteq> 78)],
        Flag 1 [holds (dividend div 7 \<noteq> 14285)],
        Flag 2 [holds (dividend mod 7 \<noteq> 5)],
        Flag 3 [holds (switch_value (switch_input :: u16) \<noteq> 47)],
        Flag 4 [holds (ucast (tag main_record) + abi_value main_record \<noteq> 0x123d)],
        Flag 5 [holds (wide main_record \<noteq> 0x89abcdef)],
        Flag 6 [holds (ABI_LARGE \<noteq> 300)],
        Put (R16 0xc100) 0x5aa5,
        Flag 7 [reads (R16 0xc100) (\<lambda>v. v \<noteq> 0x5aa5)],
        Put (R8 (K ''P1OUT'')) 0,
        Put (R8 (K ''P1DIR'')) (K ''BIT0''),
        Update (R8 (K ''P1IES'')) (\<lambda>v. v AND NOT (K ''BIT1'')),
        Update (R8 (K ''P1IFG'')) (\<lambda>v. v AND NOT (K ''BIT1'')),
        Update (R8 (K ''P1IE'')) (\<lambda>v. v OR K ''BIT1''),
        Update (R16 (K ''PM5CTL0'')) (\<lambda>v. v AND NOT (K ''LOCKLPM5'')),
        Put (R16 (K ''UCA0CTLW0'')) (K ''UCSWRST''),
        Put (R16 (K ''UCA0BRW'')) 8,
        Put (R16 (K ''UCA0MCTLW'')) 0,
        Put (R16 (K ''UCA0CTLW0'')) (K ''UCSSEL__SMCLK''),
        Put (R16 (K ''TA0CCR0'')) 15,
        Put (R16 (K ''TA0CCTL0'')) (K ''CCIE''),
        Put (R16 (K ''TA0CTL'')) (K ''TASSEL__SMCLK'' OR K ''MC__UP'' OR K ''TACLR''),
        Put (R16 (K ''UCB0CTLW0'')) (K ''UCSWRST''),
        Put (R16 (K ''UCB0CTLW0'')) (K ''UCSWRST'' OR K ''UCMST'' OR K ''UCMODE_3'' OR K ''UCSYNC''),
        Put (R16 (K ''UCB0I2CSA'')) 0x50,
        Update (R16 (K ''UCB0CTLW0'')) (\<lambda>v. v AND NOT (K ''UCSWRST'')),
        Update (R16 (K ''UCB0CTLW0'')) (\<lambda>v. v OR (K ''UCTR'' OR K ''UCTXSTT'')),
        await (R16 (K ''UCB0CTLW0'')) (\<lambda>v. v AND K ''UCTXSTT'' = 0),
        Put (R16 (K ''UCB0TXBUF'')) 0x10,
        await (R16 (K ''UCB0IFG'')) (\<lambda>v. v AND K ''UCTXIFG'' \<noteq> 0),
        Update (R16 (K ''UCB0CTLW0'')) (\<lambda>v. v OR K ''UCTXSTP''),
        await (R16 (K ''UCB0CTLW0'')) (\<lambda>v. v AND K ''UCTXSTP'' = 0),
        Await_Counts [(0, 1), (1, 1)],
        Flag 8 [reads (R8 (K ''P1IN'')) (\<lambda>v. v AND K ''BIT1'' = 0)]] @
       print_text (R16 (K ''UCA0IFG'')) (\<lambda>v. v AND K ''UCTXIFG'' \<noteq> 0) (R16 (K ''UCA0TXBUF'')) (line ''MSP430X-FR2433''),
      handlers = msp430_handlers K, exit_register = None\<rparr>"

end
