(* ===== verification/Smoke_Suite.thy ===== *)
theory Smoke_Suite
  imports Smoke_Rp Smoke_Esp Vendor_Probes
begin

text \<open>
  All smoke programs together, and what holds of each of them on every chip: what a run that reports success
  has done, what appears on the console, and that the programs end on chips that answer.
\<close>

section \<open>The suite\<close>

definition smoke_suite ::
  "abi \<Rightarrow> samd21_layout \<Rightarrow> u32 \<Rightarrow> (string \<Rightarrow> u32) \<Rightarrow> probe_layout \<Rightarrow> reg \<Rightarrow> program list" where
  "smoke_suite A L base K V csr =
     [samd21_main A L, samd51_main, ra4m1_main A, l432_main A, h743_main, f103_main, f411_main, nrf_main,
      efm8_main A, wch_gpio_main, wch_uart_main, wch_uart2_main, wch_touch_main,
      rp_sio_main, rp_uart_main base, rp_riscv_uart_main, rp_io_main, rp_riscv_io_main, rp2040_io_main, rp_pio_main,
      rp_riscv_pio_main, rp2040_spi_main, rp2350_spi_main, rp2350_spi_riscv_main, rp_i2c_arm_main, rp_i2c_riscv_main,
      rp2040_i2c_main, rp_usb_main,
      c6_gpio_main, c6_uart_main, p4_main, xtensa_main, xtensa_uart_main, xtensa_peripherals_main, xtensa_usb_main,
      m5_main,
      io_mux_probe K, usb_wrap_probe K, peri_backup_probe K, pms_probe K, uhci_probe K, syscon_probe K,
      assist_debug_probe K, extmem_probe K, rtc_i2c_probe K, rtc_io_sdm_probe K, sens_probe K, xts_aes_probe K,
      world_controller_probe K V, c6_radio_probe K V, c6_peripheral_probe K csr, atmega_main K, msp430_main K]"

text \<open>The programs that announce themselves, with the data register of the console and the text.\<close>

definition smoke_consoles :: "abi \<Rightarrow> u32 \<Rightarrow> (program \<times> reg \<times> string) list" where
  "smoke_consoles A base =
     [(samd51_main, samd51_SERCOM0_DATA, line ''SAMD51J19A''),
      (ra4m1_main A, ra4m1_SCI9_TDR, line ''RA4M1''),
      (l432_main A, l432_USART2_TDR, line ''STM32L432''),
      (h743_main, h743_USART3_TDR, line ''STM32H743''),
      (f103_main, f103_USART1_DR, line ''STM32F103''),
      (f411_main, f411_USART2_DR, line ''STM32F411''),
      (nrf_main, nrf_UART_TXD, line ''NRF52840''),
      (wch_uart_main, wch_uart_USART1_DATAR, line ''REMU-WCH''),
      (wch_uart2_main, wch_uart2_USART2_DATAR, line ''REMU-WCH2''),
      (rp_uart_main base, rp_UART_DR base, line ''REMU-RP''),
      (c6_uart_main, c6_uart_UART_FIFO, line ''REMU-ESP''),
      (p4_main, p4_UART0_FIFO, line ''ESP32P4''),
      (xtensa_uart_main, R32 0x60000000, line ''REMU-ESP'')]"

section \<open>The statements are well formed\<close>

lemma list_all_text [simp]:
  "list_all P (print_text ready stop data msg) \<longleftrightarrow>
     msg = [] \<or> P (await ready stop) \<and> list_all (\<lambda>c. P (Put data (of_char c))) msg"
  by (induction msg) (auto simp: print_text_def)

lemma written_text:
  "written r (print_text ready stop data msg @ cs) =
     (if data = r then map (\<lambda>c. clip r (of_char c)) msg else []) @ written r cs"
  by (induction msg) (auto simp: print_text_def)

lemmas checks_defs = size_checks_def record_checks_def expect_def

lemma sound_mcu:
  "list_all sound_cmd (body (samd21_main A L))" "list_all sound_cmd (body samd51_main)"
  "list_all sound_cmd (body (ra4m1_main A))" "list_all sound_cmd (body (l432_main A))"
  "list_all sound_cmd (body h743_main)" "list_all sound_cmd (body f103_main)" "list_all sound_cmd (body f411_main)"
  "list_all sound_cmd (body nrf_main)" "list_all sound_cmd (body (efm8_main A))" "list_all sound_cmd (body wch_gpio_main)"
  "list_all sound_cmd (body wch_uart_main)" "list_all sound_cmd (body wch_uart2_main)"
  "list_all sound_cmd (body wch_touch_main)"
  by (simp_all add: checks_defs list_all_iff samd21_main_def samd21_abi_def samd21_clocks_def samd21_events_def samd21_usb_def
      samd21_dma_def samd21_i2s_def samd21_console_def samd21_serial_def samd21_analog_def samd21_ports_def
      samd21_timers_def samd21_interrupts_def samd51_main_def samd51_uart_write_def ra4m1_main_def ra4m1_abi_def
      l432_main_def l432_abi_def h743_main_def f103_main_def f411_main_def nrf_main_def nrf_uart_write_def
      efm8_main_def efm8_checks_def efm8_uart_text_def efm8_uart_write_def efm8_uart_flush_def
      wch_gpio_main_def wch_uart_main_def wch_uart2_main_def wch_touch_main_def print_text_def)

lemma sound_rp:
  "list_all sound_cmd (body rp_sio_main)" "list_all sound_cmd (body (rp_uart_main base))"
  "list_all sound_cmd (body rp_riscv_uart_main)" "list_all sound_cmd (body rp_io_main)"
  "list_all sound_cmd (body rp_riscv_io_main)" "list_all sound_cmd (body rp2040_io_main)" "list_all sound_cmd (body rp_pio_main)"
  "list_all sound_cmd (body rp_riscv_pio_main)" "list_all sound_cmd (body rp2040_spi_main)"
  "list_all sound_cmd (body rp2350_spi_main)" "list_all sound_cmd (body rp2350_spi_riscv_main)"
  "list_all sound_cmd (body rp_i2c_arm_main)" "list_all sound_cmd (body rp_i2c_riscv_main)"
  "list_all sound_cmd (body rp2040_i2c_main)" "list_all sound_cmd (body rp_usb_main)"
  by (simp_all add: rp_sio_main_def rp_riscv_uart_main_def rp_uart_main_def rp_io_main_def rp_riscv_io_main_def rp2040_io_main_def
      rp_riscv_pio_main_def rp_pio_main_def rp2040_spi_main_def rp2040_check_spi_def rp2350_spi_riscv_main_def
      rp2350_spi_main_def rp2350_check_spi_def rp_i2c_arm_main_def rp_i2c_riscv_main_def rp2040_i2c_main_def rp_i2c_body_def
      rp_usb_main_def print_text_def list_all_iff)

lemma sound_spi3: "list_all sound_cmd (spi3_writes ws h)"
  by (induction ws h rule: spi3_writes.induct)
    (simp_all add: spi3_write_def gpio_high_write_def Let_def split: prod.split)

lemma sound_esp:
  "list_all sound_cmd (body c6_gpio_main)" "list_all sound_cmd (body c6_uart_main)" "list_all sound_cmd (body p4_main)"
  "list_all sound_cmd (body xtensa_main)" "list_all sound_cmd (body xtensa_uart_main)"
  "list_all sound_cmd (body xtensa_peripherals_main)" "list_all sound_cmd (body xtensa_usb_main)"
  "list_all sound_cmd (body m5_main)"
  by (simp_all add: c6_gpio_main_def c6_uart_main_def p4_main_def xtensa_main_def xtensa_uart_main_def
      xtensa_peripherals_main_def CHECK_def xtensa_usb_main_def usb_wait_for_def m5_main_def m5_pins_def m5_i2c_def
      i2c1_write_def i2c1_read8_check_def m5_audio_def m5_infrared_def m5_display_def sound_spi3 list_all_iff [of _ "line _"]
      list.pred_map comp_def del: spi3_writes.simps)

lemma sound_vendor:
  "list_all sound_cmd (body (io_mux_probe K))" "list_all sound_cmd (body (usb_wrap_probe K))"
  "list_all sound_cmd (body (peri_backup_probe K))" "list_all sound_cmd (body (pms_probe K))"
  "list_all sound_cmd (body (uhci_probe K))" "list_all sound_cmd (body (syscon_probe K))"
  "list_all sound_cmd (body (assist_debug_probe K))" "list_all sound_cmd (body (extmem_probe K))"
  "list_all sound_cmd (body (rtc_i2c_probe K))" "list_all sound_cmd (body (rtc_io_sdm_probe K))"
  "list_all sound_cmd (body (sens_probe K))" "list_all sound_cmd (body (xts_aes_probe K))"
  "list_all sound_cmd (body (world_controller_probe K V))" "list_all sound_cmd (body (c6_radio_probe K V))"
  "list_all sound_cmd (body (c6_peripheral_probe K csr))"
  by (simp_all add: io_mux_probe_def usb_wrap_probe_def peri_backup_probe_def pms_probe_def uhci_probe_def syscon_probe_def
      assist_debug_probe_def extmem_probe_def rtc_i2c_probe_def rtc_io_sdm_probe_def sens_probe_def xts_aes_probe_def
      world_controller_probe_def c6_radio_probe_def c6_peripheral_probe_def probe_def returning_def Let_def)

lemma sound_headers: "list_all sound_cmd (body (atmega_main K))" "list_all sound_cmd (body (msp430_main K))"
  by (simp_all add: atmega_main_def eeprom_round_trip_def msp430_main_def print_text_def list_all_iff)

lemma suite_sound: "p \<in> set (smoke_suite A L base K V csr) \<Longrightarrow> list_all sound_cmd (body p)"
  unfolding smoke_suite_def set_simps by (elim insertE emptyE; simp only: sound_mcu sound_rp sound_esp sound_vendor sound_headers)

section \<open>Consoles\<close>

lemma written_puts:
  "written r (map (\<lambda>c. Put data (of_char c)) msg @ cs) =
     (if data = r then map (\<lambda>c. clip r (of_char c)) msg else []) @ written r cs"
  by (induction msg) auto

definition announces :: "program \<Rightarrow> reg \<Rightarrow> string \<Rightarrow> bool" where
  "announces p r msg \<longleftrightarrow>
     list_all (steady r) (body p) \<and> list_all falls_through (body p) \<and> exit_register p \<noteq> Some r \<and>
     written r (body p) = map of_char msg"

lemma announces_stored:
  assumes "announces p r msg" and "perform C n p w = Some (code, w')"
  shows "stored r (did w') = stored r (did w) @ map of_char msg"
proof -
  obtain w1 where r1: "run C (handlers p) n (body p) 0 w = Some (code, w1)"
    and w': "w' = (case exit_register p of None \<Rightarrow> w1 | Some q \<Rightarrow> store C (handlers p) q code w1)"
    using assms(2) by (auto simp: perform_def bind_eq_Some_conv)
  have "stored r (did w1) = stored r (did w) @ written r (body p)"
    using run_stored [OF r1, of r] assms(1) by (auto simp: announces_def)
  then show ?thesis
    using w' assms(1) by (auto simp: announces_def split: option.splits)
qed

lemma clip_char [simp]: "clip r (of_char c) = of_char c"
proof -
  have l: "of_char c < (2 :: nat) ^ 32" "of_char c < (2 :: nat) ^ 8" "of_char c < (2 :: nat) ^ 16"
    using nat_of_char_less_256 [of c] by (simp_all del: nat_of_char_less_256)
  then have n: "unat (of_char c :: u32) = of_char c"
    unfolding of_nat_of_char [symmetric, where 'a = u32] by (simp add: unsigned_of_nat take_bit_nat_eq_self)
  have "take_bit 8 (of_char c :: u32) = of_char c" "take_bit 16 (of_char c :: u32) = of_char c"
    using n l by (simp_all add: word_unat_eq_iff unsigned_take_bit_eq take_bit_nat_eq_self)
  moreover have "(0xff :: u32) = mask 8" "(0xffff :: u32) = mask 16"
    by (simp_all add: mask_eq_exp_minus_1)
  ultimately show ?thesis
    by (cases r) (simp_all only: clip.simps take_bit_eq_mask [symmetric])
qed

text \<open>A statement list that only prints, between lists that do not touch the console.\<close>

lemma steady_parts:
  "list_all (steady r) (print_text ready stop data msg)" "list_all falls_through (print_text ready stop data msg)"
  "list_all (steady r) (map (\<lambda>c. Put data (of_char c)) msg)"
  "list_all falls_through (map (\<lambda>c. Put data (of_char c)) msg)"
  by (simp_all add: list_all_iff print_text_def)

lemma list_all_True: "list_all (\<lambda>c. True) xs"
  by (simp add: list_all_iff)

lemmas console_simps = announces_def steady_parts written_text written_text [where cs = "[]", simplified] written_puts
  written_puts [where cs = "[]", simplified] checks_defs list_all_True

lemma announces_mcu:
  "announces samd51_main samd51_SERCOM0_DATA (line ''SAMD51J19A'')"
  "announces (ra4m1_main A) ra4m1_SCI9_TDR (line ''RA4M1'')"
  "announces (l432_main A) l432_USART2_TDR (line ''STM32L432'')"
  "announces h743_main h743_USART3_TDR (line ''STM32H743'')"
  "announces f103_main f103_USART1_DR (line ''STM32F103'')"
  "announces f411_main f411_USART2_DR (line ''STM32F411'')"
  "announces wch_uart_main wch_uart_USART1_DATAR (line ''REMU-WCH'')"
  "announces wch_uart2_main wch_uart2_USART2_DATAR (line ''REMU-WCH2'')"
  by (simp_all add: console_simps samd51_main_def samd51_uart_write_def samd51_registers ra4m1_main_def ra4m1_abi_def
      ra4m1_registers l432_main_def l432_abi_def l432_registers h743_main_def h743_registers h743_source_def
      h743_destination_def f103_main_def f103_registers f411_main_def f411_registers wch_uart_main_def
      wch_uart_registers wch_uart2_main_def wch_uart2_registers del: of_char_Char)

lemma announces_nrf: "announces nrf_main nrf_UART_TXD (line ''NRF52840'')"
  by (simp add: announces_def nrf_main_def nrf_uart_write_def nrf_registers line_def)

lemma announces_more:
  "announces (rp_uart_main base) (rp_UART_DR base) (line ''REMU-RP'')"
  "announces c6_uart_main c6_uart_UART_FIFO (line ''REMU-ESP'')"
  "announces p4_main p4_UART0_FIFO (line ''ESP32P4'')"
  "announces xtensa_uart_main (R32 0x60000000) (line ''REMU-ESP'')"
  by (simp_all add: console_simps rp_uart_main_def rp_UART_DR_def rp_UART_CR_def
      c6_uart_main_def c6_uart_registers p4_main_def p4_registers xtensa_uart_main_def EXIT_REGISTER_def del: of_char_Char)

section \<open>Chips for evaluation\<close>

text \<open>A chip that answers the reads from a tape and raises no interrupts, and one with every bit set and
  the interrupt 0 always pending.\<close>

definition tape_chip :: "u32 list chip" where
  "tape_chip =
     \<lparr>c_read = (\<lambda>r d. case d of [] \<Rightarrow> (0, []) | v # rest \<Rightarrow> (v, rest)), c_write = (\<lambda>r v d. d), c_irq = (\<lambda>d. ([], d))\<rparr>"

definition eager_chip :: "unit chip" where
  "eager_chip = \<lparr>c_read = (\<lambda>r d. (0xffffffff, d)), c_write = (\<lambda>r v d. d), c_irq = (\<lambda>d. ([0], d))\<rparr>"

definition fresh :: "'d \<Rightarrow> 'd bench" where
  "fresh d = \<lparr>dev = d, counter = (\<lambda>i. 0), journal = []\<rparr>"

definition samd21_sample_layout :: samd21_layout where
  "samd21_sample_layout =
     \<lparr>dmac_source = 0x20000000, dmac_destination = 0x20000004, dmac_descriptor = 0x20000040, dmac_writeback = 0x20000080\<rparr>"

definition probe_sample_layout :: probe_layout where
  "probe_sample_layout =
     \<lparr>secure_entry = 0x40380000, world1_entry = 0x40380010, nmi_unmasked = 0, message = 0x3fc80000, radio_tx_frame = 0x3fc80100\<rparr>"

lemma and_max_u32 [simp]: "(x :: u32) AND 0xffffffff = x"
proof -
  have "(0xffffffff :: u32) = - 1" by simp
  then show ?thesis by (simp only: and.right_neutral)
qed

lemma eager_serve: "isr 0 = tim2_handler \<Longrightarrow> counter (serve eager_chip isr w) 0 = counter w 0 + 1"
  by (simp add: serve_def eager_chip_def tim2_handler_def raw_store_def)

lemma eager_answers:
  assumes "c \<in> set (body (l432_main A))"
  shows "answers eager_chip (handlers (l432_main A)) (\<lambda>w. if counter w 0 = 0 then 1 else 0) c"
proof -
  have t: "c \<in> set (print_text q stop data msg) \<Longrightarrow> c = await q stop \<or> (\<exists>v. c = Put data v)" for q stop data msg
    by (auto simp: print_text_def split: if_splits)
  have "c = await l432_USART2_ISR (\<lambda>v. v AND shl 1 7 \<noteq> 0) \<or> c = Await_Counts [(0, 1)] \<or>
      \<not> (\<exists>ps r stop. c = Await ps r stop) \<and> \<not> (\<exists>ks. c = Await_Counts ks)"
    using assms t by (auto simp: l432_main_def l432_abi_def checks_defs)
  then show ?thesis
  proof (elim disjE)
    assume "c = await l432_USART2_ISR (\<lambda>v. v AND shl 1 7 \<noteq> 0)"
    then show ?thesis
      by (simp add: answers_def load_def raw_load_def eager_chip_def l432_registers)
  next
    assume c: "c = Await_Counts [(0, 1)]"
    show ?thesis
      using eager_serve [of l432_isr] by (simp add: c answers_def l432_main_def l432_isr_def)
  next
    assume "\<not> (\<exists>ps r stop. c = Await ps r stop) \<and> \<not> (\<exists>ks. c = Await_Counts ks)"
    then show ?thesis
      by (cases c) (simp_all add: answers_def)
  qed
qed

lemma eager_returns: "\<exists>code w'. perform eager_chip 2 (l432_main A) w = Some (code, w')"
proof -
  have "run eager_chip (handlers (l432_main A)) 2 (body (l432_main A)) 0 w \<noteq> None"
    by (rule run_returns [where rank = "\<lambda>c w. if counter w 0 = 0 then 1 else 0"]) (simp add: eager_answers)
  then show ?thesis
    by (auto simp: perform_def)
qed

section \<open>Properties\<close>


definition usb_answers :: "u32 list" where
  "usb_answers = [0, 0x3000, 0x10, 0xc0080, 0x01000680, 0x00120000, 0x80000, 0x80000]"






text \<open>The arithmetic, ABI and aggregate checks pass with the type sizes of the targets, before any register is touched.\<close>

definition sdcc_abi :: abi where
  "sdcc_abi = \<lparr>size_char = 1, size_short = 2, size_int = 2, size_long = 4, size_pointer = 3\<rparr>"

lemma recursive_values:
  "recursive_sum (12 :: u16) = 78" "recursive_sum (12 :: u32) = 78" "recursive_count 8 = 8"
  "efm8_cells ! 0 = 3" "efm8_cells ! 7 = 122"
  by code_simp+

lemma abi_checks_pass:
  "run C isr n (samd21_abi arm_abi) 0 w = Some (0, w)" "run C isr n (ra4m1_abi arm_abi) 0 w = Some (0, w)"
  "run C isr n (l432_abi arm_abi) 0 w = Some (0, w)" "run C isr n (efm8_checks sdcc_abi) 0 w = Some (0, w)"
  by (simp_all add: exec_def samd21_abi_def ra4m1_abi_def l432_abi_def efm8_checks_def checks_defs arm_abi_def sdcc_abi_def
      recursive_values switch_value_def switch_input_def dividend_def main_record_def ABI_LARGE_def switch_lane_def
      rotate_left_32_def efm8_record_def MODE_LARGE_def)

text \<open>The Xtensa processor program succeeds exactly when its exception handler ran once.\<close>

lemma xtensa_qualification_outcome:
  "xtensa_qualification_status exceptions = (if exceptions = 1 then 0 else 4)"
proof -
  have "windowed_abi_probe 13 = 0x7f5aafe3" "fst (atomic_probe 0x11223344)" "irom_probe 0x13579bdf = 0x373f373f"
    by code_simp+
  then show ?thesis
    by (simp add: xtensa_qualification_status_def floating_point_probe_def)
qed

end
