(* ===== verification/Vendor_App.thy ===== *)
theory Vendor_App
  imports Evidence
begin

text \<open>
  Applications of the vendor's radio libraries (\<^verbatim>\<open>qualification/radio/vendor-*\<close>).  A library is not part of the
  repository: it answers the calls of the application and runs the application's callbacks whenever it likes.
  This theory has the world of such an application, the operations of its main program, between any two of
  which callbacks may run, and the contract of an application towards its library: a locale with the rules that compute
  what a main program does, whatever the library does.
\<close>

section \<open>The application and its library\<close>

text \<open>Arguments and output parameters of library calls, and arguments of \<open>printf\<close>.\<close>

datatype val = Z int | Raw bytes | Str string

datatype pause = Millis nat | Ticks nat

text \<open>
  What the application does: it calls a library function, which returns a number and fills output parameters, it prints,
  it sleeps (\<open>Millis n\<close> is \<open>vTaskDelay(pdMS_TO_TICKS(n))\<close>, \<open>Ticks n\<close> is \<open>vTaskDelay(n)\<close>).
\<close>

datatype act = Called string "val list" int "val list" | Said string "val list" | Paused pause

text \<open>The story of a run: acts of the main program, callbacks with their data, acts of the callbacks.\<close>

datatype 'e entry = Main act | Callback 'e | In_Callback act

record ('e, 'd) library =
  ask :: "string \<Rightarrow> val list \<Rightarrow> 'd \<Rightarrow> (int \<times> val list) \<times> 'd"
  due :: "'d \<Rightarrow> 'e list \<times> 'd"
  rest :: "pause \<Rightarrow> 'd \<Rightarrow> 'd"

record ('s, 'e, 'd) site =
  vars :: 's
  stack :: 'd
  story :: "'e entry list"

type_synonym ('s, 'e, 'd, 'a) app = "(('s, 'e, 'd) site, 'a) state"

definition tell :: "'e entry \<Rightarrow> ('s, 'e, 'd, unit) app" where
  "tell e = State (\<lambda>w. ((), w\<lparr>story := story w @ [e]\<rparr>))"

definition request :: "('e, 'd) library \<Rightarrow> string \<Rightarrow> val list \<Rightarrow> ('s, 'e, 'd, int \<times> val list) app" where
  "request X f xs = State (\<lambda>w. case ask X f xs (stack w) of (r, d) \<Rightarrow> (r, w\<lparr>stack := d\<rparr>))"

definition peek :: "('s \<Rightarrow> 'a) \<Rightarrow> ('s, 'e, 'd, 'a) app" where
  "peek f = State (\<lambda>w. (f (vars w), w))"

definition poke :: "('s \<Rightarrow> 's) \<Rightarrow> ('s, 'e, 'd, unit) app" where
  "poke f = State (\<lambda>w. ((), w\<lparr>vars := f (vars w)\<rparr>))"

text \<open>Calls and prints in a callback.\<close>

definition cb_query :: "('e, 'd) library \<Rightarrow> string \<Rightarrow> val list \<Rightarrow> ('s, 'e, 'd, int \<times> val list) app" where
  "cb_query X f xs = do {
     r \<leftarrow> request X f xs;
     tell (In_Callback (Called f xs (fst r) (snd r)));
     State_Monad.return r }"

definition cb_call :: "('e, 'd) library \<Rightarrow> string \<Rightarrow> val list \<Rightarrow> ('s, 'e, 'd, int) app" where
  "cb_call X f xs = do { r \<leftarrow> cb_query X f xs; State_Monad.return (fst r) }"

definition cb_print :: "string \<Rightarrow> val list \<Rightarrow> ('s, 'e, 'd, unit) app" where
  "cb_print fmt xs = tell (In_Callback (Said fmt xs))"

fun print_hex :: "string \<Rightarrow> bytes \<Rightarrow> ('s, 'e, 'd, unit) app" where
  "print_hex fmt [] = State_Monad.return ()"
| "print_hex fmt (b # bs) = do { cb_print fmt [Z (uint b)]; print_hex fmt bs }"

section \<open>The main program\<close>

text \<open>The library, and the application's callback functions.\<close>

record ('s, 'e, 'd) setting =
  lib :: "('e, 'd) library"
  react :: "'e \<Rightarrow> ('s, 'e, 'd, unit) app"

fun react_all :: "('s, 'e, 'd) setting \<Rightarrow> 'e list \<Rightarrow> ('s, 'e, 'd, unit) app" where
  "react_all E [] = State_Monad.return ()"
| "react_all E (e # es) = do { tell (Callback e); react E e; react_all E es }"

text \<open>The callbacks that run before the next step of the main program.\<close>

definition serve :: "('s, 'e, 'd) setting \<Rightarrow> ('s, 'e, 'd, unit) app" where
  "serve E = do {
     es \<leftarrow> State (\<lambda>w. case due (lib E) (stack w) of (es, d) \<Rightarrow> (es, w\<lparr>stack := d\<rparr>));
     react_all E es }"

definition query :: "('s, 'e, 'd) setting \<Rightarrow> string \<Rightarrow> val list \<Rightarrow> ('s, 'e, 'd, int \<times> val list) app" where
  "query E f xs = do {
     serve E;
     r \<leftarrow> request (lib E) f xs;
     tell (Main (Called f xs (fst r) (snd r)));
     State_Monad.return r }"

definition call :: "('s, 'e, 'd) setting \<Rightarrow> string \<Rightarrow> val list \<Rightarrow> ('s, 'e, 'd, int) app" where
  "call E f xs = do { r \<leftarrow> query E f xs; State_Monad.return (fst r) }"

definition print :: "('s, 'e, 'd) setting \<Rightarrow> string \<Rightarrow> val list \<Rightarrow> ('s, 'e, 'd, unit) app" where
  "print E fmt xs = do { serve E; tell (Main (Said fmt xs)) }"

definition look :: "('s, 'e, 'd) setting \<Rightarrow> ('s \<Rightarrow> 'a) \<Rightarrow> ('s, 'e, 'd, 'a) app" where
  "look E f = do { serve E; peek f }"

definition assign :: "('s, 'e, 'd) setting \<Rightarrow> ('s \<Rightarrow> 's) \<Rightarrow> ('s, 'e, 'd, unit) app" where
  "assign E f = do { serve E; poke f }"

definition vTaskDelay :: "('s, 'e, 'd) setting \<Rightarrow> pause \<Rightarrow> ('s, 'e, 'd, unit) app" where
  "vTaskDelay E p = do {
     serve E;
     State (\<lambda>w. ((), w\<lparr>stack := rest (lib E) p (stack w)\<rparr>));
     tell (Main (Paused p)) }"

text \<open>\<open>for (n times at most, while c) vTaskDelay(p)\<close>\<close>

primrec wait :: "('s, 'e, 'd) setting \<Rightarrow> nat \<Rightarrow> ('s \<Rightarrow> bool) \<Rightarrow> pause \<Rightarrow> ('s, 'e, 'd, unit) app" where
  "wait E 0 c p = State_Monad.return ()"
| "wait E (Suc n) c p = do {
     b \<leftarrow> look E c;
     if b then do { vTaskDelay E p; wait E n c p } else State_Monad.return () }"

text \<open>Formats end with a newline; \<open>printf\<close> and \<open>fflush(stdout)\<close> put the line out at once.\<close>

definition ln :: "string \<Rightarrow> string" where
  "ln fmt = fmt @ [CHR 0x0a]"

definition flag :: "bool \<Rightarrow> val" where
  "flag b = Z (if b then 1 else 0)"

text \<open>A function body as a sequence of parts; a part that answers \<open>False\<close> returns from the function.\<close>

fun body_of :: "('s, 'e, 'd, bool) app list \<Rightarrow> ('s, 'e, 'd, bool) app" where
  "body_of [] = State_Monad.return True"
| "body_of (M # Ms) = do { b \<leftarrow> M; if b then body_of Ms else State_Monad.return False }"

lemma run_body_append:
  "run_state (body_of (Ms @ Ns)) w =
     (case run_state (body_of Ms) w of (b, w') \<Rightarrow> if b then run_state (body_of Ns) w' else (False, w'))"
  by (induction Ms arbitrary: w) (auto split: prod.splits)

text \<open>\<open>if (result == ESP_OK) result = next;\<close>, repeated.\<close>

fun chain :: "int \<Rightarrow> ('s, 'e, 'd, int) app list \<Rightarrow> int \<Rightarrow> ('s, 'e, 'd, int) app" where
  "chain ok [] r = State_Monad.return r"
| "chain ok (M # Ms) r = (if r = ok then do { r \<leftarrow> M; chain ok Ms r } else State_Monad.return r)"

text \<open>Output parameters: the value the library stored, or the one the variable had.\<close>

definition out_int :: "nat \<Rightarrow> val list \<Rightarrow> int \<Rightarrow> int" where
  "out_int i outs old = (if i < length outs then (case outs ! i of Z v \<Rightarrow> v | _ \<Rightarrow> old) else old)"

definition out_raw :: "val list \<Rightarrow> bytes \<Rightarrow> bytes" where
  "out_raw outs old = (case outs of Raw bs # _ \<Rightarrow> take (length old) bs @ drop (length bs) old | _ \<Rightarrow> old)"

text \<open>\<open>ESP_ERROR_CHECK(f(xs))\<close> aborts on every answer but \<open>ESP_OK\<close>.\<close>

definition ESP_ERROR_CHECK ::
  "('s, 'e, 'd) setting \<Rightarrow> (string \<Rightarrow> int) \<Rightarrow> string \<Rightarrow> val list \<Rightarrow> ('s, 'e, 'd, bool) app" where
  "ESP_ERROR_CHECK E K f xs = do { r \<leftarrow> call E f xs; State_Monad.return (r = K ''ESP_OK'') }"

text \<open>\<open>ESP_ERROR_CHECK(f(xs) != NULL ? ESP_OK : ESP_FAIL)\<close>\<close>

definition check_created ::
  "('s, 'e, 'd) setting \<Rightarrow> (string \<Rightarrow> int) \<Rightarrow> string \<Rightarrow> val list \<Rightarrow> ('s, 'e, 'd, bool) app" where
  "check_created E K f xs = do {
     p \<leftarrow> call E f xs;
     State_Monad.return ((if p \<noteq> 0 then K ''ESP_OK'' else K ''ESP_FAIL'') = K ''ESP_OK'') }"

text \<open>Statements that do not return from the function.\<close>

definition act_of :: "('s, 'e, 'd, 'a) app \<Rightarrow> ('s, 'e, 'd, bool) app" where
  "act_of M = do { _ \<leftarrow> M; State_Monad.return True }"

section \<open>What a run tells\<close>

fun acts :: "'e entry list \<Rightarrow> act list" where
  "acts [] = []"
| "acts (Main a # es) = a # acts es"
| "acts (Callback e # es) = acts es"
| "acts (In_Callback a # es) = acts es"

fun callbacks :: "'e entry list \<Rightarrow> 'e list" where
  "callbacks [] = []"
| "callbacks (Main a # es) = callbacks es"
| "callbacks (Callback e # es) = e # callbacks es"
| "callbacks (In_Callback a # es) = callbacks es"

lemma acts_append [simp]: "acts (es @ fs) = acts es @ acts fs"
  by (induction es rule: acts.induct) simp_all

lemma callbacks_append [simp]: "callbacks (es @ fs) = callbacks es @ callbacks fs"
  by (induction es rule: callbacks.induct) simp_all

text \<open>
  \<open>tells s M Q\<close>: started with variables \<open>s\<close>, \<open>M\<close> returns with a result, variables, further acts of the main program
  and further callbacks that satisfy \<open>Q\<close>, whatever the library does.
\<close>

definition tells ::
  "'s \<Rightarrow> ('s, 'e, 'd, 'a) app \<Rightarrow> ('a \<Rightarrow> 's \<Rightarrow> act list \<Rightarrow> 'e list \<Rightarrow> bool) \<Rightarrow> bool" where
  "tells s M Q \<longleftrightarrow> (\<forall>w. vars w = s \<longrightarrow> (case run_state M w of (r, w') \<Rightarrow> \<exists>as es.
     acts (story w') = acts (story w) @ as \<and> callbacks (story w') = callbacks (story w) @ es \<and> Q r (vars w') as es))"

named_theorems tell_rules \<open>what the operations of a main program tell\<close>

lemma tells_mono: "tells s M Q \<Longrightarrow> (\<And>r t as es. Q r t as es \<Longrightarrow> R r t as es) \<Longrightarrow> tells s M R"
  unfolding tells_def case_prod_beta by blast

lemma tells_return [tell_rules]: "Q a s [] [] \<Longrightarrow> tells s (State_Monad.return a) Q"
  by (simp add: tells_def)

lemma tells_bind [tell_rules]:
  assumes "tells s M (\<lambda>a t as es. tells t (f a) (\<lambda>b u bs fs. Q b u (as @ bs) (es @ fs)))"
  shows "tells s (State_Monad.bind M f) Q"
  unfolding tells_def
proof (intro allI impI)
  fix w :: "('a, 'b, 'c) site"
  assume w: "vars w = s"
  obtain a v where M: "run_state M w = (a, v)" by fastforce
  obtain as es where *: "acts (story v) = acts (story w) @ as" "callbacks (story v) = callbacks (story w) @ es"
    "tells (vars v) (f a) (\<lambda>b u bs fs. Q b u (as @ bs) (es @ fs))"
    using assms w M unfolding tells_def by fastforce
  obtain b u where f: "run_state (f a) v = (b, u)" by fastforce
  obtain bs fs where "acts (story u) = acts (story v) @ bs" "callbacks (story u) = callbacks (story v) @ fs"
    "Q b (vars u) (as @ bs) (es @ fs)"
    using *(3) f unfolding tells_def by fastforce
  with M f * show "case run_state (State_Monad.bind M f) w of (r, w') \<Rightarrow> \<exists>as es.
      acts (story w') = acts (story w) @ as \<and> callbacks (story w') = callbacks (story w) @ es \<and> Q r (vars w') as es"
    by simp
qed

lemma tells_if [tell_rules]:
  "(b \<Longrightarrow> tells s M Q) \<Longrightarrow> (\<not> b \<Longrightarrow> tells s N Q) \<Longrightarrow> tells s (if b then M else N) Q"
  by simp

lemma tells_Let [tell_rules]: "tells s (f x) Q \<Longrightarrow> tells s (let y = x in f y) Q"
  by simp

lemma tells_basic [tell_rules]:
  "Q () s [a] [] \<Longrightarrow> tells s (tell (Main a)) Q" "Q () s [] [e] \<Longrightarrow> tells s (tell (Callback e)) Q"
  "Q () s [] [] \<Longrightarrow> tells s (tell (In_Callback a)) Q" "(\<And>r. R r s [] []) \<Longrightarrow> tells s (request X f xs) R"
  "P (g s) s [] [] \<Longrightarrow> tells s (peek g) P" "Q () (h s) [] [] \<Longrightarrow> tells s (poke h) Q"
  by (simp_all add: tells_def tell_def request_def peek_def poke_def split: prod.splits)

lemma tells_cb [tell_rules]:
  "(\<And>r. P r s [] []) \<Longrightarrow> tells s (cb_query X f xs) P" "(\<And>r. R r s [] []) \<Longrightarrow> tells s (cb_call X f xs) R"
  "Q () s [] [] \<Longrightarrow> tells s (cb_print fmt xs) Q"
  unfolding cb_query_def cb_call_def cb_print_def by (intro tell_rules; simp)+

lemma tells_print_hex [tell_rules]: "Q () s [] [] \<Longrightarrow> tells s (print_hex fmt bs) Q"
  by (induction bs arbitrary: Q) (auto intro!: tell_rules)

text \<open>What a contract says of a run.\<close>

lemma tells_run:
  assumes "tells s M Q" "run_state M w = (r, w')" "vars w = s" "story w = []"
  shows "Q r (vars w') (acts (story w')) (callbacks (story w'))"
  using assms unfolding tells_def by fastforce

section \<open>Evidence of the parts of a program\<close>

text \<open>
  \<open>stage J M n ps qs rs\<close>: from variables that the callbacks so far justify (\<open>J\<close>), the part \<open>M\<close> makes at most \<open>n\<close> acts
  and leaves justified variables; if it does not return from the function, its acts exhibit \<open>ps\<close>, the callbacks during it exhibit
  \<open>qs\<close>, and callbacks like each of \<open>rs\<close> have come by its end.
\<close>

definition stage ::
  "('s \<Rightarrow> 'e list \<Rightarrow> bool) \<Rightarrow> ('s, 'e, 'd, bool) app \<Rightarrow> nat \<Rightarrow> (act \<Rightarrow> bool) list \<Rightarrow> ('e \<Rightarrow> bool) list \<Rightarrow>
   ('e \<Rightarrow> bool) list \<Rightarrow> bool" where
  "stage J M n ps qs rs \<longleftrightarrow> (\<forall>s V. J s V \<longrightarrow> tells s M (\<lambda>b t as es. J t (V @ es) \<and> length as \<le> n \<and>
     (b \<longrightarrow> exhibits ps as \<and> exhibits qs es \<and> (\<forall>r \<in> set rs. list_ex r (V @ es)))))"

lemma stageI:
  "(\<And>s V. J s V \<Longrightarrow> tells s M (\<lambda>b t as es. J t (V @ es) \<and> length as \<le> n \<and>
     (b \<longrightarrow> exhibits ps as \<and> exhibits qs es \<and> (\<forall>r \<in> set rs. list_ex r (V @ es))))) \<Longrightarrow> stage J M n ps qs rs"
  by (simp add: stage_def)

lemma stage_weaken:
  "stage J M n ps qs rs \<Longrightarrow> n \<le> k \<Longrightarrow> ps = ps' \<Longrightarrow> qs = qs' \<Longrightarrow> rs = rs' \<Longrightarrow> stage J M k ps' qs' rs'"
  unfolding stage_def by (intro allI impI, rule tells_mono, blast) auto

lemma stage_run:
  assumes "stage J M n ps qs rs" "run_state M w = (b, w')" "J (vars w) []" "story w = []"
  shows "length (acts (story w')) \<le> n" "b \<Longrightarrow> exhibits ps (acts (story w'))"
    "b \<Longrightarrow> exhibits qs (callbacks (story w'))" "b \<Longrightarrow> r \<in> set rs \<Longrightarrow> list_ex r (callbacks (story w'))"
  using tells_run [OF assms(1) [unfolded stage_def, rule_format, OF assms(3)] assms(2) refl assms(4)] by auto

text \<open>
  \<open>keeps J n M\<close>: \<open>M\<close> makes at most \<open>n\<close> acts and keeps the variables justified, whatever the library does; \<open>within n M\<close>:
  \<open>M\<close> makes at most \<open>n\<close> acts.
\<close>

definition keeps :: "('s \<Rightarrow> 'e list \<Rightarrow> bool) \<Rightarrow> nat \<Rightarrow> ('s, 'e, 'd, 'a) app \<Rightarrow> bool" where
  "keeps J n M \<longleftrightarrow> (\<forall>s V. J s V \<longrightarrow> tells s M (\<lambda>r t as es. J t (V @ es) \<and> length as \<le> n))"

abbreviation within :: "nat \<Rightarrow> ('s, 'e, 'd, 'a) app \<Rightarrow> bool" where
  "within \<equiv> keeps (\<lambda>s V. True)"

lemma keepsI: "(\<And>s V. J s V \<Longrightarrow> tells s M (\<lambda>r t as es. J t (V @ es) \<and> length as \<le> n)) \<Longrightarrow> keeps J n M"
  by (simp add: keeps_def)

lemma withinI: "(\<And>s. tells s M (\<lambda>r t as es. length as \<le> n)) \<Longrightarrow> within n M"
  by (simp add: keeps_def)

lemma keeps_weaken: "keeps J n M \<Longrightarrow> n \<le> k \<Longrightarrow> keeps J k M"
  unfolding keeps_def by (intro allI impI, rule tells_mono, blast) simp

lemma keeps_return: "keeps J 0 (State_Monad.return a)"
  by (simp add: keeps_def tells_return)

lemma keeps_bind:
  assumes "keeps J n M" "\<And>a. keeps J k (f a)"
  shows "keeps J (n + k) (State_Monad.bind M f)"
proof (rule keepsI, rule tells_bind, rule tells_mono)
  show "tells s M (\<lambda>r t as es. J t (V @ es) \<and> length as \<le> n)" if "J s V" for s V
    using assms(1) that by (simp add: keeps_def)
  show "tells t (f r) (\<lambda>b u bs fs. J u (V @ es @ fs) \<and> length (as @ bs) \<le> n + k)"
    if "J t (V @ es) \<and> length as \<le> n" for r t V es and as :: "act list"
    by (rule tells_mono [OF assms(2) [unfolded keeps_def, rule_format, of t "V @ es"]]) (use that in auto)
qed

lemma keeps_if: "keeps J n M \<Longrightarrow> keeps J k N \<Longrightarrow> keeps J (max n k) (if b then M else N)"
  by (simp add: keeps_weaken)

lemma keeps_Nil: "keeps J 0 (body_of [])"
  by (simp add: keeps_return)

lemma keeps_Cons:
  assumes "keeps J n M" "keeps J k (body_of Ms)"
  shows "keeps J (n + k) (body_of (M # Ms))"
proof -
  have "keeps J k (if b then body_of Ms else State_Monad.return False)" for b
    using assms(2) keeps_weaken [OF keeps_return, of k] by auto
  then have "keeps J (n + k) (M \<bind> (\<lambda>b. if b then body_of Ms else State_Monad.return False))"
    by (rule keeps_bind [OF assms(1)])
  then show ?thesis by simp
qed

lemmas keeps_body = keeps_Cons keeps_Nil

lemma keeps_chain:
  "keeps J 0 (chain ok [] r)"
  "keeps J n M \<Longrightarrow> (\<And>r. keeps J k (chain ok Ms r)) \<Longrightarrow> keeps J (n + k) (chain ok (M # Ms) r)"
  using keeps_weaken [OF keeps_return, of "n + k"] by (auto intro: keeps_return keeps_bind)

lemma keeps_act_of: "keeps J n M \<Longrightarrow> keeps J n (act_of M)"
  using keeps_bind [OF _ keeps_return, of J n M] by (simp add: act_of_def)

lemma keeps_stage: "stage J M n ps qs rs \<Longrightarrow> keeps J n M"
  unfolding keeps_def stage_def by (intro allI impI, rule tells_mono, blast) simp

lemma within_run:
  assumes "within n M"
  shows "length (acts (story (snd (run_state M w)))) \<le> length (acts (story w)) + n"
proof -
  obtain r w' where run: "run_state M w = (r, w')" by fastforce
  have "tells (vars w) M (\<lambda>r t as es. length as \<le> n)"
    using assms by (simp add: keeps_def)
  then obtain as where "acts (story w') = acts (story w) @ as" "length as \<le> n"
    using run unfolding tells_def by fastforce
  with run show ?thesis by simp
qed

lemma stage_Nil: "stage J (body_of []) 0 [] [] []"
  by (simp add: stage_def tells_return)

lemma stage_Cons:
  assumes "stage J M n ps qs rs" "stage J (body_of Ms) k ps' qs' rs'"
  shows "stage J (body_of (M # Ms)) (n + k) (ps @ ps') (qs @ qs') (rs @ rs')"
proof (rule stageI)
  fix s V
  assume J: "J s V"
  have more: "tells t (body_of Ms) (\<lambda>b u bs fs. J u (V @ es @ fs) \<and> length (as @ bs) \<le> n + k \<and>
      (b \<longrightarrow> exhibits (ps @ ps') (as @ bs) \<and> exhibits (qs @ qs') (es @ fs) \<and>
         (\<forall>r \<in> set (rs @ rs'). list_ex r (V @ es @ fs))))"
    if "J t (V @ es)" "length as \<le> n" "exhibits ps as" "exhibits qs es" "\<forall>r \<in> set rs. list_ex r (V @ es)" for t as es
    by (rule tells_mono [OF assms(2) [unfolded stage_def, rule_format, OF that(1)]])
      (use that in \<open>auto intro: exhibits_append\<close>)
  show "tells s (body_of (M # Ms)) (\<lambda>b t as es. J t (V @ es) \<and> length as \<le> n + k \<and>
      (b \<longrightarrow> exhibits (ps @ ps') as \<and> exhibits (qs @ qs') es \<and> (\<forall>r \<in> set (rs @ rs'). list_ex r (V @ es))))"
    unfolding body_of.simps
  proof (intro tells_bind tells_mono [OF assms(1) [unfolded stage_def, rule_format, OF J]] tells_if)
    fix b t as es
    assume "J t (V @ es) \<and> length as \<le> n \<and> (b \<longrightarrow> exhibits ps as \<and> exhibits qs es \<and> (\<forall>r \<in> set rs. list_ex r (V @ es)))" "b"
    then show "tells t (body_of Ms) (\<lambda>b u bs fs. J u (V @ es @ fs) \<and> length (as @ bs) \<le> n + k \<and>
      (b \<longrightarrow> exhibits (ps @ ps') (as @ bs) \<and> exhibits (qs @ qs') (es @ fs) \<and>
         (\<forall>r \<in> set (rs @ rs'). list_ex r (V @ es @ fs))))"
      by (intro more) auto
  qed (simp add: tells_return)
qed

lemma stage_bind:
  assumes "keeps J n M" and "\<And>r. stage J (f r) k ps qs rs"
  shows "stage J (State_Monad.bind M f) (n + k) ps qs rs"
proof (rule stageI, rule tells_bind, rule tells_mono [OF assms(1) [unfolded keeps_def, rule_format]])
  fix s V r t and as :: "act list" and es
  assume "J t (V @ es) \<and> length as \<le> n"
  then show "tells t (f r) (\<lambda>b u bs fs. J u (V @ es @ fs) \<and> length (as @ bs) \<le> n + k \<and>
      (b \<longrightarrow> exhibits ps (as @ bs) \<and> exhibits qs (es @ fs) \<and> (\<forall>r \<in> set rs. list_ex r (V @ es @ fs))))"
    by (intro tells_mono [OF assms(2) [unfolded stage_def, rule_format]]) (auto intro: exhibits_skip)
qed

definition called :: "string \<Rightarrow> val list \<Rightarrow> int \<Rightarrow> act \<Rightarrow> bool" where
  "called f xs r a \<longleftrightarrow> (\<exists>outs. a = Called f xs r outs)"

definition invoked :: "string \<Rightarrow> val list \<Rightarrow> act \<Rightarrow> bool" where
  "invoked f xs a \<longleftrightarrow> (\<exists>r outs. a = Called f xs r outs)"

definition succeeded :: "string \<Rightarrow> int \<Rightarrow> act \<Rightarrow> bool" where
  "succeeded f r a \<longleftrightarrow> (\<exists>xs outs. a = Called f xs r outs)"

definition said :: "string \<Rightarrow> act \<Rightarrow> bool" where
  "said fmt a \<longleftrightarrow> (\<exists>xs. a = Said fmt xs)"

lemma act_patterns [simp]:
  "called f xs r (Called g ys q outs) \<longleftrightarrow> g = f \<and> ys = xs \<and> q = r" "\<not> called f xs r (Said h ys)" "\<not> called f xs r (Paused p)"
  "invoked f xs (Called g ys q outs) \<longleftrightarrow> g = f \<and> ys = xs" "\<not> invoked f xs (Said h ys)" "\<not> invoked f xs (Paused p)"
  "succeeded f r (Called g ys q outs) \<longleftrightarrow> g = f \<and> q = r" "\<not> succeeded f r (Said h ys)" "\<not> succeeded f r (Paused p)"
  "said h (Said g ys) \<longleftrightarrow> g = h" "\<not> said h (Called f xs r outs)" "\<not> said h (Paused p)"
  by (auto simp: called_def invoked_def succeeded_def said_def)

section \<open>The contract of an application\<close>

text \<open>
  The main program shares its variables with callbacks.  All that counting its acts needs of a callback is that it
  makes none of them.
\<close>

locale callback_app =
  fixes E :: "('s, 'e, 'd) setting"
  assumes quiet: "tells s (react E e) (\<lambda>r t as es. as = [] \<and> es = [])"
begin

lemma quiet_react_all: "tells s (react_all E evs) (\<lambda>r t as es. as = [] \<and> es = evs)"
proof (induction evs arbitrary: s)
  case (Cons e evs)
  have "tells t (react_all E evs) (\<lambda>r u as es. as = [] \<and> e # es = e # evs)" for t
    by (rule tells_mono [OF Cons.IH]) simp
  then show ?case
    by (auto intro!: tells_bind tells_basic tells_mono [OF quiet])
qed (simp add: tells_return)

lemma quiet_serve:
  assumes "\<And>t evs. Q () t [] evs"
  shows "tells s (serve E) Q"
proof -
  have "tells t (react_all E evs) Q" for t evs
    by (rule tells_mono [OF quiet_react_all]) (use assms in auto)
  then have "tells s (State (\<lambda>w. case due (lib E) (stack w) of (es, d) \<Rightarrow> (es, w\<lparr>stack := d\<rparr>)))
      (\<lambda>a t as es. tells t (react_all E a) (\<lambda>b u bs fs. Q b u (as @ bs) (es @ fs)))"
    by (subst tells_def) (simp split: prod.splits)
  then show ?thesis
    unfolding serve_def by (rule tells_bind)
qed

lemma quiet_ops:
  "(\<And>r t evs. P r t [Called f xs (fst r) (snd r)] evs) \<Longrightarrow> tells s (query E f xs) P"
  "(\<And>r outs t evs. R r t [Called f xs r outs] evs) \<Longrightarrow> tells s (call E f xs) R"
  "(\<And>t evs. Q () t [Said fmt xs] evs) \<Longrightarrow> tells s (print E fmt xs) Q"
  "(\<And>t evs. S (g t) t [] evs) \<Longrightarrow> tells s (look E g) S"
  "(\<And>t evs. Q () (h t) [] evs) \<Longrightarrow> tells s (assign E h) Q"
  "(\<And>t evs. Q () t [Paused p] evs) \<Longrightarrow> tells s (vTaskDelay E p) Q"
proof -
  show "(\<And>r t evs. P r t [Called f xs (fst r) (snd r)] evs) \<Longrightarrow> tells s (query E f xs) P"
    "(\<And>r outs t evs. R r t [Called f xs r outs] evs) \<Longrightarrow> tells s (call E f xs) R"
    "(\<And>t evs. Q () t [Said fmt xs] evs) \<Longrightarrow> tells s (print E fmt xs) Q"
    "(\<And>t evs. S (g t) t [] evs) \<Longrightarrow> tells s (look E g) S"
    "(\<And>t evs. Q () (h t) [] evs) \<Longrightarrow> tells s (assign E h) Q"
    unfolding query_def call_def print_def look_def assign_def by (intro tell_rules quiet_serve; simp)+
  have "tells t (do { State (\<lambda>w. ((), w\<lparr>stack := rest (lib E) p (stack w)\<rparr>)); tell (Main (Paused p)) })
      (\<lambda>b u bs fs. bs = [Paused p] \<and> fs = [])" for t
    by (rule tells_bind) (simp add: tells_def tell_def)
  note pause = this
  show "(\<And>t evs. Q () t [Paused p] evs) \<Longrightarrow> tells s (vTaskDelay E p) Q"
    unfolding vTaskDelay_def by (intro tells_bind [where M = "serve E"] quiet_serve tells_mono [OF pause]) simp
qed

lemma quiet_wait: "(\<And>k t evs. k \<le> n \<Longrightarrow> Q () t (replicate k (Paused p)) evs) \<Longrightarrow> tells s (wait E n c p) Q"
proof (induction n arbitrary: Q s)
  case 0
  then show ?case using 0 [of 0 _ "[]"] by (simp add: tells_return)
next
  case (Suc n)
  show ?case
    unfolding wait.simps
  proof (intro tells_bind quiet_ops tells_if tells_return Suc.IH)
    fix evs evs' k u evs''
    assume "k \<le> n"
    then show "Q () u ([] @ [Paused p] @ replicate k (Paused p)) (evs @ evs' @ evs'')"
      using Suc.prems [of "Suc k" u "evs @ evs' @ evs''"] by simp
  next
    fix t evs
    show "Q () t ([] @ []) (evs @ [])"
      using Suc.prems [of 0 t evs] by simp
  qed
qed

lemma within_ops:
  "within 1 (query E f xs)" "within 1 (call E f xs)" "within 1 (print E fmt xs)" "within 0 (look E g)"
  "within 0 (assign E h)" "within 1 (vTaskDelay E p)" "within n (wait E n c p)"
  "within 1 (ESP_ERROR_CHECK E K f xs)" "within 1 (check_created E K f xs)"
  unfolding ESP_ERROR_CHECK_def check_created_def
  by (intro withinI tells_bind tells_return quiet_ops quiet_wait; simp)+

end

text \<open>
  The callbacks change the variables as \<open>eff\<close> says, whatever the library answers to the calls they make.  Then a step of
  the main program sees the variables after any number of callbacks.
\<close>

locale vendor_app =
  fixes E :: "('s, 'e, 'd) setting"
    and eff :: "'e \<Rightarrow> 's \<Rightarrow> 's"
  assumes reacts: "tells s (react E e) (\<lambda>r t as es. t = eff e s \<and> as = [] \<and> es = [])"
begin

lemma tells_react_all: "tells s (react_all E evs) (\<lambda>r t as es. t = fold eff evs s \<and> as = [] \<and> es = evs)"
proof (induction evs arbitrary: s)
  case (Cons e evs)
  have *: "tells (eff e s) (react_all E evs) (\<lambda>r t as es. t = fold eff (e # evs) s \<and> as = [] \<and> e # es = e # evs)"
    by (rule tells_mono [OF Cons.IH]) simp
  show ?case
    by (auto intro!: tells_bind tells_basic tells_mono [OF reacts] tells_mono [OF *])
qed (simp add: tells_return)

lemma tells_serve:
  assumes "\<And>evs. Q () (fold eff evs s) [] evs"
  shows "tells s (serve E) Q"
proof -
  have "tells s (react_all E evs) Q" for evs
    by (rule tells_mono [OF tells_react_all]) (use assms in auto)
  then have "tells s (State (\<lambda>w. case due (lib E) (stack w) of (es, d) \<Rightarrow> (es, w\<lparr>stack := d\<rparr>)))
      (\<lambda>a t as es. tells t (react_all E a) (\<lambda>b u bs fs. Q b u (as @ bs) (es @ fs)))"
    by (subst tells_def) (simp split: prod.splits)
  then show ?thesis
    unfolding serve_def by (rule tells_bind)
qed

lemma tells_ops [tell_rules]:
  "(\<And>r evs. P r (fold eff evs s) [Called f xs (fst r) (snd r)] evs) \<Longrightarrow> tells s (query E f xs) P"
  "(\<And>r outs evs. R r (fold eff evs s) [Called f xs r outs] evs) \<Longrightarrow> tells s (call E f xs) R"
  "(\<And>evs. Q () (fold eff evs s) [Said fmt xs] evs) \<Longrightarrow> tells s (print E fmt xs) Q"
  "(\<And>evs. S (g (fold eff evs s)) (fold eff evs s) [] evs) \<Longrightarrow> tells s (look E g) S"
  "(\<And>evs. Q () (h (fold eff evs s)) [] evs) \<Longrightarrow> tells s (assign E h) Q"
  "(\<And>evs. Q () (fold eff evs s) [Paused p] evs) \<Longrightarrow> tells s (vTaskDelay E p) Q"
proof -
  show "(\<And>r evs. P r (fold eff evs s) [Called f xs (fst r) (snd r)] evs) \<Longrightarrow> tells s (query E f xs) P"
    "(\<And>r outs evs. R r (fold eff evs s) [Called f xs r outs] evs) \<Longrightarrow> tells s (call E f xs) R"
    "(\<And>evs. Q () (fold eff evs s) [Said fmt xs] evs) \<Longrightarrow> tells s (print E fmt xs) Q"
    "(\<And>evs. S (g (fold eff evs s)) (fold eff evs s) [] evs) \<Longrightarrow> tells s (look E g) S"
    "(\<And>evs. Q () (h (fold eff evs s)) [] evs) \<Longrightarrow> tells s (assign E h) Q"
    unfolding query_def call_def print_def look_def assign_def by (intro tell_rules tells_serve; simp)+
  have "tells t (State (\<lambda>w. ((), w\<lparr>stack := rest (lib E) p (stack w)\<rparr>)))
      (\<lambda>a u as es. tells u (tell (Main (Paused p))) (\<lambda>b u bs fs. u = t \<and> as @ bs = [Paused p] \<and> es @ fs = []))" for t
    by (simp add: tells_def tell_def)
  then have *: "tells t (do { State (\<lambda>w. ((), w\<lparr>stack := rest (lib E) p (stack w)\<rparr>)); tell (Main (Paused p)) })
      (\<lambda>b u bs fs. u = t \<and> bs = [Paused p] \<and> fs = [])" for t
    by (rule tells_bind)
  show "(\<And>evs. Q () (fold eff evs s) [Paused p] evs) \<Longrightarrow> tells s (vTaskDelay E p) Q"
    unfolding vTaskDelay_def by (intro tells_bind [where M = "serve E"] tells_serve tells_mono [OF *]) simp
qed

lemma justified_later:
  assumes "\<And>s V e. J s V \<Longrightarrow> J (eff e s) (V @ [e])" "J s V"
  shows "J (fold eff evs s) (V @ evs)"
  using assms(2)
proof (induction evs arbitrary: s V)
  case (Cons e evs)
  from Cons.IH [OF assms(1) [OF Cons.prems]] show ?case by simp
qed simp

text \<open>A flag that only callbacks raise is up only if it was, or if one of these callbacks has come.\<close>

lemma raised:
  assumes "\<And>e s. f (eff e s) \<longleftrightarrow> q e \<or> f s"
  shows "f (fold eff evs s) \<longleftrightarrow> f s \<or> list_ex q evs"
  by (induction evs arbitrary: s) (auto simp: assms)

text \<open>A condition that only these callbacks can bring about.\<close>

lemma caused:
  assumes "\<And>e s. P (eff e s) \<Longrightarrow> P s \<or> q e"
  shows "P (fold eff evs s) \<Longrightarrow> P s \<or> list_ex q evs"
proof (induction evs arbitrary: s)
  case (Cons e evs)
  then have "P (eff e s) \<or> list_ex q evs" by simp
  then show ?case using assms by auto
qed simp

text \<open>A wait pauses until its condition no longer holds, or until the turns are used up.\<close>

lemma tells_wait [tell_rules]:
  "(\<And>k evs. k \<le> n \<Longrightarrow> k < n \<longrightarrow> \<not> c (fold eff evs s) \<Longrightarrow> Q () (fold eff evs s) (replicate k (Paused p)) evs) \<Longrightarrow>
   tells s (wait E n c p) Q"
proof (induction n arbitrary: Q s)
  case 0
  then show ?case using 0 [of 0 "[]"] by (simp add: tells_return)
next
  case (Suc n)
  show ?case
    unfolding wait.simps
  proof (intro tells_bind tells_ops tells_if tells_return Suc.IH)
    fix evs evs' k evs''
    assume "k \<le> n" "k < n \<longrightarrow> \<not> c (fold eff evs'' (fold eff evs' (fold eff evs s)))"
    then show "Q () (fold eff evs'' (fold eff evs' (fold eff evs s)))
        ([] @ [Paused p] @ replicate k (Paused p)) (evs @ evs' @ evs'')"
      using Suc.prems [of "Suc k" "evs @ evs' @ evs''"] by simp
  next
    fix evs
    assume "\<not> c (fold eff evs s)"
    then show "Q () (fold eff evs s) ([] @ []) (evs @ [])"
      using Suc.prems [of 0 evs] by simp
  qed
qed

text \<open>The acts of the operations, counted; justifications that hold on as callbacks come are kept.\<close>

lemma keeps_ops:
  assumes "\<And>s V evs. J s V \<Longrightarrow> J (fold eff evs s) (V @ evs)"
  shows "keeps J 1 (query E f xs)" "keeps J 1 (call E f xs)" "keeps J 1 (print E fmt xs)" "keeps J 0 (look E g)"
    "keeps J 1 (vTaskDelay E p)" "keeps J n (wait E n c p)"
  by (intro keepsI tell_rules; simp add: assms)+

end

sublocale vendor_app \<subseteq> callback_app E
proof
  show "tells s (react E e) (\<lambda>r t as es. as = [] \<and> es = [])" for s e
    by (rule tells_mono [OF reacts]) simp
qed

end
