(* ===== verification/Vendor_Story.thy ===== *)
theory Vendor_Story
  imports Vendor_App
begin

text \<open>
  The order of a run.  \<open>Vendor_App\<close> follows the acts of a main program and the callbacks of its library side by side; this
  theory follows them in one sequence, so that a program's claims (the lines it prints) can be compared with what the library
  had reported by then.  The rules are the same for every view of the story; the contract of an application gives them for
  the view that leaves out what callbacks do.
\<close>

section \<open>What a run adds to a view of the story\<close>

definition recounts ::
  "(('s, 'e, 'd) site \<Rightarrow> 'x list) \<Rightarrow> 's \<Rightarrow> ('s, 'e, 'd, 'a) app \<Rightarrow> ('a \<Rightarrow> 's \<Rightarrow> 'x list \<Rightarrow> bool) \<Rightarrow> bool" where
  "recounts view s M Q \<longleftrightarrow> (\<forall>w. vars w = s \<longrightarrow>
     (case run_state M w of (r, w') \<Rightarrow> \<exists>xs. view w' = view w @ xs \<and> Q r (vars w') xs))"

named_theorems story_rules \<open>what the operations of a main program add to the story\<close>

lemma recounts_mono: "recounts v s M Q \<Longrightarrow> (\<And>r t xs. Q r t xs \<Longrightarrow> R r t xs) \<Longrightarrow> recounts v s M R"
  unfolding recounts_def case_prod_beta by blast

lemma recounts_return [story_rules]: "Q a s [] \<Longrightarrow> recounts v s (State_Monad.return a) Q"
  by (simp add: recounts_def)

lemma recounts_bind [story_rules]:
  assumes "recounts v s M (\<lambda>a t xs. recounts v t (f a) (\<lambda>b u ys. Q b u (xs @ ys)))"
  shows "recounts v s (State_Monad.bind M f) Q"
  unfolding recounts_def
proof (intro allI impI)
  fix w :: "('a, 'b, 'c) site"
  assume w: "vars w = s"
  obtain a u where M: "run_state M w = (a, u)" by fastforce
  obtain xs where xs: "v u = v w @ xs" "recounts v (vars u) (f a) (\<lambda>b u ys. Q b u (xs @ ys))"
    using assms w M unfolding recounts_def by fastforce
  obtain b u' where f: "run_state (f a) u = (b, u')" by fastforce
  obtain ys where "v u' = v u @ ys" "Q b (vars u') (xs @ ys)"
    using xs(2) f unfolding recounts_def by fastforce
  with M f xs show "case run_state (State_Monad.bind M f) w of (r, w') \<Rightarrow> \<exists>xs. v w' = v w @ xs \<and> Q r (vars w') xs"
    by simp
qed

lemma recounts_if [story_rules]:
  "(b \<Longrightarrow> recounts v s M Q) \<Longrightarrow> (\<not> b \<Longrightarrow> recounts v s N Q) \<Longrightarrow> recounts v s (if b then M else N) Q"
  by simp

lemma recounts_Let [story_rules]: "recounts v s (f x) Q \<Longrightarrow> recounts v s (let y = x in f y) Q"
  by simp

lemma recounts_run:
  assumes "recounts v s M Q" "run_state M w = (r, w')" "vars w = s" "v w = []"
  shows "Q r (vars w') (v w')"
  using assms unfolding recounts_def by fastforce

section \<open>Acts and callbacks in order\<close>

fun tale :: "'e entry list \<Rightarrow> 'e entry list" where
  "tale [] = []"
| "tale (In_Callback a # es) = tale es"
| "tale (Main a # es) = Main a # tale es"
| "tale (Callback e # es) = Callback e # tale es"

lemma tale_append [simp]: "tale (es @ fs) = tale es @ tale fs"
  by (induction es rule: tale.induct) simp_all

lemma tale_same [simp]: "acts (tale es) = acts es" "callbacks (tale es) = callbacks es"
  by (induction es rule: tale.induct) simp_all

definition narrates :: "'s \<Rightarrow> ('s, 'e, 'd, 'a) app \<Rightarrow> ('a \<Rightarrow> 's \<Rightarrow> 'e entry list \<Rightarrow> bool) \<Rightarrow> bool" where
  "narrates = recounts (\<lambda>w. tale (story w))"

lemmas narrates_mono = recounts_mono [where v = "\<lambda>w. tale (story w)", folded narrates_def]
lemmas narrates_bind = recounts_bind [where v = "\<lambda>w. tale (story w)", folded narrates_def]
lemmas narrates_return = recounts_return [where v = "\<lambda>w. tale (story w)", folded narrates_def]
lemmas narrates_control [story_rules] = narrates_return narrates_bind
  recounts_if [where v = "\<lambda>w. tale (story w)", folded narrates_def]
  recounts_Let [where v = "\<lambda>w. tale (story w)", folded narrates_def]

lemma narrates_basic [story_rules]:
  "Q () s [Main a] \<Longrightarrow> narrates s (tell (Main a)) Q" "Q () s [Callback e] \<Longrightarrow> narrates s (tell (Callback e)) Q"
  "Q () s [] \<Longrightarrow> narrates s (tell (In_Callback a)) Q" "(\<And>r. R r s []) \<Longrightarrow> narrates s (request X f xs) R"
  "P (g s) s [] \<Longrightarrow> narrates s (peek g) P" "Q () (h s) [] \<Longrightarrow> narrates s (poke h) Q"
  by (simp_all add: narrates_def recounts_def tell_def request_def peek_def poke_def split: prod.splits)

lemma narrates_cb [story_rules]:
  "(\<And>r. P r s []) \<Longrightarrow> narrates s (cb_query X f xs) P" "(\<And>r. R r s []) \<Longrightarrow> narrates s (cb_call X f xs) R"
  "Q () s [] \<Longrightarrow> narrates s (cb_print fmt xs) Q"
  unfolding cb_query_def cb_call_def cb_print_def by (intro story_rules; simp)+

text \<open>Patterns for the entries of a story.\<close>

fun did :: "(act \<Rightarrow> bool) \<Rightarrow> 'e entry \<Rightarrow> bool" where
  "did p (Main a) \<longleftrightarrow> p a"
| "did p e \<longleftrightarrow> False"

fun heard :: "('e \<Rightarrow> bool) \<Rightarrow> 'e entry \<Rightarrow> bool" where
  "heard q (Callback e) \<longleftrightarrow> q e"
| "heard q e \<longleftrightarrow> False"

definition said_with :: "string \<Rightarrow> (val list \<Rightarrow> bool) \<Rightarrow> act \<Rightarrow> bool" where
  "said_with fmt P a \<longleftrightarrow> (\<exists>xs. a = Said fmt xs \<and> P xs)"

lemma said_with_simps [simp]:
  "said_with h P (Said g ys) \<longleftrightarrow> g = h \<and> P ys" "\<not> said_with h P (Called f xs r outs)" "\<not> said_with h P (Paused p)"
  by (auto simp: said_with_def)

lemma of_callbacks [simp]: "acts (map Callback evs) = []" "callbacks (map Callback evs) = evs"
  by (induction evs) simp_all

lemma heard_in [simp]: "list_ex (heard q) xs \<longleftrightarrow> list_ex q (callbacks xs)"
  by (induction xs rule: callbacks.induct) simp_all

lemma did_in [simp]: "list_ex (did p) xs \<longleftrightarrow> list_ex p (acts xs)"
  by (induction xs rule: acts.induct) simp_all

text \<open>\<open>p\<close> before \<open>q\<close>: an event like \<open>p\<close> comes in the trace before one like \<open>q\<close>.\<close>

lemma exhibits_pair_second: "exhibits [p, q] xs \<Longrightarrow> list_ex q xs"
  using exhibits_Cons_D [of p "[q]" xs] by (simp add: exhibits_single)

lemma exhibits_pair_append [simp]:
  "exhibits [p, q] (xs @ ys) \<longleftrightarrow> exhibits [p, q] xs \<or> list_ex p xs \<and> list_ex q ys \<or> exhibits [p, q] ys"
proof (induction xs)
  case (Cons x xs)
  then show ?case
    by (cases "p x") (auto simp: exhibits_single dest: exhibits_pair_second)
qed simp

lemma exhibits_pair_single [simp]: "\<not> exhibits [p, q] [x]"
  by (cases "p x") simp_all

text \<open>
  \<open>clear_between f p q\<close>: an event like \<open>p\<close> comes in the trace, and behind it one like \<open>q\<close> with nothing like \<open>f\<close> in between.
\<close>

fun spared :: "('a \<Rightarrow> bool) \<Rightarrow> ('a \<Rightarrow> bool) \<Rightarrow> 'a list \<Rightarrow> bool" where
  "spared f q [] \<longleftrightarrow> False"
| "spared f q (x # xs) \<longleftrightarrow> q x \<or> \<not> f x \<and> spared f q xs"

fun clear_between :: "('a \<Rightarrow> bool) \<Rightarrow> ('a \<Rightarrow> bool) \<Rightarrow> ('a \<Rightarrow> bool) \<Rightarrow> 'a list \<Rightarrow> bool" where
  "clear_between f p q [] \<longleftrightarrow> False"
| "clear_between f p q (x # xs) \<longleftrightarrow> p x \<and> spared f q xs \<or> clear_between f p q xs"

lemma spared_before: "spared f q xs \<Longrightarrow> spared f q (xs @ ys)"
  by (induction xs) auto

lemma clear_between_append: "clear_between f p q xs \<or> clear_between f p q ys \<Longrightarrow> clear_between f p q (xs @ ys)"
  by (induction xs) (auto intro: spared_before)

lemma clear_callbacks [simp]:
  "spared (heard f) (did q) (map Callback evs @ xs) \<longleftrightarrow> \<not> list_ex f evs \<and> spared (heard f) (did q) xs"
  "clear_between (heard f) (did p) (did q) (map Callback evs @ xs) \<longleftrightarrow> clear_between (heard f) (did p) (did q) xs"
  by (induction evs) auto

lemma clear_here: "p x \<Longrightarrow> spared f q xs \<Longrightarrow> clear_between f p q (x # xs)"
  by simp

lemma clear_skip: "clear_between f p q ys \<Longrightarrow> clear_between f p q (xs @ ys)"
  by (simp add: clear_between_append)

declare clear_between.simps(2) [simp del]

section \<open>The contract of an application, in order\<close>

locale vendor_story =
  fixes E :: "('s, 'e, 'd) setting"
    and eff :: "'e \<Rightarrow> 's \<Rightarrow> 's"
  assumes narrated: "narrates s (react E e) (\<lambda>r t xs. t = eff e s \<and> xs = [])"
begin

lemma narrates_react_all:
  "narrates s (react_all E evs) (\<lambda>r t xs. t = fold eff evs s \<and> xs = map Callback evs)"
proof (induction evs arbitrary: s)
  case (Cons e evs)
  have *: "narrates (eff e s) (react_all E evs) (\<lambda>r t xs. t = fold eff (e # evs) s \<and> Callback e # xs = map Callback (e # evs))"
    by (rule narrates_mono [OF Cons.IH]) simp
  show ?case
    by (auto intro!: narrates_bind narrates_basic narrates_mono [OF narrated] narrates_mono [OF *])
qed (simp add: narrates_return)

lemma narrates_serve:
  assumes "\<And>evs. Q () (fold eff evs s) (map Callback evs)"
  shows "narrates s (serve E) Q"
proof -
  have "narrates s (react_all E evs) Q" for evs
    by (rule narrates_mono [OF narrates_react_all]) (use assms in auto)
  then have "narrates s (State (\<lambda>w. case due (lib E) (stack w) of (es, d) \<Rightarrow> (es, w\<lparr>stack := d\<rparr>)))
      (\<lambda>a t xs. narrates t (react_all E a) (\<lambda>b u ys. Q b u (xs @ ys)))"
    by (subst narrates_def, subst recounts_def) (simp split: prod.splits)
  then show ?thesis
    unfolding serve_def by (rule narrates_bind)
qed

lemma narrates_ops [story_rules]:
  "(\<And>r evs. P r (fold eff evs s) (map Callback evs @ [Main (Called f xs (fst r) (snd r))])) \<Longrightarrow> narrates s (query E f xs) P"
  "(\<And>r outs evs. R r (fold eff evs s) (map Callback evs @ [Main (Called f xs r outs)])) \<Longrightarrow> narrates s (call E f xs) R"
  "(\<And>evs. Q () (fold eff evs s) (map Callback evs @ [Main (Said fmt xs)])) \<Longrightarrow> narrates s (print E fmt xs) Q"
  "(\<And>evs. S (g (fold eff evs s)) (fold eff evs s) (map Callback evs)) \<Longrightarrow> narrates s (look E g) S"
  "(\<And>evs. Q () (h (fold eff evs s)) (map Callback evs)) \<Longrightarrow> narrates s (assign E h) Q"
  "(\<And>evs. Q () (fold eff evs s) (map Callback evs @ [Main (Paused p)])) \<Longrightarrow> narrates s (vTaskDelay E p) Q"
proof -
  show "(\<And>r evs. P r (fold eff evs s) (map Callback evs @ [Main (Called f xs (fst r) (snd r))])) \<Longrightarrow> narrates s (query E f xs) P"
    "(\<And>r outs evs. R r (fold eff evs s) (map Callback evs @ [Main (Called f xs r outs)])) \<Longrightarrow> narrates s (call E f xs) R"
    "(\<And>evs. Q () (fold eff evs s) (map Callback evs @ [Main (Said fmt xs)])) \<Longrightarrow> narrates s (print E fmt xs) Q"
    "(\<And>evs. S (g (fold eff evs s)) (fold eff evs s) (map Callback evs)) \<Longrightarrow> narrates s (look E g) S"
    "(\<And>evs. Q () (h (fold eff evs s)) (map Callback evs)) \<Longrightarrow> narrates s (assign E h) Q"
    unfolding query_def call_def print_def look_def assign_def
    by (intro story_rules narrates_serve; simp)+
  have "narrates t (State (\<lambda>w. ((), w\<lparr>stack := rest (lib E) p (stack w)\<rparr>)))
      (\<lambda>a u xs. narrates u (tell (Main (Paused p))) (\<lambda>b u ys. u = t \<and> xs @ ys = [Main (Paused p)]))" for t
    by (simp add: narrates_def recounts_def tell_def)
  then have *: "narrates t (do { State (\<lambda>w. ((), w\<lparr>stack := rest (lib E) p (stack w)\<rparr>)); tell (Main (Paused p)) })
      (\<lambda>b u xs. u = t \<and> xs = [Main (Paused p)])" for t
    by (rule narrates_bind)
  show "(\<And>evs. Q () (fold eff evs s) (map Callback evs @ [Main (Paused p)])) \<Longrightarrow> narrates s (vTaskDelay E p) Q"
    unfolding vTaskDelay_def by (intro narrates_bind [where M = "serve E"] narrates_serve narrates_mono [OF *]) simp
qed

text \<open>A wait pauses, with callbacks between the pauses, until its condition no longer holds or the turns are used up.\<close>

lemma narrates_wait [story_rules]:
  "(\<And>k xs. k \<le> n \<Longrightarrow> k < n \<longrightarrow> \<not> c (fold eff (callbacks xs) s) \<Longrightarrow> acts xs = replicate k (Paused p) \<Longrightarrow>
      Q () (fold eff (callbacks xs) s) xs) \<Longrightarrow>
   narrates s (wait E n c p) Q"
proof (induction n arbitrary: Q s)
  case 0
  then show ?case using 0 [of 0 "[]"] by (simp add: narrates_return)
next
  case (Suc n)
  show ?case
    unfolding wait.simps
  proof (intro narrates_bind narrates_ops recounts_if [where v = "\<lambda>w. tale (story w)", folded narrates_def] narrates_return Suc.IH)
    fix evs evs' k xs
    assume "k \<le> n" "k < n \<longrightarrow> \<not> c (fold eff (callbacks xs) (fold eff evs' (fold eff evs s)))" "acts xs = replicate k (Paused p)"
    then show "Q () (fold eff (callbacks xs) (fold eff evs' (fold eff evs s)))
        (map Callback evs @ (map Callback evs' @ [Main (Paused p)]) @ xs)"
      using Suc.prems [of "Suc k" "map Callback evs @ (map Callback evs' @ [Main (Paused p)]) @ xs"] by simp
  next
    fix evs
    assume "\<not> c (fold eff evs s)"
    then show "Q () (fold eff evs s) (map Callback evs @ [])"
      using Suc.prems [of 0 "map Callback evs"] by simp
  qed
qed

end

section \<open>Parts of a program, in order\<close>

text \<open>
  \<open>episode J J' M n ps qs rs\<close>: from variables that the story so far justifies (\<open>J\<close>), the part \<open>M\<close> makes at most \<open>n\<close> acts;
  if it does not return from the function, the variables are justified as \<open>J'\<close> says, its acts exhibit \<open>ps\<close>, its acts and
  callbacks exhibit \<open>qs\<close>, and the story with it satisfies each of \<open>rs\<close>, which once true stay true.
\<close>

definition episode ::
  "('s \<Rightarrow> 'e entry list \<Rightarrow> bool) \<Rightarrow> ('s \<Rightarrow> 'e entry list \<Rightarrow> bool) \<Rightarrow> ('s, 'e, 'd, bool) app \<Rightarrow> nat \<Rightarrow> (act \<Rightarrow> bool) list \<Rightarrow>
   ('e entry \<Rightarrow> bool) list \<Rightarrow> ('e entry list \<Rightarrow> bool) list \<Rightarrow> bool" where
  "episode J J' M n ps qs rs \<longleftrightarrow> (\<forall>s V. J s V \<longrightarrow> narrates s M (\<lambda>b t xs. length (acts xs) \<le> n \<and>
     (b \<longrightarrow> J' t (V @ xs) \<and> exhibits ps (acts xs) \<and> exhibits qs xs \<and> list_all (\<lambda>r. r (V @ xs)) rs)))"

definition lasting :: "('a list \<Rightarrow> bool) \<Rightarrow> bool" where
  "lasting r \<longleftrightarrow> (\<forall>xs ys. r xs \<longrightarrow> r (xs @ ys))"

lemma lasting_exhibits: "lasting (exhibits ps)" "lasting (clear_between f p q)"
  by (simp_all add: lasting_def exhibits_before clear_between_append)

lemma episodeI:
  "(\<And>s V. J s V \<Longrightarrow> narrates s M (\<lambda>b t xs. length (acts xs) \<le> n \<and>
     (b \<longrightarrow> J' t (V @ xs) \<and> exhibits ps (acts xs) \<and> exhibits qs xs \<and> list_all (\<lambda>r. r (V @ xs)) rs))) \<Longrightarrow>
   episode J J' M n ps qs rs"
  by (simp add: episode_def)

lemma episode_weaken:
  "episode J J' M n ps qs rs \<Longrightarrow> n \<le> k \<Longrightarrow> ps = ps' \<Longrightarrow> qs = qs' \<Longrightarrow> rs = rs' \<Longrightarrow> episode J J' M k ps' qs' rs'"
  unfolding episode_def by (intro allI impI, rule narrates_mono, blast) auto

lemma episode_Nil: "episode J J (body_of []) 0 [] [] []"
  by (simp add: episode_def narrates_return)

lemma episode_Cons:
  assumes "episode J J' M n ps qs rs" "episode J' J'' (body_of Ms) k ps' qs' rs'" and rs: "list_all lasting rs"
  shows "episode J J'' (body_of (M # Ms)) (n + k) (ps @ ps') (qs @ qs') (rs @ rs')"
proof (rule episodeI)
  fix s V
  assume J: "J s V"
  have more: "narrates t (body_of Ms) (\<lambda>b u ys. length (acts (xs @ ys)) \<le> n + k \<and>
      (b \<longrightarrow> J'' u (V @ xs @ ys) \<and> exhibits (ps @ ps') (acts (xs @ ys)) \<and> exhibits (qs @ qs') (xs @ ys) \<and>
         list_all (\<lambda>r. r (V @ xs @ ys)) (rs @ rs')))"
    if "length (acts xs) \<le> n" "J' t (V @ xs)" "exhibits ps (acts xs)" "exhibits qs xs" "list_all (\<lambda>r. r (V @ xs)) rs" for t xs
  proof (rule narrates_mono [OF assms(2) [unfolded episode_def, rule_format, OF that(2)]])
    fix b u ys
    have "list_all (\<lambda>r. r (V @ xs @ ys)) rs"
      using that(5) rs unfolding list_all_iff lasting_def by (metis append_assoc)
    then show "length (acts ys) \<le> k \<and> (b \<longrightarrow> J'' u ((V @ xs) @ ys) \<and> exhibits ps' (acts ys) \<and> exhibits qs' ys \<and>
        list_all (\<lambda>r. r ((V @ xs) @ ys)) rs') \<Longrightarrow> length (acts (xs @ ys)) \<le> n + k \<and>
        (b \<longrightarrow> J'' u (V @ xs @ ys) \<and> exhibits (ps @ ps') (acts (xs @ ys)) \<and> exhibits (qs @ qs') (xs @ ys) \<and>
           list_all (\<lambda>r. r (V @ xs @ ys)) (rs @ rs'))"
      using that(1,3,4) by (auto intro: exhibits_append)
  qed
  show "narrates s (body_of (M # Ms)) (\<lambda>b t xs. length (acts xs) \<le> n + k \<and>
      (b \<longrightarrow> J'' t (V @ xs) \<and> exhibits (ps @ ps') (acts xs) \<and> exhibits (qs @ qs') xs \<and> list_all (\<lambda>r. r (V @ xs)) (rs @ rs')))"
    unfolding body_of.simps
    by (intro narrates_bind narrates_mono [OF assms(1) [unfolded episode_def, rule_format, OF J]] story_rules more)
      (auto simp: narrates_return)
qed

lemma narrates_conj:
  "narrates s M Q \<Longrightarrow> narrates s M R \<Longrightarrow> narrates s M (\<lambda>r t xs. Q r t xs \<and> R r t xs)"
  unfolding narrates_def recounts_def case_prod_beta by (metis same_append_eq)

text \<open>Evidence of the same part can be gathered separately.\<close>

lemma episode_also:
  assumes "episode J J' M n ps qs rs" "episode J (\<lambda>s V. True) M n [] qs' rs'" "qs = [] \<or> qs' = []"
  shows "episode J J' M n ps (qs @ qs') (rs @ rs')"
proof (rule episodeI)
  fix s V
  assume "J s V"
  then show "narrates s M (\<lambda>b t xs. length (acts xs) \<le> n \<and>
     (b \<longrightarrow> J' t (V @ xs) \<and> exhibits ps (acts xs) \<and> exhibits (qs @ qs') xs \<and> list_all (\<lambda>r. r (V @ xs)) (rs @ rs')))"
    using narrates_conj [OF assms(1) [unfolded episode_def, rule_format, of s V] assms(2) [unfolded episode_def, rule_format, of s V]]
      assms(3) by (auto elim!: narrates_mono)
qed

lemma episode_run:
  assumes "episode J J' M n ps qs rs" "run_state M w = (b, w')" "J (vars w) []" "story w = []"
  shows "length (acts (story w')) \<le> n" "b \<Longrightarrow> exhibits ps (acts (story w'))"
    "b \<Longrightarrow> exhibits qs (tale (story w'))" "b \<Longrightarrow> list_all (\<lambda>r. r (tale (story w'))) rs"
  using recounts_run [OF assms(1) [unfolded episode_def narrates_def, rule_format, OF assms(3)] assms(2) refl] assms(4) by auto

end
