(* ===== verification/Vendor_Ieee802154.thy ===== *)
theory Vendor_Ieee802154
  imports Vendor_Story
begin

text \<open>
  The IEEE 802.15.4 probe, \<^verbatim>\<open>qualification/radio/vendor-ieee802154-probe/main/vendor_ieee802154_probe.c\<close>: it transmits,
  meets a busy channel, retries, receives, measures the energy, filters addresses and exchanges acknowledgements
  through the vendor's driver, and returns at the first step that fails.  The driver's constants are the parameter \<open>K\<close>.
  The variables that one expression reads are read together; callbacks run to their end.
\<close>

section \<open>State and callbacks\<close>

text \<open>What a pointer of the driver points to: its address, and the bytes from there on.\<close>

record buffer =
  address :: int
  content :: "nat \<Rightarrow> u8"

record frame_info =
  rssi :: int
  lqi :: int
  mpf_index :: int
  pending :: bool

record ieee =
  transmit_complete :: bool
  transmit_failed :: bool
  receive_complete :: bool
  energy_detect_complete :: bool
  transmitted_frame :: bytes
  received_frame :: bytes
  transmit_error :: int
  received_rssi :: int
  received_lqi :: int
  received_mpf_index :: int
  received_pending :: bool
  detected_power :: int
  ack_received :: bool
  receive_callback_count :: u32
  received_ack :: bytes
  ack_rssi :: int
  ack_lqi :: int

definition ieee_statics :: ieee where
  "ieee_statics =
     \<lparr>transmit_complete = False, transmit_failed = False, receive_complete = False, energy_detect_complete = False,
      transmitted_frame = replicate 7 0, received_frame = replicate 16 0, transmit_error = 0, received_rssi = 0,
      received_lqi = 0, received_mpf_index = 0, received_pending = False, detected_power = 0, ack_received = False,
      receive_callback_count = 0, received_ack = replicate 6 0, ack_rssi = 0, ack_lqi = 0\<rparr>"

definition transmit_frame :: bytes where "transmit_frame = [6, 0x01, 0x00, 0x2a, 0xa5, 0, 0]"
definition ack_transmit_frame :: bytes where "ack_transmit_frame = [6, 0x21, 0x00, 0x44, 0xa5, 0, 0]"
definition no_ack_transmit_frame :: bytes where "no_ack_transmit_frame = [6, 0x21, 0x00, 0x45, 0xa5, 0, 0]"

datatype ieee_event =
    Transmit_Done buffer "buffer option" "frame_info option" | Transmit_Failed buffer int | Receive_Done buffer frame_info
  | Receive_Sfd_Done | Transmit_Sfd_Done buffer | Energy_Detect_Done int | Receive_At_Done

definition esp_ieee802154_transmit_done ::
  "(ieee_event, 'd) library \<Rightarrow> buffer \<Rightarrow> buffer option \<Rightarrow> frame_info option \<Rightarrow> (ieee, ieee_event, 'd, unit) app" where
  "esp_ieee802154_transmit_done X frame ack ack_info = do {
     poke (transmitted_frame_update (\<lambda>_. map (content frame) [0..<7]));
     (case (ack, ack_info) of
        (Some a, Some i) \<Rightarrow> do {
          poke (received_ack_update (\<lambda>_. map (content a) [0..<6]));
          poke (ack_rssi_update (\<lambda>_. rssi i));
          poke (ack_lqi_update (\<lambda>_. lqi i));
          poke (ack_received_update (\<lambda>_. True));
          _ \<leftarrow> cb_call X ''esp_ieee802154_receive_handle_done'' [Z (address a)];
          State_Monad.return () }
      | _ \<Rightarrow> State_Monad.return ());
     poke (transmit_complete_update (\<lambda>_. True)) }"

definition esp_ieee802154_transmit_failed :: "buffer \<Rightarrow> int \<Rightarrow> (ieee, ieee_event, 'd, unit) app" where
  "esp_ieee802154_transmit_failed frame error = do {
     poke (transmit_error_update (\<lambda>_. error));
     poke (transmit_failed_update (\<lambda>_. True)) }"

definition esp_ieee802154_receive_done ::
  "(ieee_event, 'd) library \<Rightarrow> buffer \<Rightarrow> frame_info \<Rightarrow> (ieee, ieee_event, 'd, unit) app" where
  "esp_ieee802154_receive_done X frame info = do {
     poke (receive_callback_count_update (\<lambda>n. n + 1));
     poke (received_frame_update (\<lambda>_. map (content frame) [0..<16]));
     poke (received_rssi_update (\<lambda>_. rssi info));
     poke (received_lqi_update (\<lambda>_. lqi info));
     poke (received_mpf_index_update (\<lambda>_. mpf_index info));
     poke (received_pending_update (\<lambda>_. pending info));
     poke (receive_complete_update (\<lambda>_. True));
     _ \<leftarrow> cb_call X ''esp_ieee802154_receive_handle_done'' [Z (address frame)];
     State_Monad.return () }"

definition esp_ieee802154_energy_detect_done :: "int \<Rightarrow> (ieee, ieee_event, 'd, unit) app" where
  "esp_ieee802154_energy_detect_done level = do {
     poke (detected_power_update (\<lambda>_. level));
     poke (energy_detect_complete_update (\<lambda>_. True)) }"

fun ieee_react :: "(ieee_event, 'd) library \<Rightarrow> ieee_event \<Rightarrow> (ieee, ieee_event, 'd, unit) app" where
  "ieee_react X (Transmit_Done frame ack info) = esp_ieee802154_transmit_done X frame ack info"
| "ieee_react X (Transmit_Failed frame error) = esp_ieee802154_transmit_failed frame error"
| "ieee_react X (Receive_Done frame info) = esp_ieee802154_receive_done X frame info"
| "ieee_react X Receive_Sfd_Done = State_Monad.return ()"
| "ieee_react X (Transmit_Sfd_Done frame) = State_Monad.return ()"
| "ieee_react X (Energy_Detect_Done level) = esp_ieee802154_energy_detect_done level"
| "ieee_react X Receive_At_Done = State_Monad.return ()"

type_synonym 'd ieee_setting = "(ieee, ieee_event, 'd) setting"
type_synonym 'd ieee_part = "(ieee, ieee_event, 'd, bool) app"

definition ieee_setting :: "(ieee_event, 'd) library \<Rightarrow> 'd ieee_setting" where
  "ieee_setting X = \<lparr>lib = X, react = ieee_react X\<rparr>"

section \<open>The main program\<close>

text \<open>The loops that wait for the end of a transmission, and for a frame.\<close>

definition until_transmitted :: "'d ieee_setting \<Rightarrow> bool \<Rightarrow> nat \<Rightarrow> (ieee, ieee_event, 'd, unit) app" where
  "until_transmitted E started n = wait E n (\<lambda>s. started \<and> \<not> transmit_complete s \<and> \<not> transmit_failed s) (Millis 1)"

definition until_received :: "'d ieee_setting \<Rightarrow> bool \<Rightarrow> nat \<Rightarrow> (ieee, ieee_event, 'd, unit) app" where
  "until_received E started n = wait E n (\<lambda>s. started \<and> \<not> receive_complete s) (Millis 1)"

definition frame_bytes :: "nat \<Rightarrow> bytes \<Rightarrow> val list" where
  "frame_bytes n frame = map (\<lambda>i. Z (uint (frame ! i))) [0..<n]"

definition ieee_enable :: "'d ieee_setting \<Rightarrow> (string \<Rightarrow> int) \<Rightarrow> 'd ieee_part" where
  "ieee_enable E K = do {
     result \<leftarrow> call E ''esp_ieee802154_enable'' [];
     print E (ln ''REMU_VENDOR_IEEE802154_INIT result=%d'') [Z result];
     State_Monad.return (result = K ''ESP_OK'') }"

definition ieee_configure :: "'d ieee_setting \<Rightarrow> (string \<Rightarrow> int) \<Rightarrow> 'd ieee_part" where
  "ieee_configure E K = do {
     result \<leftarrow> call E ''esp_ieee802154_set_channel'' [Z 11];
     result \<leftarrow> chain (K ''ESP_OK'') [call E ''esp_ieee802154_set_promiscuous'' [Z 1]] result;
     channel \<leftarrow> call E ''esp_ieee802154_get_channel'' [];
     promiscuous \<leftarrow> call E ''esp_ieee802154_get_promiscuous'' [];
     print E (ln ''REMU_VENDOR_IEEE802154_CONFIG result=%d channel=%u promiscuous=%u'')
       [Z result, Z channel, flag (promiscuous \<noteq> 0)];
     State_Monad.return (result = K ''ESP_OK'') }"

definition ieee_transmit :: "'d ieee_setting \<Rightarrow> (string \<Rightarrow> int) \<Rightarrow> 'd ieee_part" where
  "ieee_transmit E K = do {
     result \<leftarrow> call E ''esp_ieee802154_transmit'' [Raw transmit_frame, Z 0];
     print E (ln ''REMU_VENDOR_IEEE802154_TX_START result=%d'') [Z result];
     until_transmitted E (result = K ''ESP_OK'') 200;
     failed \<leftarrow> look E transmit_failed;
     if failed then do {
       error \<leftarrow> look E transmit_error;
       print E (ln ''REMU_VENDOR_IEEE802154_TX_FAILED error=%d'') [Z error];
       State_Monad.return False }
     else do {
       complete \<leftarrow> look E transmit_complete;
       if \<not> complete then do {
         print E (ln ''REMU_VENDOR_IEEE802154_TX_TIMEOUT'') [];
         State_Monad.return False }
       else do {
         frame \<leftarrow> look E transmitted_frame;
         print E (ln ''REMU_VENDOR_IEEE802154_TX_DONE length=%u %02x %02x %02x %02x'') (frame_bytes 5 frame);
         State_Monad.return True } } }"

definition ieee_cca_busy :: "'d ieee_setting \<Rightarrow> (string \<Rightarrow> int) \<Rightarrow> 'd ieee_part" where
  "ieee_cca_busy E K = do {
     assign E (transmit_complete_update (\<lambda>_. False));
     assign E (transmit_failed_update (\<lambda>_. False));
     assign E (transmit_error_update (\<lambda>_. - 1));
     result \<leftarrow> call E ''esp_ieee802154_transmit'' [Raw transmit_frame, Z 1];
     print E (ln ''REMU_VENDOR_IEEE802154_CCA_TX_START result=%d'') [Z result];
     until_transmitted E (result = K ''ESP_OK'') 200;
     xs \<leftarrow> look E (\<lambda>s. [flag (transmit_complete s), flag (transmit_failed s), Z (transmit_error s)]);
     print E (ln ''REMU_VENDOR_IEEE802154_CCA_BUSY_DONE complete=%u failed=%u error=%d'') xs;
     stop \<leftarrow> look E (\<lambda>s. transmit_complete s \<or> \<not> transmit_failed s \<or> transmit_error s \<noteq> K ''ESP_IEEE802154_TX_ERR_CCA_BUSY'');
     State_Monad.return (\<not> stop) }"

definition ieee_cca_retry :: "'d ieee_setting \<Rightarrow> (string \<Rightarrow> int) \<Rightarrow> 'd ieee_part" where
  "ieee_cca_retry E K = do {
     vTaskDelay E (Millis 10);
     assign E (transmit_complete_update (\<lambda>_. False));
     assign E (transmit_failed_update (\<lambda>_. False));
     assign E (transmit_error_update (\<lambda>_. - 1));
     result \<leftarrow> call E ''esp_ieee802154_transmit'' [Raw transmit_frame, Z 1];
     print E (ln ''REMU_VENDOR_IEEE802154_CCA_RETRY_START result=%d'') [Z result];
     until_transmitted E (result = K ''ESP_OK'') 200;
     xs \<leftarrow> look E (\<lambda>s. [flag (transmit_complete s), flag (transmit_failed s), Z (transmit_error s)]);
     print E (ln ''REMU_VENDOR_IEEE802154_CCA_RETRY_DONE complete=%u failed=%u error=%d'') xs;
     stop \<leftarrow> look E (\<lambda>s. \<not> transmit_complete s \<or> transmit_failed s);
     State_Monad.return (\<not> stop) }"

definition ieee_receive :: "'d ieee_setting \<Rightarrow> (string \<Rightarrow> int) \<Rightarrow> 'd ieee_part" where
  "ieee_receive E K = do {
     result \<leftarrow> call E ''esp_ieee802154_receive'' [];
     print E (ln ''REMU_VENDOR_IEEE802154_RX_START result=%d'') [Z result];
     until_received E (result = K ''ESP_OK'') 400;
     complete \<leftarrow> look E receive_complete;
     if \<not> complete then do {
       print E (ln ''REMU_VENDOR_IEEE802154_RX_TIMEOUT'') [];
       State_Monad.return False }
     else do {
       xs \<leftarrow> look E (\<lambda>s. frame_bytes 5 (received_frame s) @ [Z (received_rssi s), Z (received_lqi s)]);
       print E (ln ''REMU_VENDOR_IEEE802154_RX_DONE length=%u %02x %02x %02x %02x rssi=%d lqi=%u'') xs;
       State_Monad.return True } }"

definition probe_energy_detect :: "'d ieee_setting \<Rightarrow> (string \<Rightarrow> int) \<Rightarrow> 'd ieee_part" where
  "probe_energy_detect E K = do {
     result \<leftarrow> call E ''esp_ieee802154_energy_detect'' [Z 8];
     print E (ln ''REMU_VENDOR_IEEE802154_ED_START result=%d'') [Z result];
     wait E 200 (\<lambda>s. result = K ''ESP_OK'' \<and> \<not> energy_detect_complete s) (Millis 1);
     complete \<leftarrow> look E energy_detect_complete;
     if \<not> complete then do {
       print E (ln ''REMU_VENDOR_IEEE802154_ED_TIMEOUT'') [];
       State_Monad.return False }
     else do {
       level \<leftarrow> look E detected_power;
       print E (ln ''REMU_VENDOR_IEEE802154_ED_DONE power=%d'') [Z level];
       State_Monad.return True } }"

definition ieee_multipan :: "'d ieee_setting \<Rightarrow> (string \<Rightarrow> int) \<Rightarrow> 'd ieee_part" where
  "ieee_multipan E K = (let pan0 = Z (K ''ESP_IEEE802154_MULTIPAN_0''); pan1 = Z (K ''ESP_IEEE802154_MULTIPAN_1'') in do {
     result \<leftarrow> call E ''esp_ieee802154_set_promiscuous'' [Z 0];
     result \<leftarrow> chain (K ''ESP_OK'')
       [call E ''esp_ieee802154_set_multipan_panid'' [pan0, Z 0x1234],
        call E ''esp_ieee802154_set_multipan_short_address'' [pan0, Z 0x5678],
        call E ''esp_ieee802154_set_multipan_panid'' [pan1, Z 0xabcd],
        call E ''esp_ieee802154_set_multipan_short_address'' [pan1, Z 0x1357],
        call E ''esp_ieee802154_set_multipan_enable''
          [Z (2 ^ nat (K ''ESP_IEEE802154_MULTIPAN_0'') OR 2 ^ nat (K ''ESP_IEEE802154_MULTIPAN_1''))]] result;
     mask \<leftarrow> call E ''esp_ieee802154_get_multipan_enable'' [];
     panid0 \<leftarrow> call E ''esp_ieee802154_get_multipan_panid'' [pan0];
     short0 \<leftarrow> call E ''esp_ieee802154_get_multipan_short_address'' [pan0];
     panid1 \<leftarrow> call E ''esp_ieee802154_get_multipan_panid'' [pan1];
     short1 \<leftarrow> call E ''esp_ieee802154_get_multipan_short_address'' [pan1];
     print E (ln ''REMU_VENDOR_IEEE802154_MULTIPAN result=%d mask=%u pan0=%04x short0=%04x pan1=%04x short1=%04x'')
       [Z result, Z mask, Z panid0, Z short0, Z panid1, Z short1];
     State_Monad.return (result = K ''ESP_OK'') })"

definition ieee_filter :: "'d ieee_setting \<Rightarrow> (string \<Rightarrow> int) \<Rightarrow> 'd ieee_part" where
  "ieee_filter E K = do {
     assign E (receive_complete_update (\<lambda>_. False));
     result \<leftarrow> call E ''esp_ieee802154_receive'' [];
     print E (ln ''REMU_VENDOR_IEEE802154_FILTER_RX_START result=%d'') [Z result];
     result \<leftarrow> chain (K ''ESP_OK'') [do {
       vTaskDelay E (Millis 50);
       result \<leftarrow> call E ''esp_ieee802154_receive'' [];
       print E (ln ''REMU_VENDOR_IEEE802154_FILTER_RX_REARM result=%d'') [Z result];
       State_Monad.return result }] result;
     until_received E (result = K ''ESP_OK'') 500;
     complete \<leftarrow> look E receive_complete;
     if \<not> complete then do {
       print E (ln ''REMU_VENDOR_IEEE802154_FILTER_RX_TIMEOUT'') [];
       State_Monad.return False }
     else do {
       xs \<leftarrow> look E (\<lambda>s. frame_bytes 10 (received_frame s) @
         [Z (received_mpf_index s), Z (received_rssi s), Z (received_lqi s)]);
       print E (ln ''REMU_VENDOR_IEEE802154_FILTER_RX_DONE length=%u %02x %02x %02x %02x %02x %02x %02x %02x %02x mpf=%u rssi=%d lqi=%u'') xs;
       State_Monad.return True } }"

definition probe_auto_ack :: "'d ieee_setting \<Rightarrow> (string \<Rightarrow> int) \<Rightarrow> 'd ieee_part" where
  "probe_auto_ack E K = do {
     assign E (receive_complete_update (\<lambda>_. False));
     assign E (received_pending_update (\<lambda>_. False));
     result \<leftarrow> call E ''esp_ieee802154_receive'' [];
     print E (ln ''REMU_VENDOR_IEEE802154_AUTO_ACK_RX_START result=%d'') [Z result];
     until_received E (result = K ''ESP_OK'') 500;
     complete \<leftarrow> look E receive_complete;
     if \<not> complete then do {
       count \<leftarrow> look E receive_callback_count;
       print E (ln ''REMU_VENDOR_IEEE802154_AUTO_ACK_RX_TIMEOUT callbacks=%u'') [Z (uint count)];
       State_Monad.return False }
     else do {
       xs \<leftarrow> look E (\<lambda>s. frame_bytes 10 (received_frame s) @
         [flag (received_pending s), Z (received_rssi s), Z (received_lqi s), Z (uint (receive_callback_count s))]);
       print E (ln ''REMU_VENDOR_IEEE802154_AUTO_ACK_RX_DONE length=%u %02x %02x %02x %02x %02x %02x %02x %02x %02x pending=%u rssi=%d lqi=%u callbacks=%u'') xs;
       State_Monad.return True } }"

definition ieee_ack :: "'d ieee_setting \<Rightarrow> (string \<Rightarrow> int) \<Rightarrow> 'd ieee_part" where
  "ieee_ack E K = do {
     assign E (transmit_complete_update (\<lambda>_. False));
     assign E (transmit_failed_update (\<lambda>_. False));
     assign E (ack_received_update (\<lambda>_. False));
     result \<leftarrow> call E ''esp_ieee802154_transmit'' [Raw ack_transmit_frame, Z 0];
     print E (ln ''REMU_VENDOR_IEEE802154_ACK_TX_START result=%d'') [Z result];
     until_transmitted E (result = K ''ESP_OK'') 500;
     stop \<leftarrow> look E (\<lambda>s. \<not> transmit_complete s \<or> transmit_failed s \<or> \<not> ack_received s);
     if stop then do {
       xs \<leftarrow> look E (\<lambda>s. [flag (transmit_complete s), flag (transmit_failed s), flag (ack_received s), Z (transmit_error s)]);
       print E (ln ''REMU_VENDOR_IEEE802154_ACK_TX_FAILED complete=%u failed=%u ack=%u error=%d'') xs;
       State_Monad.return False }
     else do {
       xs \<leftarrow> look E (\<lambda>s. frame_bytes 4 (received_ack s) @ [Z (ack_rssi s), Z (ack_lqi s)]);
       print E (ln ''REMU_VENDOR_IEEE802154_ACK_RX_DONE length=%u %02x %02x %02x rssi=%d lqi=%u'') xs;
       State_Monad.return True } }"

definition ieee_no_ack :: "'d ieee_setting \<Rightarrow> (string \<Rightarrow> int) \<Rightarrow> 'd ieee_part" where
  "ieee_no_ack E K = do {
     assign E (transmit_complete_update (\<lambda>_. False));
     assign E (transmit_failed_update (\<lambda>_. False));
     assign E (transmit_error_update (\<lambda>_. - 1));
     result \<leftarrow> call E ''esp_ieee802154_transmit'' [Raw no_ack_transmit_frame, Z 0];
     print E (ln ''REMU_VENDOR_IEEE802154_NO_ACK_TX_START result=%d'') [Z result];
     until_transmitted E (result = K ''ESP_OK'') 500;
     xs \<leftarrow> look E (\<lambda>s. [flag (transmit_complete s), flag (transmit_failed s), Z (transmit_error s)]);
     print E (ln ''REMU_VENDOR_IEEE802154_NO_ACK_DONE complete=%u failed=%u error=%d'') xs;
     State_Monad.return True }"

text \<open>\<open>app_main\<close>: the parts up to each early return; \<open>True\<close> when it came to its end.\<close>

definition ieee_app_main :: "(ieee_event, 'd) library \<Rightarrow> (string \<Rightarrow> int) \<Rightarrow> 'd ieee_part" where
  "ieee_app_main X K = (let E = ieee_setting X in body_of
     [ieee_enable E K, ieee_configure E K, ieee_transmit E K, ieee_cca_busy E K, ieee_cca_retry E K, ieee_receive E K,
      probe_energy_detect E K, ieee_multipan E K, ieee_filter E K, probe_auto_ack E K, ieee_ack E K, ieee_no_ack E K])"

section \<open>What the callbacks change\<close>

fun ieee_eff :: "ieee_event \<Rightarrow> ieee \<Rightarrow> ieee" where
  "ieee_eff (Transmit_Done f (Some a) (Some i)) s =
     s\<lparr>transmitted_frame := map (content f) [0..<7], received_ack := map (content a) [0..<6], ack_rssi := rssi i,
       ack_lqi := lqi i, ack_received := True, transmit_complete := True\<rparr>"
| "ieee_eff (Transmit_Done f a i) s = s\<lparr>transmitted_frame := map (content f) [0..<7], transmit_complete := True\<rparr>"
| "ieee_eff (Transmit_Failed f e) s = s\<lparr>transmit_error := e, transmit_failed := True\<rparr>"
| "ieee_eff (Receive_Done f i) s =
     s\<lparr>receive_callback_count := receive_callback_count s + 1, received_frame := map (content f) [0..<16],
       received_rssi := rssi i, received_lqi := lqi i, received_mpf_index := mpf_index i, received_pending := pending i,
       receive_complete := True\<rparr>"
| "ieee_eff (Energy_Detect_Done p) s = s\<lparr>detected_power := p, energy_detect_complete := True\<rparr>"
| "ieee_eff e s = s"

interpretation ieee: vendor_app "ieee_setting X" ieee_eff
proof
  fix s e
  show "tells s (react (ieee_setting X) e) (\<lambda>r t as es. t = ieee_eff e s \<and> as = [] \<and> es = [])"
    by (cases "(e, s)" rule: ieee_eff.cases)
      (auto simp: ieee_setting_def esp_ieee802154_transmit_done_def esp_ieee802154_transmit_failed_def
        esp_ieee802154_receive_done_def esp_ieee802154_energy_detect_done_def intro!: tell_rules split: option.split)
qed

interpretation ieee_order: vendor_story "ieee_setting X" ieee_eff
proof
  fix s e
  show "narrates s (react (ieee_setting X) e) (\<lambda>r t xs. t = ieee_eff e s \<and> xs = [])"
    by (cases "(e, s)" rule: ieee_eff.cases)
      (auto simp: ieee_setting_def esp_ieee802154_transmit_done_def esp_ieee802154_transmit_failed_def
        esp_ieee802154_receive_done_def esp_ieee802154_energy_detect_done_def intro!: story_rules split: option.split)
qed

text \<open>The callbacks that raise the flags.\<close>

definition transmitted :: "ieee_event \<Rightarrow> bool" where
  "transmitted e \<longleftrightarrow> (\<exists>f a i. e = Transmit_Done f a i)"

definition acknowledged :: "ieee_event \<Rightarrow> bool" where
  "acknowledged e \<longleftrightarrow> (\<exists>f a i. e = Transmit_Done f (Some a) (Some i))"

definition failed :: "ieee_event \<Rightarrow> bool" where
  "failed e \<longleftrightarrow> (\<exists>f c. e = Transmit_Failed f c)"

definition failed_with :: "int \<Rightarrow> ieee_event \<Rightarrow> bool" where
  "failed_with c e \<longleftrightarrow> (\<exists>f. e = Transmit_Failed f c)"

definition received :: "ieee_event \<Rightarrow> bool" where
  "received e \<longleftrightarrow> (\<exists>f i. e = Receive_Done f i)"

definition measured :: "ieee_event \<Rightarrow> bool" where
  "measured e \<longleftrightarrow> (\<exists>p. e = Energy_Detect_Done p)"

lemmas ieee_patterns = transmitted_def acknowledged_def failed_def failed_with_def received_def measured_def

lemma ieee_raise:
  "transmit_complete (ieee_eff e s) \<longleftrightarrow> transmitted e \<or> transmit_complete s"
  "transmit_failed (ieee_eff e s) \<longleftrightarrow> failed e \<or> transmit_failed s"
  "ack_received (ieee_eff e s) \<longleftrightarrow> acknowledged e \<or> ack_received s"
  "receive_complete (ieee_eff e s) \<longleftrightarrow> received e \<or> receive_complete s"
  "energy_detect_complete (ieee_eff e s) \<longleftrightarrow> measured e \<or> energy_detect_complete s"
  by (cases "(e, s)" rule: ieee_eff.cases; simp add: ieee_patterns)+

lemmas ieee_raised [simp] = ieee_raise [THEN ieee.raised]

lemma ieee_error: "transmit_error (fold ieee_eff evs s) = c \<Longrightarrow> transmit_error s = c \<or> list_ex (failed_with c) evs"
proof (rule ieee.caused [where P = "\<lambda>s. transmit_error s = c"])
  show "transmit_error (ieee_eff e s) = c \<Longrightarrow> transmit_error s = c \<or> failed_with c e" for e s
    by (cases "(e, s)" rule: ieee_eff.cases) (simp_all add: failed_with_def)
qed

lemma fold_fold: "fold f ys (fold f xs s) = fold f (xs @ ys) s"
  by simp

text \<open>A flag is up only after its callback; before the first reset it is down only while no failure was reported.\<close>

definition justified :: "ieee \<Rightarrow> ieee_event entry list \<Rightarrow> bool" where
  "justified s V \<longleftrightarrow>
     (transmit_complete s \<longrightarrow> list_ex transmitted (callbacks V)) \<and>
     (receive_complete s \<longrightarrow> list_ex received (callbacks V)) \<and>
     (energy_detect_complete s \<longrightarrow> list_ex measured (callbacks V))"

definition fresh :: "ieee \<Rightarrow> ieee_event entry list \<Rightarrow> bool" where
  "fresh s V \<longleftrightarrow> justified s V \<and> (list_ex failed (callbacks V) \<longrightarrow> transmit_failed s)"

section \<open>What the parts show\<close>

text \<open>The lines that speak of a completion.\<close>

definition TX_DONE :: "act \<Rightarrow> bool" where
  "TX_DONE = said (ln ''REMU_VENDOR_IEEE802154_TX_DONE length=%u %02x %02x %02x %02x'')"

definition RX_DONE :: "act \<Rightarrow> bool" where
  "RX_DONE = said (ln ''REMU_VENDOR_IEEE802154_RX_DONE length=%u %02x %02x %02x %02x rssi=%d lqi=%u'')"

definition ED_DONE :: "act \<Rightarrow> bool" where
  "ED_DONE = said (ln ''REMU_VENDOR_IEEE802154_ED_DONE power=%d'')"

definition FILTER_RX_DONE :: "act \<Rightarrow> bool" where
  "FILTER_RX_DONE = said (ln ''REMU_VENDOR_IEEE802154_FILTER_RX_DONE length=%u %02x %02x %02x %02x %02x %02x %02x %02x %02x mpf=%u rssi=%d lqi=%u'')"

definition AUTO_ACK_RX_DONE :: "act \<Rightarrow> bool" where
  "AUTO_ACK_RX_DONE = said (ln ''REMU_VENDOR_IEEE802154_AUTO_ACK_RX_DONE length=%u %02x %02x %02x %02x %02x %02x %02x %02x %02x pending=%u rssi=%d lqi=%u callbacks=%u'')"

definition ACK_RX_DONE :: "act \<Rightarrow> bool" where
  "ACK_RX_DONE = said (ln ''REMU_VENDOR_IEEE802154_ACK_RX_DONE length=%u %02x %02x %02x rssi=%d lqi=%u'')"

definition NO_ACK_DONE :: "act \<Rightarrow> bool" where
  "NO_ACK_DONE = said (ln ''REMU_VENDOR_IEEE802154_NO_ACK_DONE complete=%u failed=%u error=%d'')"

text \<open>The lines of the two transmissions with channel assessment, with a flag that they print: \<open>complete=0\<close>, \<open>failed=0\<close>.\<close>

definition CCA_BUSY_DONE :: "act \<Rightarrow> bool" where
  "CCA_BUSY_DONE = said_with (ln ''REMU_VENDOR_IEEE802154_CCA_BUSY_DONE complete=%u failed=%u error=%d'') (\<lambda>xs. hd xs = flag False)"

definition CCA_RETRY_DONE :: "act \<Rightarrow> bool" where
  "CCA_RETRY_DONE = said_with (ln ''REMU_VENDOR_IEEE802154_CCA_RETRY_DONE complete=%u failed=%u error=%d'') (\<lambda>xs. xs ! 1 = flag False)"

lemma ieee_said [simp]:
  "TX_DONE (Said (ln ''REMU_VENDOR_IEEE802154_TX_DONE length=%u %02x %02x %02x %02x'') xs)"
  "RX_DONE (Said (ln ''REMU_VENDOR_IEEE802154_RX_DONE length=%u %02x %02x %02x %02x rssi=%d lqi=%u'') xs)"
  "ED_DONE (Said (ln ''REMU_VENDOR_IEEE802154_ED_DONE power=%d'') xs)"
  "FILTER_RX_DONE (Said (ln ''REMU_VENDOR_IEEE802154_FILTER_RX_DONE length=%u %02x %02x %02x %02x %02x %02x %02x %02x %02x mpf=%u rssi=%d lqi=%u'') xs)"
  "AUTO_ACK_RX_DONE (Said (ln ''REMU_VENDOR_IEEE802154_AUTO_ACK_RX_DONE length=%u %02x %02x %02x %02x %02x %02x %02x %02x %02x pending=%u rssi=%d lqi=%u callbacks=%u'') xs)"
  "ACK_RX_DONE (Said (ln ''REMU_VENDOR_IEEE802154_ACK_RX_DONE length=%u %02x %02x %02x rssi=%d lqi=%u'') xs)"
  "NO_ACK_DONE (Said (ln ''REMU_VENDOR_IEEE802154_NO_ACK_DONE complete=%u failed=%u error=%d'') xs)"
  "CCA_BUSY_DONE (Said (ln ''REMU_VENDOR_IEEE802154_CCA_BUSY_DONE complete=%u failed=%u error=%d'') xs) \<longleftrightarrow> hd xs = flag False"
  "CCA_RETRY_DONE (Said (ln ''REMU_VENDOR_IEEE802154_CCA_RETRY_DONE complete=%u failed=%u error=%d'') xs) \<longleftrightarrow> xs ! 1 = flag False"
  by (simp_all add: TX_DONE_def RX_DONE_def ED_DONE_def FILTER_RX_DONE_def AUTO_ACK_RX_DONE_def ACK_RX_DONE_def NO_ACK_DONE_def
      CCA_BUSY_DONE_def CCA_RETRY_DONE_def)

lemmas ieee_parts = until_transmitted_def until_received_def chain.simps Let_def

lemmas ieee_episode = episodeI story_rules

lemmas ieee_goals = justified_def fresh_def exhibits_single

lemma episode_enable:
  "episode fresh fresh (ieee_enable (ieee_setting X) K) 2 [called ''esp_ieee802154_enable'' [] (K ''ESP_OK'')] [] []"
  unfolding ieee_enable_def by (intro ieee_episode) (auto simp: ieee_goals)

lemma episode_configure:
  "episode fresh fresh (ieee_configure (ieee_setting X) K) 5
     [called ''esp_ieee802154_set_channel'' [Z 11] (K ''ESP_OK''),
      called ''esp_ieee802154_set_promiscuous'' [Z 1] (K ''ESP_OK'')] [] []"
  unfolding ieee_configure_def ieee_parts by (intro ieee_episode) (auto simp: ieee_goals)

lemma episode_transmit:
  "episode fresh justified (ieee_transmit (ieee_setting X) K) 203
     [invoked ''esp_ieee802154_transmit'' [Raw transmit_frame, Z 0], TX_DONE] [did TX_DONE]
     [exhibits [heard transmitted, did TX_DONE]]"
  unfolding ieee_transmit_def ieee_parts by (intro ieee_episode) (auto simp: ieee_goals)

lemma episode_transmit_clear:
  "episode fresh (\<lambda>s V. True) (ieee_transmit (ieee_setting X) K) 203 [] []
     [clear_between (heard failed) (did (invoked ''esp_ieee802154_transmit'' [Raw transmit_frame, Z 0]))
        (did (said (ln ''REMU_VENDOR_IEEE802154_TX_START result=%d'')))]"
  unfolding ieee_transmit_def ieee_parts by (intro ieee_episode) (simp_all add: ieee_goals, intro clear_skip clear_here, simp_all)

lemma episode_cca_busy:
  "episode justified justified (ieee_cca_busy (ieee_setting X) K) 203
     [invoked ''esp_ieee802154_transmit'' [Raw transmit_frame, Z 1], CCA_BUSY_DONE] [] []"
  unfolding ieee_cca_busy_def ieee_parts by (intro ieee_episode) (auto simp: ieee_goals)

lemma episode_cca_busy_cause:
  assumes "K ''ESP_IEEE802154_TX_ERR_CCA_BUSY'' \<noteq> - 1"
  shows "episode justified (\<lambda>s V. True) (ieee_cca_busy (ieee_setting X) K) 203 []
     [heard (failed_with (K ''ESP_IEEE802154_TX_ERR_CCA_BUSY''))] []"
  unfolding ieee_cca_busy_def ieee_parts
  by (intro ieee_episode) (use assms in \<open>auto simp: ieee_goals fold_fold simp del: ieee_raised fold_append dest!: ieee_error\<close>)

lemma episode_cca_retry:
  "episode justified justified (ieee_cca_retry (ieee_setting X) K) 204
     [invoked ''esp_ieee802154_transmit'' [Raw transmit_frame, Z 1], CCA_RETRY_DONE]
     [did (\<lambda>a. a = Paused (Millis 10)), heard transmitted] []"
  unfolding ieee_cca_retry_def ieee_parts by (intro ieee_episode) (auto simp: ieee_goals)

lemma episode_receive:
  "episode justified justified (ieee_receive (ieee_setting X) K) 403
     [invoked ''esp_ieee802154_receive'' [], RX_DONE] [did RX_DONE] [exhibits [heard received, did RX_DONE]]"
  unfolding ieee_receive_def ieee_parts by (intro ieee_episode) (auto simp: ieee_goals)

lemma episode_energy_detect:
  "episode justified justified (probe_energy_detect (ieee_setting X) K) 203
     [invoked ''esp_ieee802154_energy_detect'' [Z 8], ED_DONE] [did ED_DONE] [exhibits [heard measured, did ED_DONE]]"
  unfolding probe_energy_detect_def ieee_parts by (intro ieee_episode) (auto simp: ieee_goals)

definition multipan_calls :: "(string \<Rightarrow> int) \<Rightarrow> (act \<Rightarrow> bool) list" where
  "multipan_calls K = (let pan0 = Z (K ''ESP_IEEE802154_MULTIPAN_0''); pan1 = Z (K ''ESP_IEEE802154_MULTIPAN_1'') in
     map (\<lambda>(f, xs). called f xs (K ''ESP_OK''))
       [(''esp_ieee802154_set_promiscuous'', [Z 0]),
        (''esp_ieee802154_set_multipan_panid'', [pan0, Z 0x1234]),
        (''esp_ieee802154_set_multipan_short_address'', [pan0, Z 0x5678]),
        (''esp_ieee802154_set_multipan_panid'', [pan1, Z 0xabcd]),
        (''esp_ieee802154_set_multipan_short_address'', [pan1, Z 0x1357]),
        (''esp_ieee802154_set_multipan_enable'',
          [Z (2 ^ nat (K ''ESP_IEEE802154_MULTIPAN_0'') OR 2 ^ nat (K ''ESP_IEEE802154_MULTIPAN_1''))])])"

lemma episode_multipan:
  "episode justified justified (ieee_multipan (ieee_setting X) K) 12 (multipan_calls K) [] []"
  unfolding ieee_multipan_def ieee_parts multipan_calls_def by (intro ieee_episode) (auto simp: ieee_goals)

lemma episode_filter:
  "episode justified justified (ieee_filter (ieee_setting X) K) 506 [invoked ''esp_ieee802154_receive'' [], FILTER_RX_DONE]
     [heard received, did FILTER_RX_DONE] []"
  unfolding ieee_filter_def ieee_parts by (intro ieee_episode) (auto simp: ieee_goals)

lemma episode_auto_ack:
  "episode justified justified (probe_auto_ack (ieee_setting X) K) 503 [invoked ''esp_ieee802154_receive'' [], AUTO_ACK_RX_DONE]
     [heard received, did AUTO_ACK_RX_DONE] []"
  unfolding probe_auto_ack_def ieee_parts by (intro ieee_episode) (auto simp: ieee_goals)

lemma episode_ack:
  "episode justified justified (ieee_ack (ieee_setting X) K) 503
     [invoked ''esp_ieee802154_transmit'' [Raw ack_transmit_frame, Z 0], ACK_RX_DONE]
     [heard acknowledged, did ACK_RX_DONE] []"
  unfolding ieee_ack_def ieee_parts by (intro ieee_episode) (auto simp: ieee_goals)

lemma episode_ack_clear:
  "episode justified (\<lambda>s V. True) (ieee_ack (ieee_setting X) K) 503 [] []
     [clear_between (heard failed) (did (invoked ''esp_ieee802154_transmit'' [Raw ack_transmit_frame, Z 0]))
        (did (said (ln ''REMU_VENDOR_IEEE802154_ACK_TX_START result=%d'')))]"
  unfolding ieee_ack_def ieee_parts by (intro ieee_episode) (simp_all add: ieee_goals, intro clear_skip clear_here, simp_all)

lemma episode_no_ack:
  "episode justified justified (ieee_no_ack (ieee_setting X) K) 503
     [invoked ''esp_ieee802154_transmit'' [Raw no_ack_transmit_frame, Z 0], NO_ACK_DONE] [did NO_ACK_DONE] []"
  unfolding ieee_no_ack_def ieee_parts by (intro ieee_episode) (auto simp: ieee_goals)

text \<open>
  The evidence of a run that comes to its end.  The acts of the main program in order; acts and callbacks in order, where a
  callback that a part waits for stands between the ends of the part before and of that part; and what holds of
  the three flags that are never lowered before they are waited for: the callback came before the line that speaks of it.
\<close>

definition ieee_act_evidence :: "(string \<Rightarrow> int) \<Rightarrow> (act \<Rightarrow> bool) list" where
  "ieee_act_evidence K =
     [called ''esp_ieee802154_enable'' [] (K ''ESP_OK''),
      called ''esp_ieee802154_set_channel'' [Z 11] (K ''ESP_OK''),
      called ''esp_ieee802154_set_promiscuous'' [Z 1] (K ''ESP_OK''),
      invoked ''esp_ieee802154_transmit'' [Raw transmit_frame, Z 0], TX_DONE,
      invoked ''esp_ieee802154_transmit'' [Raw transmit_frame, Z 1], CCA_BUSY_DONE,
      invoked ''esp_ieee802154_transmit'' [Raw transmit_frame, Z 1], CCA_RETRY_DONE,
      invoked ''esp_ieee802154_receive'' [], RX_DONE,
      invoked ''esp_ieee802154_energy_detect'' [Z 8], ED_DONE] @
     multipan_calls K @
     [invoked ''esp_ieee802154_receive'' [], FILTER_RX_DONE,
      invoked ''esp_ieee802154_receive'' [], AUTO_ACK_RX_DONE,
      invoked ''esp_ieee802154_transmit'' [Raw ack_transmit_frame, Z 0], ACK_RX_DONE,
      invoked ''esp_ieee802154_transmit'' [Raw no_ack_transmit_frame, Z 0], NO_ACK_DONE]"

definition ieee_order_evidence :: "(string \<Rightarrow> int) \<Rightarrow> (ieee_event entry \<Rightarrow> bool) list" where
  "ieee_order_evidence K =
     [did TX_DONE,
      heard (failed_with (K ''ESP_IEEE802154_TX_ERR_CCA_BUSY'')),
      did (\<lambda>a. a = Paused (Millis 10)), heard transmitted,
      did RX_DONE,
      did ED_DONE,
      heard received, did FILTER_RX_DONE,
      heard received, did AUTO_ACK_RX_DONE,
      heard acknowledged, did ACK_RX_DONE,
      did NO_ACK_DONE]"

definition ieee_cause_evidence :: "(ieee_event entry list \<Rightarrow> bool) list" where
  "ieee_cause_evidence =
     [exhibits [heard transmitted, did TX_DONE],
      clear_between (heard failed) (did (invoked ''esp_ieee802154_transmit'' [Raw transmit_frame, Z 0]))
        (did (said (ln ''REMU_VENDOR_IEEE802154_TX_START result=%d''))),
      exhibits [heard received, did RX_DONE],
      exhibits [heard measured, did ED_DONE],
      clear_between (heard failed) (did (invoked ''esp_ieee802154_transmit'' [Raw ack_transmit_frame, Z 0]))
        (did (said (ln ''REMU_VENDOR_IEEE802154_ACK_TX_START result=%d'')))]"

lemma episode_app_main:
  assumes "K ''ESP_IEEE802154_TX_ERR_CCA_BUSY'' \<noteq> - 1"
  shows "episode fresh justified (ieee_app_main X K) 3250 (ieee_act_evidence K) (ieee_order_evidence K) ieee_cause_evidence"
  unfolding ieee_app_main_def Let_def ieee_act_evidence_def ieee_order_evidence_def ieee_cause_evidence_def
  by (rule episode_weaken, rule episode_Cons [OF episode_enable], rule episode_Cons [OF episode_configure],
      rule episode_Cons [OF episode_also [OF episode_transmit episode_transmit_clear disjI2 [OF refl]]], 
      rule episode_Cons [OF episode_also [OF episode_cca_busy episode_cca_busy_cause [where K = K, OF assms] disjI1 [OF refl]]],
      rule episode_Cons [OF episode_cca_retry], rule episode_Cons [OF episode_receive], rule episode_Cons [OF episode_energy_detect],
      rule episode_Cons [OF episode_multipan], rule episode_Cons [OF episode_filter], rule episode_Cons [OF episode_auto_ack],
      rule episode_Cons [OF episode_also [OF episode_ack episode_ack_clear disjI2 [OF refl]]], rule episode_Cons [OF episode_no_ack], rule episode_Nil)
    (simp_all add: lasting_exhibits)

lemma within_ieee: "within 3250 (ieee_app_main X K)"
proof -
  have parts: "within 2 (ieee_enable (ieee_setting X) K)" "within 5 (ieee_configure (ieee_setting X) K)"
    "within 203 (ieee_transmit (ieee_setting X) K)" "within 203 (ieee_cca_busy (ieee_setting X) K)"
    "within 204 (ieee_cca_retry (ieee_setting X) K)" "within 403 (ieee_receive (ieee_setting X) K)"
    "within 203 (probe_energy_detect (ieee_setting X) K)" "within 12 (ieee_multipan (ieee_setting X) K)"
    "within 506 (ieee_filter (ieee_setting X) K)" "within 503 (probe_auto_ack (ieee_setting X) K)"
    "within 503 (ieee_ack (ieee_setting X) K)" "within 503 (ieee_no_ack (ieee_setting X) K)"
    unfolding ieee_enable_def ieee_configure_def ieee_transmit_def ieee_cca_busy_def ieee_cca_retry_def ieee_receive_def
      probe_energy_detect_def ieee_multipan_def ieee_filter_def probe_auto_ack_def ieee_ack_def ieee_no_ack_def ieee_parts
    by (intro withinI tell_rules; simp)+
  show ?thesis
    unfolding ieee_app_main_def Let_def by (rule keeps_weaken, (rule keeps_body parts)+) simp
qed

text \<open>
  A scripted driver, for a concrete run: the \<open>n\<close>-th command makes it run the \<open>n\<close>-th list of callbacks at the next step.
\<close>

definition sample_script :: "nat \<Rightarrow> ieee_event list" where
  "sample_script n = (let frame = \<lparr>address = 0x3fc80000, content = (\<lambda>i. 5)\<rparr>;
      info = \<lparr>rssi = - 40, lqi = 200, mpf_index = 0, pending = False\<rparr> in
     [[Transmit_Done frame None None], [Transmit_Failed frame 1], [Transmit_Done frame None None], [Receive_Done frame info],
      [Energy_Detect_Done (- 90)], [], [Receive_Done frame info], [Receive_Done frame info],
      [Transmit_Done frame (Some frame) (Some info)], [Transmit_Failed frame 2]] ! n)"

definition scripted_driver :: "(ieee_event, nat \<times> bool) library" where
  "scripted_driver =
     \<lparr>ask = (\<lambda>f xs (n, b).
        ((0, []), n, b \<or> f \<in> {''esp_ieee802154_transmit'', ''esp_ieee802154_receive'', ''esp_ieee802154_energy_detect''})),
      due = (\<lambda>(n, b). if b then (sample_script n, Suc n, False) else ([], n, False)), rest = (\<lambda>p d. d)\<rparr>"

definition sample_constants :: "string \<Rightarrow> int" where
  "sample_constants x = (if x \<in> {''ESP_IEEE802154_TX_ERR_CCA_BUSY'', ''ESP_IEEE802154_MULTIPAN_1''} then 1 else 0)"

definition sample_middle :: ieee where
  "sample_middle =
     \<lparr>transmit_complete = True, transmit_failed = False, receive_complete = True, energy_detect_complete = False,
      transmitted_frame = replicate 7 5, received_frame = replicate 16 5, transmit_error = - 1, received_rssi = - 40,
      received_lqi = 200, received_mpf_index = 0, received_pending = False, detected_power = 0, ack_received = False,
      receive_callback_count = 1, received_ack = replicate 6 0, ack_rssi = 0, ack_lqi = 0\<rparr>"

definition sample_first :: "(nat \<times> bool) ieee_part list" where
  "sample_first = (let E = ieee_setting scripted_driver; K = sample_constants in
     [ieee_enable E K, ieee_configure E K, ieee_transmit E K, ieee_cca_busy E K, ieee_cca_retry E K, ieee_receive E K])"

definition sample_second :: "(nat \<times> bool) ieee_part list" where
  "sample_second = (let E = ieee_setting scripted_driver; K = sample_constants in
     [probe_energy_detect E K, ieee_multipan E K, ieee_filter E K, probe_auto_ack E K, ieee_ack E K, ieee_no_ack E K])"

definition sample_site :: "(ieee, ieee_event, nat \<times> bool) site" where
  "sample_site = \<lparr>vars = ieee_statics, stack = (0, False), story = []\<rparr>"

lemma sample_halves:
  "case run_state (body_of sample_first) sample_site of (b, w) \<Rightarrow>
     b \<and> vars w = sample_middle \<and> stack w = (4, False)"
  "fst (run_state (body_of sample_second) \<lparr>vars = sample_middle, stack = (4, False), story = es\<rparr>)"
  by code_simp+

lemma sample_completes: "\<exists>w'. run_state (ieee_app_main scripted_driver sample_constants) sample_site = (True, w')"
proof -
  obtain b w where first: "run_state (body_of sample_first) sample_site = (b, w)" by fastforce
  then have "b" and w: "w = \<lparr>vars = sample_middle, stack = (4, False), story = story w\<rparr>"
    using sample_halves(1) by auto
  moreover have "fst (run_state (body_of sample_second) w)"
    using sample_halves(2) [of "story w"] w by simp
  moreover have "ieee_app_main scripted_driver sample_constants = body_of (sample_first @ sample_second)"
    by (simp add: ieee_app_main_def sample_first_def sample_second_def Let_def)
  ultimately show ?thesis
    by (cases "run_state (body_of sample_second) w") (simp add: run_body_append first)
qed

text \<open>C19.
  The IEEE 802.15.4 probe ends well only with the evidence.  Whatever the driver answers and whichever
  callbacks it runs in between, \<open>app_main\<close> makes at most 3250 calls, prints and delays; and if it
  reaches its last line, it has made the calls of the qualification in order with the required results and printed the line of
  every step.  The line of the first transmission comes after a transmission was reported, and no failure was reported while that
  transmission was started; the line of the first reception comes after a frame, the line of the energy
  measurement after a measurement was reported.  After the line of the first transmission, in this order: a busy channel was reported, then
  the retry began, then a transmission was reported, then the line of the reception was printed, two more frames were reported, each
  before the line that speaks of it and after the line before, and an acknowledged transmission was reported, whose start no failure disturbed, before
  its line and the last one.
\<close>

theorem ieee802154_probe_evidence:
  assumes "K ''ESP_IEEE802154_TX_ERR_CCA_BUSY'' \<noteq> - 1"
    and "run_state (ieee_app_main X K) w = (completed, w')" "vars w = ieee_statics" "story w = []"
  shows "length (acts (story w')) \<le> 3250 \<and>
    (completed \<longrightarrow> exhibits (ieee_act_evidence K) (acts (story w')) \<and>
       exhibits (ieee_order_evidence K) (tale (story w')) \<and>
       list_all (\<lambda>r. r (tale (story w'))) ieee_cause_evidence)"
proof -
  have "fresh (vars w) []"
    by (simp add: assms(3) fresh_def justified_def ieee_statics_def)
  note run = episode_run [OF episode_app_main [where K = K, OF assms(1)] assms(2) this assms(4)]
  show ?thesis
    using run by blast
qed

theorem ieee802154_probe_evidence_witness:
  "\<exists>w'. run_state (ieee_app_main scripted_driver sample_constants) sample_site = (True, w') \<and>
     exhibits (ieee_act_evidence sample_constants) (acts (story w'))"
proof -
  obtain w' where run: "run_state (ieee_app_main scripted_driver sample_constants) sample_site = (True, w')"
    using sample_completes by blast
  have "sample_constants ''ESP_IEEE802154_TX_ERR_CCA_BUSY'' \<noteq> - 1" "vars sample_site = ieee_statics" "story sample_site = []"
    by (simp_all add: sample_constants_def sample_site_def)
  from ieee802154_probe_evidence [of sample_constants, OF this(1) run this(2,3)] run show ?thesis
    by blast
qed

end
