(* ===== verification/Vendor_Wifi.thy ===== *)
theory Vendor_Wifi
  imports Vendor_App "HOL-Library.Signed_Division" "HOL-Library.Sublist"
begin

text \<open>
  The Wi-Fi applications of the vendor's libraries: the station (\<^verbatim>\<open>vendor-wifi-probe\<close>), the access point with ESP-NOW
  and UDP (\<^verbatim>\<open>vendor-wifi-ap-probe\<close>), and the oracle that labels what it transmits (\<^verbatim>\<open>vendor-rf-oracle-probe\<close>).  A structure
  argument is the list of the fields the program sets.  \<open>he\<close> is \<open>CONFIG_SOC_WIFI_HE_SUPPORT\<close>; a main program
  answers \<open>False\<close> when \<open>ESP_ERROR_CHECK\<close> aborts it.
\<close>

section \<open>Station\<close>

record wifi =
  station_connected :: bool
  station_disconnect_reason :: int
  itwt_setup_reported :: bool
  itwt_setup_status :: int
  itwt_wakeup_count :: u32

definition wifi_statics :: "(string \<Rightarrow> int) \<Rightarrow> wifi" where
  "wifi_statics K = \<lparr>station_connected = False, station_disconnect_reason = - 1, itwt_setup_reported = False,
     itwt_setup_status = K ''ESP_FAIL'', itwt_wakeup_count = 0\<rparr>"

text \<open>An event of the Wi-Fi library: its number, and the fields of its data that the handler reads.\<close>

record wifi_event =
  event_id :: int
  reason :: int
  status :: int
  flow_id :: int
  twt_id :: int
  target_wake_time :: int
  twt_type :: int

definition wifi_on_event ::
  "bool \<Rightarrow> (string \<Rightarrow> int) \<Rightarrow> wifi_event \<Rightarrow> (wifi, wifi_event, 'd, unit) app" where
  "wifi_on_event he K e =
     (if event_id e = K ''WIFI_EVENT_STA_CONNECTED'' then poke (station_connected_update (\<lambda>_. True))
      else if event_id e = K ''WIFI_EVENT_STA_DISCONNECTED'' then poke (station_disconnect_reason_update (\<lambda>_. reason e))
      else if he \<and> event_id e = K ''WIFI_EVENT_ITWT_SETUP'' then do {
        poke (itwt_setup_status_update (\<lambda>_. status e));
        poke (itwt_setup_reported_update (\<lambda>_. True));
        cb_print (ln ''REMU_VENDOR_WIFI_ITWT_SETUP status=%d flow=%u twt=%u target=%llu'')
          [Z (status e), Z (flow_id e), Z (twt_id e), Z (target_wake_time e)] }
      else if he \<and> event_id e = K ''WIFI_EVENT_TWT_WAKEUP'' then do {
        poke (itwt_wakeup_count_update (\<lambda>n. n + 1));
        n \<leftarrow> peek itwt_wakeup_count;
        cb_print (ln ''REMU_VENDOR_WIFI_ITWT_WAKEUP count=%u type=%u id=%u'') [Z (uint n), Z (twt_type e), Z (flow_id e)] }
      else State_Monad.return ())"

type_synonym 'd wifi_setting = "(wifi, wifi_event, 'd) setting"

definition wifi_setting :: "bool \<Rightarrow> (wifi_event, 'd) library \<Rightarrow> (string \<Rightarrow> int) \<Rightarrow> 'd wifi_setting" where
  "wifi_setting he X K = \<lparr>lib = X, react = wifi_on_event he K\<rparr>"

definition wifi_scan :: "'d wifi_setting \<Rightarrow> (string \<Rightarrow> int) \<Rightarrow> (wifi, wifi_event, 'd, unit) app" where
  "wifi_scan E K = do {
     result \<leftarrow> call E ''esp_wifi_scan_start'' [Z 1, flag True, Z (K ''WIFI_SCAN_TYPE_ACTIVE''), Z 5, Z 10, flag True];
     (if result = K ''ESP_OK'' then do {
        r \<leftarrow> query E ''esp_wifi_scan_get_ap_num'' [];
        print E (ln ''REMU_VENDOR_WIFI_SCAN_DONE result=%d count=%u'') [Z (fst r), Z (out_int 0 (snd r) 0)] }
      else print E (ln ''REMU_VENDOR_WIFI_SCAN_DONE result=%d count=%u'') [Z result, Z 0]) }"

definition wifi_connect :: "'d wifi_setting \<Rightarrow> (string \<Rightarrow> int) \<Rightarrow> (wifi, wifi_event, 'd, unit) app" where
  "wifi_connect E K = do {
     result \<leftarrow> call E ''esp_wifi_set_config'' [Z (K ''WIFI_IF_STA''), Str ''REMU-AP'',
       Raw [0x02, 0x52, 0x45, 0x4d, 0x55, 0x01], flag True, Z 1, Z (K ''WIFI_AUTH_OPEN'')];
     result \<leftarrow> chain (K ''ESP_OK'') [call E ''esp_wifi_connect'' []] result;
     print E (ln ''REMU_VENDOR_WIFI_CONNECT_START result=%d'') [Z result];
     wait E 200 (\<lambda>s. result = K ''ESP_OK'' \<and> \<not> station_connected s) (Millis 10);
     xs \<leftarrow> look E (\<lambda>s. [flag (station_connected s), Z (station_disconnect_reason s)]);
     print E (ln ''REMU_VENDOR_WIFI_CONNECT_DONE connected=%u reason=%d'') xs }"

definition wifi_itwt :: "'d wifi_setting \<Rightarrow> (string \<Rightarrow> int) \<Rightarrow> (wifi, wifi_event, 'd, unit) app" where
  "wifi_itwt E K = do {
     phy \<leftarrow> query E ''esp_wifi_sta_get_negotiated_phymode'' [];
     print E (ln ''REMU_VENDOR_WIFI_PHY_MODE result=%d mode=%u'') [Z (fst phy), Z (out_int 0 (snd phy) (K ''WIFI_PHY_MODE_LR''))];
     config_result \<leftarrow> call E ''esp_wifi_sta_twt_config'' [flag True, flag False];
     offset_result \<leftarrow> call E ''esp_wifi_sta_itwt_set_target_wake_time_offset'' [Z 10000];
     setup \<leftarrow> query E ''esp_wifi_sta_itwt_setup''
       [Z (K ''TWT_SUGGEST''), Z 0, Z 0, Z 0, Z 5, Z 0, Z 8, Z 1000, Z 7, Z 1000];
     print E (ln ''REMU_VENDOR_WIFI_ITWT_START config=%d offset=%d setup=%d flow=%u'')
       [Z config_result, Z offset_result, Z (fst setup), Z (out_int 0 (snd setup) 0)];
     wait E 200 (\<lambda>s. fst setup = K ''ESP_OK'' \<and> \<not> itwt_setup_reported s) (Millis 10);
     bitmap \<leftarrow> query E ''esp_wifi_sta_itwt_get_flow_id_status'' [];
     xs \<leftarrow> look E (\<lambda>s. [flag (itwt_setup_reported s), Z (itwt_setup_status s), Z (fst bitmap),
       Z (out_int 0 (snd bitmap) 0), Z (uint (itwt_wakeup_count s))]);
     print E (ln ''REMU_VENDOR_WIFI_ITWT_STATUS reported=%u status=%d bitmap_result=%d bitmap=0x%x wakes=%u'') xs }"

definition wifi_app_main ::
  "bool \<Rightarrow> (wifi_event, 'd) library \<Rightarrow> (string \<Rightarrow> int) \<Rightarrow> (wifi, wifi_event, 'd, bool) app" where
  "wifi_app_main he X K = (let E = wifi_setting he X K in body_of
     [ESP_ERROR_CHECK E K ''esp_netif_init'' [],
      ESP_ERROR_CHECK E K ''esp_event_loop_create_default'' [],
      check_created E K ''esp_netif_create_default_wifi_sta'' [],
      ESP_ERROR_CHECK E K ''esp_event_handler_register'' [Str ''WIFI_EVENT'', Z (K ''ESP_EVENT_ANY_ID''), Str ''on_wifi_event''],
      ESP_ERROR_CHECK E K ''esp_wifi_init'' [Str ''WIFI_INIT_CONFIG_DEFAULT'', Z 0],
      ESP_ERROR_CHECK E K ''esp_wifi_set_mode'' [Z (K ''WIFI_MODE_STA'')],
      ESP_ERROR_CHECK E K ''esp_wifi_start'' [],
      act_of (wifi_scan E K), act_of (wifi_connect E K),
      do {
        connected \<leftarrow> look E station_connected;
        if he \<and> connected then act_of (wifi_itwt E K) else State_Monad.return True }])"

fun wifi_eff :: "bool \<Rightarrow> (string \<Rightarrow> int) \<Rightarrow> wifi_event \<Rightarrow> wifi \<Rightarrow> wifi" where
  "wifi_eff he K e s =
     (if event_id e = K ''WIFI_EVENT_STA_CONNECTED'' then s\<lparr>station_connected := True\<rparr>
      else if event_id e = K ''WIFI_EVENT_STA_DISCONNECTED'' then s\<lparr>station_disconnect_reason := reason e\<rparr>
      else if he \<and> event_id e = K ''WIFI_EVENT_ITWT_SETUP''
        then s\<lparr>itwt_setup_status := status e, itwt_setup_reported := True\<rparr>
      else if he \<and> event_id e = K ''WIFI_EVENT_TWT_WAKEUP'' then s\<lparr>itwt_wakeup_count := itwt_wakeup_count s + 1\<rparr>
      else s)"

interpretation wifi: vendor_app "wifi_setting he X K" "wifi_eff he K"
proof
  fix s e
  show "tells s (react (wifi_setting he X K) e) (\<lambda>r t as es. t = wifi_eff he K e s \<and> as = [] \<and> es = [])"
    unfolding wifi_setting_def wifi_on_event_def by simp (intro conjI impI tell_rules; simp)
qed

lemma within_wifi: "within 422 (wifi_app_main he X K)"
proof -
  let ?E = "wifi_setting he X K"
  have parts: "within 3 (act_of (wifi_scan ?E K))" "within 204 (act_of (wifi_connect ?E K))"
    "within 208 (do { connected \<leftarrow> look ?E station_connected;
       if he \<and> connected then act_of (wifi_itwt ?E K) else State_Monad.return True })"
    unfolding act_of_def wifi_scan_def wifi_connect_def wifi_itwt_def chain.simps by (intro withinI tell_rules; simp)+
  show ?thesis
    unfolding wifi_app_main_def Let_def
    by (rule keeps_weaken, (rule keeps_body wifi.within_ops parts)+) simp
qed

text \<open>The station counts as connected only after the library said so.\<close>

lemma wifi_connected:
  "station_connected (fold (wifi_eff he K) evs s) \<longleftrightarrow>
     station_connected s \<or> list_ex (\<lambda>e. event_id e = K ''WIFI_EVENT_STA_CONNECTED'') evs"
  by (rule wifi.raised) simp

section \<open>Access point\<close>

record soft_ap =
  soft_ap_started :: bool
  soft_ap_station_connected :: bool
  esp_now_received :: bool

definition ap_statics :: soft_ap where
  "ap_statics = \<lparr>soft_ap_started = False, soft_ap_station_connected = False, esp_now_received = False\<rparr>"

text \<open>
  \<open>on_wifi_event\<close> with the event's number, address, association identifier and reason; \<open>on_esp_now_receive\<close> with the two
  addresses, the data and their length.
\<close>

datatype ap_event =
    Ap_Wifi_Event int bytes int int
  | Esp_Now_Receive bytes bytes "nat \<Rightarrow> u8" int

text \<open>The loop over the packets, from \<open>packet\<close> on with \<open>n\<close> to go.\<close>

primrec udp_packets ::
  "('s, 'e, 'd) setting \<Rightarrow> int \<Rightarrow> val list \<Rightarrow> nat \<Rightarrow> nat \<Rightarrow> u32 \<Rightarrow> ('s, 'e, 'd, u32) app" where
  "udp_packets E fd destination packet 0 sent = State_Monad.return sent"
| "udp_packets E fd destination packet (Suc n) sent = do {
     r \<leftarrow> call E ''sendto'' ([Z fd, Raw (of_nat packet # replicate 255 0x5a), Z 256, Z 0] @ destination);
     udp_packets E fd destination (Suc packet) n (if r = 256 then sent + 1 else sent) }"

definition send_udp_burst :: "('s, 'e, 'd) setting \<Rightarrow> (string \<Rightarrow> int) \<Rightarrow> ('s, 'e, 'd, u32) app" where
  "send_udp_burst E K = do {
     fd \<leftarrow> call E ''socket'' [Z (K ''AF_INET''), Z (K ''SOCK_DGRAM''), Z (K ''IPPROTO_IP'')];
     if fd < 0 then State_Monad.return 0
     else do {
       port \<leftarrow> call E ''htons'' [Z 4242];
       address \<leftarrow> call E ''inet_addr'' [Str ''192.168.4.2''];
       let destination = [Z (K ''AF_INET''), Z port, Z address];
       _ \<leftarrow> call E ''sendto'' ([Z fd, Raw [0x52, 0x45, 0x4d, 0x55], Z 4, Z 0] @ destination);
       vTaskDelay E (Millis 100);
       sent \<leftarrow> udp_packets E fd destination 0 64 0;
       _ \<leftarrow> call E ''close'' [Z fd];
       State_Monad.return sent } }"

definition print_mac :: "bytes \<Rightarrow> ('s, 'e, 'd, unit) app" where
  "print_mac address = cb_print ''%02x:%02x:%02x:%02x:%02x:%02x'' (map (\<lambda>b. Z (uint b)) address)"

definition ap_on_wifi_event ::
  "(string \<Rightarrow> int) \<Rightarrow> int \<Rightarrow> bytes \<Rightarrow> int \<Rightarrow> int \<Rightarrow> (soft_ap, ap_event, 'd, unit) app" where
  "ap_on_wifi_event K number mac aid why =
     (if number = K ''WIFI_EVENT_AP_START'' then do {
        poke (soft_ap_started_update (\<lambda>_. True));
        cb_print (ln ''REMU_VENDOR_SOFTAP_STARTED'') [] }
      else if number = K ''WIFI_EVENT_AP_STACONNECTED'' then do {
        poke (soft_ap_station_connected_update (\<lambda>_. True));
        cb_print ''REMU_VENDOR_SOFTAP_STATION_CONNECTED mac='' [];
        print_mac mac;
        cb_print (ln '' aid=%u'') [Z aid] }
      else if number = K ''WIFI_EVENT_AP_STADISCONNECTED'' then do {
        poke (soft_ap_station_connected_update (\<lambda>_. False));
        cb_print ''REMU_VENDOR_SOFTAP_STATION_DISCONNECTED mac='' [];
        print_mac mac;
        cb_print (ln '' aid=%u reason=%u'') [Z aid, Z why] }
      else State_Monad.return ())"

definition on_esp_now_receive ::
  "bytes \<Rightarrow> bytes \<Rightarrow> (nat \<Rightarrow> u8) \<Rightarrow> int \<Rightarrow> (soft_ap, ap_event, 'd, unit) app" where
  "on_esp_now_receive source destination data len = do {
     poke (esp_now_received_update (\<lambda>_. True));
     cb_print ''REMU_VENDOR_ESPNOW_RX source='' [];
     print_mac source;
     cb_print '' destination='' [];
     print_mac destination;
     cb_print '' length=%d data='' [Z len];
     print_hex ''%02x'' (map data [0..<nat len]);
     cb_print (ln []) [] }"

fun ap_react :: "(string \<Rightarrow> int) \<Rightarrow> ap_event \<Rightarrow> (soft_ap, ap_event, 'd, unit) app" where
  "ap_react K (Ap_Wifi_Event number mac aid why) = ap_on_wifi_event K number mac aid why"
| "ap_react K (Esp_Now_Receive source destination data len) = on_esp_now_receive source destination data len"

type_synonym 'd ap_setting = "(soft_ap, ap_event, 'd) setting"

definition ap_setting :: "(ap_event, 'd) library \<Rightarrow> (string \<Rightarrow> int) \<Rightarrow> 'd ap_setting" where
  "ap_setting X K = \<lparr>lib = X, react = ap_react K\<rparr>"

text \<open>\<open>junk\<close> is what the uninitialised address holds.\<close>

definition ap_identity :: "'d ap_setting \<Rightarrow> (string \<Rightarrow> int) \<Rightarrow> bytes \<Rightarrow> (soft_ap, ap_event, 'd, bool) app" where
  "ap_identity E K junk = do {
     mac \<leftarrow> query E ''esp_wifi_get_mac'' [Z (K ''WIFI_IF_AP'')];
     if fst mac \<noteq> K ''ESP_OK'' then State_Monad.return False
     else do {
       protocols \<leftarrow> query E ''esp_wifi_get_protocol'' [Z (K ''WIFI_IF_AP'')];
       if fst protocols \<noteq> K ''ESP_OK'' then State_Monad.return False
       else do {
         print E (ln ''REMU_VENDOR_SOFTAP_CONFIG mac=%02x:%02x:%02x:%02x:%02x:%02x channel=1 ssid=REMU-SOFTAP protocols=0x%02x'')
           (map (\<lambda>b. Z (uint b)) (out_raw (snd mac) (take 6 junk)) @ [Z (out_int 0 (snd protocols) 0)]);
         State_Monad.return True } } }"

definition ap_send :: "'d ap_setting \<Rightarrow> (string \<Rightarrow> int) \<Rightarrow> (soft_ap, ap_event, 'd, unit) app" where
  "ap_send E K = do {
     send_result \<leftarrow> call E ''esp_now_send'' [Raw (replicate 6 0xff), Raw [0x52, 0x45, 0x4d, 0x55], Z 4];
     print E (ln ''REMU_VENDOR_ESPNOW_TX_START result=%d'') [Z send_result];
     secure_send_result \<leftarrow> call E ''esp_now_send''
       [Raw [0x02, 0xaa, 0xbb, 0xcc, 0xdd, 0x01], Raw [0x43, 0x43, 0x4d, 0x50], Z 4];
     print E (ln ''REMU_VENDOR_ESPNOW_SECURE_TX_START result=%d'') [Z secure_send_result] }"

definition ap_finish :: "'d ap_setting \<Rightarrow> (string \<Rightarrow> int) \<Rightarrow> (soft_ap, ap_event, 'd, unit) app" where
  "ap_finish E K = do {
     wait E 400 (\<lambda>s. \<not> soft_ap_station_connected s \<or> \<not> esp_now_received s) (Millis 10);
     connected \<leftarrow> look E soft_ap_station_connected;
     packets \<leftarrow> (if connected then do {
         sent \<leftarrow> send_udp_burst E K;
         vTaskDelay E (Millis 500);
         State_Monad.return sent }
       else State_Monad.return 0);
     print E (ln ''REMU_VENDOR_WIFI_UDP_BURST packets=%u'') [Z (uint packets)];
     xs \<leftarrow> look E (\<lambda>s. [flag (soft_ap_started s), flag (soft_ap_station_connected s), flag (esp_now_received s)]);
     print E (ln ''REMU_VENDOR_SOFTAP_DONE started=%u station=%u espnow_rx=%u'') xs }"

definition ap_app_main ::
  "bool \<Rightarrow> (ap_event, 'd) library \<Rightarrow> (string \<Rightarrow> int) \<Rightarrow> bytes \<Rightarrow> (soft_ap, ap_event, 'd, bool) app" where
  "ap_app_main he X K junk = (let E = ap_setting X K; AP = Z (K ''WIFI_IF_AP'') in body_of
     [ESP_ERROR_CHECK E K ''esp_netif_init'' [],
      ESP_ERROR_CHECK E K ''esp_event_loop_create_default'' [],
      check_created E K ''esp_netif_create_default_wifi_ap'' [],
      ESP_ERROR_CHECK E K ''esp_event_handler_register'' [Str ''WIFI_EVENT'', Z (K ''ESP_EVENT_ANY_ID''), Str ''on_wifi_event''],
      ESP_ERROR_CHECK E K ''esp_wifi_init'' [Str ''WIFI_INIT_CONFIG_DEFAULT'', Z 0],
      ESP_ERROR_CHECK E K ''esp_wifi_set_mode'' [Z (K ''WIFI_MODE_AP'')],
      ESP_ERROR_CHECK E K ''esp_wifi_set_config''
        [AP, Str ''REMU-SOFTAP'', Z 11, Z 1, Z (K ''WIFI_AUTH_OPEN''), Z 4, Z 100],
      (if he then ESP_ERROR_CHECK E K ''esp_wifi_set_protocol'' [AP, Z (uint (word_of_int
         (K ''WIFI_PROTOCOL_11B'' OR K ''WIFI_PROTOCOL_11G'' OR K ''WIFI_PROTOCOL_11N'' OR K ''WIFI_PROTOCOL_11AX'') :: u8))]
       else State_Monad.return True),
      ESP_ERROR_CHECK E K ''esp_wifi_start'' [],
      ap_identity E K junk,
      ESP_ERROR_CHECK E K ''esp_now_init'' [],
      ESP_ERROR_CHECK E K ''esp_now_register_recv_cb'' [Str ''on_esp_now_receive''],
      ESP_ERROR_CHECK E K ''esp_now_add_peer'' [Raw (replicate 6 0xff), Z 1, AP, flag False],
      ESP_ERROR_CHECK E K ''esp_now_add_peer'' [Raw [0x02, 0xaa, 0xbb, 0xcc, 0xdd, 0x01], Z 1, AP, flag True,
        Raw [0x00, 0x11, 0x22, 0x33, 0x44, 0x55, 0x66, 0x77, 0x88, 0x99, 0xaa, 0xbb, 0xcc, 0xdd, 0xee, 0xff]],
      act_of (ap_send E K), act_of (ap_finish E K)])"

fun ap_eff :: "(string \<Rightarrow> int) \<Rightarrow> ap_event \<Rightarrow> soft_ap \<Rightarrow> soft_ap" where
  "ap_eff K (Ap_Wifi_Event i mac aid r) s =
     (if i = K ''WIFI_EVENT_AP_START'' then s\<lparr>soft_ap_started := True\<rparr>
      else if i = K ''WIFI_EVENT_AP_STACONNECTED'' then s\<lparr>soft_ap_station_connected := True\<rparr>
      else if i = K ''WIFI_EVENT_AP_STADISCONNECTED'' then s\<lparr>soft_ap_station_connected := False\<rparr>
      else s)"
| "ap_eff K (Esp_Now_Receive source destination data len) s = s\<lparr>esp_now_received := True\<rparr>"

interpretation ap: vendor_app "ap_setting X K" "ap_eff K"
proof
  fix s e
  show "tells s (react (ap_setting X K) e) (\<lambda>r t as es. t = ap_eff K e s \<and> as = [] \<and> es = [])"
    by (cases "(K, e, s)" rule: ap_eff.cases)
      (auto simp: ap_setting_def ap_on_wifi_event_def on_esp_now_receive_def print_mac_def intro!: tell_rules)
qed

text \<open>
  The burst: the packets go out in order, each with its number in the first byte, and the count is that of the
  packets the stack took whole.
\<close>

definition burst_packet :: "int \<Rightarrow> val list \<Rightarrow> nat \<Rightarrow> int \<times> val list \<Rightarrow> act" where
  "burst_packet fd destination i r =
     Called ''sendto'' ([Z fd, Raw (of_nat i # replicate 255 0x5a), Z 256, Z 0] @ destination) (fst r) (snd r)"

lemma tells_udp_packets:
  "(\<And>rs evs. length rs = n \<Longrightarrow> Q (sent + of_nat (length (filter (\<lambda>r. fst r = 256) rs))) (fold (ap_eff K) evs s)
       (map2 (burst_packet fd destination) [packet..<packet + n] rs) evs) \<Longrightarrow>
   tells s (udp_packets (ap_setting X K) fd destination packet n sent) Q"
proof (induction n arbitrary: packet sent s Q)
  case 0
  then show ?case using "0" [of "[]" "[]"] by (simp add: tells_return)
next
  case (Suc n)
  show ?case
    unfolding udp_packets.simps
  proof (rule tells_bind, rule ap.tells_ops, rule Suc.IH)
    fix r outs evs and rs :: "(int \<times> val list) list" and evs'
    assume "length rs = n"
    then show "Q ((if r = 256 then sent + 1 else sent) + of_nat (length (filter (\<lambda>r. fst r = 256) rs)))
       (fold (ap_eff K) evs' (fold (ap_eff K) evs s))
       ([Called ''sendto'' ([Z fd, Raw (of_nat packet # replicate 255 0x5a), Z 256, Z 0] @ destination) r outs] @
        map2 (burst_packet fd destination) [Suc packet..<Suc packet + n] rs) (evs @ evs')"
      using Suc.prems [of "(r, outs) # rs" "evs @ evs'"]
      by (cases "r = 256") (simp_all add: burst_packet_def upt_rec [of packet] add.assoc del: upt_Suc)
  qed
qed

lemma within_burst: "within 70 (send_udp_burst (ap_setting X K) K)"
  unfolding send_udp_burst_def by (intro withinI tell_rules tells_udp_packets) simp_all

lemma within_ap: "within 496 (ap_app_main he X K junk)"
proof -
  let ?E = "ap_setting X K"
  have "within 71 (if b then do { sent \<leftarrow> send_udp_burst ?E K; vTaskDelay ?E (Millis 500); State_Monad.return sent }
      else State_Monad.return 0)" for b
    using keeps_weaken [OF keeps_return, of 71]
      keeps_bind [OF within_burst keeps_bind [OF ap.within_ops(6) keeps_return]] by (auto simp: numeral_eq_Suc)
  note burst = this
  have parts: "within 3 (ap_identity ?E K junk)" "within 4 (act_of (ap_send ?E K))"
    "within 1 (if he then ESP_ERROR_CHECK ?E K f xs else State_Monad.return True)" for f xs
    unfolding act_of_def ap_identity_def ap_send_def ESP_ERROR_CHECK_def by (intro withinI tell_rules; simp)+
  have "within (400 + (0 + (71 + (1 + (0 + 1))))) (ap_finish ?E K)"
    unfolding ap_finish_def by (intro keeps_bind ap.within_ops burst)
  then have finish: "within 473 (act_of (ap_finish ?E K))"
    using keeps_act_of by fastforce
  show ?thesis
    unfolding ap_app_main_def Let_def
    by (rule keeps_weaken, (rule keeps_body ap.within_ops parts finish)+) simp
qed

section \<open>The RF oracle\<close>

record rf_oracle =
  probe_request :: bytes

definition oracle_statics :: rf_oracle where
  "oracle_statics = \<lparr>probe_request =
     [0x40, 0x00, 0x00, 0x00] @ replicate 6 0xff @ replicate 6 0x00 @ replicate 6 0xff @ [0x00, 0x00] @ [0x00, 0x0f] @
     map of_char ''REMU-RF-00-P000'' @ [0x01, 0x01, 0x82]\<rparr>"

type_synonym 'd oracle_setting = "(rf_oracle, unit, 'd) setting"

text \<open>The oracle registers no callbacks.\<close>

definition oracle_setting :: "(unit, 'd) library \<Rightarrow> 'd oracle_setting" where
  "oracle_setting X = \<lparr>lib = X, react = (\<lambda>e. State_Monad.return ())\<rparr>"

definition checkpoint :: "'d oracle_setting \<Rightarrow> string \<Rightarrow> (rf_oracle, unit, 'd, unit) app" where
  "checkpoint E phase = print E (ln ''REMU_RF_ORACLE %s'') [Str phase]"

definition initialize_wifi :: "'d oracle_setting \<Rightarrow> (string \<Rightarrow> int) \<Rightarrow> (rf_oracle, unit, 'd, bool) app" where
  "initialize_wifi E K = body_of
     [ESP_ERROR_CHECK E K ''esp_wifi_init'' [Str ''WIFI_INIT_CONFIG_DEFAULT'', Z 0],
      ESP_ERROR_CHECK E K ''esp_wifi_set_storage'' [Z (K ''WIFI_STORAGE_RAM'')],
      ESP_ERROR_CHECK E K ''esp_wifi_set_mode'' [Z (K ''WIFI_MODE_STA'')],
      ESP_ERROR_CHECK E K ''esp_wifi_start'' [],
      do {
        r \<leftarrow> query E ''esp_wifi_get_mac'' [Z (K ''WIFI_IF_STA'')];
        assign E (probe_request_update (\<lambda>p. take 10 p @ out_raw (snd r) (take 6 (drop 10 p)) @ drop 16 p));
        State_Monad.return (fst r = K ''ESP_OK'') }]"

text \<open>\<open>(uint8_t)('0' + d)\<close>\<close>

definition digit_char :: "int \<Rightarrow> u8" where
  "digit_char d = word_of_int (48 + d)"

definition run_stage ::
  "'d oracle_setting \<Rightarrow> (string \<Rightarrow> int) \<Rightarrow> string \<Rightarrow> int \<Rightarrow> int \<Rightarrow> (rf_oracle, unit, 'd, unit) app" where
  "run_stage E K name channel power_qdbm = do {
     print E (ln ''REMU_RF_ORACLE BEGIN stage=%s channel=%u power_qdbm=%d'') [Str name, Z channel, Z power_qdbm];
     channel_result \<leftarrow> call E ''esp_wifi_set_channel'' [Z channel, Z (K ''WIFI_SECOND_CHAN_NONE'')];
     power_result \<leftarrow> call E ''esp_wifi_set_max_tx_power'' [Z power_qdbm];
     get_channel \<leftarrow> query E ''esp_wifi_get_channel'' [];
     get_power \<leftarrow> query E ''esp_wifi_get_max_tx_power'' [];
     assign E (probe_request_update (\<lambda>p. p[34 := digit_char (channel sdiv 10)]));
     assign E (probe_request_update (\<lambda>p. p[35 := digit_char (channel smod 10)]));
     assign E (probe_request_update (\<lambda>p. p[38 := digit_char ((power_qdbm sdiv 100) smod 10)]));
     assign E (probe_request_update (\<lambda>p. p[39 := digit_char ((power_qdbm sdiv 10) smod 10)]));
     assign E (probe_request_update (\<lambda>p. p[40 := digit_char (power_qdbm smod 10)]));
     frame \<leftarrow> look E probe_request;
     tx_result \<leftarrow> call E ''esp_wifi_80211_tx'' [Z (K ''WIFI_IF_STA''), Raw frame, Z 44, flag True];
     print E (ln ''REMU_RF_ORACLE END stage=%s set_channel=%d set_power=%d get_channel=%d observed_channel=%u observed_second=%u get_power=%d observed_power_qdbm=%d tx=%d'')
       [Str name, Z channel_result, Z power_result, Z (fst get_channel), Z (out_int 0 (snd get_channel) 0),
        Z (out_int 1 (snd get_channel) (K ''WIFI_SECOND_CHAN_NONE'')), Z (fst get_power), Z (out_int 0 (snd get_power) 0),
        Z tx_result];
     vTaskDelay E (Millis 20) }"

definition POWER_LOW_QDBM :: int where "POWER_LOW_QDBM = 32"
definition POWER_MEDIUM_QDBM :: int where "POWER_MEDIUM_QDBM = 56"
definition POWER_HIGH_QDBM :: int where "POWER_HIGH_QDBM = 80"

definition oracle_app_main :: "(unit, 'd) library \<Rightarrow> (string \<Rightarrow> int) \<Rightarrow> (rf_oracle, unit, 'd, bool) app" where
  "oracle_app_main X K = (let E = oracle_setting X in body_of
     [ESP_ERROR_CHECK E K ''esp_netif_init'' [],
      ESP_ERROR_CHECK E K ''esp_event_loop_create_default'' [],
      act_of (checkpoint E ''COLD_INIT_BEGIN''),
      initialize_wifi E K,
      act_of (checkpoint E ''COLD_INIT_END''),
      act_of (run_stage E K ''CHANNEL_1'' 1 POWER_MEDIUM_QDBM),
      act_of (run_stage E K ''CHANNEL_6'' 6 POWER_MEDIUM_QDBM),
      act_of (run_stage E K ''CHANNEL_11'' 11 POWER_MEDIUM_QDBM),
      act_of (run_stage E K ''POWER_LOW'' 6 POWER_LOW_QDBM),
      act_of (run_stage E K ''POWER_MEDIUM'' 6 POWER_MEDIUM_QDBM),
      act_of (run_stage E K ''POWER_HIGH'' 6 POWER_HIGH_QDBM),
      act_of (checkpoint E ''WARM_DISABLE_BEGIN''),
      ESP_ERROR_CHECK E K ''esp_wifi_stop'' [],
      act_of (checkpoint E ''WARM_DISABLE_END''),
      act_of (checkpoint E ''WARM_ENABLE_BEGIN''),
      ESP_ERROR_CHECK E K ''esp_wifi_start'' [],
      act_of (checkpoint E ''WARM_ENABLE_END''),
      act_of (run_stage E K ''WARM_CHANNEL_6'' 6 POWER_MEDIUM_QDBM),
      act_of (checkpoint E ''RADIO_RESET_BEGIN''),
      ESP_ERROR_CHECK E K ''esp_wifi_stop'' [],
      ESP_ERROR_CHECK E K ''esp_wifi_deinit'' [],
      act_of (checkpoint E ''RADIO_RESET_DEINITIALIZED''),
      initialize_wifi E K,
      act_of (checkpoint E ''RADIO_RESET_END''),
      act_of (run_stage E K ''RESET_CHANNEL_11'' 11 POWER_MEDIUM_QDBM),
      act_of (checkpoint E ''DONE'')])"

definition oracle_eff :: "unit \<Rightarrow> rf_oracle \<Rightarrow> rf_oracle" where
  "oracle_eff e s = s"

interpretation rf_oracle: vendor_app "oracle_setting X" oracle_eff
  by unfold_locales (simp add: oracle_setting_def oracle_eff_def tells_return)

lemma oracle_quiet [simp]: "fold oracle_eff evs s = s"
  by (induction evs) (simp_all add: oracle_eff_def)

text \<open>
  The calls that tune and transmit.  A transmission is labelled: channel and power can be read back from the decimal digits
  in its frame.  A stage requests its channel, then its power, then transmits the frame labelled with both.
\<close>

definition read_digits :: "bytes \<Rightarrow> nat list \<Rightarrow> int" where
  "read_digits f ixs = fold (\<lambda>i n. 10 * n + (uint (f ! i) - 48)) ixs 0"

fun radio_call :: "act \<Rightarrow> bool" where
  "radio_call (Called f xs r outs) \<longleftrightarrow> f \<in> {''esp_wifi_set_channel'', ''esp_wifi_set_max_tx_power'', ''esp_wifi_80211_tx''}"
| "radio_call a \<longleftrightarrow> False"

definition oracle_frame :: "bytes \<Rightarrow> bool" where
  "oracle_frame f \<longleftrightarrow> length f = 44 \<and> take 8 (drop 26 f) = map of_char ''REMU-RF-'' \<and>
     f ! 36 = of_char CHR ''-'' \<and> f ! 37 = of_char CHR ''P''"

definition labelled :: "(string \<Rightarrow> int) \<Rightarrow> int \<Rightarrow> int \<Rightarrow> act \<Rightarrow> bool" where
  "labelled K channel power_qdbm a \<longleftrightarrow> (\<exists>f r outs.
     a = Called ''esp_wifi_80211_tx'' [Z (K ''WIFI_IF_STA''), Raw f, Z 44, flag True] r outs \<and> oracle_frame f \<and>
     read_digits f [34, 35] = channel \<and> read_digits f [38, 39, 40] = power_qdbm)"

definition stage_calls :: "(string \<Rightarrow> int) \<Rightarrow> int \<times> int \<Rightarrow> (act \<Rightarrow> bool) list" where
  "stage_calls K x = (case x of (channel, power_qdbm) \<Rightarrow>
     [invoked ''esp_wifi_set_channel'' [Z channel, Z (K ''WIFI_SECOND_CHAN_NONE'')],
      invoked ''esp_wifi_set_max_tx_power'' [Z power_qdbm],
      labelled K channel power_qdbm])"

definition tuned :: "(string \<Rightarrow> int) \<Rightarrow> (int \<times> int) list \<Rightarrow> act list \<Rightarrow> bool" where
  "tuned K L as \<longleftrightarrow> list_all2 (\<lambda>q a. q a) (concat (map (stage_calls K) L)) (filter radio_call as)"

lemma tuned_append: "tuned K L as \<Longrightarrow> tuned K N bs \<Longrightarrow> tuned K (L @ N) (as @ bs)"
  by (auto simp: tuned_def intro: list_all2_appendI)

lemma uint_digit_char: "0 \<le> d \<Longrightarrow> d < 10 \<Longrightarrow> uint (digit_char d) = 48 + d"
  by (simp add: digit_char_def uint_word_of_int del: of_int_add)

lemma sdiv_nonneg: "0 \<le> a \<Longrightarrow> 0 < b \<Longrightarrow> a sdiv b = a div b" "0 \<le> a \<Longrightarrow> 0 < b \<Longrightarrow> a smod b = a mod b" for a b :: int
  by (simp_all add: signed_divide_int_def signed_modulo_int_def sgn_if)

text \<open>
  \<open>labels L M\<close>: the tuning and transmitting calls of \<open>M\<close> are those of the stages \<open>L\<close> in order, or of the first of them
  if it aborts.
\<close>

definition labels :: "(string \<Rightarrow> int) \<Rightarrow> (int \<times> int) list \<Rightarrow> (rf_oracle, unit, 'd, bool) app \<Rightarrow> bool" where
  "labels K L M \<longleftrightarrow> (\<forall>s. oracle_frame (probe_request s) \<longrightarrow> tells s M (\<lambda>b t as es. oracle_frame (probe_request t) \<and>
     (\<exists>L'. prefix L' L \<and> (b \<longrightarrow> L' = L) \<and> tuned K L' as)))"

lemma labels_Nil: "labels K [] (body_of [])"
  by (simp add: labels_def tells_return tuned_def)

lemma labels_Cons:
  assumes "labels K L M" "labels K L' (body_of Ms)"
  shows "labels K (L @ L') (body_of (M # Ms))"
proof -
  have "tells s (body_of (M # Ms)) (\<lambda>b t as es. oracle_frame (probe_request t) \<and>
      (\<exists>N. prefix N (L @ L') \<and> (b \<longrightarrow> N = L @ L') \<and> tuned K N as))" if "oracle_frame (probe_request s)" for s
    unfolding body_of.simps
  proof (intro tells_bind tells_if tells_mono [OF assms(1) [unfolded labels_def, rule_format, OF that]])
    fix b and t :: rf_oracle and as es
    assume *: "oracle_frame (probe_request t) \<and> (\<exists>N. prefix N L \<and> (b \<longrightarrow> N = L) \<and> tuned K N as)" "b"
    have step: "\<exists>N'. prefix N' (L @ L') \<and> (r \<longrightarrow> N' = L @ L') \<and> tuned K N' (as @ bs)"
      if "prefix N L'" "r \<longrightarrow> N = L'" "tuned K N bs" for r N bs
      using that * by (intro exI [of _ "L @ N"]) (auto intro: tuned_append)
    from * show "tells t (body_of Ms) (\<lambda>b u bs fs. oracle_frame (probe_request u) \<and>
        (\<exists>N. prefix N (L @ L') \<and> (b \<longrightarrow> N = L @ L') \<and> tuned K N (as @ bs)))"
      by (intro tells_mono [OF assms(2) [unfolded labels_def, rule_format]]) (auto intro!: step)
  qed (auto intro!: tells_return intro: prefix_prefix)
  then show ?thesis by (simp add: labels_def)
qed

lemma labels_skip: "labels K [] M \<Longrightarrow> labels K L (body_of Ms) \<Longrightarrow> labels K L (body_of (M # Ms))"
  using labels_Cons [of K "[]" M L Ms] by simp

lemma labels_next: "labels K [x] M \<Longrightarrow> labels K L (body_of Ms) \<Longrightarrow> labels K (x # L) (body_of (M # Ms))"
  using labels_Cons [of K "[x]" M L Ms] by simp

lemma labels_quiet:
  "f \<notin> {''esp_wifi_set_channel'', ''esp_wifi_set_max_tx_power'', ''esp_wifi_80211_tx''} \<Longrightarrow>
     labels K [] (ESP_ERROR_CHECK (oracle_setting X) K f xs)"
  "labels K [] (act_of (checkpoint (oracle_setting X) phase))"
  unfolding labels_def ESP_ERROR_CHECK_def act_of_def checkpoint_def
  by (intro allI impI tell_rules; simp add: tuned_def)+

lemma labels_initialize: "labels K [] (initialize_wifi (oracle_setting X) K)"
proof -
  have "oracle_frame (take 10 f @ out_raw outs (take 6 (drop 10 f)) @ drop 16 f)" if "oracle_frame f" for f outs
    using that by (auto simp: oracle_frame_def out_raw_def nth_append min_def split: list.split val.split)
  then have "labels K [] (do {
        r \<leftarrow> query (oracle_setting X) ''esp_wifi_get_mac'' [Z (K ''WIFI_IF_STA'')];
        assign (oracle_setting X)
          (probe_request_update (\<lambda>p. take 10 p @ out_raw (snd r) (take 6 (drop 10 p)) @ drop 16 p));
        State_Monad.return (fst r = K ''ESP_OK'') })"
    unfolding labels_def by (intro allI impI tell_rules) (simp add: tuned_def)
  then show ?thesis
    unfolding initialize_wifi_def by (intro labels_skip labels_quiet labels_Nil) simp_all
qed

definition relabelled :: "int \<Rightarrow> int \<Rightarrow> bytes \<Rightarrow> bytes" where
  "relabelled c p f = f[34 := digit_char (c sdiv 10), 35 := digit_char (c smod 10),
     38 := digit_char ((p sdiv 100) smod 10), 39 := digit_char ((p sdiv 10) smod 10), 40 := digit_char (p smod 10)]"

lemma relabelled_frame: "oracle_frame f \<Longrightarrow> oracle_frame (relabelled c p f)"
  by (simp add: oracle_frame_def relabelled_def take_update_cancel drop_update_swap)

lemma relabelled_digits:
  assumes "oracle_frame f" "0 \<le> c" "c < 100" "0 \<le> p" "p < 128"
  shows "read_digits (relabelled c p f) [34, 35] = c" "read_digits (relabelled c p f) [38, 39, 40] = p"
proof -
  show "read_digits (relabelled c p f) [34, 35] = c"
    using assms by (simp add: oracle_frame_def relabelled_def read_digits_def sdiv_nonneg uint_digit_char)
  have "read_digits (relabelled c p f) [38, 39, 40] = 100 * (p div 100) + 10 * (p div 10 mod 10) + p mod 10"
    using assms by (simp add: oracle_frame_def relabelled_def read_digits_def sdiv_nonneg uint_digit_char)
  also have "p div 100 = p div 10 div 10"
    using zdiv_zmult2_eq [of 10 p 10] by simp
  also have "100 * (p div 10 div 10) + 10 * (p div 10 mod 10) + p mod 10 = p"
    using mult_div_mod_eq [of 10 "p div 10"] mult_div_mod_eq [of 10 p] by linarith
  finally show "read_digits (relabelled c p f) [38, 39, 40] = p" .
qed

lemma labels_stage:
  assumes "0 \<le> c" "c < 100" "0 \<le> p" "p < 128"
  shows "labels K [(c, p)] (act_of (run_stage (oracle_setting X) K name c p))"
proof -
  have "labelled K c p (Called ''esp_wifi_80211_tx'' [Z (K ''WIFI_IF_STA''), Raw (relabelled c p f), Z 44, flag True] r outs)"
    if "oracle_frame f" for f r outs
    using that assms by (simp add: labelled_def relabelled_frame relabelled_digits)
  then show ?thesis
    unfolding labels_def act_of_def run_stage_def
    by (intro allI impI tell_rules)
      (simp add: tuned_def stage_calls_def relabelled_def [symmetric] relabelled_frame)
qed

lemma labels_app_main:
  "labels K [(1, 56), (6, 56), (11, 56), (6, 32), (6, 56), (6, 80), (6, 56), (11, 56)] (oracle_app_main X K)"
  unfolding oracle_app_main_def Let_def POWER_LOW_QDBM_def POWER_MEDIUM_QDBM_def POWER_HIGH_QDBM_def
  by (intro labels_skip [OF labels_quiet(1)] labels_skip [OF labels_quiet(2)] labels_skip [OF labels_initialize]
      labels_next [OF labels_stage] labels_Nil) simp_all

lemma within_oracle: "within 100 (oracle_app_main X K)"
proof -
  have parts: "within 5 (initialize_wifi (oracle_setting X) K)"
    "within 1 (act_of (checkpoint (oracle_setting X) phase))"
    "within 8 (act_of (run_stage (oracle_setting X) K name c p))" for phase name c p
    unfolding initialize_wifi_def checkpoint_def act_of_def run_stage_def ESP_ERROR_CHECK_def body_of.simps
    by (intro withinI tell_rules; simp)+
  show ?thesis
    unfolding oracle_app_main_def Let_def
    by (rule keeps_weaken, (rule keeps_body rf_oracle.within_ops parts)+) simp
qed

text \<open>C20.
  The frames of the RF oracle say how they were sent.  In every run of the oracle, whatever the Wi-Fi library
  answers, its calls of \<open>esp_wifi_set_channel\<close>, \<open>esp_wifi_set_max_tx_power\<close> and \<open>esp_wifi_80211_tx\<close> are those of its eight
  stages in order (of the first of them if a check aborts it): each stage requests one channel and one power and then transmits one
  frame, and the requested channel and power are the decimal digits in the network name of that frame.
\<close>

theorem rf_oracle_labels:
  assumes "run_state (oracle_app_main X K) w = (completed, w')" and "vars w = oracle_statics" "story w = []"
  shows "\<exists>n. (completed \<longrightarrow> n = 8) \<and>
    list_all2 (\<lambda>q a. q a)
      (concat (map (\<lambda>(channel, power_qdbm).
           [invoked ''esp_wifi_set_channel'' [Z channel, Z (K ''WIFI_SECOND_CHAN_NONE'')],
            invoked ''esp_wifi_set_max_tx_power'' [Z power_qdbm],
            labelled K channel power_qdbm])
         (take n [(1, 56), (6, 56), (11, 56), (6, 32), (6, 56), (6, 80), (6, 56), (11, 56)])))
      (filter radio_call (acts (story w')))"
proof -
  have "oracle_frame (probe_request (vars w))"
    unfolding assms(2) by code_simp
  from tells_run [OF labels_app_main [unfolded labels_def, rule_format, OF this] assms(1) refl assms(3)]
  obtain L where L: "prefix L [(1, 56), (6, 56), (11, 56), (6, 32), (6, 56), (6, 80), (6, 56), (11, 56)]"
    "completed \<longrightarrow> L = [(1, 56), (6, 56), (11, 56), (6, 32), (6, 56), (6, 80), (6, 56), (11, 56)]"
    "tuned K L (acts (story w'))"
    by auto
  from L(1) have "L = take (length L) [(1, 56), (6, 56), (11, 56), (6, 32), (6, 56), (6, 80), (6, 56), (11, 56)]"
    by (metis append_eq_conv_conj prefixE)
  with L(2,3) show ?thesis
    unfolding tuned_def stage_calls_def [abs_def] by (intro exI [of _ "length L"]) auto
qed

definition willing_library :: "(unit, unit) library" where
  "willing_library = \<lparr>ask = (\<lambda>f xs d. ((0, []), d)), due = (\<lambda>d. ([], d)), rest = (\<lambda>p d. d)\<rparr>"

lemma body_of_passes: "\<forall>M \<in> set Ms. \<forall>w. fst (run_state M w) \<Longrightarrow> fst (run_state (body_of Ms) w)"
  by (induction Ms arbitrary: w) (simp_all add: case_prod_beta)

lemma willing_passes:
  "fst (run_state (ESP_ERROR_CHECK (oracle_setting willing_library) (\<lambda>x. 0) f xs) w)"
  "fst (run_state (act_of M) w)" "fst (run_state (initialize_wifi (oracle_setting willing_library) (\<lambda>x. 0)) w)"
  "fst (run_state (oracle_app_main willing_library (\<lambda>x. 0)) w)"
proof -
  have query: "fst (fst (run_state (query (oracle_setting willing_library) f xs) w)) = 0" for f xs w
    by (simp add: query_def request_def oracle_setting_def willing_library_def split: prod.splits)
  show check: "fst (run_state (ESP_ERROR_CHECK (oracle_setting willing_library) (\<lambda>x. 0) f xs) w)" for f xs w
    using query [of f xs w] by (simp add: ESP_ERROR_CHECK_def call_def case_prod_beta)
  show acts: "fst (run_state (act_of M) w)" for M :: "(rf_oracle, unit, unit, 'a) app" and w
    by (simp add: act_of_def split: prod.splits)
  show init: "fst (run_state (initialize_wifi (oracle_setting willing_library) (\<lambda>x. 0)) w)" for w
    unfolding initialize_wifi_def using query
    by (intro body_of_passes) (auto simp: check case_prod_beta)
  show "fst (run_state (oracle_app_main willing_library (\<lambda>x. 0)) w)"
    unfolding oracle_app_main_def Let_def by (rule body_of_passes) (simp add: check init act_of_def case_prod_beta)
qed

theorem rf_oracle_labels_witness:
  "\<exists>w'. run_state (oracle_app_main willing_library (\<lambda>x. 0)) \<lparr>vars = oracle_statics, stack = (), story = []\<rparr> = (True, w') \<and>
     length (filter radio_call (acts (story w'))) = 24"
proof -
  let ?w = "\<lparr>vars = oracle_statics, stack = (), story = []\<rparr> :: (rf_oracle, unit, unit) site"
  obtain b w' where run: "run_state (oracle_app_main willing_library (\<lambda>x. 0)) ?w = (b, w')" by fastforce
  with willing_passes(4) [of ?w] have "b" by simp
  with rf_oracle_labels [OF run] run show ?thesis by (auto dest!: list_all2_lengthD)
qed

end
