(* ===== verification/Vendor_Thread.thy ===== *)
theory Vendor_Thread
  imports Vendor_App
begin

text \<open>
  The OpenThread applications of the vendor's libraries: the raw link probe (\<^verbatim>\<open>vendor-openthread-probe\<close>) and the node that is
  driven by commands (\<^verbatim>\<open>vendor-openthread-cli-probe\<close>).  A pointer the library returns is a number, \<open>0\<close> for \<open>NULL\<close>.
\<close>

section \<open>The platform\<close>

text \<open>
  \<open>if (result == NO_FREE_PAGES || result == NEW_VERSION_FOUND) { erase; init }\<close>, then the event loop and the event
  descriptors.
\<close>

definition nvs_retry :: "('s, 'e, 'd) setting \<Rightarrow> (string \<Rightarrow> int) \<Rightarrow> int \<Rightarrow> ('s, 'e, 'd, int) app" where
  "nvs_retry E K result =
     (if result = K ''ESP_ERR_NVS_NO_FREE_PAGES'' \<or> result = K ''ESP_ERR_NVS_NEW_VERSION_FOUND'' then do {
        result \<leftarrow> call E ''nvs_flash_erase'' [];
        chain (K ''ESP_OK'') [call E ''nvs_flash_init'' []] result }
      else State_Monad.return result)"

definition platform_services :: "('s, 'e, 'd) setting \<Rightarrow> (string \<Rightarrow> int) \<Rightarrow> int \<Rightarrow> ('s, 'e, 'd, int) app" where
  "platform_services E K result = do {
     result \<leftarrow> nvs_retry E K result;
     chain (K ''ESP_OK'')
       [call E ''esp_event_loop_create_default'' [], call E ''esp_vfs_eventfd_register'' [Z 3]] result }"

text \<open>\<open>esp_openthread_config_t\<close>: the fields the programs set.\<close>

definition openthread_config :: "(string \<Rightarrow> int) \<Rightarrow> val list" where
  "openthread_config K = [Z (K ''RADIO_MODE_NATIVE''), Z (K ''HOST_CONNECTION_MODE_NONE''), Str ''nvs'', Z 10, Z 10]"

section \<open>The raw link probe\<close>

record openthread =
  transmit_done :: bool
  receive_done :: bool
  energy_scan_done :: bool
  ot_transmit_error :: int
  receive_error :: int
  receive_rssi :: int
  receive_lqi :: int
  receive_length :: nat
  receive_bytes :: bytes
  scan_rssi :: int

definition ot_statics :: openthread where
  "ot_statics = \<lparr>transmit_done = False, receive_done = False, energy_scan_done = False, ot_transmit_error = - 1,
     receive_error = - 1, receive_rssi = 0, receive_lqi = 0, receive_length = 0, receive_bytes = replicate 7 0, scan_rssi = 0\<rparr>"

text \<open>A received frame: its length, the bytes at its pointer, signal strength and quality.\<close>

record radio_frame =
  mLength :: nat
  mPsdu :: "nat \<Rightarrow> u8"
  mRssi :: int
  mLqi :: int

datatype ot_event = Ot_Transmit_Done int | Ot_Receive_Done "radio_frame option" int | Ot_Energy_Scan_Done int

definition handle_transmit_done :: "int \<Rightarrow> (openthread, ot_event, 'd, unit) app" where
  "handle_transmit_done error = do {
     poke (ot_transmit_error_update (\<lambda>_. error));
     poke (transmit_done_update (\<lambda>_. True)) }"

text \<open>\<open>receive_bytes[index] = frame->mPsdu[index]\<close> for the first \<open>n\<close> indices\<close>

definition overwrite :: "bytes \<Rightarrow> nat \<Rightarrow> (nat \<Rightarrow> u8) \<Rightarrow> bytes" where
  "overwrite bs n p = map p [0..<n] @ drop n bs"

definition handle_receive_done :: "radio_frame option \<Rightarrow> int \<Rightarrow> (openthread, ot_event, 'd, unit) app" where
  "handle_receive_done frame error = do {
     poke (receive_error_update (\<lambda>_. error));
     (case frame of
        None \<Rightarrow> State_Monad.return ()
      | Some f \<Rightarrow> do {
          poke (receive_length_update (\<lambda>_. mLength f));
          poke (receive_rssi_update (\<lambda>_. mRssi f));
          poke (receive_lqi_update (\<lambda>_. mLqi f));
          poke (receive_bytes_update (\<lambda>bs. overwrite bs (if mLength f < 7 then mLength f else 7) (mPsdu f))) });
     poke (receive_done_update (\<lambda>_. True)) }"

definition handle_energy_scan_done :: "int \<Rightarrow> (openthread, ot_event, 'd, unit) app" where
  "handle_energy_scan_done max_rssi = do {
     poke (scan_rssi_update (\<lambda>_. max_rssi));
     poke (energy_scan_done_update (\<lambda>_. True)) }"

fun ot_react :: "ot_event \<Rightarrow> (openthread, ot_event, 'd, unit) app" where
  "ot_react (Ot_Transmit_Done error) = handle_transmit_done error"
| "ot_react (Ot_Receive_Done frame error) = handle_receive_done frame error"
| "ot_react (Ot_Energy_Scan_Done max_rssi) = handle_energy_scan_done max_rssi"

type_synonym 'd ot_setting = "(openthread, ot_event, 'd) setting"
type_synonym 'd ot_part = "(openthread, ot_event, 'd, bool) app"

definition ot_setting :: "(ot_event, 'd) library \<Rightarrow> 'd ot_setting" where
  "ot_setting X = \<lparr>lib = X, react = ot_react\<rparr>"

definition wait_flag ::
  "'d ot_setting \<Rightarrow> (openthread \<Rightarrow> bool) \<Rightarrow> nat \<Rightarrow> (openthread, ot_event, 'd, bool) app" where
  "wait_flag E f timeout_ms = do { wait E timeout_ms (\<lambda>s. \<not> f s) (Millis 1); look E f }"

text \<open>\<open>completed = error == OT_ERROR_NONE && wait_flag(...)\<close>\<close>

definition completion ::
  "'d ot_setting \<Rightarrow> bool \<Rightarrow> (openthread \<Rightarrow> bool) \<Rightarrow> nat \<Rightarrow> (openthread, ot_event, 'd, bool) app" where
  "completion E started f timeout_ms = (if started then wait_flag E f timeout_ms else State_Monad.return False)"

definition locked :: "('s, 'e, 'd) setting \<Rightarrow> (string \<Rightarrow> int) \<Rightarrow> ('s, 'e, 'd, 'a) app \<Rightarrow> ('s, 'e, 'd, 'a) app" where
  "locked E K M = do {
     _ \<leftarrow> call E ''esp_openthread_lock_acquire'' [Z (K ''portMAX_DELAY'')];
     a \<leftarrow> M;
     _ \<leftarrow> call E ''esp_openthread_lock_release'' [];
     State_Monad.return a }"

definition ot_platform :: "'d ot_setting \<Rightarrow> (string \<Rightarrow> int) \<Rightarrow> 'd ot_part" where
  "ot_platform E K = do {
     result \<leftarrow> call E ''nvs_flash_init'' [];
     result \<leftarrow> platform_services E K result;
     print E (ln ''REMU_VENDOR_OPENTHREAD_PLATFORM result=%d'') [Z result];
     State_Monad.return (result = K ''ESP_OK'') }"

definition ot_start :: "'d ot_setting \<Rightarrow> (string \<Rightarrow> int) \<Rightarrow> 'd ot_part" where
  "ot_start E K = do {
     result \<leftarrow> call E ''esp_openthread_start'' (openthread_config K);
     print E (ln ''REMU_VENDOR_OPENTHREAD_START result=%d'') [Z result];
     State_Monad.return (result = K ''ESP_OK'') }"

definition ot_configure :: "'d ot_setting \<Rightarrow> (string \<Rightarrow> int) \<Rightarrow> val \<Rightarrow> (openthread, ot_event, 'd, int) app" where
  "ot_configure E K i = do {
     error \<leftarrow> call E ''otLinkRawSetReceiveDone'' [i, Str ''handle_receive_done''];
     error \<leftarrow> chain (K ''OT_ERROR_NONE'')
       [call E ''otLinkRawSetPromiscuous'' [i, flag True],
        call E ''otLinkRawSetShortAddress'' [i, Z 0x5678],
        call E ''otLinkRawSrcMatchEnable'' [i, flag True],
        call E ''otLinkRawSrcMatchAddShortEntry'' [i, Z 0x1234],
        call E ''otLinkRawReceive'' [i]] error;
     enabled \<leftarrow> call E ''otLinkRawIsEnabled'' [i];
     promiscuous \<leftarrow> call E ''otLinkRawGetPromiscuous'' [i];
     caps \<leftarrow> call E ''otLinkRawGetCaps'' [i];
     print E (ln ''REMU_VENDOR_OPENTHREAD_RAW_CONFIG error=%d enabled=%u promiscuous=%u caps=%u'')
       [Z error, flag (enabled \<noteq> 0), flag (promiscuous \<noteq> 0), Z caps];
     State_Monad.return error }"

text \<open>
  The transmit buffer is filled with the payload, its length, channel 11, no delay, no backoffs, no retries, channel 11
  afterwards and the flags cleared.
\<close>

definition filled_frame :: "int \<Rightarrow> bytes \<Rightarrow> val list" where
  "filled_frame frame payload =
     [Z frame, Raw payload, Z (int (length payload)), Z 11, Z 0, Z 0, Z 0, Z 0, Z 11, flag False, flag False, flag False, flag False]"

definition ot_payload :: bytes where "ot_payload = [0x01, 0x00, 0x78, 0x00, 0x00]"

definition ot_secure_payload :: bytes where
  "ot_secure_payload = [0x49, 0x98, 0x2b, 0x34, 0x12, 0x78, 0x56, 0xbc, 0x9a, 0x0d, 0x00, 0x00, 0x00, 0x00, 0x00,
     0x54, 0x48, 0x52, 0x44, 0x00, 0x00, 0x00, 0x00, 0x00, 0x00]"

definition ot_transmit_first :: "'d ot_setting \<Rightarrow> (string \<Rightarrow> int) \<Rightarrow> val \<Rightarrow> int \<Rightarrow> (openthread, ot_event, 'd, int) app" where
  "ot_transmit_first E K i error = do {
     frame \<leftarrow> call E ''otLinkRawGetTransmitBuffer'' [i];
     if error = K ''OT_ERROR_NONE'' \<and> frame \<noteq> 0 then do {
       print E (ln ''REMU_VENDOR_OPENTHREAD_TX_FRAME channel=%u length=%u'') [Z 11, Z 5];
       call E ''otLinkRawTransmit'' ([i] @ filled_frame frame ot_payload @ [Str ''handle_transmit_done'']) }
     else State_Monad.return (if error = K ''OT_ERROR_NONE'' then K ''OT_ERROR_FAILED'' else error) }"

definition ot_report_transmit :: "'d ot_setting \<Rightarrow> (string \<Rightarrow> int) \<Rightarrow> string \<Rightarrow> string \<Rightarrow> int \<Rightarrow> 'd ot_part" where
  "ot_report_transmit E K started ended error = do {
     print E started [Z error];
     completed \<leftarrow> completion E (error = K ''OT_ERROR_NONE'') transmit_done 500;
     e \<leftarrow> look E ot_transmit_error;
     print E ended [flag completed, Z e];
     e \<leftarrow> look E ot_transmit_error;
     State_Monad.return (completed \<and> e = K ''OT_ERROR_NONE'') }"

definition qualification_mac_key :: bytes where
  "qualification_mac_key = [0x00, 0x01, 0x02, 0x03, 0x04, 0x05, 0x06, 0x07, 0x08, 0x09, 0x0a, 0x0b, 0x0c, 0x0d, 0x0e, 0x0f]"

definition ot_transmit_secure :: "'d ot_setting \<Rightarrow> (string \<Rightarrow> int) \<Rightarrow> val \<Rightarrow> (openthread, ot_event, 'd, int) app" where
  "ot_transmit_secure E K i = do {
     error \<leftarrow> call E ''otLinkRawSetMacKey''
       [i, Z 8, Z 7, Raw qualification_mac_key, Raw qualification_mac_key, Raw qualification_mac_key];
     error \<leftarrow> chain (K ''OT_ERROR_NONE'') [call E ''otLinkRawSetMacFrameCounter'' [i, Z 0x01020304]] error;
     print E (ln ''REMU_VENDOR_OPENTHREAD_SECURE_CONFIG key_id=7 counter=16909060 error=%d'') [Z error];
     frame \<leftarrow> call E ''otLinkRawGetTransmitBuffer'' [i];
     if error = K ''OT_ERROR_NONE'' \<and> frame \<noteq> 0 then do {
       assign E (transmit_done_update (\<lambda>_. False));
       assign E (ot_transmit_error_update (\<lambda>_. - 1));
       call E ''otLinkRawTransmit'' ([i] @ filled_frame frame ot_secure_payload @ [Str ''handle_transmit_done'']) }
     else State_Monad.return (if error = K ''OT_ERROR_NONE'' then K ''OT_ERROR_FAILED'' else error) }"

definition ot_receive :: "'d ot_setting \<Rightarrow> (string \<Rightarrow> int) \<Rightarrow> val \<Rightarrow> 'd ot_part" where
  "ot_receive E K i = do {
     error \<leftarrow> locked E K (call E ''otLinkRawReceive'' [i]);
     print E (ln ''REMU_VENDOR_OPENTHREAD_RX_START error=%d'') [Z error];
     completed \<leftarrow> completion E (error = K ''OT_ERROR_NONE'') receive_done 1000;
     xs \<leftarrow> look E (\<lambda>s. [flag completed, Z (receive_error s), Z (int (receive_length s))] @
       map (\<lambda>j. Z (uint (receive_bytes s ! j))) [0..<5] @ [Z (receive_rssi s), Z (receive_lqi s)]);
     print E (ln ''REMU_VENDOR_OPENTHREAD_RX_DONE complete=%u error=%d length=%u %02x %02x %02x %02x %02x rssi=%d lqi=%u'') xs;
     e \<leftarrow> look E receive_error;
     State_Monad.return (completed \<and> e = K ''OT_ERROR_NONE'') }"

definition ot_energy_scan :: "'d ot_setting \<Rightarrow> (string \<Rightarrow> int) \<Rightarrow> val \<Rightarrow> 'd ot_part" where
  "ot_energy_scan E K i = do {
     error \<leftarrow> locked E K (call E ''otLinkRawEnergyScan'' [i, Z 11, Z 1, Str ''handle_energy_scan_done'']);
     print E (ln ''REMU_VENDOR_OPENTHREAD_ED_START error=%d'') [Z error];
     completed \<leftarrow> completion E (error = K ''OT_ERROR_NONE'') energy_scan_done 500;
     rssi \<leftarrow> look E scan_rssi;
     print E (ln ''REMU_VENDOR_OPENTHREAD_ED_DONE complete=%u rssi=%d'') [flag completed, Z rssi];
     State_Monad.return completed }"

text \<open>The loop over the power cycles, \<open>n\<close> to go: completed cycles and the last errors.\<close>

primrec power_cycles ::
  "('s, 'e, 'd) setting \<Rightarrow> (string \<Rightarrow> int) \<Rightarrow> val \<Rightarrow> nat \<Rightarrow> nat \<times> int \<times> int \<Rightarrow> ('s, 'e, 'd, nat \<times> int \<times> int) app" where
  "power_cycles E K i 0 result = State_Monad.return result"
| "power_cycles E K i (Suc n) result = do {
     sleep_error \<leftarrow> call E ''otLinkRawSleep'' [i];
     if sleep_error \<noteq> K ''OT_ERROR_NONE'' then State_Monad.return (fst result, sleep_error, snd (snd result))
     else do {
       wake_error \<leftarrow> call E ''otLinkRawReceive'' [i];
       if wake_error \<noteq> K ''OT_ERROR_NONE'' then State_Monad.return (fst result, sleep_error, wake_error)
       else power_cycles E K i n (fst result + 1, sleep_error, wake_error) } }"

definition ot_power :: "'d ot_setting \<Rightarrow> (string \<Rightarrow> int) \<Rightarrow> val \<Rightarrow> 'd ot_part" where
  "ot_power E K i = do {
     r \<leftarrow> locked E K (power_cycles E K i 16 (0, K ''OT_ERROR_NONE'', K ''OT_ERROR_NONE''));
     print E (ln ''REMU_VENDOR_OPENTHREAD_SLEEP_WAKE cycles=%u sleep=%d wake=%d'')
       [Z (int (fst r)), Z (fst (snd r)), Z (snd (snd r))];
     State_Monad.return True }"

definition ot_app_main :: "(ot_event, 'd) library \<Rightarrow> (string \<Rightarrow> int) \<Rightarrow> 'd ot_part" where
  "ot_app_main X K = (let E = ot_setting X in body_of
     [ot_platform E K, ot_start E K,
      do {
        r \<leftarrow> locked E K (do {
          i \<leftarrow> call E ''esp_openthread_get_instance'' [];
          error \<leftarrow> ot_configure E K (Z i);
          error \<leftarrow> ot_transmit_first E K (Z i) error;
          State_Monad.return (i, error) });
        body_of
          [ot_report_transmit E K (ln ''REMU_VENDOR_OPENTHREAD_TX_START error=%d'')
             (ln ''REMU_VENDOR_OPENTHREAD_TX_DONE complete=%u error=%d'') (snd r),
           do {
             error \<leftarrow> locked E K (ot_transmit_secure E K (Z (fst r)));
             ot_report_transmit E K (ln ''REMU_VENDOR_OPENTHREAD_SECURE_TX_START error=%d'')
               (ln ''REMU_VENDOR_OPENTHREAD_SECURE_TX_DONE complete=%u error=%d'') error },
           ot_receive E K (Z (fst r)), ot_energy_scan E K (Z (fst r)), ot_power E K (Z (fst r))] }])"

fun ot_eff :: "ot_event \<Rightarrow> openthread \<Rightarrow> openthread" where
  "ot_eff (Ot_Transmit_Done e) s = s\<lparr>ot_transmit_error := e, transmit_done := True\<rparr>"
| "ot_eff (Ot_Receive_Done None e) s = s\<lparr>receive_error := e, receive_done := True\<rparr>"
| "ot_eff (Ot_Receive_Done (Some f) e) s =
     s\<lparr>receive_error := e, receive_length := mLength f, receive_rssi := mRssi f, receive_lqi := mLqi f,
       receive_bytes := overwrite (receive_bytes s) (min (mLength f) 7) (mPsdu f), receive_done := True\<rparr>"
| "ot_eff (Ot_Energy_Scan_Done r) s = s\<lparr>scan_rssi := r, energy_scan_done := True\<rparr>"

interpretation ot: vendor_app "ot_setting X" ot_eff
proof
  fix s e
  show "tells s (react (ot_setting X) e) (\<lambda>r t as es. t = ot_eff e s \<and> as = [] \<and> es = [])"
    by (cases "(e, s)" rule: ot_eff.cases)
      (auto simp: ot_setting_def handle_transmit_done_def handle_receive_done_def handle_energy_scan_done_def min_def
        intro!: tell_rules)
qed

section \<open>What the parts show\<close>

definition sent_with :: "int \<Rightarrow> ot_event \<Rightarrow> bool" where
  "sent_with c e \<longleftrightarrow> e = Ot_Transmit_Done c"

definition got_with :: "int \<Rightarrow> ot_event \<Rightarrow> bool" where
  "got_with c e \<longleftrightarrow> (\<exists>f. e = Ot_Receive_Done f c)"

definition scanned :: "ot_event \<Rightarrow> bool" where
  "scanned e \<longleftrightarrow> (\<exists>r. e = Ot_Energy_Scan_Done r)"

lemmas ot_patterns = sent_with_def got_with_def scanned_def

lemma ot_raise: "energy_scan_done (ot_eff e s) \<longleftrightarrow> scanned e \<or> energy_scan_done s"
  by (cases "(e, s)" rule: ot_eff.cases) (simp_all add: ot_patterns)

lemmas ot_raised [simp] = ot_raise [THEN ot.raised]

text \<open>A result is the one a callback reported, or the initial \<open>-1\<close>.\<close>

lemma ot_result:
  "ot_transmit_error (fold ot_eff evs s) = c \<Longrightarrow> ot_transmit_error s = c \<or> list_ex (sent_with c) evs"
  "receive_error (fold ot_eff evs s) = c \<Longrightarrow> receive_error s = c \<or> list_ex (got_with c) evs"
proof -
  have "ot_transmit_error (ot_eff e s) = c \<Longrightarrow> ot_transmit_error s = c \<or> sent_with c e"
    "receive_error (ot_eff e s) = c \<Longrightarrow> receive_error s = c \<or> got_with c e" for e s
    by (cases "(e, s)" rule: ot_eff.cases; simp add: ot_patterns)+
  then show "ot_transmit_error (fold ot_eff evs s) = c \<Longrightarrow> ot_transmit_error s = c \<or> list_ex (sent_with c) evs"
    "receive_error (fold ot_eff evs s) = c \<Longrightarrow> receive_error s = c \<or> list_ex (got_with c) evs"
    using ot.caused [of "\<lambda>s. ot_transmit_error s = c" "sent_with c"] ot.caused [of "\<lambda>s. receive_error s = c" "got_with c"]
    by blast+
qed

definition ot_justified :: "(string \<Rightarrow> int) \<Rightarrow> openthread \<Rightarrow> ot_event list \<Rightarrow> bool" where
  "ot_justified K s V \<longleftrightarrow>
     (ot_transmit_error s = K ''OT_ERROR_NONE'' \<longrightarrow> list_ex (sent_with (K ''OT_ERROR_NONE'')) V) \<and>
     (receive_error s = K ''OT_ERROR_NONE'' \<longrightarrow> list_ex (got_with (K ''OT_ERROR_NONE'')) V) \<and>
     (energy_scan_done s \<longrightarrow> list_ex scanned V)"

lemma ot_justified_later: "ot_justified K s V \<Longrightarrow> ot_justified K (fold ot_eff evs s) (V @ evs)"
  by (auto simp: ot_justified_def dest!: ot_result)

lemma tells_power_cycles [tell_rules]:
  "(\<And>r as evs. length as \<le> 2 * n \<Longrightarrow> Q r (fold ot_eff evs s) as evs) \<Longrightarrow> tells s (power_cycles (ot_setting X) K i n result) Q"
proof (induction n arbitrary: Q s result)
  case 0
  then show ?case using 0 [of "[]" _ "[]"] by (simp add: tells_return)
next
  case (Suc n)
  show ?case
    unfolding power_cycles.simps
    by (intro tell_rules Suc.IH)
      (use Suc.prems Suc.prems [of _ _ "_ @ _"] Suc.prems [of _ _ "_ @ _ @ _"] in \<open>auto simp: fold_append\<close>)
qed

lemmas ot_parts = locked_def completion_def wait_flag_def chain.simps nvs_retry_def platform_services_def

lemmas ot_goals = ot_justified_def exhibits_single openthread_config_def

lemma stage_platform:
  "stage (ot_justified K) (ot_platform (ot_setting X) K) 6 [] [] []"
  unfolding ot_platform_def ot_parts by (intro stageI tell_rules) (auto simp: ot_goals dest!: ot_result)

lemma stage_start:
  "stage (ot_justified K) (ot_start (ot_setting X) K) 2
     [called ''esp_openthread_start'' (openthread_config K) (K ''ESP_OK'')] [] []"
  unfolding ot_start_def ot_parts by (intro stageI tell_rules) (auto simp: ot_goals dest!: ot_result)

lemma stage_report_transmit:
  "stage (ot_justified K) (ot_report_transmit (ot_setting X) K started ended error) 502
     [] [] [sent_with (K ''OT_ERROR_NONE'')]"
  unfolding ot_report_transmit_def ot_parts by (intro stageI tell_rules) (auto simp: ot_goals dest!: ot_result)

lemma stage_ot_receive:
  "stage (ot_justified K) (ot_receive (ot_setting X) K i) 1005
     [succeeded ''otLinkRawReceive'' (K ''OT_ERROR_NONE'')] [] [got_with (K ''OT_ERROR_NONE'')]"
  unfolding ot_receive_def ot_parts by (intro stageI tell_rules) (auto simp: ot_goals dest!: ot_result)

lemma stage_energy_scan:
  "stage (ot_justified K) (ot_energy_scan (ot_setting X) K i) 505
     [succeeded ''otLinkRawEnergyScan'' (K ''OT_ERROR_NONE'')] [] [scanned]"
  unfolding ot_energy_scan_def ot_parts by (intro stageI tell_rules) (auto simp: ot_goals dest!: ot_result)

lemma stage_power: "stage (ot_justified K) (ot_power (ot_setting X) K i) 35 [] [] []"
  unfolding ot_power_def ot_parts by (intro stageI tell_rules) (auto simp: ot_goals dest!: ot_result)

text \<open>A transmission of the payload that the stack accepted.\<close>

definition transmits :: "(string \<Rightarrow> int) \<Rightarrow> bytes \<Rightarrow> act \<Rightarrow> bool" where
  "transmits K payload a \<longleftrightarrow> (\<exists>i frame outs.
     a = Called ''otLinkRawTransmit'' ([i] @ filled_frame frame payload @ [Str ''handle_transmit_done'']) (K ''OT_ERROR_NONE'') outs)"

lemma transmits_simps [simp]:
  "transmits K payload (Called ''otLinkRawTransmit'' (i # filled_frame frame payload @ [Str ''handle_transmit_done'']) r outs) \<longleftrightarrow>
     r = K ''OT_ERROR_NONE''"
  "f \<noteq> ''otLinkRawTransmit'' \<Longrightarrow> \<not> transmits K payload (Called f xs r outs)"
  "\<not> transmits K payload (Said fmt xs)" "\<not> transmits K payload (Paused p)"
  by (auto simp: transmits_def)

lemma tells_transmit_secure:
  assumes "K ''OT_ERROR_NONE'' \<noteq> - 1" "K ''OT_ERROR_FAILED'' \<noteq> K ''OT_ERROR_NONE''" "ot_justified K s V"
  shows "tells s (locked (ot_setting X) K (ot_transmit_secure (ot_setting X) K i)) (\<lambda>r t as es.
    ot_justified K t (V @ es) \<and> length as \<le> 7 \<and> (r = K ''OT_ERROR_NONE'' \<longrightarrow> exhibits [transmits K ot_secure_payload] as \<and>
      (ot_transmit_error t = K ''OT_ERROR_NONE'' \<longrightarrow> list_ex (sent_with (K ''OT_ERROR_NONE'')) es)))"
  unfolding ot_transmit_secure_def ot_parts
  by (intro tell_rules) (use assms in \<open>auto simp: ot_goals dest!: ot_result\<close>)

lemma tells_report_transmit:
  assumes "ot_justified K s V"
  shows "tells s (ot_report_transmit (ot_setting X) K started ended error) (\<lambda>b t as es.
    ot_justified K t (V @ es) \<and> length as \<le> 502 \<and> (b \<longrightarrow> error = K ''OT_ERROR_NONE'' \<and>
      (ot_transmit_error s = K ''OT_ERROR_NONE'' \<or> list_ex (sent_with (K ''OT_ERROR_NONE'')) es)))"
  unfolding ot_report_transmit_def ot_parts
  by (intro tell_rules) (use assms in \<open>auto simp: ot_goals dest!: ot_result\<close>)

lemma stage_transmit_secure:
  assumes "K ''OT_ERROR_NONE'' \<noteq> - 1" "K ''OT_ERROR_FAILED'' \<noteq> K ''OT_ERROR_NONE''"
  shows "stage (ot_justified K) (do {
      error \<leftarrow> locked (ot_setting X) K (ot_transmit_secure (ot_setting X) K i);
      ot_report_transmit (ot_setting X) K started ended error }) 509
    [transmits K ot_secure_payload] [sent_with (K ''OT_ERROR_NONE'')] []"
proof (rule stageI, rule tells_bind, rule tells_mono [OF tells_transmit_secure [where K = K, OF assms]])
  fix s V r t and as :: "act list" and es
  assume *: "ot_justified K t (V @ es) \<and> length as \<le> 7 \<and> (r = K ''OT_ERROR_NONE'' \<longrightarrow>
    exhibits [transmits K ot_secure_payload] as \<and>
    (ot_transmit_error t = K ''OT_ERROR_NONE'' \<longrightarrow> list_ex (sent_with (K ''OT_ERROR_NONE'')) es))"
  show "tells t (ot_report_transmit (ot_setting X) K started ended r) (\<lambda>b u bs fs.
      ot_justified K u (V @ es @ fs) \<and> length (as @ bs) \<le> 509 \<and>
      (b \<longrightarrow> exhibits [transmits K ot_secure_payload] (as @ bs) \<and> exhibits [sent_with (K ''OT_ERROR_NONE'')] (es @ fs) \<and>
         (\<forall>r \<in> set []. list_ex r (V @ es @ fs))))"
    by (rule tells_mono [OF tells_report_transmit [of K t "V @ es"]]) (use * in \<open>auto simp: exhibits_single\<close>)
qed

lemmas ot_ops = ot.keeps_ops [where J = "ot_justified K" for K, OF ot_justified_later]

lemma keeps_configure: "keeps (ot_justified K) 10 (ot_configure (ot_setting X) K i)"
proof -
  have "keeps (ot_justified K) (1 + ((1 + (1 + (1 + (1 + (1 + 0))))) + (1 + (1 + (1 + (1 + 0)))))) (ot_configure (ot_setting X) K i)"
    unfolding ot_configure_def by (intro keeps_bind keeps_chain ot_ops keeps_return)
  then show ?thesis by (rule keeps_weaken) simp
qed

lemma keeps_transmit_first: "keeps (ot_justified K) 3 (ot_transmit_first (ot_setting X) K i error)"
  unfolding ot_transmit_first_def by (intro keepsI tell_rules) (auto simp: ot_goals dest!: ot_result)

text \<open>What a run that comes to its end shows.\<close>

definition ot_act_evidence :: "(string \<Rightarrow> int) \<Rightarrow> (act \<Rightarrow> bool) list" where
  "ot_act_evidence K =
     [called ''esp_openthread_start'' (openthread_config K) (K ''ESP_OK''), transmits K ot_secure_payload,
      succeeded ''otLinkRawReceive'' (K ''OT_ERROR_NONE''), succeeded ''otLinkRawEnergyScan'' (K ''OT_ERROR_NONE'')]"

lemma stage_ot_app_main:
  assumes "K ''OT_ERROR_NONE'' \<noteq> - 1" "K ''OT_ERROR_FAILED'' \<noteq> K ''OT_ERROR_NONE''"
  shows "stage (ot_justified K) (ot_app_main X K) 2580 (ot_act_evidence K) [sent_with (K ''OT_ERROR_NONE'')]
    [sent_with (K ''OT_ERROR_NONE''), got_with (K ''OT_ERROR_NONE''), scanned]"
proof -
  let ?E = "ot_setting X"
  have "keeps (ot_justified K) (1 + (1 + (10 + (3 + 0)) + (1 + 0))) (locked ?E K (do {
      i \<leftarrow> call ?E ''esp_openthread_get_instance'' [];
      error \<leftarrow> ot_configure ?E K (Z i);
      error \<leftarrow> ot_transmit_first ?E K (Z i) error;
      State_Monad.return (i, error) }))"
    unfolding locked_def by (intro keeps_bind ot_ops keeps_configure keeps_transmit_first keeps_return)
  note first = stage_bind [OF this]
  show ?thesis
    unfolding ot_app_main_def Let_def ot_act_evidence_def
    by (rule stage_weaken, rule stage_Cons [OF stage_platform], rule stage_Cons [OF stage_start], rule stage_Cons,
        rule first, rule stage_Cons [OF stage_report_transmit],
        rule stage_Cons [OF stage_transmit_secure [where K = K, OF assms]],
        rule stage_Cons [OF stage_ot_receive], rule stage_Cons [OF stage_energy_scan], rule stage_Cons [OF stage_power],
        rule stage_Nil, rule stage_Nil) simp_all
qed

lemma within_ot: "within 2580 (ot_app_main X K)"
proof -
  let ?E = "ot_setting X"
  have parts: "within 6 (ot_platform ?E K)" "within 2 (ot_start ?E K)" "within 502 (ot_report_transmit ?E K started ended error)"
    "within 1005 (ot_receive ?E K i)" "within 505 (ot_energy_scan ?E K i)" "within 35 (ot_power ?E K i)"
    "within 3 (ot_transmit_first ?E K i error)" "within 5 (ot_transmit_secure ?E K i)" for started ended error i
    unfolding ot_platform_def ot_start_def ot_report_transmit_def ot_receive_def ot_energy_scan_def ot_power_def
      ot_transmit_first_def ot_transmit_secure_def ot_parts by (intro withinI tell_rules; simp)+
  have "within (1 + ((1 + (1 + (1 + (1 + (1 + 0))))) + (1 + (1 + (1 + (1 + 0)))))) (ot_configure ?E K i)" for i
    unfolding ot_configure_def by (intro keeps_bind keeps_chain ot.within_ops keeps_return)
  note configure = this
  have "within ((1 + ((1 + ((1 + ((1 + (1 + (1 + (1 + (1 + 0))))) + (1 + (1 + (1 + (1 + 0)))))) + (3 + 0))) + (1 + 0))) +
      (502 + ((1 + (5 + (1 + 0)) + 502) + (1005 + (505 + (35 + 0))))))
    (do {
        r \<leftarrow> locked ?E K (do {
          i \<leftarrow> call ?E ''esp_openthread_get_instance'' [];
          error \<leftarrow> ot_configure ?E K (Z i);
          error \<leftarrow> ot_transmit_first ?E K (Z i) error;
          State_Monad.return (i, error) });
        body_of
          [ot_report_transmit ?E K s1 e1 (snd r),
           do { error \<leftarrow> locked ?E K (ot_transmit_secure ?E K (Z (fst r))); ot_report_transmit ?E K s2 e2 error },
           ot_receive ?E K (Z (fst r)), ot_energy_scan ?E K (Z (fst r)), ot_power ?E K (Z (fst r))] })" for s1 e1 s2 e2
    unfolding locked_def
    by (intro keeps_bind keeps_body ot.within_ops configure parts keeps_return)
  note rest = this
  show ?thesis
    unfolding ot_app_main_def Let_def by (rule keeps_weaken, (rule keeps_body parts rest)+) simp
qed

section \<open>The node driven by commands\<close>

text \<open>
  The only callback prints the output of the command line interpreter: what the format and its arguments give, of which at
  most 255 characters are printed; \<open>n\<close> is the value of \<open>vsnprintf\<close>.
\<close>

datatype cli_event = Cli_Output string int

definition cli_output :: "string \<Rightarrow> int \<Rightarrow> (unit, cli_event, 'd, unit) app" where
  "cli_output output n =
     (if n > 0 then cb_print ''REMU_VENDOR_THREAD_CLI_OUTPUT %s'' [Str (take 255 output)] else State_Monad.return ())"

type_synonym 'd cli_setting = "(unit, cli_event, 'd) setting"

definition cli_setting :: "(cli_event, 'd) library \<Rightarrow> 'd cli_setting" where
  "cli_setting X = \<lparr>lib = X, react = (\<lambda>e. case e of Cli_Output output n \<Rightarrow> cli_output output n)\<rparr>"

definition report_psa_key_storage :: "'d cli_setting \<Rightarrow> (string \<Rightarrow> int) \<Rightarrow> (unit, cli_event, 'd, unit) app" where
  "report_psa_key_storage E K = do {
     init_status \<leftarrow> call E ''psa_crypto_init'' [];
     _ \<leftarrow> call E ''psa_set_key_id'' [Z 0x21000];
     _ \<leftarrow> call E ''psa_set_key_lifetime'' [Z (K ''PSA_KEY_LIFETIME_PERSISTENT'')];
     _ \<leftarrow> call E ''psa_set_key_type'' [Z (K ''PSA_KEY_TYPE_HMAC'')];
     _ \<leftarrow> call E ''psa_set_key_algorithm'' [Z (K ''PSA_ALG_HMAC(PSA_ALG_SHA_256)'')];
     _ \<leftarrow> call E ''psa_set_key_usage_flags'' [Z (K ''PSA_KEY_USAGE_SIGN_HASH'' OR K ''PSA_KEY_USAGE_EXPORT'')];
     _ \<leftarrow> call E ''psa_destroy_key'' [Z 0x21000];
     import \<leftarrow> query E ''psa_import_key'' [Raw qualification_mac_key, Z 16];
     (let key_id = out_int 0 (snd import) 0x21000 in do {
        print E (ln ''REMU_VENDOR_THREAD_PSA init=%ld import=%ld key=%lu'') [Z init_status, Z (fst import), Z key_id];
        (if fst import = K ''PSA_SUCCESS'' then act_of (call E ''psa_destroy_key'' [Z key_id]) else State_Monad.return True) });
     _ \<leftarrow> call E ''psa_reset_key_attributes'' [];
     State_Monad.return () }"

definition report_nvs_round_trip :: "'d cli_setting \<Rightarrow> (string \<Rightarrow> int) \<Rightarrow> (unit, cli_event, 'd, unit) app" where
  "report_nvs_round_trip E K = do {
     handle \<leftarrow> query E ''nvs_open'' [Str ''remu_diag'', Z (K ''NVS_READWRITE'')];
     (if fst handle = K ''ESP_OK'' then do {
        let h = Z (out_int 0 (snd handle) 0);
        set_status \<leftarrow> call E ''nvs_set_u32'' [h, Str ''roundtrip'', Z 0x72656d75];
        commit_status \<leftarrow> (if set_status = K ''ESP_OK'' then call E ''nvs_commit'' [h] else State_Monad.return (K ''ESP_FAIL''));
        got \<leftarrow> (if commit_status = K ''ESP_OK'' then query E ''nvs_get_u32'' [h, Str ''roundtrip'']
                else State_Monad.return (K ''ESP_FAIL'', []));
        _ \<leftarrow> call E ''nvs_close'' [h];
        print E (ln ''REMU_VENDOR_THREAD_NVS open=%d set=%d commit=%d get=%d value=%08lx'')
          [Z (fst handle), Z set_status, Z commit_status, Z (fst got), Z (out_int 0 (snd got) 0)] }
      else print E (ln ''REMU_VENDOR_THREAD_NVS open=%d set=%d commit=%d get=%d value=%08lx'')
          [Z (fst handle), Z (K ''ESP_FAIL''), Z (K ''ESP_FAIL''), Z (K ''ESP_FAIL''), Z 0]) }"

text \<open>\<open>snprintf(line, sizeof(line), "%s", command)\<close> keeps 191 characters.\<close>

definition run_cli :: "'d cli_setting \<Rightarrow> (string \<Rightarrow> int) \<Rightarrow> string \<Rightarrow> (unit, cli_event, 'd, unit) app" where
  "run_cli E K command = do {
     _ \<leftarrow> locked E K (call E ''otCliInputLine'' [Str (take 191 command)]);
     print E (ln ''REMU_VENDOR_THREAD_CLI_COMMAND %s'') [Str command] }"

text \<open>\<open>while (otTaskletsArePending(instance) && tasklet_passes < 64) { ... }\<close>, with \<open>n\<close> passes to go\<close>

primrec process_tasklets :: "'d cli_setting \<Rightarrow> val \<Rightarrow> nat \<Rightarrow> nat \<Rightarrow> (unit, cli_event, 'd, nat) app" where
  "process_tasklets E i 0 passes = do { _ \<leftarrow> call E ''otTaskletsArePending'' [i]; State_Monad.return passes }"
| "process_tasklets E i (Suc n) passes = do {
     pending \<leftarrow> call E ''otTaskletsArePending'' [i];
     if pending \<noteq> 0 then do {
       _ \<leftarrow> call E ''otTaskletsProcess'' [i];
       process_tasklets E i n (Suc passes) }
     else State_Monad.return passes }"

definition start_as_leader :: "'d cli_setting \<Rightarrow> (string \<Rightarrow> int) \<Rightarrow> val \<Rightarrow> (unit, cli_event, 'd, unit) app" where
  "start_as_leader E K i = locked E K (do {
     _ \<leftarrow> call E ''otCliInputLine'' [Str ''thread start''];
     leader_error \<leftarrow> call E ''otThreadBecomeLeader'' [i];
     role \<leftarrow> call E ''otThreadGetDeviceRole'' [i];
     _ \<leftarrow> call E ''otCliInputLine'' [Str ''state''];
     _ \<leftarrow> call E ''otCliInputLine'' [Str ''dataset active -x''];
     _ \<leftarrow> call E ''otCliInputLine'' [Str ''ipaddr''];
     passes \<leftarrow> process_tasklets E i 64 0;
     print E (ln ''REMU_VENDOR_THREAD_CLI_COMMAND thread start'') [];
     print E (ln ''REMU_VENDOR_THREAD_BECOME_LEADER error=%u role=%u leader=%u'')
       [Z leader_error, Z role, flag (role = K ''OT_DEVICE_ROLE_LEADER'')];
     pending \<leftarrow> call E ''otTaskletsArePending'' [i];
     print E (ln ''REMU_VENDOR_THREAD_TASKLETS passes=%u pending=%u'') [Z (int passes), flag (pending \<noteq> 0)] })"

text \<open>The loop that waits for a child, \<open>n\<close> attempts to go; \<open>rloc16\<close> is the child's address.\<close>

primrec wait_for_child ::
  "'d cli_setting \<Rightarrow> (string \<Rightarrow> int) \<Rightarrow> val \<Rightarrow> nat \<Rightarrow> int \<Rightarrow> (unit, cli_event, 'd, bool \<times> int) app" where
  "wait_for_child E K i 0 rloc16 = State_Monad.return (False, rloc16)"
| "wait_for_child E K i (Suc n) rloc16 = do {
     r \<leftarrow> locked E K (query E ''otThreadGetChildInfoByIndex'' [i, Z 0]);
     if fst r = K ''OT_ERROR_NONE'' then State_Monad.return (True, out_int 0 (snd r) rloc16)
     else do {
       vTaskDelay E (Ticks 1);
       wait_for_child E K i n (out_int 0 (snd r) rloc16) } }"

definition cli_platform :: "'d cli_setting \<Rightarrow> (string \<Rightarrow> int) \<Rightarrow> (unit, cli_event, 'd, bool) app" where
  "cli_platform E K = do {
     result \<leftarrow> call E ''nvs_flash_erase'' [];
     result \<leftarrow> chain (K ''ESP_OK'') [call E ''nvs_flash_init'' []] result;
     result \<leftarrow> platform_services E K result;
     print E (ln ''REMU_VENDOR_THREAD_PLATFORM result=%d'') [Z result];
     State_Monad.return (result = K ''ESP_OK'') }"

definition cli_start :: "'d cli_setting \<Rightarrow> (string \<Rightarrow> int) \<Rightarrow> (unit, cli_event, 'd, bool) app" where
  "cli_start E K = do {
     result \<leftarrow> call E ''esp_openthread_start'' (openthread_config K);
     print E (ln ''REMU_VENDOR_THREAD_START result=%d'') [Z result];
     State_Monad.return (result = K ''ESP_OK'') }"

definition cli_instance :: "'d cli_setting \<Rightarrow> (string \<Rightarrow> int) \<Rightarrow> (unit, cli_event, 'd, val) app" where
  "cli_instance E K = do {
     r \<leftarrow> locked E K (do {
       i \<leftarrow> call E ''esp_openthread_get_instance'' [];
       _ \<leftarrow> call E ''otCliInit'' [Z i, Str ''cli_output''];
       error \<leftarrow> call E ''otLinkSetExtendedAddress'' [Z i, Raw [0x0a, 0x27, 0x45, 0x63, 0x67, 0x85, 0xa3, 0xc1]];
       State_Monad.return (i, error) });
     print E (ln ''REMU_VENDOR_THREAD_EXT_ADDRESS error=%u'') [Z (snd r)];
     State_Monad.return (Z (fst r)) }"

definition cli_commands :: "string list" where
  "cli_commands =
     [''dataset init new'', ''dataset activetimestamp 1'', ''dataset channel 11'', ''dataset extpanid 52454d552d544852'',
      ''dataset meshlocalprefix fd00:db8:7265:6d75::'', ''dataset networkkey 000102030405060708090a0b0c0d0e0f'',
      ''dataset networkname REMU-THREAD'', ''dataset panid 0x1234'', ''dataset commit active'',
      ''routerselectionjitter 1'', ''ifconfig up'']"

definition cli_child :: "'d cli_setting \<Rightarrow> (string \<Rightarrow> int) \<Rightarrow> val \<Rightarrow> (unit, cli_event, 'd, bool) app" where
  "cli_child E K i = do {
     child \<leftarrow> wait_for_child E K i 4096 0;
     print E (ln ''REMU_VENDOR_THREAD_CHILD attached=%u rloc16=%04x'') [flag (fst child), Z (snd child)];
     if \<not> fst child then State_Monad.return False
     else do {
       vTaskDelay E (Millis 10);
       run_cli E K ''ping fe80::1 16 1'';
       vTaskDelay E (Millis 100);
       State_Monad.return True } }"

definition cli_app_main :: "(cli_event, 'd) library \<Rightarrow> (string \<Rightarrow> int) \<Rightarrow> (unit, cli_event, 'd, bool) app" where
  "cli_app_main X K = (let E = cli_setting X in body_of
     [cli_platform E K, act_of (report_nvs_round_trip E K), act_of (report_psa_key_storage E K), cli_start E K,
      do {
        i \<leftarrow> cli_instance E K;
        body_of (map (\<lambda>c. act_of (run_cli E K c)) cli_commands @ [act_of (start_as_leader E K i), cli_child E K i]) }])"

interpretation cli: vendor_app "cli_setting X" "\<lambda>e s. s"
proof
  fix s e
  show "tells s (react (cli_setting X) e) (\<lambda>r t as es. t = s \<and> as = [] \<and> es = [])"
    by (cases e) (auto simp: cli_setting_def cli_output_def intro!: tell_rules)
qed

lemma within_locked: "within n M \<Longrightarrow> within (1 + (n + (1 + 0))) (locked (cli_setting X) K M)"
  unfolding locked_def by (intro keeps_bind cli.within_ops keeps_return)

lemma within_tasklets: "within (2 * n + 1) (process_tasklets (cli_setting X) i n passes)"
proof (induction n arbitrary: passes)
  case 0
  have "within (1 + 0) (process_tasklets (cli_setting X) i 0 passes)"
    unfolding process_tasklets.simps by (intro keeps_bind cli.within_ops keeps_return)
  then show ?case by simp
next
  case (Suc n)
  have "within (1 + max (1 + (2 * n + 1)) 0) (process_tasklets (cli_setting X) i (Suc n) passes)"
    unfolding process_tasklets.simps by (intro keeps_bind keeps_if cli.within_ops keeps_return Suc.IH)
  then show ?case by simp
qed

lemma within_wait_for_child: "within (4 * n) (wait_for_child (cli_setting X) K i n rloc16)"
proof (induction n arbitrary: rloc16)
  case 0
  then show ?case by (simp add: keeps_return)
next
  case (Suc n)
  have "within ((1 + (1 + (1 + 0))) + max 0 (1 + 4 * n)) (wait_for_child (cli_setting X) K i (Suc n) rloc16)"
    unfolding wait_for_child.simps by (intro keeps_bind keeps_if cli.within_ops keeps_return within_locked Suc.IH)
  then show ?case by (rule keeps_weaken) simp
qed

lemma within_cli_parts:
  "within 7 (cli_platform (cli_setting X) K)" "within 2 (cli_start (cli_setting X) K)"
  "within 6 (act_of (report_nvs_round_trip (cli_setting X) K))" "within 11 (act_of (report_psa_key_storage (cli_setting X) K))"
  "within 6 (cli_instance (cli_setting X) K)" "within 4 (run_cli (cli_setting X) K c)"
  unfolding cli_platform_def cli_start_def report_nvs_round_trip_def report_psa_key_storage_def cli_instance_def run_cli_def
    ot_parts act_of_def
  by (intro withinI tell_rules; simp)+

lemma within_leader: "within 141 (act_of (start_as_leader (cli_setting X) K i))"
proof -
  have "within (1 + ((1 + (1 + (1 + (1 + (1 + (1 + ((2 * 64 + 1) + (1 + (1 + (1 + 1)))))))))) + (1 + 0)))
      (start_as_leader (cli_setting X) K i)"
    unfolding start_as_leader_def by (intro within_locked keeps_bind cli.within_ops within_tasklets)
  then show ?thesis
    by (intro keeps_act_of) (rule keeps_weaken, assumption, simp)
qed

lemma within_child: "within 16391 (cli_child (cli_setting X) K i)"
proof -
  have "within (4 * 4096 + (1 + max 0 (1 + (4 + (1 + 0))))) (cli_child (cli_setting X) K i)"
    unfolding cli_child_def
    by (intro keeps_bind keeps_if cli.within_ops keeps_return within_wait_for_child within_cli_parts(6))
  then show ?thesis by (rule keeps_weaken) simp
qed

lemma within_cli: "within 16608 (cli_app_main X K)"
proof -
  have "within 16576 (body_of (map (\<lambda>c. act_of (run_cli (cli_setting X) K c)) cli_commands @
      [act_of (start_as_leader (cli_setting X) K i), cli_child (cli_setting X) K i]))" for i
    unfolding cli_commands_def list.map append.simps
    by (rule keeps_weaken, (rule keeps_body keeps_act_of [OF within_cli_parts(6)] within_leader within_child)+) simp
  note rest = keeps_bind [OF within_cli_parts(5) this]
  show ?thesis
    unfolding cli_app_main_def Let_def
    by (rule keeps_weaken, (rule keeps_body within_cli_parts rest)+) simp
qed

end
