(* ===== verification/Vendor_Zigbee.thy ===== *)
theory Vendor_Zigbee
  imports Vendor_Thread
begin

text \<open>
  The Zigbee coordinator (\<^verbatim>\<open>vendor-zigbee-probe\<close>): the platform and the configuration of the stack in two tasks, and the
  signal handler that takes the device from initialisation to a formed and open network.
\<close>

section \<open>The signal handler\<close>

text \<open>A signal of the stack: its type and the status in its parameters.\<close>

record app_signal =
  signal_type :: int
  comm_status :: int

definition start_commissioning ::
  "(app_signal, 'd) library \<Rightarrow> int \<Rightarrow> string \<Rightarrow> (unit, app_signal, 'd, unit) app" where
  "start_commissioning X mode message = do {
     result \<leftarrow> cb_call X ''ezb_bdb_start_top_level_commissioning'' [Z mode];
     cb_print (ln message) [Z result] }"

definition handle_app_signal ::
  "(app_signal, 'd) library \<Rightarrow> (string \<Rightarrow> int) \<Rightarrow> app_signal \<Rightarrow> (unit, app_signal, 'd, unit) app" where
  "handle_app_signal X K e = (let success = comm_status e = K ''EZB_BDB_STATUS_SUCCESS'' in do {
     name \<leftarrow> cb_query X ''ezb_app_signal_to_string'' [Z (signal_type e)];
     cb_print (ln ''REMU_VENDOR_ZIGBEE_SIGNAL type=%u name=%s'') (Z (signal_type e) # snd name);
     (if signal_type e = K ''EZB_ZDO_SIGNAL_SKIP_STARTUP'' then
        start_commissioning X (K ''EZB_BDB_MODE_INITIALIZATION'') ''REMU_VENDOR_ZIGBEE_INITIALIZE result=%d''
      else if signal_type e = K ''EZB_BDB_SIGNAL_DEVICE_FIRST_START'' \<or> signal_type e = K ''EZB_BDB_SIGNAL_DEVICE_REBOOT'' then do {
        factory_new \<leftarrow> cb_call X ''ezb_bdb_is_factory_new'' [];
        cb_print (ln ''REMU_VENDOR_ZIGBEE_START status=%u factory_new=%u'') [Z (comm_status e), flag (factory_new \<noteq> 0)];
        (if success \<and> factory_new \<noteq> 0 then
           start_commissioning X (K ''EZB_BDB_MODE_NETWORK_FORMATION'') ''REMU_VENDOR_ZIGBEE_FORMATION_START result=%d''
         else State_Monad.return ()) }
      else if signal_type e = K ''EZB_BDB_SIGNAL_FORMATION'' then do {
        pan \<leftarrow> cb_call X ''ezb_nwk_get_panid'' [];
        channel \<leftarrow> cb_call X ''ezb_nwk_get_current_channel'' [];
        short \<leftarrow> cb_call X ''ezb_nwk_get_short_address'' [];
        cb_print (ln ''REMU_VENDOR_ZIGBEE_FORMATION_DONE status=%u pan=%u channel=%u short=%u'')
          [Z (comm_status e), Z pan, Z channel, Z short];
        (if success then
           start_commissioning X (K ''EZB_BDB_MODE_NETWORK_STEERING'') ''REMU_VENDOR_ZIGBEE_STEERING_START result=%d''
         else State_Monad.return ()) }
      else if signal_type e = K ''EZB_BDB_SIGNAL_STEERING'' then
        cb_print (ln ''REMU_VENDOR_ZIGBEE_STEERING_DONE status=%u'') [Z (comm_status e)]
      else State_Monad.return ()) })"

section \<open>The tasks\<close>

type_synonym 'd zigbee_setting = "(unit, app_signal, 'd) setting"

definition zigbee_setting :: "(app_signal, 'd) library \<Rightarrow> (string \<Rightarrow> int) \<Rightarrow> 'd zigbee_setting" where
  "zigbee_setting X K = \<lparr>lib = X, react = handle_app_signal X K\<rparr>"

definition QUALIFICATION_PAN_ID :: int where "QUALIFICATION_PAN_ID = 0xf67c"

definition register_qualification_endpoint :: "'d zigbee_setting \<Rightarrow> (string \<Rightarrow> int) \<Rightarrow> (unit, app_signal, 'd, int) app" where
  "register_qualification_endpoint E K = do {
     device \<leftarrow> call E ''ezb_af_create_device_desc'' [];
     endpoint \<leftarrow> call E ''ezb_zha_create_on_off_light'' [Z 10, Str ''EZB_ZHA_ON_OFF_LIGHT_CONFIG''];
     result \<leftarrow> call E ''ezb_af_device_add_endpoint_desc'' [Z device, Z endpoint];
     if result = K ''ESP_OK'' then call E ''ezb_af_device_desc_register'' [Z device]
     else State_Monad.return (K ''ESP_FAIL'') }"

definition zigbee_identity :: "'d zigbee_setting \<Rightarrow> (string \<Rightarrow> int) \<Rightarrow> (unit, app_signal, 'd, int) app" where
  "zigbee_identity E K = do {
     _ \<leftarrow> call E ''ezb_set_extended_address'' [Raw [0x02, 0x00, 0x00, 0x00, 0x00, 0x00, 0x00, 0x01]];
     _ \<leftarrow> call E ''ezb_set_use_extended_panid'' [Raw [0x52, 0x45, 0x4d, 0x55, 0x2d, 0x5a, 0x42, 0x01]];
     _ \<leftarrow> call E ''ezb_set_panid'' [Z QUALIFICATION_PAN_ID];
     result \<leftarrow> call E ''ezb_secur_set_network_key'' [Raw qualification_mac_key];
     print E (ln ''REMU_VENDOR_ZIGBEE_IDENTITY result=%d pan=%u'') [Z result, Z QUALIFICATION_PAN_ID];
     State_Monad.return result }"

definition zigbee_task :: "(app_signal, 'd) library \<Rightarrow> (string \<Rightarrow> int) \<Rightarrow> (unit, app_signal, 'd, unit) app" where
  "zigbee_task X K = (let E = zigbee_setting X K in do {
     result \<leftarrow> call E ''esp_zigbee_init''
       [Z (K ''EZB_NWK_DEVICE_TYPE_COORDINATOR''), flag False, Z 4, Str ''zb_storage'', Z (K ''ESP_ZIGBEE_RADIO_MODE_NATIVE'')];
     print E (ln ''REMU_VENDOR_ZIGBEE_INIT result=%d'') [Z result];
     result \<leftarrow> chain (K ''ESP_OK'')
       [zigbee_identity E K,
        do {
          _ \<leftarrow> call E ''ezb_aps_secur_enable_distributed_security'' [flag False];
          call E ''ezb_bdb_set_primary_channel_set'' [Z (2 ^ 11)] },
        call E ''ezb_bdb_set_secondary_channel_set'' [Z 0],
        call E ''ezb_app_signal_add_handler'' [Str ''handle_app_signal''],
        register_qualification_endpoint E K] result;
     print E (ln ''REMU_VENDOR_ZIGBEE_CONFIG result=%d channel=%u endpoint=%u'') [Z result, Z 11, Z 10];
     result \<leftarrow> chain (K ''ESP_OK'') [call E ''esp_zigbee_start'' [flag False]] result;
     print E (ln ''REMU_VENDOR_ZIGBEE_STACK_START result=%d'') [Z result];
     _ \<leftarrow> chain (K ''ESP_OK'') [call E ''esp_zigbee_launch_mainloop'' []] result;
     _ \<leftarrow> call E ''esp_zigbee_deinit'' [];
     _ \<leftarrow> call E ''vTaskDelete'' [];
     State_Monad.return () })"

definition zigbee_app_main :: "(app_signal, 'd) library \<Rightarrow> (string \<Rightarrow> int) \<Rightarrow> (unit, app_signal, 'd, unit) app" where
  "zigbee_app_main X K = (let E = zigbee_setting X K in do {
     result \<leftarrow> call E ''nvs_flash_init'' [];
     result \<leftarrow> nvs_retry E K result;
     result \<leftarrow> chain (K ''ESP_OK'') [call E ''nvs_flash_init_partition'' [Str ''zb_storage'']] result;
     print E (ln ''REMU_VENDOR_ZIGBEE_PLATFORM result=%d'') [Z result];
     (if result = K ''ESP_OK'' then do {
        created \<leftarrow> call E ''xTaskCreate'' [Str ''zigbee_task'', Str ''zigbee'', Z 6144, Z 5];
        print E (ln ''REMU_VENDOR_ZIGBEE_TASK created=%u'') [flag (created = K ''pdPASS'')] }
      else State_Monad.return ()) })"

interpretation zigbee: vendor_app "zigbee_setting X K" "\<lambda>e s. s"
proof
  fix s e
  show "tells s (react (zigbee_setting X K) e) (\<lambda>r t as es. t = s \<and> as = [] \<and> es = [])"
    unfolding zigbee_setting_def setting.select_convs handle_app_signal_def start_commissioning_def Let_def
    by (intro tell_rules; simp)
qed

lemma within_zigbee_main: "within 7 (zigbee_app_main X K)"
  unfolding zigbee_app_main_def nvs_retry_def chain.simps Let_def by (intro withinI tell_rules) simp_all

lemma within_zigbee_task: "within 21 (zigbee_task X K)"
proof -
  let ?E = "zigbee_setting X K"
  have endpoint: "within 4 (register_qualification_endpoint ?E K)" and identity: "within 5 (zigbee_identity ?E K)"
    unfolding register_qualification_endpoint_def zigbee_identity_def by (intro withinI tell_rules; simp)+
  have "within (1 + (1 + ((5 + ((1 + 1) + (1 + (1 + (4 + 0))))) + (1 + ((1 + 0) + (1 + ((1 + 0) + (1 + (1 + 0)))))))))
      (zigbee_task X K)"
    unfolding zigbee_task_def Let_def by (intro keeps_bind keeps_chain zigbee.within_ops keeps_return endpoint identity)
  then show ?thesis by (rule keeps_weaken) simp
qed

section \<open>Commissioning\<close>

text \<open>
  The handler as a transition table: the commissioning it starts on a signal, where \<open>new\<close> is the stack's answer whether
  the device is factory new.
\<close>

definition next_mode :: "(string \<Rightarrow> int) \<Rightarrow> app_signal \<Rightarrow> bool \<Rightarrow> int option" where
  "next_mode K e new =
     (if signal_type e = K ''EZB_ZDO_SIGNAL_SKIP_STARTUP'' then Some (K ''EZB_BDB_MODE_INITIALIZATION'')
      else if signal_type e \<in> {K ''EZB_BDB_SIGNAL_DEVICE_FIRST_START'', K ''EZB_BDB_SIGNAL_DEVICE_REBOOT''} then
        (if comm_status e = K ''EZB_BDB_STATUS_SUCCESS'' \<and> new then Some (K ''EZB_BDB_MODE_NETWORK_FORMATION'') else None)
      else if signal_type e = K ''EZB_BDB_SIGNAL_FORMATION'' \<and> comm_status e = K ''EZB_BDB_STATUS_SUCCESS'' then
        Some (K ''EZB_BDB_MODE_NETWORK_STEERING'')
      else None)"

fun cb_acts :: "'e entry list \<Rightarrow> act list" where
  "cb_acts [] = []"
| "cb_acts (In_Callback a # es) = a # cb_acts es"
| "cb_acts (Main a # es) = cb_acts es"
| "cb_acts (Callback e # es) = cb_acts es"

lemma cb_acts_append [simp]: "cb_acts (es @ fs) = cb_acts es @ cb_acts fs"
  by (induction es rule: cb_acts.induct) simp_all

fun commissionings :: "act list \<Rightarrow> val list list" where
  "commissionings [] = []"
| "commissionings (Called f xs r outs # as) =
     (if f = ''ezb_bdb_start_top_level_commissioning'' then xs # commissionings as else commissionings as)"
| "commissionings (a # as) = commissionings as"

definition factory_new :: "act list \<Rightarrow> bool" where
  "factory_new as \<longleftrightarrow> (\<exists>r outs. Called ''ezb_bdb_is_factory_new'' [] r outs \<in> set as \<and> r \<noteq> 0)"

text \<open>What a callback does, computed backwards like the acts of a main program.\<close>

interpretation cb: logbook "\<lambda>w. cb_acts (story w)" .

lemma leaves_cb:
  "(\<And>r. Q r [Called f xs (fst r) (snd r)]) \<Longrightarrow> cb.leaves (cb_query X f xs) Q"
  "(\<And>r outs. R r [Called f xs r outs]) \<Longrightarrow> cb.leaves (cb_call X f xs) R"
  "S () [Said fmt xs] \<Longrightarrow> cb.leaves (cb_print fmt xs) S"
  by (auto simp: cb.leaves_def cb_call_def cb_query_def cb_print_def tell_def request_def split: prod.splits)

text \<open>C21.
  The signal handler of the Zigbee coordinator follows its commissioning table: on every signal, whatever the stack
  answers, it starts the commissioning of the table and no other, where formation needs a successful start and the stack's
  answer that the device is factory new, and steering a successful formation.
\<close>

theorem handle_app_signal_table:
  "\<exists>as. cb_acts (story (snd (run_state (handle_app_signal X K e) w))) = cb_acts (story w) @ as \<and>
     commissionings as = (case next_mode K e (factory_new as) of None \<Rightarrow> [] | Some mode \<Rightarrow> [[Z mode]])"
proof -
  have "cb.leaves (handle_app_signal X K e)
      (\<lambda>r as. commissionings as = (case next_mode K e (factory_new as) of None \<Rightarrow> [] | Some mode \<Rightarrow> [[Z mode]]))"
    unfolding handle_app_signal_def start_commissioning_def Let_def
    by (intro cb.leaves_rules leaves_cb; simp add: next_mode_def factory_new_def)
  then show ?thesis
    unfolding cb.leaves_def by blast
qed

end
