(* ===== verification/Vendor_Ble.thy ===== *)
theory Vendor_Ble
  imports Vendor_App
begin

text \<open>
  The Bluetooth LE probe (\<^verbatim>\<open>vendor-ble-probe\<close>) and the coexistence probe (\<^verbatim>\<open>vendor-coex-probe\<close>).  What their callbacks do to
  the shared variables depends on answers of the library, so their main programs are shown to behave for all values of
  these variables.  Events are those of the NimBLE host, with the fields the handlers read.
\<close>

section \<open>Bluetooth LE\<close>

record ble =
  connection_seen :: bool
  connection_handle :: int
  disconnect_seen :: bool
  encryption_seen :: bool
  disconnect_reason :: int

definition ble_statics :: ble where
  "ble_statics = \<lparr>connection_seen = False, connection_handle = 0, disconnect_seen = False, encryption_seen = False,
     disconnect_reason = 0\<rparr>"

datatype ble_event =
    Ble_Reset int
  | Ble_Sync
  | Gap_Disc int nat int "nat \<Rightarrow> u8"
  | Gap_Ext_Disc int int int nat int "nat \<Rightarrow> u8"
  | Gap_Connect int int
  | Gap_Disconnect int int
  | Gap_Mtu int int int
  | Gap_Phy_Update int int int int
  | Gap_Enc_Change int int
  | Gap_Other

definition qualification_ltk :: bytes where
  "qualification_ltk = [0x00, 0x01, 0x02, 0x03, 0x04, 0x05, 0x06, 0x07, 0x08, 0x09, 0x0a, 0x0b, 0x0c, 0x0d, 0x0e, 0x0f]"

text \<open>The output parameters of \<open>ble_gap_conn_find\<close> are the peer's address and whether the link is encrypted.\<close>

definition store_qualification_ltk :: "(ble_event, 'd) library \<Rightarrow> int \<Rightarrow> (ble, ble_event, 'd, int) app" where
  "store_qualification_ltk X conn_handle = do {
     found \<leftarrow> cb_query X ''ble_gap_conn_find'' [Z conn_handle];
     if fst found \<noteq> 0 then State_Monad.return (fst found)
     else cb_call X ''ble_store_write_our_sec''
       (take 1 (snd found) @ [Z 16, Z 0x1234, Z 0x1716151413121110, Raw qualification_ltk, Z 1]) }"

fun on_gap_event :: "(ble_event, 'd) library \<Rightarrow> ble_event \<Rightarrow> (ble, ble_event, 'd, unit) app" where
  "on_gap_event X (Gap_Disc type len rssi data) = do {
     cb_print ''REMU_VENDOR_BLE_SCAN_REPORT type=%u length=%u rssi=%d'' [Z type, Z (int len), Z rssi];
     print_hex '' %02x'' (map data [0..<len]);
     cb_print (ln []) [] }"
| "on_gap_event X (Gap_Ext_Disc props status legacy len rssi data) = do {
     cb_print ''REMU_VENDOR_BLE_EXT_SCAN_REPORT props=%u status=%u legacy=%u length=%u rssi=%d''
       [Z props, Z status, Z legacy, Z (int len), Z rssi];
     print_hex '' %02x'' (map data [0..<len]);
     cb_print (ln []) [] }"
| "on_gap_event X (Gap_Connect status handle) = do {
     cb_print (ln ''REMU_VENDOR_BLE_CONNECT status=%d handle=%u'') [Z status, Z handle];
     if status = 0 then do {
       poke (connection_handle_update (\<lambda>_. handle));
       store_result \<leftarrow> store_qualification_ltk X handle;
       cb_print (ln ''REMU_VENDOR_BLE_LTK_STORE result=%d handle=%u'') [Z store_result, Z handle];
       poke (connection_seen_update (\<lambda>_. True)) }
     else State_Monad.return () }"
| "on_gap_event X (Gap_Disconnect reason handle) = do {
     cb_print (ln ''REMU_VENDOR_BLE_DISCONNECT reason=%d handle=%u'') [Z reason, Z handle];
     poke (disconnect_reason_update (\<lambda>_. reason));
     poke (disconnect_seen_update (\<lambda>_. True)) }"
| "on_gap_event X (Gap_Mtu handle cid v) = cb_print (ln ''REMU_VENDOR_BLE_MTU handle=%u cid=%u value=%u'') [Z handle, Z cid, Z v]"
| "on_gap_event X (Gap_Phy_Update status handle tx rx) =
     cb_print (ln ''REMU_VENDOR_BLE_PHY status=%d handle=%u tx=%u rx=%u'') [Z status, Z handle, Z tx, Z rx]"
| "on_gap_event X (Gap_Enc_Change status handle) = do {
     encrypted \<leftarrow> (if status = 0 then do {
         found \<leftarrow> cb_query X ''ble_gap_conn_find'' [Z handle];
         State_Monad.return (fst found = 0 \<and> out_int 1 (snd found) 0 \<noteq> 0) }
       else State_Monad.return False);
     cb_print (ln ''REMU_VENDOR_BLE_ENCRYPTION status=%d handle=%u encrypted=%u'') [Z status, Z handle, flag encrypted];
     if encrypted then poke (encryption_seen_update (\<lambda>_. True)) else State_Monad.return () }"
| "on_gap_event X e = State_Monad.return ()"

definition on_reset :: "int \<Rightarrow> (ble, ble_event, 'd, unit) app" where
  "on_reset why = cb_print (ln ''REMU_VENDOR_BLE_RESET reason=%d'') [Z why]"

definition on_sync :: "(ble_event, 'd) library \<Rightarrow> (ble, ble_event, 'd, unit) app" where
  "on_sync X = do {
     result \<leftarrow> cb_call X ''xTaskCreate'' [Str ''radio_sequence_task'', Str ''radio-sequence'', Z 4096, Z 5];
     cb_print (ln ''REMU_VENDOR_BLE_SEQUENCE result=%ld'') [Z result] }"

definition ble_react :: "(ble_event, 'd) library \<Rightarrow> ble_event \<Rightarrow> (ble, ble_event, 'd, unit) app" where
  "ble_react X e = (case e of Ble_Reset why \<Rightarrow> on_reset why | Ble_Sync \<Rightarrow> on_sync X | _ \<Rightarrow> on_gap_event X e)"

type_synonym 'd ble_setting = "(ble, ble_event, 'd) setting"

definition ble_setting :: "(ble_event, 'd) library \<Rightarrow> 'd ble_setting" where
  "ble_setting X = \<lparr>lib = X, react = ble_react X\<rparr>"

definition configure_advertising ::
  "'d ble_setting \<Rightarrow> (string \<Rightarrow> int) \<Rightarrow> bytes \<Rightarrow> bool \<Rightarrow> bool \<Rightarrow> (ble, ble_event, 'd, int) app" where
  "configure_advertising E K advertisement legacy_pdu connectable = do {
     result \<leftarrow> call E ''ble_gap_ext_adv_configure''
       [Z 0, flag legacy_pdu, flag connectable, flag connectable, Z (K ''BLE_OWN_ADDR_RANDOM''), Z (K ''BLE_HCI_LE_PHY_1M''),
        Z (K ''BLE_HCI_LE_PHY_2M''), Z 127, Z (if legacy_pdu then 0 else 3), Z (K ''BLE_GAP_ADV_ITVL_MS(20)''),
        Z (K ''BLE_GAP_ADV_ITVL_MS(20)''), Str ''on_gap_event''];
     if result \<noteq> 0 then State_Monad.return result
     else do {
       data \<leftarrow> call E ''ble_hs_mbuf_from_flat'' [Raw advertisement, Z (int (length advertisement))];
       if data = 0 then State_Monad.return (K ''BLE_HS_ENOMEM'')
       else do {
         result \<leftarrow> call E ''ble_gap_ext_adv_set_data'' [Z 0, Z data];
         if result \<noteq> 0 then State_Monad.return result
         else call E ''ble_gap_ext_adv_start'' [Z 0, Z 0, Z 0] } } }"

definition adv_header :: "(string \<Rightarrow> int) \<Rightarrow> bytes" where
  "adv_header K = [0x02, word_of_int (K ''BLE_HS_ADV_TYPE_FLAGS''),
     word_of_int (K ''BLE_HS_ADV_F_DISC_GEN'' OR K ''BLE_HS_ADV_F_BREDR_UNSUP'')]"

definition extended_advertisement :: "(string \<Rightarrow> int) \<Rightarrow> bytes" where
  "extended_advertisement K = adv_header K @ [0x0a, word_of_int (K ''BLE_HS_ADV_TYPE_COMP_NAME'')] @ map of_char ''Renvo-EXT''"

definition ble_advertisement :: "(string \<Rightarrow> int) \<Rightarrow> bytes" where
  "ble_advertisement K = adv_header K @ [0x0b, word_of_int (K ''BLE_HS_ADV_TYPE_COMP_NAME'')] @ map of_char ''Renvo-BLE1''"

definition run_extended_advertising :: "'d ble_setting \<Rightarrow> (string \<Rightarrow> int) \<Rightarrow> (ble, ble_event, 'd, int) app" where
  "run_extended_advertising E K = configure_advertising E K (extended_advertisement K) False False"

text \<open>An advertisement lives for 20 ms and is removed 10 ms after it is stopped.\<close>

definition end_advertising :: "'d ble_setting \<Rightarrow> string \<Rightarrow> string \<Rightarrow> (ble, ble_event, 'd, unit) app" where
  "end_advertising E stopped removed = do {
     stop_result \<leftarrow> call E ''ble_gap_ext_adv_stop'' [Z 0];
     print E stopped [Z stop_result];
     vTaskDelay E (Millis 10);
     remove_result \<leftarrow> call E ''ble_gap_ext_adv_remove'' [Z 0];
     print E removed [Z remove_result] }"

definition ble_advertise :: "'d ble_setting \<Rightarrow> (string \<Rightarrow> int) \<Rightarrow> (ble, ble_event, 'd, unit) app" where
  "ble_advertise E K = do {
     result \<leftarrow> call E ''ble_hs_id_set_rnd'' [Raw [0x06, 0x05, 0x04, 0x03, 0x02, 0xc1]];
     result \<leftarrow> chain 0 [configure_advertising E K (ble_advertisement K) True False] result;
     print E (ln ''REMU_VENDOR_BLE_ADV_START result=%d'') [Z result];
     vTaskDelay E (Millis 20);
     end_advertising E (ln ''REMU_VENDOR_BLE_ADV_STOP result=%d'') (ln ''REMU_VENDOR_BLE_ADV_REMOVE result=%d'');
     extended_result \<leftarrow> run_extended_advertising E K;
     print E (ln ''REMU_VENDOR_BLE_EXT_ADV_START result=%d'') [Z extended_result];
     vTaskDelay E (Millis 20);
     end_advertising E (ln ''REMU_VENDOR_BLE_EXT_ADV_STOP result=%d'') (ln ''REMU_VENDOR_BLE_EXT_ADV_REMOVE result=%d'');
     connectable_result \<leftarrow> configure_advertising E K (ble_advertisement K) True True;
     print E (ln ''REMU_VENDOR_BLE_CONNECTABLE_ADV_START result=%d'') [Z connectable_result];
     wait E 100 (\<lambda>s. \<not> connection_seen s) (Millis 10) }"

definition ble_scan :: "'d ble_setting \<Rightarrow> (string \<Rightarrow> int) \<Rightarrow> (ble, ble_event, 'd, unit) app" where
  "ble_scan E K = do {
     scan_result \<leftarrow> call E ''ble_gap_disc''
       [Z (K ''BLE_OWN_ADDR_RANDOM''), Z (K ''BLE_HS_FOREVER''), Z 16, Z 16, Z 1, Z 0, Str ''on_gap_event''];
     print E (ln ''REMU_VENDOR_BLE_SCAN_START result=%d'') [Z scan_result] }"

definition ble_connected :: "'d ble_setting \<Rightarrow> (string \<Rightarrow> int) \<Rightarrow> (ble, ble_event, 'd, unit) app" where
  "ble_connected E K = do {
     handle \<leftarrow> look E connection_handle;
     print E (ln ''REMU_VENDOR_BLE_CONNECTION_READY handle=%u'') [Z handle];
     wait E 100 (\<lambda>s. \<not> encryption_seen s \<and> \<not> disconnect_seen s) (Millis 10);
     encrypted \<leftarrow> look E encryption_seen;
     print E (ln ''REMU_VENDOR_BLE_ENCRYPTION_OBSERVED value=%u'') [flag encrypted];
     wait E 100 (\<lambda>s. \<not> disconnect_seen s) (Millis 10);
     disconnected \<leftarrow> look E disconnect_seen;
     (if disconnected then do {
        why \<leftarrow> look E disconnect_reason;
        (if why = K ''BLE_HS_HCI_ERR(BLE_ERR_CONN_SPVN_TMO)''
         then print E (ln ''REMU_VENDOR_BLE_SUPERVISION_TIMEOUT observed=1'') []
         else print E (ln ''REMU_VENDOR_BLE_REMOTE_TERMINATE observed=1'') []) }
      else do {
        handle \<leftarrow> look E connection_handle;
        terminate_result \<leftarrow> call E ''ble_gap_terminate'' [Z handle, Z (K ''BLE_ERR_REM_USER_CONN_TERM'')];
        handle \<leftarrow> look E connection_handle;
        print E (ln ''REMU_VENDOR_BLE_TERMINATE_FALLBACK result=%d handle=%u'') [Z terminate_result, Z handle];
        wait E 50 (\<lambda>s. \<not> disconnect_seen s) (Millis 10) });
     remove_result \<leftarrow> call E ''ble_gap_ext_adv_remove'' [Z 0];
     print E (ln ''REMU_VENDOR_BLE_CONNECTED_ADV_REMOVE result=%d'') [Z remove_result] }"

definition radio_sequence_task :: "(ble_event, 'd) library \<Rightarrow> (string \<Rightarrow> int) \<Rightarrow> (ble, ble_event, 'd, unit) app" where
  "radio_sequence_task X K = (let E = ble_setting X in do {
     ble_advertise E K;
     connected \<leftarrow> look E connection_seen;
     (if connected then ble_connected E K
      else end_advertising E (ln ''REMU_VENDOR_BLE_CONNECTABLE_ADV_STOP result=%d'')
             (ln ''REMU_VENDOR_BLE_CONNECTABLE_ADV_REMOVE result=%d''));
     ble_scan E K;
     _ \<leftarrow> call E ''vTaskDelete'' [];
     State_Monad.return () })"

text \<open>The task that runs the stack, of both probes.\<close>

definition host_task :: "('s, 'e, 'd) setting \<Rightarrow> ('s, 'e, 'd, unit) app" where
  "host_task E = do {
     _ \<leftarrow> call E ''nimble_port_run'' [];
     _ \<leftarrow> call E ''nimble_port_freertos_deinit'' [];
     State_Monad.return () }"

definition ble_app_main :: "(ble_event, 'd) library \<Rightarrow> (string \<Rightarrow> int) \<Rightarrow> (ble, ble_event, 'd, unit) app" where
  "ble_app_main X K = (let E = ble_setting X in do {
     result \<leftarrow> call E ''nimble_port_init'' [];
     print E (ln ''REMU_VENDOR_BLE_INIT result=%d'') [Z result];
     (if result \<noteq> 0 then State_Monad.return ()
      else do {
        _ \<leftarrow> call E ''ble_hs_cfg'' [Str ''on_reset'', Str ''on_sync''];
        _ \<leftarrow> call E ''nimble_port_freertos_init'' [Str ''host_task''];
        State_Monad.return () }) })"

interpretation ble: callback_app "ble_setting X"
proof
  fix s e
  have "tells s (on_gap_event X e) (\<lambda>r t as es. as = [] \<and> es = [])"
    by (cases "(X, e)" rule: on_gap_event.cases) (auto simp: store_qualification_ltk_def intro!: tell_rules)
  then show "tells s (react (ble_setting X) e) (\<lambda>r t as es. as = [] \<and> es = [])"
    by (auto simp: ble_setting_def ble_react_def on_reset_def on_sync_def simp del: on_gap_event.simps
        intro!: tell_rules split: ble_event.split)
qed

lemmas ble_rules = tells_return tells_bind tells_if ble.quiet_ops ble.quiet_wait

lemma within_advertising:
  "within 4 (configure_advertising (ble_setting X) K advertisement legacy connectable)"
  "within 5 (end_advertising (ble_setting X) stopped removed)"
  unfolding configure_advertising_def end_advertising_def by (intro withinI ble_rules; simp)+

lemma within_ble_advertise: "within 128 (ble_advertise (ble_setting X) K)"
proof -
  have "within (1 + ((4 + 0) + (1 + (1 + (5 + (4 + (1 + (1 + (5 + (4 + (1 + 100)))))))))))
      (ble_advertise (ble_setting X) K)"
    unfolding ble_advertise_def run_extended_advertising_def
    by (intro keeps_bind keeps_chain ble.within_ops within_advertising)
  then show ?thesis by (rule keeps_weaken) simp
qed

lemma within_ble_connected: "within 256 (ble_connected (ble_setting X) K)"
  unfolding ble_connected_def by (intro withinI ble_rules) simp_all

text \<open>The radio sequence ends, on every branch, with a scan.\<close>

lemma radio_sequence_scans:
  "tells s (radio_sequence_task X K) (\<lambda>r t as es. length as \<le> 387 \<and>
     exhibits [invoked ''ble_gap_disc''
         [Z (K ''BLE_OWN_ADDR_RANDOM''), Z (K ''BLE_HS_FOREVER''), Z 16, Z 16, Z 1, Z 0, Str ''on_gap_event''],
       said (ln ''REMU_VENDOR_BLE_SCAN_START result=%d'')] as)"
proof -
  let ?E = "ble_setting X"
  let ?Q = "\<lambda>as. exhibits [invoked ''ble_gap_disc''
    [Z (K ''BLE_OWN_ADDR_RANDOM''), Z (K ''BLE_HS_FOREVER''), Z 16, Z 16, Z 1, Z 0, Str ''on_gap_event''],
    said (ln ''REMU_VENDOR_BLE_SCAN_START result=%d'')] as"
  have scan: "tells t (do { ble_scan ?E K; _ \<leftarrow> call ?E ''vTaskDelete'' []; State_Monad.return () })
      (\<lambda>r u as es. length as \<le> 3 \<and> ?Q as)" for t
    unfolding ble_scan_def by (intro ble_rules) simp
  have "within (128 + (0 + max 256 5)) (do { ble_advertise ?E K; connected \<leftarrow> look ?E connection_seen;
      if connected then ble_connected ?E K else end_advertising ?E stopped removed })" for stopped removed
    by (intro keeps_bind keeps_if ble.within_ops within_ble_advertise within_ble_connected within_advertising)
  note first = this [unfolded keeps_def, rule_format]
  have "tells s ((do { ble_advertise ?E K; connected \<leftarrow> look ?E connection_seen;
      if connected then ble_connected ?E K else end_advertising ?E stopped removed }) \<bind>
      (\<lambda>_. do { ble_scan ?E K; _ \<leftarrow> call ?E ''vTaskDelete'' []; State_Monad.return () }))
      (\<lambda>r t as es. length as \<le> 387 \<and> ?Q as)" for stopped removed
    by (rule tells_bind, rule tells_mono [OF first]) (auto intro!: tells_mono [OF scan] exhibits_skip)
  then show ?thesis
    unfolding radio_sequence_task_def Let_def bind_assoc by simp
qed

lemma within_radio_sequence: "within 387 (radio_sequence_task X K)"
  by (rule withinI, rule tells_mono [OF radio_sequence_scans]) simp

lemma within_ble_main: "within 4 (ble_app_main X K)"
  unfolding ble_app_main_def Let_def by (intro withinI ble_rules) simp_all

section \<open>Coexistence\<close>

record coex =
  wifi_started :: bool
  ble_advertising_started :: bool
  ble_scan_reported :: bool
  ieee802154_complete :: bool
  ieee802154_failed :: bool
  ieee802154_error :: int
  ieee802154_transmitted_frame :: bytes

definition coex_statics :: coex where
  "coex_statics = \<lparr>wifi_started = False, ble_advertising_started = False, ble_scan_reported = False,
     ieee802154_complete = True, ieee802154_failed = False, ieee802154_error = - 1,
     ieee802154_transmitted_frame = replicate 5 0\<rparr>"

text \<open>
  The callbacks of the three stacks; a frame is the bytes at its pointer.  The IEEE 802.15.4 callbacks exist on the ESP32-C6
  only (\<open>c6\<close> is \<open>CONFIG_IDF_TARGET_ESP32C6\<close>).
\<close>

datatype coex_event =
    Coex_Wifi_Event int
  | Coex_Disc int nat int "nat \<Rightarrow> u8"
  | Coex_Sync
  | Coex_Transmit_Done "nat \<Rightarrow> u8"
  | Coex_Transmit_Failed int
  | Coex_Receive_Done int

definition coex_transmit_done :: "(nat \<Rightarrow> u8) \<Rightarrow> (coex, coex_event, 'd, unit) app" where
  "coex_transmit_done frame = do {
     poke (ieee802154_transmitted_frame_update (\<lambda>_. map frame [0..<5]));
     poke (ieee802154_complete_update (\<lambda>_. True)) }"

definition coex_transmit_failed :: "int \<Rightarrow> (coex, coex_event, 'd, unit) app" where
  "coex_transmit_failed error = do {
     poke (ieee802154_failed_update (\<lambda>_. True));
     poke (ieee802154_error_update (\<lambda>_. error));
     poke (ieee802154_complete_update (\<lambda>_. True)) }"

definition coex_receive_done :: "(coex_event, 'd) library \<Rightarrow> int \<Rightarrow> (coex, coex_event, 'd, unit) app" where
  "coex_receive_done X frame = do {
     _ \<leftarrow> cb_call X ''esp_ieee802154_receive_handle_done'' [Z frame];
     State_Monad.return () }"

definition ieee802154_frame :: bytes where "ieee802154_frame = [6, 0x01, 0x00, 0x2a, 0xa5, 0, 0]"

definition start_ieee802154 :: "(coex_event, 'd) library \<Rightarrow> (string \<Rightarrow> int) \<Rightarrow> (coex, coex_event, 'd, unit) app" where
  "start_ieee802154 X K = do {
     result \<leftarrow> cb_call X ''esp_ieee802154_enable'' [];
     result \<leftarrow> chain (K ''ESP_OK'')
       [cb_call X ''esp_ieee802154_set_channel'' [Z 11], cb_call X ''esp_ieee802154_set_promiscuous'' [flag True]] result;
     channel \<leftarrow> (if result = K ''ESP_OK'' then cb_call X ''esp_ieee802154_get_channel'' [] else State_Monad.return 0);
     cb_print (ln ''REMU_VENDOR_COEX_IEEE802154_INIT result=%d channel=%u'') [Z result, Z channel];
     if result \<noteq> K ''ESP_OK'' then State_Monad.return ()
     else do {
       poke (ieee802154_complete_update (\<lambda>_. False));
       result \<leftarrow> cb_call X ''esp_ieee802154_transmit'' [Raw ieee802154_frame, flag False];
       wifi \<leftarrow> peek wifi_started;
       cb_print (ln ''REMU_VENDOR_COEX_IEEE802154_TX_START result=%d wifi=%u ble_scan=1'') [Z result, flag wifi];
       if result \<noteq> K ''ESP_OK'' then poke (ieee802154_complete_update (\<lambda>_. True)) else State_Monad.return () } }"

definition coex_on_wifi_event :: "(string \<Rightarrow> int) \<Rightarrow> int \<Rightarrow> (coex, coex_event, 'd, unit) app" where
  "coex_on_wifi_event K number =
     (if number = K ''WIFI_EVENT_AP_START'' then do {
        poke (wifi_started_update (\<lambda>_. True));
        cb_print (ln ''REMU_VENDOR_COEX_WIFI_STARTED'') [] }
      else State_Monad.return ())"

definition coex_on_gap_event :: "int \<Rightarrow> nat \<Rightarrow> int \<Rightarrow> (nat \<Rightarrow> u8) \<Rightarrow> (coex, coex_event, 'd, unit) app" where
  "coex_on_gap_event type len rssi data = do {
     poke (ble_scan_reported_update (\<lambda>_. True));
     cb_print ''REMU_VENDOR_COEX_BLE_SCAN_REPORT type=%u length=%u rssi=%d'' [Z type, Z (int len), Z rssi];
     print_hex '' %02x'' (map data [0..<len]);
     cb_print (ln []) [] }"

definition coex_advertisement :: "(string \<Rightarrow> int) \<Rightarrow> bytes" where
  "coex_advertisement K = adv_header K @ [0x0c, word_of_int (K ''BLE_HS_ADV_TYPE_COMP_NAME'')] @ map of_char ''Renvo-Coex1''"

definition on_ble_sync :: "bool \<Rightarrow> (coex_event, 'd) library \<Rightarrow> (string \<Rightarrow> int) \<Rightarrow> (coex, coex_event, 'd, unit) app" where
  "on_ble_sync c6 X K = do {
     result \<leftarrow> cb_call X ''ble_hs_id_set_rnd'' [Raw [0x16, 0x15, 0x14, 0x13, 0x12, 0xc1]];
     result \<leftarrow> chain 0
       [cb_call X ''ble_gap_adv_set_data'' [Raw (coex_advertisement K), Z 16],
        cb_call X ''ble_gap_adv_start'' [Z (K ''BLE_OWN_ADDR_RANDOM''), Z 0, Z (K ''BLE_HS_FOREVER''),
          Z (K ''BLE_GAP_CONN_MODE_NON''), Z (K ''BLE_GAP_DISC_MODE_GEN'')]] result;
     poke (ble_advertising_started_update (\<lambda>_. result = 0));
     wifi \<leftarrow> peek wifi_started;
     cb_print (ln ''REMU_VENDOR_COEX_BLE_ADV_START result=%d wifi=%u'') [Z result, flag wifi];
     tell (In_Callback (Paused (Millis 40)));
     stop_result \<leftarrow> cb_call X ''ble_gap_adv_stop'' [];
     cb_print (ln ''REMU_VENDOR_COEX_BLE_ADV_STOP result=%d'') [Z stop_result];
     scan_result \<leftarrow> cb_call X ''ble_gap_disc''
       [Z (K ''BLE_OWN_ADDR_RANDOM''), Z (K ''BLE_HS_FOREVER''), Z 16, Z 16, Z 1, Z 0, Str ''on_gap_event''];
     cb_print (ln ''REMU_VENDOR_COEX_BLE_SCAN_START result=%d'') [Z scan_result];
     if c6 \<and> scan_result = 0 then start_ieee802154 X K else State_Monad.return () }"

fun coex_react :: "bool \<Rightarrow> (coex_event, 'd) library \<Rightarrow> (string \<Rightarrow> int) \<Rightarrow> coex_event \<Rightarrow> (coex, coex_event, 'd, unit) app" where
  "coex_react c6 X K (Coex_Wifi_Event number) = coex_on_wifi_event K number"
| "coex_react c6 X K (Coex_Disc type len rssi data) = coex_on_gap_event type len rssi data"
| "coex_react c6 X K Coex_Sync = on_ble_sync c6 X K"
| "coex_react c6 X K (Coex_Transmit_Done frame) = (if c6 then coex_transmit_done frame else State_Monad.return ())"
| "coex_react c6 X K (Coex_Transmit_Failed error) = (if c6 then coex_transmit_failed error else State_Monad.return ())"
| "coex_react c6 X K (Coex_Receive_Done frame) = (if c6 then coex_receive_done X frame else State_Monad.return ())"

type_synonym 'd coex_setting = "(coex, coex_event, 'd) setting"

definition coex_setting :: "bool \<Rightarrow> (coex_event, 'd) library \<Rightarrow> (string \<Rightarrow> int) \<Rightarrow> 'd coex_setting" where
  "coex_setting c6 X K = \<lparr>lib = X, react = coex_react c6 X K\<rparr>"

definition coex_ble :: "'d coex_setting \<Rightarrow> (coex, coex_event, 'd, bool) app" where
  "coex_ble E = do {
     ble_result \<leftarrow> call E ''nimble_port_init'' [];
     print E (ln ''REMU_VENDOR_COEX_BLE_INIT result=%d'') [Z ble_result];
     if ble_result \<noteq> 0 then State_Monad.return False
     else do {
       _ \<leftarrow> call E ''ble_hs_cfg'' [Str ''on_ble_sync''];
       _ \<leftarrow> call E ''nimble_port_freertos_init'' [Str ''host_task''];
       State_Monad.return True } }"

definition coex_finish :: "bool \<Rightarrow> 'd coex_setting \<Rightarrow> (coex, coex_event, 'd, bool) app" where
  "coex_finish c6 E = do {
     wait E 500 (\<lambda>s. \<not> wifi_started s \<or> \<not> ble_advertising_started s \<or> \<not> ble_scan_reported s \<or> \<not> ieee802154_complete s)
       (Millis 10);
     xs \<leftarrow> look E (\<lambda>s. [flag (wifi_started s), flag (ble_advertising_started s), flag (ble_scan_reported s)]);
     print E (ln ''REMU_VENDOR_COEX_DONE wifi=%u ble_adv=%u ble_scan=%u'') xs;
     if c6 then do {
       failed \<leftarrow> look E ieee802154_failed;
       if failed then do {
         error \<leftarrow> look E ieee802154_error;
         print E (ln ''REMU_VENDOR_COEX_IEEE802154_TX_FAILED error=%d'') [Z error];
         State_Monad.return True }
       else do {
         complete \<leftarrow> look E ieee802154_complete;
         if complete then do {
           frame \<leftarrow> look E ieee802154_transmitted_frame;
           print E (ln ''REMU_VENDOR_COEX_IEEE802154_TX_DONE length=%u %02x %02x %02x %02x'') (map (\<lambda>b. Z (uint b)) frame);
           State_Monad.return True }
         else State_Monad.return True } }
     else State_Monad.return True }"

definition coex_app_main ::
  "bool \<Rightarrow> (coex_event, 'd) library \<Rightarrow> (string \<Rightarrow> int) \<Rightarrow> (coex, coex_event, 'd, bool) app" where
  "coex_app_main c6 X K = (let E = coex_setting c6 X K in body_of
     [ESP_ERROR_CHECK E K ''esp_netif_init'' [],
      ESP_ERROR_CHECK E K ''esp_event_loop_create_default'' [],
      check_created E K ''esp_netif_create_default_wifi_ap'' [],
      ESP_ERROR_CHECK E K ''esp_event_handler_register'' [Str ''WIFI_EVENT'', Z (K ''ESP_EVENT_ANY_ID''), Str ''on_wifi_event''],
      ESP_ERROR_CHECK E K ''esp_wifi_init'' [Str ''WIFI_INIT_CONFIG_DEFAULT'', Z 0],
      ESP_ERROR_CHECK E K ''esp_wifi_set_mode'' [Z (K ''WIFI_MODE_AP'')],
      ESP_ERROR_CHECK E K ''esp_wifi_set_config''
        [Z (K ''WIFI_IF_AP''), Str ''REMU-COEX'', Z 9, Z 1, Z (K ''WIFI_AUTH_OPEN''), Z 2, Z 100],
      ESP_ERROR_CHECK E K ''esp_wifi_start'' [],
      coex_ble E, coex_finish c6 E])"

interpretation coex: callback_app "coex_setting c6 X K"
proof
  fix s e
  have "tells s (start_ieee802154 X K) (\<lambda>r t as es. as = [] \<and> es = [])" for s
    unfolding start_ieee802154_def chain.simps by (intro tell_rules; simp)
  note start = tells_mono [OF this]
  have "tells s (on_ble_sync c6 X K) (\<lambda>r t as es. as = [] \<and> es = [])"
    unfolding on_ble_sync_def chain.simps by (intro tell_rules; (rule start)?; simp)
  then show "tells s (react (coex_setting c6 X K) e) (\<lambda>r t as es. as = [] \<and> es = [])"
    by (cases "(c6, X, K, e)" rule: coex_react.cases)
      (auto simp: coex_setting_def coex_on_wifi_event_def coex_on_gap_event_def coex_transmit_done_def
        coex_transmit_failed_def coex_receive_done_def intro!: tell_rules)
qed

lemma within_coex: "within 514 (coex_app_main c6 X K)"
proof -
  note rules = tells_return tells_bind tells_if coex.quiet_ops coex.quiet_wait
  have parts: "within 4 (coex_ble (coex_setting c6 X K))" "within 502 (coex_finish c6 (coex_setting c6 X K))"
    unfolding coex_ble_def coex_finish_def by (intro withinI rules; simp)+
  show ?thesis
    unfolding coex_app_main_def Let_def
    by (rule keeps_weaken, (rule keeps_body coex.within_ops parts)+) simp
qed

text \<open>
  When the driver refuses to send the frame, the variables are those of a frame that was sent: the refusal
  sets \<open>ieee802154_complete\<close> and leaves \<open>ieee802154_failed\<close> alone, so that \<open>coex_finish\<close> prints the line of a
  completed transmission, with the bytes of an earlier one or zeros.
\<close>

lemma coex_refused_looks_done:
  assumes "\<And>d. fst (fst (ask X ''esp_ieee802154_transmit'' [Raw ieee802154_frame, flag False] d)) \<noteq> K ''ESP_OK''"
    and "ieee802154_complete (vars w)" "\<not> ieee802154_failed (vars w)"
  shows "ieee802154_complete (vars (snd (run_state (start_ieee802154 X K) w))) \<and>
    \<not> ieee802154_failed (vars (snd (run_state (start_ieee802154 X K) w)))"
  using assms
  by (auto simp: start_ieee802154_def cb_call_def cb_query_def cb_print_def request_def tell_def peek_def poke_def
      split: prod.splits) (metis fst_conv)

end
