(* ===== verification/Vendor_Radio.thy ===== *)
theory Vendor_Radio
  imports Vendor_Ieee802154 Vendor_Wifi Vendor_Zigbee Vendor_Ble
begin

text \<open>The nine applications of the vendor's radio libraries together.\<close>

section \<open>Properties\<close>


end
