(* ===== verification/Tinyusb.thy ===== *)
theory Tinyusb
  imports Vendor_Story Runtime
begin

text \<open>
  The USB device qualification on the vendor's TinyUSB port (\<^verbatim>\<open>corpus/vendor/esp-idf-tinyusb/main.c\<close>): the functions the
  library links against, the callbacks, and the main loop that serves the controller, writes one line to the
  serial interface and stores a verdict in the exit register.  The library and the registers are the environment: a
  read and a store of a register are calls \<open>REG32\<close> and \<open>REG32 =\<close>.  An assertion that fails in the library ends in
  \<open>__assert_func\<close>, which does not return: the callback answers \<open>False\<close>, and a computation of the program that is caught in it has no
  result (\<open>None\<close>).
\<close>

section \<open>Memory functions\<close>

definition usb_memcpy :: "u32 \<Rightarrow> u32 \<Rightarrow> u32 \<Rightarrow> mem \<Rightarrow> u32 \<times> mem" where
  "usb_memcpy destination source len m = (destination, copy_up m destination source len)"

definition usb_memset :: "u32 \<Rightarrow> u32 \<Rightarrow> u32 \<Rightarrow> mem \<Rightarrow> u32 \<times> mem" where
  "usb_memset destination v len m = (destination, fill_up m destination (to_u8 v) len)"

definition usb_memmove :: "u32 \<Rightarrow> u32 \<Rightarrow> u32 \<Rightarrow> mem \<Rightarrow> u32 \<times> mem" where
  "usb_memmove destination source len m =
     (if destination < source then usb_memcpy destination source len m
      else (destination, copy_down m destination source len))"

text \<open>The comparison and the string length walk memory as the loops of the other runtime do.\<close>

definition usb_memcmp :: "u32 \<Rightarrow> u32 \<Rightarrow> u32 \<Rightarrow> mem \<Rightarrow> int" where
  "usb_memcmp left right len m = memcmp m left right len"

definition usb_strlen :: "u32 \<Rightarrow> mem \<Rightarrow> u32 option" where
  "usb_strlen start m = map_option (\<lambda>e. e - start) (string_end m start)"

function strnlen_loop :: "mem \<Rightarrow> u32 \<Rightarrow> u32 \<Rightarrow> u32 \<Rightarrow> u32" where
  "strnlen_loop m p maximum len =
     (if len < maximum \<and> m (p + len) \<noteq> 0 then strnlen_loop m p maximum (len + 1) else len)"
  by pat_completeness auto

termination strnlen_loop
proof (relation "measure (\<lambda>(m, p, maximum, len). unat (maximum - len))")
  fix m p and maximum len :: u32
  assume "len < maximum \<and> m (p + len) \<noteq> (0 :: u8)"
  then have "maximum - len \<noteq> 0" by auto
  from unat_pred_less [OF this] show "((m, p, maximum, len + 1), (m, p, maximum, len)) \<in> measure (\<lambda>(m, p, maximum, len). unat (maximum - len))"
    by (simp add: algebra_simps)
qed simp

declare strnlen_loop.simps [simp del]

definition strnlen :: "mem \<Rightarrow> u32 \<Rightarrow> u32 \<Rightarrow> u32" where
  "strnlen m p maximum = strnlen_loop m p maximum 0"

text \<open>The length of the string, cut at the maximum; memory behind the maximum plays no part.\<close>

lemma strnlen_loop_string:
  "c_string m (p + len) cs \<Longrightarrow> len \<le> maximum \<Longrightarrow>
   strnlen_loop m p maximum len = (if length cs < unat (maximum - len) then len + of_nat (length cs) else maximum)"
proof (induction m p maximum len arbitrary: cs rule: strnlen_loop.induct)
  case (1 m p maximum len)
  show ?case
  proof (cases cs)
    case Nil
    with 1(2,3) show ?thesis
      by (subst strnlen_loop.simps) (auto simp: unat_gt_0 word_le_less_eq)
  next
    case (Cons c ds)
    show ?thesis
    proof (cases "len < maximum")
      case True
      have more: "c_string m (p + (len + 1)) ds" "m (p + len) \<noteq> 0" "len + 1 \<le> maximum"
        using 1(2) True Cons by (auto simp: add.assoc inc_le)
      have "unat (maximum - len) = Suc (unat (maximum - (len + 1)))"
        using unat_minus_one [of "maximum - len"] True unat_gt_0 [of "maximum - len"] by (auto simp: algebra_simps)
      with 1(1) [OF _ more(1,3)] True more(2) Cons show ?thesis
        by (subst strnlen_loop.simps) (simp add: add.assoc)
    qed (use 1(3) Cons in \<open>subst strnlen_loop.simps; simp\<close>)
  qed
qed

lemma strnlen_string:
  "c_string m p cs \<Longrightarrow> unat (strnlen m p maximum) = min (unat maximum) (length cs)"
  using strnlen_loop_string [of m p 0 cs maximum] c_string_short [of m p cs]
  by (auto simp: strnlen_def unsigned_of_nat take_bit_nat_eq_self)

section \<open>State, callbacks and the functions the library links against\<close>

record tinyusb =
  mounted :: bool
  sent :: bool
  written :: u32
  flushed :: u32
  milliseconds :: u32

record phy_config =
  controller :: int
  target :: int
  otg_mode :: int
  otg_speed :: int

text \<open>
  What the library calls: the event handler with the event's number, the functions of the USB transceiver, of the TinyUSB
  task (the size and priority of its configuration, the port and the descriptors as a pointer), and the clock.
\<close>

datatype usb_event =
    Tinyusb_Event int
  | Usb_New_Phy "phy_config option"
  | Usb_Del_Phy
  | Task_Check_Config "(int \<times> int) option"
  | Task_Start int int
  | Task_Stop
  | Time_Millis
  | Assert_Func

definition TEST_EXIT :: u32 where "TEST_EXIT = 0xfffffff0"
definition RTC_USB_CONF :: u32 where "RTC_USB_CONF = 0x60008120"
definition USB_GINTSTS :: u32 where "USB_GINTSTS = 0x60080014"
definition USB_GINTMSK :: u32 where "USB_GINTMSK = 0x60080018"

definition cb_load32 :: "('e, 'd) library \<Rightarrow> u32 \<Rightarrow> ('s, 'e, 'd, u32) app" where
  "cb_load32 X a = do { v \<leftarrow> cb_call X ''REG32'' [Z (uint a)]; State_Monad.return (word_of_int v) }"

definition cb_store32 :: "('e, 'd) library \<Rightarrow> u32 \<Rightarrow> u32 \<Rightarrow> ('s, 'e, 'd, unit) app" where
  "cb_store32 X a v = do { _ \<leftarrow> cb_call X ''REG32 ='' [Z (uint a), Z (uint v)]; State_Monad.return () }"

text \<open>\<open>__assert_func\<close> loops for ever behind its store: it answers that it does not return.\<close>

definition assert_func :: "(usb_event, 'd) library \<Rightarrow> (tinyusb, usb_event, 'd, bool) app" where
  "assert_func X = do { cb_store32 X TEST_EXIT 12; State_Monad.return False }"

definition tusb_time_millis_api :: "(tinyusb, usb_event, 'd, u32) app" where
  "tusb_time_millis_api = do {
     now \<leftarrow> peek milliseconds;
     poke (milliseconds_update (\<lambda>n. n + 1));
     State_Monad.return now }"

definition tinyusb_event :: "(string \<Rightarrow> int) \<Rightarrow> int \<Rightarrow> (tinyusb, usb_event, 'd, unit) app" where
  "tinyusb_event K number =
     (if number = K ''TINYUSB_EVENT_ATTACHED'' then poke (mounted_update (\<lambda>_. True)) else State_Monad.return ())"

text \<open>The result and the handle, if it is stored.\<close>

definition usb_new_phy ::
  "(usb_event, 'd) library \<Rightarrow> (string \<Rightarrow> int) \<Rightarrow> phy_config option \<Rightarrow> (tinyusb, usb_event, 'd, int \<times> int option) app" where
  "usb_new_phy X K config =
     (case config of
        None \<Rightarrow> State_Monad.return (K ''ESP_ERR_INVALID_ARG'', None)
      | Some c \<Rightarrow>
          if controller c \<noteq> K ''USB_PHY_CTRL_OTG'' \<or> target c \<noteq> K ''USB_PHY_TARGET_INT'' \<or>
             otg_mode c \<noteq> K ''USB_OTG_MODE_DEVICE'' \<or> otg_speed c \<noteq> K ''USB_PHY_SPEED_FULL''
          then State_Monad.return (K ''ESP_ERR_INVALID_ARG'', None)
          else do {
            v \<leftarrow> cb_load32 X RTC_USB_CONF;
            cb_store32 X RTC_USB_CONF (v OR (push_bit 20 1 OR push_bit 19 1));
            State_Monad.return (K ''ESP_OK'', Some 1) })"

definition usb_del_phy :: "(string \<Rightarrow> int) \<Rightarrow> int" where "usb_del_phy K = K ''ESP_OK''"

definition tinyusb_task_check_config :: "(string \<Rightarrow> int) \<Rightarrow> (int \<times> int) option \<Rightarrow> int" where
  "tinyusb_task_check_config K config =
     (case config of
        None \<Rightarrow> K ''ESP_ERR_INVALID_ARG''
      | Some (len, priority) \<Rightarrow> if len \<noteq> 0 \<and> priority \<noteq> 0 then K ''ESP_OK'' else K ''ESP_ERR_INVALID_ARG'')"

definition tinyusb_task_start ::
  "(usb_event, 'd) library \<Rightarrow> (string \<Rightarrow> int) \<Rightarrow> int \<Rightarrow> int \<Rightarrow> (tinyusb, usb_event, 'd, int) app" where
  "tinyusb_task_start X K port descriptor = do {
     checked \<leftarrow> cb_call X ''tinyusb_descriptors_check'' [Z port, Z descriptor];
     if checked \<noteq> K ''ESP_OK'' then State_Monad.return (K ''ESP_FAIL'')
     else do {
       installed \<leftarrow> cb_call X ''tinyusb_descriptors_set'' [Z port, Z descriptor];
       if installed \<noteq> K ''ESP_OK'' then State_Monad.return (K ''ESP_FAIL'')
       else do {
         started \<leftarrow> cb_call X ''tusb_rhport_init'' [Z (port mod 256), Z (K ''TUSB_ROLE_DEVICE''), Z (K ''TUSB_SPEED_FULL'')];
         State_Monad.return (if started \<noteq> 0 then K ''ESP_OK'' else K ''ESP_FAIL'') } } }"

definition tinyusb_task_stop :: "(string \<Rightarrow> int) \<Rightarrow> int" where "tinyusb_task_stop K = K ''ESP_OK''"

text \<open>A function that the library calls; \<open>False\<close> when it does not return.\<close>

fun usb_react :: "(usb_event, 'd) library \<Rightarrow> (string \<Rightarrow> int) \<Rightarrow> usb_event \<Rightarrow> (tinyusb, usb_event, 'd, bool) app" where
  "usb_react X K (Tinyusb_Event number) = do { tinyusb_event K number; State_Monad.return True }"
| "usb_react X K (Usb_New_Phy config) = do { _ \<leftarrow> usb_new_phy X K config; State_Monad.return True }"
| "usb_react X K (Task_Start port descriptor) = do { _ \<leftarrow> tinyusb_task_start X K port descriptor; State_Monad.return True }"
| "usb_react X K Time_Millis = do { _ \<leftarrow> tusb_time_millis_api; State_Monad.return True }"
| "usb_react X K Assert_Func = assert_func X"
| "usb_react X K e = State_Monad.return True"

fun usb_react_all :: "(usb_event, 'd) library \<Rightarrow> (string \<Rightarrow> int) \<Rightarrow> usb_event list \<Rightarrow> (tinyusb, usb_event, 'd, bool) app" where
  "usb_react_all X K [] = State_Monad.return True"
| "usb_react_all X K (e # es) = do {
     tell (Callback e);
     returned \<leftarrow> usb_react X K e;
     if returned then usb_react_all X K es else State_Monad.return False }"

section \<open>The main program\<close>

text \<open>
  A step of the main program: the functions that the library has called by then run first, and the step is made only if all of them
  return.  \<open>and_on\<close> goes on with the result of a computation that has one.
\<close>

definition live :: "(usb_event, 'd) library \<Rightarrow> (string \<Rightarrow> int) \<Rightarrow> (tinyusb, usb_event, 'd, 'a) app \<Rightarrow> (tinyusb, usb_event, 'd, 'a option) app" where
  "live X K M = do {
     es \<leftarrow> State (\<lambda>w. case due X (stack w) of (es, d) \<Rightarrow> (es, w\<lparr>stack := d\<rparr>));
     returned \<leftarrow> usb_react_all X K es;
     if returned then do { a \<leftarrow> M; State_Monad.return (Some a) } else State_Monad.return None }"

definition and_on :: "('s, 'e, 'd, 'a option) app \<Rightarrow> ('a \<Rightarrow> ('s, 'e, 'd, 'b option) app) \<Rightarrow> ('s, 'e, 'd, 'b option) app" where
  "and_on M f = do { r \<leftarrow> M; case r of None \<Rightarrow> State_Monad.return None | Some a \<Rightarrow> f a }"

definition proceed :: "'a \<Rightarrow> ('s, 'e, 'd, 'a option) app" where
  "proceed a = State_Monad.return (Some a)"

definition usb_call ::
  "(usb_event, 'd) library \<Rightarrow> (string \<Rightarrow> int) \<Rightarrow> string \<Rightarrow> val list \<Rightarrow> (tinyusb, usb_event, 'd, int option) app" where
  "usb_call X K f xs = live X K (do {
     r \<leftarrow> request X f xs;
     tell (Main (Called f xs (fst r) (snd r)));
     State_Monad.return (fst r) })"

definition usb_look :: "(usb_event, 'd) library \<Rightarrow> (string \<Rightarrow> int) \<Rightarrow> (tinyusb \<Rightarrow> 'a) \<Rightarrow> (tinyusb, usb_event, 'd, 'a option) app" where
  "usb_look X K g = live X K (peek g)"

definition usb_assign :: "(usb_event, 'd) library \<Rightarrow> (string \<Rightarrow> int) \<Rightarrow> (tinyusb \<Rightarrow> tinyusb) \<Rightarrow> (tinyusb, usb_event, 'd, unit option) app" where
  "usb_assign X K h = live X K (poke h)"

definition reg_load :: "(usb_event, 'd) library \<Rightarrow> (string \<Rightarrow> int) \<Rightarrow> u32 \<Rightarrow> (tinyusb, usb_event, 'd, u32 option) app" where
  "reg_load X K a = and_on (usb_call X K ''REG32'' [Z (uint a)]) (\<lambda>v. proceed (word_of_int v))"

definition reg_store :: "(usb_event, 'd) library \<Rightarrow> (string \<Rightarrow> int) \<Rightarrow> u32 \<Rightarrow> u32 \<Rightarrow> (tinyusb, usb_event, 'd, unit option) app" where
  "reg_store X K a v = and_on (usb_call X K ''REG32 ='' [Z (uint a), Z (uint v)]) (\<lambda>_. proceed ())"

text \<open>The two reads of the condition of the loop are made from left to right.  The device descriptor: the fields in their order.\<close>

definition device_descriptor :: "(string \<Rightarrow> int) \<Rightarrow> val list" where
  "device_descriptor K = [Z (K ''sizeof(tusb_desc_device_t)''), Z (K ''TUSB_DESC_DEVICE''), Z 0x0200, Z (K ''TUSB_CLASS_MISC''),
     Z (K ''MISC_SUBCLASS_COMMON''), Z (K ''MISC_PROTOCOL_IAD''), Z (K ''CFG_TUD_ENDPOINT0_SIZE''), Z 0xcafe, Z 0x4001, Z 0x0100,
     Z 1, Z 2, Z 3, Z 1]"

definition string_descriptors :: "val list" where
  "string_descriptors = [Raw [0x09, 0x04], Str ''Renvo Emulator'', Str ''TinyUSB qualification'', Str ''0001'', Str ''CDC'']"

text \<open>
  The arguments of the macros \<open>TUD_CONFIG_DESCRIPTOR\<close> and \<open>TUD_CDC_DESCRIPTOR\<close> of the configuration descriptor.
\<close>

definition configuration_descriptor :: "(string \<Rightarrow> int) \<Rightarrow> val list" where
  "configuration_descriptor K =
     [Z 1, Z 2, Z 0, Z (K ''TUD_CONFIG_DESC_LEN'' + K ''TUD_CDC_DESC_LEN''), Z 0, Z 100,
      Z 0, Z 4, Z 0x81, Z 8, Z 0x02, Z 0x82, Z 64]"

definition tinyusb_config :: "(string \<Rightarrow> int) \<Rightarrow> val list" where
  "tinyusb_config K =
     [Z (K ''TINYUSB_PORT_FULL_SPEED_0''), flag False, flag False, Z (- 1), Z 2048, Z 5, Z 0] @
     device_descriptor K @ string_descriptors @ [Z 5] @ configuration_descriptor K @ [Str ''tinyusb_event'']"

definition usb_serve :: "(usb_event, 'd) library \<Rightarrow> (string \<Rightarrow> int) \<Rightarrow> (tinyusb, usb_event, 'd, unit option) app" where
  "usb_serve X K =
     and_on (reg_load X K USB_GINTSTS) (\<lambda>status.
     and_on (reg_load X K USB_GINTMSK) (\<lambda>enabled.
     and_on (if status AND enabled \<noteq> 0 then usb_call X K ''dcd_int_handler'' [Z 0] else proceed 0) (\<lambda>_.
     and_on (usb_call X K ''tud_task'' []) (\<lambda>_.
     proceed ()))))"

definition pass_line :: bytes where "pass_line = map of_char ''PASS'' @ [0x0a]"

definition usb_send :: "(usb_event, 'd) library \<Rightarrow> (string \<Rightarrow> int) \<Rightarrow> (tinyusb, usb_event, 'd, unit option) app" where
  "usb_send X K =
     and_on (usb_look X K (\<lambda>s. \<not> sent s \<and> mounted s)) (\<lambda>ready.
     and_on (if ready then usb_call X K ''tud_cdc_n_connected'' [Z 0] else proceed 0) (\<lambda>connected.
     if connected \<noteq> 0 then
       and_on (usb_call X K ''tud_cdc_n_write'' [Z 0, Raw pass_line, Z 5]) (\<lambda>n.
       and_on (usb_assign X K (written_update (\<lambda>_. word_of_int n))) (\<lambda>_.
       and_on (usb_call X K ''tud_cdc_n_write_flush'' [Z 0]) (\<lambda>n.
       and_on (usb_assign X K (flushed_update (\<lambda>_. word_of_int n))) (\<lambda>_.
       usb_assign X K (\<lambda>s. s\<lparr>sent := written s = 5 \<and> flushed s = 5\<rparr>)))))
     else proceed ()))"

text \<open>The main loop with \<open>n\<close> iterations to go; \<open>True\<close> when it returns from the program.\<close>

primrec usb_loop :: "(usb_event, 'd) library \<Rightarrow> (string \<Rightarrow> int) \<Rightarrow> nat \<Rightarrow> u32 \<Rightarrow> (tinyusb, usb_event, 'd, bool option) app" where
  "usb_loop X K 0 after_send = proceed False"
| "usb_loop X K (Suc n) after_send =
     and_on (usb_serve X K) (\<lambda>_.
     and_on (usb_send X K) (\<lambda>_.
     and_on (usb_look X K sent) (\<lambda>is_sent.
     if \<not> is_sent then usb_loop X K n after_send
     else if after_send + 1 \<noteq> 4096 then usb_loop X K n (after_send + 1)
     else
       and_on (usb_look X K (\<lambda>s. if written s = 5 \<and> flushed s = 5 then 0
         else 20 + (written s AND 0xff) + push_bit 8 (flushed s AND 0xff))) (\<lambda>code.
       and_on (reg_store X K TEST_EXIT code) (\<lambda>_.
       proceed True)))))"

definition usb_install :: "(usb_event, 'd) library \<Rightarrow> (string \<Rightarrow> int) \<Rightarrow> (tinyusb, usb_event, 'd, int option) app" where
  "usb_install X K =
     and_on (usb_assign X K (mounted_update (\<lambda>_. False))) (\<lambda>_.
     and_on (usb_assign X K (sent_update (\<lambda>_. False))) (\<lambda>_.
     and_on (usb_assign X K (written_update (\<lambda>_. 0))) (\<lambda>_.
     and_on (usb_assign X K (flushed_update (\<lambda>_. 0))) (\<lambda>_.
     and_on (usb_assign X K (milliseconds_update (\<lambda>_. 0))) (\<lambda>_.
     usb_call X K ''tinyusb_driver_install'' (tinyusb_config K))))))"

definition usb_app_main :: "(usb_event, 'd) library \<Rightarrow> (string \<Rightarrow> int) \<Rightarrow> (tinyusb, usb_event, 'd, unit option) app" where
  "usb_app_main X K =
     and_on (usb_install X K) (\<lambda>result.
     if result \<noteq> K ''ESP_OK'' then reg_store X K TEST_EXIT 10
     else
       and_on (usb_loop X K 1000000 0) (\<lambda>returned.
       if returned then proceed () else reg_store X K TEST_EXIT 11))"

section \<open>The functions the library calls\<close>

fun usb_eff :: "(string \<Rightarrow> int) \<Rightarrow> usb_event \<Rightarrow> tinyusb \<Rightarrow> tinyusb" where
  "usb_eff K (Tinyusb_Event number) s = (if number = K ''TINYUSB_EVENT_ATTACHED'' then s\<lparr>mounted := True\<rparr> else s)"
| "usb_eff K Time_Millis s = s\<lparr>milliseconds := milliseconds s + 1\<rparr>"
| "usb_eff K e s = s"

text \<open>They leave the bookkeeping of the main loop alone, and the device is mounted only after the event.\<close>

abbreviation attached :: "(string \<Rightarrow> int) \<Rightarrow> usb_event \<Rightarrow> bool" where
  "attached K e \<equiv> e = Tinyusb_Event (K ''TINYUSB_EVENT_ATTACHED'')"

lemma usb_kept [simp]:
  "sent (fold (usb_eff K) evs s) = sent s" "written (fold (usb_eff K) evs s) = written s"
  "flushed (fold (usb_eff K) evs s) = flushed s"
proof -
  have "sent (usb_eff K e s) = sent s \<and> written (usb_eff K e s) = written s \<and> flushed (usb_eff K e s) = flushed s" for e s
    by (cases "(K, e, s)" rule: usb_eff.cases) simp_all
  then show "sent (fold (usb_eff K) evs s) = sent s" "written (fold (usb_eff K) evs s) = written s"
    "flushed (fold (usb_eff K) evs s) = flushed s"
    by (induction evs arbitrary: s) simp_all
qed

lemma usb_mounted [simp]: "mounted (fold (usb_eff K) evs s) \<longleftrightarrow> mounted s \<or> list_ex (attached K) evs"
proof (induction evs arbitrary: s)
  case (Cons e evs)
  then show ?case
    by (cases "(K, e, s)" rule: usb_eff.cases) auto
qed simp

text \<open>The codes that a story stores in the exit register, by the main program and by the functions the library calls.\<close>

fun act_codes :: "act \<Rightarrow> int list" where
  "act_codes (Called f xs r outs) =
     (if f = ''REG32 ='' then (case xs of [Z a, Z v] \<Rightarrow> if a = uint TEST_EXIT then [v] else [] | _ \<Rightarrow> []) else [])"
| "act_codes a = []"

fun exit_codes :: "'e entry list \<Rightarrow> int list" where
  "exit_codes [] = []"
| "exit_codes (Main a # es) = act_codes a @ exit_codes es"
| "exit_codes (In_Callback a # es) = act_codes a @ exit_codes es"
| "exit_codes (Callback e # es) = exit_codes es"

lemma exit_codes_append [simp]: "exit_codes (es @ fs) = exit_codes es @ exit_codes fs"
  by (induction es rule: exit_codes.induct) simp_all

text \<open>
  A story that is caught in \<open>__assert_func\<close>: no exit code before, the call, its store of 12, and nothing behind it.
\<close>

definition caught :: "usb_event entry list \<Rightarrow> bool" where
  "caught xs \<longleftrightarrow> (\<exists>ys r outs. xs = ys @ [Callback Assert_Func, In_Callback (Called ''REG32 ='' [Z (uint TEST_EXIT), Z 12] r outs)] \<and>
     exit_codes ys = [] \<and> Assert_Func \<notin> set (callbacks ys))"

lemma caught_append: "exit_codes xs = [] \<Longrightarrow> Assert_Func \<notin> set (callbacks xs) \<Longrightarrow> caught ys \<Longrightarrow> caught (xs @ ys)"
  unfolding caught_def by (elim exE conjE) (rename_tac zs r outs, rule_tac x = "xs @ zs" in exI, auto)

text \<open>What functions of the library add to the story without making an act of the main program or storing a code.\<close>

definition quietly :: "usb_event entry list \<Rightarrow> bool" where
  "quietly hs \<longleftrightarrow> acts hs = [] \<and> exit_codes hs = [] \<and> Assert_Func \<notin> set (callbacks hs)"

definition returned_story :: "(string \<Rightarrow> int) \<Rightarrow> tinyusb \<Rightarrow> bool \<Rightarrow> tinyusb \<Rightarrow> usb_event entry list \<Rightarrow> bool" where
  "returned_story K s b t hs \<longleftrightarrow> acts hs = [] \<and>
     (if b then quietly hs \<and> t = fold (usb_eff K) (callbacks hs) s else caught hs)"

lemma story_basic [story_rules]:
  "Q () s [e] \<Longrightarrow> recounts story s (tell e) Q"
  "P (g s) s [] \<Longrightarrow> recounts story s (peek g) P" "Q () (h s) [] \<Longrightarrow> recounts story s (poke h) Q"
  "(\<And>r. R r s []) \<Longrightarrow> recounts story s (request X f xs) R"
  by (simp_all add: recounts_def tell_def request_def peek_def poke_def split: prod.splits)

lemma story_cb [story_rules]:
  "(\<And>r outs. R r s [In_Callback (Called f xs r outs)]) \<Longrightarrow> recounts story s (cb_call X f xs) R"
  unfolding cb_call_def cb_query_def by (intro story_rules) simp

lemma story_react:
  "recounts story s (usb_react X K e) (\<lambda>b t hs. acts hs = [] \<and> callbacks hs = [] \<and>
     (if b then e \<noteq> Assert_Func \<and> exit_codes hs = [] \<and> t = usb_eff K e s
      else e = Assert_Func \<and> (\<exists>r outs. hs = [In_Callback (Called ''REG32 ='' [Z (uint TEST_EXIT), Z 12] r outs)])))"
proof -
  have differ: "uint RTC_USB_CONF \<noteq> uint TEST_EXIT"
    by (simp add: RTC_USB_CONF_def TEST_EXIT_def)
  show ?thesis
    by (cases "(X, K, e)" rule: usb_react.cases)
      (auto simp: tinyusb_event_def usb_new_phy_def tinyusb_task_start_def tusb_time_millis_api_def differ
        assert_func_def cb_load32_def cb_store32_def intro!: story_rules split: option.split)
qed

lemma story_react_all: "recounts story s (usb_react_all X K evs) (returned_story K s)"
proof (induction evs arbitrary: s)
  case (Cons e evs)
  have more: "recounts story t (if b then usb_react_all X K evs else State_Monad.return False)
      (\<lambda>b' u ys. returned_story K s b' u (Callback e # hs @ ys))"
    if "acts hs = [] \<and> callbacks hs = [] \<and>
     (if b then e \<noteq> Assert_Func \<and> exit_codes hs = [] \<and> t = usb_eff K e s
      else e = Assert_Func \<and> (\<exists>r outs. hs = [In_Callback (Called ''REG32 ='' [Z (uint TEST_EXIT), Z 12] r outs)]))" for b t hs
  proof (cases b)
    case True
    have "caught (Callback e # hs @ ys)" if "caught ys" for ys
      using that \<open>acts hs = [] \<and> _\<close> True caught_append [of "Callback e # hs" ys] by auto
    with that True show ?thesis
      by (auto intro!: recounts_mono [OF Cons.IH] simp: returned_story_def quietly_def split: if_splits)
  next
    case False
    with that have "caught (Callback e # hs)"
      by (auto simp: caught_def intro: exI [of _ "[]"])
    with that False show ?thesis
      by (auto intro!: story_rules simp: returned_story_def)
  qed
  show ?case
    unfolding usb_react_all.simps
    by (intro recounts_bind story_basic recounts_mono [OF story_react]) (simp add: more)
qed (simp add: recounts_return returned_story_def quietly_def)

section \<open>What the steps of the program do\<close>

text \<open>
  \<open>goes s n M Q\<close>: \<open>M\<close> makes at most \<open>n\<close> acts; it is caught in \<open>__assert_func\<close> and has no result, or the library has not called that
  function and the result, the variables and the addition to the story satisfy \<open>Q\<close>.
\<close>

definition goes ::
  "tinyusb \<Rightarrow> nat \<Rightarrow> (tinyusb, usb_event, 'd, 'a option) app \<Rightarrow> ('a \<Rightarrow> tinyusb \<Rightarrow> usb_event entry list \<Rightarrow> bool) \<Rightarrow> bool" where
  "goes s n M Q \<longleftrightarrow> recounts story s M (\<lambda>r t xs. length (acts xs) \<le> n \<and>
     (case r of None \<Rightarrow> caught xs | Some a \<Rightarrow> Assert_Func \<notin> set (callbacks xs) \<and> Q a t xs))"

named_theorems usb_rules \<open>what the steps of the USB program do\<close>

lemma goes_mono: "goes s n M Q \<Longrightarrow> n \<le> k \<Longrightarrow> (\<And>a t xs. Q a t xs \<Longrightarrow> R a t xs) \<Longrightarrow> goes s k M R"
  unfolding goes_def by (erule recounts_mono) (auto split: option.splits)

lemma goes_proceed: "Q a s [] \<Longrightarrow> goes s n (proceed a) Q"
  by (simp add: goes_def proceed_def recounts_return)

text \<open>What comes behind a computation: more of the program, if no exit code was stored, or just a result.\<close>

lemma goes_and_then:
  assumes "goes s n M (\<lambda>a t xs. exit_codes xs = [] \<and> goes t k (f a) (\<lambda>b u ys. Q b u (xs @ ys)) \<or>
    (\<exists>b. f a = proceed b \<and> Q b t xs))"
  shows "goes s (n + k) (and_on M f) Q"
  unfolding goes_def and_on_def
proof (rule recounts_bind, rule recounts_mono [OF assms [unfolded goes_def]])
  fix r t xs
  assume r: "length (acts xs) \<le> n \<and> (case r of None \<Rightarrow> caught xs | Some a \<Rightarrow> Assert_Func \<notin> set (callbacks xs) \<and>
     (exit_codes xs = [] \<and> recounts story t (f a) (\<lambda>r t ys. length (acts ys) \<le> k \<and>
       (case r of None \<Rightarrow> caught ys | Some a \<Rightarrow> Assert_Func \<notin> set (callbacks ys) \<and> Q a t (xs @ ys))) \<or>
      (\<exists>b. f a = proceed b \<and> Q b t xs)))"
  show "recounts story t (case r of None \<Rightarrow> State_Monad.return None | Some a \<Rightarrow> f a)
     (\<lambda>r t ys. length (acts (xs @ ys)) \<le> n + k \<and>
       (case r of None \<Rightarrow> caught (xs @ ys) | Some a \<Rightarrow> Assert_Func \<notin> set (callbacks (xs @ ys)) \<and> Q a t (xs @ ys)))"
  proof (cases r)
    case None
    with r show ?thesis by (simp add: recounts_return)
  next
    case (Some a)
    with r show ?thesis
      by (auto elim!: recounts_mono intro: caught_append simp: proceed_def recounts_return split: option.splits)
  qed
qed

lemma goes_and_on:
  assumes "goes s n M (\<lambda>a t xs. exit_codes xs = [] \<and> goes t k (f a) (\<lambda>b u ys. Q b u (xs @ ys)))"
  shows "goes s (n + k) (and_on M f) Q"
  by (rule goes_and_then, rule goes_mono [OF assms]) auto

lemma goes_and_proceed:
  assumes "goes s n M (\<lambda>a t xs. Q (g a) t xs)"
  shows "goes s n (and_on M (\<lambda>a. proceed (g a))) Q"
proof -
  have "goes s (n + 0) (and_on M (\<lambda>a. proceed (g a))) Q"
    by (rule goes_and_then, rule goes_mono [OF assms]) auto
  then show ?thesis by simp
qed

lemma goes_if: "(b \<Longrightarrow> goes s n M Q) \<Longrightarrow> (\<not> b \<Longrightarrow> goes s n N Q) \<Longrightarrow> goes s n (if b then M else N) Q"
  by simp

lemma goes_live:
  assumes "\<And>hs. quietly hs \<Longrightarrow> recounts story (fold (usb_eff K) (callbacks hs) s) M
    (\<lambda>a t xs. length (acts xs) \<le> n \<and> callbacks xs = [] \<and> Q a t (hs @ xs))"
  shows "goes s n (live X K M) Q"
proof -
  let ?R = "\<lambda>r t xs. length (acts xs) \<le> n \<and>
     (case r of None \<Rightarrow> caught xs | Some a \<Rightarrow> Assert_Func \<notin> set (callbacks xs) \<and> Q a t xs)"
  have go: "recounts story t (M \<bind> (\<lambda>a. State_Monad.return (Some a))) (\<lambda>r t xs. ?R r t (hs @ xs))"
    if "quietly hs" "t = fold (usb_eff K) (callbacks hs) s" for t hs
    using assms [OF that(1)] that
    by (auto intro!: recounts_bind recounts_return elim!: recounts_mono simp: quietly_def)
  have "recounts story s (usb_react_all X K es) (\<lambda>b t hs. recounts story t
      (if b then M \<bind> (\<lambda>a. State_Monad.return (Some a)) else State_Monad.return None) (\<lambda>r t xs. ?R r t (hs @ xs)))" for es
  proof (rule recounts_mono [OF story_react_all])
    fix b t hs
    assume *: "returned_story K s b t hs"
    show "recounts story t (if b then M \<bind> (\<lambda>a. State_Monad.return (Some a)) else State_Monad.return None) (\<lambda>r t xs. ?R r t (hs @ xs))"
    proof (cases b)
      case True
      with * have "quietly hs" "t = fold (usb_eff K) (callbacks hs) s"
        by (simp_all add: returned_story_def)
      from go [OF this] True show ?thesis
        by (simp only: if_True)
    next
      case False
      with * show ?thesis
        by (simp add: returned_story_def recounts_return)
    qed
  qed
  then have "recounts story s (do { b \<leftarrow> usb_react_all X K es;
          if b then M \<bind> (\<lambda>a. State_Monad.return (Some a)) else State_Monad.return None }) ?R" for es
    by (rule recounts_bind)
  then have "recounts story s (State (\<lambda>w. case due X (stack w) of (es, d) \<Rightarrow> (es, w\<lparr>stack := d\<rparr>)))
      (\<lambda>es t xs. recounts story t (do { b \<leftarrow> usb_react_all X K es;
          if b then M \<bind> (\<lambda>a. State_Monad.return (Some a)) else State_Monad.return None }) (\<lambda>r t ys. ?R r t (xs @ ys)))"
    by (subst recounts_def) (simp split: prod.splits cong: option.case_cong)
  then show ?thesis
    unfolding goes_def live_def by (rule recounts_bind)
qed

lemma goes_call:
  assumes "\<And>r outs hs. quietly hs \<Longrightarrow> Q r (fold (usb_eff K) (callbacks hs) s) (hs @ [Main (Called f xs r outs)])"
  shows "goes s 1 (usb_call X K f xs) Q"
  unfolding usb_call_def by (intro goes_live story_rules) (simp add: assms)

lemma goes_look:
  assumes "\<And>hs. quietly hs \<Longrightarrow> Q (g (fold (usb_eff K) (callbacks hs) s)) (fold (usb_eff K) (callbacks hs) s) hs"
  shows "goes s 0 (usb_look X K g) Q"
  unfolding usb_look_def by (intro goes_live story_rules) (simp add: assms)

lemma goes_assign:
  assumes "\<And>hs. quietly hs \<Longrightarrow> Q () (h (fold (usb_eff K) (callbacks hs) s)) hs"
  shows "goes s 0 (usb_assign X K h) Q"
  unfolding usb_assign_def by (intro goes_live story_rules) (simp add: assms)

section \<open>The verdict\<close>

text \<open>
  The evidence behind success, in the order of the story: the attach event, a connection, the line accepted, the line flushed.
\<close>

definition answered :: "string \<Rightarrow> val list \<Rightarrow> (int \<Rightarrow> bool) \<Rightarrow> act \<Rightarrow> bool" where
  "answered f xs p a \<longleftrightarrow> (\<exists>r outs. a = Called f xs r outs \<and> p r)"

lemma answered_simps [simp]:
  "answered f xs p (Called g ys r outs) \<longleftrightarrow> g = f \<and> ys = xs \<and> p r" "\<not> answered f xs p (Said h ys)" "\<not> answered f xs p (Paused q)"
  by (auto simp: answered_def)

definition usb_evidence :: "(string \<Rightarrow> int) \<Rightarrow> (usb_event entry \<Rightarrow> bool) list" where
  "usb_evidence K =
     [heard (attached K),
      did (answered ''tud_cdc_n_connected'' [Z 0] (\<lambda>r. r \<noteq> 0)),
      did (answered ''tud_cdc_n_write'' [Z 0, Raw pass_line, Z 5] (\<lambda>r. r mod 2 ^ 32 = 5)),
      did (answered ''tud_cdc_n_write_flush'' [Z 0] (\<lambda>r. r mod 2 ^ 32 = 5))]"

text \<open>What holds at the head of the loop after the story \<open>V\<close>.\<close>

definition usb_ok :: "(string \<Rightarrow> int) \<Rightarrow> tinyusb \<Rightarrow> usb_event entry list \<Rightarrow> bool" where
  "usb_ok K s V \<longleftrightarrow>
     (mounted s \<longrightarrow> list_ex (attached K) (callbacks V)) \<and>
     (sent s \<longrightarrow> written s = 5 \<and> flushed s = 5 \<and> exhibits (usb_evidence K) V)"

lemma usb_ok_later: "usb_ok K s V \<Longrightarrow> usb_ok K (fold (usb_eff K) (callbacks hs) s) (V @ hs)"
  by (auto simp: usb_ok_def intro: exhibits_before)

lemma usb_ok_more: "usb_ok K s V \<Longrightarrow> usb_ok K s (V @ xs)"
  by (auto simp: usb_ok_def intro: exhibits_before)

lemma word_of_int_5: "word_of_int r = (5 :: u32) \<longleftrightarrow> r mod 2 ^ 32 = 5"
  by (subst word_uint_eq_iff) (simp add: uint_word_of_int)

lemma quietly_codes [simp]: "quietly hs \<Longrightarrow> exit_codes hs = []" "quietly hs \<Longrightarrow> acts hs = []"
  by (simp_all add: quietly_def)

lemma exhibits_quietly:
  assumes "quietly hs"
  shows "exhibits (did p # ps) (hs @ es) \<longleftrightarrow> exhibits (did p # ps) es"
proof -
  have "acts hs = []"
    using assms by simp
  then show ?thesis
  proof (induction hs)
    case (Cons h hs)
    then have "\<not> did p h" "acts hs = []"
      by (cases h; simp)+
    with Cons.IH [OF this(2)] show ?case
      by (simp only: append_Cons exhibits_greedy(2) not_False_eq_True)
  qed simp
qed

lemma goes_reg:
  "(\<And>v outs hs. quietly hs \<Longrightarrow>
     P (word_of_int v) (fold (usb_eff K) (callbacks hs) s) (hs @ [Main (Called ''REG32'' [Z (uint a)] v outs)])) \<Longrightarrow>
   goes s 1 (reg_load X K a) P"
  "(\<And>r outs hs. quietly hs \<Longrightarrow>
     Q () (fold (usb_eff K) (callbacks hs) s) (hs @ [Main (Called ''REG32 ='' [Z (uint a), Z (uint v)] r outs)])) \<Longrightarrow>
   goes s 1 (reg_store X K a v) Q"
  unfolding reg_load_def reg_store_def by (intro goes_and_proceed goes_call; simp)+

text \<open>Serving the controller keeps what holds at the head of the loop.\<close>

definition usb_step :: "(string \<Rightarrow> int) \<Rightarrow> usb_event entry list \<Rightarrow> tinyusb \<Rightarrow> usb_event entry list \<Rightarrow> bool" where
  "usb_step K V t xs \<longleftrightarrow> exit_codes xs = [] \<and> usb_ok K t (V @ xs)"

lemma goes_usb_serve:
  assumes "usb_ok K s V"
  shows "goes s 4 (usb_serve X K) (\<lambda>_ t xs. usb_step K V t xs)"
proof -
  have "goes s (1 + (1 + (1 + (1 + 0)))) (usb_serve X K) (\<lambda>_ t xs. usb_step K V t xs)"
    unfolding usb_serve_def
    by (intro goes_and_on goes_reg goes_if goes_call goes_proceed conjI; simp?)
      (use assms in \<open>auto simp: usb_step_def usb_ok_def intro: exhibits_before\<close>)
  then show ?thesis by (rule goes_mono) simp_all
qed

lemma goes_usb_send:
  assumes ok: "usb_ok K s V"
  shows "goes s 3 (usb_send X K) (\<lambda>_ t xs. usb_step K V t xs)"
proof -
  have earned: "exhibits (usb_evidence K) (V @ h1 @ (h2 @ [Main (Called ''tud_cdc_n_connected'' [Z 0] c o1)]) @
      (h3 @ [Main (Called ''tud_cdc_n_write'' [Z 0, Raw pass_line, Z 5] n o2)]) @ h4 @
      (h5 @ [Main (Called ''tud_cdc_n_write_flush'' [Z 0] k o3)]) @ h6)"
    if "mounted (fold (usb_eff K) (callbacks h1) s)" "c \<noteq> 0" "n mod 2 ^ 32 = 5" "k mod 2 ^ 32 = 5"
      "quietly h2" "quietly h3" "quietly h4" "quietly h5" for h1 h2 h3 h4 h5 h6 c n k o1 o2 o3
  proof -
    have "exhibits [heard (attached K)] (V @ h1)"
      using that(1) ok by (auto simp: exhibits_single usb_ok_def)
    moreover have "exhibits (tl (usb_evidence K)) ((h2 @ [Main (Called ''tud_cdc_n_connected'' [Z 0] c o1)]) @
      (h3 @ [Main (Called ''tud_cdc_n_write'' [Z 0, Raw pass_line, Z 5] n o2)]) @ h4 @
      (h5 @ [Main (Called ''tud_cdc_n_write_flush'' [Z 0] k o3)]) @ h6)"
      using that by (simp add: usb_evidence_def exhibits_quietly)
    ultimately show ?thesis
      using exhibits_append [of "[heard (attached K)]" "V @ h1" "tl (usb_evidence K)"] by (simp add: usb_evidence_def)
  qed
  have "goes s (0 + (1 + (1 + (0 + (1 + (0 + 0)))))) (usb_send X K) (\<lambda>_ t xs. usb_step K V t xs)"
    unfolding usb_send_def
    by (intro goes_and_on goes_reg goes_if goes_call goes_look goes_assign goes_proceed conjI; simp?)
      (use ok earned in \<open>auto simp: usb_step_def usb_ok_def word_of_int_5 intro: exhibits_before\<close>)
  then show ?thesis by (rule goes_mono) simp_all
qed

text \<open>The loop stores 0 and returns from the program, or stores nothing and is used up.\<close>

lemma goes_usb_loop:
  "usb_ok K s V \<Longrightarrow> goes s (8 * n) (usb_loop X K n after)
     (\<lambda>b t xs. if b then exit_codes xs = [0] \<and> exhibits (usb_evidence K) (V @ xs) else exit_codes xs = [])"
proof (induction n arbitrary: s V after)
  case (Suc n)
  let ?Q = "\<lambda>b xs. if b then exit_codes xs = [0] \<and> exhibits (usb_evidence K) (V @ xs) else exit_codes xs = []"
  have again: "goes t (8 * n + 1) (usb_loop X K n k) (\<lambda>b u zs. ?Q b (xs @ ys @ hs @ zs))"
    if "usb_ok K t (V @ xs @ ys @ hs)" "exit_codes (xs @ ys @ hs) = []" for t xs ys hs k
    by (rule goes_mono [OF Suc.IH [OF that(1)]]) (use that(2) in \<open>auto split: if_splits\<close>)
  have final: "goes t (8 * n + 1) (and_on (usb_look X K (\<lambda>s. if written s = 5 \<and> flushed s = 5 then 0
         else 20 + (written s AND 0xff) + push_bit 8 (flushed s AND 0xff))) (\<lambda>code.
       and_on (reg_store X K TEST_EXIT code) (\<lambda>_. proceed True))) (\<lambda>b u zs. ?Q b (xs @ ys @ hs @ zs))"
    if "usb_ok K t (V @ xs @ ys @ hs)" "sent t" "exit_codes (xs @ ys @ hs) = []" for t xs ys hs
  proof -
    have "exhibits (usb_evidence K) (V @ xs @ ys @ hs @ zs)" for zs
      using that(1,2) exhibits_before [of "usb_evidence K" "V @ xs @ ys @ hs" zs] by (simp add: usb_ok_def)
    moreover have "written t = 5" "flushed t = 5"
      using that(1,2) by (simp_all add: usb_ok_def)
    ultimately have "goes t (0 + 1) (and_on (usb_look X K (\<lambda>s. if written s = 5 \<and> flushed s = 5 then 0
         else 20 + (written s AND 0xff) + push_bit 8 (flushed s AND 0xff))) (\<lambda>code.
       and_on (reg_store X K TEST_EXIT code) (\<lambda>_. proceed True))) (\<lambda>b u zs. ?Q b (xs @ ys @ hs @ zs))"
      using that(3) by (intro goes_and_on goes_and_proceed goes_look goes_reg conjI) simp_all
    then show ?thesis by (rule goes_mono) simp_all
  qed
  have "goes s (4 + (3 + (0 + (8 * n + 1)))) (usb_loop X K (Suc n) after) (\<lambda>b t xs. ?Q b xs)"
    unfolding usb_loop.simps
  proof (intro goes_and_on, rule goes_mono [OF goes_usb_serve [OF Suc.prems]], simp, rule conjI)
    fix t xs
    assume xs: "usb_step K V t xs"
    then show "exit_codes xs = []" by (simp add: usb_step_def)
    from xs have ok: "usb_ok K t (V @ xs)" and none: "exit_codes xs = []" by (simp_all add: usb_step_def)
    show "goes t (3 + (0 + (8 * n + 1))) (and_on (usb_send X K) (\<lambda>_. and_on (usb_look X K sent) (\<lambda>is_sent.
       if \<not> is_sent then usb_loop X K n after else if after + 1 \<noteq> 4096 then usb_loop X K n (after + 1)
       else and_on (usb_look X K (\<lambda>s. if written s = 5 \<and> flushed s = 5 then 0
         else 20 + (written s AND 0xff) + push_bit 8 (flushed s AND 0xff))) (\<lambda>code.
         and_on (reg_store X K TEST_EXIT code) (\<lambda>_. proceed True))))) (\<lambda>b u ys. ?Q b (xs @ ys))"
    proof (intro goes_and_on, rule goes_mono [OF goes_usb_send [OF ok]], simp, rule conjI)
      fix u ys
      assume ys: "usb_step K (V @ xs) u ys"
      then show "exit_codes ys = []" by (simp add: usb_step_def)
      from ys none have ok': "usb_ok K u (V @ xs @ ys)" and none': "exit_codes (xs @ ys) = []" by (simp_all add: usb_step_def)
      have later: "usb_ok K (fold (usb_eff K) (callbacks hs) u) (V @ xs @ ys @ hs)" for hs
        using usb_ok_later [OF ok', of hs] by simp
      show "goes u (0 + (8 * n + 1)) (and_on (usb_look X K sent) (\<lambda>is_sent.
         if \<not> is_sent then usb_loop X K n after else if after + 1 \<noteq> 4096 then usb_loop X K n (after + 1)
         else and_on (usb_look X K (\<lambda>s. if written s = 5 \<and> flushed s = 5 then 0
           else 20 + (written s AND 0xff) + push_bit 8 (flushed s AND 0xff))) (\<lambda>code.
           and_on (reg_store X K TEST_EXIT code) (\<lambda>_. proceed True)))) (\<lambda>b u zs. ?Q b (xs @ ys @ zs))"
        using none' later by (intro goes_and_on goes_look conjI goes_if again final) simp_all
    qed
  qed
  then show ?case by (rule goes_mono) simp_all
qed (simp add: goes_proceed)

lemma goes_usb_install:
  "goes s 1 (usb_install X K) (\<lambda>r t xs. exit_codes xs = [] \<and> usb_ok K t xs \<and>
     list_ex (called ''tinyusb_driver_install'' (tinyusb_config K) r) (acts xs))"
proof -
  have "goes s (0 + (0 + (0 + (0 + (0 + 1))))) (usb_install X K) (\<lambda>r t xs. exit_codes xs = [] \<and> usb_ok K t xs \<and>
     list_ex (called ''tinyusb_driver_install'' (tinyusb_config K) r) (acts xs))"
    unfolding usb_install_def
    by (intro goes_and_on goes_assign goes_call conjI; simp?) (auto simp: usb_ok_def)
  then show ?thesis by (rule goes_mono) simp_all
qed

text \<open>Success is possible: on a host that attaches, connects and takes the line, the loop returns after 4096 iterations.\<close>

definition eager_host :: "(string \<Rightarrow> int) \<Rightarrow> (usb_event, unit) library" where
  "eager_host K = \<lparr>ask = (\<lambda>f xs d. ((if f = ''tud_cdc_n_write'' \<or> f = ''tud_cdc_n_write_flush'' then 5 else 1, []), d)),
     due = (\<lambda>d. ([Tinyusb_Event (K ''TINYUSB_EVENT_ATTACHED'')], d)), rest = (\<lambda>p d. d)\<rparr>"

lemma run_and_on:
  "run_state (and_on M f) w = (case run_state M w of (None, v) \<Rightarrow> (None, v) | (Some a, v) \<Rightarrow> run_state (f a) v)"
  by (simp add: and_on_def split: prod.split option.split)

lemma usb_loop_passes:
  "unat after < 4096 \<Longrightarrow> 4096 \<le> n + unat after \<Longrightarrow>
   fst (run_state (usb_loop (eager_host K) K n after) w) = Some True"
proof (induction n arbitrary: after w)
  case (Suc n)
  let ?X = "eager_host K"
  have [simp]: "run_state (live ?X K M) w = (case run_state M (w\<lparr>vars := (vars w)\<lparr>mounted := True\<rparr>,
      story := story w @ [Callback (Tinyusb_Event (K ''TINYUSB_EVENT_ATTACHED''))]\<rparr>) of (a, v) \<Rightarrow> (Some a, v))"
    for M :: "(tinyusb, usb_event, unit, 'x) app" and w
    by (cases w) (simp add: live_def eager_host_def tinyusb_event_def tell_def poke_def split: prod.split)
  have [simp]: "run_state (request ?X f xs) w = ((if f = ''tud_cdc_n_write'' \<or> f = ''tud_cdc_n_write_flush'' then 5 else 1, []), w)"
    for f xs and w :: "(tinyusb, usb_event, unit) site"
    by (simp add: request_def eager_host_def)
  note ops = usb_serve_def usb_send_def reg_load_def reg_store_def usb_call_def usb_look_def usb_assign_def run_and_on proceed_def
    peek_def poke_def tell_def
  obtain v where v: "run_state (and_on (usb_serve ?X K) (\<lambda>_. and_on (usb_send ?X K) (\<lambda>_. usb_look ?X K sent))) w = (Some True, v)"
    by (cases "sent (vars w)") (auto simp: ops)
  have step: "run_state (usb_loop ?X K (Suc n) after) w =
      (case run_state (and_on (usb_serve ?X K) (\<lambda>_. and_on (usb_send ?X K) (\<lambda>_. usb_look ?X K sent))) w of
         (None, v) \<Rightarrow> (None, v) | (Some b, v) \<Rightarrow>
         run_state (if \<not> b then usb_loop ?X K n after else if after + 1 \<noteq> 4096 then usb_loop ?X K n (after + 1)
           else and_on (usb_look ?X K (\<lambda>s. if written s = 5 \<and> flushed s = 5 then 0
             else 20 + (written s AND 0xff) + push_bit 8 (flushed s AND 0xff))) (\<lambda>code.
             and_on (reg_store ?X K TEST_EXIT code) (\<lambda>_. proceed True))) v)"
    by (simp add: run_and_on split: prod.split option.split)
  have "after + 1 \<noteq> 4096 \<Longrightarrow> unat (after + 1) = Suc (unat after) \<and> Suc (unat after) \<noteq> 4096"
    using Suc.prems(1) by (simp add: word_unat_eq_iff unat_word_ariths)
  then show ?case
    using Suc unfolding step v by (auto simp: ops)
qed simp

text \<open>C23.
  The USB qualification always stores one verdict, and success is earned.  Whatever the TinyUSB library and the controller
  do, the program makes at most 8000002 calls and register accesses, and exactly one code is stored in the exit register, by the program or
  by the functions the library calls.  Either an assertion of the library fails: then the program never goes on, the code is 12, and its store is the
  last thing that happens.  Or no assertion fails, the program returns, and the code is 10 after the driver was refused, 11 when it was
  installed and the iterations were used up, or 0; it is 0 only if the driver was installed and, in this order, the attach event arrived,
  the port was connected, all five bytes of the line were accepted, and they were flushed.  The code that reports a short write is never
  stored.
\<close>

theorem tinyusb_verdict:
  "\<exists>xs code. story (snd (run_state (usb_app_main X K) w)) = story w @ xs \<and> length (acts xs) \<le> 8000002 \<and> exit_codes xs = [code] \<and>
     (case fst (run_state (usb_app_main X K) w) of
        None \<Rightarrow> code = 12 \<and> (\<exists>ys r outs. Assert_Func \<notin> set (callbacks ys) \<and>
          xs = ys @ [Callback Assert_Func, In_Callback (Called ''REG32 ='' [Z (uint TEST_EXIT), Z 12] r outs)])
      | Some _ \<Rightarrow> Assert_Func \<notin> set (callbacks xs) \<and>
         (code = 10 \<and> list_ex (answered ''tinyusb_driver_install'' (tinyusb_config K) (\<lambda>r. r \<noteq> K ''ESP_OK'')) (acts xs) \<or>
          code = 11 \<and> list_ex (called ''tinyusb_driver_install'' (tinyusb_config K) (K ''ESP_OK'')) (acts xs) \<or>
          code = 0 \<and> list_ex (called ''tinyusb_driver_install'' (tinyusb_config K) (K ''ESP_OK'')) (acts xs) \<and>
            exhibits (usb_evidence K) xs))"
proof -
  let ?Q = "\<lambda>xs. \<exists>code. exit_codes xs = [code] \<and>
     (code = 10 \<and> list_ex (answered ''tinyusb_driver_install'' (tinyusb_config K) (\<lambda>r. r \<noteq> K ''ESP_OK'')) (acts xs) \<or>
      code = 11 \<and> list_ex (called ''tinyusb_driver_install'' (tinyusb_config K) (K ''ESP_OK'')) (acts xs) \<or>
      code = 0 \<and> list_ex (called ''tinyusb_driver_install'' (tinyusb_config K) (K ''ESP_OK'')) (acts xs) \<and>
        exhibits (usb_evidence K) xs)"
  have refused: "list_ex (answered f ys (\<lambda>r. r \<noteq> k)) as" if "list_ex (called f ys r) as" "r \<noteq> k" for f ys r k as
    using that by (auto simp: list_ex_iff called_def answered_def)
  have loop: "goes t (8000000 + 1) (and_on (usb_loop X K 1000000 0) (\<lambda>returned.
      if returned then proceed () else reg_store X K TEST_EXIT 11)) (\<lambda>_ u ys. ?Q (xs @ ys))"
    if "exit_codes xs = []" "usb_ok K t xs"
      "list_ex (called ''tinyusb_driver_install'' (tinyusb_config K) (K ''ESP_OK'')) (acts xs)" for t xs
  proof (rule goes_and_then, rule goes_mono [OF goes_usb_loop [OF that(2)]])
    fix b u ys
    assume "if b then exit_codes ys = [0] \<and> exhibits (usb_evidence K) (xs @ ys) else exit_codes ys = []"
    with that show "exit_codes ys = [] \<and> goes u 1 (if b then proceed () else reg_store X K TEST_EXIT 11) (\<lambda>_ u' zs. ?Q (xs @ ys @ zs)) \<or>
        (\<exists>c. (if b then proceed () else reg_store X K TEST_EXIT 11) = proceed c \<and> ?Q (xs @ ys))"
      by (cases b) (auto intro!: goes_reg [unfolded One_nat_def])
  qed simp
  have "goes (vars w) (1 + (8000000 + 1)) (usb_app_main X K) (\<lambda>_ t xs. ?Q xs)"
    unfolding usb_app_main_def
  proof (rule goes_and_on, rule goes_mono [OF goes_usb_install], simp, intro conjI goes_if)
    fix r t xs
    assume xs: "exit_codes xs = [] \<and> usb_ok K t xs \<and>
      list_ex (called ''tinyusb_driver_install'' (tinyusb_config K) r) (acts xs)"
    then show "exit_codes xs = []" by blast
    show "goes t (8000000 + 1) (reg_store X K TEST_EXIT 10) (\<lambda>_ u ys. ?Q (xs @ ys))" if "r \<noteq> K ''ESP_OK''"
      by (rule goes_mono [where n = 1], rule goes_reg) (use xs that refused in auto)
    show "goes t (8000000 + 1) (and_on (usb_loop X K 1000000 0) (\<lambda>returned.
        if returned then proceed () else reg_store X K TEST_EXIT 11)) (\<lambda>_ u ys. ?Q (xs @ ys))" if "\<not> r \<noteq> K ''ESP_OK''"
      using xs that by (intro loop) auto
  qed
  then obtain xs where xs: "story (snd (run_state (usb_app_main X K) w)) = story w @ xs" "length (acts xs) \<le> 8000002"
      "case fst (run_state (usb_app_main X K) w) of None \<Rightarrow> caught xs | Some _ \<Rightarrow> Assert_Func \<notin> set (callbacks xs) \<and> ?Q xs"
    unfolding goes_def recounts_def by (fastforce split: prod.splits)
  moreover have "caught xs \<Longrightarrow> exit_codes xs = [12]"
    by (auto simp: caught_def)
  ultimately show ?thesis
    by (cases "fst (run_state (usb_app_main X K) w)") (auto simp: caught_def)
qed

end
