(* ===== verification/Nanoc6.thy ===== *)
theory Nanoc6
  imports Vendor_App Corpus_Cases_0 Corpus_Cases_1 Corpus_Cases_2 Corpus_Cases_3 Corpus_Cases_4
    Corpus_Cases_5 Corpus_Cases_6 Corpus_Cases_7 Corpus_Cases_8 Corpus_Cases_9
begin

text \<open>
  The hardware reference (\<^verbatim>\<open>hardware/nanoc6/main/app_main.c\<close>): one corpus program of each kernel, run over and over on a
  real chip, with the results stored and printed.  What it prints is what the emulator is compared with.
\<close>

section \<open>The program\<close>

record nano =
  remu_hw_ready :: u32
  remu_hw_results :: "u32 list"

definition nano_statics :: nano where
  "nano_statics = \<lparr>remu_hw_ready = 0, remu_hw_results = replicate 40 0\<rparr>"

text \<open>The table of the cases, each with its name; \<open>junk\<close> is what uninitialised arrays hold.\<close>

definition CASES :: "(nat \<Rightarrow> u32) \<Rightarrow> (string \<times> case_program) list" where
  "CASES junk =
     [(''case_0000'', case_0000), (''case_0025'', case_0025), (''case_0050'', case_0050), (''case_0075'', case_0075),
      (''case_0100'', case_0100), (''case_0125'', case_0125), (''case_0150'', case_0150), (''case_0175'', case_0175),
      (''case_0200'', case_0200), (''case_0225'', case_0225), (''case_0250'', case_0250 junk),
      (''case_0275'', case_0275), (''case_0300'', case_0300 junk), (''case_0325'', case_0325),
      (''case_0350'', case_0350), (''case_0375'', case_0375), (''case_0400'', case_0400 junk),
      (''case_0425'', case_0425), (''case_0450'', case_0450), (''case_0475'', case_0475), (''case_0500'', case_0500),
      (''case_0525'', case_0525), (''case_0550'', case_0550), (''case_0575'', case_0575), (''case_0600'', case_0600),
      (''case_0625'', case_0625), (''case_0650'', case_0650), (''case_0675'', case_0675), (''case_0700'', case_0700),
      (''case_0725'', case_0725), (''case_0750'', case_0750 junk), (''case_0775'', case_0775),
      (''case_0800'', case_0800), (''case_0825'', case_0825), (''case_0850'', case_0850), (''case_0875'', case_0875),
      (''case_0900'', case_0900), (''case_0925'', case_0925), (''case_0950'', case_0950), (''case_0975'', case_0975)]"

text \<open>
  The application registers no callbacks.  \<open>P\<close> gives the macros of \<^verbatim>\<open>inttypes.h\<close> their value.
\<close>

definition nano_setting :: "(unit, 'd) library \<Rightarrow> (nano, unit, 'd) setting" where
  "nano_setting X = \<lparr>lib = X, react = (\<lambda>e. State_Monad.return ())\<rparr>"

text \<open>The loop over the table, from entry \<open>index\<close> on.\<close>

fun run_cases ::
  "(nano, unit, 'd) setting \<Rightarrow> (string \<Rightarrow> string) \<Rightarrow> nat \<Rightarrow> (string \<times> case_program) list \<Rightarrow> (nano, unit, 'd, unit) app" where
  "run_cases E P index [] = State_Monad.return ()"
| "run_cases E P index ((name, c) # cs) = do {
     let result = remu_case plain_build c;
     assign E (remu_hw_results_update (\<lambda>rs. rs[index := result]));
     print E (ln (''REMU_HW %s %08'' @ P ''PRIx32'')) [Str name, Z (uint result)];
     run_cases E P (Suc index) cs }"

text \<open>One turn of the endless loop, and \<open>n\<close> turns after \<open>run\<close> turns.\<close>

definition nano_turn ::
  "(nano, unit, 'd) setting \<Rightarrow> (string \<Rightarrow> string) \<Rightarrow> (nat \<Rightarrow> u32) \<Rightarrow> u32 \<Rightarrow> (nano, unit, 'd, u32) app" where
  "nano_turn E P junk run = do {
     let run = run + 1;
     print E (ln (''REMU_HW_BEGIN %'' @ P ''PRIu32'' @ '' %zu'')) [Z (uint run), Z (int (length (CASES junk)))];
     run_cases E P 0 (CASES junk);
     assign E (remu_hw_ready_update (\<lambda>_. 0x52454e56));
     print E (ln (''REMU_HW_END %'' @ P ''PRIu32'')) [Z (uint run)];
     vTaskDelay E (Millis 2000);
     State_Monad.return run }"

primrec nano_turns ::
  "(nano, unit, 'd) setting \<Rightarrow> (string \<Rightarrow> string) \<Rightarrow> (nat \<Rightarrow> u32) \<Rightarrow> nat \<Rightarrow> u32 \<Rightarrow> (nano, unit, 'd, u32) app" where
  "nano_turns E P junk 0 run = State_Monad.return run"
| "nano_turns E P junk (Suc n) run = do { run \<leftarrow> nano_turn E P junk run; nano_turns E P junk n run }"

text \<open>\<open>app_main\<close> up to the end of turn \<open>n\<close>\<close>

definition nano_app_main ::
  "(unit, 'd) library \<Rightarrow> (string \<Rightarrow> string) \<Rightarrow> (nat \<Rightarrow> u32) \<Rightarrow> nat \<Rightarrow> (nano, unit, 'd, u32) app" where
  "nano_app_main X P junk n = (let E = nano_setting X in do {
     _ \<leftarrow> call E ''setvbuf'' [Str ''stdout'', Str ''_IONBF'', Z 0];
     nano_turns E P junk n 0 })"

interpretation nano: vendor_app "nano_setting X" "\<lambda>e s. s"
  by unfold_locales (simp add: nano_setting_def tells_return)

section \<open>What it reports\<close>

text \<open>The predictions of the kernels of the table.\<close>

definition nano_predictions :: "(u32 list \<Rightarrow> u32) list" where
  "nano_predictions =
     [crc32_prediction 4, crc16_prediction 4, fletcher32_prediction 4, adler32_prediction 4, fnv1a_prediction 4,
      popcount_prediction 4, parity_prediction 4, reverse_rotate_prediction 0 1, \<lambda>input. input ! 0,
      field_pack_prediction, sort_prediction 4,
      \<lambda>_. search_prediction [0x00000000, 0x03e42ba7, 0x1f472e25, 0xa5f4a1c3] 0x00000000, ring_prediction 5 12,
      histogram_prediction 4, matrix3_prediction, endian_prediction 0, move_prediction 0 5 4, dense_switch_prediction,
      sparse_switch_prediction, protocol_prediction 4, short_circuit_prediction 0, nested_break_prediction 3 0,
      eight_arguments_prediction, struct_by_value_prediction, struct_return_prediction, function_pointer_prediction 0,
      \<lambda>_. gcd_prediction 1 18763, deadline_prediction, debounce_prediction 4 2, uart_frame_prediction 0,
      cobs_prediction 4, spi_prediction False, crc8_prediction 4, saturating_prediction,
      multiply_accumulate_prediction 4, \<lambda>_. sqrt_prediction 0x00000000, division_prediction,
      multiply_prediction, fir_prediction 4, median_prediction 0]"

lemma nano_conforms: "list_all2 (\<lambda>(name, c). conforms c) (CASES junk) nano_predictions"
  by (simp add: CASES_def nano_predictions_def del: One_nat_def add:
      conforms_0000 conforms_0025 conforms_0050 conforms_0075 conforms_0100 conforms_0125 conforms_0150 conforms_0175
      conforms_0200 conforms_0225 conforms_0250 conforms_0275 conforms_0300 conforms_0325 conforms_0350 conforms_0375
      conforms_0400 conforms_0425 conforms_0450 conforms_0475 conforms_0500 conforms_0525 conforms_0550 conforms_0575
      conforms_0600 conforms_0625 conforms_0650 conforms_0675 conforms_0700 conforms_0725 conforms_0750 conforms_0775
      conforms_0800 conforms_0825 conforms_0850 conforms_0875 conforms_0900 conforms_0925 conforms_0950 conforms_0975)

definition expected_digests :: "(nat \<Rightarrow> u32) \<Rightarrow> u32 list" where
  "expected_digests junk = map2 (\<lambda>(name, c) prediction. reference_case (prediction (case_input c)) c) (CASES junk) nano_predictions"

lemma nano_digests: "map (\<lambda>(name, c). remu_case plain_build c) (CASES junk) = expected_digests junk"
proof -
  have "map (\<lambda>(name, c). remu_case plain_build c) cs =
      map2 (\<lambda>(name, c) prediction. reference_case (prediction (case_input c)) c) cs ps"
    if "list_all2 (\<lambda>(name, c). conforms c) cs ps" for cs :: "(string \<times> case_program) list" and ps
    using that by (induction rule: list_all2_induct) (auto simp: conforms_whole_program)
  then show ?thesis
    using nano_conforms by (simp add: expected_digests_def)
qed

lemma length_CASES [simp]: "length (CASES junk) = 40"
  by (simp add: CASES_def)

text \<open>The lines of turn \<open>run\<close>.\<close>

definition report_line :: "(string \<Rightarrow> string) \<Rightarrow> string \<Rightarrow> u32 \<Rightarrow> act" where
  "report_line P name v = Said (ln (''REMU_HW %s %08'' @ P ''PRIx32'')) [Str name, Z (uint v)]"

definition nano_report :: "(string \<Rightarrow> string) \<Rightarrow> (nat \<Rightarrow> u32) \<Rightarrow> u32 \<Rightarrow> act list" where
  "nano_report P junk run =
     Said (ln (''REMU_HW_BEGIN %'' @ P ''PRIu32'' @ '' %zu'')) [Z (uint run), Z 40] #
     map2 (report_line P) (map fst (CASES junk)) (expected_digests junk) @
     [Said (ln (''REMU_HW_END %'' @ P ''PRIu32'')) [Z (uint run)], Paused (Millis 2000)]"

lemma fold_ignored [simp]: "fold (\<lambda>e s. s) es s = s"
  by (induction es) simp_all

lemma tells_run_cases:
  "i + length cs = length (remu_hw_results s) \<Longrightarrow> tells s (run_cases (nano_setting X) P i cs) (\<lambda>r t as es.
     t = s\<lparr>remu_hw_results := take i (remu_hw_results s) @ map (\<lambda>(name, c). remu_case plain_build c) cs\<rparr> \<and>
     as = map (\<lambda>(name, c). report_line P name (remu_case plain_build c)) cs)"
proof (induction cs arbitrary: i s)
  case (Cons a cs)
  obtain name c where a: "a = (name, c)" by fastforce
  let ?d = "remu_case plain_build c"
  let ?s = "remu_hw_results_update (\<lambda>rs. rs[i := ?d]) s"
  have "tells ?s (run_cases (nano_setting X) P (Suc i) cs) (\<lambda>r t as es.
      t = s\<lparr>remu_hw_results := take i (remu_hw_results s) @ ?d # map (\<lambda>(name, c). remu_case plain_build c) cs\<rparr> \<and>
      as = map (\<lambda>(name, c). report_line P name (remu_case plain_build c)) cs)"
    by (rule tells_mono [OF Cons.IH]) (use Cons.prems in \<open>auto simp: take_Suc_conv_app_nth\<close>)
  note more = tells_mono [OF this]
  show ?case
    unfolding a run_cases.simps Let_def 
    by (intro tells_bind nano.tells_ops; simp only: fold_ignored; rule more) (simp add: report_line_def [of P name])
qed (simp add: tells_return)

lemma tells_nano_turn:
  assumes "length (remu_hw_results s) = 40"
  shows "tells s (nano_turn (nano_setting X) P junk run) (\<lambda>r t as es.
    r = run + 1 \<and> t = \<lparr>remu_hw_ready = 0x52454e56, remu_hw_results = expected_digests junk\<rparr> \<and> as = nano_report P junk (run + 1))"
proof -
  have "map (\<lambda>(name, c). report_line P name (remu_case plain_build c)) (CASES junk) =
      map2 (report_line P) (map fst (CASES junk)) (expected_digests junk)"
    unfolding nano_digests [symmetric] by (simp add: zip_map_map zip_same_conv_map map2_map_map case_prod_beta)
  note lines = this
  note cases = tells_mono [OF tells_run_cases [of 0 "CASES junk" s X P, unfolded lines nano_digests]]
  show ?thesis
    unfolding nano_turn_def Let_def
    by (intro tells_bind nano.tells_ops tells_return; (simp only: fold_ignored)?; (rule cases)?)
      (use assms in \<open>auto simp: nano_report_def intro!: tell_rules\<close>)
qed

lemma tells_nano_turns:
  "length (remu_hw_results s) = 40 \<Longrightarrow> tells s (nano_turns (nano_setting X) P junk n run) (\<lambda>r t as es.
     r = run + of_nat n \<and> as = concat (map (\<lambda>k. nano_report P junk (run + of_nat (Suc k))) [0..<n]) \<and>
     t = (if n = 0 then s else \<lparr>remu_hw_ready = 0x52454e56, remu_hw_results = expected_digests junk\<rparr>))"
proof (induction n arbitrary: s run)
  case (Suc n)
  have len: "length (expected_digests junk) = 40"
    unfolding nano_digests [symmetric] by simp
  have "map (\<lambda>k. nano_report P junk (run + of_nat (Suc k))) [0..<Suc n] =
      nano_report P junk (run + 1) # map (\<lambda>k. nano_report P junk (run + 1 + of_nat (Suc k))) [0..<n]"
    by (simp add: map_upt_Suc add.assoc del: upt_Suc)
  note later = this
  have "tells \<lparr>remu_hw_ready = 0x52454e56, remu_hw_results = expected_digests junk\<rparr>
      (nano_turns (nano_setting X) P junk n (run + 1)) (\<lambda>r t as es.
        r = run + of_nat (Suc n) \<and>
        nano_report P junk (run + 1) @ as = concat (map (\<lambda>k. nano_report P junk (run + of_nat (Suc k))) [0..<Suc n]) \<and>
        t = \<lparr>remu_hw_ready = 0x52454e56, remu_hw_results = expected_digests junk\<rparr>)"
    unfolding later by (rule tells_mono [OF Suc.IH]) (auto simp: len split: if_splits)
  note more = tells_mono [OF this]
  show ?case
    unfolding nano_turns.simps
    by (rule tells_bind, rule tells_mono [OF tells_nano_turn [OF Suc.prems]]) (auto intro!: more simp del: upt_Suc)
qed (simp add: tells_return)

text \<open>C24.
  The hardware reference prints the predicted digests.  After any number of turns of its endless loop, whatever uninitialised
  arrays hold, it has printed turn by turn the begin line, for each of its forty cases the name and the digest
  that the generator's reference semantics predicts, and the end line; and after a turn the result array holds these digests.
\<close>

theorem nano_reports_predictions:
  "case run_state (nano_app_main X P junk n) \<lparr>vars = nano_statics, stack = d, story = []\<rparr> of (run, w') \<Rightarrow>
     run = of_nat n \<and>
     (\<exists>a. acts (story w') = a # concat (map (\<lambda>k. nano_report P junk (of_nat (Suc k))) [0..<n])) \<and>
     remu_hw_results (vars w') = (if n = 0 then replicate 40 0 else expected_digests junk)"
proof -
  have "tells nano_statics (nano_app_main X P junk n) (\<lambda>r t as es.
      r = of_nat n \<and> (\<exists>a. as = a # concat (map (\<lambda>k. nano_report P junk (of_nat (Suc k))) [0..<n])) \<and>
      remu_hw_results t = (if n = 0 then replicate 40 0 else expected_digests junk))"
    unfolding nano_app_main_def Let_def
    by (intro tells_bind nano.tells_ops, simp only: fold_ignored, rule tells_mono [OF tells_nano_turns])
      (auto simp: nano_statics_def)
  moreover obtain run w' where run: "run_state (nano_app_main X P junk n) \<lparr>vars = nano_statics, stack = d, story = []\<rparr> = (run, w')"
    by fastforce
  ultimately have "run = of_nat n \<and> (\<exists>a. acts (story w') = a # concat (map (\<lambda>k. nano_report P junk (of_nat (Suc k))) [0..<n])) \<and>
      remu_hw_results (vars w') = (if n = 0 then replicate 40 0 else expected_digests junk)"
    by (rule tells_run) simp_all
  with run show ?thesis
    by (simp only: prod.case)
qed

end
