(* ===== verification/Adapters.thy ===== *)
theory Adapters
  imports Smoke Evidence
begin

text \<open>
  The stand-ins for vendor SDK functions (\<^verbatim>\<open>corpus/vendor/*/compat.c\<close>, \<^verbatim>\<open>qualification/*/*/adapter.c\<close>): the functions
  that the vendors' example programs call, written on the registers of the chip.  They are programs in the state monad over the
  chip and the journal of the smoke programs, without interrupts.  A C string is the list of its bytes before the
  terminator; an operation that C leaves undefined gives \<open>None\<close>.
\<close>

section \<open>Register accesses\<close>

type_synonym ('d, 'a) driver = "('d bench, 'a) state"

definition get :: "'d chip \<Rightarrow> reg \<Rightarrow> ('d, u32) driver" where
  "get C r = State (load C (\<lambda>n. []) r)"

definition put :: "'d chip \<Rightarrow> reg \<Rightarrow> u32 \<Rightarrow> ('d, unit) driver" where
  "put C r v = State (\<lambda>w. ((), store C (\<lambda>n. []) r v w))"

definition modify :: "'d chip \<Rightarrow> reg \<Rightarrow> (u32 \<Rightarrow> u32) \<Rightarrow> ('d, unit) driver" where
  "modify C r f = do { v \<leftarrow> get C r; put C r (f v) }"

interpretation bus: logbook did .

lemma leaves_get: "(\<And>v. Q v [Ld r v]) \<Longrightarrow> bus.leaves (get C r) Q"
  by (simp add: bus.leaves_def get_def)

lemma leaves_put: "Q () [St r (clip r v)] \<Longrightarrow> bus.leaves (put C r v) Q"
  by (simp add: bus.leaves_def put_def)

lemma leaves_modify: "(\<And>v. Q () [Ld r v, St r (clip r (f v))]) \<Longrightarrow> bus.leaves (modify C r f) Q"
  unfolding modify_def by (intro bus.leaves_rules leaves_get leaves_put) simp

lemmas bus_rules = bus.leaves_rules leaves_get leaves_put leaves_modify

definition TEST_EXIT :: reg where "TEST_EXIT = R32 0xfffffff0"

section \<open>Raspberry Pi Pico SDK\<close>

definition pico_gpio_set_dir :: "'d chip \<Rightarrow> u32 \<Rightarrow> bool \<Rightarrow> ('d, unit) driver" where
  "pico_gpio_set_dir C pin out = put C (R32 (if out then 0xd0000024 else 0xd0000028)) (shl 1 (unat pin))"

definition pico_gpio_put :: "'d chip \<Rightarrow> u32 \<Rightarrow> bool \<Rightarrow> ('d, unit) driver" where
  "pico_gpio_put C pin level = put C (R32 (if level then 0xd0000014 else 0xd0000018)) (shl 1 (unat pin))"

definition pico_gpio_set_function :: "'d chip \<Rightarrow> u32 \<Rightarrow> u32 \<Rightarrow> ('d, unit) driver" where
  "pico_gpio_set_function C pin func = put C (R32 (0x40014004 + pin * 8)) func"

text \<open>\<open>sleeps\<close> is the static counter, returned updated.\<close>

definition pico_sleep_ms :: "'d chip \<Rightarrow> u32 \<Rightarrow> ('d, u32) driver" where
  "pico_sleep_ms C sleeps = do {
     (if sleeps + 1 = 3 then put C TEST_EXIT 0 else State_Monad.return ());
     State_Monad.return (sleeps + 1) }"

definition pico_uart_putc_raw :: "'d chip \<Rightarrow> u32 \<Rightarrow> u8 \<Rightarrow> ('d, unit) driver" where
  "pico_uart_putc_raw C base c = put C (R32 base) (to_u32 c)"

definition pico_uart_putc :: "'d chip \<Rightarrow> u32 \<Rightarrow> u8 \<Rightarrow> ('d, unit) driver" where
  "pico_uart_putc C base c = do {
     (if c = 0x0a then pico_uart_putc_raw C base 0x0d else State_Monad.return ());
     pico_uart_putc_raw C base c }"

fun pico_uart_puts :: "'d chip \<Rightarrow> u32 \<Rightarrow> bytes \<Rightarrow> ('d, unit) driver" where
  "pico_uart_puts C base [] = State_Monad.return ()"
| "pico_uart_puts C base (c # s) = do { pico_uart_putc C base c; pico_uart_puts C base s }"

definition pwm_gpio_to_slice_num :: "u32 \<Rightarrow> u32" where
  "pwm_gpio_to_slice_num gpio = gpio div 2"

definition pwm_set_wrap :: "'d chip \<Rightarrow> u32 \<Rightarrow> u16 \<Rightarrow> ('d, unit) driver" where
  "pwm_set_wrap C num wrap = put C (R32 (0x40050000 + num * 0x14 + 0x10)) (to_u32 wrap)"

definition pwm_level :: "bool \<Rightarrow> u16 \<Rightarrow> u32 \<Rightarrow> u32" where
  "pwm_level channel_a level current =
     (if channel_a then (current AND 0xffff0000) OR to_u32 level
      else (current AND 0x0000ffff) OR shl (to_u32 level) 16)"

definition pwm_set_chan_level :: "'d chip \<Rightarrow> u32 \<Rightarrow> bool \<Rightarrow> u16 \<Rightarrow> ('d, unit) driver" where
  "pwm_set_chan_level C num channel_a level =
     modify C (R32 (0x40050000 + num * 0x14 + 0x0c)) (pwm_level channel_a level)"

definition pwm_set_enabled :: "'d chip \<Rightarrow> u32 \<Rightarrow> bool \<Rightarrow> ('d, unit) driver" where
  "pwm_set_enabled C num enabled = put C (R32 0x400500a0) (if enabled then shl 1 (unat num) else 0)"

text \<open>The second core: the words of the launch sequence go out one by one, each echo is drained, and one more at the end.\<close>

definition SIO_FIFO_ST :: reg where "SIO_FIFO_ST = R32 0xd0000050"
definition SIO_FIFO_WR :: reg where "SIO_FIFO_WR = R32 0xd0000054"
definition SIO_FIFO_RD :: reg where "SIO_FIFO_RD = R32 0xd0000058"

definition launch_sequence :: "u32 \<Rightarrow> u32 list" where
  "launch_sequence start = [0, 0, 1, 0x10000000, 0x20040000, start]"

fun launch_words :: "'d chip \<Rightarrow> u32 list \<Rightarrow> ('d, unit) driver" where
  "launch_words C [] = State_Monad.return ()"
| "launch_words C (v # vs) = do { put C SIO_FIFO_WR v; _ \<leftarrow> get C SIO_FIFO_RD; launch_words C vs }"

definition multicore_launch_core1 :: "'d chip \<Rightarrow> u32 \<Rightarrow> ('d, unit) driver" where
  "multicore_launch_core1 C start = do {
     launch_words C (launch_sequence start);
     _ \<leftarrow> get C SIO_FIFO_RD;
     State_Monad.return () }"

definition multicore_fifo_push_blocking :: "'d chip \<Rightarrow> u32 \<Rightarrow> ('d, unit) driver" where
  "multicore_fifo_push_blocking C v = put C SIO_FIFO_WR v"

text \<open>The pop polls at most \<open>n\<close> times; \<open>None\<close> when the status bit has not come up.\<close>

primrec multicore_fifo_pop_blocking :: "'d chip \<Rightarrow> nat \<Rightarrow> ('d, u32 option) driver" where
  "multicore_fifo_pop_blocking C 0 = State_Monad.return None"
| "multicore_fifo_pop_blocking C (Suc n) = do {
     status \<leftarrow> get C SIO_FIFO_ST;
     if status AND 1 = 0 then multicore_fifo_pop_blocking C n
     else do { v \<leftarrow> get C SIO_FIFO_RD; State_Monad.return (Some v) } }"

fun multicore_printf :: "'d chip \<Rightarrow> bytes \<Rightarrow> ('d, int) driver" where
  "multicore_printf C [] = State_Monad.return 0"
| "multicore_printf C (c # format) = do { put C (R32 0x40034000) (to_u32 c); multicore_printf C format }"

text \<open>What goes over the serial line: a carriage return before every line feed, nothing else added.\<close>

definition with_cr :: "bytes \<Rightarrow> bytes" where
  "with_cr s = concat (map (\<lambda>c. if c = 0x0a then [0x0d, c] else [c]) s)"

lemma pico_puts_text: "bus.leaves (pico_uart_puts C base s) (\<lambda>r es. es = map (\<lambda>c. St (R32 base) (to_u32 c)) (with_cr s))"
proof (induction s)
  case (Cons c s)
  have "bus.leaves (pico_uart_putc C base c) (\<lambda>r es. es = map (\<lambda>c. St (R32 base) (to_u32 c)) (with_cr [c]))"
    unfolding pico_uart_putc_def pico_uart_putc_raw_def by (intro bus_rules) (simp_all add: with_cr_def)
  note first = bus.leaves_mono [OF this]
  show ?case
    unfolding pico_uart_puts.simps
    by (rule bus.leaves_bind, rule first, rule bus.leaves_mono [OF Cons.IH]) (simp add: with_cr_def)
qed (simp add: bus.leaves_return with_cr_def)

text \<open>A channel level changes its half of the register and keeps the other channel's.\<close>

lemma pwm_level_halves:
  "(pwm_level True level v AND 0xffff = to_u32 level \<and> shr (pwm_level True level v) 16 = shr v 16) \<and>
   (pwm_level False level v AND 0xffff = v AND 0xffff \<and> shr (pwm_level False level v) 16 = to_u32 level)"
proof -
  have masks: "0xffff = (mask 16 :: u32)" "0xffff0000 = (shl (mask 16) 16 :: u32)" by (simp_all add: mask_eq_exp_minus_1)
  show ?thesis
    unfolding pwm_level_def masks
    by (intro conjI bit_word_eqI; auto simp: bit_simps dest: bit_imp_le_length)
qed

lemma launch_trace:
  "bus.leaves (multicore_launch_core1 C start) (\<lambda>r es. \<exists>us u. length us = 6 \<and>
     es = concat (map2 (\<lambda>v u. [St SIO_FIFO_WR v, Ld SIO_FIFO_RD u]) (launch_sequence start) us) @ [Ld SIO_FIFO_RD u])"
proof -
  have words: "bus.leaves (launch_words C vs) (\<lambda>r es. \<exists>us. length us = length vs \<and>
      es = concat (map2 (\<lambda>v u. [St SIO_FIFO_WR v, Ld SIO_FIFO_RD u]) vs us))" for vs
  proof (induction vs)
    case (Cons v vs)
    show ?case
      unfolding launch_words.simps
    proof (intro bus_rules, rule bus.leaves_mono [OF Cons.IH], elim exE)
      fix u a es us
      assume "length us = length vs \<and> es = concat (map2 (\<lambda>v u. [St SIO_FIFO_WR v, Ld SIO_FIFO_RD u]) vs us)"
      then show "\<exists>us. length us = length (v # vs) \<and> [St SIO_FIFO_WR (clip SIO_FIFO_WR v)] @ [Ld SIO_FIFO_RD u] @ es =
          concat (map2 (\<lambda>v u. [St SIO_FIFO_WR v, Ld SIO_FIFO_RD u]) (v # vs) us)"
        by (intro exI [of _ "u # us"]) (simp add: SIO_FIFO_WR_def)
    qed
  qed (simp add: bus.leaves_return)
  have six: "length (launch_sequence start) = 6"
    by (simp add: launch_sequence_def)
  show ?thesis
    unfolding multicore_launch_core1_def
    by (rule bus.leaves_bind, rule bus.leaves_mono [OF words], intro bus_rules) (auto simp: six)
qed

section \<open>Renesas FSP\<close>

definition FSP_SUCCESS :: int where "FSP_SUCCESS = 0"

definition R_GPT_Open :: "'d chip \<Rightarrow> ('d, int) driver" where
  "R_GPT_Open C = do {
     put C (R32 0x40078064) 7;
     put C (R32 0x40078038) (shl 1 6);
     State_Monad.return FSP_SUCCESS }"

definition R_GPT_Start :: "'d chip \<Rightarrow> ('d, int) driver" where
  "R_GPT_Start C = do { put C (R32 0x4007802c) 1; State_Monad.return FSP_SUCCESS }"

definition R_GPT_Close :: "'d chip \<Rightarrow> ('d, int) driver" where
  "R_GPT_Close C = do { put C (R32 0x4007802c) 0; State_Monad.return FSP_SUCCESS }"

record timer_info =
  count_direction :: int
  period_counts :: u32
  clock_frequency :: u32

definition R_GPT_InfoGet :: "timer_info \<Rightarrow> int \<times> timer_info" where
  "R_GPT_InfoGet info = (FSP_SUCCESS, info\<lparr>period_counts := 8\<rparr>)"

definition R_SCI_UART_Open :: "'d chip \<Rightarrow> ('d, int) driver" where
  "R_SCI_UART_Open C = do { put C (R8 0x40070122) (shl 1 5); State_Monad.return FSP_SUCCESS }"

fun sci_bytes :: "'d chip \<Rightarrow> bytes \<Rightarrow> ('d, unit) driver" where
  "sci_bytes C [] = State_Monad.return ()"
| "sci_bytes C (b # bs) = do { put C (R8 0x40070123) (to_u32 b); sci_bytes C bs }"

text \<open>\<open>callback\<close> is the example's \<open>user_uart_callback\<close> with the event and the data of its argument.\<close>

definition R_SCI_UART_Write :: "'d chip \<Rightarrow> (u32 \<Rightarrow> u32 \<Rightarrow> ('d, unit) driver) \<Rightarrow> bytes \<Rightarrow> ('d, int) driver" where
  "R_SCI_UART_Write C callback bytes = do {
     sci_bytes C bytes;
     callback 1 0;
     State_Monad.return FSP_SUCCESS }"

text \<open>\<open>atoi\<close>: \<open>None\<close> where the signed arithmetic overflows.\<close>

fun atoi_from :: "int \<Rightarrow> bytes \<Rightarrow> int option" where
  "atoi_from v [] = Some v"
| "atoi_from v (c # text) =
     (if \<not> (48 \<le> c \<and> c \<le> 57) then Some v
      else if v * 10 + uint c \<ge> 2 ^ 31 then None
      else atoi_from (v * 10 + uint c - 48) text)"

definition atoi :: "bytes \<Rightarrow> int option" where
  "atoi text = atoi_from 0 text"

section \<open>STM32 HAL\<close>

text \<open>A port is its base address; \<open>MODER\<close> is its first register, \<open>ODR\<close> the sixth and \<open>BSRR\<close> the seventh.\<close>

definition HAL_OK :: int where "HAL_OK = 0"

definition HAL_RCC_OscConfig :: int where "HAL_RCC_OscConfig = HAL_OK"

definition HAL_RCC_ClockConfig :: int where "HAL_RCC_ClockConfig = HAL_OK"

definition hal_pin_mode :: "nat \<Rightarrow> u32 \<Rightarrow> u32" where
  "hal_pin_mode pin v = (v AND NOT (shl 3 (pin * 2))) OR shl 1 (pin * 2)"

fun hal_pins :: "'d chip \<Rightarrow> u32 \<Rightarrow> u32 \<Rightarrow> nat list \<Rightarrow> ('d, unit) driver" where
  "hal_pins C port pins [] = State_Monad.return ()"
| "hal_pins C port pins (pin # rest) = do {
     (if pins AND shl 1 pin \<noteq> 0 then modify C (R32 port) (hal_pin_mode pin) else State_Monad.return ());
     hal_pins C port pins rest }"

definition HAL_GPIO_Init :: "'d chip \<Rightarrow> u32 \<Rightarrow> u32 \<Rightarrow> ('d, unit) driver" where
  "HAL_GPIO_Init C port pins = hal_pins C port pins [0..<16]"

definition HAL_GPIO_TogglePin :: "'d chip \<Rightarrow> u32 \<Rightarrow> u32 \<Rightarrow> ('d, unit) driver" where
  "HAL_GPIO_TogglePin C port pin = do {
     odr \<leftarrow> get C (R32 (port + 20));
     put C (R32 (port + 24)) (if odr AND pin \<noteq> 0 then shl pin 16 else pin) }"

section \<open>Microchip Harmony\<close>

definition SYS_Initialize :: "'d chip \<Rightarrow> ('d, unit) driver" where
  "SYS_Initialize C = put C (R32 0x41004408) (shl 1 7)"

definition remu_switch_get :: "'d chip \<Rightarrow> ('d, u32) driver" where
  "remu_switch_get C = do { v \<leftarrow> get C (R32 0x41004420); State_Monad.return (shr v 3 AND 1) }"

definition remu_led_clear :: "'d chip \<Rightarrow> ('d, unit) driver" where
  "remu_led_clear C = put C (R32 0x41004414) (shl 1 7)"

definition remu_led_set :: "'d chip \<Rightarrow> ('d, unit) driver" where
  "remu_led_set C = put C (R32 0x41004418) (shl 1 7)"

section \<open>What they do\<close>

text \<open>\<open>atoi\<close> reads back the decimal numerals of the numbers below \<open>2\<^sup>31 - 48\<close>: the last intermediate sum is 48 higher.\<close>

lemma atoi_digit:
  assumes "d < 10" "v * 10 + int d + 48 < 2 ^ 31"
  shows "atoi_from v ((48 + of_nat d) # cs) = atoi_from (v * 10 + int d) cs"
proof -
  have "unat (48 + of_nat d :: u8) = 48 + d"
    using assms(1) by (simp add: unat_word_ariths unsigned_of_nat take_bit_nat_eq_self)
  then have "uint (48 + of_nat d :: u8) = 48 + int d" "48 \<le> (48 + of_nat d :: u8) \<and> (48 + of_nat d :: u8) \<le> 57"
    using assms(1) by (simp_all add: word_le_nat_alt uint_nat)
  with assms(2) show ?thesis by simp
qed

lemma foldl_digits_ge: "0 \<le> v \<Longrightarrow> v \<le> foldl (\<lambda>v d. v * 10 + int d) v ds"
proof (induction ds arbitrary: v)
  case (Cons d ds)
  from Cons.IH [of "v * 10 + int d"] Cons.prems show ?case by simp
qed simp

lemma atoi_digits:
  assumes "\<forall>d\<in>set ds. d < 10" "foldl (\<lambda>v d. v * 10 + int d) 0 ds + 48 < 2 ^ 31"
  shows "atoi (map (\<lambda>d. 48 + of_nat d) ds) = Some (foldl (\<lambda>v d. v * 10 + int d) 0 ds)"
proof -
  have "atoi_from v (map (\<lambda>d. 48 + of_nat d) ds) = Some (foldl (\<lambda>v d. v * 10 + int d) v ds)"
    if "\<forall>d\<in>set ds. d < 10" "foldl (\<lambda>v d. v * 10 + int d) v ds + 48 < 2 ^ 31" "0 \<le> v" for v ds
    using that
  proof (induction ds arbitrary: v)
    case (Cons d ds)
    then have "v * 10 + int d + 48 < 2 ^ 31"
      using foldl_digits_ge [of "v * 10 + int d" ds] by simp
    with Cons show ?case by (simp add: atoi_digit del: atoi_from.simps)
  qed simp
  with assms show ?thesis by (simp add: atoi_def)
qed

text \<open>The mode of the pin becomes an output, and every other pin keeps its mode.\<close>

lemma hal_pin_mode_field:
  assumes "pin < 16" "other < 16"
  shows "shr (hal_pin_mode pin v) (other * 2) AND 3 = (if other = pin then 1 else shr v (other * 2) AND 3)"
proof -
  have three: "3 = (mask 2 :: u32)" by (simp add: mask_eq_exp_minus_1)
  show ?thesis
    unfolding hal_pin_mode_def three
  proof (rule bit_word_eqI)
    fix n :: nat
    assume "n < LENGTH(32)"
    consider "n = 0" | "n = 1" | "2 \<le> n" by linarith
    then show "bit (shr (v AND NOT (shl (mask 2) (pin * 2)) OR shl 1 (pin * 2)) (other * 2) AND mask 2) n \<longleftrightarrow>
        bit (if other = pin then 1 else shr v (other * 2) AND mask 2) n"
      using assms by cases (auto simp: bit_simps)
  qed
qed

text \<open>A pin that was high is reset and a pin that was low is set.\<close>

lemma toggle_trace:
  "bus.leaves (HAL_GPIO_TogglePin C port (shl 1 n)) (\<lambda>r es. \<exists>odr.
     es = [Ld (R32 (port + 20)) odr, St (R32 (port + 24)) (if bit odr n then shl 1 (n + 16) else shl 1 n)])"
  unfolding HAL_GPIO_TogglePin_def
  by (intro bus_rules) (simp add: push_bit_eq_mult and_exp_eq_0_iff_not_bit power_add mult.commute)

lemma hal_init_trace:
  "bus.leaves (HAL_GPIO_Init C port pins) (\<lambda>r es. \<exists>vs.
     es = concat (map2 (\<lambda>pin v. [Ld (R32 port) v, St (R32 port) (hal_pin_mode pin v)]) (filter (bit pins) [0..<16]) vs) \<and>
     length vs = length (filter (bit pins) [0..<16]))"
proof -
  have "bus.leaves (hal_pins C port pins ns) (\<lambda>r es. \<exists>vs.
      es = concat (map2 (\<lambda>pin v. [Ld (R32 port) v, St (R32 port) (hal_pin_mode pin v)]) (filter (bit pins) ns) vs) \<and>
      length vs = length (filter (bit pins) ns))" for ns
  proof (induction ns)
    case (Cons n ns)
    note more = bus.leaves_mono [OF Cons.IH]
    have set: "pins AND shl 1 n \<noteq> 0 \<longleftrightarrow> bit pins n"
      by (simp add: push_bit_eq_mult and_exp_eq_0_iff_not_bit)
    show ?case
      unfolding hal_pins.simps set
    proof (intro bus_rules; rule more; elim exE conjE)
      fix v es vs
      assume "bit pins n" "length vs = length (filter (bit pins) ns)"
        "es = concat (map2 (\<lambda>pin v. [Ld (R32 port) v, St (R32 port) (hal_pin_mode pin v)]) (filter (bit pins) ns) vs)"
      then show "\<exists>vs. [Ld (R32 port) v, St (R32 port) (clip (R32 port) (hal_pin_mode n v))] @ es =
          concat (map2 (\<lambda>pin v. [Ld (R32 port) v, St (R32 port) (hal_pin_mode pin v)]) (filter (bit pins) (n # ns)) vs) \<and>
          length vs = length (filter (bit pins) (n # ns))"
        by (intro exI [of _ "v # vs"]) simp
    qed auto
  qed (simp add: bus.leaves_return)
  then show ?thesis by (simp only: HAL_GPIO_Init_def)
qed

end
