(* ===== verification/Console_Adapters.thy ===== *)
theory Console_Adapters
  imports Printf Adapters
begin

text \<open>
  The formatted output of the SDK stand-ins for the ESP-IDF (\<^verbatim>\<open>corpus/vendor/esp-idf/compat.c\<close>) and the WCH devices
  (\<^verbatim>\<open>corpus/vendor/wch/compat.c\<close>), with the other functions of the two files.  Both read the format language of the CoreMark port:
  its items, their spelling and the numerals are those of \<open>Printf\<close>.  The variable arguments are a list; a
  missing argument, one of the wrong type and the negation of the least integer are undefined in C and give \<open>None\<close>.
\<close>

datatype arg = Text bytes | Num u32

abbreviation is_digit :: "u8 \<Rightarrow> bool" where
  "is_digit c \<equiv> 48 \<le> c \<and> c \<le> 57"

text \<open>Characters stored one after the other.\<close>

fun put_chars :: "'d chip \<Rightarrow> reg \<Rightarrow> bytes \<Rightarrow> ('d, unit) driver" where
  "put_chars C r [] = State_Monad.return ()"
| "put_chars C r (c # cs) = do { put C r (to_u32 c); put_chars C r cs }"

abbreviation line_of :: "u32 \<Rightarrow> bytes \<Rightarrow> access list" where
  "line_of a cs \<equiv> map (\<lambda>c. St (R32 a) (to_u32 c)) cs"

lemma leaves_put_chars: "Q () (line_of a cs) \<Longrightarrow> bus.leaves (put_chars C (R32 a) cs) Q"
proof (induction cs arbitrary: Q)
  case (Cons c cs)
  show ?case
    unfolding put_chars.simps by (intro bus_rules Cons.IH) (use Cons.prems in simp)
qed (simp add: bus.leaves_return)

section \<open>ESP-IDF\<close>

definition ESP_UART :: u32 where "ESP_UART = 0x60000000"

definition esp_put_character :: "'d chip \<Rightarrow> u8 \<Rightarrow> ('d, unit) driver" where
  "esp_put_character C c = put C (R32 ESP_UART) (to_u32 c)"

text \<open>The digits are collected in an array, the last one first, and count from its end.\<close>

definition esp_put_unsigned :: "'d chip \<Rightarrow> u32 \<Rightarrow> u32 \<Rightarrow> ('d, unit option) driver" where
  "esp_put_unsigned C v base =
     (case digit_loop v base [] of
        None \<Rightarrow> State_Monad.return None
      | Some digits \<Rightarrow> do { put_chars C (R32 ESP_UART) (rev digits); State_Monad.return (Some ()) })"

text \<open>\<open>M; k\<close> where \<open>M\<close> may be undefined.\<close>

definition and_then :: "('d, unit option) driver \<Rightarrow> ('d, int option) driver \<Rightarrow> ('d, int option) driver" where
  "and_then M k = do { r \<leftarrow> M; case r of None \<Rightarrow> State_Monad.return None | Some u \<Rightarrow> k }"

definition esp_put_signed :: "'d chip \<Rightarrow> u32 \<Rightarrow> ('d, unit option) driver" where
  "esp_put_signed C v =
     (if v <s 0 then
        (if v = 0x80000000 then State_Monad.return None
         else do { esp_put_character C 45; esp_put_unsigned C (- v) 10 })
      else esp_put_unsigned C v 10)"

function esp_format :: "'d chip \<Rightarrow> bytes \<Rightarrow> arg list \<Rightarrow> int \<Rightarrow> ('d, int option) driver" where
  "esp_format C [] args count = State_Monad.return (Some count)"
| "esp_format C (c # format) args count =
     (if c \<noteq> 37 then do { esp_put_character C c; esp_format C format args (count + 1) }
      else case dropWhile is_digit format of
        [] \<Rightarrow> State_Monad.return (Some count)
      | k # format' \<Rightarrow>
          if k = 115 then
            (case args of
               Text t # args \<Rightarrow> do { put_chars C (R32 ESP_UART) t; esp_format C format' args (count + int (length t)) }
             | _ \<Rightarrow> State_Monad.return None)
          else if k = 100 then
            (case args of Num v # args \<Rightarrow> and_then (esp_put_signed C v) (esp_format C format' args count)
             | _ \<Rightarrow> State_Monad.return None)
          else if k = 117 then
            (case args of Num v # args \<Rightarrow> and_then (esp_put_unsigned C v 10) (esp_format C format' args count)
             | _ \<Rightarrow> State_Monad.return None)
          else if k = 120 then
            (case args of Num v # args \<Rightarrow> and_then (esp_put_unsigned C v 16) (esp_format C format' args count)
             | _ \<Rightarrow> State_Monad.return None)
          else if k = 37 then do { esp_put_character C 37; esp_format C format' args count }
          else esp_format C format' args count)"
  by pat_completeness auto

lemma dropWhile_shorter: "dropWhile P xs = y # ys \<Longrightarrow> length ys < length xs"
  using length_dropWhile_le [of P xs] by simp

termination esp_format
  by (relation "measure (\<lambda>(C, format, args, count). length format)") (auto dest: dropWhile_shorter)

definition esp_printf :: "'d chip \<Rightarrow> bytes \<Rightarrow> arg list \<Rightarrow> ('d, int option) driver" where
  "esp_printf C format args = esp_format C format args 0"

definition esp_puts :: "'d chip \<Rightarrow> bytes \<Rightarrow> ('d, int) driver" where
  "esp_puts C text = do {
     put_chars C (R32 ESP_UART) text;
     esp_put_character C 0x0a;
     State_Monad.return 0 }"

record esp_chip_info_t =
  features :: u32
  cores :: u32
  revision :: u32

definition esp_chip_info :: "u32 \<Rightarrow> u32 \<Rightarrow> esp_chip_info_t" where
  "esp_chip_info wifi_bgn ble = \<lparr>features = wifi_bgn OR ble, cores = 1, revision = 100\<rparr>"

definition esp_flash_get_size :: u32 where "esp_flash_get_size = 4 * 1024 * 1024"

definition esp_get_minimum_free_heap_size :: u32 where "esp_get_minimum_free_heap_size = 262144"

text \<open>\<open>esp_restart\<close> loops for ever behind its store; this is the store.\<close>

definition esp_restart :: "'d chip \<Rightarrow> ('d, unit) driver" where
  "esp_restart C = put C TEST_EXIT 0"

section \<open>WCH\<close>

definition wch_uart_putc :: "'d chip \<Rightarrow> u8 \<Rightarrow> ('d, unit) driver" where
  "wch_uart_putc C c = put C (R32 0x40013804) (to_u32 c)"

definition SystemCoreClockUpdate :: u32 where "SystemCoreClockUpdate = 48000000"

definition USART_Printf_Init :: "'d chip \<Rightarrow> ('d, unit) driver" where
  "USART_Printf_Init C = do {
     modify C (R32 0x40021018) (\<lambda>v. v OR shl 1 14);
     put C (R32 0x40013808) 0x01a1;
     put C (R32 0x4001380c) (shl 1 13 OR shl 1 3) }"

definition DBGMCU_GetCHIPID :: u32 where "DBGMCU_GetCHIPID = 0x00300500"

definition RCC_APB2PeriphClockCmd :: "'d chip \<Rightarrow> u32 \<Rightarrow> bool \<Rightarrow> ('d, unit) driver" where
  "RCC_APB2PeriphClockCmd C peripheral enable =
     (if enable then modify C (R32 0x40021018) (\<lambda>v. v OR peripheral) else State_Monad.return ())"

text \<open>\<open>while (((pin >> shift) & 1) == 0) ++shift;\<close>: a shift by 32 or more is undefined.\<close>

function pin_shift :: "u16 \<Rightarrow> nat \<Rightarrow> nat option" where
  "pin_shift pin shift =
     (if 32 \<le> shift then None
      else if shr (to_u32 pin) shift AND 1 = 0 then pin_shift pin (Suc shift)
      else Some shift)"
  by pat_completeness auto

termination pin_shift
  by (relation "measure (\<lambda>(pin, shift). 32 - shift)") auto

declare pin_shift.simps [simp del]

definition wch_pin_mode :: "nat \<Rightarrow> u32 \<Rightarrow> u32" where
  "wch_pin_mode shift v = (v AND NOT (shl 0xf (shift * 4))) OR shl 1 (shift * 4)"

definition wch_GPIO_Init :: "'d chip \<Rightarrow> u32 \<Rightarrow> u16 \<Rightarrow> ('d, unit option) driver" where
  "wch_GPIO_Init C gpio pin =
     (case pin_shift pin 0 of
        None \<Rightarrow> State_Monad.return None
      | Some shift \<Rightarrow>
          if 32 \<le> shift * 4 then State_Monad.return None
          else do { modify C (R32 gpio) (wch_pin_mode shift); State_Monad.return (Some ()) })"

definition wch_GPIO_WriteBit :: "'d chip \<Rightarrow> u32 \<Rightarrow> u16 \<Rightarrow> bool \<Rightarrow> ('d, unit) driver" where
  "wch_GPIO_WriteBit C gpio pin bit_set = put C (R32 (gpio + (if bit_set then 16 else 20))) (to_u32 pin)"

text \<open>\<open>delays\<close> is the static counter, returned updated.\<close>

definition wch_Delay_Ms :: "'d chip \<Rightarrow> u32 \<Rightarrow> ('d, u32) driver" where
  "wch_Delay_Ms C delays = do {
     (if delays + 1 = 3 then put C TEST_EXIT 0 else State_Monad.return ());
     State_Monad.return (delays + 1) }"

text \<open>This \<open>printf\<close> skips the conversions with their arguments and prints the rest.\<close>

function wch_format :: "'d chip \<Rightarrow> bytes \<Rightarrow> arg list \<Rightarrow> int \<Rightarrow> ('d, int option) driver" where
  "wch_format C [] args count = State_Monad.return (Some count)"
| "wch_format C (c # format) args count =
     (if c \<noteq> 37 then do { wch_uart_putc C c; wch_format C format args (count + 1) }
      else case dropWhile is_digit format of
        [] \<Rightarrow> State_Monad.return (Some count)
      | k # format' \<Rightarrow>
          if k = 115 then
            (case args of Text t # args \<Rightarrow> wch_format C format' args count | _ \<Rightarrow> State_Monad.return None)
          else if k = 100 \<or> k = 120 \<or> k = 117 then
            (case args of Num v # args \<Rightarrow> wch_format C format' args count | _ \<Rightarrow> State_Monad.return None)
          else if k = 37 then do { wch_uart_putc C 37; wch_format C format' args (count + 1) }
          else wch_format C format' args count)"
  by pat_completeness auto

termination wch_format
  by (relation "measure (\<lambda>(C, format, args, count). length format)") (auto dest: dropWhile_shorter)

definition wch_printf :: "'d chip \<Rightarrow> bytes \<Rightarrow> arg list \<Rightarrow> ('d, int option) driver" where
  "wch_printf C format args = wch_format C format args 0"

text \<open>
  The mode of one of the first eight pins is set and the others are kept; for a pin from 8 on, and for no pin, the
  function shifts out of range: its register holds eight pins only.
\<close>

lemma shr_and_one: "shr x n AND 1 = (0 :: u32) \<longleftrightarrow> \<not> bit x n"
  by (simp add: bit_iff_odd_drop_bit and_one_eq even_iff_mod_2_eq_zero)

lemma pin_shift_single: "shift \<le> n \<Longrightarrow> n < 16 \<Longrightarrow> pin_shift (shl 1 n) shift = Some n"
proof (induction "n - shift" arbitrary: shift)
  case 0
  then have "bit (to_u32 (shl 1 n :: u16)) shift" by (simp add: bit_simps)
  with 0 show ?case
    by (subst pin_shift.simps) (simp add: shr_and_one)
next
  case (Suc k)
  then have "\<not> bit (to_u32 (shl 1 n :: u16)) shift" by (auto simp: bit_simps)
  with Suc show ?case
    by (subst pin_shift.simps) (simp add: shr_and_one)
qed

lemma wch_GPIO_Init_pin:
  assumes "n < 16"
  shows "bus.leaves (wch_GPIO_Init C gpio (shl 1 n)) (\<lambda>r es.
    if n < 8 then r = Some () \<and> (\<exists>v. es = [Ld (R32 gpio) v, St (R32 gpio) (wch_pin_mode n v)]) else r = None \<and> es = [])"
  using assms unfolding wch_GPIO_Init_def pin_shift_single [OF le0 assms]
  by (auto intro!: bus_rules)

text \<open>The plain characters and the percent signs of a format, which are all that the WCH stand-in prints.\<close>

fun plain_text :: "item \<Rightarrow> bytes" where
  "plain_text (Plain c) = [c]"
| "plain_text (Conversion zero ds long c) = (if c = 37 then [37] else [])"

section \<open>What the ESP-IDF stand-in prints\<close>

text \<open>
  The text of an item, how much of it the function counts, and the arguments left.  Widths and flags play no part, and the
  characters of numbers and of a percent sign are not counted.
\<close>

fun esp_render :: "item \<Rightarrow> arg list \<Rightarrow> (bytes \<times> nat \<times> arg list) option" where
  "esp_render (Plain c) args = Some ([c], 1, args)"
| "esp_render (Conversion zero ds long c) args =
     (if c = 115 then (case args of Text t # rest \<Rightarrow> Some (t, length t, rest) | _ \<Rightarrow> None)
      else if c \<in> {100, 117, 120} then
        (case args of
           Num v # rest \<Rightarrow>
             if c = 100 then
               (if v = 0x80000000 then None
                else Some ((if sint v < 0 then [45] else []) @ numeral_of 10 (nat \<bar>sint v\<bar>), 0, rest))
             else Some (numeral_of (if c = 117 then 10 else 16) (unat v), 0, rest)
         | _ \<Rightarrow> None)
      else Some (if c = 37 then [37] else [], 0, args))"

fun esp_render_all :: "item list \<Rightarrow> arg list \<Rightarrow> (bytes \<times> nat) option" where
  "esp_render_all [] args = Some ([], 0)"
| "esp_render_all (i # is) args =
     (case esp_render i args of None \<Rightarrow> None
      | Some (cs, k, rest) \<Rightarrow> map_option (\<lambda>(ds, n). (cs @ ds, k + n)) (esp_render_all is rest))"

lemma leaves_put_unsigned:
  assumes "base \<in> {10, 16}" "Q (Some ()) (line_of ESP_UART (numeral_of (unat base) (unat v)))"
  shows "bus.leaves (esp_put_unsigned C v base) Q"
proof -
  have "digit_loop v base [] = Some (rev (numeral_of (unat base) (unat v)))"
    using assms(1) digit_loop_numeral [of base v "[]"] by (auto simp: word_le_nat_alt)
  with assms(2) show ?thesis
    unfolding esp_put_unsigned_def by (auto intro!: bus_rules leaves_put_chars)
qed

lemma leaves_put_signed:
  assumes "v \<noteq> 0x80000000"
    "Q (Some ()) (line_of ESP_UART ((if sint v < 0 then [45] else []) @ numeral_of 10 (nat \<bar>sint v\<bar>)))"
  shows "bus.leaves (esp_put_signed C v) Q"
  using assms unat_magnitude [of v]
  unfolding esp_put_signed_def esp_put_character_def
  by (auto simp: word_sless_alt intro!: bus_rules leaves_put_unsigned split: if_splits)

lemma spelled_digits:
  assumes "well_formed (Conversion zero ds False c)"
  shows "dropWhile is_digit ((if zero then [48] else []) @ map (\<lambda>d. 48 + of_nat d) ds @ c # rest) = c # rest"
proof -
  have "is_digit (48 + of_nat d)" if "d < 10" for d
    using that by (simp add: word_le_nat_alt unat_word_ariths unsigned_of_nat take_bit_nat_eq_self)
  with assms show ?thesis
    by (subst dropWhile_append2; (subst dropWhile_append2)?) (auto simp: dropWhile_append2)
qed

lemma leaves_and_then:
  "bus.leaves M (\<lambda>r es. r = Some () \<and> bus.leaves k (\<lambda>b fs. Q b (es @ fs))) \<Longrightarrow> bus.leaves (and_then M k) Q"
  unfolding and_then_def by (rule bus.leaves_bind, erule bus.leaves_mono) auto

text \<open>Items without a length modifier, which the function does not know.\<close>

fun short :: "item \<Rightarrow> bool" where
  "short (Plain c) \<longleftrightarrow> True"
| "short (Conversion zero ds long c) \<longleftrightarrow> \<not> long"

lemma esp_format_items:
  "\<forall>i\<in>set its. well_formed i \<and> short i \<Longrightarrow> esp_render_all its args = Some (cs, k) \<Longrightarrow>
   bus.leaves (esp_format C (concat (map spell its)) args count)
     (\<lambda>r es. r = Some (count + int k) \<and> es = line_of ESP_UART cs)"
proof (induction its arbitrary: args cs k count)
  case (Cons i its)
  let ?format = "concat (map spell its)"
  obtain ds n rest es j where i: "esp_render i args = Some (ds, n, rest)" and its: "esp_render_all its rest = Some (es, j)"
    and cs: "cs = ds @ es" "k = n + j"
    using Cons.prems(2) by (auto split: option.splits)
  have "bus.leaves (esp_format C ?format rest count')
      (\<lambda>r fs. r = Some (count' + int j) \<and> fs = line_of ESP_UART es)" for count'
    using Cons.IH [OF _ its] Cons.prems(1) by simp
  note more = bus.leaves_mono [OF this]
  show ?case
  proof (cases i)
    case (Plain c)
    with Cons.prems(1) i cs show ?thesis
      by (auto simp: esp_put_character_def intro!: bus_rules more)
  next
    case (Conversion zero ws long c)
    with Cons.prems(1) have wf: "well_formed (Conversion zero ws False c)" and "\<not> long" by auto
    then have format: "concat (map spell (i # its)) = 37 # (if zero then [48] else []) @ map (\<lambda>d. 48 + of_nat d) ws @ c # ?format"
      using Conversion by simp
    show ?thesis
      unfolding format esp_format.simps spelled_digits [OF wf] using i cs Conversion
      by (auto simp: esp_put_character_def split: if_splits list.splits arg.splits
          intro!: bus_rules leaves_put_chars leaves_and_then leaves_put_signed leaves_put_unsigned more)
  qed
qed (simp add: bus.leaves_return)

lemma wch_format_items:
  "\<forall>i\<in>set its. well_formed i \<and> short i \<Longrightarrow> esp_render_all its args \<noteq> None \<Longrightarrow>
   bus.leaves (wch_format C (concat (map spell its)) args count)
     (\<lambda>r es. r = Some (count + int (length (concat (map plain_text its)))) \<and> es = line_of 0x40013804 (concat (map plain_text its)))"
proof (induction its arbitrary: args count)
  case (Cons i its)
  let ?format = "concat (map spell its)"
  obtain ds n rest where i: "esp_render i args = Some (ds, n, rest)" and its: "esp_render_all its rest \<noteq> None"
    using Cons.prems(2) by (auto split: option.splits)
  note more = bus.leaves_mono [OF Cons.IH [OF _ its]]
  show ?case
  proof (cases i)
    case (Plain c)
    with Cons.prems(1) i show ?thesis
      by (auto simp: wch_uart_putc_def intro!: bus_rules more)
  next
    case (Conversion zero ws long c)
    with Cons.prems(1) have wf: "well_formed (Conversion zero ws False c)" and "\<not> long" by auto
    then have format: "concat (map spell (i # its)) = 37 # (if zero then [48] else []) @ map (\<lambda>d. 48 + of_nat d) ws @ c # ?format"
      using Conversion by simp
    show ?thesis
      unfolding format wch_format.simps spelled_digits [OF wf] using i Conversion Cons.prems(1)
      by (auto simp: wch_uart_putc_def split: if_splits list.splits arg.splits intro!: bus_rules more)
  qed
qed (simp add: bus.leaves_return)

definition idle_chip :: "unit chip" where
  "idle_chip = \<lparr>c_read = (\<lambda>r d. (0, d)), c_write = (\<lambda>r v d. d), c_irq = (\<lambda>d. ([], d))\<rparr>"

definition idle_bench :: "unit bench" where
  "idle_bench = \<lparr>dev = (), counter = (\<lambda>n. 0), journal = []\<rparr>"

text \<open>C25.
  The formatted output of the ESP-IDF stand-in.  For every format of the format language without length modifiers whose
  conversions find their arguments, \<open>printf\<close> returns and has stored exactly the rendered text, character by character, in
  the data register of the console; the number it returns counts the plain characters and those of strings, not those of
  numbers.
\<close>

theorem esp_printf_prints:
  assumes "\<forall>i\<in>set its. well_formed i \<and> short i" "esp_render_all its args = Some (cs, k)"
  shows "\<exists>w'. run_state (esp_printf C (concat (map spell its)) args) w = (Some (int k), w') \<and>
    did w' = did w @ line_of ESP_UART cs"
  using esp_format_items [OF assms, of C 0] unfolding esp_printf_def bus.leaves_def
  by (cases "run_state (esp_format C (concat (map spell its)) args 0) w") (auto dest!: spec [of _ w])

theorem esp_printf_prints_witness:
  "\<exists>w'. run_state (esp_printf idle_chip [110, 61, 37, 117] [Num 42]) idle_bench = (Some 2, w') \<and>
    did w' = did idle_bench @ line_of ESP_UART [110, 61, 52, 50]"
proof -
  let ?its = "[Plain 110, Plain 61, Conversion False [] False 117]"
  have "numeral_of 10 42 = [52, 50]"
    by (simp add: numeral_of_more numeral_of_digit digit_of_def)
  then have "esp_render_all ?its [Num 42] = Some ([110, 61, 52, 50], 2)" by simp
  moreover have "\<forall>i\<in>set ?its. well_formed i \<and> short i" by (simp add: word_le_nat_alt)
  ultimately have "\<exists>w'. run_state (esp_printf idle_chip (concat (map spell ?its)) [Num 42]) idle_bench = (Some (int 2), w') \<and>
      did w' = did idle_bench @ line_of ESP_UART [110, 61, 52, 50]"
    by (intro esp_printf_prints)
  then show ?thesis by simp
qed

end
