(* ===== verification/Fixtures.thy ===== *)
theory Fixtures
  imports Adapters
begin

text \<open>
  The register fixtures of the EFM8BB52 (\<^verbatim>\<open>qualification/efm8bb52f32g/silabs\<close>) and two programs around vendor examples: short programs and interrupt handlers over its special
  function registers.  A register is its address of \<^verbatim>\<open>SI_EFM8BB52_Register_Enums.h\<close>; a bit variable is a bit of its
  register, and storing it rewrites the register.  A byte of program memory, which the fixtures address from
  \<open>0x1000\<close> on, lies outside the register addresses.  The main programs are the statements before their endless loops.
\<close>

section \<open>Registers\<close>

fun puts_all :: "'d chip \<Rightarrow> (u32 \<times> u32) list \<Rightarrow> ('d, unit) driver" where
  "puts_all C [] = State_Monad.return ()"
| "puts_all C ((a, v) # ps) = do { put C (R8 a) v; puts_all C ps }"

definition put_bit :: "'d chip \<Rightarrow> u32 \<Rightarrow> nat \<Rightarrow> bool \<Rightarrow> ('d, unit) driver" where
  "put_bit C a n b = modify C (R8 a) (\<lambda>v. if b then v OR shl 1 n else v AND NOT (shl 1 n))"

definition get_bit :: "'d chip \<Rightarrow> u32 \<Rightarrow> nat \<Rightarrow> ('d, bool) driver" where
  "get_bit C a n = do { v \<leftarrow> get C (R8 a); State_Monad.return (bit v n) }"

definition SFRPAGE :: u32 where "SFRPAGE = 0xa7"
definition SFR_P1 :: u32 where "SFR_P1 = 0x90"
definition SBUF0 :: u32 where "SBUF0 = 0x99"
definition SCON0 :: u32 where "SCON0 = 0x98"
definition FLKEY :: u32 where "FLKEY = 0xb7"
definition PSCTL :: u32 where "PSCTL = 0x8f"
definition EIE1 :: u32 where "EIE1 = 0xe6"
definition efm8_ie :: u32 where "efm8_ie = 0xa8"

section \<open>Programs\<close>

definition enter_DefaultMode_from_RESET :: "(u32 \<times> u32) list" where
  "enter_DefaultMode_from_RESET =
     [(0x97, 0xde), (0x97, 0xad), (SFRPAGE, 0), (SFR_P1, 0xff), (0xf2, 0xff), (0xa5, 0x10), (0xe3, 0x40),
      (0xca, 0xc0), (0xcb, 0xff), (0xce, 0xc0), (0xcf, 0xff), (0xc8, 0x04), (efm8_ie, 0x20)]"

definition blinky_main :: "'d chip \<Rightarrow> ('d, unit) driver" where
  "blinky_main C = do { puts_all C enter_DefaultMode_from_RESET; put_bit C efm8_ie 7 True }"

definition clock_power_main :: "'d chip \<Rightarrow> ('d, unit) driver" where
  "clock_power_main C = puts_all C (enter_DefaultMode_from_RESET @ [(0xa9, 0x12), (0xcd, 0x80)])"

definition comparator_main :: "'d chip \<Rightarrow> ('d, unit) driver" where
  "comparator_main C = puts_all C
     [(0x9f, 0x12), (0x99, 0x20), (0x9d, 0x30), (0x9b, 0x80), (0xaa, 0x21), (0xac, 0x20), (0xab, 0x30), (0xbf, 0x80), (EIE1, 0x60)]"

definition crossbar_main :: "'d chip \<Rightarrow> ('d, unit) driver" where
  "crossbar_main C = puts_all C (enter_DefaultMode_from_RESET @ [(0xd4, 0x01), (0xe1, 0x03), (0xe2, 0x00), (0xe3, 0x40)])"

definition dac_main :: "'d chip \<Rightarrow> ('d, unit) driver" where
  "dac_main C = puts_all C [(SFRPAGE, 0x30), (0x91, 0x80), (0x84, 0x5a), (0x85, 0x02)]"

definition port_match_main :: "'d chip \<Rightarrow> ('d, unit) driver" where
  "port_match_main C = puts_all C (enter_DefaultMode_from_RESET @ [(0xfd, 0x01), (0xfe, 0x01), (EIE1, 0x02), (efm8_ie, 0x80)])"

definition smbus_main :: "'d chip \<Rightarrow> ('d, unit) driver" where
  "smbus_main C = puts_all C
     [(0x97, 0xde), (0x97, 0xad), (0xc1, 0x80), (EIE1, 0x01), (0xc0, 0x20), (0xc0, 0x00), (0xc2, 0xa0)]"

definition clu_main :: "'d chip \<Rightarrow> ('d, unit) driver" where
  "clu_main C = do {
     puts_all C (enter_DefaultMode_from_RESET @ [(SFRPAGE, 0x20), (0x84, 0x88), (0xaf, 0xc0), (0xb1, 0x80), (0xc6, 0x01)]);
     v \<leftarrow> get C (R8 0xd1);
     if v AND 1 \<noteq> 0 then puts_all C [(SFRPAGE, 0), (SFR_P1, 0x10)] else State_Monad.return () }"

definition flash_main :: "'d chip \<Rightarrow> ('d, unit) driver" where
  "flash_main C = do {
     puts_all C (enter_DefaultMode_from_RESET @ [(SFR_P1, 0xff), (0xa5, 0x10), (SFR_P1, 0),
       (FLKEY, 0xa5), (FLKEY, 0xf1), (PSCTL, 0x03), (0x1000, 0),
       (FLKEY, 0xa5), (FLKEY, 0xf1), (PSCTL, 0x01), (0x1000, 0x5a), (PSCTL, 0)]);
     v \<leftarrow> get C (R8 0x1000);
     put C (R8 SFR_P1) (if v = 0x5a then 0x10 else 0) }"

definition remu_pca_configure :: "'d chip \<Rightarrow> ('d, unit) driver" where
  "remu_pca_configure C = do {
     puts_all C [(0xd9, 0x08), (0xf7, 0x00), (0xda, 0x02), (0xfb, 0x40), (0xfc, 0x00), (EIE1, 0x10)];
     modify C (R8 efm8_ie) (\<lambda>v. v OR 0x80);
     put C (R8 0xd8) 0x40 }"

section \<open>Interrupt handlers\<close>

text \<open>A static variable of a handler is an argument, returned updated.\<close>

definition remu_pca_interrupt :: "'d chip \<Rightarrow> u8 \<Rightarrow> ('d, u8) driver" where
  "remu_pca_interrupt C remu_pca_matches = do {
     modify C (R8 0xd8) (\<lambda>v. v AND 0xfe);
     State_Monad.return (remu_pca_matches + 1) }"

definition remu_adc_window_interrupt :: "'d chip \<Rightarrow> ('d, unit) driver" where
  "remu_adc_window_interrupt C = modify C (R8 0xe8) (\<lambda>v. v AND 0xf7)"

definition remu_adc_interrupt :: "'d chip \<Rightarrow> u16 \<Rightarrow> ('d, u16) driver" where
  "remu_adc_interrupt C sample = do {
     v \<leftarrow> get C (R8 0xe8);
     if v AND 0x20 \<noteq> 0 then do {
       high \<leftarrow> get C (R8 0xbe);
       low \<leftarrow> get C (R8 0xbd);
       modify C (R8 0xe8) (\<lambda>v. v AND 0xdf);
       State_Monad.return (shl (to_u16 high) 8 OR to_u16 low) }
     else State_Monad.return sample }"

definition remu_timer2_interrupt :: "'d chip \<Rightarrow> ('d, unit) driver" where
  "remu_timer2_interrupt C = do {
     put_bit C 0xc8 7 False;
     led \<leftarrow> get_bit C SFR_P1 4;
     put_bit C SFR_P1 4 (\<not> led) }"

text \<open>The handlers of the timers 3, 4 and 5, with the address of the timer's control register.\<close>

definition remu_timer_interrupt :: "'d chip \<Rightarrow> u32 \<Rightarrow> u8 \<Rightarrow> ('d, u8) driver" where
  "remu_timer_interrupt C control flags = do {
     v \<leftarrow> get C (R8 control);
     modify C (R8 control) (\<lambda>v. v AND 0x3f);
     State_Monad.return (flags OR to_u8 v) }"

definition upper :: "u8 \<Rightarrow> u8" where
  "upper c = (if 97 \<le> c \<and> c \<le> 122 then c - (97 - 65) else c)"

definition remu_uart0_interrupt :: "'d chip \<Rightarrow> u8 \<Rightarrow> ('d, u8) driver" where
  "remu_uart0_interrupt C remu_received = do {
     ri \<leftarrow> get_bit C SCON0 0;
     remu_received \<leftarrow> (if ri then do {
         put_bit C SCON0 0 False;
         v \<leftarrow> get C (R8 SBUF0);
         put C (R8 SBUF0) (to_u32 (upper (to_u8 v)));
         State_Monad.return (upper (to_u8 v)) }
       else State_Monad.return remu_received);
     ti \<leftarrow> get_bit C SCON0 1;
     (if ti then put_bit C SCON0 1 False else State_Monad.return ());
     State_Monad.return remu_received }"

definition remu_uart1_interrupt :: "'d chip \<Rightarrow> u8 \<Rightarrow> ('d, u8) driver" where
  "remu_uart1_interrupt C received = do {
     ri \<leftarrow> get_bit C 0xc8 0;
     received \<leftarrow> (if ri then do {
         put_bit C 0xc8 0 False;
         v \<leftarrow> get C (R8 0x92);
         put C (R8 0x92) (v AND 0xff);
         State_Monad.return (to_u8 v) }
       else State_Monad.return received);
     ti \<leftarrow> get_bit C 0xc8 1;
     (if ti then put_bit C 0xc8 1 False else State_Monad.return ());
     State_Monad.return received }"

section \<open>Programs around vendor examples\<close>

text \<open>The functions of the examples are parameters: the serial routines of the AVR example, and of the FSP examples those that set up.\<close>

fun each :: "('a \<Rightarrow> ('d, unit) driver) \<Rightarrow> 'a list \<Rightarrow> ('d, unit) driver" where
  "each f [] = State_Monad.return ()"
| "each f (x # xs) = do { f x; each f xs }"

definition avr_main :: "('d, unit) driver \<Rightarrow> (u8 \<Rightarrow> ('d, unit) driver) \<Rightarrow> ('d, u8) driver" where
  "avr_main uart_init uart_putchar = do {
     uart_init;
     each uart_putchar (map of_char ''OFFICIAL'' @ [0x0a]);
     State_Monad.return 0 }"

text \<open>\<open>while ((GPT0_GTST & (1u << 6)) == 0) {}\<close> with at most \<open>n\<close> polls\<close>

primrec fsp_wait :: "'d chip \<Rightarrow> nat \<Rightarrow> ('d, bool) driver" where
  "fsp_wait C 0 = State_Monad.return False"
| "fsp_wait C (Suc n) = do {
     v \<leftarrow> get C (R32 0x4007803c);
     if v AND shl 1 6 = 0 then fsp_wait C n else State_Monad.return True }"

definition fsp_main ::
  "'d chip \<Rightarrow> nat \<Rightarrow> ('d, int) driver \<Rightarrow> ('d, int) driver \<Rightarrow> ('d, int) driver \<Rightarrow> (bytes \<Rightarrow> ('d, int) driver) \<Rightarrow>
   ('d, int option) driver" where
  "fsp_main C n init_gpt_timer start_gpt_timer uart_initialize uart_print_user_msg = do {
     r \<leftarrow> init_gpt_timer;
     if r \<noteq> 0 then State_Monad.return (Some 1)
     else do {
       r \<leftarrow> start_gpt_timer;
       if r \<noteq> 0 then State_Monad.return (Some 2)
       else do {
         expired \<leftarrow> fsp_wait C n;
         if \<not> expired then State_Monad.return None
         else do {
           r \<leftarrow> uart_initialize;
           if r \<noteq> 0 then State_Monad.return (Some 3)
           else do {
             r \<leftarrow> uart_print_user_msg (map of_char ''FSP GPT SCI'' @ [0x0a]);
             if r \<noteq> 0 then State_Monad.return (Some 4)
             else do {
               put C (R32 0x4004086c) (shl 1 2);
               put C (R32 0x40040028) (shl 1 11);
               State_Monad.return (Some 0) } } } } } }"

section \<open>Register pages\<close>

text \<open>The accesses of a run with the page that is selected at each of them.\<close>

fun paged :: "u32 \<Rightarrow> access list \<Rightarrow> (u32 \<times> access) list" where
  "paged page [] = []"
| "paged page (a # as) =
     (page, a) # paged (case a of St r v \<Rightarrow> if r = R8 SFRPAGE then v else page | Ld r v \<Rightarrow> page) as"

abbreviation sfr_stores :: "(u32 \<times> u32) list \<Rightarrow> access list" where
  "sfr_stores ps \<equiv> map (\<lambda>(a, v). St (R8 a) (v AND 0xff)) ps"

lemma leaves_puts_all: "Q () (sfr_stores ps) \<Longrightarrow> bus.leaves (puts_all C ps) Q"
proof (induction ps arbitrary: Q)
  case (Cons p ps)
  obtain a v where p: "p = (a, v)" by fastforce
  show ?case
    unfolding p puts_all.simps by (intro bus_rules Cons.IH) (use Cons.prems p in simp)
qed (simp add: bus.leaves_return)

text \<open>
  The registers of the comparators and of the converter are on page \<open>0x30\<close>.  The converter's fixture selects it; the fixture of
  the comparators, started on page 0, writes all of their registers there.
\<close>

lemma dac_page:
  "bus.leaves (dac_main C) (\<lambda>r es. \<forall>(page, a) \<in> set (paged 0 es). a \<noteq> St (R8 SFRPAGE) 0x30 \<longrightarrow> page = 0x30)"
  unfolding dac_main_def by (rule leaves_puts_all) (simp add: SFRPAGE_def)

lemma comparator_page:
  "bus.leaves (comparator_main C) (\<lambda>r es. length es = 9 \<and> (\<forall>(page, a) \<in> set (paged 0 es). page = 0))"
  unfolding comparator_main_def by (rule leaves_puts_all) (simp add: SFRPAGE_def EIE1_def)

text \<open>The light of the flash fixture stands for a byte that reads back as programmed, after both unlock sequences.\<close>

lemma flash_verdict:
  "bus.leaves (flash_main C) (\<lambda>r es. \<exists>v. es = sfr_stores (enter_DefaultMode_from_RESET @
     [(SFR_P1, 0xff), (0xa5, 0x10), (SFR_P1, 0), (FLKEY, 0xa5), (FLKEY, 0xf1), (PSCTL, 0x03), (0x1000, 0),
      (FLKEY, 0xa5), (FLKEY, 0xf1), (PSCTL, 0x01), (0x1000, 0x5a), (PSCTL, 0)]) @
     [Ld (R8 0x1000) v, St (R8 SFR_P1) (if v = 0x5a then 0x10 else 0)])"
  unfolding flash_main_def by (intro bus_rules leaves_puts_all) auto

lemma byte_clip: "to_u32 (b :: u8) AND 0xff = to_u32 b"
proof -
  have low: "0xff = (mask 8 :: u32)" by (simp add: mask_eq_exp_minus_1)
  show ?thesis
    unfolding low by (rule bit_word_eqI) (auto simp: bit_simps dest: bit_imp_le_length)
qed

text \<open>The serial handler answers a received character with its capital, and only then.\<close>

lemma uart0_echo:
  "bus.leaves (remu_uart0_interrupt C c) (\<lambda>r es. stored (R8 SBUF0) es = [] \<and> r = c \<or>
     (\<exists>v. Ld (R8 SBUF0) v \<in> set es \<and> r = upper (to_u8 v) \<and> stored (R8 SBUF0) es = [to_u32 r]))"
  unfolding remu_uart0_interrupt_def get_bit_def put_bit_def
  by (intro bus_rules) (auto simp: SBUF0_def SCON0_def byte_clip)

text \<open>The FSP harness returns 0 only after the timer's flag was seen, with the pin as an output and high as its last stores.\<close>

lemma fsp_wait_seen:
  "bus.leaves (fsp_wait C n) (\<lambda>b es. b \<longrightarrow> (\<exists>v. Ld (R32 0x4007803c) v \<in> set es \<and> bit v 6))"
proof (induction n)
  case (Suc n)
  have "v AND shl 1 6 = 0 \<longleftrightarrow> \<not> bit v 6" for v :: u32
    using and_exp_eq_0_iff_not_bit [of v 6] by (simp add: push_bit_eq_mult)
  then show ?case
    unfolding fsp_wait.simps by (intro bus_rules bus.leaves_mono [OF Suc.IH]) auto
qed (simp add: bus.leaves_return)

lemma fsp_main_success:
  assumes "\<And>Q. (\<And>r es. Q r es) \<Longrightarrow> bus.leaves init_gpt_timer Q" "\<And>Q. (\<And>r es. Q r es) \<Longrightarrow> bus.leaves start_gpt_timer Q"
    "\<And>Q. (\<And>r es. Q r es) \<Longrightarrow> bus.leaves uart_initialize Q" "\<And>m Q. (\<And>r es. Q r es) \<Longrightarrow> bus.leaves (uart_print_user_msg m) Q"
  shows "bus.leaves (fsp_main C n init_gpt_timer start_gpt_timer uart_initialize uart_print_user_msg)
    (\<lambda>r es. r = Some 0 \<longrightarrow> (\<exists>v. Ld (R32 0x4007803c) v \<in> set es \<and> bit v 6) \<and>
       (\<exists>fs. es = fs @ [St (R32 0x4004086c) (shl 1 2), St (R32 0x40040028) (shl 1 11)]))"
  unfolding fsp_main_def
  by (intro bus_rules assms bus.leaves_mono [OF fsp_wait_seen]) auto

end
