(* ===== verification/Spec2Isabelle.thy ===== *)
theory Spec2Isabelle
  imports Firmware Wpa2_Progress Corpus Printf Harness Stack_C6_Evidence Stack_S3 Smoke_Suite Vendor_Radio
    Tinyusb Nanoc6 Console_Adapters Fixtures
begin

text \<open>
  A verification of the C programs of the remu emulator repository.

  The repository holds an emulator of microcontrollers (written in Rust) and the C programs that qualify it: each runs
  on the emulated or the real chip and shows by its output or its exit status that the chip did what it should.  What
  the emulator may be trusted with rests on these programs, so the development asks of each: what does it
  compute, does it end, and what does its verdict stand for.

  \<^bold>\<open>The programs and their theories.\<close>

  \<^item> The independent ESP32-C6 radio firmware, \<^verbatim>\<open>qualification/radio/c6-rf-probe\<close>: a driver stack from register
    accesses up to a WPA2 handshake.  \<open>Mmio\<close> (\<^verbatim>\<open>hal/c6/mmio.h\<close>, \<^verbatim>\<open>registers.h\<close>, \<^verbatim>\<open>dma.c\<close>), \<open>Rf\<close> (\<^verbatim>\<open>rf.c\<close>,
    \<^verbatim>\<open>phy.c\<close>), \<open>Mac\<close> (\<^verbatim>\<open>mac.c\<close>), \<open>Uart\<close> (\<^verbatim>\<open>uart.c\<close>), \<open>Sha1\<close> and \<open>Crypto\<close> (\<^verbatim>\<open>crypto.c\<close>), \<open>Station\<close>
    (\<^verbatim>\<open>station.c\<close>), \<open>Wpa2\<close> and \<open>Wpa2_Progress\<close> (\<^verbatim>\<open>wpa2.c\<close>), \<open>Firmware\<close> (\<^verbatim>\<open>main.c\<close>).  The contracts the parts
    rely on are locales: \<open>Systems\<close> (a component that runs for ever and its invariant), \<open>Hash_Stream\<close> (a streaming hash
    and a keyed MAC), \<open>reactive\<close> in \<open>Wpa2_Progress\<close> (progress under repeated inputs).
  \<^item> The two register-level radio programs, \<^verbatim>\<open>qualification/radio/custom-stack-probe\<close>: \<open>Probe\<close> (worlds, polls, checked
    parts), \<open>Stack_C6\<close> and \<open>Stack_C6_Evidence\<close> (\<^verbatim>\<open>esp32c6.c\<close>), \<open>Stack_S3\<close> (\<^verbatim>\<open>esp32s3.c\<close>).
  \<^item> The edge-case corpus, \<^verbatim>\<open>corpus/edge_cases/cases\<close>: a thousand programs of a kernel, twelve statements and a digest.
    \<open>Corpus_Ops\<close> has the statement templates and the frame, \<open>Corpus_Contract\<close> the semantics in which undefined C
    operations have no value, \<open>Corpus_Checksums\<close>, \<open>Corpus_Bits\<close>, \<open>Corpus_Control\<close>, \<open>Corpus_Algorithms\<close> and
    \<open>Corpus_Buffers\<close> the kernels, \<open>Corpus_Cases_0\<close> to \<open>Corpus_Cases_9\<close> the programs, \<open>Corpus\<close> what holds of all.
  \<^item> The freestanding runtimes: \<open>Memory\<close> (the flat address space and its byte loops), \<open>Runtime\<close>
    (\<^verbatim>\<open>corpus/edge_cases/support/runtime.c\<close>, \<^verbatim>\<open>qualification/mquickjs/mini_libc.c\<close>), \<open>Printf\<close> (\<^verbatim>\<open>ee_printf.c\<close> and the
    clock of \<^verbatim>\<open>qualification/coremark\<close>), \<open>Harness\<close> (\<^verbatim>\<open>qualification/mquickjs/harness.c\<close>).
  \<^item> The smoke programs, \<^verbatim>\<open>corpus/smoke\<close>, and the peripheral probes, \<^verbatim>\<open>corpus/vendor/esp-idf\<close> and \<^verbatim>\<open>esp-idf-c6\<close>:
    \<open>Smoke\<close> has their statement forms with their execution on a chip, \<open>Smoke_Mcu\<close>, \<open>Smoke_Rp\<close>, \<open>Smoke_Esp\<close> and
    \<open>Vendor_Probes\<close> the programs, \<open>Smoke_Suite\<close> what holds of all of them.
  \<^item> The vendor radio probes, \<^verbatim>\<open>qualification/radio/vendor-*\<close>: nine applications of the ESP-IDF radio libraries, made of calls
    into a library and callbacks from it.  \<open>Vendor_App\<close> has the operations of such an application and its contract
    towards the library (the locales \<open>callback_app\<close> and \<open>vendor_app\<close>, interpreted on each program), \<open>Vendor_Ieee802154\<close>,
    \<open>Vendor_Wifi\<close> (station, access point, RF oracle), \<open>Vendor_Thread\<close> (both OpenThread programs), \<open>Vendor_Zigbee\<close> and
    \<open>Vendor_Ble\<close> (BLE and coexistence) the programs, \<open>Vendor_Radio\<close> what holds of all of them.  \<open>Evidence\<close> says
    that a log contains given entries in order and has the locale \<open>logbook\<close> of programs that keep a log; the register-level radio
    programs and the adapters use it too.  \<open>Tinyusb\<close> (\<^verbatim>\<open>corpus/vendor/esp-idf-tinyusb/main.c\<close>) and \<open>Nanoc6\<close>
    (\<^verbatim>\<open>hardware/nanoc6\<close>, forty corpus programs on a real chip) are applications of the same kind.
  \<^item> The stand-ins for SDK functions, \<^verbatim>\<open>corpus/vendor/*/compat.c\<close> and \<^verbatim>\<open>qualification/*/*/adapter.c\<close>: \<open>Adapters\<close> (Pico, FSP, HAL,
    Harmony) and \<open>Console_Adapters\<close> (ESP-IDF and WCH, with their formatted output); \<open>Fixtures\<close> has the register fixtures of the
    EFM8BB52 and two programs around vendor examples.
  \<^item> \<open>Prelude\<close> has the C integer types, byte arrays and the facts on words and slices that all of them use.

  \<^bold>\<open>State and devices.\<close>  In the radio firmware the static variables of each translation unit are the fields of a record
  that extends the record of the units below it (\<open>hw\<close>, \<open>rf\<close>, \<open>mac\<close>, \<open>station\<close>, \<open>wpa2\<close>, \<open>firmware\<close>); an operation is a
  function from state to result and state and works on any extension.  The runtimes and the register-level programs
  work on a byte-addressed memory.  The peripherals are never part of a program: a record of functions (\<open>platform\<close>, \<open>board\<close>,
  \<open>chip\<close>) gives their answer to every access, may rewrite DMA memory and may raise interrupts, and the theorems hold for
  every such record.  Every access is appended to a log.  An automatic array without initialiser holds bytes of a
  parameter, and the theorems show that results do not depend on them.  Result codes are integers, output parameters options.
  Values that a compiler, a linker or a vendor header decides (type sizes, buffer addresses, the
  macros of the ESP-IDF, avr-libc and MSP430 headers) are parameters too.

  \<^bold>\<open>Vendor libraries.\<close>  A library is a record of functions: the answer to a call with its output parameters, the callbacks
  that are due, the effect of a delay.  Callbacks run, each to its end, before any step of a main program, as many as the library likes;
  the theorems hold for every library.  A structure argument is the list of the fields the program sets, a function pointer the name
  of the function, a constant of a library header the value of a function \<open>K\<close> at its name, \<open>printf\<close> the format and its arguments.
  The variables that one expression reads are read together.  \<open>fflush\<close> is part of the print before it.

  \<^bold>\<open>Loops.\<close>  Polls that the code bounds (50000 and similar counts) are structural recursion on that count.  The loops over
  arrays, the SHA-1 update and padding, the decimal conversion are total functions with termination proofs for
  every argument, including contexts the code never builds.  The string loops of the runtimes have no bound of their own
  and are partial functions; theorems say when they return.  The waits of the smoke programs poll without a bound in
  the code: the model takes the number of polls as a parameter, a run that exceeds it has no result, a larger number never
  changes a result, and a theorem says that enough polls give one on every chip whose answers bring the wait nearer to its end.
  The endless loop of \<open>main\<close> in the radio firmware is a step relation: one step is one turn.

  \<^bold>\<open>What is shown.\<close>

  \<^item> Drivers of the radio firmware: result, bus trace and buffers of each operation on every branch.
    Cryptography: equality with FIPS 180-4, RFC 2104, RFC 2898 and IEEE 802.11 for every input within the array bounds.
    Stations: refinement of transition tables with byte-exact frames, by rule induction what a state and an installed key
    presuppose of the received frames, and that the handshake completes when the access point keeps answering.
    Firmware: the invariants of all components together, over every run, on every platform.
  \<^item> Radio programs: they return within a bound on their accesses whatever the devices answer, and an exit status
    of 0 stands for evidence in the trace: the accesses made, the answers seen, the bytes compared.
  \<^item> Corpus: each program returns the digest that a reference semantics of the templates and the mathematical meaning of its
    kernel predict, in every build configuration, and performs no operation that C leaves undefined; the
    kernels sort, search, divide, take roots and compute remainders as such.
  \<^item> Runtimes: the memory and string functions meet their C contracts (overlap, ordering, the
    place of the terminator), the heap hands out disjoint blocks, formatted output is the rendering of the parsed format.
  \<^item> Smoke programs and probes: status 0 only after a run in which every check was refuted and every wait satisfied by the values
    read; the console shows exactly the line of text; they end on chips that answer.
  \<^item> Vendor radio probes: every main program and task ends within a fixed number of calls, prints and delays; the last line of the
    IEEE 802.15.4 probe stands for commands given in order and completions reported by callbacks; the frames of the RF oracle carry the channel and power
    they were sent with; the Zigbee signal handler follows its commissioning table; the BLE sequence ends with a scan on every branch.
    The USB qualification stores one exit code, 0 only after the line was accepted; the hardware reference prints the predicted digests.
  \<^item> Stand-ins: the text that formatted output stores in the console, the register traces and fields of the pin functions, the page
    on which a fixture writes its registers.

  \<^bold>\<open>Not modelled.\<close>  Interrupt priorities and reordering of memory accesses, linker scripts and start-up code.
  The JavaScript engine and its bytecode (a submodule; \<open>Harness\<close> takes its answers as a parameter).
  A callback that interrupts another callback or the evaluation of one expression, and the radio libraries themselves.
  The PIC16F15376 programs depend on the bit-fields and the interrupt keyword of \<^verbatim>\<open>xc.h\<close>.  The remaining short
  fixtures store constants and loop for ever, or run one instruction under test.
\<close>

section \<open>Properties of both radio qualification programs\<close>

text \<open>C15.
  The two register-level radio programs always return.  Whatever the devices answer, the ESP32-C6
  program returns one of its exit codes 0 to 31 after at most 375000 accesses to registers and DMA
  memory, and the ESP32-S3 program one of 0 to 21 after at most 160101.
\<close>

theorem stack_probes_return:
  "fst (run_state (c6_main B L) w) \<in> {0..31} \<and>
   length (w_trace (snd (run_state (c6_main B L) w))) \<le> length (w_trace w) + 375000 \<and>
   fst (run_state (s3_start B' L') w') \<in> {0..21} \<and>
   length (w_trace (snd (run_state (s3_start B' L') w'))) \<le> length (w_trace w') + 160101"
  using part_from [OF part_c6_main, of B L w] s3_start_trace [of B' L' w'] by auto

end
